(* ===== verification/Prelude.thy ===== *)
theory Prelude
  imports Main "HOL-Library.Word" "HOL-Library.Sublist"
begin

text \<open>
  What every component shares: Go strings (byte strings, here \<open>char list\<close>) with the functions of
  the package \<open>strings\<close> the server calls, the SQL \<open>LIKE\<close> matcher, tables as lists of rows with the
  \<open>SELECT\<close> / \<open>UPDATE\<close> / \<open>DELETE\<close> forms the database package issues, key and foreign-key predicates
  over tables, and the lemma collections the component proofs use.

  Strings are byte strings. \<open>TrimSpace\<close>, \<open>ToLower\<close> and \<open>EqualFold\<close> are modelled on their ASCII
  behaviour; bytes of multi-byte UTF-8 sequences are left as they are.
\<close>

named_theorems key_simps \<open>table updates and the keys they keep\<close>
named_theorems write_intros \<open>a write keeps the schema invariant\<close>

section \<open>Strings\<close>

definition is_space :: "char \<Rightarrow> bool" where
  "is_space c \<longleftrightarrow> (let n = (of_char c :: nat) in n = 32 \<or> (9 \<le> n \<and> n \<le> 13))"

definition lower_char :: "char \<Rightarrow> char" where
  "lower_char c = (let n = (of_char c :: nat) in if 65 \<le> n \<and> n \<le> 90 then char_of (n + 32) else c)"

definition ToLower :: "string \<Rightarrow> string" where
  "ToLower s = map lower_char s"

definition TrimSpace :: "string \<Rightarrow> string" where
  "TrimSpace s = rev (dropWhile is_space (rev (dropWhile is_space s)))"

definition EqualFold :: "string \<Rightarrow> string \<Rightarrow> bool" where
  "EqualFold s t \<longleftrightarrow> ToLower s = ToLower t"

definition HasPrefix :: "string \<Rightarrow> string \<Rightarrow> bool" where
  "HasPrefix s p \<longleftrightarrow> take (length p) s = p"

text \<open>\<open>strings.NewReplacer\<close> with single-character old strings: one pass, each character at most once.\<close>

definition replace_chars :: "(char \<Rightarrow> string) \<Rightarrow> string \<Rightarrow> string" where
  "replace_chars f s = concat (map f s)"

lemma HasPrefix_iff [simp]: "HasPrefix s p \<longleftrightarrow> prefix p s"
  unfolding HasPrefix_def by (metis append_eq_conv_conj append_take_drop_id prefix_def)

lemma lower_char_idem [simp]: "lower_char (lower_char c) = lower_char c"
  by (auto simp: lower_char_def Let_def)

lemma of_char_lower: "of_char (lower_char c) = (let n = (of_char c :: nat) in if 65 \<le> n \<and> n \<le> 90 then n + 32 else n)"
  by (auto simp: lower_char_def Let_def)

lemma is_space_lower [simp]: "is_space (lower_char c) = is_space c"
  by (auto simp: is_space_def of_char_lower Let_def)

lemma ToLower_idem [simp]: "ToLower (ToLower s) = ToLower s"
  by (simp add: ToLower_def)

lemma ToLower_Nil [simp]: "ToLower s = [] \<longleftrightarrow> s = []" "ToLower [] = []"
  by (simp_all add: ToLower_def)

lemma length_ToLower [simp]: "length (ToLower s) = length s"
  by (simp add: ToLower_def)

lemma dropWhile_space_idem: "dropWhile P (dropWhile P xs) = dropWhile P xs"
  by (induction xs) auto

lemma dropWhile_rev_dropWhile:
  "dropWhile P (rev (dropWhile P (rev (dropWhile P s)))) = rev (dropWhile P (rev (dropWhile P s)))"
proof (cases "rev (dropWhile P (rev (dropWhile P s)))")
  case Nil
  show ?thesis unfolding Nil by simp
next
  case (Cons a u)
  let ?d = "dropWhile P s"
  have "prefix (a # u) ?d"
    by (metis Cons rev_rev_ident suffix_dropWhile suffix_to_prefix)
  then obtain w where "?d = a # u @ w"
    by (auto simp: prefix_def)
  then have "\<not> P a"
    by (metis hd_dropWhile list.distinct(1) list.sel(1))
  then show ?thesis
    by (simp add: Cons)
qed

lemma TrimSpace_idem [simp]: "TrimSpace (TrimSpace s) = TrimSpace s"
  unfolding TrimSpace_def
  by (subst dropWhile_rev_dropWhile) (simp add: dropWhile_space_idem)

lemma dropWhile_ToLower: "dropWhile is_space (ToLower s) = ToLower (dropWhile is_space s)"
  by (induction s) (auto simp: ToLower_def)

lemma rev_ToLower: "rev (ToLower s) = ToLower (rev s)"
  by (simp add: ToLower_def rev_map)

lemma TrimSpace_ToLower: "TrimSpace (ToLower s) = ToLower (TrimSpace s)"
  by (simp add: TrimSpace_def dropWhile_ToLower rev_ToLower)

lemma TrimSpace_Nil [simp]: "TrimSpace [] = []"
  by (simp add: TrimSpace_def)

lemma EqualFold_refl [simp]: "EqualFold s s"
  by (simp add: EqualFold_def)

text \<open>Decimal rendering, as \<open>%d\<close> and \<open>strconv.FormatInt\<close> do it.\<close>

definition decimal_digits :: string where "decimal_digits = ''0123456789''"

fun dec_nat :: "nat \<Rightarrow> string" where
  "dec_nat n = (if n < 10 then [decimal_digits ! n] else dec_nat (n div 10) @ [decimal_digits ! (n mod 10)])"

declare dec_nat.simps [simp del]

definition format_int :: "int \<Rightarrow> string" where
  "format_int i = (if i < 0 then ''-'' @ dec_nat (nat (- i)) else dec_nat (nat i))"

definition is_digit :: "char \<Rightarrow> bool" where
  "is_digit c \<longleftrightarrow> c \<in> set decimal_digits"

lemma dec_nat_digits: "list_all is_digit (dec_nat n)"
proof (induction n rule: dec_nat.induct)
  case (1 n)
  have "length decimal_digits = 10" by (simp add: decimal_digits_def)
  then have dig: "is_digit (decimal_digits ! k)" if "k < 10" for k :: nat
    using that nth_mem by (simp add: is_digit_def)
  show ?case
    using 1 dig [of n] dig [of "n mod 10"] by (subst dec_nat.simps) simp
qed

lemma length_dec_nat: "n < 10 ^ k \<Longrightarrow> 0 < k \<Longrightarrow> length (dec_nat n) \<le> k"
proof (induction k arbitrary: n)
  case (Suc k)
  show ?case
  proof (cases "n < 10")
    case True
    then show ?thesis by (subst dec_nat.simps) simp
  next
    case False
    with Suc.prems have "0 < k" by (cases k) auto
    moreover have "n div 10 < 10 ^ k" using Suc.prems by simp
    ultimately show ?thesis
      using Suc.IH [of "n div 10"] False by (subst dec_nat.simps) simp
  qed
qed simp

section \<open>The SQL pattern language\<close>

text \<open>
  \<open>s LIKE p ESCAPE '\'\<close>: \<open>%\<close> matches any string, \<open>_\<close> any one character, and a backslash makes the next
  pattern character literal. A pattern that ends in a lone backslash is an error in PostgreSQL; the
  code never builds one, and it matches nothing here.
\<close>

definition backslash :: char where "backslash = CHR 0x5C"

fun sql_like :: "string \<Rightarrow> string \<Rightarrow> bool" where
  "sql_like [] s = (s = [])"
| "sql_like [p] s =
     (if p = backslash then False
      else if p = CHR ''%'' then True
      else if p = CHR ''_'' then length s = 1
      else s = [p])"
| "sql_like (p # q # ps) s =
     (if p = backslash then (case s of [] \<Rightarrow> False | c # cs \<Rightarrow> c = q \<and> sql_like ps cs)
      else if p = CHR ''%'' then
        sql_like (q # ps) s \<or> (case s of [] \<Rightarrow> False | c # cs \<Rightarrow> sql_like (p # q # ps) cs)
      else if p = CHR ''_'' then (case s of [] \<Rightarrow> False | c # cs \<Rightarrow> sql_like (q # ps) cs)
      else (case s of [] \<Rightarrow> False | c # cs \<Rightarrow> c = p \<and> sql_like (q # ps) cs))"

declare sql_like.simps(3) [simp del]

definition plain_char :: "char \<Rightarrow> bool" where
  "plain_char c \<longleftrightarrow> c \<noteq> backslash \<and> c \<noteq> CHR ''%'' \<and> c \<noteq> CHR ''_''"

lemma backslash_neq [simp]:
  "backslash \<noteq> CHR ''%''" "CHR ''%'' \<noteq> backslash" "backslash \<noteq> CHR ''_''" "CHR ''_'' \<noteq> backslash"
  by (simp_all add: backslash_def)

lemma plain_not_special [simp]:
  "plain_char c \<Longrightarrow> c \<noteq> backslash" "plain_char c \<Longrightarrow> c \<noteq> CHR ''%''" "plain_char c \<Longrightarrow> c \<noteq> CHR ''_''"
  by (simp_all add: plain_char_def)

lemma sql_like_plain [simp]:
  "plain_char c \<Longrightarrow> sql_like (c # p) s = (case s of [] \<Rightarrow> False | d # ds \<Rightarrow> d = c \<and> sql_like p ds)"
  by (cases p) (auto simp: sql_like.simps(3) split: list.splits)

lemma sql_like_escaped [simp]:
  "sql_like (backslash # c # p) s = (case s of [] \<Rightarrow> False | d # ds \<Rightarrow> d = c \<and> sql_like p ds)"
  by (simp add: sql_like.simps(3))

lemma sql_like_percent [simp]:
  "sql_like (CHR ''%'' # q # p) [] = sql_like (q # p) []"
  "sql_like (CHR ''%'' # q # p) (c # cs) = (sql_like (q # p) (c # cs) \<or> sql_like (CHR ''%'' # q # p) cs)"
  by (subst sql_like.simps(3), simp)+

lemma sql_like_one [simp]:
  "sql_like (CHR ''_'' # q # p) s = (case s of [] \<Rightarrow> False | d # ds \<Rightarrow> sql_like (q # p) ds)"
  by (simp add: sql_like.simps(3))

lemma sql_like_plain_prefix:
  "list_all plain_char u \<Longrightarrow> sql_like (u @ p) s \<longleftrightarrow> (\<exists>t. s = u @ t \<and> sql_like p t)"
proof (induction u arbitrary: s)
  case (Cons c u)
  then show ?case by (cases s) auto
qed simp

section \<open>Tables\<close>

definition sql_update :: "('r \<Rightarrow> bool) \<Rightarrow> ('r \<Rightarrow> 'r) \<Rightarrow> 'r list \<Rightarrow> 'r list" where
  "sql_update P f rows = map (\<lambda>r. if P r then f r else r) rows"

definition sql_delete :: "('r \<Rightarrow> bool) \<Rightarrow> 'r list \<Rightarrow> 'r list" where
  "sql_delete P rows = filter (\<lambda>r. \<not> P r) rows"

definition sql_count :: "('r \<Rightarrow> bool) \<Rightarrow> 'r list \<Rightarrow> nat" where
  "sql_count P rows = length (filter P rows)"

definition order_asc :: "('r \<Rightarrow> 'k::linorder) \<Rightarrow> 'r list \<Rightarrow> 'r list" where
  "order_asc k rows = sort_key k rows"

definition order_desc :: "('r \<Rightarrow> int) \<Rightarrow> 'r list \<Rightarrow> 'r list" where
  "order_desc k rows = sort_key (\<lambda>r. - k r) rows"

definition limit :: "int \<Rightarrow> 'r list \<Rightarrow> 'r list" where
  "limit n rows = take (nat n) rows"

text \<open>A unique key, and a nullable foreign key into the rows of a parent table.\<close>

definition uniq :: "('r \<Rightarrow> 'k) \<Rightarrow> 'r list \<Rightarrow> bool" where
  "uniq k rows \<longleftrightarrow> distinct (map k rows)"

definition fkey :: "('r \<Rightarrow> 'k option) \<Rightarrow> 'r list \<Rightarrow> ('p \<Rightarrow> 'k) \<Rightarrow> 'p list \<Rightarrow> bool" where
  "fkey f rows k parents \<longleftrightarrow>
     list_all (\<lambda>r. case f r of None \<Rightarrow> True | Some x \<Rightarrow> x \<in> set (map k parents)) rows"

lemma set_sql_update: "set (sql_update P f rows) = (\<lambda>r. if P r then f r else r) ` set rows"
  by (simp add: sql_update_def)

lemma set_sql_delete [simp]: "set (sql_delete P rows) = {r \<in> set rows. \<not> P r}"
  by (auto simp: sql_delete_def)

lemma length_sql_update [simp]: "length (sql_update P f rows) = length rows"
  by (simp add: sql_update_def)

lemma sql_update_Nil [simp]: "sql_update P f [] = []" "sql_delete P [] = []"
  by (simp_all add: sql_update_def sql_delete_def)

lemma set_order [simp]: "set (order_asc k rows) = set rows" "set (order_desc h rows) = set rows"
  by (simp_all add: order_asc_def order_desc_def)

lemma length_order [simp]: "length (order_asc k rows) = length rows" "length (order_desc h rows) = length rows"
  by (simp_all add: order_asc_def order_desc_def)

lemma set_limit_subset: "set (limit n rows) \<subseteq> set rows"
  by (simp add: limit_def set_take_subset)

lemma length_limit: "length (limit n rows) \<le> nat n"
  by (simp add: limit_def)

lemma map_sql_update [key_simps]:
  "(\<And>r. P r \<Longrightarrow> k (f r) = k r) \<Longrightarrow> map k (sql_update P f rows) = map k rows"
  by (simp add: sql_update_def)

lemma image_sql_update [key_simps]:
  "(\<And>r. P r \<Longrightarrow> k (f r) = k r) \<Longrightarrow> k ` set (sql_update P f rows) = k ` set rows"
  using map_sql_update [of P k f rows] by (metis list.set_map)

lemma uniq_Nil [simp]: "uniq k []"
  by (simp add: uniq_def)

lemma uniq_append1 [simp]: "uniq k (rows @ [r]) \<longleftrightarrow> uniq k rows \<and> k r \<notin> k ` set rows"
  by (auto simp: uniq_def)

lemma uniq_sql_delete [simp]: "uniq k rows \<Longrightarrow> uniq k (sql_delete P rows)"
  unfolding uniq_def sql_delete_def by (rule distinct_map_filter)

lemma uniq_sql_update [key_simps]:
  "(\<And>r. P r \<Longrightarrow> k (f r) = k r) \<Longrightarrow> uniq k (sql_update P f rows) = uniq k rows"
  by (simp add: uniq_def map_sql_update)

lemma uniq_inj: "uniq k rows \<Longrightarrow> r \<in> set rows \<Longrightarrow> r' \<in> set rows \<Longrightarrow> k r = k r' \<Longrightarrow> r = r'"
  unfolding uniq_def by (meson distinct_map inj_onD)

lemma fkey_iff: "fkey f rows k parents \<longleftrightarrow> (\<forall>r \<in> set rows. \<forall>x. f r = Some x \<longrightarrow> x \<in> k ` set parents)"
  by (auto simp: fkey_def list_all_iff split: option.splits)

lemma fkey_append1 [simp]:
  "fkey f (rows @ [r]) k parents \<longleftrightarrow>
     fkey f rows k parents \<and> (\<forall>x. f r = Some x \<longrightarrow> x \<in> k ` set parents)"
  by (auto simp: fkey_iff)

lemma fkey_parent_append [simp]: "fkey f rows k parents \<Longrightarrow> fkey f rows k (parents @ [p])"
  by (auto simp: fkey_iff)

lemma fkey_sql_delete [simp]: "fkey f rows k parents \<Longrightarrow> fkey f (sql_delete P rows) k parents"
  by (auto simp: fkey_iff)

lemma fkey_map: "fkey f rows k parents \<longleftrightarrow>
    (\<forall>y \<in> set (map f rows). \<forall>x. y = Some x \<longrightarrow> x \<in> set (map k parents))"
  by (auto simp: fkey_iff)

lemma fkey_sql_update [key_simps]:
  "(\<And>r. P r \<Longrightarrow> f (g r) = f r) \<Longrightarrow> fkey f (sql_update P g rows) k parents = fkey f rows k parents"
  by (simp add: fkey_map map_sql_update del: set_map list.set_map)

lemma fkey_parent_sql_update [key_simps]:
  "(\<And>p. P p \<Longrightarrow> k (g p) = k p) \<Longrightarrow> fkey f rows k (sql_update P g parents) = fkey f rows k parents"
  by (simp add: fkey_map map_sql_update del: set_map list.set_map)

lemma find_Some_mem: "List.find P xs = Some x \<Longrightarrow> x \<in> set xs \<and> P x"
  by (auto simp: find_Some_iff)

lemma find_append: "List.find P (xs @ ys) = (case List.find P xs of None \<Rightarrow> List.find P ys | Some x \<Rightarrow> Some x)"
  by (induction xs) auto

lemma find_uniq:
  assumes "uniq k rows" "r \<in> set rows"
  shows "List.find (\<lambda>r'. k r' = k r) rows = Some r"
proof -
  have "List.find (\<lambda>r'. k r' = k r) rows \<noteq> None"
    using assms(2) by (auto simp: find_None_iff)
  then obtain r' where r': "List.find (\<lambda>r'. k r' = k r) rows = Some r'"
    by blast
  then have "r' \<in> set rows" "k r' = k r"
    by (auto dest: find_Some_mem)
  with assms r' show ?thesis
    using uniq_inj by metis
qed

lemma find_sql_update_key:
  assumes "\<And>r. P r \<Longrightarrow> k (f r) = k r"
  shows "List.find (\<lambda>r. k r = x) (sql_update P f rows) =
         map_option (\<lambda>r. if P r then f r else r) (List.find (\<lambda>r. k r = x) rows)"
  using assms by (induction rows) (auto simp: sql_update_def)

section \<open>Results\<close>

text \<open>
  A Go function that returns \<open>(T, error)\<close> is a value of \<open>error + 'a\<close>. An operation on the database
  also returns the database it leaves behind; a transaction that does not commit leaves the one it
  started from.
\<close>

fun is_ok :: "'e + 'a \<Rightarrow> bool" where
  "is_ok (Inl _) = False"
| "is_ok (Inr _) = True"

lemma is_ok_iff: "is_ok r \<longleftrightarrow> (\<exists>x. r = Inr x)"
  by (cases r) auto

end
