(* ===== verification/Schema.thy ===== *)
theory Schema
  imports Prelude Complex_Main
begin

text \<open>
  The PostgreSQL schema of \<open>server/internal/database/migrations.go\<close>: one record per table row, one
  record for the whole database, the constraints the migrations declare (primary keys, \<open>UNIQUE\<close>
  columns, foreign keys) as the predicate \<open>db_ok\<close>. The writes of the tables, with the \<open>ON DELETE\<close> actions,
  are in the theory \<open>Writes\<close>.

  A nullable column is an \<open>option\<close>. \<open>DOUBLE PRECISION\<close> columns and \<open>float64\<close> fields are rationals (no
  rounding, NaN or infinities). JSONB columns hold the decoded value. Rows of a table are kept in
  insertion order, which is also the order of rows a query leaves unordered. Failures of the
  connection itself are not modelled: the errors are those of constraints and of the code.
\<close>

section \<open>Rows\<close>

datatype json =
    JString string
  | JNumber int
  | JBool bool
  | JNull
  | JArray "json list"
  | JObject "(string \<times> json) list"

record users_row =
  ur_id :: string
  ur_email :: string
  ur_role :: string
  ur_status :: string
  ur_created_at :: int
  ur_updated_at :: int
  ur_tx_enabled :: bool
  ur_dispatcher_enabled :: bool
  ur_password_hash :: "string option"

record magic_row =
  ml_token :: string
  ml_user_id :: string
  ml_email :: string
  ml_expires_at :: int
  ml_used_at :: int
  ml_created_at :: int
  ml_code :: string

record session_row =
  ss_token :: string
  ss_user_id :: string
  ss_expires_at :: int
  ss_revoked_at :: int
  ss_created_at :: int

record audit_row =
  al_id :: int
  al_user_id :: "string option"
  al_action :: string
  al_target_type :: string
  al_target_id :: string
  al_metadata :: "(string \<times> json) list"
  al_created_at :: int

record hub_identity_row =
  hd_hub_id :: string
  hd_name :: string
  hd_public_url :: string
  hd_region :: string
  hd_contact :: string
  hd_public_key :: string
  hd_private_key :: string
  hd_federation_enabled :: bool
  hd_directory_validation_status :: string
  hd_trust_level :: string
  hd_trust_issuer_hub_id :: string
  hd_trust_certificate :: string
  hd_trust_expires_at :: int
  hd_trust_verified_at :: int
  hd_incident_management_enabled :: bool
  hd_incident_handler_hub_id :: string
  hd_incident_auto_suggest :: bool
  hd_incident_auto_open :: bool
  hd_incident_watch_areas :: "string list"
  hd_incident_watch_point_lat :: rat
  hd_incident_watch_point_lon :: rat
  hd_incident_watch_radius_km :: rat
  hd_incident_system_labels :: "string list"
  hd_created_at :: int
  hd_updated_at :: int

record hub_invites_row =
  hi_id :: string
  hi_token :: string
  hi_created_by_user_id :: "string option"
  hi_expires_at :: int
  hi_used_at :: int
  hi_revoked_at :: int
  hi_created_at :: int

record hub_peers_row =
  hp_id :: string
  hp_hub_id :: string
  hp_name :: string
  hp_public_url :: string
  hp_region :: string
  hp_contact :: string
  hp_status :: string
  hp_direction :: string
  hp_accepted_at :: int
  hp_last_seen_at :: int
  hp_created_at :: int
  hp_updated_at :: int

type_synonym bytes = "8 word list"

record calls_row =
  cr_id :: int
  cr_user_id :: "string option"
  cr_source_id :: "string option"
  cr_datetime :: int
  cr_system :: int
  cr_system_label :: string
  cr_talkgroup :: int
  cr_talkgroup_label :: string
  cr_talkgroup_group :: string
  cr_talkgroup_tag :: string
  cr_frequency :: int
  cr_duration :: rat
  cr_audio_name :: string
  cr_audio_type :: string
  cr_audio :: bytes
  cr_origin :: string
  cr_sender_user_id :: "string option"
  cr_created_at :: int

record talkgroup_settings_row =
  ts_talkgroup :: int
  ts_favorite :: bool
  ts_muted :: bool
  ts_transcribe :: bool
  ts_updated_at :: int

record transcripts_row =
  ct_call_id :: int
  ct_status :: string
  ct_transcript :: string
  ct_provider :: string
  ct_language :: string
  ct_confidence :: rat
  ct_error :: string
  ct_attempts :: int
  ct_claimed_by :: string
  ct_claimed_until :: int
  ct_created_at :: int
  ct_updated_at :: int

record imports_row =
  fi_peer_hub_id :: string
  fi_remote_call_id :: int
  fi_local_call_id :: int
  fi_created_at :: int

record sources_row =
  sr_id :: string
  sr_user_id :: "string option"
  sr_label :: string
  sr_enabled :: bool
  sr_is_shared :: bool
  sr_deleted_at :: int
  sr_system_id :: int
  sr_system_label :: string
  sr_last_seen_unix :: int
  sr_error_count :: int
  sr_calls_received :: int
  sr_updated_at :: int

record keys_row =
  ky_id :: string
  ky_source_id :: string
  ky_user_id :: "string option"
  ky_api_key :: string
  ky_created_at :: int
  ky_last_used_at :: int

record shares_row =
  sh_source_id :: string
  sh_user_id :: string
  sh_created_at :: int

record radio_sets_row =
  rr_id :: string
  rr_user_id :: string
  rr_name :: string
  rr_talkgroups :: "int list"
  rr_created_at :: int
  rr_updated_at :: int
  rr_share_token :: "string option"
  rr_ptt_talkgroup :: "int option"
  rr_selection_mode :: string
  rr_talkgroup_groups :: "string list"

record ptt_uploads_row =
  pu_client_id :: string
  pu_call_id :: int
  pu_user_id :: string
  pu_created_at :: int

record templates_row =
  it_id :: string
  it_name :: string
  it_incident_type :: string
  it_selection_mode :: string
  it_talkgroups :: "int list"
  it_talkgroup_groups :: "string list"
  it_default_exposure :: string
  it_default_priority :: string
  it_nws_event_patterns :: "string list"
  it_created_at :: int
  it_updated_at :: int

record incidents_row =
  in_id :: string
  in_title :: string
  in_incident_type :: string
  in_status :: string
  in_priority :: string
  in_exposure :: string
  in_radio_set_id :: "string option"
  in_template_id :: "string option"
  in_opened_by_user_id :: "string option"
  in_handler_incident_id :: string
  in_notes :: string
  in_metadata :: string
  in_opened_at :: int
  in_closed_at :: int
  in_archived_at :: int
  in_created_at :: int
  in_updated_at :: int

record signals_row =
  sg_id :: string
  sg_source :: string
  sg_external_id :: string
  sg_event_type :: string
  sg_severity :: string
  sg_title :: string
  sg_detail :: string
  sg_template_id :: string
  sg_incident_id :: string
  sg_raw :: string
  sg_received_at :: int

text \<open>The decoded \<open>config\<close> column: \<open>IncidentIntegrationConfig\<close>, all fields empty for the object without fields.\<close>

record IncidentIntegrationConfig =
  gc_IncidentTitle :: string
  gc_Exposure :: string
  gc_PublicPlayerURL :: string
  gc_StreamToken :: string
  gc_VoiceChannelID :: string
  gc_TextChannelID :: string
  gc_CategoryID :: string
  gc_Error :: string

record integrations_row =
  ii_id :: string
  ii_incident_id :: string
  ii_kind :: string
  ii_status :: string
  ii_bot_instance_id :: string
  ii_config :: IncidentIntegrationConfig
  ii_created_at :: int
  ii_updated_at :: int

record bot_status_row =
  bs_bot_user_tag :: string
  bs_guild_id :: string
  bs_guild_name :: string
  bs_command_count :: int
  bs_welcome_enabled :: bool
  bs_last_seen_at :: int

section \<open>The database\<close>

text \<open>
  The handle \<open>DB\<close> of \<open>db.go\<close> together with the tables behind it. \<open>hub_identity\<close> and
  \<open>discord_bot_status\<close> only ever hold the row with the id \<open>local\<close>. The three counters are the next
  values of the sequences behind \<open>calls.id\<close>, \<open>audit_log.id\<close> and \<open>ptt_talkgroup_seq\<close>.
\<close>

record db =
  auto_approve_users :: bool
  t_users :: "users_row list"
  t_magic_links :: "magic_row list"
  t_sessions :: "session_row list"
  t_audit :: "audit_row list"
  t_hub_identity :: "hub_identity_row option"
  t_hub_invites :: "hub_invites_row list"
  t_hub_peers :: "hub_peers_row list"
  t_calls :: "calls_row list"
  t_tg_settings :: "talkgroup_settings_row list"
  t_transcripts :: "transcripts_row list"
  t_imports :: "imports_row list"
  t_sources :: "sources_row list"
  t_keys :: "keys_row list"
  t_shares :: "shares_row list"
  t_radio_sets :: "radio_sets_row list"
  t_ptt_uploads :: "ptt_uploads_row list"
  t_templates :: "templates_row list"
  t_incidents :: "incidents_row list"
  t_signals :: "signals_row list"
  t_integrations :: "integrations_row list"
  t_bot_status :: "bot_status_row option"
  seq_calls :: int
  seq_audit :: int
  seq_ptt :: int

datatype db_error =
    NoRows
  | PendingUser
  | InactiveUser
  | UniqueViolation
  | ForeignKeyViolation
  | NotNullViolation
  | OutOfRange
  | OtherError string

type_synonym 'a dbres = "(db_error + 'a) \<times> db"

definition empty_db :: "bool \<Rightarrow> db" where
  "empty_db approve = \<lparr>auto_approve_users = approve, t_users = [], t_magic_links = [], t_sessions = [],
     t_audit = [], t_hub_identity = None, t_hub_invites = [], t_hub_peers = [], t_calls = [],
     t_tg_settings = [], t_transcripts = [], t_imports = [], t_sources = [], t_keys = [],
     t_shares = [], t_radio_sets = [], t_ptt_uploads = [], t_templates = [], t_incidents = [],
     t_signals = [], t_integrations = [], t_bot_status = None,
     seq_calls = 1, seq_audit = 1, seq_ptt = 9000001\<rparr>"

definition int4 :: "int \<Rightarrow> bool" where
  "int4 x \<longleftrightarrow> - 2147483648 \<le> x \<and> x \<le> 2147483647"

section \<open>Constraints\<close>

definition nonnull :: "('r \<Rightarrow> 'k option) \<Rightarrow> 'r list \<Rightarrow> 'k list" where
  "nonnull f rows = concat (map (\<lambda>r. case f r of None \<Rightarrow> [] | Some x \<Rightarrow> [x]) rows)"

definition uniq_opt :: "('r \<Rightarrow> 'k option) \<Rightarrow> 'r list \<Rightarrow> bool" where
  "uniq_opt f rows \<longleftrightarrow> distinct (nonnull f rows)"

definition keys_ok :: "db \<Rightarrow> bool" where
  "keys_ok d \<longleftrightarrow>
     uniq ur_id (t_users d) \<and> uniq ur_email (t_users d) \<and>
     uniq ml_token (t_magic_links d) \<and> uniq ss_token (t_sessions d) \<and> uniq al_id (t_audit d) \<and>
     uniq hi_id (t_hub_invites d) \<and> uniq hi_token (t_hub_invites d) \<and>
     uniq hp_id (t_hub_peers d) \<and> uniq hp_hub_id (t_hub_peers d) \<and>
     uniq cr_id (t_calls d) \<and> uniq ts_talkgroup (t_tg_settings d) \<and>
     uniq ct_call_id (t_transcripts d) \<and>
     uniq (\<lambda>r. (fi_peer_hub_id r, fi_remote_call_id r)) (t_imports d) \<and>
     uniq sr_id (t_sources d) \<and> uniq ky_id (t_keys d) \<and> uniq ky_api_key (t_keys d) \<and>
     uniq (\<lambda>r. (sh_source_id r, sh_user_id r)) (t_shares d) \<and>
     uniq rr_id (t_radio_sets d) \<and> uniq_opt rr_share_token (t_radio_sets d) \<and>
     uniq pu_client_id (t_ptt_uploads d) \<and> uniq it_id (t_templates d) \<and>
     uniq in_id (t_incidents d) \<and> uniq sg_id (t_signals d) \<and>
     uniq (\<lambda>r. (sg_source r, sg_external_id r)) (t_signals d) \<and>
     uniq ii_id (t_integrations d) \<and> uniq (\<lambda>r. (ii_incident_id r, ii_kind r)) (t_integrations d)"

abbreviation fk_user :: "('r \<Rightarrow> string option) \<Rightarrow> 'r list \<Rightarrow> db \<Rightarrow> bool" where
  "fk_user f rows d \<equiv> fkey f rows ur_id (t_users d)"

definition user_refs_ok :: "db \<Rightarrow> bool" where
  "user_refs_ok d \<longleftrightarrow>
     fk_user (\<lambda>r. Some (ml_user_id r)) (t_magic_links d) d \<and>
     fk_user (\<lambda>r. Some (ss_user_id r)) (t_sessions d) d \<and>
     fk_user al_user_id (t_audit d) d \<and>
     fk_user hi_created_by_user_id (t_hub_invites d) d \<and>
     fk_user cr_user_id (t_calls d) d \<and> fk_user cr_sender_user_id (t_calls d) d \<and>
     fk_user sr_user_id (t_sources d) d \<and> fk_user ky_user_id (t_keys d) d \<and>
     fk_user (\<lambda>r. Some (sh_user_id r)) (t_shares d) d \<and>
     fk_user (\<lambda>r. Some (rr_user_id r)) (t_radio_sets d) d \<and>
     fk_user (\<lambda>r. Some (pu_user_id r)) (t_ptt_uploads d) d \<and>
     fk_user in_opened_by_user_id (t_incidents d) d"

definition other_refs_ok :: "db \<Rightarrow> bool" where
  "other_refs_ok d \<longleftrightarrow>
     fkey (\<lambda>r. Some (ct_call_id r)) (t_transcripts d) cr_id (t_calls d) \<and>
     fkey (\<lambda>r. Some (fi_local_call_id r)) (t_imports d) cr_id (t_calls d) \<and>
     fkey (\<lambda>r. Some (pu_call_id r)) (t_ptt_uploads d) cr_id (t_calls d) \<and>
     fkey cr_source_id (t_calls d) sr_id (t_sources d) \<and>
     fkey (\<lambda>r. Some (ky_source_id r)) (t_keys d) sr_id (t_sources d) \<and>
     fkey (\<lambda>r. Some (sh_source_id r)) (t_shares d) sr_id (t_sources d) \<and>
     fkey in_radio_set_id (t_incidents d) rr_id (t_radio_sets d) \<and>
     fkey (\<lambda>r. Some (ii_incident_id r)) (t_integrations d) in_id (t_incidents d)"

definition seqs_ok :: "db \<Rightarrow> bool" where
  "seqs_ok d \<longleftrightarrow> list_all (\<lambda>r. cr_id r < seq_calls d) (t_calls d) \<and>
     list_all (\<lambda>r. al_id r < seq_audit d) (t_audit d)"

definition db_ok :: "db \<Rightarrow> bool" where
  "db_ok d \<longleftrightarrow> keys_ok d \<and> user_refs_ok d \<and> other_refs_ok d \<and> seqs_ok d"

lemmas db_ok_defs = db_ok_def keys_ok_def user_refs_ok_def other_refs_ok_def seqs_ok_def

lemma db_ok_empty [simp]: "db_ok (empty_db b)"
  by (simp add: db_ok_defs empty_db_def fkey_def uniq_opt_def nonnull_def)

end
