(* ===== verification/Writes.thy ===== *)
theory Writes
  imports Schema
begin

text \<open>
  One write per table of \<open>Schema\<close>, with the constraint checks PostgreSQL makes for it: \<open>ins_*\<close> is an
  \<open>INSERT\<close> without a conflict clause, \<open>del_*\<close> a \<open>DELETE\<close> with the \<open>ON DELETE\<close> actions of the tables
  that reference it. Plain \<open>UPDATE\<close>s that touch no key are \<open>sql_update\<close> on the table. Each comes with
  the lemma that it keeps \<open>db_ok\<close>.
\<close>

section \<open>Inserts\<close>

definition user_exists :: "db \<Rightarrow> string \<Rightarrow> bool" where
  "user_exists d u \<longleftrightarrow> u \<in> ur_id ` set (t_users d)"

definition user_ref_ok :: "db \<Rightarrow> string option \<Rightarrow> bool" where
  "user_ref_ok d u \<longleftrightarrow> (case u of None \<Rightarrow> True | Some x \<Rightarrow> user_exists d x)"

definition source_exists :: "db \<Rightarrow> string \<Rightarrow> bool" where
  "source_exists d s \<longleftrightarrow> s \<in> sr_id ` set (t_sources d)"

definition call_exists :: "db \<Rightarrow> int \<Rightarrow> bool" where
  "call_exists d c \<longleftrightarrow> c \<in> cr_id ` set (t_calls d)"

definition radio_set_ref_ok :: "db \<Rightarrow> string option \<Rightarrow> bool" where
  "radio_set_ref_ok d x \<longleftrightarrow> (case x of None \<Rightarrow> True | Some r \<Rightarrow> r \<in> rr_id ` set (t_radio_sets d))"

definition ins_users :: "users_row \<Rightarrow> db \<Rightarrow> db_error + db" where
  "ins_users r d =
     (if ur_id r \<in> ur_id ` set (t_users d) \<or> ur_email r \<in> ur_email ` set (t_users d)
      then Inl UniqueViolation else Inr (d\<lparr>t_users := t_users d @ [r]\<rparr>))"

definition ins_magic_links :: "magic_row \<Rightarrow> db \<Rightarrow> db_error + db" where
  "ins_magic_links r d =
     (if ml_token r \<in> ml_token ` set (t_magic_links d) then Inl UniqueViolation
      else if \<not> user_exists d (ml_user_id r) then Inl ForeignKeyViolation
      else Inr (d\<lparr>t_magic_links := t_magic_links d @ [r]\<rparr>))"

definition ins_sessions :: "session_row \<Rightarrow> db \<Rightarrow> db_error + db" where
  "ins_sessions r d =
     (if ss_token r \<in> ss_token ` set (t_sessions d) then Inl UniqueViolation
      else if \<not> user_exists d (ss_user_id r) then Inl ForeignKeyViolation
      else Inr (d\<lparr>t_sessions := t_sessions d @ [r]\<rparr>))"

text \<open>The id of an audit row and of a call is the next value of its sequence.\<close>

definition ins_audit :: "audit_row \<Rightarrow> db \<Rightarrow> db_error + db" where
  "ins_audit r d =
     (if \<not> user_ref_ok d (al_user_id r) then Inl ForeignKeyViolation
      else Inr (d\<lparr>t_audit := t_audit d @ [r\<lparr>al_id := seq_audit d\<rparr>], seq_audit := seq_audit d + 1\<rparr>))"

definition ins_hub_invites :: "hub_invites_row \<Rightarrow> db \<Rightarrow> db_error + db" where
  "ins_hub_invites r d =
     (if hi_id r \<in> hi_id ` set (t_hub_invites d) \<or> hi_token r \<in> hi_token ` set (t_hub_invites d)
      then Inl UniqueViolation
      else if \<not> user_ref_ok d (hi_created_by_user_id r) then Inl ForeignKeyViolation
      else Inr (d\<lparr>t_hub_invites := t_hub_invites d @ [r]\<rparr>))"

definition ins_hub_peers :: "hub_peers_row \<Rightarrow> db \<Rightarrow> db_error + db" where
  "ins_hub_peers r d =
     (if hp_id r \<in> hp_id ` set (t_hub_peers d) \<or> hp_hub_id r \<in> hp_hub_id ` set (t_hub_peers d)
      then Inl UniqueViolation else Inr (d\<lparr>t_hub_peers := t_hub_peers d @ [r]\<rparr>))"

definition ins_calls :: "calls_row \<Rightarrow> db \<Rightarrow> db_error + db" where
  "ins_calls r d =
     (if \<not> (int4 (cr_system r) \<and> int4 (cr_talkgroup r) \<and> int4 (cr_frequency r)) then Inl OutOfRange
      else if \<not> user_ref_ok d (cr_user_id r) \<or> \<not> user_ref_ok d (cr_sender_user_id r) \<or>
         (case cr_source_id r of None \<Rightarrow> False | Some s \<Rightarrow> \<not> source_exists d s)
      then Inl ForeignKeyViolation
      else Inr (d\<lparr>t_calls := t_calls d @ [r\<lparr>cr_id := seq_calls d\<rparr>], seq_calls := seq_calls d + 1\<rparr>))"

definition ins_transcripts :: "transcripts_row \<Rightarrow> db \<Rightarrow> db_error + db" where
  "ins_transcripts r d =
     (if ct_call_id r \<in> ct_call_id ` set (t_transcripts d) then Inl UniqueViolation
      else if \<not> call_exists d (ct_call_id r) then Inl ForeignKeyViolation
      else Inr (d\<lparr>t_transcripts := t_transcripts d @ [r]\<rparr>))"

definition ins_imports :: "imports_row \<Rightarrow> db \<Rightarrow> db_error + db" where
  "ins_imports r d =
     (if (fi_peer_hub_id r, fi_remote_call_id r) \<in>
           (\<lambda>r. (fi_peer_hub_id r, fi_remote_call_id r)) ` set (t_imports d) then Inl UniqueViolation
      else if \<not> call_exists d (fi_local_call_id r) then Inl ForeignKeyViolation
      else Inr (d\<lparr>t_imports := t_imports d @ [r]\<rparr>))"

definition source_ints_ok :: "sources_row \<Rightarrow> bool" where
  "source_ints_ok r \<longleftrightarrow> int4 (sr_system_id r) \<and> int4 (sr_error_count r) \<and> int4 (sr_calls_received r)"

definition ins_sources :: "sources_row \<Rightarrow> db \<Rightarrow> db_error + db" where
  "ins_sources r d =
     (if \<not> source_ints_ok r then Inl OutOfRange
      else if sr_id r \<in> sr_id ` set (t_sources d) then Inl UniqueViolation
      else if \<not> user_ref_ok d (sr_user_id r) then Inl ForeignKeyViolation
      else Inr (d\<lparr>t_sources := t_sources d @ [r]\<rparr>))"

definition ins_keys :: "keys_row \<Rightarrow> db \<Rightarrow> db_error + db" where
  "ins_keys r d =
     (if ky_id r \<in> ky_id ` set (t_keys d) \<or> ky_api_key r \<in> ky_api_key ` set (t_keys d)
      then Inl UniqueViolation
      else if \<not> user_ref_ok d (ky_user_id r) \<or> \<not> source_exists d (ky_source_id r)
      then Inl ForeignKeyViolation
      else Inr (d\<lparr>t_keys := t_keys d @ [r]\<rparr>))"

definition ins_shares :: "shares_row \<Rightarrow> db \<Rightarrow> db_error + db" where
  "ins_shares r d =
     (if (sh_source_id r, sh_user_id r) \<in> (\<lambda>r. (sh_source_id r, sh_user_id r)) ` set (t_shares d)
      then Inl UniqueViolation
      else if \<not> source_exists d (sh_source_id r) \<or> \<not> user_exists d (sh_user_id r)
      then Inl ForeignKeyViolation
      else Inr (d\<lparr>t_shares := t_shares d @ [r]\<rparr>))"

definition share_token_free :: "string option \<Rightarrow> radio_sets_row list \<Rightarrow> bool" where
  "share_token_free t rows \<longleftrightarrow>
     (case t of None \<Rightarrow> True | Some x \<Rightarrow> x \<notin> set (nonnull rr_share_token rows))"

definition ins_radio_sets :: "radio_sets_row \<Rightarrow> db \<Rightarrow> db_error + db" where
  "ins_radio_sets r d =
     (if \<not> (case rr_ptt_talkgroup r of None \<Rightarrow> True | Some g \<Rightarrow> int4 g) then Inl OutOfRange
      else if rr_id r \<in> rr_id ` set (t_radio_sets d) \<or> \<not> share_token_free (rr_share_token r) (t_radio_sets d)
      then Inl UniqueViolation
      else if \<not> user_exists d (rr_user_id r) then Inl ForeignKeyViolation
      else Inr (d\<lparr>t_radio_sets := t_radio_sets d @ [r]\<rparr>))"

definition ins_ptt_uploads :: "ptt_uploads_row \<Rightarrow> db \<Rightarrow> db_error + db" where
  "ins_ptt_uploads r d =
     (if pu_client_id r \<in> pu_client_id ` set (t_ptt_uploads d) then Inl UniqueViolation
      else if \<not> call_exists d (pu_call_id r) \<or> \<not> user_exists d (pu_user_id r)
      then Inl ForeignKeyViolation
      else Inr (d\<lparr>t_ptt_uploads := t_ptt_uploads d @ [r]\<rparr>))"

definition ins_incidents :: "incidents_row \<Rightarrow> db \<Rightarrow> db_error + db" where
  "ins_incidents r d =
     (if in_id r \<in> in_id ` set (t_incidents d) then Inl UniqueViolation
      else if \<not> user_ref_ok d (in_opened_by_user_id r) \<or> \<not> radio_set_ref_ok d (in_radio_set_id r)
      then Inl ForeignKeyViolation
      else Inr (d\<lparr>t_incidents := t_incidents d @ [r]\<rparr>))"

definition ins_signals :: "signals_row \<Rightarrow> db \<Rightarrow> db_error + db" where
  "ins_signals r d =
     (if sg_id r \<in> sg_id ` set (t_signals d) \<or>
         (sg_source r, sg_external_id r) \<in> (\<lambda>r. (sg_source r, sg_external_id r)) ` set (t_signals d)
      then Inl UniqueViolation else Inr (d\<lparr>t_signals := t_signals d @ [r]\<rparr>))"

definition ins_integrations :: "integrations_row \<Rightarrow> db \<Rightarrow> db_error + db" where
  "ins_integrations r d =
     (if ii_id r \<in> ii_id ` set (t_integrations d) \<or>
         (ii_incident_id r, ii_kind r) \<in> (\<lambda>r. (ii_incident_id r, ii_kind r)) ` set (t_integrations d)
      then Inl UniqueViolation
      else if ii_incident_id r \<notin> in_id ` set (t_incidents d) then Inl ForeignKeyViolation
      else Inr (d\<lparr>t_integrations := t_integrations d @ [r]\<rparr>))"

section \<open>Deletes\<close>

definition refd :: "('r \<Rightarrow> 'k option) \<Rightarrow> 'k list \<Rightarrow> 'r \<Rightarrow> bool" where
  "refd f ids r \<longleftrightarrow> (case f r of None \<Rightarrow> False | Some x \<Rightarrow> x \<in> set ids)"

definition users_referenced :: "string list \<Rightarrow> db \<Rightarrow> bool" where
  "users_referenced ids d \<longleftrightarrow>
     list_ex (refd (\<lambda>r. Some (ml_user_id r)) ids) (t_magic_links d) \<or>
     list_ex (refd (\<lambda>r. Some (ss_user_id r)) ids) (t_sessions d) \<or>
     list_ex (refd al_user_id ids) (t_audit d) \<or>
     list_ex (refd hi_created_by_user_id ids) (t_hub_invites d) \<or>
     list_ex (refd cr_user_id ids) (t_calls d) \<or> list_ex (refd cr_sender_user_id ids) (t_calls d) \<or>
     list_ex (refd sr_user_id ids) (t_sources d) \<or> list_ex (refd ky_user_id ids) (t_keys d) \<or>
     list_ex (refd (\<lambda>r. Some (rr_user_id r)) ids) (t_radio_sets d) \<or>
     list_ex (refd (\<lambda>r. Some (pu_user_id r)) ids) (t_ptt_uploads d)"

definition del_users :: "(users_row \<Rightarrow> bool) \<Rightarrow> db \<Rightarrow> db_error + db" where
  "del_users P d =
     (let ids = map ur_id (filter P (t_users d)) in
      if users_referenced ids d then Inl ForeignKeyViolation
      else Inr (d\<lparr>t_users := sql_delete P (t_users d),
                  t_shares := sql_delete (refd (\<lambda>r. Some (sh_user_id r)) ids) (t_shares d),
                  t_incidents := sql_update (refd in_opened_by_user_id ids)
                                   (\<lambda>r. r\<lparr>in_opened_by_user_id := None\<rparr>) (t_incidents d)\<rparr>))"

definition del_sources :: "(sources_row \<Rightarrow> bool) \<Rightarrow> db \<Rightarrow> db_error + db" where
  "del_sources P d =
     (let ids = map sr_id (filter P (t_sources d)) in
      if list_ex (refd cr_source_id ids) (t_calls d) \<or>
         list_ex (refd (\<lambda>r. Some (ky_source_id r)) ids) (t_keys d)
      then Inl ForeignKeyViolation
      else Inr (d\<lparr>t_sources := sql_delete P (t_sources d),
                  t_shares := sql_delete (refd (\<lambda>r. Some (sh_source_id r)) ids) (t_shares d)\<rparr>))"

definition del_calls :: "(calls_row \<Rightarrow> bool) \<Rightarrow> db \<Rightarrow> db" where
  "del_calls P d =
     (let ids = map cr_id (filter P (t_calls d)) in
      d\<lparr>t_calls := sql_delete P (t_calls d),
        t_transcripts := sql_delete (refd (\<lambda>r. Some (ct_call_id r)) ids) (t_transcripts d),
        t_imports := sql_delete (refd (\<lambda>r. Some (fi_local_call_id r)) ids) (t_imports d),
        t_ptt_uploads := sql_delete (refd (\<lambda>r. Some (pu_call_id r)) ids) (t_ptt_uploads d)\<rparr>)"

definition del_radio_sets :: "(radio_sets_row \<Rightarrow> bool) \<Rightarrow> db \<Rightarrow> db" where
  "del_radio_sets P d =
     (let ids = map rr_id (filter P (t_radio_sets d)) in
      d\<lparr>t_radio_sets := sql_delete P (t_radio_sets d),
        t_incidents := sql_update (refd in_radio_set_id ids)
                         (\<lambda>r. r\<lparr>in_radio_set_id := None\<rparr>) (t_incidents d)\<rparr>)"

definition del_incidents :: "(incidents_row \<Rightarrow> bool) \<Rightarrow> db \<Rightarrow> db" where
  "del_incidents P d =
     (let ids = map in_id (filter P (t_incidents d)) in
      d\<lparr>t_incidents := sql_delete P (t_incidents d),
        t_integrations := sql_delete (refd (\<lambda>r. Some (ii_incident_id r)) ids) (t_integrations d)\<rparr>)"

section \<open>Every write keeps the constraints\<close>

lemmas ins_defs = ins_users_def ins_magic_links_def ins_sessions_def ins_audit_def
  ins_hub_invites_def ins_hub_peers_def ins_calls_def ins_transcripts_def ins_imports_def
  ins_sources_def ins_keys_def ins_shares_def ins_radio_sets_def ins_ptt_uploads_def
  ins_incidents_def ins_signals_def ins_integrations_def

lemmas ref_defs = user_exists_def user_ref_ok_def source_exists_def call_exists_def
  radio_set_ref_ok_def

lemma set_nonnull [simp]: "x \<in> set (nonnull f rows) \<longleftrightarrow> (\<exists>r \<in> set rows. f r = Some x)"
  by (auto simp: nonnull_def split: option.splits) (metis list.set_intros(1) option.simps(5))

lemma uniq_opt_append1:
  "uniq_opt f (rows @ [r]) \<longleftrightarrow> uniq_opt f rows \<and> (\<forall>x. f r = Some x \<longrightarrow> (\<forall>r' \<in> set rows. f r' \<noteq> Some x))"
proof -
  have "nonnull f (rows @ [r]) = nonnull f rows @ (case f r of None \<Rightarrow> [] | Some x \<Rightarrow> [x])"
    by (simp add: nonnull_def)
  then show ?thesis
    by (auto simp: uniq_opt_def split: option.splits)
qed

lemma uniq_opt_Cons:
  "uniq_opt f (a # rows) \<longleftrightarrow> uniq_opt f rows \<and> (\<forall>x. f a = Some x \<longrightarrow> (\<forall>r \<in> set rows. f r \<noteq> Some x))"
proof -
  have "nonnull f (a # rows) = (case f a of None \<Rightarrow> [] | Some x \<Rightarrow> [x]) @ nonnull f rows"
    by (simp add: nonnull_def)
  then show ?thesis
    by (auto simp: uniq_opt_def split: option.splits)
qed

lemma uniq_opt_sql_delete [simp]: "uniq_opt f rows \<Longrightarrow> uniq_opt f (sql_delete P rows)"
  by (induction rows) (auto simp: uniq_opt_Cons sql_delete_def)

lemma uniq_opt_sql_update [key_simps]:
  assumes "\<And>r. P r \<Longrightarrow> f (g r) = f r"
  shows "uniq_opt f (sql_update P g rows) = uniq_opt f rows"
proof -
  have "nonnull f xs = concat (map (case_option [] (\<lambda>x. [x])) (map f xs))" for xs
    by (simp add: nonnull_def comp_def)
  with map_sql_update [of P f g rows, OF assms] show ?thesis
    by (simp only: uniq_opt_def)
qed

lemma uniq_opt_inj:
  "uniq_opt f rows \<Longrightarrow> r \<in> set rows \<Longrightarrow> r' \<in> set rows \<Longrightarrow> f r = Some x \<Longrightarrow> f r' = Some x \<Longrightarrow> r = r'"
  by (induction rows) (auto simp: uniq_opt_Cons)

text \<open>The single constraints, read off \<open>db_ok\<close>.\<close>

lemma db_ok_uniq:
  assumes "db_ok d"
  shows "uniq ur_id (t_users d)"
    "uniq ur_email (t_users d)"
    "uniq ml_token (t_magic_links d)"
    "uniq ss_token (t_sessions d)"
    "uniq al_id (t_audit d)"
    "uniq hi_id (t_hub_invites d)"
    "uniq hi_token (t_hub_invites d)"
    "uniq hp_id (t_hub_peers d)"
    "uniq hp_hub_id (t_hub_peers d)"
    "uniq cr_id (t_calls d)"
    "uniq ts_talkgroup (t_tg_settings d)"
    "uniq ct_call_id (t_transcripts d)"
    "uniq (\<lambda>r. (fi_peer_hub_id r, fi_remote_call_id r)) (t_imports d)"
    "uniq sr_id (t_sources d)"
    "uniq ky_id (t_keys d)"
    "uniq ky_api_key (t_keys d)"
    "uniq (\<lambda>r. (sh_source_id r, sh_user_id r)) (t_shares d)"
    "uniq rr_id (t_radio_sets d)"
    "uniq pu_client_id (t_ptt_uploads d)"
    "uniq it_id (t_templates d)"
    "uniq in_id (t_incidents d)"
    "uniq sg_id (t_signals d)"
    "uniq (\<lambda>r. (sg_source r, sg_external_id r)) (t_signals d)"
    "uniq ii_id (t_integrations d)"
    "uniq (\<lambda>r. (ii_incident_id r, ii_kind r)) (t_integrations d)"
    "uniq_opt rr_share_token (t_radio_sets d)"
  using assms by (simp_all add: db_ok_defs)

lemma db_ok_fkey:
  assumes "db_ok d"
  shows "fkey (\<lambda>r. Some (ml_user_id r)) (t_magic_links d) ur_id (t_users d)"
    "fkey (\<lambda>r. Some (ss_user_id r)) (t_sessions d) ur_id (t_users d)"
    "fkey al_user_id (t_audit d) ur_id (t_users d)"
    "fkey hi_created_by_user_id (t_hub_invites d) ur_id (t_users d)"
    "fkey cr_user_id (t_calls d) ur_id (t_users d)"
    "fkey cr_sender_user_id (t_calls d) ur_id (t_users d)"
    "fkey sr_user_id (t_sources d) ur_id (t_users d)"
    "fkey ky_user_id (t_keys d) ur_id (t_users d)"
    "fkey (\<lambda>r. Some (sh_user_id r)) (t_shares d) ur_id (t_users d)"
    "fkey (\<lambda>r. Some (rr_user_id r)) (t_radio_sets d) ur_id (t_users d)"
    "fkey (\<lambda>r. Some (pu_user_id r)) (t_ptt_uploads d) ur_id (t_users d)"
    "fkey in_opened_by_user_id (t_incidents d) ur_id (t_users d)"
    "fkey (\<lambda>r. Some (ct_call_id r)) (t_transcripts d) cr_id (t_calls d)"
    "fkey (\<lambda>r. Some (fi_local_call_id r)) (t_imports d) cr_id (t_calls d)"
    "fkey (\<lambda>r. Some (pu_call_id r)) (t_ptt_uploads d) cr_id (t_calls d)"
    "fkey cr_source_id (t_calls d) sr_id (t_sources d)"
    "fkey (\<lambda>r. Some (ky_source_id r)) (t_keys d) sr_id (t_sources d)"
    "fkey (\<lambda>r. Some (sh_source_id r)) (t_shares d) sr_id (t_sources d)"
    "fkey in_radio_set_id (t_incidents d) rr_id (t_radio_sets d)"
    "fkey (\<lambda>r. Some (ii_incident_id r)) (t_integrations d) in_id (t_incidents d)"
  using assms by (simp_all add: db_ok_defs)

lemma db_ok_seq:
  assumes "db_ok d"
  shows "\<And>r. r \<in> set (t_calls d) \<Longrightarrow> cr_id r < seq_calls d"
    "\<And>r. r \<in> set (t_audit d) \<Longrightarrow> al_id r < seq_audit d"
  using assms by (auto simp: db_ok_def seqs_ok_def list_all_iff)

lemma db_ok_fresh:
  assumes "db_ok d"
  shows "seq_calls d \<notin> cr_id ` set (t_calls d)" "seq_audit d \<notin> al_id ` set (t_audit d)"
  using db_ok_seq [OF assms] by fastforce+

lemma db_ok_seq_next:
  assumes "db_ok d"
  shows "list_all (\<lambda>r. cr_id r < seq_calls d + 1) (t_calls d)"
    "list_all (\<lambda>r. al_id r < seq_audit d + 1) (t_audit d)"
  using db_ok_seq [OF assms] by (fastforce simp: list_all_iff)+

text \<open>
  Replacing the rows of one table: the constraints of that table are left to show. For a table that
  others reference, no referenced key may disappear.
\<close>

lemma fkey_mono: "fkey f rows k ps \<Longrightarrow> k ` set ps \<subseteq> k ` set qs \<Longrightarrow> fkey f rows k qs"
  by (auto simp: fkey_iff)

lemma set_users_ok:
  assumes "db_ok d" "uniq ur_id rows" "uniq ur_email rows" "ur_id ` set (t_users d) \<subseteq> ur_id ` set rows"
  shows "db_ok (d\<lparr>t_users := rows\<rparr>)"
  using assms by (simp add: db_ok_defs fkey_mono [OF _ assms(4)])

lemma set_magic_links_ok:
  assumes "db_ok d" "uniq ml_token rows" "fkey (\<lambda>r. Some (ml_user_id r)) rows ur_id (t_users d)"
  shows "db_ok (d\<lparr>t_magic_links := rows\<rparr>)"
  using assms by (simp add: db_ok_defs)

lemma set_sessions_ok:
  assumes "db_ok d" "uniq ss_token rows" "fkey (\<lambda>r. Some (ss_user_id r)) rows ur_id (t_users d)"
  shows "db_ok (d\<lparr>t_sessions := rows\<rparr>)"
  using assms by (simp add: db_ok_defs)

lemma set_hub_invites_ok:
  assumes "db_ok d" "uniq hi_id rows" "uniq hi_token rows" "fkey hi_created_by_user_id rows ur_id (t_users d)"
  shows "db_ok (d\<lparr>t_hub_invites := rows\<rparr>)"
  using assms by (simp add: db_ok_defs)

lemma set_hub_peers_ok:
  assumes "db_ok d" "uniq hp_id rows" "uniq hp_hub_id rows"
  shows "db_ok (d\<lparr>t_hub_peers := rows\<rparr>)"
  using assms by (simp add: db_ok_defs)

lemma set_calls_ok:
  assumes "db_ok d" "uniq cr_id rows" "fkey cr_user_id rows ur_id (t_users d)" "fkey cr_sender_user_id rows ur_id (t_users d)" "fkey cr_source_id rows sr_id (t_sources d)" "list_all (\<lambda>r. cr_id r < q) rows" "cr_id ` set (t_calls d) \<subseteq> cr_id ` set rows"
  shows "db_ok (d\<lparr>t_calls := rows, seq_calls := q\<rparr>)"
  using assms by (simp add: db_ok_defs fkey_mono [OF _ assms(7)])

lemma set_tg_settings_ok:
  assumes "db_ok d" "uniq ts_talkgroup rows"
  shows "db_ok (d\<lparr>t_tg_settings := rows\<rparr>)"
  using assms by (simp add: db_ok_defs)

lemma set_transcripts_ok:
  assumes "db_ok d" "uniq ct_call_id rows" "fkey (\<lambda>r. Some (ct_call_id r)) rows cr_id (t_calls d)"
  shows "db_ok (d\<lparr>t_transcripts := rows\<rparr>)"
  using assms by (simp add: db_ok_defs)

lemma set_imports_ok:
  assumes "db_ok d" "uniq (\<lambda>r. (fi_peer_hub_id r, fi_remote_call_id r)) rows" "fkey (\<lambda>r. Some (fi_local_call_id r)) rows cr_id (t_calls d)"
  shows "db_ok (d\<lparr>t_imports := rows\<rparr>)"
  using assms by (simp add: db_ok_defs)

lemma set_sources_ok:
  assumes "db_ok d" "uniq sr_id rows" "fkey sr_user_id rows ur_id (t_users d)" "sr_id ` set (t_sources d) \<subseteq> sr_id ` set rows"
  shows "db_ok (d\<lparr>t_sources := rows\<rparr>)"
  using assms by (simp add: db_ok_defs fkey_mono [OF _ assms(4)])

lemma set_keys_ok:
  assumes "db_ok d" "uniq ky_id rows" "uniq ky_api_key rows" "fkey ky_user_id rows ur_id (t_users d)" "fkey (\<lambda>r. Some (ky_source_id r)) rows sr_id (t_sources d)"
  shows "db_ok (d\<lparr>t_keys := rows\<rparr>)"
  using assms by (simp add: db_ok_defs)

lemma set_shares_ok:
  assumes "db_ok d" "uniq (\<lambda>r. (sh_source_id r, sh_user_id r)) rows" "fkey (\<lambda>r. Some (sh_user_id r)) rows ur_id (t_users d)" "fkey (\<lambda>r. Some (sh_source_id r)) rows sr_id (t_sources d)"
  shows "db_ok (d\<lparr>t_shares := rows\<rparr>)"
  using assms by (simp add: db_ok_defs)

lemma set_radio_sets_ok:
  assumes "db_ok d" "uniq rr_id rows" "uniq_opt rr_share_token rows" "fkey (\<lambda>r. Some (rr_user_id r)) rows ur_id (t_users d)" "rr_id ` set (t_radio_sets d) \<subseteq> rr_id ` set rows"
  shows "db_ok (d\<lparr>t_radio_sets := rows\<rparr>)"
  using assms by (simp add: db_ok_defs fkey_mono [OF _ assms(5)])

lemma set_ptt_uploads_ok:
  assumes "db_ok d" "uniq pu_client_id rows" "fkey (\<lambda>r. Some (pu_user_id r)) rows ur_id (t_users d)" "fkey (\<lambda>r. Some (pu_call_id r)) rows cr_id (t_calls d)"
  shows "db_ok (d\<lparr>t_ptt_uploads := rows\<rparr>)"
  using assms by (simp add: db_ok_defs)

lemma set_templates_ok:
  assumes "db_ok d" "uniq it_id rows"
  shows "db_ok (d\<lparr>t_templates := rows\<rparr>)"
  using assms by (simp add: db_ok_defs)

lemma set_incidents_ok:
  assumes "db_ok d" "uniq in_id rows" "fkey in_opened_by_user_id rows ur_id (t_users d)" "fkey in_radio_set_id rows rr_id (t_radio_sets d)" "in_id ` set (t_incidents d) \<subseteq> in_id ` set rows"
  shows "db_ok (d\<lparr>t_incidents := rows\<rparr>)"
  using assms by (simp add: db_ok_defs fkey_mono [OF _ assms(5)])

lemma set_signals_ok:
  assumes "db_ok d" "uniq sg_id rows" "uniq (\<lambda>r. (sg_source r, sg_external_id r)) rows"
  shows "db_ok (d\<lparr>t_signals := rows\<rparr>)"
  using assms by (simp add: db_ok_defs)

lemma set_integrations_ok:
  assumes "db_ok d" "uniq ii_id rows" "uniq (\<lambda>r. (ii_incident_id r, ii_kind r)) rows" "fkey (\<lambda>r. Some (ii_incident_id r)) rows in_id (t_incidents d)"
  shows "db_ok (d\<lparr>t_integrations := rows\<rparr>)"
  using assms by (simp add: db_ok_defs)

lemma set_audit_ok:
  assumes "db_ok d" "uniq al_id rows" "fkey al_user_id rows ur_id (t_users d)" "list_all (\<lambda>r. al_id r < q) rows"
  shows "db_ok (d\<lparr>t_audit := rows, seq_audit := q\<rparr>)"
  using assms by (simp add: db_ok_defs)

text \<open>The inserts.\<close>

lemmas set_table_ok = set_users_ok set_magic_links_ok set_sessions_ok set_audit_ok
  set_hub_invites_ok set_hub_peers_ok set_calls_ok set_transcripts_ok set_imports_ok
  set_sources_ok set_keys_ok set_shares_ok set_radio_sets_ok set_ptt_uploads_ok
  set_incidents_ok set_signals_ok set_integrations_ok set_tg_settings_ok set_templates_ok

lemma ins_users_ok [write_intros]: "db_ok d \<Longrightarrow> ins_users r d = Inr d' \<Longrightarrow> db_ok d'"
  by (auto simp: ins_users_def ref_defs db_ok_uniq db_ok_fkey
      intro!: set_users_ok dest: db_ok_seq split: if_splits option.splits)

lemma ins_magic_links_ok [write_intros]: "db_ok d \<Longrightarrow> ins_magic_links r d = Inr d' \<Longrightarrow> db_ok d'"
  by (auto simp: ins_magic_links_def ref_defs db_ok_uniq db_ok_fkey
      intro!: set_magic_links_ok dest: db_ok_seq split: if_splits option.splits)

lemma ins_sessions_ok [write_intros]: "db_ok d \<Longrightarrow> ins_sessions r d = Inr d' \<Longrightarrow> db_ok d'"
  by (auto simp: ins_sessions_def ref_defs db_ok_uniq db_ok_fkey
      intro!: set_sessions_ok dest: db_ok_seq split: if_splits option.splits)

lemma ins_audit_ok [write_intros]:
  assumes "db_ok d" "ins_audit r d = Inr d'"
  shows "db_ok d'"
proof -
  from assms(2) have d': "d' = d\<lparr>t_audit := t_audit d @ [r\<lparr>al_id := seq_audit d\<rparr>], seq_audit := seq_audit d + 1\<rparr>"
    and refs: "user_ref_ok d (al_user_id r)"
    by (simp_all add: ins_audit_def split: if_splits)
  show ?thesis
    unfolding d' using refs assms(1) db_ok_fresh(2) [OF assms(1)] db_ok_seq_next(2) [OF assms(1)]
    by (intro set_audit_ok) (auto simp: ref_defs db_ok_uniq db_ok_fkey split: option.splits)
qed

lemma ins_hub_invites_ok [write_intros]: "db_ok d \<Longrightarrow> ins_hub_invites r d = Inr d' \<Longrightarrow> db_ok d'"
  by (auto simp: ins_hub_invites_def ref_defs db_ok_uniq db_ok_fkey
      intro!: set_hub_invites_ok dest: db_ok_seq split: if_splits option.splits)

lemma ins_hub_peers_ok [write_intros]: "db_ok d \<Longrightarrow> ins_hub_peers r d = Inr d' \<Longrightarrow> db_ok d'"
  by (auto simp: ins_hub_peers_def ref_defs db_ok_uniq db_ok_fkey
      intro!: set_hub_peers_ok dest: db_ok_seq split: if_splits option.splits)

lemma ins_calls_ok [write_intros]:
  assumes "db_ok d" "ins_calls r d = Inr d'"
  shows "db_ok d'"
proof -
  from assms(2) have d': "d' = d\<lparr>t_calls := t_calls d @ [r\<lparr>cr_id := seq_calls d\<rparr>], seq_calls := seq_calls d + 1\<rparr>"
    and refs: "user_ref_ok d (cr_user_id r)" "user_ref_ok d (cr_sender_user_id r)"
      "\<not> (case cr_source_id r of None \<Rightarrow> False | Some s \<Rightarrow> \<not> source_exists d s)"
    by (simp_all add: ins_calls_def split: if_splits)
  show ?thesis
    unfolding d' using refs assms(1) db_ok_fresh(1) [OF assms(1)] db_ok_seq_next(1) [OF assms(1)]
    by (intro set_calls_ok) (auto simp: ref_defs db_ok_uniq db_ok_fkey split: option.splits)
qed

lemma ins_transcripts_ok [write_intros]: "db_ok d \<Longrightarrow> ins_transcripts r d = Inr d' \<Longrightarrow> db_ok d'"
  by (auto simp: ins_transcripts_def ref_defs db_ok_uniq db_ok_fkey
      intro!: set_transcripts_ok dest: db_ok_seq split: if_splits option.splits)

lemma ins_imports_ok [write_intros]: "db_ok d \<Longrightarrow> ins_imports r d = Inr d' \<Longrightarrow> db_ok d'"
  by (auto simp: ins_imports_def ref_defs db_ok_uniq db_ok_fkey
      intro!: set_imports_ok dest: db_ok_seq split: if_splits option.splits)

lemma ins_sources_ok [write_intros]: "db_ok d \<Longrightarrow> ins_sources r d = Inr d' \<Longrightarrow> db_ok d'"
  by (auto simp: ins_sources_def ref_defs db_ok_uniq db_ok_fkey
      intro!: set_sources_ok dest: db_ok_seq split: if_splits option.splits)

lemma ins_keys_ok [write_intros]: "db_ok d \<Longrightarrow> ins_keys r d = Inr d' \<Longrightarrow> db_ok d'"
  by (auto simp: ins_keys_def ref_defs db_ok_uniq db_ok_fkey
      intro!: set_keys_ok dest: db_ok_seq split: if_splits option.splits)

lemma ins_shares_ok [write_intros]: "db_ok d \<Longrightarrow> ins_shares r d = Inr d' \<Longrightarrow> db_ok d'"
  by (auto simp: ins_shares_def ref_defs db_ok_uniq db_ok_fkey
      intro!: set_shares_ok dest: db_ok_seq split: if_splits option.splits)

lemma ins_radio_sets_ok [write_intros]: "db_ok d \<Longrightarrow> ins_radio_sets r d = Inr d' \<Longrightarrow> db_ok d'"
  by (auto simp: ins_radio_sets_def ref_defs db_ok_uniq db_ok_fkey share_token_free_def uniq_opt_append1
      intro!: set_radio_sets_ok dest: db_ok_seq split: if_splits option.splits)

lemma ins_ptt_uploads_ok [write_intros]: "db_ok d \<Longrightarrow> ins_ptt_uploads r d = Inr d' \<Longrightarrow> db_ok d'"
  by (auto simp: ins_ptt_uploads_def ref_defs db_ok_uniq db_ok_fkey
      intro!: set_ptt_uploads_ok dest: db_ok_seq split: if_splits option.splits)

lemma ins_incidents_ok [write_intros]: "db_ok d \<Longrightarrow> ins_incidents r d = Inr d' \<Longrightarrow> db_ok d'"
  by (auto simp: ins_incidents_def ref_defs db_ok_uniq db_ok_fkey
      intro!: set_incidents_ok dest: db_ok_seq split: if_splits option.splits)

lemma ins_signals_ok [write_intros]: "db_ok d \<Longrightarrow> ins_signals r d = Inr d' \<Longrightarrow> db_ok d'"
  by (auto simp: ins_signals_def ref_defs db_ok_uniq db_ok_fkey
      intro!: set_signals_ok dest: db_ok_seq split: if_splits option.splits)

lemma ins_integrations_ok [write_intros]: "db_ok d \<Longrightarrow> ins_integrations r d = Inr d' \<Longrightarrow> db_ok d'"
  by (auto simp: ins_integrations_def ref_defs db_ok_uniq db_ok_fkey
      intro!: set_integrations_ok dest: db_ok_seq split: if_splits option.splits)

text \<open>The deletes: what still references a deleted row blocks the delete, is deleted too, or is cleared.\<close>

lemma fkey_del_restrict:
  "fkey f rows k ps \<Longrightarrow> \<not> list_ex (refd f (map k (filter P ps))) rows \<Longrightarrow> fkey f rows k (sql_delete P ps)"
  by (fastforce simp: fkey_iff refd_def list_ex_iff)

lemma fkey_del_cascade:
  "fkey f rows k ps \<Longrightarrow>
     fkey f (sql_delete (refd f (map k (filter P ps))) rows) k (sql_delete P ps)"
  by (fastforce simp: fkey_iff refd_def)

lemma fkey_del_set_null:
  assumes "fkey f rows k ps" "\<And>r. f (g r) = None"
  shows "fkey f (sql_update (refd f (map k (filter P ps))) g rows) k (sql_delete P ps)"
  using assms by (fastforce simp: fkey_iff refd_def set_sql_update)

lemma del_users_ok [write_intros]: "db_ok d \<Longrightarrow> del_users P d = Inr d' \<Longrightarrow> db_ok d'"
  by (auto simp: del_users_def Let_def users_referenced_def db_ok_defs fkey_del_restrict
      fkey_del_cascade fkey_del_set_null key_simps split: if_splits)

lemma del_sources_ok [write_intros]: "db_ok d \<Longrightarrow> del_sources P d = Inr d' \<Longrightarrow> db_ok d'"
  by (auto simp: del_sources_def Let_def db_ok_defs fkey_del_restrict
      fkey_del_cascade split: if_splits)

lemma del_calls_ok [write_intros]: "db_ok d \<Longrightarrow> db_ok (del_calls P d)"
  by (simp add: del_calls_def Let_def db_ok_defs fkey_del_cascade list_all_iff)

lemma del_radio_sets_ok [write_intros]: "db_ok d \<Longrightarrow> db_ok (del_radio_sets P d)"
  by (simp add: del_radio_sets_def Let_def db_ok_defs fkey_del_set_null key_simps)

lemma del_incidents_ok [write_intros]: "db_ok d \<Longrightarrow> db_ok (del_incidents P d)"
  by (simp add: del_incidents_def Let_def db_ok_defs fkey_del_cascade)

lemma refd_ids: "refd f (map k (filter P ps)) r \<longleftrightarrow> (\<exists>p \<in> set ps. P p \<and> f r = Some (k p))"
  by (auto simp: refd_def split: option.splits)

lemma fkey_no_ref: "fkey f rows k ps \<Longrightarrow> x \<notin> k ` set ps \<Longrightarrow> \<not> list_ex (refd f [x]) rows"
  by (auto simp: fkey_iff refd_def list_ex_iff split: option.splits)

text \<open>Updates that keep the keys of a row, and deletes from tables nothing references.\<close>

lemma upd_users_ok [write_intros]:
  assumes "db_ok d" "\<And>r. P r \<Longrightarrow> ur_id (f r) = ur_id r \<and> ur_email (f r) = ur_email r"
  shows "db_ok (d\<lparr>t_users := sql_update P f (t_users d)\<rparr>)"
  using assms by (intro set_users_ok) (simp_all add: key_simps db_ok_uniq db_ok_fkey)

lemma upd_magic_links_ok [write_intros]:
  assumes "db_ok d" "\<And>r. P r \<Longrightarrow> ml_token (f r) = ml_token r \<and> ml_user_id (f r) = ml_user_id r"
  shows "db_ok (d\<lparr>t_magic_links := sql_update P f (t_magic_links d)\<rparr>)"
  using assms by (intro set_magic_links_ok) (simp_all add: key_simps db_ok_uniq db_ok_fkey)

lemma upd_sessions_ok [write_intros]:
  assumes "db_ok d" "\<And>r. P r \<Longrightarrow> ss_token (f r) = ss_token r \<and> ss_user_id (f r) = ss_user_id r"
  shows "db_ok (d\<lparr>t_sessions := sql_update P f (t_sessions d)\<rparr>)"
  using assms by (intro set_sessions_ok) (simp_all add: key_simps db_ok_uniq db_ok_fkey)

lemma upd_hub_invites_ok [write_intros]:
  assumes "db_ok d" "\<And>r. P r \<Longrightarrow> hi_id (f r) = hi_id r \<and> hi_token (f r) = hi_token r \<and> hi_created_by_user_id (f r) = hi_created_by_user_id r"
  shows "db_ok (d\<lparr>t_hub_invites := sql_update P f (t_hub_invites d)\<rparr>)"
  using assms by (intro set_hub_invites_ok) (simp_all add: key_simps db_ok_uniq db_ok_fkey)

lemma upd_hub_peers_ok [write_intros]:
  assumes "db_ok d" "\<And>r. P r \<Longrightarrow> hp_id (f r) = hp_id r \<and> hp_hub_id (f r) = hp_hub_id r"
  shows "db_ok (d\<lparr>t_hub_peers := sql_update P f (t_hub_peers d)\<rparr>)"
  using assms by (intro set_hub_peers_ok) (simp_all add: key_simps db_ok_uniq db_ok_fkey)

lemma upd_tg_settings_ok [write_intros]:
  assumes "db_ok d" "\<And>r. P r \<Longrightarrow> ts_talkgroup (f r) = ts_talkgroup r"
  shows "db_ok (d\<lparr>t_tg_settings := sql_update P f (t_tg_settings d)\<rparr>)"
  using assms by (intro set_tg_settings_ok) (simp_all add: key_simps db_ok_uniq db_ok_fkey)

lemma upd_transcripts_ok [write_intros]:
  assumes "db_ok d" "\<And>r. P r \<Longrightarrow> ct_call_id (f r) = ct_call_id r"
  shows "db_ok (d\<lparr>t_transcripts := sql_update P f (t_transcripts d)\<rparr>)"
  using assms by (intro set_transcripts_ok) (simp_all add: key_simps db_ok_uniq db_ok_fkey)

lemma upd_sources_ok [write_intros]:
  assumes "db_ok d" "\<And>r. P r \<Longrightarrow> sr_id (f r) = sr_id r \<and> sr_user_id (f r) = sr_user_id r"
  shows "db_ok (d\<lparr>t_sources := sql_update P f (t_sources d)\<rparr>)"
  using assms by (intro set_sources_ok) (simp_all add: key_simps db_ok_uniq db_ok_fkey)

lemma upd_keys_ok [write_intros]:
  assumes "db_ok d" "\<And>r. P r \<Longrightarrow> ky_id (f r) = ky_id r \<and> ky_api_key (f r) = ky_api_key r \<and> ky_source_id (f r) = ky_source_id r \<and> ky_user_id (f r) = ky_user_id r"
  shows "db_ok (d\<lparr>t_keys := sql_update P f (t_keys d)\<rparr>)"
  using assms by (intro set_keys_ok) (simp_all add: key_simps db_ok_uniq db_ok_fkey)

lemma upd_radio_sets_ok [write_intros]:
  assumes "db_ok d" "\<And>r. P r \<Longrightarrow> rr_id (f r) = rr_id r \<and> rr_user_id (f r) = rr_user_id r \<and> rr_share_token (f r) = rr_share_token r"
  shows "db_ok (d\<lparr>t_radio_sets := sql_update P f (t_radio_sets d)\<rparr>)"
  using assms by (intro set_radio_sets_ok) (simp_all add: key_simps db_ok_uniq db_ok_fkey)

lemma upd_incidents_ok [write_intros]:
  assumes "db_ok d" "\<And>r. P r \<Longrightarrow> in_id (f r) = in_id r \<and> in_radio_set_id (f r) = in_radio_set_id r \<and> in_opened_by_user_id (f r) = in_opened_by_user_id r"
  shows "db_ok (d\<lparr>t_incidents := sql_update P f (t_incidents d)\<rparr>)"
  using assms by (intro set_incidents_ok) (simp_all add: key_simps db_ok_uniq db_ok_fkey)

lemma upd_signals_ok [write_intros]:
  assumes "db_ok d" "\<And>r. P r \<Longrightarrow> sg_id (f r) = sg_id r \<and> sg_source (f r) = sg_source r \<and> sg_external_id (f r) = sg_external_id r"
  shows "db_ok (d\<lparr>t_signals := sql_update P f (t_signals d)\<rparr>)"
  using assms by (intro set_signals_ok) (simp_all add: key_simps db_ok_uniq db_ok_fkey)

lemma upd_integrations_ok [write_intros]:
  assumes "db_ok d" "\<And>r. P r \<Longrightarrow> ii_id (f r) = ii_id r \<and> ii_incident_id (f r) = ii_incident_id r \<and> ii_kind (f r) = ii_kind r"
  shows "db_ok (d\<lparr>t_integrations := sql_update P f (t_integrations d)\<rparr>)"
  using assms by (intro set_integrations_ok) (simp_all add: key_simps db_ok_uniq db_ok_fkey)

lemma del_magic_links_ok [write_intros]:
  "db_ok d \<Longrightarrow> db_ok (d\<lparr>t_magic_links := sql_delete P (t_magic_links d)\<rparr>)"
  by (intro set_magic_links_ok) (simp_all add: db_ok_uniq db_ok_fkey)

lemma del_sessions_ok [write_intros]:
  "db_ok d \<Longrightarrow> db_ok (d\<lparr>t_sessions := sql_delete P (t_sessions d)\<rparr>)"
  by (intro set_sessions_ok) (simp_all add: db_ok_uniq db_ok_fkey)

lemma del_hub_peers_ok [write_intros]:
  "db_ok d \<Longrightarrow> db_ok (d\<lparr>t_hub_peers := sql_delete P (t_hub_peers d)\<rparr>)"
  by (intro set_hub_peers_ok) (simp_all add: db_ok_uniq db_ok_fkey)

lemma del_tg_settings_ok [write_intros]:
  "db_ok d \<Longrightarrow> db_ok (d\<lparr>t_tg_settings := sql_delete P (t_tg_settings d)\<rparr>)"
  by (intro set_tg_settings_ok) (simp_all add: db_ok_uniq db_ok_fkey)

lemma del_keys_ok [write_intros]:
  "db_ok d \<Longrightarrow> db_ok (d\<lparr>t_keys := sql_delete P (t_keys d)\<rparr>)"
  by (intro set_keys_ok) (simp_all add: db_ok_uniq db_ok_fkey)

lemma del_shares_ok [write_intros]:
  "db_ok d \<Longrightarrow> db_ok (d\<lparr>t_shares := sql_delete P (t_shares d)\<rparr>)"
  by (intro set_shares_ok) (simp_all add: db_ok_uniq db_ok_fkey)

lemma del_ptt_uploads_ok [write_intros]:
  "db_ok d \<Longrightarrow> db_ok (d\<lparr>t_ptt_uploads := sql_delete P (t_ptt_uploads d)\<rparr>)"
  by (intro set_ptt_uploads_ok) (simp_all add: db_ok_uniq db_ok_fkey)

lemma del_imports_ok [write_intros]:
  "db_ok d \<Longrightarrow> db_ok (d\<lparr>t_imports := sql_delete P (t_imports d)\<rparr>)"
  by (intro set_imports_ok) (simp_all add: db_ok_uniq db_ok_fkey)

lemma clear_audit_ok [write_intros]:
  "db_ok d \<Longrightarrow> db_ok (d\<lparr>t_audit := sql_update P (\<lambda>r. r\<lparr>al_user_id := None\<rparr>) (t_audit d)\<rparr>)"
proof -
  assume d: "db_ok d"
  have "fk_user al_user_id (sql_update P (\<lambda>r. r\<lparr>al_user_id := None\<rparr>) (t_audit d)) d"
    using db_ok_fkey(3) [OF d] by (auto simp: fkey_iff set_sql_update)
  with d have "db_ok (d\<lparr>t_audit := sql_update P (\<lambda>r. r\<lparr>al_user_id := None\<rparr>) (t_audit d), seq_audit := seq_audit d\<rparr>)"
    by (intro set_audit_ok) (auto simp: key_simps db_ok_uniq list_all_iff set_sql_update dest: db_ok_seq)
  then show ?thesis by simp
qed

lemma clear_invites_ok [write_intros]:
  "db_ok d \<Longrightarrow> db_ok (d\<lparr>t_hub_invites := sql_update P (\<lambda>r. r\<lparr>hi_created_by_user_id := None\<rparr>) (t_hub_invites d)\<rparr>)"
proof -
  assume d: "db_ok d"
  have "fk_user hi_created_by_user_id (sql_update P (\<lambda>r. r\<lparr>hi_created_by_user_id := None\<rparr>) (t_hub_invites d)) d"
    using db_ok_fkey(4) [OF d] by (auto simp: fkey_iff set_sql_update)
  with d show ?thesis
    by (intro set_hub_invites_ok) (auto simp: key_simps db_ok_uniq)
qed

lemma set_hub_identity_ok [simp]: "db_ok (d\<lparr>t_hub_identity := x\<rparr>) = db_ok d"
  by (simp add: db_ok_defs)

lemma set_bot_status_ok [simp]: "db_ok (d\<lparr>t_bot_status := x\<rparr>) = db_ok d"
  by (simp add: db_ok_defs)

lemma set_seq_ptt_ok [simp]: "db_ok (d\<lparr>seq_ptt := x\<rparr>) = db_ok d"
  by (simp add: db_ok_defs)

end
