(* ===== verification/Contracts.thy ===== *)
theory Contracts
  imports Prelude
begin

text \<open>
  The contracts several components share, as locales: a token that can be redeemed once, a queue
  whose jobs are leased, a normaliser that maps any input into a fixed set of values, and a store
  whose operations keep an invariant. Each locale states what a provider promises and proves what a
  client may conclude over any sequence of operations; the component theories interpret them on
  the definitions that model the code.
\<close>

section \<open>Stores with an invariant\<close>

fun run :: "('o \<Rightarrow> 's \<Rightarrow> 's) \<Rightarrow> 'o list \<Rightarrow> 's \<Rightarrow> 's" where
  "run step [] s = s"
| "run step (x # xs) s = run step xs (step x s)"

lemma run_append: "run step (xs @ ys) s = run step ys (run step xs s)"
  by (induction xs arbitrary: s) auto

locale invariant_store =
  fixes inv :: "'s \<Rightarrow> bool"
    and step :: "'o \<Rightarrow> 's \<Rightarrow> 's"
  assumes step_inv: "inv s \<Longrightarrow> inv (step x s)"
begin

lemma run_inv: "inv s \<Longrightarrow> inv (run step xs s)"
  by (induction xs arbitrary: s) (auto intro: step_inv)

end

section \<open>Tokens that are redeemed once\<close>

datatype ('k, 'e, 'o) event = Redeem 'k 'e | Other 'o

fun event_step :: "('k \<Rightarrow> 'e \<Rightarrow> 's \<Rightarrow> bool \<times> 's) \<Rightarrow> ('o \<Rightarrow> 's \<Rightarrow> 's) \<Rightarrow> ('k, 'e, 'o) event \<Rightarrow> 's \<Rightarrow> 's" where
  "event_step redeem other (Redeem k e) s = snd (redeem k e s)"
| "event_step redeem other (Other x) s = other x s"

fun successes ::
  "('k \<Rightarrow> 'e \<Rightarrow> 's \<Rightarrow> bool \<times> 's) \<Rightarrow> ('o \<Rightarrow> 's \<Rightarrow> 's) \<Rightarrow> 'k \<Rightarrow> ('k, 'e, 'o) event list \<Rightarrow> 's \<Rightarrow> nat" where
  "successes redeem other k [] s = 0"
| "successes redeem other k (Redeem j e # es) s =
     (if j = k \<and> fst (redeem j e s) then 1 else 0) + successes redeem other k es (snd (redeem j e s))"
| "successes redeem other k (Other x # es) s = successes redeem other k es (other x s)"

text \<open>
  \<open>live k s\<close>: the token \<open>k\<close> can still be redeemed. \<open>issues x k\<close>: the operation \<open>x\<close> puts a fresh token
  \<open>k\<close> into the store.
\<close>

locale one_shot = invariant_store inv other
  for inv :: "'s \<Rightarrow> bool" and other :: "'o \<Rightarrow> 's \<Rightarrow> 's" +
  fixes redeem :: "'k \<Rightarrow> 'e \<Rightarrow> 's \<Rightarrow> bool \<times> 's"
    and live :: "'k \<Rightarrow> 's \<Rightarrow> bool"
    and issues :: "'o \<Rightarrow> 'k \<Rightarrow> bool"
  assumes redeem_inv: "inv s \<Longrightarrow> inv (snd (redeem k e s))"
    and redeem_live: "inv s \<Longrightarrow> fst (redeem k e s) \<Longrightarrow> live k s"
    and redeem_kills: "inv s \<Longrightarrow> fst (redeem k e s) \<Longrightarrow> \<not> live k (snd (redeem k e s))"
    and redeem_dead: "inv s \<Longrightarrow> \<not> live k s \<Longrightarrow> \<not> live k (snd (redeem j e s))"
    and other_dead: "inv s \<Longrightarrow> \<not> live k s \<Longrightarrow> \<not> issues x k \<Longrightarrow> \<not> live k (other x s)"
begin

lemma dead_never: "inv s \<Longrightarrow> \<not> live k s \<Longrightarrow> (\<And>x. Other x \<in> set es \<Longrightarrow> \<not> issues x k) \<Longrightarrow>
    successes redeem other k es s = 0"
proof (induction es arbitrary: s)
  case (Cons ev es)
  then show ?case
  proof (cases ev)
    case (Redeem j e)
    have "\<not> live k (snd (redeem j e s))" "inv (snd (redeem j e s))"
      by (rule redeem_dead [OF Cons.prems(1,2)], rule redeem_inv [OF Cons.prems(1)])
    moreover have "\<not> (j = k \<and> fst (redeem j e s))"
      using Cons.prems redeem_live by blast
    ultimately show ?thesis
      using Cons.IH [of "snd (redeem j e s)"] Cons.prems(3) Redeem by simp
  next
    case (Other x)
    then show ?thesis
      using Cons.prems other_dead step_inv by (auto intro!: Cons.IH)
  qed
qed simp

lemma at_most_once: "inv s \<Longrightarrow> (\<And>x. Other x \<in> set es \<Longrightarrow> \<not> issues x k) \<Longrightarrow>
    successes redeem other k es s \<le> 1"
proof (induction es arbitrary: s)
  case (Cons ev es)
  then show ?case
  proof (cases ev)
    case (Redeem j e)
    have inv': "inv (snd (redeem j e s))"
      using Cons.prems(1) by (rule redeem_inv)
    show ?thesis
    proof (cases "j = k \<and> fst (redeem j e s)")
      case True
      then have "successes redeem other k es (snd (redeem j e s)) = 0"
        using Cons.prems inv' redeem_kills [OF Cons.prems(1), of k e]
        by (intro dead_never) auto
      with True Redeem show ?thesis by simp
    next
      case False
      with Redeem Cons.IH [OF inv'] Cons.prems(2) show ?thesis by auto
    qed
  next
    case (Other x)
    with Cons show ?thesis
      using step_inv by auto
  qed
qed simp

end

section \<open>Normalisers\<close>

locale normaliser =
  fixes norm :: "'a \<Rightarrow> 'a"
    and canonical :: "'a \<Rightarrow> bool"
  assumes norm_canonical: "canonical (norm x)"
    and norm_fix: "canonical x \<Longrightarrow> norm x = x"
begin

lemma norm_idem: "norm (norm x) = norm x"
  using norm_canonical norm_fix by blast

lemma norm_eq_iff: "norm x = x \<longleftrightarrow> canonical x"
  using norm_canonical norm_fix by metis

end

section \<open>Leased jobs\<close>

text \<open>
  \<open>claim now w s\<close> hands at most one job to the worker \<open>w\<close>; \<open>leased j now s\<close> says that someone holds a
  lease on \<open>j\<close> that has not run out at \<open>now\<close>.
\<close>

fun claims :: "(int \<Rightarrow> 'w \<Rightarrow> 's \<Rightarrow> 'j option \<times> 's) \<Rightarrow> (int \<times> 'w) list \<Rightarrow> 's \<Rightarrow> 'j list" where
  "claims claim [] s = []"
| "claims claim ((now, w) # cs) s =
     (case fst (claim now w s) of None \<Rightarrow> [] | Some j \<Rightarrow> [j]) @ claims claim cs (snd (claim now w s))"

locale lease_queue =
  fixes inv :: "'s \<Rightarrow> bool"
    and claim :: "int \<Rightarrow> 'w \<Rightarrow> 's \<Rightarrow> 'j option \<times> 's"
    and leased :: "'j \<Rightarrow> int \<Rightarrow> 's \<Rightarrow> bool"
    and lease :: int
  assumes claim_inv: "inv s \<Longrightarrow> inv (snd (claim now w s))"
    and claim_free: "inv s \<Longrightarrow> fst (claim now w s) = Some j \<Longrightarrow> \<not> leased j now s"
    and claim_leases: "inv s \<Longrightarrow> fst (claim now w s) = Some j \<Longrightarrow> now \<le> t \<Longrightarrow> t \<le> now + lease \<Longrightarrow>
        leased j t (snd (claim now w s))"
    and claim_keeps: "inv s \<Longrightarrow> leased j t s \<Longrightarrow> now \<le> t \<Longrightarrow> leased j t (snd (claim now w s))"
    and leased_mono: "leased j t s \<Longrightarrow> t' \<le> t \<Longrightarrow> leased j t' s"
begin

lemma leased_not_claimed:
  "inv s \<Longrightarrow> leased j t s \<Longrightarrow> list_all (\<lambda>c. fst c \<le> t) cs \<Longrightarrow> j \<notin> set (claims claim cs s)"
proof (induction cs arbitrary: s)
  case (Cons c cs)
  obtain now w where c: "c = (now, w)" by (cases c)
  have t: "now \<le> t" using Cons.prems(3) c by simp
  have "fst (claim now w s) \<noteq> Some j"
    using claim_free [OF Cons.prems(1), of now w j] leased_mono [OF Cons.prems(2) t] by blast
  moreover have "j \<notin> set (claims claim cs (snd (claim now w s)))"
    using Cons.prems by (intro Cons.IH claim_inv claim_keeps t) auto
  ultimately show ?case by (auto simp: c split: option.splits)
qed simp

lemma claims_distinct:
  "inv s \<Longrightarrow> list_all (\<lambda>c. t0 \<le> fst c \<and> fst c \<le> t0 + lease) cs \<Longrightarrow> sorted (map fst cs) \<Longrightarrow>
   distinct (claims claim cs s)"
proof (induction cs arbitrary: s)
  case (Cons c cs)
  obtain now w where c: "c = (now, w)" by (cases c)
  have rest: "distinct (claims claim cs (snd (claim now w s)))"
    using Cons.prems by (intro Cons.IH claim_inv) auto
  show ?case
  proof (cases "fst (claim now w s)")
    case (Some j)
    have "leased j (t0 + lease) (snd (claim now w s))"
      using Cons.prems c by (intro claim_leases [OF _ Some]) auto
    then have "j \<notin> set (claims claim cs (snd (claim now w s)))"
      using Cons.prems by (intro leased_not_claimed claim_inv) (auto simp: list_all_iff)
    with rest Some c show ?thesis by simp
  qed (use rest c in simp)
qed simp

end

section \<open>Feeds read through a cursor\<close>

text \<open>
  \<open>page since s\<close> returns the next few items after the cursor. \<open>drain k\<close> asks for up to \<open>k\<close> pages, moving
  the cursor to the last item of each.
\<close>

fun drain :: "(int \<Rightarrow> 'a list) \<Rightarrow> ('a \<Rightarrow> int) \<Rightarrow> nat \<Rightarrow> int \<Rightarrow> 'a list" where
  "drain page key 0 since = []"
| "drain page key (Suc k) since =
     (case page since of [] \<Rightarrow> [] | x # xs \<Rightarrow> (x # xs) @ drain page key k (key (last (x # xs))))"

lemma filter_after_take:
  assumes "sorted_wrt (\<lambda>x y. key x < (key y :: int)) xs" "take n xs \<noteq> []"
  shows "filter (\<lambda>x. key x > key (last (take n xs))) xs = drop n xs"
proof -
  let ?m = "key (last (take n xs))"
  have split: "sorted_wrt (\<lambda>x y. key x < key y) (take n xs @ drop n xs)"
    using assms(1) by simp
  have "key x \<le> ?m" if "x \<in> set (take n xs)" for x
  proof -
    have "sorted_wrt (\<lambda>x y. key x < key y) (butlast (take n xs) @ [last (take n xs)])"
      using split assms(2) by (simp add: sorted_wrt_append)
    moreover have "x \<in> set (butlast (take n xs) @ [last (take n xs)])"
      using that assms(2) by simp
    ultimately show ?thesis by (auto simp: sorted_wrt_append)
  qed
  then have "filter (\<lambda>x. key x > ?m) (take n xs) = []"
    by (force simp: filter_empty_conv)
  moreover have "filter (\<lambda>x. key x > ?m) (drop n xs) = drop n xs"
  proof -
    have "\<forall>x \<in> set (take n xs). \<forall>y \<in> set (drop n xs). key x < key y"
      using split unfolding sorted_wrt_append by blast
    then show ?thesis
      using last_in_set [OF assms(2)] unfolding filter_id_conv by blast
  qed
  ultimately show ?thesis
    by (metis append_self_conv2 append_take_drop_id filter_append)
qed

locale cursor_feed =
  fixes inv :: "'s \<Rightarrow> bool"
    and page :: "'s \<Rightarrow> int \<Rightarrow> 'a list"
    and key :: "'a \<Rightarrow> int"
    and items :: "'s \<Rightarrow> 'a list"
    and size_limit :: nat
  assumes page_eq: "inv s \<Longrightarrow> page s since = take size_limit (filter (\<lambda>x. key x > since) (items s))"
    and page_size: "0 < size_limit"
    and items_sorted: "inv s \<Longrightarrow> sorted_wrt (\<lambda>x y. key x < key y) (items s)"
begin

lemma drain_complete:
  assumes "inv s" "length (filter (\<lambda>x. key x > since) (items s)) \<le> k * size_limit"
  shows "drain (page s) key k since = filter (\<lambda>x. key x > since) (items s)"
  using assms(2)
proof (induction k arbitrary: since)
  case (Suc k)
  let ?xs = "filter (\<lambda>x. key x > since) (items s)"
  show ?case
  proof (cases "page s since")
    case Nil
    then show ?thesis using page_eq [OF assms(1)] page_size by simp
  next
    case (Cons y ys)
    let ?m = "key (last (take size_limit ?xs))"
    have ne: "take size_limit ?xs \<noteq> []" using Cons page_eq [OF assms(1)] by simp
    have srt: "sorted_wrt (\<lambda>x y. key x < key y) ?xs"
      using items_sorted [OF assms(1)] by (rule sorted_wrt_filter)
    have "last (take size_limit ?xs) \<in> set ?xs" using ne by (meson in_set_takeD last_in_set)
    then have "since < ?m" by simp
    then have "filter (\<lambda>x. key x > ?m) (items s) = filter (\<lambda>x. key x > ?m) ?xs"
      by (auto simp: filter_filter intro: filter_cong)
    also have "\<dots> = drop size_limit ?xs" by (rule filter_after_take [OF srt ne])
    finally have rest: "filter (\<lambda>x. key x > ?m) (items s) = drop size_limit ?xs" .
    have "length (drop size_limit ?xs) \<le> k * size_limit" using Suc.prems by simp
    then have "drain (page s) key k ?m = drop size_limit ?xs"
      using Suc.IH [of ?m] rest by simp
    moreover have "drain (page s) key (Suc k) since = take size_limit ?xs @ drain (page s) key k ?m"
      using Cons page_eq [OF assms(1), of since] by simp
    ultimately show ?thesis by simp
  qed
qed simp

end

end
