(* ===== verification/Accounts.thy ===== *)
theory Accounts
  imports Writes Contracts
begin

text \<open>
  \<open>server/internal/database/auth.go\<close>, \<open>helpers.go\<close> and \<open>audit.go\<close>: users, magic links (a link token and a
  six-digit code on the same row), sessions, passwords, account deletion and the audit log.

  The clock and the random source are arguments: \<open>ms\<close> is a clock reading in milliseconds, \<open>now\<close> one in
  seconds, and fresh tokens and codes come in as the strings \<open>randomToken\<close> and \<open>randomNumericCode\<close>
  return. An operation reads the clock once. Times to live are whole seconds. \<open>bcrypt\<close> is outside the
  repository, so comparing and hashing passwords are function arguments.
\<close>

section \<open>Helpers\<close>

definition normalize_email :: "string \<Rightarrow> string" where
  "normalize_email e = ToLower (TrimSpace e)"

definition nullableString :: "string \<Rightarrow> string option" where
  "nullableString v = (if TrimSpace v = [] then None else Some v)"

definition IsFederatedSourceID :: "string \<Rightarrow> bool" where
  "IsFederatedSourceID s \<longleftrightarrow> HasPrefix (TrimSpace s) ''remote_''"

text \<open>
  \<open>randomNumericCode\<close>: \<open>max\<close> and the eight random bytes are \<open>uint64\<close>; \<open>n % max\<close> panics when \<open>max\<close> is 0.
\<close>

fun pow10_loop :: "nat \<Rightarrow> 64 word \<Rightarrow> 64 word" where
  "pow10_loop 0 m = m"
| "pow10_loop (Suc i) m = pow10_loop i (m * 10)"

definition pad_zeros :: "nat \<Rightarrow> string \<Rightarrow> string" where
  "pad_zeros w s = replicate (w - length s) (CHR ''0'') @ s"

definition randomNumericCode :: "int \<Rightarrow> 64 word \<Rightarrow> string option" where
  "randomNumericCode digits rnd =
     (let digits = (if digits \<le> 0 then 6 else digits); max = pow10_loop (nat digits) 1 in
      if max = 0 then None else Some (pad_zeros (nat digits) (dec_nat (unat (rnd mod max)))))"

section \<open>Users\<close>

record User =
  u_ID :: string
  u_Email :: string
  u_Role :: string
  u_Status :: string
  u_TxEnabled :: bool
  u_DispatcherEnabled :: bool
  u_PasswordConfigured :: bool
  u_CreatedAt :: int
  u_UpdatedAt :: int

text \<open>The column lists the queries select: without and with the capability flags.\<close>

definition scan_user_basic :: "users_row \<Rightarrow> User" where
  "scan_user_basic r = \<lparr>u_ID = ur_id r, u_Email = ur_email r, u_Role = ur_role r, u_Status = ur_status r,
     u_TxEnabled = False, u_DispatcherEnabled = False, u_PasswordConfigured = False,
     u_CreatedAt = ur_created_at r, u_UpdatedAt = ur_updated_at r\<rparr>"

definition scan_user_flags :: "users_row \<Rightarrow> User" where
  "scan_user_flags r = (scan_user_basic r)\<lparr>u_TxEnabled := ur_tx_enabled r,
     u_DispatcherEnabled := ur_dispatcher_enabled r\<rparr>"

definition btrim_nonempty :: "string \<Rightarrow> bool" where
  "btrim_nonempty s \<longleftrightarrow> list_ex (\<lambda>c. c \<noteq> CHR '' '') s"

definition scan_user_full :: "users_row \<Rightarrow> User" where
  "scan_user_full r = (scan_user_flags r)\<lparr>u_PasswordConfigured :=
     (case ur_password_hash r of None \<Rightarrow> False | Some h \<Rightarrow> btrim_nonempty h)\<rparr>"

definition find_user :: "string \<Rightarrow> db \<Rightarrow> users_row option" where
  "find_user uid d = List.find (\<lambda>r. ur_id r = uid) (t_users d)"

definition find_user_by_email :: "string \<Rightarrow> db \<Rightarrow> users_row option" where
  "find_user_by_email e d = List.find (\<lambda>r. ur_email r = e) (t_users d)"

definition new_user_row :: "string \<Rightarrow> string \<Rightarrow> string \<Rightarrow> string \<Rightarrow> string option \<Rightarrow> int \<Rightarrow> users_row" where
  "new_user_row i e role status hash now = \<lparr>ur_id = i, ur_email = e, ur_role = role, ur_status = status,
     ur_created_at = now, ur_updated_at = now, ur_tx_enabled = False, ur_dispatcher_enabled = False,
     ur_password_hash = hash\<rparr>"

definition user_id_of_millis :: "int \<Rightarrow> string" where
  "user_id_of_millis ms = ''usr_'' @ format_int ms"

definition EnsureUserByEmail :: "string \<Rightarrow> int \<Rightarrow> db \<Rightarrow> User dbres" where
  "EnsureUserByEmail email ms d =
     (let now = ms div 1000; e = normalize_email email;
          status = (if auto_approve_users d then ''active'' else ''pending'');
          (role, status) = (if t_users d = [] then (''admin'', ''active'') else (''user'', status));
          ins = (if e \<in> ur_email ` set (t_users d) then Inr d
                 else ins_users (new_user_row (user_id_of_millis ms) e role status None now) d)
      in case ins of
           Inl err \<Rightarrow> (Inl err, d)
         | Inr d' \<Rightarrow> (case find_user_by_email e d' of
             None \<Rightarrow> (Inl NoRows, d')
           | Some r \<Rightarrow> (Inr (scan_user_basic r), d')))"

text \<open>
  \<open>CreateMagicLinkToken\<close> also returns the user next to \<open>ErrPendingUser\<close>: the first component.
\<close>

definition CreateMagicLinkToken ::
  "string \<Rightarrow> int \<Rightarrow> int \<Rightarrow> string \<Rightarrow> string \<Rightarrow> db \<Rightarrow> User option \<times> (string \<times> string) dbres" where
  "CreateMagicLinkToken email ttl ms token code d =
     (case EnsureUserByEmail email ms d of
        (Inl err, d') \<Rightarrow> (None, Inl err, d')
      | (Inr u, d') \<Rightarrow>
          if u_Status u = ''pending'' then (Some u, Inl PendingUser, d')
          else if u_Status u \<noteq> ''active'' then (None, Inl InactiveUser, d')
          else (let now = ms div 1000 in
            case ins_magic_links \<lparr>ml_token = token, ml_user_id = u_ID u, ml_email = u_Email u,
                   ml_expires_at = now + ttl, ml_used_at = 0, ml_created_at = now, ml_code = code\<rparr> d' of
              Inl err \<Rightarrow> (None, Inl err, d')
            | Inr d'' \<Rightarrow> (Some u, Inr (token, code), d'')))"

section \<open>Redeeming a magic link\<close>

text \<open>
  The rest of both verification transactions once the link row is known: mark it used, insert the
  session, read the user, check its status, commit. Every early return rolls back to \<open>d\<close>.
\<close>

definition consume_link :: "string \<Rightarrow> string \<Rightarrow> int \<Rightarrow> int \<Rightarrow> string \<Rightarrow> db \<Rightarrow> (User \<times> string) dbres" where
  "consume_link token uid now ttl sess d =
     (let d1 = d\<lparr>t_magic_links := sql_update (\<lambda>r. ml_token r = token) (\<lambda>r. r\<lparr>ml_used_at := now\<rparr>) (t_magic_links d)\<rparr>
      in case ins_sessions \<lparr>ss_token = sess, ss_user_id = uid, ss_expires_at = now + ttl,
                ss_revoked_at = 0, ss_created_at = now\<rparr> d1 of
           Inl err \<Rightarrow> (Inl err, d)
         | Inr d2 \<Rightarrow> (case find_user uid d2 of
             None \<Rightarrow> (Inl NoRows, d)
           | Some r \<Rightarrow>
               if ur_status r = ''pending'' then (Inl PendingUser, d)
               else if ur_status r \<noteq> ''active'' then (Inl InactiveUser, d)
               else (Inr (scan_user_basic r, sess), d2)))"

definition redeem_row :: "magic_row \<Rightarrow> int \<Rightarrow> int \<Rightarrow> string \<Rightarrow> db \<Rightarrow> (User \<times> string) dbres" where
  "redeem_row l now ttl sess d =
     (if ml_used_at l > 0 \<or> ml_expires_at l < now then (Inl NoRows, d)
      else consume_link (ml_token l) (ml_user_id l) now ttl sess d)"

definition VerifyMagicLinkToken :: "string \<Rightarrow> int \<Rightarrow> int \<Rightarrow> string \<Rightarrow> db \<Rightarrow> (User \<times> string) dbres" where
  "VerifyMagicLinkToken token now ttl sess d =
     (case List.find (\<lambda>r. ml_token r = token) (t_magic_links d) of
        None \<Rightarrow> (Inl NoRows, d)
      | Some l \<Rightarrow> redeem_row l now ttl sess d)"

text \<open>The row the code query selects: the newest link with this email and code.\<close>

definition code_link :: "string \<Rightarrow> string \<Rightarrow> db \<Rightarrow> magic_row option" where
  "code_link e c d =
     (case order_desc ml_created_at (filter (\<lambda>r. ml_email r = e \<and> ml_code r = c) (t_magic_links d)) of
        [] \<Rightarrow> None | l # _ \<Rightarrow> Some l)"

definition VerifyMagicLinkCode :: "string \<Rightarrow> string \<Rightarrow> int \<Rightarrow> int \<Rightarrow> string \<Rightarrow> db \<Rightarrow> (User \<times> string) dbres" where
  "VerifyMagicLinkCode email code now ttl sess d =
     (let e = normalize_email email; c = TrimSpace code in
      if e = [] \<or> c = [] then (Inl NoRows, d)
      else case code_link e c d of
             None \<Rightarrow> (Inl NoRows, d)
           | Some l \<Rightarrow> redeem_row l now ttl sess d)"

section \<open>Sessions\<close>

definition session_valid :: "int \<Rightarrow> session_row \<Rightarrow> bool" where
  "session_valid now s \<longleftrightarrow> ss_revoked_at s = 0 \<and> ss_expires_at s \<ge> now"

definition GetUserBySessionToken :: "string \<Rightarrow> int \<Rightarrow> db \<Rightarrow> User option" where
  "GetUserBySessionToken token now d =
     (case List.find (\<lambda>s. ss_token s = token \<and> session_valid now s) (t_sessions d) of
        None \<Rightarrow> None
      | Some s \<Rightarrow> map_option scan_user_flags
          (List.find (\<lambda>r. ur_id r = ss_user_id s \<and> ur_status r = ''active'') (t_users d)))"

definition RevokeSession :: "string \<Rightarrow> int \<Rightarrow> db \<Rightarrow> db" where
  "RevokeSession token now d =
     d\<lparr>t_sessions := sql_update (\<lambda>s. ss_token s = token) (\<lambda>s. s\<lparr>ss_revoked_at := now\<rparr>) (t_sessions d)\<rparr>"

definition ExtendSession :: "string \<Rightarrow> int \<Rightarrow> int \<Rightarrow> db \<Rightarrow> int option \<times> db" where
  "ExtendSession token now ttl d =
     (let P = (\<lambda>s. ss_token s = token \<and> ss_revoked_at s = 0);
          d' = d\<lparr>t_sessions := sql_update P (\<lambda>s. s\<lparr>ss_expires_at := now + ttl\<rparr>) (t_sessions d)\<rparr> in
      if sql_count P (t_sessions d) = 0 then (None, d') else (Some (now + ttl), d'))"

definition GetSessionExpiresAt :: "string \<Rightarrow> db \<Rightarrow> int option" where
  "GetSessionExpiresAt token d =
     map_option ss_expires_at (List.find (\<lambda>s. ss_token s = token \<and> ss_revoked_at s = 0) (t_sessions d))"

definition CreateUserSession :: "string \<Rightarrow> int \<Rightarrow> int \<Rightarrow> string \<Rightarrow> db \<Rightarrow> string dbres" where
  "CreateUserSession uid now ttl sess d =
     (case ins_sessions \<lparr>ss_token = sess, ss_user_id = uid, ss_expires_at = now + ttl,
             ss_revoked_at = 0, ss_created_at = now\<rparr> d of
        Inl err \<Rightarrow> (Inl err, d)
      | Inr d' \<Rightarrow> (Inr sess, d'))"

section \<open>Managing users\<close>

definition GetUserByID :: "string \<Rightarrow> db \<Rightarrow> User option" where
  "GetUserByID uid d = map_option scan_user_full (find_user uid d)"

definition ListUsers :: "db \<Rightarrow> User list" where
  "ListUsers d = map scan_user_full (order_asc ur_created_at (t_users d))"

definition update_user :: "string \<Rightarrow> (users_row \<Rightarrow> users_row) \<Rightarrow> db \<Rightarrow> bool \<times> db" where
  "update_user uid f d =
     (sql_count (\<lambda>r. ur_id r = uid) (t_users d) > 0,
      d\<lparr>t_users := sql_update (\<lambda>r. ur_id r = uid) f (t_users d)\<rparr>)"

definition UpdateUserRoleStatus :: "string \<Rightarrow> string \<Rightarrow> string \<Rightarrow> int \<Rightarrow> db \<Rightarrow> bool \<times> db" where
  "UpdateUserRoleStatus uid role status now =
     update_user uid (\<lambda>r. r\<lparr>ur_role := role, ur_status := status, ur_updated_at := now\<rparr>)"

definition SetUserTxEnabled :: "string \<Rightarrow> bool \<Rightarrow> int \<Rightarrow> db \<Rightarrow> bool \<times> db" where
  "SetUserTxEnabled uid enabled now =
     update_user uid (\<lambda>r. r\<lparr>ur_tx_enabled := enabled, ur_updated_at := now\<rparr>)"

definition SetUserDispatcherEnabled :: "string \<Rightarrow> bool \<Rightarrow> int \<Rightarrow> db \<Rightarrow> bool \<times> db" where
  "SetUserDispatcherEnabled uid enabled now =
     update_user uid (\<lambda>r. r\<lparr>ur_dispatcher_enabled := enabled, ur_updated_at := now\<rparr>)"

text \<open>
  \<open>DeleteUser\<close> runs its statements in the order of the list \<open>steps\<close> inside one transaction; the first that
  fails rolls everything back.
\<close>

definition delete_user_prefix :: "string \<Rightarrow> db \<Rightarrow> db" where
  "delete_user_prefix uid d =
     (let d1 = d\<lparr>t_sessions := sql_delete (\<lambda>r. ss_user_id r = uid) (t_sessions d),
                 t_magic_links := sql_delete (\<lambda>r. ml_user_id r = uid) (t_magic_links d),
                 t_audit := sql_update (\<lambda>r. al_user_id r = Some uid) (\<lambda>r. r\<lparr>al_user_id := None\<rparr>) (t_audit d),
                 t_hub_invites := sql_update (\<lambda>r. hi_created_by_user_id r = Some uid)
                    (\<lambda>r. r\<lparr>hi_created_by_user_id := None\<rparr>) (t_hub_invites d),
                 t_keys := sql_delete (\<lambda>r. ky_user_id r = Some uid) (t_keys d),
                 t_shares := sql_delete (\<lambda>r. sh_user_id r = uid) (t_shares d)\<rparr>;
          d2 = del_radio_sets (\<lambda>r. rr_user_id r = uid) d1 in
      d2\<lparr>t_ptt_uploads := sql_delete (\<lambda>r. pu_user_id r = uid) (t_ptt_uploads d2)\<rparr>)"

definition DeleteUser :: "string \<Rightarrow> db \<Rightarrow> bool dbres" where
  "DeleteUser uid d =
     (case del_sources (\<lambda>r. sr_user_id r = Some uid) (delete_user_prefix uid d) of
        Inl err \<Rightarrow> (Inl err, d)
      | Inr d1 \<Rightarrow>
          (let d2 = del_calls (\<lambda>r. cr_sender_user_id r = Some uid) d1;
               d3 = del_calls (\<lambda>r. cr_user_id r = Some uid) d2 in
           case del_users (\<lambda>r. ur_id r = uid) d3 of
             Inl err \<Rightarrow> (Inl err, d)
           | Inr d4 \<Rightarrow>
               if sql_count (\<lambda>r. ur_id r = uid) (t_users d3) = 0 then (Inr False, d) else (Inr True, d4)))"

definition revoke_user_sessions :: "string \<Rightarrow> int \<Rightarrow> db \<Rightarrow> db" where
  "revoke_user_sessions uid now d =
     d\<lparr>t_sessions := sql_update (\<lambda>s. ss_user_id s = uid \<and> ss_revoked_at s = 0)
         (\<lambda>s. s\<lparr>ss_revoked_at := now\<rparr>) (t_sessions d)\<rparr>"

definition SetUserPasswordHash :: "string \<Rightarrow> string \<Rightarrow> int \<Rightarrow> db \<Rightarrow> bool \<times> db" where
  "SetUserPasswordHash uid hash now d =
     (let h = TrimSpace hash in
      if uid = [] \<or> h = [] then (False, d)
      else case update_user uid (\<lambda>r. r\<lparr>ur_password_hash := Some h, ur_updated_at := now\<rparr>) d of
             (False, _) \<Rightarrow> (False, d)
           | (True, d1) \<Rightarrow> (True, revoke_user_sessions uid now d1))"

definition SetUserPassword :: "(string \<Rightarrow> string option) \<Rightarrow> string \<Rightarrow> string \<Rightarrow> int \<Rightarrow> db \<Rightarrow> bool dbres" where
  "SetUserPassword bcrypt_hash uid password now d =
     (case bcrypt_hash password of
        None \<Rightarrow> (Inl (OtherError ''bcrypt''), d)
      | Some h \<Rightarrow> (case SetUserPasswordHash uid h now d of (b, d') \<Rightarrow> (Inr b, d')))"

definition VerifyUserPassword ::
  "(string \<Rightarrow> string \<Rightarrow> bool) \<Rightarrow> string \<Rightarrow> string \<Rightarrow> db \<Rightarrow> db_error + User" where
  "VerifyUserPassword bcrypt_ok email password d =
     (let e = normalize_email email; p = TrimSpace password in
      if e = [] \<or> p = [] then Inl NoRows
      else case find_user_by_email e d of
             None \<Rightarrow> Inl NoRows
           | Some r \<Rightarrow>
               if ur_status r = ''pending'' then Inl PendingUser
               else if ur_status r \<noteq> ''active'' then Inl InactiveUser
               else (case ur_password_hash r of
                       None \<Rightarrow> Inl NoRows
                     | Some h \<Rightarrow>
                         if TrimSpace h = [] then Inl NoRows
                         else if bcrypt_ok h p then Inr (scan_user_flags r) else Inl NoRows))"

definition BootstrapAuthUser :: "string \<Rightarrow> string \<Rightarrow> int \<Rightarrow> db \<Rightarrow> unit dbres" where
  "BootstrapAuthUser email hash ms d =
     (let e = normalize_email email; h = TrimSpace hash; now = ms div 1000 in
      if e = [] \<or> h = [] then (Inr (), d)
      else case find_user_by_email e d of
             None \<Rightarrow> (case ins_users (new_user_row (user_id_of_millis ms) e ''admin'' ''active'' (Some h) now) d of
                 Inl err \<Rightarrow> (Inl err, d)
               | Inr d' \<Rightarrow> (Inr (), d'))
           | Some u \<Rightarrow> (Inr (), snd (update_user (ur_id u)
               (\<lambda>r. r\<lparr>ur_role := ''admin'', ur_status := ''active'', ur_password_hash := Some h,
                      ur_updated_at := now\<rparr>) d)))"

definition active_admin :: "users_row \<Rightarrow> bool" where
  "active_admin r \<longleftrightarrow> ur_role r = ''admin'' \<and> ur_status r = ''active''"

definition CountActiveAdmins :: "db \<Rightarrow> int" where
  "CountActiveAdmins d = int (sql_count active_admin (t_users d))"

definition FirstAdminUserID :: "db \<Rightarrow> db_error + string" where
  "FirstAdminUserID d =
     (case order_asc ur_created_at (filter active_admin (t_users d)) of
        [] \<Rightarrow> Inl (OtherError ''no active admin user'')
      | r # _ \<Rightarrow> Inr (ur_id r))"

section \<open>The audit log\<close>

definition AppendAuditLog ::
  "string \<Rightarrow> string \<Rightarrow> string \<Rightarrow> string \<Rightarrow> (string \<times> json) list \<Rightarrow> int \<Rightarrow> db \<Rightarrow> unit dbres" where
  "AppendAuditLog uid action ttype tid meta now d =
     (case ins_audit \<lparr>al_id = 0, al_user_id = nullableString uid, al_action = action, al_target_type = ttype,
             al_target_id = tid, al_metadata = meta, al_created_at = now\<rparr> d of
        Inl err \<Rightarrow> (Inl err, d)
      | Inr d' \<Rightarrow> (Inr (), d'))"

record AuditLogEntry =
  ae_ID :: int
  ae_UserID :: string
  ae_UserEmail :: string
  ae_Action :: string
  ae_TargetType :: string
  ae_TargetID :: string
  ae_TargetEmail :: string
  ae_Metadata :: "(string \<times> json) list"
  ae_CreatedAt :: int

definition metadataString :: "(string \<times> json) list \<Rightarrow> string \<Rightarrow> string" where
  "metadataString meta key = (case map_of meta key of Some (JString s) \<Rightarrow> s | _ \<Rightarrow> [])"

definition applyAuditEmailFallbacks :: "AuditLogEntry \<Rightarrow> AuditLogEntry" where
  "applyAuditEmailFallbacks e =
     (if ae_UserEmail e \<noteq> [] \<and> ae_TargetEmail e \<noteq> [] then e
      else e\<lparr>ae_UserEmail := (if ae_UserEmail e = [] then metadataString (ae_Metadata e) ''actorEmail'' else ae_UserEmail e),
             ae_TargetEmail := (if ae_TargetEmail e = [] then metadataString (ae_Metadata e) ''targetEmail''
                                else ae_TargetEmail e)\<rparr>)"

definition user_email :: "string option \<Rightarrow> db \<Rightarrow> string" where
  "user_email uid d = (case uid of None \<Rightarrow> []
     | Some u \<Rightarrow> (case find_user u d of None \<Rightarrow> [] | Some r \<Rightarrow> ur_email r))"

definition ListAuditLogs :: "int \<Rightarrow> db \<Rightarrow> AuditLogEntry list" where
  "ListAuditLogs n d =
     (let n = (if n \<le> 0 \<or> n > 500 then 100 else n) in
      map (\<lambda>a. applyAuditEmailFallbacks
        \<lparr>ae_ID = al_id a, ae_UserID = (case al_user_id a of None \<Rightarrow> [] | Some u \<Rightarrow> u),
         ae_UserEmail = user_email (al_user_id a) d, ae_Action = al_action a,
         ae_TargetType = al_target_type a, ae_TargetID = al_target_id a,
         ae_TargetEmail = (if al_target_type a = ''user'' then user_email (Some (al_target_id a)) d else []),
         ae_Metadata = al_metadata a, ae_CreatedAt = al_created_at a\<rparr>)
      (limit n (order_desc al_created_at (t_audit d))))"

section \<open>Every operation keeps the constraints\<close>

text \<open>
  One constructor per operation that writes; \<open>exec_account\<close> keeps the database it leaves. Emails are
  stored normalised, which is what lets the login paths look them up by equality.
\<close>

datatype account_op =
    OpEnsureUser string int
  | OpCreateMagicLink string int int string string
  | OpVerifyToken string int int string
  | OpVerifyCode string string int int string
  | OpRevokeSession string int
  | OpExtendSession string int int
  | OpCreateSession string int int string
  | OpRoleStatus string string string int
  | OpTxEnabled string bool int
  | OpDispatcher string bool int
  | OpDeleteUser string
  | OpPasswordHash string string int
  | OpBootstrap string string int
  | OpAudit string string string string "(string \<times> json) list" int

fun exec_account :: "account_op \<Rightarrow> db \<Rightarrow> db" where
  "exec_account (OpEnsureUser e ms) d = snd (EnsureUserByEmail e ms d)"
| "exec_account (OpCreateMagicLink e ttl ms token code) d = snd (snd (CreateMagicLinkToken e ttl ms token code d))"
| "exec_account (OpVerifyToken token now ttl sess) d = snd (VerifyMagicLinkToken token now ttl sess d)"
| "exec_account (OpVerifyCode e c now ttl sess) d = snd (VerifyMagicLinkCode e c now ttl sess d)"
| "exec_account (OpRevokeSession token now) d = RevokeSession token now d"
| "exec_account (OpExtendSession token now ttl) d = snd (ExtendSession token now ttl d)"
| "exec_account (OpCreateSession u now ttl sess) d = snd (CreateUserSession u now ttl sess d)"
| "exec_account (OpRoleStatus u role status now) d = snd (UpdateUserRoleStatus u role status now d)"
| "exec_account (OpTxEnabled u b now) d = snd (SetUserTxEnabled u b now d)"
| "exec_account (OpDispatcher u b now) d = snd (SetUserDispatcherEnabled u b now d)"
| "exec_account (OpDeleteUser u) d = snd (DeleteUser u d)"
| "exec_account (OpPasswordHash u h now) d = snd (SetUserPasswordHash u h now d)"
| "exec_account (OpBootstrap e h ms) d = snd (BootstrapAuthUser e h ms d)"
| "exec_account (OpAudit u a tt ti m now) d = snd (AppendAuditLog u a tt ti m now d)"

definition emails_ok :: "db \<Rightarrow> bool" where
  "emails_ok d \<longleftrightarrow> list_all (\<lambda>r. normalize_email (ur_email r) = ur_email r) (t_users d)"

definition account_inv :: "db \<Rightarrow> bool" where
  "account_inv d \<longleftrightarrow> db_ok d \<and> emails_ok d"

lemma normalize_email_idem [simp]: "normalize_email (normalize_email e) = normalize_email e"
  by (simp add: normalize_email_def TrimSpace_ToLower)

interpretation email: normaliser normalize_email "\<lambda>e. normalize_email e = e"
  by unfold_locales simp_all

lemma ins_emails_ok: "emails_ok d \<Longrightarrow> ins_users r d = Inr d' \<Longrightarrow> normalize_email (ur_email r) = ur_email r \<Longrightarrow> emails_ok d'"
  by (auto simp: emails_ok_def ins_users_def split: if_splits)

lemma ins_users_inv:
  "account_inv d \<Longrightarrow> ins_users r d = Inr d' \<Longrightarrow> normalize_email (ur_email r) = ur_email r \<Longrightarrow> account_inv d'"
  using ins_users_ok ins_emails_ok by (auto simp: account_inv_def)

lemma EnsureUser_cases:
  assumes "EnsureUserByEmail e ms d = (res, d')"
  obtains (kept) "d' = d"
  | (added) role st where "ins_users (new_user_row (user_id_of_millis ms) (normalize_email e) role st None (ms div 1000)) d = Inr d'"
proof -
  consider (old) "normalize_email e \<in> ur_email ` set (t_users d)" | (new) "normalize_email e \<notin> ur_email ` set (t_users d)"
    by blast
  then show thesis
  proof cases
    case old
    with assms have "d' = d"
      by (simp add: EnsureUserByEmail_def Let_def split: prod.splits option.splits)
    then show thesis by (rule kept)
  next
    case new
    obtain role st where rs: "(if t_users d = [] then (''admin'', ''active'')
        else (''user'', if auto_approve_users d then ''active'' else ''pending'')) = (role, st)"
      by fastforce
    show thesis
    proof (cases "ins_users (new_user_row (user_id_of_millis ms) (normalize_email e) role st None (ms div 1000)) d")
      case (Inl err)
      with assms new rs have "d' = d"
        by (simp add: EnsureUserByEmail_def Let_def)
      then show thesis by (rule kept)
    next
      case (Inr d2)
      with assms new rs have "d' = d2"
        by (simp add: EnsureUserByEmail_def Let_def split: option.splits)
      with Inr show thesis by (auto intro: added)
    qed
  qed
qed

lemma EnsureUser_inv:
  assumes "account_inv d"
  shows "account_inv (snd (EnsureUserByEmail e ms d))"
proof -
  obtain res d' where e: "EnsureUserByEmail e ms d = (res, d')" by fastforce
  from e have "account_inv d'"
    by (cases rule: EnsureUser_cases) (use assms in \<open>auto simp: new_user_row_def intro: ins_users_inv\<close>)
  with e show ?thesis by simp
qed

lemma frame_emails_ok:
  "ins_magic_links l d = Inr d' \<Longrightarrow> emails_ok d' = emails_ok d"
  "ins_sessions r d = Inr d' \<Longrightarrow> emails_ok d' = emails_ok d"
  "ins_audit a d = Inr d' \<Longrightarrow> emails_ok d' = emails_ok d"
  by (auto simp: ins_magic_links_def ins_sessions_def ins_audit_def emails_ok_def split: if_splits)

lemma frame_inv:
  "account_inv d \<Longrightarrow> ins_magic_links l d = Inr d' \<Longrightarrow> account_inv d'"
  "account_inv d \<Longrightarrow> ins_sessions r d = Inr d' \<Longrightarrow> account_inv d'"
  "account_inv d \<Longrightarrow> ins_audit a d = Inr d' \<Longrightarrow> account_inv d'"
  unfolding account_inv_def
    apply (metis ins_magic_links_ok frame_emails_ok(1))
   apply (metis ins_sessions_ok frame_emails_ok(2))
  apply (metis ins_audit_ok frame_emails_ok(3))
  done

lemma CreateMagicLink_inv:
  assumes "account_inv d"
  shows "account_inv (snd (snd (CreateMagicLinkToken e ttl ms token code d)))"
proof -
  obtain r d' where e: "EnsureUserByEmail e ms d = (r, d')" by fastforce
  then have d': "account_inv d'"
    using EnsureUser_inv [OF assms] by (metis snd_conv)
  show ?thesis
    using frame_inv(1) [OF d'] d'
    by (simp add: CreateMagicLinkToken_def e Let_def split: sum.splits)
qed

lemma consume_link_cases:
  assumes "consume_link token uid now ttl sess d = (res, d')"
  obtains (fail) err where "res = Inl err" "d' = d"
  | (ok) r where "find_user uid d = Some r" "ur_status r = ''active''"
      "res = Inr (scan_user_basic r, sess)" "sess \<notin> ss_token ` set (t_sessions d)"
      "d' = d\<lparr>t_magic_links := sql_update (\<lambda>r. ml_token r = token) (\<lambda>r. r\<lparr>ml_used_at := now\<rparr>) (t_magic_links d),
              t_sessions := t_sessions d @ [\<lparr>ss_token = sess, ss_user_id = uid, ss_expires_at = now + ttl,
                ss_revoked_at = 0, ss_created_at = now\<rparr>]\<rparr>"
proof (cases res)
  case (Inl err)
  with assms have "d' = d"
    by (simp add: consume_link_def Let_def split: sum.splits option.splits if_splits)
  with Inl show thesis by (rule fail)
next
  case (Inr x)
  let ?d1 = "d\<lparr>t_magic_links := sql_update (\<lambda>r. ml_token r = token) (\<lambda>r. r\<lparr>ml_used_at := now\<rparr>) (t_magic_links d)\<rparr>"
  let ?s = "\<lparr>ss_token = sess, ss_user_id = uid, ss_expires_at = now + ttl, ss_revoked_at = 0, ss_created_at = now\<rparr>"
  obtain d2 where d2: "ins_sessions ?s ?d1 = Inr d2"
    using assms Inr by (cases "ins_sessions ?s ?d1") (simp_all add: consume_link_def Let_def)
  then have fresh: "sess \<notin> ss_token ` set (t_sessions d)"
    and d2': "d2 = ?d1\<lparr>t_sessions := t_sessions d @ [?s]\<rparr>"
    by (simp_all add: ins_sessions_def split: if_splits)
  then have users: "find_user uid d2 = find_user uid d"
    by (simp add: find_user_def)
  obtain r where r: "find_user uid d = Some r"
    using assms Inr d2 users by (cases "find_user uid d") (simp_all add: consume_link_def Let_def)
  have "ur_status r = ''active''" "res = Inr (scan_user_basic r, sess)" "d' = d2"
    using assms Inr d2 users r by (simp_all add: consume_link_def Let_def split: if_splits)
  with r fresh show thesis
    by (intro ok [of r]) (simp_all add: d2')
qed

lemma consume_link_inv:
  assumes "account_inv d"
  shows "account_inv (snd (consume_link token uid now ttl sess d))"
proof -
  let ?d1 = "d\<lparr>t_magic_links := sql_update (\<lambda>r. ml_token r = token) (\<lambda>r. r\<lparr>ml_used_at := now\<rparr>) (t_magic_links d)\<rparr>"
  have "account_inv ?d1"
    using assms by (auto simp: account_inv_def emails_ok_def intro!: upd_magic_links_ok)
  from frame_inv(2) [OF this] assms show ?thesis
    by (simp add: consume_link_def Let_def split: sum.splits option.splits)
qed

lemma Verify_inv:
  "account_inv d \<Longrightarrow> account_inv (snd (VerifyMagicLinkToken token now ttl sess d))"
  "account_inv d \<Longrightarrow> account_inv (snd (VerifyMagicLinkCode e c now ttl sess d))"
  by (auto simp: VerifyMagicLinkToken_def VerifyMagicLinkCode_def redeem_row_def Let_def
      intro: consume_link_inv split: option.splits)

lemma update_user_inv:
  assumes "account_inv d" "\<And>r. ur_id (f r) = ur_id r" "\<And>r. ur_email (f r) = ur_email r"
  shows "account_inv (snd (update_user uid f d))"
proof -
  have "emails_ok (d\<lparr>t_users := sql_update P f (t_users d)\<rparr>)" for P
    using assms by (auto simp: account_inv_def emails_ok_def list_all_iff set_sql_update)
  with assms show ?thesis
    by (auto simp: update_user_def account_inv_def intro: upd_users_ok)
qed

lemma session_update_inv:
  assumes "account_inv d" "\<And>r. ss_token (f r) = ss_token r" "\<And>r. ss_user_id (f r) = ss_user_id r"
  shows "account_inv (d\<lparr>t_sessions := sql_update P f (t_sessions d)\<rparr>)"
  using assms by (auto simp: account_inv_def emails_ok_def intro!: upd_sessions_ok)

lemma PasswordHash_inv: "account_inv d \<Longrightarrow> account_inv (snd (SetUserPasswordHash u h now d))"
  using update_user_inv [of d "\<lambda>r. r\<lparr>ur_password_hash := Some (TrimSpace h), ur_updated_at := now\<rparr>" u]
  by (auto simp: SetUserPasswordHash_def Let_def revoke_user_sessions_def
      intro!: session_update_inv split: prod.splits bool.splits)

lemma delete_user_prefix_ok: "db_ok d \<Longrightarrow> db_ok (delete_user_prefix uid d)"
proof -
  assume d: "db_ok d"
  let ?a = "d\<lparr>t_sessions := sql_delete (\<lambda>r. ss_user_id r = uid) (t_sessions d)\<rparr>"
  let ?b = "?a\<lparr>t_magic_links := sql_delete (\<lambda>r. ml_user_id r = uid) (t_magic_links ?a)\<rparr>"
  let ?c = "?b\<lparr>t_audit := sql_update (\<lambda>r. al_user_id r = Some uid) (\<lambda>r. r\<lparr>al_user_id := None\<rparr>) (t_audit ?b)\<rparr>"
  let ?e = "?c\<lparr>t_hub_invites := sql_update (\<lambda>r. hi_created_by_user_id r = Some uid)
      (\<lambda>r. r\<lparr>hi_created_by_user_id := None\<rparr>) (t_hub_invites ?c)\<rparr>"
  let ?f = "?e\<lparr>t_keys := sql_delete (\<lambda>r. ky_user_id r = Some uid) (t_keys ?e)\<rparr>"
  let ?g = "?f\<lparr>t_shares := sql_delete (\<lambda>r. sh_user_id r = uid) (t_shares ?f)\<rparr>"
  have "db_ok ?a" using d by (rule del_sessions_ok)
  then have "db_ok ?b" by (rule del_magic_links_ok)
  then have "db_ok ?c" by (rule clear_audit_ok)
  then have "db_ok ?e" by (rule clear_invites_ok)
  then have "db_ok ?f" by (rule del_keys_ok)
  then have "db_ok ?g" by (rule del_shares_ok)
  then have "db_ok (del_radio_sets (\<lambda>r. rr_user_id r = uid) ?g)" by (rule del_radio_sets_ok)
  then show ?thesis
    unfolding delete_user_prefix_def Let_def by (intro del_ptt_uploads_ok) simp
qed

lemma delete_user_frame:
  "t_users (delete_user_prefix uid d) = t_users d"
  "del_sources P d = Inr d' \<Longrightarrow> t_users d' = t_users d"
  "t_users (del_calls Q d) = t_users d"
  by (auto simp: delete_user_prefix_def del_radio_sets_def del_sources_def del_calls_def Let_def split: if_splits)

lemma DeleteUser_inv:
  assumes "account_inv d"
  shows "account_inv (snd (DeleteUser uid d))"
proof (cases "del_sources (\<lambda>r. sr_user_id r = Some uid) (delete_user_prefix uid d)")
  case (Inl err)
  with assms show ?thesis by (simp add: DeleteUser_def)
next
  case (Inr d1)
  let ?d3 = "del_calls (\<lambda>r. cr_user_id r = Some uid) (del_calls (\<lambda>r. cr_sender_user_id r = Some uid) d1)"
  have "db_ok (delete_user_prefix uid d)"
    using assms by (simp add: account_inv_def delete_user_prefix_ok)
  then have "db_ok d1" by (rule del_sources_ok [OF _ Inr])
  then have d3: "db_ok ?d3" by (intro del_calls_ok)
  have u3: "t_users ?d3 = t_users d"
    using delete_user_frame(2) [OF Inr] by (simp add: delete_user_frame)
  have "account_inv d4" if "del_users P ?d3 = Inr d4" for P d4
  proof -
    have "t_users d4 = sql_delete P (t_users d)"
      using that u3 by (auto simp: del_users_def Let_def split: if_splits)
    then show ?thesis
      using del_users_ok [OF d3 that] assms by (auto simp: account_inv_def emails_ok_def list_all_iff)
  qed
  with Inr assms show ?thesis
    by (simp add: DeleteUser_def Let_def split: sum.splits)
qed

lemma Bootstrap_inv:
  assumes "account_inv d"
  shows "account_inv (snd (BootstrapAuthUser e h ms d))"
proof -
  have "account_inv d'" if "ins_users (new_user_row i (normalize_email e) role st hash now) d = Inr d'" for i role st hash now d'
    using ins_users_inv [OF assms that] by (simp add: new_user_row_def)
  with assms show ?thesis
    by (simp add: BootstrapAuthUser_def Let_def update_user_inv split: sum.splits option.splits)
qed

lemma Audit_inv: "account_inv d \<Longrightarrow> account_inv (snd (AppendAuditLog u a tt ti m now d))"
  using frame_inv(3) by (simp add: AppendAuditLog_def split: sum.splits)

lemma CreateSession_inv: "account_inv d \<Longrightarrow> account_inv (snd (CreateUserSession u now ttl sess d))"
  using frame_inv(2) by (simp add: CreateUserSession_def split: sum.splits)

lemma account_inv_empty [simp]: "account_inv (empty_db b)"
  unfolding account_inv_def using db_ok_empty by (simp add: emails_ok_def empty_db_def)

lemma exec_account_inv: "account_inv d \<Longrightarrow> account_inv (exec_account x d)"
  by (cases x) (simp_all add: RevokeSession_def ExtendSession_def Let_def UpdateUserRoleStatus_def
      SetUserTxEnabled_def SetUserDispatcherEnabled_def
      EnsureUser_inv CreateMagicLink_inv Verify_inv update_user_inv session_update_inv PasswordHash_inv
        DeleteUser_inv Bootstrap_inv Audit_inv CreateSession_inv)

interpretation accounts: invariant_store account_inv exec_account
  by unfold_locales (rule exec_account_inv)

section \<open>A magic link is redeemed once\<close>

text \<open>
  The client of a link attempts it by its token or by the code of the same row; a success through the code counts
  for the link whose row the query selected. The clock of an attempt lies after the epoch
  (\<open>now = n + 1\<close> seconds), since a link with \<open>used_at = 0\<close> counts as unused.
\<close>

datatype link_attempt = ByToken | ByCode string string

fun redeem_link :: "string \<Rightarrow> link_attempt \<times> nat \<times> int \<times> string \<Rightarrow> db \<Rightarrow> bool \<times> db" where
  "redeem_link k (ByToken, n, ttl, sess) d =
     (case VerifyMagicLinkToken k (int n + 1) ttl sess d of (res, d') \<Rightarrow> (is_ok res, d'))"
| "redeem_link k (ByCode e c, n, ttl, sess) d =
     (case VerifyMagicLinkCode e c (int n + 1) ttl sess d of
        (res, d') \<Rightarrow> (is_ok res \<and> map_option ml_token (code_link (normalize_email e) (TrimSpace c) d) = Some k, d'))"

definition link_live :: "string \<Rightarrow> db \<Rightarrow> bool" where
  "link_live k d \<longleftrightarrow> list_ex (\<lambda>r. ml_token r = k \<and> ml_used_at r \<le> 0) (t_magic_links d)"

fun issues_link :: "account_op \<Rightarrow> string \<Rightarrow> bool" where
  "issues_link (OpCreateMagicLink e ttl ms token code) k = (token = k)"
| "issues_link _ k = False"

lemma link_live_iff: "link_live k d \<longleftrightarrow> (\<exists>r \<in> set (t_magic_links d). ml_token r = k \<and> ml_used_at r \<le> 0)"
  by (auto simp: link_live_def list_ex_iff)

lemma link_live_mono: "set (t_magic_links d') \<subseteq> set (t_magic_links d) \<Longrightarrow> link_live k d' \<Longrightarrow> link_live k d"
  by (auto simp: link_live_iff)

lemma code_link_mem: "code_link e c d = Some l \<Longrightarrow> l \<in> set (t_magic_links d) \<and> ml_email l = e \<and> ml_code l = c"
proof -
  assume "code_link e c d = Some l"
  then have "l \<in> set (order_desc ml_created_at (filter (\<lambda>r. ml_email r = e \<and> ml_code r = c) (t_magic_links d)))"
    by (simp add: code_link_def del: set_order split: list.splits)
  then show ?thesis by simp
qed

lemma redeem_row_cases:
  assumes "redeem_row l now ttl sess d = (res, d')"
  obtains (fail) err where "res = Inl err" "d' = d"
  | (ok) r where "ml_used_at l \<le> 0" "now \<le> ml_expires_at l"
      "find_user (ml_user_id l) d = Some r" "ur_status r = ''active''"
      "res = Inr (scan_user_basic r, sess)" "sess \<notin> ss_token ` set (t_sessions d)"
      "d' = d\<lparr>t_magic_links := sql_update (\<lambda>r. ml_token r = ml_token l) (\<lambda>r. r\<lparr>ml_used_at := now\<rparr>) (t_magic_links d),
              t_sessions := t_sessions d @ [\<lparr>ss_token = sess, ss_user_id = ml_user_id l, ss_expires_at = now + ttl,
                ss_revoked_at = 0, ss_created_at = now\<rparr>]\<rparr>"
proof (cases "ml_used_at l > 0 \<or> ml_expires_at l < now")
  case True
  with assms show thesis by (intro fail) (auto simp: redeem_row_def)
next
  case False
  then have "consume_link (ml_token l) (ml_user_id l) now ttl sess d = (res, d')"
    using assms by (simp add: redeem_row_def)
  then show thesis
    by (cases rule: consume_link_cases) (use False fail ok in auto)
qed

lemma redeem_row_live:
  assumes "redeem_row l now ttl sess d = (res, d')" "l \<in> set (t_magic_links d)"
  shows "link_live k d' \<Longrightarrow> link_live k d"
    and "is_ok res \<Longrightarrow> link_live (ml_token l) d"
    and "is_ok res \<Longrightarrow> 0 < now \<Longrightarrow> \<not> link_live (ml_token l) d'"
  using assms by (cases rule: redeem_row_cases; auto simp: link_live_iff set_sql_update split: if_splits)+

lemma Token_row:
  "VerifyMagicLinkToken token now ttl sess d = (res, d') \<Longrightarrow>
     (is_ok res \<longrightarrow> False) \<and> d' = d \<or>
     (\<exists>l \<in> set (t_magic_links d). ml_token l = token \<and> redeem_row l now ttl sess d = (res, d'))"
  by (auto simp: VerifyMagicLinkToken_def dest: find_Some_mem split: option.splits)

lemma Code_row:
  "VerifyMagicLinkCode e c now ttl sess d = (res, d') \<Longrightarrow>
     (is_ok res \<longrightarrow> False) \<and> d' = d \<or>
     (\<exists>l \<in> set (t_magic_links d). code_link (normalize_email e) (TrimSpace c) d = Some l \<and>
        redeem_row l now ttl sess d = (res, d'))"
  by (auto simp: VerifyMagicLinkCode_def Let_def dest: code_link_mem split: option.splits if_splits)

lemma EnsureUser_links: "t_magic_links (snd (EnsureUserByEmail e ms d)) = t_magic_links d"
proof -
  obtain res d' where e: "EnsureUserByEmail e ms d = (res, d')" by fastforce
  from e have "t_magic_links d' = t_magic_links d"
    by (cases rule: EnsureUser_cases) (auto simp: ins_users_def split: if_splits)
  with e show ?thesis by simp
qed

lemma CreateMagicLink_live:
  assumes "link_live k (snd (snd (CreateMagicLinkToken e ttl ms token code d)))" "token \<noteq> k"
  shows "link_live k d"
proof -
  obtain r d' where e: "EnsureUserByEmail e ms d = (r, d')" by fastforce
  then have l: "t_magic_links d' = t_magic_links d"
    using EnsureUser_links by (metis snd_conv)
  have "link_live k d'" if "ins_magic_links x d' = Inr d''" "link_live k d''" "ml_token x = token" for x d''
    using that assms(2) by (auto simp: ins_magic_links_def link_live_iff split: if_splits)
  then have "link_live k d'"
    using assms by (auto simp: CreateMagicLinkToken_def e Let_def split: sum.splits if_splits)
  with l show ?thesis by (simp add: link_live_def)
qed

lemma delete_prefix_links:
  "t_magic_links (delete_user_prefix uid d) = sql_delete (\<lambda>r. ml_user_id r = uid) (t_magic_links d)"
  "del_sources P d = Inr d' \<Longrightarrow> t_magic_links d' = t_magic_links d"
  "del_users Q d = Inr d' \<Longrightarrow> t_magic_links d' = t_magic_links d"
  "t_magic_links (del_calls R d) = t_magic_links d"
  by (auto simp: delete_user_prefix_def del_radio_sets_def del_sources_def del_users_def del_calls_def Let_def
      split: if_splits)

lemma DeleteUser_links: "set (t_magic_links (snd (DeleteUser uid d))) \<subseteq> set (t_magic_links d)"
  by (auto simp: DeleteUser_def Let_def delete_prefix_links split: sum.splits)

lemma exec_account_live:
  assumes "link_live k (exec_account x d)" "\<not> issues_link x k"
  shows "link_live k d"
proof (cases x)
  case (OpCreateMagicLink e ttl ms token code)
  with assms CreateMagicLink_live show ?thesis by auto
next
  case (OpVerifyToken token now ttl sess)
  obtain res d' where "VerifyMagicLinkToken token now ttl sess d = (res, d')" by fastforce
  with OpVerifyToken assms Token_row [OF this] show ?thesis
    by (auto dest: redeem_row_live(1))
next
  case (OpVerifyCode e c now ttl sess)
  obtain res d' where "VerifyMagicLinkCode e c now ttl sess d = (res, d')" by fastforce
  with OpVerifyCode assms Code_row [OF this] show ?thesis
    by (auto dest: redeem_row_live(1))
next
  case (OpDeleteUser u)
  with assms show ?thesis
    using link_live_mono [OF DeleteUser_links] by simp
next
  case (OpEnsureUser e ms)
  with assms EnsureUser_links show ?thesis by (simp add: link_live_def)
qed (use assms in \<open>auto simp: link_live_def RevokeSession_def ExtendSession_def Let_def UpdateUserRoleStatus_def
      SetUserTxEnabled_def SetUserDispatcherEnabled_def update_user_def CreateUserSession_def ins_sessions_def
      SetUserPasswordHash_def revoke_user_sessions_def BootstrapAuthUser_def ins_users_def AppendAuditLog_def
      ins_audit_def split: if_splits option.splits sum.splits prod.splits bool.splits\<close>)

lemma redeem_link_row:
  assumes "redeem_link k (att, n, ttl, sess) d = (ok, d')"
  shows "\<not> ok \<and> d' = d \<or> (\<exists>l res. l \<in> set (t_magic_links d) \<and> redeem_row l (int n + 1) ttl sess d = (res, d') \<and>
           (ok \<longrightarrow> is_ok res \<and> ml_token l = k))"
proof (cases att)
  case ByToken
  obtain res d1 where v: "VerifyMagicLinkToken k (int n + 1) ttl sess d = (res, d1)" by fastforce
  have "ok = is_ok res" "d' = d1" using ByToken assms v by simp_all
  with Token_row [OF v] show ?thesis by blast
next
  case (ByCode e c)
  obtain res d1 where v: "VerifyMagicLinkCode e c (int n + 1) ttl sess d = (res, d1)" by fastforce
  have "ok = (is_ok res \<and> map_option ml_token (code_link (normalize_email e) (TrimSpace c) d) = Some k)" "d' = d1"
    using ByCode assms v by simp_all
  with Code_row [OF v] show ?thesis by (metis option.sel option.simps(9))
qed

interpretation links: one_shot account_inv exec_account redeem_link link_live issues_link
proof
  fix s :: db and k j :: string and e :: "link_attempt \<times> nat \<times> int \<times> string"
  assume inv: "account_inv s"
  obtain att n ttl sess where e: "e = (att, n, ttl, sess)" by (cases e)
  obtain ok s' where r: "redeem_link j e s = (ok, s')" by fastforce
  note row = redeem_link_row [OF r [unfolded e]]
  show "account_inv (snd (redeem_link j e s))"
  proof (cases att)
    case ByToken
    then show ?thesis
      using Verify_inv(1) [OF inv, of j "int n + 1" ttl sess] by (simp add: e case_prod_beta)
  next
    case (ByCode em c)
    then show ?thesis
      using Verify_inv(2) [OF inv, of em c "int n + 1" ttl sess] by (simp add: e case_prod_beta)
  qed
  show "fst (redeem_link j e s) \<Longrightarrow> link_live j s"
    using row redeem_row_live(2) unfolding r fst_conv by blast
  have "0 < int n + 1" by simp
  then show "fst (redeem_link j e s) \<Longrightarrow> \<not> link_live j (snd (redeem_link j e s))"
    using row redeem_row_live(3) unfolding r fst_conv snd_conv by blast
  show "\<not> link_live k s \<Longrightarrow> \<not> link_live k (snd (redeem_link j e s))"
    using row redeem_row_live(1) unfolding r snd_conv by blast
next
  show "\<not> link_live k s \<Longrightarrow> \<not> issues_link x k \<Longrightarrow> \<not> link_live k (exec_account x s)" for s x k
    using exec_account_live by blast
qed

section \<open>Deleting an account\<close>

text \<open>What blocks the delete: a source of the user that a call or a remaining key still references.\<close>

definition delete_blocked :: "string \<Rightarrow> db \<Rightarrow> bool" where
  "delete_blocked uid d \<longleftrightarrow>
     list_ex (\<lambda>s. sr_user_id s = Some uid \<and>
       (list_ex (\<lambda>c. cr_source_id c = Some (sr_id s)) (t_calls d) \<or>
        list_ex (\<lambda>k. ky_source_id k = sr_id s \<and> ky_user_id k \<noteq> Some uid) (t_keys d))) (t_sources d)"

lemma delete_prefix_tables:
  "t_sources (delete_user_prefix uid d) = t_sources d"
  "t_calls (delete_user_prefix uid d) = t_calls d"
  "t_keys (delete_user_prefix uid d) = sql_delete (\<lambda>r. ky_user_id r = Some uid) (t_keys d)"
  "t_sessions (delete_user_prefix uid d) = sql_delete (\<lambda>r. ss_user_id r = uid) (t_sessions d)"
  "t_magic_links (delete_user_prefix uid d) = sql_delete (\<lambda>r. ml_user_id r = uid) (t_magic_links d)"
  "t_audit (delete_user_prefix uid d) =
     sql_update (\<lambda>r. al_user_id r = Some uid) (\<lambda>r. r\<lparr>al_user_id := None\<rparr>) (t_audit d)"
  "t_hub_invites (delete_user_prefix uid d) =
     sql_update (\<lambda>r. hi_created_by_user_id r = Some uid) (\<lambda>r. r\<lparr>hi_created_by_user_id := None\<rparr>) (t_hub_invites d)"
  "t_radio_sets (delete_user_prefix uid d) = sql_delete (\<lambda>r. rr_user_id r = uid) (t_radio_sets d)"
  "t_ptt_uploads (delete_user_prefix uid d) = sql_delete (\<lambda>r. pu_user_id r = uid) (t_ptt_uploads d)"
  by (simp_all add: delete_user_prefix_def del_radio_sets_def Let_def)

lemma delete_sources_blocked:
  "(\<exists>err. del_sources (\<lambda>r. sr_user_id r = Some uid) (delete_user_prefix uid d) = Inl err) \<longleftrightarrow> delete_blocked uid d"
  (is "?L = _")
proof -
  have "?L \<longleftrightarrow> list_ex (refd cr_source_id (map sr_id (filter (\<lambda>r. sr_user_id r = Some uid) (t_sources d)))) (t_calls d) \<or>
      list_ex (refd (\<lambda>r. Some (ky_source_id r)) (map sr_id (filter (\<lambda>r. sr_user_id r = Some uid) (t_sources d))))
        (sql_delete (\<lambda>r. ky_user_id r = Some uid) (t_keys d))"
    by (simp add: del_sources_def Let_def delete_prefix_tables)
  also have "\<dots> \<longleftrightarrow> delete_blocked uid d"
    unfolding list_ex_iff refd_ids delete_blocked_def by fastforce
  finally show ?thesis .
qed

lemma no_user_refs:
  assumes "del_sources (\<lambda>r. sr_user_id r = Some uid) (delete_user_prefix uid d) = Inr d1"
  shows "\<not> users_referenced (map ur_id (filter (\<lambda>r. ur_id r = uid) us))
     (del_calls (\<lambda>r. cr_user_id r = Some uid) (del_calls (\<lambda>r. cr_sender_user_id r = Some uid) d1))"
proof -
  have d1: "d1 = delete_user_prefix uid d\<lparr>t_sources := sql_delete (\<lambda>r. sr_user_id r = Some uid) (t_sources d),
      t_shares := t_shares d1\<rparr>"
    using assms by (auto simp: del_sources_def Let_def delete_prefix_tables split: if_splits)
  show ?thesis
    by (subst d1) (auto simp: users_referenced_def del_calls_def Let_def delete_prefix_tables
        list_ex_iff set_sql_update refd_ids)
qed

lemma DeleteUser_result:
  assumes "\<not> delete_blocked uid d"
  obtains d1 where "del_sources (\<lambda>r. sr_user_id r = Some uid) (delete_user_prefix uid d) = Inr d1"
    and "DeleteUser uid d =
      (let d3 = del_calls (\<lambda>r. cr_user_id r = Some uid) (del_calls (\<lambda>r. cr_sender_user_id r = Some uid) d1) in
       if uid \<notin> ur_id ` set (t_users d) then (Inr False, d)
       else (Inr True, projr (del_users (\<lambda>r. ur_id r = uid) d3)))"
    and "isl (del_users (\<lambda>r. ur_id r = uid)
      (del_calls (\<lambda>r. cr_user_id r = Some uid) (del_calls (\<lambda>r. cr_sender_user_id r = Some uid) d1))) = False"
proof -
  obtain d1 where d1: "del_sources (\<lambda>r. sr_user_id r = Some uid) (delete_user_prefix uid d) = Inr d1"
    using assms delete_sources_blocked [of uid d]
    by (cases "del_sources (\<lambda>r. sr_user_id r = Some uid) (delete_user_prefix uid d)") auto
  let ?d3 = "del_calls (\<lambda>r. cr_user_id r = Some uid) (del_calls (\<lambda>r. cr_sender_user_id r = Some uid) d1)"
  have u3: "t_users ?d3 = t_users d"
    using delete_user_frame(2) [OF d1] by (simp add: delete_user_frame)
  obtain d4 where d4: "del_users (\<lambda>r. ur_id r = uid) ?d3 = Inr d4"
    using no_user_refs [OF d1, of "t_users d"] unfolding del_users_def Let_def u3 by simp
  have "(sql_count (\<lambda>r. ur_id r = uid) (t_users d) = 0) = (uid \<notin> ur_id ` set (t_users d))"
    by (auto simp: sql_count_def filter_empty_conv)
  then have "DeleteUser uid d = (if uid \<notin> ur_id ` set (t_users d) then (Inr False, d) else (Inr True, d4))"
    unfolding DeleteUser_def d1 Let_def sum.case d4 u3 by simp
  with d1 d4 show thesis
    by (intro that [OF d1]) simp_all
qed

lemma GetUser_session:
  assumes "GetUserBySessionToken token t d = Some u"
  obtains x r where "x \<in> set (t_sessions d)" "ss_token x = token" "session_valid t x"
    "r \<in> set (t_users d)" "ur_id r = ss_user_id x" "ur_status r = ''active''" "u = scan_user_flags r"
proof -
  obtain x where x: "List.find (\<lambda>s. ss_token s = token \<and> session_valid t s) (t_sessions d) = Some x"
    using assms by (cases "List.find (\<lambda>s. ss_token s = token \<and> session_valid t s) (t_sessions d)")
      (simp_all add: GetUserBySessionToken_def)
  with assms obtain r where "List.find (\<lambda>r. ur_id r = ss_user_id x \<and> ur_status r = ''active'') (t_users d) = Some r"
      "u = scan_user_flags r"
    by (auto simp: GetUserBySessionToken_def)
  with x show thesis
    by (auto intro!: that dest: find_Some_mem)
qed

lemma SetUserPasswordHash_eq:
  "SetUserPasswordHash uid hash now d =
     (if uid = [] \<or> TrimSpace hash = [] \<or> sql_count (\<lambda>r. ur_id r = uid) (t_users d) = 0 then (False, d)
      else (True, revoke_user_sessions uid now (snd (update_user uid
        (\<lambda>r. r\<lparr>ur_password_hash := Some (TrimSpace hash), ur_updated_at := now\<rparr>) d))))"
  by (simp add: SetUserPasswordHash_def Let_def update_user_def)

lemma SetUserPasswordHash_sessions:
  assumes "SetUserPasswordHash uid hash now d = (True, d')"
  shows "t_sessions d' = sql_update (\<lambda>s. ss_user_id s = uid \<and> ss_revoked_at s = 0)
      (\<lambda>s. s\<lparr>ss_revoked_at := now\<rparr>) (t_sessions d)"
proof -
  have "d' = revoke_user_sessions uid now (snd (update_user uid
      (\<lambda>r. r\<lparr>ur_password_hash := Some (TrimSpace hash), ur_updated_at := now\<rparr>) d))"
    using assms unfolding SetUserPasswordHash_eq by (simp split: if_split_asm)
  then show ?thesis by (simp add: revoke_user_sessions_def update_user_def)
qed

section \<open>An example database\<close>

text \<open>One administrator with one unused magic link; the witnesses below evaluate on it.\<close>

definition example_ops :: "account_op list" where
  "example_ops = [OpEnsureUser ''a@x'' 5000, OpCreateMagicLink ''a@x'' 900 6000 ''ml'' ''123456'']"

definition example_db :: db where
  "example_db = run exec_account example_ops (empty_db False)"

lemmas account_eval = EnsureUserByEmail_def CreateMagicLinkToken_def VerifyMagicLinkToken_def redeem_row_def
  consume_link_def ins_users_def ins_magic_links_def ins_sessions_def new_user_row_def find_user_def
  find_user_by_email_def scan_user_basic_def scan_user_flags_def user_exists_def empty_db_def sql_update_def
  sql_count_def Let_def

lemmas delete_eval = DeleteUser_def delete_user_prefix_def del_sources_def del_radio_sets_def sql_delete_def
  del_calls_def del_users_def users_referenced_def refd_def

lemmas string_eval = normalize_email_def TrimSpace_def ToLower_def lower_char_def is_space_def

lemma example_user_id: "user_id_of_millis 5000 = ''usr_5000''"
  by (simp add: user_id_of_millis_def format_int_def dec_nat.simps decimal_digits_def)

lemma example_db_eq:
  "example_db = (empty_db False)\<lparr>t_users := [new_user_row ''usr_5000'' ''a@x'' ''admin'' ''active'' None 5],
     t_magic_links := [\<lparr>ml_token = ''ml'', ml_user_id = ''usr_5000'', ml_email = ''a@x'', ml_expires_at = 906,
       ml_used_at = 0, ml_created_at = 6, ml_code = ''123456''\<rparr>]\<rparr>"
  by (simp add: example_db_def example_ops_def account_eval string_eval example_user_id)

lemma example_db_inv: "account_inv example_db"
  unfolding example_db_def by (rule accounts.run_inv) (rule account_inv_empty)

section \<open>Properties\<close>

text \<open>
  Every sequence of account operations, whatever their arguments, keeps the schema's
  keys and foreign keys and keeps all stored emails normalised.
\<close>

theorem account_ops_keep_constraints:
  "account_inv d \<Longrightarrow> account_inv (run exec_account ops d)"
  by (rule accounts.run_inv)

theorem account_ops_keep_constraints_witness:
  "account_inv (run exec_account [OpEnsureUser '' Ada@x '' 1000, OpDeleteUser ''usr_1000''] (empty_db False))"
  by (rule account_ops_keep_constraints) (rule account_inv_empty)

text \<open>
  Property C1. However redemption attempts (by link token or by emailed code) and the other account
  operations interleave, a magic link opens at most one session, unless a later link is issued under the
  same token.
\<close>

theorem magic_link_single_use:
  assumes "account_inv d" "\<forall>x. Other x \<in> set es \<longrightarrow> \<not> issues_link x k"
  shows "successes redeem_link exec_account k es d \<le> 1"
  using assms by (intro links.at_most_once) auto

theorem magic_link_single_use_witness:
  "successes redeem_link exec_account ''ml''
     [Other (OpEnsureUser ''a@x'' 5000), Other (OpTxEnabled ''usr_5000'' True 9), Redeem ''ml'' (ByToken, 7, 60, ''s1''),
      Redeem ''ml'' (ByCode ''a@x'' ''123456'', 8, 60, ''s2'')] (empty_db False) \<le> 1"
  by (rule magic_link_single_use) auto

lemma sign_in_session:
  assumes "account_inv d"
    and "VerifyMagicLinkToken token now ttl sess d = (Inr (u, st), d') \<or>
         VerifyMagicLinkCode e c now ttl sess d = (Inr (u, st), d')"
    and "now \<le> t" "t \<le> now + ttl"
  shows "u_Status u = ''active'' \<and> (\<exists>v. GetUserBySessionToken st t d' = Some v \<and> u_ID v = u_ID u)"
proof -
  obtain l where "redeem_row l now ttl sess d = (Inr (u, st), d')"
    using assms(2) Token_row [of token now ttl sess d] Code_row [of e c now ttl sess d] by force
  then obtain r where r: "find_user (ml_user_id l) d = Some r" "ur_status r = ''active''"
      "u = scan_user_basic r" "st = sess" "sess \<notin> ss_token ` set (t_sessions d)"
      "t_users d' = t_users d"
      "t_sessions d' = t_sessions d @ [\<lparr>ss_token = sess, ss_user_id = ml_user_id l, ss_expires_at = now + ttl,
                ss_revoked_at = 0, ss_created_at = now\<rparr>]"
    by (cases rule: redeem_row_cases) auto
  have mem: "r \<in> set (t_users d)" "ur_id r = ml_user_id l"
    using r(1) by (auto simp: find_user_def dest: find_Some_mem)
  have "List.find (\<lambda>s. ss_token s = sess \<and> session_valid t s) (t_sessions d') =
      Some \<lparr>ss_token = sess, ss_user_id = ml_user_id l, ss_expires_at = now + ttl, ss_revoked_at = 0, ss_created_at = now\<rparr>"
  proof -
    have "List.find (\<lambda>s. ss_token s = sess \<and> session_valid t s) (t_sessions d) = None"
      using r(5) by (auto simp: find_None_iff)
    with assms(4) show ?thesis by (simp add: r(7) find_append session_valid_def)
  qed
  moreover have "List.find (\<lambda>x. ur_id x = ml_user_id l \<and> ur_status x = ''active'') (t_users d) = Some r"
  proof -
    have "uniq ur_id (t_users d)" using assms(1) db_ok_uniq by (simp add: account_inv_def)
    then have "(ur_id x = ml_user_id l \<and> ur_status x = ''active'') = (ur_id x = ur_id r)" if "x \<in> set (t_users d)" for x
      using that mem r(2) uniq_inj [of ur_id "t_users d" x r] by auto
    then have "List.find (\<lambda>x. ur_id x = ml_user_id l \<and> ur_status x = ''active'') (t_users d) =
        List.find (\<lambda>x. ur_id x = ur_id r) (t_users d)"
      by (intro find_cong) auto
    with find_uniq [OF \<open>uniq ur_id (t_users d)\<close> mem(1)] show ?thesis by simp
  qed
  ultimately show ?thesis
    using r by (simp add: GetUserBySessionToken_def scan_user_basic_def scan_user_flags_def)
qed

text \<open>
  A sign-in by link or by code that succeeds is for an active user and leaves a session
  under the returned token that authenticates as that user from then on until it expires.
\<close>

theorem sign_in_opens_session:
  assumes "account_inv d"
    and "VerifyMagicLinkToken token now ttl sess d = (Inr (u, st), d') \<or>
         VerifyMagicLinkCode e c now ttl sess d = (Inr (u, st), d')"
    and "now \<le> t" "t \<le> now + ttl"
  shows "u_Status u = ''active'' \<and> (\<exists>v. GetUserBySessionToken st t d' = Some v \<and> u_ID v = u_ID u)"
  using assms by (rule sign_in_session)

theorem sign_in_opens_session_witness:
  "\<exists>u d'. VerifyMagicLinkToken ''ml'' 8 60 ''s'' example_db = (Inr (u, ''s''), d') \<and> u_Status u = ''active'' \<and>
     (\<exists>v. GetUserBySessionToken ''s'' 30 d' = Some v \<and> u_ID v = u_ID u)"
proof -
  obtain u d' where v: "VerifyMagicLinkToken ''ml'' 8 60 ''s'' example_db = (Inr (u, ''s''), d')"
    by (simp add: example_db_eq account_eval)
  with sign_in_opens_session [OF example_db_inv disjI1 [OF v], of 30] show ?thesis by auto
qed

text \<open>
  Property C38. After a password change every session the user had is dead: no token
  authenticates as that user any more, at any later time.
\<close>

theorem password_change_revokes_sessions:
  assumes "SetUserPasswordHash uid hash now d = (True, d')" "now \<noteq> 0"
    and "GetUserBySessionToken token t d' = Some u"
  shows "u_ID u \<noteq> uid"
  using assms(3)
proof (cases rule: GetUser_session)
  case (1 x r)
  obtain y where "x = (if ss_user_id y = uid \<and> ss_revoked_at y = 0 then y\<lparr>ss_revoked_at := now\<rparr> else y)"
    using 1(1) unfolding SetUserPasswordHash_sessions [OF assms(1)] set_sql_update by blast
  moreover have "ss_revoked_at x = 0" using 1(3) by (simp add: session_valid_def)
  ultimately have "ss_user_id x \<noteq> uid" using assms(2) by (auto split: if_split_asm)
  with 1 show ?thesis by (simp add: scan_user_flags_def scan_user_basic_def)
qed

theorem password_change_revokes_sessions_witness:
  "let d = example_db\<lparr>t_users := t_users example_db @ [new_user_row ''u2'' ''b@x'' ''user'' ''active'' None 1],
         t_sessions := [\<lparr>ss_token = ''s2'', ss_user_id = ''u2'', ss_expires_at = 90, ss_revoked_at = 0, ss_created_at = 1\<rparr>]\<rparr>
   in \<exists>d' u. SetUserPasswordHash ''usr_5000'' ''h'' 9 d = (True, d') \<and> GetUserBySessionToken ''s2'' 20 d' = Some u \<and>
        u_ID u \<noteq> ''usr_5000''"
proof -
  let ?d = "example_db\<lparr>t_users := t_users example_db @ [new_user_row ''u2'' ''b@x'' ''user'' ''active'' None 1],
       t_sessions := [\<lparr>ss_token = ''s2'', ss_user_id = ''u2'', ss_expires_at = 90, ss_revoked_at = 0, ss_created_at = 1\<rparr>]\<rparr>"
  obtain d' u where "SetUserPasswordHash ''usr_5000'' ''h'' 9 ?d = (True, d')" "GetUserBySessionToken ''s2'' 20 d' = Some u"
    by (simp add: example_db_eq account_eval SetUserPasswordHash_eq revoke_user_sessions_def update_user_def
        string_eval GetUserBySessionToken_def session_valid_def)
  with password_change_revokes_sessions [OF this(1) _ this(2)] show ?thesis by (simp add: Let_def)
qed

text \<open>
  Property C29. Deleting an account fails, with a foreign-key error and no effect, exactly when a source
  the user owns has a recorded call or a key of someone else: the statement that deletes the
  sources runs before the ones that delete the user's calls.
\<close>

theorem delete_user_blocked_iff:
  "DeleteUser uid d = (Inl ForeignKeyViolation, d) \<longleftrightarrow> delete_blocked uid d"
proof (cases "delete_blocked uid d")
  case True
  then obtain err where "del_sources (\<lambda>r. sr_user_id r = Some uid) (delete_user_prefix uid d) = Inl err"
    using delete_sources_blocked by blast
  moreover from this have "err = ForeignKeyViolation"
    by (simp add: del_sources_def Let_def split: if_splits)
  ultimately show ?thesis using True by (simp add: DeleteUser_def)
next
  case False
  then show ?thesis
    using DeleteUser_result [OF False] by (metis (no_types, lifting) Inl_Inr_False fst_conv)
qed

text \<open>
  A deletion that reports success leaves the user gone and no row of any table that
  refers to them.
\<close>

theorem delete_user_complete:
  assumes "account_inv d" "DeleteUser uid d = (Inr True, d')"
  shows "find_user uid d' = None \<and> \<not> users_referenced [uid] d' \<and> db_ok d'"
proof -
  have ok: "db_ok d'"
    using DeleteUser_inv [OF assms(1), of uid] assms(2) by (simp add: account_inv_def)
  have "uid \<notin> ur_id ` set (t_users d')"
    using assms(2) by (auto simp: DeleteUser_def del_users_def Let_def split: sum.splits if_splits)
  then show ?thesis
    using ok by (auto simp: users_referenced_def db_ok_fkey(1-12) [OF ok, THEN fkey_no_ref] find_user_def find_None_iff)
qed

theorem delete_user_complete_witness:
  "\<exists>d'. DeleteUser ''usr_5000'' example_db = (Inr True, d') \<and> find_user ''usr_5000'' d' = None \<and>
     \<not> users_referenced [''usr_5000''] d' \<and> db_ok d'"
proof -
  obtain d' where "DeleteUser ''usr_5000'' example_db = (Inr True, d')"
    by (simp add: example_db_eq account_eval delete_eval)
  with delete_user_complete [OF example_db_inv this] show ?thesis by blast
qed

text \<open>
  The very first sign-up becomes an active administrator; every later new email becomes an
  ordinary user, active or pending as the hub is configured; a known email changes nothing. In each
  case the returned user is the one stored under the normalised email.
\<close>

theorem sign_up_roles:
  assumes "EnsureUserByEmail e ms d = (Inr u, d')"
  shows "u_Email u = normalize_email e \<and>
    (if normalize_email e \<in> ur_email ` set (t_users d) then d' = d
     else if t_users d = [] then u_Role u = ''admin'' \<and> u_Status u = ''active''
     else u_Role u = ''user'' \<and> u_Status u = (if auto_approve_users d then ''active'' else ''pending''))"
proof -
  obtain r where r: "find_user_by_email (normalize_email e) d' = Some r" "u = scan_user_basic r"
    using assms by (auto simp: EnsureUserByEmail_def Let_def split: sum.splits option.splits prod.splits)
  then have mem: "r \<in> set (t_users d')" "ur_email r = normalize_email e"
    by (auto simp: find_user_by_email_def dest: find_Some_mem)
  show ?thesis
  proof (cases "normalize_email e \<in> ur_email ` set (t_users d)")
    case True
    then have "d' = d"
      using assms by (simp add: EnsureUserByEmail_def Let_def split: option.splits prod.splits)
    with True r(2) mem show ?thesis by (simp add: scan_user_basic_def)
  next
    case False
    have "t_users d' = t_users d @ [new_user_row (user_id_of_millis ms) (normalize_email e)
        (if t_users d = [] then ''admin'' else ''user'')
        (if t_users d = [] \<or> auto_approve_users d then ''active'' else ''pending'') None (ms div 1000)]"
      using assms False
      by (auto simp: EnsureUserByEmail_def Let_def ins_users_def split: sum.splits option.splits prod.splits if_splits)
    with mem False have "r = new_user_row (user_id_of_millis ms) (normalize_email e)
        (if t_users d = [] then ''admin'' else ''user'')
        (if t_users d = [] \<or> auto_approve_users d then ''active'' else ''pending'') None (ms div 1000)"
      by (auto simp: image_iff)
    with False r(2) show ?thesis
      by (simp add: scan_user_basic_def new_user_row_def)
  qed
qed

theorem sign_up_roles_witness:
  "\<exists>u d'. EnsureUserByEmail ''a@x'' 7000 example_db = (Inr u, d') \<and> u_Email u = normalize_email ''a@x''"
proof -
  obtain u d' where "EnsureUserByEmail ''a@x'' 7000 example_db = (Inr u, d')"
    by (simp add: example_db_eq account_eval string_eval)
  with sign_up_roles [OF this] show ?thesis by blast
qed

lemma pow10_loop_eq: "pow10_loop n m = m * 10 ^ n"
  by (induction n arbitrary: m) (simp_all add: ac_simps)

lemma zero_digit: "is_digit (CHR ''0'')"
  by (simp add: is_digit_def decimal_digits_def)

text \<open>
  The six-digit sign-in code always has six decimal digits, for every draw of the random
  source; for 64 digits and more the modulus wraps around to 0 and the division panics.
\<close>

theorem numeric_code_bounds:
  "(\<exists>s. randomNumericCode 6 rnd = Some s \<and> length s = 6 \<and> list_all is_digit s) \<and>
   randomNumericCode (64 + int k) rnd = None"
proof
  have "unat (rnd mod 1000000) < 10 ^ 6"
  proof -
    have "unat (rnd mod 1000000) = unat rnd mod 1000000" by (simp add: unat_mod)
    then show ?thesis by simp
  qed
  from length_dec_nat [OF this] dec_nat_digits
  show "\<exists>s. randomNumericCode 6 rnd = Some s \<and> length s = 6 \<and> list_all is_digit s"
    by (simp add: randomNumericCode_def Let_def pow10_loop_eq pad_zeros_def list_all_iff ball_Un zero_digit)
  have "(10 :: 64 word) ^ (64 + k) = 10 ^ 64 * 10 ^ k" by (simp add: power_add)
  also have "(10 :: 64 word) ^ 64 = 0" by simp
  finally have "pow10_loop (nat (64 + int k)) 1 = 0"
    by (simp add: pow10_loop_eq nat_add_distrib)
  then show "randomNumericCode (64 + int k) rnd = None"
    by (simp add: randomNumericCode_def Let_def)
qed

end
