(* ===== verification/Sources.thy ===== *)
theory Sources
  imports Accounts "HOL-Library.Char_ord" "HOL-Library.List_Lexorder"
begin

text \<open>
  \<open>server/internal/database/sources.go\<close>: ingestion sources (scanner feeds), their API keys and the
  users a source is shared with. \<open>ORDER BY id\<close> on text is byte order here; the server's collation may
  order differently, which no statement below depends on.
\<close>

section \<open>Reading sources\<close>

record IngestionSource =
  is_ID :: string
  is_UserID :: string
  is_Label :: string
  is_Enabled :: bool
  is_IsShared :: bool
  is_DeletedAt :: int
  is_SystemID :: int
  is_SystemLabel :: string
  is_LastSeenUnix :: int
  is_ErrorCount :: int
  is_CallsReceived :: int
  is_UpdatedAt :: int

definition coalesce :: "string option \<Rightarrow> string" where
  "coalesce x = (case x of None \<Rightarrow> [] | Some s \<Rightarrow> s)"

definition scan_source :: "sources_row \<Rightarrow> IngestionSource" where
  "scan_source r = \<lparr>is_ID = sr_id r, is_UserID = coalesce (sr_user_id r), is_Label = sr_label r,
     is_Enabled = sr_enabled r, is_IsShared = sr_is_shared r, is_DeletedAt = sr_deleted_at r,
     is_SystemID = sr_system_id r, is_SystemLabel = sr_system_label r,
     is_LastSeenUnix = sr_last_seen_unix r, is_ErrorCount = sr_error_count r,
     is_CallsReceived = sr_calls_received r, is_UpdatedAt = sr_updated_at r\<rparr>"

definition find_source :: "string \<Rightarrow> db \<Rightarrow> sources_row option" where
  "find_source i d = List.find (\<lambda>r. sr_id r = i) (t_sources d)"

definition GetIngestionSource :: "string \<Rightarrow> db \<Rightarrow> IngestionSource option" where
  "GetIngestionSource i d = map_option scan_source (find_source i d)"

definition ListIngestionSources :: "bool \<Rightarrow> db \<Rightarrow> IngestionSource list" where
  "ListIngestionSources includeDeleted d =
     map scan_source (order_asc sr_id (filter (\<lambda>r. includeDeleted \<or> sr_deleted_at r = 0) (t_sources d)))"

text \<open>The pattern \<open>'remote\_%' ESCAPE '\'\<close> of the queries.\<close>

definition remote_pattern :: string where
  "remote_pattern = ''remote'' @ [backslash, CHR ''_'', CHR ''%'']"

definition like_remote :: "string \<Rightarrow> bool" where
  "like_remote s \<longleftrightarrow> sql_like remote_pattern s"

definition exported_source :: "sources_row \<Rightarrow> bool" where
  "exported_source s \<longleftrightarrow> sr_deleted_at s = 0 \<and> sr_enabled s \<and> sr_is_shared s \<and> \<not> like_remote (sr_id s)"

definition ListSharedIngestionSources :: "db \<Rightarrow> IngestionSource list" where
  "ListSharedIngestionSources d = map scan_source (order_asc sr_id (filter exported_source (t_sources d)))"

definition CountImportedFederatedSources :: "db \<Rightarrow> int" where
  "CountImportedFederatedSources d =
     int (sql_count (\<lambda>s. sr_deleted_at s = 0 \<and> sr_enabled s \<and> like_remote (sr_id s)) (t_sources d))"

section \<open>Writing sources\<close>

definition UpsertIngestionSource :: "IngestionSource \<Rightarrow> int \<Rightarrow> db \<Rightarrow> unit dbres" where
  "UpsertIngestionSource s now d =
     (let uid = nullableString (is_UserID s);
          new = \<lparr>sr_id = is_ID s, sr_user_id = uid, sr_label = is_Label s, sr_enabled = is_Enabled s,
                 sr_is_shared = is_IsShared s, sr_deleted_at = 0, sr_system_id = is_SystemID s,
                 sr_system_label = is_SystemLabel s, sr_last_seen_unix = is_LastSeenUnix s,
                 sr_error_count = is_ErrorCount s, sr_calls_received = is_CallsReceived s, sr_updated_at = now\<rparr>
      in case find_source (is_ID s) d of
           None \<Rightarrow> (case ins_sources new d of Inl err \<Rightarrow> (Inl err, d) | Inr d' \<Rightarrow> (Inr (), d'))
         | Some old \<Rightarrow>
             if \<not> source_ints_ok new then (Inl OutOfRange, d)
             else if sr_user_id old = None \<and> \<not> user_ref_ok d uid then (Inl ForeignKeyViolation, d)
             else (Inr (), d\<lparr>t_sources := sql_update (\<lambda>r. sr_id r = is_ID s)
                (\<lambda>r. new\<lparr>sr_id := sr_id r, sr_user_id := (case sr_user_id r of None \<Rightarrow> uid | Some u \<Rightarrow> Some u)\<rparr>) (t_sources d)\<rparr>))"

definition fresh_source_row :: "string \<Rightarrow> int \<Rightarrow> sources_row" where
  "fresh_source_row i now = \<lparr>sr_id = i, sr_user_id = None, sr_label = [], sr_enabled = True,
     sr_is_shared = False, sr_deleted_at = 0, sr_system_id = 0, sr_system_label = [],
     sr_last_seen_unix = 0, sr_error_count = 0, sr_calls_received = 0, sr_updated_at = now\<rparr>"

definition bump_source :: "bool \<Rightarrow> int \<Rightarrow> sources_row \<Rightarrow> sources_row" where
  "bump_source success now r =
     (if success
      then r\<lparr>sr_calls_received := sr_calls_received r + 1, sr_last_seen_unix := now,
             sr_error_count := 0, sr_updated_at := now\<rparr>
      else r\<lparr>sr_error_count := sr_error_count r + 1, sr_updated_at := now\<rparr>)"

definition IncrementSourceMetrics :: "string \<Rightarrow> bool \<Rightarrow> int \<Rightarrow> db \<Rightarrow> unit dbres" where
  "IncrementSourceMetrics i success now d =
     (case find_source i d of
        None \<Rightarrow>
          (let r = (if success then (fresh_source_row i now)\<lparr>sr_calls_received := 1, sr_last_seen_unix := now\<rparr>
                    else (fresh_source_row i now)\<lparr>sr_error_count := 1\<rparr>)
           in case ins_sources r d of Inl err \<Rightarrow> (Inl err, d) | Inr d' \<Rightarrow> (Inr (), d'))
      | Some old \<Rightarrow>
          if \<not> source_ints_ok (bump_source success now old) then (Inl OutOfRange, d)
          else (Inr (), d\<lparr>t_sources := sql_update (\<lambda>r. sr_id r = i) (bump_source success now) (t_sources d)\<rparr>))"

definition deleted_prefix :: string where "deleted_prefix = ''[deleted] ''"

definition soft_delete :: "int \<Rightarrow> sources_row \<Rightarrow> sources_row" where
  "soft_delete now r = r\<lparr>sr_enabled := False, sr_deleted_at := now, sr_updated_at := now,
     sr_label := (if sql_like (deleted_prefix @ ''%'') (sr_label r) then sr_label r
                  else deleted_prefix @ sr_label r)\<rparr>"

definition DeleteIngestionSource :: "string \<Rightarrow> int \<Rightarrow> db \<Rightarrow> bool \<times> db" where
  "DeleteIngestionSource i now d =
     (let d1 = d\<lparr>t_keys := sql_delete (\<lambda>k. ky_source_id k = i) (t_keys d)\<rparr>;
          P = (\<lambda>r. sr_id r = i \<and> sr_deleted_at r = 0) in
      if sql_count P (t_sources d1) = 0 then (False, d)
      else (True, d1\<lparr>t_sources := sql_update P (soft_delete now) (t_sources d1)\<rparr>))"

section \<open>API keys\<close>

record SourceAPIKey =
  sk_ID :: string
  sk_SourceID :: string
  sk_UserID :: string
  sk_APIKey :: string
  sk_CreatedAt :: int
  sk_LastUsedAt :: int

definition scan_key :: "keys_row \<Rightarrow> SourceAPIKey" where
  "scan_key k = \<lparr>sk_ID = ky_id k, sk_SourceID = ky_source_id k, sk_UserID = coalesce (ky_user_id k),
     sk_APIKey = ky_api_key k, sk_CreatedAt = ky_created_at k, sk_LastUsedAt = ky_last_used_at k\<rparr>"

definition GenerateSourceKey :: "IngestionSource \<Rightarrow> int \<Rightarrow> string \<Rightarrow> db \<Rightarrow> SourceAPIKey dbres" where
  "GenerateSourceKey s ms key d =
     (let r = \<lparr>ky_id = ''key_'' @ format_int ms, ky_source_id = is_ID s, ky_user_id = nullableString (is_UserID s),
               ky_api_key = key, ky_created_at = ms div 1000, ky_last_used_at = 0\<rparr> in
      case ins_keys r d of
        Inl err \<Rightarrow> (Inl err, d)
      | Inr d' \<Rightarrow> (Inr ((scan_key r)\<lparr>sk_UserID := is_UserID s\<rparr>), d'))"

text \<open>
  A key of an unowned source passes its user on to the source; an error of that upsert is ignored.
\<close>

definition GetSourceByAPIKey :: "string \<Rightarrow> int \<Rightarrow> db \<Rightarrow> IngestionSource option \<times> db" where
  "GetSourceByAPIKey key now d =
     (case List.find (\<lambda>k. ky_api_key k = key) (t_keys d) of
        None \<Rightarrow> (None, d)
      | Some k \<Rightarrow> (case GetIngestionSource (ky_source_id k) d of
          None \<Rightarrow> (None, d)
        | Some s \<Rightarrow>
            if is_DeletedAt s > 0 then (None, d)
            else if is_UserID s = [] \<and> coalesce (ky_user_id k) \<noteq> [] then
              (let s' = s\<lparr>is_UserID := coalesce (ky_user_id k)\<rparr> in (Some s', snd (UpsertIngestionSource s' now d)))
            else (Some s, d)))"

definition ListSourceKeys :: "string \<Rightarrow> db \<Rightarrow> SourceAPIKey list" where
  "ListSourceKeys i d = map scan_key (order_desc ky_created_at (filter (\<lambda>k. ky_source_id k = i) (t_keys d)))"

definition RevokeSourceKey :: "string \<Rightarrow> string \<Rightarrow> db \<Rightarrow> db" where
  "RevokeSourceKey i kid d = d\<lparr>t_keys := sql_delete (\<lambda>k. ky_source_id k = i \<and> ky_id k = kid) (t_keys d)\<rparr>"

definition UpdateKeyLastUsed :: "string \<Rightarrow> int \<Rightarrow> db \<Rightarrow> db" where
  "UpdateKeyLastUsed key now d =
     d\<lparr>t_keys := sql_update (\<lambda>k. ky_api_key k = key) (\<lambda>k. k\<lparr>ky_last_used_at := now\<rparr>) (t_keys d)\<rparr>"

section \<open>Who reads a source\<close>

definition distinct_ids :: "string list \<Rightarrow> string list" where
  "distinct_ids xs = sort (remdups (filter (\<lambda>x. x \<noteq> []) xs))"

definition own_ids :: "string \<Rightarrow> db \<Rightarrow> string list" where
  "own_ids u d = map sr_id (filter (\<lambda>s. sr_user_id s = Some u \<and> sr_deleted_at s = 0) (t_sources d))"

definition key_ids :: "string \<Rightarrow> db \<Rightarrow> string list" where
  "key_ids u d = map ky_source_id (filter (\<lambda>k. ky_user_id k = Some u) (t_keys d))"

definition share_ids :: "string \<Rightarrow> db \<Rightarrow> string list" where
  "share_ids u d = map sh_source_id (filter (\<lambda>s. sh_user_id s = u) (t_shares d))"

definition ListSourceIDsForOwner :: "string \<Rightarrow> db \<Rightarrow> string list" where
  "ListSourceIDsForOwner u d = distinct_ids (own_ids u d @ key_ids u d)"

definition ListReadableSourceIDsForUser :: "string \<Rightarrow> db \<Rightarrow> string list" where
  "ListReadableSourceIDsForUser u d = distinct_ids
     (own_ids u d @ key_ids u d @ share_ids u d
      @ map sr_id (filter (\<lambda>s. sr_is_shared s \<and> sr_deleted_at s = 0) (t_sources d))
      @ map sr_id (filter (\<lambda>s. like_remote (sr_id s) \<and> sr_enabled s \<and> sr_deleted_at s = 0) (t_sources d)))"

definition ListSharedSourceIDsForUser :: "string \<Rightarrow> db \<Rightarrow> string \<Rightarrow> bool" where
  "ListSharedSourceIDsForUser u d = (\<lambda>i. i \<in> set (share_ids u d))"

definition ListSourceShareUserIDs :: "string \<Rightarrow> db \<Rightarrow> string list" where
  "ListSourceShareUserIDs i d =
     map sh_user_id (order_asc sh_user_id (filter (\<lambda>s. sh_source_id s = i) (t_shares d)))"

text \<open>The loop over the new user list: blanks and repetitions are skipped, the first failing insert stops it.\<close>

fun insert_shares :: "string \<Rightarrow> int \<Rightarrow> string list \<Rightarrow> string list \<Rightarrow> db \<Rightarrow> db_error + db" where
  "insert_shares i now seen [] d = Inr d"
| "insert_shares i now seen (raw # us) d =
     (let u = TrimSpace raw in
      if u = [] \<or> u \<in> set seen then insert_shares i now seen us d
      else case ins_shares \<lparr>sh_source_id = i, sh_user_id = u, sh_created_at = now\<rparr> d of
             Inl err \<Rightarrow> Inl err
           | Inr d' \<Rightarrow> insert_shares i now (u # seen) us d')"

definition SetSourceShareUserIDs :: "string \<Rightarrow> string list \<Rightarrow> int \<Rightarrow> db \<Rightarrow> unit dbres" where
  "SetSourceShareUserIDs i us now d =
     (case insert_shares i now [] us (d\<lparr>t_shares := sql_delete (\<lambda>s. sh_source_id s = i) (t_shares d)\<rparr>) of
        Inl err \<Rightarrow> (Inl err, d)
      | Inr d' \<Rightarrow> (Inr (), d'))"

section \<open>Constraints\<close>

lemma like_remote_iff: "like_remote s \<longleftrightarrow> prefix ''remote_'' s"
proof -
  have p: "list_all plain_char ''remote''" by (simp add: plain_char_def backslash_def)
  have "like_remote s \<longleftrightarrow> (\<exists>t. s = ''remote'' @ t \<and> sql_like [backslash, CHR ''_'', CHR ''%''] t)"
    unfolding like_remote_def remote_pattern_def by (rule sql_like_plain_prefix [OF p])
  also have "\<dots> \<longleftrightarrow> prefix (''remote'' @ ''_'') s"
  proof -
    have "sql_like [backslash, CHR ''_'', CHR ''%''] t \<longleftrightarrow> (\<exists>u. t = ''_'' @ u)" for t
      by (cases t) auto
    then show ?thesis
      unfolding prefix_def append_assoc by blast
  qed
  finally show ?thesis by simp
qed

lemma upsert_sources_ok:
  assumes "db_ok d" "\<And>r. P r \<Longrightarrow> sr_id (f r) = sr_id r" "\<And>r. r \<in> set (t_sources d) \<Longrightarrow> P r \<Longrightarrow> user_ref_ok d (sr_user_id (f r))"
  shows "db_ok (d\<lparr>t_sources := sql_update P f (t_sources d)\<rparr>)"
proof (rule set_sources_ok [OF assms(1)])
  show "fkey sr_user_id (sql_update P f (t_sources d)) ur_id (t_users d)"
    using assms(1,3) db_ok_fkey(7) [OF assms(1)]
    by (fastforce simp: fkey_iff set_sql_update user_ref_ok_def user_exists_def split: option.splits)
qed (use assms in \<open>simp_all add: key_simps db_ok_uniq\<close>)

lemma source_user_ref: "db_ok d \<Longrightarrow> r \<in> set (t_sources d) \<Longrightarrow> user_ref_ok d (sr_user_id r)"
  using db_ok_fkey(7) by (fastforce simp: fkey_iff user_ref_ok_def user_exists_def split: option.splits)

lemma UpsertIngestionSource_ok:
  assumes "db_ok d"
  shows "db_ok (snd (UpsertIngestionSource s now d))"
proof (cases "find_source (is_ID s) d")
  case None
  then show ?thesis
    using assms ins_sources_ok [OF assms] by (simp add: UpsertIngestionSource_def Let_def split: sum.splits)
next
  case (Some old)
  then have old: "old \<in> set (t_sources d)" "sr_id old = is_ID s"
    by (auto simp: find_source_def dest: find_Some_mem)
  have "user_ref_ok d (case sr_user_id r of None \<Rightarrow> nullableString (is_UserID s) | Some u \<Rightarrow> Some u)"
    if "r \<in> set (t_sources d)" "sr_id r = is_ID s" "sr_user_id old = None \<longrightarrow> user_ref_ok d (nullableString (is_UserID s))" for r
  proof -
    have "r = old"
      using uniq_inj [of sr_id "t_sources d" r old] db_ok_uniq(14) [OF assms] that old by simp
    with that(3) source_user_ref [OF assms that(1)] show ?thesis by (auto split: option.splits)
  qed
  with Some assms show ?thesis
    by (auto simp: UpsertIngestionSource_def Let_def intro!: upsert_sources_ok split: if_splits)
qed

lemma IncrementSourceMetrics_ok: "db_ok d \<Longrightarrow> db_ok (snd (IncrementSourceMetrics i b now d))"
proof -
  assume d: "db_ok d"
  have "db_ok (d\<lparr>t_sources := sql_update P (bump_source b now) (t_sources d)\<rparr>)" for P
    using d by (rule upd_sources_ok) (simp_all add: bump_source_def)
  with d show ?thesis
    by (auto simp: IncrementSourceMetrics_def Let_def dest: ins_sources_ok [OF d] split: option.split sum.split)
qed

lemma DeleteIngestionSource_ok: "db_ok d \<Longrightarrow> db_ok (snd (DeleteIngestionSource i now d))"
proof -
  assume d: "db_ok d"
  let ?d = "d\<lparr>t_keys := sql_delete (\<lambda>k. ky_source_id k = i) (t_keys d)\<rparr>"
  have "db_ok (?d\<lparr>t_sources := sql_update P (soft_delete now) (t_sources ?d)\<rparr>)" for P
    using del_keys_ok [OF d] by (rule upd_sources_ok) (simp add: soft_delete_def)
  with d show ?thesis by (simp add: DeleteIngestionSource_def Let_def)
qed

lemma GetSourceByAPIKey_ok: "db_ok d \<Longrightarrow> db_ok (snd (GetSourceByAPIKey key now d))"
  by (simp add: GetSourceByAPIKey_def Let_def UpsertIngestionSource_ok split: option.splits)

lemma insert_shares_ok: "db_ok d \<Longrightarrow> insert_shares i now seen us d = Inr d' \<Longrightarrow> db_ok d'"
proof (induction us arbitrary: seen d)
  case (Cons raw us)
  then show ?case
    using ins_shares_ok [OF Cons.prems(1)] by (auto simp: Let_def split: if_splits sum.splits)
qed simp

lemma SetSourceShareUserIDs_ok: "db_ok d \<Longrightarrow> db_ok (snd (SetSourceShareUserIDs i us now d))"
proof -
  assume d: "db_ok d"
  from insert_shares_ok [OF del_shares_ok [OF d]] d show ?thesis
    by (simp add: SetSourceShareUserIDs_def split: sum.splits)
qed

datatype source_op =
    OpUpsertSource IngestionSource int
  | OpSourceMetrics string bool int
  | OpDeleteSource string int
  | OpGenerateKey IngestionSource int string
  | OpUseKey string int
  | OpRevokeKey string string
  | OpKeyLastUsed string int
  | OpSetShares string "string list" int

fun exec_source :: "source_op \<Rightarrow> db \<Rightarrow> db" where
  "exec_source (OpUpsertSource s now) d = snd (UpsertIngestionSource s now d)"
| "exec_source (OpSourceMetrics i b now) d = snd (IncrementSourceMetrics i b now d)"
| "exec_source (OpDeleteSource i now) d = snd (DeleteIngestionSource i now d)"
| "exec_source (OpGenerateKey s ms key) d = snd (GenerateSourceKey s ms key d)"
| "exec_source (OpUseKey key now) d = snd (GetSourceByAPIKey key now d)"
| "exec_source (OpRevokeKey i kid) d = RevokeSourceKey i kid d"
| "exec_source (OpKeyLastUsed key now) d = UpdateKeyLastUsed key now d"
| "exec_source (OpSetShares i us now) d = snd (SetSourceShareUserIDs i us now d)"

lemma exec_source_ok: "db_ok d \<Longrightarrow> db_ok (exec_source x d)"
proof (cases x)
  case (OpGenerateKey s ms key)
  assume d: "db_ok d"
  with OpGenerateKey show ?thesis
    using ins_keys_ok [OF d] by (simp add: GenerateSourceKey_def Let_def split: sum.splits)
qed (simp_all add: UpsertIngestionSource_ok IncrementSourceMetrics_ok DeleteIngestionSource_ok
    GetSourceByAPIKey_ok RevokeSourceKey_def UpdateKeyLastUsed_def SetSourceShareUserIDs_ok
    del_keys_ok upd_keys_ok)

interpretation sources: invariant_store db_ok exec_source
  by unfold_locales (rule exec_source_ok)

section \<open>Ownership\<close>

definition owned_by :: "string \<Rightarrow> string \<Rightarrow> db \<Rightarrow> bool" where
  "owned_by i u d \<longleftrightarrow> db_ok d \<and> (\<exists>r. find_source i d = Some r \<and> sr_user_id r = Some u)"

lemma find_source_update:
  "(\<And>r. P r \<Longrightarrow> sr_id (f r) = sr_id r) \<Longrightarrow>
   find_source i (d\<lparr>t_sources := sql_update P f (t_sources d)\<rparr>) =
     map_option (\<lambda>r. if P r then f r else r) (find_source i d)"
  by (simp add: find_source_def find_sql_update_key)

lemma find_source_insert:
  "ins_sources r d = Inr d' \<Longrightarrow> find_source i d \<noteq> None \<Longrightarrow> find_source i d' = find_source i d"
  by (auto simp: ins_sources_def find_source_def find_append split: if_splits)

lemma find_source_other [simp]:
  "find_source i (d\<lparr>t_keys := ks\<rparr>) = find_source i d" "find_source i (d\<lparr>t_shares := ss\<rparr>) = find_source i d"
  by (simp_all add: find_source_def)

lemma insert_shares_sources: "insert_shares i now seen us d = Inr d' \<Longrightarrow> t_sources d' = t_sources d"
proof (induction us arbitrary: seen d)
  case (Cons raw us)
  then show ?case
    by (auto simp: Let_def ins_shares_def split: if_splits sum.splits)
qed simp

lemma UpsertIngestionSource_owner:
  assumes "find_source i d = Some r" "sr_user_id r = Some u"
  shows "\<exists>r'. find_source i (snd (UpsertIngestionSource s now d)) = Some r' \<and> sr_user_id r' = Some u"
proof (cases "find_source (is_ID s) d")
  case None
  with assms show ?thesis
    by (auto simp: UpsertIngestionSource_def Let_def find_source_insert split: sum.split)
next
  case (Some old)
  with assms show ?thesis
    by (simp add: UpsertIngestionSource_def Let_def find_source_update)
qed

lemma exec_source_owner:
  assumes "find_source i d = Some r" "sr_user_id r = Some u"
  shows "\<exists>r'. find_source i (exec_source x d) = Some r' \<and> sr_user_id r' = Some u"
proof (cases x)
  case (OpUpsertSource s now)
  with assms show ?thesis by (simp add: UpsertIngestionSource_owner)
next
  case (OpSourceMetrics j b now)
  with assms show ?thesis
    by (auto simp: IncrementSourceMetrics_def Let_def find_source_update find_source_insert bump_source_def
        split: sum.split option.split)
next
  case (OpDeleteSource j now)
  with assms show ?thesis
    by (simp add: DeleteIngestionSource_def Let_def soft_delete_def find_source_def find_sql_update_key)
next
  case (OpGenerateKey s ms key)
  with assms show ?thesis
    by (auto simp: GenerateSourceKey_def Let_def ins_keys_def)
next
  case (OpUseKey key now)
  with assms show ?thesis
    by (auto simp: GetSourceByAPIKey_def Let_def UpsertIngestionSource_owner split: option.split)
next
  case (OpSetShares j us now)
  with assms show ?thesis
    by (auto simp: SetSourceShareUserIDs_def find_source_def dest: insert_shares_sources split: sum.split)
qed (use assms in \<open>simp_all add: RevokeSourceKey_def UpdateKeyLastUsed_def\<close>)

interpretation owned: invariant_store "owned_by i u" exec_source for i u
  by unfold_locales (auto simp: owned_by_def exec_source_ok exec_source_owner)

section \<open>The share list\<close>

definition share_users :: "string list \<Rightarrow> string set" where
  "share_users us = {u. u \<noteq> [] \<and> u \<in> TrimSpace ` set us}"

lemma insert_shares_iff:
  "is_ok (insert_shares i now seen us d) \<longleftrightarrow>
     (\<forall>u \<in> share_users us - set seen. source_exists d i \<and> user_exists d u \<and> u \<notin> set (map sh_user_id (filter (\<lambda>s. sh_source_id s = i) (t_shares d))))"
proof (induction us arbitrary: seen d)
  case (Cons raw us)
  let ?u = "TrimSpace raw" let ?r = "\<lparr>sh_source_id = i, sh_user_id = TrimSpace raw, sh_created_at = now\<rparr>"
  have us: "share_users (raw # us) = (if ?u = [] then {} else {?u}) \<union> share_users us"
    by (auto simp: share_users_def)
  show ?case
  proof (cases "?u = [] \<or> ?u \<in> set seen")
    case True
    then show ?thesis using Cons.IH [of seen d] us by auto
  next
    case False
    show ?thesis
    proof (cases "ins_shares ?r d")
      case (Inl err)
      with False us show ?thesis
        by (fastforce simp: Let_def ins_shares_def split: if_splits)
    next
      case (Inr d')
      then have d': "d' = d\<lparr>t_shares := t_shares d @ [?r]\<rparr>" "source_exists d i" "user_exists d ?u"
          "?u \<notin> set (map sh_user_id (filter (\<lambda>s. sh_source_id s = i) (t_shares d)))"
        by (auto simp: ins_shares_def image_iff split: if_splits)
      have "is_ok (insert_shares i now seen (raw # us) d) \<longleftrightarrow> is_ok (insert_shares i now (?u # seen) us d')"
        using Inr False by (simp add: Let_def)
      also have "\<dots> \<longleftrightarrow> (\<forall>u \<in> share_users us - set (?u # seen). source_exists d i \<and> user_exists d u \<and>
          u \<notin> set (map sh_user_id (filter (\<lambda>s. sh_source_id s = i) (t_shares d'))))"
        unfolding Cons.IH by (simp add: d'(1) source_exists_def user_exists_def)
      also have "\<dots> \<longleftrightarrow> (\<forall>u \<in> share_users us - set (?u # seen). source_exists d i \<and> user_exists d u \<and>
          u \<notin> set (map sh_user_id (filter (\<lambda>s. sh_source_id s = i) (t_shares d))))"
        by (auto simp: d'(1))
      also have "\<dots> \<longleftrightarrow> (\<forall>u \<in> share_users (raw # us) - set seen. source_exists d i \<and> user_exists d u \<and>
          u \<notin> set (map sh_user_id (filter (\<lambda>s. sh_source_id s = i) (t_shares d))))"
      proof -
        have "(\<forall>u \<in> S - set (x # B). P u) \<longleftrightarrow> (\<forall>u \<in> ({x} \<union> S) - set B. P u)" if "P x" for P x B and S :: "string set"
          using that by auto
        from this [of "\<lambda>u. source_exists d i \<and> user_exists d u \<and>
            u \<notin> set (map sh_user_id (filter (\<lambda>s. sh_source_id s = i) (t_shares d)))" ?u "share_users us" seen]
        show ?thesis using d'(2-4) False by (simp add: us)
      qed
      finally show ?thesis .
    qed
  qed
qed (simp add: share_users_def)

lemma insert_shares_rows:
  "insert_shares i now seen us d = Inr d' \<Longrightarrow>
   \<exists>new. d' = d\<lparr>t_shares := t_shares d @ map (\<lambda>u. \<lparr>sh_source_id = i, sh_user_id = u, sh_created_at = now\<rparr>) new\<rparr>
     \<and> set new = share_users us - set seen \<and> distinct new"
proof (induction us arbitrary: seen d)
  case Nil
  then show ?case by (intro exI [of _ "[]"]) (simp add: share_users_def)
next
  case (Cons raw us)
  let ?u = "TrimSpace raw" let ?row = "\<lambda>u. \<lparr>sh_source_id = i, sh_user_id = u, sh_created_at = now\<rparr>"
  have us: "share_users (raw # us) = (if ?u = [] then {} else {?u}) \<union> share_users us"
    by (auto simp: share_users_def)
  show ?case
  proof (cases "?u = [] \<or> ?u \<in> set seen")
    case True
    with Cons.prems have "insert_shares i now seen us d = Inr d'" by (simp add: Let_def)
    from Cons.IH [OF this] True us show ?thesis by auto
  next
    case False
    with Cons.prems obtain d1 where d1: "ins_shares (?row ?u) d = Inr d1" "insert_shares i now (?u # seen) us d1 = Inr d'"
      by (auto simp: Let_def split: sum.splits)
    from Cons.IH [OF d1(2)] obtain new where new:
      "d' = d1\<lparr>t_shares := t_shares d1 @ map ?row new\<rparr>" "set new = share_users us - set (?u # seen)" "distinct new"
      by blast
    have "d1 = d\<lparr>t_shares := t_shares d @ [?row ?u]\<rparr>"
      using d1(1) by (auto simp: ins_shares_def split: if_splits)
    with new False us show ?thesis
      by (intro exI [of _ "?u # new"]) auto
  qed
qed

lemma order_asc_distinct:
  assumes "set (map k rows) = A" "distinct (map k rows)"
  shows "map k (order_asc k rows) = sorted_list_of_set A"
proof -
  have "sorted_list_of_set (set (map k (order_asc k rows))) = map k (order_asc k rows)"
  proof (rule sorted_list_of_set.idem_if_sorted_distinct)
    show "sorted (map k (order_asc k rows))" by (simp add: order_asc_def)
    show "distinct (map k (order_asc k rows))"
      using assms(2) by (simp add: distinct_map order_asc_def)
  qed
  then show ?thesis using assms(1) by simp
qed

definition example_source :: "string \<Rightarrow> string \<Rightarrow> IngestionSource" where
  "example_source i u = \<lparr>is_ID = i, is_UserID = u, is_Label = ''Feed'', is_Enabled = True, is_IsShared = False,
     is_DeletedAt = 0, is_SystemID = 1, is_SystemLabel = ''P25'', is_LastSeenUnix = 0, is_ErrorCount = 0,
     is_CallsReceived = 0, is_UpdatedAt = 0\<rparr>"

definition example_feed_db :: db where
  "example_feed_db = example_db\<lparr>
     t_users := t_users example_db @ [new_user_row ''usr_6000'' ''b@x'' ''user'' ''active'' None 6],
     t_sources := [fresh_source_row ''north'' 5\<lparr>sr_user_id := Some ''usr_5000'', sr_label := ''North''\<rparr>],
     t_shares := [\<lparr>sh_source_id = ''north'', sh_user_id = ''usr_6000'', sh_created_at = 6\<rparr>]\<rparr>"

lemma example_feed_db_ok: "db_ok example_feed_db"
  by (simp add: example_feed_db_def example_db_eq new_user_row_def fresh_source_row_def db_ok_defs empty_db_def
      fkey_def uniq_opt_def nonnull_def uniq_def)

lemmas feed_eval = example_feed_db_def example_db_eq new_user_row_def fresh_source_row_def empty_db_def

section \<open>Properties\<close>

text \<open>
  Once a source has an owner, no sequence of source operations gives it another one or takes
  it away: not an upsert by someone else, not a use of somebody's key, not the soft delete.
\<close>

theorem source_owner_fixed:
  assumes "db_ok d" "find_source i d = Some r" "sr_user_id r = Some u"
  shows "\<exists>r'. find_source i (run exec_source ops d) = Some r' \<and> sr_user_id r' = Some u"
proof -
  have "owned_by i u (run exec_source ops d)"
    by (rule owned.run_inv) (use assms in \<open>auto simp: owned_by_def\<close>)
  then show ?thesis by (simp add: owned_by_def)
qed

theorem source_owner_fixed_witness:
  "\<exists>r'. find_source ''north'' (run exec_source [OpUpsertSource (example_source ''north'' ''usr_6000'') 9,
      OpDeleteSource ''north'' 10] example_feed_db) = Some r' \<and> sr_user_id r' = Some ''usr_5000''"
  by (rule source_owner_fixed [OF example_feed_db_ok], simp add: feed_eval find_source_def, simp)

text \<open>
  Replacing the share list of a source succeeds exactly when every non-blank id is a user and
  the source exists; it then shares the source with exactly those users, once each and in order, and
  leaves the shares of other sources alone. A failed replacement changes nothing.
\<close>

theorem share_list_replaced:
  "(is_ok (fst (SetSourceShareUserIDs i us now d)) \<longleftrightarrow>
      (\<forall>u \<in> share_users us. source_exists d i \<and> user_exists d u)) \<and>
   (case SetSourceShareUserIDs i us now d of
      (Inl _, d') \<Rightarrow> d' = d
    | (Inr _, d') \<Rightarrow> ListSourceShareUserIDs i d' = sorted_list_of_set (share_users us) \<and>
        (j \<noteq> i \<longrightarrow> ListSourceShareUserIDs j d' = ListSourceShareUserIDs j d))"
proof -
  let ?row = "\<lambda>u. \<lparr>sh_source_id = i, sh_user_id = u, sh_created_at = now\<rparr>"
  let ?d = "d\<lparr>t_shares := sql_delete (\<lambda>s. sh_source_id s = i) (t_shares d)\<rparr>"
  have none: "filter (\<lambda>s. sh_source_id s = i) (t_shares ?d) = []"
    by (simp add: sql_delete_def filter_empty_conv)
  have other: "filter (\<lambda>s. sh_source_id s = j) (t_shares ?d) = filter (\<lambda>s. sh_source_id s = j) (t_shares d)" if "j \<noteq> i"
    using that by (auto simp: sql_delete_def intro: filter_cong)
  have ok: "is_ok (insert_shares i now [] us ?d) \<longleftrightarrow> (\<forall>u \<in> share_users us. source_exists d i \<and> user_exists d u)"
    unfolding insert_shares_iff none by (simp add: source_exists_def user_exists_def)
  show ?thesis
  proof (cases "insert_shares i now [] us ?d")
    case (Inl err)
    with ok show ?thesis by (simp add: SetSourceShareUserIDs_def)
  next
    case (Inr d')
    from insert_shares_rows [OF Inr] obtain new where new: "d' = ?d\<lparr>t_shares := t_shares ?d @ map ?row new\<rparr>"
        "set new = share_users us" "distinct new" by auto
    have "filter (\<lambda>s. sh_source_id s = i) (t_shares d') = map ?row new"
      using none by (simp add: new(1))
    then have "ListSourceShareUserIDs i d' = sorted_list_of_set (share_users us)"
      unfolding ListSourceShareUserIDs_def
      by (intro order_asc_distinct) (use new in \<open>auto simp: comp_def\<close>)
    moreover have "ListSourceShareUserIDs j d' = ListSourceShareUserIDs j d" if "j \<noteq> i"
      using that other [OF that] by (simp add: ListSourceShareUserIDs_def new(1))
    ultimately show ?thesis
      using Inr ok by (simp add: SetSourceShareUserIDs_def)
  qed
qed

theorem share_list_replaced_witness:
  "is_ok (fst (SetSourceShareUserIDs ''north'' ['' usr_5000'', [], ''usr_6000'', ''usr_5000 ''] 9 example_feed_db)) \<and>
   \<not> is_ok (fst (SetSourceShareUserIDs ''north'' [''nobody''] 9 example_feed_db))"
  unfolding conjunct1 [OF share_list_replaced [where j = "''west''"]]
  by (auto simp: share_users_def feed_eval TrimSpace_def is_space_def source_exists_def user_exists_def)

text \<open>
  After a soft delete that reports success the source is disabled, stamped, has no keys, and is
  out of the active list; its owner can no longer read its calls, but a user it was explicitly shared with
  still can.
\<close>

theorem soft_delete_visibility:
  assumes "db_ok d" "DeleteIngestionSource i now d = (True, d')" "i \<noteq> []" "now \<noteq> 0"
  shows "(\<exists>s. GetIngestionSource i d' = Some s \<and> \<not> is_Enabled s \<and> is_DeletedAt s = now) \<and>
    ListSourceKeys i d' = [] \<and> i \<notin> is_ID ` set (ListIngestionSources False d') \<and>
    (i \<in> set (ListReadableSourceIDsForUser u d') \<longleftrightarrow> i \<in> set (share_ids u d))"
proof -
  let ?P = "\<lambda>r. sr_id r = i \<and> sr_deleted_at r = 0"
  have "filter ?P (t_sources d) \<noteq> []"
    using assms(2) by (auto simp: DeleteIngestionSource_def Let_def sql_count_def split: if_splits)
  then obtain r where r: "r \<in> set (t_sources d)" "sr_id r = i" "sr_deleted_at r = 0"
    by (auto simp: filter_empty_conv)
  have d': "d' = d\<lparr>t_keys := sql_delete (\<lambda>k. ky_source_id k = i) (t_keys d),
      t_sources := sql_update ?P (soft_delete now) (t_sources d)\<rparr>"
    using assms(2) by (auto simp: DeleteIngestionSource_def Let_def split: if_splits)
  have dead: "x = soft_delete now r" if "x \<in> set (t_sources d')" "sr_id x = i" for x
  proof -
    have "x \<in> (\<lambda>y. if ?P y then soft_delete now y else y) ` set (t_sources d)"
      using that(1) by (simp add: d' set_sql_update)
    then obtain y where y: "y \<in> set (t_sources d)" "x = (if ?P y then soft_delete now y else y)"
      by blast
    then have "sr_id y = i" using that(2) by (auto simp: soft_delete_def split: if_splits)
    with r y(1) have "y = r"
      using uniq_inj [OF db_ok_uniq(14) [OF assms(1)], of y r] by simp
    with y(2) r show ?thesis by simp
  qed
  have del: "sr_deleted_at (soft_delete now r) \<noteq> 0" "sr_id (soft_delete now r) = i"
    using assms(4) r by (simp_all add: soft_delete_def)
  have "find_source i d' = Some (soft_delete now r)"
    using find_uniq [OF db_ok_uniq(14) [OF assms(1)] r(1)] r(2,3)
    by (simp add: d' find_source_def find_sql_update_key soft_delete_def)
  moreover have "ListSourceKeys i d' = []"
    by (simp add: d' ListSourceKeys_def sql_delete_def order_desc_def filter_empty_conv)
  moreover have "i \<notin> is_ID ` set (ListIngestionSources False d')"
    using dead del by (fastforce simp: ListIngestionSources_def scan_source_def)
  moreover have "i \<in> set (ListReadableSourceIDsForUser u d') \<longleftrightarrow> i \<in> set (share_ids u d)"
  proof -
    have none: "i \<notin> set (map sr_id (filter (\<lambda>s. Q s \<and> sr_deleted_at s = 0) (t_sources d')))" for Q
      using dead del by fastforce
    have "i \<notin> set (key_ids u d')" "share_ids u d' = share_ids u d"
      by (auto simp: key_ids_def share_ids_def d')
    then show ?thesis
      using assms(3) none [of sr_is_shared] none [of "\<lambda>s. sr_user_id s = Some u"]
        none [of "\<lambda>s. like_remote (sr_id s) \<and> sr_enabled s"]
      unfolding ListReadableSourceIDsForUser_def distinct_ids_def own_ids_def by simp
  qed
  ultimately show ?thesis
    by (simp add: GetIngestionSource_def scan_source_def soft_delete_def)
qed

theorem soft_delete_visibility_witness:
  "\<exists>d'. DeleteIngestionSource ''north'' 9 example_feed_db = (True, d') \<and>
     ''north'' \<in> set (ListReadableSourceIDsForUser ''usr_6000'' d') \<and>
     ''north'' \<notin> set (ListReadableSourceIDsForUser ''usr_5000'' d')"
proof -
  obtain d' where d': "DeleteIngestionSource ''north'' 9 example_feed_db = (True, d')"
    by (simp add: feed_eval DeleteIngestionSource_def sql_count_def)
  note vis = soft_delete_visibility [OF example_feed_db_ok d']
  show ?thesis
    using d' vis [of "''usr_6000''"] vis [of "''usr_5000''"] by (simp add: share_ids_def feed_eval)
qed

text \<open>
  What a hub exports and what it imported never overlap: an imported source (an id with the
  remote prefix) is never offered to another hub, so federation cannot loop.
\<close>

theorem exports_are_local:
  "s \<in> set (ListSharedIngestionSources d) \<Longrightarrow>
   is_IsShared s \<and> is_Enabled s \<and> is_DeletedAt s = 0 \<and> \<not> prefix ''remote_'' (is_ID s)"
  by (auto simp: ListSharedIngestionSources_def exported_source_def scan_source_def like_remote_iff)

theorem exports_are_local_witness:
  "scan_source (fresh_source_row ''n'' 5\<lparr>sr_is_shared := True\<rparr>) \<in>
     set (ListSharedIngestionSources (example_feed_db\<lparr>t_sources := [fresh_source_row ''n'' 5\<lparr>sr_is_shared := True\<rparr>,
       fresh_source_row ''remote_p'' 5\<lparr>sr_is_shared := True\<rparr>]\<rparr>)) \<and>
   \<not> prefix ''remote_'' (is_ID (scan_source (fresh_source_row ''n'' 5\<lparr>sr_is_shared := True\<rparr>)))"
proof -
  let ?d = "example_feed_db\<lparr>t_sources := [fresh_source_row ''n'' 5\<lparr>sr_is_shared := True\<rparr>,
       fresh_source_row ''remote_p'' 5\<lparr>sr_is_shared := True\<rparr>]\<rparr>"
  have "scan_source (fresh_source_row ''n'' 5\<lparr>sr_is_shared := True\<rparr>) \<in> set (ListSharedIngestionSources ?d)"
    by (simp add: ListSharedIngestionSources_def exported_source_def like_remote_iff fresh_source_row_def)
  from this exports_are_local [OF this] show ?thesis by blast
qed

end
