(* ===== verification/Calls.thy ===== *)
theory Calls
  imports Sources
begin

text \<open>
  \<open>server/internal/database/calls.go\<close>: recording calls, the export and import queries of federation, the
  call log with its paging, sorting and filters, the replay of missed calls and the recent calls of a
  player. Rows a query leaves unordered, and rows with equal sort keys, come in insertion order.
  \<open>LIMIT\<close> arguments are taken as non-negative. A sequence value lost by an insert that fails is
  not modelled: only the order of the call ids matters.
\<close>

section \<open>Calls\<close>

record Call =
  ca_ID :: int
  ca_UserID :: string
  ca_SourceID :: string
  ca_Redacted :: bool
  ca_DateTime :: int
  ca_System :: int
  ca_SystemLabel :: string
  ca_Talkgroup :: int
  ca_TalkgroupLabel :: string
  ca_TalkgroupGroup :: string
  ca_TalkgroupTag :: string
  ca_Frequency :: int
  ca_Duration :: rat
  ca_AudioName :: string
  ca_AudioType :: string
  ca_TranscriptText :: string
  ca_TranscriptStatus :: string
  ca_TranscriptProvider :: string
  ca_Origin :: string
  ca_SenderUserID :: string
  ca_SenderEmail :: string
  ca_CreatedAt :: int

text \<open>The columns every query reads; those that read the origin and the sender; those that join the transcript.\<close>

definition scan_call_base :: "calls_row \<Rightarrow> Call" where
  "scan_call_base r = \<lparr>ca_ID = cr_id r, ca_UserID = coalesce (cr_user_id r), ca_SourceID = coalesce (cr_source_id r),
     ca_Redacted = False, ca_DateTime = cr_datetime r, ca_System = cr_system r, ca_SystemLabel = cr_system_label r,
     ca_Talkgroup = cr_talkgroup r, ca_TalkgroupLabel = cr_talkgroup_label r, ca_TalkgroupGroup = cr_talkgroup_group r,
     ca_TalkgroupTag = cr_talkgroup_tag r, ca_Frequency = cr_frequency r, ca_Duration = cr_duration r,
     ca_AudioName = cr_audio_name r, ca_AudioType = cr_audio_type r, ca_TranscriptText = [], ca_TranscriptStatus = [],
     ca_TranscriptProvider = [], ca_Origin = [], ca_SenderUserID = [], ca_SenderEmail = [],
     ca_CreatedAt = cr_created_at r\<rparr>"

definition scan_call :: "calls_row \<Rightarrow> Call" where
  "scan_call r = (scan_call_base r)\<lparr>ca_Origin := cr_origin r, ca_SenderUserID := coalesce (cr_sender_user_id r)\<rparr>"

definition find_transcript :: "int \<Rightarrow> db \<Rightarrow> transcripts_row option" where
  "find_transcript i d = List.find (\<lambda>t. ct_call_id t = i) (t_transcripts d)"

definition transcript_text :: "db \<Rightarrow> calls_row \<Rightarrow> string" where
  "transcript_text d r = (case find_transcript (cr_id r) d of None \<Rightarrow> [] | Some t \<Rightarrow> ct_transcript t)"

definition scan_call_joined :: "db \<Rightarrow> calls_row \<Rightarrow> Call" where
  "scan_call_joined d r =
     (case find_transcript (cr_id r) d of
        None \<Rightarrow> scan_call r
      | Some t \<Rightarrow> (scan_call r)\<lparr>ca_TranscriptText := ct_transcript t, ca_TranscriptStatus := ct_status t,
                               ca_TranscriptProvider := ct_provider t\<rparr>)"

definition find_call :: "int \<Rightarrow> db \<Rightarrow> calls_row option" where
  "find_call i d = List.find (\<lambda>r. cr_id r = i) (t_calls d)"

text \<open>The row \<open>InsertCall\<close> writes; its id is drawn from the sequence by the insert.\<close>

definition call_row :: "Call \<Rightarrow> bytes \<Rightarrow> int \<Rightarrow> calls_row" where
  "call_row c audio now = \<lparr>cr_id = 0, cr_user_id = nullableString (ca_UserID c),
     cr_source_id = nullableString (ca_SourceID c), cr_datetime = ca_DateTime c, cr_system = ca_System c,
     cr_system_label = ca_SystemLabel c, cr_talkgroup = ca_Talkgroup c, cr_talkgroup_label = ca_TalkgroupLabel c,
     cr_talkgroup_group = ca_TalkgroupGroup c, cr_talkgroup_tag = ca_TalkgroupTag c, cr_frequency = ca_Frequency c,
     cr_duration = ca_Duration c, cr_audio_name = ca_AudioName c, cr_audio_type = ca_AudioType c, cr_audio = audio,
     cr_origin = (if ca_Origin c = [] then ''rf'' else ca_Origin c),
     cr_sender_user_id = nullableString (ca_SenderUserID c), cr_created_at = now\<rparr>"

text \<open>The call comes back with the generated id written into it.\<close>

definition InsertCall :: "Call \<Rightarrow> bytes \<Rightarrow> int \<Rightarrow> db \<Rightarrow> Call dbres" where
  "InsertCall c audio now d =
     (case ins_calls (call_row c audio now) d of
        Inl err \<Rightarrow> (Inl err, d)
      | Inr d' \<Rightarrow> (Inr (c\<lparr>ca_ID := seq_calls d\<rparr>), d'))"

definition GetCallByID :: "int \<Rightarrow> db \<Rightarrow> db_error + Call" where
  "GetCallByID i d = (case find_call i d of None \<Rightarrow> Inl NoRows | Some r \<Rightarrow> Inr (scan_call_joined d r))"

definition GetCallAudio :: "int \<Rightarrow> db \<Rightarrow> db_error + bytes \<times> string \<times> string \<times> string \<times> string" where
  "GetCallAudio i d = (case find_call i d of None \<Rightarrow> Inl NoRows
     | Some r \<Rightarrow> Inr (cr_audio r, cr_audio_type r, cr_audio_name r, coalesce (cr_user_id r), coalesce (cr_source_id r)))"

section \<open>Federation queries\<close>

record FederatedCall =
  fc_Call :: Call
  fc_Source :: string
  fc_Audio :: bytes

definition scan_federated :: "calls_row \<Rightarrow> FederatedCall" where
  "scan_federated r = \<lparr>fc_Call = scan_call_base r, fc_Source = coalesce (cr_source_id r), fc_Audio = cr_audio r\<rparr>"

definition exportable :: "db \<Rightarrow> calls_row \<Rightarrow> bool" where
  "exportable d r \<longleftrightarrow> (case cr_source_id r of None \<Rightarrow> False
     | Some i \<Rightarrow> (case find_source i d of None \<Rightarrow> False | Some s \<Rightarrow> exported_source s))"

definition clamp_limit :: "int \<Rightarrow> int \<Rightarrow> int \<Rightarrow> int" where
  "clamp_limit hi fallback n = (if n \<le> 0 \<or> n > hi then fallback else n)"

definition ListFederatedCalls :: "int \<Rightarrow> int \<Rightarrow> db \<Rightarrow> FederatedCall list" where
  "ListFederatedCalls since n d = map scan_federated
     (limit (clamp_limit 250 100 n) (order_asc cr_id (filter (\<lambda>r. cr_id r > since \<and> exportable d r) (t_calls d))))"

definition ListRecentFederatedCalls :: "int \<Rightarrow> int \<Rightarrow> db \<Rightarrow> FederatedCall list" where
  "ListRecentFederatedCalls before n d = rev (map scan_federated
     (limit (clamp_limit 250 100 n)
        (order_desc cr_id (filter (\<lambda>r. exportable d r \<and> (before > 0 \<longrightarrow> cr_id r < before)) (t_calls d)))))"

definition CountFederatedCalls :: "db \<Rightarrow> int" where
  "CountFederatedCalls d = int (sql_count (exportable d) (t_calls d))"

definition CountImportedFederatedCalls :: "db \<Rightarrow> int" where
  "CountImportedFederatedCalls d =
     int (sql_count (\<lambda>r. case cr_source_id r of None \<Rightarrow> False | Some i \<Rightarrow> like_remote i) (t_calls d))"

definition CountImportedFederatedCallsFromPeer :: "string \<Rightarrow> db \<Rightarrow> int" where
  "CountImportedFederatedCallsFromPeer peer d = int (sql_count (\<lambda>r. fi_peer_hub_id r = peer) (t_imports d))"

definition MaxImportedRemoteCallID :: "string \<Rightarrow> db \<Rightarrow> int" where
  "MaxImportedRemoteCallID peer d =
     (case map fi_remote_call_id (filter (\<lambda>r. fi_peer_hub_id r = peer) (t_imports d)) of
        [] \<Rightarrow> 0
      | x # xs \<Rightarrow> foldl max x xs)"

definition RecordFederatedCallImport :: "string \<Rightarrow> int \<Rightarrow> int \<Rightarrow> int \<Rightarrow> db \<Rightarrow> bool dbres" where
  "RecordFederatedCallImport peer rid lid now d =
     (case ins_imports \<lparr>fi_peer_hub_id = peer, fi_remote_call_id = rid, fi_local_call_id = lid, fi_created_at = now\<rparr> d of
        Inl UniqueViolation \<Rightarrow> (Inr False, d)
      | Inl err \<Rightarrow> (Inl err, d)
      | Inr d' \<Rightarrow> (Inr True, d'))"

section \<open>The call log\<close>

record ListCallsParams =
  lp_Limit :: int
  lp_SortBy :: string
  lp_Order :: string
  lp_Search :: string
  lp_Group :: string
  lp_Offset :: int
  lp_UserID :: string
  lp_OnlyUnowned :: bool
  lp_Talkgroups :: "int list"
  lp_Groups :: "string list"

definition normalizeListCallsPaging :: "ListCallsParams \<Rightarrow> int \<times> int" where
  "normalizeListCallsPaging p =
     (if lp_Limit p \<le> 0 \<or> lp_Limit p > 1000 then 100 else lp_Limit p,
      if lp_Offset p < 0 then 0 else lp_Offset p)"

definition upper_char :: "char \<Rightarrow> char" where
  "upper_char c = (let n = (of_char c :: nat) in if 97 \<le> n \<and> n \<le> 122 then char_of (n - 32) else c)"

definition ToUpper :: "string \<Rightarrow> string" where
  "ToUpper s = map upper_char s"

definition sort_column :: "string \<Rightarrow> string" where
  "sort_column key =
     (let m = [''datetime'' \<mapsto> ''c.datetime'', ''duration'' \<mapsto> ''c.duration'',
               ''frequency'' \<mapsto> ''c.frequency'', ''talkgroup'' \<mapsto> ''c.talkgroup''];
          sortBy = (case m key of None \<Rightarrow> [] | Some v \<Rightarrow> v)
      in if sortBy = [] then ''c.datetime'' else sortBy)"

definition normalizeListCallsSort :: "ListCallsParams \<Rightarrow> string" where
  "normalizeListCallsSort p =
     (let sortKey = ToLower (lp_SortBy p); sortBy = sort_column sortKey in
      if ToUpper (lp_Order p) = ''ASC'' then
        (if sortKey \<in> {''duration'', ''frequency'', ''talkgroup''} then sortBy @ '' ASC'' else ''c.datetime ASC'')
      else
        (if sortKey \<in> {''duration'', ''frequency'', ''talkgroup''} then sortBy @ '' DESC'' else ''c.datetime DESC''))"

text \<open>What PostgreSQL makes of the clauses the code can build.\<close>

definition order_by :: "string \<Rightarrow> calls_row list \<Rightarrow> calls_row list" where
  "order_by clause rows =
     (if clause = ''c.datetime ASC'' then order_asc cr_datetime rows
      else if clause = ''c.duration ASC'' then order_asc cr_duration rows
      else if clause = ''c.frequency ASC'' then order_asc cr_frequency rows
      else if clause = ''c.talkgroup ASC'' then order_asc cr_talkgroup rows
      else if clause = ''c.duration DESC'' then sort_key (\<lambda>r. - cr_duration r) rows
      else if clause = ''c.frequency DESC'' then order_desc cr_frequency rows
      else if clause = ''c.talkgroup DESC'' then order_desc cr_talkgroup rows
      else order_desc cr_datetime rows)"

definition contains_pattern :: "string \<Rightarrow> string" where
  "contains_pattern v = ''%'' @ v @ ''%''"

definition ilike :: "string \<Rightarrow> string \<Rightarrow> bool" where
  "ilike s p \<longleftrightarrow> sql_like (ToLower p) (ToLower s)"

definition appendSearchFilter :: "db \<Rightarrow> string \<Rightarrow> calls_row \<Rightarrow> bool" where
  "appendSearchFilter d search r =
     (let value = TrimSpace search; p = contains_pattern value in
      value = [] \<or> ilike (cr_system_label r) p \<or> ilike (cr_talkgroup_label r) p \<or> ilike (cr_talkgroup_group r) p \<or>
      sql_like p (format_int (cr_talkgroup r)) \<or> ilike (transcript_text d r) p)"

definition appendTalkgroupsFilter :: "int list \<Rightarrow> calls_row \<Rightarrow> bool" where
  "appendTalkgroupsFilter tgs r \<longleftrightarrow> tgs = [] \<or> cr_talkgroup r \<in> set tgs"

definition appendGroupsFilter :: "string list \<Rightarrow> calls_row \<Rightarrow> bool" where
  "appendGroupsFilter gs r \<longleftrightarrow> gs = [] \<or> cr_talkgroup_group r \<in> set gs"

definition appendGroupFilter :: "string \<Rightarrow> calls_row \<Rightarrow> bool" where
  "appendGroupFilter g r =
     (let value = TrimSpace g in value = [] \<or> ilike (cr_talkgroup_group r) (contains_pattern value))"

definition owner_filter :: "ListCallsParams \<Rightarrow> calls_row \<Rightarrow> bool" where
  "owner_filter p r =
     (if lp_UserID p \<noteq> [] then cr_user_id r = Some (lp_UserID p) \<or> cr_user_id r = None
      else if lp_OnlyUnowned p then cr_user_id r = None else True)"

definition list_filter :: "ListCallsParams \<Rightarrow> db \<Rightarrow> calls_row \<Rightarrow> bool" where
  "list_filter p d r \<longleftrightarrow> owner_filter p r \<and> appendSearchFilter d (lp_Search p) r \<and>
     appendTalkgroupsFilter (lp_Talkgroups p) r \<and> appendGroupsFilter (lp_Groups p) r \<and>
     appendGroupFilter (lp_Group p) r"

definition ListCalls :: "ListCallsParams \<Rightarrow> db \<Rightarrow> Call list" where
  "ListCalls p d =
     (let (lim, offset) = normalizeListCallsPaging p in
      map (scan_call_joined d)
        (limit lim (drop (nat offset) (order_by (normalizeListCallsSort p) (filter (list_filter p d) (t_calls d))))))"

definition ListCallsSince :: "int \<Rightarrow> int \<Rightarrow> db \<Rightarrow> Call list" where
  "ListCallsSince since n d = map (scan_call_joined d)
     (limit (clamp_limit 500 200 n) (order_asc cr_id (filter (\<lambda>r. cr_id r > since) (t_calls d))))"

definition ListDistinctTalkgroupsForGroups :: "string list \<Rightarrow> string list \<Rightarrow> db \<Rightarrow> int list" where
  "ListDistinctTalkgroupsForGroups gs labels d =
     (if gs = [] then []
      else sort (remdups (map cr_talkgroup (filter (\<lambda>r. cr_talkgroup_group r \<in> set gs \<and>
             (labels = [] \<or> cr_system_label r \<in> set labels)) (t_calls d)))))"

section \<open>Recent calls of a player\<close>

definition recent_visible :: "string \<Rightarrow> db \<Rightarrow> calls_row \<Rightarrow> bool" where
  "recent_visible u d r \<longleftrightarrow> cr_user_id r = Some u \<or>
     (case cr_source_id r of
        None \<Rightarrow> False
      | Some i \<Rightarrow>
          list_ex (\<lambda>k. ky_source_id k = i \<and> ky_user_id k = Some u) (t_keys d) \<or>
          list_ex (\<lambda>s. sh_source_id s = i \<and> sh_user_id s = u) (t_shares d) \<or>
          (case find_source i d of
             None \<Rightarrow> False
           | Some s \<Rightarrow> sr_user_id s = Some u \<or> sr_is_shared s \<or>
                       like_remote (sr_id s) \<and> sr_enabled s \<and> sr_deleted_at s = 0))"

definition recent_rows :: "string \<Rightarrow> (calls_row \<Rightarrow> bool) \<Rightarrow> int \<Rightarrow> db \<Rightarrow> calls_row list" where
  "recent_rows u P n d = rev (limit n (order_desc cr_datetime (filter (\<lambda>r. recent_visible u d r \<and> P r) (t_calls d))))"

definition GetRecentCallsForTalkgroupGroups :: "string \<Rightarrow> string list \<Rightarrow> int \<Rightarrow> db \<Rightarrow> Call list" where
  "GetRecentCallsForTalkgroupGroups u gs n d =
     (if gs = [] then [] else map scan_call (recent_rows u (\<lambda>r. cr_talkgroup_group r \<in> set gs) n d))"

definition GetRecentCallsForTalkgroups :: "string \<Rightarrow> int list \<Rightarrow> int \<Rightarrow> db \<Rightarrow> Call list" where
  "GetRecentCallsForTalkgroups u tgs n d =
     (if tgs = [] then [] else map scan_call (recent_rows u (\<lambda>r. cr_talkgroup r \<in> set tgs) n d))"

definition GetRecentCallIDsForTalkgroups :: "string \<Rightarrow> int list \<Rightarrow> int \<Rightarrow> db \<Rightarrow> int list" where
  "GetRecentCallIDsForTalkgroups u tgs n d =
     (if tgs = [] then [] else map cr_id (recent_rows u (\<lambda>r. cr_talkgroup r \<in> set tgs) n d))"

definition append_call :: "int \<Rightarrow> Call list \<Rightarrow> Call \<Rightarrow> Call list" where
  "append_call n merged c =
     (if int (length merged) \<ge> n then merged
      else if ca_ID c \<in> ca_ID ` set merged then merged
      else merged @ [c])"

definition mergeRecentCallsByDateTime :: "Call list \<Rightarrow> Call list \<Rightarrow> int \<Rightarrow> Call list" where
  "mergeRecentCallsByDateTime primary extra n = foldl (append_call n) (foldl (append_call n) [] primary) extra"

section \<open>Constraints\<close>

lemma InsertCall_ok: "db_ok d \<Longrightarrow> db_ok (snd (InsertCall c audio now d))"
  using ins_calls_ok by (simp add: InsertCall_def split: sum.split)

lemma RecordFederatedCallImport_ok: "db_ok d \<Longrightarrow> db_ok (snd (RecordFederatedCallImport p r l now d))"
  using ins_imports_ok by (simp add: RecordFederatedCallImport_def split: sum.split db_error.split)

section \<open>Lemmas\<close>

lemma order_asc_strict:
  assumes "uniq k rows"
  shows "sorted_wrt (\<lambda>x y. k x < k y) (order_asc k rows)"
proof -
  have "sorted (map k (order_asc k rows))" by (simp add: order_asc_def)
  moreover have "distinct (map k (order_asc k rows))"
    using assms by (simp add: order_asc_def uniq_def distinct_map)
  ultimately have "sorted_wrt (<) (map k (order_asc k rows))"
    by (simp add: strict_sorted_iff)
  then show ?thesis by (simp add: sorted_wrt_map)
qed

lemma uniq_filter: "uniq k rows \<Longrightarrow> uniq k (filter P rows)"
  by (simp add: uniq_def distinct_map_filter)

lemma filter_order_asc: "filter P (order_asc k rows) = order_asc k (filter P rows)"
  by (simp add: order_asc_def filter_sort)

lemma ca_ID_scan [simp]: "ca_ID (scan_call_base r) = cr_id r" "ca_ID (scan_call r) = cr_id r"
  "ca_ID (scan_call_joined d r) = cr_id r"
  by (simp_all add: scan_call_base_def scan_call_def scan_call_joined_def split: option.split)

lemma clamp_limit_pos: "0 < fallback \<Longrightarrow> 0 < nat (clamp_limit hi fallback n)"
  by (simp add: clamp_limit_def)

lemma feed_page:
  "map f (limit n (order_asc cr_id (filter (\<lambda>r. cr_id r > since \<and> P r) rows))) =
   take (nat n) (map f (filter (\<lambda>r. cr_id r > since) (order_asc cr_id (filter P rows))))"
  by (simp add: limit_def take_map filter_order_asc conj_commute)

section \<open>Feeds\<close>

definition export_feed :: "db \<Rightarrow> FederatedCall list" where
  "export_feed d = map scan_federated (order_asc cr_id (filter (exportable d) (t_calls d)))"

definition call_feed :: "db \<Rightarrow> Call list" where
  "call_feed d = map (scan_call_joined d) (order_asc cr_id (t_calls d))"

definition federated_id :: "FederatedCall \<Rightarrow> int" where
  "federated_id c = ca_ID (fc_Call c)"

lemma export_feed_length: "length (export_feed d) \<le> length (t_calls d)"
  by (simp add: export_feed_def)

lemma call_feed_length: "length (call_feed d) = length (t_calls d)"
  by (simp add: call_feed_def)

interpretation exports: cursor_feed db_ok "\<lambda>d since. ListFederatedCalls since n d" federated_id export_feed
  "nat (clamp_limit 250 100 n)" for n
proof
  show "0 < nat (clamp_limit 250 100 n)" by (rule clamp_limit_pos) simp
  fix d since assume d: "db_ok d"
  show "ListFederatedCalls since n d =
      take (nat (clamp_limit 250 100 n)) (filter (\<lambda>x. since < federated_id x) (export_feed d))"
    by (simp add: ListFederatedCalls_def feed_page export_feed_def filter_map comp_def federated_id_def scan_federated_def)
  have "sorted_wrt (\<lambda>x y. cr_id x < cr_id y) (order_asc cr_id (filter (exportable d) (t_calls d)))"
    by (intro order_asc_strict uniq_filter db_ok_uniq d)
  then show "sorted_wrt (\<lambda>x y. federated_id x < federated_id y) (export_feed d)"
    by (simp add: export_feed_def sorted_wrt_map federated_id_def scan_federated_def)
qed

interpretation replay: cursor_feed db_ok "\<lambda>d since. ListCallsSince since n d" ca_ID call_feed
  "nat (clamp_limit 500 200 n)" for n
proof
  show "0 < nat (clamp_limit 500 200 n)" by (rule clamp_limit_pos) simp
  fix d since assume d: "db_ok d"
  show "ListCallsSince since n d = take (nat (clamp_limit 500 200 n)) (filter (\<lambda>x. since < ca_ID x) (call_feed d))"
    using feed_page [of "scan_call_joined d" "clamp_limit 500 200 n" since "\<lambda>_. True" "t_calls d"]
    by (simp add: ListCallsSince_def call_feed_def filter_map comp_def)
  have "sorted_wrt (\<lambda>x y. cr_id x < cr_id y) (order_asc cr_id (t_calls d))"
    by (intro order_asc_strict db_ok_uniq d)
  then show "sorted_wrt (\<lambda>x y. ca_ID x < ca_ID y) (call_feed d)"
    by (simp add: call_feed_def sorted_wrt_map)
qed

section \<open>Searching\<close>

lemma sql_like_percent_end: "sql_like ''%'' s"
  by simp

lemma sql_like_any_prefix:
  "p \<noteq> [] \<Longrightarrow> sql_like (CHR ''%'' # p) s \<longleftrightarrow> (\<exists>u t. s = u @ t \<and> sql_like p t)"
proof (induction s)
  case Nil
  then obtain q qs where "p = q # qs" by (cases p) auto
  then show ?case by simp
next
  case (Cons c cs)
  then obtain q qs where p: "p = q # qs" by (cases p) auto
  have "sql_like (CHR ''%'' # p) (c # cs) \<longleftrightarrow> sql_like p (c # cs) \<or> (\<exists>u t. cs = u @ t \<and> sql_like p t)"
    using Cons by (simp add: p)
  also have "\<dots> \<longleftrightarrow> (\<exists>u t. c # cs = u @ t \<and> sql_like p t)"
    (is "_ \<longleftrightarrow> ?R")
  proof
    assume ?R
    then obtain u t where ut: "c # cs = u @ t" "sql_like p t" by blast
    then show "sql_like p (c # cs) \<or> (\<exists>u t. cs = u @ t \<and> sql_like p t)"
      by (cases u) auto
  next
    assume "sql_like p (c # cs) \<or> (\<exists>u t. cs = u @ t \<and> sql_like p t)"
    then show ?R by (metis append_Cons append_Nil)
  qed
  finally show ?case .
qed

lemma like_contains:
  assumes "list_all plain_char v"
  shows "sql_like (contains_pattern v) s \<longleftrightarrow> sublist v s"
proof -
  have "sql_like (contains_pattern v) s \<longleftrightarrow> (\<exists>u t. s = u @ t \<and> sql_like (v @ ''%'') t)"
    unfolding contains_pattern_def by (simp add: sql_like_any_prefix)
  also have "\<dots> \<longleftrightarrow> sublist v s"
    unfolding sql_like_plain_prefix [OF assms] sublist_def by auto
  finally show ?thesis .
qed

lemma plain_lower: "plain_char c \<Longrightarrow> plain_char (lower_char c)"
proof -
  assume c: "plain_char c"
  have "of_char (lower_char c) = (of_char c :: nat) \<or> (97 \<le> (of_char (lower_char c) :: nat) \<and> (of_char (lower_char c) :: nat) \<le> 122)"
    by (auto simp: of_char_lower Let_def)
  then show ?thesis
  proof
    assume "of_char (lower_char c) = (of_char c :: nat)"
    then have "lower_char c = c" by simp
    with c show ?thesis by simp
  next
    assume "97 \<le> (of_char (lower_char c) :: nat) \<and> (of_char (lower_char c) :: nat) \<le> 122"
    moreover have "(of_char backslash :: nat) = 92" "(of_char (CHR ''%'') :: nat) = 37" "(of_char (CHR ''_'') :: nat) = 95"
      by (simp_all add: backslash_def)
    ultimately show ?thesis
      unfolding plain_char_def by (intro conjI notI) simp_all
  qed
qed

lemma ilike_contains:
  assumes "list_all plain_char v"
  shows "ilike s (contains_pattern v) \<longleftrightarrow> sublist (ToLower v) (ToLower s)"
proof -
  have "ToLower (contains_pattern v) = contains_pattern (ToLower v)"
    by (simp add: ToLower_def contains_pattern_def lower_char_def)
  moreover have "list_all plain_char (ToLower v)"
    using assms plain_lower by (auto simp: ToLower_def list_all_iff)
  ultimately show ?thesis by (simp add: ilike_def like_contains)
qed

section \<open>Merging\<close>

lemma append_call_inv:
  "distinct (map ca_ID m) \<Longrightarrow> int (length m) \<le> n \<Longrightarrow>
   distinct (map ca_ID (append_call n m c)) \<and> int (length (append_call n m c)) \<le> n \<and> prefix m (append_call n m c)"
  by (auto simp: append_call_def)

lemma foldl_append_call:
  "distinct (map ca_ID m) \<Longrightarrow> int (length m) \<le> n \<Longrightarrow>
   distinct (map ca_ID (foldl (append_call n) m cs)) \<and> int (length (foldl (append_call n) m cs)) \<le> n \<and>
   prefix m (foldl (append_call n) m cs)"
proof (induction cs arbitrary: m)
  case (Cons c cs)
  note step = append_call_inv [OF Cons.prems, of c]
  from Cons.IH [of "append_call n m c"] step show ?case
    by (auto intro: prefix_order.trans)
qed simp

lemma foldl_append_full: "int (length m) \<ge> n \<Longrightarrow> foldl (append_call n) m cs = m"
  by (induction cs) (auto simp: append_call_def)

lemma foldl_append_fresh:
  "distinct (map ca_ID (m @ cs)) \<Longrightarrow> int (length m) \<le> n \<Longrightarrow> foldl (append_call n) m cs = m @ take (nat n - length m) cs"
proof (induction cs arbitrary: m)
  case (Cons c cs)
  show ?case
  proof (cases "int (length m) = n")
    case True
    then show ?thesis using foldl_append_full [of n m "c # cs"] by simp
  next
    case False
    with Cons.prems have "append_call n m c = m @ [c]" by (auto simp: append_call_def)
    moreover have "nat n - length m = Suc (nat n - length (m @ [c]))" using False Cons.prems(2) by simp
    ultimately show ?thesis
      using Cons.IH [of "m @ [c]"] Cons.prems False by simp
  qed
qed simp

section \<open>Properties\<close>

definition example_call :: "int \<Rightarrow> int \<Rightarrow> string \<Rightarrow> Call" where
  "example_call t tg gr = \<lparr>ca_ID = 0, ca_UserID = [], ca_SourceID = ''north'', ca_Redacted = False,
     ca_DateTime = t, ca_System = 1, ca_SystemLabel = ''P25'', ca_Talkgroup = tg, ca_TalkgroupLabel = ''Dispatch'',
     ca_TalkgroupGroup = gr, ca_TalkgroupTag = [], ca_Frequency = 851, ca_Duration = 2, ca_AudioName = ''a.mp3'',
     ca_AudioType = ''audio/mpeg'', ca_TranscriptText = [], ca_TranscriptStatus = [], ca_TranscriptProvider = [],
     ca_Origin = [], ca_SenderUserID = [], ca_SenderEmail = [], ca_CreatedAt = 0\<rparr>"

definition example_row :: "int \<Rightarrow> int \<Rightarrow> int \<Rightarrow> string \<Rightarrow> calls_row" where
  "example_row i t tg gr = (call_row (example_call t tg gr) [1, 2] t)\<lparr>cr_id := i\<rparr>"

definition example_call_db :: db where
  "example_call_db = example_feed_db\<lparr>
     t_sources := [fresh_source_row ''north'' 5\<lparr>sr_user_id := Some ''usr_5000'', sr_is_shared := True\<rparr>],
     t_calls := [example_row 1 100 7 ''Fire'', example_row 2 103 7 ''Fire'', example_row 3 90 8 ''EMS''], seq_calls := 4\<rparr>"

lemma example_row_eq:
  "example_row i t tg gr = \<lparr>cr_id = i, cr_user_id = None, cr_source_id = Some ''north'', cr_datetime = t,
     cr_system = 1, cr_system_label = ''P25'', cr_talkgroup = tg, cr_talkgroup_label = ''Dispatch'',
     cr_talkgroup_group = gr, cr_talkgroup_tag = [], cr_frequency = 851, cr_duration = 2, cr_audio_name = ''a.mp3'',
     cr_audio_type = ''audio/mpeg'', cr_audio = [1, 2], cr_origin = ''rf'', cr_sender_user_id = None, cr_created_at = t\<rparr>"
  by (simp add: example_row_def call_row_def example_call_def nullableString_def TrimSpace_def is_space_def)

lemmas call_eval = example_call_db_def feed_eval example_row_eq

lemma example_call_db_ok: "db_ok example_call_db"
  by (simp add: call_eval db_ok_defs fkey_def uniq_opt_def nonnull_def uniq_def)

text \<open>
  A peer that follows its cursor through the export pages receives every exportable call
  after its starting point exactly once and in id order, given enough requests for the page size.
\<close>

theorem federation_pull_complete:
  assumes "db_ok d" "length (filter (\<lambda>c. federated_id c > since) (export_feed d)) \<le> k * nat (clamp_limit 250 100 n)"
  shows "drain (\<lambda>s. ListFederatedCalls s n d) federated_id k since = filter (\<lambda>c. federated_id c > since) (export_feed d)"
  using assms by (rule exports.drain_complete)

theorem federation_pull_complete_witness:
  "drain (\<lambda>s. ListFederatedCalls s 1 example_call_db) federated_id 5 1 =
     filter (\<lambda>c. federated_id c > 1) (export_feed example_call_db)"
  by (rule federation_pull_complete [OF example_call_db_ok])
    (rule order_trans [OF length_filter_le order_trans [OF export_feed_length]],
     simp add: clamp_limit_def example_call_db_def)

text \<open>
  A client that reconnects and replays from the last call it saw misses no call and sees none twice.
\<close>

theorem replay_misses_nothing:
  assumes "db_ok d" "length (filter (\<lambda>c. ca_ID c > since) (call_feed d)) \<le> k * nat (clamp_limit 500 200 n)"
  shows "drain (\<lambda>s. ListCallsSince s n d) ca_ID k since = filter (\<lambda>c. ca_ID c > since) (call_feed d)"
  using assms by (rule replay.drain_complete)

theorem replay_misses_nothing_witness:
  "drain (\<lambda>s. ListCallsSince s 1 example_call_db) ca_ID 3 0 = filter (\<lambda>c. ca_ID c > 0) (call_feed example_call_db)"
  by (rule replay_misses_nothing [OF example_call_db_ok], rule order_trans [OF length_filter_le])
    (simp add: clamp_limit_def call_feed_length example_call_db_def)

text \<open>
  Whatever sort key and direction a request names, the text put into the SQL statement is one of
  eight fixed clauses.
\<close>

theorem sort_clause_fixed:
  "normalizeListCallsSort p \<in>
     {''c.datetime ASC'', ''c.duration ASC'', ''c.frequency ASC'', ''c.talkgroup ASC'',
      ''c.datetime DESC'', ''c.duration DESC'', ''c.frequency DESC'', ''c.talkgroup DESC''}"
proof -
  let ?k = "ToLower (lp_SortBy p)"
  consider "?k = ''duration''" | "?k = ''frequency''" | "?k = ''talkgroup''" | "?k \<notin> {''duration'', ''frequency'', ''talkgroup''}"
    by blast
  then show ?thesis
    by cases (simp_all add: normalizeListCallsSort_def sort_column_def Let_def)
qed

lemma concat_pages:
  "concat (map (\<lambda>k. take n (drop (k * n) xs)) [0..<m]) = take (m * n) xs"
proof (induction m)
  case (Suc m)
  then show ?case by (simp add: take_add add.commute [of n])
qed simp

definition sorted_log :: "ListCallsParams \<Rightarrow> db \<Rightarrow> Call list" where
  "sorted_log p d = map (scan_call_joined d) (order_by (normalizeListCallsSort p) (filter (list_filter p d) (t_calls d)))"

text \<open>
  Page by page the call log is the whole filtered and sorted log: the pages of a size between
  1 and 1000 at offsets 0, size, 2 size and so on neither drop nor repeat a call.
\<close>

theorem call_log_pages:
  assumes "0 < L" "L \<le> 1000"
  shows "concat (map (\<lambda>k. ListCalls (p\<lparr>lp_Limit := int L, lp_Offset := int (k * L)\<rparr>) d) [0..<m]) =
    take (m * L) (sorted_log p d)"
proof -
  have "ListCalls (p\<lparr>lp_Limit := int L, lp_Offset := int (k * L)\<rparr>) d = take L (drop (k * L) (sorted_log p d))" for k
  proof -
    have "list_filter (p\<lparr>lp_Limit := int L, lp_Offset := int (k * L)\<rparr>) d = list_filter p d"
      by (rule ext) (simp add: list_filter_def owner_filter_def)
    moreover have "normalizeListCallsPaging (p\<lparr>lp_Limit := int L, lp_Offset := int (k * L)\<rparr>) = (int L, int (k * L))"
      using assms by (simp add: normalizeListCallsPaging_def del: of_nat_mult)
    moreover have "normalizeListCallsSort (p\<lparr>lp_Limit := int L, lp_Offset := int (k * L)\<rparr>) = normalizeListCallsSort p"
      by (simp add: normalizeListCallsSort_def)
    moreover have "nat (int (k * L)) = k * L" by (rule nat_int)
    ultimately show ?thesis
      by (simp add: ListCalls_def sorted_log_def limit_def take_map drop_map)
  qed
  then show ?thesis by (simp only: concat_pages)
qed

definition example_query :: ListCallsParams where
  "example_query = \<lparr>lp_Limit = 0, lp_SortBy = [], lp_Order = [], lp_Search = ''fir'', lp_Group = [], lp_Offset = 0,
     lp_UserID = [], lp_OnlyUnowned = False, lp_Talkgroups = [], lp_Groups = []\<rparr>"

theorem call_log_pages_witness:
  "concat (map (\<lambda>k. ListCalls (example_query\<lparr>lp_Limit := int 2, lp_Offset := int (k * 2)\<rparr>) example_call_db) [0..<3]) =
     take (3 * 2) (sorted_log example_query example_call_db)"
  by (rule call_log_pages) simp_all

text \<open>
  Property C40. Searching the log for a text without LIKE metacharacters returns exactly the calls whose system
  label, talkgroup label, group or transcript contain it in any letter case, or whose talkgroup number
  contains it.
\<close>

theorem search_is_substring:
  assumes "TrimSpace q = v" "v \<noteq> []" "list_all plain_char v"
  shows "appendSearchFilter d q r \<longleftrightarrow>
    sublist (ToLower v) (ToLower (cr_system_label r)) \<or> sublist (ToLower v) (ToLower (cr_talkgroup_label r)) \<or>
    sublist (ToLower v) (ToLower (cr_talkgroup_group r)) \<or> sublist v (format_int (cr_talkgroup r)) \<or>
    sublist (ToLower v) (ToLower (transcript_text d r))"
  using assms by (simp add: appendSearchFilter_def Let_def ilike_contains like_contains)

theorem search_is_substring_witness:
  "appendSearchFilter example_call_db '' Fire '' (example_row 1 100 7 ''Fire'')"
proof -
  have trim: "TrimSpace '' Fire '' = ''Fire''"
    by (simp add: TrimSpace_def is_space_def)
  have p: "list_all plain_char ''Fire''"
    by (simp add: plain_char_def backslash_def)
  show ?thesis
    by (subst search_is_substring [OF trim _ p]) (simp_all add: example_row_eq)
qed

lemma foldl_max_ge: "(y :: int) \<le> x \<or> y \<in> set xs \<Longrightarrow> y \<le> foldl max x xs"
proof (induction xs arbitrary: x)
  case (Cons a xs)
  have "y \<le> max x a \<or> y \<in> set xs" using Cons.prems by auto
  then show ?case using Cons.IH [of "max x a"] by simp
qed simp

lemma MaxImported_ge:
  assumes "r \<in> set (t_imports d)"
  shows "fi_remote_call_id r \<le> MaxImportedRemoteCallID (fi_peer_hub_id r) d"
proof -
  have "fi_remote_call_id r \<in> set (map fi_remote_call_id (filter (\<lambda>x. fi_peer_hub_id x = fi_peer_hub_id r) (t_imports d)))"
    using assms by simp
  then obtain x xs where l: "map fi_remote_call_id (filter (\<lambda>x. fi_peer_hub_id x = fi_peer_hub_id r) (t_imports d)) = x # xs"
      "fi_remote_call_id r = x \<or> fi_remote_call_id r \<in> set xs"
    by (cases "map fi_remote_call_id (filter (\<lambda>x. fi_peer_hub_id x = fi_peer_hub_id r) (t_imports d))") auto
  from l(2) have "fi_remote_call_id r \<le> foldl max x xs"
    by (intro foldl_max_ge) auto
  then show ?thesis
    by (simp only: MaxImportedRemoteCallID_def l(1) list.case)
qed

text \<open>
  A call of a peer is recorded as imported at most once: a second recording under the same
  peer and remote id reports false and changes nothing, and the import cursor never falls behind a
  recorded call.
\<close>

theorem import_recorded_once:
  assumes "RecordFederatedCallImport peer rid lid now d = (Inr b, d')"
  shows "RecordFederatedCallImport peer rid lid' now' d' = (Inr False, d') \<and>
    (b \<longleftrightarrow> (peer, rid) \<notin> (\<lambda>r. (fi_peer_hub_id r, fi_remote_call_id r)) ` set (t_imports d)) \<and>
    rid \<le> MaxImportedRemoteCallID peer d'"
proof -
  have "(\<exists>r \<in> set (t_imports d'). fi_peer_hub_id r = peer \<and> fi_remote_call_id r = rid) \<and>
      (b \<longleftrightarrow> (peer, rid) \<notin> (\<lambda>r. (fi_peer_hub_id r, fi_remote_call_id r)) ` set (t_imports d))"
    using assms by (auto simp: RecordFederatedCallImport_def ins_imports_def image_iff split: if_splits)
  then obtain r where r: "r \<in> set (t_imports d')" "fi_peer_hub_id r = peer" "fi_remote_call_id r = rid"
    and b: "b \<longleftrightarrow> (peer, rid) \<notin> (\<lambda>r. (fi_peer_hub_id r, fi_remote_call_id r)) ` set (t_imports d)" by blast
  have "RecordFederatedCallImport peer rid lid' now' d' = (Inr False, d')"
    using r by (force simp: RecordFederatedCallImport_def ins_imports_def)
  with b MaxImported_ge [OF r(1)] r show ?thesis by simp
qed

theorem import_recorded_once_witness:
  "\<exists>d'. RecordFederatedCallImport ''hub'' 40 1 9 example_call_db = (Inr True, d') \<and>
     RecordFederatedCallImport ''hub'' 40 2 10 d' = (Inr False, d')"
proof -
  obtain d' where d': "RecordFederatedCallImport ''hub'' 40 1 9 example_call_db = (Inr True, d')"
    by (simp add: RecordFederatedCallImport_def ins_imports_def call_exists_def call_eval)
  with import_recorded_once [OF this] show ?thesis by blast
qed

text \<open>
  Merging the recent calls of a player never exceeds the limit and never repeats a call, but it
  is not a merge by time: once the first list fills the limit, no call of the second one is shown, however recent.
\<close>

theorem merge_ignores_time:
  assumes "0 \<le> n"
  shows "int (length (mergeRecentCallsByDateTime primary extra n)) \<le> n \<and>
    distinct (map ca_ID (mergeRecentCallsByDateTime primary extra n)) \<and>
    (distinct (map ca_ID primary) \<and> n \<le> int (length primary) \<longrightarrow>
       mergeRecentCallsByDateTime primary extra n = take (nat n) primary)"
proof -
  let ?m = "foldl (append_call n) [] primary"
  have m: "distinct (map ca_ID ?m)" "int (length ?m) \<le> n"
    using foldl_append_call [of "[]" n primary] assms by simp_all
  have "mergeRecentCallsByDateTime primary extra n = take (nat n) primary"
    if "distinct (map ca_ID primary)" "n \<le> int (length primary)"
  proof -
    have "?m = take (nat n) primary"
      using foldl_append_fresh [of "[]" primary n] that assms by simp
    moreover have "n \<le> int (length (take (nat n) primary))" using that(2) by simp
    ultimately show ?thesis
      by (simp only: mergeRecentCallsByDateTime_def foldl_append_full)
  qed
  then show ?thesis
    using foldl_append_call [OF m, of extra] by (simp add: mergeRecentCallsByDateTime_def)
qed

theorem merge_ignores_time_witness:
  "mergeRecentCallsByDateTime [(example_call 1 7 ''Fire'')\<lparr>ca_ID := 1\<rparr>] [(example_call 99 9 ''PTT'')\<lparr>ca_ID := 2\<rparr>] 1 =
     [(example_call 1 7 ''Fire'')\<lparr>ca_ID := 1\<rparr>]"
  using merge_ignores_time [of 1 "[(example_call 1 7 ''Fire'')\<lparr>ca_ID := 1\<rparr>]" "[(example_call 99 9 ''PTT'')\<lparr>ca_ID := 2\<rparr>]"]
  by simp

end
