(* ===== verification/Conversations.thy ===== *)
theory Conversations
  imports Calls "HOL-Library.Product_Lexorder" "HOL-Library.Multiset"
begin

text \<open>
  \<open>server/internal/database/conversations.go\<close>: the call log grouped into conversations. Calls are sorted by
  start and id and swept once; a map holds, for each channel (system and talkgroup), the index of the
  conversation a next call may still join. The lemmas keep an invariant of that sweep; the theorems
  read off that the result partitions the calls and that the groups are as large as the gap allows and no larger.
\<close>

section \<open>The code\<close>

record Conversation =
  cv_Call :: Call
  cv_EndDateTime :: int
  cv_PartCount :: int
  cv_Parts :: "Call list"

type_synonym channel = "int \<times> int"

definition trunc :: "rat \<Rightarrow> int" where
  "trunc x = (if x < 0 then \<lceil>x\<rceil> else \<lfloor>x\<rfloor>)"

definition callEndTime :: "Call \<Rightarrow> int" where
  "callEndTime c =
     (let d0 = trunc (ca_Duration c);
          d1 = (if ca_Duration c > of_int d0 then d0 + 1 else d0);
          d2 = (if d1 < 0 then 0 else d1)
      in ca_DateTime c + d2)"

definition conversationChannel :: "Call \<Rightarrow> channel" where
  "conversationChannel c = (ca_System c, ca_Talkgroup c)"

definition call_order :: "Call \<Rightarrow> int \<times> int" where
  "call_order c = (ca_DateTime c, ca_ID c)"

definition join_conversation :: "Call \<Rightarrow> Conversation \<Rightarrow> Conversation" where
  "join_conversation c v = v\<lparr>cv_Parts := cv_Parts v @ [c], cv_PartCount := cv_PartCount v + 1,
     cv_Call := (cv_Call v)\<lparr>ca_Duration := ca_Duration (cv_Call v) + ca_Duration c\<rparr>,
     cv_EndDateTime := (if callEndTime c > cv_EndDateTime v then callEndTime c else cv_EndDateTime v)\<rparr>"

definition new_conversation :: "Call \<Rightarrow> Conversation" where
  "new_conversation c = \<lparr>cv_Call = c, cv_EndDateTime = callEndTime c, cv_PartCount = 1, cv_Parts = [c]\<rparr>"

type_synonym sweep = "Conversation list \<times> (channel \<rightharpoonup> nat)"

fun group_step :: "rat \<Rightarrow> sweep \<Rightarrow> Call \<Rightarrow> sweep" where
  "group_step gap (vs, act) c =
     (let key = conversationChannel c; fresh = (vs @ [new_conversation c], act(key \<mapsto> length vs)) in
      case act key of
        None \<Rightarrow> fresh
      | Some i \<Rightarrow> if of_int (ca_DateTime c) \<le> of_int (cv_EndDateTime (vs ! i)) + gap
                  then (vs[i := join_conversation c (vs ! i)], act) else fresh)"

definition GroupCallsIntoConversations :: "Call list \<Rightarrow> rat \<Rightarrow> Conversation list" where
  "GroupCallsIntoConversations calls gap0 =
     (if calls = [] then []
      else let gap = (if gap0 < 0 then 0 else gap0) in
           fst (foldl (group_step gap) ([], Map.empty) (sort_key call_order calls)))"

section \<open>What the sweep maintains\<close>

definition conv_channel :: "Conversation \<Rightarrow> channel" where
  "conv_channel v = conversationChannel (hd (cv_Parts v))"

definition conv_start :: "Conversation \<Rightarrow> int" where
  "conv_start v = ca_DateTime (hd (cv_Parts v))"

text \<open>Each part starts at most the gap after the latest end of the parts before it.\<close>

definition chained :: "rat \<Rightarrow> Call list \<Rightarrow> bool" where
  "chained gap ps \<longleftrightarrow> (\<forall>k. 0 < k \<longrightarrow> k < length ps \<longrightarrow>
     (\<exists>j<k. of_int (ca_DateTime (ps ! k)) \<le> (of_int (callEndTime (ps ! j)) + gap :: rat)))"

definition conv_ok :: "rat \<Rightarrow> Conversation \<Rightarrow> bool" where
  "conv_ok gap v \<longleftrightarrow> cv_Parts v \<noteq> [] \<and> cv_PartCount v = int (length (cv_Parts v)) \<and>
     (\<forall>c \<in> set (cv_Parts v). conversationChannel c = conv_channel v) \<and>
     cv_EndDateTime v = Max (callEndTime ` set (cv_Parts v)) \<and>
     ca_Duration (cv_Call v) = sum_list (map ca_Duration (cv_Parts v)) \<and>
     ca_ID (cv_Call v) = ca_ID (hd (cv_Parts v)) \<and> chained gap (cv_Parts v)"

definition separated :: "rat \<Rightarrow> Conversation \<Rightarrow> Conversation \<Rightarrow> bool" where
  "separated gap v w \<longleftrightarrow> (conv_channel v = conv_channel w \<longrightarrow>
     of_int (conv_start w) > (of_int (cv_EndDateTime v) + gap :: rat))"

definition sweep_inv :: "rat \<Rightarrow> int \<Rightarrow> sweep \<Rightarrow> bool" where
  "sweep_inv gap t s \<longleftrightarrow> (case s of (vs, act) \<Rightarrow>
     list_all (conv_ok gap) vs \<and> list_all (\<lambda>v. conv_start v \<le> t) vs \<and> sorted_wrt (separated gap) vs \<and>
     (\<forall>key i. act key = Some i \<longrightarrow> i < length vs \<and> conv_channel (vs ! i) = key \<and>
        (\<forall>j. i < j \<longrightarrow> j < length vs \<longrightarrow> conv_channel (vs ! j) \<noteq> key)) \<and>
     (\<forall>v \<in> set vs. act (conv_channel v) \<noteq> None))"

declare split_paired_All [simp del]

lemma sweep_active:
  "sweep_inv gap t (vs, act) \<Longrightarrow> act key = Some i \<Longrightarrow> i < length vs \<and> conv_channel (vs ! i) = key \<and>
     (\<forall>j. i < j \<longrightarrow> j < length vs \<longrightarrow> conv_channel (vs ! j) \<noteq> key)"
  unfolding sweep_inv_def prod.case by blast

lemma conv_ok_new: "conv_ok gap (new_conversation c)"
  by (simp add: conv_ok_def new_conversation_def conv_channel_def chained_def)

lemma conv_new [simp]: "conv_channel (new_conversation c) = conversationChannel c" "conv_start (new_conversation c) = ca_DateTime c"
  by (simp_all add: conv_channel_def conv_start_def new_conversation_def)

lemma conv_join [simp]:
  "cv_Parts v \<noteq> [] \<Longrightarrow> conv_channel (join_conversation c v) = conv_channel v"
  "cv_Parts v \<noteq> [] \<Longrightarrow> conv_start (join_conversation c v) = conv_start v"
  by (simp_all add: conv_channel_def conv_start_def join_conversation_def)

lemma chained_snoc:
  assumes "chained gap ps" "p \<in> set ps" "of_int (ca_DateTime c) \<le> (of_int (callEndTime p) + gap :: rat)"
  shows "chained gap (ps @ [c])"
  unfolding chained_def
proof (intro allI impI)
  fix k assume k: "0 < k" "k < length (ps @ [c])"
  show "\<exists>j<k. of_int (ca_DateTime ((ps @ [c]) ! k)) \<le> (of_int (callEndTime ((ps @ [c]) ! j)) + gap :: rat)"
  proof (cases "k < length ps")
    case True
    with assms(1) k obtain j where "j < k" "of_int (ca_DateTime (ps ! k)) \<le> (of_int (callEndTime (ps ! j)) + gap :: rat)"
      unfolding chained_def by blast
    with True show ?thesis by (intro exI [of _ j]) (simp add: nth_append)
  next
    case False
    with k have "k = length ps" by simp
    moreover obtain j where "j < length ps" "ps ! j = p" using assms(2) by (meson in_set_conv_nth)
    ultimately show ?thesis using assms(3) by (intro exI [of _ j]) (simp add: nth_append)
  qed
qed

lemma conv_ok_join:
  assumes "conv_ok gap v" "conversationChannel c = conv_channel v"
    "of_int (ca_DateTime c) \<le> (of_int (cv_EndDateTime v) + gap :: rat)"
  shows "conv_ok gap (join_conversation c v)"
proof -
  have ne: "cv_Parts v \<noteq> []" using assms(1) by (simp add: conv_ok_def)
  have end_eq: "cv_EndDateTime v = Max (callEndTime ` set (cv_Parts v))" using assms(1) by (simp add: conv_ok_def)
  then have "cv_EndDateTime v \<in> callEndTime ` set (cv_Parts v)" using ne Max_in by simp
  then obtain p where p: "p \<in> set (cv_Parts v)" "cv_EndDateTime v = callEndTime p" by blast
  have "chained gap (cv_Parts v @ [c])"
  proof (rule chained_snoc [OF _ p(1)])
    show "chained gap (cv_Parts v)" using assms(1) by (simp add: conv_ok_def)
    show "of_int (ca_DateTime c) \<le> (of_int (callEndTime p) + gap :: rat)" using assms(3) unfolding p(2) .
  qed
  moreover have "Max (callEndTime ` set (cv_Parts v @ [c])) = max (callEndTime c) (cv_EndDateTime v)"
    using ne by (simp add: end_eq)
  moreover have "cv_Parts (join_conversation c v) = cv_Parts v @ [c]"
      "cv_PartCount (join_conversation c v) = cv_PartCount v + 1"
      "cv_EndDateTime (join_conversation c v) = max (callEndTime c) (cv_EndDateTime v)"
      "ca_Duration (cv_Call (join_conversation c v)) = ca_Duration (cv_Call v) + ca_Duration c"
      "ca_ID (cv_Call (join_conversation c v)) = ca_ID (cv_Call v)"
    by (auto simp: join_conversation_def)
  ultimately show ?thesis
    using assms(1,2) conv_join(1) [OF ne, of c] by (simp add: conv_ok_def)
qed
lemma sweep_fresh:
  assumes inv: "sweep_inv gap t (vs, act)" and t: "t \<le> ca_DateTime c" and gap: "0 \<le> gap"
    and far: "\<And>i. act (conversationChannel c) = Some i \<Longrightarrow>
      of_int (ca_DateTime c) > (of_int (cv_EndDateTime (vs ! i)) + gap :: rat)"
  shows "sweep_inv gap (ca_DateTime c) (vs @ [new_conversation c], act(conversationChannel c \<mapsto> length vs))"
proof -
  let ?key = "conversationChannel c"
  have sep: "separated gap v (new_conversation c)" if "v \<in> set vs" for v
    unfolding separated_def conv_new
  proof
    assume ch: "conv_channel v = ?key"
    from that ch inv obtain i where i: "act ?key = Some i" by (auto simp: sweep_inv_def)
    from sweep_active [OF inv i] have last: "i < length vs" "conv_channel (vs ! i) = ?key"
        "\<And>j. i < j \<Longrightarrow> j < length vs \<Longrightarrow> conv_channel (vs ! j) \<noteq> ?key" by auto
    from that obtain j where j: "j < length vs" "vs ! j = v" by (meson in_set_conv_nth)
    show "of_int (ca_DateTime c) > (of_int (cv_EndDateTime v) + gap :: rat)"
    proof (cases "j = i")
      case True
      with far i j show ?thesis by simp
    next
      case False
      with last(3) [of j] j ch have "j < i" by (meson linorder_neqE_nat)
      with inv last(1) have "separated gap (vs ! j) (vs ! i)"
        by (simp add: sweep_inv_def sorted_wrt_iff_nth_less)
      then have "of_int (cv_EndDateTime v) + gap < (of_int (conv_start (vs ! i)) :: rat)"
        using j ch last(2) by (simp add: separated_def)
      also have "\<dots> \<le> of_int (ca_DateTime c)"
      proof -
        have "conv_start (vs ! i) \<le> t" using inv last(1) by (simp add: sweep_inv_def list_all_length)
        with t show ?thesis by simp
      qed
      finally show ?thesis .
    qed
  qed
  show ?thesis
    unfolding sweep_inv_def prod.case
  proof (intro conjI)
    show "list_all (conv_ok gap) (vs @ [new_conversation c])"
      using inv by (simp add: sweep_inv_def conv_ok_new)
    show "list_all (\<lambda>v. conv_start v \<le> ca_DateTime c) (vs @ [new_conversation c])"
      using inv t by (auto simp: sweep_inv_def list_all_iff)
    show "sorted_wrt (separated gap) (vs @ [new_conversation c])"
      using inv sep by (simp add: sweep_inv_def sorted_wrt_append)
    show "\<forall>key i. (act(?key \<mapsto> length vs)) key = Some i \<longrightarrow> i < length (vs @ [new_conversation c]) \<and>
        conv_channel ((vs @ [new_conversation c]) ! i) = key \<and>
        (\<forall>j. i < j \<longrightarrow> j < length (vs @ [new_conversation c]) \<longrightarrow> conv_channel ((vs @ [new_conversation c]) ! j) \<noteq> key)"
      using inv by (auto simp: sweep_inv_def nth_append less_Suc_eq split: if_splits)
    show "\<forall>v \<in> set (vs @ [new_conversation c]). (act(?key \<mapsto> length vs)) (conv_channel v) \<noteq> None"
      using inv by (auto simp: sweep_inv_def)
  qed
qed

lemma sweep_join:
  assumes inv: "sweep_inv gap t (vs, act)" and t: "t \<le> ca_DateTime c"
    and act: "act (conversationChannel c) = Some i"
    and near: "of_int (ca_DateTime c) \<le> (of_int (cv_EndDateTime (vs ! i)) + gap :: rat)"
  shows "sweep_inv gap (ca_DateTime c) (vs[i := join_conversation c (vs ! i)], act)"
proof -
  from sweep_active [OF inv act] have i: "i < length vs" "conv_channel (vs ! i) = conversationChannel c"
      "\<And>j. i < j \<Longrightarrow> j < length vs \<Longrightarrow> conv_channel (vs ! j) \<noteq> conversationChannel c"
    by auto
  have ok: "conv_ok gap (vs ! i)" using inv i(1) by (simp add: sweep_inv_def list_all_length)
  then have ne: "cv_Parts (vs ! i) \<noteq> []" by (simp add: conv_ok_def)
  let ?v = "join_conversation c (vs ! i)"
  have ch: "conv_channel (vs[i := ?v] ! j) = conv_channel (vs ! j)" if "j < length vs" for j
    using that i(1) conv_join(1) [OF ne] by (cases "j = i") simp_all
  have st: "conv_start (vs[i := ?v] ! j) = conv_start (vs ! j)" if "j < length vs" for j
    using that i(1) conv_join(2) [OF ne] by (cases "j = i") simp_all
  have sep: "separated gap (vs[i := ?v] ! j) (vs[i := ?v] ! k)" if "j < k" "k < length vs" for j k
  proof (cases "j = i")
    case True
    have "conv_channel (vs ! k) \<noteq> conversationChannel c" using i(3) that True by simp
    with True that i(1,2) show ?thesis by (simp add: separated_def conv_join(1) [OF ne])
  next
    case False
    have "separated gap (vs ! j) (vs ! k)"
      using inv that by (simp add: sweep_inv_def sorted_wrt_iff_nth_less)
    with False that show ?thesis by (simp add: separated_def ch st)
  qed
  show ?thesis
    unfolding sweep_inv_def prod.case
  proof (intro conjI)
    show "list_all (conv_ok gap) (vs[i := ?v])"
      using inv conv_ok_join [OF ok _ near] i(2) by (auto simp: sweep_inv_def list_all_iff dest!: set_update_subset_insert [THEN subsetD])
    show "list_all (\<lambda>v. conv_start v \<le> ca_DateTime c) (vs[i := ?v])"
      using inv t st by (fastforce simp: sweep_inv_def list_all_length)
    show "sorted_wrt (separated gap) (vs[i := ?v])"
      using sep by (simp add: sorted_wrt_iff_nth_less)
    show "\<forall>key k. act key = Some k \<longrightarrow> k < length (vs[i := ?v]) \<and> conv_channel (vs[i := ?v] ! k) = key \<and>
        (\<forall>j. k < j \<longrightarrow> j < length (vs[i := ?v]) \<longrightarrow> conv_channel (vs[i := ?v] ! j) \<noteq> key)"
      using inv by (auto simp: sweep_inv_def ch)
    show "\<forall>v \<in> set (vs[i := ?v]). act (conv_channel v) \<noteq> None"
      using inv act i(2) conv_join(1) [OF ne, of c]
      by (auto simp: sweep_inv_def dest!: set_update_subset_insert [THEN subsetD])
  qed
qed

lemma group_step_inv:
  assumes "sweep_inv gap t s" "t \<le> ca_DateTime c" "0 \<le> gap"
  shows "sweep_inv gap (ca_DateTime c) (group_step gap s c)"
proof (cases s)
  case (Pair vs act)
  show ?thesis
  proof (cases "act (conversationChannel c)")
    case None
    with assms Pair sweep_fresh [of gap t vs act c] show ?thesis by (simp add: Let_def)
  next
    case (Some i)
    with assms Pair show ?thesis
      using sweep_fresh [of gap t vs act c] sweep_join [of gap t vs act c i] by (simp add: Let_def not_le)
  qed
qed

lemma sweep_all:
  "sweep_inv gap t s \<Longrightarrow> 0 \<le> gap \<Longrightarrow> sorted (map ca_DateTime cs) \<Longrightarrow> (\<And>c. c \<in> set cs \<Longrightarrow> t \<le> ca_DateTime c) \<Longrightarrow>
   \<exists>t'. sweep_inv gap t' (foldl (group_step gap) s cs)"
proof (induction cs arbitrary: s t)
  case (Cons c cs)
  have "sweep_inv gap (ca_DateTime c) (group_step gap s c)"
    using Cons.prems by (intro group_step_inv) auto
  from Cons.IH [OF this] Cons.prems show ?case by simp
qed auto

lemma group_step_parts:
  "sweep_inv gap t s \<Longrightarrow>
   mset (concat (map cv_Parts (fst (group_step gap s c)))) = add_mset c (mset (concat (map cv_Parts (fst s))))"
proof (cases s)
  case (Pair vs act)
  assume inv: "sweep_inv gap t s"
  have upd: "mset (concat (map cv_Parts (vs[i := join_conversation c (vs ! i)]))) =
      add_mset c (mset (concat (map cv_Parts vs)))" if "i < length vs" for i
  proof -
    have "vs = take i vs @ vs ! i # drop (Suc i) vs" using that by (simp add: id_take_nth_drop)
    then have "mset (concat (map cv_Parts vs)) = mset (concat (map cv_Parts (take i vs))) + mset (cv_Parts (vs ! i))
        + mset (concat (map cv_Parts (drop (Suc i) vs)))"
      by (metis (no_types, lifting) add.assoc concat.simps(2) concat_append list.simps(9) map_append mset_append)
    with that show ?thesis
      by (simp add: upd_conv_take_nth_drop join_conversation_def)
  qed
  show ?thesis
  proof (cases "act (conversationChannel c)")
    case None
    with Pair show ?thesis by (simp add: Let_def new_conversation_def)
  next
    case (Some i)
    with inv Pair have "i < length vs" using sweep_active by blast
    with Some Pair upd show ?thesis by (simp add: Let_def new_conversation_def)
  qed
qed

lemma group_step_subseq:
  assumes "sweep_inv gap t s" "\<forall>v \<in> set (fst s). subseq (cv_Parts v) cs"
  shows "\<forall>v \<in> set (fst (group_step gap s c)). subseq (cv_Parts v) (cs @ [c])"
proof (cases s)
  case (Pair vs act)
  have old: "\<forall>v \<in> set vs. subseq (cv_Parts v) (cs @ [c])"
    using assms(2) Pair by (auto intro: subseq_order.trans)
  have join: "subseq (cv_Parts (join_conversation c v)) (cs @ [c])" if "v \<in> set vs" for v
    using assms(2) Pair that by (simp add: join_conversation_def)
  have new: "subseq (cv_Parts (new_conversation c)) (cs @ [c])"
    using subseq_singleton_left [of c "cs @ [c]"] by (simp add: new_conversation_def)
  show ?thesis
  proof (cases "act (conversationChannel c)")
    case None
    with Pair old new show ?thesis by (simp add: Let_def)
  next
    case (Some i)
    with assms(1) Pair have "i < length vs" using sweep_active by blast
    then have "\<forall>v \<in> set (vs[i := join_conversation c (vs ! i)]). subseq (cv_Parts v) (cs @ [c])"
      using old join set_update_subset_insert [of vs i "join_conversation c (vs ! i)"] by auto
    with Some Pair old new show ?thesis by (simp add: Let_def)
  qed
qed

definition grouped :: "rat \<Rightarrow> Call list \<Rightarrow> Conversation list \<Rightarrow> bool" where
  "grouped gap cs vs \<longleftrightarrow> list_all (conv_ok gap) vs \<and> sorted_wrt (separated gap) vs \<and>
     mset (concat (map cv_Parts vs)) = mset cs \<and> (\<forall>v \<in> set vs. subseq (cv_Parts v) cs)"

lemma sweep_grouped:
  "sweep_inv gap t s \<Longrightarrow> 0 \<le> gap \<Longrightarrow> sorted (map ca_DateTime cs) \<Longrightarrow> (\<And>c. c \<in> set cs \<Longrightarrow> t \<le> ca_DateTime c) \<Longrightarrow>
   grouped gap ds (fst s) \<Longrightarrow> grouped gap (ds @ cs) (fst (foldl (group_step gap) s cs))"
proof (induction cs arbitrary: s t ds)
  case (Cons c cs)
  have inv: "sweep_inv gap (ca_DateTime c) (group_step gap s c)"
    using Cons.prems by (intro group_step_inv) auto
  moreover have "grouped gap (ds @ [c]) (fst (group_step gap s c))"
    using inv Cons.prems(5) group_step_parts [OF Cons.prems(1), of c] group_step_subseq [OF Cons.prems(1), of ds c]
    by (auto simp: grouped_def sweep_inv_def split: prod.splits)
  ultimately show ?case
    using Cons.IH [of "ca_DateTime c" "group_step gap s c" "ds @ [c]"] Cons.prems by simp
qed simp

lemma sorted_starts: "sorted (map call_order cs) \<Longrightarrow> sorted (map ca_DateTime cs)"
proof -
  assume "sorted (map call_order cs)"
  then have "sorted_wrt (\<lambda>c e. call_order c \<le> call_order e) cs" by (simp add: sorted_map)
  then have "sorted_wrt (\<lambda>c e. ca_DateTime c \<le> ca_DateTime e) cs"
    by (rule sorted_wrt_mono_rel [rotated]) (auto simp: call_order_def)
  then show ?thesis by (simp add: sorted_map)
qed

lemma GroupCalls_grouped:
  "grouped (max 0 gap) (sort_key call_order calls) (GroupCallsIntoConversations calls gap)"
proof (cases "sort_key call_order calls")
  case Nil
  then have "calls = []" by (metis length_0_conv length_sort)
  then show ?thesis by (simp add: GroupCallsIntoConversations_def grouped_def)
next
  case (Cons c cs)
  have g: "(if gap < 0 then 0 else gap) = max 0 gap" by simp
  have ne: "calls \<noteq> []" using Cons by auto
  have srt: "sorted (map ca_DateTime (c # cs))"
    unfolding Cons [symmetric] by (intro sorted_starts sorted_sort_key)
  have "grouped (max 0 gap) ([] @ c # cs) (fst (foldl (group_step (max 0 gap)) ([], Map.empty) (c # cs)))"
    by (rule sweep_grouped [where t = "ca_DateTime c"])
      (use srt in \<open>auto simp: sweep_inv_def grouped_def\<close>)
  then show ?thesis
    using ne by (simp add: GroupCallsIntoConversations_def Let_def g Cons)
qed

lemma subseq_sorted: "subseq xs ys \<Longrightarrow> sorted (map f ys) \<Longrightarrow> sorted (map f xs)"
  by (induction rule: list_emb.induct) (auto dest: list_emb_set)

section \<open>Properties\<close>

text \<open>
  Property C23. Grouping loses and repeats no call: the parts of all conversations together are exactly the calls.
  Each conversation is on one channel, has its parts in order of start and id, counts them, ends when
  the last of them ends and lasts the sum of their durations.
\<close>

theorem conversations_partition:
  "mset (concat (map cv_Parts (GroupCallsIntoConversations calls gap))) = mset calls \<and>
   (\<forall>v \<in> set (GroupCallsIntoConversations calls gap).
      cv_Parts v \<noteq> [] \<and> cv_PartCount v = int (length (cv_Parts v)) \<and>
      (\<forall>c \<in> set (cv_Parts v). conversationChannel c = conv_channel v) \<and>
      sorted (map call_order (cv_Parts v)) \<and>
      cv_EndDateTime v = Max (callEndTime ` set (cv_Parts v)) \<and>
      ca_Duration (cv_Call v) = sum_list (map ca_Duration (cv_Parts v)))"
  using GroupCalls_grouped [of gap calls] subseq_sorted [of _ "sort_key call_order calls" call_order]
  by (auto simp: grouped_def list_all_iff conv_ok_def)

theorem conversations_partition_witness:
  "mset (concat (map cv_Parts (GroupCallsIntoConversations [example_call 103 7 ''Fire'', example_call 100 7 ''Fire''] 5))) =
     mset [example_call 103 7 ''Fire'', example_call 100 7 ''Fire'']"
  using conversations_partition [of "[example_call 103 7 ''Fire'', example_call 100 7 ''Fire'']" 5] by blast

text \<open>
  Property C22. The grouping is exactly as coarse as the gap says: inside a conversation every call starts at
  most the gap after an earlier part ended, and of two conversations on one channel the later starts
  more than the gap after the earlier has ended. A negative gap counts as 0.
\<close>

theorem conversations_follow_gap:
  "(\<forall>v \<in> set (GroupCallsIntoConversations calls gap). chained (max 0 gap) (cv_Parts v)) \<and>
   (i < j \<and> j < length (GroupCallsIntoConversations calls gap) \<longrightarrow>
      separated (max 0 gap) (GroupCallsIntoConversations calls gap ! i) (GroupCallsIntoConversations calls gap ! j))"
  using GroupCalls_grouped [of gap calls]
  by (auto simp: grouped_def list_all_iff conv_ok_def sorted_wrt_iff_nth_less)

theorem conversations_follow_gap_witness:
  "separated (max 0 5)
     (GroupCallsIntoConversations [example_call 200 7 ''Fire'', example_call 100 7 ''Fire''] 5 ! 0)
     (GroupCallsIntoConversations [example_call 200 7 ''Fire'', example_call 100 7 ''Fire''] 5 ! 1)"
proof -
  have "length (GroupCallsIntoConversations [example_call 200 7 ''Fire'', example_call 100 7 ''Fire''] 5) = 2"
    by (simp add: GroupCallsIntoConversations_def example_call_def call_order_def conversationChannel_def
        new_conversation_def callEndTime_def trunc_def)
  with conversations_follow_gap [of "[example_call 200 7 ''Fire'', example_call 100 7 ''Fire'']" 5 0 1]
  show ?thesis by simp
qed

end
