(* ===== verification/RadioSets.thy ===== *)
theory RadioSets
  imports Calls
begin

text \<open>
  \<open>server/internal/database/radio_sets.go\<close>, \<open>ptt.go\<close> and \<open>talkgroups.go\<close>: named playsets with their share
  tokens and push-to-talk talkgroups, the idempotency records of push-to-talk uploads, and the
  per-talkgroup settings. The JSONB membership columns hold the decoded lists, so writing one and
  scanning it back is the identity.
\<close>

section \<open>Radio sets\<close>

record RadioSet =
  rs_ID :: string
  rs_UserID :: string
  rs_Name :: string
  rs_SelectionMode :: string
  rs_Talkgroups :: "int list"
  rs_TalkgroupGroups :: "string list"
  rs_ShareToken :: "string option"
  rs_PTTTalkgroup :: "int option"
  rs_CreatedAt :: int
  rs_UpdatedAt :: int

definition normalizeRadioSetSelectionMode :: "string \<Rightarrow> string" where
  "normalizeRadioSetSelectionMode mode = (if TrimSpace mode = ''groups'' then ''groups'' else ''talkgroups'')"

definition IsGroupsMode :: "RadioSet \<Rightarrow> bool" where
  "IsGroupsMode rs \<longleftrightarrow> normalizeRadioSetSelectionMode (rs_SelectionMode rs) = ''groups''"

definition scanRadioSet :: "radio_sets_row \<Rightarrow> RadioSet" where
  "scanRadioSet r = \<lparr>rs_ID = rr_id r, rs_UserID = rr_user_id r, rs_Name = rr_name r,
     rs_SelectionMode = normalizeRadioSetSelectionMode (rr_selection_mode r), rs_Talkgroups = rr_talkgroups r,
     rs_TalkgroupGroups = rr_talkgroup_groups r, rs_ShareToken = rr_share_token r,
     rs_PTTTalkgroup = rr_ptt_talkgroup r, rs_CreatedAt = rr_created_at r, rs_UpdatedAt = rr_updated_at r\<rparr>"

text \<open>\<open>nextval\<close> is not undone when the insert that follows it fails.\<close>

definition CreateRadioSet ::
  "string \<Rightarrow> string \<Rightarrow> string \<Rightarrow> int list \<Rightarrow> string list \<Rightarrow> string \<Rightarrow> int \<Rightarrow> db \<Rightarrow> RadioSet dbres" where
  "CreateRadioSet uid name mode tgs groups i now d =
     (let ptt = seq_ptt d; d1 = d\<lparr>seq_ptt := ptt + 1\<rparr>; mode' = normalizeRadioSetSelectionMode mode;
          r = \<lparr>rr_id = i, rr_user_id = uid, rr_name = name, rr_talkgroups = tgs, rr_created_at = now,
               rr_updated_at = now, rr_share_token = None, rr_ptt_talkgroup = Some ptt,
               rr_selection_mode = mode', rr_talkgroup_groups = groups\<rparr>
      in case ins_radio_sets r d1 of
           Inl err \<Rightarrow> (Inl err, d1)
         | Inr d2 \<Rightarrow> (Inr \<lparr>rs_ID = i, rs_UserID = uid, rs_Name = name, rs_SelectionMode = mode',
             rs_Talkgroups = tgs, rs_TalkgroupGroups = groups, rs_ShareToken = None, rs_PTTTalkgroup = Some ptt,
             rs_CreatedAt = now, rs_UpdatedAt = now\<rparr>, d2))"

definition ListRadioSets :: "string \<Rightarrow> db \<Rightarrow> RadioSet list" where
  "ListRadioSets uid d = map scanRadioSet (order_asc rr_created_at (filter (\<lambda>r. rr_user_id r = uid) (t_radio_sets d)))"

definition ListAllRadioSets :: "db \<Rightarrow> RadioSet list" where
  "ListAllRadioSets d = map scanRadioSet (order_asc rr_created_at (t_radio_sets d))"

definition call_source_ids :: "(calls_row \<Rightarrow> bool) \<Rightarrow> db \<Rightarrow> string list" where
  "call_source_ids P d = distinct_ids (map (coalesce \<circ> cr_source_id) (filter P (t_calls d)))"

definition ListSourceIDsForTalkgroups :: "int list \<Rightarrow> db \<Rightarrow> string list" where
  "ListSourceIDsForTalkgroups tgs d =
     (if tgs = [] then [] else call_source_ids (\<lambda>r. cr_talkgroup r \<in> set tgs) d)"

definition ListSourceIDsForTalkgroupGroups :: "string list \<Rightarrow> db \<Rightarrow> string list" where
  "ListSourceIDsForTalkgroupGroups gs d =
     (if gs = [] then [] else call_source_ids (\<lambda>r. cr_talkgroup_group r \<in> set gs) d)"

definition GetRadioSet :: "string \<Rightarrow> string \<Rightarrow> db \<Rightarrow> RadioSet option" where
  "GetRadioSet i uid d =
     map_option scanRadioSet (List.find (\<lambda>r. rr_id r = i \<and> rr_user_id r = uid) (t_radio_sets d))"

definition UpdateRadioSet ::
  "string \<Rightarrow> string \<Rightarrow> string \<Rightarrow> string \<Rightarrow> int list \<Rightarrow> string list \<Rightarrow> int \<Rightarrow> db \<Rightarrow> unit dbres" where
  "UpdateRadioSet i uid name mode tgs groups now d =
     (let P = (\<lambda>r. rr_id r = i \<and> rr_user_id r = uid) in
      if sql_count P (t_radio_sets d) = 0 then (Inl NoRows, d)
      else (Inr (), d\<lparr>t_radio_sets := sql_update P (\<lambda>r. r\<lparr>rr_name := name,
              rr_selection_mode := normalizeRadioSetSelectionMode mode, rr_talkgroups := tgs,
              rr_talkgroup_groups := groups, rr_updated_at := now\<rparr>) (t_radio_sets d)\<rparr>))"

definition SetRadioSetTalkgroups :: "string \<Rightarrow> int list \<Rightarrow> int \<Rightarrow> db \<Rightarrow> db" where
  "SetRadioSetTalkgroups i tgs now d = d\<lparr>t_radio_sets := sql_update (\<lambda>r. rr_id r = i)
     (\<lambda>r. r\<lparr>rr_talkgroups := tgs, rr_updated_at := now\<rparr>) (t_radio_sets d)\<rparr>"

definition DeleteRadioSet :: "string \<Rightarrow> string \<Rightarrow> db \<Rightarrow> unit dbres" where
  "DeleteRadioSet i uid d =
     (let P = (\<lambda>r. rr_id r = i \<and> rr_user_id r = uid) in
      if sql_count P (t_radio_sets d) = 0 then (Inl NoRows, d) else (Inr (), del_radio_sets P d))"

definition DeleteRadioSetByID :: "string \<Rightarrow> db \<Rightarrow> db" where
  "DeleteRadioSetByID i d = (if TrimSpace i = [] then d else del_radio_sets (\<lambda>r. rr_id r = i) d)"

text \<open>The share token column is \<open>UNIQUE\<close>: a token another set holds makes the statement fail.\<close>

definition SetRadioSetShareToken :: "string \<Rightarrow> string \<Rightarrow> string \<Rightarrow> db \<Rightarrow> unit dbres" where
  "SetRadioSetShareToken i uid token d =
     (let P = (\<lambda>r. rr_id r = i \<and> rr_user_id r = uid) in
      if list_ex P (t_radio_sets d) \<and> list_ex (\<lambda>r. \<not> P r \<and> rr_share_token r = Some token) (t_radio_sets d)
      then (Inl UniqueViolation, d)
      else (Inr (), d\<lparr>t_radio_sets := sql_update P (\<lambda>r. r\<lparr>rr_share_token := Some token\<rparr>) (t_radio_sets d)\<rparr>))"

definition ClearRadioSetShareToken :: "string \<Rightarrow> string \<Rightarrow> db \<Rightarrow> db" where
  "ClearRadioSetShareToken i uid d = d\<lparr>t_radio_sets := sql_update (\<lambda>r. rr_id r = i \<and> rr_user_id r = uid)
     (\<lambda>r. r\<lparr>rr_share_token := None\<rparr>) (t_radio_sets d)\<rparr>"

definition GetRadioSetByShareToken :: "string \<Rightarrow> db \<Rightarrow> RadioSet option" where
  "GetRadioSetByShareToken token d =
     map_option scanRadioSet (List.find (\<lambda>r. rr_share_token r = Some token) (t_radio_sets d))"

definition GetRecentCallsForRadioSet :: "string \<Rightarrow> RadioSet \<Rightarrow> int \<Rightarrow> db \<Rightarrow> Call list" where
  "GetRecentCallsForRadioSet uid rs n d =
     (let ptt = (case rs_PTTTalkgroup rs of None \<Rightarrow> [] | Some g \<Rightarrow> [g]) in
      if IsGroupsMode rs then
        (if rs_TalkgroupGroups rs = [] \<and> ptt = [] then []
         else (let calls = GetRecentCallsForTalkgroupGroups uid (rs_TalkgroupGroups rs) n d in
               if ptt = [] then calls
               else mergeRecentCallsByDateTime calls (GetRecentCallsForTalkgroups uid ptt n d) n))
      else GetRecentCallsForTalkgroups uid (rs_Talkgroups rs @ ptt) n d)"

section \<open>Push-to-talk\<close>

definition GetRadioSetForPTT :: "string \<Rightarrow> db \<Rightarrow> RadioSet option" where
  "GetRadioSetForPTT i d = map_option scanRadioSet (List.find (\<lambda>r. rr_id r = i) (t_radio_sets d))"

definition GetPTTUploadCallID :: "string \<Rightarrow> db \<Rightarrow> int option" where
  "GetPTTUploadCallID cid d = map_option pu_call_id (List.find (\<lambda>r. pu_client_id r = cid) (t_ptt_uploads d))"

definition RecordPTTUpload :: "string \<Rightarrow> int \<Rightarrow> string \<Rightarrow> int \<Rightarrow> db \<Rightarrow> unit dbres" where
  "RecordPTTUpload cid call uid now d =
     (case ins_ptt_uploads \<lparr>pu_client_id = cid, pu_call_id = call, pu_user_id = uid, pu_created_at = now\<rparr> d of
        Inl err \<Rightarrow> (Inl err, d)
      | Inr d' \<Rightarrow> (Inr (), d'))"

section \<open>Talkgroups\<close>

record TalkgroupSetting =
  tg_Talkgroup :: int
  tg_Favorite :: bool
  tg_Muted :: bool
  tg_Transcribe :: bool
  tg_UpdatedAt :: int

definition ListTalkgroupSettings :: "db \<Rightarrow> TalkgroupSetting list" where
  "ListTalkgroupSettings d = map (\<lambda>r. \<lparr>tg_Talkgroup = ts_talkgroup r, tg_Favorite = ts_favorite r,
     tg_Muted = ts_muted r, tg_Transcribe = ts_transcribe r, tg_UpdatedAt = ts_updated_at r\<rparr>)
     (order_asc ts_talkgroup (t_tg_settings d))"

definition tg_visible :: "string \<Rightarrow> db \<Rightarrow> calls_row \<Rightarrow> bool" where
  "tg_visible u d r \<longleftrightarrow> cr_user_id r = Some u \<or>
     (case cr_source_id r of
        None \<Rightarrow> False
      | Some i \<Rightarrow> list_ex (\<lambda>s. sh_source_id s = i \<and> sh_user_id s = u) (t_shares d) \<or>
          (case find_source i d of None \<Rightarrow> False | Some s \<Rightarrow> sr_user_id s = Some u \<or> sr_is_shared s))"

definition ListTalkgroupGroups :: "string \<Rightarrow> bool \<Rightarrow> db \<Rightarrow> string list" where
  "ListTalkgroupGroups u includeAll d =
     distinct_ids (map cr_talkgroup_group (filter (\<lambda>r. includeAll \<or> tg_visible u d r) (t_calls d)))"

definition UpsertTalkgroupSetting :: "TalkgroupSetting \<Rightarrow> int \<Rightarrow> db \<Rightarrow> unit dbres" where
  "UpsertTalkgroupSetting s now d =
     (let row = \<lparr>ts_talkgroup = tg_Talkgroup s, ts_favorite = tg_Favorite s, ts_muted = tg_Muted s,
                 ts_transcribe = tg_Transcribe s, ts_updated_at = now\<rparr> in
      if \<not> int4 (tg_Talkgroup s) then (Inl OutOfRange, d)
      else if tg_Talkgroup s \<in> ts_talkgroup ` set (t_tg_settings d)
      then (Inr (), d\<lparr>t_tg_settings := sql_update (\<lambda>r. ts_talkgroup r = tg_Talkgroup s) (\<lambda>r. row) (t_tg_settings d)\<rparr>)
      else (Inr (), d\<lparr>t_tg_settings := t_tg_settings d @ [row]\<rparr>))"

definition ShouldTranscribeTalkgroup :: "int \<Rightarrow> db \<Rightarrow> bool" where
  "ShouldTranscribeTalkgroup g d = list_ex (\<lambda>r. ts_talkgroup r = g \<and> ts_transcribe r) (t_tg_settings d)"

definition DeleteTalkgroup :: "int \<Rightarrow> db \<Rightarrow> int \<times> db" where
  "DeleteTalkgroup g d =
     (let d1 = d\<lparr>t_tg_settings := sql_delete (\<lambda>r. ts_talkgroup r = g) (t_tg_settings d)\<rparr>;
          P = (\<lambda>r. cr_talkgroup r = g)
      in (int (sql_count P (t_calls d1)), del_calls P d1))"

record TalkgroupInfo =
  ti_Talkgroup :: int
  ti_TalkgroupLabel :: string
  ti_TalkgroupGroup :: string
  ti_SystemLabel :: string

text \<open>\<open>DISTINCT ON\<close> keeps the first row of each talkgroup in the order given.\<close>

fun first_of_each :: "('r \<Rightarrow> 'k) \<Rightarrow> 'k list \<Rightarrow> 'r list \<Rightarrow> 'r list" where
  "first_of_each k seen [] = []"
| "first_of_each k seen (r # rs) =
     (if k r \<in> set seen then first_of_each k seen rs else r # first_of_each k (k r # seen) rs)"

definition ListDistinctTalkgroups :: "string \<Rightarrow> bool \<Rightarrow> db \<Rightarrow> TalkgroupInfo list" where
  "ListDistinctTalkgroups u includeAll d =
     map (\<lambda>r. \<lparr>ti_Talkgroup = cr_talkgroup r, ti_TalkgroupLabel = cr_talkgroup_label r,
               ti_TalkgroupGroup = cr_talkgroup_group r, ti_SystemLabel = cr_system_label r\<rparr>)
       (first_of_each cr_talkgroup [] (order_asc cr_talkgroup (order_desc cr_datetime
          (filter (\<lambda>r. cr_talkgroup r > 0 \<and> (includeAll \<or> tg_visible u d r)) (t_calls d)))))"
section \<open>Operations and what they keep\<close>

datatype radio_op =
    OpCreateSet string string string "int list" "string list" string int
  | OpUpdateSet string string string string "int list" "string list" int
  | OpSetTalkgroups string "int list" int
  | OpDeleteSet string string
  | OpDeleteSetByID string
  | OpShareSet string string string
  | OpUnshareSet string string
  | OpRecordPTT string int string int
  | OpTalkgroupSetting TalkgroupSetting int
  | OpDeleteTalkgroup int

fun exec_radio :: "radio_op \<Rightarrow> db \<Rightarrow> db" where
  "exec_radio (OpCreateSet uid name mode tgs gs i now) d = snd (CreateRadioSet uid name mode tgs gs i now d)"
| "exec_radio (OpUpdateSet i uid name mode tgs gs now) d = snd (UpdateRadioSet i uid name mode tgs gs now d)"
| "exec_radio (OpSetTalkgroups i tgs now) d = SetRadioSetTalkgroups i tgs now d"
| "exec_radio (OpDeleteSet i uid) d = snd (DeleteRadioSet i uid d)"
| "exec_radio (OpDeleteSetByID i) d = DeleteRadioSetByID i d"
| "exec_radio (OpShareSet i uid tok) d = snd (SetRadioSetShareToken i uid tok d)"
| "exec_radio (OpUnshareSet i uid) d = ClearRadioSetShareToken i uid d"
| "exec_radio (OpRecordPTT cid c uid now) d = snd (RecordPTTUpload cid c uid now d)"
| "exec_radio (OpTalkgroupSetting s now) d = snd (UpsertTalkgroupSetting s now d)"
| "exec_radio (OpDeleteTalkgroup g) d = snd (DeleteTalkgroup g d)"

text \<open>Push-to-talk talkgroups come from the sequence, below its next value, and no two sets share one.\<close>

definition ptt_ok :: "db \<Rightarrow> bool" where
  "ptt_ok d \<longleftrightarrow> uniq_opt rr_ptt_talkgroup (t_radio_sets d) \<and>
     list_all (\<lambda>g. g < seq_ptt d) (nonnull rr_ptt_talkgroup (t_radio_sets d))"

definition radio_inv :: "db \<Rightarrow> bool" where
  "radio_inv d \<longleftrightarrow> db_ok d \<and> ptt_ok d"

lemma below_iff:
  "list_all (\<lambda>g. g < n) (nonnull f rows) \<longleftrightarrow> (\<forall>r \<in> set rows. \<forall>g. f r = Some g \<longrightarrow> g < n)"
  by (auto simp: list_all_iff Ball_def)

lemma ptt_ok_update:
  assumes "ptt_ok d" "\<And>r. P r \<Longrightarrow> rr_ptt_talkgroup (f r) = rr_ptt_talkgroup r"
  shows "ptt_ok (d\<lparr>t_radio_sets := sql_update P f (t_radio_sets d)\<rparr>)"
  using assms by (fastforce simp: ptt_ok_def key_simps below_iff set_sql_update)

lemma ptt_ok_delete: "ptt_ok d \<Longrightarrow> ptt_ok (del_radio_sets P d)"
  by (auto simp: ptt_ok_def del_radio_sets_def Let_def below_iff)

lemma ptt_ok_same: "t_radio_sets d' = t_radio_sets d \<Longrightarrow> seq_ptt d' = seq_ptt d \<Longrightarrow> ptt_ok d \<Longrightarrow> ptt_ok d'"
  by (simp add: ptt_ok_def)

lemma upd_share_ok:
  assumes "db_ok d" "\<And>r. r \<in> set (t_radio_sets d) \<Longrightarrow> P r \<Longrightarrow> tok = None \<or> rr_id r = i"
    "\<not> (list_ex P (t_radio_sets d) \<and> list_ex (\<lambda>r. \<not> P r \<and> rr_share_token r = tok) (t_radio_sets d)) \<or> tok = None"
  shows "db_ok (d\<lparr>t_radio_sets := sql_update P (\<lambda>r. r\<lparr>rr_share_token := tok\<rparr>) (t_radio_sets d)\<rparr>)"
proof (rule set_radio_sets_ok [OF assms(1)])
  have opt: "uniq_opt rr_share_token rows \<Longrightarrow> (\<forall>r \<in> set rows. P r \<longrightarrow> tok = None \<or> rr_id r = i) \<Longrightarrow>
      \<not> (list_ex P rows \<and> list_ex (\<lambda>r. \<not> P r \<and> rr_share_token r = tok) rows) \<or> tok = None \<Longrightarrow> uniq rr_id rows \<Longrightarrow>
      uniq_opt rr_share_token (sql_update P (\<lambda>r. r\<lparr>rr_share_token := tok\<rparr>) rows)" for rows
  proof (induction rows)
    case (Cons r rows)
    let ?f = "\<lambda>r. r\<lparr>rr_share_token := tok\<rparr>"
    have ih: "uniq_opt rr_share_token (sql_update P ?f rows)"
      using Cons by (auto simp: uniq_opt_Cons uniq_def)
    have "x \<notin> set (nonnull rr_share_token (sql_update P ?f rows))"
      if x: "rr_share_token (if P r then ?f r else r) = Some x" for x
    proof
      assume "x \<in> set (nonnull rr_share_token (sql_update P ?f rows))"
      then obtain s where s: "s \<in> set rows" "rr_share_token (if P s then ?f s else s) = Some x"
        by (auto simp: set_sql_update)
      have "rr_id s \<noteq> rr_id r" using Cons.prems(4) s(1) unfolding uniq_def by (metis distinct.simps(2) image_eqI list.set_map list.simps(9))
      then show False
        using Cons.prems x s by (auto simp: uniq_opt_Cons list_ex_iff split: if_splits)
    qed
    with ih show ?case by (auto simp: uniq_opt_Cons sql_update_def)
  qed (simp add: uniq_opt_def nonnull_def)
  show "uniq_opt rr_share_token (sql_update P (\<lambda>r. r\<lparr>rr_share_token := tok\<rparr>) (t_radio_sets d))"
    by (rule opt) (use assms in \<open>auto simp: db_ok_uniq\<close>)
qed (use assms(1) in \<open>simp_all add: key_simps db_ok_uniq db_ok_fkey\<close>)

lemma CreateRadioSet_inv: "radio_inv d \<Longrightarrow> radio_inv (snd (CreateRadioSet uid name mode tgs gs i now d))"
proof -
  assume inv: "radio_inv d"
  have bump: "ptt_ok (d\<lparr>seq_ptt := seq_ptt d + 1\<rparr>)"
    using inv by (fastforce simp: radio_inv_def ptt_ok_def list_all_iff)
  have fresh: "seq_ptt d \<notin> set (nonnull rr_ptt_talkgroup (t_radio_sets d))"
    using inv by (auto simp: radio_inv_def ptt_ok_def list_all_iff)
  have "ptt_ok d'" if "ins_radio_sets r (d\<lparr>seq_ptt := seq_ptt d + 1\<rparr>) = Inr d'" "rr_ptt_talkgroup r = Some (seq_ptt d)" for r d'
  proof -
    have "d' = d\<lparr>seq_ptt := seq_ptt d + 1, t_radio_sets := t_radio_sets d @ [r]\<rparr>"
      using that(1) by (auto simp: ins_radio_sets_def split: if_splits)
    with bump fresh that(2) show ?thesis
      by (auto simp: ptt_ok_def uniq_opt_append1 list_all_iff)
  qed
  then show ?thesis
    using inv bump ins_radio_sets_ok [of "d\<lparr>seq_ptt := seq_ptt d + 1\<rparr>"]
    by (auto simp: CreateRadioSet_def Let_def radio_inv_def split: sum.split)
qed

lemma SetShare_ok:
  assumes "db_ok d"
  shows "db_ok (snd (SetRadioSetShareToken i uid token d))"
  using upd_share_ok [OF assms, of "\<lambda>r. rr_id r = i \<and> rr_user_id r = uid" "Some token" i] assms
  by (auto simp: SetRadioSetShareToken_def Let_def)

lemma ClearShare_ok: "db_ok d \<Longrightarrow> db_ok (ClearRadioSetShareToken i uid d)"
  unfolding ClearRadioSetShareToken_def by (rule upd_share_ok) auto

lemma UpsertTalkgroup_ok:
  assumes "db_ok d"
  shows "db_ok (snd (UpsertTalkgroupSetting s now d))"
proof -
  let ?row = "\<lparr>ts_talkgroup = tg_Talkgroup s, ts_favorite = tg_Favorite s, ts_muted = tg_Muted s,
      ts_transcribe = tg_Transcribe s, ts_updated_at = now\<rparr>"
  have "db_ok (d\<lparr>t_tg_settings := sql_update (\<lambda>r. ts_talkgroup r = tg_Talkgroup s) (\<lambda>r. ?row) (t_tg_settings d)\<rparr>)"
    by (rule upd_tg_settings_ok [OF assms]) simp
  moreover have "db_ok (d\<lparr>t_tg_settings := t_tg_settings d @ [?row]\<rparr>)" if "tg_Talkgroup s \<notin> ts_talkgroup ` set (t_tg_settings d)"
    by (rule set_tg_settings_ok [OF assms]) (use that assms in \<open>simp add: db_ok_uniq\<close>)
  ultimately show ?thesis
    using assms by (simp add: UpsertTalkgroupSetting_def Let_def)
qed

lemma exec_radio_ok: "db_ok d \<Longrightarrow> db_ok (exec_radio x d)"
proof (cases x)
  case (OpCreateSet uid name mode tgs gs i now)
  assume "db_ok d"
  with OpCreateSet show ?thesis
    using ins_radio_sets_ok [of "d\<lparr>seq_ptt := seq_ptt d + 1\<rparr>"]
    by (simp add: CreateRadioSet_def Let_def split: sum.split)
next
  case (OpUpdateSet i uid name mode tgs gs now)
  assume "db_ok d"
  with OpUpdateSet show ?thesis
    by (simp add: UpdateRadioSet_def Let_def upd_radio_sets_ok)
next
  case (OpRecordPTT cid c uid now)
  assume d: "db_ok d"
  with OpRecordPTT show ?thesis
    using ins_ptt_uploads_ok [OF d] by (simp add: RecordPTTUpload_def split: sum.split)
qed (simp_all add: SetRadioSetTalkgroups_def upd_radio_sets_ok DeleteRadioSet_def Let_def del_radio_sets_ok
    DeleteRadioSetByID_def SetShare_ok ClearShare_ok UpsertTalkgroup_ok DeleteTalkgroup_def del_calls_ok del_tg_settings_ok)

lemma exec_radio_ptt: "radio_inv d \<Longrightarrow> ptt_ok (exec_radio x d)"
proof (cases x)
  case (OpCreateSet uid name mode tgs gs i now)
  assume "radio_inv d"
  from CreateRadioSet_inv [OF this] OpCreateSet show ?thesis by (simp add: radio_inv_def)
next
  case (OpRecordPTT cid c uid now)
  assume "radio_inv d"
  with OpRecordPTT show ?thesis
    by (auto simp: RecordPTTUpload_def ins_ptt_uploads_def radio_inv_def intro: ptt_ok_same)
next
  case (OpTalkgroupSetting s now)
  assume "radio_inv d"
  with OpTalkgroupSetting show ?thesis
    by (auto simp: UpsertTalkgroupSetting_def Let_def radio_inv_def intro: ptt_ok_same)
next
  case (OpDeleteTalkgroup g)
  assume "radio_inv d"
  with OpDeleteTalkgroup show ?thesis
    by (auto simp: DeleteTalkgroup_def del_calls_def Let_def radio_inv_def intro: ptt_ok_same)
qed (auto simp: radio_inv_def UpdateRadioSet_def SetRadioSetTalkgroups_def DeleteRadioSet_def DeleteRadioSetByID_def
    SetRadioSetShareToken_def ClearRadioSetShareToken_def Let_def intro!: ptt_ok_update ptt_ok_delete)

interpretation radio: invariant_store radio_inv exec_radio
  by unfold_locales (simp add: radio_inv_def exec_radio_ok exec_radio_ptt)

text \<open>The operations a user issues on their own behalf, and what they leave of other users' sets.\<close>

fun scoped_to :: "string \<Rightarrow> radio_op \<Rightarrow> bool" where
  "scoped_to u (OpCreateSet uid name mode tgs gs i now) = (uid = u)"
| "scoped_to u (OpUpdateSet i uid name mode tgs gs now) = (uid = u)"
| "scoped_to u (OpDeleteSet i uid) = (uid = u)"
| "scoped_to u (OpShareSet i uid tok) = (uid = u)"
| "scoped_to u (OpUnshareSet i uid) = (uid = u)"
| "scoped_to u _ = False"

definition others_sets :: "string \<Rightarrow> db \<Rightarrow> radio_sets_row list" where
  "others_sets u d = filter (\<lambda>r. rr_user_id r \<noteq> u) (t_radio_sets d)"

lemma others_update:
  "(\<And>r. P r \<Longrightarrow> rr_user_id r = u \<and> rr_user_id (f r) = u) \<Longrightarrow>
   filter (\<lambda>r. rr_user_id r \<noteq> u) (sql_update P f rows) = filter (\<lambda>r. rr_user_id r \<noteq> u) rows"
  by (induction rows) (auto simp: sql_update_def)

lemma others_delete:
  "(\<And>r. P r \<Longrightarrow> rr_user_id r = u) \<Longrightarrow>
   filter (\<lambda>r. rr_user_id r \<noteq> u) (sql_delete P rows) = filter (\<lambda>r. rr_user_id r \<noteq> u) rows"
  by (induction rows) (auto simp: sql_delete_def)

lemma scoped_step: "scoped_to u x \<Longrightarrow> others_sets u (exec_radio x d) = others_sets u d"
  by (cases x) (auto simp: others_sets_def CreateRadioSet_def UpdateRadioSet_def DeleteRadioSet_def del_radio_sets_def
      SetRadioSetShareToken_def ClearRadioSetShareToken_def ins_radio_sets_def Let_def
      intro!: others_update others_delete)

lemma scoped_run: "list_all (scoped_to u) ops \<Longrightarrow> others_sets u (run exec_radio ops d) = others_sets u d"
  by (induction ops arbitrary: d) (auto simp: scoped_step)

lemma insort_then:
  assumes "sorted_wrt (\<lambda>x y. k x < k y \<or> k x = k y \<and> Q x y) ys" "\<forall>y \<in> set ys. Q a y"
  shows "sorted_wrt (\<lambda>x y. k x < k y \<or> k x = (k y :: 'b :: linorder) \<and> Q x y) (insort_key k a ys)"
  using assms by (induction ys) (auto simp: set_insort_key)

lemma order_then:
  "sorted_wrt Q xs \<Longrightarrow> sorted_wrt (\<lambda>x y. k x < k y \<or> k x = (k y :: 'b :: linorder) \<and> Q x y) (sort_key k xs)"
  by (induction xs) (auto intro!: insort_then)

lemma first_of_each_keys:
  "set (map k (first_of_each k seen rows)) = set (map k rows) - set seen \<and> distinct (map k (first_of_each k seen rows))"
  by (induction k seen rows rule: first_of_each.induct) auto

lemma first_of_each_spec:
  "sorted_wrt R rows \<Longrightarrow> r \<in> set (first_of_each k seen rows) \<Longrightarrow>
   r \<in> set rows \<and> (\<forall>s \<in> set rows. k s = k r \<longrightarrow> s = r \<or> R r s)"
proof (induction k seen rows rule: first_of_each.induct)
  case (2 k seen a rows)
  show ?case
  proof (cases "k a \<in> set seen \<or> r \<noteq> a")
    case True
    then obtain seen' where mem: "r \<in> set (first_of_each k seen' rows)" "k a \<in> set seen'"
      using 2(4) by (auto split: if_splits)
    have "r \<in> set rows \<and> (\<forall>s \<in> set rows. k s = k r \<longrightarrow> s = r \<or> R r s)"
      using True 2 by (auto split: if_splits)
    moreover have "k r \<noteq> k a"
    proof -
      have "k r \<in> set (map k (first_of_each k seen' rows))" using mem(1) by simp
      with first_of_each_keys [of k seen' rows] mem(2) show ?thesis by fastforce
    qed
    ultimately show ?thesis by auto
  next
    case False
    with 2(3) show ?thesis by auto
  qed
qed simp

section \<open>Properties\<close>

definition example_set_db :: db where
  "example_set_db = exec_radio (OpShareSet ''rs1'' ''usr_5000'' ''tok'')
     (exec_radio (OpCreateSet ''usr_5000'' ''Fire'' '' groups '' [] [''Fire''] ''rs1'' 7) example_call_db)"

lemma example_call_db_radio: "radio_inv example_call_db"
  using example_call_db_ok by (simp add: radio_inv_def ptt_ok_def call_eval uniq_opt_def nonnull_def)

lemma example_set_db_inv: "radio_inv example_set_db"
  unfolding example_set_db_def by (intro radio.step_inv example_call_db_radio)

definition example_set_row :: radio_sets_row where
  "example_set_row = \<lparr>rr_id = ''rs1'', rr_user_id = ''usr_5000'', rr_name = ''Fire'', rr_talkgroups = [], rr_created_at = 7,
     rr_updated_at = 7, rr_share_token = Some ''tok'', rr_ptt_talkgroup = Some 9000001, rr_selection_mode = ''groups'',
     rr_talkgroup_groups = [''Fire'']\<rparr>"

lemma example_set_rows: "t_radio_sets example_set_db = [example_set_row]" "t_calls example_set_db = t_calls example_call_db"
  "t_sources example_set_db = t_sources example_call_db" "t_users example_set_db = t_users example_call_db"
  by (simp_all add: example_set_db_def CreateRadioSet_def SetRadioSetShareToken_def ins_radio_sets_def Let_def call_eval
      normalizeRadioSetSelectionMode_def TrimSpace_def is_space_def int4_def share_token_free_def nonnull_def
      user_exists_def sql_update_def example_set_row_def)

text \<open>
  Over any sequence of radio set, push-to-talk and talkgroup operations every set's push-to-talk
  talkgroup stays its own: no two sets share one, all come from the sequence, and the schema's
  constraints hold.
\<close>

theorem ptt_talkgroups_unique:
  assumes "radio_inv d" "r \<in> set (t_radio_sets (run exec_radio ops d))" "s \<in> set (t_radio_sets (run exec_radio ops d))"
    "rr_ptt_talkgroup r = Some g" "rr_ptt_talkgroup s = Some g"
  shows "r = s \<and> g < seq_ptt (run exec_radio ops d)"
proof -
  have "radio_inv (run exec_radio ops d)" using assms(1) by (rule radio.run_inv)
  then have "uniq_opt rr_ptt_talkgroup (t_radio_sets (run exec_radio ops d))"
      "\<forall>r \<in> set (t_radio_sets (run exec_radio ops d)). \<forall>g. rr_ptt_talkgroup r = Some g \<longrightarrow> g < seq_ptt (run exec_radio ops d)"
    by (simp_all add: radio_inv_def ptt_ok_def below_iff)
  with assms(2-5) show ?thesis using uniq_opt_inj by metis
qed

theorem ptt_talkgroups_unique_witness:
  "example_set_row = example_set_row \<and> 9000001 < seq_ptt (run exec_radio [] example_set_db)"
  by (rule ptt_talkgroups_unique [OF example_set_db_inv]) (simp_all add: example_set_rows example_set_row_def)

text \<open>
  A share token leads to the set it was set on, and to no set after it is cleared: setting a token
  on one's own set makes the public lookup return that set, clearing it makes the lookup fail.
\<close>

theorem share_link_lifecycle:
  assumes "radio_inv d" "GetRadioSet i uid d = Some rs" "SetRadioSetShareToken i uid token d = (Inr (), d')"
  shows "GetRadioSetByShareToken token d' = Some (rs\<lparr>rs_ShareToken := Some token\<rparr>) \<and>
    GetRadioSetByShareToken token (ClearRadioSetShareToken i uid d') = None"
proof -
  let ?P = "\<lambda>r. rr_id r = i \<and> rr_user_id r = uid"
  obtain r where "List.find ?P (t_radio_sets d) = Some r" and rs: "rs = scanRadioSet r"
    using assms(2) by (auto simp: GetRadioSet_def)
  then have r: "r \<in> set (t_radio_sets d)" "?P r" by (auto dest: find_Some_mem)
  have uid: "uniq rr_id (t_radio_sets d)" using assms(1) by (simp add: radio_inv_def db_ok_uniq)
  have only: "s = r" if "s \<in> set (t_radio_sets d)" "?P s" for s
    using uniq_inj [OF uid that(1) r(1)] that(2) r(2) by simp
  have ex: "list_ex ?P (t_radio_sets d)" using r by (auto simp: list_ex_iff)
  then have none: "\<not> list_ex (\<lambda>s. \<not> ?P s \<and> rr_share_token s = Some token) (t_radio_sets d)"
    and d': "d' = d\<lparr>t_radio_sets := sql_update ?P (\<lambda>r. r\<lparr>rr_share_token := Some token\<rparr>) (t_radio_sets d)\<rparr>"
    using assms(3) by (auto simp: SetRadioSetShareToken_def Let_def split: if_splits)
  let ?r = "r\<lparr>rr_share_token := Some token\<rparr>"
  have holders: "rr_share_token s = Some token \<longleftrightarrow> s = ?r" if "s \<in> set (t_radio_sets d')" for s
  proof -
    have "s \<in> (\<lambda>r. if ?P r then r\<lparr>rr_share_token := Some token\<rparr> else r) ` set (t_radio_sets d)"
      using that by (simp add: d' set_sql_update)
    then obtain s0 where s0: "s0 \<in> set (t_radio_sets d)" "s = (if ?P s0 then s0\<lparr>rr_share_token := Some token\<rparr> else s0)"
      by blast
    show ?thesis
    proof (cases "?P s0")
      case True
      with only s0 show ?thesis by simp
    next
      case False
      have "rr_share_token s0 \<noteq> Some token" using none False s0(1) by (auto simp: list_ex_iff)
      moreover have "s0 \<noteq> ?r" using False r(2) by auto
      ultimately show ?thesis using False s0(2) by auto
    qed
  qed
  have mem: "?r \<in> set (t_radio_sets d')" using r by (auto simp: d' set_sql_update)
  have "List.find (\<lambda>s. rr_share_token s = Some token) (t_radio_sets d') \<noteq> None"
  proof
    assume "List.find (\<lambda>s. rr_share_token s = Some token) (t_radio_sets d') = None"
    with mem have "rr_share_token ?r \<noteq> Some token" unfolding find_None_iff by blast
    then show False by simp
  qed
  then have "List.find (\<lambda>s. rr_share_token s = Some token) (t_radio_sets d') = Some ?r"
    using holders find_Some_mem by fastforce
  moreover have "rr_share_token s \<noteq> Some token" if "s \<in> set (t_radio_sets (ClearRadioSetShareToken i uid d'))" for s
    using that holders r(2) by (auto simp: ClearRadioSetShareToken_def set_sql_update split: if_splits)
  then have "List.find (\<lambda>s. rr_share_token s = Some token) (t_radio_sets (ClearRadioSetShareToken i uid d')) = None"
    by (auto simp: find_None_iff)
  ultimately show ?thesis
    by (simp add: GetRadioSetByShareToken_def rs scanRadioSet_def)
qed

theorem share_link_lifecycle_witness:
  "GetRadioSetByShareToken ''new'' (ClearRadioSetShareToken ''rs1'' ''usr_5000''
     (snd (SetRadioSetShareToken ''rs1'' ''usr_5000'' ''new'' example_set_db))) = None"
proof -
  have "SetRadioSetShareToken ''rs1'' ''usr_5000'' ''new'' example_set_db =
      (Inr (), snd (SetRadioSetShareToken ''rs1'' ''usr_5000'' ''new'' example_set_db))"
    by (simp add: SetRadioSetShareToken_def example_set_rows example_set_row_def)
  from share_link_lifecycle [OF example_set_db_inv _ this, of "scanRadioSet example_set_row"] show ?thesis
    by (simp add: GetRadioSet_def example_set_rows example_set_row_def)
qed

text \<open>
  Whatever a user does through the operations scoped to their id (create, update, delete, share,
  unshare), with whatever set ids, the sets of everyone else are unchanged.
\<close>

theorem radio_sets_isolated:
  assumes "list_all (scoped_to u) ops" "uid \<noteq> u"
  shows "ListRadioSets uid (run exec_radio ops d) = ListRadioSets uid d \<and>
    GetRadioSet i uid (run exec_radio ops d) = GetRadioSet i uid d"
proof -
  have own: "filter (\<lambda>r. rr_user_id r = uid) (t_radio_sets e) = filter (\<lambda>r. rr_user_id r = uid) (others_sets u e)" for e
    using assms(2) by (auto simp: others_sets_def intro!: filter_cong)
  have find_filter: "List.find (\<lambda>r. rr_id r = i \<and> rr_user_id r = uid) rows =
      List.find (\<lambda>r. rr_id r = i \<and> rr_user_id r = uid) (filter (\<lambda>r. rr_user_id r \<noteq> u) rows)" for rows
    using assms(2) by (induction rows) auto
  have find: "List.find (\<lambda>r. rr_id r = i \<and> rr_user_id r = uid) (t_radio_sets e) =
      List.find (\<lambda>r. rr_id r = i \<and> rr_user_id r = uid) (others_sets u e)" for e
    using find_filter assms(2) by (simp add: others_sets_def)
  show ?thesis
    by (simp add: ListRadioSets_def GetRadioSet_def own find scoped_run [OF assms(1)])
qed

theorem radio_sets_isolated_witness:
  "ListRadioSets ''usr_5000'' (run exec_radio [OpDeleteSet ''rs1'' ''usr_6000'', OpShareSet ''rs1'' ''usr_6000'' ''x''] example_set_db) =
     ListRadioSets ''usr_5000'' example_set_db"
  using radio_sets_isolated [of "''usr_6000''" "[OpDeleteSet ''rs1'' ''usr_6000'', OpShareSet ''rs1'' ''usr_6000'' ''x'']" "''usr_5000''"]
  by simp

text \<open>
  The talkgroup directory has one entry per visible talkgroup with a positive number, described by
  the labels of its most recent visible call.
\<close>

theorem talkgroup_directory:
  "distinct (map ti_Talkgroup (ListDistinctTalkgroups u all_calls d)) \<and>
   set (map ti_Talkgroup (ListDistinctTalkgroups u all_calls d)) =
     cr_talkgroup ` {r \<in> set (t_calls d). cr_talkgroup r > 0 \<and> (all_calls \<or> tg_visible u d r)} \<and>
   (\<forall>t \<in> set (ListDistinctTalkgroups u all_calls d). \<exists>r \<in> set (t_calls d).
      cr_talkgroup r = ti_Talkgroup t \<and> cr_talkgroup_label r = ti_TalkgroupLabel t \<and>
      cr_talkgroup_group r = ti_TalkgroupGroup t \<and> cr_system_label r = ti_SystemLabel t \<and>
      (\<forall>s \<in> set (t_calls d). cr_talkgroup s = ti_Talkgroup t \<and> (all_calls \<or> tg_visible u d s) \<longrightarrow>
         cr_datetime s \<le> cr_datetime r))"
proof -
  let ?F = "filter (\<lambda>r. cr_talkgroup r > 0 \<and> (all_calls \<or> tg_visible u d r)) (t_calls d)"
  let ?rows = "order_asc cr_talkgroup (order_desc cr_datetime ?F)"
  let ?info = "\<lambda>r. \<lparr>ti_Talkgroup = cr_talkgroup r, ti_TalkgroupLabel = cr_talkgroup_label r,
      ti_TalkgroupGroup = cr_talkgroup_group r, ti_SystemLabel = cr_system_label r\<rparr>"
  have dir: "ListDistinctTalkgroups u all_calls d = map ?info (first_of_each cr_talkgroup [] ?rows)"
    by (simp add: ListDistinctTalkgroups_def)
  have "sorted_wrt (\<lambda>x y. cr_datetime y \<le> cr_datetime x) (order_desc cr_datetime ?F)"
    using sorted_sort_key [of "\<lambda>r. - cr_datetime r" ?F] by (simp add: order_desc_def sorted_map)
  from order_then [OF this]
  have srt: "sorted_wrt (\<lambda>x y. cr_talkgroup x < cr_talkgroup y \<or> cr_talkgroup x = cr_talkgroup y \<and> cr_datetime y \<le> cr_datetime x) ?rows"
    by (simp add: order_asc_def)
  have newest: "r \<in> set ?F \<and> (\<forall>s \<in> set ?F. cr_talkgroup s = cr_talkgroup r \<longrightarrow> cr_datetime s \<le> cr_datetime r)"
    if "r \<in> set (first_of_each cr_talkgroup [] ?rows)" for r
    using first_of_each_spec [OF srt that] by fastforce
  have "\<exists>r \<in> set (t_calls d). cr_talkgroup r = ti_Talkgroup t \<and> cr_talkgroup_label r = ti_TalkgroupLabel t \<and>
      cr_talkgroup_group r = ti_TalkgroupGroup t \<and> cr_system_label r = ti_SystemLabel t \<and>
      (\<forall>s \<in> set (t_calls d). cr_talkgroup s = ti_Talkgroup t \<and> (all_calls \<or> tg_visible u d s) \<longrightarrow>
         cr_datetime s \<le> cr_datetime r)" if t: "t \<in> set (ListDistinctTalkgroups u all_calls d)" for t
  proof -
    from t obtain r where r: "r \<in> set (first_of_each cr_talkgroup [] ?rows)" "t = ?info r" by (auto simp: dir)
    with newest [OF r(1)] show ?thesis by (intro bexI [of _ r]) auto
  qed
  then show ?thesis
    using first_of_each_keys [of cr_talkgroup "[]" ?rows] by (auto simp: dir comp_def)
qed

theorem talkgroup_directory_witness:
  "distinct (map ti_Talkgroup (ListDistinctTalkgroups ''usr_5000'' False example_call_db)) \<and>
   set (map ti_Talkgroup (ListDistinctTalkgroups ''usr_5000'' True example_call_db)) = {7, 8}"
proof -
  have "{r \<in> set (t_calls example_call_db). cr_talkgroup r > 0 \<and> (True \<or> tg_visible ''usr_5000'' example_call_db r)} =
      set (t_calls example_call_db)" by (auto simp: call_eval)
  moreover have "cr_talkgroup ` set (t_calls example_call_db) = {7, 8}" by (auto simp: call_eval)
  ultimately show ?thesis
    using talkgroup_directory [of "''usr_5000''" False example_call_db]
      talkgroup_directory [of "''usr_5000''" True example_call_db] by simp
qed

end
