(* ===== verification/Transcriptions.thy ===== *)
theory Transcriptions
  imports RadioSets
begin

text \<open>
  \<open>server/internal/database/transcriptions.go\<close>: the queue of transcription jobs. A worker leases the newest
  pending job (or one whose lease ran out), then completes, fails or skips it. \<open>FOR UPDATE SKIP LOCKED\<close>
  makes a claim one atomic step, as it is here.
\<close>

section \<open>The code\<close>

record TranscriptionJob =
  tj_CallID :: int
  tj_AudioName :: string
  tj_AudioType :: string
  tj_Duration :: rat
  tj_SystemLabel :: string
  tj_Talkgroup :: int
  tj_TalkgroupLabel :: string
  tj_TalkgroupGroup :: string
  tj_Attempts :: int
  tj_ClaimedUntil :: int

definition new_transcript :: "int \<Rightarrow> string \<Rightarrow> string \<Rightarrow> int \<Rightarrow> transcripts_row" where
  "new_transcript call status message now = \<lparr>ct_call_id = call, ct_status = status, ct_transcript = [], ct_provider = [],
     ct_language = [], ct_confidence = 0, ct_error = message, ct_attempts = 0, ct_claimed_by = [], ct_claimed_until = 0,
     ct_created_at = now, ct_updated_at = now\<rparr>"

definition release :: "string \<Rightarrow> string \<Rightarrow> int \<Rightarrow> transcripts_row \<Rightarrow> transcripts_row" where
  "release status message now t = t\<lparr>ct_status := status, ct_error := message, ct_claimed_by := [],
     ct_claimed_until := 0, ct_updated_at := now\<rparr>"

definition UpsertCallTranscriptStatus :: "int \<Rightarrow> string \<Rightarrow> string \<Rightarrow> int \<Rightarrow> db \<Rightarrow> unit dbres" where
  "UpsertCallTranscriptStatus call status message now d =
     (case ins_transcripts (new_transcript call status message now) d of
        Inr d' \<Rightarrow> (Inr (), d')
      | Inl UniqueViolation \<Rightarrow> (Inr (), d\<lparr>t_transcripts := sql_update (\<lambda>t. ct_call_id t = call)
                                          (release status message now) (t_transcripts d)\<rparr>)
      | Inl err \<Rightarrow> (Inl err, d))"

definition CancelPendingTranscriptionJobs :: "string \<Rightarrow> int \<Rightarrow> db \<Rightarrow> db" where
  "CancelPendingTranscriptionJobs reason now d =
     d\<lparr>t_transcripts := sql_update (\<lambda>t. ct_status t = ''pending'' \<or> ct_status t = ''processing'')
         (release ''skipped'' reason now) (t_transcripts d)\<rparr>"

definition has_transcript :: "db \<Rightarrow> int \<Rightarrow> bool" where
  "has_transcript d call \<longleftrightarrow> call \<in> ct_call_id ` set (t_transcripts d)"

definition EnsureTranscriptionQueueRows :: "int \<Rightarrow> db \<Rightarrow> db" where
  "EnsureTranscriptionQueueRows now d =
     d\<lparr>t_transcripts := t_transcripts d @
         map (\<lambda>c. new_transcript (cr_id c) ''pending'' [] now)
             (filter (\<lambda>c. \<not> has_transcript d (cr_id c)) (t_calls d))\<rparr>"

text \<open>\<open>%.1f\<close> of the minimum, rounded half to even; the code passes a configured positive number.\<close>

definition tenths :: "rat \<Rightarrow> int" where
  "tenths x = (let n = \<lfloor>x * 10\<rfloor>; f = x * 10 - of_int n in
     if f < 1 / 2 \<or> (f = 1 / 2 \<and> even n) then n else n + 1)"

definition shortTranscriptionSkipMessage :: "rat \<Rightarrow> string" where
  "shortTranscriptionSkipMessage m =
     ''audio duration below '' @ format_int (tenths m div 10) @ ''.'' @ format_int (tenths m mod 10) @ ''s minimum''"

definition SkipShortPendingTranscriptionJobs :: "rat \<Rightarrow> int \<Rightarrow> db \<Rightarrow> db" where
  "SkipShortPendingTranscriptionJobs m now d =
     (if m \<le> 0 then d
      else d\<lparr>t_transcripts := sql_update
        (\<lambda>t. ct_status t = ''pending'' \<and>
             list_ex (\<lambda>c. cr_id c = ct_call_id t \<and> cr_duration c > 0 \<and> cr_duration c < m) (t_calls d))
        (release ''skipped'' (shortTranscriptionSkipMessage m) now) (t_transcripts d)\<rparr>)"

definition SkipUnselectedPendingTranscriptionJobs :: "int \<Rightarrow> db \<Rightarrow> db" where
  "SkipUnselectedPendingTranscriptionJobs now d =
     d\<lparr>t_transcripts := sql_update
        (\<lambda>t. (ct_status t = ''pending'' \<or> ct_status t = ''processing'') \<and>
             list_ex (\<lambda>c. cr_id c = ct_call_id t \<and> \<not> ShouldTranscribeTalkgroup (cr_talkgroup c) d) (t_calls d))
        (release ''skipped'' ''talkgroup not enabled for transcription'' now) (t_transcripts d)\<rparr>"

definition claimable :: "int \<Rightarrow> transcripts_row \<Rightarrow> bool" where
  "claimable now t \<longleftrightarrow> ct_status t = ''pending'' \<or> (ct_status t = ''processing'' \<and> ct_claimed_until t < now)"

definition take_lease :: "string \<Rightarrow> int \<Rightarrow> int \<Rightarrow> transcripts_row \<Rightarrow> transcripts_row" where
  "take_lease worker until now t = t\<lparr>ct_status := ''processing'', ct_attempts := ct_attempts t + 1,
     ct_claimed_by := worker, ct_claimed_until := until, ct_error := [], ct_updated_at := now\<rparr>"

definition lease_seconds :: "int \<Rightarrow> int" where
  "lease_seconds s = (if s \<le> 0 then 300 else s)"

text \<open>Without a claimable job the query returns no row, and the rows queued before it stay.\<close>

definition ClaimTranscriptionJob :: "string \<Rightarrow> int \<Rightarrow> int \<Rightarrow> db \<Rightarrow> TranscriptionJob dbres" where
  "ClaimTranscriptionJob worker leaseSeconds now d =
     (let until = now + lease_seconds leaseSeconds; d1 = EnsureTranscriptionQueueRows now d in
      case order_desc ct_call_id (filter (claimable now) (t_transcripts d1)) of
        [] \<Rightarrow> (Inl NoRows, d1)
      | t # _ \<Rightarrow>
          (let d2 = d1\<lparr>t_transcripts := sql_update (\<lambda>x. ct_call_id x = ct_call_id t)
                      (take_lease worker until now) (t_transcripts d1)\<rparr> in
           case find_call (ct_call_id t) d2 of
             None \<Rightarrow> (Inl NoRows, d2)
           | Some c \<Rightarrow> (Inr \<lparr>tj_CallID = cr_id c, tj_AudioName = cr_audio_name c, tj_AudioType = cr_audio_type c,
               tj_Duration = cr_duration c, tj_SystemLabel = cr_system_label c, tj_Talkgroup = cr_talkgroup c,
               tj_TalkgroupLabel = cr_talkgroup_label c, tj_TalkgroupGroup = cr_talkgroup_group c,
               tj_Attempts = ct_attempts t + 1, tj_ClaimedUntil = until\<rparr>, d2)))"

definition require_rows :: "int \<Rightarrow> (transcripts_row \<Rightarrow> transcripts_row) \<Rightarrow> db \<Rightarrow> unit dbres" where
  "require_rows call f d =
     (let d' = d\<lparr>t_transcripts := sql_update (\<lambda>t. ct_call_id t = call) f (t_transcripts d)\<rparr> in
      if has_transcript d call then (Inr (), d') else (Inl NoRows, d'))"

definition CompleteTranscriptionJob :: "int \<Rightarrow> string \<Rightarrow> string \<Rightarrow> string \<Rightarrow> rat \<Rightarrow> int \<Rightarrow> db \<Rightarrow> unit dbres" where
  "CompleteTranscriptionJob call transcript provider language confidence now =
     require_rows call (\<lambda>t. (release ''done'' [] now t)\<lparr>ct_transcript := transcript, ct_provider := provider,
       ct_language := language, ct_confidence := confidence\<rparr>)"

definition FailTranscriptionJob :: "int \<Rightarrow> string \<Rightarrow> int \<Rightarrow> db \<Rightarrow> unit dbres" where
  "FailTranscriptionJob call message now = require_rows call (release ''failed'' message now)"

definition SkipTranscriptionJob :: "int \<Rightarrow> string \<Rightarrow> int \<Rightarrow> db \<Rightarrow> unit dbres" where
  "SkipTranscriptionJob call message now = require_rows call (release ''skipped'' message now)"

definition IsNoTranscriptionJob :: "db_error \<Rightarrow> bool" where
  "IsNoTranscriptionJob err \<longleftrightarrow> err = NoRows"
section \<open>Constraints\<close>

lemma require_rows_ok:
  assumes "db_ok d" "\<And>t. ct_call_id (f t) = ct_call_id t"
  shows "db_ok (snd (require_rows call f d))"
  using upd_transcripts_ok [OF assms(1), of "\<lambda>t. ct_call_id t = call" f] assms(2)
  by (simp add: require_rows_def Let_def)

lemma release_call [simp]: "ct_call_id (release s m now t) = ct_call_id t" "ct_transcript (release s m now t) = ct_transcript t"
  "ct_status (release s m now t) = s" "ct_claimed_until (release s m now t) = 0"
  by (simp_all add: release_def)

lemma take_lease_call [simp]: "ct_call_id (take_lease w u now t) = ct_call_id t"
  "ct_status (take_lease w u now t) = ''processing''" "ct_claimed_until (take_lease w u now t) = u"
  by (simp_all add: take_lease_def)

lemma new_transcript_simps [simp]: "ct_call_id (new_transcript c s m now) = c" "ct_status (new_transcript c s m now) = s"
  by (simp_all add: new_transcript_def)

lemma release_upd_ok: "db_ok d \<Longrightarrow> db_ok (d\<lparr>t_transcripts := sql_update P (release s m now) (t_transcripts d)\<rparr>)"
  by (rule upd_transcripts_ok) simp_all

lemma Ensure_ok:
  assumes "db_ok d"
  shows "db_ok (EnsureTranscriptionQueueRows now d)"
  unfolding EnsureTranscriptionQueueRows_def
proof (rule set_transcripts_ok [OF assms])
  let ?missing = "filter (\<lambda>c. \<not> has_transcript d (cr_id c)) (t_calls d)"
  let ?rows = "t_transcripts d @ map (\<lambda>c. new_transcript (cr_id c) ''pending'' [] now) ?missing"
  have "uniq cr_id ?missing" by (intro uniq_filter db_ok_uniq assms)
  then show "uniq ct_call_id ?rows"
    using db_ok_uniq(12) [OF assms] by (auto simp: uniq_def comp_def has_transcript_def image_iff)
  have "fkey (\<lambda>r. Some (ct_call_id r)) (t_transcripts d) cr_id (t_calls d)"
    using assms by (simp add: db_ok_defs)
  then show "fkey (\<lambda>r. Some (ct_call_id r)) ?rows cr_id (t_calls d)"
    by (auto simp: fkey_iff)
qed

lemma UpsertStatus_ok: "db_ok d \<Longrightarrow> db_ok (snd (UpsertCallTranscriptStatus c s m now d))"
  using ins_transcripts_ok [of d] release_upd_ok [of d]
  by (simp add: UpsertCallTranscriptStatus_def split: sum.split db_error.split)

lemma Ensure_complete: "c \<in> set (t_calls d) \<Longrightarrow> has_transcript (EnsureTranscriptionQueueRows now d) (cr_id c)"
  by (auto simp: has_transcript_def EnsureTranscriptionQueueRows_def image_Un image_image)

text \<open>What a claim does, by its result.\<close>

definition leased_to :: "string \<Rightarrow> int \<Rightarrow> transcripts_row \<Rightarrow> int \<Rightarrow> db \<Rightarrow> db" where
  "leased_to worker leaseSeconds t now d =
     (let d1 = EnsureTranscriptionQueueRows now d in
      d1\<lparr>t_transcripts := sql_update (\<lambda>x. ct_call_id x = ct_call_id t)
           (take_lease worker (now + lease_seconds leaseSeconds) now) (t_transcripts d1)\<rparr>)"

lemma order_desc_hd:
  assumes "order_desc k rows = x # xs"
  shows "x \<in> set rows \<and> (\<forall>y \<in> set rows. k y \<le> k x)"
proof -
  have srt: "sorted (map (\<lambda>r. - k r) (x # xs))" and st: "set (x # xs) = set rows"
    unfolding assms [symmetric] by (simp_all add: order_desc_def)
  have "k y \<le> k x" if "y \<in> set (x # xs)" for y
    using srt that by (auto simp: sorted_wrt.simps)
  with st show ?thesis by auto
qed

lemma Claim_cases:
  assumes "db_ok d"
  obtains (Empty) "ClaimTranscriptionJob w s now d = (Inl NoRows, EnsureTranscriptionQueueRows now d)"
      "\<forall>x \<in> set (t_transcripts (EnsureTranscriptionQueueRows now d)). \<not> claimable now x"
    | (Job) t c where "t \<in> set (t_transcripts (EnsureTranscriptionQueueRows now d))" "claimable now t"
      "\<forall>x \<in> set (t_transcripts (EnsureTranscriptionQueueRows now d)). claimable now x \<longrightarrow> ct_call_id x \<le> ct_call_id t"
      "find_call (ct_call_id t) d = Some c" "cr_id c = ct_call_id t"
      "ClaimTranscriptionJob w s now d = (Inr \<lparr>tj_CallID = cr_id c, tj_AudioName = cr_audio_name c, tj_AudioType = cr_audio_type c,
               tj_Duration = cr_duration c, tj_SystemLabel = cr_system_label c, tj_Talkgroup = cr_talkgroup c,
               tj_TalkgroupLabel = cr_talkgroup_label c, tj_TalkgroupGroup = cr_talkgroup_group c,
               tj_Attempts = ct_attempts t + 1, tj_ClaimedUntil = now + lease_seconds s\<rparr>, leased_to w s t now d)"
proof (cases "order_desc ct_call_id (filter (claimable now) (t_transcripts (EnsureTranscriptionQueueRows now d)))")
  case Nil
  then have "filter (claimable now) (t_transcripts (EnsureTranscriptionQueueRows now d)) = []"
    by (metis length_0_conv length_order(2))
  then show ?thesis
    using Nil by (intro Empty) (auto simp: ClaimTranscriptionJob_def filter_empty_conv)
next
  case (Cons t ts)
  let ?d1 = "EnsureTranscriptionQueueRows now d"
  note hd = order_desc_hd [OF Cons]
  then have t: "t \<in> set (t_transcripts ?d1)" "claimable now t" by auto
  have "fkey (\<lambda>r. Some (ct_call_id r)) (t_transcripts ?d1) cr_id (t_calls ?d1)"
    using Ensure_ok [OF assms] by (simp add: db_ok_defs)
  with t have "ct_call_id t \<in> cr_id ` set (t_calls d)"
    by (auto simp: fkey_iff EnsureTranscriptionQueueRows_def)
  then obtain c0 where c0: "c0 \<in> set (t_calls d)" "cr_id c0 = ct_call_id t" by auto
  have c: "find_call (ct_call_id t) d = Some c0"
    using find_uniq [OF db_ok_uniq(10) [OF assms] c0(1)] by (simp add: find_call_def c0(2))
  then have c': "find_call (ct_call_id t) (leased_to w s t now d) = Some c0"
    by (simp add: find_call_def leased_to_def Let_def EnsureTranscriptionQueueRows_def)
  show ?thesis
  proof (rule Job [OF t _ c c0(2)])
    show "\<forall>x \<in> set (t_transcripts ?d1). claimable now x \<longrightarrow> ct_call_id x \<le> ct_call_id t" using hd by auto
  qed (use Cons c' in \<open>simp add: ClaimTranscriptionJob_def Let_def leased_to_def\<close>)
qed

definition claim_id :: "int \<Rightarrow> int \<Rightarrow> string \<Rightarrow> db \<Rightarrow> int option \<times> db" where
  "claim_id s now w d = (case ClaimTranscriptionJob w s now d of
     (Inr job, d') \<Rightarrow> (Some (tj_CallID job), d') | (Inl _, d') \<Rightarrow> (None, d'))"

definition leased :: "int \<Rightarrow> int \<Rightarrow> db \<Rightarrow> bool" where
  "leased j t d \<longleftrightarrow> list_ex (\<lambda>x. ct_call_id x = j \<and> ct_status x = ''processing'' \<and> t \<le> ct_claimed_until x) (t_transcripts d)"

lemma leased_to_ok: "db_ok d \<Longrightarrow> db_ok (leased_to w s t now d)"
  unfolding leased_to_def Let_def by (intro upd_transcripts_ok Ensure_ok) simp_all

lemma pending_processing [simp]: "''pending'' \<noteq> ''processing''"
  by simp

lemma leased_Ensure [simp]: "leased j t (EnsureTranscriptionQueueRows now d) = leased j t d"
  by (auto simp: leased_def EnsureTranscriptionQueueRows_def list_ex_iff)

lemma leased_not_claimable:
  assumes "db_ok d" "leased j t d" "x \<in> set (t_transcripts d)" "ct_call_id x = j" "now \<le> t"
  shows "\<not> claimable now x"
proof -
  obtain y where y: "y \<in> set (t_transcripts d)" "ct_call_id y = j" "ct_status y = ''processing''" "t \<le> ct_claimed_until y"
    using assms(2) by (auto simp: leased_def list_ex_iff)
  have "x = y" using uniq_inj [OF db_ok_uniq(12) [OF assms(1)] assms(3) y(1)] assms(4) y(2) by simp
  with y assms(5) show ?thesis by (simp add: claimable_def)
qed

lemma leased_after:
  assumes "x \<in> set (t_transcripts (EnsureTranscriptionQueueRows now d))" "t \<le> now + lease_seconds s"
  shows "leased (ct_call_id x) t (leased_to w s x now d)"
proof -
  have "take_lease w (now + lease_seconds s) now x \<in> set (t_transcripts (leased_to w s x now d))"
    using assms(1) by (auto simp: leased_to_def Let_def set_sql_update)
  then show ?thesis
    unfolding leased_def list_ex_iff
    by (rule rev_bexI) (use assms(2) in simp)
qed

interpretation jobs: lease_queue db_ok "claim_id s" leased "lease_seconds s" for s
proof
  fix now w d assume d: "db_ok d"
  show "db_ok (snd (claim_id s now w d))"
    using Ensure_ok [OF d] leased_to_ok [OF d]
    by (cases rule: Claim_cases [OF d, of w s now]) (simp_all add: claim_id_def)
next
  fix now w d j assume d: "db_ok d" and j: "fst (claim_id s now w d) = Some j"
  show "\<not> leased j now d"
  proof (cases rule: Claim_cases [OF d, of w s now])
    case 1
    with j show ?thesis by (simp add: claim_id_def)
  next
    case (2 t c)
    with j have jt: "ct_call_id t = j" by (simp add: claim_id_def)
    show ?thesis
      using leased_not_claimable [OF Ensure_ok [OF d] _ 2(1) jt] 2(2) by auto
  qed
next
  fix now w d j t assume d: "db_ok d" and j: "fst (claim_id s now w d) = Some j" and t: "now \<le> t" "t \<le> now + lease_seconds s"
  show "leased j t (snd (claim_id s now w d))"
  proof (cases rule: Claim_cases [OF d, of w s now])
    case 1
    with j show ?thesis by (simp add: claim_id_def)
  next
    case (2 x c)
    with j have jt: "ct_call_id x = j" "snd (claim_id s now w d) = leased_to w s x now d" by (simp_all add: claim_id_def)
    with leased_after [OF 2(1) t(2)] show ?thesis by simp
  qed
next
  fix d j t now w assume d: "db_ok d" and l: "leased j t d" and t: "now \<le> t"
  show "leased j t (snd (claim_id s now w d))"
  proof (cases rule: Claim_cases [OF d, of w s now])
    case 1
    with l show ?thesis by (simp add: claim_id_def)
  next
    case (2 x c)
    have "ct_call_id x \<noteq> j"
      using leased_not_claimable [OF Ensure_ok [OF d] _ 2(1) _ t] l 2(2) by auto
    moreover have "leased j t (EnsureTranscriptionQueueRows now d)" using l by simp
    ultimately show ?thesis
      using 2(6) by (force simp: claim_id_def leased_to_def Let_def leased_def list_ex_iff set_sql_update)
  qed
next
  fix j t d t' assume "leased j t d" "t' \<le> t"
  then show "leased j t' d" by (force simp: leased_def list_ex_iff)
qed

section \<open>Properties\<close>

text \<open>
  Property C21. While leases run no job is handed out twice: claims by any workers, in any number, whose times
  lie within one lease of each other all return different calls.
\<close>

theorem transcription_leases_exclusive:
  assumes "db_ok d" "list_all (\<lambda>c. t0 \<le> fst c \<and> fst c \<le> t0 + lease_seconds s) cs" "sorted (map fst cs)"
  shows "distinct (claims (claim_id s) cs d)"
  using assms by (rule jobs.claims_distinct)

theorem transcription_leases_exclusive_witness:
  "distinct (claims (claim_id 0) [(100, ''w1''), (100, ''w2''), (399, ''w1'')] example_call_db)"
  by (rule transcription_leases_exclusive [OF example_call_db_ok, of 100]) (simp_all add: lease_seconds_def)

definition wants_work :: "int \<Rightarrow> db \<Rightarrow> int \<Rightarrow> bool" where
  "wants_work now d i \<longleftrightarrow> i \<in> cr_id ` set (t_calls d) \<and>
     (case find_transcript i d of None \<Rightarrow> True | Some t \<Rightarrow> claimable now t)"

lemma wants_work_iff:
  assumes "db_ok d"
  shows "wants_work now d i \<longleftrightarrow> (\<exists>t \<in> set (t_transcripts (EnsureTranscriptionQueueRows now d)). ct_call_id t = i \<and> claimable now t)"
proof
  assume w: "wants_work now d i"
  show "\<exists>t \<in> set (t_transcripts (EnsureTranscriptionQueueRows now d)). ct_call_id t = i \<and> claimable now t"
  proof (cases "find_transcript i d")
    case None
    then have "\<not> has_transcript d i"
      by (auto simp: find_transcript_def find_None_iff has_transcript_def)
    moreover obtain c where "c \<in> set (t_calls d)" "i = cr_id c" using w by (auto simp: wants_work_def)
    ultimately have "new_transcript i ''pending'' [] now \<in> set (t_transcripts (EnsureTranscriptionQueueRows now d))"
      by (auto simp: EnsureTranscriptionQueueRows_def)
    then show ?thesis by (rule rev_bexI) (simp add: claimable_def)
  next
    case (Some t)
    then have "t \<in> set (t_transcripts d)" "ct_call_id t = i" by (auto simp: find_transcript_def dest: find_Some_mem)
    with w Some show ?thesis
      by (auto simp: wants_work_def EnsureTranscriptionQueueRows_def)
  qed
next
  assume "\<exists>t \<in> set (t_transcripts (EnsureTranscriptionQueueRows now d)). ct_call_id t = i \<and> claimable now t"
  then obtain t where t: "t \<in> set (t_transcripts (EnsureTranscriptionQueueRows now d))" "ct_call_id t = i" "claimable now t"
    by blast
  have "fkey (\<lambda>r. Some (ct_call_id r)) (t_transcripts (EnsureTranscriptionQueueRows now d)) cr_id (t_calls (EnsureTranscriptionQueueRows now d))"
    using Ensure_ok [OF assms] by (simp add: db_ok_defs)
  with t have call: "i \<in> cr_id ` set (t_calls d)" by (auto simp: fkey_iff EnsureTranscriptionQueueRows_def)
  show "wants_work now d i"
  proof (cases "find_transcript i d")
    case None
    with call show ?thesis by (simp add: wants_work_def)
  next
    case (Some x)
    then have x: "x \<in> set (t_transcripts (EnsureTranscriptionQueueRows now d))" "ct_call_id x = i"
      by (auto simp: find_transcript_def EnsureTranscriptionQueueRows_def dest: find_Some_mem)
    have "x = t"
      using uniq_inj [OF db_ok_uniq(12) [OF Ensure_ok [OF assms]] x(1) t(1)] x(2) t(2) by simp
    with Some call t(3) show ?thesis by (simp add: wants_work_def)
  qed
qed

text \<open>
  A claim finds work exactly when some call has no queue entry yet, or a pending one, or one whose
  lease has run out; it hands out the newest such call, under a lease of the requested length (300 seconds
  when none is given), with the call's own data.
\<close>

theorem claim_takes_newest:
  assumes "db_ok d"
  shows "case ClaimTranscriptionJob w s now d of
      (Inl err, d') \<Rightarrow> IsNoTranscriptionJob err \<and> (\<forall>i \<in> cr_id ` set (t_calls d). \<not> wants_work now d i)
    | (Inr job, d') \<Rightarrow> wants_work now d (tj_CallID job) \<and> (\<forall>i. wants_work now d i \<longrightarrow> i \<le> tj_CallID job) \<and>
        (\<exists>c. find_call (tj_CallID job) d = Some c \<and> tj_Duration job = cr_duration c \<and> tj_Talkgroup job = cr_talkgroup c) \<and>
        tj_ClaimedUntil job = now + (if s \<le> 0 then 300 else s) \<and> leased (tj_CallID job) (tj_ClaimedUntil job) d'"
proof (cases rule: Claim_cases [OF assms, of w s now])
  case 1
  then show ?thesis by (auto simp: wants_work_iff [OF assms] IsNoTranscriptionJob_def)
next
  case (2 t c)
  have "wants_work now d (ct_call_id t)" using 2(1,2) by (auto simp: wants_work_iff [OF assms])
  moreover have "\<forall>i. wants_work now d i \<longrightarrow> i \<le> ct_call_id t" using 2(3) by (auto simp: wants_work_iff [OF assms])
  moreover have "leased (ct_call_id t) (now + lease_seconds s) (leased_to w s t now d)"
    by (rule leased_after [OF 2(1)]) simp
  ultimately show ?thesis using 2 by (simp add: lease_seconds_def)
qed

theorem claim_takes_newest_witness:
  "\<exists>job d'. ClaimTranscriptionJob ''w'' 0 100 example_call_db = (Inr job, d') \<and> tj_CallID job = 3 \<and> tj_ClaimedUntil job = 400"
proof -
  have w: "wants_work 100 example_call_db 3"
    by (simp add: wants_work_def find_transcript_def call_eval)
  note newest = claim_takes_newest [OF example_call_db_ok, where w = "''w''" and s = 0 and now = 100]
  have calls: "cr_id ` set (t_calls example_call_db) = {1, 2, 3}" by (auto simp: call_eval)
  obtain r d' where res: "ClaimTranscriptionJob ''w'' 0 100 example_call_db = (r, d')" by force
  show ?thesis
  proof (cases r)
    case (Inl err)
    with newest res w calls show ?thesis by auto
  next
    case (Inr job)
    with newest res w have "3 \<le> tj_CallID job" "tj_CallID job \<in> {1, 2, 3}" "tj_ClaimedUntil job = 400"
      using calls by (auto simp: wants_work_def)
    with res Inr show ?thesis by auto
  qed
qed

text \<open>
  Housekeeping never touches a finished job: cancelling, skipping short calls, skipping unselected
  talkgroups and queueing new calls leave every row that is done or failed as it is.
\<close>

theorem housekeeping_keeps_results:
  assumes "t \<in> set (t_transcripts d)" "ct_status t = ''done'' \<or> ct_status t = ''failed''"
  shows "t \<in> set (t_transcripts (CancelPendingTranscriptionJobs reason now d)) \<and>
    t \<in> set (t_transcripts (SkipShortPendingTranscriptionJobs m now d)) \<and>
    t \<in> set (t_transcripts (SkipUnselectedPendingTranscriptionJobs now d)) \<and>
    t \<in> set (t_transcripts (EnsureTranscriptionQueueRows now d))"
proof -
  have keep: "t \<in> set (sql_update P f (t_transcripts d))" if "\<not> P t" for P f
    using that assms(1) by (force simp: set_sql_update)
  show ?thesis
    using assms(1) keep assms(2)
    by (auto simp: CancelPendingTranscriptionJobs_def SkipShortPendingTranscriptionJobs_def
        SkipUnselectedPendingTranscriptionJobs_def EnsureTranscriptionQueueRows_def intro!: keep)
qed

theorem housekeeping_keeps_results_witness:
  "new_transcript 1 ''done'' [] 5 \<in> set (t_transcripts (CancelPendingTranscriptionJobs ''off'' 9
     (example_call_db\<lparr>t_transcripts := [new_transcript 1 ''done'' [] 5, new_transcript 2 ''pending'' [] 5]\<rparr>)))"
  using housekeeping_keeps_results [of "new_transcript 1 ''done'' [] 5"
      "example_call_db\<lparr>t_transcripts := [new_transcript 1 ''done'' [] 5, new_transcript 2 ''pending'' [] 5]\<rparr>" "''off''" 9]
  by simp

text \<open>
  A report is not checked against the lease it was made under: whoever reports a failure for a call
  that has been transcribed turns the finished job into a failed one; the text stays behind under that status.
\<close>

theorem late_failure_overwrites_done:
  assumes "db_ok d" "find_transcript call d = Some t" "ct_status t = ''done''"
  shows "\<exists>d' t'. FailTranscriptionJob call message now d = (Inr (), d') \<and> find_transcript call d' = Some t' \<and>
    ct_status t' = ''failed'' \<and> ct_transcript t' = ct_transcript t \<and> db_ok d'"
proof -
  have t: "t \<in> set (t_transcripts d)" "ct_call_id t = call"
    using assms(2) by (auto simp: find_transcript_def dest: find_Some_mem)
  have "db_ok (snd (FailTranscriptionJob call message now d))"
    unfolding FailTranscriptionJob_def by (rule require_rows_ok [OF assms(1)]) simp
  with t assms(2) show ?thesis
    by (auto simp: FailTranscriptionJob_def require_rows_def Let_def has_transcript_def find_transcript_def find_sql_update_key)
qed

theorem late_failure_overwrites_done_witness:
  "\<exists>d' t'. FailTranscriptionJob 1 ''timeout'' 9 (example_call_db\<lparr>t_transcripts := [new_transcript 1 ''done'' [] 5]\<rparr>) = (Inr (), d') \<and>
     find_transcript 1 d' = Some t' \<and> ct_status t' = ''failed''"
proof -
  have "db_ok (example_call_db\<lparr>t_transcripts := [new_transcript 1 ''done'' [] 5]\<rparr>)"
    by (rule set_transcripts_ok [OF example_call_db_ok]) (simp_all add: uniq_def fkey_iff call_eval)
  from late_failure_overwrites_done [OF this, of 1 "new_transcript 1 ''done'' [] 5" "''timeout''" 9] show ?thesis
    by (auto simp: find_transcript_def)
qed

end
