(* ===== verification/Hubs.thy ===== *)
theory Hubs
  imports Calls
begin

text \<open>
  \<open>server/internal/database/hub_identity.go\<close>: the identity of this hub (one row), the invites that let a
  peer hub join, the known peers, and the removal of what was imported from a peer. \<open>HubIdentity\<close> and
  \<open>HubPeer\<close> of \<open>types.go\<close> have the columns of their tables, so the rows stand for them. New ids and
  tokens are arguments.
\<close>

section \<open>Identity\<close>

type_synonym HubIdentity = hub_identity_row
type_synonym HubPeer = hub_peers_row

definition GetHubIdentity :: "db \<Rightarrow> HubIdentity option" where
  "GetHubIdentity d = t_hub_identity d"

definition prepare_identity :: "HubIdentity \<Rightarrow> string \<Rightarrow> int \<Rightarrow> HubIdentity" where
  "prepare_identity h0 fresh now =
     (let h1 = (if hd_hub_id h0 = [] then h0\<lparr>hd_hub_id := fresh\<rparr> else h0);
          h2 = (if hd_directory_validation_status h1 = [] then h1\<lparr>hd_directory_validation_status := ''unverified''\<rparr> else h1);
          h3 = (if hd_trust_level h2 = [] then h2\<lparr>hd_trust_level := ''community''\<rparr> else h2)
      in if hd_trust_verified_at h3 = 0 \<and> (hd_trust_level h3 = ''verified'' \<or> hd_trust_level h3 = ''official'')
         then h3\<lparr>hd_trust_verified_at := now\<rparr> else h3)"

text \<open>The columns the insert does not name take their defaults.\<close>

definition inserted_identity :: "HubIdentity \<Rightarrow> int \<Rightarrow> HubIdentity" where
  "inserted_identity h now = h\<lparr>hd_incident_management_enabled := False, hd_incident_handler_hub_id := [],
     hd_incident_auto_suggest := True, hd_incident_auto_open := False, hd_incident_watch_areas := [''OK''],
     hd_incident_watch_point_lat := 355067 / 10000, hd_incident_watch_point_lon := - 977625 / 10000,
     hd_incident_watch_radius_km := 200, hd_created_at := now, hd_updated_at := now\<rparr>"

definition merged_identity :: "HubIdentity \<Rightarrow> int \<Rightarrow> HubIdentity \<Rightarrow> HubIdentity" where
  "merged_identity h now old = old\<lparr>hd_name := hd_name h, hd_public_url := hd_public_url h, hd_region := hd_region h,
     hd_contact := hd_contact h,
     hd_public_key := (if hd_public_key h = [] then hd_public_key old else hd_public_key h),
     hd_private_key := (if hd_private_key h = [] then hd_private_key old else hd_private_key h),
     hd_federation_enabled := hd_federation_enabled h,
     hd_directory_validation_status := hd_directory_validation_status h, hd_trust_level := hd_trust_level h,
     hd_trust_issuer_hub_id := hd_trust_issuer_hub_id h, hd_trust_certificate := hd_trust_certificate h,
     hd_trust_expires_at := hd_trust_expires_at h, hd_trust_verified_at := hd_trust_verified_at h,
     hd_incident_system_labels := hd_incident_system_labels h, hd_updated_at := now\<rparr>"

definition UpsertHubIdentity :: "HubIdentity \<Rightarrow> string \<Rightarrow> int \<Rightarrow> db \<Rightarrow> HubIdentity \<times> db" where
  "UpsertHubIdentity identity fresh now d =
     (let h = prepare_identity identity fresh now;
          r = (case t_hub_identity d of None \<Rightarrow> inserted_identity h now | Some old \<Rightarrow> merged_identity h now old)
      in (r, d\<lparr>t_hub_identity := Some r\<rparr>))"

definition update_identity :: "(HubIdentity \<Rightarrow> HubIdentity) \<Rightarrow> db \<Rightarrow> HubIdentity dbres" where
  "update_identity f d =
     (case t_hub_identity d of None \<Rightarrow> (Inl NoRows, d) | Some h \<Rightarrow> (Inr (f h), d\<lparr>t_hub_identity := Some (f h)\<rparr>))"

definition SetHubIdentityKeyPair :: "string \<Rightarrow> string \<Rightarrow> int \<Rightarrow> db \<Rightarrow> HubIdentity dbres" where
  "SetHubIdentityKeyPair pub priv now =
     update_identity (\<lambda>h. h\<lparr>hd_public_key := pub, hd_private_key := priv, hd_updated_at := now\<rparr>)"

text \<open>\<open>incidents.go\<close> holds the update of the incident settings on the same row.\<close>

definition UpdateHubIncidentSettings :: "HubIdentity \<Rightarrow> int \<Rightarrow> db \<Rightarrow> HubIdentity dbres" where
  "UpdateHubIncidentSettings s now = update_identity (\<lambda>h. h\<lparr>
     hd_incident_management_enabled := hd_incident_management_enabled s,
     hd_incident_handler_hub_id := TrimSpace (hd_incident_handler_hub_id s),
     hd_incident_auto_suggest := hd_incident_auto_suggest s, hd_incident_auto_open := hd_incident_auto_open s,
     hd_incident_watch_areas := hd_incident_watch_areas s,
     hd_incident_watch_point_lat := hd_incident_watch_point_lat s,
     hd_incident_watch_point_lon := hd_incident_watch_point_lon s,
     hd_incident_watch_radius_km := hd_incident_watch_radius_km s,
     hd_incident_system_labels := hd_incident_system_labels s, hd_updated_at := now\<rparr>)"

section \<open>Invites\<close>

record HubInvite =
  nv_ID :: string
  nv_Token :: string
  nv_CreatedByUserID :: string
  nv_ExpiresAt :: int
  nv_UsedAt :: int
  nv_RevokedAt :: int
  nv_CreatedAt :: int

definition scan_invite :: "hub_invites_row \<Rightarrow> HubInvite" where
  "scan_invite r = \<lparr>nv_ID = hi_id r, nv_Token = hi_token r, nv_CreatedByUserID = coalesce (hi_created_by_user_id r),
     nv_ExpiresAt = hi_expires_at r, nv_UsedAt = hi_used_at r, nv_RevokedAt = hi_revoked_at r,
     nv_CreatedAt = hi_created_at r\<rparr>"

definition CreateHubInvite :: "string \<Rightarrow> int \<Rightarrow> string \<Rightarrow> string \<Rightarrow> int \<Rightarrow> db \<Rightarrow> HubInvite dbres" where
  "CreateHubInvite uid expires i token now d =
     (let r = \<lparr>hi_id = i, hi_token = token, hi_created_by_user_id = nullableString uid, hi_expires_at = expires,
               hi_used_at = 0, hi_revoked_at = 0, hi_created_at = now\<rparr>
      in case ins_hub_invites r d of Inl err \<Rightarrow> (Inl err, d) | Inr d' \<Rightarrow> (Inr (scan_invite r), d'))"

definition ListHubInvites :: "db \<Rightarrow> HubInvite list" where
  "ListHubInvites d = map scan_invite (limit 100 (order_desc hi_created_at (t_hub_invites d)))"

definition RevokeHubInvite :: "string \<Rightarrow> int \<Rightarrow> db \<Rightarrow> HubInvite option \<times> db" where
  "RevokeHubInvite i now d =
     (let P = (\<lambda>r. hi_id r = i \<and> hi_revoked_at r = 0); f = (\<lambda>r. r\<lparr>hi_revoked_at := now\<rparr>) in
      case List.find P (t_hub_invites d) of
        None \<Rightarrow> (None, d)
      | Some r \<Rightarrow> (Some (scan_invite (f r)), d\<lparr>t_hub_invites := sql_update P f (t_hub_invites d)\<rparr>))"

definition find_invite :: "string \<Rightarrow> db \<Rightarrow> hub_invites_row option" where
  "find_invite token d = List.find (\<lambda>r. hi_token r = token) (t_hub_invites d)"

text \<open>
  A redemption is two statements: it reads the invite and checks it, then claims it with an update
  that checks again. The second statement alone decides.
\<close>

definition check_invite :: "int \<Rightarrow> HubInvite \<Rightarrow> string option" where
  "check_invite now v = (if nv_RevokedAt v > 0 then Some ''invite revoked''
     else if nv_UsedAt v > 0 then Some ''invite already used''
     else if nv_ExpiresAt v \<le> now then Some ''invite expired'' else None)"

definition claimable_invite :: "string \<Rightarrow> int \<Rightarrow> hub_invites_row \<Rightarrow> bool" where
  "claimable_invite token now r \<longleftrightarrow>
     hi_token r = token \<and> hi_used_at r = 0 \<and> hi_revoked_at r = 0 \<and> hi_expires_at r > now"

definition claim_invite :: "string \<Rightarrow> int \<Rightarrow> db \<Rightarrow> HubInvite option \<times> db" where
  "claim_invite token now d =
     (let f = (\<lambda>r. r\<lparr>hi_used_at := now\<rparr>) in
      case List.find (claimable_invite token now) (t_hub_invites d) of
        None \<Rightarrow> (None, d)
      | Some r \<Rightarrow> (Some (scan_invite (f r)),
          d\<lparr>t_hub_invites := sql_update (claimable_invite token now) f (t_hub_invites d)\<rparr>))"

definition RedeemHubInvite :: "string \<Rightarrow> int \<Rightarrow> db \<Rightarrow> (HubInvite option \<times> bool \<times> string) \<times> db" where
  "RedeemHubInvite token now d =
     (case find_invite token d of
        None \<Rightarrow> ((None, False, ''invalid invite''), d)
      | Some r \<Rightarrow> (case check_invite now (scan_invite r) of
          Some reason \<Rightarrow> ((Some (scan_invite r), False, reason), d)
        | None \<Rightarrow> (case claim_invite token now d of
            (None, d') \<Rightarrow> ((None, False, ''invite already used''), d')
          | (Some v, d') \<Rightarrow> ((Some v, True, []), d'))))"

section \<open>Peers\<close>

definition prepare_peer :: "HubPeer \<Rightarrow> string \<Rightarrow> int \<Rightarrow> HubPeer" where
  "prepare_peer p fresh now = p\<lparr>
     hp_id := (if hp_id p = [] then fresh else hp_id p),
     hp_status := (if hp_status p = [] then ''connected'' else hp_status p),
     hp_direction := (if hp_direction p = [] then ''outbound'' else hp_direction p),
     hp_accepted_at := (if hp_accepted_at p = 0 then now else hp_accepted_at p),
     hp_last_seen_at := now, hp_created_at := now, hp_updated_at := now\<rparr>"

definition merged_peer :: "HubPeer \<Rightarrow> HubPeer \<Rightarrow> HubPeer" where
  "merged_peer p old = old\<lparr>hp_name := hp_name p, hp_public_url := hp_public_url p, hp_region := hp_region p,
     hp_contact := hp_contact p, hp_status := hp_status p, hp_direction := hp_direction p,
     hp_accepted_at := (if hp_accepted_at old = 0 then hp_accepted_at p else hp_accepted_at old),
     hp_last_seen_at := hp_last_seen_at p, hp_updated_at := hp_updated_at p\<rparr>"

definition UpsertHubPeer :: "HubPeer \<Rightarrow> string \<Rightarrow> int \<Rightarrow> db \<Rightarrow> HubPeer dbres" where
  "UpsertHubPeer peer fresh now d =
     (let p = prepare_peer peer fresh now in
      case List.find (\<lambda>r. hp_hub_id r = hp_hub_id p) (t_hub_peers d) of
        Some old \<Rightarrow> (Inr (merged_peer p old), d\<lparr>t_hub_peers :=
            sql_update (\<lambda>r. hp_hub_id r = hp_hub_id p) (merged_peer p) (t_hub_peers d)\<rparr>)
      | None \<Rightarrow> (case ins_hub_peers p d of Inl err \<Rightarrow> (Inl err, d) | Inr d' \<Rightarrow> (Inr p, d')))"

definition ListHubPeers :: "db \<Rightarrow> HubPeer list" where
  "ListHubPeers d = limit 100 (order_desc hp_updated_at (t_hub_peers d))"

definition set_peer_status :: "string \<Rightarrow> string \<Rightarrow> int \<Rightarrow> db \<Rightarrow> HubPeer option \<times> db" where
  "set_peer_status status i now d =
     (let f = (\<lambda>r. r\<lparr>hp_status := status, hp_updated_at := now\<rparr>) in
      (map_option f (List.find (\<lambda>r. hp_id r = i) (t_hub_peers d)),
       d\<lparr>t_hub_peers := sql_update (\<lambda>r. hp_id r = i) f (t_hub_peers d)\<rparr>))"

definition DisableHubPeer :: "string \<Rightarrow> int \<Rightarrow> db \<Rightarrow> HubPeer option \<times> db" where
  "DisableHubPeer = set_peer_status ''disabled''"

definition EnableHubPeer :: "string \<Rightarrow> int \<Rightarrow> db \<Rightarrow> HubPeer option \<times> db" where
  "EnableHubPeer = set_peer_status ''connected''"

definition DeleteHubPeer :: "string \<Rightarrow> db \<Rightarrow> HubPeer option \<times> db" where
  "DeleteHubPeer i d = (List.find (\<lambda>r. hp_id r = i) (t_hub_peers d),
     d\<lparr>t_hub_peers := sql_delete (\<lambda>r. hp_id r = i) (t_hub_peers d)\<rparr>)"

section \<open>Removing what came from a peer\<close>

definition clean_char :: "char \<Rightarrow> string" where
  "clean_char c = (if c = CHR '':'' \<or> c = CHR ''/'' \<or> c = CHR '' '' then ''_'' else [c])"

definition clean_id :: "string \<Rightarrow> string" where
  "clean_id s = replace_chars clean_char (TrimSpace s)"

definition escapeSQLLike :: "string \<Rightarrow> string" where
  "escapeSQLLike = replace_chars (\<lambda>c. if c = backslash \<or> c = CHR ''%'' \<or> c = CHR ''_'' then [backslash, c] else [c])"

definition federatedPeerSourceLikePattern :: "string \<Rightarrow> string" where
  "federatedPeerSourceLikePattern peer = ''remote_'' @ escapeSQLLike (clean_id peer) @ ''_%''"

definition from_pattern :: "string \<Rightarrow> calls_row \<Rightarrow> bool" where
  "from_pattern p r \<longleftrightarrow> (case cr_source_id r of None \<Rightarrow> False | Some i \<Rightarrow> sql_like p i)"

definition doomed :: "string \<Rightarrow> db \<Rightarrow> int list" where
  "doomed p d = map cr_id (limit 1000 (filter (from_pattern p) (t_calls d)))"

lemma doomed_Nil: "doomed p d = [] \<longleftrightarrow> filter (from_pattern p) (t_calls d) = []"
  by (simp add: doomed_def limit_def)

lemma doomed_decreases:
  assumes "doomed p d \<noteq> []"
  shows "length (filter (from_pattern p) (t_calls (del_calls (\<lambda>r. cr_id r \<in> set (doomed p d)) d)))
       < length (filter (from_pattern p) (t_calls d))"
proof -
  obtain r rs where f: "filter (from_pattern p) (t_calls d) = r # rs"
    using assms doomed_Nil [of p d] by (cases "filter (from_pattern p) (t_calls d)") auto
  then have r: "r \<in> set (filter (from_pattern p) (t_calls d))" "cr_id r \<in> set (doomed p d)"
    by (simp_all add: doomed_def limit_def)
  have "length (filter (\<lambda>x. cr_id x \<notin> set (doomed p d)) (filter (from_pattern p) (t_calls d)))
      < length (filter (from_pattern p) (t_calls d))"
    using r by (intro length_filter_less) auto
  then show ?thesis
    by (simp add: del_calls_def Let_def sql_delete_def conj_commute)
qed

function delete_batches :: "string \<Rightarrow> db \<Rightarrow> int \<times> db" where
  "delete_batches p d =
     (if doomed p d = [] then (0, d)
      else (let P = (\<lambda>r. cr_id r \<in> set (doomed p d)); (n, d') = delete_batches p (del_calls P d) in
            (int (sql_count P (t_calls d)) + n, d')))"
  by pat_completeness auto

termination
  by (relation "measure (\<lambda>(p, d). length (filter (from_pattern p) (t_calls d)))") (auto simp: doomed_decreases)

declare delete_batches.simps [simp del]

record FederatedPeerImportDeleteStats =
  ds_CallsDeleted :: int
  ds_SourcesDeleted :: int
  ds_ImportsDeleted :: int

text \<open>No transaction: what was deleted before an error stays deleted.\<close>

definition DeleteFederatedPeerImports ::
  "string \<Rightarrow> db \<Rightarrow> (FederatedPeerImportDeleteStats \<times> db_error option) \<times> db" where
  "DeleteFederatedPeerImports peer d =
     (let Q = (\<lambda>r. fi_peer_hub_id r = peer); imports = int (sql_count Q (t_imports d));
          d1 = d\<lparr>t_imports := sql_delete Q (t_imports d)\<rparr>; p = federatedPeerSourceLikePattern peer;
          (calls, d2) = delete_batches p d1; S = (\<lambda>s. sql_like p (sr_id s)) in
      case del_sources S d2 of
        Inl err \<Rightarrow> ((\<lparr>ds_CallsDeleted = calls, ds_SourcesDeleted = 0, ds_ImportsDeleted = imports\<rparr>, Some err), d2)
      | Inr d3 \<Rightarrow> ((\<lparr>ds_CallsDeleted = calls, ds_SourcesDeleted = int (sql_count S (t_sources d2)),
                     ds_ImportsDeleted = imports\<rparr>, None), d3))"

section \<open>Every operation keeps the schema\<close>

lemma update_identity_ok: "db_ok d \<Longrightarrow> db_ok (snd (update_identity f d))"
  by (simp add: update_identity_def split: option.splits)

lemma UpsertHubPeer_ok: "db_ok d \<Longrightarrow> db_ok (snd (UpsertHubPeer p fresh now d))"
  by (auto simp: UpsertHubPeer_def Let_def merged_peer_def intro: ins_hub_peers_ok upd_hub_peers_ok
      split: option.splits sum.splits)

lemma CreateHubInvite_ok: "db_ok d \<Longrightarrow> db_ok (snd (CreateHubInvite uid ex i token now d))"
  by (auto simp: CreateHubInvite_def Let_def intro: ins_hub_invites_ok split: sum.splits)

lemma RevokeHubInvite_ok: "db_ok d \<Longrightarrow> db_ok (snd (RevokeHubInvite i now d))"
  by (auto simp: RevokeHubInvite_def Let_def intro: upd_hub_invites_ok split: option.splits)

lemma claim_invite_ok: "db_ok d \<Longrightarrow> db_ok (snd (claim_invite token now d))"
  by (auto simp: claim_invite_def Let_def intro: upd_hub_invites_ok split: option.splits)

lemma RedeemHubInvite_ok: "db_ok d \<Longrightarrow> db_ok (snd (RedeemHubInvite token now d))"
  using claim_invite_ok [of d token now]
  by (auto simp: RedeemHubInvite_def split: option.splits prod.splits)

lemma set_peer_status_ok: "db_ok d \<Longrightarrow> db_ok (snd (set_peer_status st i now d))"
  by (auto simp: set_peer_status_def Let_def intro: upd_hub_peers_ok)

lemma delete_batches_ok: "db_ok d \<Longrightarrow> db_ok (snd (delete_batches p d))"
proof (induction p d rule: delete_batches.induct)
  case (1 p d)
  then show ?case
    by (subst delete_batches.simps) (simp add: Let_def case_prod_beta del_calls_ok)
qed

lemma DeleteFederatedPeerImports_ok: "db_ok d \<Longrightarrow> db_ok (snd (DeleteFederatedPeerImports peer d))"
proof -
  assume "db_ok d"
  then have "db_ok (d\<lparr>t_imports := sql_delete (\<lambda>r. fi_peer_hub_id r = peer) (t_imports d)\<rparr>)"
    by (rule del_imports_ok)
  from delete_batches_ok [OF this] show ?thesis
    by (auto simp: DeleteFederatedPeerImports_def Let_def case_prod_beta intro: del_sources_ok split: sum.splits)
qed

datatype hub_op =
    HUpsertIdentity HubIdentity string int
  | HSetKeyPair string string int
  | HSettings HubIdentity int
  | HCreateInvite string int string string int
  | HRevokeInvite string int
  | HRedeem string int
  | HUpsertPeer HubPeer string int
  | HDisable string int
  | HEnable string int
  | HDeletePeer string
  | HDeleteImports string

fun exec_hub :: "hub_op \<Rightarrow> db \<Rightarrow> db" where
  "exec_hub (HUpsertIdentity h fresh now) d = snd (UpsertHubIdentity h fresh now d)"
| "exec_hub (HSetKeyPair pub priv now) d = snd (SetHubIdentityKeyPair pub priv now d)"
| "exec_hub (HSettings s now) d = snd (UpdateHubIncidentSettings s now d)"
| "exec_hub (HCreateInvite uid ex i token now) d = snd (CreateHubInvite uid ex i token now d)"
| "exec_hub (HRevokeInvite i now) d = snd (RevokeHubInvite i now d)"
| "exec_hub (HRedeem token now) d = snd (RedeemHubInvite token now d)"
| "exec_hub (HUpsertPeer p fresh now) d = snd (UpsertHubPeer p fresh now d)"
| "exec_hub (HDisable i now) d = snd (DisableHubPeer i now d)"
| "exec_hub (HEnable i now) d = snd (EnableHubPeer i now d)"
| "exec_hub (HDeletePeer i) d = snd (DeleteHubPeer i d)"
| "exec_hub (HDeleteImports peer) d = snd (DeleteFederatedPeerImports peer d)"

lemmas hub_oks = update_identity_ok UpsertHubPeer_ok CreateHubInvite_ok RevokeHubInvite_ok
  RedeemHubInvite_ok set_peer_status_ok DeleteFederatedPeerImports_ok del_hub_peers_ok

lemma exec_hub_ok: "db_ok d \<Longrightarrow> db_ok (exec_hub x d)"
  by (cases x) (simp_all add: hub_oks UpsertHubIdentity_def SetHubIdentityKeyPair_def
      UpdateHubIncidentSettings_def DisableHubPeer_def EnableHubPeer_def DeleteHubPeer_def Let_def)

interpretation hubs: invariant_store db_ok exec_hub
  by unfold_locales (rule exec_hub_ok)

section \<open>The identity of the hub never changes\<close>

lemma delete_batches_other [simp]:
  "t_hub_identity (snd (delete_batches p d)) = t_hub_identity d \<and>
   t_hub_invites (snd (delete_batches p d)) = t_hub_invites d \<and>
   t_sources (snd (delete_batches p d)) = t_sources d"
proof (induction p d rule: delete_batches.induct)
  case (1 p d)
  show ?case
    using 1 by (subst (1 2 3) delete_batches.simps) (auto simp: Let_def case_prod_beta del_calls_def)
qed

lemma DeleteFederatedPeerImports_other:
  "t_hub_identity (snd (DeleteFederatedPeerImports peer d)) = t_hub_identity d \<and>
   t_hub_invites (snd (DeleteFederatedPeerImports peer d)) = t_hub_invites d"
  by (auto simp: DeleteFederatedPeerImports_def Let_def case_prod_beta del_sources_def split: sum.splits if_splits)

lemma invite_ops_other:
  "t_hub_identity (snd (RevokeHubInvite i now d)) = t_hub_identity d"
  "t_hub_identity (snd (claim_invite token now d)) = t_hub_identity d"
  "t_hub_identity (snd (CreateHubInvite uid ex i token now d)) = t_hub_identity d"
  by (auto simp: RevokeHubInvite_def claim_invite_def CreateHubInvite_def ins_hub_invites_def Let_def
      split: option.splits sum.splits if_splits)

lemma Redeem_identity: "t_hub_identity (snd (RedeemHubInvite token now d)) = t_hub_identity d"
  using invite_ops_other(2) [of token now d] by (auto simp: RedeemHubInvite_def split: option.splits prod.splits)

lemma peer_ops_other:
  "t_hub_identity (snd (UpsertHubPeer p fresh now d)) = t_hub_identity d"
  "t_hub_identity (snd (set_peer_status st i now d)) = t_hub_identity d"
  "t_hub_identity (snd (DeleteHubPeer i d)) = t_hub_identity d"
  "t_hub_invites (snd (UpsertHubPeer p fresh now d)) = t_hub_invites d"
  "t_hub_invites (snd (set_peer_status st i now d)) = t_hub_invites d"
  "t_hub_invites (snd (DeleteHubPeer i d)) = t_hub_invites d"
  by (auto simp: UpsertHubPeer_def set_peer_status_def DeleteHubPeer_def ins_hub_peers_def Let_def
      split: option.splits sum.splits if_splits)

lemma identity_ops_invites:
  "t_hub_invites (snd (update_identity f d)) = t_hub_invites d"
  "t_hub_invites (snd (UpsertHubIdentity h fresh now d)) = t_hub_invites d"
  by (auto simp: update_identity_def UpsertHubIdentity_def Let_def split: option.splits)

text \<open>What no operation changes of an identity once it exists, and how a key pair can change.\<close>

definition same_hub :: "HubIdentity \<Rightarrow> HubIdentity \<Rightarrow> bool" where
  "same_hub h h' \<longleftrightarrow> hd_hub_id h' = hd_hub_id h \<and> hd_created_at h' = hd_created_at h"

lemma exec_hub_identity:
  assumes "t_hub_identity d = Some h"
  shows "\<exists>h'. t_hub_identity (exec_hub x d) = Some h' \<and> same_hub h h'"
  using assms
  by (cases x) (simp_all add: same_hub_def UpsertHubIdentity_def SetHubIdentityKeyPair_def update_identity_def
      UpdateHubIncidentSettings_def merged_identity_def DisableHubPeer_def EnableHubPeer_def Let_def
      DeleteFederatedPeerImports_other invite_ops_other Redeem_identity peer_ops_other)

lemma run_hub_identity:
  "t_hub_identity d = Some h \<Longrightarrow> \<exists>h'. t_hub_identity (run exec_hub ops d) = Some h' \<and> same_hub h h'"
proof (induction ops arbitrary: d h)
  case (Cons x ops)
  obtain h1 where h1: "t_hub_identity (exec_hub x d) = Some h1" "same_hub h h1"
    using exec_hub_identity [OF Cons.prems] by blast
  from Cons.IH [OF h1(1)] h1(2) show ?case by (auto simp: same_hub_def)
qed (simp add: same_hub_def)


section \<open>An invite admits one peer\<close>

lemma scan_invite_simps [simp]:
  "nv_ID (scan_invite r) = hi_id r" "nv_Token (scan_invite r) = hi_token r"
  "nv_ExpiresAt (scan_invite r) = hi_expires_at r" "nv_UsedAt (scan_invite r) = hi_used_at r"
  "nv_RevokedAt (scan_invite r) = hi_revoked_at r"
  by (simp_all add: scan_invite_def)

lemma find_invite_uniq:
  "db_ok d \<Longrightarrow> r \<in> set (t_hub_invites d) \<Longrightarrow> find_invite (hi_token r) d = Some r"
  unfolding find_invite_def by (rule find_uniq) (auto simp: db_ok_uniq)

lemma claim_invite_some:
  assumes "claim_invite token now d = (Some v, d')"
  obtains r where "r \<in> set (t_hub_invites d)" "claimable_invite token now r" "v = scan_invite (r\<lparr>hi_used_at := now\<rparr>)"
    "t_hub_invites d' = sql_update (claimable_invite token now) (\<lambda>r. r\<lparr>hi_used_at := now\<rparr>) (t_hub_invites d)"
  using assms by (auto simp: claim_invite_def Let_def dest: find_Some_mem split: option.splits)

lemma claim_invite_none: "claim_invite token now d = (None, d') \<Longrightarrow>
    d' = d \<and> (\<forall>r \<in> set (t_hub_invites d). \<not> claimable_invite token now r)"
  by (auto simp: claim_invite_def Let_def find_None_iff split: option.splits)

lemma Redeem_eq_claim:
  assumes "db_ok d"
  shows "snd (RedeemHubInvite token now d) = snd (claim_invite token now d) \<and>
    fst (snd (fst (RedeemHubInvite token now d))) = (fst (claim_invite token now d) \<noteq> None)"
proof (cases "fst (claim_invite token now d)")
  case None
  then have "snd (claim_invite token now d) = d"
    by (metis claim_invite_none prod.collapse)
  with None show ?thesis
    by (auto simp: RedeemHubInvite_def split: option.splits prod.splits)
next
  case (Some v)
  then obtain d' where c: "claim_invite token now d = (Some v, d')" by (metis prod.collapse)
  then obtain r where r: "r \<in> set (t_hub_invites d)" "claimable_invite token now r"
    by (rule claim_invite_some)
  then have "find_invite token d = Some r" "check_invite now (scan_invite r) = None"
    using find_invite_uniq [OF assms r(1)] by (auto simp: claimable_invite_def check_invite_def)
  with c show ?thesis by (simp add: RedeemHubInvite_def)
qed

lemma redeem_iff:
  assumes "db_ok d" "RedeemHubInvite token now d = ((v, ok, reason), d')"
  shows "ok = list_ex (claimable_invite token now) (t_hub_invites d) \<and> (ok \<or> d' = d)"
proof (cases "claim_invite token now d")
  case (Pair c d'')
  have eq: "d' = d''" "ok = (c \<noteq> None)"
    using Redeem_eq_claim [OF assms(1), of token now] assms(2) Pair by auto
  show ?thesis
  proof (cases c)
    case None
    then show ?thesis using eq claim_invite_none [of token now d d''] Pair by (auto simp: list_ex_iff)
  next
    case (Some v')
    then obtain r where "r \<in> set (t_hub_invites d)" "claimable_invite token now r"
      using Pair claim_invite_some by metis
    with eq Some show ?thesis by (auto simp: list_ex_iff)
  qed
qed

text \<open>A used invite keeps its row and its mark.\<close>

definition spent :: "string \<Rightarrow> db \<Rightarrow> bool" where
  "spent token d \<longleftrightarrow> list_ex (\<lambda>r. hi_token r = token \<and> hi_used_at r > 0) (t_hub_invites d)"

lemma spent_update:
  assumes "spent token d" "\<And>r. P r \<Longrightarrow> hi_token (f r) = hi_token r \<and> (hi_used_at r > 0 \<longrightarrow> hi_used_at (f r) > 0)"
  shows "spent token (d\<lparr>t_hub_invites := sql_update P f (t_hub_invites d)\<rparr>)"
proof -
  obtain r where r: "r \<in> set (t_hub_invites d)" "hi_token r = token" "hi_used_at r > 0"
    using assms(1) by (auto simp: spent_def list_ex_iff)
  then have "hi_token (if P r then f r else r) = token" "hi_used_at (if P r then f r else r) > 0"
    using assms(2) by auto
  with r(1) show ?thesis by (force simp: spent_def list_ex_iff set_sql_update)
qed

lemma spent_frame: "t_hub_invites d' = t_hub_invites d \<Longrightarrow> spent token d' = spent token d"
  by (simp add: spent_def)

lemma spent_claim: "spent k d \<Longrightarrow> spent k (snd (claim_invite token now d))"
  by (auto simp: claim_invite_def Let_def claimable_invite_def intro!: spent_update split: option.splits)

lemma spent_redeem: "spent k d \<Longrightarrow> spent k (snd (RedeemHubInvite token now d))"
  using spent_claim [of k d token now] by (auto simp: RedeemHubInvite_def split: option.splits prod.splits)

lemma spent_revoke: "spent k d \<Longrightarrow> spent k (snd (RevokeHubInvite i now d))"
  by (auto simp: RevokeHubInvite_def Let_def intro!: spent_update split: option.splits)

lemma spent_create: "spent k d \<Longrightarrow> spent k (snd (CreateHubInvite uid ex i token now d))"
  by (auto simp: CreateHubInvite_def Let_def ins_hub_invites_def spent_def split: sum.splits if_splits)

lemma exec_hub_spent: "spent k d \<Longrightarrow> spent k (exec_hub x d)"
  by (cases x) (simp add: spent_redeem spent_revoke spent_create; fail | simp add: spent_def identity_ops_invites
      peer_ops_other DeleteFederatedPeerImports_other SetHubIdentityKeyPair_def UpdateHubIncidentSettings_def
      DisableHubPeer_def EnableHubPeer_def; fail)+

lemma claim_spends:
  assumes "db_ok d" "claim_invite token now d = (Some v, d')" "now > 0"
  shows "\<not> spent token d \<and> spent token d'"
  using assms(2)
proof (rule claim_invite_some)
  fix r assume r: "r \<in> set (t_hub_invites d)" "claimable_invite token now r"
    "t_hub_invites d' = sql_update (claimable_invite token now) (\<lambda>r. r\<lparr>hi_used_at := now\<rparr>) (t_hub_invites d)"
  have "hi_used_at r' = 0" if "r' \<in> set (t_hub_invites d)" "hi_token r' = token" for r'
    using that r uniq_inj [OF db_ok_uniq(7) [OF assms(1)] that(1) r(1)] by (simp add: claimable_invite_def)
  then have "\<not> spent token d"
    by (auto simp: spent_def list_ex_iff)
  moreover have "r\<lparr>hi_used_at := now\<rparr> \<in> set (t_hub_invites d')"
    using r by (force simp: set_sql_update)
  then have "spent token d'"
    using r(2) assms(3) by (auto simp: spent_def list_ex_iff claimable_invite_def intro!: bexI [where x="r\<lparr>hi_used_at := now\<rparr>"])
  ultimately show ?thesis ..
qed

text \<open>
  Peers that redeem at the same time: each reads and checks the invite in one statement and claims it in a later one;
  between the two anything else may run, other peers' statements and all operations of the hub.
\<close>

datatype phase = Idle | Checked string | Admitted string | Refused

inductive race :: "(nat \<Rightarrow> phase) \<times> db \<Rightarrow> (nat \<Rightarrow> phase) \<times> db \<Rightarrow> bool" where
  race_check: "ph i = Idle \<Longrightarrow> find_invite token d = Some r \<Longrightarrow> check_invite now (scan_invite r) = None \<Longrightarrow>
     race (ph, d) (ph(i := Checked token), d)"
| race_refuse: "ph i = Idle \<Longrightarrow> find_invite token d = None \<or>
       (\<exists>r reason. find_invite token d = Some r \<and> check_invite now (scan_invite r) = Some reason) \<Longrightarrow>
     race (ph, d) (ph(i := Refused), d)"
| race_admit: "ph i = Checked token \<Longrightarrow> now > 0 \<Longrightarrow> claim_invite token now d = (Some v, d') \<Longrightarrow>
     race (ph, d) (ph(i := Admitted token), d')"
| race_late: "ph i = Checked token \<Longrightarrow> claim_invite token now d = (None, d') \<Longrightarrow>
     race (ph, d) (ph(i := Refused), d')"
| race_other: "race (ph, d) (ph, exec_hub x d)"

inductive_cases raceE: "race (ph, d) c"

definition race_inv :: "(nat \<Rightarrow> phase) \<times> db \<Rightarrow> bool" where
  "race_inv c \<longleftrightarrow> db_ok (snd c) \<and> (\<forall>i token. fst c i = Admitted token \<longrightarrow> spent token (snd c)) \<and>
     (\<forall>i j token. fst c i = Admitted token \<longrightarrow> fst c j = Admitted token \<longrightarrow> i = j)"

lemma race_inv_step:
  assumes "race c c'" "race_inv c"
  shows "race_inv c'"
  using assms
proof (induction rule: race.induct)
  case (race_admit ph i token now d v d')
  have "db_ok d" using race_admit.prems by (simp add: race_inv_def)
  then have ok: "db_ok d'" and sp: "\<not> spent token d" "spent token d'"
    using claim_invite_ok [of d token now] claim_spends [OF _ race_admit(3,2)] race_admit(3) by auto
  moreover have "spent k d'" if "spent k d" for k
    using spent_claim [OF that, of token now] race_admit(3) by simp
  ultimately show ?case
    using race_admit.prems by (auto simp: race_inv_def)
next
  case (race_late ph i token now d d')
  then show ?case using claim_invite_none [OF race_late(2)] by (auto simp: race_inv_def)
next
  case (race_other ph d x)
  then show ?case using exec_hub_ok exec_hub_spent by (auto simp: race_inv_def)
qed (auto simp: race_inv_def)

lemma race_inv_run: "race\<^sup>*\<^sup>* c c' \<Longrightarrow> race_inv c \<Longrightarrow> race_inv c'"
  by (induction rule: rtranclp_induct) (auto intro: race_inv_step)


section \<open>What the removal matches\<close>

lemma escape_Cons: "escapeSQLLike (c # s) =
    (if c = backslash \<or> c = CHR ''%'' \<or> c = CHR ''_'' then [backslash, c] else [c]) @ escapeSQLLike s"
  by (simp add: escapeSQLLike_def replace_chars_def)

lemma escape_Nil [simp]: "escapeSQLLike [] = []"
  by (simp add: escapeSQLLike_def replace_chars_def)

lemma sql_like_escape1: "sql_like ((if c = backslash \<or> c = CHR ''%'' \<or> c = CHR ''_'' then [backslash, c] else [c]) @ p) t
    \<longleftrightarrow> (\<exists>u. t = c # u \<and> sql_like p u)"
proof (cases "plain_char c")
  case True
  then have "\<not> (c = backslash \<or> c = CHR ''%'' \<or> c = CHR ''_'')" unfolding plain_char_def by blast
  then show ?thesis
    unfolding if_not_P [OF \<open>\<not> (c = backslash \<or> c = CHR ''%'' \<or> c = CHR ''_'')\<close>]
    using sql_like_plain [OF True, of p t] by (cases t) auto
next
  case False
  then have "c = backslash \<or> c = CHR ''%'' \<or> c = CHR ''_''" unfolding plain_char_def by blast
  then show ?thesis
    unfolding if_P [OF \<open>c = backslash \<or> c = CHR ''%'' \<or> c = CHR ''_''\<close>]
    using sql_like_escaped [of c p t] by (cases t) auto
qed

lemma sql_like_escape: "sql_like (escapeSQLLike s @ p) t \<longleftrightarrow> (\<exists>u. t = s @ u \<and> sql_like p u)"
proof (induction s arbitrary: t)
  case (Cons c s)
  show ?case
    unfolding escape_Cons append_assoc sql_like_escape1 Cons.IH by auto
qed simp

lemma sql_like_some_more: "sql_like ''_%'' t \<longleftrightarrow> t \<noteq> []"
  by (cases t) simp_all

lemma peer_pattern_iff:
  "sql_like (federatedPeerSourceLikePattern peer) i \<longleftrightarrow>
     (\<exists>c e rest. i = ''remote'' @ c # clean_id peer @ e # rest)"
proof -
  have "list_all plain_char ''remote''" by (simp add: plain_char_def backslash_def)
  then have "sql_like (federatedPeerSourceLikePattern peer) i \<longleftrightarrow>
      (\<exists>t. i = ''remote'' @ t \<and> sql_like (CHR ''_'' # escapeSQLLike (clean_id peer) @ ''_%'') t)"
    using sql_like_plain_prefix [of "''remote''" "CHR ''_'' # escapeSQLLike (clean_id peer) @ ''_%''" i]
    by (simp add: federatedPeerSourceLikePattern_def)
  moreover have "sql_like (CHR ''_'' # escapeSQLLike (clean_id peer) @ ''_%'') t \<longleftrightarrow>
      (\<exists>c e rest. t = c # clean_id peer @ e # rest)" for t
  proof -
    obtain q qs where q: "escapeSQLLike (clean_id peer) @ ''_%'' = q # qs"
      by (cases "escapeSQLLike (clean_id peer) @ ''_%''") auto
    have "sql_like (CHR ''_'' # q # qs) t \<longleftrightarrow> (\<exists>c u. t = c # u \<and> sql_like (q # qs) u)"
      by (cases t) simp_all
    then show ?thesis
      by (simp only: q [symmetric] sql_like_escape sql_like_some_more) (auto simp: neq_Nil_conv)
  qed
  ultimately show ?thesis by auto
qed

lemma delete_batches_calls:
  "t_calls (snd (delete_batches p d)) = filter (\<lambda>r. \<not> from_pattern p r) (t_calls d)"
  if "uniq cr_id (t_calls d)"
  using that
proof (induction p d rule: delete_batches.induct)
  case (1 p d)
  let ?P = "\<lambda>r. cr_id r \<in> set (doomed p d)"
  show ?case
  proof (cases "doomed p d = []")
    case True
    then show ?thesis
      using doomed_Nil [of p d] by (subst delete_batches.simps) (simp add: filter_empty_conv)
  next
    case False
    have calls: "t_calls (del_calls ?P d) = sql_delete ?P (t_calls d)"
      by (simp add: del_calls_def Let_def)
    have "from_pattern p r" if r: "r \<in> set (t_calls d)" "?P r" for r
    proof -
      obtain r' where "r' \<in> set (t_calls d)" "from_pattern p r'" "cr_id r' = cr_id r"
        using r(2) by (auto simp: doomed_def limit_def dest!: in_set_takeD)
      with uniq_inj [OF 1(2) this(1) r(1)] show ?thesis by simp
    qed
    then have "filter (\<lambda>r. \<not> from_pattern p r) (sql_delete ?P (t_calls d)) = filter (\<lambda>r. \<not> from_pattern p r) (t_calls d)"
      by (auto simp: sql_delete_def filter_filter intro!: filter_cong)
    moreover have "uniq cr_id (t_calls (del_calls ?P d))"
      using 1(2) by (simp add: calls)
    ultimately show ?thesis
      using 1(1) [OF False] False by (subst delete_batches.simps) (simp add: Let_def case_prod_beta calls)
  qed
qed

lemma delete_batches_count:
  "fst (delete_batches p d) + int (length (t_calls (snd (delete_batches p d)))) = int (length (t_calls d))"
proof (induction p d rule: delete_batches.induct)
  case (1 p d)
  let ?P = "\<lambda>r. cr_id r \<in> set (doomed p d)"
  have "int (sql_count ?P (t_calls d)) + int (length (t_calls (del_calls ?P d))) = int (length (t_calls d))"
    using sum_length_filter_compl [of ?P "t_calls d"]
    by (simp add: sql_count_def sql_delete_def del_calls_def Let_def flip: of_nat_add)
  with 1 show ?case
    by (subst (1 2) delete_batches.simps) (auto simp: Let_def case_prod_beta)
qed

lemma delete_batches_imports:
  "set (t_imports (snd (delete_batches p d))) \<subseteq> set (t_imports d)"
  "t_keys (snd (delete_batches p d)) = t_keys d"
proof (induction p d rule: delete_batches.induct)
  case (1 p d)
  { case 1 show ?case
      using "1.IH"(1) by (subst delete_batches.simps) (auto simp: Let_def case_prod_beta del_calls_def) }
  { case 2 show ?case
      using "1.IH"(2) by (subst delete_batches.simps) (auto simp: Let_def case_prod_beta del_calls_def) }
qed


section \<open>Properties\<close>

definition example_hub_db :: db where
  "example_hub_db = run exec_hub [HCreateInvite [] 100 ''inv1'' ''tok'' 5] (empty_db False)"

lemma example_hub_db_ok: "db_ok example_hub_db"
  unfolding example_hub_db_def by (rule hubs.run_inv) simp

lemma example_hub_db_eq: "example_hub_db = (empty_db False)\<lparr>t_hub_invites := [\<lparr>hi_id = ''inv1'', hi_token = ''tok'',
    hi_created_by_user_id = None, hi_expires_at = 100, hi_used_at = 0, hi_revoked_at = 0, hi_created_at = 5\<rparr>]\<rparr>"
  by (simp add: example_hub_db_def CreateHubInvite_def Let_def ins_hub_invites_def nullableString_def empty_db_def
      user_ref_ok_def)

text \<open>
  Property C30. However the redemptions of an invite by several peers interleave, with each other and with
  every other operation of the hub, an invite token admits at most one of them.
\<close>

theorem invite_admits_one:
  assumes "db_ok d" "race\<^sup>*\<^sup>* (\<lambda>_. Idle, d) (ph, d')" "ph i = Admitted token" "ph j = Admitted token"
  shows "i = j"
  using race_inv_run [OF assms(2)] assms by (auto simp: race_inv_def)

theorem invite_admits_one_witness:
  "\<exists>ph d'. race\<^sup>*\<^sup>* (\<lambda>_. Idle, example_hub_db) (ph, d') \<and> ph 1 = Refused \<and> (\<forall>j. (ph j = Admitted ''tok'') = (j = 0))"
proof -
  let ?ph1 = "(\<lambda>_. Idle)(0 := Checked ''tok'')" and ?ph2 = "(\<lambda>_. Idle)(0 := Checked ''tok'', 1 := Checked ''tok'')"
  obtain r where r: "find_invite ''tok'' example_hub_db = Some r" "check_invite 9 (scan_invite r) = None"
    by (simp add: example_hub_db_eq find_invite_def check_invite_def)
  obtain v d1 where c: "claim_invite ''tok'' 10 example_hub_db = (Some v, d1)" "claim_invite ''tok'' 11 d1 = (None, d1)"
    by (simp add: example_hub_db_eq claim_invite_def claimable_invite_def sql_update_def)
  have "race (\<lambda>_. Idle, example_hub_db) (?ph1, example_hub_db)" using race_check [OF _ r] by simp
  moreover have "race (?ph1, example_hub_db) (?ph2, example_hub_db)" using race_check [OF _ r, of ?ph1 1] by simp
  moreover have "race (?ph2, example_hub_db) (?ph2(0 := Admitted ''tok''), d1)"
    using race_admit [OF _ _ c(1), of ?ph2 0] by simp
  moreover have "race (?ph2(0 := Admitted ''tok''), d1) (?ph2(0 := Admitted ''tok'', 1 := Refused), d1)"
    using race_late [OF _ c(2), of "?ph2(0 := Admitted ''tok'')" 1] by simp
  ultimately have run: "race\<^sup>*\<^sup>* (\<lambda>_. Idle, example_hub_db) (?ph2(0 := Admitted ''tok'', 1 := Refused), d1)"
    by (meson converse_rtranclp_into_rtranclp rtranclp.rtrancl_refl)
  have "((?ph2(0 := Admitted ''tok'', 1 := Refused)) j = Admitted ''tok'') = (j = 0)" for j :: nat
    using invite_admits_one [OF example_hub_db_ok run, of j "''tok''" 0] by fastforce
  with run show ?thesis by (intro exI conjI) (assumption, simp, blast)
qed

text \<open>
  A redemption succeeds exactly when some unused, unrevoked, unexpired invite has the token: the
  check before the claim only chooses the message, and a redemption that fails changes nothing.
\<close>

theorem redeem_invite_iff:
  assumes "db_ok d" "RedeemHubInvite token now d = ((v, ok, reason), d')"
  shows "ok = list_ex (claimable_invite token now) (t_hub_invites d) \<and> (ok \<or> d' = d)"
  using assms by (rule redeem_iff)

theorem redeem_invite_iff_witness:
  "\<exists>v d'. RedeemHubInvite ''tok'' 10 example_hub_db = ((Some v, True, []), d') \<and>
     list_ex (claimable_invite ''tok'' 10) (t_hub_invites example_hub_db)"
proof -
  obtain v d' where r: "RedeemHubInvite ''tok'' 10 example_hub_db = ((Some v, True, []), d')"
    by (simp add: example_hub_db_eq RedeemHubInvite_def find_invite_def check_invite_def claim_invite_def claimable_invite_def)
  with redeem_invite_iff [OF example_hub_db_ok r] show ?thesis by auto
qed

definition sets_keys :: "hub_op \<Rightarrow> bool" where
  "sets_keys x \<longleftrightarrow> (case x of HSetKeyPair pub priv _ \<Rightarrow> pub \<noteq> [] \<and> priv \<noteq> [] | _ \<Rightarrow> True)"

definition has_keys :: "HubIdentity \<Rightarrow> bool" where
  "has_keys h \<longleftrightarrow> hd_public_key h \<noteq> [] \<and> hd_private_key h \<noteq> []"

lemma exec_hub_keys:
  assumes "t_hub_identity d = Some h" "has_keys h" "sets_keys x" "t_hub_identity (exec_hub x d) = Some h'"
  shows "has_keys h'"
  using assms
  by (cases x) (auto simp: has_keys_def sets_keys_def UpsertHubIdentity_def SetHubIdentityKeyPair_def
      update_identity_def UpdateHubIncidentSettings_def merged_identity_def DisableHubPeer_def EnableHubPeer_def
      Let_def DeleteFederatedPeerImports_other invite_ops_other Redeem_identity peer_ops_other split: if_splits)

lemma run_hub_keys:
  "t_hub_identity d = Some h \<Longrightarrow> has_keys h \<Longrightarrow> list_all sets_keys ops \<Longrightarrow>
   t_hub_identity (run exec_hub ops d) = Some h' \<Longrightarrow> has_keys h'"
proof (induction ops arbitrary: d h)
  case (Cons x ops)
  obtain h1 where h1: "t_hub_identity (exec_hub x d) = Some h1"
    using exec_hub_identity [OF Cons.prems(1)] by blast
  moreover have "has_keys h1" using exec_hub_keys [OF Cons.prems(1,2) _ h1] Cons.prems(3) by simp
  ultimately show ?case using Cons by auto
qed simp

text \<open>
  Once the hub has an identity, no sequence of operations changes its id or its creation time or
  removes it, and its key pair, once set, is never lost: an update that leaves the keys empty keeps them.
\<close>

theorem hub_identity_stable:
  assumes "t_hub_identity d = Some h"
  shows "\<exists>h'. t_hub_identity (run exec_hub ops d) = Some h' \<and> same_hub h h' \<and>
     (has_keys h \<and> list_all sets_keys ops \<longrightarrow> has_keys h')"
  using run_hub_identity [OF assms] run_hub_keys [OF assms] by blast

theorem hub_identity_stable_witness:
  "\<exists>h h'. t_hub_identity (exec_hub (HUpsertIdentity h ''hub1'' 5) (empty_db False)) = Some h \<and>
     t_hub_identity (run exec_hub [HSetKeyPair ''p'' ''s'' 6, HUpsertIdentity h ''hub2'' 7]
       (exec_hub (HUpsertIdentity h ''hub1'' 5) (empty_db False))) = Some h' \<and> hd_hub_id h' = hd_hub_id h"
proof -
  let ?h = "inserted_identity \<lparr>hd_hub_id = ''hub1'', hd_name = ''H'', hd_public_url = [], hd_region = [], hd_contact = [],
     hd_public_key = [], hd_private_key = [], hd_federation_enabled = True,
     hd_directory_validation_status = ''unverified'', hd_trust_level = ''community'', hd_trust_issuer_hub_id = [],
     hd_trust_certificate = [], hd_trust_expires_at = 0, hd_trust_verified_at = 0,
     hd_incident_management_enabled = False, hd_incident_handler_hub_id = [], hd_incident_auto_suggest = True,
     hd_incident_auto_open = False, hd_incident_watch_areas = [], hd_incident_watch_point_lat = 0,
     hd_incident_watch_point_lon = 0, hd_incident_watch_radius_km = 0, hd_incident_system_labels = [],
     hd_created_at = 0, hd_updated_at = 0\<rparr> 5"
  have "t_hub_identity (exec_hub (HUpsertIdentity ?h ''hub1'' 5) (empty_db False)) = Some ?h"
    by (simp add: UpsertHubIdentity_def prepare_identity_def inserted_identity_def empty_db_def Let_def)
  with hub_identity_stable [OF this, of "[HSetKeyPair ''p'' ''s'' 6, HUpsertIdentity ?h ''hub2'' 7]"]
  show ?thesis by (auto simp only: same_hub_def)
qed

text \<open>
  Escaping a string for a LIKE pattern is exact: the escaped string as a pattern matches the string
  itself and nothing else.
\<close>

theorem like_escape_exact: "sql_like (escapeSQLLike s) t \<longleftrightarrow> t = s"
  using sql_like_escape [of s "[]" t] by simp

text \<open>
  The removal of a peer's imports ends, whatever the number of calls and batches: it removes
  exactly the calls whose source matches the peer's pattern and counts them, leaves no import record of the
  peer, and fails only at the sources, when one of them still has a key.
\<close>

theorem peer_cleanup_exact:
  assumes "db_ok d"
  shows "\<exists>st e d'. DeleteFederatedPeerImports peer d = ((st, e), d') \<and>
    t_calls d' = filter (\<lambda>r. \<not> from_pattern (federatedPeerSourceLikePattern peer) r) (t_calls d) \<and>
    ds_CallsDeleted st + int (length (t_calls d')) = int (length (t_calls d)) \<and>
    list_all (\<lambda>r. fi_peer_hub_id r \<noteq> peer) (t_imports d') \<and>
    (e = None \<longleftrightarrow> \<not> list_ex (\<lambda>k. sql_like (federatedPeerSourceLikePattern peer) (ky_source_id k)) (t_keys d)) \<and>
    t_sources d' = (if e = None then filter (\<lambda>s. \<not> sql_like (federatedPeerSourceLikePattern peer) (sr_id s)) (t_sources d)
                    else t_sources d)"
proof -
  let ?p = "federatedPeerSourceLikePattern peer"
  let ?d1 = "d\<lparr>t_imports := sql_delete (\<lambda>r. fi_peer_hub_id r = peer) (t_imports d)\<rparr>"
  obtain n d2 where b: "delete_batches ?p ?d1 = (n, d2)" by fastforce
  have u: "uniq cr_id (t_calls ?d1)" using db_ok_uniq(10) [OF assms] by simp
  have calls: "t_calls d2 = filter (\<lambda>r. \<not> from_pattern ?p r) (t_calls d)"
    using delete_batches_calls [OF u, of ?p] b by simp
  have count: "n + int (length (t_calls d2)) = int (length (t_calls d))"
    using delete_batches_count [of ?p ?d1] b by simp
  have imps: "list_all (\<lambda>r. fi_peer_hub_id r \<noteq> peer) (t_imports d2)"
    using delete_batches_imports(1) [of ?p ?d1] b by (auto simp: list_all_iff)
  have rest: "t_keys d2 = t_keys d" "t_sources d2 = t_sources d"
    using delete_batches_imports(2) [of ?p ?d1] delete_batches_other [of ?p ?d1] b by simp_all
  have nocall: "\<not> list_ex (refd cr_source_id (map sr_id (filter (\<lambda>s. sql_like ?p (sr_id s)) (t_sources d)))) (t_calls d2)"
    unfolding calls by (auto simp: list_ex_iff refd_ids from_pattern_def)
  have keys: "list_ex (refd (\<lambda>r. Some (ky_source_id r)) (map sr_id (filter (\<lambda>s. sql_like ?p (sr_id s)) (t_sources d)))) (t_keys d)
      = list_ex (\<lambda>k. sql_like ?p (ky_source_id k)) (t_keys d)"
  proof -
    have "\<exists>s \<in> set (t_sources d). sr_id s = ky_source_id k" if "k \<in> set (t_keys d)" for k
      using db_ok_fkey(17) [OF assms] that by (force simp: fkey_iff)
    then show ?thesis unfolding list_ex_iff refd_ids by (metis option.inject)
  qed
  show ?thesis
    using calls count imps rest nocall keys b
    by (auto simp: DeleteFederatedPeerImports_def Let_def del_sources_def sql_delete_def)
qed

theorem peer_cleanup_exact_witness:
  "\<exists>st e d'. DeleteFederatedPeerImports ''hub-1'' example_feed_db = ((st, e), d') \<and>
     ds_CallsDeleted st + int (length (t_calls d')) = int (length (t_calls example_feed_db))"
  using peer_cleanup_exact [OF example_feed_db_ok, of "''hub-1''"] by blast

end
