(* ===== verification/Incidents.thy ===== *)
theory Incidents
  imports Sources
begin

text \<open>
  \<open>server/internal/database/incidents.go\<close>, \<open>incident_integrations.go\<close> and \<open>discord.go\<close>: incidents with their
  lifecycle, the signals that suggest them, the templates they start from, their Discord integrations and the
  status row of the bot. \<open>IncidentSignal\<close>, \<open>IncidentTemplate\<close>, \<open>IncidentIntegration\<close> and \<open>DiscordBotStatus\<close> have the
  columns of their tables, so the rows stand for them. The JSON columns \<open>metadata\<close> and \<open>raw\<close> are kept as
  text; \<open>config\<close> is kept decoded, so the empty object the code stores for a missing one is the record of
  empty fields. New ids are arguments.
\<close>

section \<open>Incidents\<close>

record Incident =
  ic_ID :: string
  ic_Title :: string
  ic_IncidentType :: string
  ic_Status :: string
  ic_Priority :: string
  ic_Exposure :: string
  ic_RadioSetID :: string
  ic_TemplateID :: string
  ic_OpenedByUserID :: string
  ic_HandlerIncidentID :: string
  ic_Notes :: string
  ic_Metadata :: string
  ic_OpenedAt :: int
  ic_ClosedAt :: int
  ic_ArchivedAt :: int
  ic_CreatedAt :: int
  ic_UpdatedAt :: int

definition incident_statuses :: "string list" where
  "incident_statuses = [''draft'', ''active'', ''monitoring'', ''closed'', ''archived'']"

definition normalizeIncidentStatus :: "string \<Rightarrow> string" where
  "normalizeIncidentStatus s =
     (let t = ToLower (TrimSpace s) in if t \<in> set incident_statuses then t else ''draft'')"

definition incident_exposures :: "string list" where
  "incident_exposures = [''internal'', ''members'', ''community'']"

definition normalizeIncidentExposure :: "string \<Rightarrow> string" where
  "normalizeIncidentExposure s =
     (let t = ToLower (TrimSpace s) in if t \<in> set incident_exposures then t else ''members'')"

definition incident_priorities :: "string list" where
  "incident_priorities = [''low'', ''normal'', ''high'', ''urgent'']"

definition normalizeIncidentPriority :: "string \<Rightarrow> string" where
  "normalizeIncidentPriority s =
     (let t = ToLower (TrimSpace s) in if t \<in> set incident_priorities then t else ''normal'')"

definition scanIncident :: "incidents_row \<Rightarrow> Incident" where
  "scanIncident r = \<lparr>ic_ID = in_id r, ic_Title = in_title r, ic_IncidentType = in_incident_type r,
     ic_Status = in_status r, ic_Priority = in_priority r, ic_Exposure = in_exposure r,
     ic_RadioSetID = coalesce (in_radio_set_id r), ic_TemplateID = coalesce (in_template_id r),
     ic_OpenedByUserID = coalesce (in_opened_by_user_id r), ic_HandlerIncidentID = in_handler_incident_id r,
     ic_Notes = in_notes r, ic_Metadata = in_metadata r, ic_OpenedAt = in_opened_at r, ic_ClosedAt = in_closed_at r,
     ic_ArchivedAt = in_archived_at r, ic_CreatedAt = in_created_at r, ic_UpdatedAt = in_updated_at r\<rparr>"

definition nullif :: "string \<Rightarrow> string option" where
  "nullif s = (if s = [] then None else Some s)"

definition or_empty_object :: "string \<Rightarrow> string" where
  "or_empty_object s = (if s = [] then ''{}'' else s)"

definition incident_row :: "Incident \<Rightarrow> string \<Rightarrow> int \<Rightarrow> incidents_row" where
  "incident_row i fresh now = \<lparr>in_id = (if ic_ID i = [] then fresh else ic_ID i), in_title = TrimSpace (ic_Title i),
     in_incident_type = TrimSpace (ic_IncidentType i), in_status = normalizeIncidentStatus (ic_Status i),
     in_priority = normalizeIncidentPriority (ic_Priority i), in_exposure = normalizeIncidentExposure (ic_Exposure i),
     in_radio_set_id = nullif (ic_RadioSetID i), in_template_id = nullif (ic_TemplateID i),
     in_opened_by_user_id = nullif (ic_OpenedByUserID i), in_handler_incident_id = TrimSpace (ic_HandlerIncidentID i),
     in_notes = ic_Notes i, in_metadata = or_empty_object (ic_Metadata i), in_opened_at = ic_OpenedAt i,
     in_closed_at = ic_ClosedAt i, in_archived_at = ic_ArchivedAt i, in_created_at = now, in_updated_at = now\<rparr>"

definition CreateIncident :: "Incident \<Rightarrow> string \<Rightarrow> int \<Rightarrow> db \<Rightarrow> Incident dbres" where
  "CreateIncident i fresh now d =
     (case ins_incidents (incident_row i fresh now) d of
        Inl err \<Rightarrow> (Inl err, d) | Inr d' \<Rightarrow> (Inr (scanIncident (incident_row i fresh now)), d'))"

definition find_incident :: "string \<Rightarrow> db \<Rightarrow> incidents_row option" where
  "find_incident i d = List.find (\<lambda>r. in_id r = i) (t_incidents d)"

definition GetIncident :: "string \<Rightarrow> db \<Rightarrow> Incident option" where
  "GetIncident i d = map_option scanIncident (find_incident i d)"

definition status_rank :: "string \<Rightarrow> int" where
  "status_rank s = (if s = ''active'' then 1 else if s = ''monitoring'' then 2 else if s = ''draft'' then 3
     else if s = ''closed'' then 4 else 5)"

definition ListIncidents :: "bool \<Rightarrow> db \<Rightarrow> Incident list" where
  "ListIncidents archived d = map scanIncident (order_asc (\<lambda>r. status_rank (in_status r))
     (order_desc in_updated_at (filter (\<lambda>r. archived \<or> in_status r \<noteq> ''archived'') (t_incidents d))))"

text \<open>The four updates of one incident return the row as it stands afterwards, or \<open>NoRows\<close>.\<close>

definition update_incident :: "(incidents_row \<Rightarrow> incidents_row) \<Rightarrow> string \<Rightarrow> db \<Rightarrow> Incident dbres" where
  "update_incident f i d =
     (case find_incident i d of None \<Rightarrow> (Inl NoRows, d)
      | Some r \<Rightarrow> (Inr (scanIncident (f r)), d\<lparr>t_incidents := sql_update (\<lambda>r. in_id r = i) f (t_incidents d)\<rparr>))"

definition UpdateIncidentRadioSet :: "string \<Rightarrow> string \<Rightarrow> int \<Rightarrow> db \<Rightarrow> Incident dbres" where
  "UpdateIncidentRadioSet i rs now d =
     (if find_incident i d \<noteq> None \<and> \<not> radio_set_ref_ok d (Some rs) then (Inl ForeignKeyViolation, d)
      else update_incident (\<lambda>r. r\<lparr>in_radio_set_id := Some rs, in_updated_at := now\<rparr>) i d)"

definition activated :: "int \<Rightarrow> incidents_row \<Rightarrow> incidents_row" where
  "activated now r = r\<lparr>in_status := ''active'',
     in_opened_at := (if in_opened_at r = 0 then now else in_opened_at r), in_updated_at := now\<rparr>"

definition ActivateIncident :: "string \<Rightarrow> int \<Rightarrow> db \<Rightarrow> Incident dbres" where
  "ActivateIncident i now = update_incident (activated now) i"

definition CloseIncident :: "string \<Rightarrow> int \<Rightarrow> db \<Rightarrow> Incident dbres" where
  "CloseIncident i now =
     update_incident (\<lambda>r. r\<lparr>in_status := ''closed'', in_closed_at := now, in_updated_at := now\<rparr>) i"

definition ArchiveIncident :: "string \<Rightarrow> int \<Rightarrow> db \<Rightarrow> Incident dbres" where
  "ArchiveIncident i now =
     update_incident (\<lambda>r. r\<lparr>in_status := ''archived'', in_archived_at := now, in_updated_at := now\<rparr>) i"

definition GetIncidentByRadioSetID :: "string \<Rightarrow> db \<Rightarrow> Incident option" where
  "GetIncidentByRadioSetID rs d =
     (case limit 1 (order_desc in_updated_at (filter (\<lambda>r. in_radio_set_id r = Some rs) (t_incidents d))) of
        [] \<Rightarrow> None | r # _ \<Rightarrow> Some (scanIncident r))"

definition keep_first :: "(string \<Rightarrow> Incident option) \<Rightarrow> Incident \<Rightarrow> string \<Rightarrow> Incident option" where
  "keep_first m i = (case m (ic_RadioSetID i) of Some _ \<Rightarrow> m | None \<Rightarrow> m(ic_RadioSetID i \<mapsto> i))"

definition open_for :: "string list \<Rightarrow> incidents_row \<Rightarrow> bool" where
  "open_for ids r \<longleftrightarrow> (case in_radio_set_id r of None \<Rightarrow> False | Some x \<Rightarrow> x \<in> set ids) \<and>
     in_status r \<in> set [''active'', ''draft'', ''monitoring'']"

definition ListOpenIncidentsByRadioSetIDs :: "string list \<Rightarrow> db \<Rightarrow> string \<Rightarrow> Incident option" where
  "ListOpenIncidentsByRadioSetIDs ids d = (if ids = [] then Map.empty else
     foldl keep_first Map.empty (map scanIncident (order_desc in_updated_at (filter (open_for ids) (t_incidents d)))))"

definition purge_age :: "incidents_row \<Rightarrow> int" where
  "purge_age r = (if in_archived_at r > 0 then in_archived_at r else if in_closed_at r > 0 then in_closed_at r
     else in_updated_at r)"

definition purgeable :: "int \<Rightarrow> incidents_row \<Rightarrow> bool" where
  "purgeable older r \<longleftrightarrow> in_status r \<in> set [''closed'', ''archived''] \<and> purge_age r < older"

definition default_limit :: "int \<Rightarrow> int \<Rightarrow> int" where
  "default_limit def n = (if n \<le> 0 then def else n)"

definition ListIncidentsForPurge :: "int \<Rightarrow> int \<Rightarrow> db \<Rightarrow> Incident list" where
  "ListIncidentsForPurge older n d = map scanIncident (limit (default_limit 100 n)
     (order_asc purge_age (filter (purgeable older) (t_incidents d))))"

text \<open>One transaction: clear the links of the signals, delete the incident; integrations cascade.\<close>

definition DeleteIncident :: "string \<Rightarrow> db \<Rightarrow> string dbres" where
  "DeleteIncident i d =
     (case find_incident i d of None \<Rightarrow> (Inl NoRows, d)
      | Some r \<Rightarrow> (Inr (coalesce (in_radio_set_id r)),
          del_incidents (\<lambda>r. in_id r = i)
            (d\<lparr>t_signals := sql_update (\<lambda>s. sg_incident_id s = i) (\<lambda>s. s\<lparr>sg_incident_id := []\<rparr>) (t_signals d)\<rparr>)))"

definition ListActiveIncidents :: "db \<Rightarrow> Incident list" where
  "ListActiveIncidents d = map scanIncident (order_desc in_updated_at
     (filter (\<lambda>r. in_status r \<in> set [''active'', ''monitoring'']) (t_incidents d)))"

definition ListActiveCommunityIncidents :: "db \<Rightarrow> Incident list" where
  "ListActiveCommunityIncidents d = map scanIncident (order_desc in_updated_at (filter
     (\<lambda>r. in_status r = ''active'' \<and> in_exposure r = ''community'' \<and> in_radio_set_id r \<noteq> None) (t_incidents d)))"

definition ListActiveWeatherIncidents :: "db \<Rightarrow> Incident list" where
  "ListActiveWeatherIncidents d = map scanIncident (order_desc in_updated_at (filter
     (\<lambda>r. in_status r = ''active'' \<and> in_incident_type r = ''weather'' \<and> in_radio_set_id r \<noteq> None) (t_incidents d)))"

section \<open>Signals\<close>

type_synonym IncidentSignal = signals_row

definition signal_row :: "IncidentSignal \<Rightarrow> string \<Rightarrow> int \<Rightarrow> IncidentSignal" where
  "signal_row s fresh now = s\<lparr>sg_id := (if sg_id s = [] then fresh else sg_id s), sg_raw := or_empty_object (sg_raw s),
     sg_received_at := (if sg_received_at s = 0 then now else sg_received_at s)\<rparr>"

definition find_signal :: "string \<Rightarrow> string \<Rightarrow> db \<Rightarrow> signals_row option" where
  "find_signal src ext d = List.find (\<lambda>r. sg_source r = src \<and> sg_external_id r = ext) (t_signals d)"

definition UpsertIncidentSignal :: "IncidentSignal \<Rightarrow> string \<Rightarrow> int \<Rightarrow> db \<Rightarrow> (IncidentSignal \<times> bool) dbres" where
  "UpsertIncidentSignal s fresh now d =
     (case find_signal (sg_source s) (sg_external_id s) d of
        Some r \<Rightarrow> (Inr (r, False), d)
      | None \<Rightarrow> (case ins_signals (signal_row s fresh now) d of
          Inl err \<Rightarrow> (Inl err, d) | Inr d' \<Rightarrow> (Inr (signal_row s fresh now, True), d')))"

definition LinkIncidentSignal :: "string \<Rightarrow> string \<Rightarrow> db \<Rightarrow> db" where
  "LinkIncidentSignal sid iid d =
     d\<lparr>t_signals := sql_update (\<lambda>s. sg_id s = sid) (\<lambda>s. s\<lparr>sg_incident_id := iid\<rparr>) (t_signals d)\<rparr>"

definition ListPendingIncidentSignals :: "int \<Rightarrow> db \<Rightarrow> IncidentSignal list" where
  "ListPendingIncidentSignals n d = limit (default_limit 50 n)
     (order_desc sg_received_at (filter (\<lambda>s. sg_incident_id s = []) (t_signals d)))"

definition GetNWSSignalExternalIDForIncident :: "string \<Rightarrow> db \<Rightarrow> string option" where
  "GetNWSSignalExternalIDForIncident iid d =
     map_option sg_external_id (List.find (\<lambda>s. sg_incident_id s = iid \<and> sg_source s = ''nws'') (t_signals d))"

section \<open>Templates\<close>

type_synonym IncidentTemplate = templates_row

definition default_template ::
  "string \<Rightarrow> string \<Rightarrow> string \<Rightarrow> string list \<Rightarrow> string \<Rightarrow> string \<Rightarrow> string list \<Rightarrow> int \<Rightarrow> IncidentTemplate" where
  "default_template i name kind groups exposure priority patterns now = \<lparr>it_id = i, it_name = name,
     it_incident_type = kind, it_selection_mode = ''groups'', it_talkgroups = [], it_talkgroup_groups = groups,
     it_default_exposure = exposure, it_default_priority = priority, it_nws_event_patterns = patterns,
     it_created_at = now, it_updated_at = now\<rparr>"

definition default_templates :: "int \<Rightarrow> IncidentTemplate list" where
  "default_templates now =
     [default_template ''general'' ''General Incident'' ''custom'' [''Fire'', ''EMS'', ''Police'', ''Public Works'']
        ''members'' ''normal'' [] now,
      default_template ''weather-severe'' ''Severe Weather'' ''weather'' [''Fire'', ''EMS'', ''Public Works'', ''Skywarn'']
        ''community'' ''high'' [''Tornado Warning'', ''Severe Thunderstorm Warning'', ''Tornado Watch'',
        ''Severe Thunderstorm Watch'', ''Flash Flood Warning''] now,
      default_template ''fire-structural'' ''Structure Fire'' ''fire'' [''Fire'', ''EMS'', ''Command'']
        ''members'' ''high'' [] now,
      default_template ''ems-general'' ''EMS / Medical'' ''ems'' [''EMS'', ''Fire'', ''Hospital'']
        ''members'' ''normal'' [] now]"

definition seed_template :: "IncidentTemplate \<Rightarrow> templates_row list \<Rightarrow> templates_row list" where
  "seed_template t rows = (if it_id t \<in> it_id ` set rows then rows else rows @ [t])"

definition SeedDefaultIncidentTemplates :: "int \<Rightarrow> db \<Rightarrow> db" where
  "SeedDefaultIncidentTemplates now d =
     d\<lparr>t_templates := foldl (\<lambda>rows t. seed_template t rows) (t_templates d) (default_templates now)\<rparr>"

definition ListIncidentTemplates :: "db \<Rightarrow> IncidentTemplate list" where
  "ListIncidentTemplates d = order_asc it_name (t_templates d)"

definition GetIncidentTemplate :: "string \<Rightarrow> db \<Rightarrow> IncidentTemplate option" where
  "GetIncidentTemplate i d = List.find (\<lambda>t. it_id t = i) (t_templates d)"

definition MatchIncidentTemplateByNWSEvent :: "string \<Rightarrow> db \<Rightarrow> IncidentTemplate option" where
  "MatchIncidentTemplateByNWSEvent event d =
     List.find (\<lambda>t. list_ex (\<lambda>p. EqualFold (TrimSpace p) (TrimSpace event)) (it_nws_event_patterns t))
       (ListIncidentTemplates d)"

section \<open>Integrations\<close>

type_synonym IncidentIntegration = integrations_row

definition GetIncidentIntegration :: "string \<Rightarrow> string \<Rightarrow> db \<Rightarrow> IncidentIntegration option" where
  "GetIncidentIntegration iid kind d =
     List.find (\<lambda>r. ii_incident_id r = iid \<and> ii_kind r = kind) (t_integrations d)"

definition GetIncidentIntegrationByID :: "string \<Rightarrow> db \<Rightarrow> IncidentIntegration option" where
  "GetIncidentIntegrationByID i d = List.find (\<lambda>r. ii_id r = i) (t_integrations d)"

definition integration_row :: "IncidentIntegration \<Rightarrow> string \<Rightarrow> int \<Rightarrow> IncidentIntegration" where
  "integration_row x fresh now = x\<lparr>ii_id := (if ii_id x = [] then fresh else ii_id x), ii_kind := TrimSpace (ii_kind x),
     ii_status := TrimSpace (ii_status x), ii_bot_instance_id := TrimSpace (ii_bot_instance_id x),
     ii_created_at := now, ii_updated_at := now\<rparr>"

definition merged_integration :: "IncidentIntegration \<Rightarrow> IncidentIntegration \<Rightarrow> IncidentIntegration" where
  "merged_integration n old = old\<lparr>ii_status := ii_status n, ii_bot_instance_id := ii_bot_instance_id n,
     ii_config := ii_config n, ii_updated_at := ii_updated_at n\<rparr>"

definition UpsertIncidentIntegration ::
  "IncidentIntegration \<Rightarrow> string \<Rightarrow> int \<Rightarrow> db \<Rightarrow> IncidentIntegration dbres" where
  "UpsertIncidentIntegration x fresh now d =
     (let n = integration_row x fresh now in
      case GetIncidentIntegration (ii_incident_id n) (ii_kind n) d of
        Some old \<Rightarrow> (Inr (merged_integration n old),
          d\<lparr>t_integrations := sql_update (\<lambda>r. ii_incident_id r = ii_incident_id n \<and> ii_kind r = ii_kind n)
             (merged_integration n) (t_integrations d)\<rparr>)
      | None \<Rightarrow> (case ins_integrations n d of Inl err \<Rightarrow> (Inl err, d) | Inr d' \<Rightarrow> (Inr n, d')))"

definition for_bot :: "string \<Rightarrow> integrations_row \<Rightarrow> bool" where
  "for_bot inst r \<longleftrightarrow> ii_kind r = ''discord'' \<and> (inst = [] \<or> ii_bot_instance_id r = inst)"

definition ListPendingDiscordIntegrationTasks :: "string \<Rightarrow> int \<Rightarrow> db \<Rightarrow> IncidentIntegration list" where
  "ListPendingDiscordIntegrationTasks inst n d = limit (default_limit 20 n) (order_asc ii_updated_at
     (filter (\<lambda>r. for_bot inst r \<and> ii_status r \<in> set [''pending'', ''stopping'']) (t_integrations d)))"

definition ListActiveDiscordIntegrations :: "string \<Rightarrow> int \<Rightarrow> db \<Rightarrow> IncidentIntegration list" where
  "ListActiveDiscordIntegrations inst n d = limit (default_limit 50 n) (order_desc ii_updated_at
     (filter (\<lambda>r. for_bot inst r \<and> ii_status r = ''active'') (t_integrations d)))"

definition UpdateIncidentIntegrationStatus ::
  "string \<Rightarrow> string \<Rightarrow> IncidentIntegrationConfig option \<Rightarrow> int \<Rightarrow> db \<Rightarrow> IncidentIntegration dbres" where
  "UpdateIncidentIntegrationStatus i status config now d =
     (let f = (\<lambda>r. r\<lparr>ii_status := status, ii_config := (case config of None \<Rightarrow> ii_config r | Some c \<Rightarrow> c),
                     ii_updated_at := now\<rparr>) in
      case GetIncidentIntegrationByID i d of None \<Rightarrow> (Inl NoRows, d)
      | Some r \<Rightarrow> (Inr (f r), d\<lparr>t_integrations := sql_update (\<lambda>r. ii_id r = i) f (t_integrations d)\<rparr>))"

definition ListFailedDiscordIntegrations :: "int \<Rightarrow> db \<Rightarrow> IncidentIntegration list" where
  "ListFailedDiscordIntegrations n d = limit (default_limit 50 n) (order_desc ii_updated_at
     (filter (\<lambda>r. ii_kind r = ''discord'' \<and> ii_status r = ''failed'') (t_integrations d)))"

definition CountDiscordIntegrationsByStatus :: "string \<Rightarrow> db \<Rightarrow> int" where
  "CountDiscordIntegrationsByStatus status d =
     int (sql_count (\<lambda>r. ii_kind r = ''discord'' \<and> ii_status r = status) (t_integrations d))"

definition has_live_discord :: "string \<Rightarrow> db \<Rightarrow> bool" where
  "has_live_discord iid d \<longleftrightarrow> list_ex (\<lambda>r. ii_incident_id r = iid \<and> ii_kind r = ''discord'' \<and>
     ii_status r \<in> set [''pending'', ''active'', ''stopping'']) (t_integrations d)"

definition ListActiveIncidentsMissingDiscord :: "int \<Rightarrow> db \<Rightarrow> Incident list" where
  "ListActiveIncidentsMissingDiscord n d = map scanIncident (limit (default_limit 50 n) (order_desc in_updated_at
     (filter (\<lambda>r. in_status r \<in> set [''active'', ''monitoring''] \<and> in_exposure r \<noteq> ''internal'' \<and>
                  \<not> has_live_discord (in_id r) d) (t_incidents d))))"

definition MarkDiscordIntegrationsStopping :: "string \<Rightarrow> int \<Rightarrow> db \<Rightarrow> db" where
  "MarkDiscordIntegrationsStopping iid now d = d\<lparr>t_integrations := sql_update
     (\<lambda>r. ii_incident_id r = iid \<and> ii_kind r = ''discord'' \<and> ii_status r \<in> set [''pending'', ''active''])
     (\<lambda>r. r\<lparr>ii_status := ''stopping'', ii_updated_at := now\<rparr>) (t_integrations d)\<rparr>"

section \<open>The bot\<close>

type_synonym DiscordBotStatus = bot_status_row

definition UpsertDiscordBotStatus :: "DiscordBotStatus \<Rightarrow> int \<Rightarrow> db \<Rightarrow> unit dbres" where
  "UpsertDiscordBotStatus s now d = (if \<not> int4 (bs_command_count s) then (Inl OutOfRange, d)
     else (Inr (), d\<lparr>t_bot_status := Some (s\<lparr>bs_last_seen_at := (if bs_last_seen_at s = 0 then now else bs_last_seen_at s)\<rparr>)\<rparr>))"

definition GetDiscordBotStatus :: "db \<Rightarrow> db_error + DiscordBotStatus" where
  "GetDiscordBotStatus d = (case t_bot_status d of None \<Rightarrow> Inl NoRows | Some s \<Rightarrow> Inr s)"

section \<open>What is stored\<close>

definition plain_word :: "string \<Rightarrow> bool" where
  "plain_word s \<longleftrightarrow> list_all (\<lambda>c. \<not> is_space c \<and> lower_char c = c) s"

lemma plain_word_fix: "plain_word s \<Longrightarrow> ToLower (TrimSpace s) = s"
proof -
  assume s: "plain_word s"
  have drop: "dropWhile is_space xs = xs" if "list_all (\<lambda>c. \<not> is_space c) xs" for xs
    using that by (cases xs) auto
  have "list_all (\<lambda>c. \<not> is_space c) s" using s by (auto simp: plain_word_def list_all_iff)
  then have "TrimSpace s = s"
    using drop [of s] drop [of "rev s"] by (simp add: TrimSpace_def)
  moreover have "ToLower s = s"
    using s by (auto simp: ToLower_def plain_word_def list_all_iff intro: map_idI)
  ultimately show ?thesis by simp
qed

lemma incident_words: "list_all plain_word (incident_statuses @ incident_exposures @ incident_priorities)"
  by code_simp

lemma incident_word_fix:
  "s \<in> set incident_statuses \<or> s \<in> set incident_exposures \<or> s \<in> set incident_priorities \<Longrightarrow>
   ToLower (TrimSpace s) = s"
  using incident_words by (auto simp: list_all_iff intro: plain_word_fix)

interpretation incident_status: normaliser normalizeIncidentStatus "\<lambda>s. s \<in> set incident_statuses"
  by unfold_locales (simp_all add: normalizeIncidentStatus_def Let_def incident_word_fix, simp add: incident_statuses_def)

interpretation incident_exposure: normaliser normalizeIncidentExposure "\<lambda>s. s \<in> set incident_exposures"
  by unfold_locales (simp_all add: normalizeIncidentExposure_def Let_def incident_word_fix, simp add: incident_exposures_def)

interpretation incident_priority: normaliser normalizeIncidentPriority "\<lambda>s. s \<in> set incident_priorities"
  by unfold_locales (simp_all add: normalizeIncidentPriority_def Let_def incident_word_fix, simp add: incident_priorities_def)

text \<open>The values of the three enumerated columns, and the invariant of the incident tables.\<close>

definition incident_typed :: "incidents_row \<Rightarrow> bool" where
  "incident_typed r \<longleftrightarrow> in_status r \<in> set incident_statuses \<and> in_priority r \<in> set incident_priorities \<and>
     in_exposure r \<in> set incident_exposures"

definition incident_inv :: "db \<Rightarrow> bool" where
  "incident_inv d \<longleftrightarrow> db_ok d \<and> list_all incident_typed (t_incidents d)"

datatype incident_op =
    IcCreate Incident string int
  | IcSetRadioSet string string int
  | IcActivate string int
  | IcClose string int
  | IcArchive string int
  | IcDelete string
  | IcSignal IncidentSignal string int
  | IcLink string string
  | IcSeed int
  | IcIntegrate IncidentIntegration string int
  | IcIntegrationStatus string string "IncidentIntegrationConfig option" int
  | IcStopDiscord string int
  | IcBot DiscordBotStatus int

fun exec_incident :: "incident_op \<Rightarrow> db \<Rightarrow> db" where
  "exec_incident (IcCreate i fresh now) d = snd (CreateIncident i fresh now d)"
| "exec_incident (IcSetRadioSet i rs now) d = snd (UpdateIncidentRadioSet i rs now d)"
| "exec_incident (IcActivate i now) d = snd (ActivateIncident i now d)"
| "exec_incident (IcClose i now) d = snd (CloseIncident i now d)"
| "exec_incident (IcArchive i now) d = snd (ArchiveIncident i now d)"
| "exec_incident (IcDelete i) d = snd (DeleteIncident i d)"
| "exec_incident (IcSignal s fresh now) d = snd (UpsertIncidentSignal s fresh now d)"
| "exec_incident (IcLink sid iid) d = LinkIncidentSignal sid iid d"
| "exec_incident (IcSeed now) d = SeedDefaultIncidentTemplates now d"
| "exec_incident (IcIntegrate x fresh now) d = snd (UpsertIncidentIntegration x fresh now d)"
| "exec_incident (IcIntegrationStatus i st c now) d = snd (UpdateIncidentIntegrationStatus i st c now d)"
| "exec_incident (IcStopDiscord iid now) d = MarkDiscordIntegrationsStopping iid now d"
| "exec_incident (IcBot s now) d = snd (UpsertDiscordBotStatus s now d)"

lemma update_incident_inv:
  assumes "incident_inv d" "\<And>r. in_id (f r) = in_id r \<and> in_radio_set_id (f r) = in_radio_set_id r \<and>
    in_opened_by_user_id (f r) = in_opened_by_user_id r" "\<And>r. incident_typed r \<Longrightarrow> incident_typed (f r)"
  shows "incident_inv (snd (update_incident f i d))"
  using assms by (auto simp: update_incident_def incident_inv_def list_all_iff set_sql_update
      intro!: upd_incidents_ok split: option.splits)

lemma UpdateIncidentRadioSet_inv: "incident_inv d \<Longrightarrow> incident_inv (snd (UpdateIncidentRadioSet i rs now d))"
proof -
  assume inv: "incident_inv d"
  let ?f = "\<lambda>r. r\<lparr>in_radio_set_id := Some rs, in_updated_at := now\<rparr>"
  have "db_ok (d\<lparr>t_incidents := sql_update (\<lambda>r. in_id r = i) ?f (t_incidents d)\<rparr>)"
    if "rs \<in> rr_id ` set (t_radio_sets d)"
  proof -
    have d: "db_ok d" using inv by (simp add: incident_inv_def)
    have "fkey in_radio_set_id (sql_update (\<lambda>r. in_id r = i) ?f (t_incidents d)) rr_id (t_radio_sets d)"
      using that db_ok_fkey(19) [OF d] by (auto simp: fkey_iff set_sql_update)
    with d show ?thesis
      by (intro set_incidents_ok) (simp_all add: key_simps db_ok_uniq db_ok_fkey)
  qed
  with inv show ?thesis
    by (auto simp: UpdateIncidentRadioSet_def update_incident_def radio_set_ref_ok_def incident_inv_def
        list_all_iff set_sql_update incident_typed_def split: option.splits)
qed

lemma CreateIncident_inv: "incident_inv d \<Longrightarrow> incident_inv (snd (CreateIncident i fresh now d))"
proof -
  assume inv: "incident_inv d"
  have typed: "incident_typed (incident_row i fresh now)"
    by (simp add: incident_row_def incident_typed_def incident_status.norm_canonical
        incident_exposure.norm_canonical incident_priority.norm_canonical)
  show ?thesis
    using inv typed by (auto simp: CreateIncident_def incident_inv_def ins_incidents_ok split: sum.splits)
      (auto simp: ins_incidents_def split: if_splits)
qed

lemma DeleteIncident_inv: "incident_inv d \<Longrightarrow> incident_inv (snd (DeleteIncident i d))"
proof -
  assume inv: "incident_inv d"
  let ?d = "d\<lparr>t_signals := sql_update (\<lambda>s. sg_incident_id s = i) (\<lambda>s. s\<lparr>sg_incident_id := []\<rparr>) (t_signals d)\<rparr>"
  have "db_ok ?d" using inv by (intro upd_signals_ok) (simp_all add: incident_inv_def)
  then have "db_ok (del_incidents (\<lambda>r. in_id r = i) ?d)" by (rule del_incidents_ok)
  moreover have "t_incidents (del_incidents (\<lambda>r. in_id r = i) ?d) = sql_delete (\<lambda>r. in_id r = i) (t_incidents d)"
    by (simp add: del_incidents_def Let_def)
  ultimately show ?thesis
    using inv by (simp add: DeleteIncident_def incident_inv_def list_all_iff split: option.split)
qed

lemma UpsertIncidentSignal_inv: "incident_inv d \<Longrightarrow> incident_inv (snd (UpsertIncidentSignal s fresh now d))"
  by (auto simp: UpsertIncidentSignal_def incident_inv_def ins_signals_ok split: option.splits sum.splits)
    (auto simp: ins_signals_def split: if_splits)

lemma integration_inv: "incident_inv d \<Longrightarrow> incident_inv (snd (UpsertIncidentIntegration x fresh now d))"
proof -
  assume inv: "incident_inv d"
  show ?thesis
  proof (cases "GetIncidentIntegration (ii_incident_id (integration_row x fresh now)) (ii_kind (integration_row x fresh now)) d")
    case None
    with inv show ?thesis
      by (auto simp: UpsertIncidentIntegration_def Let_def incident_inv_def ins_integrations_ok split: sum.splits)
        (auto simp: ins_integrations_def split: if_splits)
  next
    case (Some old)
    with inv show ?thesis
      by (auto simp: UpsertIncidentIntegration_def Let_def incident_inv_def merged_integration_def intro!: upd_integrations_ok)
  qed
qed

lemma seed_uniq: "uniq it_id rows \<Longrightarrow> uniq it_id (foldl (\<lambda>rows t. seed_template t rows) rows ts)"
  by (induction ts arbitrary: rows) (auto simp: seed_template_def)

lemma exec_incident_inv: "incident_inv d \<Longrightarrow> incident_inv (exec_incident x d)"
proof (cases x)
  case (IcSeed now)
  assume inv: "incident_inv d"
  then have "uniq it_id (foldl (\<lambda>rows t. seed_template t rows) (t_templates d) (default_templates now))"
    by (intro seed_uniq) (simp add: incident_inv_def db_ok_uniq)
  with inv IcSeed show ?thesis
    by (simp add: SeedDefaultIncidentTemplates_def incident_inv_def db_ok_defs)
next
  case (IcLink sid iid)
  assume "incident_inv d"
  with IcLink show ?thesis
    by (auto simp: LinkIncidentSignal_def incident_inv_def intro!: upd_signals_ok)
next
  case (IcIntegrationStatus i st c now)
  assume "incident_inv d"
  with IcIntegrationStatus show ?thesis
    by (auto simp: UpdateIncidentIntegrationStatus_def Let_def incident_inv_def intro!: upd_integrations_ok split: option.splits)
next
  case (IcStopDiscord iid now)
  assume "incident_inv d"
  with IcStopDiscord show ?thesis
    by (auto simp: MarkDiscordIntegrationsStopping_def incident_inv_def intro!: upd_integrations_ok)
next
  case (IcBot s now)
  assume "incident_inv d"
  with IcBot show ?thesis by (simp add: UpsertDiscordBotStatus_def incident_inv_def)
qed (auto simp: ActivateIncident_def CloseIncident_def ArchiveIncident_def activated_def incident_typed_def
    incident_statuses_def CreateIncident_inv UpdateIncidentRadioSet_inv DeleteIncident_inv UpsertIncidentSignal_inv
    integration_inv intro!: update_incident_inv)

interpretation incidents: invariant_store incident_inv exec_incident
  by unfold_locales (rule exec_incident_inv)


section \<open>Signals are recorded once\<close>

definition same_signal :: "signals_row \<Rightarrow> signals_row \<Rightarrow> bool" where
  "same_signal r r' \<longleftrightarrow> r' = r\<lparr>sg_incident_id := sg_incident_id r'\<rparr>"

lemma find_signal_key: "find_signal src ext d = List.find (\<lambda>r. (sg_source r, sg_external_id r) = (src, ext)) (t_signals d)"
  by (simp add: find_signal_def)

lemma find_signal_relink:
  assumes "t_signals d' = sql_update P (\<lambda>s. s\<lparr>sg_incident_id := x\<rparr>) (t_signals d)" "find_signal src ext d = Some r"
  shows "\<exists>r'. find_signal src ext d' = Some r' \<and> same_signal r r'"
  using assms(2) unfolding find_signal_key assms(1)
  by (subst find_sql_update_key) (auto simp: same_signal_def)

lemma same_signal_refl [simp]: "same_signal r r"
  by (simp add: same_signal_def)

lemma same_signal_trans: "same_signal r r1 \<Longrightarrow> same_signal r1 r2 \<Longrightarrow> same_signal r r2"
  by (cases r; cases r1; cases r2) (simp add: same_signal_def)

lemma update_incident_other:
  "t_signals (snd (update_incident f i d)) = t_signals d"
  "t_templates (snd (update_incident f i d)) = t_templates d"
  "t_radio_sets (snd (update_incident f i d)) = t_radio_sets d"
  "t_integrations (snd (update_incident f i d)) = t_integrations d"
  by (simp_all add: update_incident_def split: option.split)

lemma DeleteIncident_signals: "snd (DeleteIncident i d) = d \<or>
    t_signals (snd (DeleteIncident i d)) =
      sql_update (\<lambda>s. sg_incident_id s = i) (\<lambda>s. s\<lparr>sg_incident_id := []\<rparr>) (t_signals d)"
  by (simp add: DeleteIncident_def del_incidents_def Let_def split: option.split)

lemma exec_incident_signals:
  "t_signals (exec_incident x d) = t_signals d \<or>
   (\<exists>P iid. t_signals (exec_incident x d) = sql_update P (\<lambda>s. s\<lparr>sg_incident_id := iid\<rparr>) (t_signals d)) \<or>
   (\<exists>s. t_signals (exec_incident x d) = t_signals d @ [s])"
proof (cases x)
  case (IcDelete i)
  with DeleteIncident_signals [of i d] show ?thesis by auto
next
  case (IcLink sid iid)
  then show ?thesis by (auto simp: LinkIncidentSignal_def)
next
  case (IcSignal s fresh now)
  then show ?thesis
    by (auto simp: UpsertIncidentSignal_def ins_signals_def split: option.split sum.split)
qed (auto simp: CreateIncident_def ins_incidents_def update_incident_other
    UpdateIncidentRadioSet_def ActivateIncident_def CloseIncident_def ArchiveIncident_def SeedDefaultIncidentTemplates_def
    UpsertIncidentIntegration_def ins_integrations_def UpdateIncidentIntegrationStatus_def MarkDiscordIntegrationsStopping_def
    UpsertDiscordBotStatus_def Let_def split: option.split sum.split)

lemma exec_incident_signal:
  assumes "find_signal src ext d = Some r"
  shows "\<exists>r'. find_signal src ext (exec_incident x d) = Some r' \<and> same_signal r r'"
  using exec_incident_signals [of x d]
proof (elim disjE exE)
  fix P iid assume "t_signals (exec_incident x d) = sql_update P (\<lambda>s. s\<lparr>sg_incident_id := iid\<rparr>) (t_signals d)"
  from find_signal_relink [OF this assms] show ?thesis .
qed (use assms in \<open>auto simp: find_signal_def find_append\<close>)

lemma run_incident_signal:
  "find_signal src ext d = Some r \<Longrightarrow> \<exists>r'. find_signal src ext (run exec_incident ops d) = Some r' \<and> same_signal r r'"
proof (induction ops arbitrary: d r)
  case (Cons x ops)
  obtain r1 where r1: "find_signal src ext (exec_incident x d) = Some r1" "same_signal r r1"
    using exec_incident_signal [OF Cons.prems] by blast
  from Cons.IH [OF r1(1)] same_signal_trans [OF r1(2)] show ?case by auto
qed simp

section \<open>What stays of an incident\<close>

definition same_incident :: "incidents_row \<Rightarrow> incidents_row \<Rightarrow> bool" where
  "same_incident r r' \<longleftrightarrow> in_title r' = in_title r \<and> in_incident_type r' = in_incident_type r \<and>
     in_priority r' = in_priority r \<and> in_exposure r' = in_exposure r \<and> in_template_id r' = in_template_id r \<and>
     in_opened_by_user_id r' = in_opened_by_user_id r \<and> in_notes r' = in_notes r \<and> in_metadata r' = in_metadata r \<and>
     in_created_at r' = in_created_at r \<and> (in_opened_at r \<noteq> 0 \<longrightarrow> in_opened_at r' = in_opened_at r)"

lemma same_incident_refl [simp]: "same_incident r r"
  by (simp add: same_incident_def)

lemma same_incident_trans: "same_incident r r1 \<Longrightarrow> same_incident r1 r2 \<Longrightarrow> same_incident r r2"
  by (simp add: same_incident_def)

lemma update_incident_row:
  assumes "find_incident i d = Some r" "\<And>r. in_id (f r) = in_id r \<and> same_incident r (f r)"
  shows "\<exists>r'. find_incident i (snd (update_incident f j d)) = Some r' \<and> same_incident r r'"
proof -
  have "find_incident i (snd (update_incident f j d)) = Some (if in_id r = j then f r else r) \<or> snd (update_incident f j d) = d"
    using assms find_sql_update_key [of "\<lambda>r. in_id r = j" in_id f i "t_incidents d"]
    by (auto simp: update_incident_def find_incident_def split: option.split)
  with assms show ?thesis by auto
qed

lemma find_incident_delete: "i \<noteq> j \<Longrightarrow> List.find (\<lambda>r. in_id r = i) (sql_delete (\<lambda>r. in_id r = j) rows) = List.find (\<lambda>r. in_id r = i) rows"
  by (induction rows) (auto simp: sql_delete_def)

lemma other_ops_incidents:
  "t_incidents (snd (UpsertIncidentSignal s fresh now d)) = t_incidents d"
  "t_incidents (LinkIncidentSignal sid iid d) = t_incidents d"
  "t_incidents (SeedDefaultIncidentTemplates now d) = t_incidents d"
  "t_incidents (snd (UpsertIncidentIntegration n fresh now d)) = t_incidents d"
  "t_incidents (snd (UpdateIncidentIntegrationStatus i st c now d)) = t_incidents d"
  "t_incidents (MarkDiscordIntegrationsStopping iid now d) = t_incidents d"
  "t_incidents (snd (UpsertDiscordBotStatus b now d)) = t_incidents d"
  by (auto simp: UpsertIncidentSignal_def ins_signals_def LinkIncidentSignal_def SeedDefaultIncidentTemplates_def
      UpsertIncidentIntegration_def ins_integrations_def UpdateIncidentIntegrationStatus_def Let_def
      MarkDiscordIntegrationsStopping_def UpsertDiscordBotStatus_def split: option.split sum.split)

lemma exec_incident_row:
  assumes "find_incident i d = Some r" "x \<noteq> IcDelete i"
  shows "\<exists>r'. find_incident i (exec_incident x d) = Some r' \<and> same_incident r r'"
proof (cases x)
  case (IcDelete j)
  with assms have "i \<noteq> j" by auto
  with assms(1) IcDelete show ?thesis
    by (auto simp: DeleteIncident_def del_incidents_def Let_def find_incident_def find_incident_delete split: option.split)
next
  case (IcCreate c fresh now)
  with assms(1) show ?thesis
    by (auto simp: CreateIncident_def ins_incidents_def find_incident_def find_append split: sum.splits if_splits)
next
  case (IcSetRadioSet j rs now)
  have "\<exists>r'. find_incident i (snd (update_incident (\<lambda>r. r\<lparr>in_radio_set_id := Some rs, in_updated_at := now\<rparr>) j d)) = Some r' \<and>
      same_incident r r'"
    by (rule update_incident_row [OF assms(1)]) (simp add: same_incident_def)
  with assms(1) IcSetRadioSet show ?thesis by (simp add: UpdateIncidentRadioSet_def)
next
  case (IcActivate j now)
  have "\<exists>r'. find_incident i (snd (update_incident (activated now) j d)) = Some r' \<and> same_incident r r'"
    by (rule update_incident_row [OF assms(1)]) (simp add: same_incident_def activated_def)
  with IcActivate show ?thesis by (simp add: ActivateIncident_def)
next
  case (IcClose j now)
  have "\<exists>r'. find_incident i (snd (CloseIncident j now d)) = Some r' \<and> same_incident r r'"
    unfolding CloseIncident_def by (rule update_incident_row [OF assms(1)]) (simp add: same_incident_def)
  with IcClose show ?thesis by simp
next
  case (IcArchive j now)
  have "\<exists>r'. find_incident i (snd (ArchiveIncident j now d)) = Some r' \<and> same_incident r r'"
    unfolding ArchiveIncident_def by (rule update_incident_row [OF assms(1)]) (simp add: same_incident_def)
  with IcArchive show ?thesis by simp
qed (use assms(1) in \<open>simp_all add: find_incident_def other_ops_incidents\<close>)

lemma run_incident_row:
  "find_incident i d = Some r \<Longrightarrow> IcDelete i \<notin> set ops \<Longrightarrow>
   \<exists>r'. find_incident i (run exec_incident ops d) = Some r' \<and> same_incident r r'"
proof (induction ops arbitrary: d r)
  case (Cons x ops)
  obtain r1 where r1: "find_incident i (exec_incident x d) = Some r1" "same_incident r r1"
    using exec_incident_row [OF Cons.prems(1), of x] Cons.prems(2) by auto
  from Cons.IH [OF r1(1)] Cons.prems(2) same_incident_trans [OF r1(2)] show ?case by auto
qed simp

section \<open>The open incident of a radio set\<close>

lemma foldl_keep_first:
  "foldl keep_first m xs k = (case m k of Some v \<Rightarrow> Some v | None \<Rightarrow> List.find (\<lambda>i. ic_RadioSetID i = k) xs)"
  by (induction xs arbitrary: m) (auto simp: keep_first_def split: option.split)

lemma find_map: "List.find P (map f xs) = map_option f (List.find (P \<circ> f) xs)"
  by (induction xs) auto

lemma find_filter: "List.find P (filter Q xs) = List.find (\<lambda>x. Q x \<and> P x) xs"
  by (induction xs) auto


section \<open>Properties\<close>

definition example_incident :: Incident where
  "example_incident = \<lparr>ic_ID = [], ic_Title = ''Storm'', ic_IncidentType = ''weather'', ic_Status = ''active'',
     ic_Priority = ''high'', ic_Exposure = ''community'', ic_RadioSetID = [], ic_TemplateID = [],
     ic_OpenedByUserID = [], ic_HandlerIncidentID = [], ic_Notes = [], ic_Metadata = [], ic_OpenedAt = 7,
     ic_ClosedAt = 0, ic_ArchivedAt = 0, ic_CreatedAt = 0, ic_UpdatedAt = 0\<rparr>"

definition example_signal :: IncidentSignal where
  "example_signal = \<lparr>sg_id = ''sig1'', sg_source = ''nws'', sg_external_id = ''w1'', sg_event_type = ''Tornado Watch'',
     sg_severity = ''high'', sg_title = ''Watch'', sg_detail = [], sg_template_id = [], sg_incident_id = ''inc1'',
     sg_raw = ''{}'', sg_received_at = 9\<rparr>"

definition example_incident_row :: incidents_row where
  "example_incident_row = \<lparr>in_id = ''inc1'', in_title = ''Storm'', in_incident_type = ''weather'', in_status = ''active'',
     in_priority = ''high'', in_exposure = ''community'', in_radio_set_id = None, in_template_id = None,
     in_opened_by_user_id = None, in_handler_incident_id = [], in_notes = [], in_metadata = ''{}'', in_opened_at = 7,
     in_closed_at = 0, in_archived_at = 0, in_created_at = 10, in_updated_at = 10\<rparr>"

definition example_incident_db :: db where
  "example_incident_db = (empty_db False)\<lparr>t_incidents := [example_incident_row], t_signals := [example_signal]\<rparr>"

lemma example_incident_db_run:
  "run exec_incident [IcCreate example_incident ''inc1'' 10, IcSignal example_signal [] 11] (empty_db False) = example_incident_db"
proof -
  have "TrimSpace ''Storm'' = ''Storm''" "TrimSpace ''weather'' = ''weather''" by code_simp+
  moreover have "normalizeIncidentStatus ''active'' = ''active''" "normalizeIncidentPriority ''high'' = ''high''"
      "normalizeIncidentExposure ''community'' = ''community''"
    by (simp_all add: incident_status.norm_fix incident_priority.norm_fix incident_exposure.norm_fix
        incident_statuses_def incident_priorities_def incident_exposures_def)
  ultimately have "incident_row example_incident ''inc1'' 10 = example_incident_row"
    by (simp add: incident_row_def example_incident_def example_incident_row_def nullif_def or_empty_object_def)
  moreover have "signal_row example_signal [] 11 = example_signal"
    by (simp add: signal_row_def example_signal_def or_empty_object_def)
  ultimately show ?thesis
    by (simp add: CreateIncident_def ins_incidents_def ref_defs UpsertIncidentSignal_def find_signal_def
        ins_signals_def example_incident_db_def empty_db_def example_incident_row_def)
qed

lemma example_incident_db_inv: "incident_inv example_incident_db"
  unfolding example_incident_db_run [symmetric]
  by (rule incidents.run_inv) (simp add: incident_inv_def, simp add: empty_db_def)

lemma example_find_incident: "find_incident ''inc1'' example_incident_db = Some example_incident_row"
  by (simp add: find_incident_def example_incident_db_def example_incident_row_def)

text \<open>
  Every sequence of operations on incidents, signals, templates and integrations, whatever the
  statuses, priorities and exposures in the requests, keeps the constraints of the schema and keeps the three columns
  within their fixed sets of values.
\<close>

theorem incident_types_kept:
  "incident_inv d \<Longrightarrow> incident_inv (run exec_incident ops d)"
  by (rule incidents.run_inv)

theorem incident_types_kept_witness:
  "incident_inv (run exec_incident [IcCreate (example_incident\<lparr>ic_Status := '' CLOSED ''\<rparr>) ''inc2'' 10, IcActivate ''inc2'' 12,
     IcDelete ''inc1''] example_incident_db)"
  by (rule incident_types_kept) (rule example_incident_db_inv)

text \<open>
  A signal that was stored once is there for good: however often its source reports it again and
  whatever happens to the incidents it was linked to, the row under its source and external id stays the one
  first stored, but for the link.
\<close>

theorem signal_recorded_once:
  assumes "find_signal src ext d = Some r"
  shows "\<exists>r'. find_signal src ext (run exec_incident ops d) = Some r' \<and> same_signal r r'"
  using assms by (rule run_incident_signal)

theorem signal_recorded_once_witness:
  "\<exists>r'. find_signal ''nws'' ''w1'' (run exec_incident [IcDelete ''inc1'', IcSignal (example_signal\<lparr>sg_title := ''again''\<rparr>) ''sig2'' 20]
     example_incident_db) = Some r' \<and> sg_title r' = ''Watch''"
proof -
  have "find_signal ''nws'' ''w1'' example_incident_db = Some example_signal"
    by (simp add: find_signal_def example_incident_db_def example_signal_def)
  from signal_recorded_once [OF this, of "[IcDelete ''inc1'', IcSignal (example_signal\<lparr>sg_title := ''again''\<rparr>) ''sig2'' 20]"]
  obtain r' where "find_signal ''nws'' ''w1'' (run exec_incident [IcDelete ''inc1'', IcSignal (example_signal\<lparr>sg_title := ''again''\<rparr>) ''sig2'' 20]
     example_incident_db) = Some r'" "same_signal example_signal r'" by blast
  moreover from this(2) have "sg_title r' = sg_title example_signal"
    unfolding same_signal_def by (metis signals_row.select_convs(6) signals_row.surjective signals_row.update_convs(9))
  ultimately show ?thesis by (simp add: example_signal_def)
qed

text \<open>
  As long as an incident is not deleted, no operation changes its title, type, priority, exposure,
  template, opener, notes, metadata or creation time, and the opening time is fixed by the first activation.
\<close>

theorem incident_core_fixed:
  assumes "find_incident i d = Some r" "IcDelete i \<notin> set ops"
  shows "\<exists>r'. find_incident i (run exec_incident ops d) = Some r' \<and> same_incident r r'"
  using assms by (rule run_incident_row)

theorem incident_core_fixed_witness:
  "\<exists>r'. find_incident ''inc1'' (run exec_incident [IcClose ''inc1'' 20, IcActivate ''inc1'' 30] example_incident_db) = Some r' \<and>
     in_opened_at r' = 7"
  using incident_core_fixed [OF example_find_incident, of "[IcClose ''inc1'' 20, IcActivate ''inc1'' 30]"]
  by (auto simp: same_incident_def example_incident_row_def)

text \<open>
  The three transitions do not look at the status they start from: an archived incident becomes active
  again, keeping the time it was archived, and an active one is archived without being closed first.
\<close>

theorem incident_transitions_unguarded:
  assumes "find_incident i d = Some r"
  shows "\<exists>d1 d2 c1 c2. ArchiveIncident i t1 d = (Inr c1, d1) \<and> ic_Status c1 = ''archived'' \<and> ic_ClosedAt c1 = in_closed_at r \<and>
    ActivateIncident i t2 d1 = (Inr c2, d2) \<and> ic_Status c2 = ''active'' \<and> ic_ArchivedAt c2 = t1"
proof -
  let ?f = "\<lambda>r. r\<lparr>in_status := ''archived'', in_archived_at := t1, in_updated_at := t1\<rparr>"
  have i: "in_id r = i" using assms by (auto simp: find_incident_def dest: find_Some_mem)
  have "find_incident i (d\<lparr>t_incidents := sql_update (\<lambda>r. in_id r = i) ?f (t_incidents d)\<rparr>) = Some (?f r)"
    using assms i find_sql_update_key [of "\<lambda>r. in_id r = i" in_id ?f i "t_incidents d"] by (simp add: find_incident_def)
  with assms show ?thesis
    by (simp add: ArchiveIncident_def ActivateIncident_def update_incident_def scanIncident_def activated_def)
qed

theorem incident_transitions_unguarded_witness:
  "\<exists>d1 d2 c1 c2. ArchiveIncident ''inc1'' 40 example_incident_db = (Inr c1, d1) \<and> ic_ClosedAt c1 = 0 \<and>
     ActivateIncident ''inc1'' 50 d1 = (Inr c2, d2) \<and> ic_Status c2 = ''active''"
  using incident_transitions_unguarded [OF example_find_incident, of 40 50] by (auto simp: example_incident_row_def)

text \<open>
  Deleting an incident removes it and its integrations, makes its signals pending again, touches no
  radio set, and returns the radio set it was linked to; it fails exactly for an unknown id, without effect.
\<close>

theorem delete_incident_complete:
  assumes "incident_inv d" "DeleteIncident i d = (res, d')"
  shows "case find_incident i d of
      None \<Rightarrow> res = Inl NoRows \<and> d' = d
    | Some r \<Rightarrow> res = Inr (coalesce (in_radio_set_id r)) \<and> find_incident i d' = None \<and>
        list_all (\<lambda>x. ii_incident_id x \<noteq> i) (t_integrations d') \<and> t_radio_sets d' = t_radio_sets d \<and>
        map sg_incident_id (t_signals d') = map (\<lambda>s. if sg_incident_id s = i then [] else sg_incident_id s) (t_signals d)"
proof (cases "find_incident i d")
  case None
  with assms(2) show ?thesis by (simp add: DeleteIncident_def)
next
  case (Some r)
  then have r: "r \<in> set (t_incidents d)" "in_id r = i" by (auto simp: find_incident_def dest: find_Some_mem)
  have "list_all (\<lambda>x. ii_incident_id x \<noteq> i) (t_integrations d')"
    using assms(2) Some r by (auto simp: DeleteIncident_def del_incidents_def Let_def list_all_iff refd_ids)
  moreover have "find_incident i d' = None"
    using assms(2) Some by (auto simp: DeleteIncident_def del_incidents_def Let_def find_incident_def find_None_iff)
  ultimately show ?thesis
    using assms(2) Some by (auto simp: DeleteIncident_def del_incidents_def Let_def sql_update_def)
qed

theorem delete_incident_complete_witness:
  "\<exists>d'. DeleteIncident ''inc1'' example_incident_db = (Inr [], d') \<and> find_incident ''inc1'' d' = None \<and>
     map sg_incident_id (t_signals d') = [[]]"
proof -
  obtain res d' where d: "DeleteIncident ''inc1'' example_incident_db = (res, d')" by fastforce
  have "t_signals example_incident_db = [example_signal]" "in_radio_set_id example_incident_row = None"
    by (simp_all add: example_incident_db_def example_incident_row_def)
  with delete_incident_complete [OF example_incident_db_inv d, unfolded example_find_incident option.case] d show ?thesis
    by (simp add: coalesce_def example_signal_def)
qed

text \<open>
  The map of open incidents gives, for each of the radio sets asked for and for no other, the open
  incident of that set that was updated last.
\<close>

theorem open_incident_map:
  "ListOpenIncidentsByRadioSetIDs ids d rs =
     (if rs \<in> set ids then map_option scanIncident (List.find
        (\<lambda>r. in_radio_set_id r = Some rs \<and> in_status r \<in> set [''active'', ''draft'', ''monitoring''])
        (order_desc in_updated_at (t_incidents d))) else None)"
proof -
  have key: "open_for ids r \<and> ic_RadioSetID (scanIncident r) = rs \<longleftrightarrow>
      rs \<in> set ids \<and> in_radio_set_id r = Some rs \<and> in_status r \<in> set [''active'', ''draft'', ''monitoring'']" for r
    by (auto simp: open_for_def scanIncident_def coalesce_def split: option.split)
  have "order_desc in_updated_at (filter (open_for ids) (t_incidents d)) = filter (open_for ids) (order_desc in_updated_at (t_incidents d))"
    by (simp add: order_desc_def filter_sort)
  then have "ListOpenIncidentsByRadioSetIDs ids d rs = (if ids = [] then None else map_option scanIncident
      (List.find (\<lambda>r. open_for ids r \<and> ic_RadioSetID (scanIncident r) = rs) (order_desc in_updated_at (t_incidents d))))"
    by (simp add: ListOpenIncidentsByRadioSetIDs_def foldl_keep_first find_map find_filter comp_def)
  also have "\<dots> = (if rs \<in> set ids then map_option scanIncident (List.find
        (\<lambda>r. in_radio_set_id r = Some rs \<and> in_status r \<in> set [''active'', ''draft'', ''monitoring''])
        (order_desc in_updated_at (t_incidents d))) else None)"
    unfolding key by (cases "rs \<in> set ids") (auto simp: find_None_iff)
  finally show ?thesis .
qed

end
