(* ===== verification/AuthApi.thy ===== *)
theory AuthApi
  imports Accounts
begin

text \<open>
  \<open>server/internal/api/auth.go\<close>, \<open>users.go\<close> and \<open>audit.go\<close>: how a request gets its user, the sign-in and
  sign-out handlers and the administration of users. A handler is a function of the user in the request's context
  (\<open>ctx\<close>), the decoded body (\<open>None\<close>: the JSON did not decode), the clock and the database; it returns the reply
  and the database it leaves. Sending the email is an argument.
\<close>

section \<open>Requests and replies\<close>

datatype 'a reply = Reply nat 'a | Fail nat string

fun reply_code :: "'a reply \<Rightarrow> nat" where
  "reply_code (Reply c _) = c"
| "reply_code (Fail c _) = c"

record http_request =
  rq_cookie :: "string option"
  rq_authorization :: string

record authUser =
  au_ID :: string
  au_Email :: string
  au_Role :: string
  au_TxEnabled :: bool
  au_DispatcherEnabled :: bool

definition toAuthUser :: "User \<Rightarrow> authUser" where
  "toAuthUser u = \<lparr>au_ID = u_ID u, au_Email = u_Email u, au_Role = u_Role u, au_TxEnabled = u_TxEnabled u,
     au_DispatcherEnabled = u_DispatcherEnabled u\<rparr>"

definition isAdmin :: "authUser \<Rightarrow> bool" where "isAdmin u \<longleftrightarrow> au_Role u = ''admin''"

definition isGuest :: "authUser \<Rightarrow> bool" where "isGuest u \<longleftrightarrow> au_Role u = ''guest''"

definition isIncidentHandler :: "authUser \<Rightarrow> bool" where
  "isIncidentHandler u \<longleftrightarrow> au_Role u = ''incident_handler''"

definition bearer :: string where "bearer = ''Bearer ''"

definition bearer_token :: "string \<Rightarrow> string" where
  "bearer_token h = (if HasPrefix h bearer then TrimSpace (drop (length bearer) h) else [])"

definition sessionTokenFromRequest :: "http_request \<Rightarrow> string" where
  "sessionTokenFromRequest rq =
     (case rq_cookie rq of Some v \<Rightarrow> if TrimSpace v \<noteq> [] then TrimSpace v else bearer_token (rq_authorization rq)
      | None \<Rightarrow> bearer_token (rq_authorization rq))"

definition withUserContext :: "http_request \<Rightarrow> int \<Rightarrow> db \<Rightarrow> authUser option" where
  "withUserContext rq now d =
     (let t = sessionTokenFromRequest rq in
      if t = [] then None else map_option toAuthUser (GetUserBySessionToken t now d))"

definition requireAuthenticated :: "authUser option \<Rightarrow> 'a reply + authUser" where
  "requireAuthenticated ctx = (case ctx of None \<Rightarrow> Inl (Fail 401 ''unauthorized'') | Some u \<Rightarrow> Inr u)"

definition requireAdmin :: "authUser option \<Rightarrow> 'a reply + authUser" where
  "requireAdmin ctx = (case requireAuthenticated ctx of Inl e \<Rightarrow> Inl e
     | Inr u \<Rightarrow> if \<not> isAdmin u then Inl (Fail 403 ''forbidden'') else Inr u)"

definition canManageSource :: "authUser option \<Rightarrow> string \<Rightarrow> unit reply option" where
  "canManageSource ctx owner =
     (case ctx of None \<Rightarrow> Some (Fail 401 ''unauthorized'')
      | Some u \<Rightarrow>
          if TrimSpace owner = [] then (if isAdmin u then None else Some (Fail 403 ''forbidden''))
          else if au_ID u \<noteq> owner \<and> \<not> isAdmin u then Some (Fail 403 ''forbidden'')
          else if isGuest u then Some (Fail 403 ''forbidden'') else None)"

datatype auth_body =
    StatusOk
  | PendingBody authUser
  | LinkBody authUser "(string \<times> string) option"
  | SessionBody authUser string
  | MeBody authUser int
  | ExpiresBody int
  | UsersBody "User list"
  | LogsBody "AuditLogEntry list"

record auth_config =
  cfg_AppEnv :: string
  cfg_AuthPasswordLoginEnabled :: bool

definition audit :: "string \<Rightarrow> string \<Rightarrow> string \<Rightarrow> string \<Rightarrow> (string \<times> json) list \<Rightarrow> int \<Rightarrow> db \<Rightarrow> db" where
  "audit uid action ttype tid meta now d = snd (AppendAuditLog uid action ttype tid meta now d)"

definition day :: int where "day = 86400"

section \<open>Signing in\<close>

definition writePasswordLoginError :: "db_error \<Rightarrow> auth_body reply" where
  "writePasswordLoginError e = (case e of PendingUser \<Rightarrow> Fail 403 ''account pending approval''
     | InactiveUser \<Rightarrow> Fail 403 ''account disabled'' | NoRows \<Rightarrow> Fail 401 ''invalid credentials''
     | _ \<Rightarrow> Fail 500 ''login failed'')"

definition writeVerifyError :: "db_error \<Rightarrow> auth_body reply" where
  "writeVerifyError e = (case e of PendingUser \<Rightarrow> Fail 403 ''account pending approval''
     | InactiveUser \<Rightarrow> Fail 403 ''account disabled'' | NoRows \<Rightarrow> Fail 401 ''invalid or expired code''
     | _ \<Rightarrow> Fail 500 ''verify failed'')"

definition issueSession :: "User \<Rightarrow> string \<Rightarrow> int \<Rightarrow> db \<Rightarrow> auth_body reply \<times> db" where
  "issueSession u sess now d = (Reply 200 (SessionBody (toAuthUser u) sess),
     audit (u_ID u) ''auth.login'' ''session'' sess [(''email'', JString (u_Email u))] now d)"

definition valid_email :: "string \<Rightarrow> bool" where
  "valid_email e \<longleftrightarrow> e \<noteq> [] \<and> CHR ''@'' \<in> set e"

definition handlePasswordLogin ::
  "auth_config \<Rightarrow> (string \<Rightarrow> string \<Rightarrow> bool) \<Rightarrow> (string \<times> string) option \<Rightarrow> int \<Rightarrow> string \<Rightarrow> db \<Rightarrow> auth_body reply \<times> db" where
  "handlePasswordLogin cfg bcrypt_ok body now sess d =
     (if \<not> cfg_AuthPasswordLoginEnabled cfg then (Fail 403 ''password login disabled'', d)
      else case body of None \<Rightarrow> (Fail 400 ''invalid json'', d)
      | Some (em, pw) \<Rightarrow>
          (let e = ToLower (TrimSpace em); p = TrimSpace pw in
           if \<not> valid_email e \<or> p = [] then (Fail 400 ''invalid email or password'', d)
           else case VerifyUserPassword bcrypt_ok e p d of
             Inl err \<Rightarrow> (writePasswordLoginError err, d)
           | Inr u \<Rightarrow> (case CreateUserSession (u_ID u) now day sess d of
               (Inl _, d') \<Rightarrow> (Fail 500 ''login failed'', d')
             | (Inr st, d') \<Rightarrow> issueSession u st now d')))"

definition writeCreateMagicLinkError :: "User option \<Rightarrow> db_error \<Rightarrow> int \<Rightarrow> db \<Rightarrow> auth_body reply \<times> db" where
  "writeCreateMagicLinkError u err now d =
     (case (err, u) of
        (PendingUser, Some v) \<Rightarrow> (Reply 202 (PendingBody (toAuthUser v)),
           audit (u_ID v) ''auth.approval_requested'' ''user'' (u_ID v) [(''email'', JString (u_Email v))] now d)
      | (InactiveUser, _) \<Rightarrow> (Fail 403 ''account disabled'', d)
      | _ \<Rightarrow> (Fail 500 ''create magic link'', d))"

definition handleRequestMagicLink ::
  "auth_config \<Rightarrow> (User \<Rightarrow> string \<Rightarrow> string \<Rightarrow> string option) \<Rightarrow> string option \<Rightarrow> int \<Rightarrow> string \<Rightarrow> string \<Rightarrow> db \<Rightarrow>
   auth_body reply \<times> db" where
  "handleRequestMagicLink cfg send body ms token code d =
     (case body of None \<Rightarrow> (Fail 400 ''invalid json'', d)
      | Some em \<Rightarrow>
          (let e = ToLower (TrimSpace em); now = ms div 1000 in
           if \<not> valid_email e then (Fail 400 ''invalid email'', d)
           else case CreateMagicLinkToken e 900 ms token code d of
             (u, Inl err, d') \<Rightarrow> writeCreateMagicLinkError u err now d'
           | (None, Inr _, d') \<Rightarrow> (Fail 500 ''create magic link'', d')
           | (Some u, Inr (t, c), d') \<Rightarrow>
               (case send u t c of
                  Some msg \<Rightarrow> (Fail 500 msg, d')
                | None \<Rightarrow> (Reply 200 (LinkBody (toAuthUser u) (if cfg_AppEnv cfg \<noteq> ''production'' then Some (t, c) else None)),
                    audit (u_ID u) ''auth.magic_link_requested'' ''user'' (u_ID u) [(''email'', JString (u_Email u))] now d'))))"

definition verify_reply :: "(User \<times> string) dbres \<Rightarrow> int \<Rightarrow> auth_body reply \<times> db" where
  "verify_reply res now = (case res of (Inl err, d) \<Rightarrow> (writeVerifyError err, d)
     | (Inr (u, st), d) \<Rightarrow> issueSession u st now d)"

definition handleVerifyMagicLink :: "string \<Rightarrow> int \<Rightarrow> string \<Rightarrow> db \<Rightarrow> auth_body reply \<times> db" where
  "handleVerifyMagicLink query now sess d =
     (let t = TrimSpace query in
      if t = [] then (Fail 400 ''missing token'', d) else verify_reply (VerifyMagicLinkToken t now day sess d) now)"

definition handleVerifyMagicCode :: "(string \<times> string) option \<Rightarrow> int \<Rightarrow> string \<Rightarrow> db \<Rightarrow> auth_body reply \<times> db" where
  "handleVerifyMagicCode body now sess d =
     (case body of None \<Rightarrow> (Fail 400 ''invalid json'', d)
      | Some (em, cd) \<Rightarrow>
          (let e = ToLower (TrimSpace em); c = TrimSpace cd in
           if e = [] \<or> c = [] then (Fail 400 ''missing email or code'', d)
           else verify_reply (VerifyMagicLinkCode e c now day sess d) now))"

section \<open>The session of a request\<close>

definition handleLogout :: "authUser option \<Rightarrow> http_request \<Rightarrow> int \<Rightarrow> db \<Rightarrow> auth_body reply \<times> db" where
  "handleLogout ctx rq now d =
     (let d1 = (case ctx of None \<Rightarrow> d
                | Some u \<Rightarrow> audit (au_ID u) ''auth.logout'' ''user'' (au_ID u) [(''email'', JString (au_Email u))] now d);
          d2 = (case rq_cookie rq of Some v \<Rightarrow> if TrimSpace v \<noteq> [] then RevokeSession v now d1 else d1 | None \<Rightarrow> d1)
      in (Reply 200 StatusOk, d2))"

definition handleMe :: "authUser option \<Rightarrow> http_request \<Rightarrow> db \<Rightarrow> auth_body reply" where
  "handleMe ctx rq d =
     (case ctx of None \<Rightarrow> Fail 401 ''unauthorized''
      | Some u \<Rightarrow> Reply 200 (MeBody u (case rq_cookie rq of
          Some v \<Rightarrow> if TrimSpace v \<noteq> [] then (case GetSessionExpiresAt v d of Some e \<Rightarrow> e | None \<Rightarrow> 0) else 0
        | None \<Rightarrow> 0)))"

definition handleRefreshSession :: "authUser option \<Rightarrow> http_request \<Rightarrow> int \<Rightarrow> db \<Rightarrow> auth_body reply \<times> db" where
  "handleRefreshSession ctx rq now d =
     (case ctx of None \<Rightarrow> (Fail 401 ''unauthorized'', d)
      | Some _ \<Rightarrow>
          (let t = sessionTokenFromRequest rq in
           if t = [] then (Fail 401 ''unauthorized'', d)
           else case ExtendSession t now day d of
             (None, d') \<Rightarrow> (Fail 401 ''session not found'', d')
           | (Some e, d') \<Rightarrow> (Reply 200 (ExpiresBody e), d')))"

section \<open>Administration of users\<close>

definition ensureMoreThanOneActiveAdmin :: "string \<Rightarrow> db \<Rightarrow> auth_body reply option" where
  "ensureMoreThanOneActiveAdmin msg d = (if CountActiveAdmins d \<le> 1 then Some (Fail 400 msg) else None)"

definition handleDeleteMyAccount :: "authUser option \<Rightarrow> http_request \<Rightarrow> int \<Rightarrow> db \<Rightarrow> auth_body reply \<times> db" where
  "handleDeleteMyAccount ctx rq now d =
     (case requireAuthenticated ctx of Inl e \<Rightarrow> (e, d)
      | Inr u \<Rightarrow>
          (case (if au_Role u = ''admin''
                 then ensureMoreThanOneActiveAdmin ''cannot delete the last active admin account'' d else None) of
             Some e \<Rightarrow> (e, d)
           | None \<Rightarrow>
               (let d1 = audit (au_ID u) ''auth.account_deleted'' ''user'' (au_ID u) [(''email'', JString (au_Email u))] now d in
                case DeleteUser (au_ID u) d1 of
                  (Inl _, d2) \<Rightarrow> (Fail 500 ''delete account'', d2)
                | (Inr False, d2) \<Rightarrow> (Fail 404 ''user not found'', d2)
                | (Inr True, d2) \<Rightarrow>
                    (let t = sessionTokenFromRequest rq in
                     (Reply 200 StatusOk, if t = [] then d2 else RevokeSession t now d2)))))"

definition user_roles :: "string list" where
  "user_roles = [''admin'', ''user'', ''guest'', ''incident_handler'']"

definition normalizeUserRole :: "string \<Rightarrow> string" where
  "normalizeUserRole r = (let t = ToLower (TrimSpace r) in if t \<in> set user_roles then t else [])"

definition user_statuses :: "string list" where
  "user_statuses = [''active'', ''pending'', ''disabled'']"

definition normalizeUserStatus :: "string \<Rightarrow> string" where
  "normalizeUserStatus s = (let t = ToLower (TrimSpace s) in if t \<in> set user_statuses then t else [])"

definition findUserByID :: "User list \<Rightarrow> string \<Rightarrow> User option" where
  "findUserByID us uid = List.find (\<lambda>u. u_ID u = uid) us"

definition ensureActiveAdminCanChange :: "User \<Rightarrow> string \<Rightarrow> string \<Rightarrow> db \<Rightarrow> auth_body reply option" where
  "ensureActiveAdminCanChange target role status d =
     (if u_Role target \<noteq> ''admin'' \<or> u_Status target \<noteq> ''active'' \<or> (role = ''admin'' \<and> status = ''active'') then None
      else ensureMoreThanOneActiveAdmin ''cannot remove the last active admin'' d)"

definition validateUserPassword :: "string \<Rightarrow> string" where
  "validateUserPassword p = (let n = length (TrimSpace p) in
     if n < 8 then ''password must be at least 8 characters''
     else if n > 72 then ''password must be at most 72 characters'' else [])"

definition handleListUsers :: "authUser option \<Rightarrow> db \<Rightarrow> auth_body reply" where
  "handleListUsers ctx d = (case requireAdmin ctx of Inl e \<Rightarrow> e | Inr _ \<Rightarrow> Reply 200 (UsersBody (ListUsers d)))"

record updateUserRequest =
  uu_Role :: string
  uu_Status :: string
  uu_TxEnabled :: "bool option"
  uu_DispatcherEnabled :: "bool option"

definition apply_flags :: "string \<Rightarrow> updateUserRequest \<Rightarrow> int \<Rightarrow> db \<Rightarrow> db" where
  "apply_flags uid req now d =
     (let d1 = (case uu_TxEnabled req of None \<Rightarrow> d | Some b \<Rightarrow> snd (SetUserTxEnabled uid b now d)) in
      case uu_DispatcherEnabled req of None \<Rightarrow> d1 | Some b \<Rightarrow> snd (SetUserDispatcherEnabled uid b now d1))"

definition update_meta :: "string \<Rightarrow> string \<Rightarrow> updateUserRequest \<Rightarrow> string \<Rightarrow> string \<Rightarrow> (string \<times> json) list" where
  "update_meta role status req actor target =
     [(''role'', JString role), (''status'', JString status), (''actorEmail'', JString actor), (''targetEmail'', JString target)] @
     (case uu_TxEnabled req of None \<Rightarrow> [] | Some b \<Rightarrow> [(''txEnabled'', JBool b)]) @
     (case uu_DispatcherEnabled req of None \<Rightarrow> [] | Some b \<Rightarrow> [(''dispatcherEnabled'', JBool b)])"

definition handleUpdateUser ::
  "authUser option \<Rightarrow> string \<Rightarrow> updateUserRequest option \<Rightarrow> int \<Rightarrow> db \<Rightarrow> auth_body reply \<times> db" where
  "handleUpdateUser ctx uid body now d =
     (case requireAdmin ctx of Inl e \<Rightarrow> (e, d)
      | Inr admin \<Rightarrow>
          if TrimSpace uid = [] then (Fail 400 ''missing user id'', d)
          else case body of None \<Rightarrow> (Fail 400 ''invalid json'', d)
          | Some req \<Rightarrow>
              (let role = normalizeUserRole (uu_Role req); status = normalizeUserStatus (uu_Status req) in
               if role = [] \<or> status = [] then (Fail 400 ''invalid role or status'', d)
               else if au_ID admin = uid \<and> status \<noteq> ''active''
               then (Fail 400 ''cannot disable current admin session user'', d)
               else case findUserByID (ListUsers d) uid of None \<Rightarrow> (Fail 404 ''user not found'', d)
               | Some target \<Rightarrow> (case ensureActiveAdminCanChange target role status d of Some e \<Rightarrow> (e, d)
                 | None \<Rightarrow> (case UpdateUserRoleStatus uid role status now d of
                     (False, d1) \<Rightarrow> (Fail 404 ''user not found'', d1)
                   | (True, d1) \<Rightarrow> (Reply 200 StatusOk,
                       audit (au_ID admin) ''admin.user_updated'' ''user'' uid
                         (update_meta role status req (au_Email admin) (u_Email target)) now (apply_flags uid req now d1))))))"

definition handleSetUserPassword ::
  "auth_config \<Rightarrow> (string \<Rightarrow> string option) \<Rightarrow> authUser option \<Rightarrow> string \<Rightarrow> string option \<Rightarrow> int \<Rightarrow> db \<Rightarrow> auth_body reply \<times> db" where
  "handleSetUserPassword cfg bcrypt_hash ctx uid body now d =
     (if \<not> cfg_AuthPasswordLoginEnabled cfg then (Fail 403 ''password login disabled'', d)
      else case requireAdmin ctx of Inl e \<Rightarrow> (e, d)
      | Inr admin \<Rightarrow>
          if TrimSpace uid = [] then (Fail 400 ''missing user id'', d)
          else case body of None \<Rightarrow> (Fail 400 ''invalid json'', d)
          | Some pw \<Rightarrow>
              if validateUserPassword pw \<noteq> [] then (Fail 400 (validateUserPassword pw), d)
              else case findUserByID (ListUsers d) uid of None \<Rightarrow> (Fail 404 ''user not found'', d)
              | Some target \<Rightarrow> (case SetUserPassword bcrypt_hash uid pw now d of
                  (Inl _, d1) \<Rightarrow> (Fail 500 ''set user password'', d1)
                | (Inr False, d1) \<Rightarrow> (Fail 404 ''user not found'', d1)
                | (Inr True, d1) \<Rightarrow> (Reply 200 StatusOk,
                    audit (au_ID admin) ''admin.user_password_set'' ''user'' uid
                      [(''actorEmail'', JString (au_Email admin)), (''targetEmail'', JString (u_Email target))] now d1)))"

definition handleDeleteUser :: "authUser option \<Rightarrow> string \<Rightarrow> int \<Rightarrow> db \<Rightarrow> auth_body reply \<times> db" where
  "handleDeleteUser ctx uid now d =
     (case requireAdmin ctx of Inl e \<Rightarrow> (e, d)
      | Inr admin \<Rightarrow>
          if TrimSpace uid = [] then (Fail 400 ''missing user id'', d)
          else if au_ID admin = uid then (Fail 400 ''cannot delete current admin session user'', d)
          else case findUserByID (ListUsers d) uid of None \<Rightarrow> (Fail 404 ''user not found'', d)
          | Some target \<Rightarrow>
              (case (if u_Role target = ''admin'' \<and> u_Status target = ''active''
                     then ensureMoreThanOneActiveAdmin ''cannot delete the last active admin'' d else None) of
                 Some e \<Rightarrow> (e, d)
               | None \<Rightarrow> (case DeleteUser uid d of
                   (Inl _, d1) \<Rightarrow> (Fail 500 ''delete user'', d1)
                 | (Inr False, d1) \<Rightarrow> (Fail 404 ''user not found'', d1)
                 | (Inr True, d1) \<Rightarrow> (Reply 200 StatusOk,
                     audit (au_ID admin) ''admin.user_deleted'' ''user'' uid
                       [(''actorEmail'', JString (au_Email admin)), (''targetEmail'', JString (u_Email target))] now d1))))"

definition handleListAuditLogs :: "authUser option \<Rightarrow> int option \<Rightarrow> db \<Rightarrow> auth_body reply" where
  "handleListAuditLogs ctx n d = (case requireAdmin ctx of Inl e \<Rightarrow> e
     | Inr _ \<Rightarrow> Reply 200 (LogsBody (ListAuditLogs (case n of None \<Rightarrow> 100 | Some k \<Rightarrow> k) d)))"


section \<open>The handlers keep the accounts sound and an administrator in charge\<close>

datatype auth_request =
    APassword "(string \<times> string) option" int string
  | AMagicLink "string option" int string string
  | AVerifyLink string int string
  | AVerifyCode "(string \<times> string) option" int string
  | ALogout http_request int
  | ARefresh http_request int
  | ADeleteMe http_request int
  | AUpdateUser http_request string "updateUserRequest option" int
  | ASetPassword http_request string "string option" int
  | ADeleteUser http_request string int

record auth_env =
  env_config :: auth_config
  env_bcrypt_ok :: "string \<Rightarrow> string \<Rightarrow> bool"
  env_bcrypt_hash :: "string \<Rightarrow> string option"
  env_send :: "User \<Rightarrow> string \<Rightarrow> string \<Rightarrow> string option"

fun serve_auth :: "auth_env \<Rightarrow> auth_request \<Rightarrow> db \<Rightarrow> auth_body reply \<times> db" where
  "serve_auth env (APassword body now sess) d = handlePasswordLogin (env_config env) (env_bcrypt_ok env) body now sess d"
| "serve_auth env (AMagicLink body ms token code) d =
     handleRequestMagicLink (env_config env) (env_send env) body ms token code d"
| "serve_auth env (AVerifyLink q now sess) d = handleVerifyMagicLink q now sess d"
| "serve_auth env (AVerifyCode body now sess) d = handleVerifyMagicCode body now sess d"
| "serve_auth env (ALogout rq now) d = handleLogout (withUserContext rq now d) rq now d"
| "serve_auth env (ARefresh rq now) d = handleRefreshSession (withUserContext rq now d) rq now d"
| "serve_auth env (ADeleteMe rq now) d = handleDeleteMyAccount (withUserContext rq now d) rq now d"
| "serve_auth env (AUpdateUser rq uid body now) d = handleUpdateUser (withUserContext rq now d) uid body now d"
| "serve_auth env (ASetPassword rq uid body now) d =
     handleSetUserPassword (env_config env) (env_bcrypt_hash env) (withUserContext rq now d) uid body now d"
| "serve_auth env (ADeleteUser rq uid now) d = handleDeleteUser (withUserContext rq now d) uid now d"

definition has_admin :: "db \<Rightarrow> bool" where
  "has_admin d \<longleftrightarrow> list_ex active_admin (t_users d)"

definition auth_inv :: "db \<Rightarrow> bool" where
  "auth_inv d \<longleftrightarrow> account_inv d \<and> has_admin d"

lemma has_admin_frame: "t_users d' = t_users d \<Longrightarrow> has_admin d' = has_admin d"
  by (simp add: has_admin_def)

lemma audit_users [simp]: "t_users (audit u a tt ti m now d) = t_users d"
  by (simp add: audit_def AppendAuditLog_def ins_audit_def split: sum.split)

lemma audit_sessions [simp]: "t_sessions (audit u a tt ti m now d) = t_sessions d"
  by (simp add: audit_def AppendAuditLog_def ins_audit_def split: sum.split)

lemma audit_inv: "account_inv d \<Longrightarrow> account_inv (audit u a tt ti m now d)"
  by (simp add: audit_def Audit_inv)

lemma audit_auth [simp]: "auth_inv d \<Longrightarrow> auth_inv (audit u a tt ti m now d)"
  by (simp add: auth_inv_def audit_inv has_admin_def)

text \<open>Every database step of a handler that is not a change of a user's role: its effect on users.\<close>

lemma redeem_row_users: "t_users (snd (redeem_row l now ttl sess d)) = t_users d"
  by (auto simp: redeem_row_def consume_link_def ins_sessions_def Let_def split: option.split sum.split)

lemma Verify_users: "t_users (snd (VerifyMagicLinkToken t now ttl sess d)) = t_users d"
    "t_users (snd (VerifyMagicLinkCode e c now ttl sess d)) = t_users d"
  by (simp_all add: VerifyMagicLinkToken_def VerifyMagicLinkCode_def Let_def redeem_row_users split: option.split)

lemma CreateUserSession_users: "t_users (snd (CreateUserSession u now ttl sess d)) = t_users d"
  by (simp add: CreateUserSession_def ins_sessions_def split: sum.split)

lemma EnsureUser_users: "\<exists>xs. t_users (snd (EnsureUserByEmail e ms d)) = t_users d @ xs"
  by (auto simp: EnsureUserByEmail_def ins_users_def Let_def split: option.split sum.split prod.split)

lemma CreateMagicLink_users: "\<exists>xs. t_users (snd (snd (CreateMagicLinkToken e ttl ms token code d))) = t_users d @ xs"
  using EnsureUser_users [of e ms d]
  by (auto simp: CreateMagicLinkToken_def ins_magic_links_def Let_def split: sum.split prod.split)

lemma session_steps_auth:
  "auth_inv d \<Longrightarrow> auth_inv (snd (VerifyMagicLinkToken t now ttl sess d))"
  "auth_inv d \<Longrightarrow> auth_inv (snd (VerifyMagicLinkCode e c now ttl sess d))"
  "auth_inv d \<Longrightarrow> auth_inv (snd (CreateUserSession u now ttl sess d))"
  "auth_inv d \<Longrightarrow> auth_inv (RevokeSession t now d)"
  "auth_inv d \<Longrightarrow> auth_inv (snd (ExtendSession t now ttl d))"
  using exec_account_inv [of d "OpVerifyToken t now ttl sess"] exec_account_inv [of d "OpVerifyCode e c now ttl sess"]
    exec_account_inv [of d "OpCreateSession u now ttl sess"] exec_account_inv [of d "OpRevokeSession t now"]
    exec_account_inv [of d "OpExtendSession t now ttl"]
  by (simp_all add: auth_inv_def has_admin_def Verify_users CreateUserSession_users, simp_all add: RevokeSession_def ExtendSession_def Let_def)

lemma CreateMagicLink_auth: "auth_inv d \<Longrightarrow> auth_inv (snd (snd (CreateMagicLinkToken e ttl ms token code d)))"
  using exec_account_inv [of d "OpCreateMagicLink e ttl ms token code"] CreateMagicLink_users [of e ttl ms token code d]
  by (auto simp: auth_inv_def has_admin_def)

text \<open>A change of one user keeps an administrator if it leaves that user one or there is another.\<close>

lemma list_ex_map: "list_ex P (map g xs) = list_ex (P \<circ> g) xs"
  by (induction xs) auto

lemma update_user_admin:
  assumes "has_admin d" "list_ex (\<lambda>r. active_admin r \<and> ur_id r \<noteq> uid) (t_users d) \<or> (\<forall>r. active_admin r \<longrightarrow> active_admin (f r))"
  shows "has_admin (snd (update_user uid f d))"
proof -
  from assms obtain r where "r \<in> set (t_users d)" "active_admin (if ur_id r = uid then f r else r)"
    by (auto simp: has_admin_def list_ex_iff)
  then show ?thesis
    unfolding has_admin_def update_user_def sql_update_def
    by (simp add: list_ex_map comp_def, auto simp: list_ex_iff split: if_splits)
qed

lemma another_admin:
  assumes "account_inv d" "CountActiveAdmins d > 1"
  shows "list_ex (\<lambda>r. active_admin r \<and> ur_id r \<noteq> uid) (t_users d)"
proof -
  have "length (filter active_admin (t_users d)) > 1"
    using assms(2) by (simp add: CountActiveAdmins_def sql_count_def)
  then obtain a b rest where ab: "filter active_admin (t_users d) = a # b # rest"
    by (cases "filter active_admin (t_users d)"; cases "tl (filter active_admin (t_users d))") auto
  have "uniq ur_id (t_users d)"
    using assms(1) by (simp add: account_inv_def db_ok_uniq)
  then have "uniq ur_id (filter active_admin (t_users d))"
    unfolding uniq_def by (rule distinct_map_filter)
  then have "ur_id a \<noteq> ur_id b" by (simp add: ab uniq_def)
  moreover have "a \<in> set (filter active_admin (t_users d))" "b \<in> set (filter active_admin (t_users d))"
    by (simp_all add: ab)
  ultimately show ?thesis by (auto simp: list_ex_iff)
qed

lemma more_admins:
  "ensureMoreThanOneActiveAdmin msg d = None \<Longrightarrow> account_inv d \<Longrightarrow> list_ex (\<lambda>r. active_admin r \<and> ur_id r \<noteq> uid) (t_users d)"
  using another_admin [of d uid] by (simp add: ensureMoreThanOneActiveAdmin_def split: if_splits)

lemma DeleteUser_users:
  "t_users (snd (DeleteUser uid d)) = t_users d \<or> t_users (snd (DeleteUser uid d)) = sql_delete (\<lambda>r. ur_id r = uid) (t_users d)"
  by (auto simp: DeleteUser_def Let_def delete_user_frame del_users_def split: sum.split)

lemma DeleteUser_auth:
  assumes "auth_inv d" "list_ex (\<lambda>r. active_admin r \<and> ur_id r \<noteq> uid) (t_users d)"
  shows "auth_inv (snd (DeleteUser uid d))"
  using assms DeleteUser_inv [of d uid] DeleteUser_users [of uid d]
  by (auto simp: auth_inv_def has_admin_def list_ex_iff)

lemma find_target:
  assumes "account_inv d" "findUserByID (ListUsers d) uid = Some u"
  obtains r where "r \<in> set (t_users d)" "ur_id r = uid" "u = scan_user_full r"
    "\<forall>x \<in> set (t_users d). ur_id x = uid \<longrightarrow> x = r"
proof -
  have "u \<in> scan_user_full ` set (t_users d)" "u_ID u = uid"
    using assms(2) find_Some_mem [of "\<lambda>u. u_ID u = uid" "ListUsers d" u] by (auto simp: findUserByID_def ListUsers_def)
  then obtain r where r: "r \<in> set (t_users d)" "ur_id r = uid" "u = scan_user_full r"
    by (auto simp: scan_user_full_def scan_user_flags_def scan_user_basic_def)
  moreover have "uniq ur_id (t_users d)"
    using assms(1) by (simp add: account_inv_def db_ok_uniq)
  ultimately show thesis
    using that [OF r] uniq_inj by metis
qed

lemma scan_user_full_simps [simp]:
  "u_ID (scan_user_full r) = ur_id r" "u_Role (scan_user_full r) = ur_role r" "u_Status (scan_user_full r) = ur_status r"
  "u_Email (scan_user_full r) = ur_email r"
  by (simp_all add: scan_user_full_def scan_user_flags_def scan_user_basic_def)

lemma not_admin_another:
  assumes "has_admin d" "\<And>x. x \<in> set (t_users d) \<Longrightarrow> ur_id x = uid \<Longrightarrow> \<not> active_admin x"
  shows "list_ex (\<lambda>r. active_admin r \<and> ur_id r \<noteq> uid) (t_users d)"
  using assms by (auto simp: has_admin_def list_ex_iff)


lemma password_step_auth:
  assumes "auth_inv d"
  shows "auth_inv (snd (SetUserPassword hash uid pw now d))"
proof -
  have users: "list_ex active_admin (t_users (snd (SetUserPasswordHash uid h now d)))" for h
  proof -
    have "has_admin (snd (update_user uid (\<lambda>r. r\<lparr>ur_password_hash := Some (TrimSpace h), ur_updated_at := now\<rparr>) d))"
      using assms by (intro update_user_admin) (simp_all add: auth_inv_def active_admin_def)
    with assms show ?thesis
      by (auto simp: SetUserPasswordHash_eq revoke_user_sessions_def has_admin_def auth_inv_def)
  qed
  show ?thesis
    using assms users PasswordHash_inv [of d uid _ now]
    by (auto simp: SetUserPassword_def auth_inv_def has_admin_def split: option.split prod.split)
      (metis snd_conv)+
qed

lemma apply_flags_auth: "auth_inv d \<Longrightarrow> auth_inv (apply_flags uid req now d)"
proof -
  have tx: "auth_inv (snd (SetUserTxEnabled uid b now d))" "auth_inv (snd (SetUserDispatcherEnabled uid b now d))"
    if "auth_inv d" for b d
    using that unfolding SetUserTxEnabled_def SetUserDispatcherEnabled_def auth_inv_def
    by (auto intro!: update_user_inv update_user_admin simp: active_admin_def)
  assume "auth_inv d"
  with tx show ?thesis by (auto simp: apply_flags_def Let_def split: option.split)
qed

lemma UpdateRole_auth:
  assumes "auth_inv d" "list_ex (\<lambda>r. active_admin r \<and> ur_id r \<noteq> uid) (t_users d) \<or> (role = ''admin'' \<and> status = ''active'')"
  shows "auth_inv (snd (UpdateUserRoleStatus uid role status now d))"
  using assms unfolding UpdateUserRoleStatus_def auth_inv_def
  by (auto intro!: update_user_inv update_user_admin simp: active_admin_def)

lemma auth_dests:
  "VerifyMagicLinkToken t now ttl sess d = (x, d') \<Longrightarrow> auth_inv d \<Longrightarrow> auth_inv d'"
  "VerifyMagicLinkCode e c now ttl sess d = (x, d') \<Longrightarrow> auth_inv d \<Longrightarrow> auth_inv d'"
  "CreateUserSession u now ttl sess d = (y, d') \<Longrightarrow> auth_inv d \<Longrightarrow> auth_inv d'"
  "ExtendSession t now ttl d = (z, d') \<Longrightarrow> auth_inv d \<Longrightarrow> auth_inv d'"
  "CreateMagicLinkToken e ttl ms token code d = (w, v, d') \<Longrightarrow> auth_inv d \<Longrightarrow> auth_inv d'"
  "SetUserPassword hash uid pw now d = (b, d') \<Longrightarrow> auth_inv d \<Longrightarrow> auth_inv d'"
  using session_steps_auth [of d] CreateMagicLink_auth [of d] password_step_auth [of d] by (metis snd_conv)+

lemma handleUpdateUser_auth:
  assumes "auth_inv d"
  shows "auth_inv (snd (handleUpdateUser ctx uid body now d))"
proof -
  have step: "auth_inv (snd (UpdateUserRoleStatus uid role status now d))"
    if target: "findUserByID (ListUsers d) uid = Some u" "ensureActiveAdminCanChange u role status d = None" for u role status
  proof -
    have inv: "account_inv d" "has_admin d" using assms by (simp_all add: auth_inv_def)
    from inv(1) target(1) obtain r where r: "r \<in> set (t_users d)" "ur_id r = uid" "u = scan_user_full r"
        "\<forall>x \<in> set (t_users d). ur_id x = uid \<longrightarrow> x = r" by (rule find_target)
    show ?thesis
    proof (cases "active_admin r")
      case True
      with target(2) r(3) have "role = ''admin'' \<and> status = ''active'' \<or>
          ensureMoreThanOneActiveAdmin ''cannot remove the last active admin'' d = None"
        by (auto simp: ensureActiveAdminCanChange_def active_admin_def split: if_splits)
      with more_admins [OF _ inv(1), of _ uid] show ?thesis
        by (intro UpdateRole_auth assms) blast
    next
      case False
      with r(4) have "\<not> active_admin x" if "x \<in> set (t_users d)" "ur_id x = uid" for x
        using that by auto
      from not_admin_another [OF inv(2) this] show ?thesis
        by (intro UpdateRole_auth assms) blast
    qed
  qed
  then have step': "auth_inv d1" if "findUserByID (ListUsers d) uid = Some u"
      "ensureActiveAdminCanChange u role status d = None" "UpdateUserRoleStatus uid role status now d = (x, d1)" for u role status x d1
    using that by (metis snd_conv)
  show ?thesis
  proof (cases "requireAdmin ctx :: auth_body reply + authUser"; cases body)
    fix admin req assume ctx: "requireAdmin ctx = (Inr admin :: auth_body reply + authUser)" "body = Some req"
    let ?role = "normalizeUserRole (uu_Role req)" and ?status = "normalizeUserStatus (uu_Status req)"
    show ?thesis
    proof (cases "findUserByID (ListUsers d) uid")
      case (Some u)
      obtain x d1 where u: "UpdateUserRoleStatus uid ?role ?status now d = (x, d1)" by fastforce
      show ?thesis
      proof (cases "ensureActiveAdminCanChange u ?role ?status d")
        case None
        have "auth_inv d1" by (rule step' [OF Some None u])
        with ctx Some None u assms show ?thesis
          by (cases x) (simp_all add: handleUpdateUser_def Let_def apply_flags_auth)
      qed (use ctx Some assms in \<open>simp add: handleUpdateUser_def Let_def\<close>)
    qed (use ctx assms in \<open>simp add: handleUpdateUser_def Let_def\<close>)
  qed (use assms in \<open>simp_all add: handleUpdateUser_def\<close>)
qed

lemma handleDeleteUser_auth:
  assumes "auth_inv d"
  shows "auth_inv (snd (handleDeleteUser ctx uid now d))"
proof -
  have inv: "account_inv d" "has_admin d" using assms by (simp_all add: auth_inv_def)
  have step: "auth_inv (snd (DeleteUser uid d))"
    if target: "findUserByID (ListUsers d) uid = Some u"
      "(if u_Role u = ''admin'' \<and> u_Status u = ''active''
        then ensureMoreThanOneActiveAdmin ''cannot delete the last active admin'' d else None) = None" for u
  proof -
    from inv(1) target(1) obtain r where r: "r \<in> set (t_users d)" "ur_id r = uid" "u = scan_user_full r"
        "\<forall>x \<in> set (t_users d). ur_id x = uid \<longrightarrow> x = r" by (rule find_target)
    show ?thesis
    proof (cases "active_admin r")
      case True
      with target(2) r(3) more_admins [OF _ inv(1), of _ uid] show ?thesis
        by (intro DeleteUser_auth assms) (auto simp: active_admin_def split: if_splits)
    next
      case False
      with r(4) have "\<not> active_admin x" if "x \<in> set (t_users d)" "ur_id x = uid" for x
        using that by auto
      from not_admin_another [OF inv(2) this] show ?thesis
        by (intro DeleteUser_auth assms)
    qed
  qed
  then have step': "auth_inv d1" if "findUserByID (ListUsers d) uid = Some u"
      "(if u_Role u = ''admin'' \<and> u_Status u = ''active''
        then ensureMoreThanOneActiveAdmin ''cannot delete the last active admin'' d else None) = None"
      "DeleteUser uid d = (x, d1)" for u x d1
    using that by (metis snd_conv)
  show ?thesis
    unfolding handleDeleteUser_def
    by (simp split: sum.split option.split prod.split bool.split) (use assms step' in force)
qed

text \<open>
  A user who deletes their own account: the count is only checked when their role is administrator, and a user in
  the context is always an active one.
\<close>

lemma context_user:
  assumes "withUserContext rq now d = Some u"
  obtains r where "r \<in> set (t_users d)" "ur_id r = au_ID u" "au_Role u = ur_role r" "ur_status r = ''active''"
  using assms by (auto simp: withUserContext_def Let_def toAuthUser_def scan_user_flags_def scan_user_basic_def
      split: if_splits elim!: GetUser_session)

lemma handleDeleteMyAccount_auth:
  assumes "auth_inv d" "\<And>u. ctx = Some u \<Longrightarrow> \<exists>r \<in> set (t_users d). ur_id r = au_ID u \<and> au_Role u = ur_role r"
  shows "auth_inv (snd (handleDeleteMyAccount ctx rq now d))"
proof (cases ctx)
  case None
  then show ?thesis using assms(1) by (simp add: handleDeleteMyAccount_def requireAuthenticated_def)
next
  case (Some u)
  let ?chk = "if au_Role u = ''admin'' then ensureMoreThanOneActiveAdmin ''cannot delete the last active admin account'' d else None"
  let ?d1 = "audit (au_ID u) ''auth.account_deleted'' ''user'' (au_ID u) [(''email'', JString (au_Email u))] now d"
  show ?thesis
  proof (cases ?chk)
    case None
    have inv: "account_inv d" "has_admin d" using assms(1) by (simp_all add: auth_inv_def)
    obtain r where r: "r \<in> set (t_users d)" "ur_id r = au_ID u" "au_Role u = ur_role r"
      using assms(2) [OF Some] by blast
    have "list_ex (\<lambda>r. active_admin r \<and> ur_id r \<noteq> au_ID u) (t_users d)"
    proof (cases "au_Role u = ''admin''")
      case True
      with None more_admins [OF _ inv(1)] show ?thesis by simp
    next
      case False
      have "uniq ur_id (t_users d)" using inv(1) by (simp add: account_inv_def db_ok_uniq)
      from uniq_inj [OF this _ r(1)] r have "\<not> active_admin x" if "x \<in> set (t_users d)" "ur_id x = au_ID u" for x
        using that False by (metis active_admin_def)
      from not_admin_another [OF inv(2) this] show ?thesis .
    qed
    then have "auth_inv (snd (DeleteUser (au_ID u) ?d1))"
      using assms(1) by (intro DeleteUser_auth) simp_all
    then show ?thesis
      unfolding handleDeleteMyAccount_def using Some None
      by (auto simp: requireAuthenticated_def Let_def split: sum.split prod.split bool.split intro: session_steps_auth)
  next
    case (Some e)
    then show ?thesis
      using assms(1) \<open>ctx = Some u\<close> by (simp add: handleDeleteMyAccount_def requireAuthenticated_def)
  qed
qed

lemma verify_reply_auth: "auth_inv (snd res) \<Longrightarrow> auth_inv (snd (verify_reply res now))"
  by (auto simp: verify_reply_def issueSession_def split: prod.split sum.split)

lemma serve_auth_inv: "auth_inv d \<Longrightarrow> auth_inv (snd (serve_auth env x d))"
proof (cases x)
  case (ADeleteMe rq now)
  assume "auth_inv d"
  with ADeleteMe show ?thesis
    by (auto intro!: handleDeleteMyAccount_auth elim: context_user)
qed (auto simp: handlePasswordLogin_def issueSession_def handleRequestMagicLink_def writeCreateMagicLinkError_def
    handleLogout_def handleRefreshSession_def handleSetUserPassword_def
    handleVerifyMagicLink_def handleVerifyMagicCode_def Let_def handleUpdateUser_auth handleDeleteUser_auth
    dest: auth_dests intro!: verify_reply_auth session_steps_auth
    split: option.split sum.split prod.split bool.split db_error.split)

definition auth_step :: "auth_env \<Rightarrow> auth_request \<Rightarrow> db \<Rightarrow> db" where
  "auth_step env x d = snd (serve_auth env x d)"

interpretation auth: invariant_store auth_inv "auth_step env" for env
  by unfold_locales (simp add: auth_step_def serve_auth_inv)


section \<open>Properties\<close>

definition example_env :: auth_env where
  "example_env = \<lparr>env_config = \<lparr>cfg_AppEnv = ''production'', cfg_AuthPasswordLoginEnabled = True\<rparr>,
     env_bcrypt_ok = (\<lambda>h p. h = ''h'' @ p @ ''h''), env_bcrypt_hash = (\<lambda>p. Some (''h'' @ p @ ''h'')),
     env_send = (\<lambda>_ _ _. None)\<rparr>"

lemma example_auth_inv: "auth_inv example_db"
proof -
  have "has_admin example_db"
    by (simp add: example_db_eq has_admin_def active_admin_def new_user_row_def)
  then show ?thesis using example_db_inv by (simp add: auth_inv_def)
qed

text \<open>
  Property C27. Whatever requests arrive in whatever order - sign-ins, sign-outs, changes and deletions of users,
  users deleting themselves - the constraints of the schema hold and an active administrator is left.
\<close>

theorem last_admin_kept:
  "auth_inv d \<Longrightarrow> auth_inv (run (auth_step env) reqs d)"
  by (rule auth.run_inv)

theorem last_admin_kept_witness:
  "auth_inv (run (auth_step example_env) [AVerifyLink ''ml'' 8 ''s1'', ADeleteMe \<lparr>rq_cookie = Some ''s1'', rq_authorization = []\<rparr> 9]
     example_db)"
  by (rule last_admin_kept) (rule example_auth_inv)

definition admin_request :: "auth_request \<Rightarrow> http_request \<Rightarrow> int \<Rightarrow> bool" where
  "admin_request x rq now \<longleftrightarrow> (case x of AUpdateUser rq' _ _ t \<Rightarrow> rq' = rq \<and> t = now
     | ASetPassword rq' _ _ t \<Rightarrow> rq' = rq \<and> t = now | ADeleteUser rq' _ t \<Rightarrow> rq' = rq \<and> t = now | _ \<Rightarrow> False)"

definition admin_session :: "http_request \<Rightarrow> int \<Rightarrow> db \<Rightarrow> bool" where
  "admin_session rq now d \<longleftrightarrow> list_ex (\<lambda>s. ss_token s = sessionTokenFromRequest rq \<and> session_valid now s \<and>
     list_ex (\<lambda>r. ur_id r = ss_user_id s \<and> active_admin r) (t_users d)) (t_sessions d)"

lemma admin_context:
  assumes "withUserContext rq now d = Some u" "isAdmin u"
  shows "admin_session rq now d"
proof -
  obtain v where v: "GetUserBySessionToken (sessionTokenFromRequest rq) now d = Some v" "u = toAuthUser v"
    using assms(1) by (auto simp: withUserContext_def Let_def split: if_splits)
  from v(1) show ?thesis
    by (cases rule: GetUser_session)
      (use assms(2) v(2) in \<open>auto simp: admin_session_def list_ex_iff active_admin_def isAdmin_def toAuthUser_def
        scan_user_flags_def scan_user_basic_def\<close>)
qed

lemma requireAdmin_none: "\<not> (\<exists>u. ctx = Some u \<and> isAdmin u) \<Longrightarrow>
    \<exists>e. requireAdmin ctx = Inl e \<and> reply_code (e :: 'a reply) \<in> {401, 403}"
  by (cases ctx) (auto simp: requireAdmin_def requireAuthenticated_def)

text \<open>
  A request to change, delete or set the password of a user that does not carry a live
  session of an active administrator is answered 401 or 403 and changes nothing.
\<close>

theorem user_admin_guarded:
  assumes "admin_request x rq now" "\<not> admin_session rq now d"
  shows "reply_code (fst (serve_auth env x d)) \<in> {401, 403} \<and> snd (serve_auth env x d) = d"
proof -
  obtain e where e: "requireAdmin (withUserContext rq now d) = (Inl e :: auth_body reply + authUser)" "reply_code e \<in> {401, 403}"
    using requireAdmin_none [of "withUserContext rq now d"] admin_context assms(2) by metis
  then show ?thesis
    using assms(1) by (cases x) (auto simp: admin_request_def handleUpdateUser_def handleSetUserPassword_def handleDeleteUser_def)
qed

theorem user_admin_guarded_witness:
  "reply_code (fst (serve_auth example_env (ADeleteUser \<lparr>rq_cookie = Some ''x'', rq_authorization = []\<rparr> ''usr_5000'' 9) example_db))
     \<in> {401, 403}"
proof -
  have "admin_request (ADeleteUser \<lparr>rq_cookie = Some ''x'', rq_authorization = []\<rparr> ''usr_5000'' 9)
      \<lparr>rq_cookie = Some ''x'', rq_authorization = []\<rparr> 9"
    by (simp add: admin_request_def)
  from user_admin_guarded [OF this, of example_db example_env] show ?thesis
    by (simp add: admin_session_def example_db_eq empty_db_def)
qed

lemma RevokeSession_sessions:
  "t_sessions (RevokeSession k now d) = sql_update (\<lambda>s. ss_token s = k) (\<lambda>s. s\<lparr>ss_revoked_at := now\<rparr>) (t_sessions d)"
  by (simp add: RevokeSession_def)

lemma GetUser_frame:
  "t_sessions d' = t_sessions d \<Longrightarrow> t_users d' = t_users d \<Longrightarrow> GetUserBySessionToken k t d' = GetUserBySessionToken k t d"
  by (simp add: GetUserBySessionToken_def split: option.split)

text \<open>
  Signing out with the session cookie ends the session: its token authenticates nobody
  any more. Signing out with a bearer token ends nothing: the token goes on authenticating as before.
\<close>

theorem logout_ends_cookie_session:
  "(rq_cookie rq = Some v \<and> TrimSpace v \<noteq> [] \<and> now \<noteq> 0 \<longrightarrow>
      GetUserBySessionToken v t (snd (handleLogout ctx rq now d)) = None) \<and>
   (rq_cookie rq = None \<longrightarrow> withUserContext rq t (snd (handleLogout ctx rq now d)) = withUserContext rq t d)"
proof (intro conjI impI)
  assume a: "rq_cookie rq = Some v \<and> TrimSpace v \<noteq> [] \<and> now \<noteq> 0"
  have "\<not> (ss_token s = v \<and> session_valid t s)" if s: "s \<in> set (t_sessions (RevokeSession v now d1))" for s d1
  proof -
    obtain y where "s = (if ss_token y = v then y\<lparr>ss_revoked_at := now\<rparr> else y)"
      using s unfolding RevokeSession_sessions set_sql_update by blast
    with a show ?thesis by (auto simp: session_valid_def split: if_splits)
  qed
  then have "GetUserBySessionToken v t (RevokeSession v now d1) = None" for d1
    by (simp add: GetUserBySessionToken_def find_None_iff [THEN iffD2])
  with a show "GetUserBySessionToken v t (snd (handleLogout ctx rq now d)) = None"
    by (simp add: handleLogout_def Let_def)
next
  assume "rq_cookie rq = None"
  then have "GetUserBySessionToken k t (snd (handleLogout ctx rq now d)) = GetUserBySessionToken k t d" for k
    by (auto simp: handleLogout_def Let_def intro!: GetUser_frame split: option.split)
  then show "withUserContext rq t (snd (handleLogout ctx rq now d)) = withUserContext rq t d"
    by (simp add: withUserContext_def Let_def)
qed

theorem logout_ends_cookie_session_witness:
  "let d = snd (VerifyMagicLinkToken ''ml'' 8 60 ''s'' example_db);
       bearer = \<lparr>rq_cookie = None, rq_authorization = ''Bearer s''\<rparr>; cookie = \<lparr>rq_cookie = Some ''s'', rq_authorization = []\<rparr>
   in GetUserBySessionToken ''s'' 10 (snd (handleLogout (withUserContext cookie 9 d) cookie 9 d)) = None \<and>
      (\<exists>u. withUserContext bearer 10 (snd (handleLogout (withUserContext bearer 9 d) bearer 9 d)) = Some u)"
proof -
  let ?d = "snd (VerifyMagicLinkToken ''ml'' 8 60 ''s'' example_db)"
  have trim: "TrimSpace ''s'' = ''s''" by code_simp
  have tok: "sessionTokenFromRequest \<lparr>rq_cookie = None, rq_authorization = ''Bearer s''\<rparr> = ''s''" by code_simp
  have "\<exists>u. withUserContext \<lparr>rq_cookie = None, rq_authorization = ''Bearer s''\<rparr> 10 ?d = Some u"
    unfolding withUserContext_def tok
    by (simp add: example_db_eq account_eval GetUserBySessionToken_def session_valid_def)
  with logout_ends_cookie_session [of "\<lparr>rq_cookie = Some ''s'', rq_authorization = []\<rparr>" "''s''" 9 10
      "withUserContext \<lparr>rq_cookie = Some ''s'', rq_authorization = []\<rparr> 9 ?d" ?d]
    logout_ends_cookie_session [of "\<lparr>rq_cookie = None, rq_authorization = ''Bearer s''\<rparr>" "''s''" 9 10
      "withUserContext \<lparr>rq_cookie = None, rq_authorization = ''Bearer s''\<rparr> 9 ?d" ?d]
  show ?thesis by (simp add: trim Let_def)
qed


text \<open>
  What the code relies on of the bcrypt package: a hash it made matches the password it was made from and no other, and is
  a non-empty text without white space around it.
\<close>

definition bcrypt_contract :: "auth_env \<Rightarrow> bool" where
  "bcrypt_contract env \<longleftrightarrow> (\<forall>p h. env_bcrypt_hash env p = Some h \<longrightarrow>
     TrimSpace h = h \<and> h \<noteq> [] \<and> (\<forall>q. env_bcrypt_ok env h q \<longleftrightarrow> q = p))"

lemma password_stored:
  assumes "SetUserPassword hash uid pw now d = (Inr True, d1)"
  obtains h where "hash pw = Some h" "TrimSpace h \<noteq> []"
    "t_users d1 = sql_update (\<lambda>r. ur_id r = uid) (\<lambda>r. r\<lparr>ur_password_hash := Some (TrimSpace h), ur_updated_at := now\<rparr>) (t_users d)"
    "ss_token ` set (t_sessions d1) = ss_token ` set (t_sessions d)"
  using assms by (auto simp: SetUserPassword_def SetUserPasswordHash_eq revoke_user_sessions_def update_user_def
      image_sql_update split: option.splits if_splits)

lemma CreateUserSession_fresh:
  assumes "sess \<notin> ss_token ` set (t_sessions d)" "user_exists d uid"
  shows "\<exists>d'. CreateUserSession uid now ttl sess d = (Inr sess, d')"
  using assms by (simp add: CreateUserSession_def ins_sessions_def)

lemma login_reply:
  assumes "cfg_AuthPasswordLoginEnabled cfg" "valid_email e" "ToLower (TrimSpace e) = e" "TrimSpace pw \<noteq> []"
    and "find_user_by_email e d = Some r" "ur_status r = ''active''" "ur_password_hash r = Some h" "TrimSpace h \<noteq> []"
    and "sess \<notin> ss_token ` set (t_sessions d)" "ur_id r \<in> ur_id ` set (t_users d)"
  shows "fst (handlePasswordLogin cfg ok (Some (e, pw)) t sess d) =
    (if ok h (TrimSpace pw) then Reply 200 (SessionBody (toAuthUser (scan_user_flags r)) sess) else Fail 401 ''invalid credentials'')"
proof -
  have "VerifyUserPassword ok e (TrimSpace pw) d = (if ok h (TrimSpace pw) then Inr (scan_user_flags r) else Inl NoRows)"
    using assms by (simp add: VerifyUserPassword_def Let_def normalize_email_def valid_email_def)
  moreover obtain d' where "CreateUserSession (u_ID (scan_user_flags r)) t day sess d = (Inr sess, d')"
    using CreateUserSession_fresh [OF assms(9), of "ur_id r" t day] assms(10)
    by (auto simp: user_exists_def scan_user_flags_def scan_user_basic_def)
  ultimately show ?thesis
    using assms(1-4) by (simp add: handlePasswordLogin_def Let_def issueSession_def writePasswordLoginError_def)
qed

text \<open>
  A password an administrator sets for an active user signs that user in exactly when it has no white space
  at its ends: the password is hashed as sent, and trimmed before it is compared at sign-in.
\<close>

theorem set_password_then_login:
  assumes "bcrypt_contract env" "account_inv d" "r \<in> set (t_users d)" "ur_status r = ''active''" "valid_email (ur_email r)"
    and "handleSetUserPassword (env_config env) (env_bcrypt_hash env) ctx (ur_id r) (Some pw) now d = (Reply 200 b, d1)"
    and "sess \<notin> ss_token ` set (t_sessions d)"
  shows "(\<exists>u. fst (handlePasswordLogin (env_config env) (env_bcrypt_ok env) (Some (ur_email r, pw)) t sess d1) =
      Reply 200 (SessionBody u sess) \<and> au_ID u = ur_id r) \<longleftrightarrow> TrimSpace pw = pw"
proof -
  obtain d0 where d0: "SetUserPassword (env_bcrypt_hash env) (ur_id r) pw now d = (Inr True, d0)"
    and d1: "t_users d1 = t_users d0" "t_sessions d1 = t_sessions d0"
    and cfg: "cfg_AuthPasswordLoginEnabled (env_config env)" and valid: "validateUserPassword pw = []"
    using assms(6) by (auto simp: handleSetUserPassword_def requireAdmin_def requireAuthenticated_def
        split: if_splits sum.splits option.splits prod.splits bool.splits)
  from d0 obtain h where h: "env_bcrypt_hash env pw = Some h" "TrimSpace h \<noteq> []"
    "t_users d0 = sql_update (\<lambda>x. ur_id x = ur_id r) (\<lambda>x. x\<lparr>ur_password_hash := Some (TrimSpace h), ur_updated_at := now\<rparr>) (t_users d)"
    "ss_token ` set (t_sessions d0) = ss_token ` set (t_sessions d)" by (rule password_stored)
  let ?r = "r\<lparr>ur_password_hash := Some (TrimSpace h), ur_updated_at := now\<rparr>"
  have "List.find (\<lambda>x. ur_email x = ur_email r) (t_users d) = Some r"
    using assms(2,3) by (intro find_uniq) (auto simp: account_inv_def db_ok_uniq)
  then have found: "find_user_by_email (ur_email r) d1 = Some ?r"
    unfolding find_user_by_email_def d1 h(3) by (subst find_sql_update_key) simp_all
  have mem: "?r \<in> set (t_users d1)"
    using found by (auto simp: find_user_by_email_def dest: find_Some_mem)
  have fresh: "sess \<notin> ss_token ` set (t_sessions d1)" using assms(7) by (simp only: d1 h(4) simp_thms)
  have hash: "TrimSpace h = h" "env_bcrypt_ok env h q \<longleftrightarrow> q = pw" for q
    using assms(1) h(1) unfolding bcrypt_contract_def by auto
  have "ToLower (TrimSpace (ur_email r)) = ur_email r"
    using assms(2,3) by (auto simp: account_inv_def emails_ok_def list_all_iff normalize_email_def)
  moreover have "TrimSpace pw \<noteq> []" using valid by (auto simp: validateUserPassword_def Let_def)
  ultimately have "fst (handlePasswordLogin (env_config env) (env_bcrypt_ok env) (Some (ur_email r, pw)) t sess d1) =
    (if env_bcrypt_ok env h (TrimSpace pw) then Reply 200 (SessionBody (toAuthUser (scan_user_flags ?r)) sess)
     else Fail 401 ''invalid credentials'')"
    using login_reply [OF cfg assms(5) _ _ found, of pw h sess "env_bcrypt_ok env" t] assms(4) fresh h(2) hash(1) imageI [OF mem, of ur_id]
    by simp
  then show ?thesis by (auto simp: hash toAuthUser_def scan_user_flags_def scan_user_basic_def)
qed

theorem set_password_then_login_witness:
  "let admin = Some \<lparr>au_ID = ''usr_5000'', au_Email = ''a@x'', au_Role = ''admin'', au_TxEnabled = False, au_DispatcherEnabled = False\<rparr>;
       d1 = snd (handleSetUserPassword (env_config example_env) (env_bcrypt_hash example_env) admin ''usr_5000'' (Some '' secret123'') 9 example_db)
   in \<not> (\<exists>u. fst (handlePasswordLogin (env_config example_env) (env_bcrypt_ok example_env) (Some (''a@x'', '' secret123'')) 10 ''s'' d1) =
        Reply 200 (SessionBody u ''s'') \<and> au_ID u = ''usr_5000'')"
proof -
  let ?admin = "Some \<lparr>au_ID = ''usr_5000'', au_Email = ''a@x'', au_Role = ''admin'', au_TxEnabled = False, au_DispatcherEnabled = False\<rparr>"
  let ?r = "new_user_row ''usr_5000'' ''a@x'' ''admin'' ''active'' None 5"
  have sp: "\<not> is_space (CHR ''h'')" by code_simp
  have trim_h: "TrimSpace (''h'' @ p @ ''h'') = ''h'' @ p @ ''h''" for p
    using sp by (simp add: TrimSpace_def)
  have contract: "bcrypt_contract example_env"
    using trim_h by (auto simp: bcrypt_contract_def example_env_def)
  have trim: "TrimSpace '' secret123'' = ''secret123''" "TrimSpace ''usr_5000'' = ''usr_5000''" by code_simp+
  obtain b d1 where d1: "handleSetUserPassword (env_config example_env) (env_bcrypt_hash example_env) ?admin ''usr_5000''
      (Some '' secret123'') 9 example_db = (Reply 200 b, d1)"
    using trim_h [of "'' secret123''"]
    by (simp add: handleSetUserPassword_def example_env_def requireAdmin_def requireAuthenticated_def isAdmin_def trim
        validateUserPassword_def Let_def findUserByID_def ListUsers_def order_asc_def example_db_eq SetUserPassword_def
        SetUserPasswordHash_eq update_user_def revoke_user_sessions_def sql_count_def new_user_row_def)
  have "valid_email ''a@x''" by (simp add: valid_email_def)
  from set_password_then_login [OF contract example_db_inv, of ?r ?admin "'' secret123''" 9 b d1 "''s''" 10] this d1
  show ?thesis
    by (simp add: trim example_db_eq new_user_row_def Let_def empty_db_def)
qed

text \<open>
  A sign-in that succeeds writes its session token, as it authenticates, into the audit log.
\<close>

theorem login_token_in_audit:
  assumes "account_inv d" "handleVerifyMagicLink q now sess d = (Reply 200 (SessionBody u st), d')" "now \<le> t" "t \<le> now + day"
  shows "\<exists>a v. a \<in> set (t_audit d') \<and> al_target_id a = st \<and> GetUserBySessionToken st t d' = Some v \<and> u_ID v = au_ID u"
proof -
  obtain v d1 where v: "VerifyMagicLinkToken (TrimSpace q) now day sess d = (Inr (v, st), d1)" "u = toAuthUser v"
      "d' = audit (u_ID v) ''auth.login'' ''session'' st [(''email'', JString (u_Email v))] now d1"
    using assms(2) by (auto simp: handleVerifyMagicLink_def verify_reply_def issueSession_def writeVerifyError_def Let_def
        split: if_splits sum.splits prod.splits db_error.splits)
  obtain w where w: "GetUserBySessionToken st t d1 = Some w" "u_ID w = u_ID v"
    using sign_in_session [OF assms(1) disjI1 [OF v(1)] assms(3,4)] by blast
  from w(1) have "user_exists d1 (u_ID w)"
    by (cases rule: GetUser_session) (auto simp: user_exists_def scan_user_flags_def scan_user_basic_def intro: rev_image_eqI)
  then have "user_ref_ok d1 (nullableString (u_ID v))"
    using w(2) by (simp add: user_ref_ok_def nullableString_def)
  then have "\<exists>a \<in> set (t_audit d'). al_target_id a = st"
    by (auto simp: v(3) audit_def AppendAuditLog_def ins_audit_def)
  moreover have "GetUserBySessionToken st t d' = Some w"
    using w(1) GetUser_frame [of d' d1] by (simp add: v(3))
  ultimately show ?thesis
    using w(2) v(2) by (auto simp: toAuthUser_def)
qed

theorem login_token_in_audit_witness:
  "\<exists>u a d'. handleVerifyMagicLink ''ml'' 8 ''s'' example_db = (Reply 200 (SessionBody u ''s''), d') \<and>
     a \<in> set (t_audit d') \<and> al_target_id a = ''s''"
proof -
  have trim: "TrimSpace ''ml'' = ''ml''" by code_simp
  obtain u d' where l: "handleVerifyMagicLink ''ml'' 8 ''s'' example_db = (Reply 200 (SessionBody u ''s''), d')"
    by (simp add: handleVerifyMagicLink_def trim verify_reply_def issueSession_def example_db_eq account_eval)
  from login_token_in_audit [OF example_db_inv l, of 8] show ?thesis using l by (auto simp: day_def)
qed

end
