(* ===== verification/HubApi.thy ===== *)
theory HubApi
  imports Hubs AuthApi
begin

text \<open>
  \<open>server/internal/api/hub_identity.go\<close>: the handlers of the hub's identity, its directory entry, its invites and
  its peers. The configuration of the process, new ids and tokens, the key pair the generator draws, the parsing of
  URLs and what the remote hubs and the directory answer are arguments.
\<close>

section \<open>The identity and the configuration\<close>

record hub_config =
  cfg_HubName :: string
  cfg_HubPublicURL :: string
  cfg_HubRegion :: string
  cfg_HubContact :: string
  cfg_HubFederation :: bool
  cfg_HubTrustLevel :: string
  cfg_HubTrustIssuer :: string
  cfg_HubTrustCert :: string
  cfg_HubTrustExpires :: int

definition zero_identity :: HubIdentity where
  "zero_identity = \<lparr>hd_hub_id = [], hd_name = [], hd_public_url = [], hd_region = [], hd_contact = [], hd_public_key = [],
     hd_private_key = [], hd_federation_enabled = False, hd_directory_validation_status = [], hd_trust_level = [],
     hd_trust_issuer_hub_id = [], hd_trust_certificate = [], hd_trust_expires_at = 0, hd_trust_verified_at = 0,
     hd_incident_management_enabled = False, hd_incident_handler_hub_id = [], hd_incident_auto_suggest = False,
     hd_incident_auto_open = False, hd_incident_watch_areas = [], hd_incident_watch_point_lat = 0,
     hd_incident_watch_point_lon = 0, hd_incident_watch_radius_km = 0, hd_incident_system_labels = [],
     hd_created_at = 0, hd_updated_at = 0\<rparr>"

definition configured_trust :: "hub_config \<Rightarrow> bool" where
  "configured_trust cfg \<longleftrightarrow> TrimSpace (cfg_HubTrustLevel cfg) \<noteq> [] \<and> TrimSpace (cfg_HubTrustLevel cfg) \<noteq> ''community''"

definition configuredHubIdentity :: "hub_config \<Rightarrow> HubIdentity \<Rightarrow> HubIdentity" where
  "configuredHubIdentity cfg h =
     (let h1 = h\<lparr>hd_name := (if cfg_HubName cfg \<noteq> [] then cfg_HubName cfg else hd_name h),
                 hd_public_url := (if cfg_HubPublicURL cfg \<noteq> [] then cfg_HubPublicURL cfg else hd_public_url h),
                 hd_region := (if cfg_HubRegion cfg \<noteq> [] then cfg_HubRegion cfg else hd_region h),
                 hd_contact := (if cfg_HubContact cfg \<noteq> [] then cfg_HubContact cfg else hd_contact h),
                 hd_federation_enabled := (cfg_HubFederation cfg \<or> hd_federation_enabled h)\<rparr> in
      if configured_trust cfg then h1\<lparr>hd_trust_level := TrimSpace (cfg_HubTrustLevel cfg),
        hd_trust_issuer_hub_id := cfg_HubTrustIssuer cfg, hd_trust_certificate := cfg_HubTrustCert cfg,
        hd_trust_expires_at := cfg_HubTrustExpires cfg\<rparr> else h1)"

definition same_configured :: "HubIdentity \<Rightarrow> HubIdentity \<Rightarrow> bool" where
  "same_configured u h \<longleftrightarrow> hd_name u = hd_name h \<and> hd_public_url u = hd_public_url h \<and> hd_region u = hd_region h \<and>
     hd_contact u = hd_contact h \<and> hd_federation_enabled u = hd_federation_enabled h \<and>
     hd_trust_level u = hd_trust_level h \<and> hd_trust_issuer_hub_id u = hd_trust_issuer_hub_id h \<and>
     hd_trust_certificate u = hd_trust_certificate h \<and> hd_trust_expires_at u = hd_trust_expires_at h"

definition ensureConfiguredHubIdentity :: "hub_config \<Rightarrow> HubIdentity \<Rightarrow> int \<Rightarrow> db \<Rightarrow> HubIdentity \<times> db" where
  "ensureConfiguredHubIdentity cfg h now d =
     (let u = configuredHubIdentity cfg h in if same_configured u h then (h, d) else UpsertHubIdentity u [] now d)"

definition ensureHubIdentity :: "hub_config \<Rightarrow> string \<Rightarrow> int \<Rightarrow> db \<Rightarrow> HubIdentity \<times> db" where
  "ensureHubIdentity cfg fresh now d =
     (case GetHubIdentity d of
        Some h \<Rightarrow> ensureConfiguredHubIdentity cfg h now d
      | None \<Rightarrow> UpsertHubIdentity (zero_identity\<lparr>hd_hub_id := fresh, hd_name := cfg_HubName cfg,
          hd_public_url := cfg_HubPublicURL cfg, hd_region := cfg_HubRegion cfg, hd_contact := cfg_HubContact cfg,
          hd_federation_enabled := cfg_HubFederation cfg, hd_directory_validation_status := ''unverified'',
          hd_trust_level := cfg_HubTrustLevel cfg, hd_trust_issuer_hub_id := cfg_HubTrustIssuer cfg,
          hd_trust_certificate := cfg_HubTrustCert cfg, hd_trust_expires_at := cfg_HubTrustExpires cfg\<rparr>) [] now d)"

datatype hub_body =
    IdentityBody HubIdentity
  | InvitesBody "HubInvite list"
  | InviteBody HubInvite
  | PeersBody "HubPeer list"
  | PeerBody HubPeer
  | AcceptedBody HubIdentity HubPeer
  | NoContent

definition handleGetHubIdentity :: "hub_config \<Rightarrow> authUser option \<Rightarrow> string \<Rightarrow> int \<Rightarrow> db \<Rightarrow> hub_body reply \<times> db" where
  "handleGetHubIdentity cfg ctx fresh now d =
     (case requireAuthenticated ctx of Inl e \<Rightarrow> (e, d)
      | Inr _ \<Rightarrow> (case ensureHubIdentity cfg fresh now d of (h, d1) \<Rightarrow> (Reply 200 (IdentityBody h), d1)))"

record updateHubIdentityRequest =
  ui_Name :: string
  ui_PublicURL :: string
  ui_Region :: string
  ui_Contact :: string
  ui_FederationEnabled :: bool

definition requested_identity :: "updateHubIdentityRequest \<Rightarrow> HubIdentity \<Rightarrow> HubIdentity" where
  "requested_identity req h = h\<lparr>
     hd_name := (if TrimSpace (ui_Name req) = [] then ''SignalForge Hub'' else TrimSpace (ui_Name req)),
     hd_public_url := TrimSpace (ui_PublicURL req), hd_region := TrimSpace (ui_Region req),
     hd_contact := TrimSpace (ui_Contact req), hd_federation_enabled := ui_FederationEnabled req\<rparr>"

definition handleUpdateHubIdentity ::
  "hub_config \<Rightarrow> authUser option \<Rightarrow> updateHubIdentityRequest option \<Rightarrow> string \<Rightarrow> int \<Rightarrow> db \<Rightarrow> hub_body reply \<times> db" where
  "handleUpdateHubIdentity cfg ctx body fresh now d =
     (case requireAdmin ctx of Inl e \<Rightarrow> (e, d)
      | Inr admin \<Rightarrow> (case ensureHubIdentity cfg fresh now d of (h, d1) \<Rightarrow>
          (case body of None \<Rightarrow> (Fail 400 ''invalid json'', d1)
           | Some req \<Rightarrow> (case UpsertHubIdentity (requested_identity req h) [] now d1 of (saved, d2) \<Rightarrow>
               (Reply 200 (IdentityBody saved), audit (au_ID admin) ''hub.identity_updated'' ''hub'' (hd_hub_id saved)
                 [(''name'', JString (hd_name saved)), (''publicUrl'', JString (hd_public_url saved)),
                  (''region'', JString (hd_region saved)), (''federationEnabled'', JBool (hd_federation_enabled saved))] now d2)))))"

section \<open>The directory\<close>

record hubDirectoryEntry =
  de_HubID :: string
  de_DirectoryStatus :: string
  de_TrustLevel :: string
  de_TrustIssuerHubID :: string
  de_TrustCertificate :: string
  de_TrustExpiresAt :: int
  de_TrustVerifiedAt :: int

record hubDirectoryFeed =
  df_Issuer :: string
  df_Hubs :: "hubDirectoryEntry list"

definition directory_statuses :: "string list" where
  "directory_statuses = [''listed'', ''verified'', ''suspended'', ''unlisted'']"

definition normalizeDirectoryStatus :: "string \<Rightarrow> string" where
  "normalizeDirectoryStatus v = (let t = ToLower (TrimSpace v) in if t \<in> set directory_statuses then t else ''unverified'')"

definition trust_levels :: "string list" where
  "trust_levels = [''listed'', ''verified'', ''trusted'', ''official'', ''suspended'']"

definition normalizeDirectoryTrustLevel :: "string \<Rightarrow> string" where
  "normalizeDirectoryTrustLevel v = (let t = ToLower (TrimSpace v) in if t \<in> set trust_levels then t else ''community'')"

text \<open>\<open>fetchHubDirectoryEntry\<close> after the feed was downloaded and decoded.\<close>

definition directory_entry :: "hubDirectoryFeed \<Rightarrow> string \<Rightarrow> hubDirectoryEntry option" where
  "directory_entry feed hub = map_option
     (\<lambda>e. if de_TrustIssuerHubID e = [] then e\<lparr>de_TrustIssuerHubID := df_Issuer feed\<rparr> else e)
     (List.find (\<lambda>e. TrimSpace (de_HubID e) = hub) (df_Hubs feed))"

definition directory_identity :: "hubDirectoryEntry option \<Rightarrow> HubIdentity \<Rightarrow> HubIdentity" where
  "directory_identity entry h = (case entry of
      None \<Rightarrow> h\<lparr>hd_directory_validation_status := ''unlisted'', hd_trust_level := ''community'',
        hd_trust_issuer_hub_id := [], hd_trust_certificate := [], hd_trust_expires_at := 0, hd_trust_verified_at := 0\<rparr>
    | Some e \<Rightarrow> h\<lparr>hd_directory_validation_status := normalizeDirectoryStatus (de_DirectoryStatus e),
        hd_trust_level := normalizeDirectoryTrustLevel (de_TrustLevel e),
        hd_trust_issuer_hub_id := TrimSpace (de_TrustIssuerHubID e),
        hd_trust_certificate := TrimSpace (de_TrustCertificate e),
        hd_trust_expires_at := de_TrustExpiresAt e, hd_trust_verified_at := de_TrustVerifiedAt e\<rparr>)"

definition refreshHubDirectory ::
  "hub_config \<Rightarrow> (string + hubDirectoryFeed) \<Rightarrow> string \<Rightarrow> int \<Rightarrow> db \<Rightarrow> (string + HubIdentity \<times> bool) \<times> db" where
  "refreshHubDirectory cfg feed fresh now d =
     (case ensureHubIdentity cfg fresh now d of (h, d1) \<Rightarrow>
       (case feed of Inl err \<Rightarrow> (Inl err, d1)
        | Inr f \<Rightarrow> (let entry = directory_entry f (hd_hub_id h) in
            case UpsertHubIdentity (directory_identity entry h) [] now d1 of
              (saved, d2) \<Rightarrow> (Inr (saved, entry \<noteq> None), d2))))"

definition handleRefreshHubDirectory ::
  "hub_config \<Rightarrow> authUser option \<Rightarrow> (string + hubDirectoryFeed) \<Rightarrow> string \<Rightarrow> int \<Rightarrow> db \<Rightarrow> hub_body reply \<times> db" where
  "handleRefreshHubDirectory cfg ctx feed fresh now d =
     (case requireAdmin ctx of Inl e \<Rightarrow> (e, d)
      | Inr admin \<Rightarrow> (case refreshHubDirectory cfg feed fresh now d of
          (Inl err, d1) \<Rightarrow> (Fail 502 err, d1)
        | (Inr (saved, found), d1) \<Rightarrow> (Reply 200 (IdentityBody saved),
            audit (au_ID admin) ''hub.directory_refreshed'' ''hub'' (hd_hub_id saved)
              [(''found'', JBool found), (''directoryStatus'', JString (hd_directory_validation_status saved)),
               (''trustLevel'', JString (hd_trust_level saved))] now d1)))"

definition handleGenerateHubKeyPair ::
  "hub_config \<Rightarrow> authUser option \<Rightarrow> (string \<times> string) option \<Rightarrow> string \<Rightarrow> int \<Rightarrow> db \<Rightarrow> hub_body reply \<times> db" where
  "handleGenerateHubKeyPair cfg ctx keys fresh now d =
     (case requireAdmin ctx of Inl e \<Rightarrow> (e, d)
      | Inr admin \<Rightarrow> (case ensureHubIdentity cfg fresh now d of (h, d1) \<Rightarrow>
          if TrimSpace (hd_public_key h) \<noteq> [] \<and> TrimSpace (hd_private_key h) \<noteq> [] then (Reply 200 (IdentityBody h), d1)
          else (case keys of None \<Rightarrow> (Fail 500 ''generate hub keypair'', d1)
            | Some (pub, priv) \<Rightarrow> (case SetHubIdentityKeyPair pub priv now d1 of
                (Inl _, d2) \<Rightarrow> (Fail 500 ''save hub keypair'', d2)
              | (Inr saved, d2) \<Rightarrow> (Reply 200 (IdentityBody saved),
                  audit (au_ID admin) ''hub.keypair_generated'' ''hub'' (hd_hub_id saved)
                    [(''publicKey'', JString (hd_public_key saved))] now d2)))))"

section \<open>Invites and peers\<close>

definition handleListHubInvites :: "authUser option \<Rightarrow> db \<Rightarrow> hub_body reply" where
  "handleListHubInvites ctx d = (case requireAdmin ctx of Inl e \<Rightarrow> e | Inr _ \<Rightarrow> Reply 200 (InvitesBody (ListHubInvites d)))"

definition hubInviteTTL :: int where "hubInviteTTL = 7 * 24 * 3600"

definition handleCreateHubInvite ::
  "hub_config \<Rightarrow> authUser option \<Rightarrow> string \<Rightarrow> string \<Rightarrow> string \<Rightarrow> int \<Rightarrow> db \<Rightarrow> hub_body reply \<times> db" where
  "handleCreateHubInvite cfg ctx fresh i token now d =
     (case requireAdmin ctx of Inl e \<Rightarrow> (e, d)
      | Inr admin \<Rightarrow> (case ensureHubIdentity cfg fresh now d of (h, d1) \<Rightarrow>
          if \<not> hd_federation_enabled h then (Fail 400 ''federation disabled'', d1)
          else (case CreateHubInvite (au_ID admin) (now + hubInviteTTL) i token now d1 of
              (Inl _, d2) \<Rightarrow> (Fail 500 ''create hub invite'', d2)
            | (Inr v, d2) \<Rightarrow> (Reply 201 (InviteBody v), audit (au_ID admin) ''hub.invite_created'' ''hub_invite'' (nv_ID v)
                [(''expiresAt'', JNumber (nv_ExpiresAt v))] now d2))))"

definition handleRevokeHubInvite :: "authUser option \<Rightarrow> string \<Rightarrow> int \<Rightarrow> db \<Rightarrow> hub_body reply \<times> db" where
  "handleRevokeHubInvite ctx path now d =
     (case requireAdmin ctx of Inl e \<Rightarrow> (e, d)
      | Inr admin \<Rightarrow>
          (let i = TrimSpace path in
           if i = [] then (Fail 400 ''missing invite id'', d)
           else case RevokeHubInvite i now d of
             (None, d1) \<Rightarrow> (Fail 404 ''invite not found'', d1)
           | (Some v, d1) \<Rightarrow> (Reply 200 (InviteBody v), audit (au_ID admin) ''hub.invite_revoked'' ''hub_invite'' (nv_ID v)
               [(''revokedAt'', JNumber (nv_RevokedAt v))] now d1)))"

text \<open>The peer both sides of an accepted invite record.\<close>

definition connected_peer :: "HubIdentity \<Rightarrow> HubPeer" where
  "connected_peer p = \<lparr>hp_id = [], hp_hub_id = hd_hub_id p, hp_name = hd_name p, hp_public_url = hd_public_url p,
     hp_region = hd_region p, hp_contact = hd_contact p, hp_status = ''connected'', hp_direction = ''bidirectional'',
     hp_accepted_at = 0, hp_last_seen_at = 0, hp_created_at = 0, hp_updated_at = 0\<rparr>"

definition trimmed_peer :: "HubIdentity \<Rightarrow> HubIdentity" where
  "trimmed_peer p = p\<lparr>hd_hub_id := TrimSpace (hd_hub_id p), hd_name := TrimSpace (hd_name p),
     hd_public_url := TrimSpace (hd_public_url p), hd_region := TrimSpace (hd_region p), hd_contact := TrimSpace (hd_contact p)\<rparr>"

definition handleAcceptHubInvite ::
  "hub_config \<Rightarrow> (string \<times> HubIdentity) option \<Rightarrow> string \<Rightarrow> string \<Rightarrow> int \<Rightarrow> db \<Rightarrow> hub_body reply \<times> db" where
  "handleAcceptHubInvite cfg body fresh peer_id now d =
     (case ensureHubIdentity cfg fresh now d of (h, d1) \<Rightarrow>
        if \<not> hd_federation_enabled h then (Fail 400 ''federation disabled'', d1)
        else case body of None \<Rightarrow> (Fail 400 ''invalid json'', d1)
        | Some (tok, p0) \<Rightarrow>
            (let token = TrimSpace tok; p = trimmed_peer p0 in
             if token = [] \<or> hd_hub_id p = [] then (Fail 400 ''missing invite token or peer hub id'', d1)
             else if hd_hub_id p = hd_hub_id h then (Fail 400 ''cannot peer with self'', d1)
             else case RedeemHubInvite token now d1 of
               ((Some v, True, _), d2) \<Rightarrow> (case UpsertHubPeer (connected_peer p) peer_id now d2 of
                   (Inl _, d3) \<Rightarrow> (Fail 500 ''save hub peer'', d3)
                 | (Inr peer, d3) \<Rightarrow> (Reply 200 (AcceptedBody h peer),
                     audit [] ''hub.peer_accepted'' ''hub_peer'' (hp_id peer)
                       [(''hubId'', JString (hp_hub_id peer)), (''inviteId'', JString (nv_ID v))] now d3))
             | ((_, _, reason), d2) \<Rightarrow> (Fail 400 reason, d2)))"

definition handleListHubPeers :: "authUser option \<Rightarrow> db \<Rightarrow> hub_body reply" where
  "handleListHubPeers ctx d = (case requireAdmin ctx of Inl e \<Rightarrow> e | Inr _ \<Rightarrow> Reply 200 (PeersBody (ListHubPeers d)))"

text \<open>\<open>remote\<close>: what \<open>acceptRemoteHubInvite\<close> returns for the URL and the token; \<open>parse\<close>: \<open>normalizeHubURL\<close>.\<close>

definition handleConnectHubPeer ::
  "hub_config \<Rightarrow> (string \<Rightarrow> string + string) \<Rightarrow> (string \<Rightarrow> string \<Rightarrow> HubIdentity \<Rightarrow> string + HubIdentity) \<Rightarrow> authUser option \<Rightarrow>
   (string \<times> string) option \<Rightarrow> string \<Rightarrow> string \<Rightarrow> int \<Rightarrow> db \<Rightarrow> hub_body reply \<times> db" where
  "handleConnectHubPeer cfg parse remote ctx body fresh peer_id now d =
     (case requireAdmin ctx of Inl e \<Rightarrow> (e, d)
      | Inr admin \<Rightarrow> (case ensureHubIdentity cfg fresh now d of (h, d1) \<Rightarrow>
          if \<not> hd_federation_enabled h then (Fail 400 ''federation disabled'', d1)
          else case body of None \<Rightarrow> (Fail 400 ''invalid json'', d1)
          | Some (raw, tok) \<Rightarrow> (case parse raw of Inl err \<Rightarrow> (Fail 400 err, d1)
            | Inr url \<Rightarrow>
                if TrimSpace tok = [] then (Fail 400 ''missing invite token'', d1)
                else case remote url (TrimSpace tok) h of Inl err \<Rightarrow> (Fail 502 err, d1)
                | Inr ri \<Rightarrow>
                    if hd_hub_id ri = hd_hub_id h then (Fail 400 ''cannot peer with self'', d1)
                    else (let ri = (if hd_public_url ri = [] then ri\<lparr>hd_public_url := url\<rparr> else ri) in
                      case UpsertHubPeer (connected_peer ri) peer_id now d1 of
                        (Inl _, d2) \<Rightarrow> (Fail 500 ''save hub peer'', d2)
                      | (Inr peer, d2) \<Rightarrow> (Reply 201 (PeerBody peer),
                          audit (au_ID admin) ''hub.peer_connected'' ''hub_peer'' (hp_id peer)
                            [(''hubId'', JString (hp_hub_id peer)), (''remoteUrl'', JString url)] now d2)))))"

text \<open>The cleanup runs in the background after the reply; here it runs to its end before the next request.\<close>

definition cleanupDeletedHubPeer :: "string \<Rightarrow> db \<Rightarrow> db" where
  "cleanupDeletedHubPeer hub d = snd (DeleteFederatedPeerImports hub d)"

definition handleDeleteHubPeer :: "authUser option \<Rightarrow> string \<Rightarrow> int \<Rightarrow> db \<Rightarrow> hub_body reply \<times> db" where
  "handleDeleteHubPeer ctx path now d =
     (case requireAdmin ctx of Inl e \<Rightarrow> (e, d)
      | Inr admin \<Rightarrow>
          (let i = TrimSpace path in
           if i = [] then (Fail 400 ''missing peer id'', d)
           else case DeleteHubPeer i d of
             (None, d1) \<Rightarrow> (Fail 404 ''peer not found'', d1)
           | (Some p, d1) \<Rightarrow> (Reply 204 NoContent, cleanupDeletedHubPeer (hp_hub_id p)
               (audit (au_ID admin) ''hub.peer_deleted'' ''hub_peer'' (hp_id p) [(''hubId'', JString (hp_hub_id p))] now d1))))"

definition handleEnableHubPeer :: "authUser option \<Rightarrow> string \<Rightarrow> int \<Rightarrow> db \<Rightarrow> hub_body reply \<times> db" where
  "handleEnableHubPeer ctx path now d =
     (case requireAdmin ctx of Inl e \<Rightarrow> (e, d)
      | Inr admin \<Rightarrow>
          (let i = TrimSpace path in
           if i = [] then (Fail 400 ''missing peer id'', d)
           else case EnableHubPeer i now d of
             (None, d1) \<Rightarrow> (Fail 404 ''peer not found'', d1)
           | (Some p, d1) \<Rightarrow> (Reply 200 (PeerBody p), audit (au_ID admin) ''hub.peer_enabled'' ''hub_peer'' (hp_id p)
               [(''hubId'', JString (hp_hub_id p))] now d1)))"

section \<open>What the handlers leave alone\<close>

lemma audit_frame [simp]:
  "t_hub_identity (audit u a tt ti m now d) = t_hub_identity d" "t_hub_invites (audit u a tt ti m now d) = t_hub_invites d"
  "t_hub_peers (audit u a tt ti m now d) = t_hub_peers d" "t_calls (audit u a tt ti m now d) = t_calls d"
  "t_imports (audit u a tt ti m now d) = t_imports d" "t_sources (audit u a tt ti m now d) = t_sources d"
  "t_keys (audit u a tt ti m now d) = t_keys d" "t_radio_sets (audit u a tt ti m now d) = t_radio_sets d"
  "t_incidents (audit u a tt ti m now d) = t_incidents d" "t_integrations (audit u a tt ti m now d) = t_integrations d"
  "t_signals (audit u a tt ti m now d) = t_signals d" "t_templates (audit u a tt ti m now d) = t_templates d"
  by (simp_all add: audit_def AppendAuditLog_def ins_audit_def split: sum.split)

lemma audit_ok: "db_ok d \<Longrightarrow> db_ok (audit u a tt ti m now d)"
  using ins_audit_ok by (simp add: audit_def AppendAuditLog_def split: sum.split)

text \<open>Loading the identity touches nothing else, and what it returns is what is stored.\<close>

lemma ensureHubIdentity_frame:
  "ensureHubIdentity cfg fresh now d = (h, d1) \<Longrightarrow> d1 = d\<lparr>t_hub_identity := Some h\<rparr>"
  by (auto simp: ensureHubIdentity_def ensureConfiguredHubIdentity_def GetHubIdentity_def UpsertHubIdentity_def Let_def
      split: option.splits if_splits)

lemma UpsertHubPeer_connects:
  assumes "UpsertHubPeer (connected_peer p) i now d = (x, d')" "i \<notin> hp_id ` set (t_hub_peers d)"
  shows "is_ok x \<and> list_ex (\<lambda>q. hp_hub_id q = hd_hub_id p \<and> hp_status q = ''connected'') (t_hub_peers d')"
proof (cases "List.find (\<lambda>r. hp_hub_id r = hd_hub_id p) (t_hub_peers d)")
  case None
  then have "hd_hub_id p \<notin> hp_hub_id ` set (t_hub_peers d)" by (auto simp: find_None_iff)
  with None assms show ?thesis
    by (auto simp: UpsertHubPeer_def connected_peer_def prepare_peer_def ins_hub_peers_def Let_def)
next
  case (Some old)
  then have "old \<in> set (t_hub_peers d)" "hp_hub_id old = hd_hub_id p" by (auto dest: find_Some_mem)
  moreover have "hp_hub_id (merged_peer (prepare_peer (connected_peer p) i now) old) = hp_hub_id old"
    "hp_status (merged_peer (prepare_peer (connected_peer p) i now) old) = ''connected''"
    by (simp_all add: merged_peer_def prepare_peer_def connected_peer_def)
  moreover have "hp_hub_id (prepare_peer (connected_peer p) i now) = hd_hub_id p"
    by (simp add: prepare_peer_def connected_peer_def)
  ultimately show ?thesis
    using Some assms(1) by (auto simp: UpsertHubPeer_def Let_def list_ex_iff set_sql_update)
qed

section \<open>Accepting an invite\<close>

lemma Redeem_spends:
  assumes "db_ok d" "RedeemHubInvite token now d = ((v, True, reason), d')" "now > 0"
  shows "v \<noteq> None \<and> spent token d' \<and> t_hub_peers d' = t_hub_peers d"
proof -
  have "fst (claim_invite token now d) \<noteq> None" "d' = snd (claim_invite token now d)" "v = fst (claim_invite token now d)"
    using assms(2) Redeem_eq_claim [OF assms(1), of token now]
    by (auto simp: RedeemHubInvite_def split: option.splits prod.splits)
  moreover have "t_hub_peers (snd (claim_invite token now d)) = t_hub_peers d"
    by (simp add: claim_invite_def Let_def split: option.split)
  ultimately show ?thesis
    using claim_spends [OF assms(1) _ assms(3)] by (cases "claim_invite token now d") auto
qed

lemma accept_redeemed:
  assumes "db_ok d1" "RedeemHubInvite (TrimSpace tok) now d1 = ((v, True, reason), d2)" "now > 0"
    "pid \<notin> hp_id ` set (t_hub_peers d1)" "ensureHubIdentity cfg fresh now d = (h, d1)" "hd_federation_enabled h"
    "TrimSpace tok \<noteq> []" "TrimSpace (hd_hub_id p) \<noteq> []" "TrimSpace (hd_hub_id p) \<noteq> hd_hub_id h"
    "handleAcceptHubInvite cfg (Some (tok, p)) fresh pid now d = (r, d')"
  shows "reply_code r = 200 \<and> spent (TrimSpace tok) d' \<and>
    list_ex (\<lambda>q. hp_hub_id q = TrimSpace (hd_hub_id p) \<and> hp_status q = ''connected'') (t_hub_peers d')"
proof -
  obtain v' where v: "v = Some v'" and sp: "spent (TrimSpace tok) d2" and peers: "t_hub_peers d2 = t_hub_peers d1"
    using Redeem_spends [OF assms(1,2,3)] by auto
  obtain x d3 where x: "UpsertHubPeer (connected_peer (trimmed_peer p)) pid now d2 = (x, d3)" by fastforce
  have "pid \<notin> hp_id ` set (t_hub_peers d2)" using assms(4) peers by simp
  from UpsertHubPeer_connects [OF x this] obtain y where y: "x = Inr y"
    "list_ex (\<lambda>q. hp_hub_id q = TrimSpace (hd_hub_id p) \<and> hp_status q = ''connected'') (t_hub_peers d3)"
    by (auto simp: is_ok_iff trimmed_peer_def)
  moreover have "spent (TrimSpace tok) d3"
    using sp spent_frame [of d3 d2] peer_ops_other(4) [of "connected_peer (trimmed_peer p)" pid now d2] x by simp
  ultimately show ?thesis
    using assms x v by (auto simp: handleAcceptHubInvite_def trimmed_peer_def spent_def Let_def)
qed

text \<open>
  A hub that asks to join with an invite is admitted (answer 200) exactly when federation is on, the trimmed
  token and hub id are there, the id is not this hub's own and some unused, unrevoked, unexpired invite has the
  token. Then it is a connected peer and the invite is used up; otherwise nothing changed but the identity row
  every request brings up to date with the configuration.
\<close>

theorem accept_invite_iff:
  assumes "db_ok d" "now > 0" "pid \<notin> hp_id ` set (t_hub_peers d)" "ensureHubIdentity cfg fresh now d = (h, d1)"
    "handleAcceptHubInvite cfg (Some (tok, p)) fresh pid now d = (r, d')"
  shows "(reply_code r = 200) = (hd_federation_enabled h \<and> TrimSpace tok \<noteq> [] \<and> TrimSpace (hd_hub_id p) \<noteq> [] \<and>
      TrimSpace (hd_hub_id p) \<noteq> hd_hub_id h \<and> list_ex (claimable_invite (TrimSpace tok) now) (t_hub_invites d)) \<and>
    (if reply_code r = 200 then spent (TrimSpace tok) d' \<and>
       list_ex (\<lambda>q. hp_hub_id q = TrimSpace (hd_hub_id p) \<and> hp_status q = ''connected'') (t_hub_peers d')
     else d' = d1)"
proof -
  have d1: "d1 = d\<lparr>t_hub_identity := Some h\<rparr>" using assms(4) by (rule ensureHubIdentity_frame)
  then have ok1: "db_ok d1" and peers: "t_hub_peers d1 = t_hub_peers d" and inv: "t_hub_invites d1 = t_hub_invites d"
    using assms(1) by simp_all
  obtain v ok reason d2 where red: "RedeemHubInvite (TrimSpace tok) now d1 = ((v, ok, reason), d2)"
    by (metis prod.collapse)
  have iff: "ok = list_ex (claimable_invite (TrimSpace tok) now) (t_hub_invites d)" "ok \<or> d2 = d1"
    using redeem_iff [OF ok1 red] inv by auto
  let ?G = "hd_federation_enabled h \<and> TrimSpace tok \<noteq> [] \<and> TrimSpace (hd_hub_id p) \<noteq> [] \<and> TrimSpace (hd_hub_id p) \<noteq> hd_hub_id h"
  show ?thesis
  proof (cases "?G \<and> ok")
    case True
    then have "RedeemHubInvite (TrimSpace tok) now d1 = ((v, True, reason), d2)" using red by simp
    from accept_redeemed [OF ok1 this assms(2) _ assms(4) _ _ _ _ assms(5)] True peers assms(3) iff(1) show ?thesis
      by simp
  next
    case False
    then have "reply_code r = 400 \<and> d' = d1"
      using assms(4,5) red iff(2) by (auto simp: handleAcceptHubInvite_def trimmed_peer_def Let_def split: if_splits option.splits)
    with False iff(1) show ?thesis by auto
  qed
qed

definition example_hub_cfg :: hub_config where
  "example_hub_cfg = \<lparr>cfg_HubName = ''Hub'', cfg_HubPublicURL = [], cfg_HubRegion = [], cfg_HubContact = [],
     cfg_HubFederation = True, cfg_HubTrustLevel = ''community'', cfg_HubTrustIssuer = [], cfg_HubTrustCert = [],
     cfg_HubTrustExpires = 0\<rparr>"

theorem accept_invite_iff_witness:
  "\<exists>h d1 r d'. ensureHubIdentity example_hub_cfg ''hub-1'' 10 example_hub_db = (h, d1) \<and>
     handleAcceptHubInvite example_hub_cfg (Some ('' tok'', zero_identity\<lparr>hd_hub_id := ''hub-2''\<rparr>)) ''hub-1'' ''p1'' 10
       example_hub_db = (r, d') \<and> reply_code r = 200 \<and> spent ''tok'' d'"
proof -
  obtain h d1 where h: "ensureHubIdentity example_hub_cfg ''hub-1'' 10 example_hub_db = (h, d1)" by fastforce
  obtain r d' where r: "handleAcceptHubInvite example_hub_cfg (Some ('' tok'', zero_identity\<lparr>hd_hub_id := ''hub-2''\<rparr>))
      ''hub-1'' ''p1'' 10 example_hub_db = (r, d')" by fastforce
  have "hd_federation_enabled h" "hd_hub_id h = ''hub-1''"
    using h by (auto simp: ensureHubIdentity_def GetHubIdentity_def example_hub_db_eq empty_db_def UpsertHubIdentity_def
        prepare_identity_def inserted_identity_def example_hub_cfg_def zero_identity_def Let_def)
  moreover have t: "TrimSpace '' tok'' = ''tok''" "TrimSpace ''hub-2'' = ''hub-2''" by code_simp+
  moreover have "list_ex (claimable_invite ''tok'' 10) (t_hub_invites example_hub_db)"
    by (simp add: example_hub_db_eq claimable_invite_def)
  moreover have "''p1'' \<notin> hp_id ` set (t_hub_peers example_hub_db)"
    by (simp add: example_hub_db_eq empty_db_def)
  ultimately have "reply_code r = 200 \<and> spent ''tok'' d'"
    using accept_invite_iff [OF example_hub_db_ok _ _ h r] by (simp split: if_splits)
  with h r show ?thesis by blast
qed


section \<open>The configuration and the directory\<close>

lemma prepare_identity_trust [simp]:
  "hd_trust_level (prepare_identity h f now) = (if hd_trust_level h = [] then ''community'' else hd_trust_level h)"
  by (simp add: prepare_identity_def Let_def)

lemma Upsert_trust: "UpsertHubIdentity h f now d = (saved, d') \<Longrightarrow> t_hub_identity d' = Some saved \<and>
    hd_trust_level saved = (if hd_trust_level h = [] then ''community'' else hd_trust_level h)"
  unfolding UpsertHubIdentity_def Let_def
  by (cases "t_hub_identity d") (auto simp: inserted_identity_def merged_identity_def)

lemma ensure_configured_trust:
  assumes "configured_trust cfg" "TrimSpace (cfg_HubTrustLevel cfg) = cfg_HubTrustLevel cfg"
    "ensureHubIdentity cfg fresh now d = (h, d1)"
  shows "hd_trust_level h = cfg_HubTrustLevel cfg"
proof (cases "t_hub_identity d")
  case None
  then show ?thesis
    using assms Upsert_trust by (fastforce simp: ensureHubIdentity_def GetHubIdentity_def configured_trust_def)
next
  case (Some h0)
  have c: "hd_trust_level (configuredHubIdentity cfg h0) = cfg_HubTrustLevel cfg" "cfg_HubTrustLevel cfg \<noteq> []"
    using assms(1,2) by (auto simp: configuredHubIdentity_def configured_trust_def Let_def)
  from Some have e: "ensureConfiguredHubIdentity cfg h0 now d = (h, d1)"
    using assms(3) by (simp add: ensureHubIdentity_def GetHubIdentity_def)
  show ?thesis
  proof (cases "same_configured (configuredHubIdentity cfg h0) h0")
    case True
    then show ?thesis using e c by (simp add: ensureConfiguredHubIdentity_def Let_def same_configured_def)
  next
    case False
    then have "UpsertHubIdentity (configuredHubIdentity cfg h0) [] now d = (h, d1)"
      using e by (simp add: ensureConfiguredHubIdentity_def Let_def)
    from Upsert_trust [OF this] c show ?thesis by simp
  qed
qed

text \<open>
  Where the configuration names a trust level, what the public directory says of the hub does not last: a
  refresh stores the directory's level, also a suspension, and the next request puts the configured level back.
\<close>

theorem configured_trust_wins:
  assumes "configured_trust cfg" "TrimSpace (cfg_HubTrustLevel cfg) = cfg_HubTrustLevel cfg"
    "refreshHubDirectory cfg (Inr feed) fresh now d = (Inr (saved, True), d1)"
    "handleGetHubIdentity cfg (Some u) fresh2 later d1 = (r, d2)"
  shows "hd_trust_level saved \<in> set trust_levels \<union> {''community''} \<and> t_hub_identity d1 = Some saved \<and>
    (\<exists>h. r = Reply 200 (IdentityBody h) \<and> hd_trust_level h = cfg_HubTrustLevel cfg \<and> t_hub_identity d2 = Some h)"
proof -
  obtain h d' where h: "ensureHubIdentity cfg fresh now d = (h, d')" by fastforce
  obtain e where e: "directory_entry feed (hd_hub_id h) = Some e"
    and s: "UpsertHubIdentity (directory_identity (Some e) h) [] now d' = (saved, d1)"
    using assms(3) h by (auto simp: refreshHubDirectory_def Let_def split: prod.splits)
  have "normalizeDirectoryTrustLevel v \<in> set trust_levels \<union> {''community''}" for v
    by (simp add: normalizeDirectoryTrustLevel_def Let_def)
  then have "hd_trust_level saved \<in> set trust_levels \<union> {''community''}"
    using Upsert_trust [OF s] by (auto simp: directory_identity_def)
  moreover have "t_hub_identity d1 = Some saved"
    using Upsert_trust [OF s] by simp
  moreover obtain h2 d2' where h2: "ensureHubIdentity cfg fresh2 later d1 = (h2, d2')" by fastforce
  ultimately show ?thesis
    using assms(4) ensure_configured_trust [OF assms(1,2) h2] ensureHubIdentity_frame [OF h2]
    by (auto simp: handleGetHubIdentity_def requireAuthenticated_def)
qed

definition example_directory :: hubDirectoryFeed where
  "example_directory = \<lparr>df_Issuer = ''dir'', df_Hubs = [\<lparr>de_HubID = ''hub-1'', de_DirectoryStatus = ''suspended'',
     de_TrustLevel = ''suspended'', de_TrustIssuerHubID = [], de_TrustCertificate = [], de_TrustExpiresAt = 0,
     de_TrustVerifiedAt = 0\<rparr>]\<rparr>"

theorem configured_trust_wins_witness:
  "\<exists>saved d1 h d2. refreshHubDirectory (example_hub_cfg\<lparr>cfg_HubTrustLevel := ''verified''\<rparr>) (Inr example_directory) ''hub-1'' 10
       example_hub_db = (Inr (saved, True), d1) \<and> hd_trust_level saved = ''suspended'' \<and>
     handleGetHubIdentity (example_hub_cfg\<lparr>cfg_HubTrustLevel := ''verified''\<rparr>) (Some \<lparr>au_ID = ''u'', au_Email = ''e'',
       au_Role = ''user'', au_TxEnabled = False, au_DispatcherEnabled = False\<rparr>) [] 11 d1 = (Reply 200 (IdentityBody h), d2) \<and>
     hd_trust_level h = ''verified''"
proof -
  let ?cfg = "example_hub_cfg\<lparr>cfg_HubTrustLevel := ''verified''\<rparr>"
  have t: "TrimSpace ''verified'' = ''verified''" "TrimSpace ''hub-1'' = ''hub-1''" "TrimSpace ''suspended'' = ''suspended''"
    "ToLower ''suspended'' = ''suspended''"
    by code_simp+
  have c: "configured_trust ?cfg" by (simp add: configured_trust_def t)
  obtain h0 d0 where h0: "ensureHubIdentity ?cfg ''hub-1'' 10 example_hub_db = (h0, d0)" by fastforce
  have "hd_hub_id h0 = ''hub-1''"
    using h0 by (auto simp: ensureHubIdentity_def GetHubIdentity_def example_hub_db_eq empty_db_def UpsertHubIdentity_def
        prepare_identity_def inserted_identity_def example_hub_cfg_def zero_identity_def Let_def)
  then obtain e where e: "directory_entry example_directory (hd_hub_id h0) = Some e" "de_TrustLevel e = ''suspended''"
    by (simp add: directory_entry_def example_directory_def t)
  obtain saved d1 where u: "UpsertHubIdentity (directory_identity (Some e) h0) [] 10 d0 = (saved, d1)" by fastforce
  have "hd_trust_level saved = ''suspended''"
    using Upsert_trust [OF u] by (simp add: directory_identity_def e normalizeDirectoryTrustLevel_def trust_levels_def t)
  with h0 e u have r: "refreshHubDirectory ?cfg (Inr example_directory) ''hub-1'' 10 example_hub_db = (Inr (saved, True), d1)"
    "hd_trust_level saved = ''suspended''"
    by (simp_all add: refreshHubDirectory_def)
  obtain x d2 where g: "handleGetHubIdentity ?cfg (Some \<lparr>au_ID = ''u'', au_Email = ''e'', au_Role = ''user'',
      au_TxEnabled = False, au_DispatcherEnabled = False\<rparr>) [] 11 d1 = (x, d2)" by fastforce
  from configured_trust_wins [OF c _ r(1) g] obtain h where "x = Reply 200 (IdentityBody h)" "hd_trust_level h = ''verified''"
    by (auto simp: t)
  with r g show ?thesis by blast
qed

end
