(* ===== verification/Wire.thy ===== *)
theory Wire
  imports Calls
begin

text \<open>
  What the handlers take off the wire and put on it: integers in query parameters (\<open>strconv.ParseInt\<close> and \<open>Atoi\<close>
  for base 10 and 64 bits), the query helpers of \<open>api/calls.go\<close> and \<open>api/federation.go\<close>, and the standard base64
  encoding in which one hub sends the audio of a call to another.
\<close>

section \<open>Integers\<close>

definition digit_val :: "char \<Rightarrow> nat" where
  "digit_val c = (of_char c :: nat) - 48"

definition digits_val :: "string \<Rightarrow> nat" where
  "digits_val s = foldl (\<lambda>n c. 10 * n + digit_val c) 0 s"

definition max_int64 :: int where "max_int64 = 9223372036854775807"

definition min_int64 :: int where "min_int64 = - 9223372036854775808"

text \<open>The value and whether there was no error; out of range gives the nearest bound, a syntax error gives 0.\<close>

definition ParseInt :: "string \<Rightarrow> int \<times> bool" where
  "ParseInt s =
     (let neg = (case s of [] \<Rightarrow> False | c # _ \<Rightarrow> c = CHR ''-'');
          ds = (case s of [] \<Rightarrow> [] | c # cs \<Rightarrow> if c = CHR ''-'' \<or> c = CHR ''+'' then cs else s);
          v = (if neg then - int (digits_val ds) else int (digits_val ds)) in
      if ds = [] \<or> \<not> list_all is_digit ds then (0, False)
      else if v > max_int64 then (max_int64, False)
      else if v < min_int64 then (min_int64, False)
      else (v, True))"

lemma digit_val_nth: "k < 10 \<Longrightarrow> digit_val (decimal_digits ! k) = k"
proof -
  assume "k < 10"
  then have "k \<in> set [0..<10]" by simp
  moreover have "list_all (\<lambda>k. digit_val (decimal_digits ! k) = k) [0..<10]" by code_simp
  ultimately show ?thesis by (auto simp only: list_all_iff)
qed

lemma digits_val_dec_nat: "digits_val (dec_nat n) = n"
proof (induction n rule: dec_nat.induct)
  case (1 n)
  show ?case
  proof (cases "n < 10")
    case True
    then show ?thesis by (subst dec_nat.simps) (simp add: digits_val_def digit_val_nth)
  next
    case False
    then have "digits_val (dec_nat n) = 10 * digits_val (dec_nat (n div 10)) + n mod 10"
      by (subst dec_nat.simps) (simp add: digits_val_def digit_val_nth)
    with 1 False show ?thesis by simp
  qed
qed

lemma dec_nat_not_Nil [simp]: "dec_nat n \<noteq> []"
  by (subst dec_nat.simps) simp

lemma digit_not_sign: "is_digit c \<Longrightarrow> c \<noteq> CHR ''-'' \<and> c \<noteq> CHR ''+'' \<and> \<not> is_space c"
proof -
  assume "is_digit c"
  moreover have "list_all (\<lambda>c. c \<noteq> CHR ''-'' \<and> c \<noteq> CHR ''+'' \<and> \<not> is_space c) decimal_digits" by code_simp
  ultimately show ?thesis by (auto simp only: list_all_iff is_digit_def)
qed

lemma dec_nat_inj: "dec_nat m = dec_nat n \<longleftrightarrow> m = n"
  using digits_val_dec_nat by metis

lemma dec_nat_no_sign: "dec_nat m \<noteq> CHR ''-'' # xs"
  using dec_nat_digits [of m] digit_not_sign [of "CHR ''-''"] by auto

lemma format_int_inj: "format_int i = format_int j \<longleftrightarrow> i = j"
  using dec_nat_no_sign dec_nat_no_sign [THEN not_sym] by (auto simp: format_int_def dec_nat_inj split: if_splits)

lemma ParseInt_format:
  assumes "0 \<le> i" "i \<le> max_int64"
  shows "ParseInt (format_int i) = (i, True)"
proof -
  obtain c cs where s: "dec_nat (nat i) = c # cs" by (cases "dec_nat (nat i)") auto
  have "list_all is_digit (c # cs)" using dec_nat_digits [of "nat i"] s by simp
  moreover have "digits_val (c # cs) = nat i" using digits_val_dec_nat [of "nat i"] s by simp
  ultimately show ?thesis
    using assms s digit_not_sign [of c] by (simp add: ParseInt_def format_int_def min_int64_def)
qed

lemma TrimSpace_no_space: "list_all (\<lambda>c. \<not> is_space c) s \<Longrightarrow> TrimSpace s = s"
proof -
  have drop: "dropWhile is_space xs = xs" if "list_all (\<lambda>c. \<not> is_space c) xs" for xs
    using that by (cases xs) auto
  assume "list_all (\<lambda>c. \<not> is_space c) s"
  then show ?thesis by (simp add: TrimSpace_def drop list_all_rev)
qed

lemma TrimSpace_format: "0 \<le> i \<Longrightarrow> TrimSpace (format_int i) = format_int i"
  using dec_nat_digits [of "nat i"] digit_not_sign
  by (intro TrimSpace_no_space) (auto simp: format_int_def list_all_iff)

lemma format_int_not_Nil: "format_int i \<noteq> []"
  by (simp add: format_int_def)

section \<open>Query parameters\<close>

text \<open>\<open>r.URL.Query().Get\<close>: the empty string for a parameter that is not there.\<close>

type_synonym query = "string \<Rightarrow> string"

definition queryInt64 :: "query \<Rightarrow> string \<Rightarrow> int \<Rightarrow> int" where
  "queryInt64 q key fallback =
     (let value = TrimSpace (q key) in
      if value = [] then fallback
      else case ParseInt value of (n, ok) \<Rightarrow> if \<not> ok \<or> n < 0 then fallback else n)"

definition boundedQueryInt :: "query \<Rightarrow> string \<Rightarrow> int \<Rightarrow> int \<Rightarrow> int \<Rightarrow> int" where
  "boundedQueryInt q key fallback minValue maxValue =
     (let value = TrimSpace (q key) in
      if value = [] then fallback
      else case ParseInt value of (n, ok) \<Rightarrow> if \<not> ok \<or> n < minValue \<or> n > maxValue then fallback else n)"

definition queryBool :: "query \<Rightarrow> string \<Rightarrow> bool" where
  "queryBool q key \<longleftrightarrow> ToLower (TrimSpace (q key)) \<in> set [''1'', ''true'', ''yes'', ''on'']"

fun split_comma :: "string \<Rightarrow> string list" where
  "split_comma [] = [[]]"
| "split_comma (c # cs) = (if c = CHR '','' then [] # split_comma cs
     else case split_comma cs of p # ps \<Rightarrow> (c # p) # ps)"

definition parseGroupsQuery :: "string \<Rightarrow> string list" where
  "parseGroupsQuery raw = filter (\<lambda>g. g \<noteq> []) (map TrimSpace (split_comma raw))"

definition parseTalkgroupsQuery :: "string \<Rightarrow> int list" where
  "parseTalkgroupsQuery raw = map fst (filter snd (map (\<lambda>p. ParseInt (TrimSpace p)) (split_comma raw)))"

definition listCallsParamsFromRequest :: "query \<Rightarrow> ListCallsParams" where
  "listCallsParamsFromRequest q = \<lparr>lp_Limit = boundedQueryInt q ''limit'' 100 1 1000, lp_SortBy = q ''sort'',
     lp_Order = q ''order'', lp_Search = q ''q'', lp_Group = q ''group'',
     lp_Offset = boundedQueryInt q ''offset'' 0 0 1000000, lp_UserID = [], lp_OnlyUnowned = False,
     lp_Talkgroups = parseTalkgroupsQuery (q ''talkgroups''), lp_Groups = parseGroupsQuery (q ''groups'')\<rparr>"

lemma queryInt64_format: "0 \<le> i \<Longrightarrow> i \<le> max_int64 \<Longrightarrow> q key = format_int i \<Longrightarrow> queryInt64 q key fallback = i"
  by (simp add: queryInt64_def TrimSpace_format ParseInt_format format_int_not_Nil)

lemma queryInt64_nonneg: "0 \<le> fallback \<Longrightarrow> 0 \<le> queryInt64 q key fallback"
  by (simp add: queryInt64_def Let_def split: prod.split)

lemma boundedQueryInt_format:
  "0 \<le> lo \<Longrightarrow> hi \<le> max_int64 \<Longrightarrow> lo \<le> i \<Longrightarrow> i \<le> hi \<Longrightarrow> q key = format_int i \<Longrightarrow> boundedQueryInt q key fallback lo hi = i"
  by (simp add: boundedQueryInt_def TrimSpace_format ParseInt_format format_int_not_Nil)

lemma boundedQueryInt_range:
  "lo \<le> fallback \<Longrightarrow> fallback \<le> hi \<Longrightarrow> lo \<le> boundedQueryInt q key fallback lo hi \<and> boundedQueryInt q key fallback lo hi \<le> hi"
  by (simp add: boundedQueryInt_def Let_def split: prod.split)

section \<open>Base64\<close>

definition b64_alphabet :: string where
  "b64_alphabet = ''ABCDEFGHIJKLMNOPQRSTUVWXYZabcdefghijklmnopqrstuvwxyz0123456789+/''"

definition b64_digit :: "nat \<Rightarrow> char" where
  "b64_digit k = b64_alphabet ! (k mod 64)"

definition b64_value :: "char \<Rightarrow> nat option" where
  "b64_value c = map_option fst (List.find (\<lambda>p. snd p = c) (List.enumerate 0 b64_alphabet))"

definition quad :: "nat \<Rightarrow> string" where
  "quad n = [b64_digit (n div 262144), b64_digit (n div 4096), b64_digit (n div 64), b64_digit n]"

definition byte3 :: "8 word \<Rightarrow> 8 word \<Rightarrow> 8 word \<Rightarrow> nat" where
  "byte3 a b c = unat a * 65536 + unat b * 256 + unat c"

fun EncodeToString :: "bytes \<Rightarrow> string" where
  "EncodeToString [] = []"
| "EncodeToString [a] = take 2 (quad (byte3 a 0 0)) @ ''==''"
| "EncodeToString [a, b] = take 3 (quad (byte3 a b 0)) @ ''=''"
| "EncodeToString (a # b # c # r) = quad (byte3 a b c) @ EncodeToString r"

definition unquad :: "nat \<Rightarrow> nat \<Rightarrow> nat \<Rightarrow> nat \<Rightarrow> bytes" where
  "unquad w x y z = (let n = w * 262144 + x * 4096 + y * 64 + z in
     [word_of_nat (n div 65536), word_of_nat (n div 256), word_of_nat n])"

fun decode_quads :: "string \<Rightarrow> bytes option" where
  "decode_quads [] = Some []"
| "decode_quads (w # x # y # z # r) =
     (if r = [] \<and> z = CHR ''='' then
        (if y = CHR ''='' then
           (case (b64_value w, b64_value x) of (Some i, Some j) \<Rightarrow> Some (take 1 (unquad i j 0 0)) | _ \<Rightarrow> None)
         else (case (b64_value w, b64_value x, b64_value y) of
             (Some i, Some j, Some k) \<Rightarrow> Some (take 2 (unquad i j k 0)) | _ \<Rightarrow> None))
      else (case (b64_value w, b64_value x, b64_value y, b64_value z) of
          (Some i, Some j, Some k, Some l) \<Rightarrow> map_option (\<lambda>bs. unquad i j k l @ bs) (decode_quads r)
        | _ \<Rightarrow> None))"
| "decode_quads _ = None"

text \<open>Line breaks are skipped.\<close>

definition DecodeString :: "string \<Rightarrow> bytes option" where
  "DecodeString s = decode_quads (filter (\<lambda>c. c \<noteq> CHR 0x0A \<and> c \<noteq> CHR 0x0D) s)"

lemma b64_value_digit: "k < 64 \<Longrightarrow> b64_value (b64_digit k) = Some k"
proof -
  assume "k < 64"
  then have "k \<in> set [0..<64]" by simp
  moreover have "list_all (\<lambda>k. b64_value (b64_digit k) = Some k) [0..<64]" by code_simp
  ultimately show ?thesis by (auto simp only: list_all_iff)
qed

lemma b64_digit_mod: "b64_digit (k mod 64) = b64_digit k"
  by (simp add: b64_digit_def)

lemma b64_value_mod [simp]: "b64_value (b64_digit k) = Some (k mod 64)"
  using b64_value_digit [of "k mod 64"] by (simp add: b64_digit_mod)

lemma b64_digit_plain [simp]: "b64_digit k \<noteq> CHR ''=''" "b64_digit k \<noteq> CHR 0x0A" "b64_digit k \<noteq> CHR 0x0D"
proof -
  have "k mod 64 \<in> set [0..<64]" by simp
  moreover have "list_all (\<lambda>k. b64_digit k \<noteq> CHR ''='' \<and> b64_digit k \<noteq> CHR 0x0A \<and> b64_digit k \<noteq> CHR 0x0D) [0..<64]"
    by code_simp
  ultimately have "b64_digit (k mod 64) \<noteq> CHR ''='' \<and> b64_digit (k mod 64) \<noteq> CHR 0x0A \<and> b64_digit (k mod 64) \<noteq> CHR 0x0D"
    by (auto simp only: list_all_iff)
  then show "b64_digit k \<noteq> CHR ''=''" "b64_digit k \<noteq> CHR 0x0A" "b64_digit k \<noteq> CHR 0x0D"
    by (simp_all add: b64_digit_mod)
qed

lemma unat_byte: "unat (a :: 8 word) < 256"
  using unsigned_less [of a] by simp

lemma quad_digits:
  assumes "n < 16777216"
  shows "(n div 262144 mod 64) * 262144 + (n div 4096 mod 64) * 4096 + (n div 64 mod 64) * 64 + n mod 64 = (n :: nat)"
proof -
  have "n div 262144 mod 64 = n div 262144" using assms by simp
  moreover have "n div 4096 = n div 262144 * 64 + n div 4096 mod 64"
    using div_mult_mod_eq [of "n div 4096" 64] by (simp add: div_mult2_eq [symmetric])
  moreover have "n div 64 = n div 4096 * 64 + n div 64 mod 64"
    using div_mult_mod_eq [of "n div 64" 64] by (simp add: div_mult2_eq [symmetric])
  moreover have "n = n div 64 * 64 + n mod 64" by simp
  ultimately show ?thesis by linarith
qed

lemma byte3_bound: "byte3 a b c < 16777216"
  using unat_byte [of a] unat_byte [of b] unat_byte [of c] by (simp add: byte3_def)

lemma byte3_bytes: "[word_of_nat (byte3 a b c div 65536), word_of_nat (byte3 a b c div 256), word_of_nat (byte3 a b c)] = [a, b, c]"
proof -
  have "byte3 a b c div 65536 = unat a"
    using unat_byte [of b] unat_byte [of c] by (simp add: byte3_def)
  moreover have "byte3 a b c div 256 = unat a * 256 + unat b"
    using unat_byte [of c] by (simp add: byte3_def)
  ultimately show ?thesis
    by (simp add: byte3_def unat_word_ariths word_unat_eq_iff unat_of_nat)
qed

lemma unquad_byte3: "unquad (byte3 a b c div 262144 mod 64) (byte3 a b c div 4096 mod 64) (byte3 a b c div 64 mod 64)
     (byte3 a b c mod 64) = [a, b, c]"
  unfolding unquad_def Let_def quad_digits [OF byte3_bound] by (rule byte3_bytes)

lemma EncodeToString_plain: "filter (\<lambda>c. c \<noteq> CHR 0x0A \<and> c \<noteq> CHR 0x0D) (EncodeToString bs) = EncodeToString bs"
  by (induction bs rule: EncodeToString.induct) (simp_all add: quad_def)


lemma byte3_low: "byte3 a 0 0 div 64 mod 64 = 0" "byte3 a 0 0 mod 64 = 0" "byte3 a b 0 mod 64 = 0"
proof -
  have "byte3 a 0 0 = (unat a * 16 * 64) * 64" "byte3 a b 0 = (unat a * 1024 + unat b * 4) * 64"
    by (simp_all add: byte3_def)
  then show "byte3 a 0 0 div 64 mod 64 = 0" "byte3 a 0 0 mod 64 = 0" "byte3 a b 0 mod 64 = 0"
    by (metis div_mult_self_is_m mod_mult_self2_is_0 zero_less_numeral)+
qed

lemma decode_encode_quads: "decode_quads (EncodeToString bs) = Some bs"
proof (induction bs rule: EncodeToString.induct)
  case (2 a)
  show ?case using unquad_byte3 [of a 0 0] by (simp add: quad_def byte3_low)
next
  case (3 a b)
  show ?case using unquad_byte3 [of a b 0] by (simp add: quad_def byte3_low)
next
  case (4 a b c r)
  then show ?case using unquad_byte3 [of a b c] by (simp add: quad_def)
qed simp

text \<open>The audio of a call survives the way to another hub.\<close>

lemma DecodeString_Encode: "DecodeString (EncodeToString bs) = Some bs"
  by (simp add: DecodeString_def EncodeToString_plain decode_encode_quads)

end
