(* ===== verification/Intake.thy ===== *)
theory Intake
  imports Wire Transcriptions AuthApi
begin

text \<open>
  How a call that arrives, by upload or from a peer, is queued for transcription (\<open>api/calls.go\<close>).
\<close>

section \<open>Queueing for transcription\<close>

record transcription_config =
  cfg_TranscriptionWorkerToken :: string
  cfg_TranscriptionMinDuration :: rat

definition transcriptionEnabled :: "transcription_config \<Rightarrow> bool" where
  "transcriptionEnabled cfg \<longleftrightarrow> TrimSpace (cfg_TranscriptionWorkerToken cfg) \<noteq> []"

definition sanitizeCallTranscriptionFields :: "Call \<Rightarrow> Call" where
  "sanitizeCallTranscriptionFields c = c\<lparr>ca_TranscriptText := [], ca_TranscriptStatus := [], ca_TranscriptProvider := []\<rparr>"

definition sanitizeCallTranscription :: "transcription_config \<Rightarrow> Call \<Rightarrow> Call" where
  "sanitizeCallTranscription cfg c = (if transcriptionEnabled cfg then c else sanitizeCallTranscriptionFields c)"

text \<open>\<open>%.1f\<close> of a non-negative number.\<close>

definition fixed1 :: "rat \<Rightarrow> string" where
  "fixed1 x = format_int (tenths x div 10) @ ''.'' @ format_int (tenths x mod 10)"

definition skip_transcription :: "string \<Rightarrow> int \<Rightarrow> Call \<Rightarrow> db \<Rightarrow> Call \<times> db" where
  "skip_transcription message now c d =
     (case UpsertCallTranscriptStatus (ca_ID c) ''skipped'' message now d of
        (Inl _, d') \<Rightarrow> (c\<lparr>ca_TranscriptStatus := ''pending''\<rparr>, d')
      | (Inr _, d') \<Rightarrow> (c\<lparr>ca_TranscriptStatus := ''skipped''\<rparr>, d'))"

definition too_short :: "transcription_config \<Rightarrow> Call \<Rightarrow> bool" where
  "too_short cfg c \<longleftrightarrow> cfg_TranscriptionMinDuration cfg > 0 \<and> ca_Duration c > 0 \<and>
     ca_Duration c < cfg_TranscriptionMinDuration cfg"

definition finalizeCallTranscription :: "transcription_config \<Rightarrow> int \<Rightarrow> Call \<Rightarrow> db \<Rightarrow> Call \<times> db" where
  "finalizeCallTranscription cfg now call d =
     (let c = call\<lparr>ca_TranscriptText := [], ca_TranscriptProvider := []\<rparr> in
      if \<not> transcriptionEnabled cfg then (c\<lparr>ca_TranscriptStatus := []\<rparr>, d)
      else if \<not> ShouldTranscribeTalkgroup (ca_Talkgroup c) d then
        skip_transcription ''talkgroup not enabled for transcription'' now c d
      else if too_short cfg c then
        skip_transcription (''audio duration '' @ fixed1 (ca_Duration c) @ ''s below '' @
          fixed1 (cfg_TranscriptionMinDuration cfg) @ ''s minimum'') now c d
      else (case UpsertCallTranscriptStatus (ca_ID c) ''pending'' [] now d of
          (_, d') \<Rightarrow> (c\<lparr>ca_TranscriptStatus := ''pending''\<rparr>, d')))"

text \<open>Only the transcript of the call is touched.\<close>

lemma UpsertStatus_frame: "d' = snd (UpsertCallTranscriptStatus c s m now d) \<Longrightarrow> d' = d\<lparr>t_transcripts := t_transcripts d'\<rparr>"
  by (auto simp: UpsertCallTranscriptStatus_def ins_transcripts_def split: if_splits)

lemma finalize_cases:
  assumes "finalizeCallTranscription cfg now c d = (c', d')"
  shows "d' = d \<or> (\<exists>s m. d' = snd (UpsertCallTranscriptStatus (ca_ID c) s m now d))"
proof -
  have "snd (skip_transcription m now c1 d) = snd (UpsertCallTranscriptStatus (ca_ID c1) ''skipped'' m now d)" for m c1
    by (simp add: skip_transcription_def split: prod.split sum.split)
  then show ?thesis
    using arg_cong [OF assms, of snd]
    by (auto simp: finalizeCallTranscription_def Let_def case_prod_beta split: if_splits)
qed

lemma finalize_frame: "finalizeCallTranscription cfg now c d = (c', d') \<Longrightarrow> d' = d\<lparr>t_transcripts := t_transcripts d'\<rparr>"
  using finalize_cases UpsertStatus_frame by fastforce

lemma finalize_ok: "db_ok d \<Longrightarrow> finalizeCallTranscription cfg now c d = (c', d') \<Longrightarrow> db_ok d'"
  using finalize_cases UpsertStatus_ok by metis

end
