(* ===== verification/FederationApi.thy ===== *)
theory FederationApi
  imports HubApi Intake
begin

text \<open>
  \<open>server/internal/api/federation.go\<close> and \<open>federation_limits.go\<close>: the feed a hub serves to its peers, and the loop
  that pulls the feeds of its peers. What a remote hub answers is an argument: a function from the query of a request
  to an error or the decoded payload; it does not change during one round. A node is the database with the calls
  that were published to the clients and streams so far.
\<close>

section \<open>The feed\<close>

record federation_cfg =
  fc_hub :: hub_config
  fc_transcription :: transcription_config

definition federationImportCapForDirectoryStatus :: "string \<Rightarrow> int" where
  "federationImportCapForDirectoryStatus status =
     (if ToLower (TrimSpace status) \<in> set [''listed'', ''verified''] then 1000 else 500)"

definition federationImportBatchLimit :: "int \<Rightarrow> int" where
  "federationImportBatchLimit remaining = (if remaining \<le> 0 then 0 else if remaining > 100 then 100 else remaining)"

definition isAuthorizedFederationPeer :: "string \<Rightarrow> db \<Rightarrow> bool" where
  "isAuthorizedFederationPeer header d =
     (let hub = TrimSpace header in hub \<noteq> [] \<and>
        list_ex (\<lambda>p. hp_hub_id p = hub \<and> hp_status p = ''connected'') (ListHubPeers d))"

definition requireFederationEnabled ::
  "hub_config \<Rightarrow> string \<Rightarrow> string \<Rightarrow> int \<Rightarrow> db \<Rightarrow> ('a reply + HubIdentity) \<times> db" where
  "requireFederationEnabled cfg header fresh now d =
     (case ensureHubIdentity cfg fresh now d of (h, d1) \<Rightarrow>
        (if \<not> hd_federation_enabled h then Inl (Fail 403 ''federation disabled'')
         else if \<not> isAuthorizedFederationPeer header d1 then Inl (Fail 401 ''unauthorized peer'')
         else Inr h, d1))"

text \<open>A call as it travels: the audio in base64.\<close>

record wire_call =
  wc_Call :: Call
  wc_Source :: string
  wc_AudioBase :: string

record federationCallsResponse =
  fr_Hub :: string
  fr_Sources :: "IngestionSource list"
  fr_Calls :: "wire_call list"

definition to_wire :: "FederatedCall \<Rightarrow> wire_call" where
  "to_wire c = \<lparr>wc_Call = (fc_Call c)\<lparr>ca_UserID := []\<rparr>, wc_Source = fc_Source c, wc_AudioBase = EncodeToString (fc_Audio c)\<rparr>"

definition anonymous_sources :: "db \<Rightarrow> IngestionSource list" where
  "anonymous_sources d = map (\<lambda>s. s\<lparr>is_UserID := []\<rparr>) (ListSharedIngestionSources d)"

definition handleFederationSources ::
  "hub_config \<Rightarrow> string \<Rightarrow> string \<Rightarrow> int \<Rightarrow> db \<Rightarrow> (string \<times> IngestionSource list) reply \<times> db" where
  "handleFederationSources cfg header fresh now d =
     (case requireFederationEnabled cfg header fresh now d of
        (Inl e, d1) \<Rightarrow> (e, d1)
      | (Inr h, d1) \<Rightarrow> (Reply 200 (hd_hub_id h, anonymous_sources d1), d1))"

definition handleFederationCalls ::
  "hub_config \<Rightarrow> string \<Rightarrow> query \<Rightarrow> string \<Rightarrow> int \<Rightarrow> db \<Rightarrow> federationCallsResponse reply \<times> db" where
  "handleFederationCalls cfg header q fresh now d =
     (case requireFederationEnabled cfg header fresh now d of
        (Inl e, d1) \<Rightarrow> (e, d1)
      | (Inr h, d1) \<Rightarrow>
          (let sinceID = queryInt64 q ''since'' 0; beforeID = queryInt64 q ''before'' 0;
               n = boundedQueryInt q ''limit'' 100 1 250;
               calls = (if queryBool q ''recent'' then ListRecentFederatedCalls beforeID n d1
                        else ListFederatedCalls sinceID n d1) in
           (Reply 200 \<lparr>fr_Hub = hd_hub_id h, fr_Sources = anonymous_sources d1, fr_Calls = map to_wire calls\<rparr>, d1)))"

section \<open>What an imported call becomes\<close>

record node =
  nd_db :: db
  nd_published :: "(Call \<times> string \<times> bytes) list"

definition canPullFederatedPeer :: "HubPeer \<Rightarrow> bool" where
  "canPullFederatedPeer p \<longleftrightarrow> hp_status p = ''connected'' \<and> TrimSpace (hp_public_url p) \<noteq> []"

definition federatedSourceLabel :: "IngestionSource \<Rightarrow> string" where
  "federatedSourceLabel s = (if TrimSpace (is_Label s) = [] then is_ID s else TrimSpace (is_Label s))"

definition federatedCallSourceID :: "wire_call \<Rightarrow> string" where
  "federatedCallSourceID c = (if TrimSpace (wc_Source c) = [] then TrimSpace (ca_SourceID (wc_Call c)) else TrimSpace (wc_Source c))"

definition federatedSourceID :: "string \<Rightarrow> string \<Rightarrow> string" where
  "federatedSourceID peer source =
     (let cleanSource = clean_id source in
      ''remote_'' @ clean_id peer @ ''_'' @ (if cleanSource = [] then ''unknown'' else cleanSource))"

definition remote_source :: "HubPeer \<Rightarrow> IngestionSource \<Rightarrow> IngestionSource" where
  "remote_source p s = \<lparr>is_ID = federatedSourceID (hp_hub_id p) (is_ID s), is_UserID = [],
     is_Label = hp_name p @ '' / '' @ federatedSourceLabel s, is_Enabled = True, is_IsShared = False, is_DeletedAt = 0,
     is_SystemID = is_SystemID s, is_SystemLabel = is_SystemLabel s, is_LastSeenUnix = is_LastSeenUnix s,
     is_ErrorCount = is_ErrorCount s, is_CallsReceived = is_CallsReceived s, is_UpdatedAt = 0\<rparr>"

fun upsertFederatedSources :: "HubPeer \<Rightarrow> int \<Rightarrow> IngestionSource list \<Rightarrow> db \<Rightarrow> string list dbres" where
  "upsertFederatedSources p now [] d = (Inr [], d)"
| "upsertFederatedSources p now (s # ss) d =
     (case UpsertIngestionSource (remote_source p s) now d of
        (Inl err, d1) \<Rightarrow> (Inl err, d1)
      | (Inr _, d1) \<Rightarrow> (case upsertFederatedSources p now ss d1 of
          (Inl err, d2) \<Rightarrow> (Inl err, d2)
        | (Inr ids, d2) \<Rightarrow> (Inr (is_ID s # ids), d2)))"

definition upsertFallbackFederatedSource :: "HubPeer \<Rightarrow> string \<Rightarrow> int \<Rightarrow> db \<Rightarrow> unit dbres" where
  "upsertFallbackFederatedSource p localID now d = UpsertIngestionSource
     \<lparr>is_ID = localID, is_UserID = [], is_Label = hp_name p @ '' / remote source'', is_Enabled = True, is_IsShared = False,
      is_DeletedAt = 0, is_SystemID = 0, is_SystemLabel = [], is_LastSeenUnix = 0, is_ErrorCount = 0,
      is_CallsReceived = 0, is_UpdatedAt = 0\<rparr> now d"

definition ensure_source :: "HubPeer \<Rightarrow> string list \<Rightarrow> string \<Rightarrow> int \<Rightarrow> db \<Rightarrow> unit dbres" where
  "ensure_source p known src now d =
     (if src \<in> set known then (Inr (), d)
      else upsertFallbackFederatedSource p (federatedSourceID (hp_hub_id p) src) now d)"

text \<open>
  One call. It is inserted, queued for transcription and only then recorded as imported: a call recorded
  before is inserted all the same, just not published.
\<close>

definition importFederatedCall ::
  "federation_cfg \<Rightarrow> HubPeer \<Rightarrow> string list \<Rightarrow> int \<Rightarrow> wire_call \<Rightarrow> node \<Rightarrow> (db_error + bool) \<times> node" where
  "importFederatedCall cfg p known now item n =
     (let rid = ca_ID (wc_Call item); src = federatedCallSourceID item; lsid = federatedSourceID (hp_hub_id p) src in
      if rid \<le> 0 then (Inr False, n)
      else case ensure_source p known src now (nd_db n) of
        (Inl err, d1) \<Rightarrow> (Inl err, n\<lparr>nd_db := d1\<rparr>)
      | (Inr _, d1) \<Rightarrow> (case DecodeString (wc_AudioBase item) of
          None \<Rightarrow> (Inl (OtherError ''illegal base64 data''), n\<lparr>nd_db := d1\<rparr>)
        | Some audio \<Rightarrow>
            (case InsertCall ((wc_Call item)\<lparr>ca_ID := 0, ca_UserID := [], ca_SourceID := lsid\<rparr>) audio now d1 of
               (Inl err, d2) \<Rightarrow> (Inl err, n\<lparr>nd_db := d2\<rparr>)
             | (Inr call, d2) \<Rightarrow> (case finalizeCallTranscription (fc_transcription cfg) now call d2 of (call', d3) \<Rightarrow>
                 (case RecordFederatedCallImport (hp_hub_id p) rid (ca_ID call) now d3 of
                    (Inl err, d4) \<Rightarrow> (Inl err, n\<lparr>nd_db := d4\<rparr>)
                  | (Inr False, d4) \<Rightarrow> (Inr False, n\<lparr>nd_db := d4\<rparr>)
                  | (Inr True, d4) \<Rightarrow> (Inr True, n\<lparr>nd_db := snd (IncrementSourceMetrics lsid True now d4),
                      nd_published := nd_published n @ [(call', lsid, audio)]\<rparr>))))))"

text \<open>The loop over a payload; \<open>room\<close> is what the cap leaves, \<open>None\<close> when it is not enforced.\<close>

fun import_each ::
  "federation_cfg \<Rightarrow> HubPeer \<Rightarrow> string list \<Rightarrow> int \<Rightarrow> int option \<Rightarrow> wire_call list \<Rightarrow> node \<Rightarrow> db_error option \<times> node" where
  "import_each cfg p known now room [] n = (None, n)"
| "import_each cfg p known now room (c # cs) n =
     (if (case room of None \<Rightarrow> False | Some r \<Rightarrow> r \<le> 0) then (None, n)
      else case importFederatedCall cfg p known now c n of
        (Inl err, n1) \<Rightarrow> (Some err, n1)
      | (Inr True, n1) \<Rightarrow> import_each cfg p known now (map_option (\<lambda>r. r - 1) room) cs n1
      | (Inr False, n1) \<Rightarrow> import_each cfg p known now room cs n1)"

definition importFederatedCalls ::
  "federation_cfg \<Rightarrow> HubPeer \<Rightarrow> federationCallsResponse \<Rightarrow> int option \<Rightarrow> int \<Rightarrow> node \<Rightarrow> db_error option \<times> node" where
  "importFederatedCalls cfg p payload room now n =
     (case upsertFederatedSources p now (fr_Sources payload) (nd_db n) of
        (Inl err, d1) \<Rightarrow> (Some err, n\<lparr>nd_db := d1\<rparr>)
      | (Inr known, d1) \<Rightarrow> import_each cfg p known now room (fr_Calls payload) (n\<lparr>nd_db := d1\<rparr>))"

section \<open>Pulling from a peer\<close>

type_synonym remote = "query \<Rightarrow> string + federationCallsResponse"

definition recent_query :: "int \<Rightarrow> int \<Rightarrow> query" where
  "recent_query before n = (\<lambda>_. [])(''recent'' := ''1'', ''before'' := format_int before, ''limit'' := format_int n)"

definition since_query :: "int \<Rightarrow> int \<Rightarrow> query" where
  "since_query since n = (\<lambda>_. [])(''since'' := format_int since, ''limit'' := format_int n)"

definition fetchFederationCalls :: "remote \<Rightarrow> string \<Rightarrow> query \<Rightarrow> string + federationCallsResponse" where
  "fetchFederationCalls remote expected q =
     (case remote q of Inl err \<Rightarrow> Inl err
      | Inr payload \<Rightarrow>
          if TrimSpace (fr_Hub payload) \<noteq> [] \<and> fr_Hub payload \<noteq> expected
          then Inl (''remote hub id mismatch: expected '' @ expected @ '' got '' @ fr_Hub payload)
          else Inr payload)"

datatype sync_error = RemoteError string | DbError db_error

definition next_before :: "wire_call list \<Rightarrow> int" where
  "next_before cs = (case cs of [] \<Rightarrow> 0 | c # rest \<Rightarrow> foldl min (ca_ID (wc_Call c)) (map (ca_ID \<circ> wc_Call) rest))"

text \<open>The loop has no bound of its own, so not returning is the value \<open>None\<close>.\<close>

partial_function (option) backfill ::
  "federation_cfg \<Rightarrow> HubPeer \<Rightarrow> remote \<Rightarrow> int \<Rightarrow> int \<Rightarrow> int \<Rightarrow> int \<Rightarrow> node \<Rightarrow> (sync_error option \<times> node) option" where
  "backfill cfg p remote cap now before imported n =
     (if imported \<ge> cap \<or> federationImportBatchLimit (cap - imported) = 0 then Some (None, n)
      else case fetchFederationCalls remote (hp_hub_id p) (recent_query before (federationImportBatchLimit (cap - imported))) of
        Inl err \<Rightarrow> Some (Some (RemoteError err), n)
      | Inr payload \<Rightarrow>
          if fr_Calls payload = [] then Some (None, n)
          else (case importFederatedCalls cfg p payload (Some (cap - imported)) now n of
              (Some err, n1) \<Rightarrow> Some (Some (DbError err), n1)
            | (None, n1) \<Rightarrow>
                if before > 0 \<and> next_before (fr_Calls payload) \<ge> before then Some (None, n1)
                else backfill cfg p remote cap now (next_before (fr_Calls payload))
                       (CountImportedFederatedCallsFromPeer (hp_hub_id p) (nd_db n1)) n1))"

text \<open>\<open>url\<close>: what \<open>normalizeHubURL\<close> makes of the peer's URL.\<close>

definition syncFederatedPeerBackfill ::
  "federation_cfg \<Rightarrow> (string \<Rightarrow> string + string) \<Rightarrow> HubPeer \<Rightarrow> (string \<Rightarrow> remote) \<Rightarrow> int \<Rightarrow> int \<Rightarrow> int \<Rightarrow> node \<Rightarrow>
   (sync_error option \<times> node) option" where
  "syncFederatedPeerBackfill cfg url p remote cap now imported n =
     (case url (hp_public_url p) of Inl err \<Rightarrow> Some (Some (RemoteError err), n)
      | Inr u \<Rightarrow> backfill cfg p (remote u) cap now 0 imported n)"

definition syncFederatedPeerLive ::
  "federation_cfg \<Rightarrow> (string \<Rightarrow> string + string) \<Rightarrow> HubPeer \<Rightarrow> (string \<Rightarrow> remote) \<Rightarrow> int \<Rightarrow> int \<Rightarrow> node \<Rightarrow> sync_error option \<times> node" where
  "syncFederatedPeerLive cfg url p remote now since n =
     (case url (hp_public_url p) of Inl err \<Rightarrow> (Some (RemoteError err), n)
      | Inr u \<Rightarrow> (case fetchFederationCalls (remote u) (hp_hub_id p) (since_query since (federationImportBatchLimit 100)) of
          Inl err \<Rightarrow> (Some (RemoteError err), n)
        | Inr payload \<Rightarrow>
            if fr_Calls payload = [] then (None, n)
            else (case importFederatedCalls cfg p payload None now n of (e, n1) \<Rightarrow> (map_option DbError e, n1))))"

definition syncFederatedPeer ::
  "federation_cfg \<Rightarrow> (string \<Rightarrow> string + string) \<Rightarrow> HubIdentity \<Rightarrow> HubPeer \<Rightarrow> (string \<Rightarrow> remote) \<Rightarrow> int \<Rightarrow> node \<Rightarrow>
   (sync_error option \<times> node) option" where
  "syncFederatedPeer cfg url h p remote now n =
     (let cap = federationImportCapForDirectoryStatus (hd_directory_validation_status h);
          imported = CountImportedFederatedCallsFromPeer (hp_hub_id p) (nd_db n) in
      if imported < cap then
        (case syncFederatedPeerBackfill cfg url p remote cap now imported n of
           None \<Rightarrow> None
         | Some (Some e, n1) \<Rightarrow> Some (Some e, n1)
         | Some (None, n1) \<Rightarrow> Some (syncFederatedPeerLive cfg url p remote now (MaxImportedRemoteCallID (hp_hub_id p) (nd_db n1)) n1))
      else Some (syncFederatedPeerLive cfg url p remote now (MaxImportedRemoteCallID (hp_hub_id p) (nd_db n)) n))"

text \<open>One round over all peers; the error of one peer is logged and the next one is tried.\<close>

fun sync_each ::
  "federation_cfg \<Rightarrow> (string \<Rightarrow> string + string) \<Rightarrow> HubIdentity \<Rightarrow> (string \<Rightarrow> remote) \<Rightarrow> int \<Rightarrow> HubPeer list \<Rightarrow> node \<Rightarrow> node option" where
  "sync_each cfg url h remote now [] n = Some n"
| "sync_each cfg url h remote now (p # ps) n =
     (if \<not> canPullFederatedPeer p then sync_each cfg url h remote now ps n
      else case syncFederatedPeer cfg url h p remote now n of
        None \<Rightarrow> None
      | Some (_, n1) \<Rightarrow> sync_each cfg url h remote now ps n1)"

definition syncFederatedPeers ::
  "federation_cfg \<Rightarrow> (string \<Rightarrow> string + string) \<Rightarrow> (string \<Rightarrow> remote) \<Rightarrow> string \<Rightarrow> int \<Rightarrow> node \<Rightarrow> node option" where
  "syncFederatedPeers cfg url remote fresh now n =
     (case ensureHubIdentity (fc_hub cfg) fresh now (nd_db n) of (h, d1) \<Rightarrow>
        if \<not> hd_federation_enabled h then Some (n\<lparr>nd_db := d1\<rparr>)
        else sync_each cfg url h remote now (ListHubPeers d1) (n\<lparr>nd_db := d1\<rparr>))"



section \<open>The status page\<close>

record federationPeerStatus =
  ps_PeerID :: string
  ps_HubID :: string
  ps_Name :: string
  ps_PublicURL :: string
  ps_CanPull :: bool
  ps_RemoteSharedSources :: int
  ps_RemoteSampleCalls :: int
  ps_ImportedCallCount :: int
  ps_ImportCap :: int
  ps_ImportCapReached :: bool
  ps_Error :: string

text \<open>\<open>shared\<close>: what the peer's list of sources answers; the sample asks for one call from the start of its feed.\<close>

definition checkFederationPeerStatus ::
  "(string \<Rightarrow> string + string) \<Rightarrow> (string \<Rightarrow> string + IngestionSource list) \<Rightarrow> (string \<Rightarrow> remote) \<Rightarrow> HubPeer \<Rightarrow> int \<Rightarrow> db \<Rightarrow>
   federationPeerStatus" where
  "checkFederationPeerStatus url shared remote p importCap d =
     (let imported = CountImportedFederatedCallsFromPeer (hp_hub_id p) d;
          st = \<lparr>ps_PeerID = hp_id p, ps_HubID = hp_hub_id p, ps_Name = (if hp_name p = [] then hp_hub_id p else hp_name p),
                ps_PublicURL = hp_public_url p, ps_CanPull = canPullFederatedPeer p, ps_RemoteSharedSources = 0,
                ps_RemoteSampleCalls = 0, ps_ImportedCallCount = imported, ps_ImportCap = importCap,
                ps_ImportCapReached = (imported \<ge> importCap), ps_Error = []\<rparr> in
      if \<not> ps_CanPull st then st
      else case url (hp_public_url p) of Inl err \<Rightarrow> st\<lparr>ps_Error := err\<rparr>
      | Inr u \<Rightarrow> (case shared u of Inl err \<Rightarrow> st\<lparr>ps_Error := err\<rparr>
        | Inr sources \<Rightarrow> (let st1 = st\<lparr>ps_RemoteSharedSources := int (length sources)\<rparr> in
            if sources = [] then st1
            else case remote u (since_query 0 1) of Inl err \<Rightarrow> st1\<lparr>ps_Error := err\<rparr>
            | Inr payload \<Rightarrow> st1\<lparr>ps_RemoteSampleCalls := int (length (fr_Calls payload))\<rparr>)))"

definition peer_warnings :: "federationPeerStatus \<Rightarrow> string list" where
  "peer_warnings st =
     (if \<not> ps_CanPull st then []
      else (if ps_Error st \<noteq> [] then [''peer '' @ ps_Name st @ '' federation check failed: '' @ ps_Error st]
            else if ps_RemoteSharedSources st = 0 then [''peer '' @ ps_Name st @ '' has no enabled shared sources'']
            else if ps_RemoteSampleCalls st = 0 then [''peer '' @ ps_Name st @ '' has shared sources but no exportable calls yet'']
            else []) @
        (if ps_ImportCapReached st then [''peer '' @ ps_Name st @ '' historical backfill cap reached ('' @
           format_int (ps_ImportedCallCount st) @ ''/'' @ format_int (ps_ImportCap st)] else []))"

record federationStatusResponse =
  fs_Hub :: HubIdentity
  fs_Peers :: "HubPeer list"
  fs_SharedSources :: "IngestionSource list"
  fs_ExportableCallCount :: int
  fs_ImportedSourceCount :: int
  fs_ImportedCallCount :: int
  fs_FederationImportCap :: int
  fs_PullPeerCount :: int
  fs_PeerStatuses :: "federationPeerStatus list"
  fs_Warnings :: "string list"

text \<open>The text after the count in the warning about the cap holds a character outside ASCII and is left out.\<close>

definition handleFederationStatus ::
  "hub_config \<Rightarrow> (string \<Rightarrow> string + string) \<Rightarrow> (string \<Rightarrow> string + IngestionSource list) \<Rightarrow> (string \<Rightarrow> remote) \<Rightarrow> authUser option \<Rightarrow>
   string \<Rightarrow> int \<Rightarrow> db \<Rightarrow> federationStatusResponse reply \<times> db" where
  "handleFederationStatus cfg url shared remote ctx fresh now d =
     (case requireAdmin ctx of Inl e \<Rightarrow> (e, d)
      | Inr _ \<Rightarrow> (case ensureHubIdentity cfg fresh now d of (h, d1) \<Rightarrow>
          (let peers = ListHubPeers d1; sources = anonymous_sources d1;
               cap = federationImportCapForDirectoryStatus (hd_directory_validation_status h);
               statuses = map (\<lambda>p. checkFederationPeerStatus url shared remote p cap d1) peers;
               pull = int (sql_count canPullFederatedPeer peers); n = CountFederatedCalls d1 in
           (Reply 200 \<lparr>fs_Hub = h, fs_Peers = peers, fs_SharedSources = sources, fs_ExportableCallCount = n,
              fs_ImportedSourceCount = CountImportedFederatedSources d1, fs_ImportedCallCount = CountImportedFederatedCalls d1,
              fs_FederationImportCap = cap, fs_PullPeerCount = pull, fs_PeerStatuses = statuses,
              fs_Warnings = (if \<not> hd_federation_enabled h then [''federation is disabled''] else []) @
                (if pull = 0 then [''this hub has no connected outbound peer to pull from''] else []) @
                (if sources = [] then [''no enabled sources are marked shared''] else []) @
                (if n = 0 then [''no calls are currently eligible for federation export''] else []) @
                concat (map peer_warnings statuses)\<rparr>, d1))))"

section \<open>Imports stay apart from what the hub exports\<close>

lemma clean_remote: "like_remote (federatedSourceID peer src)"
  by (simp add: like_remote_iff federatedSourceID_def Let_def)

lemma federatedSourceID_pattern: "sql_like (federatedPeerSourceLikePattern peer) (federatedSourceID peer src)"
proof -
  have "\<exists>rest. federatedSourceID peer src = ''remote'' @ CHR ''_'' # clean_id peer @ CHR ''_'' # rest"
    by (simp add: federatedSourceID_def Let_def)
  then show ?thesis unfolding peer_pattern_iff by blast
qed

text \<open>From one database to the next only calls of imported sources were added and only imported sources changed.\<close>

definition imported_only :: "db \<Rightarrow> db \<Rightarrow> bool" where
  "imported_only d d' \<longleftrightarrow>
     (\<exists>new. t_calls d' = t_calls d @ new \<and>
        list_all (\<lambda>r. case cr_source_id r of None \<Rightarrow> False | Some i \<Rightarrow> like_remote i) new) \<and>
     filter (\<lambda>s. \<not> like_remote (sr_id s)) (t_sources d') = filter (\<lambda>s. \<not> like_remote (sr_id s)) (t_sources d) \<and>
     (\<exists>recs. t_imports d' = t_imports d @ recs) \<and> t_hub_peers d' = t_hub_peers d \<and> t_hub_identity d' = t_hub_identity d"

lemma imported_only_refl [simp]: "imported_only d d"
  by (simp add: imported_only_def)

lemma imported_only_frame: "t_calls d' = t_calls d \<Longrightarrow> t_sources d' = t_sources d \<Longrightarrow> t_imports d' = t_imports d @ recs \<Longrightarrow>
    t_hub_peers d' = t_hub_peers d \<Longrightarrow> t_hub_identity d' = t_hub_identity d \<Longrightarrow> imported_only d d'"
  by (simp add: imported_only_def)

lemma imported_only_trans: "imported_only d d' \<Longrightarrow> imported_only d' d'' \<Longrightarrow> imported_only d d''"
  by (auto simp: imported_only_def)

lemma filter_sql_update_out: "(\<And>r. Q r \<Longrightarrow> P r = False) \<Longrightarrow> (\<And>r. P r \<Longrightarrow> Q (f r) = Q r) \<Longrightarrow>
    filter Q (sql_update P f rows) = filter Q rows"
  by (induction rows) (auto simp: sql_update_def)

lemma UpsertIngestionSource_imported:
  assumes "like_remote (is_ID s)"
  shows "imported_only d (snd (UpsertIngestionSource s now d))"
proof -
  have upd: "filter (\<lambda>s. \<not> like_remote (sr_id s)) (sql_update (\<lambda>r. sr_id r = is_ID s) f (t_sources d)) =
      filter (\<lambda>s. \<not> like_remote (sr_id s)) (t_sources d)" if "\<And>r. sr_id (f r) = sr_id r" for f
    using assms that by (intro filter_sql_update_out) auto
  show ?thesis
    using assms upd by (auto simp: UpsertIngestionSource_def Let_def ins_sources_def imported_only_def
        split: option.split sum.split)
qed

lemma IncrementSourceMetrics_imported:
  assumes "like_remote i"
  shows "imported_only d (snd (IncrementSourceMetrics i b now d))"
proof -
  have "filter (\<lambda>s. \<not> like_remote (sr_id s)) (sql_update (\<lambda>r. sr_id r = i) (bump_source b now) (t_sources d)) =
      filter (\<lambda>s. \<not> like_remote (sr_id s)) (t_sources d)"
    using assms by (intro filter_sql_update_out) (auto simp: bump_source_def)
  then show ?thesis
    using assms by (auto simp: IncrementSourceMetrics_def Let_def ins_sources_def imported_only_def fresh_source_row_def
        split: option.split sum.split)
qed

lemma nullable_remote: "like_remote i \<Longrightarrow> nullableString i = Some i"
proof -
  assume "like_remote i"
  then obtain rest where i: "i = CHR ''r'' # rest" by (auto simp: like_remote_iff prefix_def)
  have "TrimSpace i \<noteq> []"
  proof
    assume "TrimSpace i = []"
    then have "list_all is_space (rev (dropWhile is_space i))"
      by (simp add: TrimSpace_def list_all_iff)
    then show False by (simp add: i is_space_def)
  qed
  then show ?thesis by (simp add: nullableString_def)
qed

lemma InsertCall_imported:
  "like_remote (ca_SourceID c) \<Longrightarrow> imported_only d (snd (InsertCall c audio now d))"
  using nullable_remote [of "ca_SourceID c"]
  by (auto simp: InsertCall_def ins_calls_def imported_only_def call_row_def split: sum.split)

lemma Record_imported: "imported_only d (snd (RecordFederatedCallImport p r l now d))"
  by (auto simp: RecordFederatedCallImport_def ins_imports_def intro!: imported_only_frame split: sum.split db_error.split)

lemma finalize_other:
  assumes "finalizeCallTranscription cfg now c d = (c', d')"
  shows "t_calls d' = t_calls d" "t_sources d' = t_sources d" "t_imports d' = t_imports d"
    "t_hub_peers d' = t_hub_peers d" "t_hub_identity d' = t_hub_identity d"
  by (subst finalize_frame [OF assms], simp)+

lemma finalize_imported: "finalizeCallTranscription cfg now c d = (c', d') \<Longrightarrow> imported_only d d'"
  by (rule imported_only_frame [where recs="[]"]) (simp_all add: finalize_other)

lemma upsertFederatedSources_imported: "imported_only d (snd (upsertFederatedSources p now ss d))"
proof (induction p now ss d rule: upsertFederatedSources.induct)
  case (2 p now s ss d)
  have "imported_only d (snd (UpsertIngestionSource (remote_source p s) now d))"
    by (rule UpsertIngestionSource_imported) (simp add: remote_source_def clean_remote)
  with 2 show ?case by (auto split: prod.split sum.split intro: imported_only_trans)
qed simp

lemma ensure_source_imported: "imported_only d (snd (ensure_source p known src now d))"
  by (simp add: ensure_source_def upsertFallbackFederatedSource_def UpsertIngestionSource_imported clean_remote)

text \<open>The calls of one import, in the order they are made.\<close>

lemma importFederatedCall_steps:
  assumes "importFederatedCall cfg p known now item n = (x, n')" "ca_ID (wc_Call item) > 0"
  obtains e d1 where "ensure_source p known (federatedCallSourceID item) now (nd_db n) = (Inl e, d1)" "x = Inl e"
      "n' = n\<lparr>nd_db := d1\<rparr>"
  | d1 where "ensure_source p known (federatedCallSourceID item) now (nd_db n) = (Inr (), d1)"
      "DecodeString (wc_AudioBase item) = None" "x = Inl (OtherError ''illegal base64 data'')" "n' = n\<lparr>nd_db := d1\<rparr>"
  | d1 audio e d2 where "ensure_source p known (federatedCallSourceID item) now (nd_db n) = (Inr (), d1)"
      "DecodeString (wc_AudioBase item) = Some audio"
      "InsertCall ((wc_Call item)\<lparr>ca_ID := 0, ca_UserID := [],
         ca_SourceID := federatedSourceID (hp_hub_id p) (federatedCallSourceID item)\<rparr>) audio now d1 = (Inl e, d2)"
      "x = Inl e" "n' = n\<lparr>nd_db := d2\<rparr>"
  | d1 audio call d2 call' d3 y d4 where "ensure_source p known (federatedCallSourceID item) now (nd_db n) = (Inr (), d1)"
      "DecodeString (wc_AudioBase item) = Some audio"
      "InsertCall ((wc_Call item)\<lparr>ca_ID := 0, ca_UserID := [],
         ca_SourceID := federatedSourceID (hp_hub_id p) (federatedCallSourceID item)\<rparr>) audio now d1 = (Inr call, d2)"
      "finalizeCallTranscription (fc_transcription cfg) now call d2 = (call', d3)"
      "RecordFederatedCallImport (hp_hub_id p) (ca_ID (wc_Call item)) (ca_ID call) now d3 = (y, d4)"
      "x = y"
      "n' = (if y = Inr True then n\<lparr>nd_db := snd (IncrementSourceMetrics (federatedSourceID (hp_hub_id p) (federatedCallSourceID item)) True now d4),
          nd_published := nd_published n @ [(call', federatedSourceID (hp_hub_id p) (federatedCallSourceID item), audio)]\<rparr>
        else n\<lparr>nd_db := d4\<rparr>)"
proof -
  note a = assms(1) [unfolded importFederatedCall_def Let_def]
  obtain u d1 where s: "ensure_source p known (federatedCallSourceID item) now (nd_db n) = (u, d1)" by fastforce
  show thesis
  proof (cases u)
    case (Inl e)
    with a s assms(2) that(1) show thesis by simp
  next
    case (Inr v)
    show thesis
    proof (cases "DecodeString (wc_AudioBase item)")
      case None
      with a s assms(2) Inr that(2) show thesis by simp
    next
      case (Some audio)
      obtain w d2 where w: "InsertCall ((wc_Call item)\<lparr>ca_ID := 0, ca_UserID := [],
         ca_SourceID := federatedSourceID (hp_hub_id p) (federatedCallSourceID item)\<rparr>) audio now d1 = (w, d2)" by fastforce
      show thesis
      proof (cases w)
        case (Inl e)
        with a s assms(2) Inr Some w that(3) show thesis by simp
      next
        case (Inr call)
        obtain call' d3 where f: "finalizeCallTranscription (fc_transcription cfg) now call d2 = (call', d3)" by fastforce
        obtain y d4 where y: "RecordFederatedCallImport (hp_hub_id p) (ca_ID (wc_Call item)) (ca_ID call) now d3 = (y, d4)"
          by fastforce
        from a s assms(2) \<open>u = Inr v\<close> Some w Inr f y have "x = y" "n' = (if y = Inr True then n\<lparr>nd_db := snd (IncrementSourceMetrics (federatedSourceID (hp_hub_id p) (federatedCallSourceID item)) True now d4),
          nd_published := nd_published n @ [(call', federatedSourceID (hp_hub_id p) (federatedCallSourceID item), audio)]\<rparr>
        else n\<lparr>nd_db := d4\<rparr>)"
          by (auto split: sum.splits bool.splits)
        with s \<open>u = Inr v\<close> Some w Inr f y that(4) show thesis by simp
      qed
    qed
  qed
qed

lemma importFederatedCall_skip:
  "ca_ID (wc_Call item) \<le> 0 \<Longrightarrow> importFederatedCall cfg p known now item n = (Inr False, n)"
  by (simp add: importFederatedCall_def)

lemma importFederatedCall_imported:
  assumes "importFederatedCall cfg p known now item n = (x, n')"
  shows "imported_only (nd_db n) (nd_db n')"
proof (cases "ca_ID (wc_Call item) \<le> 0")
  case True
  with assms show ?thesis by (simp add: importFederatedCall_skip)
next
  case False
  then have pos: "ca_ID (wc_Call item) > 0" by simp
  let ?src = "federatedCallSourceID item"
  have s: "imported_only (nd_db n) d1" if "ensure_source p known ?src now (nd_db n) = (u, d1)" for u d1
    using ensure_source_imported [of "nd_db n" p known ?src now] that by simp
  have i: "imported_only d1 d2" if "InsertCall ((wc_Call item)\<lparr>ca_ID := 0, ca_UserID := [],
         ca_SourceID := federatedSourceID (hp_hub_id p) ?src\<rparr>) audio now d1 = (w, d2)" for d1 d2 w audio
    using InsertCall_imported [of "(wc_Call item)\<lparr>ca_ID := 0, ca_UserID := [],
         ca_SourceID := federatedSourceID (hp_hub_id p) ?src\<rparr>" d1 audio now] that by (simp add: clean_remote)
  from assms pos show ?thesis
  proof (cases rule: importFederatedCall_steps)
    case (1 e d1)
    then show ?thesis using s by simp
  next
    case (2 d1)
    then show ?thesis using s by simp
  next
    case (3 d1 audio e d2)
    then show ?thesis using imported_only_trans [OF s [OF 3(1)] i [OF 3(3)]] by simp
  next
    case (4 d1 audio call d2 call' d3 y d4)
    have "imported_only (nd_db n) d2" by (rule imported_only_trans [OF s [OF 4(1)] i [OF 4(3)]])
    moreover have "imported_only d2 d3" by (rule finalize_imported [OF 4(4)])
    moreover have "imported_only d3 d4"
      using Record_imported [of d3 "hp_hub_id p" "ca_ID (wc_Call item)" "ca_ID call" now] 4(5) by simp
    ultimately have "imported_only (nd_db n) d4" by (blast intro: imported_only_trans)
    moreover have "imported_only d4 (snd (IncrementSourceMetrics (federatedSourceID (hp_hub_id p) ?src) True now d4))"
      by (rule IncrementSourceMetrics_imported [OF clean_remote])
    ultimately have "imported_only (nd_db n) (snd (IncrementSourceMetrics (federatedSourceID (hp_hub_id p) ?src) True now d4))"
      by (rule imported_only_trans)
    with \<open>imported_only (nd_db n) d4\<close> 4(7) show ?thesis by simp
  qed
qed


lemma import_each_imported: "import_each cfg p known now room cs n = (e, n') \<Longrightarrow> imported_only (nd_db n) (nd_db n')"
proof (induction cfg p known now room cs n arbitrary: e n' rule: import_each.induct)
  case (2 cfg p known now room c cs n)
  show ?case
  proof (cases "case room of None \<Rightarrow> False | Some r \<Rightarrow> r \<le> 0")
    case True
    with "2.prems" show ?thesis by simp
  next
    case False
    obtain x n1 where x: "importFederatedCall cfg p known now c n = (x, n1)" by fastforce
    note step = importFederatedCall_imported [OF x]
    show ?thesis
    proof (cases x)
      case (Inl err)
      with "2.prems" False x step show ?thesis by simp
    next
      case (Inr b)
      then have "imported_only (nd_db n1) (nd_db n')"
        using "2.IH" [OF False x [symmetric] Inr] "2.prems" False x by (cases b) auto
      with step show ?thesis by (rule imported_only_trans)
    qed
  qed
qed simp

lemma importFederatedCalls_imported:
  assumes "importFederatedCalls cfg p payload room now n = (e, n')"
  shows "imported_only (nd_db n) (nd_db n')"
proof -
  obtain x d1 where x: "upsertFederatedSources p now (fr_Sources payload) (nd_db n) = (x, d1)" by fastforce
  have s: "imported_only (nd_db n) d1"
    using upsertFederatedSources_imported [of "nd_db n" p now "fr_Sources payload"] x by simp
  show ?thesis
  proof (cases x)
    case (Inl err)
    with assms x s show ?thesis by (auto simp: importFederatedCalls_def)
  next
    case (Inr known)
    then have "import_each cfg p known now room (fr_Calls payload) (n\<lparr>nd_db := d1\<rparr>) = (e, n')"
      using assms x by (simp add: importFederatedCalls_def)
    from import_each_imported [OF this] s show ?thesis by (auto intro: imported_only_trans)
  qed
qed

lemma backfill_imported:
  assumes "backfill cfg p remote cap now before k n = Some r"
  shows "imported_only (nd_db n) (nd_db (snd r))"
proof (rule backfill.raw_induct [where P = "\<lambda>cfg p remote cap now before k n r. imported_only (nd_db n) (nd_db (snd r))",
      OF _ assms])
  fix f cfg p remote cap now before k n r
  assume IH: "\<And>cfg p remote cap now before k n r. f cfg p remote cap now before k n = Some r \<Longrightarrow>
      imported_only (nd_db n) (nd_db (snd r))"
    and eq: "(if k \<ge> cap \<or> federationImportBatchLimit (cap - k) = 0 then Some (None, n)
      else case fetchFederationCalls remote (hp_hub_id p) (recent_query before (federationImportBatchLimit (cap - k))) of
        Inl err \<Rightarrow> Some (Some (RemoteError err), n)
      | Inr payload \<Rightarrow>
          if fr_Calls payload = [] then Some (None, n)
          else (case importFederatedCalls cfg p payload (Some (cap - k)) now n of
              (Some err, n1) \<Rightarrow> Some (Some (DbError err), n1)
            | (None, n1) \<Rightarrow>
                if before > 0 \<and> next_before (fr_Calls payload) \<ge> before then Some (None, n1)
                else f cfg p remote cap now (next_before (fr_Calls payload))
                       (CountImportedFederatedCallsFromPeer (hp_hub_id p) (nd_db n1)) n1)) = Some r"
  show "imported_only (nd_db n) (nd_db (snd r))"
  proof (cases "fetchFederationCalls remote (hp_hub_id p) (recent_query before (federationImportBatchLimit (cap - k)))")
    case (Inl err)
    with eq show ?thesis by (auto split: if_splits)
  next
    case (Inr payload)
    obtain e n1 where e: "importFederatedCalls cfg p payload (Some (cap - k)) now n = (e, n1)" by fastforce
    note step = importFederatedCalls_imported [OF e]
    show ?thesis
    proof (cases "(k \<ge> cap \<or> federationImportBatchLimit (cap - k) = 0) \<or> fr_Calls payload = [] \<or> e \<noteq> None \<or>
        before > 0 \<and> next_before (fr_Calls payload) \<ge> before")
      case True
      with eq Inr e step show ?thesis by (cases e) (auto split: if_splits)
    next
      case False
      then have "f cfg p remote cap now (next_before (fr_Calls payload))
          (CountImportedFederatedCallsFromPeer (hp_hub_id p) (nd_db n1)) n1 = Some r"
        using eq Inr e by auto
      from imported_only_trans [OF step IH [OF this]] show ?thesis .
    qed
  qed
qed

lemma live_imported: "syncFederatedPeerLive cfg url p remote now since n = (e, n') \<Longrightarrow> imported_only (nd_db n) (nd_db n')"
  by (auto simp: syncFederatedPeerLive_def dest!: importFederatedCalls_imported split: sum.splits if_splits prod.splits)

lemma sync_imported:
  assumes "syncFederatedPeer cfg url h p remote now n = Some (e, n')"
  shows "imported_only (nd_db n) (nd_db n')"
proof -
  have b: "imported_only (nd_db n) (nd_db n1)" if "syncFederatedPeerBackfill cfg url p remote c now k n = Some (e1, n1)" for c k e1 n1
    using that backfill_imported by (fastforce simp: syncFederatedPeerBackfill_def split: sum.splits)
  show ?thesis
    using assms by (auto simp: syncFederatedPeer_def Let_def dest!: b live_imported intro: imported_only_trans
        split: if_splits option.splits)
qed

lemma sync_each_imported: "sync_each cfg url h remote now ps n = Some n' \<Longrightarrow> imported_only (nd_db n) (nd_db n')"
proof (induction cfg url h remote now ps n rule: sync_each.induct)
  case (2 cfg url h remote now p ps n)
  then show ?case
    by (auto dest!: sync_imported intro: imported_only_trans split: if_splits option.splits)
qed simp

lemma syncFederatedPeers_imported:
  assumes "syncFederatedPeers cfg url remote fresh now n = Some n'"
  obtains h d1 where "ensureHubIdentity (fc_hub cfg) fresh now (nd_db n) = (h, d1)" "imported_only d1 (nd_db n')"
proof -
  obtain h d1 where h: "ensureHubIdentity (fc_hub cfg) fresh now (nd_db n) = (h, d1)" by fastforce
  moreover have "imported_only d1 (nd_db n')"
    using assms h by (auto simp: syncFederatedPeers_def dest!: sync_each_imported split: if_splits)
  ultimately show thesis by (rule that)
qed

text \<open>What the hub exports depends only on what imports leave alone.\<close>

lemma find_filter_imp: "(\<And>x. Q x \<Longrightarrow> R x) \<Longrightarrow> List.find Q (filter R xs) = List.find Q xs"
  by (induction xs) auto

lemma find_source_local: "\<not> like_remote i \<Longrightarrow>
    find_source i d = List.find (\<lambda>r. sr_id r = i) (filter (\<lambda>s. \<not> like_remote (sr_id s)) (t_sources d))"
  unfolding find_source_def by (rule find_filter_imp [symmetric]) simp

lemma exportable_local:
  assumes "imported_only d d'"
  shows "exportable d' r = exportable d r"
proof (cases "cr_source_id r")
  case (Some i)
  show ?thesis
  proof (cases "like_remote i")
    case True
    have "find_source i x = Some s \<Longrightarrow> sr_id s = i" for x s by (auto simp: find_source_def dest: find_Some_mem)
    with True Some show ?thesis
      by (auto simp: exportable_def exported_source_def split: option.splits)
  next
    case False
    with assms Some show ?thesis by (simp add: exportable_def find_source_local imported_only_def)
  qed
qed (simp add: exportable_def)

lemma imported_only_export:
  assumes "imported_only d d'"
  shows "export_feed d' = export_feed d"
proof -
  obtain new where new: "t_calls d' = t_calls d @ new"
    "list_all (\<lambda>r. case cr_source_id r of None \<Rightarrow> False | Some i \<Rightarrow> like_remote i) new"
    using assms by (auto simp: imported_only_def)
  have "\<not> exportable d r" if "r \<in> set new" for r
  proof -
    have "case cr_source_id r of None \<Rightarrow> False | Some i \<Rightarrow> like_remote i"
      using new(2) that unfolding list_all_iff by blast
    then obtain i where i: "cr_source_id r = Some i" "like_remote i"
      by (cases "cr_source_id r") auto
    then show ?thesis
      by (auto simp: exportable_def find_source_def exported_source_def dest: find_Some_mem split: option.splits)
  qed
  then have "filter (exportable d') (t_calls d') = filter (exportable d) (t_calls d)"
    using new(1) ext [of "exportable d'" "exportable d", OF exportable_local [OF assms]] by (simp add: filter_empty_conv)
  then show ?thesis by (simp add: export_feed_def)
qed

lemma exportable_identity: "exportable (d\<lparr>t_hub_identity := x\<rparr>) r = exportable d r"
  by (simp add: exportable_def find_source_def split: option.split)

lemma export_feed_identity: "export_feed (d\<lparr>t_hub_identity := x\<rparr>) = export_feed d"
  using ext [of "exportable (d\<lparr>t_hub_identity := x\<rparr>)" "exportable d", OF exportable_identity]
  by (simp add: export_feed_def)

text \<open>
  Property C28. Pulling from peers never changes what the hub itself exports: after a whole round over any peers, whatever
  they answer and whatever errors occur on the way, the export feed is the one before. So a call is never
  passed on from hub to hub.
\<close>

theorem imports_not_exported:
  assumes "syncFederatedPeers cfg url remote fresh now n = Some n'"
  shows "export_feed (nd_db n') = export_feed (nd_db n)"
proof -
  obtain h d1 where h: "ensureHubIdentity (fc_hub cfg) fresh now (nd_db n) = (h, d1)" and i: "imported_only d1 (nd_db n')"
    using assms by (rule syncFederatedPeers_imported)
  show ?thesis
    using imported_only_export [OF i] ensureHubIdentity_frame [OF h] by (simp add: export_feed_identity)
qed


section \<open>When a round ends\<close>

definition positive_ids :: "remote \<Rightarrow> bool" where
  "positive_ids remote \<longleftrightarrow> (\<forall>q payload c. remote q = Inr payload \<longrightarrow> c \<in> set (fr_Calls payload) \<longrightarrow> 0 < ca_ID (wc_Call c))"

lemma foldl_min_pos: "0 < (x :: int) \<Longrightarrow> (\<And>y. y \<in> set ys \<Longrightarrow> 0 < y) \<Longrightarrow> 0 < foldl min x ys"
  by (induction ys arbitrary: x) auto

lemma next_before_pos: "cs \<noteq> [] \<Longrightarrow> (\<And>c. c \<in> set cs \<Longrightarrow> 0 < ca_ID (wc_Call c)) \<Longrightarrow> 0 < next_before cs"
  by (cases cs) (auto simp: next_before_def intro!: foldl_min_pos)

lemma fetch_remote: "fetchFederationCalls remote hub q = Inr payload \<Longrightarrow> remote q = Inr payload"
  by (auto simp: fetchFederationCalls_def split: sum.splits if_splits)

lemma backfill_step:
  "backfill cfg p remote cap now before k n \<noteq> None" if
  "\<And>payload n1. fetchFederationCalls remote (hp_hub_id p) (recent_query before (federationImportBatchLimit (cap - k))) = Inr payload \<Longrightarrow>
     fr_Calls payload \<noteq> [] \<Longrightarrow> \<not> (before > 0 \<and> next_before (fr_Calls payload) \<ge> before) \<Longrightarrow>
     backfill cfg p remote cap now (next_before (fr_Calls payload)) (CountImportedFederatedCallsFromPeer (hp_hub_id p) (nd_db n1)) n1 \<noteq> None"
  using that by (subst backfill.simps) (auto split: sum.split option.split prod.split)

lemma backfill_positive: "positive_ids remote \<Longrightarrow> 0 < before \<Longrightarrow> backfill cfg p remote cap now before k n \<noteq> None"
proof (induction "nat before" arbitrary: before k n rule: less_induct)
  case less
  show ?case
  proof (rule backfill_step)
    fix payload n1
    assume f: "fetchFederationCalls remote (hp_hub_id p) (recent_query before (federationImportBatchLimit (cap - k))) = Inr payload"
      "fr_Calls payload \<noteq> []" "\<not> (before > 0 \<and> next_before (fr_Calls payload) \<ge> before)"
    have pos: "0 < next_before (fr_Calls payload)"
      using less.prems(1) fetch_remote [OF f(1)] f(2) unfolding positive_ids_def by (intro next_before_pos) blast+
    with f(3) less.prems(2) have "nat (next_before (fr_Calls payload)) < nat before" by simp
    from less.hyps [OF this less.prems(1) pos]
    show "backfill cfg p remote cap now (next_before (fr_Calls payload))
        (CountImportedFederatedCallsFromPeer (hp_hub_id p) (nd_db n1)) n1 \<noteq> None" .
  qed
qed

lemma backfill_first: "positive_ids remote \<Longrightarrow> backfill cfg p remote cap now before k n \<noteq> None"
proof (rule backfill_step)
  fix payload n1
  assume "positive_ids remote" and f: "fetchFederationCalls remote (hp_hub_id p)
      (recent_query before (federationImportBatchLimit (cap - k))) = Inr payload" "fr_Calls payload \<noteq> []"
  then have "0 < next_before (fr_Calls payload)"
    using fetch_remote [OF f(1)] unfolding positive_ids_def by (intro next_before_pos) blast+
  with \<open>positive_ids remote\<close>
  show "backfill cfg p remote cap now (next_before (fr_Calls payload))
      (CountImportedFederatedCallsFromPeer (hp_hub_id p) (nd_db n1)) n1 \<noteq> None"
    by (rule backfill_positive)
qed

lemma sync_positive: "(\<And>u. positive_ids (remote u)) \<Longrightarrow> syncFederatedPeer cfg url h p remote now n \<noteq> None"
proof -
  assume pos: "\<And>u. positive_ids (remote u)"
  have "syncFederatedPeerBackfill cfg url p remote cap now k n \<noteq> None" for cap k
    using backfill_first [OF pos] by (auto simp: syncFederatedPeerBackfill_def split: sum.split)
  then obtain e n1 where "syncFederatedPeerBackfill cfg url p remote
      (federationImportCapForDirectoryStatus (hd_directory_validation_status h)) now
      (CountImportedFederatedCallsFromPeer (hp_hub_id p) (nd_db n)) n = Some (e, n1)" by (metis option.exhaust surj_pair)
  then show ?thesis by (cases e) (simp_all add: syncFederatedPeer_def Let_def)
qed

lemma sync_each_positive: "(\<And>u. positive_ids (remote u)) \<Longrightarrow> sync_each cfg url h remote now ps n \<noteq> None"
proof (induction cfg url h remote now ps n rule: sync_each.induct)
  case (2 cfg url h remote now p ps n)
  have "syncFederatedPeer cfg url h p remote now n \<noteq> None"
    by (rule sync_positive) (rule "2.prems")
  then obtain e n1 where s: "syncFederatedPeer cfg url h p remote now n = Some (e, n1)" by auto
  show ?case
  proof (cases "canPullFederatedPeer p")
    case True
    then show ?thesis using "2.IH"(2) [OF _ s] "2.prems" s by simp
  next
    case False
    then show ?thesis using "2.IH"(1) "2.prems" by simp
  qed
qed simp

lemma sync_ends:
  assumes "\<And>u. positive_ids (remote u)"
  shows "\<exists>n'. syncFederatedPeers cfg url remote fresh now n = Some n'"
proof -
  have "sync_each cfg url h remote now ps m \<noteq> None" for h ps m
    using assms by (rule sync_each_positive)
  then show ?thesis by (auto simp: syncFederatedPeers_def split: prod.split)
qed

text \<open>
  Property C35. A round of pulling ends, whatever the peers answer and however large their feeds, as long as every call
  they send has a positive id: the backfill asks for strictly older calls each time.
\<close>

theorem sync_round_ends:
  assumes "\<And>u. positive_ids (remote u)"
  shows "\<exists>n'. syncFederatedPeers cfg url remote fresh now n = Some n'"
  using assms by (rule sync_ends)

lemma import_nothing:
  "ca_ID (wc_Call item) \<le> 0 \<Longrightarrow> importFederatedCalls cfg p \<lparr>fr_Hub = hub, fr_Sources = [], fr_Calls = [item]\<rparr> room now n = (None, n)"
  by (simp add: importFederatedCalls_def importFederatedCall_skip)

text \<open>
  Property C36. The bound on the ids is needed: a peer that keeps answering with one call whose id is not positive keeps the
  backfill going forever, and with it the one loop that pulls from all peers.
\<close>

theorem backfill_never_ends:
  assumes "ca_ID (wc_Call item) \<le> 0" "CountImportedFederatedCallsFromPeer (hp_hub_id p) (nd_db n) < cap"
  shows "backfill cfg p (\<lambda>_. Inr \<lparr>fr_Hub = [], fr_Sources = [], fr_Calls = [item]\<rparr>) cap now 0
    (CountImportedFederatedCallsFromPeer (hp_hub_id p) (nd_db n)) n = None"
proof (rule ccontr)
  let ?remote = "\<lambda>_ :: query. Inr \<lparr>fr_Hub = [], fr_Sources = [], fr_Calls = [item]\<rparr> :: string + federationCallsResponse"
  let ?count = "CountImportedFederatedCallsFromPeer (hp_hub_id p) (nd_db n)"
  assume "backfill cfg p ?remote cap now 0 ?count n \<noteq> None"
  then obtain r where r: "backfill cfg p ?remote cap now 0 ?count n = Some r" by blast
  have "\<not> ((0 :: int) \<le> 0 \<and> ?count < cap \<and> ?remote = ?remote \<and> n = n \<and> p = p \<and> ?count = ?count)"
  proof (rule backfill.raw_induct [where P = "\<lambda>cfg' p' remote' cap' now' before k n' r.
        \<not> (before \<le> 0 \<and> k < cap' \<and> remote' = ?remote \<and> n' = n \<and> p' = p \<and> k = ?count)", OF _ r], rule notI)
    fix f cfg' p' remote' cap' now' before k n' r
    assume IH: "\<And>cfg' p' remote' cap' now' before k n' r. f cfg' p' remote' cap' now' before k n' = Some r \<Longrightarrow>
        \<not> (before \<le> 0 \<and> k < cap' \<and> remote' = ?remote \<and> n' = n \<and> p' = p \<and> k = ?count)"
      and eq: "(if k \<ge> cap' \<or> federationImportBatchLimit (cap' - k) = 0 then Some (None, n')
      else case fetchFederationCalls remote' (hp_hub_id p') (recent_query before (federationImportBatchLimit (cap' - k))) of
        Inl err \<Rightarrow> Some (Some (RemoteError err), n')
      | Inr payload \<Rightarrow>
          if fr_Calls payload = [] then Some (None, n')
          else (case importFederatedCalls cfg' p' payload (Some (cap' - k)) now' n' of
              (Some err, n1) \<Rightarrow> Some (Some (DbError err), n1)
            | (None, n1) \<Rightarrow>
                if before > 0 \<and> next_before (fr_Calls payload) \<ge> before then Some (None, n1)
                else f cfg' p' remote' cap' now' (next_before (fr_Calls payload))
                       (CountImportedFederatedCallsFromPeer (hp_hub_id p') (nd_db n1)) n1)) = Some r"
      and at: "before \<le> 0 \<and> k < cap' \<and> remote' = ?remote \<and> n' = n \<and> p' = p \<and> k = ?count"
    have "fetchFederationCalls remote' hub q = Inr \<lparr>fr_Hub = [], fr_Sources = [], fr_Calls = [item]\<rparr>" for hub q
      using at by (simp add: fetchFederationCalls_def)
    then have "f cfg' p ?remote cap' now' (ca_ID (wc_Call item)) ?count n = Some r"
      using eq at import_nothing [OF assms(1)]
      by (simp add: next_before_def federationImportBatchLimit_def split: if_splits)
    from IH [OF this] show False using at assms(1) by simp
  qed
  then show False using assms(2) by simp
qed


section \<open>What a pull stores\<close>

definition recorded :: "string \<Rightarrow> db \<Rightarrow> int set" where
  "recorded peer d = fi_remote_call_id ` {r \<in> set (t_imports d). fi_peer_hub_id r = peer}"

text \<open>The row an imported call becomes.\<close>

definition import_of :: "HubPeer \<Rightarrow> wire_call \<Rightarrow> calls_row \<Rightarrow> bool" where
  "import_of p c r \<longleftrightarrow> cr_source_id r = Some (federatedSourceID (hp_hub_id p) (federatedCallSourceID c)) \<and>
     cr_user_id r = None \<and> DecodeString (wc_AudioBase c) = Some (cr_audio r) \<and> cr_datetime r = ca_DateTime (wc_Call c) \<and>
     cr_talkgroup r = ca_Talkgroup (wc_Call c) \<and> cr_duration r = ca_Duration (wc_Call c) \<and>
     cr_system_label r = ca_SystemLabel (wc_Call c) \<and> cr_talkgroup_label r = ca_TalkgroupLabel (wc_Call c)"

lemma source_writes_other:
  "t_calls (snd (UpsertIngestionSource s now d)) = t_calls d" "t_imports (snd (UpsertIngestionSource s now d)) = t_imports d"
  "t_calls (snd (IncrementSourceMetrics i b now d)) = t_calls d" "t_imports (snd (IncrementSourceMetrics i b now d)) = t_imports d"
  by (auto simp: UpsertIngestionSource_def IncrementSourceMetrics_def ins_sources_def Let_def split: option.split sum.split)

lemma InsertCall_stores:
  assumes "InsertCall c audio now d = (Inr call, d')" "like_remote (ca_SourceID c)" "ca_UserID c = []"
  obtains r where "t_calls d' = t_calls d @ [r]" "t_imports d' = t_imports d" "cr_source_id r = Some (ca_SourceID c)"
    "cr_user_id r = None" "cr_audio r = audio" "cr_datetime r = ca_DateTime c" "cr_talkgroup r = ca_Talkgroup c"
    "cr_duration r = ca_Duration c" "cr_system_label r = ca_SystemLabel c" "cr_talkgroup_label r = ca_TalkgroupLabel c"
  using assms nullable_remote [OF assms(2)]
  by (auto simp: InsertCall_def ins_calls_def call_row_def nullableString_def split: sum.splits if_splits)

lemma recorded_iff:
  "rid \<in> recorded peer d \<longleftrightarrow> (peer, rid) \<in> (\<lambda>r. (fi_peer_hub_id r, fi_remote_call_id r)) ` set (t_imports d)"
  by (auto simp: recorded_def image_iff)

lemma recorded_append: "recorded peer (d\<lparr>t_imports := t_imports d @ [x]\<rparr>) =
    (if fi_peer_hub_id x = peer then insert (fi_remote_call_id x) (recorded peer d) else recorded peer d)"
  by (auto simp: recorded_def)

lemma Record_result:
  assumes "RecordFederatedCallImport peer rid lid now d = (Inr b, d')"
  shows "b \<longleftrightarrow> rid \<notin> recorded peer d" "recorded peer d' = insert rid (recorded peer d)" "t_calls d' = t_calls d"
    "\<not> b \<Longrightarrow> d' = d"
  using assms by (auto simp: RecordFederatedCallImport_def ins_imports_def recorded_append simp flip: recorded_iff
      split: if_splits)

lemma importFederatedCall_done:
  assumes "importFederatedCall cfg p known now item n = (Inr b, n')" "ca_ID (wc_Call item) > 0"
  shows "b \<longleftrightarrow> ca_ID (wc_Call item) \<notin> recorded (hp_hub_id p) (nd_db n)"
    "recorded (hp_hub_id p) (nd_db n') = insert (ca_ID (wc_Call item)) (recorded (hp_hub_id p) (nd_db n))"
    "\<exists>r. t_calls (nd_db n') = t_calls (nd_db n) @ [r] \<and> import_of p item r"
    "\<not> b \<Longrightarrow> t_imports (nd_db n') = t_imports (nd_db n) \<and> nd_published n' = nd_published n"
proof -
  from assms obtain d1 audio call d2 call' d3 y d4 where s:
    "ensure_source p known (federatedCallSourceID item) now (nd_db n) = (Inr (), d1)"
    "DecodeString (wc_AudioBase item) = Some audio"
    "InsertCall ((wc_Call item)\<lparr>ca_ID := 0, ca_UserID := [],
       ca_SourceID := federatedSourceID (hp_hub_id p) (federatedCallSourceID item)\<rparr>) audio now d1 = (Inr call, d2)"
    "finalizeCallTranscription (fc_transcription cfg) now call d2 = (call', d3)"
    "RecordFederatedCallImport (hp_hub_id p) (ca_ID (wc_Call item)) (ca_ID call) now d3 = (y, d4)" "Inr b = y"
    and n': "n' = (if y = Inr True then n\<lparr>nd_db := snd (IncrementSourceMetrics (federatedSourceID (hp_hub_id p)
        (federatedCallSourceID item)) True now d4), nd_published := nd_published n @
        [(call', federatedSourceID (hp_hub_id p) (federatedCallSourceID item), audio)]\<rparr> else n\<lparr>nd_db := d4\<rparr>)"
    by (cases rule: importFederatedCall_steps) auto
  have d1: "t_calls d1 = t_calls (nd_db n)" "t_imports d1 = t_imports (nd_db n)"
    using source_writes_other(1,2) s(1) by (auto simp: ensure_source_def upsertFallbackFederatedSource_def split: if_splits)
      (metis snd_conv)+
  obtain r where r: "t_calls d2 = t_calls d1 @ [r]" "t_imports d2 = t_imports d1" "import_of p item r"
    using s(2,3) by (auto elim!: InsertCall_stores simp: clean_remote import_of_def)
  note d3 = finalize_other [OF s(4)]
  note rec = Record_result [OF s(5) [folded s(6)]]
  have other: "t_calls (nd_db n') = t_calls d4" "t_imports (nd_db n') = t_imports d4"
    using n' source_writes_other(3,4) by auto
  have recd: "recorded (hp_hub_id p) d3 = recorded (hp_hub_id p) (nd_db n)"
    "recorded (hp_hub_id p) (nd_db n') = recorded (hp_hub_id p) d4"
    using d1 r d3 other by (simp_all add: recorded_def)
  show "b \<longleftrightarrow> ca_ID (wc_Call item) \<notin> recorded (hp_hub_id p) (nd_db n)"
    "recorded (hp_hub_id p) (nd_db n') = insert (ca_ID (wc_Call item)) (recorded (hp_hub_id p) (nd_db n))"
    using rec(1,2) recd by simp_all
  show "\<exists>r. t_calls (nd_db n') = t_calls (nd_db n) @ [r] \<and> import_of p item r"
    using r d1 d3 other rec(3) by simp
  show "t_imports (nd_db n') = t_imports (nd_db n) \<and> nd_published n' = nd_published n" if "\<not> b"
    using that rec(4) other d3 r d1 n' s(6) by auto
qed


lemma import_each_done:
  assumes "import_each cfg p known now None cs n = (None, n')" "\<And>c. c \<in> set cs \<Longrightarrow> 0 < ca_ID (wc_Call c)"
  shows "recorded (hp_hub_id p) (nd_db n') = recorded (hp_hub_id p) (nd_db n) \<union> (ca_ID \<circ> wc_Call) ` set cs \<and>
    (\<exists>new. t_calls (nd_db n') = t_calls (nd_db n) @ new \<and> list_all2 (import_of p) cs new) \<and>
    ((ca_ID \<circ> wc_Call) ` set cs \<subseteq> recorded (hp_hub_id p) (nd_db n) \<longrightarrow>
       t_imports (nd_db n') = t_imports (nd_db n) \<and> nd_published n' = nd_published n)"
  using assms
proof (induction cs arbitrary: n)
  case (Cons c cs)
  have pos: "0 < ca_ID (wc_Call c)" using Cons.prems(2) by simp
  obtain x n1 where x: "importFederatedCall cfg p known now c n = (x, n1)" by fastforce
  with Cons.prems(1) obtain b where b: "x = Inr b" and rest: "import_each cfg p known now None cs n1 = (None, n')"
    by (auto split: sum.splits bool.splits)
  note st = importFederatedCall_done [OF x [unfolded b] pos]
  have IH: "recorded (hp_hub_id p) (nd_db n') = recorded (hp_hub_id p) (nd_db n1) \<union> (ca_ID \<circ> wc_Call) ` set cs"
    "\<exists>new. t_calls (nd_db n') = t_calls (nd_db n1) @ new \<and> list_all2 (import_of p) cs new"
    "(ca_ID \<circ> wc_Call) ` set cs \<subseteq> recorded (hp_hub_id p) (nd_db n1) \<Longrightarrow>
       t_imports (nd_db n') = t_imports (nd_db n1) \<and> nd_published n' = nd_published n1"
    using Cons.IH [OF rest] Cons.prems(2) by auto
  obtain r new where "t_calls (nd_db n') = t_calls (nd_db n) @ r # new" "import_of p c r" "list_all2 (import_of p) cs new"
    using st(3) IH(2) by auto
  then have "\<exists>new. t_calls (nd_db n') = t_calls (nd_db n) @ new \<and> list_all2 (import_of p) (c # cs) new"
    by (intro exI [of _ "r # new"]) simp
  moreover have "t_imports (nd_db n') = t_imports (nd_db n) \<and> nd_published n' = nd_published n"
    if sub: "(ca_ID \<circ> wc_Call) ` set (c # cs) \<subseteq> recorded (hp_hub_id p) (nd_db n)"
  proof -
    have "\<not> b" "(ca_ID \<circ> wc_Call) ` set cs \<subseteq> recorded (hp_hub_id p) (nd_db n1)"
      using sub st(1,2) by auto
    with st(4) IH(3) show ?thesis by simp
  qed
  ultimately show ?case using IH(1) st(2) by auto
qed simp

lemma upsertFederatedSources_other:
  "t_calls (snd (upsertFederatedSources p now ss d)) = t_calls d \<and> t_imports (snd (upsertFederatedSources p now ss d)) = t_imports d"
proof (induction p now ss d rule: upsertFederatedSources.induct)
  case (2 p now s ss d)
  then show ?case
    using source_writes_other(1,2) [of "remote_source p s" now d] by (auto split: prod.split sum.split)
qed simp

lemma importFederatedCalls_done:
  assumes "importFederatedCalls cfg p payload None now n = (None, n')"
    "\<And>c. c \<in> set (fr_Calls payload) \<Longrightarrow> 0 < ca_ID (wc_Call c)"
  shows "recorded (hp_hub_id p) (nd_db n') = recorded (hp_hub_id p) (nd_db n) \<union> (ca_ID \<circ> wc_Call) ` set (fr_Calls payload) \<and>
    (\<exists>new. t_calls (nd_db n') = t_calls (nd_db n) @ new \<and> list_all2 (import_of p) (fr_Calls payload) new) \<and>
    ((ca_ID \<circ> wc_Call) ` set (fr_Calls payload) \<subseteq> recorded (hp_hub_id p) (nd_db n) \<longrightarrow>
       t_imports (nd_db n') = t_imports (nd_db n) \<and> nd_published n' = nd_published n)"
proof -
  obtain x d1 where x: "upsertFederatedSources p now (fr_Sources payload) (nd_db n) = (x, d1)" by fastforce
  then obtain known where known: "x = Inr known" using assms(1) by (cases x) (auto simp: importFederatedCalls_def)
  have same: "t_calls d1 = t_calls (nd_db n)" "t_imports d1 = t_imports (nd_db n)"
    using upsertFederatedSources_other [of p now "fr_Sources payload" "nd_db n"] x by simp_all
  have "import_each cfg p known now None (fr_Calls payload) (n\<lparr>nd_db := d1\<rparr>) = (None, n')"
    using assms(1) x known by (simp add: importFederatedCalls_def)
  from import_each_done [OF this assms(2)] same show ?thesis by (simp add: recorded_def)
qed

section \<open>Pulling from a hub that runs this code\<close>

text \<open>A peer that serves the feed of a database with the handler above to requests under a given hub id.\<close>

definition hub_remote :: "hub_config \<Rightarrow> string \<Rightarrow> db \<Rightarrow> remote" where
  "hub_remote cfg header d = (\<lambda>q. case fst (handleFederationCalls cfg header q [] 0 d) of
     Reply _ r \<Rightarrow> Inr r | Fail _ m \<Rightarrow> Inl m)"

lemma ListFederatedCalls_identity: "ListFederatedCalls s n (d\<lparr>t_hub_identity := x\<rparr>) = ListFederatedCalls s n d"
  "ListRecentFederatedCalls s n (d\<lparr>t_hub_identity := x\<rparr>) = ListRecentFederatedCalls s n d"
  using ext [of "exportable (d\<lparr>t_hub_identity := x\<rparr>)" "exportable d", OF exportable_identity]
  by (simp_all add: ListFederatedCalls_def ListRecentFederatedCalls_def)

lemma hub_remote_reply:
  "hub_remote cfg header d q = Inr payload \<Longrightarrow> fr_Calls payload = map to_wire
     (if queryBool q ''recent'' then ListRecentFederatedCalls (queryInt64 q ''before'' 0) (boundedQueryInt q ''limit'' 100 1 250) d
      else ListFederatedCalls (queryInt64 q ''since'' 0) (boundedQueryInt q ''limit'' 100 1 250) d)"
  by (auto simp: hub_remote_def handleFederationCalls_def requireFederationEnabled_def Let_def ListFederatedCalls_identity
      dest!: ensureHubIdentity_frame split: prod.splits sum.splits if_splits reply.splits)


text \<open>How a row stores an exported call.\<close>

definition stored_as :: "HubPeer \<Rightarrow> FederatedCall \<Rightarrow> calls_row \<Rightarrow> bool" where
  "stored_as p c r \<longleftrightarrow> cr_audio r = fc_Audio c \<and> cr_user_id r = None \<and> cr_datetime r = ca_DateTime (fc_Call c) \<and>
     cr_talkgroup r = ca_Talkgroup (fc_Call c) \<and> cr_duration r = ca_Duration (fc_Call c) \<and>
     cr_system_label r = ca_SystemLabel (fc_Call c) \<and> cr_talkgroup_label r = ca_TalkgroupLabel (fc_Call c) \<and>
     cr_source_id r = Some (federatedSourceID (hp_hub_id p) (federatedCallSourceID (to_wire c)))"

lemma import_of_to_wire: "import_of p (to_wire c) r \<Longrightarrow> stored_as p c r"
  by (simp add: import_of_def stored_as_def to_wire_def DecodeString_Encode)

lemma wire_ids: "(ca_ID \<circ> wc_Call) ` set (map to_wire cs) = federated_id ` set cs"
  by (simp add: to_wire_def federated_id_def image_image)






definition cursor_ok :: "HubPeer \<Rightarrow> db \<Rightarrow> node \<Rightarrow> bool" where
  "cursor_ok p d n \<longleftrightarrow> 0 \<le> MaxImportedRemoteCallID (hp_hub_id p) (nd_db n) \<and>
     MaxImportedRemoteCallID (hp_hub_id p) (nd_db n) \<le> max_int64 \<and> list_all (\<lambda>r. cr_id r \<le> max_int64) (t_calls d)"



text \<open>When nothing can fail: the numbers fit their columns, the sender is not named and the audio decodes.\<close>

definition call_fits :: "Call \<Rightarrow> bool" where
  "call_fits c \<longleftrightarrow> int4 (ca_System c) \<and> int4 (ca_Talkgroup c) \<and> int4 (ca_Frequency c) \<and> ca_SenderUserID c = []"

definition source_fits :: "IngestionSource \<Rightarrow> bool" where
  "source_fits s \<longleftrightarrow> int4 (is_SystemID s) \<and> int4 (is_ErrorCount s) \<and> int4 (is_CallsReceived s)"

definition sources_there :: "HubPeer \<Rightarrow> string list \<Rightarrow> db \<Rightarrow> bool" where
  "sources_there p known d \<longleftrightarrow> (\<forall>s \<in> set known. source_exists d (federatedSourceID (hp_hub_id p) s))"

lemma source_exists_frame: "t_sources d' = t_sources d \<Longrightarrow> source_exists d' i = source_exists d i"
  by (simp add: source_exists_def)

lemma Upsert_succeeds:
  assumes "is_UserID s = []" "source_fits s"
  shows "fst (UpsertIngestionSource s now d) = Inr () \<and> source_exists (snd (UpsertIngestionSource s now d)) (is_ID s) \<and>
    (source_exists d i \<longrightarrow> source_exists (snd (UpsertIngestionSource s now d)) i)"
proof (cases "find_source (is_ID s) d")
  case None
  then have "is_ID s \<notin> sr_id ` set (t_sources d)" by (auto simp: find_source_def find_None_iff)
  with None assms show ?thesis
    by (auto simp: UpsertIngestionSource_def ins_sources_def source_ints_ok_def source_fits_def nullableString_def
        user_ref_ok_def source_exists_def Let_def)
next
  case (Some old)
  then have "old \<in> set (t_sources d)" "sr_id old = is_ID s"
    by (auto simp: find_source_def dest: find_Some_mem)
  then have "source_exists d (is_ID s)" by (force simp: source_exists_def)
  with Some assms show ?thesis
    by (auto simp: UpsertIngestionSource_def source_ints_ok_def source_fits_def nullableString_def
        user_ref_ok_def source_exists_def Let_def key_simps)
qed

lemma Increment_keeps: "source_exists d i \<Longrightarrow> source_exists (snd (IncrementSourceMetrics j b now d)) i"
  by (auto simp: IncrementSourceMetrics_def ins_sources_def source_exists_def bump_source_def key_simps Let_def
      split: option.split sum.split)

lemma upsertFederatedSources_succeeds:
  assumes "list_all source_fits ss"
  shows "fst (upsertFederatedSources p now ss d) = Inr (map is_ID ss) \<and>
    sources_there p (map is_ID ss) (snd (upsertFederatedSources p now ss d)) \<and>
    (source_exists d i \<longrightarrow> source_exists (snd (upsertFederatedSources p now ss d)) i)"
  using assms
proof (induction ss arbitrary: d i)
  case (Cons s ss)
  have fits: "source_fits (remote_source p s)" "is_UserID (remote_source p s) = []"
    "is_ID (remote_source p s) = federatedSourceID (hp_hub_id p) (is_ID s)"
    using Cons.prems by (simp_all add: remote_source_def source_fits_def)
  obtain d1 where d1: "UpsertIngestionSource (remote_source p s) now d = (Inr (), d1)"
    and ex: "source_exists d1 (federatedSourceID (hp_hub_id p) (is_ID s))" "\<And>i. source_exists d i \<Longrightarrow> source_exists d1 i"
    using Upsert_succeeds [OF fits(2,1), of now d] fits(3) by (cases "UpsertIngestionSource (remote_source p s) now d") auto
  have "list_all source_fits ss" using Cons.prems by simp
  note IH = Cons.IH [OF this, of d1]
  obtain d2 where d2: "upsertFederatedSources p now ss d1 = (Inr (map is_ID ss), d2)"
    using IH by (metis prod.collapse)
  show ?case
    using d1 d2 IH ex by (auto simp: sources_there_def)
qed (simp add: sources_there_def)

lemma ensure_source_succeeds:
  assumes "sources_there p known d"
  obtains d1 where "ensure_source p known src now d = (Inr (), d1)" "sources_there p known d1"
    "source_exists d1 (federatedSourceID (hp_hub_id p) src)"
proof (cases "src \<in> set known")
  case True
  with assms that [of d] show thesis by (simp add: ensure_source_def sources_there_def)
next
  case False
  let ?s = "\<lparr>is_ID = federatedSourceID (hp_hub_id p) src, is_UserID = [], is_Label = hp_name p @ '' / remote source'',
      is_Enabled = True, is_IsShared = False, is_DeletedAt = 0, is_SystemID = 0, is_SystemLabel = [], is_LastSeenUnix = 0,
      is_ErrorCount = 0, is_CallsReceived = 0, is_UpdatedAt = 0\<rparr>"
  have "source_fits ?s" by (simp add: source_fits_def int4_def)
  from Upsert_succeeds [OF _ this, of now d] obtain d1 where "UpsertIngestionSource ?s now d = (Inr (), d1)"
    "source_exists d1 (federatedSourceID (hp_hub_id p) src)" "\<And>i. source_exists d i \<Longrightarrow> source_exists d1 i"
    by (cases "UpsertIngestionSource ?s now d") auto
  with False assms that [of d1] show thesis
    by (simp add: ensure_source_def upsertFallbackFederatedSource_def sources_there_def)
qed

lemma importFederatedCall_succeeds:
  assumes "sources_there p known (nd_db n)" "call_fits (wc_Call item)" "DecodeString (wc_AudioBase item) = Some audio"
  shows "\<exists>b n'. importFederatedCall cfg p known now item n = (Inr b, n') \<and> sources_there p known (nd_db n')"
proof (cases "ca_ID (wc_Call item) \<le> 0")
  case True
  with assms(1) show ?thesis by (intro exI [of _ False]) (simp add: importFederatedCall_skip)
next
  case False
  let ?src = "federatedCallSourceID item" and ?lsid = "federatedSourceID (hp_hub_id p) (federatedCallSourceID item)"
  obtain d1 where d1: "ensure_source p known ?src now (nd_db n) = (Inr (), d1)" "sources_there p known d1" "source_exists d1 ?lsid"
    using ensure_source_succeeds [OF assms(1)] by blast
  let ?c = "(wc_Call item)\<lparr>ca_ID := 0, ca_UserID := [], ca_SourceID := ?lsid\<rparr>"
  obtain call d2 where c: "InsertCall ?c audio now d1 = (Inr call, d2)" and d2: "t_sources d2 = t_sources d1" "call_exists d2 (ca_ID call)"
    using assms(2) d1(3) nullable_remote [OF clean_remote, of "hp_hub_id p" ?src]
    by (auto simp: InsertCall_def ins_calls_def call_row_def call_fits_def nullableString_def user_ref_ok_def call_exists_def)
  obtain call' d3 where f: "finalizeCallTranscription (fc_transcription cfg) now call d2 = (call', d3)" by fastforce
  note d3 = finalize_other [OF f]
  have "call_exists d3 (ca_ID call)" using d2(2) d3(1) by (simp add: call_exists_def)
  then have "\<exists>b d4. RecordFederatedCallImport (hp_hub_id p) (ca_ID (wc_Call item)) (ca_ID call) now d3 = (Inr b, d4) \<and>
      t_sources d4 = t_sources d3"
    by (cases "(hp_hub_id p, ca_ID (wc_Call item)) \<in> (\<lambda>r. (fi_peer_hub_id r, fi_remote_call_id r)) ` set (t_imports d3)")
      (simp_all add: RecordFederatedCallImport_def ins_imports_def ex_bool_eq)
  then obtain b d4 where r: "RecordFederatedCallImport (hp_hub_id p) (ca_ID (wc_Call item)) (ca_ID call) now d3 = (Inr b, d4)"
    and d4: "t_sources d4 = t_sources d3" by blast
  have there: "sources_there p known d4"
    using d1(2) d2(1) d3(2) d4 by (simp add: sources_there_def source_exists_frame [of d4 d1])
  then have "sources_there p known (snd (IncrementSourceMetrics ?lsid True now d4))"
    by (simp add: sources_there_def Increment_keeps)
  with there show ?thesis
    using False d1(1) assms(3) c f r by (cases b) (auto simp: importFederatedCall_def Let_def)
qed

lemma import_each_succeeds:
  assumes "sources_there p known (nd_db n)" "list_all (\<lambda>c. call_fits (wc_Call c) \<and> DecodeString (wc_AudioBase c) \<noteq> None) cs"
  shows "\<exists>n'. import_each cfg p known now room cs n = (None, n')"
  using assms
proof (induction cs arbitrary: n room)
  case (Cons c cs)
  then obtain audio where "call_fits (wc_Call c)" "DecodeString (wc_AudioBase c) = Some audio" by auto
  from importFederatedCall_succeeds [OF Cons.prems(1) this, of cfg now] obtain b n1
    where "importFederatedCall cfg p known now c n = (Inr b, n1)" "sources_there p known (nd_db n1)" by blast
  with Cons show ?case by (cases b) auto
qed simp

lemma importFederatedCalls_succeeds:
  assumes "list_all source_fits (fr_Sources payload)"
    "list_all (\<lambda>c. call_fits (wc_Call c) \<and> DecodeString (wc_AudioBase c) \<noteq> None) (fr_Calls payload)"
  shows "\<exists>n'. importFederatedCalls cfg p payload room now n = (None, n')"
proof -
  obtain d1 where d1: "upsertFederatedSources p now (fr_Sources payload) (nd_db n) = (Inr (map is_ID (fr_Sources payload)), d1)"
    "sources_there p (map is_ID (fr_Sources payload)) d1"
    using upsertFederatedSources_succeeds [OF assms(1), of p now "nd_db n"] by (metis prod.collapse)
  from d1(2) have "sources_there p (map is_ID (fr_Sources payload)) (nd_db (n\<lparr>nd_db := d1\<rparr>))" by simp
  from import_each_succeeds [OF this assms(2)] d1(1) show ?thesis by (simp add: importFederatedCalls_def)
qed

text \<open>The peer is ready: its numbers fit, federation is on, it knows the asking hub and answers under the expected id.\<close>

definition feed_fits :: "db \<Rightarrow> bool" where
  "feed_fits d \<longleftrightarrow> list_all source_ints_ok (t_sources d) \<and>
     list_all (\<lambda>r. int4 (cr_system r) \<and> int4 (cr_talkgroup r) \<and> int4 (cr_frequency r)) (t_calls d)"

definition serves :: "hub_config \<Rightarrow> string \<Rightarrow> string \<Rightarrow> db \<Rightarrow> bool" where
  "serves cfg header hub d \<longleftrightarrow> (let h = fst (ensureHubIdentity cfg [] 0 d) in
     hd_federation_enabled h \<and> hd_hub_id h = hub \<and> isAuthorizedFederationPeer header d)"

lemma ListHubPeers_frame: "t_hub_peers d' = t_hub_peers d \<Longrightarrow> ListHubPeers d' = ListHubPeers d"
  by (simp add: ListHubPeers_def)


lemma feed_fits_wire:
  assumes "feed_fits d"
  shows "list_all source_fits (anonymous_sources d)"
    "list_all (\<lambda>c. call_fits (wc_Call c) \<and> DecodeString (wc_AudioBase c) \<noteq> None) (map to_wire (ListFederatedCalls since n d))"
proof -
  show "list_all source_fits (anonymous_sources d)"
    using assms by (auto simp: feed_fits_def anonymous_sources_def ListSharedIngestionSources_def list_all_iff
        source_fits_def scan_source_def source_ints_ok_def)
  have "call_fits (fc_Call (scan_federated r))" if "r \<in> set (t_calls d)" for r
    using assms that by (simp add: feed_fits_def list_all_iff call_fits_def scan_federated_def scan_call_base_def)
  moreover have "set (ListFederatedCalls since n d) \<subseteq> scan_federated ` set (t_calls d)"
    using set_limit_subset by (fastforce simp: ListFederatedCalls_def)
  ultimately show "list_all (\<lambda>c. call_fits (wc_Call c) \<and> DecodeString (wc_AudioBase c) \<noteq> None)
      (map to_wire (ListFederatedCalls since n d))"
    by (auto simp: list_all_iff to_wire_def DecodeString_Encode call_fits_def dest!: subsetD)
qed













section \<open>A backfill that starts over\<close>

lemma recent_query_reply:
  assumes "hub_remote cfg header d (recent_query before n) = Inr payload" "0 \<le> before" "before \<le> max_int64" "1 \<le> n" "n \<le> 250"
  shows "fr_Calls payload = map to_wire (ListRecentFederatedCalls before n d)"
proof -
  have "TrimSpace ''1'' = ''1''" by code_simp
  then have "queryBool (recent_query before n) ''recent''"
    by (simp add: queryBool_def recent_query_def ToLower_def lower_char_def)
  moreover have "queryInt64 (recent_query before n) ''before'' 0 = before"
    using assms(2,3) by (intro queryInt64_format) (simp_all add: recent_query_def)
  moreover have "boundedQueryInt (recent_query before n) ''limit'' 100 1 250 = n"
    using assms(4,5) by (intro boundedQueryInt_format) (simp_all add: recent_query_def max_int64_def)
  ultimately show ?thesis using hub_remote_reply [OF assms(1)] by simp
qed

lemma serves_recent:
  assumes "serves cfg header hub d" "0 \<le> before" "before \<le> max_int64" "1 \<le> n" "n \<le> 250"
  shows "\<exists>payload. fetchFederationCalls (hub_remote cfg header d) hub (recent_query before n) = Inr payload \<and>
    fr_Sources payload = anonymous_sources d \<and> fr_Calls payload = map to_wire (ListRecentFederatedCalls before n d)"
proof -
  obtain h d1 where h: "ensureHubIdentity cfg [] 0 d = (h, d1)" by fastforce
  note d1 = ensureHubIdentity_frame [OF h]
  have "isAuthorizedFederationPeer header d1"
    using assms(1) d1 ListHubPeers_frame [of d1 d] by (simp add: serves_def isAuthorizedFederationPeer_def Let_def)
  then obtain payload where p: "hub_remote cfg header d (recent_query before n) = Inr payload"
    "fr_Hub payload = hub" "fr_Sources payload = anonymous_sources d1"
    using assms(1) h by (simp add: hub_remote_def handleFederationCalls_def requireFederationEnabled_def serves_def Let_def)
  have "anonymous_sources d1 = anonymous_sources d"
    using d1 by (simp add: anonymous_sources_def ListSharedIngestionSources_def)
  with p recent_query_reply [OF p(1) assms(2-5)] show ?thesis by (simp add: fetchFederationCalls_def)
qed

text \<open>Calls recorded before do not use up the room under the cap.\<close>

lemma import_each_room:
  assumes "0 < r" "\<And>c. c \<in> set cs \<Longrightarrow> 0 < ca_ID (wc_Call c)"
    "(ca_ID \<circ> wc_Call) ` set cs \<subseteq> recorded (hp_hub_id p) (nd_db n)"
  shows "import_each cfg p known now (Some r) cs n = import_each cfg p known now None cs n"
  using assms(2,3)
proof (induction cs arbitrary: n)
  case (Cons c cs)
  have pos: "0 < ca_ID (wc_Call c)" using Cons.prems(1) by simp
  obtain x n1 where x: "importFederatedCall cfg p known now c n = (x, n1)" by fastforce
  show ?case
  proof (cases x)
    case (Inl e)
    with x assms(1) show ?thesis by simp
  next
    case (Inr b)
    note st = importFederatedCall_done [OF x [unfolded Inr] pos]
    have "\<not> b" "(ca_ID \<circ> wc_Call) ` set cs \<subseteq> recorded (hp_hub_id p) (nd_db n1)"
      using Cons.prems(2) st(1,2) by auto
    with x Inr assms(1) Cons show ?thesis by simp
  qed
qed simp

lemma importFederatedCalls_room:
  assumes "0 < r" "\<And>c. c \<in> set (fr_Calls payload) \<Longrightarrow> 0 < ca_ID (wc_Call c)"
    "(ca_ID \<circ> wc_Call) ` set (fr_Calls payload) \<subseteq> recorded (hp_hub_id p) (nd_db n)"
  shows "importFederatedCalls cfg p payload (Some r) now n = importFederatedCalls cfg p payload None now n"
proof -
  obtain x d1 where x: "upsertFederatedSources p now (fr_Sources payload) (nd_db n) = (x, d1)" by fastforce
  have "recorded (hp_hub_id p) d1 = recorded (hp_hub_id p) (nd_db n)"
    using upsertFederatedSources_other [of p now "fr_Sources payload" "nd_db n"] x by (simp add: recorded_def)
  then show ?thesis
    using x import_each_room [where p=p and n="n\<lparr>nd_db := d1\<rparr>", OF assms(1,2)] assms(3)
    by (simp add: importFederatedCalls_def split: sum.split)
qed

lemma batch_limit_range: "0 < r \<Longrightarrow> 1 \<le> federationImportBatchLimit r \<and> federationImportBatchLimit r \<le> 100"
  by (simp add: federationImportBatchLimit_def)

lemma ListRecent_ids: "c \<in> set (ListRecentFederatedCalls b n d) \<Longrightarrow> c \<in> scan_federated ` set (t_calls d)"
  using set_limit_subset by (fastforce simp: ListRecentFederatedCalls_def)

text \<open>
  As long as a hub has imported fewer calls of a peer than its cap, every round starts the backfill again at
  the newest page: the calls of that page that are recorded already are inserted into the call log once more.
\<close>

theorem repull_duplicates:
  assumes "feed_fits d" "serves hcfg header (hp_hub_id p) d" "list_all (\<lambda>r. 0 < cr_id r) (t_calls d)" "k < cap"
    "federated_id ` set (ListRecentFederatedCalls 0 (federationImportBatchLimit (cap - k)) d) \<subseteq> recorded (hp_hub_id p) (nd_db n)"
    "backfill cfg p (hub_remote hcfg header d) cap now 0 k n = Some (e, n')"
  shows "\<exists>new rest. t_calls (nd_db n') = t_calls (nd_db n) @ new @ rest \<and>
    list_all2 (stored_as p) (ListRecentFederatedCalls 0 (federationImportBatchLimit (cap - k)) d) new"
proof -
  let ?page = "ListRecentFederatedCalls 0 (federationImportBatchLimit (cap - k)) d"
  obtain payload where f: "fetchFederationCalls (hub_remote hcfg header d) (hp_hub_id p)
      (recent_query 0 (federationImportBatchLimit (cap - k))) = Inr payload"
    and p: "fr_Sources payload = anonymous_sources d" "fr_Calls payload = map to_wire ?page"
    using serves_recent [OF assms(2), of 0 "federationImportBatchLimit (cap - k)"] batch_limit_range [of "cap - k"] assms(4)
    by (auto simp: max_int64_def)
  show ?thesis
  proof (cases "?page = []")
    case True
    with backfill_imported [OF assms(6)] show ?thesis by (auto simp: imported_only_def intro: exI [of _ "[]"])
  next
    case False
    have pos: "0 < ca_ID (wc_Call c)" if "c \<in> set (fr_Calls payload)" for c
      using that p(2) ListRecent_ids assms(3)
      by (fastforce simp: to_wire_def list_all_iff scan_federated_def scan_call_base_def)
    have fits: "list_all (\<lambda>c. call_fits (wc_Call c) \<and> DecodeString (wc_AudioBase c) \<noteq> None) (fr_Calls payload)"
      using assms(1) p(2) ListRecent_ids
      by (fastforce simp: to_wire_def list_all_iff scan_federated_def scan_call_base_def feed_fits_def call_fits_def
          DecodeString_Encode)
    have src: "list_all source_fits (fr_Sources payload)" using feed_fits_wire(1) [OF assms(1)] p(1) by simp
    obtain n1 where n1: "importFederatedCalls cfg p payload None now n = (None, n1)"
      using importFederatedCalls_succeeds [OF src fits] by blast
    have "(ca_ID \<circ> wc_Call) ` set (fr_Calls payload) \<subseteq> recorded (hp_hub_id p) (nd_db n)"
      using assms(5) unfolding p(2) wire_ids .
    then have some: "importFederatedCalls cfg p payload (Some (cap - k)) now n = (None, n1)"
      using importFederatedCalls_room [where r="cap - k" and p=p and n=n and cfg=cfg and now=now, OF _ pos] n1 assms(4) by simp
    obtain new where new: "t_calls (nd_db n1) = t_calls (nd_db n) @ new" "list_all2 (import_of p) (map to_wire ?page) new"
      using importFederatedCalls_done [OF n1 pos] unfolding p(2) by blast
    have stored: "list_all2 (stored_as p) ?page new"
      using new(2) unfolding list_all2_map1 by (rule list_all2_mono) (rule import_of_to_wire)
    have "backfill cfg p (hub_remote hcfg header d) cap now (next_before (fr_Calls payload))
        (CountImportedFederatedCallsFromPeer (hp_hub_id p) (nd_db n1)) n1 = Some (e, n')"
      using assms(4,6) f some p(2) False batch_limit_range [of "cap - k"] by (subst (asm) backfill.simps) simp
    from backfill_imported [OF this] obtain rest where "t_calls (nd_db n') = t_calls (nd_db n1) @ rest"
      by (auto simp: imported_only_def)
    with new(1) stored show ?thesis by auto
  qed
qed

section \<open>Examples\<close>

definition example_peer :: "string \<Rightarrow> HubPeer" where
  "example_peer hub = \<lparr>hp_id = ''p1'', hp_hub_id = hub, hp_name = ''North'', hp_public_url = ''north.example'', hp_region = [],
     hp_contact = [], hp_status = ''connected'', hp_direction = ''outbound'', hp_accepted_at = 1, hp_last_seen_at = 1,
     hp_created_at = 1, hp_updated_at = 1\<rparr>"

definition example_remote_db :: db where
  "example_remote_db = example_call_db\<lparr>t_hub_peers := [example_peer ''hub-1''],
     t_hub_identity := Some (zero_identity\<lparr>hd_hub_id := ''hub-2'', hd_name := ''Hub'', hd_federation_enabled := True\<rparr>)\<rparr>"

definition example_node :: node where
  "example_node = \<lparr>nd_db = (empty_db False)\<lparr>t_hub_peers := [example_peer ''hub-2'']\<rparr>, nd_published = []\<rparr>"

definition example_fed_cfg :: federation_cfg where
  "example_fed_cfg = \<lparr>fc_hub = example_hub_cfg, fc_transcription = \<lparr>cfg_TranscriptionWorkerToken = [], cfg_TranscriptionMinDuration = 0\<rparr>\<rparr>"

lemma example_remote_ok: "db_ok example_remote_db"
  by (simp add: example_remote_db_def example_peer_def call_eval db_ok_defs fkey_def uniq_opt_def nonnull_def uniq_def)

lemma example_remote_feed: "feed_fits example_remote_db"
  by (simp add: feed_fits_def example_remote_db_def call_eval source_ints_ok_def int4_def fresh_source_row_def)

lemma example_remote_serves: "serves example_hub_cfg ''hub-1'' ''hub-2'' example_remote_db"
proof -
  have "TrimSpace ''community'' = ''community''" "TrimSpace ''hub-1'' = ''hub-1''" by code_simp+
  then show ?thesis
    by (simp add: serves_def ensureHubIdentity_def GetHubIdentity_def example_remote_db_def ensureConfiguredHubIdentity_def
        configuredHubIdentity_def example_hub_cfg_def configured_trust_def same_configured_def zero_identity_def Let_def
        isAuthorizedFederationPeer_def ListHubPeers_def limit_def order_desc_def example_peer_def)
qed

lemma example_remote_ids: "list_all (\<lambda>r. 0 < cr_id r) (t_calls example_remote_db)"
  by (simp add: example_remote_db_def call_eval)

lemma hub_remote_positive:
  assumes "list_all (\<lambda>r. 0 < cr_id r) (t_calls d)"
  shows "positive_ids (hub_remote cfg header d)"
proof -
  have "c \<in> scan_federated ` set (t_calls d)" if "c \<in> set (ListFederatedCalls a b d)" for a b c
    using that set_limit_subset by (fastforce simp: ListFederatedCalls_def)
  then show ?thesis
    using assms ListRecent_ids
    by (fastforce simp: positive_ids_def list_all_iff to_wire_def scan_federated_def scan_call_base_def
        dest!: hub_remote_reply split: if_splits)
qed

lemma example_cursor: "cursor_ok (example_peer ''hub-2'') example_remote_db example_node"
  by (simp add: cursor_ok_def MaxImportedRemoteCallID_def example_node_def empty_db_def example_remote_db_def call_eval max_int64_def)

theorem imports_not_exported_witness:
  "\<exists>n'. syncFederatedPeers example_fed_cfg Inr (\<lambda>_. hub_remote example_hub_cfg ''hub-1'' example_remote_db) ''hub-1'' 50
       example_node = Some n' \<and> export_feed (nd_db n') = export_feed (nd_db example_node)"
proof -
  obtain n' where n': "syncFederatedPeers example_fed_cfg Inr (\<lambda>_. hub_remote example_hub_cfg ''hub-1'' example_remote_db)
      ''hub-1'' 50 example_node = Some n'"
    using sync_ends [of "\<lambda>_. hub_remote example_hub_cfg ''hub-1'' example_remote_db"] hub_remote_positive [OF example_remote_ids]
    by blast
  with imports_not_exported [OF n'] show ?thesis by blast
qed

theorem sync_round_ends_witness:
  "\<exists>n'. syncFederatedPeers example_fed_cfg Inr (\<lambda>_. hub_remote example_hub_cfg ''hub-1'' example_remote_db) ''hub-1'' 50
     example_node = Some n'"
  by (rule sync_round_ends) (rule hub_remote_positive [OF example_remote_ids])

theorem backfill_never_ends_witness:
  "backfill example_fed_cfg (example_peer ''hub-2'') (\<lambda>_. Inr \<lparr>fr_Hub = [], fr_Sources = [],
     fr_Calls = [\<lparr>wc_Call = example_call 1 7 ''Fire'', wc_Source = ''north'', wc_AudioBase = []\<rparr>]\<rparr>) 500 50 0 0 example_node = None"
proof -
  have z: "CountImportedFederatedCallsFromPeer (hp_hub_id (example_peer ''hub-2'')) (nd_db example_node) = 0"
    by (simp add: CountImportedFederatedCallsFromPeer_def sql_count_def example_node_def empty_db_def)
  show ?thesis
    using backfill_never_ends [of "\<lparr>wc_Call = example_call 1 7 ''Fire'', wc_Source = ''north'', wc_AudioBase = []\<rparr>"
        "example_peer ''hub-2''" example_node 500 example_fed_cfg 50]
    by (simp add: z) (simp add: example_call_def)
qed







definition example_seen :: node where
  "example_seen = example_node\<lparr>nd_db := (nd_db example_node)\<lparr>t_imports := map (\<lambda>i. \<lparr>fi_peer_hub_id = ''hub-2'',
     fi_remote_call_id = i, fi_local_call_id = i, fi_created_at = 9\<rparr>) [1, 2, 3]\<rparr>\<rparr>"

theorem repull_duplicates_witness:
  "\<exists>e n' new rest. backfill example_fed_cfg (example_peer ''hub-2'') (hub_remote example_hub_cfg ''hub-1'' example_remote_db)
       500 50 0 3 example_seen = Some (e, n') \<and> t_calls (nd_db n') = new @ rest \<and>
     list_all2 (stored_as (example_peer ''hub-2'')) (ListRecentFederatedCalls 0 100 example_remote_db) new"
proof -
  have s: "serves example_hub_cfg ''hub-1'' (hp_hub_id (example_peer ''hub-2'')) example_remote_db"
    using example_remote_serves by (simp add: example_peer_def)
  have l: "federationImportBatchLimit (500 - 3) = 100" by (simp add: federationImportBatchLimit_def)
  have "federated_id ` set (ListRecentFederatedCalls 0 100 example_remote_db) \<subseteq> {1, 2, 3}"
    using ListRecent_ids [of _ 0 100 example_remote_db]
    by (fastforce simp: federated_id_def scan_federated_def example_remote_db_def call_eval)
  moreover have "recorded (hp_hub_id (example_peer ''hub-2'')) (nd_db example_seen) = {1, 2, 3}"
    by (simp add: set_eq_iff recorded_iff example_seen_def example_peer_def)
  ultimately have sub: "federated_id ` set (ListRecentFederatedCalls 0 (federationImportBatchLimit (500 - 3)) example_remote_db) \<subseteq>
      recorded (hp_hub_id (example_peer ''hub-2'')) (nd_db example_seen)" unfolding l by simp
  obtain e n' where b: "backfill example_fed_cfg (example_peer ''hub-2'') (hub_remote example_hub_cfg ''hub-1'' example_remote_db)
      500 50 0 3 example_seen = Some (e, n')"
    using backfill_first [OF hub_remote_positive [OF example_remote_ids]] by fastforce
  have "t_calls (nd_db example_seen) = []" by (simp add: example_seen_def example_node_def empty_db_def)
  with b repull_duplicates [OF example_remote_feed s example_remote_ids _ sub b] show ?thesis
    unfolding l by simp
qed


section \<open>Access and removal\<close>

lemma ListFederated_exportable:
  "c \<in> set (ListFederatedCalls s n d) \<Longrightarrow> \<exists>r \<in> set (t_calls d). exportable d r \<and> c = scan_federated r"
  "c \<in> set (ListRecentFederatedCalls s n d) \<Longrightarrow> \<exists>r \<in> set (t_calls d). exportable d r \<and> c = scan_federated r"
  using set_limit_subset by (fastforce simp: ListFederatedCalls_def ListRecentFederatedCalls_def)+

text \<open>
  Property C37. A request gets the feed exactly when federation is on and its header names the hub id of a connected
  peer among the hundred peers updated last; nothing else identifies the caller. The feed then holds
  only calls of enabled, shared, undeleted sources of this hub, without the users they belong to.
\<close>

theorem federation_feed_access:
  assumes "ensureHubIdentity cfg fresh now d = (h, d1)" "handleFederationCalls cfg header q fresh now d = (r, d2)"
  shows "d2 = d1 \<and> ((reply_code r = 200) = (hd_federation_enabled h \<and> TrimSpace header \<noteq> [] \<and>
      list_ex (\<lambda>p. hp_hub_id p = TrimSpace header \<and> hp_status p = ''connected'') (limit 100 (order_desc hp_updated_at (t_hub_peers d))))) \<and>
    (case r of Fail _ _ \<Rightarrow> True | Reply _ resp \<Rightarrow>
       list_all (\<lambda>c. ca_UserID (wc_Call c) = [] \<and> (\<exists>s \<in> set (t_sources d). sr_id s = wc_Source c \<and> exported_source s)) (fr_Calls resp))"
proof -
  note d1 = ensureHubIdentity_frame [OF assms(1)]
  have auth: "isAuthorizedFederationPeer header d1 = (TrimSpace header \<noteq> [] \<and> list_ex (\<lambda>p. hp_hub_id p = TrimSpace header \<and>
      hp_status p = ''connected'') (limit 100 (order_desc hp_updated_at (t_hub_peers d))))"
    by (simp add: isAuthorizedFederationPeer_def ListHubPeers_def d1 Let_def)
  have call: "ca_UserID (wc_Call (to_wire c)) = [] \<and> (\<exists>s \<in> set (t_sources d). sr_id s = wc_Source (to_wire c) \<and> exported_source s)"
    if "c \<in> set (ListFederatedCalls a b d) \<or> c \<in> set (ListRecentFederatedCalls a b d)" for a b c
  proof -
    from that obtain x where "exportable d x" "c = scan_federated x" using ListFederated_exportable by blast
    then show ?thesis
      by (auto simp: exportable_def find_source_def to_wire_def scan_federated_def coalesce_def
          dest: find_Some_mem split: option.splits)
  qed
  show ?thesis
  proof (cases "hd_federation_enabled h \<and> isAuthorizedFederationPeer header d1")
    case False
    then have "d2 = d1 \<and> (\<exists>c m. r = Fail c m \<and> c \<noteq> 200)"
      using assms by (cases "hd_federation_enabled h") (auto simp: handleFederationCalls_def requireFederationEnabled_def)
    with False auth show ?thesis by auto
  next
    case True
    let ?calls = "if queryBool q ''recent''
      then ListRecentFederatedCalls (queryInt64 q ''before'' 0) (boundedQueryInt q ''limit'' 100 1 250) d
      else ListFederatedCalls (queryInt64 q ''since'' 0) (boundedQueryInt q ''limit'' 100 1 250) d"
    have same: "ListFederatedCalls a b d1 = ListFederatedCalls a b d" "ListRecentFederatedCalls a b d1 = ListRecentFederatedCalls a b d"
      for a b by (simp_all add: d1 ListFederatedCalls_identity)
    have "handleFederationCalls cfg header q fresh now d =
        (Reply 200 \<lparr>fr_Hub = hd_hub_id h, fr_Sources = anonymous_sources d1, fr_Calls = map to_wire ?calls\<rparr>, d1)"
      using assms(1) True by (simp add: handleFederationCalls_def requireFederationEnabled_def same Let_def)
    then have "d2 = d1" "r = Reply 200 \<lparr>fr_Hub = hd_hub_id h, fr_Sources = anonymous_sources d1, fr_Calls = map to_wire ?calls\<rparr>"
      using assms(2) by simp_all
    moreover have "list_all (\<lambda>c. ca_UserID (wc_Call c) = [] \<and> (\<exists>s \<in> set (t_sources d). sr_id s = wc_Source c \<and> exported_source s))
        (map to_wire ?calls)"
      unfolding list_all_iff set_map using call by (auto split: if_splits)
    ultimately show ?thesis using True auth by simp
  qed
qed

theorem federation_feed_access_witness:
  "\<exists>h d1 resp. ensureHubIdentity example_hub_cfg [] 0 example_remote_db = (h, d1) \<and>
     handleFederationCalls example_hub_cfg ''hub-1'' (since_query 0 100) [] 0 example_remote_db = (Reply 200 resp, d1)"
proof -
  obtain h d1 where h: "ensureHubIdentity example_hub_cfg [] 0 example_remote_db = (h, d1)" by fastforce
  obtain r d2 where r: "handleFederationCalls example_hub_cfg ''hub-1'' (since_query 0 100) [] 0 example_remote_db = (r, d2)"
    by fastforce
  have "TrimSpace ''hub-1'' = ''hub-1''" by code_simp
  then have "reply_code r = 200 \<and> d2 = d1"
    using federation_feed_access [OF h r] example_remote_serves h
    by (auto simp: serves_def isAuthorizedFederationPeer_def ListHubPeers_def Let_def)
  with h r show ?thesis
    by (cases r) (auto simp: handleFederationCalls_def requireFederationEnabled_def Let_def split: prod.splits sum.splits if_splits)
qed

lemma cleanup_calls:
  assumes "db_ok d"
  shows "t_calls (snd (DeleteFederatedPeerImports peer d)) =
    filter (\<lambda>r. \<not> from_pattern (federatedPeerSourceLikePattern peer) r) (t_calls d)"
proof -
  let ?d = "d\<lparr>t_imports := sql_delete (\<lambda>r. fi_peer_hub_id r = peer) (t_imports d)\<rparr>"
  have "uniq cr_id (t_calls ?d)" using db_ok_uniq(10) [OF assms] by simp
  note c = delete_batches_calls [OF this, of "federatedPeerSourceLikePattern peer"]
  obtain n d2 where b: "delete_batches (federatedPeerSourceLikePattern peer) ?d = (n, d2)" by fastforce
  with c show ?thesis
    by (simp add: DeleteFederatedPeerImports_def Let_def del_sources_def)
qed

text \<open>
  Removing a peer removes every call imported from it. But the underscores around the peer id in the LIKE
  pattern are wildcards: a peer whose id only begins with the id of the removed one loses its calls as well.
\<close>

theorem peer_cleanup_reaches:
  assumes "db_ok d" "clean_id other = clean_id peer \<or> (\<exists>c rest. clean_id other = clean_id peer @ c # rest)"
  shows "list_all (\<lambda>r. cr_source_id r \<noteq> Some (federatedSourceID other src))
    (t_calls (snd (DeleteFederatedPeerImports peer d)))"
proof -
  have "sql_like (federatedPeerSourceLikePattern peer) (federatedSourceID other src)"
    unfolding peer_pattern_iff using assms(2) by (auto simp: federatedSourceID_def Let_def)
  then show ?thesis by (auto simp: cleanup_calls [OF assms(1)] list_all_iff from_pattern_def)
qed

theorem peer_cleanup_reaches_witness:
  "federatedSourceID ''hub-10'' ''a'' = ''remote_hub-10_a'' \<and>
   list_all (\<lambda>r. cr_source_id r \<noteq> Some (federatedSourceID ''hub-10'' ''a''))
     (t_calls (snd (DeleteFederatedPeerImports ''hub-1'' example_remote_db)))"
proof -
  have "clean_id ''hub-1'' = ''hub-1''" "clean_id ''hub-10'' = ''hub-10''" "clean_id ''a'' = ''a''" by code_simp+
  with peer_cleanup_reaches [OF example_remote_ok, of "''hub-10''" "''hub-1''" "''a''"] show ?thesis
    by (simp add: federatedSourceID_def)
qed

end
