(* ===== verification/IncidentApi.thy ===== *)
theory IncidentApi
  imports Incidents RadioSets HubApi
begin

text \<open>
  \<open>server/internal/api/incidents.go\<close>, \<open>incident_discord.go\<close>, \<open>discord.go\<close> and \<open>public_incidents.go\<close>: who may manage
  and hear incidents, their creation from a template, activation, closing, archiving, the promotion of signals,
  the Discord rooms the bots open for them, and the public list. The state is the database with the counter that
  deals out bot instances and the supply of random ids: \<open>mint kind n\<close> is the n-th id drawn, of the given
  kind. An id the code draws only on some branch is drawn on the others too, and dropped.
\<close>

section \<open>State and configuration\<close>

record station =
  st_db :: db
  st_bot :: nat
  st_ids :: nat

record incident_config =
  ig_Hub :: hub_config
  ig_DiscordBotWorkerToken :: string
  ig_DiscordBotInstances :: "string list"
  ig_IncidentArchiveDays :: int

type_synonym mint = "string \<Rightarrow> nat \<Rightarrow> string"

definition draw :: "mint \<Rightarrow> string \<Rightarrow> station \<Rightarrow> string \<times> station" where
  "draw mint kind s = (mint kind (st_ids s), s\<lparr>st_ids := st_ids s + 1\<rparr>)"

definition on_db :: "(db \<Rightarrow> 'a \<times> db) \<Rightarrow> station \<Rightarrow> 'a \<times> station" where
  "on_db f s = (case f (st_db s) of (x, d) \<Rightarrow> (x, s\<lparr>st_db := d\<rparr>))"

definition audited :: "string \<Rightarrow> string \<Rightarrow> string \<Rightarrow> string \<Rightarrow> (string \<times> json) list \<Rightarrow> int \<Rightarrow> station \<Rightarrow> station" where
  "audited uid action ttype tid meta now s = s\<lparr>st_db := audit uid action ttype tid meta now (st_db s)\<rparr>"

definition load_identity :: "incident_config \<Rightarrow> mint \<Rightarrow> int \<Rightarrow> station \<Rightarrow> HubIdentity \<times> station" where
  "load_identity cfg mint now s =
     (case draw mint ''hub'' s of (i, s1) \<Rightarrow> on_db (ensureHubIdentity (ig_Hub cfg) i now) s1)"

section \<open>Who may do what\<close>

definition canManageIncidents :: "authUser \<Rightarrow> bool" where
  "canManageIncidents u \<longleftrightarrow> isAdmin u \<or> isIncidentHandler u"

definition canListenToIncident :: "authUser \<Rightarrow> Incident \<Rightarrow> bool" where
  "canListenToIncident u i \<longleftrightarrow>
     (if ic_Status i \<noteq> ''active'' \<and> ic_Status i \<noteq> ''monitoring'' then False
      else if ic_Exposure i = ''community'' \<or> ic_Exposure i = ''members'' then \<not> isGuest u
      else if ic_Exposure i = ''internal'' then canManageIncidents u
      else \<not> isGuest u)"

definition incidentManagementAvailable :: "HubIdentity \<Rightarrow> db \<Rightarrow> bool" where
  "incidentManagementAvailable h d \<longleftrightarrow>
     (if \<not> hd_incident_management_enabled h then False
      else let handler = TrimSpace (hd_incident_handler_hub_id h) in
        if handler = [] then True
        else if handler = TrimSpace (hd_hub_id h) then True
        else list_ex (\<lambda>p. hp_hub_id p = handler \<and> hp_status p = ''connected'') (ListHubPeers d))"

definition requireIncidentManager ::
  "incident_config \<Rightarrow> mint \<Rightarrow> authUser option \<Rightarrow> int \<Rightarrow> station \<Rightarrow> ('a reply + authUser) \<times> station" where
  "requireIncidentManager cfg mint ctx now s =
     (case requireAuthenticated ctx of Inl e \<Rightarrow> (Inl e, s)
      | Inr u \<Rightarrow>
          if \<not> canManageIncidents u then (Inl (Fail 403 ''forbidden''), s)
          else case load_identity cfg mint now s of (h, s1) \<Rightarrow>
            if \<not> incidentManagementAvailable h (st_db s1)
            then (Inl (Fail 403 ''incident management not enabled or handler peer not connected''), s1)
            else (Inr u, s1))"

section \<open>Public links\<close>

definition TrimRight_slash :: "string \<Rightarrow> string" where
  "TrimRight_slash s = rev (dropWhile (\<lambda>c. c = CHR ''/'') (rev s))"

definition player_url :: "incident_config \<Rightarrow> string \<Rightarrow> string" where
  "player_url cfg token = (let base = TrimRight_slash (cfg_HubPublicURL (ig_Hub cfg)) in
     if base = [] then [] else base @ ''/public/player/'' @ token)"

definition share_token :: "RadioSet \<Rightarrow> string" where
  "share_token rs = coalesce (rs_ShareToken rs)"

definition incidentPublicPlayerURL :: "incident_config \<Rightarrow> Incident \<Rightarrow> db \<Rightarrow> string" where
  "incidentPublicPlayerURL cfg i d =
     (if ic_Exposure i \<noteq> ''community'' \<or> ic_Status i \<noteq> ''active'' \<or> ic_RadioSetID i = [] then []
      else case GetRadioSetForPTT (ic_RadioSetID i) d of None \<Rightarrow> []
      | Some rs \<Rightarrow> if share_token rs = [] then [] else player_url cfg (share_token rs))"

definition ensureCommunityShareToken ::
  "incident_config \<Rightarrow> mint \<Rightarrow> Incident \<Rightarrow> station \<Rightarrow> (db_error + string) \<times> station" where
  "ensureCommunityShareToken cfg mint i s =
     (if ic_Exposure i \<noteq> ''community'' \<or> ic_RadioSetID i = [] then (Inr [], s)
      else case GetRadioSetForPTT (ic_RadioSetID i) (st_db s) of None \<Rightarrow> (Inr [], s)
      | Some rs \<Rightarrow>
          if share_token rs \<noteq> [] then (Inr (incidentPublicPlayerURL cfg i (st_db s)), s)
          else (case draw mint ''share'' s of (token, s1) \<Rightarrow>
            (case on_db (SetRadioSetShareToken (rs_ID rs) (rs_UserID rs) token) s1 of
               (Inl err, s2) \<Rightarrow> (Inl err, s2)
             | (Inr _, s2) \<Rightarrow> (Inr (player_url cfg token), s2))))"

definition clear_share :: "Incident \<Rightarrow> db \<Rightarrow> db" where
  "clear_share i d =
     (if ic_RadioSetID i = [] then d
      else case GetRadioSetForPTT (ic_RadioSetID i) d of None \<Rightarrow> d
      | Some rs \<Rightarrow> ClearRadioSetShareToken (rs_ID rs) (rs_UserID rs) d)"

section \<open>Discord rooms\<close>

definition stalePendingTaskSeconds :: int where "stalePendingTaskSeconds = 300"

definition empty_config :: IncidentIntegrationConfig where
  "empty_config = \<lparr>gc_IncidentTitle = [], gc_Exposure = [], gc_PublicPlayerURL = [], gc_StreamToken = [],
     gc_VoiceChannelID = [], gc_TextChannelID = [], gc_CategoryID = [], gc_Error = []\<rparr>"

definition ensureIncidentStreamToken :: "mint \<Rightarrow> Incident \<Rightarrow> station \<Rightarrow> (db_error + string) \<times> station" where
  "ensureIncidentStreamToken mint i s =
     (if ic_RadioSetID i = [] then (Inr [], s)
      else case GetRadioSetForPTT (ic_RadioSetID i) (st_db s) of None \<Rightarrow> (Inr [], s)
      | Some rs \<Rightarrow>
          if share_token rs \<noteq> [] then (Inr (share_token rs), s)
          else (case draw mint ''share'' s of (token, s1) \<Rightarrow>
            (case on_db (SetRadioSetShareToken (rs_ID rs) (rs_UserID rs) token) s1 of
               (Inl err, s2) \<Rightarrow> (Inl err, s2) | (Inr _, s2) \<Rightarrow> (Inr token, s2))))"

text \<open>The link of the configuration: only for community incidents, made when there is none yet.\<close>

definition config_url :: "incident_config \<Rightarrow> mint \<Rightarrow> Incident \<Rightarrow> station \<Rightarrow> (db_error + string) \<times> station" where
  "config_url cfg mint i s =
     (if ic_Exposure i \<noteq> ''community'' then (Inr [], s)
      else let url = incidentPublicPlayerURL cfg i (st_db s) in
        if url = [] \<and> ic_RadioSetID i \<noteq> [] then ensureCommunityShareToken cfg mint i s else (Inr url, s))"

definition buildIncidentDiscordConfig ::
  "incident_config \<Rightarrow> mint \<Rightarrow> Incident \<Rightarrow> station \<Rightarrow> (db_error + IncidentIntegrationConfig) \<times> station" where
  "buildIncidentDiscordConfig cfg mint i s =
     (case config_url cfg mint i s of (Inl err, s1) \<Rightarrow> (Inl err, s1)
      | (Inr url, s1) \<Rightarrow>
          let c = empty_config\<lparr>gc_IncidentTitle := ic_Title i, gc_Exposure := ic_Exposure i, gc_PublicPlayerURL := url\<rparr> in
          if ic_RadioSetID i = [] then (Inr c, s1)
          else case ensureIncidentStreamToken mint i s1 of (Inl err, s2) \<Rightarrow> (Inl err, s2)
          | (Inr token, s2) \<Rightarrow> (Inr (c\<lparr>gc_StreamToken := token\<rparr>), s2))"

text \<open>The counter is an \<open>atomic.Int64\<close>; it does not come near its range.\<close>

definition nextDiscordBotInstance :: "incident_config \<Rightarrow> station \<Rightarrow> string \<times> station" where
  "nextDiscordBotInstance cfg s =
     (let xs = ig_DiscordBotInstances cfg in
      if xs = [] then (''signal1'', s) else (xs ! (st_bot s mod length xs), s\<lparr>st_bot := st_bot s + 1\<rparr>))"

definition upsertDiscordIntegration ::
  "incident_config \<Rightarrow> mint \<Rightarrow> Incident \<Rightarrow> IncidentIntegration option \<Rightarrow> string \<Rightarrow> int \<Rightarrow> station \<Rightarrow>
   (db_error + IncidentIntegration) \<times> station" where
  "upsertDiscordIntegration cfg mint i existing inst now s =
     (case buildIncidentDiscordConfig cfg mint i s of (Inl err, s1) \<Rightarrow> (Inl err, s1)
      | (Inr c, s1) \<Rightarrow> (case draw mint ''iint'' s1 of (fresh, s2) \<Rightarrow>
          on_db (UpsertIncidentIntegration
            \<lparr>ii_id = (case existing of None \<Rightarrow> [] | Some x \<Rightarrow> ii_id x), ii_incident_id = ic_ID i, ii_kind = ''discord'',
             ii_status = ''pending'', ii_bot_instance_id = inst, ii_config = c, ii_created_at = 0, ii_updated_at = 0\<rparr>
            fresh now) s2))"

definition discordQueueSkipReason :: "incident_config \<Rightarrow> Incident \<Rightarrow> string" where
  "discordQueueSkipReason cfg i =
     (if TrimSpace (ig_DiscordBotWorkerToken cfg) = []
      then ''DISCORD_BOT_WORKER_TOKEN not set on api '' @ [CHR 0xE2, CHR 0x80, CHR 0x94] @
        '' add same secret to api + discord-bot in Portainer, then redeploy''
      else if ic_Exposure i = ''internal'' then ''internal incidents skip Discord''
      else if ic_Status i \<noteq> ''active'' \<and> ic_Status i \<noteq> ''monitoring''
      then ''incident must be active before Discord rooms can sync''
      else [])"

text \<open>
  What an existing integration makes of a new request: \<open>Inl\<close> answers without queueing, \<open>Inr ()\<close> queues (again).
\<close>

definition fresh_pending :: "IncidentIntegration \<Rightarrow> int \<Rightarrow> bool" where
  "fresh_pending x now \<longleftrightarrow> ii_status x = ''pending'' \<and> ii_updated_at x > now - stalePendingTaskSeconds"

definition queueDiscordIntegrationForIncident ::
  "incident_config \<Rightarrow> mint \<Rightarrow> string \<Rightarrow> string \<Rightarrow> int \<Rightarrow> station \<Rightarrow> (bool \<times> string) \<times> station" where
  "queueDiscordIntegrationForIncident cfg mint iid uid now s =
     (case GetIncident iid (st_db s) of None \<Rightarrow> ((False, ''incident not found''), s)
      | Some i \<Rightarrow>
          let reason = discordQueueSkipReason cfg i; existing = GetIncidentIntegration iid ''discord'' (st_db s);
              status = (case existing of None \<Rightarrow> [] | Some x \<Rightarrow> ii_status x) in
          if reason \<noteq> [] then ((False, reason), s)
          else if status = ''active'' then ((True, []), s)
          else if status = ''stopping'' then ((False, []), s)
          else if (case existing of None \<Rightarrow> False | Some x \<Rightarrow> fresh_pending x now) then ((True, []), s)
          else case nextDiscordBotInstance cfg s of (inst, s1) \<Rightarrow>
            (case upsertDiscordIntegration cfg mint i existing inst now s1 of
               (Inl _, s2) \<Rightarrow> ((False, ''could not save discord integration''), s2)
             | (Inr saved, s2) \<Rightarrow> ((True, []), if uid = [] then s2 else
                 audited uid ''incident.discord_integration_auto_queued'' ''incident'' iid
                   [(''integrationId'', JString (ii_id saved))] now s2)))"


section \<open>Opening an incident\<close>

record createIncidentRequest =
  cr_Title :: string
  cr_TemplateID :: string
  cr_Type :: string
  cr_Priority :: string
  cr_Exposure :: string
  cr_Notes :: string
  cr_Activate :: bool
  cr_Talkgroups :: "int list"
  cr_TalkgroupGroups :: "string list"

record incidentResponse =
  ip_Incident :: Incident
  ip_RadioSet :: "RadioSet option"
  ip_ShareURL :: string
  ip_DiscordQueued :: bool
  ip_DiscordSkipReason :: string

definition zero_template :: IncidentTemplate where
  "zero_template = \<lparr>it_id = [], it_name = [], it_incident_type = [], it_selection_mode = [], it_talkgroups = [],
     it_talkgroup_groups = [], it_default_exposure = [], it_default_priority = [], it_nws_event_patterns = [],
     it_created_at = 0, it_updated_at = 0\<rparr>"

definition zero_incident :: Incident where
  "zero_incident = \<lparr>ic_ID = [], ic_Title = [], ic_IncidentType = [], ic_Status = [], ic_Priority = [], ic_Exposure = [],
     ic_RadioSetID = [], ic_TemplateID = [], ic_OpenedByUserID = [], ic_HandlerIncidentID = [], ic_Notes = [],
     ic_Metadata = [], ic_OpenedAt = 0, ic_ClosedAt = 0, ic_ArchivedAt = 0, ic_CreatedAt = 0, ic_UpdatedAt = 0\<rparr>"

definition first_nonempty :: "string \<Rightarrow> string \<Rightarrow> string" where
  "first_nonempty a b = (if a = [] then b else a)"

text \<open>\<open>"INC \<cdot> "\<close> and the title, in bytes, cut at 120 bytes - in the middle of a character, where one lies there.\<close>

definition incident_set_name :: "string \<Rightarrow> string" where
  "incident_set_name title = take 120 (''INC '' @ [CHR 0xC2, CHR 0xB7] @ '' '' @ title)"

definition requested_mode :: "createIncidentRequest \<Rightarrow> IncidentTemplate \<Rightarrow> string" where
  "requested_mode req t =
     (let m = (if cr_TalkgroupGroups req \<noteq> [] then ''groups'' else if cr_Talkgroups req \<noteq> [] then ''talkgroups''
               else it_selection_mode t)
      in if m = [] then ''groups'' else m)"

definition requested_incident ::
  "createIncidentRequest \<Rightarrow> IncidentTemplate \<Rightarrow> authUser \<Rightarrow> string \<Rightarrow> string \<Rightarrow> Incident" where
  "requested_incident req t u set_id status = zero_incident\<lparr>ic_Title := TrimSpace (cr_Title req),
     ic_IncidentType := first_nonempty (TrimSpace (cr_Type req)) (first_nonempty (it_incident_type t) ''custom''),
     ic_Status := status, ic_Priority := first_nonempty (cr_Priority req) (it_default_priority t),
     ic_Exposure := first_nonempty (cr_Exposure req) (it_default_exposure t), ic_RadioSetID := set_id,
     ic_TemplateID := it_id t, ic_OpenedByUserID := au_ID u, ic_Notes := TrimSpace (cr_Notes req)\<rparr>"

definition activate_created ::
  "incident_config \<Rightarrow> mint \<Rightarrow> authUser \<Rightarrow> RadioSet \<Rightarrow> string \<Rightarrow> int \<Rightarrow> station \<Rightarrow> (db_error + incidentResponse) \<times> station" where
  "activate_created cfg mint u rs iid now s =
     (case on_db (ActivateIncident iid now) s of (Inl err, s1) \<Rightarrow> (Inl err, s1)
      | (Inr act, s1) \<Rightarrow> (case ensureCommunityShareToken cfg mint act s1 of (share, s2) \<Rightarrow>
          let url = (case share of Inl _ \<Rightarrow> [] | Inr url \<Rightarrow> url);
              rs' = (if url \<noteq> [] \<and> rs_ShareToken rs = None
                     then (case GetRadioSetForPTT (rs_ID rs) (st_db s2) of None \<Rightarrow> rs | Some r2 \<Rightarrow> r2) else rs) in
          (case queueDiscordIntegrationForIncident cfg mint (ic_ID act) (au_ID u) now s2 of ((queued, reason), s3) \<Rightarrow>
             (Inr \<lparr>ip_Incident = act, ip_RadioSet = Some rs', ip_ShareURL = url, ip_DiscordQueued = queued,
                   ip_DiscordSkipReason = reason\<rparr>, s3))))"

definition createIncidentFromTemplate ::
  "incident_config \<Rightarrow> mint \<Rightarrow> authUser \<Rightarrow> createIncidentRequest \<Rightarrow> string \<Rightarrow> bool \<Rightarrow> int \<Rightarrow> station \<Rightarrow>
   (db_error + incidentResponse) \<times> station" where
  "createIncidentFromTemplate cfg mint u req status activate now s =
     (let found = (if cr_TemplateID req = [] then None else GetIncidentTemplate (cr_TemplateID req) (st_db s)) in
      if TrimSpace (cr_Title req) = [] then (Inl (OtherError ''title is required''), s)
      else if cr_TemplateID req \<noteq> [] \<and> found = None then (Inl (OtherError ''template not found''), s)
      else let t = (case found of None \<Rightarrow> zero_template | Some t \<Rightarrow> t);
               tgs = (if cr_Talkgroups req \<noteq> [] then cr_Talkgroups req else it_talkgroups t);
               groups = (if cr_TalkgroupGroups req \<noteq> [] then cr_TalkgroupGroups req else it_talkgroup_groups t) in
        case draw mint ''rs'' s of (set_id, s1) \<Rightarrow>
        (case on_db (CreateRadioSet (au_ID u) (incident_set_name (TrimSpace (cr_Title req))) (requested_mode req t)
                tgs groups set_id now) s1 of
           (Inl err, s2) \<Rightarrow> (Inl err, s2)
         | (Inr rs, s2) \<Rightarrow> (case draw mint ''inc'' s2 of (iid, s3) \<Rightarrow>
             (case on_db (CreateIncident (requested_incident req t u (rs_ID rs) status) iid now) s3 of
                (Inl err, s4) \<Rightarrow> (Inl err, s4)
              | (Inr i, s4) \<Rightarrow>
                  if activate then activate_created cfg mint u rs (ic_ID i) now s4
                  else (Inr \<lparr>ip_Incident = i, ip_RadioSet = Some rs, ip_ShareURL = [], ip_DiscordQueued = False,
                             ip_DiscordSkipReason = []\<rparr>, s4)))))"

section \<open>Replies\<close>

record incidentSettings =
  is_IncidentManagementEnabled :: bool
  is_IncidentHandlerHubID :: string
  is_IncidentAutoSuggest :: bool
  is_IncidentAutoOpen :: bool
  is_IncidentWatchAreas :: "string list option"
  is_IncidentWatchPointLat :: rat
  is_IncidentWatchPointLon :: rat
  is_IncidentWatchRadiusKm :: rat
  is_IncidentSystemLabels :: "string list option"

record incidentRadioSetSummary =
  im_Name :: string
  im_SelectionMode :: string
  im_Talkgroups :: "int list"
  im_TalkgroupGroups :: "string list"

record incidentListItem =
  li_Incident :: Incident
  li_ShareURL :: string
  li_RadioSet :: "incidentRadioSetSummary option"

record publicIncidentItem =
  pi_ID :: string
  pi_Title :: string
  pi_Type :: string
  pi_Priority :: string
  pi_PlayerURL :: string
  pi_Talkgroups :: "int list"
  pi_OpenedAt :: int

record discordStatusResponse =
  ds_Configured :: bool
  ds_Online :: bool
  ds_Status :: "DiscordBotStatus option"
  ds_PendingTasks :: int
  ds_ActiveTasks :: int
  ds_FailedTasks :: int

record bridge =
  br_integrationId :: string
  br_incidentId :: string
  br_voiceChannelId :: string
  br_streamToken :: string

record reconciled =
  rc_queued :: nat
  rc_retried :: nat
  rc_skipped :: nat
  rc_pendingTasks :: int
  rc_activeTasks :: int
  rc_failedTasks :: int

datatype incident_body =
    SettingsReply incidentSettings
  | SavedIdentity HubIdentity
  | TemplatesReply "IncidentTemplate list"
  | ItemsReply "incidentListItem list"
  | SignalsReply "IncidentSignal list"
  | IncidentReply Incident
  | CreatedReply incidentResponse
  | IntegrationReply "IncidentIntegration option"
  | UpdatedIntegration IncidentIntegration
  | TasksReply "IncidentIntegration list"
  | BridgesReply "bridge list"
  | ReconciledReply reconciled
  | BotReply discordStatusResponse
  | ProcessedReply nat
  | EmptyReply

text \<open>
  The text of an error in a reply: the code's own messages are values of \<open>OtherError\<close>; \<open>driver\<close> is the text of the
  errors of the database driver.
\<close>

definition error_text :: "(db_error \<Rightarrow> string) \<Rightarrow> db_error \<Rightarrow> string" where
  "error_text driver e = (case e of OtherError m \<Rightarrow> m | _ \<Rightarrow> driver e)"


section \<open>Settings, templates and lists\<close>

definition shown_settings :: "HubIdentity \<Rightarrow> incidentSettings" where
  "shown_settings h = \<lparr>is_IncidentManagementEnabled = hd_incident_management_enabled h,
     is_IncidentHandlerHubID = hd_incident_handler_hub_id h, is_IncidentAutoSuggest = hd_incident_auto_suggest h,
     is_IncidentAutoOpen = hd_incident_auto_open h, is_IncidentWatchAreas = Some (hd_incident_watch_areas h),
     is_IncidentWatchPointLat = hd_incident_watch_point_lat h, is_IncidentWatchPointLon = hd_incident_watch_point_lon h,
     is_IncidentWatchRadiusKm = hd_incident_watch_radius_km h,
     is_IncidentSystemLabels = Some (hd_incident_system_labels h)\<rparr>"

definition handleGetIncidentSettings ::
  "incident_config \<Rightarrow> mint \<Rightarrow> authUser option \<Rightarrow> int \<Rightarrow> station \<Rightarrow> incident_body reply \<times> station" where
  "handleGetIncidentSettings cfg mint ctx now s =
     (case requireAuthenticated ctx of Inl e \<Rightarrow> (e, s)
      | Inr _ \<Rightarrow> (case load_identity cfg mint now s of (h, s1) \<Rightarrow> (Reply 200 (SettingsReply (shown_settings h)), s1)))"

definition requested_settings :: "incidentSettings \<Rightarrow> HubIdentity \<Rightarrow> HubIdentity" where
  "requested_settings req h = h\<lparr>hd_incident_management_enabled := is_IncidentManagementEnabled req,
     hd_incident_handler_hub_id := TrimSpace (is_IncidentHandlerHubID req),
     hd_incident_auto_suggest := is_IncidentAutoSuggest req, hd_incident_auto_open := is_IncidentAutoOpen req,
     hd_incident_watch_areas := (case is_IncidentWatchAreas req of None \<Rightarrow> hd_incident_watch_areas h | Some xs \<Rightarrow> xs),
     hd_incident_watch_point_lat :=
       (if is_IncidentWatchPointLat req \<noteq> 0 then is_IncidentWatchPointLat req else hd_incident_watch_point_lat h),
     hd_incident_watch_point_lon :=
       (if is_IncidentWatchPointLon req \<noteq> 0 then is_IncidentWatchPointLon req else hd_incident_watch_point_lon h),
     hd_incident_watch_radius_km :=
       (if is_IncidentWatchRadiusKm req > 0 then is_IncidentWatchRadiusKm req else hd_incident_watch_radius_km h),
     hd_incident_system_labels :=
       (case is_IncidentSystemLabels req of None \<Rightarrow> hd_incident_system_labels h | Some xs \<Rightarrow> xs)\<rparr>"

definition handleUpdateIncidentSettings ::
  "incident_config \<Rightarrow> mint \<Rightarrow> authUser option \<Rightarrow> incidentSettings option \<Rightarrow> int \<Rightarrow> station \<Rightarrow> incident_body reply \<times> station" where
  "handleUpdateIncidentSettings cfg mint ctx body now s =
     (case requireAdmin ctx of Inl e \<Rightarrow> (e, s)
      | Inr admin \<Rightarrow> (case load_identity cfg mint now s of (h, s1) \<Rightarrow>
          (case body of None \<Rightarrow> (Fail 400 ''invalid json'', s1)
           | Some req \<Rightarrow> (case on_db (UpdateHubIncidentSettings (requested_settings req h) now) s1 of
               (Inl _, s2) \<Rightarrow> (Fail 500 ''save incident settings'', s2)
             | (Inr saved, s2) \<Rightarrow> (Reply 200 (SavedIdentity saved),
                 audited (au_ID admin) ''hub.incident_settings_updated'' ''hub'' (hd_hub_id saved)
                   [(''incidentManagementEnabled'', JBool (hd_incident_management_enabled saved)),
                    (''incidentHandlerHubId'', JString (hd_incident_handler_hub_id saved))] now s2)))))"

definition handleListIncidentTemplates :: "authUser option \<Rightarrow> int \<Rightarrow> station \<Rightarrow> incident_body reply \<times> station" where
  "handleListIncidentTemplates ctx now s =
     (case requireAuthenticated ctx of Inl e \<Rightarrow> (e, s)
      | Inr _ \<Rightarrow>
          let s1 = (if ListIncidentTemplates (st_db s) = []
                    then s\<lparr>st_db := SeedDefaultIncidentTemplates now (st_db s)\<rparr> else s)
          in (Reply 200 (TemplatesReply (ListIncidentTemplates (st_db s1))), s1))"

definition list_item :: "incident_config \<Rightarrow> db \<Rightarrow> Incident \<Rightarrow> incidentListItem" where
  "list_item cfg d i =
     (let url = incidentPublicPlayerURL cfg i d;
          set = (if ic_RadioSetID i = [] then None else GetRadioSetForPTT (ic_RadioSetID i) d) in
      case set of None \<Rightarrow> \<lparr>li_Incident = i, li_ShareURL = url, li_RadioSet = None\<rparr>
      | Some rs \<Rightarrow> \<lparr>li_Incident = i,
          li_ShareURL = (if url = [] \<and> share_token rs \<noteq> [] then player_url cfg (share_token rs) else url),
          li_RadioSet = Some \<lparr>im_Name = rs_Name rs, im_SelectionMode = rs_SelectionMode rs,
            im_Talkgroups = rs_Talkgroups rs, im_TalkgroupGroups = rs_TalkgroupGroups rs\<rparr>\<rparr>)"

definition incidentListItemsFromIncidents :: "incident_config \<Rightarrow> db \<Rightarrow> Incident list \<Rightarrow> incidentListItem list" where
  "incidentListItemsFromIncidents cfg d is = map (list_item cfg d) is"

definition handleListIncidents ::
  "incident_config \<Rightarrow> mint \<Rightarrow> authUser option \<Rightarrow> string \<Rightarrow> int \<Rightarrow> station \<Rightarrow> incident_body reply \<times> station" where
  "handleListIncidents cfg mint ctx archived now s =
     (case requireIncidentManager cfg mint ctx now s of (Inl e, s1) \<Rightarrow> (e, s1)
      | (Inr _, s1) \<Rightarrow> (Reply 200 (ItemsReply (incidentListItemsFromIncidents cfg (st_db s1)
          (ListIncidents (archived = ''1'') (st_db s1)))), s1))"

definition handleListActiveIncidents :: "incident_config \<Rightarrow> authUser option \<Rightarrow> db \<Rightarrow> incident_body reply" where
  "handleListActiveIncidents cfg ctx d =
     (case requireAuthenticated ctx of Inl e \<Rightarrow> e
      | Inr u \<Rightarrow> Reply 200 (ItemsReply (incidentListItemsFromIncidents cfg d
          (filter (canListenToIncident u) (ListActiveIncidents d)))))"

definition handleListIncidentSignals ::
  "incident_config \<Rightarrow> mint \<Rightarrow> authUser option \<Rightarrow> int \<Rightarrow> station \<Rightarrow> incident_body reply \<times> station" where
  "handleListIncidentSignals cfg mint ctx now s =
     (case requireIncidentManager cfg mint ctx now s of (Inl e, s1) \<Rightarrow> (e, s1)
      | (Inr _, s1) \<Rightarrow> (Reply 200 (SignalsReply (ListPendingIncidentSignals 50 (st_db s1))), s1))"

definition public_item :: "incident_config \<Rightarrow> db \<Rightarrow> Incident \<Rightarrow> publicIncidentItem" where
  "public_item cfg d i =
     (let url = incidentPublicPlayerURL cfg i d in
      \<lparr>pi_ID = ic_ID i, pi_Title = ic_Title i, pi_Type = ic_IncidentType i, pi_Priority = ic_Priority i, pi_PlayerURL = url,
       pi_Talkgroups = (if url = [] then [] else case GetRadioSetForPTT (ic_RadioSetID i) d of None \<Rightarrow> []
         | Some rs \<Rightarrow> rs_Talkgroups rs), pi_OpenedAt = ic_OpenedAt i\<rparr>)"

definition fetchPublicIncidents :: "incident_config \<Rightarrow> db \<Rightarrow> publicIncidentItem list" where
  "fetchPublicIncidents cfg d = map (public_item cfg d) (ListActiveCommunityIncidents d)"

section \<open>The life of an incident\<close>

definition handleCreateIncident ::
  "incident_config \<Rightarrow> mint \<Rightarrow> (db_error \<Rightarrow> string) \<Rightarrow> authUser option \<Rightarrow> createIncidentRequest option \<Rightarrow> int \<Rightarrow> station \<Rightarrow>
   incident_body reply \<times> station" where
  "handleCreateIncident cfg mint driver ctx body now s =
     (case requireIncidentManager cfg mint ctx now s of (Inl e, s1) \<Rightarrow> (e, s1)
      | (Inr u, s1) \<Rightarrow> (case body of None \<Rightarrow> (Fail 400 ''invalid json'', s1)
        | Some req \<Rightarrow>
            (case createIncidentFromTemplate cfg mint u req (if cr_Activate req then ''active'' else ''draft'')
                (cr_Activate req) now s1 of
               (Inl err, s2) \<Rightarrow> (Fail 400 (error_text driver err), s2)
             | (Inr resp, s2) \<Rightarrow> (Reply 201 (CreatedReply resp),
                 audited (au_ID u) ''incident.created'' ''incident'' (ic_ID (ip_Incident resp))
                   [(''title'', JString (ic_Title (ip_Incident resp))),
                    (''templateId'', JString (ic_TemplateID (ip_Incident resp))),
                    (''status'', JString (ic_Status (ip_Incident resp)))] now s2))))"

definition handleActivateIncident ::
  "incident_config \<Rightarrow> mint \<Rightarrow> authUser option \<Rightarrow> string \<Rightarrow> int \<Rightarrow> station \<Rightarrow> incident_body reply \<times> station" where
  "handleActivateIncident cfg mint ctx i now s =
     (case requireIncidentManager cfg mint ctx now s of (Inl e, s1) \<Rightarrow> (e, s1)
      | (Inr u, s1) \<Rightarrow> (case GetIncident i (st_db s1) of None \<Rightarrow> (Fail 404 ''not found'', s1)
        | Some inc \<Rightarrow> (case on_db (ActivateIncident (ic_ID inc) now) s1 of
            (Inl _, s2) \<Rightarrow> (Fail 500 ''activate incident'', s2)
          | (Inr act, s2) \<Rightarrow> (case ensureCommunityShareToken cfg mint act s2 of (share, s3) \<Rightarrow>
              let url = (case share of Inl _ \<Rightarrow> [] | Inr url \<Rightarrow> url);
                  rs = (if ic_RadioSetID act = [] then None else GetRadioSetForPTT (ic_RadioSetID act) (st_db s3)) in
              (case queueDiscordIntegrationForIncident cfg mint (ic_ID act) (au_ID u) now s3 of ((queued, reason), s4) \<Rightarrow>
                 (Reply 200 (CreatedReply \<lparr>ip_Incident = act, ip_RadioSet = rs, ip_ShareURL = url,
                    ip_DiscordQueued = queued, ip_DiscordSkipReason = reason\<rparr>),
                  audited (au_ID u) ''incident.activated'' ''incident'' (ic_ID act) [] now s4))))))"

text \<open>What closing an incident does besides the row: the rooms stop and the player link dies.\<close>

definition close_down :: "Incident \<Rightarrow> int \<Rightarrow> db \<Rightarrow> db" where
  "close_down i now d = clear_share i (MarkDiscordIntegrationsStopping (ic_ID i) now d)"

definition handleCloseIncident ::
  "incident_config \<Rightarrow> mint \<Rightarrow> authUser option \<Rightarrow> string \<Rightarrow> int \<Rightarrow> station \<Rightarrow> incident_body reply \<times> station" where
  "handleCloseIncident cfg mint ctx i now s =
     (case requireIncidentManager cfg mint ctx now s of (Inl e, s1) \<Rightarrow> (e, s1)
      | (Inr u, s1) \<Rightarrow> (case on_db (CloseIncident i now) s1 of
          (Inl _, s2) \<Rightarrow> (Fail 404 ''not found'', s2)
        | (Inr shut, s2) \<Rightarrow> (Reply 200 (IncidentReply shut),
            audited (au_ID u) ''incident.closed'' ''incident'' (ic_ID shut) [] now
              (s2\<lparr>st_db := close_down shut now (st_db s2)\<rparr>))))"

definition handleCloseIncidentByRadioSet ::
  "incident_config \<Rightarrow> mint \<Rightarrow> authUser option \<Rightarrow> string \<Rightarrow> int \<Rightarrow> station \<Rightarrow> incident_body reply \<times> station" where
  "handleCloseIncidentByRadioSet cfg mint ctx rs now s =
     (case requireIncidentManager cfg mint ctx now s of (Inl e, s1) \<Rightarrow> (e, s1)
      | (Inr u, s1) \<Rightarrow> (case GetIncidentByRadioSetID rs (st_db s1) of
          None \<Rightarrow> (Fail 404 ''no incident for this radio set'', s1)
        | Some inc \<Rightarrow> (case on_db (CloseIncident (ic_ID inc) now) s1 of
            (Inl _, s2) \<Rightarrow> (Fail 404 ''not found'', s2)
          | (Inr shut, s2) \<Rightarrow> (Reply 200 (IncidentReply shut),
              audited (au_ID u) ''incident.closed'' ''incident'' (ic_ID shut)
                [(''via'', JString ''radio_set''), (''radioSetId'', JString rs)] now
                (s2\<lparr>st_db := close_down shut now (st_db s2)\<rparr>)))))"

definition handleArchiveIncident ::
  "incident_config \<Rightarrow> mint \<Rightarrow> authUser option \<Rightarrow> string \<Rightarrow> int \<Rightarrow> station \<Rightarrow> incident_body reply \<times> station" where
  "handleArchiveIncident cfg mint ctx i now s =
     (case requireIncidentManager cfg mint ctx now s of (Inl e, s1) \<Rightarrow> (e, s1)
      | (Inr u, s1) \<Rightarrow> (case on_db (ArchiveIncident i now) s1 of
          (Inl _, s2) \<Rightarrow> (Fail 404 ''not found'', s2)
        | (Inr archived, s2) \<Rightarrow> (Reply 200 (IncidentReply archived),
            audited (au_ID u) ''incident.archived'' ''incident'' (ic_ID archived) [] now s2)))"

definition promotion :: "IncidentSignal \<Rightarrow> createIncidentRequest" where
  "promotion g = \<lparr>cr_Title = sg_title g, cr_TemplateID = sg_template_id g, cr_Type = [], cr_Priority = [],
     cr_Exposure = [], cr_Notes = sg_detail g, cr_Activate = True, cr_Talkgroups = [], cr_TalkgroupGroups = []\<rparr>"

definition handlePromoteIncidentSignal ::
  "incident_config \<Rightarrow> mint \<Rightarrow> (db_error \<Rightarrow> string) \<Rightarrow> authUser option \<Rightarrow> string \<Rightarrow> int \<Rightarrow> station \<Rightarrow> incident_body reply \<times> station" where
  "handlePromoteIncidentSignal cfg mint driver ctx sid now s =
     (case requireIncidentManager cfg mint ctx now s of (Inl e, s1) \<Rightarrow> (e, s1)
      | (Inr u, s1) \<Rightarrow> (case List.find (\<lambda>g. sg_id g = sid) (ListPendingIncidentSignals 200 (st_db s1)) of
          None \<Rightarrow> (Fail 404 ''signal not found'', s1)
        | Some g \<Rightarrow> (case createIncidentFromTemplate cfg mint u (promotion g) ''active'' True now s1 of
            (Inl err, s2) \<Rightarrow> (Fail 400 (error_text driver err), s2)
          | (Inr resp, s2) \<Rightarrow> (Reply 201 (CreatedReply resp),
              s2\<lparr>st_db := LinkIncidentSignal (sg_id g) (ic_ID (ip_Incident resp)) (st_db s2)\<rparr>))))"


section \<open>Discord integrations\<close>

definition handleGetIncidentDiscordIntegration :: "authUser option \<Rightarrow> string \<Rightarrow> db \<Rightarrow> incident_body reply" where
  "handleGetIncidentDiscordIntegration ctx iid d =
     (case requireAuthenticated ctx of Inl e \<Rightarrow> e
      | Inr _ \<Rightarrow> Reply 200 (IntegrationReply (GetIncidentIntegration iid ''discord'' d)))"

definition handleCreateIncidentDiscordIntegration ::
  "incident_config \<Rightarrow> mint \<Rightarrow> authUser option \<Rightarrow> string \<Rightarrow> int \<Rightarrow> station \<Rightarrow> incident_body reply \<times> station" where
  "handleCreateIncidentDiscordIntegration cfg mint ctx iid now s =
     (case requireIncidentManager cfg mint ctx now s of (Inl e, s1) \<Rightarrow> (e, s1)
      | (Inr u, s1) \<Rightarrow>
          if TrimSpace (ig_DiscordBotWorkerToken cfg) = [] then (Fail 503 ''discord bot worker not configured'', s1)
          else case GetIncident iid (st_db s1) of None \<Rightarrow> (Fail 404 ''not found'', s1)
          | Some i \<Rightarrow>
              let existing = GetIncidentIntegration iid ''discord'' (st_db s1);
                  status = (case existing of None \<Rightarrow> [] | Some x \<Rightarrow> ii_status x) in
              if ic_Exposure i = ''internal'' then (Fail 400 ''internal incidents cannot use discord integration'', s1)
              else if ic_Status i \<noteq> ''active'' \<and> ic_Status i \<noteq> ''monitoring''
              then (Fail 400 ''incident must be active or monitoring'', s1)
              else if status = ''active'' then (Reply 200 (IntegrationReply existing), s1)
              else if status = ''stopping'' then (Fail 409 ''discord integration is stopping'', s1)
              else if (case existing of None \<Rightarrow> False | Some x \<Rightarrow> fresh_pending x now)
              then (Reply 200 (IntegrationReply existing), s1)
              else case nextDiscordBotInstance cfg s1 of (inst, s2) \<Rightarrow>
                (case upsertDiscordIntegration cfg mint i existing inst now s2 of
                   (Inl _, s3) \<Rightarrow> (Fail 500 ''save integration'', s3)
                 | (Inr saved, s3) \<Rightarrow> (Reply 201 (IntegrationReply (Some saved)),
                     audited (au_ID u) ''incident.discord_integration_requested'' ''incident'' iid
                       [(''integrationId'', JString (ii_id saved))] now s3)))"

definition handleDeleteIncidentDiscordIntegration ::
  "incident_config \<Rightarrow> mint \<Rightarrow> authUser option \<Rightarrow> string \<Rightarrow> int \<Rightarrow> station \<Rightarrow> incident_body reply \<times> station" where
  "handleDeleteIncidentDiscordIntegration cfg mint ctx iid now s =
     (case requireIncidentManager cfg mint ctx now s of (Inl e, s1) \<Rightarrow> (e, s1)
      | (Inr u, s1) \<Rightarrow> (case GetIncidentIntegration iid ''discord'' (st_db s1) of None \<Rightarrow> (Reply 204 EmptyReply, s1)
        | Some x \<Rightarrow>
            if ii_status x = ''stopped'' \<or> ii_status x = ''failed'' then (Reply 204 EmptyReply, s1)
            else (Reply 204 EmptyReply, audited (au_ID u) ''incident.discord_integration_stopping'' ''incident'' iid [] now
              (s1\<lparr>st_db := MarkDiscordIntegrationsStopping iid now (st_db s1)\<rparr>))))"

text \<open>The two headers of a bot: \<open>X-Discord-Bot-Token\<close> and \<open>Authorization\<close>.\<close>

definition bot_token :: "string \<Rightarrow> string \<Rightarrow> string" where
  "bot_token header authorization =
     (let a = TrimSpace header; b = TrimSpace authorization in
      if a \<noteq> [] then a else if HasPrefix b bearer then drop (length bearer) b else b)"

definition requireDiscordBotWorker :: "incident_config \<Rightarrow> string \<Rightarrow> string \<Rightarrow> 'a reply option" where
  "requireDiscordBotWorker cfg header authorization =
     (let expected = TrimSpace (ig_DiscordBotWorkerToken cfg) in
      if expected = [] then Some (Fail 404 ''discord bot worker disabled'')
      else if bot_token header authorization \<noteq> expected then Some (Fail 403 ''forbidden'') else None)"

definition handleListDiscordIncidentTasks ::
  "incident_config \<Rightarrow> string \<Rightarrow> string \<Rightarrow> string \<Rightarrow> db \<Rightarrow> incident_body reply" where
  "handleListDiscordIncidentTasks cfg header authorization inst d =
     (case requireDiscordBotWorker cfg header authorization of Some e \<Rightarrow> e
      | None \<Rightarrow> Reply 200 (TasksReply (ListPendingDiscordIntegrationTasks (TrimSpace inst) 20 d)))"

text \<open>One round of the loop over the active integrations: an integration without a stream token gets one.\<close>

definition bridge_config :: "mint \<Rightarrow> IncidentIntegration \<Rightarrow> int \<Rightarrow> station \<Rightarrow> IncidentIntegrationConfig \<times> station" where
  "bridge_config mint x now s =
     (let c = ii_config x in
      if gc_StreamToken c = [] \<and> ii_incident_id x \<noteq> []
      then case GetIncident (ii_incident_id x) (st_db s) of None \<Rightarrow> (c, s)
        | Some i \<Rightarrow> (case ensureIncidentStreamToken mint i s of
            (Inl _, s1) \<Rightarrow> (c, s1)
          | (Inr token, s1) \<Rightarrow>
              if token = [] then (c, s1)
              else (let c1 = c\<lparr>gc_StreamToken := token\<rparr> in
                (c1, snd (on_db (UpdateIncidentIntegrationStatus (ii_id x) (ii_status x) (Some c1) now) s1))))
      else (c, s))"

fun list_bridges :: "mint \<Rightarrow> IncidentIntegration list \<Rightarrow> int \<Rightarrow> station \<Rightarrow> bridge list \<times> station" where
  "list_bridges mint [] now s = ([], s)"
| "list_bridges mint (x # xs) now s =
     (case bridge_config mint x now s of (c, s1) \<Rightarrow> (case list_bridges mint xs now s1 of (bs, s2) \<Rightarrow>
        (if gc_VoiceChannelID c = [] \<or> gc_StreamToken c = [] then bs
         else \<lparr>br_integrationId = ii_id x, br_incidentId = ii_incident_id x, br_voiceChannelId = gc_VoiceChannelID c,
               br_streamToken = gc_StreamToken c\<rparr> # bs, s2)))"

definition handleListActiveDiscordVoiceBridges ::
  "incident_config \<Rightarrow> mint \<Rightarrow> string \<Rightarrow> string \<Rightarrow> string \<Rightarrow> int \<Rightarrow> station \<Rightarrow> incident_body reply \<times> station" where
  "handleListActiveDiscordVoiceBridges cfg mint header authorization inst now s =
     (case requireDiscordBotWorker cfg header authorization of Some e \<Rightarrow> (e, s)
      | None \<Rightarrow> (case list_bridges mint (ListActiveDiscordIntegrations (TrimSpace inst) 50 (st_db s)) now s of
          (bs, s1) \<Rightarrow> (Reply 200 (BridgesReply bs), s1)))"

record completeDiscordTaskRequest =
  ct_VoiceChannelID :: string
  ct_TextChannelID :: string
  ct_CategoryID :: string

definition completed_config :: "completeDiscordTaskRequest \<Rightarrow> IncidentIntegrationConfig \<Rightarrow> IncidentIntegrationConfig" where
  "completed_config req c = c\<lparr>gc_VoiceChannelID := TrimSpace (ct_VoiceChannelID req),
     gc_TextChannelID := TrimSpace (ct_TextChannelID req), gc_CategoryID := TrimSpace (ct_CategoryID req), gc_Error := []\<rparr>"

definition with_stream_token :: "mint \<Rightarrow> string \<Rightarrow> IncidentIntegrationConfig \<Rightarrow> station \<Rightarrow> IncidentIntegrationConfig \<times> station" where
  "with_stream_token mint iid c s =
     (if gc_StreamToken c = [] \<and> iid \<noteq> []
      then case GetIncident iid (st_db s) of None \<Rightarrow> (c, s)
        | Some i \<Rightarrow> (case ensureIncidentStreamToken mint i s of
            (Inl _, s1) \<Rightarrow> (c, s1) | (Inr token, s1) \<Rightarrow> (c\<lparr>gc_StreamToken := token\<rparr>, s1))
      else (c, s))"

definition handleCompleteDiscordIncidentTask ::
  "incident_config \<Rightarrow> mint \<Rightarrow> string \<Rightarrow> string \<Rightarrow> string \<Rightarrow> completeDiscordTaskRequest option \<Rightarrow> int \<Rightarrow> station \<Rightarrow>
   incident_body reply \<times> station" where
  "handleCompleteDiscordIncidentTask cfg mint header authorization tid body now s =
     (case requireDiscordBotWorker cfg header authorization of Some e \<Rightarrow> (e, s)
      | None \<Rightarrow> (case body of None \<Rightarrow> (Fail 400 ''invalid json'', s)
        | Some req \<Rightarrow> (case GetIncidentIntegrationByID tid (st_db s) of None \<Rightarrow> (Fail 404 ''not found'', s)
          | Some x \<Rightarrow> (case with_stream_token mint (ii_incident_id x) (completed_config req (ii_config x)) s of (c, s1) \<Rightarrow>
              (case on_db (UpdateIncidentIntegrationStatus tid ''active'' (Some c) now) s1 of
                 (Inl _, s2) \<Rightarrow> (Fail 500 ''complete task'', s2)
               | (Inr y, s2) \<Rightarrow> (Reply 200 (UpdatedIntegration y), s2))))))"

definition handleFailDiscordIncidentTask ::
  "incident_config \<Rightarrow> string \<Rightarrow> string \<Rightarrow> string \<Rightarrow> string option \<Rightarrow> int \<Rightarrow> station \<Rightarrow> incident_body reply \<times> station" where
  "handleFailDiscordIncidentTask cfg header authorization tid body now s =
     (case requireDiscordBotWorker cfg header authorization of Some e \<Rightarrow> (e, s)
      | None \<Rightarrow> (case body of None \<Rightarrow> (Fail 400 ''invalid json'', s)
        | Some err \<Rightarrow> (case GetIncidentIntegrationByID tid (st_db s) of None \<Rightarrow> (Fail 404 ''not found'', s)
          | Some x \<Rightarrow> (case on_db (UpdateIncidentIntegrationStatus tid ''failed''
                (Some ((ii_config x)\<lparr>gc_Error := first_nonempty (TrimSpace err) ''discord integration failed''\<rparr>)) now) s of
              (Inl _, s1) \<Rightarrow> (Fail 500 ''fail task'', s1)
            | (Inr y, s1) \<Rightarrow> (Reply 200 (UpdatedIntegration y), s1)))))"

definition handleStopDiscordIncidentTask ::
  "incident_config \<Rightarrow> string \<Rightarrow> string \<Rightarrow> string \<Rightarrow> int \<Rightarrow> station \<Rightarrow> incident_body reply \<times> station" where
  "handleStopDiscordIncidentTask cfg header authorization tid now s =
     (case requireDiscordBotWorker cfg header authorization of Some e \<Rightarrow> (e, s)
      | None \<Rightarrow> (case on_db (UpdateIncidentIntegrationStatus tid ''stopped'' None now) s of
          (Inl _, s1) \<Rightarrow> (Fail 500 ''stop task'', s1)
        | (Inr y, s1) \<Rightarrow> (Reply 200 (UpdatedIntegration y), s1)))"

text \<open>The two loops of the reconciliation: how many incidents were queued and how many not.\<close>

fun queue_each :: "incident_config \<Rightarrow> mint \<Rightarrow> string list \<Rightarrow> string \<Rightarrow> int \<Rightarrow> station \<Rightarrow> (nat \<times> nat) \<times> station" where
  "queue_each cfg mint [] uid now s = ((0, 0), s)"
| "queue_each cfg mint (iid # iids) uid now s =
     (case queueDiscordIntegrationForIncident cfg mint iid uid now s of ((ok, _), s1) \<Rightarrow>
       (case queue_each cfg mint iids uid now s1 of ((queued, skipped), s2) \<Rightarrow>
          (if ok then (Suc queued, skipped) else (queued, Suc skipped), s2)))"

text \<open>In the second loop an integration of an unknown incident is passed over before it is queued.\<close>

definition failed_incidents :: "db \<Rightarrow> string list" where
  "failed_incidents d = filter (\<lambda>iid. GetIncident iid d \<noteq> None) (map ii_incident_id (ListFailedDiscordIntegrations 100 d))"

definition handleReconcileDiscordIncidents ::
  "incident_config \<Rightarrow> mint \<Rightarrow> authUser option \<Rightarrow> int \<Rightarrow> station \<Rightarrow> incident_body reply \<times> station" where
  "handleReconcileDiscordIncidents cfg mint ctx now s =
     (case requireIncidentManager cfg mint ctx now s of (Inl e, s1) \<Rightarrow> (e, s1)
      | (Inr u, s1) \<Rightarrow>
          if TrimSpace (ig_DiscordBotWorkerToken cfg) = [] then (Fail 503 ''discord bot worker not configured'', s1)
          else case queue_each cfg mint (map ic_ID (ListActiveIncidentsMissingDiscord 100 (st_db s1))) (au_ID u) now s1 of
            ((queued, skipped), s2) \<Rightarrow>
              (case queue_each cfg mint (failed_incidents (st_db s2)) (au_ID u) now s2 of ((retried, _), s3) \<Rightarrow>
                (Reply 200 (ReconciledReply \<lparr>rc_queued = queued, rc_retried = retried, rc_skipped = skipped,
                   rc_pendingTasks = CountDiscordIntegrationsByStatus ''pending'' (st_db s3),
                   rc_activeTasks = CountDiscordIntegrationsByStatus ''active'' (st_db s3),
                   rc_failedTasks = CountDiscordIntegrationsByStatus ''failed'' (st_db s3)\<rparr>),
                 audited (au_ID u) ''incident.discord_reconcile'' ''hub'' []
                   [(''queued'', JNumber (int queued)), (''retried'', JNumber (int retried)),
                    (''skipped'', JNumber (int skipped))] now s3)))"

section \<open>The bot\<close>

definition handleDiscordHeartbeat ::
  "incident_config \<Rightarrow> string \<Rightarrow> string \<Rightarrow> DiscordBotStatus option \<Rightarrow> int \<Rightarrow> station \<Rightarrow> incident_body reply \<times> station" where
  "handleDiscordHeartbeat cfg header authorization body now s =
     (case requireDiscordBotWorker cfg header authorization of Some e \<Rightarrow> (e, s)
      | None \<Rightarrow> (case body of None \<Rightarrow> (Fail 400 ''invalid json'', s)
        | Some req \<Rightarrow> (case on_db (UpsertDiscordBotStatus (req\<lparr>bs_bot_user_tag := TrimSpace (bs_bot_user_tag req),
              bs_guild_id := TrimSpace (bs_guild_id req), bs_guild_name := TrimSpace (bs_guild_name req),
              bs_last_seen_at := now\<rparr>) now) s of
            (Inl _, s1) \<Rightarrow> (Fail 500 ''save status'', s1) | (Inr _, s1) \<Rightarrow> (Reply 204 EmptyReply, s1))))"

definition handleGetDiscordStatus :: "incident_config \<Rightarrow> authUser option \<Rightarrow> int \<Rightarrow> db \<Rightarrow> incident_body reply" where
  "handleGetDiscordStatus cfg ctx now d =
     (case requireAdmin ctx of Inl e \<Rightarrow> e
      | Inr _ \<Rightarrow>
          let status = (case GetDiscordBotStatus d of Inl _ \<Rightarrow> None | Inr b \<Rightarrow> Some b) in
          Reply 200 (BotReply \<lparr>ds_Configured = (TrimSpace (ig_DiscordBotWorkerToken cfg) \<noteq> []),
            ds_Online = (case status of None \<Rightarrow> False | Some b \<Rightarrow> bs_last_seen_at b > 0 \<and> now - bs_last_seen_at b \<le> 120),
            ds_Status = status, ds_PendingTasks = CountDiscordIntegrationsByStatus ''pending'' d,
            ds_ActiveTasks = CountDiscordIntegrationsByStatus ''active'' d,
            ds_FailedTasks = CountDiscordIntegrationsByStatus ''failed'' d\<rparr>))"

end
