(* ===== verification/IncidentPoller.thy ===== *)
theory IncidentPoller
  imports IncidentApi Calls
begin

text \<open>
  \<open>server/internal/api/incident_poller.go\<close>: the weather feeds that become signals and, where the settings say so,
  incidents, and the closing of weather incidents whose alert is over. What the two feeds answer, after the download and the decoding of the JSON, is an argument, and so
  are the JSON text of an alert and the geometry of a polygon on the sphere.
\<close>

section \<open>Feeds\<close>

record nwsAlertProperties =
  np_ID :: string
  np_Event :: string
  np_Headline :: string
  np_Severity :: string
  np_AreaDesc :: string

text \<open>The properties of a storm report as \<open>fmt\<close> prints them with \<open>%v\<close>, and their JSON.\<close>

record iemLSRFeature =
  lf_id :: string
  lf_valid :: string
  lf_type :: string
  lf_city :: string
  lf_remark :: string
  lf_raw :: string

record weather =
  we_nws :: "string \<Rightarrow> string + nwsAlertProperties list"
  we_lsr :: "string \<Rightarrow> string + iemLSRFeature list"
  we_json :: "nwsAlertProperties \<Rightarrow> string"
  we_geometry :: "json option \<Rightarrow> json option \<Rightarrow> HubIdentity \<Rightarrow> bool"

definition mapNWSSeverity :: "string \<Rightarrow> string \<Rightarrow> string" where
  "mapNWSSeverity severity event =
     (let v = ToLower (TrimSpace severity) in
      if v = ''extreme'' \<or> v = ''severe'' then ''urgent''
      else if v = ''moderate'' then ''high''
      else if sublist ''warning'' (ToLower event) then ''high'' else ''normal'')"

text \<open>
  The alert is marshalled again to look for fields the decoding has dropped: only those of \<open>nwsAlertProperties\<close> can
  be found.
\<close>

definition marshalled :: "nwsAlertProperties \<Rightarrow> (string \<times> json) list" where
  "marshalled p = [(''id'', JString (np_ID p)), (''event'', JString (np_Event p)), (''headline'', JString (np_Headline p)),
     (''severity'', JString (np_Severity p)), (''areaDesc'', JString (np_AreaDesc p))]"

definition extractRawField :: "nwsAlertProperties \<Rightarrow> string \<Rightarrow> json option" where
  "extractRawField p field = map_of (marshalled p) field"

definition alertAffectsWatchArea :: "weather \<Rightarrow> nwsAlertProperties \<Rightarrow> HubIdentity \<Rightarrow> bool" where
  "alertAffectsWatchArea w p h =
     (if hd_incident_watch_radius_km h \<le> 0 then True
      else if hd_incident_watch_point_lat h = 0 \<and> hd_incident_watch_point_lon h = 0 then True
      else let polygon = extractRawField p ''polygon''; zones = extractRawField p ''affectedZones'' in
        if polygon = None \<and> zones = None then True else we_geometry w polygon zones h)"

section \<open>From a signal to an incident\<close>

definition auto_open :: "HubIdentity \<Rightarrow> IncidentSignal \<Rightarrow> bool" where
  "auto_open h g \<longleftrightarrow> hd_incident_auto_open h \<and> sg_severity g = ''urgent'' \<and>
     sublist ''tornado warning'' (ToLower (sg_event_type g))"

text \<open>The template a signal without one is given.\<close>

definition weather_template :: "IncidentSignal \<Rightarrow> IncidentTemplate" where
  "weather_template g = zero_template\<lparr>it_id := sg_template_id g, it_incident_type := ''weather'',
     it_selection_mode := ''groups'', it_default_priority := ''high'', it_default_exposure := ''community''\<rparr>"

definition auto_incident :: "IncidentSignal \<Rightarrow> IncidentTemplate \<Rightarrow> string \<Rightarrow> string \<Rightarrow> string \<Rightarrow> Incident" where
  "auto_incident g t admin set_id status = zero_incident\<lparr>ic_Title := sg_title g, ic_IncidentType := it_incident_type t,
     ic_Status := status, ic_Priority := it_default_priority t, ic_Exposure := it_default_exposure t,
     ic_RadioSetID := set_id, ic_TemplateID := it_id t, ic_OpenedByUserID := admin, ic_Notes := sg_detail g\<rparr>"

definition auto_activate ::
  "incident_config \<Rightarrow> mint \<Rightarrow> string \<Rightarrow> string \<Rightarrow> RadioSet \<Rightarrow> string \<Rightarrow> int \<Rightarrow> station \<Rightarrow> db_error option \<times> station" where
  "auto_activate cfg mint exposure admin rs iid now s =
     (case on_db (ActivateIncident iid now) s of (Inl err, s1) \<Rightarrow> (Some err, s1)
      | (Inr act, s1) \<Rightarrow>
          (let s2 = (if exposure = ''community'' then (case draw mint ''share'' s1 of (token, s2) \<Rightarrow>
                       snd (on_db (SetRadioSetShareToken (rs_ID rs) admin token) s2)) else s1) in
           (None, snd (queueDiscordIntegrationForIncident cfg mint (ic_ID act) admin now s2))))"

definition maybeAutoCreateIncidentFromSignal ::
  "incident_config \<Rightarrow> mint \<Rightarrow> HubIdentity \<Rightarrow> IncidentSignal \<Rightarrow> IncidentTemplate option \<Rightarrow> int \<Rightarrow> station \<Rightarrow>
   db_error option \<times> station" where
  "maybeAutoCreateIncidentFromSignal cfg mint h g tm now s =
     (if \<not> hd_incident_auto_suggest h \<and> \<not> hd_incident_auto_open h then (None, s)
      else if \<not> auto_open h g \<and> \<not> hd_incident_auto_suggest h then (None, s)
      else case FirstAdminUserID (st_db s) of Inl err \<Rightarrow> (Some err, s)
      | Inr admin \<Rightarrow>
          let t = (case tm of None \<Rightarrow> weather_template g | Some t \<Rightarrow> t);
              status = (if auto_open h g then ''active'' else ''draft'') in
          (case draw mint ''rs'' s of (set_id, s1) \<Rightarrow>
          (case on_db (CreateRadioSet admin (incident_set_name (sg_title g)) (it_selection_mode t) (it_talkgroups t)
                  (it_talkgroup_groups t) set_id now) s1 of
             (Inl err, s2) \<Rightarrow> (Some err, s2)
           | (Inr rs, s2) \<Rightarrow> (case draw mint ''inc'' s2 of (iid, s3) \<Rightarrow>
               (case on_db (CreateIncident (auto_incident g t admin (rs_ID rs) status) iid now) s3 of
                  (Inl err, s4) \<Rightarrow> (Some err, s4)
                | (Inr i, s4) \<Rightarrow>
                    (case (if auto_open h g then auto_activate cfg mint (it_default_exposure t) admin rs (ic_ID i) now s4
                           else (None, s4)) of
                       (Some err, s5) \<Rightarrow> (Some err, s5)
                     | (None, s5) \<Rightarrow> (None, s5\<lparr>st_db := LinkIncidentSignal (sg_id g) (ic_ID i) (st_db s5)\<rparr>)))))))"

section \<open>Polling\<close>

definition nws_signal :: "weather \<Rightarrow> nwsAlertProperties \<Rightarrow> IncidentTemplate option \<Rightarrow> IncidentSignal" where
  "nws_signal w p tm = \<lparr>sg_id = [], sg_source = ''nws'', sg_external_id = np_ID p, sg_event_type = np_Event p,
     sg_severity = mapNWSSeverity (np_Severity p) (np_Event p),
     sg_title = first_nonempty (TrimSpace (np_Headline p)) (TrimSpace (np_Event p)), sg_detail = TrimSpace (np_AreaDesc p),
     sg_template_id = (case tm of None \<Rightarrow> [] | Some t \<Rightarrow> it_id t), sg_incident_id = [], sg_raw = we_json w p,
     sg_received_at = 0\<rparr>"

text \<open>
  Storing a signal and, when it is new, opening its incident: the error that ends the loop and whether it was new. An
  incident that could not be opened is only logged.
\<close>

definition take_signal ::
  "incident_config \<Rightarrow> mint \<Rightarrow> HubIdentity \<Rightarrow> IncidentSignal \<Rightarrow> (db \<Rightarrow> IncidentTemplate option) \<Rightarrow> int \<Rightarrow> station \<Rightarrow>
   (db_error + bool) \<times> station" where
  "take_signal cfg mint h g template now s =
     (case draw mint ''sig'' s of (fresh, s1) \<Rightarrow>
       (case on_db (UpsertIncidentSignal g fresh now) s1 of (Inl err, s2) \<Rightarrow> (Inl err, s2)
        | (Inr (_, False), s2) \<Rightarrow> (Inr False, s2)
        | (Inr (stored, True), s2) \<Rightarrow>
            (Inr True, snd (maybeAutoCreateIncidentFromSignal cfg mint h stored (template (st_db s2)) now s2))))"

fun nws_each ::
  "incident_config \<Rightarrow> mint \<Rightarrow> weather \<Rightarrow> HubIdentity \<Rightarrow> int \<Rightarrow> nwsAlertProperties list \<Rightarrow> nat \<Rightarrow> string list \<Rightarrow> station \<Rightarrow>
   (db_error option \<times> nat \<times> string list) \<times> station" where
  "nws_each cfg mint w h now [] n ids s = ((None, n, ids), s)"
| "nws_each cfg mint w h now (p # ps) n ids s =
     (let i = TrimSpace (np_ID p) in
      if i = [] then nws_each cfg mint w h now ps n ids s
      else if \<not> alertAffectsWatchArea w p h then nws_each cfg mint w h now ps n (ids @ [i]) s
      else let tm = MatchIncidentTemplateByNWSEvent (np_Event p) (st_db s) in
        (case take_signal cfg mint h (nws_signal w p tm) (\<lambda>_. tm) now s of
           (Inl err, s1) \<Rightarrow> ((Some err, n, ids @ [i]), s1)
         | (Inr new, s1) \<Rightarrow> nws_each cfg mint w h now ps (if new then Suc n else n) (ids @ [i]) s1))"

datatype poll_error = FeedError string | StoreError db_error

definition pollNWSAlerts ::
  "incident_config \<Rightarrow> mint \<Rightarrow> weather \<Rightarrow> string \<Rightarrow> HubIdentity \<Rightarrow> int \<Rightarrow> station \<Rightarrow>
   (poll_error option \<times> nat \<times> string list) \<times> station" where
  "pollNWSAlerts cfg mint w area h now s =
     (case we_nws w (ToUpper area) of Inl err \<Rightarrow> ((Some (FeedError err), 0, []), s)
      | Inr alerts \<Rightarrow> (case nws_each cfg mint w h now alerts 0 [] s of
          ((err, n, ids), s1) \<Rightarrow> ((map_option StoreError err, n, ids), s1)))"

definition lsr_external_id :: "iemLSRFeature \<Rightarrow> string" where
  "lsr_external_id f = (if lf_id f = [] \<or> lf_id f = ''<nil>'' then lf_valid f @ ''-'' @ lf_type f else lf_id f)"

definition lsr_signal :: "iemLSRFeature \<Rightarrow> IncidentSignal" where
  "lsr_signal f = \<lparr>sg_id = [], sg_source = ''iem_lsr'', sg_external_id = lsr_external_id f, sg_event_type = lf_type f,
     sg_severity = ''normal'', sg_title = TrimSpace (lf_type f @ '' '' @ [CHR 0xE2, CHR 0x80, CHR 0x94] @ '' '' @ lf_city f),
     sg_detail = TrimSpace (lf_remark f), sg_template_id = ''weather-severe'', sg_incident_id = [], sg_raw = lf_raw f,
     sg_received_at = 0\<rparr>"

fun lsr_each ::
  "incident_config \<Rightarrow> mint \<Rightarrow> HubIdentity \<Rightarrow> int \<Rightarrow> iemLSRFeature list \<Rightarrow> nat \<Rightarrow> station \<Rightarrow> (db_error option \<times> nat) \<times> station" where
  "lsr_each cfg mint h now [] n s = ((None, n), s)"
| "lsr_each cfg mint h now (f # fs) n s =
     (case take_signal cfg mint h (lsr_signal f) (GetIncidentTemplate ''weather-severe'') now s of
        (Inl err, s1) \<Rightarrow> ((Some err, n), s1)
      | (Inr new, s1) \<Rightarrow> lsr_each cfg mint h now fs (if new then Suc n else n) s1)"

definition pollIEMLSR ::
  "incident_config \<Rightarrow> mint \<Rightarrow> weather \<Rightarrow> string \<Rightarrow> HubIdentity \<Rightarrow> int \<Rightarrow> station \<Rightarrow> (poll_error option \<times> nat) \<times> station" where
  "pollIEMLSR cfg mint w state h now s =
     (case we_lsr w state of Inl err \<Rightarrow> ((Some (FeedError err), 0), s)
      | Inr fs \<Rightarrow> (case lsr_each cfg mint h now fs 0 s of ((err, n), s1) \<Rightarrow> ((map_option StoreError err, n), s1)))"

definition expire_incident :: "string list \<Rightarrow> int \<Rightarrow> db \<Rightarrow> Incident \<Rightarrow> db" where
  "expire_incident active now d i =
     (if ic_RadioSetID i = [] then d
      else case GetNWSSignalExternalIDForIncident (ic_ID i) d of None \<Rightarrow> d
      | Some ext \<Rightarrow>
          if ext \<in> set active then d
          else case CloseIncident (ic_ID i) now d of (Inl _, d1) \<Rightarrow> d1
          | (Inr shut, d1) \<Rightarrow> close_down shut now d1)"

definition cleanupExpiredWeatherIncidents :: "string list \<Rightarrow> int \<Rightarrow> db \<Rightarrow> db" where
  "cleanupExpiredWeatherIncidents active now d = foldl (expire_incident active now) d (ListActiveWeatherIncidents d)"

fun poll_areas ::
  "incident_config \<Rightarrow> mint \<Rightarrow> weather \<Rightarrow> HubIdentity \<Rightarrow> int \<Rightarrow> string list \<Rightarrow> nat \<Rightarrow> string list \<Rightarrow> station \<Rightarrow>
   (poll_error option \<times> nat \<times> string list) \<times> station" where
  "poll_areas cfg mint w h now [] n ids s = ((None, n, ids), s)"
| "poll_areas cfg mint w h now (a # as) n ids s =
     (let area = TrimSpace a in
      if area = [] then poll_areas cfg mint w h now as n ids s
      else (case pollNWSAlerts cfg mint w area h now s of
         ((Some err, _, _), s1) \<Rightarrow> ((Some err, n, ids), s1)
       | ((None, k, new), s1) \<Rightarrow> poll_areas cfg mint w h now as (n + k) (ids @ new) s1))"

definition lsr_state :: "HubIdentity \<Rightarrow> string option" where
  "lsr_state h = (case hd_incident_watch_areas h of [] \<Rightarrow> None
     | a # _ \<Rightarrow> (let state = ToUpper (TrimSpace a) in if length state = 2 then Some state else None))"

definition pollIncidentSignalsOnce ::
  "incident_config \<Rightarrow> mint \<Rightarrow> weather \<Rightarrow> int \<Rightarrow> station \<Rightarrow> (poll_error option \<times> nat) \<times> station" where
  "pollIncidentSignalsOnce cfg mint w now s =
     (case load_identity cfg mint now s of (h, s1) \<Rightarrow>
        if \<not> hd_incident_management_enabled h then ((None, 0), s1)
        else if \<not> hd_incident_auto_suggest h \<and> \<not> hd_incident_auto_open h then ((None, 0), s1)
        else (case poll_areas cfg mint w h now (hd_incident_watch_areas h) 0 [] s1 of
            ((Some err, n, _), s2) \<Rightarrow> ((Some err, n), s2)
          | ((None, n, ids), s2) \<Rightarrow>
              (let s3 = (if ids \<noteq> [] then s2\<lparr>st_db := cleanupExpiredWeatherIncidents ids now (st_db s2)\<rparr> else s2) in
               case lsr_state h of None \<Rightarrow> ((None, n), s3)
               | Some state \<Rightarrow> (case pollIEMLSR cfg mint w state h now s3 of
                   ((Some _, _), s4) \<Rightarrow> ((None, n), s4)
                 | ((None, k), s4) \<Rightarrow> ((None, n + k), s4)))))"

definition handlePollIncidentSignals ::
  "incident_config \<Rightarrow> mint \<Rightarrow> weather \<Rightarrow> (db_error \<Rightarrow> string) \<Rightarrow> authUser option \<Rightarrow> int \<Rightarrow> station \<Rightarrow> incident_body reply \<times> station" where
  "handlePollIncidentSignals cfg mint w driver ctx now s =
     (case requireIncidentManager cfg mint ctx now s of (Inl e, s1) \<Rightarrow> (e, s1)
      | (Inr _, s1) \<Rightarrow> (case pollIncidentSignalsOnce cfg mint w now s1 of
          ((Some (FeedError err), _), s2) \<Rightarrow> (Fail 502 err, s2)
        | ((Some (StoreError err), _), s2) \<Rightarrow> (Fail 502 (error_text driver err), s2)
        | ((None, n), s2) \<Rightarrow> (Reply 200 (ProcessedReply n), s2)))"

end
