(* ===== verification/IncidentCleanup.thy ===== *)
theory IncidentCleanup
  imports IncidentApi
begin

text \<open>
  \<open>server/internal/api/incident_cleanup.go\<close>: the purge of incidents that were closed or archived long ago, in batches,
  each with its integrations and its radio set. The days of retention are counted in UTC; the mutex that keeps two
  purges apart is always free, as runs follow each other here.
\<close>

section \<open>The purge of old incidents\<close>

definition incidentCleanupBatchLimit :: int where "incidentCleanupBatchLimit = 100"

fun purge_each :: "int \<Rightarrow> int \<Rightarrow> Incident list \<Rightarrow> nat \<times> nat \<Rightarrow> db \<Rightarrow> (nat \<times> nat) \<times> db" where
  "purge_each days now [] n d = (n, d)"
| "purge_each days now (i # is) (purged, sets) d =
     (case DeleteIncident (ic_ID i) d of
        (Inl _, d1) \<Rightarrow> purge_each days now is (purged, sets) d1
      | (Inr rs, d1) \<Rightarrow>
          (let d2 = audit [] ''incident.purged'' ''incident'' (ic_ID i)
                 [(''title'', JString (ic_Title i)), (''status'', JString (ic_Status i)), (''retentionDays'', JNumber days),
                  (''radioSetId'', JString rs)] now d1 in
           if rs = [] then purge_each days now is (Suc purged, sets) d2
           else purge_each days now is (Suc purged, Suc sets) (DeleteRadioSetByID rs d2)))"


lemma DeleteIncident_row:
  assumes "find_incident i d = Some r"
  obtains d' where "DeleteIncident i d = (Inr (coalesce (in_radio_set_id r)), d')"
    "t_incidents d' = sql_delete (\<lambda>r. in_id r = i) (t_incidents d)" "t_radio_sets d' = t_radio_sets d"
    "db_ok d \<Longrightarrow> db_ok d'"
proof
  let ?d = "d\<lparr>t_signals := sql_update (\<lambda>s. sg_incident_id s = i) (\<lambda>s. s\<lparr>sg_incident_id := []\<rparr>) (t_signals d)\<rparr>"
  show "DeleteIncident i d = (Inr (coalesce (in_radio_set_id r)), del_incidents (\<lambda>r. in_id r = i) ?d)"
    using assms by (simp add: DeleteIncident_def)
  show "db_ok (del_incidents (\<lambda>r. in_id r = i) ?d)" if "db_ok d"
    using that by (intro del_incidents_ok upd_signals_ok) simp_all
qed (simp_all add: del_incidents_def Let_def)

definition removed_sets :: "string set \<Rightarrow> db \<Rightarrow> string set" where
  "removed_sets S d = {x. \<exists>r \<in> set (t_incidents d). in_id r \<in> S \<and> in_radio_set_id r = Some x \<and> TrimSpace x \<noteq> []}"

definition forget :: "string set \<Rightarrow> incidents_row \<Rightarrow> incidents_row" where
  "forget R r = (if \<exists>x \<in> R. in_radio_set_id r = Some x then r\<lparr>in_radio_set_id := None\<rparr> else r)"

text \<open>The state after the incidents with an id in \<open>S\<close> and their radio sets are gone.\<close>

definition purged :: "string set \<Rightarrow> db \<Rightarrow> db \<Rightarrow> bool" where
  "purged S d d' \<longleftrightarrow> t_incidents d' = map (forget (removed_sets S d)) (filter (\<lambda>r. in_id r \<notin> S) (t_incidents d)) \<and>
     t_radio_sets d' = filter (\<lambda>s. rr_id s \<notin> removed_sets S d) (t_radio_sets d)"

lemma in_id_forget [simp]: "in_id (forget R r) = in_id r"
  by (simp add: forget_def)

lemma forget_forget: "forget R2 (forget R1 r) = forget (R1 \<union> R2) r"
  by (auto simp: forget_def)

lemma forget_radio_set: "in_radio_set_id (forget R r) = (case in_radio_set_id r of None \<Rightarrow> None | Some x \<Rightarrow> if x \<in> R then None else Some x)"
  by (auto simp: forget_def split: option.split)

lemma removed_sets_empty [simp]: "removed_sets {} d = {}"
  by (simp add: removed_sets_def)

lemma forget_none [simp]: "forget {} = (\<lambda>r. r)"
  by (rule ext) (simp add: forget_def)

lemma purged_refl [simp]: "purged {} d d"
  by (simp add: purged_def)

lemma removed_sets_trans:
  assumes "purged S d d1"
  shows "removed_sets S d \<union> removed_sets T d1 = removed_sets (S \<union> T) d"
proof -
  have "removed_sets T d1 = {x. \<exists>r \<in> set (t_incidents d). in_id r \<notin> S \<and> in_id r \<in> T \<and> x \<notin> removed_sets S d \<and>
      in_radio_set_id r = Some x \<and> TrimSpace x \<noteq> []}"
    using assms by (auto simp: purged_def removed_sets_def [of T] forget_radio_set split: option.splits if_splits)
  then show ?thesis by (auto simp: removed_sets_def)
qed

lemma purged_trans: "purged S d d1 \<Longrightarrow> purged T d1 d2 \<Longrightarrow> purged (S \<union> T) d d2"
proof -
  assume a: "purged S d d1" "purged T d1 d2"
  have "map (forget R2) (filter (\<lambda>r. in_id r \<notin> T) (map (forget R1) (filter (\<lambda>r. in_id r \<notin> S) xs))) =
      map (forget (R1 \<union> R2)) (filter (\<lambda>r. in_id r \<notin> S \<union> T) xs)" for R1 R2 xs
    by (simp add: filter_map comp_def forget_forget conj_commute)
  moreover have "filter (\<lambda>s. rr_id s \<notin> R2) (filter (\<lambda>s. rr_id s \<notin> R1) ys) = filter (\<lambda>s. rr_id s \<notin> R1 \<union> R2) ys" for R1 R2 ys
    by (simp add: conj_commute)
  ultimately show ?thesis
    using a removed_sets_trans [OF a(1), of T] unfolding purged_def by metis
qed

text \<open>One incident: the row goes, and its radio set after it.\<close>

lemma del_set_purged:
  assumes "db_ok d" "find_incident i d = Some r" "DeleteIncident i d = (Inr rs, d1)"
    "t_incidents d2 = t_incidents d1" "t_radio_sets d2 = t_radio_sets d1"
  shows "purged {i} d (DeleteRadioSetByID rs d2)"
proof -
  have inc: "t_incidents d2 = sql_delete (\<lambda>r. in_id r = i) (t_incidents d)" "t_radio_sets d2 = t_radio_sets d"
    and rs: "rs = coalesce (in_radio_set_id r)"
    using DeleteIncident_row [OF assms(2)] assms(3-5) by (metis Pair_inject sum.inject(2))+
  have r: "r \<in> set (t_incidents d)" "in_id r = i"
    using assms(2) by (auto simp: find_incident_def dest: find_Some_mem)
  then have only: "x \<in> set (t_incidents d) \<Longrightarrow> in_id x = i \<Longrightarrow> x = r" for x
    using uniq_inj [of in_id "t_incidents d" x r] assms(1) by (simp add: db_ok_uniq)
  have R: "removed_sets {i} d = (if TrimSpace rs = [] then {} else {rs})"
  proof -
    have "removed_sets {i} d = {x. in_radio_set_id r = Some x \<and> TrimSpace x \<noteq> []}"
      unfolding removed_sets_def using r only by blast
    then show ?thesis by (cases "in_radio_set_id r") (auto simp: rs coalesce_def)
  qed
  show ?thesis
  proof (cases "TrimSpace rs = []")
    case True
    with R inc show ?thesis by (simp add: purged_def DeleteRadioSetByID_def sql_delete_def)
  next
    case False
    then have "in_radio_set_id r = Some rs" by (auto simp: rs coalesce_def split: option.splits)
    then have ex: "rs \<in> rr_id ` set (t_radio_sets d)" using db_ok_fkey(19) [OF assms(1)] r by (auto simp: fkey_iff)
    have "refd in_radio_set_id (map rr_id (filter (\<lambda>s. rr_id s = rs) (t_radio_sets d))) x = (in_radio_set_id x = Some rs)" for x
      using ex by (auto simp: refd_def split: option.split)
    with False R inc show ?thesis
      by (auto simp: purged_def DeleteRadioSetByID_def del_radio_sets_def Let_def sql_delete_def sql_update_def forget_def)
  qed
qed


lemma DeleteRadioSetByID_ok: "db_ok d \<Longrightarrow> db_ok (DeleteRadioSetByID i d)"
  by (simp add: DeleteRadioSetByID_def del_radio_sets_ok)

definition purge_record :: "int \<Rightarrow> int \<Rightarrow> Incident \<Rightarrow> string \<Rightarrow> db \<Rightarrow> db" where
  "purge_record days now i rs = audit [] ''incident.purged'' ''incident'' (ic_ID i) [(''title'', JString (ic_Title i)),
    (''status'', JString (ic_Status i)), (''retentionDays'', JNumber days), (''radioSetId'', JString rs)] now"

lemma purge_step:
  assumes "DeleteIncident (ic_ID i) d = (Inr rs, d1)"
  shows "purge_each days now (i # is) n d =
    purge_each days now is (Suc (fst n), if rs = [] then snd n else Suc (snd n)) (DeleteRadioSetByID rs (purge_record days now i rs d1))"
  using assms by (cases n) (simp add: Let_def DeleteRadioSetByID_def purge_record_def)

lemma purge_record_frame [simp]:
  "t_incidents (purge_record days now i rs d) = t_incidents d" "t_radio_sets (purge_record days now i rs d) = t_radio_sets d"
  "db_ok d \<Longrightarrow> db_ok (purge_record days now i rs d)"
  by (simp_all add: purge_record_def audit_ok)

lemma length_DeleteRadioSetByID [simp]: "length (t_incidents (DeleteRadioSetByID rs d)) = length (t_incidents d)"
  by (simp add: DeleteRadioSetByID_def del_radio_sets_def Let_def)

lemma find_incident_some: "i \<in> in_id ` set (t_incidents d) \<Longrightarrow> \<exists>r. find_incident i d = Some r"
  by (cases "find_incident i d") (auto simp: find_incident_def find_None_iff)

lemma purge_each_purged:
  assumes "db_ok d" "distinct (map ic_ID is)" "ic_ID ` set is \<subseteq> in_id ` set (t_incidents d)"
  shows "purged (ic_ID ` set is) d (snd (purge_each days now is n d)) \<and> db_ok (snd (purge_each days now is n d)) \<and>
    fst (fst (purge_each days now is n d)) = fst n + length is"
  using assms
proof (induction "is" arbitrary: n d)
  case Nil
  then show ?case by simp
next
  case (Cons i "is")
  have "ic_ID i \<in> in_id ` set (t_incidents d)" using Cons.prems(3) by simp
  then obtain r where r: "find_incident (ic_ID i) d = Some r" using find_incident_some by blast
  let ?rs = "coalesce (in_radio_set_id r)"
  obtain d1 where d1: "DeleteIncident (ic_ID i) d = (Inr ?rs, d1)" "db_ok d1"
    using DeleteIncident_row [OF r] Cons.prems(1) by metis
  let ?d3 = "DeleteRadioSetByID ?rs (purge_record days now i ?rs d1)"
  have one: "purged {ic_ID i} d ?d3" by (rule del_set_purged [OF Cons.prems(1) r d1(1)]) simp_all
  have ok: "db_ok ?d3" using d1(2) by (intro DeleteRadioSetByID_ok) simp
  have "in_id ` set (t_incidents ?d3) = in_id ` {x \<in> set (t_incidents d). in_id x \<notin> {ic_ID i}}"
    using one by (simp add: purged_def image_image)
  also have "\<dots> = in_id ` set (t_incidents d) - {ic_ID i}" by auto
  finally have "ic_ID ` set is \<subseteq> in_id ` set (t_incidents ?d3)" using Cons.prems(2,3) by simp blast
  from Cons.IH [OF ok _ this] Cons.prems(2) purged_trans [OF one] show ?case
    unfolding purge_step [OF d1(1)] by simp
qed

section \<open>The batches\<close>

lemma purge_list:
  assumes "is = ListIncidentsForPurge cutoff batch d"
  shows "ic_ID ` set is \<subseteq> in_id ` set (filter (purgeable cutoff) (t_incidents d))"
    and "uniq in_id (t_incidents d) \<Longrightarrow> distinct (map ic_ID is)"
proof -
  have "ic_ID \<circ> scanIncident = in_id" by (rule ext) (simp add: scanIncident_def)
  then have ids: "map ic_ID is = limit (default_limit 100 batch) (map in_id (order_asc purge_age (filter (purgeable cutoff) (t_incidents d))))"
    by (simp add: assms ListIncidentsForPurge_def limit_def take_map)
  show "ic_ID ` set is \<subseteq> in_id ` set (filter (purgeable cutoff) (t_incidents d))"
  proof -
    have "ic_ID ` set is = set (map ic_ID is)" by simp
    also have "\<dots> \<subseteq> in_id ` set (filter (purgeable cutoff) (t_incidents d))"
      unfolding ids limit_def by (rule order_trans [OF set_take_subset]) simp
    finally show ?thesis .
  qed
  assume u: "uniq in_id (t_incidents d)"
  have "distinct (map in_id (filter (purgeable cutoff) (t_incidents d)))"
    using u by (simp add: uniq_def distinct_map_filter)
  then have "distinct (map in_id (order_asc purge_age (filter (purgeable cutoff) (t_incidents d))))"
    by (simp add: distinct_map order_asc_def)
  then show "distinct (map ic_ID is)" unfolding ids limit_def by (rule distinct_take)
qed

text \<open>
  Outside the constraints of the schema ids could repeat; even then each batch removes an incident, so the loop
  ends for every database.
\<close>

lemma purge_each_shrinks: "length (t_incidents (snd (purge_each days now is n d))) \<le> length (t_incidents d)"
proof (induction "is" arbitrary: n d)
  case Nil
  then show ?case by simp
next
  case (Cons i "is")
  show ?case
  proof (cases "find_incident (ic_ID i) d")
    case None
    with Cons.IH show ?thesis by (cases n) (simp add: DeleteIncident_def)
  next
    case (Some r)
    then obtain d1 where d1: "DeleteIncident (ic_ID i) d = (Inr (coalesce (in_radio_set_id r)), d1)"
      "t_incidents d1 = sql_delete (\<lambda>r. in_id r = ic_ID i) (t_incidents d)" using DeleteIncident_row by metis
    have "length (t_incidents d1) \<le> length (t_incidents d)" by (simp add: d1(2) sql_delete_def)
    then show ?thesis unfolding purge_step [OF d1(1)] by (intro order_trans [OF Cons.IH]) simp
  qed
qed

lemma purge_decreases:
  assumes "ListIncidentsForPurge cutoff batch d \<noteq> []"
  shows "length (t_incidents (snd (purge_each days now (ListIncidentsForPurge cutoff batch d) n d))) < length (t_incidents d)"
proof -
  from assms obtain i "is" where l: "ListIncidentsForPurge cutoff batch d = i # is" by (meson neq_Nil_conv)
  then have "ic_ID i \<in> in_id ` set (t_incidents d)" using purge_list(1) [OF refl, of cutoff batch d] by auto
  then obtain r where r: "find_incident (ic_ID i) d = Some r" using find_incident_some by blast
  then have mem: "r \<in> set (t_incidents d)" "in_id r = ic_ID i" by (auto simp: find_incident_def dest: find_Some_mem)
  from r obtain d1 where d1: "DeleteIncident (ic_ID i) d = (Inr (coalesce (in_radio_set_id r)), d1)"
    "t_incidents d1 = sql_delete (\<lambda>r. in_id r = ic_ID i) (t_incidents d)" using DeleteIncident_row by metis
  have "length (t_incidents d1) < length (t_incidents d)"
    unfolding d1(2) sql_delete_def using mem by (intro length_filter_less) auto
  then show ?thesis
    unfolding l purge_step [OF d1(1)] by (intro le_less_trans [OF purge_each_shrinks]) simp
qed


function purge_batches :: "int \<Rightarrow> int \<Rightarrow> int \<Rightarrow> int \<Rightarrow> nat \<times> nat \<Rightarrow> db \<Rightarrow> (nat \<times> nat) \<times> db" where
  "purge_batches days cutoff batch now n d =
     (let is = ListIncidentsForPurge cutoff batch d in
      if is = [] then (n, d)
      else let (n1, d1) = purge_each days now is n d in
        if int (length is) < batch then (n1, d1) else purge_batches days cutoff batch now n1 d1)"
  by pat_completeness auto

termination
  by (relation "measure (\<lambda>(days, cutoff, batch, now, n, d). length (t_incidents d))")
    (auto simp: case_prod_beta purge_decreases)

declare purge_batches.simps [simp del]

definition purgeOldIncidents :: "int \<Rightarrow> int \<Rightarrow> int \<Rightarrow> db \<Rightarrow> (nat \<times> nat) \<times> db" where
  "purgeOldIncidents days batch now d =
     (if days \<le> 0 then ((0, 0), d)
      else purge_batches days (now - days * day) (if batch \<le> 0 then incidentCleanupBatchLimit else batch) now (0, 0) d)"


text \<open>Forgetting a radio set does not make an incident older or younger.\<close>

lemma purgeable_forget [simp]: "purgeable cutoff (forget R r) = purgeable cutoff r"
  by (simp add: forget_def purgeable_def purge_age_def)

lemma purged_rest:
  assumes "purged S d d'"
  shows "in_id ` set (filter (purgeable cutoff) (t_incidents d')) = in_id ` set (filter (\<lambda>r. purgeable cutoff r \<and> in_id r \<notin> S) (t_incidents d))"
proof -
  have "filter (purgeable cutoff) (t_incidents d') =
      map (forget (removed_sets S d)) (filter (\<lambda>r. purgeable cutoff r \<and> in_id r \<notin> S) (t_incidents d))"
    using assms by (simp add: purged_def filter_map comp_def conj_commute)
  then show ?thesis by (simp add: image_image)
qed

lemma ListIncidentsForPurge_short:
  assumes "ListIncidentsForPurge cutoff batch d = [] \<or> int (length (ListIncidentsForPurge cutoff batch d)) < batch"
  shows "ic_ID ` set (ListIncidentsForPurge cutoff batch d) = in_id ` set (filter (purgeable cutoff) (t_incidents d))"
proof -
  define xs where "xs = order_asc purge_age (filter (purgeable cutoff) (t_incidents d))"
  have "limit (default_limit 100 batch) xs = xs"
    using assms by (auto simp: ListIncidentsForPurge_def limit_def default_limit_def xs_def [symmetric] split: if_splits)
  then have "ic_ID ` set (ListIncidentsForPurge cutoff batch d) = (ic_ID \<circ> scanIncident) ` set xs"
    by (simp add: ListIncidentsForPurge_def image_comp xs_def [symmetric])
  then show ?thesis by (simp add: scanIncident_def comp_def xs_def)
qed

lemma purge_batches_purged:
  assumes "db_ok d" "purge_batches days cutoff batch now n d = (n', d')"
  shows "purged (in_id ` set (filter (purgeable cutoff) (t_incidents d))) d d' \<and>
    fst n' = fst n + length (filter (purgeable cutoff) (t_incidents d))"
  using assms
proof (induction days cutoff batch now n d rule: purge_batches.induct)
  case (1 days cutoff batch now n d)
  let ?is = "ListIncidentsForPurge cutoff batch d" and ?P = "filter (purgeable cutoff) (t_incidents d)"
  obtain n1 d1 where one: "purge_each days now ?is n d = (n1, d1)" by fastforce
  have ids: "ic_ID ` set ?is \<subseteq> in_id ` set ?P" "distinct (map ic_ID ?is)"
    using purge_list [OF refl [of ?is]] 1(2) by (simp_all add: db_ok_uniq)
  then have "ic_ID ` set ?is \<subseteq> in_id ` set (t_incidents d)" by auto
  from purge_each_purged [OF 1(2) ids(2) this, of days now n] one
  have p: "purged (ic_ID ` set ?is) d d1" "db_ok d1" "fst n1 = fst n + length ?is" by simp_all
  have cardP: "length ?P = card (in_id ` set ?P)"
    using 1(2) by (metis db_ok_uniq(21) distinct_card distinct_map_filter length_map set_map uniq_def)
  have cards: "length ?is = card (ic_ID ` set ?is)" using ids(2) by (metis distinct_card length_map set_map)
  show ?case
  proof (cases "?is = [] \<or> int (length ?is) < batch")
    case True
    then have "in_id ` set ?P = ic_ID ` set ?is" by (rule ListIncidentsForPurge_short [symmetric])
    moreover have "(n', d') = (n1, d1)"
      using 1(3) True one by (subst (asm) purge_batches.simps) (auto simp: Let_def split: if_splits)
    ultimately show ?thesis using p cardP cards by simp
  next
    case False
    then have rest: "purge_batches days cutoff batch now n1 d1 = (n', d')"
      using 1(3) one by (subst (asm) purge_batches.simps) (auto simp: Let_def)
    have "purged (in_id ` set (filter (purgeable cutoff) (t_incidents d1))) d1 d' \<and>
        fst n' = fst n1 + length (filter (purgeable cutoff) (t_incidents d1))"
      by (rule "1.IH" [OF refl _ one [symmetric] refl _ p(2) rest]) (use False in auto)
    moreover have left: "in_id ` set (filter (purgeable cutoff) (t_incidents d1)) = in_id ` set ?P - ic_ID ` set ?is"
      unfolding purged_rest [OF p(1)] by auto
    moreover have "length (filter (purgeable cutoff) (t_incidents d1)) = card (in_id ` set (filter (purgeable cutoff) (t_incidents d1)))"
      using p(2) by (metis db_ok_uniq(21) distinct_card distinct_map_filter length_map set_map uniq_def)
    ultimately have "purged (in_id ` set ?P - ic_ID ` set ?is) d1 d'"
      "fst n' = fst n + card (ic_ID ` set ?is) + card (in_id ` set ?P - ic_ID ` set ?is)"
      by (simp_all only: p(3) cards)
    moreover have "ic_ID ` set ?is \<union> (in_id ` set ?P - ic_ID ` set ?is) = in_id ` set ?P" 
      using ids(1) by blast
    moreover have "card (ic_ID ` set ?is) + card (in_id ` set ?P - ic_ID ` set ?is) = card (in_id ` set ?P)"
      using ids(1) by (simp only: card_Diff_subset finite_imageI finite_set card_mono le_add_diff_inverse)
    ultimately show ?thesis
      using purged_trans [OF p(1)] cardP by (metis add.assoc)
  qed
qed

text \<open>
  Property C31. The purge ends for every database and every batch size. It removes exactly the closed and archived
  incidents older than the retention, counts them, and with them exactly their radio sets; every other incident
  stays in its place, at most without a radio set it shared with a removed one.
\<close>

theorem purge_removes_exactly_the_old:
  assumes "db_ok d" "0 < days" "purgeOldIncidents days batch now d = (n, d')"
  shows "fst n = length (filter (purgeable (now - days * day)) (t_incidents d)) \<and>
    t_incidents d' = map (forget (removed_sets (in_id ` set (filter (purgeable (now - days * day)) (t_incidents d))) d))
      (filter (\<lambda>r. \<not> purgeable (now - days * day) r) (t_incidents d)) \<and>
    t_radio_sets d' = filter (\<lambda>s. rr_id s \<notin> removed_sets (in_id ` set (filter (purgeable (now - days * day)) (t_incidents d))) d)
      (t_radio_sets d)"
proof -
  let ?S = "in_id ` set (filter (purgeable (now - days * day)) (t_incidents d))"
  have p: "purged ?S d d'" "fst n = length (filter (purgeable (now - days * day)) (t_incidents d))"
    using assms by (auto simp: purgeOldIncidents_def dest: purge_batches_purged)
  have "(in_id r \<in> ?S) = purgeable (now - days * day) r" if "r \<in> set (t_incidents d)" for r
    using that uniq_inj [of in_id "t_incidents d"] assms(1) by (auto simp: db_ok_uniq)
  then have "filter (\<lambda>r. in_id r \<notin> ?S) (t_incidents d) = filter (\<lambda>r. \<not> purgeable (now - days * day) r) (t_incidents d)"
    by (intro filter_cong) simp_all
  with p show ?thesis by (simp add: purged_def)
qed


theorem purge_removes_exactly_the_old_witness:
  "\<exists>n d'. purgeOldIncidents 1 0 100000 (snd (CloseIncident ''inc1'' 20 example_incident_db)) = (n, d') \<and> fst n = 1 \<and> t_incidents d' = []"
proof -
  let ?d = "snd (CloseIncident ''inc1'' 20 example_incident_db)"
  obtain n d' where run: "purgeOldIncidents 1 0 100000 ?d = (n, d')" by fastforce
  have ok: "db_ok ?d"
    using exec_incident_inv [OF example_incident_db_inv, of "IcClose ''inc1'' 20"] by (simp add: incident_inv_def)
  have "t_incidents ?d = [example_incident_row\<lparr>in_status := ''closed'', in_closed_at := 20, in_updated_at := 20\<rparr>]"
    by (simp add: CloseIncident_def update_incident_def example_find_incident)
      (simp add: example_incident_db_def example_incident_row_def sql_update_def)
  with purge_removes_exactly_the_old [OF ok _ run] run show ?thesis
    by (simp add: purgeable_def purge_age_def day_def example_incident_row_def)
qed

end
