(* ===== verification/IncidentSafety.thy ===== *)
theory IncidentSafety
  imports IncidentPoller
begin

text \<open>
  What no sequence of requests, bot reports and polls can do to the incidents: the requests to the incident API as
  one step function, the rule that internal incidents never get a Discord room, what closing an incident shuts
  down, and what polling the same feeds again leaves alone.
\<close>

section \<open>Requests as steps\<close>

datatype incident_request =
    RqGetSettings
  | RqSettings "incidentSettings option"
  | RqTemplates
  | RqList string
  | RqSignals
  | RqCreate "createIncidentRequest option"
  | RqActivate string
  | RqClose string
  | RqCloseByRadioSet string
  | RqArchive string
  | RqPromote string
  | RqPoll weather
  | RqIntegrate string
  | RqDisintegrate string
  | RqReconcile

fun serve_incident ::
  "incident_config \<Rightarrow> mint \<Rightarrow> (db_error \<Rightarrow> string) \<Rightarrow> authUser option \<Rightarrow> incident_request \<Rightarrow> int \<Rightarrow> station \<Rightarrow>
   incident_body reply \<times> station" where
  "serve_incident cfg mint driver ctx RqGetSettings now s = handleGetIncidentSettings cfg mint ctx now s"
| "serve_incident cfg mint driver ctx (RqSettings body) now s = handleUpdateIncidentSettings cfg mint ctx body now s"
| "serve_incident cfg mint driver ctx RqTemplates now s = handleListIncidentTemplates ctx now s"
| "serve_incident cfg mint driver ctx (RqList archived) now s = handleListIncidents cfg mint ctx archived now s"
| "serve_incident cfg mint driver ctx RqSignals now s = handleListIncidentSignals cfg mint ctx now s"
| "serve_incident cfg mint driver ctx (RqCreate body) now s = handleCreateIncident cfg mint driver ctx body now s"
| "serve_incident cfg mint driver ctx (RqActivate i) now s = handleActivateIncident cfg mint ctx i now s"
| "serve_incident cfg mint driver ctx (RqClose i) now s = handleCloseIncident cfg mint ctx i now s"
| "serve_incident cfg mint driver ctx (RqCloseByRadioSet i) now s = handleCloseIncidentByRadioSet cfg mint ctx i now s"
| "serve_incident cfg mint driver ctx (RqArchive i) now s = handleArchiveIncident cfg mint ctx i now s"
| "serve_incident cfg mint driver ctx (RqPromote g) now s = handlePromoteIncidentSignal cfg mint driver ctx g now s"
| "serve_incident cfg mint driver ctx (RqPoll w) now s = handlePollIncidentSignals cfg mint w driver ctx now s"
| "serve_incident cfg mint driver ctx (RqIntegrate i) now s = handleCreateIncidentDiscordIntegration cfg mint ctx i now s"
| "serve_incident cfg mint driver ctx (RqDisintegrate i) now s = handleDeleteIncidentDiscordIntegration cfg mint ctx i now s"
| "serve_incident cfg mint driver ctx RqReconcile now s = handleReconcileDiscordIncidents cfg mint ctx now s"

text \<open>The reports of the bots, with the two headers they carry.\<close>

datatype bot_report =
    BotBridges string
  | BotComplete string "completeDiscordTaskRequest option"
  | BotFail string "string option"
  | BotStop string
  | BotHeartbeat "DiscordBotStatus option"

fun serve_bot ::
  "incident_config \<Rightarrow> mint \<Rightarrow> string \<times> string \<Rightarrow> bot_report \<Rightarrow> int \<Rightarrow> station \<Rightarrow> incident_body reply \<times> station" where
  "serve_bot cfg mint (a, b) (BotBridges inst) now s = handleListActiveDiscordVoiceBridges cfg mint a b inst now s"
| "serve_bot cfg mint (a, b) (BotComplete i body) now s = handleCompleteDiscordIncidentTask cfg mint a b i body now s"
| "serve_bot cfg mint (a, b) (BotFail i body) now s = handleFailDiscordIncidentTask cfg a b i body now s"
| "serve_bot cfg mint (a, b) (BotStop i) now s = handleStopDiscordIncidentTask cfg a b i now s"
| "serve_bot cfg mint (a, b) (BotHeartbeat body) now s = handleDiscordHeartbeat cfg a b body now s"

datatype incident_event =
    Request "authUser option" incident_request int
  | Report "string \<times> string" bot_report int
  | Poll weather int

fun incident_step :: "incident_config \<Rightarrow> mint \<Rightarrow> (db_error \<Rightarrow> string) \<Rightarrow> incident_event \<Rightarrow> station \<Rightarrow> station" where
  "incident_step cfg mint driver (Request ctx r now) s = snd (serve_incident cfg mint driver ctx r now s)"
| "incident_step cfg mint driver (Report headers r now) s = snd (serve_bot cfg mint headers r now s)"
| "incident_step cfg mint driver (Poll w now) s = snd (pollIncidentSignalsOnce cfg mint w now s)"

section \<open>Steps that leave the rooms and the exposures alone\<close>

definition tame :: "db \<Rightarrow> db \<Rightarrow> bool" where
  "tame d d' \<longleftrightarrow> (\<forall>x' \<in> set (t_integrations d'). \<exists>x \<in> set (t_integrations d). ii_incident_id x' = ii_incident_id x \<and> ii_kind x' = ii_kind x) \<and>
     (\<forall>i r. find_incident i d = Some r \<longrightarrow> (\<exists>r'. find_incident i d' = Some r' \<and> in_exposure r' = in_exposure r))"

lemma tame_refl [simp]: "tame d d"
  by (auto simp: tame_def)

lemma tame_trans: "tame d d1 \<Longrightarrow> tame d1 d2 \<Longrightarrow> tame d d2"
  unfolding tame_def by metis

lemma tame_same: "t_integrations d' = t_integrations d \<Longrightarrow> t_incidents d' = t_incidents d \<Longrightarrow> tame d d'"
  by (auto simp: tame_def find_incident_def)

definition rooms_allowed :: "db \<Rightarrow> bool" where
  "rooms_allowed d \<longleftrightarrow> list_all (\<lambda>x. ii_kind x = ''discord'' \<longrightarrow>
     (case find_incident (ii_incident_id x) d of None \<Rightarrow> False | Some r \<Rightarrow> in_exposure r \<noteq> ''internal'')) (t_integrations d)"

lemma rooms_allowed_iff: "rooms_allowed d \<longleftrightarrow> (\<forall>x \<in> set (t_integrations d). ii_kind x = ''discord'' \<longrightarrow>
    (\<exists>r. find_incident (ii_incident_id x) d = Some r \<and> in_exposure r \<noteq> ''internal''))"
  by (auto simp: rooms_allowed_def list_all_iff split: option.splits)

lemma tame_allowed: "rooms_allowed d \<Longrightarrow> tame d d' \<Longrightarrow> rooms_allowed d'"
  unfolding rooms_allowed_iff tame_def by metis

lemma tame_update_incident:
  assumes "\<And>r. in_id (f r) = in_id r \<and> in_exposure (f r) = in_exposure r"
  shows "tame d (snd (update_incident f i d))"
proof -
  have "\<exists>r'. List.find (\<lambda>r. in_id r = j) (sql_update P f rows) = Some r' \<and> in_exposure r' = in_exposure r"
    if "List.find (\<lambda>r. in_id r = j) rows = Some r" for j r P rows
    using that assms by (induction rows) (auto simp: sql_update_def split: if_splits)
  then show ?thesis by (auto simp: update_incident_def tame_def find_incident_def split: option.split)
qed

lemma tame_incident_updates:
  "tame d (snd (ActivateIncident i now d))" "tame d (snd (CloseIncident i now d))" "tame d (snd (ArchiveIncident i now d))"
  unfolding ActivateIncident_def CloseIncident_def ArchiveIncident_def
  by (rule tame_update_incident; simp add: activated_def)+

lemma tame_CreateIncident: "tame d (snd (CreateIncident i fresh now d))"
  by (auto simp: CreateIncident_def ins_incidents_def tame_def find_incident_def find_append split: option.split)

lemma tame_integration_updates:
  "tame d (snd (UpdateIncidentIntegrationStatus i st c now d))" "tame d (MarkDiscordIntegrationsStopping iid now d)"
  by (auto simp: UpdateIncidentIntegrationStatus_def MarkDiscordIntegrationsStopping_def tame_def find_incident_def
      set_sql_update Let_def split: option.split)

lemma CreateRadioSet_frame [simp]:
  "t_integrations (snd (CreateRadioSet uid name mode tgs gs i now d)) = t_integrations d"
  "t_incidents (snd (CreateRadioSet uid name mode tgs gs i now d)) = t_incidents d"
  by (simp_all add: CreateRadioSet_def ins_radio_sets_def Let_def)

lemma share_frame [simp]:
  "t_integrations (snd (SetRadioSetShareToken i uid token d)) = t_integrations d"
  "t_incidents (snd (SetRadioSetShareToken i uid token d)) = t_incidents d"
  "t_integrations (ClearRadioSetShareToken i uid d) = t_integrations d"
  "t_incidents (ClearRadioSetShareToken i uid d) = t_incidents d"
  by (simp_all add: SetRadioSetShareToken_def ClearRadioSetShareToken_def Let_def)

lemma identity_frame [simp]:
  "t_integrations (snd (ensureHubIdentity cfg fresh now d)) = t_integrations d"
  "t_incidents (snd (ensureHubIdentity cfg fresh now d)) = t_incidents d"
proof -
  obtain h d1 where e: "ensureHubIdentity cfg fresh now d = (h, d1)" by fastforce
  show "t_integrations (snd (ensureHubIdentity cfg fresh now d)) = t_integrations d"
    "t_incidents (snd (ensureHubIdentity cfg fresh now d)) = t_incidents d"
    using ensureHubIdentity_frame [OF e] by (simp_all add: e)
qed

section \<open>The same for the functions on stations\<close>

lemma st_db_draw [simp]: "st_db (snd (draw mint kind s)) = st_db s"
  by (simp add: draw_def)

lemma draw_eq: "draw mint kind s = (i, s') \<Longrightarrow> st_db s' = st_db s"
  by (auto simp: draw_def)

lemma st_db_on_db [simp]: "st_db (snd (on_db f s)) = snd (f (st_db s))"
  by (simp add: on_db_def split: prod.split)

lemma on_db_eq: "on_db f s = (x, s') \<Longrightarrow> f (st_db s) = (x, st_db s')"
  by (auto simp: on_db_def split: prod.splits)

lemma on_db_snd: "on_db f s = (x, s') \<Longrightarrow> st_db s' = snd (f (st_db s))"
  by (auto simp: on_db_def split: prod.splits)

lemmas station_eqs = draw_eq on_db_snd

lemma st_db_audited [simp]: "st_db (audited u a tt ti m now s) = audit u a tt ti m now (st_db s)"
  by (simp add: audited_def)

lemma load_identity_frame [simp]:
  "t_integrations (st_db (snd (load_identity cfg mint now s))) = t_integrations (st_db s)"
  "t_incidents (st_db (snd (load_identity cfg mint now s))) = t_incidents (st_db s)"
  by (simp_all add: load_identity_def draw_def)

lemma requireIncidentManager_frame [simp]:
  "t_integrations (st_db (snd (requireIncidentManager cfg mint ctx now s))) = t_integrations (st_db s)"
  "t_incidents (st_db (snd (requireIncidentManager cfg mint ctx now s))) = t_incidents (st_db s)"
  by (simp_all add: requireIncidentManager_def requireAuthenticated_def case_prod_beta split: option.split)

lemma ensureCommunityShareToken_frame [simp]:
  "t_integrations (st_db (snd (ensureCommunityShareToken cfg mint i s))) = t_integrations (st_db s)"
  "t_incidents (st_db (snd (ensureCommunityShareToken cfg mint i s))) = t_incidents (st_db s)"
  by (auto simp: ensureCommunityShareToken_def dest!: station_eqs split: option.split sum.split prod.split)

lemma ensureIncidentStreamToken_frame [simp]:
  "t_integrations (st_db (snd (ensureIncidentStreamToken mint i s))) = t_integrations (st_db s)"
  "t_incidents (st_db (snd (ensureIncidentStreamToken mint i s))) = t_incidents (st_db s)"
  by (auto simp: ensureIncidentStreamToken_def dest!: station_eqs split: option.split sum.split prod.split)

lemma config_url_frame [simp]:
  "t_integrations (st_db (snd (config_url cfg mint i s))) = t_integrations (st_db s)"
  "t_incidents (st_db (snd (config_url cfg mint i s))) = t_incidents (st_db s)"
  by (simp_all add: config_url_def Let_def)

lemma buildIncidentDiscordConfig_frame [simp]:
  "t_integrations (st_db (snd (buildIncidentDiscordConfig cfg mint i s))) = t_integrations (st_db s)"
  "t_incidents (st_db (snd (buildIncidentDiscordConfig cfg mint i s))) = t_incidents (st_db s)"
  by (simp_all add: buildIncidentDiscordConfig_def Let_def case_prod_beta split: sum.split)

lemma nextDiscordBotInstance_frame [simp]: "st_db (snd (nextDiscordBotInstance cfg s)) = st_db s"
  by (simp add: nextDiscordBotInstance_def Let_def)

lemma tame_close_down: "tame d (close_down i now d)"
proof -
  have "tame (MarkDiscordIntegrationsStopping (ic_ID i) now d) (close_down i now d)"
    by (auto simp: close_down_def clear_share_def intro!: tame_same split: option.split)
  then show ?thesis by (rule tame_trans [OF tame_integration_updates(2)])
qed

section \<open>Rooms only for incidents that are not internal\<close>

lemma GetIncident_id: "GetIncident iid d = Some i \<Longrightarrow> ic_ID i = iid"
  by (auto simp: GetIncident_def find_incident_def scanIncident_def dest: find_Some_mem)

lemma UpsertIncidentIntegration_allowed:
  assumes "rooms_allowed d" "GetIncident (ic_ID i) d = Some i" "ic_Exposure i \<noteq> ''internal''" "ii_incident_id x = ic_ID i"
  shows "rooms_allowed (snd (UpsertIncidentIntegration x fresh now d))"
proof -
  obtain r where r: "find_incident (ic_ID i) d = Some r" "in_exposure r \<noteq> ''internal''"
    using assms(2,3) by (auto simp: GetIncident_def scanIncident_def)
  moreover have "ii_incident_id (integration_row x fresh now) = ic_ID i" by (simp add: integration_row_def assms(4))
  ultimately show ?thesis
    using assms(1)
    by (auto simp: UpsertIncidentIntegration_def Let_def rooms_allowed_iff find_incident_def set_sql_update
        merged_integration_def ins_integrations_def split: option.splits sum.splits if_splits)
qed

lemma audit_allowed: "rooms_allowed d \<Longrightarrow> rooms_allowed (audit u a tt ti m now d)"
  by (erule tame_allowed) (simp add: tame_same)

lemma allowed_same:
  "rooms_allowed d \<Longrightarrow> t_integrations d' = t_integrations d \<Longrightarrow> t_incidents d' = t_incidents d \<Longrightarrow> rooms_allowed d'"
  by (erule tame_allowed) (rule tame_same)

lemma allowed_incident_steps:
  assumes "rooms_allowed d"
  shows "rooms_allowed (snd (ActivateIncident i now d))" "rooms_allowed (snd (CloseIncident i now d))"
    "rooms_allowed (snd (ArchiveIncident i now d))" "rooms_allowed (snd (CreateIncident x fresh now d))"
    "rooms_allowed (snd (UpdateIncidentIntegrationStatus i st c now d))" "rooms_allowed (MarkDiscordIntegrationsStopping i now d)"
    "rooms_allowed (snd (CreateRadioSet uid name mode tgs gs i now d))" "rooms_allowed (close_down x now d)"
    "rooms_allowed (snd (SetRadioSetShareToken i uid token d))" "rooms_allowed (LinkIncidentSignal sid iid d)"
  by (rule tame_allowed [OF assms],
      simp add: tame_incident_updates tame_CreateIncident tame_integration_updates tame_close_down tame_same LinkIncidentSignal_def)+


section \<open>Invariants of the whole incident API\<close>

text \<open>
  The laws a property of the database has to satisfy, one for each operation the handlers and the poller use. The
  integration of an incident is only written while the incident is there and not internal.
\<close>

locale db_invariant =
  fixes J :: "db \<Rightarrow> bool"
  assumes J_identity: "J d \<Longrightarrow> J (snd (ensureHubIdentity hcfg fresh now d))"
    and J_settings: "J d \<Longrightarrow> J (snd (UpdateHubIncidentSettings h now d))"
    and J_audit: "J d \<Longrightarrow> J (audit u a tt ti m now d)"
    and J_seed: "J d \<Longrightarrow> J (SeedDefaultIncidentTemplates now d)"
    and J_radio: "J d \<Longrightarrow> J (snd (CreateRadioSet uid name mode tgs gs i now d))"
    and J_share: "J d \<Longrightarrow> J (snd (SetRadioSetShareToken i uid token d))"
    and J_unshare: "J d \<Longrightarrow> J (ClearRadioSetShareToken i uid d)"
    and J_create: "J d \<Longrightarrow> J (snd (CreateIncident x fresh now d))"
    and J_activate: "J d \<Longrightarrow> J (snd (ActivateIncident i now d))"
    and J_close: "J d \<Longrightarrow> J (snd (CloseIncident i now d))"
    and J_archive: "J d \<Longrightarrow> J (snd (ArchiveIncident i now d))"
    and J_integrate: "J d \<Longrightarrow> GetIncident (ic_ID x) d = Some x \<Longrightarrow> ic_Exposure x \<noteq> ''internal'' \<Longrightarrow> ii_incident_id y = ic_ID x \<Longrightarrow>
      J (snd (UpsertIncidentIntegration y fresh now d))"
    and J_status: "J d \<Longrightarrow> J (snd (UpdateIncidentIntegrationStatus i st c now d))"
    and J_stopping: "J d \<Longrightarrow> J (MarkDiscordIntegrationsStopping i now d)"
    and J_signal: "J d \<Longrightarrow> J (snd (UpsertIncidentSignal g fresh now d))"
    and J_link: "J d \<Longrightarrow> J (LinkIncidentSignal sid iid d)"
    and J_bot: "J d \<Longrightarrow> J (snd (UpsertDiscordBotStatus b now d))"
begin

definition good :: "station \<Rightarrow> bool" where "good s \<longleftrightarrow> J (st_db s)"

lemma good_bind:
  assumes "good (snd r)" "\<And>x s1. r = (x, s1) \<Longrightarrow> good s1 \<Longrightarrow> good (snd (g x s1))"
  shows "good (snd (case r of (x, s1) \<Rightarrow> g x s1))"
  using assms by (cases r) simp

lemma good_bind_station:
  assumes "good (snd r)" "\<And>x s1. r = (x, s1) \<Longrightarrow> good s1 \<Longrightarrow> good (g x s1)"
  shows "good (case r of (x, s1) \<Rightarrow> g x s1)"
  using assms by (cases r) simp

lemma good_pair_case: "(\<And>a b. x = (a, b) \<Longrightarrow> good (snd (g a b))) \<Longrightarrow> good (snd (case x of (a, b) \<Rightarrow> g a b))"
  by (cases x) simp

lemma good_if: "(b \<Longrightarrow> good (snd x)) \<Longrightarrow> (\<not> b \<Longrightarrow> good (snd y)) \<Longrightarrow> good (snd (if b then x else y))"
  by simp

lemma good_if_station: "good x \<Longrightarrow> good y \<Longrightarrow> good (if b then x else y)"
  by simp

lemma good_sum:
  "(\<And>e. r = Inl e \<Longrightarrow> good (snd (f e))) \<Longrightarrow> (\<And>v. r = Inr v \<Longrightarrow> good (snd (g v))) \<Longrightarrow> good (snd (case r of Inl e \<Rightarrow> f e | Inr v \<Rightarrow> g v))"
  by (cases r) simp_all

lemma good_option:
  "(r = None \<Longrightarrow> good (snd x)) \<Longrightarrow> (\<And>v. r = Some v \<Longrightarrow> good (snd (g v))) \<Longrightarrow> good (snd (case r of None \<Rightarrow> x | Some v \<Rightarrow> g v))"
  by (cases r) simp_all

lemma good_bool: "(b \<Longrightarrow> good (snd x)) \<Longrightarrow> (\<not> b \<Longrightarrow> good (snd y)) \<Longrightarrow> good (snd (case b of True \<Rightarrow> x | False \<Rightarrow> y))"
  by (cases b) simp_all

lemma good_let: "good (snd (f x)) \<Longrightarrow> good (snd (Let x f))"
  by simp

lemma good_pair: "good s \<Longrightarrow> good (snd (x, s))"
  by simp

lemma good_draw: "good s \<Longrightarrow> good (snd (draw mint kind s))"
  by (simp add: good_def)

lemma good_on_db: "good s \<Longrightarrow> (\<And>d. J d \<Longrightarrow> J (snd (f d))) \<Longrightarrow> good (snd (on_db f s))"
  by (simp add: good_def)

lemma good_audited: "good s \<Longrightarrow> good (audited u a tt ti m now s)"
  by (simp add: good_def J_audit)

lemma good_set: "good s \<Longrightarrow> J (f (st_db s)) \<Longrightarrow> good (s\<lparr>st_db := f (st_db s)\<rparr>)"
  by (simp add: good_def)

lemma good_db: "good s \<Longrightarrow> J (st_db s)"
  by (simp add: good_def)

lemmas good_intros = good_bind good_bind_station good_pair_case good_if good_if_station good_sum good_option good_bool good_let good_pair
  good_draw good_on_db good_audited good_set

lemma load_good: "good s \<Longrightarrow> good (snd (load_identity cfg mint now s))"
  unfolding load_identity_def by (intro good_intros J_identity)

lemma require_good: "good s \<Longrightarrow> good (snd (requireIncidentManager cfg mint ctx now s))"
  unfolding requireIncidentManager_def by (intro good_intros load_good)

lemma share_good: "good s \<Longrightarrow> good (snd (ensureCommunityShareToken cfg mint i s))"
  unfolding ensureCommunityShareToken_def by (intro good_intros J_share)

lemma stream_good: "good s \<Longrightarrow> good (snd (ensureIncidentStreamToken mint i s))"
  unfolding ensureIncidentStreamToken_def by (intro good_intros J_share)

lemma url_good: "good s \<Longrightarrow> good (snd (config_url cfg mint i s))"
  unfolding config_url_def by (intro good_intros share_good)

lemma config_good: "good s \<Longrightarrow> good (snd (buildIncidentDiscordConfig cfg mint i s))"
  unfolding buildIncidentDiscordConfig_def by (intro good_intros url_good stream_good)

lemma next_good: "good s \<Longrightarrow> good (snd (nextDiscordBotInstance cfg s))"
  by (simp add: good_def)

lemma upsert_good:
  assumes "good s" "GetIncident (ic_ID i) (st_db s) = Some i" "ic_Exposure i \<noteq> ''internal''"
  shows "good (snd (upsertDiscordIntegration cfg mint i existing inst now s))"
proof -
  obtain c s1 where c: "buildIncidentDiscordConfig cfg mint i s = (c, s1)" by fastforce
  then have "t_incidents (st_db s1) = t_incidents (st_db s)"
    using buildIncidentDiscordConfig_frame(2) [of cfg mint i s] by simp
  then have inc: "GetIncident (ic_ID i) (st_db s1) = Some i" using assms(2) by (simp add: GetIncident_def find_incident_def)
  moreover have s1: "good s1" using config_good [OF assms(1)] c by (metis snd_conv)
  have "good (snd (on_db (UpsertIncidentIntegration y fresh now) s2))"
    if "st_db s2 = st_db s1" "ii_incident_id y = ic_ID i" for y fresh s2
    using J_integrate [OF _ inc assms(3) that(2)] s1 that(1) by (simp add: good_def)
  with s1 show ?thesis
    by (simp add: upsertDiscordIntegration_def c draw_def split: sum.split)
qed


lemma queue_good: "good s \<Longrightarrow> good (snd (queueDiscordIntegrationForIncident cfg mint iid uid now s))"
proof (cases "GetIncident iid (st_db s)")
  case None
  assume "good s"
  with None show ?thesis by (simp add: queueDiscordIntegrationForIncident_def)
next
  case (Some i)
  assume s: "good s"
  have id: "GetIncident (ic_ID i) (st_db s) = Some i" using Some by (simp add: GetIncident_id)
  have "good (snd (upsertDiscordIntegration cfg mint i existing inst now s1))"
    if "nextDiscordBotInstance cfg s = (inst, s1)" "good s1" "discordQueueSkipReason cfg i = []" for existing inst s1
  proof -
    have "st_db s1 = st_db s" using nextDiscordBotInstance_frame [of cfg s] that(1) by simp
    with upsert_good [OF that(2), of i] id that(3) show ?thesis
      by (auto simp: discordQueueSkipReason_def split: if_splits)
  qed
  then show ?thesis
    unfolding queueDiscordIntegrationForIncident_def Some option.case
    by (intro good_intros s next_good) simp_all
qed

lemma close_down_good: "J d \<Longrightarrow> J (close_down i now d)"
  by (auto simp: close_down_def clear_share_def intro!: J_unshare J_stopping split: option.split)

lemma activate_created_good: "good s \<Longrightarrow> good (snd (activate_created cfg mint u rs iid now s))"
  unfolding activate_created_def by (intro good_intros J_activate share_good queue_good)

lemma createIncident_good: "good s \<Longrightarrow> good (snd (createIncidentFromTemplate cfg mint u req status activate now s))"
  unfolding createIncidentFromTemplate_def by (intro good_intros J_radio J_create activate_created_good)

lemma handler_good:
  assumes s: "good s"
  shows "good (snd (handleGetIncidentSettings cfg mint ctx now s))"
    "good (snd (handleUpdateIncidentSettings cfg mint ctx body now s))"
    "good (snd (handleListIncidents cfg mint ctx archived now s))"
    "good (snd (handleListIncidentSignals cfg mint ctx now s))"
    "good (snd (handleCreateIncident cfg mint driver ctx req now s))"
    "good (snd (handleActivateIncident cfg mint ctx i now s))"
    "good (snd (handleArchiveIncident cfg mint ctx i now s))"
  unfolding handleGetIncidentSettings_def handleUpdateIncidentSettings_def handleListIncidents_def
    handleListIncidentSignals_def handleCreateIncident_def handleActivateIncident_def handleArchiveIncident_def
  by (intro good_intros s load_good require_good J_settings createIncident_good J_activate share_good queue_good J_archive; assumption)+

lemma templates_good: "good s \<Longrightarrow> good (snd (handleListIncidentTemplates ctx now s))"
  unfolding handleListIncidentTemplates_def by (intro good_intros) (simp_all add: good_def J_seed)

lemma closing_good:
  assumes s: "good s"
  shows "good (snd (handleCloseIncident cfg mint ctx i now s))"
    "good (snd (handleCloseIncidentByRadioSet cfg mint ctx i now s))"
    "good (snd (handleDeleteIncidentDiscordIntegration cfg mint ctx i now s))"
  unfolding handleCloseIncident_def handleCloseIncidentByRadioSet_def handleDeleteIncidentDiscordIntegration_def
  by (intro good_intros s require_good J_close close_down_good J_stopping good_db; assumption)+

lemma promote_good: "good s \<Longrightarrow> good (snd (handlePromoteIncidentSignal cfg mint driver ctx g now s))"
  unfolding handlePromoteIncidentSignal_def
  by (intro good_intros require_good createIncident_good J_link good_db; assumption)

lemma integrate_good: "good s \<Longrightarrow> good (snd (handleCreateIncidentDiscordIntegration cfg mint ctx iid now s))"
proof -
  assume s: "good s"
  have "good (snd (upsertDiscordIntegration cfg mint i existing inst now s2))"
    if "GetIncident iid (st_db s1) = Some i" "ic_Exposure i \<noteq> ''internal''" "nextDiscordBotInstance cfg s1 = (inst, s2)" "good s2"
    for s1 i existing inst s2
  proof -
    have "st_db s2 = st_db s1" using nextDiscordBotInstance_frame [of cfg s1] that(3) by simp
    with upsert_good [OF that(4)] that(1,2) show ?thesis by (simp add: GetIncident_id)
  qed
  then show ?thesis
    unfolding handleCreateIncidentDiscordIntegration_def
    by (intro good_intros s require_good next_good; assumption?)
qed

lemma queue_each_good: "good s \<Longrightarrow> good (snd (queue_each cfg mint iids uid now s))"
proof (induction iids arbitrary: s)
  case Nil
  then show ?case by simp
next
  case (Cons iid iids)
  then show ?case unfolding queue_each.simps by (intro good_intros queue_good Cons.IH)
qed

lemma reconcile_good: "good s \<Longrightarrow> good (snd (handleReconcileDiscordIncidents cfg mint ctx now s))"
  unfolding handleReconcileDiscordIncidents_def by (intro good_intros require_good queue_each_good)

lemma bridges_good: "good s \<Longrightarrow> good (snd (list_bridges mint xs now s))"
proof (induction xs arbitrary: s)
  case Nil
  then show ?case by simp
next
  case (Cons x xs)
  have "good (snd (bridge_config mint x now s))"
    unfolding bridge_config_def Let_def by (intro good_intros Cons.prems stream_good J_status; assumption)
  then show ?case unfolding list_bridges.simps by (intro good_intros Cons.IH)
qed

lemma bot_good:
  assumes s: "good s"
  shows "good (snd (handleListActiveDiscordVoiceBridges cfg mint a b inst now s))"
    "good (snd (handleCompleteDiscordIncidentTask cfg mint a b i req now s))"
    "good (snd (handleFailDiscordIncidentTask cfg a b i err now s))"
    "good (snd (handleStopDiscordIncidentTask cfg a b i now s))"
    "good (snd (handleDiscordHeartbeat cfg a b status now s))"
  unfolding handleListActiveDiscordVoiceBridges_def handleCompleteDiscordIncidentTask_def with_stream_token_def
    handleFailDiscordIncidentTask_def handleStopDiscordIncidentTask_def handleDiscordHeartbeat_def
  by (intro good_intros s bridges_good stream_good J_status J_bot; assumption)+

lemma auto_good: "good s \<Longrightarrow> good (snd (maybeAutoCreateIncidentFromSignal cfg mint h g tm now s))"
  unfolding maybeAutoCreateIncidentFromSignal_def auto_activate_def Let_def
  by (intro good_intros J_radio J_create J_activate J_share queue_good J_link good_db; assumption?)

lemma take_signal_good: "good s \<Longrightarrow> good (snd (take_signal cfg mint h g template now s))"
  unfolding take_signal_def by (intro good_intros J_signal auto_good)

lemma nws_each_good: "good s \<Longrightarrow> good (snd (nws_each cfg mint w h now ps n ids s))"
proof (induction ps arbitrary: n ids s)
  case Nil
  then show ?case by simp
next
  case (Cons p ps)
  then show ?case unfolding nws_each.simps by (intro good_intros take_signal_good Cons.IH)
qed

lemma lsr_each_good: "good s \<Longrightarrow> good (snd (lsr_each cfg mint h now fs n s))"
proof (induction fs arbitrary: n s)
  case Nil
  then show ?case by simp
next
  case (Cons f fs)
  then show ?case unfolding lsr_each.simps by (intro good_intros take_signal_good Cons.IH)
qed

lemma areas_good: "good s \<Longrightarrow> good (snd (poll_areas cfg mint w h now as n ids s))"
proof (induction "as" arbitrary: n ids s)
  case Nil
  then show ?case by simp
next
  case (Cons a "as")
  then show ?case unfolding poll_areas.simps pollNWSAlerts_def by (intro good_intros nws_each_good Cons.IH)
qed

lemma expire_good: "J d \<Longrightarrow> J (expire_incident active now d i)"
  using J_close [of d "ic_ID i" now]
  by (auto simp: expire_incident_def close_down_good split: option.split sum.split prod.split)

lemma cleanup_good: "J d \<Longrightarrow> J (cleanupExpiredWeatherIncidents active now d)"
proof -
  have "J d \<Longrightarrow> J (foldl (expire_incident active now) d is)" for "is"
    by (induction "is" arbitrary: d) (simp_all add: expire_good)
  then show "J d \<Longrightarrow> J (cleanupExpiredWeatherIncidents active now d)" by (simp add: cleanupExpiredWeatherIncidents_def)
qed

lemma poll_good: "good s \<Longrightarrow> good (snd (pollIncidentSignalsOnce cfg mint w now s))"
  unfolding pollIncidentSignalsOnce_def pollIEMLSR_def Let_def
  by (intro good_intros load_good areas_good lsr_each_good cleanup_good good_db; assumption)

lemma handle_poll_good: "good s \<Longrightarrow> good (snd (handlePollIncidentSignals cfg mint w driver ctx now s))"
proof -
  have "good (snd (case e of FeedError m \<Rightarrow> (Fail 502 m, s2) | StoreError err \<Rightarrow> (Fail 502 (error_text driver err), s2)))"
    if "good s2" for e s2
    using that by (cases e) simp_all
  then show "good s \<Longrightarrow> good (snd (handlePollIncidentSignals cfg mint w driver ctx now s))"
    unfolding handlePollIncidentSignals_def by (intro good_intros require_good poll_good) simp_all
qed

lemma step_good: "good s \<Longrightarrow> good (incident_step cfg mint driver e s)"
proof (cases e)
  case (Request ctx r now)
  assume "good s"
  with Request show ?thesis
    by (cases r) (simp_all add: handler_good templates_good closing_good promote_good integrate_good reconcile_good handle_poll_good)
next
  case (Report headers r now)
  assume "good s"
  with Report show ?thesis by (cases headers; cases r) (simp_all add: bot_good)
next
  case (Poll w now)
  assume "good s"
  with Poll show ?thesis by (simp add: poll_good)
qed

lemma run_keeps: "J (st_db s) \<Longrightarrow> J (st_db (run (incident_step cfg mint driver) es s))"
proof (induction es arbitrary: s)
  case (Cons e es)
  then show ?case using step_good [of s cfg mint driver e] by (simp add: good_def)
qed simp

end


section \<open>Four invariants\<close>

interpretation rooms: db_invariant rooms_allowed
  by unfold_locales
    (auto intro: allowed_incident_steps audit_allowed UpsertIncidentIntegration_allowed allowed_same
      simp: SeedDefaultIncidentTemplates_def UpdateHubIncidentSettings_def update_identity_def UpsertIncidentSignal_def
        ins_signals_def UpsertDiscordBotStatus_def split: option.split sum.split)

lemma incident_inv_frame: "incident_inv d \<Longrightarrow> db_ok d' \<Longrightarrow> t_incidents d' = t_incidents d \<Longrightarrow> incident_inv d'"
  by (simp add: incident_inv_def)

lemma ensureHubIdentity_ok: "db_ok d \<Longrightarrow> db_ok (snd (ensureHubIdentity cfg fresh now d))"
proof -
  obtain h d1 where e: "ensureHubIdentity cfg fresh now d = (h, d1)" by fastforce
  show "db_ok d \<Longrightarrow> db_ok (snd (ensureHubIdentity cfg fresh now d))"
    using ensureHubIdentity_frame [OF e] e by simp
qed

lemma radio_inv_frames:
  "db_ok d \<Longrightarrow> db_ok (snd (CreateRadioSet uid name mode tgs gs i now d))"
  "db_ok d \<Longrightarrow> db_ok (snd (SetRadioSetShareToken i uid token d))"
  "db_ok d \<Longrightarrow> db_ok (ClearRadioSetShareToken i uid d)"
  using exec_radio_ok [of d "OpCreateSet uid name mode tgs gs i now"] SetShare_ok ClearShare_ok by simp_all

interpretation api: db_invariant incident_inv
proof
  fix d assume inv: "incident_inv d"
  then have ok: "db_ok d" by (simp add: incident_inv_def)
  show "incident_inv (snd (ensureHubIdentity hcfg fresh now d))" for hcfg fresh now
    by (rule incident_inv_frame [OF inv]) (simp_all add: ensureHubIdentity_ok ok)
  show "incident_inv (snd (UpdateHubIncidentSettings h now d))" for h now
    by (rule incident_inv_frame [OF inv])
      (simp_all add: UpdateHubIncidentSettings_def update_identity_ok ok, simp add: update_identity_def split: option.split)
  show "incident_inv (audit u a tt ti m now d)" for u a tt ti m now
    by (rule incident_inv_frame [OF inv]) (simp_all add: audit_ok ok)
  show "incident_inv (snd (CreateRadioSet uid name mode tgs gs i now d))"
    "incident_inv (snd (SetRadioSetShareToken i uid token d))" "incident_inv (ClearRadioSetShareToken i uid d)"
    for uid name mode tgs gs i now token
    by (rule incident_inv_frame [OF inv]; simp add: radio_inv_frames ok)+
  show "incident_inv (SeedDefaultIncidentTemplates now d)" for now using exec_incident_inv [OF inv, of "IcSeed now"] by simp
  show "incident_inv (snd (CreateIncident x fresh now d))" for x fresh now by (rule CreateIncident_inv [OF inv])
  show "incident_inv (snd (ActivateIncident i now d))" "incident_inv (snd (CloseIncident i now d))"
    "incident_inv (snd (ArchiveIncident i now d))" for i now
    using exec_incident_inv [OF inv, of "IcActivate i now"] exec_incident_inv [OF inv, of "IcClose i now"]
      exec_incident_inv [OF inv, of "IcArchive i now"] by simp_all
  show "incident_inv (snd (UpdateIncidentIntegrationStatus i st c now d))" for i st c now
    using exec_incident_inv [OF inv, of "IcIntegrationStatus i st c now"] by simp
  show "incident_inv (MarkDiscordIntegrationsStopping i now d)" for i now
    using exec_incident_inv [OF inv, of "IcStopDiscord i now"] by simp
  show "incident_inv (snd (UpsertIncidentSignal g fresh now d))" for g fresh now by (rule UpsertIncidentSignal_inv [OF inv])
  show "incident_inv (LinkIncidentSignal sid iid d)" for sid iid using exec_incident_inv [OF inv, of "IcLink sid iid"] by simp
  show "incident_inv (snd (UpsertDiscordBotStatus b now d))" for b now using exec_incident_inv [OF inv, of "IcBot b now"] by simp
  show "incident_inv (snd (UpsertIncidentIntegration y fresh now d))" for y fresh now by (rule integration_inv [OF inv])
qed


text \<open>
  A property of the incidents and the signals that every operation of the incident store but deletion keeps is an
  invariant of the API: the other operations do not touch these tables, and the API deletes nothing.
\<close>

locale incident_property =
  fixes J :: "db \<Rightarrow> bool"
  assumes step: "J d \<Longrightarrow> \<forall>i. x \<noteq> IcDelete i \<Longrightarrow> J (exec_incident x d)"
    and frame: "J d \<Longrightarrow> t_incidents d' = t_incidents d \<Longrightarrow> t_signals d' = t_signals d \<Longrightarrow> J d'"

lemma CreateRadioSet_signals [simp]: "t_signals (snd (CreateRadioSet uid name mode tgs gs i now d)) = t_signals d"
  by (simp add: CreateRadioSet_def ins_radio_sets_def Let_def)

lemma share_signals [simp]:
  "t_signals (snd (SetRadioSetShareToken i uid token d)) = t_signals d" "t_signals (ClearRadioSetShareToken i uid d) = t_signals d"
  by (simp_all add: SetRadioSetShareToken_def ClearRadioSetShareToken_def Let_def)

lemma identity_signals [simp]: "t_signals (snd (ensureHubIdentity cfg fresh now d)) = t_signals d"
proof -
  obtain h d1 where e: "ensureHubIdentity cfg fresh now d = (h, d1)" by fastforce
  show ?thesis using ensureHubIdentity_frame [OF e] by (simp add: e)
qed

lemma settings_frame [simp]:
  "t_incidents (snd (UpdateHubIncidentSettings h now d)) = t_incidents d" "t_signals (snd (UpdateHubIncidentSettings h now d)) = t_signals d"
  by (simp_all add: UpdateHubIncidentSettings_def update_identity_def split: option.split)

sublocale incident_property \<subseteq> db_invariant J
proof
  fix d assume J: "J d"
  show "J (snd (ensureHubIdentity hcfg fresh now d))" "J (snd (UpdateHubIncidentSettings h now d))" "J (audit u a tt ti m now d)"
    "J (snd (CreateRadioSet uid name mode tgs gs i now d))" "J (snd (SetRadioSetShareToken i uid token d))"
    "J (ClearRadioSetShareToken i uid d)" for hcfg fresh now h u a tt ti m uid name mode tgs gs i token
    by (rule frame [OF J]; simp)+
  show "J (SeedDefaultIncidentTemplates now d)" for now using step [OF J, of "IcSeed now"] by simp
  show "J (snd (CreateIncident x fresh now d))" for x fresh now using step [OF J, of "IcCreate x fresh now"] by simp
  show "J (snd (ActivateIncident i now d))" for i now using step [OF J, of "IcActivate i now"] by simp
  show "J (snd (CloseIncident i now d))" for i now using step [OF J, of "IcClose i now"] by simp
  show "J (snd (ArchiveIncident i now d))" for i now using step [OF J, of "IcArchive i now"] by simp
  show "J (snd (UpdateIncidentIntegrationStatus i st c now d))" for i st c now
    using step [OF J, of "IcIntegrationStatus i st c now"] by simp
  show "J (MarkDiscordIntegrationsStopping i now d)" for i now using step [OF J, of "IcStopDiscord i now"] by simp
  show "J (snd (UpsertIncidentSignal g fresh now d))" for g fresh now using step [OF J, of "IcSignal g fresh now"] by simp
  show "J (LinkIncidentSignal sid iid d)" for sid iid using step [OF J, of "IcLink sid iid"] by simp
  show "J (snd (UpsertDiscordBotStatus b now d))" for b now using step [OF J, of "IcBot b now"] by simp
  show "J (snd (UpsertIncidentIntegration y fresh now d))" for y fresh now using step [OF J, of "IcIntegrate y fresh now"] by simp
qed

definition signal_kept :: "string \<Rightarrow> string \<Rightarrow> signals_row \<Rightarrow> db \<Rightarrow> bool" where
  "signal_kept src ext r d \<longleftrightarrow> (case find_signal src ext d of None \<Rightarrow> False | Some r' \<Rightarrow> same_signal r r')"

definition incident_kept :: "string \<Rightarrow> incidents_row \<Rightarrow> db \<Rightarrow> bool" where
  "incident_kept i r d \<longleftrightarrow> (case find_incident i d of None \<Rightarrow> False | Some r' \<Rightarrow> same_incident r r')"

lemma kept_iff:
  "signal_kept src ext g d \<longleftrightarrow> (\<exists>g'. find_signal src ext d = Some g' \<and> same_signal g g')"
  "incident_kept i r d \<longleftrightarrow> (\<exists>r'. find_incident i d = Some r' \<and> same_incident r r')"
  by (auto simp: signal_kept_def incident_kept_def split: option.splits)

interpretation kept_signal: incident_property "signal_kept src ext g"
proof
  show "signal_kept src ext g d \<Longrightarrow> \<forall>i. x \<noteq> IcDelete i \<Longrightarrow> signal_kept src ext g (exec_incident x d)" for d x
    unfolding kept_iff using exec_incident_signal same_signal_trans by meson
qed (simp add: signal_kept_def find_signal_def)

interpretation kept_incident: incident_property "incident_kept i r"
proof
  show "incident_kept i r d \<Longrightarrow> \<forall>j. x \<noteq> IcDelete j \<Longrightarrow> incident_kept i r (exec_incident x d)" for d x
    unfolding kept_iff using exec_incident_row same_incident_trans by meson
qed (simp add: incident_kept_def find_incident_def)


section \<open>Closing an incident\<close>

definition incident_shut :: "string \<Rightarrow> db \<Rightarrow> bool" where
  "incident_shut i d \<longleftrightarrow> (case find_incident i d of None \<Rightarrow> False
     | Some r \<Rightarrow> in_status r = ''closed'' \<and>
         list_all (\<lambda>x. ii_incident_id x = i \<and> ii_kind x = ''discord'' \<longrightarrow> ii_status x \<noteq> ''pending'' \<and> ii_status x \<noteq> ''active'')
           (t_integrations d) \<and>
         (let set_id = coalesce (in_radio_set_id r) in
          set_id \<noteq> [] \<longrightarrow> list_all (\<lambda>s. rr_id s = set_id \<longrightarrow> rr_share_token s = None) (t_radio_sets d)))"

lemma close_shuts:
  assumes "uniq rr_id (t_radio_sets d)" "CloseIncident i now d = (Inr shut, d1)"
  shows "incident_shut i (close_down shut now d1)"
proof -
  let ?f = "\<lambda>r. r\<lparr>in_status := ''closed'', in_closed_at := now, in_updated_at := now\<rparr>"
  obtain r where r: "find_incident i d = Some r" "shut = scanIncident (?f r)"
    "d1 = d\<lparr>t_incidents := sql_update (\<lambda>r. in_id r = i) ?f (t_incidents d)\<rparr>"
    using assms(2) by (auto simp: CloseIncident_def update_incident_def split: option.splits)
  have id: "in_id r = i" using r(1) by (auto simp: find_incident_def dest: find_Some_mem)
  have shut: "ic_ID shut = i" "ic_RadioSetID shut = coalesce (in_radio_set_id r)" by (simp_all add: r(2) scanIncident_def id)
  let ?d2 = "MarkDiscordIntegrationsStopping (ic_ID shut) now d1" and ?x = "coalesce (in_radio_set_id r)"
  have d3: "t_incidents (close_down shut now d1) = t_incidents d1" "t_integrations (close_down shut now d1) = t_integrations ?d2"
    by (simp_all add: close_down_def clear_share_def MarkDiscordIntegrationsStopping_def split: option.split)
  have inc: "t_incidents (close_down shut now d1) = sql_update (\<lambda>r. in_id r = i) ?f (t_incidents d)"
    using d3(1) r(3) by simp
  have "find_incident i (close_down shut now d1) = Some (?f r)"
    using r(1) id unfolding find_incident_def inc by (subst find_sql_update_key) simp_all
  moreover have "list_all (\<lambda>x. ii_incident_id x = i \<and> ii_kind x = ''discord'' \<longrightarrow> ii_status x \<noteq> ''pending'' \<and> ii_status x \<noteq> ''active'')
      (t_integrations (close_down shut now d1))"
    unfolding d3 list_all_iff
  proof (intro ballI impI)
    fix x assume x: "x \<in> set (t_integrations ?d2)" "ii_incident_id x = i \<and> ii_kind x = ''discord''"
    let ?P = "\<lambda>y. ii_incident_id y = i \<and> ii_kind y = ''discord'' \<and> ii_status y \<in> set [''pending'', ''active'']"
    obtain y where "x = (if ?P y then y\<lparr>ii_status := ''stopping'', ii_updated_at := now\<rparr> else y)"
    proof -
      have "x \<in> set (sql_update ?P (\<lambda>y. y\<lparr>ii_status := ''stopping'', ii_updated_at := now\<rparr>) (t_integrations d1))"
        using x(1) by (simp only: MarkDiscordIntegrationsStopping_def shut) simp
      then show ?thesis using that unfolding set_sql_update by blast
    qed
    with x(2) show "ii_status x \<noteq> ''pending'' \<and> ii_status x \<noteq> ''active''" by (cases "?P y") auto
  qed
  moreover have "rr_share_token s = None" if "?x \<noteq> []" "s \<in> set (t_radio_sets (close_down shut now d1))" "rr_id s = ?x" for s
  proof (cases "GetRadioSetForPTT ?x ?d2")
    case None
    have "t_radio_sets (close_down shut now d1) = t_radio_sets ?d2"
      using None that(1) by (simp add: close_down_def clear_share_def shut)
    with None that show ?thesis by (auto simp: GetRadioSetForPTT_def find_None_iff)
  next
    case (Some rs)
    then obtain q where q: "q \<in> set (t_radio_sets d)" "rr_id q = ?x" "rs = scanRadioSet q"
      by (auto simp: GetRadioSetForPTT_def MarkDiscordIntegrationsStopping_def r(3) dest: find_Some_mem)
    then have only: "p \<in> set (t_radio_sets d) \<Longrightarrow> rr_id p = ?x \<Longrightarrow> p = q" for p
      using uniq_inj [OF assms(1), of p q] by simp
    have "t_radio_sets (close_down shut now d1) =
        sql_update (\<lambda>p. rr_id p = rr_id q \<and> rr_user_id p = rr_user_id q) (\<lambda>p. p\<lparr>rr_share_token := None\<rparr>) (t_radio_sets d)"
      using Some that(1) by (simp add: close_down_def clear_share_def shut r(3) ClearRadioSetShareToken_def
          MarkDiscordIntegrationsStopping_def q(3) scanRadioSet_def)
    note sets = this and s = that
    from s(2) obtain p where p: "p \<in> set (t_radio_sets d)"
      "s = (if rr_id p = rr_id q \<and> rr_user_id p = rr_user_id q then p\<lparr>rr_share_token := None\<rparr> else p)"
      unfolding sets set_sql_update by auto
    then have "rr_id p = ?x" using s(3) by (simp split: if_splits)
    with only p show ?thesis by simp
  qed
  ultimately show ?thesis by (auto simp: incident_shut_def Let_def list_all_iff)
qed

lemma shut_audit [simp]: "incident_shut i (audit u a tt ti m now d) = incident_shut i d"
  by (simp add: incident_shut_def find_incident_def Let_def split: option.split)

lemma requireIncidentManager_refuses:
  "requireIncidentManager cfg mint ctx now s = (Inl e, s1) \<Longrightarrow> \<exists>m. e = Fail 401 m \<or> e = Fail 403 m"
  by (auto simp: requireIncidentManager_def requireAuthenticated_def split: option.splits if_splits prod.splits)

lemma requireIncidentManager_db:
  assumes "requireIncidentManager cfg mint ctx now s = (r, s1)"
  shows "\<exists>h. st_db s1 = (st_db s)\<lparr>t_hub_identity := h\<rparr>"
proof -
  obtain h s2 where l: "load_identity cfg mint now s = (h, s2)" by fastforce
  then have "st_db s2 = (st_db s)\<lparr>t_hub_identity := Some h\<rparr>"
    by (auto simp: load_identity_def draw_def dest!: on_db_eq ensureHubIdentity_frame)
  moreover have "s1 = s \<or> s1 = s2"
    using assms l by (auto simp: requireIncidentManager_def requireAuthenticated_def split: option.splits if_splits)
  moreover have "st_db s = (st_db s)\<lparr>t_hub_identity := t_hub_identity (st_db s)\<rparr>" by simp
  ultimately show ?thesis by metis
qed

text \<open>
  Property C34. Closing an incident, over the incident or over its radio set, closes it with everything that lets
  others listen: no Discord room of it is pending or active any more, and the player link of its radio set is dead.
\<close>

theorem closing_shuts_down:
  assumes "db_ok (st_db s)"
    and "handleCloseIncident cfg mint ctx i now s = (Reply c b, s') \<or> handleCloseIncidentByRadioSet cfg mint ctx rs now s = (Reply c b, s')"
  shows "\<exists>shut. b = IncidentReply shut \<and> ic_Status shut = ''closed'' \<and> incident_shut (ic_ID shut) (st_db s')"
proof -
  obtain u :: "incident_body reply + authUser" and s1 where u: "requireIncidentManager cfg mint ctx now s = (u, s1)" by fastforce
  then obtain h where "st_db s1 = (st_db s)\<lparr>t_hub_identity := h\<rparr>" using requireIncidentManager_db by blast
  then have uniq: "uniq rr_id (t_radio_sets (st_db s1))" using assms(1) by (simp add: db_ok_uniq)
  have shut: "ic_Status x = ''closed'' \<and> incident_shut (ic_ID x) (close_down x now (st_db s2))"
    if "on_db (CloseIncident j now) s1 = (Inr x, s2)" for j x s2
  proof -
    have e: "CloseIncident j now (st_db s1) = (Inr x, st_db s2)" using on_db_eq [OF that] .
    then have "ic_ID x = j" "ic_Status x = ''closed''"
      by (auto simp: CloseIncident_def update_incident_def find_incident_def scanIncident_def split: option.splits dest: find_Some_mem)
    with close_shuts [OF uniq e] show ?thesis by simp
  qed
  from assms(2) obtain v where v: "u = Inr v"
    using requireIncidentManager_refuses [of cfg mint ctx now s] u
    by (cases u) (auto simp: handleCloseIncident_def handleCloseIncidentByRadioSet_def)
  from assms(2) show ?thesis
  proof
    assume "handleCloseIncident cfg mint ctx i now s = (Reply c b, s')"
    then show ?thesis using shut [of i] by (auto simp: handleCloseIncident_def u v split: sum.splits prod.splits)
  next
    assume "handleCloseIncidentByRadioSet cfg mint ctx rs now s = (Reply c b, s')"
    then show ?thesis using shut
      by (auto simp: handleCloseIncidentByRadioSet_def u v split: sum.splits prod.splits option.splits)
  qed
qed


section \<open>Who may change incidents\<close>

fun needs_manager :: "incident_request \<Rightarrow> bool" where
  "needs_manager RqGetSettings = False"
| "needs_manager (RqSettings _) = False"
| "needs_manager RqTemplates = False"
| "needs_manager _ = True"

definition may_manage :: "incident_config \<Rightarrow> mint \<Rightarrow> authUser option \<Rightarrow> int \<Rightarrow> station \<Rightarrow> bool" where
  "may_manage cfg mint ctx now s \<longleftrightarrow> (case ctx of None \<Rightarrow> False | Some u \<Rightarrow> canManageIncidents u \<and>
     (case load_identity cfg mint now s of (h, s1) \<Rightarrow> incidentManagementAvailable h (st_db s1)))"

lemma refused: "\<not> may_manage cfg mint ctx now s \<Longrightarrow> \<exists>e s1. requireIncidentManager cfg mint ctx now s = (Inl e, s1)"
  by (auto simp: may_manage_def requireIncidentManager_def requireAuthenticated_def split: option.splits prod.splits)

text \<open>
  A request about incidents by anyone but an administrator or incident handler, or while incident
  management is off or its handler hub is not connected, is answered 401 or 403 and changes nothing but the
  identity row every request brings up to date.
\<close>

theorem incident_requests_guarded:
  assumes "needs_manager r" "\<not> may_manage cfg mint ctx now s"
  shows "reply_code (fst (serve_incident cfg mint driver ctx r now s)) \<in> {401, 403} \<and>
    (\<exists>h. st_db (snd (serve_incident cfg mint driver ctx r now s)) = (st_db s)\<lparr>t_hub_identity := h\<rparr>)"
proof -
  obtain e :: "incident_body reply" and s1 where e: "requireIncidentManager cfg mint ctx now s = (Inl e, s1)"
    using refused [OF assms(2)] by blast
  have "reply_code e \<in> {401, 403}" using requireIncidentManager_refuses [OF e] by auto
  moreover obtain h where "st_db s1 = (st_db s)\<lparr>t_hub_identity := h\<rparr>" using requireIncidentManager_db [OF e] by blast
  moreover have "serve_incident cfg mint driver ctx r now s = (e, s1)"
    using assms(1) e by (cases r) (simp_all add: handleListIncidents_def handleListIncidentSignals_def handleCreateIncident_def
        handleActivateIncident_def handleCloseIncident_def handleCloseIncidentByRadioSet_def handleArchiveIncident_def
        handlePromoteIncidentSignal_def handlePollIncidentSignals_def handleCreateIncidentDiscordIntegration_def
        handleDeleteIncidentDiscordIntegration_def handleReconcileDiscordIncidents_def)
  ultimately show ?thesis by auto
qed

section \<open>Reports that come late\<close>

text \<open>
  A bot's report that it has opened the rooms makes the integration active, whatever became of it in
  the meantime: stopping, stopped or failed, and whether or not the incident is still open.
\<close>

theorem late_completion_revives:
  assumes "(requireDiscordBotWorker cfg a b :: incident_body reply option) = None"
    "GetIncidentIntegrationByID tid (st_db s) = Some x"
  shows "\<exists>y s'. handleCompleteDiscordIncidentTask cfg mint a b tid (Some req) now s = (Reply 200 (UpdatedIntegration y), s') \<and>
    ii_status y = ''active'' \<and> ii_incident_id y = ii_incident_id x \<and> GetIncidentIntegrationByID tid (st_db s') = Some y"
proof -
  obtain c s1 where c: "with_stream_token mint (ii_incident_id x) (completed_config req (ii_config x)) s = (c, s1)" by fastforce
  have "t_integrations (st_db s1) = t_integrations (st_db s)"
    using c by (auto simp: with_stream_token_def split: if_splits option.splits prod.splits sum.splits)
      (metis ensureIncidentStreamToken_frame(1) snd_conv)+
  then have x: "GetIncidentIntegrationByID tid (st_db s1) = Some x"
    using assms(2) by (simp add: GetIncidentIntegrationByID_def)
  let ?f = "\<lambda>r. r\<lparr>ii_status := ''active'', ii_config := c, ii_updated_at := now\<rparr>"
  have "UpdateIncidentIntegrationStatus tid ''active'' (Some c) now (st_db s1) =
      (Inr (?f x), (st_db s1)\<lparr>t_integrations := sql_update (\<lambda>r. ii_id r = tid) ?f (t_integrations (st_db s1))\<rparr>)"
    using x by (simp add: UpdateIncidentIntegrationStatus_def Let_def)
  moreover have "List.find (\<lambda>r. ii_id r = tid) (sql_update (\<lambda>r. ii_id r = tid) ?f (t_integrations (st_db s1))) = Some (?f x)"
    using x by (subst find_sql_update_key) (auto simp: GetIncidentIntegrationByID_def dest: find_Some_mem)
  ultimately show ?thesis
    using assms c by (auto simp: handleCompleteDiscordIncidentTask_def on_db_def GetIncidentIntegrationByID_def)
qed


section \<open>Polling again\<close>

lemma UpsertIncidentSignal_records:
  assumes "UpsertIncidentSignal g fresh now d = (Inr (x, new), d')"
  shows "\<exists>y. find_signal (sg_source g) (sg_external_id g) d' = Some y"
proof (cases "find_signal (sg_source g) (sg_external_id g) d")
  case (Some y)
  with assms show ?thesis by (auto simp: UpsertIncidentSignal_def)
next
  case None
  then have "d' = d\<lparr>t_signals := t_signals d @ [signal_row g fresh now]\<rparr>"
    using assms by (auto simp: UpsertIncidentSignal_def ins_signals_def split: if_splits)
  moreover have "sg_source (signal_row g fresh now) = sg_source g" "sg_external_id (signal_row g fresh now) = sg_external_id g"
    by (simp_all add: signal_row_def)
  ultimately show ?thesis using None by (simp add: find_signal_def find_append)
qed

lemma take_signal_records:
  assumes "take_signal cfg mint h g template now s = (Inr new, s1)"
  shows "\<exists>r. find_signal (sg_source g) (sg_external_id g) (st_db s1) = Some r"
proof -
  obtain fresh s2 where d: "draw mint ''sig'' s = (fresh, s2)" by fastforce
  obtain r s3 where u: "on_db (UpsertIncidentSignal g fresh now) s2 = (r, s3)" by fastforce
  have e: "UpsertIncidentSignal g fresh now (st_db s2) = (r, st_db s3)" by (rule on_db_eq [OF u])
  have "\<exists>stored. r = Inr (stored, new) \<and>
      (s1 = s3 \<or> s1 = snd (maybeAutoCreateIncidentFromSignal cfg mint h stored (template (st_db s3)) now s3))"
    using assms by (auto simp: take_signal_def d u split: sum.splits bool.splits)
  then obtain stored where r: "r = Inr (stored, new)"
    and s1: "s1 = s3 \<or> s1 = snd (maybeAutoCreateIncidentFromSignal cfg mint h stored (template (st_db s3)) now s3)" by blast
  have "\<exists>y. find_signal (sg_source g) (sg_external_id g) (st_db s3) = Some y"
    using e r by (intro UpsertIncidentSignal_records) simp
  then obtain y where y: "find_signal (sg_source g) (sg_external_id g) (st_db s3) = Some y" by blast
  then have k: "kept_signal.good (sg_source g) (sg_external_id g) y s3"
    by (simp add: kept_signal.good_def kept_iff)
  have "kept_signal.good (sg_source g) (sg_external_id g) y s1"
    using s1 k kept_signal.auto_good by blast
  then show ?thesis by (auto simp: kept_signal.good_def kept_iff)
qed

lemma take_signal_known:
  "find_signal (sg_source g) (sg_external_id g) (st_db s) = Some r \<Longrightarrow>
    \<exists>s1. take_signal cfg mint h g template now s = (Inr False, s1) \<and> st_db s1 = st_db s"
  by (simp add: take_signal_def draw_def on_db_def UpsertIncidentSignal_def)

lemma nws_signal_key [simp]: "sg_source (nws_signal w p tm) = ''nws''" "sg_external_id (nws_signal w p tm) = np_ID p"
  by (simp_all add: nws_signal_def)

text \<open>The alerts of a feed a poll looks at, and those recorded.\<close>

definition watched :: "weather \<Rightarrow> HubIdentity \<Rightarrow> nwsAlertProperties \<Rightarrow> bool" where
  "watched w h p \<longleftrightarrow> TrimSpace (np_ID p) \<noteq> [] \<and> alertAffectsWatchArea w p h"

definition alerts_recorded :: "weather \<Rightarrow> HubIdentity \<Rightarrow> nwsAlertProperties list \<Rightarrow> db \<Rightarrow> bool" where
  "alerts_recorded w h ps d \<longleftrightarrow> list_all (\<lambda>p. watched w h p \<longrightarrow> find_signal ''nws'' (np_ID p) d \<noteq> None) ps"

lemma alerts_recorded_keep:
  assumes "alerts_recorded w h ps d" "\<And>src ext r. signal_kept src ext r d \<Longrightarrow> signal_kept src ext r d'"
  shows "alerts_recorded w h ps d'"
proof -
  have "find_signal src ext d' \<noteq> None" if f: "find_signal src ext d \<noteq> None" for src ext
  proof -
    obtain r where "find_signal src ext d = Some r" using f by blast
    then have "signal_kept src ext r d" by (simp add: kept_iff)
    then have "signal_kept src ext r d'" by (rule assms(2))
    then show ?thesis by (auto simp: kept_iff)
  qed
  with assms(1) show ?thesis by (auto simp: alerts_recorded_def list_all_iff)
qed

lemma nws_each_records:
  "nws_each cfg mint w h now ps n ids s = ((None, n', ids'), s') \<Longrightarrow> alerts_recorded w h ps (st_db s')"
proof (induction ps arbitrary: n ids s)
  case Nil
  then show ?case by (simp add: alerts_recorded_def)
next
  case (Cons p ps)
  show ?case
  proof (cases "watched w h p")
    case False
    then have "\<exists>n1 ids1. nws_each cfg mint w h now ps n1 ids1 s = ((None, n', ids'), s')"
      using Cons.prems by (auto simp: watched_def Let_def split: if_splits)
    then show ?thesis using Cons.IH False by (auto simp: alerts_recorded_def)
  next
    case True
    let ?g = "nws_signal w p (MatchIncidentTemplateByNWSEvent (np_Event p) (st_db s))"
    obtain new s1 where t: "take_signal cfg mint h ?g (\<lambda>_. MatchIncidentTemplateByNWSEvent (np_Event p) (st_db s)) now s = (Inr new, s1)"
      and rest: "nws_each cfg mint w h now ps (if new then Suc n else n) (ids @ [TrimSpace (np_ID p)]) s1 = ((None, n', ids'), s')"
      using Cons.prems True by (auto simp: watched_def Let_def split: sum.splits prod.splits)
    obtain r where "find_signal ''nws'' (np_ID p) (st_db s1) = Some r"
      using take_signal_records [OF t] by auto
    then have "kept_signal.good ''nws'' (np_ID p) r s1" by (simp add: kept_signal.good_def kept_iff)
    then have "kept_signal.good ''nws'' (np_ID p) r s'" using rest kept_signal.nws_each_good by (metis snd_conv)
    with Cons.IH [OF rest] show ?thesis by (auto simp: alerts_recorded_def kept_signal.good_def kept_iff)
  qed
qed

lemma nws_each_again:
  "alerts_recorded w h ps (st_db s) \<Longrightarrow> \<exists>ids' s'. nws_each cfg mint w h now ps n ids s = ((None, n, ids'), s') \<and> st_db s' = st_db s"
proof (induction ps arbitrary: ids s)
  case Nil
  then show ?case by simp
next
  case (Cons p ps)
  then have rec: "alerts_recorded w h ps (st_db s)" by (simp add: alerts_recorded_def)
  show ?case
  proof (cases "watched w h p")
    case False
    then show ?thesis using Cons.IH [OF rec] by (auto simp: watched_def Let_def)
  next
    case True
    let ?tm = "MatchIncidentTemplateByNWSEvent (np_Event p) (st_db s)"
    obtain r where "find_signal ''nws'' (np_ID p) (st_db s) = Some r"
      using Cons.prems True by (auto simp: alerts_recorded_def)
    then obtain s1 where s1: "take_signal cfg mint h (nws_signal w p ?tm) (\<lambda>_. ?tm) now s = (Inr False, s1)" "st_db s1 = st_db s"
      using take_signal_known [of "nws_signal w p ?tm" s r cfg mint h "\<lambda>_. ?tm" now] by auto
    have "alerts_recorded w h ps (st_db s1)" using rec s1(2) by simp
    from Cons.IH [OF this] True s1 show ?thesis by (fastforce simp: watched_def Let_def)
  qed
qed


text \<open>The fields the geometry needs are never found in an alert, so every alert counts.\<close>

lemma alertAffectsWatchArea_always [simp]: "alertAffectsWatchArea w p h"
  by (simp add: alertAffectsWatchArea_def extractRawField_def marshalled_def Let_def)

lemma alerts_recorded_any: "alerts_recorded w h ps d = alerts_recorded w h' ps d"
  by (simp add: alerts_recorded_def watched_def)

definition feeds_recorded :: "weather \<Rightarrow> HubIdentity \<Rightarrow> string list \<Rightarrow> db \<Rightarrow> bool" where
  "feeds_recorded w h as d \<longleftrightarrow> list_all (\<lambda>a. TrimSpace a \<noteq> [] \<longrightarrow>
     (case we_nws w (ToUpper (TrimSpace a)) of Inl _ \<Rightarrow> False | Inr ps \<Rightarrow> alerts_recorded w h ps d)) as"

lemma feeds_recorded_any: "feeds_recorded w h as d = feeds_recorded w h' as d"
proof -
  have "alerts_recorded w h = alerts_recorded w h'" by (intro ext) (rule alerts_recorded_any)
  then show ?thesis by (simp only: feeds_recorded_def)
qed

lemma feeds_recorded_keep:
  assumes "feeds_recorded w h as d" "\<And>src ext r. signal_kept src ext r d \<Longrightarrow> signal_kept src ext r d'"
  shows "feeds_recorded w h as d'"
  using assms(1) alerts_recorded_keep [OF _ assms(2)]
  unfolding feeds_recorded_def list_all_iff by (auto split: sum.splits)

lemma poll_areas_records:
  "poll_areas cfg mint w h now as n ids s = ((None, n', ids'), s') \<Longrightarrow> feeds_recorded w h as (st_db s')"
proof (induction "as" arbitrary: n ids s)
  case Nil
  then show ?case by (simp add: feeds_recorded_def)
next
  case (Cons a "as")
  show ?case
  proof (cases "TrimSpace a = []")
    case True
    with Cons show ?thesis by (simp add: feeds_recorded_def)
  next
    case False
    obtain k new s1 where p: "pollNWSAlerts cfg mint w (TrimSpace a) h now s = ((None, k, new), s1)"
      and rest: "poll_areas cfg mint w h now as (n + k) (ids @ new) s1 = ((None, n', ids'), s')"
      using Cons.prems False by (auto simp: Let_def split: prod.splits option.splits)
    obtain ps where ps: "we_nws w (ToUpper (TrimSpace a)) = Inr ps" "nws_each cfg mint w h now ps 0 [] s = ((None, k, new), s1)"
      using p by (auto simp: pollNWSAlerts_def split: sum.splits prod.splits)
    have "signal_kept src ext r (st_db s')" if "signal_kept src ext r (st_db s1)" for src ext r
      using kept_signal.areas_good [of src ext r s1 cfg mint w h now "as" "n + k" "ids @ new"] that rest
      by (simp add: kept_signal.good_def)
    with nws_each_records [OF ps(2)] have "alerts_recorded w h ps (st_db s')" by (rule alerts_recorded_keep)
    with Cons.IH [OF rest] ps(1) show ?thesis by (simp add: feeds_recorded_def)
  qed
qed

lemma poll_areas_again:
  "feeds_recorded w h as (st_db s) \<Longrightarrow> \<exists>ids' s'. poll_areas cfg mint w h now as n ids s = ((None, n, ids'), s') \<and> st_db s' = st_db s"
proof (induction "as" arbitrary: ids s)
  case Nil
  then show ?case by simp
next
  case (Cons a "as")
  then have rest: "feeds_recorded w h as (st_db s)" by (simp add: feeds_recorded_def)
  show ?case
  proof (cases "TrimSpace a = []")
    case True
    with Cons.IH [OF rest] show ?thesis by simp
  next
    case False
    then obtain ps where ps: "we_nws w (ToUpper (TrimSpace a)) = Inr ps" "alerts_recorded w h ps (st_db s)"
      using Cons.prems by (auto simp: feeds_recorded_def split: sum.splits)
    obtain new s1 where s1: "nws_each cfg mint w h now ps 0 [] s = ((None, 0, new), s1)" "st_db s1 = st_db s"
      using nws_each_again [OF ps(2)] by blast
    have "feeds_recorded w h as (st_db s1)" using rest s1(2) by simp
    from Cons.IH [OF this, of "ids @ new"] show ?thesis using False ps(1) s1 by (auto simp: pollNWSAlerts_def)
  qed
qed

section \<open>Properties\<close>

text \<open>
  Property C32. Whatever requests, bot reports and polls arrive in whatever order, an incident whose exposure is internal
  never has a Discord room.
\<close>

theorem no_room_for_internal:
  "rooms_allowed (st_db s) \<Longrightarrow> rooms_allowed (st_db (run (incident_step cfg mint driver) es s))"
  by (rule rooms.run_keeps)

text \<open>
  Property C33. The same events keep the constraints of the schema and keep status, priority and exposure of every
  incident within their fixed sets of values, whatever the requests name.
\<close>

theorem incident_api_keeps_types:
  "incident_inv (st_db s) \<Longrightarrow> incident_inv (st_db (run (incident_step cfg mint driver) es s))"
  by (rule api.run_keeps)

text \<open>
  None of these events removes an incident or a signal, or changes what they are about: an incident
  keeps its title, type, priority, exposure, template, opener, notes, metadata and creation time, and its opening time
  once it is set; a signal keeps everything but its link to an incident.
\<close>

theorem incidents_and_signals_stay:
  assumes "find_incident i (st_db s) = Some r" "find_signal src ext (st_db s) = Some g"
  shows "(\<exists>r'. find_incident i (st_db (run (incident_step cfg mint driver) es s)) = Some r' \<and> same_incident r r') \<and>
    (\<exists>g'. find_signal src ext (st_db (run (incident_step cfg mint driver) es s)) = Some g' \<and> same_signal g g')"
  using kept_incident.run_keeps [of i r s cfg mint driver es] kept_signal.run_keeps [of src ext g s cfg mint driver es] assms
  by (simp add: kept_iff)

text \<open>
  Polling the same feeds again does nothing: after a poll of the weather areas that succeeds, and
  whatever happens in between, a second poll of the same alerts finds no new one, opens no incident and leaves the
  database as it is.
\<close>

theorem polling_again_opens_nothing:
  assumes "poll_areas cfg mint w h now as 0 [] s = ((None, n, ids), s1)"
  shows "\<exists>ids' s2. poll_areas cfg mint w h' later as 0 [] (run (incident_step cfg mint driver) es s1) = ((None, 0, ids'), s2) \<and>
    st_db s2 = st_db (run (incident_step cfg mint driver) es s1)"
proof (rule poll_areas_again, subst feeds_recorded_any [of w h' as _ h], rule feeds_recorded_keep [OF poll_areas_records [OF assms]])
  fix src ext r
  assume "signal_kept src ext r (st_db s1)"
  then show "signal_kept src ext r (st_db (run (incident_step cfg mint driver) es s1))" by (rule kept_signal.run_keeps)
qed


section \<open>Witnesses\<close>

definition example_mint :: mint where
  "example_mint kind n = kind @ format_int (int n)"

definition example_driver :: "db_error \<Rightarrow> string" where
  "example_driver e = ''driver error''"

definition example_hub_row :: HubIdentity where
  "example_hub_row = zero_identity\<lparr>hd_hub_id := ''h1'', hd_incident_management_enabled := True\<rparr>"

definition example_incident_cfg :: incident_config where
  "example_incident_cfg = \<lparr>ig_Hub = \<lparr>cfg_HubName = [], cfg_HubPublicURL = [], cfg_HubRegion = [], cfg_HubContact = [],
     cfg_HubFederation = False, cfg_HubTrustLevel = [], cfg_HubTrustIssuer = [], cfg_HubTrustCert = [],
     cfg_HubTrustExpires = 0\<rparr>, ig_DiscordBotWorkerToken = ''bot'', ig_DiscordBotInstances = [''a'', ''b''],
     ig_IncidentArchiveDays = 30\<rparr>"

definition example_handler :: authUser where
  "example_handler = \<lparr>au_ID = ''u1'', au_Email = ''h@x'', au_Role = ''incident_handler'', au_TxEnabled = False,
     au_DispatcherEnabled = False\<rparr>"

definition example_integration :: integrations_row where
  "example_integration = \<lparr>ii_id = ''t1'', ii_incident_id = ''inc1'', ii_kind = ''discord'', ii_status = ''stopping'',
     ii_bot_instance_id = ''a'', ii_config = empty_config\<lparr>gc_StreamToken := ''k''\<rparr>, ii_created_at = 10, ii_updated_at = 10\<rparr>"

definition example_station :: station where
  "example_station = \<lparr>st_db = example_incident_db\<lparr>t_hub_identity := Some example_hub_row,
     t_integrations := [example_integration]\<rparr>, st_bot = 0, st_ids = 0\<rparr>"

lemma example_station_find:
  "find_incident i (st_db example_station) = (if i = ''inc1'' then Some example_incident_row else None)"
  "find_signal ''nws'' ''w1'' (st_db example_station) = Some example_signal"
  by (simp_all add: example_station_def find_incident_def find_signal_def example_incident_db_def example_incident_row_def
      example_signal_def)

lemma example_station_ok: "incident_inv (st_db example_station)"
proof -
  have "db_ok (example_incident_db\<lparr>t_hub_identity := Some example_hub_row, t_integrations := [example_integration]\<rparr>)"
  proof (rule set_integrations_ok)
    show "db_ok (example_incident_db\<lparr>t_hub_identity := Some example_hub_row\<rparr>)"
      using example_incident_db_inv by (simp add: incident_inv_def)
  qed (simp_all add: uniq_def fkey_iff example_incident_db_def example_incident_row_def example_integration_def)
  then show ?thesis
    using example_incident_db_inv by (simp add: incident_inv_def example_station_def)
qed

lemma example_station_rooms: "rooms_allowed (st_db example_station)"
  unfolding rooms_allowed_def example_station_find
  by (simp add: example_station_def example_integration_def example_incident_row_def)

lemma example_manages:
  "\<exists>s1. requireIncidentManager example_incident_cfg example_mint (Some example_handler) now example_station = (Inr example_handler, s1) \<and>
     st_db s1 = st_db example_station"
proof -
  have "configuredHubIdentity (ig_Hub example_incident_cfg) example_hub_row = example_hub_row"
    by (simp add: configuredHubIdentity_def example_incident_cfg_def example_hub_row_def configured_trust_def)
  then have "ensureHubIdentity (ig_Hub example_incident_cfg) fresh now (st_db example_station) = (example_hub_row, st_db example_station)"
    for fresh
    by (simp add: ensureHubIdentity_def ensureConfiguredHubIdentity_def GetHubIdentity_def example_station_def same_configured_def)
  then show ?thesis
    by (simp add: requireIncidentManager_def requireAuthenticated_def canManageIncidents_def isIncidentHandler_def
        load_identity_def draw_def on_db_def incidentManagementAvailable_def example_handler_def)
      (simp add: example_hub_row_def zero_identity_def)
qed

theorem closing_shuts_down_witness:
  "\<exists>s'. handleCloseIncident example_incident_cfg example_mint (Some example_handler) ''inc1'' 50 example_station =
      (Reply 200 (IncidentReply (scanIncident (example_incident_row\<lparr>in_status := ''closed'', in_closed_at := 50, in_updated_at := 50\<rparr>))), s') \<and>
    incident_shut ''inc1'' (st_db s')"
proof -
  let ?x = "scanIncident (example_incident_row\<lparr>in_status := ''closed'', in_closed_at := 50, in_updated_at := 50\<rparr>)"
  obtain s1 where s1: "requireIncidentManager example_incident_cfg example_mint (Some example_handler) 50 example_station =
      (Inr example_handler :: incident_body reply + authUser, s1)" "st_db s1 = st_db example_station"
    using example_manages by blast
  have "\<exists>d2. CloseIncident ''inc1'' 50 (st_db s1) = (Inr ?x, d2)"
    by (simp add: CloseIncident_def update_incident_def s1(2) example_station_find)
  then obtain d2 where "CloseIncident ''inc1'' 50 (st_db s1) = (Inr ?x, d2)" by blast
  with s1(1) have "\<exists>s'. handleCloseIncident example_incident_cfg example_mint (Some example_handler) ''inc1'' 50 example_station =
      (Reply 200 (IncidentReply ?x), s')"
    by (simp add: handleCloseIncident_def on_db_def)
  then obtain s' where run: "handleCloseIncident example_incident_cfg example_mint (Some example_handler) ''inc1'' 50 example_station =
      (Reply 200 (IncidentReply ?x), s')" by blast
  have "db_ok (st_db example_station)" using example_station_ok by (simp add: incident_inv_def)
  from closing_shuts_down [OF this disjI1 [OF run]] run show ?thesis
    by (simp add: scanIncident_def example_incident_row_def)
qed

theorem incident_requests_guarded_witness:
  "reply_code (fst (serve_incident example_incident_cfg example_mint example_driver None (RqClose ''inc1'') 50 example_station)) \<in> {401, 403}"
  using incident_requests_guarded [of "RqClose ''inc1''" example_incident_cfg example_mint None 50 example_station example_driver]
  by (simp add: may_manage_def)

theorem late_completion_revives_witness:
  "\<exists>y s'. handleCompleteDiscordIncidentTask example_incident_cfg example_mint ''bot'' [] ''t1''
      (Some \<lparr>ct_VoiceChannelID = ''v'', ct_TextChannelID = [], ct_CategoryID = []\<rparr>) 60 example_station =
    (Reply 200 (UpdatedIntegration y), s') \<and> ii_status y = ''active''"
proof -
  have "(requireDiscordBotWorker example_incident_cfg ''bot'' [] :: incident_body reply option) = None"
    by code_simp
  moreover have "GetIncidentIntegrationByID ''t1'' (st_db example_station) = Some example_integration"
    by (simp add: GetIncidentIntegrationByID_def example_station_def example_integration_def)
  ultimately show ?thesis
    using late_completion_revives [of example_incident_cfg "''bot''" "[]" "''t1''" example_station example_integration example_mint
        "\<lparr>ct_VoiceChannelID = ''v'', ct_TextChannelID = [], ct_CategoryID = []\<rparr>" 60] by auto
qed

theorem no_room_for_internal_witness:
  "rooms_allowed (st_db (run (incident_step example_incident_cfg example_mint example_driver)
     [Request (Some example_handler) (RqActivate ''inc1'') 20, Report (''bot'', []) (BotStop ''t1'') 30] example_station))"
  by (rule no_room_for_internal [OF example_station_rooms])

theorem incident_api_keeps_types_witness:
  "incident_inv (st_db (run (incident_step example_incident_cfg example_mint example_driver)
     [Request (Some example_handler) (RqClose ''inc1'') 20, Request None (RqList ''1'') 30] example_station))"
  by (rule incident_api_keeps_types [OF example_station_ok])

theorem incidents_and_signals_stay_witness:
  "\<exists>r'. find_incident ''inc1'' (st_db (run (incident_step example_incident_cfg example_mint example_driver)
     [Request (Some example_handler) (RqActivate ''inc1'') 20] example_station)) = Some r' \<and> in_opened_at r' = 7"
proof -
  have "find_incident ''inc1'' (st_db example_station) = Some example_incident_row" by (simp add: example_station_find)
  from incidents_and_signals_stay [OF this example_station_find(2), of example_incident_cfg example_mint example_driver
      "[Request (Some example_handler) (RqActivate ''inc1'') 20]"]
  show ?thesis by (auto simp: same_incident_def example_incident_row_def)
qed

definition example_weather :: weather where
  "example_weather = \<lparr>we_nws = (\<lambda>_. Inr [\<lparr>np_ID = ''w1'', np_Event = ''Tornado Watch'', np_Headline = [], np_Severity = [], np_AreaDesc = []\<rparr>]),
     we_lsr = (\<lambda>_. Inl ''down''), we_json = (\<lambda>_. ''{}''), we_geometry = (\<lambda>_ _ _. True)\<rparr>"

theorem polling_again_opens_nothing_witness:
  "\<exists>ids s1 ids' s2. poll_areas example_incident_cfg example_mint example_weather example_hub_row 20 [''ny''] 0 [] example_station = ((None, 0, ids), s1) \<and>
     poll_areas example_incident_cfg example_mint example_weather example_hub_row 90 [''ny''] 0 [] s1 = ((None, 0, ids'), s2) \<and> st_db s2 = st_db s1"
proof -
  have "feeds_recorded example_weather example_hub_row [''ny''] (st_db example_station)"
    by (simp add: feeds_recorded_def alerts_recorded_def example_weather_def example_station_find)
  from poll_areas_again [OF this, of example_incident_cfg example_mint 20 0 "[]"] obtain ids s1 where run:
    "poll_areas example_incident_cfg example_mint example_weather example_hub_row 20 [''ny''] 0 [] example_station = ((None, 0, ids), s1)"
    by blast
  from polling_again_opens_nothing [OF this, where h' = example_hub_row and later = 90 and es = "[]"] run show ?thesis by auto
qed

end
