(* ===== verification/LiveHub.thy ===== *)
theory LiveHub
  imports AuthApi RadioSets
begin

text \<open>
  How a new call reaches whoever listens at the moment: the WebSocket hub of signed-in clients
  (\<open>server/internal/api/hub.go\<close>) and the fan-out to the public streams of radio sets (\<open>stream.go\<close>). Both keep a
  bounded queue per listener and never wait for a slow one: the hub drops the client, the streams drop the call.
  A channel is the list of what was sent and not yet received; what a connection has been written is kept beside
  it, so that delivery can be stated.
\<close>

section \<open>The hub of signed-in clients\<close>

definition clientSendBuffer :: nat where "clientSendBuffer = 256"

record 'm hubClient =
  hc_user :: authUser
  hc_send :: "'m list"

text \<open>
  A client is its number; \<open>hub_wire\<close> is what each connection has been written. A removed client's channel and
  connection are closed, so nothing of its queue is written any more.
\<close>

record 'm hub =
  hub_clients :: "nat \<rightharpoonup> 'm hubClient"
  hub_wire :: "nat \<Rightarrow> 'm list"

definition newHub :: "'m hub" where
  "newHub = \<lparr>hub_clients = Map.empty, hub_wire = (\<lambda>_. [])\<rparr>"

definition removeClientLocked :: "nat \<Rightarrow> 'm hub \<Rightarrow> 'm hub" where
  "removeClientLocked i h = (case hub_clients h i of None \<Rightarrow> h | Some _ \<Rightarrow> h\<lparr>hub_clients := (hub_clients h)(i := None)\<rparr>)"

definition enqueueLocked :: "nat \<Rightarrow> 'm \<Rightarrow> 'm hub \<Rightarrow> 'm hub" where
  "enqueueLocked i data h =
     (case hub_clients h i of
        None \<Rightarrow> h
      | Some c \<Rightarrow> if length (hc_send c) < clientSendBuffer
                  then h\<lparr>hub_clients := (hub_clients h)(i \<mapsto> c\<lparr>hc_send := hc_send c @ [data]\<rparr>)\<rparr>
                  else removeClientLocked i h)"

definition enqueueTo :: "nat \<Rightarrow> 'm \<Rightarrow> 'm hub \<Rightarrow> 'm hub" where
  "enqueueTo i data h = enqueueLocked i data h"

text \<open>The loop over the client map: what it does to one client depends on no other, so the order does not matter.\<close>

definition broadcastForUsers :: "(authUser \<Rightarrow> 'm) \<Rightarrow> 'm hub \<Rightarrow> 'm hub" where
  "broadcastForUsers build h = h\<lparr>hub_clients := (\<lambda>i. case hub_clients h i of None \<Rightarrow> None
     | Some c \<Rightarrow> hub_clients (enqueueLocked i (build (hc_user c)) h) i)\<rparr>"

definition broadcast :: "'m \<Rightarrow> 'm hub \<Rightarrow> 'm hub" where
  "broadcast msg = broadcastForUsers (\<lambda>_. msg)"

text \<open>One turn of the writer: a frame that is written, or an error that closes the connection.\<close>

definition writeLoop_step :: "nat \<Rightarrow> bool \<Rightarrow> 'm hub \<Rightarrow> 'm hub" where
  "writeLoop_step i written h =
     (case hub_clients h i of
        None \<Rightarrow> h
      | Some c \<Rightarrow> (case hc_send c of
            [] \<Rightarrow> h
          | data # rest \<Rightarrow>
              if written then h\<lparr>hub_clients := (hub_clients h)(i \<mapsto> c\<lparr>hc_send := rest\<rparr>),
                                 hub_wire := (hub_wire h)(i := hub_wire h i @ [data])\<rparr>
              else removeClientLocked i h))"

definition connect :: "nat \<Rightarrow> authUser \<Rightarrow> 'm hub \<Rightarrow> 'm hub" where
  "connect i user h = h\<lparr>hub_clients := (hub_clients h)(i \<mapsto> \<lparr>hc_user = user, hc_send = []\<rparr>), hub_wire := (hub_wire h)(i := [])\<rparr>"

datatype 'm hub_event =
    HubConnect nat authUser
  | HubBroadcast "authUser \<Rightarrow> 'm"
  | HubEnqueue nat 'm
  | HubWrite nat bool
  | HubClose nat

fun hub_step :: "'m hub_event \<Rightarrow> 'm hub \<Rightarrow> 'm hub" where
  "hub_step (HubConnect i u) h = connect i u h"
| "hub_step (HubBroadcast f) h = broadcastForUsers f h"
| "hub_step (HubEnqueue i m) h = enqueueTo i m h"
| "hub_step (HubWrite i ok) h = writeLoop_step i ok h"
| "hub_step (HubClose i) h = removeClientLocked i h"

section \<open>Public streams\<close>

record streamCallMeta =
  sm_ID :: int
  sm_Talkgroup :: int
  sm_TalkgroupLabel :: string
  sm_TalkgroupGroup :: string
  sm_DateTime :: int
  sm_Duration :: rat
  sm_Frequency :: int
  sm_SystemLabel :: string
  sm_AudioType :: string
  sm_TranscriptText :: string
  sm_Origin :: string
  sm_SenderUserID :: string
  sm_SenderEmail :: string
  sm_SourceID :: string
  sm_TalkgroupTag :: string
  sm_AudioName :: string

record streamChunk =
  chunk_audio :: bytes
  chunk_meta :: streamCallMeta

record streamListener =
  sl_ownerUserID :: string
  sl_radioSetID :: string
  sl_talkgroups :: "int set"
  sl_talkgroupGroups :: "string set"
  sl_sourceIDs :: "string set"

text \<open>A listener is registered with its number, which stands for its pointer, and its channel.\<close>

record subscription =
  sb_id :: nat
  sb_listener :: streamListener
  sb_ch :: "streamChunk list"

type_synonym streamHub = "subscription list"

definition stream_buffer :: nat where "stream_buffer = 32"

definition pttTalkgroupMin :: int where "pttTalkgroupMin = 9000000"
definition pttTalkgroupMax :: int where "pttTalkgroupMax = 9999999"

definition isPTTCall :: "Call \<Rightarrow> bool" where
  "isPTTCall c \<longleftrightarrow> ToLower (TrimSpace (ca_Origin c)) \<in> {''ptt'', ''ptt-dispatch''} \<or>
     (ca_Talkgroup c \<ge> pttTalkgroupMin \<and> ca_Talkgroup c \<le> pttTalkgroupMax)"

definition normalizeTalkgroupGroup :: "string \<Rightarrow> string" where
  "normalizeTalkgroupGroup g = ToLower (TrimSpace g)"

definition publicStreamSubscription :: "RadioSet \<Rightarrow> int list \<times> string list" where
  "publicStreamSubscription rs =
     (let groups = (if IsGroupsMode rs then rs_TalkgroupGroups rs else []);
          tgs = (if IsGroupsMode rs then [] else rs_Talkgroups rs) in
      case rs_PTTTalkgroup rs of None \<Rightarrow> (tgs, groups) | Some g \<Rightarrow> (tgs @ [g], groups @ [''PTT'']))"

definition matchesTalkgroup :: "streamListener \<Rightarrow> Call \<Rightarrow> bool" where
  "matchesTalkgroup l c \<longleftrightarrow> ca_Talkgroup c \<in> sl_talkgroups l \<or>
     (sl_talkgroupGroups l \<noteq> {} \<and> TrimSpace (ca_TalkgroupGroup c) \<noteq> [] \<and>
      normalizeTalkgroupGroup (TrimSpace (ca_TalkgroupGroup c)) \<in> sl_talkgroupGroups l)"

definition matchesCall :: "streamListener \<Rightarrow> Call \<Rightarrow> bool" where
  "matchesCall l c \<longleftrightarrow> isPTTCall c \<or> (sl_ownerUserID l \<noteq> [] \<and> sl_ownerUserID l = ca_UserID c) \<or>
     (ca_SourceID c \<noteq> [] \<and> ca_SourceID c \<in> sl_sourceIDs l)"

definition call_meta :: "Call \<Rightarrow> streamCallMeta" where
  "call_meta c = \<lparr>sm_ID = ca_ID c, sm_Talkgroup = ca_Talkgroup c, sm_TalkgroupLabel = ca_TalkgroupLabel c,
     sm_TalkgroupGroup = ca_TalkgroupGroup c, sm_DateTime = ca_DateTime c, sm_Duration = ca_Duration c,
     sm_Frequency = ca_Frequency c, sm_SystemLabel = ca_SystemLabel c, sm_AudioType = ca_AudioType c,
     sm_TranscriptText = ca_TranscriptText c, sm_Origin = ca_Origin c, sm_SenderUserID = ca_SenderUserID c,
     sm_SenderEmail = ca_SenderEmail c, sm_SourceID = ca_SourceID c, sm_TalkgroupTag = ca_TalkgroupTag c,
     sm_AudioName = ca_AudioName c\<rparr>"

definition push_one :: "Call \<Rightarrow> bytes \<Rightarrow> subscription \<Rightarrow> subscription" where
  "push_one c audio s =
     (if \<not> matchesTalkgroup (sb_listener s) c then s
      else if \<not> matchesCall (sb_listener s) c then s
      else if length (sb_ch s) < stream_buffer
           then s\<lparr>sb_ch := sb_ch s @ [\<lparr>chunk_audio = audio, chunk_meta = call_meta c\<rparr>]\<rparr>
      else s)"

definition push :: "Call \<Rightarrow> bytes \<Rightarrow> streamHub \<Rightarrow> streamHub" where
  "push c audio sh = map (push_one c audio) sh"

definition group_set :: "string list \<Rightarrow> string set" where
  "group_set gs = set (map normalizeTalkgroupGroup (filter (\<lambda>g. g \<noteq> []) (map TrimSpace gs)))"

definition subscribe ::
  "nat \<Rightarrow> string \<Rightarrow> string \<Rightarrow> int list \<Rightarrow> string list \<Rightarrow> string list \<Rightarrow> streamHub \<Rightarrow> streamHub" where
  "subscribe i owner rsid tgs groups sourceIDs sh =
     sh @ [\<lparr>sb_id = i, sb_listener = \<lparr>sl_ownerUserID = owner, sl_radioSetID = rsid, sl_talkgroups = set tgs,
               sl_talkgroupGroups = group_set groups, sl_sourceIDs = set (filter (\<lambda>s. s \<noteq> []) sourceIDs)\<rparr>, sb_ch = []\<rparr>]"

fun unsubscribe :: "nat \<Rightarrow> streamHub \<Rightarrow> streamHub" where
  "unsubscribe i [] = []"
| "unsubscribe i (s # sh) = (if sb_id s = i then sh else s # unsubscribe i sh)"

definition updateRadioSetTalkgroups :: "string \<Rightarrow> int list \<Rightarrow> string list \<Rightarrow> streamHub \<Rightarrow> streamHub" where
  "updateRadioSetTalkgroups rsid tgs groups sh =
     map (\<lambda>s. if sl_radioSetID (sb_listener s) = rsid
               then s\<lparr>sb_listener := (sb_listener s)\<lparr>sl_talkgroups := set tgs, sl_talkgroupGroups := group_set groups\<rparr>\<rparr>
               else s) sh"

text \<open>The stream's handler takes the next chunk off its channel.\<close>

fun receive :: "nat \<Rightarrow> streamHub \<Rightarrow> streamChunk option \<times> streamHub" where
  "receive i [] = (None, [])"
| "receive i (s # sh) =
     (if sb_id s = i then (case sb_ch s of [] \<Rightarrow> (None, s # sh) | x # xs \<Rightarrow> (Some x, s\<lparr>sb_ch := xs\<rparr> # sh))
      else (case receive i sh of (x, sh') \<Rightarrow> (x, s # sh')))"

section \<open>What the clients get\<close>

text \<open>What an event addresses to client \<open>i\<close> of user \<open>u\<close>, and the events that are not that client's own comings and goings.\<close>

fun addressed :: "nat \<Rightarrow> authUser \<Rightarrow> 'm hub_event \<Rightarrow> 'm list" where
  "addressed i u (HubBroadcast f) = [f u]"
| "addressed i u (HubEnqueue j m) = (if j = i then [m] else [])"
| "addressed i u e = []"

fun undisturbed :: "nat \<Rightarrow> 'm hub_event \<Rightarrow> bool" where
  "undisturbed i (HubConnect j u) = (j \<noteq> i)"
| "undisturbed i (HubClose j) = (j \<noteq> i)"
| "undisturbed i (HubWrite j written) = (j \<noteq> i \<or> written)"
| "undisturbed i e = True"

text \<open>
  Client \<open>i\<close> of user \<open>u\<close> was told \<open>told\<close>: either it is there and all of it is written or queued, in order, or it
  was dropped because more than its buffer was waiting, and what it was written is the beginning.
\<close>

definition kept_up :: "nat \<Rightarrow> authUser \<Rightarrow> 'm list \<Rightarrow> 'm hub \<Rightarrow> bool" where
  "kept_up i u told h \<longleftrightarrow>
     (case hub_clients h i of
        Some c \<Rightarrow> hc_user c = u \<and> hub_wire h i @ hc_send c = told \<and> length (hc_send c) \<le> clientSendBuffer
      | None \<Rightarrow> prefix (hub_wire h i) told \<and> length (hub_wire h i) + clientSendBuffer < length told)"

lemma enqueueLocked_other [simp]: "j \<noteq> i \<Longrightarrow> hub_clients (enqueueLocked j m h) i = hub_clients h i"
  by (simp add: enqueueLocked_def removeClientLocked_def split: option.split)

lemma hub_wire_simps [simp]:
  "hub_wire (removeClientLocked j h) = hub_wire h" "hub_wire (enqueueLocked j m h) = hub_wire h"
  "hub_wire (enqueueTo j m h) = hub_wire h" "hub_wire (broadcastForUsers f h) = hub_wire h"
  by (simp_all add: removeClientLocked_def enqueueLocked_def enqueueTo_def broadcastForUsers_def split: option.split)

lemma kept_up_enqueue:
  assumes "kept_up i u told h"
  shows "kept_up i u (told @ [m]) (enqueueLocked i m h)"
  using assms by (auto simp: kept_up_def enqueueLocked_def removeClientLocked_def prefix_append split: option.splits)

lemma kept_up_same:
  "hub_clients h' i = hub_clients h i \<Longrightarrow> hub_wire h' i = hub_wire h i \<Longrightarrow> kept_up i u told h' = kept_up i u told h"
  by (simp add: kept_up_def split: option.split)

lemma broadcast_client: "kept_up i u told h \<Longrightarrow> kept_up i u (told @ [f u]) (broadcastForUsers f h)"
proof (cases "hub_clients h i")
  case None
  moreover assume "kept_up i u told h"
  ultimately show ?thesis by (auto simp: kept_up_def broadcastForUsers_def)
next
  case (Some c)
  moreover assume kept: "kept_up i u told h"
  ultimately have "hc_user c = u" by (simp add: kept_up_def)
  with Some have "hub_clients (broadcastForUsers f h) i = hub_clients (enqueueLocked i (f u) h) i"
    by (simp add: broadcastForUsers_def)
  then show ?thesis using kept_up_enqueue [OF kept, of "f u"] by (simp add: kept_up_def split: option.splits)
qed

lemma kept_up_step:
  assumes "kept_up i u told h" "undisturbed i e"
  shows "kept_up i u (told @ addressed i u e) (hub_step e h)"
proof (cases e)
  case (HubConnect j v)
  with assms show ?thesis by (simp add: kept_up_def connect_def split: option.splits)
next
  case (HubBroadcast f)
  with broadcast_client [OF assms(1)] show ?thesis by simp
next
  case (HubEnqueue j m)
  show ?thesis
  proof (cases "j = i")
    case True
    with HubEnqueue kept_up_enqueue [OF assms(1)] show ?thesis by (simp add: enqueueTo_def)
  next
    case False
    then have "kept_up i u told (enqueueTo j m h) = kept_up i u told h"
      by (intro kept_up_same) (simp_all add: enqueueTo_def)
    with HubEnqueue False assms(1) show ?thesis by simp
  qed
next
  case (HubWrite j written)
  show ?thesis
  proof (cases "j = i")
    case True
    with HubWrite assms show ?thesis
      by (auto simp: kept_up_def writeLoop_step_def split: option.splits list.splits)
  next
    case False
    then have "kept_up i u told (writeLoop_step j written h) = kept_up i u told h"
      by (intro kept_up_same) (auto simp: writeLoop_step_def removeClientLocked_def split: option.splits list.splits)
    with HubWrite assms show ?thesis by simp
  qed
next
  case (HubClose j)
  with assms show ?thesis by (auto simp: kept_up_def removeClientLocked_def split: option.splits)
qed

lemma kept_up_run:
  "kept_up i u told h \<Longrightarrow> list_all (undisturbed i) es \<Longrightarrow>
   kept_up i u (told @ concat (map (addressed i u) es)) (run hub_step es h)"
proof (induction es arbitrary: told h)
  case (Cons e es)
  then show ?case using Cons.IH [OF kept_up_step [of i u told h e]] by simp
qed simp

text \<open>
  Property C4. Whatever else happens at the hub, a connected client is written exactly what is broadcast or
  addressed to it, in order and without gaps; a slow client never holds up another, and is dropped only when more
  than 256 messages wait for it.
\<close>

theorem live_delivery:
  assumes "list_all (undisturbed i) es"
  shows "let h' = run hub_step es (connect i u h); told = concat (map (addressed i u) es) in
    case hub_clients h' i of
      Some c \<Rightarrow> hub_wire h' i @ hc_send c = told \<and> length (hc_send c) \<le> 256
    | None \<Rightarrow> prefix (hub_wire h' i) told \<and> length (hub_wire h' i) + 256 < length told"
proof -
  have "kept_up i u [] (connect i u h)" by (simp add: kept_up_def connect_def)
  from kept_up_run [OF this assms] show ?thesis
    by (simp add: kept_up_def Let_def clientSendBuffer_def split: option.splits)
qed

definition example_listener :: authUser where
  "example_listener = \<lparr>au_ID = ''usr_6000'', au_Email = ''l@x'', au_Role = ''user'', au_TxEnabled = False,
     au_DispatcherEnabled = False\<rparr>"

theorem live_delivery_witness:
  "\<exists>c. hub_clients (run hub_step [HubBroadcast au_ID, HubConnect 2 example_listener, HubEnqueue 1 ''x'', HubWrite 1 True]
       (connect 1 example_listener newHub)) 1 = Some c \<and> hc_send c = [''x'']"
proof -
  let ?es = "[HubBroadcast au_ID, HubConnect 2 example_listener, HubEnqueue 1 ''x'', HubWrite 1 True]"
  let ?h = "run hub_step ?es (connect 1 example_listener newHub)"
  have "hub_wire ?h 1 = [''usr_6000'']"
    by (simp add: newHub_def connect_def broadcastForUsers_def enqueueTo_def enqueueLocked_def writeLoop_step_def
        clientSendBuffer_def example_listener_def)
  with live_delivery [of 1 ?es example_listener newHub] show ?thesis
    by (auto simp: Let_def example_listener_def split: option.splits)
qed

text \<open>
  A call reaches a public stream exactly when its talkgroup and its access match and fewer than 32 calls wait
  there; every other stream is left as it is.
\<close>

theorem stream_fanout:
  "map sb_ch (push c audio sh) = map (\<lambda>s. if matchesTalkgroup (sb_listener s) c \<and> matchesCall (sb_listener s) c \<and>
     length (sb_ch s) < 32 then sb_ch s @ [\<lparr>chunk_audio = audio, chunk_meta = call_meta c\<rparr>] else sb_ch s) sh \<and>
   map sb_listener (push c audio sh) = map sb_listener sh"
  by (simp add: push_def push_one_def stream_buffer_def)

lemma group_set_iff: "g \<in> group_set gs \<longleftrightarrow> (\<exists>x \<in> set gs. TrimSpace x \<noteq> [] \<and> g = normalizeTalkgroupGroup x)"
  by (force simp: group_set_def normalizeTalkgroupGroup_def image_iff)

lemma unsubscribe_subscribe: "i \<notin> sb_id ` set sh \<Longrightarrow> unsubscribe i (subscribe i o' r tgs gs ss sh) = sh"
  by (induction sh) (auto simp: subscribe_def)


end
