(* ===== verification/Audio.thy ===== *)
theory Audio
  imports Wire
begin

unbundle bit_operations_syntax

text \<open>
  \<open>server/internal/api/audio.go\<close> and the audio functions of \<open>call_upload.go\<close>: naming the type of an upload,
  estimating its length, and choosing what is transcoded before it is stored or served. The transcoder (ffmpeg)
  and the system's table of file types are arguments.
\<close>

section \<open>File names\<close>

text \<open>\<open>filepath.Ext\<close>: from the last dot of the last path element.\<close>

fun ext_scan :: "string \<Rightarrow> string \<Rightarrow> string" where
  "ext_scan acc [] = []"
| "ext_scan acc (c # cs) = (if c = CHR ''/'' then [] else if c = CHR ''.'' then c # acc else ext_scan (c # acc) cs)"

definition Ext :: "string \<Rightarrow> string" where
  "Ext path = ext_scan [] (rev path)"

definition TrimSuffix :: "string \<Rightarrow> string \<Rightarrow> string" where
  "TrimSuffix s suf = (if HasPrefix (rev s) (rev suf) then take (length s - length suf) s else s)"

definition first_part :: "char \<Rightarrow> string \<Rightarrow> string" where
  "first_part c s = takeWhile (\<lambda>x. x \<noteq> c) s"

definition audioNameWithExt :: "string \<Rightarrow> string \<Rightarrow> string" where
  "audioNameWithExt audioName ext =
     (let trimmed = TrimSpace audioName; currentExt = Ext trimmed in
      if trimmed = [] then ''call-audio'' @ ext
      else if currentExt = [] then trimmed @ ext
      else TrimSuffix trimmed currentExt @ ext)"

definition defaultCallAudioName :: "int \<Rightarrow> string \<Rightarrow> string" where
  "defaultCallAudioName i audioName = (if TrimSpace audioName \<noteq> [] then audioName else ''call-'' @ format_int i @ ''.mp3'')"

section \<open>The type and length of an upload\<close>

definition normalizeAudioType :: "string \<Rightarrow> string" where
  "normalizeAudioType value =
     (let t = ToLower (TrimSpace value) in
      if t = [] \<or> t = ''application/octet-stream'' then []
      else if t = ''audio/x-m4a'' \<or> t = ''audio/m4a'' then ''audio/mp4''
      else if HasPrefix t ''audio/'' then t else [])"

definition type_by_ext :: "string \<Rightarrow> string" where
  "type_by_ext ext =
     (case [''.m4a'' \<mapsto> ''audio/mp4'', ''.mp3'' \<mapsto> ''audio/mpeg'', ''.wav'' \<mapsto> ''audio/wav'', ''.aac'' \<mapsto> ''audio/aac'',
            ''.webm'' \<mapsto> ''audio/webm'', ''.ogg'' \<mapsto> ''audio/ogg'', ''.oga'' \<mapsto> ''audio/ogg''] ext of
        None \<Rightarrow> [] | Some t \<Rightarrow> t)"

text \<open>\<open>mime\<close> is \<open>mime.TypeByExtension\<close>, which reads the system's tables.\<close>

definition resolveAudioType :: "(string \<Rightarrow> string) \<Rightarrow> string \<Rightarrow> string \<Rightarrow> string \<Rightarrow> string" where
  "resolveAudioType mime uploadType audioName audioPartType =
     (if normalizeAudioType uploadType \<noteq> [] then normalizeAudioType uploadType
      else if normalizeAudioType audioPartType \<noteq> [] then normalizeAudioType audioPartType
      else (let ext = ToLower (Ext (TrimSpace audioName)) in
        if type_by_ext ext \<noteq> [] then type_by_ext ext
        else if ext \<noteq> [] \<and> normalizeAudioType (mime ext) \<noteq> [] then normalizeAudioType (mime ext)
        else ''audio/mpeg''))"

definition mpeg1Layer3Bitrates :: "int list" where
  "mpeg1Layer3Bitrates = [0, 32000, 40000, 48000, 56000, 64000, 80000, 96000, 112000, 128000, 160000, 192000,
     224000, 256000, 320000, 0]"

fun readMP3Bitrate :: "bytes \<Rightarrow> int" where
  "readMP3Bitrate (a # b # c # d # rest) =
     (if a \<noteq> 0xFF \<or> b AND 0xE0 \<noteq> 0xE0 then readMP3Bitrate (b # c # d # rest)
      else (let idx = drop_bit 4 c AND 0x0F in
        if idx = 0 \<or> idx = 15 then readMP3Bitrate (b # c # d # rest)
        else mpeg1Layer3Bitrates ! unat idx))"
| "readMP3Bitrate _ = 0"

text \<open>\<open>strings.Contains\<close>.\<close>

fun contains_text :: "string \<Rightarrow> string \<Rightarrow> bool" where
  "contains_text [] t = (t = [])"
| "contains_text (c # cs) t = (HasPrefix (c # cs) t \<or> contains_text cs t)"

definition estimate_bitrate :: "bytes \<Rightarrow> string \<Rightarrow> int" where
  "estimate_bitrate audio audioType =
     (if contains_text audioType ''mpeg'' \<and> readMP3Bitrate audio > 0 then readMP3Bitrate audio else 64000)"

definition estimateAudioDuration :: "bytes \<Rightarrow> string \<Rightarrow> rat" where
  "estimateAudioDuration audio audioType =
     (if audio = [] then 0 else of_nat (length audio) * 8 / of_int (estimate_bitrate audio audioType))"

section \<open>Transcoding\<close>

text \<open>What ffmpeg makes of a clip: \<open>None\<close> when it fails or is not installed.\<close>

record transcoder =
  tc_mp3 :: "bytes \<Rightarrow> bytes option"
  tc_m4a :: "bytes \<Rightarrow> string \<Rightarrow> bytes option"

definition browserPlayableAudio :: "string \<Rightarrow> string \<Rightarrow> bool" where
  "browserPlayableAudio audioType audioName =
     (let t = ToLower (TrimSpace (first_part (CHR '';'') audioType));
          ext = ToLower (Ext (TrimSpace audioName)) in
      if t \<in> set [''audio/mpeg'', ''audio/mp3'', ''audio/mp4'', ''audio/aac'', ''audio/wav'', ''audio/wave'',
        ''audio/x-wav'', ''audio/ogg'', ''audio/webm'', ''audio/flac''] then True
      else if t \<in> set [''audio/aiff'', ''audio/x-aiff''] then False
      else if ext \<in> set [''.mp3'', ''.m4a'', ''.aac'', ''.wav'', ''.ogg'', ''.oga'', ''.webm'', ''.flac''] then True
      else if ext \<in> set [''.aif'', ''.aiff''] then False
      else HasPrefix t ''audio/'')"

definition ascii :: "string \<Rightarrow> bytes" where
  "ascii s = map (\<lambda>c. word_of_nat (of_char c)) s"

definition audioIsMP4Container :: "bytes \<Rightarrow> bool" where
  "audioIsMP4Container audio \<longleftrightarrow> length audio \<ge> 12 \<and> take 4 (drop 4 audio) = ascii ''ftyp''"

definition audioIsWAV :: "bytes \<Rightarrow> bool" where
  "audioIsWAV audio \<longleftrightarrow> length audio \<ge> 12 \<and> take 4 audio = ascii ''RIFF'' \<and> take 4 (drop 8 audio) = ascii ''WAVE''"

definition streamAudioIsMP3 :: "string \<Rightarrow> bytes \<Rightarrow> bool" where
  "streamAudioIsMP3 audioType audio =
     (if audioIsMP4Container audio \<or> audioIsWAV audio then False
      else if length audio \<ge> 3 \<and> take 3 audio = ascii ''ID3'' then True
      else if length audio \<ge> 2 \<and> audio ! 0 = 0xFF \<and> audio ! 1 AND 0xE0 = 0xE0 then True
      else readMP3Bitrate audio > 0)"

text \<open>The clip, its type and whether transcoding failed.\<close>

definition preparePublicStreamAudio :: "transcoder \<Rightarrow> bytes \<Rightarrow> string \<Rightarrow> bool \<Rightarrow> bytes \<times> string \<times> bool" where
  "preparePublicStreamAudio tc audio audioType wantMP3 =
     (if \<not> wantMP3 \<or> audio = [] then (audio, if audioType = [] then ''audio/mpeg'' else audioType, False)
      else if streamAudioIsMP3 audioType audio then (audio, ''audio/mpeg'', False)
      else (case tc_mp3 tc audio of None \<Rightarrow> (audio, audioType, True) | Some mp3 \<Rightarrow> (mp3, ''audio/mpeg'', False)))"

definition pttPreferredAudioType :: string where "pttPreferredAudioType = ''audio/mp4''"

definition pttAudioNeedsNormalize :: "string \<Rightarrow> bool" where
  "pttAudioNeedsNormalize audioType =
     (let t = ToLower (TrimSpace audioType) in
      if contains_text t ''opus'' then True
      else first_part (CHR '';'') t \<notin> set [''audio/mp4'', ''audio/m4a'', ''audio/x-m4a'', ''audio/aac'', ''audio/mpeg'', ''audio/mp3''])"

definition storePTTAudioAsUploaded :: "bytes \<Rightarrow> string \<Rightarrow> string \<Rightarrow> bytes \<times> string \<times> string" where
  "storePTTAudioAsUploaded audio audioType audioName =
     (let t = ToLower (TrimSpace audioType) in
      (audio, if t = [] then ''audio/webm'' else audioType,
       if contains_text t ''webm'' then audioNameWithExt audioName ''.webm''
       else if TrimSpace audioName = [] then ''ptt.bin'' else audioName))"

definition normalizePTTAudio :: "transcoder \<Rightarrow> bytes \<Rightarrow> string \<Rightarrow> string \<Rightarrow> bytes \<times> string \<times> string" where
  "normalizePTTAudio tc audio audioType audioName =
     (if \<not> pttAudioNeedsNormalize audioType
      then (audio, if audioType = [] then pttPreferredAudioType else audioType,
            if TrimSpace audioName = [] then ''ptt.m4a'' else audioName)
      else (case tc_m4a tc audio audioType of
          None \<Rightarrow> storePTTAudioAsUploaded audio audioType audioName
        | Some out \<Rightarrow> (out, pttPreferredAudioType, audioNameWithExt audioName ''.m4a'')))"

record audio_reply =
  ar_body :: bytes
  ar_type :: string
  ar_name :: string
  ar_attachment :: bool
  ar_cache :: string

definition serveAudioBytes :: "transcoder \<Rightarrow> bytes \<Rightarrow> string \<Rightarrow> string \<Rightarrow> bool \<Rightarrow> string \<Rightarrow> audio_reply" where
  "serveAudioBytes tc audio audioType0 audioName0 download cacheControl =
     (let audioType = (if audioType0 = [] then ''audio/mpeg'' else audioType0);
          audioName = (if TrimSpace audioName0 = [] then ''call-audio.mp3'' else audioName0);
          (body, ty, name) =
            (if pttAudioNeedsNormalize audioType then
               (case tc_m4a tc audio audioType of
                  Some m4a \<Rightarrow> (m4a, pttPreferredAudioType, audioNameWithExt audioName ''.m4a'')
                | None \<Rightarrow> (audio, audioType, audioName))
             else if \<not> download \<and> \<not> browserPlayableAudio audioType audioName then
               (case tc_mp3 tc audio of
                  Some mp3 \<Rightarrow> (mp3, ''audio/mpeg'', audioNameWithExt audioName ''.mp3'')
                | None \<Rightarrow> (audio, audioType, audioName))
             else (audio, audioType, audioName)) in
      \<lparr>ar_body = body, ar_type = ty, ar_name = name, ar_attachment = download, ar_cache = cacheControl\<rparr>)"

section \<open>Bounds\<close>

lemma drop4_lt: "unat (drop_bit 4 (c :: 8 word) AND 0x0F) < 16"
proof -
  have "drop_bit 4 c AND 0x0F = take_bit 4 (drop_bit 4 c)" by (simp add: take_bit_eq_mask mask_numeral)
  then have "unat (drop_bit 4 c AND 0x0F) = take_bit 4 (unat (drop_bit 4 c))"
    by (simp add: unsigned_take_bit_eq)
  then show ?thesis by (simp add: take_bit_eq_mod)
qed

lemma bitrate_nth: "k < 16 \<Longrightarrow> k \<noteq> 0 \<Longrightarrow> k \<noteq> 15 \<Longrightarrow> 32000 \<le> mpeg1Layer3Bitrates ! k \<and> mpeg1Layer3Bitrates ! k \<le> 320000"
  by (auto simp: mpeg1Layer3Bitrates_def less_Suc_eq numeral_eq_Suc)

lemma readMP3Bitrate_range: "readMP3Bitrate audio = 0 \<or> 32000 \<le> readMP3Bitrate audio \<and> readMP3Bitrate audio \<le> 320000"
proof (induction audio rule: readMP3Bitrate.induct)
  case (1 a b c d rest)
  let ?idx = "drop_bit 4 c AND 0x0F"
  have "32000 \<le> mpeg1Layer3Bitrates ! unat ?idx \<and> mpeg1Layer3Bitrates ! unat ?idx \<le> 320000" if "?idx \<noteq> 0" "?idx \<noteq> 15"
    using that by (intro bitrate_nth drop4_lt) (auto simp: word_unat_eq_iff)
  with 1 show ?case by (simp add: Let_def)
qed simp_all

text \<open>
  The length estimated for a clip without one is that of its size at some MP3 bitrate: the
  division is never by zero, and the result lies between the sizes at 320 and at 32 kbit/s.
\<close>

theorem estimated_duration_bounds:
  "of_nat (length audio) * 8 / 320000 \<le> estimateAudioDuration audio audioType \<and>
   estimateAudioDuration audio audioType \<le> of_nat (length audio) * 8 / 32000"
proof -
  have "32000 \<le> estimate_bitrate audio audioType" "estimate_bitrate audio audioType \<le> 320000"
    using readMP3Bitrate_range [of audio] by (auto simp: estimate_bitrate_def)
  then have "(32000 :: rat) \<le> of_int (estimate_bitrate audio audioType)" "of_int (estimate_bitrate audio audioType) \<le> (320000 :: rat)"
    by (metis of_int_le_iff of_int_numeral)+
  then have "of_nat (length audio) * 8 / 320000 \<le> (of_nat (length audio) * 8 / of_int (estimate_bitrate audio audioType) :: rat)"
    "(of_nat (length audio) * 8 / of_int (estimate_bitrate audio audioType) :: rat) \<le> of_nat (length audio) * 8 / 32000"
    by (intro frac_le; simp)+
  then show ?thesis by (simp add: estimateAudioDuration_def)
qed

text \<open>Whatever an upload says of itself, its type becomes an audio type.\<close>

lemma contains_text_iff: "contains_text s t \<longleftrightarrow> sublist t s"
  by (induction s) (auto simp: sublist_Cons_right)

lemma normalizeAudioType_audio: "normalizeAudioType v \<noteq> [] \<Longrightarrow> HasPrefix (normalizeAudioType v) ''audio/''"
  by (auto simp: normalizeAudioType_def Let_def HasPrefix_iff split: if_splits)

lemma type_by_ext_audio: "type_by_ext e \<noteq> [] \<Longrightarrow> HasPrefix (type_by_ext e) ''audio/''"
  by (auto simp: type_by_ext_def HasPrefix_iff split: if_splits option.splits)

theorem resolved_type_is_audio: "HasPrefix (resolveAudioType mime uploadType audioName audioPartType) ''audio/''"
  unfolding resolveAudioType_def Let_def
  by (auto intro: normalizeAudioType_audio [simplified] type_by_ext_audio [simplified] split: if_splits)

text \<open>
  What is served is the stored clip unless a transcoder succeeded; and everything but MP4, AAC and MP3 goes through
  the transcoder, WAV, OGG and FLAC included, also when it is downloaded.
\<close>

theorem served_audio:
  "serveAudioBytes tc audio t name download cache =
     (let t' = (if t = [] then ''audio/mpeg'' else t); n = (if TrimSpace name = [] then ''call-audio.mp3'' else name) in
      if pttAudioNeedsNormalize t' \<and> tc_m4a tc audio t' \<noteq> None
      then \<lparr>ar_body = the (tc_m4a tc audio t'), ar_type = ''audio/mp4'', ar_name = audioNameWithExt n ''.m4a'',
            ar_attachment = download, ar_cache = cache\<rparr>
      else if \<not> pttAudioNeedsNormalize t' \<and> \<not> download \<and> \<not> browserPlayableAudio t' n \<and> tc_mp3 tc audio \<noteq> None
      then \<lparr>ar_body = the (tc_mp3 tc audio), ar_type = ''audio/mpeg'', ar_name = audioNameWithExt n ''.mp3'',
            ar_attachment = download, ar_cache = cache\<rparr>
      else \<lparr>ar_body = audio, ar_type = t', ar_name = n, ar_attachment = download, ar_cache = cache\<rparr>)"
proof -
  define t' where "t' = (if t = [] then ''audio/mpeg'' else t)"
  define n where "n = (if TrimSpace name = [] then ''call-audio.mp3'' else name)"
  show ?thesis
    unfolding serveAudioBytes_def Let_def t'_def [symmetric] n_def [symmetric] pttPreferredAudioType_def
    by (cases "pttAudioNeedsNormalize t'"; cases "tc_m4a tc audio t'"; cases "tc_mp3 tc audio") simp_all
qed

theorem wav_download_is_m4a:
  assumes "tc_m4a tc audio ''audio/wav'' = Some m4a"
  shows "serveAudioBytes tc audio ''audio/wav'' ''call.wav'' True cache =
    \<lparr>ar_body = m4a, ar_type = ''audio/mp4'', ar_name = ''call.m4a'', ar_attachment = True, ar_cache = cache\<rparr>"
proof -
  have "pttAudioNeedsNormalize ''audio/wav''" "audioNameWithExt ''call.wav'' ''.m4a'' = ''call.m4a''"
    "TrimSpace ''call.wav'' \<noteq> []"
    subgoal by code_simp
    subgoal by code_simp
    subgoal by code_simp
    done
  with assms show ?thesis by (simp add: served_audio)
qed


end
