(* ===== verification/CallApi.thy ===== *)
theory CallApi
  imports Conversations Intake LiveHub Audio
begin

text \<open>
  \<open>server/internal/api/calls.go\<close>: who may read a call, what is blanked out for everyone else, and the handlers
  that list calls and conversations, serve a call's audio, replay missed calls to a client that reconnects and
  broadcast a new call to the connected ones.
\<close>

section \<open>Access\<close>

definition sourceAccessMap :: "db \<Rightarrow> string \<rightharpoonup> IngestionSource" where
  "sourceAccessMap d = foldl (\<lambda>m s. m(is_ID s \<mapsto> s)) Map.empty (ListIngestionSources False d)"

definition sharedSourceIDsForUser :: "authUser \<Rightarrow> db \<Rightarrow> string \<Rightarrow> bool" where
  "sharedSourceIDsForUser u d = (if isAdmin u then (\<lambda>_. False) else ListSharedSourceIDsForUser (au_ID u) d)"

definition canReadCall :: "authUser \<Rightarrow> Call \<Rightarrow> (string \<rightharpoonup> IngestionSource) \<Rightarrow> (string \<Rightarrow> bool) \<Rightarrow> bool" where
  "canReadCall u c sourceByID shared =
     (if isAdmin u then True
      else (case (if ca_SourceID c \<noteq> [] then sourceByID (ca_SourceID c) else None) of
          Some s \<Rightarrow> is_UserID s = au_ID u \<or> is_IsShared s \<or>
            (IsFederatedSourceID (ca_SourceID c) \<and> is_Enabled s \<and> is_DeletedAt s = 0) \<or> shared (ca_SourceID c)
        | None \<Rightarrow> ca_UserID c \<noteq> [] \<and> ca_UserID c = au_ID u))"

definition redactCall :: "Call \<Rightarrow> Call" where
  "redactCall c = c\<lparr>ca_UserID := [], ca_System := 0, ca_SystemLabel := ''REDACTED'', ca_Talkgroup := 0,
     ca_TalkgroupLabel := ''REDACTED'', ca_TalkgroupGroup := ''REDACTED'', ca_TalkgroupTag := [], ca_Frequency := 0,
     ca_AudioName := [], ca_AudioType := [], ca_Redacted := True\<rparr>"

definition redactCallsForUser :: "authUser \<Rightarrow> Call list \<Rightarrow> (string \<rightharpoonup> IngestionSource) \<Rightarrow> (string \<Rightarrow> bool) \<Rightarrow> Call list" where
  "redactCallsForUser u cs sourceByID shared = map (\<lambda>c. if canReadCall u c sourceByID shared then c else redactCall c) cs"

definition clearTranscriptStatus :: "Call list \<Rightarrow> Call list" where
  "clearTranscriptStatus cs = map sanitizeCallTranscriptionFields cs"

section \<open>Handlers\<close>

definition handleListCallGroups :: "authUser option \<Rightarrow> db \<Rightarrow> string list reply" where
  "handleListCallGroups ctx d = (case requireAuthenticated ctx of Inl e \<Rightarrow> e
     | Inr u \<Rightarrow> Reply 200 (ListTalkgroupGroups (au_ID u) (isAdmin u) d))"

definition handleListCalls :: "transcription_config \<Rightarrow> authUser option \<Rightarrow> query \<Rightarrow> db \<Rightarrow> Call list reply" where
  "handleListCalls cfg ctx q d =
     (case requireAuthenticated ctx of Inl e \<Rightarrow> e
      | Inr u \<Rightarrow>
          (let calls = ListCalls (listCallsParamsFromRequest q) d;
               shown = redactCallsForUser u calls (sourceAccessMap d) (sharedSourceIDsForUser u d) in
           Reply 200 (if transcriptionEnabled cfg then shown else clearTranscriptStatus shown)))"

definition conversation_key :: "string \<Rightarrow> Conversation \<Rightarrow> rat" where
  "conversation_key sortBy v =
     (let k = ToLower sortBy; c = cv_Call v in
      if k = ''duration'' then ca_Duration c
      else if k = ''frequency'' then of_int (ca_Frequency c)
      else if k = ''talkgroup'' then of_int (ca_Talkgroup c)
      else of_int (ca_DateTime c))"

definition sortConversations :: "string \<Rightarrow> string \<Rightarrow> Conversation list \<Rightarrow> Conversation list" where
  "sortConversations sortBy order vs =
     (if ToUpper order \<noteq> ''ASC''
      then sort_key (\<lambda>v. (- conversation_key sortBy v, - ca_ID (cv_Call v))) vs
      else sort_key (\<lambda>v. (conversation_key sortBy v, ca_ID (cv_Call v))) vs)"

definition handleListConversations ::
  "transcription_config \<Rightarrow> rat \<Rightarrow> authUser option \<Rightarrow> query \<Rightarrow> db \<Rightarrow> Conversation list reply" where
  "handleListConversations cfg gapSeconds ctx q d =
     (case requireAuthenticated ctx of Inl e \<Rightarrow> e
      | Inr u \<Rightarrow>
          (let params = listCallsParamsFromRequest q; pageLimit = lp_Limit params; offset = lp_Offset params;
               calls = ListCalls (params\<lparr>lp_Limit := 1000, lp_Offset := 0\<rparr>) d;
               visible = map (\<lambda>c. if transcriptionEnabled cfg then c else sanitizeCallTranscriptionFields c)
                 (filter (\<lambda>c. canReadCall u c (sourceAccessMap d) (sharedSourceIDsForUser u d)) calls);
               conversations = sortConversations (lp_SortBy params) (lp_Order params)
                 (GroupCallsIntoConversations visible gapSeconds) in
           if offset \<ge> int (length conversations) then Reply 200 []
           else Reply 200 (take (nat pageLimit) (drop (nat offset) conversations))))"

definition zero_call :: Call where
  "zero_call = \<lparr>ca_ID = 0, ca_UserID = [], ca_SourceID = [], ca_Redacted = False, ca_DateTime = 0, ca_System = 0,
     ca_SystemLabel = [], ca_Talkgroup = 0, ca_TalkgroupLabel = [], ca_TalkgroupGroup = [], ca_TalkgroupTag = [],
     ca_Frequency = 0, ca_Duration = 0, ca_AudioName = [], ca_AudioType = [], ca_TranscriptText = [],
     ca_TranscriptStatus = [], ca_TranscriptProvider = [], ca_Origin = [], ca_SenderUserID = [], ca_SenderEmail = [],
     ca_CreatedAt = 0\<rparr>"

text \<open>The id is looked up before the caller is asked who he is.\<close>

definition handleCallAudio ::
  "transcoder \<Rightarrow> authUser option \<Rightarrow> string \<Rightarrow> query \<Rightarrow> db \<Rightarrow> audio_reply reply" where
  "handleCallAudio tc ctx idParam q d =
     (case ParseInt idParam of (i, ok) \<Rightarrow>
        if \<not> ok then Fail 400 ''invalid id''
        else (case GetCallAudio i d of
            Inl _ \<Rightarrow> Fail 404 ''not found''
          | Inr (audio, audioType, audioName, owner, src) \<Rightarrow>
              (case requireAuthenticated ctx of Inl e \<Rightarrow> e
               | Inr u \<Rightarrow>
                   (let sourceByID = (if src \<noteq> [] then (case GetIngestionSource src d of
                           Some s \<Rightarrow> [is_ID s \<mapsto> s] | None \<Rightarrow> Map.empty) else Map.empty);
                        probe = zero_call\<lparr>ca_UserID := owner, ca_SourceID := src\<rparr> in
                    if \<not> canReadCall u probe sourceByID (sharedSourceIDsForUser u d) then Fail 403 ''forbidden''
                    else Reply 200 (serveAudioBytes tc audio audioType (defaultCallAudioName i audioName)
                       (q ''download'' = ''1'') ''private, max-age=3600'')))))"

section \<open>The WebSocket\<close>

datatype ws_event =
    WsCall Call string
  | WsReplayComplete int int
  | WsHeartbeat int
  | WsSourceDeleted string

definition broadcast_event :: "transcription_config \<Rightarrow> Call \<Rightarrow> string \<Rightarrow> db \<Rightarrow> authUser \<Rightarrow> ws_event" where
  "broadcast_event cfg call sourceID d u =
     (let visible = (if canReadCall u call (sourceAccessMap d) (sharedSourceIDsForUser u d) then call else redactCall call) in
      WsCall (sanitizeCallTranscription cfg visible) sourceID)"

definition broadcastCall :: "transcription_config \<Rightarrow> Call \<Rightarrow> string \<Rightarrow> db \<Rightarrow> ws_event hub \<Rightarrow> ws_event hub" where
  "broadcastCall cfg call sourceID d h = broadcastForUsers (broadcast_event cfg call sourceID d) h"

definition parseSinceParam :: "query \<Rightarrow> int" where
  "parseSinceParam q =
     (let raw = TrimSpace (q ''since'') in
      if raw = [] then 0
      else case ParseInt raw of (n, ok) \<Rightarrow> if \<not> ok \<or> n < 0 then 0 else n)"

definition replay_event :: "transcription_config \<Rightarrow> authUser \<Rightarrow> db \<Rightarrow> Call \<Rightarrow> ws_event" where
  "replay_event cfg u d c =
     (let shown = (if canReadCall u c (sourceAccessMap d) (sharedSourceIDsForUser u d) then c else redactCall c) in
      WsCall (if \<not> transcriptionEnabled cfg then sanitizeCallTranscriptionFields shown else shown) [])"

definition replayCallsSince ::
  "transcription_config \<Rightarrow> nat \<Rightarrow> authUser \<Rightarrow> int \<Rightarrow> db \<Rightarrow> ws_event hub \<Rightarrow> int \<times> ws_event hub" where
  "replayCallsSince cfg client u since d h =
     (let calls = ListCallsSince since 200 d in
      (int (length calls), foldl (\<lambda>h c. enqueueTo client (replay_event cfg u d c) h) h calls))"

definition replayMissedCalls ::
  "transcription_config \<Rightarrow> nat \<Rightarrow> authUser \<Rightarrow> query \<Rightarrow> db \<Rightarrow> ws_event hub \<Rightarrow> ws_event hub" where
  "replayMissedCalls cfg client u q d h =
     (let since = parseSinceParam q;
          (count, h1) = (if since > 0 then replayCallsSince cfg client u since d h else (0, h)) in
      enqueueTo client (WsReplayComplete since count) h1)"

text \<open>The handler up to where it waits for the connection to close.\<close>

definition handleWebSocket ::
  "transcription_config \<Rightarrow> nat \<Rightarrow> authUser option \<Rightarrow> query \<Rightarrow> db \<Rightarrow> ws_event hub \<Rightarrow> unit reply \<times> ws_event hub" where
  "handleWebSocket cfg client ctx q d h =
     (case requireAuthenticated ctx of Inl e \<Rightarrow> (e, h)
      | Inr u \<Rightarrow> (Reply 101 (), replayMissedCalls cfg client u q d (connect client u h)))"

definition heartbeat :: "int \<Rightarrow> ws_event hub \<Rightarrow> ws_event hub" where
  "heartbeat now = broadcast (WsHeartbeat now)"

section \<open>Who reads what\<close>

definition live_source :: "string \<Rightarrow> db \<Rightarrow> sources_row option" where
  "live_source i d = List.find (\<lambda>s. sr_id s = i \<and> sr_deleted_at s = 0) (t_sources d)"

text \<open>The rule: through a source that is still there, or else as the call's owner.\<close>

definition may_read :: "authUser \<Rightarrow> db \<Rightarrow> Call \<Rightarrow> bool" where
  "may_read u d c \<longleftrightarrow> isAdmin u \<or>
     (case (if ca_SourceID c = [] then None else live_source (ca_SourceID c) d) of
        None \<Rightarrow> ca_UserID c \<noteq> [] \<and> ca_UserID c = au_ID u
      | Some s \<Rightarrow> coalesce (sr_user_id s) = au_ID u \<or> sr_is_shared s \<or>
          (IsFederatedSourceID (ca_SourceID c) \<and> sr_enabled s) \<or> ca_SourceID c \<in> set (share_ids (au_ID u) d))"

lemma foldl_update: "foldl (\<lambda>m s. m(k s \<mapsto> s)) m xs i =
   (case List.find (\<lambda>s. k s = i) (rev xs) of None \<Rightarrow> m i | Some s \<Rightarrow> Some s)"
  by (induction xs arbitrary: m) (auto simp: find_append split: option.split)

lemma find_perm:
  assumes "uniq k xs" "set ys = set xs"
  shows "List.find (\<lambda>x. k x = i) ys = List.find (\<lambda>x. k x = i) xs"
proof (cases "List.find (\<lambda>x. k x = i) xs")
  case None
  moreover from this have "List.find (\<lambda>x. k x = i) ys = None" using assms(2) by (simp add: find_None_iff)
  ultimately show ?thesis by simp
next
  case (Some x)
  then have x: "x \<in> set xs" "k x = i" by (auto dest: find_Some_mem)
  have "List.find (\<lambda>x. k x = i) ys \<noteq> None" using x assms(2) by (auto simp: find_None_iff)
  then obtain y where y: "List.find (\<lambda>x. k x = i) ys = Some y" by blast
  then have "y \<in> set xs" "k y = i" using assms(2) by (auto dest: find_Some_mem)
  with x uniq_inj [OF assms(1)] have "y = x" by blast
  with y Some show ?thesis by simp
qed

lemma find_map_simple: "List.find P (map f xs) = map_option f (List.find (P \<circ> f) xs)"
  by (induction xs) auto

lemma find_in_filter: "List.find P (filter Q xs) = List.find (\<lambda>x. P x \<and> Q x) xs"
  by (induction xs) auto

lemma sourceAccessMap_live:
  assumes "db_ok d"
  shows "sourceAccessMap d i = map_option scan_source (live_source i d)"
proof -
  let ?rows = "filter (\<lambda>r. sr_deleted_at r = 0) (t_sources d)"
  have "uniq sr_id ?rows" using db_ok_uniq(14) [OF assms] by (simp add: uniq_filter)
  have "sourceAccessMap d i = map_option scan_source (List.find (\<lambda>r. sr_id r = i) (rev (order_asc sr_id ?rows)))"
    by (simp add: sourceAccessMap_def foldl_update ListIngestionSources_def rev_map find_map_simple comp_def scan_source_def
        split: option.split)
  also have "List.find (\<lambda>r. sr_id r = i) (rev (order_asc sr_id ?rows)) = List.find (\<lambda>r. sr_id r = i) ?rows"
    by (rule find_perm [OF \<open>uniq sr_id ?rows\<close>]) simp
  also have "\<dots> = live_source i d"
    by (simp add: live_source_def find_in_filter)
  finally show ?thesis .
qed

lemma canReadCall_may_read:
  assumes "db_ok d"
  shows "canReadCall u c (sourceAccessMap d) (sharedSourceIDsForUser u d) \<longleftrightarrow> may_read u d c"
proof -
  have "sr_deleted_at s = 0" if "live_source i d = Some s" for i s
    using that by (auto simp: live_source_def dest: find_Some_mem)
  then show ?thesis
    by (auto simp: canReadCall_def may_read_def sourceAccessMap_live [OF assms] sharedSourceIDsForUser_def
        ListSharedSourceIDsForUser_def scan_source_def split: option.split)
qed

lemmas read_access = canReadCall_may_read

lemma may_read_cong: "ca_SourceID c = ca_SourceID c' \<Longrightarrow> ca_UserID c = ca_UserID c' \<Longrightarrow> may_read u d c = may_read u d c'"
  by (simp add: may_read_def split: option.split)

text \<open>What a reader sees of a call, and the two parts of it that a list takes away.\<close>

definition shown_call :: "transcription_config \<Rightarrow> authUser \<Rightarrow> db \<Rightarrow> Call \<Rightarrow> Call" where
  "shown_call cfg u d c = sanitizeCallTranscription cfg (if may_read u d c then c else redactCall c)"

lemma handleListCalls_shown:
  assumes "db_ok d"
  shows "handleListCalls cfg (Some u) q d = Reply 200 (map (shown_call cfg u d) (ListCalls (listCallsParamsFromRequest q) d))"
  by (simp add: handleListCalls_def requireAuthenticated_def redactCallsForUser_def clearTranscriptStatus_def shown_call_def
      sanitizeCallTranscription_def read_access [OF assms] Let_def)

lemma shown_call_simps [simp]: "ca_ID (shown_call cfg u d c) = ca_ID c" "ca_DateTime (shown_call cfg u d c) = ca_DateTime c"
  by (simp_all add: shown_call_def sanitizeCallTranscription_def sanitizeCallTranscriptionFields_def redactCall_def)

definition blanked :: "Call \<Rightarrow> bool" where
  "blanked c \<longleftrightarrow> ca_Redacted c \<and> ca_UserID c = [] \<and> ca_System c = 0 \<and> ca_SystemLabel c = ''REDACTED'' \<and> ca_Talkgroup c = 0 \<and>
     ca_TalkgroupLabel c = ''REDACTED'' \<and> ca_TalkgroupGroup c = ''REDACTED'' \<and> ca_TalkgroupTag c = [] \<and>
     ca_Frequency c = 0 \<and> ca_AudioName c = [] \<and> ca_AudioType c = []"

lemma blanked_shown: "\<not> may_read u d c \<Longrightarrow> blanked (shown_call cfg u d c)"
  by (simp add: shown_call_def sanitizeCallTranscription_def sanitizeCallTranscriptionFields_def redactCall_def blanked_def)

lemma set_order_by [simp]: "set (order_by clause rows) = set rows"
  by (simp add: order_by_def)

lemma length_order_by [simp]: "length (order_by clause rows) = length rows"
  by (simp add: order_by_def)

lemma ListCalls_rows: "c \<in> set (ListCalls p d) \<Longrightarrow> \<exists>r \<in> set (t_calls d). c = scan_call_joined d r"
  by (auto simp: ListCalls_def case_prod_beta dest!: set_limit_subset [THEN subsetD] in_set_dropD)

lemma ListCallsSince_rows: "c \<in> set (ListCallsSince since n d) \<Longrightarrow> \<exists>r \<in> set (t_calls d). c = scan_call_joined d r"
  by (auto simp: ListCallsSince_def dest!: set_limit_subset [THEN subsetD])

lemma scan_joined_ids [simp]:
  "ca_ID (scan_call_joined d r) = cr_id r" "ca_SourceID (scan_call_joined d r) = coalesce (cr_source_id r)"
  "ca_UserID (scan_call_joined d r) = coalesce (cr_user_id r)" "ca_Talkgroup (scan_call_joined d r) = cr_talkgroup r"
  "ca_Redacted (scan_call_joined d r) = False"
  by (simp_all add: scan_call_joined_def scan_call_def scan_call_base_def split: option.split)

definition example_query_of :: "(string \<times> string) list \<Rightarrow> query" where
  "example_query_of xs k = (case map_of xs k of None \<Rightarrow> [] | Some v \<Rightarrow> v)"

text \<open>Parts of conversations are calls that were grouped.\<close>

lemma conversation_parts:
  assumes "v \<in> set (GroupCallsIntoConversations cs gap)" "c \<in> set (cv_Parts v)"
  shows "c \<in> set cs"
proof -
  have "subseq (cv_Parts v) (sort_key call_order cs)"
    using GroupCalls_grouped [of gap cs] assms(1) by (auto simp: grouped_def)
  moreover have "subseq [c] (cv_Parts v)" using assms(2) by (simp add: subseq_singleton_left)
  ultimately have "subseq [c] (sort_key call_order cs)" using subseq_order.trans by blast
  then show ?thesis by (simp add: subseq_singleton_left)
qed


lemma replay_event_shown: "db_ok d \<Longrightarrow> replay_event cfg u d c = WsCall (shown_call cfg u d c) []"
  by (simp add: replay_event_def read_access shown_call_def sanitizeCallTranscription_def Let_def)

lemma broadcast_event_shown: "db_ok d \<Longrightarrow> broadcast_event cfg c sid d u = WsCall (shown_call cfg u d c) sid"
  by (simp add: broadcast_event_def read_access shown_call_def Let_def)

lemma sanitized_ids [simp]:
  "ca_ID (sanitizeCallTranscriptionFields c) = ca_ID c" "ca_SourceID (sanitizeCallTranscriptionFields c) = ca_SourceID c"
  "ca_UserID (sanitizeCallTranscriptionFields c) = ca_UserID c"
  by (simp_all add: sanitizeCallTranscriptionFields_def)

lemma same_row: "db_ok d \<Longrightarrow> r \<in> set (t_calls d) \<Longrightarrow> r' \<in> set (t_calls d) \<Longrightarrow> cr_id r = cr_id r' \<Longrightarrow> r = r'"
  by (rule uniq_inj [OF db_ok_uniq(10)])

lemma listed_unreadable:
  assumes "db_ok d" "r \<in> set (t_calls d)" "\<not> may_read u d (scan_call_joined d r)" "c \<in> scan_call_joined d ` set (t_calls d)"
    "ca_ID c = cr_id r"
  shows "\<not> may_read u d c"
proof -
  from assms(4) obtain x where x: "x \<in> set (t_calls d)" "c = scan_call_joined d x" by blast
  with assms(5) have "r = x" by (intro same_row [OF assms(1,2)]) simp_all
  with x(2) assms(3) show ?thesis by simp
qed

lemma set_sortConversations [simp]: "set (sortConversations sortBy order vs) = set vs"
  by (simp add: sortConversations_def)

lemma handleListConversations_parts:
  assumes "db_ok d" "handleListConversations cfg gap (Some u) q d = Reply 200 vs" "v \<in> set vs" "c \<in> set (cv_Parts v)"
  shows "\<exists>c0 \<in> scan_call_joined d ` set (t_calls d). may_read u d c0 \<and> ca_ID c = ca_ID c0"
proof -
  let ?p = "listCallsParamsFromRequest q"
  let ?calls = "ListCalls (?p\<lparr>lp_Limit := 1000, lp_Offset := 0\<rparr>) d"
  let ?visible = "map (\<lambda>c. if transcriptionEnabled cfg then c else sanitizeCallTranscriptionFields c)
      (filter (may_read u d) ?calls)"
  have "v \<in> set (GroupCallsIntoConversations ?visible gap)"
    using assms(2,3) by (auto simp: handleListConversations_def requireAuthenticated_def Let_def read_access [OF assms(1)]
        dest!: in_set_takeD in_set_dropD split: if_splits)
  then have "c \<in> set ?visible" by (rule conversation_parts [OF _ assms(4)])
  then obtain c0 where "c0 \<in> set ?calls" "may_read u d c0" "ca_ID c = ca_ID c0" by auto
  with ListCalls_rows show ?thesis by blast
qed

lemma unreadable_list_blanked:
  assumes "db_ok d" "r \<in> set (t_calls d)" "\<not> may_read u d (scan_call_joined d r)"
    "handleListCalls cfg (Some u) q d = Reply 200 cs" "c \<in> set cs" "ca_ID c = cr_id r"
  shows "blanked c"
proof -
  from assms(4-6) obtain c0 where "c0 \<in> set (ListCalls (listCallsParamsFromRequest q) d)" "c = shown_call cfg u d c0" "ca_ID c0 = cr_id r"
    by (auto simp: handleListCalls_shown [OF assms(1)])
  with ListCalls_rows listed_unreadable [OF assms(1-3)] blanked_shown show ?thesis by blast
qed

lemma unreadable_not_in_conversations:
  assumes "db_ok d" "r \<in> set (t_calls d)" "\<not> may_read u d (scan_call_joined d r)"
    "handleListConversations cfg gap (Some u) q d = Reply 200 vs" "v \<in> set vs" "c \<in> set (cv_Parts v)"
  shows "ca_ID c \<noteq> cr_id r"
  using handleListConversations_parts [OF assms(1,4-6)] listed_unreadable [OF assms(1-3)] by metis

text \<open>
  Property C12. A call its reader may not read reaches him nowhere with its content: in the call log, in the replay
  after a reconnect and in the live broadcast it is blanked, and no conversation contains it.
\<close>

theorem unreadable_calls_blanked:
  assumes "db_ok d" "r \<in> set (t_calls d)" "\<not> may_read u d (scan_call_joined d r)"
  shows "(\<forall>cs c. handleListCalls cfg (Some u) q d = Reply 200 cs \<and> c \<in> set cs \<and> ca_ID c = cr_id r \<longrightarrow> blanked c) \<and>
    (\<forall>vs v c. handleListConversations cfg gap (Some u) q d = Reply 200 vs \<and> v \<in> set vs \<and> c \<in> set (cv_Parts v) \<longrightarrow>
       ca_ID c \<noteq> cr_id r) \<and>
    (\<forall>c. c \<in> set (ListCallsSince since n d) \<and> ca_ID c = cr_id r \<longrightarrow> (\<exists>b. replay_event cfg u d c = WsCall b [] \<and> blanked b)) \<and>
    (\<exists>b. broadcast_event cfg (scan_call_joined d r) sid d u = WsCall b sid \<and> blanked b)"
proof (intro conjI allI impI)
  fix cs c assume "handleListCalls cfg (Some u) q d = Reply 200 cs \<and> c \<in> set cs \<and> ca_ID c = cr_id r"
  with unreadable_list_blanked [OF assms] show "blanked c" by blast
next
  fix vs v c assume "handleListConversations cfg gap (Some u) q d = Reply 200 vs \<and> v \<in> set vs \<and> c \<in> set (cv_Parts v)"
  with unreadable_not_in_conversations [OF assms] show "ca_ID c \<noteq> cr_id r" by blast
next
  fix c assume "c \<in> set (ListCallsSince since n d) \<and> ca_ID c = cr_id r"
  then have "\<not> may_read u d c" using ListCallsSince_rows listed_unreadable [OF assms] by blast
  then show "\<exists>b. replay_event cfg u d c = WsCall b [] \<and> blanked b"
    by (simp add: replay_event_shown [OF assms(1)] blanked_shown)
next
  show "\<exists>b. broadcast_event cfg (scan_call_joined d r) sid d u = WsCall b sid \<and> blanked b"
    using assms(3) by (simp add: broadcast_event_shown [OF assms(1)] blanked_shown)
qed


definition example_outsider :: authUser where
  "example_outsider = \<lparr>au_ID = ''usr_7000'', au_Email = ''o@x'', au_Role = ''user'', au_TxEnabled = False,
     au_DispatcherEnabled = False\<rparr>"

text \<open>A call of a private source, with a transcript.\<close>

definition example_private_db :: db where
  "example_private_db = example_call_db\<lparr>
     t_sources := [fresh_source_row ''north'' 5\<lparr>sr_user_id := Some ''usr_5000''\<rparr>],
     t_transcripts := [(new_transcript 1 ''done'' [] 5)\<lparr>ct_transcript := ''engine four''\<rparr>]\<rparr>"

lemmas private_eval = example_private_db_def call_eval

lemma example_private_db_ok: "db_ok example_private_db"
  by (simp add: private_eval new_transcript_def db_ok_defs fkey_def uniq_opt_def nonnull_def uniq_def)

lemma example_outsider_reads: "\<not> may_read example_outsider example_private_db (scan_call_joined example_private_db (example_row i t tg gr))"
  by (simp add: may_read_def live_source_def private_eval example_outsider_def isAdmin_def share_ids_def coalesce_def
      IsFederatedSourceID_def example_row_eq TrimSpace_def is_space_def)

theorem unreadable_calls_blanked_witness:
  "\<exists>b. broadcast_event \<lparr>cfg_TranscriptionWorkerToken = ''t'', cfg_TranscriptionMinDuration = 0\<rparr>
      (scan_call_joined example_private_db (example_row 1 100 7 ''Fire'')) ''north'' example_private_db example_outsider = WsCall b ''north'' \<and>
    blanked b"
proof -
  have "example_row 1 100 7 ''Fire'' \<in> set (t_calls example_private_db)"
    by (simp add: example_private_db_def example_call_db_def)
  from unreadable_calls_blanked [OF example_private_db_ok this example_outsider_reads] show ?thesis by blast
qed

text \<open>
  Blanking a call leaves its transcript: with transcription on, whoever lists the calls reads what was
  said in calls he may not read.
\<close>

theorem blanked_calls_show_transcript:
  assumes "db_ok d" "r \<in> set (t_calls d)" "\<not> may_read u d (scan_call_joined d r)" "find_transcript (cr_id r) d = Some t"
    "transcriptionEnabled cfg" "handleListCalls cfg (Some u) q d = Reply 200 cs" "c \<in> set cs" "ca_ID c = cr_id r"
  shows "blanked c \<and> ca_TranscriptText c = ct_transcript t"
proof -
  from assms(6-8) obtain c0 where c0: "c0 \<in> set (ListCalls (listCallsParamsFromRequest q) d)" "c = shown_call cfg u d c0" "ca_ID c0 = cr_id r"
    by (auto simp: handleListCalls_shown [OF assms(1)])
  from ListCalls_rows [OF c0(1)] obtain x where x: "x \<in> set (t_calls d)" "c0 = scan_call_joined d x" by blast
  with c0(3) have "r = x" by (intro same_row [OF assms(1,2)]) simp_all
  with x c0(2) assms(3) have c: "c = shown_call cfg u d (scan_call_joined d r)" by simp
  have "ca_TranscriptText (scan_call_joined d r) = ct_transcript t" using assms(4) by (simp add: scan_call_joined_def)
  then have "ca_TranscriptText c = ct_transcript t"
    using assms(3,5) by (simp add: c shown_call_def sanitizeCallTranscription_def redactCall_def)
  with blanked_shown [OF assms(3)] c show ?thesis by simp
qed

lemma split_comma_none: "CHR '','' \<notin> set s \<Longrightarrow> split_comma s = [s]"
  by (induction s) auto

lemma split_comma_format: "0 \<le> i \<Longrightarrow> split_comma (format_int i) = [format_int i]"
proof -
  assume "0 \<le> i"
  then have "format_int i = dec_nat (nat i)" by (simp add: format_int_def)
  moreover have "\<not> is_digit (CHR '','')" by code_simp
  then have "CHR '','' \<notin> set (dec_nat (nat i))"
    using dec_nat_digits [of "nat i"] unfolding list_all_iff by metis
  ultimately show ?thesis using split_comma_none by metis
qed


text \<open>A row that passes the filters is on some page.\<close>

definition passes_filters :: "query \<Rightarrow> db \<Rightarrow> calls_row \<Rightarrow> bool" where
  "passes_filters q d r \<longleftrightarrow> appendSearchFilter d (q ''q'') r \<and> appendTalkgroupsFilter (parseTalkgroupsQuery (q ''talkgroups'')) r \<and>
     appendGroupsFilter (parseGroupsQuery (q ''groups'')) r \<and> appendGroupFilter (q ''group'') r"

lemma list_filter_request: "list_filter (listCallsParamsFromRequest q) d = passes_filters q d"
  by (rule ext) (simp add: list_filter_def passes_filters_def owner_filter_def listCallsParamsFromRequest_def)



lemma filters_example:
  "passes_filters (example_query_of [(''talkgroups'', format_int g)]) d r \<longleftrightarrow> cr_talkgroup r = g" if "0 \<le> g" "g \<le> max_int64"
proof -
  have "parseTalkgroupsQuery (format_int g) = [g]"
    using that by (simp add: parseTalkgroupsQuery_def split_comma_format TrimSpace_format ParseInt_format)
  then show ?thesis
    by (auto simp: passes_filters_def appendSearchFilter_def appendTalkgroupsFilter_def appendGroupsFilter_def appendGroupFilter_def
        parseGroupsQuery_def example_query_of_def Let_def)
qed

theorem blanked_calls_show_transcript_witness:
  "\<exists>cs c. handleListCalls \<lparr>cfg_TranscriptionWorkerToken = ''t'', cfg_TranscriptionMinDuration = 0\<rparr> (Some example_outsider)
      (example_query_of [(''talkgroups'', ''7'')]) example_private_db = Reply 200 cs \<and>
    c \<in> set cs \<and> blanked c \<and> ca_TranscriptText c = ''engine four''"
proof -
  let ?cfg = "\<lparr>cfg_TranscriptionWorkerToken = ''t'', cfg_TranscriptionMinDuration = 0\<rparr>"
  let ?r = "example_row 1 100 7 ''Fire''"
  have r: "?r \<in> set (t_calls example_private_db)" "cr_id ?r = 1" "cr_talkgroup ?r = 7"
    by (simp_all add: example_private_db_def example_call_db_def example_row_def call_row_def example_call_def)
  have q: "format_int 7 = ''7''" by code_simp
  have t: "find_transcript 1 example_private_db = Some ((new_transcript 1 ''done'' [] 5)\<lparr>ct_transcript := ''engine four''\<rparr>)"
    by (simp add: find_transcript_def example_private_db_def new_transcript_def)
  have on: "transcriptionEnabled ?cfg" by (simp add: transcriptionEnabled_def TrimSpace_def is_space_def)
  let ?q = "example_query_of [(''talkgroups'', ''7'')]"
  have rows: "limit 100 (order_by s (filter (passes_filters ?q example_private_db) (t_calls example_private_db))) =
      order_by s (filter (passes_filters ?q example_private_db) (t_calls example_private_db))" for s
    by (simp add: limit_def) (simp add: order_by_def order_asc_def order_desc_def example_private_db_def example_call_db_def)
  have "normalizeListCallsPaging (listCallsParamsFromRequest ?q) = (100, 0)"
    by (simp add: normalizeListCallsPaging_def listCallsParamsFromRequest_def boundedQueryInt_def example_query_of_def)
  moreover have "passes_filters ?q example_private_db ?r"
    using filters_example [of 7 example_private_db ?r] r(3) by (simp add: q max_int64_def)
  ultimately have "scan_call_joined example_private_db ?r \<in> set (ListCalls (listCallsParamsFromRequest ?q) example_private_db)"
    using r(1) by (simp add: ListCalls_def list_filter_request rows)
  then obtain cs c where cs: "handleListCalls ?cfg (Some example_outsider) (example_query_of [(''talkgroups'', ''7'')]) example_private_db = Reply 200 cs"
      "c \<in> set cs" "ca_ID c = cr_id ?r"
    using shown_call_simps(1) scan_joined_ids(1) by (fastforce simp: handleListCalls_shown [OF example_private_db_ok])
  from blanked_calls_show_transcript [OF example_private_db_ok r(1) example_outsider_reads _ on cs] t
  have "blanked c \<and> ca_TranscriptText c = ''engine four''" by (simp add: r(2))
  with cs show ?thesis by blast
qed


text \<open>
  The audio of a call is served to whom its source lets read, also when the source has been deleted since, or else
  to its owner. Without a session the answer still tells whether the call exists.
\<close>

definition may_listen :: "authUser \<Rightarrow> db \<Rightarrow> calls_row \<Rightarrow> bool" where
  "may_listen u d r \<longleftrightarrow> isAdmin u \<or>
     (case (if coalesce (cr_source_id r) = [] then None else find_source (coalesce (cr_source_id r)) d) of
        None \<Rightarrow> coalesce (cr_user_id r) \<noteq> [] \<and> coalesce (cr_user_id r) = au_ID u
      | Some s \<Rightarrow> coalesce (sr_user_id s) = au_ID u \<or> sr_is_shared s \<or>
          (IsFederatedSourceID (sr_id s) \<and> sr_enabled s \<and> sr_deleted_at s = 0) \<or> sr_id s \<in> set (share_ids (au_ID u) d))"

lemma find_source_id: "find_source i d = Some s \<Longrightarrow> sr_id s = i"
  by (auto simp: find_source_def dest: find_Some_mem)

lemma handleCallAudio_iff:
  assumes "0 \<le> i" "i \<le> max_int64" "find_call i d = Some r"
  shows "handleCallAudio tc (Some u) (format_int i) q d =
    (if may_listen u d r then Reply 200 (serveAudioBytes tc (cr_audio r) (cr_audio_type r) (defaultCallAudioName i (cr_audio_name r))
        (q ''download'' = ''1'') ''private, max-age=3600'') else Fail 403 ''forbidden'')"
proof -
  have "ParseInt (format_int i) = (i, True)" using assms(1,2) by (rule ParseInt_format)
  moreover have "GetCallAudio i d = Inr (cr_audio r, cr_audio_type r, cr_audio_name r, coalesce (cr_user_id r), coalesce (cr_source_id r))"
    by (simp add: GetCallAudio_def assms(3))
  moreover have "canReadCall u (zero_call\<lparr>ca_UserID := coalesce (cr_user_id r), ca_SourceID := coalesce (cr_source_id r)\<rparr>)
      (if coalesce (cr_source_id r) \<noteq> [] then (case GetIngestionSource (coalesce (cr_source_id r)) d of
         Some s \<Rightarrow> [is_ID s \<mapsto> s] | None \<Rightarrow> Map.empty) else Map.empty) (sharedSourceIDsForUser u d) = may_listen u d r"
    by (auto simp: canReadCall_def may_listen_def GetIngestionSource_def scan_source_def sharedSourceIDsForUser_def
        ListSharedSourceIDsForUser_def dest: find_source_id split: option.splits)
  ultimately show ?thesis by (simp add: handleCallAudio_def requireAuthenticated_def Let_def)
qed

theorem audio_probe:
  assumes "0 \<le> i" "i \<le> max_int64"
  shows "handleCallAudio tc None (format_int i) q d =
    (if find_call i d = None then Fail 404 ''not found'' else Fail 401 ''unauthorized'')"
  using ParseInt_format [OF assms]
  by (simp add: handleCallAudio_def GetCallAudio_def requireAuthenticated_def split: option.split)


text \<open>
  Property C16. Deleting a shared source hides its calls from everyone but admins and their owner in the lists, but not
  their audio: whatever is asked of the call log, it shows them blanked, no conversation contains them, and yet whoever is
  signed in gets the audio of each by its id, which the call log goes on naming.
\<close>

theorem deleted_source_still_heard:
  assumes "db_ok d" "find_source i d = Some s" "sr_is_shared s" "now \<noteq> 0" "DeleteIngestionSource i now d = (True, d')"
    and "find_call k d = Some r" "cr_source_id r = Some i" "i \<noteq> []" "0 \<le> k" "k \<le> max_int64"
    and "\<not> isAdmin u" "coalesce (cr_user_id r) \<noteq> au_ID u"
  shows "(\<forall>q cs c. handleListCalls cfg (Some u) q d' = Reply 200 cs \<and> c \<in> set cs \<and> ca_ID c = k \<longrightarrow> blanked c) \<and>
    (\<forall>q vs v c. handleListConversations cfg gap (Some u) q d' = Reply 200 vs \<and> v \<in> set vs \<and> c \<in> set (cv_Parts v) \<longrightarrow> ca_ID c \<noteq> k) \<and>
    (\<forall>q. handleCallAudio tc (Some u) (format_int k) q d' = Reply 200 (serveAudioBytes tc (cr_audio r) (cr_audio_type r)
       (defaultCallAudioName k (cr_audio_name r)) (q ''download'' = ''1'') ''private, max-age=3600''))"
proof -
  let ?P = "\<lambda>r. sr_id r = i \<and> sr_deleted_at r = 0"
  have d': "d' = d\<lparr>t_keys := sql_delete (\<lambda>k. ky_source_id k = i) (t_keys d), t_sources := sql_update ?P (soft_delete now) (t_sources d)\<rparr>"
    using assms(5) by (auto simp: DeleteIngestionSource_def Let_def split: if_splits)
  have ok: "db_ok d'" using DeleteIngestionSource_ok [OF assms(1), of i now] assms(5) by simp
  have gone: "\<not> ?P x" if x: "x \<in> set (t_sources d')" for x
  proof -
    have "t_sources d' = sql_update ?P (soft_delete now) (t_sources d)" by (simp add: d')
    with x have "x \<in> set (sql_update ?P (soft_delete now) (t_sources d))" by simp
    then obtain y where "x = (if ?P y then soft_delete now y else y)"
      unfolding set_sql_update by blast
    then show ?thesis using assms(4) by (cases "?P y") (simp_all add: soft_delete_def)
  qed
  then have "live_source i d' = None" by (auto simp: live_source_def find_None_iff)
  then have unread: "\<not> may_read u d' (scan_call_joined d' r)"
    using assms(7,11,12) by (simp add: may_read_def coalesce_def)
  have "List.find (\<lambda>x. sr_id x = i) (sql_update ?P (soft_delete now) rows) =
      map_option (\<lambda>x. if ?P x then soft_delete now x else x) (List.find (\<lambda>x. sr_id x = i) rows)" for rows
    by (rule find_sql_update_key) (simp add: soft_delete_def)
  then have "find_source i d' = Some (if ?P s then soft_delete now s else s)"
    using assms(2) by (simp add: find_source_def d')
  moreover have "sr_is_shared (if ?P s then soft_delete now s else s)" using assms(3) by (simp add: soft_delete_def)
  ultimately have "may_listen u d' r"
    using assms(7,8) by (simp add: may_listen_def coalesce_def)
  moreover have "find_call k d' = Some r" using assms(6) by (simp add: find_call_def d')
  moreover from this have row: "r \<in> set (t_calls d')" "cr_id r = k" by (auto simp: find_call_def dest: find_Some_mem)
  ultimately have "handleCallAudio tc (Some u) (format_int k) q d' = Reply 200 (serveAudioBytes tc (cr_audio r) (cr_audio_type r)
       (defaultCallAudioName k (cr_audio_name r)) (q ''download'' = ''1'') ''private, max-age=3600'')" for q
    by (simp add: handleCallAudio_iff [OF assms(9,10)])
  with unreadable_list_blanked [OF ok row(1) unread] unreadable_not_in_conversations [OF ok row(1) unread]
  show ?thesis unfolding row(2) by blast
qed

theorem deleted_source_still_heard_witness:
  "\<exists>d' a. DeleteIngestionSource ''north'' 50 example_call_db = (True, d') \<and>
    (\<forall>cs c. handleListCalls \<lparr>cfg_TranscriptionWorkerToken = [], cfg_TranscriptionMinDuration = 0\<rparr> (Some example_outsider) (\<lambda>_. []) d' =
        Reply 200 cs \<and> c \<in> set cs \<and> ca_ID c = 2 \<longrightarrow> blanked c) \<and>
    (\<exists>cs c. handleListCalls \<lparr>cfg_TranscriptionWorkerToken = [], cfg_TranscriptionMinDuration = 0\<rparr> (Some example_outsider) (\<lambda>_. []) d' =
        Reply 200 cs \<and> c \<in> set cs \<and> ca_ID c = 2) \<and>
    handleCallAudio \<lparr>tc_mp3 = (\<lambda>_. None), tc_m4a = (\<lambda>_ _. None)\<rparr> (Some example_outsider) (format_int 2) (\<lambda>_. []) d' = Reply 200 a"
proof -
  let ?cfg = "\<lparr>cfg_TranscriptionWorkerToken = [], cfg_TranscriptionMinDuration = 0\<rparr>"
  obtain d' where d': "DeleteIngestionSource ''north'' 50 example_call_db = (True, d')"
    and calls: "t_calls d' = t_calls example_call_db"
    by (simp add: call_eval DeleteIngestionSource_def sql_count_def)
  have src: "find_source ''north'' example_call_db =
      Some (fresh_source_row ''north'' 5\<lparr>sr_user_id := Some ''usr_5000'', sr_is_shared := True\<rparr>)"
    and call: "find_call 2 example_call_db = Some (example_row 2 103 7 ''Fire'')"
    by (simp_all add: find_source_def find_call_def call_eval)
  have row: "cr_source_id (example_row 2 103 7 ''Fire'') = Some ''north''" "\<not> isAdmin example_outsider"
    "coalesce (cr_user_id (example_row 2 103 7 ''Fire'')) \<noteq> au_ID example_outsider"
    by (simp_all add: example_row_eq isAdmin_def example_outsider_def coalesce_def)
  have ok: "db_ok d'" using DeleteIngestionSource_ok [OF example_call_db_ok, of "''north''" 50] d' by simp
  have "set (ListCalls (listCallsParamsFromRequest (\<lambda>_. [])) d') = scan_call_joined d' ` set (t_calls d')"
  proof -
    have "normalizeListCallsPaging (listCallsParamsFromRequest (\<lambda>_. [])) = (100, 0)"
      by (simp add: normalizeListCallsPaging_def listCallsParamsFromRequest_def boundedQueryInt_def)
    moreover have "passes_filters (\<lambda>_. []) d' = (\<lambda>_. True)"
      by (rule ext) (simp add: passes_filters_def appendSearchFilter_def appendTalkgroupsFilter_def appendGroupsFilter_def
          appendGroupFilter_def parseGroupsQuery_def parseTalkgroupsQuery_def ParseInt_def Let_def)
    ultimately show ?thesis by (simp add: ListCalls_def list_filter_request limit_def calls example_call_db_def)
  qed
  then have "\<exists>c \<in> set (ListCalls (listCallsParamsFromRequest (\<lambda>_. [])) d'). ca_ID c = 2"
    by (simp add: calls example_call_db_def example_row_eq)
  then have named: "\<exists>cs c. handleListCalls ?cfg (Some example_outsider) (\<lambda>_. []) d' = Reply 200 cs \<and> c \<in> set cs \<and> ca_ID c = 2"
    by (auto simp: handleListCalls_shown [OF ok])
  have "(\<forall>cs c. handleListCalls ?cfg (Some example_outsider) (\<lambda>_. []) d' = Reply 200 cs \<and> c \<in> set cs \<and> ca_ID c = 2 \<longrightarrow> blanked c)"
    "\<exists>a. handleCallAudio \<lparr>tc_mp3 = (\<lambda>_. None), tc_m4a = (\<lambda>_ _. None)\<rparr> (Some example_outsider) (format_int 2) (\<lambda>_. []) d' = Reply 200 a"
    using deleted_source_still_heard [where cfg="?cfg" and tc="\<lparr>tc_mp3 = (\<lambda>_. None), tc_m4a = (\<lambda>_ _. None)\<rparr>" and gap=0,
        OF example_call_db_ok src _ _ d' call row(1) _ _ _ row(2,3)]
    by (auto simp: max_int64_def)
  with d' named show ?thesis by blast
qed

section \<open>Reconnecting\<close>

lemma enqueue_all:
  "hub_clients h i = Some c \<Longrightarrow> length (hc_send c) + length ms \<le> clientSendBuffer \<Longrightarrow>
   hub_clients (foldl (\<lambda>h m. enqueueTo i (f m) h) h ms) i = Some (c\<lparr>hc_send := hc_send c @ map f ms\<rparr>)"
proof (induction ms arbitrary: h c)
  case (Cons m ms)
  have "hub_clients (enqueueTo i (f m) h) i = Some (c\<lparr>hc_send := hc_send c @ [f m]\<rparr>)"
    using Cons.prems by (simp add: enqueueTo_def enqueueLocked_def)
  from Cons.IH [OF this] Cons.prems(2) show ?case by simp
qed simp

lemma take_feed: "ListCallsSince since n d = take (nat (clamp_limit 500 200 n)) (filter (\<lambda>c. ca_ID c > since) (call_feed d))"
  by (simp add: ListCallsSince_def call_feed_def limit_def filter_order_asc filter_map comp_def take_map)

text \<open>
  A client that reconnects with the id of the last call it saw is sent the newer calls, as it may
  see them, oldest first, and then their number. Only 200 of them: when it missed more it gets the oldest 200 and the
  end mark, and the calls between those and the live ones never reach it.
\<close>

theorem reconnect_replay:
  assumes "db_ok d" "0 < since" "since \<le> max_int64"
  shows "\<exists>h'. handleWebSocket cfg i (Some u) (example_query_of [(''since'', format_int since)]) d h = (Reply 101 (), h') \<and>
    (let missed = filter (\<lambda>c. ca_ID c > since) (call_feed d) in
     hub_clients h' i = Some \<lparr>hc_user = u, hc_send = map (\<lambda>c. WsCall (shown_call cfg u d c) []) (take 200 missed) @
       [WsReplayComplete since (min 200 (int (length missed)))]\<rparr>)"
proof -
  let ?q = "example_query_of [(''since'', format_int since)]"
  let ?calls = "ListCallsSince since 200 d"
  let ?missed = "filter (\<lambda>c. ca_ID c > since) (call_feed d)"
  have since: "parseSinceParam ?q = since"
    using assms(2,3) by (simp add: parseSinceParam_def example_query_of_def TrimSpace_format ParseInt_format format_int_not_Nil)
  have calls: "?calls = take 200 ?missed" by (simp add: take_feed clamp_limit_def)
  let ?c = "\<lparr>hc_user = u, hc_send = []\<rparr> :: ws_event hubClient"
  have "hub_clients (connect i u h) i = Some ?c" by (simp add: connect_def)
  from enqueue_all [OF this, of ?calls "replay_event cfg u d"]
  have "hub_clients (snd (replayCallsSince cfg i u since d (connect i u h))) i =
      Some \<lparr>hc_user = u, hc_send = map (replay_event cfg u d) ?calls\<rparr>"
    by (simp add: replayCallsSince_def calls clientSendBuffer_def)
  from enqueue_all [OF this, of "[WsReplayComplete since (int (length ?calls))]" id]
  have "hub_clients (enqueueTo i (WsReplayComplete since (int (length ?calls)))
        (snd (replayCallsSince cfg i u since d (connect i u h)))) i =
      Some \<lparr>hc_user = u, hc_send = map (replay_event cfg u d) ?calls @ [WsReplayComplete since (int (length ?calls))]\<rparr>"
    by (simp add: calls clientSendBuffer_def)
  then show ?thesis
    using assms(2)
    by (simp add: handleWebSocket_def requireAuthenticated_def replayMissedCalls_def since case_prod_beta Let_def
        replayCallsSince_def calls replay_event_shown [OF assms(1)] min_def)
qed

theorem reconnect_replay_witness:
  "\<exists>h'. handleWebSocket \<lparr>cfg_TranscriptionWorkerToken = [], cfg_TranscriptionMinDuration = 0\<rparr> 1 (Some example_outsider)
       (example_query_of [(''since'', format_int 2)]) example_call_db newHub = (Reply 101 (), h') \<and> hub_clients h' 1 \<noteq> None"
  using reconnect_replay [OF example_call_db_ok, of 2 "\<lparr>cfg_TranscriptionWorkerToken = [], cfg_TranscriptionMinDuration = 0\<rparr>" 1
      example_outsider newHub]
  by (simp add: max_int64_def Let_def) (metis option.distinct(1))


end
