(* ===== verification/Uploads.thy ===== *)
theory Uploads
  imports CallApi "HOL-Library.Monad_Syntax"
begin

text \<open>
  \<open>server/internal/api/call_upload.go\<close> and the loops of \<open>talkgroups.go\<close>: a recorder's multipart form becomes a call
  of the source its key belongs to, which is stored, queued for transcription, broadcast, pushed to the public
  streams, and whose talkgroup joins the radio sets of its group. The state is the database with the two hubs of
  \<open>LiveHub\<close>.
\<close>

section \<open>Dates\<close>

text \<open>
  \<open>time.Parse\<close> for the two layouts the code tries. A year has four digits, the hour one or two, every other field two;
  a fraction of a second may follow. Days are counted from 1970.
\<close>

definition take_digit :: "string \<Rightarrow> (int \<times> string) option" where
  "take_digit s = (case s of [] \<Rightarrow> None | c # cs \<Rightarrow> if is_digit c then Some (int (digit_val c), cs) else None)"

definition num2 :: "string \<Rightarrow> (int \<times> string) option" where
  "num2 s = do { (a, s) \<leftarrow> take_digit s; (b, s) \<leftarrow> take_digit s; Some (10 * a + b, s) }"

definition num12 :: "string \<Rightarrow> (int \<times> string) option" where
  "num12 s = do { (a, s1) \<leftarrow> take_digit s;
     (case take_digit s1 of None \<Rightarrow> Some (a, s1) | Some (b, s2) \<Rightarrow> Some (10 * a + b, s2)) }"

definition num4 :: "string \<Rightarrow> (int \<times> string) option" where
  "num4 s = do { (a, s) \<leftarrow> num2 s; (b, s) \<leftarrow> num2 s; Some (100 * a + b, s) }"

definition expect :: "char \<Rightarrow> string \<Rightarrow> string option" where
  "expect c s = (case s of [] \<Rightarrow> None | x # xs \<Rightarrow> if x = c then Some xs else None)"

definition drop_fraction :: "string \<Rightarrow> string" where
  "drop_fraction s = (case s of p # c # cs \<Rightarrow> if (p = CHR ''.'' \<or> p = CHR '','') \<and> is_digit c then dropWhile is_digit cs else s | _ \<Rightarrow> s)"

definition leap :: "int \<Rightarrow> bool" where
  "leap y \<longleftrightarrow> y mod 4 = 0 \<and> (y mod 100 \<noteq> 0 \<or> y mod 400 = 0)"

definition month_days :: "int \<Rightarrow> int list" where
  "month_days y = [31, if leap y then 29 else 28, 31, 30, 31, 30, 31, 31, 30, 31, 30, 31]"

definition epoch_day :: "int \<Rightarrow> int \<Rightarrow> int \<Rightarrow> int" where
  "epoch_day y m d = 365 * (y - 1970) + ((y - 1) div 4 - (y - 1) div 100 + (y - 1) div 400 - 477) +
     sum_list (take (nat (m - 1)) (month_days y)) + (d - 1)"

text \<open>Seconds of the civil time, and what follows it.\<close>

definition civil_time :: "char \<Rightarrow> string \<Rightarrow> (int \<times> string) option" where
  "civil_time sep s = do {
     (y, s) \<leftarrow> num4 s; s \<leftarrow> expect (CHR ''-'') s; (mo, s) \<leftarrow> num2 s; s \<leftarrow> expect (CHR ''-'') s; (d, s) \<leftarrow> num2 s;
     s \<leftarrow> expect sep s; (h, s) \<leftarrow> num12 s; s \<leftarrow> expect (CHR '':'') s; (mi, s) \<leftarrow> num2 s; s \<leftarrow> expect (CHR '':'') s; (se, s) \<leftarrow> num2 s;
     if 1 \<le> mo \<and> mo \<le> 12 \<and> 1 \<le> d \<and> d \<le> month_days y ! nat (mo - 1) \<and> h < 24 \<and> mi < 60 \<and> se < 60
     then Some (86400 * epoch_day y mo d + 3600 * h + 60 * mi + se, drop_fraction s) else None }"

definition zone_offset :: "string \<Rightarrow> (int \<times> string) option" where
  "zone_offset s =
     (case s of [] \<Rightarrow> None
      | z # r \<Rightarrow>
          if z = CHR ''Z'' then Some (0, r)
          else if z = CHR ''+'' \<or> z = CHR ''-'' then do {
            (h, r) \<leftarrow> num2 r; r \<leftarrow> expect (CHR '':'') r; (m, r) \<leftarrow> num2 r;
            if h \<le> 24 \<and> m \<le> 60 then Some ((if z = CHR ''-'' then - 1 else 1) * (3600 * h + 60 * m), r) else None }
          else None)"

definition parse_rfc3339 :: "string \<Rightarrow> int option" where
  "parse_rfc3339 v = do { (t, s) \<leftarrow> civil_time (CHR ''T'') v; (off, s) \<leftarrow> zone_offset s; if s = [] then Some (t - off) else None }"

text \<open>\<open>local_offset\<close> is the host's time zone: the seconds east of UTC at a civil time.\<close>

definition parse_local :: "(int \<Rightarrow> int) \<Rightarrow> string \<Rightarrow> int option" where
  "parse_local local_offset v = do { (t, s) \<leftarrow> civil_time (CHR '' '') v; if s = [] then Some (t - local_offset t) else None }"

section \<open>The form\<close>

text \<open>
  A value that is missing is empty. A file has its name, the content type of its part and its bytes, \<open>None\<close> when they
  cannot be read.
\<close>

record upload_form =
  uf_value :: "string \<Rightarrow> string"
  uf_file :: "string \<Rightarrow> (string \<times> string \<times> bytes option) option"

definition formInt :: "upload_form \<Rightarrow> string \<Rightarrow> int" where
  "formInt f key = fst (ParseInt (uf_value f key))"

text \<open>
  \<open>strconv.ParseFloat\<close> on decimal numbers, exactly; other texts give 0. Hexadecimal numbers, \<open>inf\<close> and \<open>nan\<close> are outside
  the model.
\<close>

definition span_digits :: "string \<Rightarrow> string \<times> string" where
  "span_digits s = (takeWhile is_digit s, dropWhile is_digit s)"

definition parse_exponent :: "string \<Rightarrow> int option" where
  "parse_exponent s = (if s = [] then Some 0
     else if hd s = CHR ''e'' \<or> hd s = CHR ''E'' then
       (let neg = HasPrefix (tl s) ''-''; ds = (if HasPrefix (tl s) ''-'' \<or> HasPrefix (tl s) ''+'' then drop 2 s else tl s) in
        if ds = [] \<or> \<not> list_all is_digit ds then None else Some ((if neg then - 1 else 1) * int (digits_val ds)))
     else None)"

definition pow10 :: "int \<Rightarrow> rat" where
  "pow10 e = (if 0 \<le> e then 10 ^ nat e else 1 / 10 ^ nat (- e))"

definition ParseFloat :: "string \<Rightarrow> rat" where
  "ParseFloat s =
     (let neg = HasPrefix s ''-''; body = (if HasPrefix s ''-'' \<or> HasPrefix s ''+'' then tl s else s);
          (whole, r) = span_digits body;
          (frac, r2) = (if HasPrefix r ''.'' then span_digits (tl r) else ([], r)) in
      if whole = [] \<and> frac = [] then 0
      else (case parse_exponent r2 of None \<Rightarrow> 0
        | Some e \<Rightarrow> (if neg then - 1 else 1) * of_nat (digits_val (whole @ frac)) * pow10 (e - int (length frac))))"

definition formFloat :: "upload_form \<Rightarrow> string \<Rightarrow> rat" where
  "formFloat f key = ParseFloat (uf_value f key)"

definition parseDateTimeField :: "(int \<Rightarrow> int) \<Rightarrow> string \<Rightarrow> int \<Rightarrow> int" where
  "parseDateTimeField local_offset value fallback =
     (let v = TrimSpace value in
      if v = [] then fallback
      else (case ParseInt v of (n, ok) \<Rightarrow>
        if ok \<and> n > 0 then n
        else (case parse_rfc3339 v of Some t \<Rightarrow> t
          | None \<Rightarrow> (case parse_local local_offset v of Some t \<Rightarrow> t | None \<Rightarrow> fallback))))"

definition first_nonzero :: "int list \<Rightarrow> int" where
  "first_nonzero xs = (case filter (\<lambda>x. x \<noteq> 0) xs of [] \<Rightarrow> 0 | x # _ \<Rightarrow> x)"

definition first_nonempty :: "string list \<Rightarrow> string" where
  "first_nonempty xs = (case filter (\<lambda>x. x \<noteq> []) xs of [] \<Rightarrow> [] | x # _ \<Rightarrow> x)"

definition upload_time :: "(int \<Rightarrow> int) \<Rightarrow> upload_form \<Rightarrow> int \<Rightarrow> int" where
  "upload_time local_offset f now =
     (let t = parseDateTimeField local_offset (uf_value f ''dateTime'') now;
          dt = parseDateTimeField local_offset (uf_value f ''start_time'') now;
          t' = (if t = now then (if dt \<noteq> now then dt else t) else t) in
      if t' = 0 then now else t')"

definition upload_call :: "(int \<Rightarrow> int) \<Rightarrow> IngestionSource \<Rightarrow> upload_form \<Rightarrow> int \<Rightarrow> Call" where
  "upload_call local_offset src f now = zero_call\<lparr>ca_UserID := is_UserID src, ca_SourceID := is_ID src,
     ca_System := first_nonzero (map (formInt f) [''system'', ''systemId'', ''system_id'']),
     ca_SystemLabel := first_nonempty (map (uf_value f) [''systemLabel'', ''system_label'']),
     ca_Talkgroup := first_nonzero (map (formInt f) [''talkgroup'', ''talkgroupId'', ''talkgroup_id'', ''tgid'']),
     ca_TalkgroupLabel := first_nonempty (map (uf_value f) [''talkgroupLabel'', ''talkgroup_name'', ''talkgroup_label'']),
     ca_TalkgroupGroup := first_nonempty (map (uf_value f) [''talkgroupGroup'', ''talkgroup_group'']),
     ca_TalkgroupTag := first_nonempty (map (uf_value f) [''talkgroupTag'', ''talkgroup_tag'']),
     ca_Frequency := formInt f ''frequency'', ca_Duration := formFloat f ''duration'',
     ca_AudioName := uf_value f ''audioName'', ca_AudioType := uf_value f ''audioType'', ca_CreatedAt := now,
     ca_DateTime := upload_time local_offset f now\<rparr>"

definition upload_file :: "upload_form \<Rightarrow> (string \<times> string \<times> bytes option) option" where
  "upload_file f = (case uf_file f ''audio'' of Some x \<Rightarrow> Some x
     | None \<Rightarrow> (case uf_file f ''file'' of Some x \<Rightarrow> Some x | None \<Rightarrow> uf_file f ''call''))"

text \<open>The last of the checks that fails names the error.\<close>

definition validateCallUpload :: "Call \<Rightarrow> bytes \<Rightarrow> bool \<Rightarrow> string option" where
  "validateCallUpload c audio hasAudio =
     (if ca_Talkgroup c < 1 then Some ''no talkgroup''
      else if ca_System c < 1 then Some ''no system''
      else if ca_DateTime c \<le> 0 then Some ''no datetime''
      else if \<not> hasAudio \<or> length audio \<le> 44 then Some ''no audio''
      else None)"

section \<open>Talkgroups of radio sets\<close>

text \<open>Where calls live and go.\<close>

record node =
  nd_db :: db
  nd_hub :: "ws_event hub"
  nd_streams :: streamHub

definition follows_group :: "RadioSet \<Rightarrow> string \<Rightarrow> bool" where
  "follows_group rs g \<longleftrightarrow> list_ex (\<lambda>x. TrimSpace (ToLower x) = TrimSpace (ToLower g)) (rs_TalkgroupGroups rs)"

definition set_talkgroups :: "RadioSet \<Rightarrow> int list \<Rightarrow> int \<Rightarrow> node \<Rightarrow> node" where
  "set_talkgroups rs tgs now n = n\<lparr>nd_db := SetRadioSetTalkgroups (rs_ID rs) tgs now (nd_db n),
     nd_streams := updateRadioSetTalkgroups (rs_ID rs) tgs (rs_TalkgroupGroups rs) (nd_streams n)\<rparr>"

definition add_talkgroup_to :: "Call \<Rightarrow> int \<Rightarrow> node \<Rightarrow> RadioSet \<Rightarrow> node" where
  "add_talkgroup_to c now n rs =
     (if \<not> IsGroupsMode rs \<or> rs_TalkgroupGroups rs = [] then n
      else if \<not> follows_group rs (ca_TalkgroupGroup c) then n
      else if ca_Talkgroup c \<in> set (rs_Talkgroups rs) then n
      else set_talkgroups rs (sort (rs_Talkgroups rs @ [ca_Talkgroup c])) now n)"

definition addCallTalkgroupToRadioSets :: "Call \<Rightarrow> int \<Rightarrow> node \<Rightarrow> node" where
  "addCallTalkgroupToRadioSets c now n =
     (if ca_TalkgroupGroup c = [] then n
      else foldl (add_talkgroup_to c now) n (ListAllRadioSets (nd_db n)))"

definition resolve_talkgroups_of :: "int \<Rightarrow> node \<Rightarrow> RadioSet \<Rightarrow> node" where
  "resolve_talkgroups_of now n rs =
     (if \<not> IsGroupsMode rs \<or> rs_TalkgroupGroups rs = [] then n
      else (let tgs = ListDistinctTalkgroupsForGroups (rs_TalkgroupGroups rs) [] (nd_db n) in
        if tgs = [] then n
        else if tgs = rs_Talkgroups rs then n
        else set_talkgroups rs tgs now n))"

definition resolveRadioSetTalkgroups :: "int \<Rightarrow> node \<Rightarrow> node" where
  "resolveRadioSetTalkgroups now n = foldl (resolve_talkgroups_of now) n (ListAllRadioSets (nd_db n))"

section \<open>The upload\<close>

record upload_env =
  up_cfg :: transcription_config
  up_mime :: "string \<Rightarrow> string"
  up_local_offset :: "int \<Rightarrow> int"

definition resolveUploadSource :: "string \<Rightarrow> int \<Rightarrow> db \<Rightarrow> (string + IngestionSource) \<times> db" where
  "resolveUploadSource key now d =
     (if key = [] then (Inl ''missing upload key'', d)
      else (case GetSourceByAPIKey key now d of
          (Some s, d1) \<Rightarrow> (Inr s, UpdateKeyLastUsed key now d1)
        | (None, d1) \<Rightarrow> (Inl ''invalid upload key'', d1)))"

definition count_upload :: "string \<Rightarrow> bool \<Rightarrow> int \<Rightarrow> db \<Rightarrow> db" where
  "count_upload sid success now d = snd (IncrementSourceMetrics sid success now d)"

text \<open>The call with the name, type and length its file gives it, and the bytes.\<close>

definition with_audio :: "upload_env \<Rightarrow> Call \<Rightarrow> (string \<times> string \<times> bytes) option \<Rightarrow> Call \<times> bytes" where
  "with_audio env call file =
     (let (filename, partType, audio) = (case file of None \<Rightarrow> ([], [], []) | Some x \<Rightarrow> x);
          name = (if ca_AudioName call = [] then filename else ca_AudioName call);
          ty = resolveAudioType (up_mime env) (ca_AudioType call) name partType;
          dur = (if ca_Duration call = 0 \<and> audio \<noteq> [] then estimateAudioDuration audio ty else ca_Duration call) in
      (call\<lparr>ca_AudioName := name, ca_AudioType := ty, ca_Duration := dur\<rparr>, audio))"

definition deliver :: "upload_env \<Rightarrow> Call \<Rightarrow> bytes \<Rightarrow> string \<Rightarrow> int \<Rightarrow> node \<Rightarrow> node" where
  "deliver env call audio sid now n =
     (let (call', d1) = finalizeCallTranscription (up_cfg env) now call (nd_db n);
          d2 = count_upload sid True now d1;
          n1 = n\<lparr>nd_db := d2, nd_hub := broadcastCall (up_cfg env) call' sid d2 (nd_hub n), nd_streams := push call' audio (nd_streams n)\<rparr> in
      addCallTalkgroupToRadioSets call' now n1)"

definition store_upload :: "upload_env \<Rightarrow> IngestionSource \<Rightarrow> Call \<Rightarrow> bytes \<Rightarrow> bool \<Rightarrow> int \<Rightarrow> node \<Rightarrow> string reply \<times> node" where
  "store_upload env src call audio hasAudio now n =
     (case validateCallUpload call audio hasAudio of
        Some why \<Rightarrow> (Fail 417 (''incomplete call data: '' @ why), n\<lparr>nd_db := count_upload (is_ID src) False now (nd_db n)\<rparr>)
      | None \<Rightarrow> (case InsertCall call audio now (nd_db n) of
            (Inl _, d1) \<Rightarrow> (Fail 500 ''store call'', n\<lparr>nd_db := count_upload (is_ID src) False now d1\<rparr>)
          | (Inr call', d1) \<Rightarrow> (Reply 200 ''Call imported successfully.'', deliver env call' audio (is_ID src) now (n\<lparr>nd_db := d1\<rparr>))))"

text \<open>\<open>None\<close> for a form that cannot be parsed.\<close>

definition handleCallUpload :: "upload_env \<Rightarrow> upload_form option \<Rightarrow> int \<Rightarrow> node \<Rightarrow> string reply \<times> node" where
  "handleCallUpload env form now n =
     (case form of
        None \<Rightarrow> (Fail 400 ''invalid multipart form'', n)
      | Some f \<Rightarrow>
          (case resolveUploadSource (uf_value f ''key'') now (nd_db n) of
             (Inl why, d1) \<Rightarrow> (Fail 401 why, n\<lparr>nd_db := d1\<rparr>)
           | (Inr src, d1) \<Rightarrow>
               (let n1 = n\<lparr>nd_db := d1\<rparr> in
                if \<not> is_Enabled src then (Fail 403 ''source disabled'', n1)
                else if uf_value f ''test'' = ''1'' then (Fail 417 ''incomplete call data: no talkgroup'', n1)
                else (let call = upload_call (up_local_offset env) src f now in
                  case upload_file f of
                    None \<Rightarrow> (case with_audio env call None of (call', audio) \<Rightarrow> store_upload env src call' audio False now n1)
                  | Some (_, _, None) \<Rightarrow> (Fail 500 ''read audio'', n1)
                  | Some (name, ty, Some bytes) \<Rightarrow>
                      (case with_audio env call (Some (name, ty, bytes)) of (call', audio) \<Rightarrow>
                         store_upload env src call' audio True now n1)))))"


section \<open>What an upload leaves behind\<close>

lemma source_writes_calls [simp]:
  "t_calls (snd (UpsertIngestionSource s now d)) = t_calls d" "seq_calls (snd (UpsertIngestionSource s now d)) = seq_calls d"
  "t_calls (count_upload i b now d) = t_calls d"
  "t_calls (snd (GetSourceByAPIKey key now d)) = t_calls d" "seq_calls (snd (GetSourceByAPIKey key now d)) = seq_calls d"
  by (auto simp: UpsertIngestionSource_def count_upload_def IncrementSourceMetrics_def GetSourceByAPIKey_def ins_sources_def Let_def
      split: option.split sum.split)

lemma resolveUploadSource_calls:
  "resolveUploadSource key now d = (r, d1) \<Longrightarrow> t_calls d1 = t_calls d \<and> seq_calls d1 = seq_calls d"
  using source_writes_calls(4,5) [of key now d]
  by (cases "GetSourceByAPIKey key now d")
    (auto simp: resolveUploadSource_def UpdateKeyLastUsed_def split: if_splits option.splits)

lemma finalize_calls: "t_calls (snd (finalizeCallTranscription cfg now c d)) = t_calls d"
proof -
  obtain c' d' where run: "finalizeCallTranscription cfg now c d = (c', d')" by force
  have "t_calls d' = t_calls (d\<lparr>t_transcripts := t_transcripts d'\<rparr>)"
    using finalize_frame [OF run] by (rule arg_cong)
  then show ?thesis by (simp add: run)
qed

lemma set_talkgroups_calls [simp]: "t_calls (nd_db (set_talkgroups rs tgs now n)) = t_calls (nd_db n)"
  by (simp add: set_talkgroups_def SetRadioSetTalkgroups_def)

lemma add_talkgroups_calls [simp]: "t_calls (nd_db (foldl (add_talkgroup_to c now) n sets)) = t_calls (nd_db n)"
  by (induction sets arbitrary: n) (simp_all add: add_talkgroup_to_def)

lemma deliver_calls [simp]: "t_calls (nd_db (deliver env call audio sid now n)) = t_calls (nd_db n)"
  using finalize_calls [of "up_cfg env" now call "nd_db n"]
  by (simp add: deliver_def addCallTalkgroupToRadioSets_def case_prod_beta Let_def)

lemma InsertCall_row:
  "InsertCall c audio now d = (Inr c', d') \<Longrightarrow> t_calls d' = t_calls d @ [(call_row c audio now)\<lparr>cr_id := seq_calls d\<rparr>] \<and> c' = c\<lparr>ca_ID := seq_calls d\<rparr>"
  by (auto simp: InsertCall_def ins_calls_def split: sum.splits if_splits)

lemma InsertCall_fail: "InsertCall c audio now d = (Inl e, d') \<Longrightarrow> d' = d"
  by (auto simp: InsertCall_def split: sum.splits)

definition acceptable :: "calls_row \<Rightarrow> bool" where
  "acceptable r \<longleftrightarrow> cr_talkgroup r \<ge> 1 \<and> cr_system r \<ge> 1 \<and> cr_datetime r > 0 \<and> length (cr_audio r) > 44"

lemma store_upload_calls:
  assumes "store_upload env src call audio hasAudio now n = (r, n')"
  shows "if (\<exists>b. r = Reply 200 b)
    then (\<exists>row. t_calls (nd_db n') = t_calls (nd_db n) @ [row] \<and> acceptable row \<and> cr_id row = seq_calls (nd_db n) \<and>
      cr_source_id row = nullableString (ca_SourceID call) \<and> cr_user_id row = nullableString (ca_UserID call) \<and> cr_audio row = audio)
    else reply_code r \<in> {417, 500} \<and> t_calls (nd_db n') = t_calls (nd_db n)"
proof (cases "validateCallUpload call audio hasAudio")
  case None
  obtain res d1 where ins: "InsertCall call audio now (nd_db n) = (res, d1)" by force
  show ?thesis
  proof (cases res)
    case (Inl e)
    with None ins assms InsertCall_fail [of call audio now "nd_db n" e d1] show ?thesis by (auto simp: store_upload_def)
  next
    case (Inr call')
    with None ins assms InsertCall_row [of call audio now "nd_db n" call' d1] show ?thesis
      by (auto simp: store_upload_def acceptable_def call_row_def validateCallUpload_def split: if_splits)
  qed
next
  case (Some why)
  with assms show ?thesis by (auto simp: store_upload_def)
qed

definition uploads_through :: "upload_form option \<Rightarrow> int \<Rightarrow> db \<Rightarrow> IngestionSource \<Rightarrow> bool" where
  "uploads_through form now d src \<longleftrightarrow> (case form of None \<Rightarrow> False
     | Some f \<Rightarrow> uf_value f ''key'' \<noteq> [] \<and> fst (GetSourceByAPIKey (uf_value f ''key'') now d) = Some src \<and> is_Enabled src \<and>
         uf_value f ''test'' \<noteq> ''1'')"

lemma with_audio_source [simp]:
  "ca_SourceID (fst (with_audio env (upload_call off src f now) file)) = is_ID src"
  "ca_UserID (fst (with_audio env (upload_call off src f now) file)) = is_UserID src"
  by (simp_all add: with_audio_def upload_call_def Let_def case_prod_beta)

text \<open>The bytes an upload carries.\<close>

definition upload_audio :: "upload_form option \<Rightarrow> bytes" where
  "upload_audio form = (case form of None \<Rightarrow> [] | Some f \<Rightarrow>
     (case upload_file f of Some (_, _, Some b) \<Rightarrow> b | _ \<Rightarrow> []))"

lemma with_audio_bytes: "snd (with_audio env call file) = (case file of None \<Rightarrow> [] | Some (_, _, b) \<Rightarrow> b)"
  by (auto simp: with_audio_def Let_def case_prod_beta split: option.split)

lemma upload_effect:
  assumes "handleCallUpload env form now n = (r, n')"
  shows "if (\<exists>b. r = Reply 200 b)
    then (\<exists>src row. uploads_through form now (nd_db n) src \<and> t_calls (nd_db n') = t_calls (nd_db n) @ [row] \<and> acceptable row \<and>
      cr_id row = seq_calls (nd_db n) \<and> cr_source_id row = nullableString (is_ID src) \<and> cr_user_id row = nullableString (is_UserID src) \<and>
      cr_audio row = upload_audio form)
    else t_calls (nd_db n') = t_calls (nd_db n) \<and> reply_code r \<in> {400, 401, 403, 417, 500}"
proof (cases form)
  case None
  with assms show ?thesis by (auto simp: handleCallUpload_def)
next
  case (Some f)
  obtain res d1 where res: "resolveUploadSource (uf_value f ''key'') now (nd_db n) = (res, d1)" by force
  note same = resolveUploadSource_calls [OF res]
  show ?thesis
  proof (cases res)
    case (Inl why)
    with Some res same assms show ?thesis by (auto simp: handleCallUpload_def)
  next
    case (Inr src)
    show ?thesis
    proof (cases "is_Enabled src \<and> uf_value f ''test'' \<noteq> ''1''")
      case False
      with Some Inr res assms have "n' = n\<lparr>nd_db := d1\<rparr>" "r = Fail 403 ''source disabled'' \<or> r = Fail 417 ''incomplete call data: no talkgroup''"
        by (cases "is_Enabled src"; simp add: handleCallUpload_def Let_def)+
      with same show ?thesis by auto
    next
      case True
      have key: "uf_value f ''key'' \<noteq> []" "fst (GetSourceByAPIKey (uf_value f ''key'') now (nd_db n)) = Some src"
        using res Inr by (auto simp: resolveUploadSource_def split: if_splits prod.splits option.splits)
      with True Some have through: "uploads_through form now (nd_db n) src" by (simp add: uploads_through_def)
      let ?call = "upload_call (up_local_offset env) src f now"
      have stored: ?thesis
        if up: "store_upload env src (fst (with_audio env ?call upf)) audio has now (n\<lparr>nd_db := d1\<rparr>) = (r, n')" "audio = upload_audio form"
        for upf audio has
        using store_upload_calls [OF up(1)] up(2) through same by auto
      show ?thesis
      proof (cases "upload_file f")
        case None
        with Some Inr res True assms show ?thesis
          by (intro stored [of None "snd (with_audio env ?call None)" False]) (simp_all add: handleCallUpload_def Let_def case_prod_beta upload_audio_def with_audio_bytes)
      next
        case upfile: (Some x)
        obtain name ty content where x: "x = (name, ty, content)" by (cases x)
        show ?thesis
        proof (cases content)
          case None
          with upfile x Some Inr res True assms same show ?thesis by (auto simp: handleCallUpload_def Let_def)
        next
          case (Some bytes)
          with upfile x \<open>form = Some f\<close> Inr res True assms show ?thesis
            by (intro stored [of "Some (name, ty, bytes)" "snd (with_audio env ?call (Some (name, ty, bytes)))" True])
              (simp_all add: handleCallUpload_def Let_def case_prod_beta upload_audio_def with_audio_bytes)
        qed
      qed
    qed
  qed
qed

text \<open>
  Property C5. An upload is answered 200 exactly when it stores a call, and then one: of the source its key belongs
  to, which is enabled and not deleted, with a system, a talkgroup, a time and the audio it carries, more than 44 bytes. Any
  other answer stores nothing.
\<close>

theorem upload_stores_one:
  assumes "handleCallUpload env form now n = (r, n')"
  shows "if (\<exists>b. r = Reply 200 b)
    then (\<exists>src row. uploads_through form now (nd_db n) src \<and> t_calls (nd_db n') = t_calls (nd_db n) @ [row] \<and> acceptable row \<and>
      cr_id row = seq_calls (nd_db n) \<and> cr_source_id row = nullableString (is_ID src) \<and> cr_user_id row = nullableString (is_UserID src) \<and>
      cr_audio row = upload_audio form)
    else t_calls (nd_db n') = t_calls (nd_db n) \<and> reply_code r \<in> {400, 401, 403, 417, 500}"
  by (rule upload_effect [OF assms])


definition example_form :: upload_form where
  "example_form = \<lparr>uf_value = example_query_of [(''key'', ''k1''), (''system'', ''1''), (''talkgroup'', ''12''), (''talkgroupGroup'', ''Fire''),
       (''dateTime'', ''100'')],
     uf_file = (\<lambda>k. if k = ''audio'' then Some (''a.mp3'', ''audio/mpeg'', Some (replicate 50 0)) else None)\<rparr>"

definition example_upload_env :: upload_env where
  "example_upload_env = \<lparr>up_cfg = \<lparr>cfg_TranscriptionWorkerToken = [], cfg_TranscriptionMinDuration = 0\<rparr>, up_mime = (\<lambda>_. []),
     up_local_offset = (\<lambda>_. 0)\<rparr>"

definition example_node :: node where
  "example_node = \<lparr>nd_db = example_set_db\<lparr>t_keys := [\<lparr>ky_id = ''key_1'', ky_source_id = ''north'', ky_user_id = Some ''usr_5000'',
     ky_api_key = ''k1'', ky_created_at = 5, ky_last_used_at = 0\<rparr>]\<rparr>, nd_hub = newHub, nd_streams = []\<rparr>"

lemma example_set_sources: "t_sources example_set_db = t_sources example_call_db"
  by (simp add: example_set_db_def CreateRadioSet_def SetRadioSetShareToken_def ins_radio_sets_def Let_def split: sum.split)

lemma example_upload_source:
  "\<exists>s d1. resolveUploadSource ''k1'' 9 (nd_db example_node) = (Inr s, d1) \<and> is_ID s = ''north'' \<and> is_UserID s = ''usr_5000'' \<and>
     is_Enabled s \<and> source_exists d1 ''north'' \<and> user_exists d1 ''usr_5000''"
  by (simp add: resolveUploadSource_def GetSourceByAPIKey_def GetIngestionSource_def find_source_def scan_source_def
      example_node_def example_set_rows example_set_sources call_eval UpdateKeyLastUsed_def coalesce_def fresh_source_row_def source_exists_def user_exists_def)

lemma example_form_values:
  "uf_value example_form ''key'' = ''k1''" "uf_value example_form ''test'' = []" "formInt example_form ''system'' = 1"
  "formInt example_form ''talkgroup'' = 12" "formInt example_form ''frequency'' = 0"
proof -
  have "ParseInt ''1'' = (1, True)" "ParseInt ''12'' = (12, True)" "ParseInt [] = (0, False)" by code_simp+
  then show "formInt example_form ''system'' = 1" "formInt example_form ''talkgroup'' = 12" "formInt example_form ''frequency'' = 0"
    by (simp_all add: formInt_def example_form_def example_query_of_def)
qed (simp_all add: example_form_def example_query_of_def)

lemma example_form_time: "upload_time off example_form 9 = 100"
proof -
  have "ParseInt ''100'' = (100, True)" "TrimSpace ''100'' = ''100''" by code_simp+
  then show ?thesis
    by (simp add: upload_time_def parseDateTimeField_def example_form_def example_query_of_def)
qed

lemma example_upload:
  "\<exists>n'. handleCallUpload example_upload_env (Some example_form) 9 example_node = (Reply 200 ''Call imported successfully.'', n')"
proof -
  obtain s d1 where s: "resolveUploadSource ''k1'' 9 (nd_db example_node) = (Inr s, d1)" "is_ID s = ''north''" "is_UserID s = ''usr_5000''"
      "is_Enabled s" "source_exists d1 ''north''" "user_exists d1 ''usr_5000''"
    using example_upload_source by blast
  let ?call = "upload_call (up_local_offset example_upload_env) s example_form 9"
  obtain c audio where c: "with_audio example_upload_env ?call (Some (''a.mp3'', ''audio/mpeg'', replicate 50 0)) = (c, audio)" by force
  have audio: "audio = replicate 50 0"
    using arg_cong [OF c, of snd] by (simp add: with_audio_def Let_def case_prod_beta)
  have fields: "ca_System c = 1" "ca_Talkgroup c = 12" "ca_DateTime c = 100" "ca_Frequency c = 0" "ca_SenderUserID c = []"
    "ca_SourceID c = ''north''" "ca_UserID c = ''usr_5000''"
    using arg_cong [OF c, of fst] s(2,3)
    by (auto simp: with_audio_def Let_def upload_call_def example_form_values example_form_time first_nonzero_def zero_call_def)
  have "TrimSpace ''north'' \<noteq> []" "TrimSpace ''usr_5000'' \<noteq> []" by code_simp+
  then have "\<exists>c' d2. InsertCall c audio 9 d1 = (Inr c', d2)"
    using s(5,6) fields by (simp add: InsertCall_def ins_calls_def call_row_def int4_def user_ref_ok_def nullableString_def)
  then obtain c' d2 where "InsertCall c audio 9 d1 = (Inr c', d2)" by blast
  moreover have "validateCallUpload c audio True = None" using fields by (simp add: validateCallUpload_def audio)
  moreover have "upload_file example_form = Some (''a.mp3'', ''audio/mpeg'', Some (replicate 50 0))"
    by (simp add: upload_file_def example_form_def)
  ultimately show ?thesis
    using s c by (simp add: handleCallUpload_def example_form_values store_upload_def)
qed

theorem upload_stores_one_witness:
  "\<exists>n' row. handleCallUpload example_upload_env (Some example_form) 9 example_node = (Reply 200 ''Call imported successfully.'', n') \<and>
     t_calls (nd_db n') = t_calls (nd_db example_node) @ [row] \<and> acceptable row"
proof -
  obtain n' where run: "handleCallUpload example_upload_env (Some example_form) 9 example_node = (Reply 200 ''Call imported successfully.'', n')"
    using example_upload by blast
  from upload_stores_one [OF run] run show ?thesis by auto
qed

lemma UpdateKeyLastUsed_ok: "db_ok d \<Longrightarrow> db_ok (UpdateKeyLastUsed key now d)"
  unfolding UpdateKeyLastUsed_def by (rule upd_keys_ok) simp_all

lemma set_talkgroups_ok: "db_ok (nd_db n) \<Longrightarrow> db_ok (nd_db (set_talkgroups rs tgs now n))"
  using exec_radio_ok [of "nd_db n" "OpSetTalkgroups (rs_ID rs) tgs now"] by (simp add: set_talkgroups_def)

lemma add_talkgroups_ok: "db_ok (nd_db n) \<Longrightarrow> db_ok (nd_db (foldl (add_talkgroup_to c now) n sets))"
  by (induction sets arbitrary: n) (simp_all add: add_talkgroup_to_def set_talkgroups_ok)

lemma deliver_ok: "db_ok (nd_db n) \<Longrightarrow> db_ok (nd_db (deliver env call audio sid now n))"
  using finalize_ok [of "nd_db n" "up_cfg env" now call]
  by (cases "finalizeCallTranscription (up_cfg env) now call (nd_db n)")
    (simp add: deliver_def addCallTalkgroupToRadioSets_def add_talkgroups_ok count_upload_def IncrementSourceMetrics_ok Let_def)

lemma store_upload_ok: "db_ok (nd_db n) \<Longrightarrow> db_ok (nd_db (snd (store_upload env src call audio has now n)))"
  using InsertCall_ok [of "nd_db n" call audio now]
  by (cases "InsertCall call audio now (nd_db n)")
    (auto simp: store_upload_def deliver_ok count_upload_def IncrementSourceMetrics_ok split: option.split sum.split)

lemma resolveUploadSource_ok: "db_ok d \<Longrightarrow> db_ok (snd (resolveUploadSource key now d))"
  using GetSourceByAPIKey_ok [of d key now]
  by (cases "GetSourceByAPIKey key now d") (auto simp: resolveUploadSource_def UpdateKeyLastUsed_ok split: option.split)

theorem upload_keeps_constraints: "db_ok (nd_db n) \<Longrightarrow> db_ok (nd_db (snd (handleCallUpload env form now n)))"
proof (cases form)
  case (Some f)
  assume d: "db_ok (nd_db n)"
  obtain res d1 where res: "resolveUploadSource (uf_value f ''key'') now (nd_db n) = (res, d1)" by force
  with resolveUploadSource_ok [OF d, of "uf_value f ''key''" now] have "db_ok d1" by simp
  then have "db_ok (nd_db (snd (store_upload env src call audio has now (n\<lparr>nd_db := d1\<rparr>))))" for src call audio has
    by (intro store_upload_ok) simp
  with Some res \<open>db_ok d1\<close> show ?thesis
    by (auto simp: handleCallUpload_def Let_def case_prod_beta split: sum.split option.split)
qed (simp add: handleCallUpload_def)

section \<open>Streams and talkgroups\<close>

definition adds_talkgroup :: "Call \<Rightarrow> RadioSet \<Rightarrow> bool" where
  "adds_talkgroup c rs \<longleftrightarrow> IsGroupsMode rs \<and> rs_TalkgroupGroups rs \<noteq> [] \<and> follows_group rs (ca_TalkgroupGroup c) \<and>
     ca_Talkgroup c \<notin> set (rs_Talkgroups rs)"

definition retuned :: "Call \<Rightarrow> RadioSet \<Rightarrow> subscription \<Rightarrow> subscription" where
  "retuned c rs s = (if adds_talkgroup c rs \<and> sl_radioSetID (sb_listener s) = rs_ID rs
     then s\<lparr>sb_listener := (sb_listener s)\<lparr>sl_talkgroups := set (sort (rs_Talkgroups rs @ [ca_Talkgroup c])),
       sl_talkgroupGroups := group_set (rs_TalkgroupGroups rs)\<rparr>\<rparr> else s)"

lemma add_talkgroup_streams: "nd_streams (add_talkgroup_to c now n rs) = map (retuned c rs) (nd_streams n)"
proof (cases "adds_talkgroup c rs")
  case True
  then show ?thesis
    by (simp add: add_talkgroup_to_def retuned_def adds_talkgroup_def set_talkgroups_def updateRadioSetTalkgroups_def)
next
  case False
  then have "map (retuned c rs) (nd_streams n) = nd_streams n" by (simp add: retuned_def map_idI)
  with False show ?thesis by (auto simp: add_talkgroup_to_def adds_talkgroup_def)
qed

lemma add_talkgroups_streams:
  "nd_streams (foldl (add_talkgroup_to c now) n sets) = map (\<lambda>s. foldl (\<lambda>s rs. retuned c rs s) s sets) (nd_streams n)"
  by (induction sets arbitrary: n) (simp_all add: add_talkgroup_streams comp_def)

lemma retuned_simps [simp]:
  "sl_radioSetID (sb_listener (retuned c rs s)) = sl_radioSetID (sb_listener s)" "sb_id (retuned c rs s) = sb_id s"
  "sb_ch (retuned c rs s) = sb_ch s"
  by (simp_all add: retuned_def)

lemma retuned_other: "sl_radioSetID (sb_listener s) \<notin> rs_ID ` set sets \<Longrightarrow> foldl (\<lambda>s rs. retuned c rs s) s sets = s"
  by (induction sets) (auto simp: retuned_def)

lemma retuned_own:
  "distinct (map rs_ID sets) \<Longrightarrow> rs \<in> set sets \<Longrightarrow> sl_radioSetID (sb_listener s) = rs_ID rs \<Longrightarrow>
   foldl (\<lambda>s rs. retuned c rs s) s sets = retuned c rs s"
proof (induction sets arbitrary: s)
  case (Cons x sets)
  show ?case
  proof (cases "x = rs")
    case True
    then have "sl_radioSetID (sb_listener (retuned c rs s)) \<notin> rs_ID ` set sets" using Cons.prems by simp
    from retuned_other [OF this, of c] True show ?thesis by simp
  next
    case False
    with Cons.prems have "rs_ID x \<noteq> rs_ID rs" "rs \<in> set sets" by auto
    then have "retuned c x s = s" using Cons.prems(3) by (simp add: retuned_def)
    with Cons.IH Cons.prems \<open>rs \<in> set sets\<close> show ?thesis by simp
  qed
qed simp

lemma ListAllRadioSets_distinct: "db_ok d \<Longrightarrow> distinct (map rs_ID (ListAllRadioSets d))"
  using db_ok_uniq(18) [of d] by (simp add: ListAllRadioSets_def scanRadioSet_def comp_def order_asc_def uniq_def distinct_map)

text \<open>
  Property C20. A public stream of a radio set that follows groups hears the set's push-to-talk calls when it connects,
  and no longer once a call brings a new talkgroup of those groups: retuning the open streams forgets the set's own
  push-to-talk talkgroup.
\<close>

theorem new_talkgroup_cuts_ptt:
  assumes "db_ok (nd_db n)" "rs \<in> set (ListAllRadioSets (nd_db n))" "IsGroupsMode rs" "rs_PTTTalkgroup rs = Some g"
    and "publicStreamSubscription rs = (tgs, gs)" "s \<in> set (subscribe i (rs_UserID rs) (rs_ID rs) tgs gs srcs [])"
    and "s \<in> set (nd_streams n)" "adds_talkgroup c rs" "ca_TalkgroupGroup c \<noteq> []"
    and "g \<notin> set (rs_Talkgroups rs)" "ca_Talkgroup c \<noteq> g"
    and "ca_Talkgroup p = g" "normalizeTalkgroupGroup (ca_TalkgroupGroup p) \<notin> group_set (rs_TalkgroupGroups rs)"
  shows "matchesTalkgroup (sb_listener s) p \<and>
    (\<exists>s' \<in> set (nd_streams (addCallTalkgroupToRadioSets c now n)). sb_id s' = i \<and> \<not> matchesTalkgroup (sb_listener s') p)"
proof -
  have l: "sb_id s = i" "sl_radioSetID (sb_listener s) = rs_ID rs" "sl_talkgroups (sb_listener s) = set tgs"
    using assms(6) by (simp_all add: subscribe_def)
  have before: "matchesTalkgroup (sb_listener s) p"
  proof -
    have "g \<in> set tgs" using assms(4,5) by (auto simp: publicStreamSubscription_def Let_def)
    with assms(12) l(3) show ?thesis by (simp add: matchesTalkgroup_def)
  qed
  have "nd_streams (addCallTalkgroupToRadioSets c now n) =
      map (\<lambda>s. foldl (\<lambda>s rs. retuned c rs s) s (ListAllRadioSets (nd_db n))) (nd_streams n)"
    using assms(9) by (simp add: addCallTalkgroupToRadioSets_def add_talkgroups_streams)
  then have "retuned c rs s \<in> set (nd_streams (addCallTalkgroupToRadioSets c now n))"
    using assms(7) retuned_own [OF ListAllRadioSets_distinct [OF assms(1)] assms(2) l(2), of c] by force
  moreover have "\<not> matchesTalkgroup (sb_listener (retuned c rs s)) p"
    using assms(8,10-13) l(2)
    by (auto simp: retuned_def matchesTalkgroup_def normalizeTalkgroupGroup_def)
  ultimately show ?thesis using before l(1) by (intro conjI rev_bexI) simp_all
qed

definition example_listening_node :: node where
  "example_listening_node = example_node\<lparr>nd_streams :=
     subscribe 1 ''usr_5000'' ''rs1'' [9000001] [''Fire'', ''PTT''] [''north''] []\<rparr>"

theorem new_talkgroup_cuts_ptt_witness:
  "\<exists>s' \<in> set (nd_streams (addCallTalkgroupToRadioSets (example_call 100 12 ''Fire'') 9 example_listening_node)).
     \<not> matchesTalkgroup (sb_listener s') (example_call 110 9000001 ''Tactical'')"
proof -
  let ?rs = "scanRadioSet example_set_row"
  let ?sub = "subscribe 1 ''usr_5000'' ''rs1'' [9000001] [''Fire'', ''PTT''] [''north''] [] :: streamHub"
  have db: "db_ok (nd_db example_listening_node)"
    unfolding example_listening_node_def example_node_def
    using set_keys_ok [of example_set_db] example_set_db_inv
    by (simp add: radio_inv_def uniq_def fkey_iff example_set_rows example_set_sources call_eval)
  have trim: "normalizeRadioSetSelectionMode ''groups'' = ''groups''" "TrimSpace ''Tactical'' = ''Tactical''" "TrimSpace ''Fire'' = ''Fire''"
    "ToLower ''Tactical'' \<noteq> ToLower ''Fire''" "TrimSpace (ToLower ''Fire'') = ''fire''" by code_simp+
  have mem: "?rs \<in> set (ListAllRadioSets (nd_db example_listening_node))"
    by (simp add: ListAllRadioSets_def example_listening_node_def example_node_def example_set_rows)
  have rs: "IsGroupsMode ?rs" "rs_PTTTalkgroup ?rs = Some 9000001" "publicStreamSubscription ?rs = ([9000001], [''Fire'', ''PTT''])"
    "adds_talkgroup (example_call 100 12 ''Fire'') ?rs" "rs_ID ?rs = ''rs1''" "rs_UserID ?rs = ''usr_5000''" "rs_Talkgroups ?rs = []"
    "rs_TalkgroupGroups ?rs = [''Fire'']"
    by (simp_all add: scanRadioSet_def example_set_row_def IsGroupsMode_def trim publicStreamSubscription_def Let_def
        adds_talkgroup_def follows_group_def example_call_def)
  obtain s where s: "s \<in> set ?sub" "s \<in> set (nd_streams example_listening_node)"
    by (simp add: subscribe_def example_listening_node_def)
  have "normalizeTalkgroupGroup ''Tactical'' \<notin> group_set [''Fire'']"
    using trim by (simp add: group_set_iff normalizeTalkgroupGroup_def)
  with new_talkgroup_cuts_ptt [OF db mem rs(1-3), of s 1 "[''north'']" "example_call 100 12 ''Fire''" "example_call 110 9000001 ''Tactical''" 9]
    s rs show ?thesis by (auto simp: example_call_def)
qed


end
