(* ===== verification/PublicStream.thy ===== *)
theory PublicStream
  imports Uploads
begin

text \<open>
  The handlers of \<open>server/internal/api/stream.go\<close> and \<open>stream_meta.go\<close>: what a radio set's share link gives to
  whoever has it. A connection is a listener of the stream hub; on connecting it is sent the set's last calls, then
  every call that is pushed to it. A frame that cannot be written ends the connection, which is its unsubscription.
\<close>

section \<open>The player's WebSocket\<close>

record playerWSCallMsg =
  pw_ID :: int
  pw_Talkgroup :: int
  pw_TalkgroupLabel :: string
  pw_TalkgroupGroup :: string
  pw_DateTime :: int
  pw_Duration :: rat
  pw_Frequency :: int
  pw_SystemLabel :: string
  pw_AudioType :: string
  pw_TranscriptText :: string
  pw_Origin :: string
  pw_SenderUserID :: string
  pw_SenderEmail :: string
  pw_Audio :: "bytes option"

definition seedPublicStreamCalls :: "RadioSet \<Rightarrow> db \<Rightarrow> Call list" where
  "seedPublicStreamCalls rs d = GetRecentCallsForRadioSet (rs_UserID rs) rs 5 d"

definition sendCall :: "transcoder \<Rightarrow> query \<Rightarrow> streamCallMeta \<Rightarrow> bytes \<Rightarrow> playerWSCallMsg" where
  "sendCall tc q meta audio0 =
     (let wantMP3 = EqualFold (q ''format'') ''mp3''; inlineAudio = (q ''inline'' \<noteq> ''0'');
          (audio, audioType) = (if wantMP3 then (case preparePublicStreamAudio tc audio0 (sm_AudioType meta) True of (a, t, _) \<Rightarrow> (a, t))
                                else (audio0, sm_AudioType meta)) in
      \<lparr>pw_ID = sm_ID meta, pw_Talkgroup = sm_Talkgroup meta, pw_TalkgroupLabel = sm_TalkgroupLabel meta,
       pw_TalkgroupGroup = sm_TalkgroupGroup meta, pw_DateTime = sm_DateTime meta, pw_Duration = sm_Duration meta,
       pw_Frequency = sm_Frequency meta, pw_SystemLabel = sm_SystemLabel meta, pw_AudioType = audioType,
       pw_TranscriptText = sm_TranscriptText meta, pw_Origin = sm_Origin meta, pw_SenderUserID = sm_SenderUserID meta,
       pw_SenderEmail = sm_SenderEmail meta, pw_Audio = (if inlineAudio then Some audio else None)\<rparr>)"

text \<open>The call as the seed loop copies it; source, tag and audio name are left empty.\<close>

definition seed_meta :: "Call \<Rightarrow> streamCallMeta" where
  "seed_meta c = (call_meta c)\<lparr>sm_SourceID := [], sm_TalkgroupTag := [], sm_AudioName := []\<rparr>"

fun seed_frames :: "transcoder \<Rightarrow> query \<Rightarrow> db \<Rightarrow> Call list \<Rightarrow> playerWSCallMsg list" where
  "seed_frames tc q d [] = []"
| "seed_frames tc q d (c # cs) =
     (case GetCallAudio (ca_ID c) d of
        Inl _ \<Rightarrow> seed_frames tc q d cs
      | Inr (audio, _) \<Rightarrow> sendCall tc q (seed_meta c) audio # seed_frames tc q d cs)"

definition open_stream :: "RadioSet \<Rightarrow> nat \<Rightarrow> node \<Rightarrow> node" where
  "open_stream rs i n =
     (case publicStreamSubscription rs of (tgs, groups) \<Rightarrow>
        n\<lparr>nd_streams := subscribe i (rs_UserID rs) (rs_ID rs) tgs groups
            (ListReadableSourceIDsForUser (rs_UserID rs) (nd_db n)) (nd_streams n)\<rparr>)"

definition handlePublicWS ::
  "transcoder \<Rightarrow> string \<Rightarrow> query \<Rightarrow> nat \<Rightarrow> node \<Rightarrow> playerWSCallMsg list reply \<times> node" where
  "handlePublicWS tc token q i n =
     (case GetRadioSetByShareToken token (nd_db n) of
        None \<Rightarrow> (Fail 404 ''not found'', n)
      | Some rs \<Rightarrow>
          (Reply 101 (if q ''seed'' = ''0'' then [] else seed_frames tc q (nd_db n) (seedPublicStreamCalls rs (nd_db n))),
           open_stream rs i n))"

text \<open>One turn of the fan-out loop: the frame for the next call, when there is one.\<close>

definition public_ws_turn :: "transcoder \<Rightarrow> query \<Rightarrow> nat \<Rightarrow> node \<Rightarrow> playerWSCallMsg option \<times> node" where
  "public_ws_turn tc q i n =
     (case receive i (nd_streams n) of (chunk, sh) \<Rightarrow>
        (map_option (\<lambda>c. sendCall tc q (chunk_meta c) (chunk_audio c)) chunk, n\<lparr>nd_streams := sh\<rparr>))"

definition close_stream :: "nat \<Rightarrow> node \<Rightarrow> node" where
  "close_stream i n = n\<lparr>nd_streams := unsubscribe i (nd_streams n)\<rparr>"

section \<open>Pages and single calls\<close>

record playerPageConfig =
  pp_Token :: string
  pp_Name :: string

definition handlePublicPlayer :: "string \<Rightarrow> db \<Rightarrow> playerPageConfig reply" where
  "handlePublicPlayer token d =
     (case GetRadioSetByShareToken token d of
        None \<Rightarrow> Fail 404 ''not found''
      | Some rs \<Rightarrow> Reply 200 \<lparr>pp_Token = token, pp_Name = rs_Name rs\<rparr>)"

definition audio_listener :: "RadioSet \<Rightarrow> db \<Rightarrow> streamListener" where
  "audio_listener rs d = \<lparr>sl_ownerUserID = rs_UserID rs, sl_radioSetID = [],
     sl_talkgroups = (if IsGroupsMode rs then {} else set (rs_Talkgroups rs)) \<union>
       (case rs_PTTTalkgroup rs of None \<Rightarrow> {} | Some g \<Rightarrow> {g}),
     sl_talkgroupGroups = (if IsGroupsMode rs then set (rs_TalkgroupGroups rs) else {}),
     sl_sourceIDs = set (ListReadableSourceIDsForUser (rs_UserID rs) d)\<rparr>"

definition handlePublicCallAudio :: "transcoder \<Rightarrow> string \<Rightarrow> string \<Rightarrow> query \<Rightarrow> db \<Rightarrow> audio_reply reply" where
  "handlePublicCallAudio tc token idParam q d =
     (case ParseInt idParam of (i, ok) \<Rightarrow>
        if \<not> ok \<or> i \<le> 0 then Fail 400 ''invalid id''
        else (case GetRadioSetByShareToken token d of
            None \<Rightarrow> Fail 404 ''not found''
          | Some rs \<Rightarrow>
              (case GetCallByID i d of
                 Inl _ \<Rightarrow> Fail 404 ''not found''
               | Inr c \<Rightarrow>
                   (let l = audio_listener rs d in
                    if \<not> matchesTalkgroup l c \<or> \<not> matchesCall l c then Fail 403 ''forbidden''
                    else (case GetCallAudio i d of
                        Inl _ \<Rightarrow> Fail 404 ''not found''
                      | Inr (audio, audioType, audioName, _) \<Rightarrow>
                          (let (audio', type') = (if EqualFold (q ''format'') ''mp3''
                                 then (case preparePublicStreamAudio tc audio audioType True of (a, t, _) \<Rightarrow> (a, t)) else (audio, audioType)) in
                           Reply 200 (serveAudioBytes tc audio' type' (defaultCallAudioName i audioName) False ''no-store'')))))))"

definition handlePublicLastCall :: "transcoder \<Rightarrow> string \<Rightarrow> db \<Rightarrow> audio_reply reply" where
  "handlePublicLastCall tc token d =
     (case GetRadioSetByShareToken token d of
        None \<Rightarrow> Fail 404 ''not found''
      | Some rs \<Rightarrow>
          (case GetRecentCallsForRadioSet (rs_UserID rs) rs 1 d of
             [] \<Rightarrow> Fail 404 ''no calls''
           | cs \<Rightarrow>
               (let i = ca_ID (last cs) in
                case GetCallAudio i d of
                  Inl _ \<Rightarrow> Fail 404 ''audio not found''
                | Inr (audio, audioType, audioName, _) \<Rightarrow>
                    Reply 200 (serveAudioBytes tc audio audioType (defaultCallAudioName i audioName) False ''no-store''))))"

section \<open>Metadata only\<close>

record playerWSCallMetaMsg =
  pc_ID :: int
  pc_Talkgroup :: int
  pc_TalkgroupLabel :: string
  pc_TalkgroupGroup :: string
  pc_DateTime :: int
  pc_Duration :: rat
  pc_Frequency :: int
  pc_SystemLabel :: string
  pc_Site :: string
  pc_SourceType :: string
  pc_SourceLabel :: string
  pc_Category :: string

definition is_dispatch :: "Call \<Rightarrow> bool" where
  "is_dispatch c \<longleftrightarrow> ToLower (TrimSpace (ca_Origin c)) = ''ptt-dispatch''"

definition publicCallSite :: "Call \<Rightarrow> string" where
  "publicCallSite c = (if TrimSpace (ca_TalkgroupTag c) \<noteq> [] then TrimSpace (ca_TalkgroupTag c) else TrimSpace (ca_TalkgroupGroup c))"

definition publicCallSourceType :: "Call \<Rightarrow> string" where
  "publicCallSourceType c = (if isPTTCall c then (if is_dispatch c then ''DISPATCH'' else ''PTT'') else ''RF'')"

definition publicCallCategory :: "Call \<Rightarrow> string" where
  "publicCallCategory c = (if isPTTCall c then (if is_dispatch c then ''dispatch'' else ''ptt'') else ''rf'')"

definition publicCallIsCanary :: "Call \<Rightarrow> bool" where
  "publicCallIsCanary c \<longleftrightarrow> contains_text (ToUpper (TrimSpace (ca_TalkgroupLabel c))) ''CANARY'' \<or>
     HasPrefix (ToLower (TrimSpace (ca_AudioName c))) ''canary-''"

definition playerCallMetaFromCall :: "Call \<Rightarrow> string \<Rightarrow> playerWSCallMetaMsg" where
  "playerCallMetaFromCall c sourceLabel = \<lparr>pc_ID = ca_ID c, pc_Talkgroup = ca_Talkgroup c,
     pc_TalkgroupLabel = ca_TalkgroupLabel c, pc_TalkgroupGroup = ca_TalkgroupGroup c, pc_DateTime = ca_DateTime c,
     pc_Duration = ca_Duration c, pc_Frequency = ca_Frequency c, pc_SystemLabel = ca_SystemLabel c,
     pc_Site = publicCallSite c, pc_SourceType = publicCallSourceType c, pc_SourceLabel = sourceLabel,
     pc_Category = publicCallCategory c\<rparr>"

text \<open>The labels of sources are remembered for the connection.\<close>

type_synonym label_cache = "string \<rightharpoonup> string"

definition sender_label :: "string \<Rightarrow> string" where
  "sender_label email =
     (let user = first_part (CHR ''@'') email in
      if CHR ''@'' \<in> set email \<and> user \<noteq> [] then ToUpper user else ToUpper email)"

definition publicCallSourceLabel :: "db \<Rightarrow> Call \<Rightarrow> label_cache \<Rightarrow> string \<times> label_cache" where
  "publicCallSourceLabel d c cache =
     (if publicCallIsCanary c then
        (if TrimSpace (ca_TalkgroupLabel c) \<noteq> [] then ToUpper (TrimSpace (ca_TalkgroupLabel c)) else ''CANARY'', cache)
      else if ToLower (TrimSpace (ca_Origin c)) \<in> {''ptt'', ''ptt-dispatch''} then
        (if TrimSpace (ca_SenderEmail c) \<noteq> [] then sender_label (TrimSpace (ca_SenderEmail c)) else ''PTT'', cache)
      else (let sid = TrimSpace (ca_SourceID c) in
        if sid = [] then ([], cache)
        else (case cache sid of
            Some label \<Rightarrow> (label, cache)
          | None \<Rightarrow> (let label = (case GetIngestionSource sid d of Some s \<Rightarrow> TrimSpace (is_Label s) | None \<Rightarrow> []) in
              (label, cache(sid \<mapsto> label))))))"

definition enrichCallSenderEmail :: "db \<Rightarrow> Call \<Rightarrow> Call" where
  "enrichCallSenderEmail d c =
     (if TrimSpace (ca_SenderEmail c) \<noteq> [] \<or> TrimSpace (ca_SenderUserID c) = [] then c
      else (case GetUserByID (ca_SenderUserID c) d of None \<Rightarrow> c | Some u \<Rightarrow> c\<lparr>ca_SenderEmail := u_Email u\<rparr>))"

definition call_of_meta :: "streamCallMeta \<Rightarrow> Call" where
  "call_of_meta m = zero_call\<lparr>ca_ID := sm_ID m, ca_Talkgroup := sm_Talkgroup m, ca_TalkgroupLabel := sm_TalkgroupLabel m,
     ca_TalkgroupGroup := sm_TalkgroupGroup m, ca_TalkgroupTag := sm_TalkgroupTag m, ca_DateTime := sm_DateTime m,
     ca_Duration := sm_Duration m, ca_Frequency := sm_Frequency m, ca_SystemLabel := sm_SystemLabel m,
     ca_AudioName := sm_AudioName m, ca_Origin := sm_Origin m, ca_SenderEmail := sm_SenderEmail m,
     ca_SenderUserID := sm_SenderUserID m, ca_SourceID := sm_SourceID m\<rparr>"

definition sendMeta :: "db \<Rightarrow> label_cache \<Rightarrow> streamCallMeta \<Rightarrow> playerWSCallMetaMsg \<times> label_cache" where
  "sendMeta d cache m =
     (let c = enrichCallSenderEmail d (call_of_meta m) in
      case publicCallSourceLabel d c cache of (label, cache') \<Rightarrow> (playerCallMetaFromCall c label, cache'))"

fun send_metas :: "db \<Rightarrow> label_cache \<Rightarrow> streamCallMeta list \<Rightarrow> playerWSCallMetaMsg list \<times> label_cache" where
  "send_metas d cache [] = ([], cache)"
| "send_metas d cache (m # ms) =
     (case sendMeta d cache m of (x, c1) \<Rightarrow> (case send_metas d c1 ms of (xs, c2) \<Rightarrow> (x # xs, c2)))"

definition handlePublicWSMeta ::
  "string \<Rightarrow> query \<Rightarrow> nat \<Rightarrow> node \<Rightarrow> (playerWSCallMetaMsg list \<times> label_cache) reply \<times> node" where
  "handlePublicWSMeta token q i n =
     (case GetRadioSetByShareToken token (nd_db n) of
        None \<Rightarrow> (Fail 404 ''not found'', n)
      | Some rs \<Rightarrow>
          (Reply 101 (if q ''seed'' = ''0'' then ([], Map.empty)
             else send_metas (nd_db n) Map.empty (map call_meta (seedPublicStreamCalls rs (nd_db n)))),
           open_stream rs i n))"

definition public_meta_turn :: "nat \<Rightarrow> label_cache \<Rightarrow> node \<Rightarrow> (playerWSCallMetaMsg option \<times> label_cache) \<times> node" where
  "public_meta_turn i cache n =
     (case receive i (nd_streams n) of
        (None, sh) \<Rightarrow> ((None, cache), n\<lparr>nd_streams := sh\<rparr>)
      | (Some c, sh) \<Rightarrow> (case sendMeta (nd_db n) cache (chunk_meta c) of (x, cache') \<Rightarrow> ((Some x, cache'), n\<lparr>nd_streams := sh\<rparr>)))"

section \<open>What a share link gives\<close>

text \<open>
  What a link may give of account \<open>u\<close>'s set, by the program's own access check \<open>canReadCall\<close>: push-to-talk, a call that account may
  read; and what goes beyond that, a call recorded under the account's id, a call of a source it holds an upload
  key for, and a call of a deleted source that the check lets through only when it is given the deleted source, as
  \<open>handleCallAudio\<close> gives it.
\<close>

definition with_deleted :: "db \<Rightarrow> Call \<Rightarrow> string \<rightharpoonup> IngestionSource" where
  "with_deleted d c = (if ca_SourceID c \<noteq> [] then (case GetIngestionSource (ca_SourceID c) d of
     Some s \<Rightarrow> [is_ID s \<mapsto> s] | None \<Rightarrow> Map.empty) else Map.empty)"

definition link_may :: "authUser \<Rightarrow> db \<Rightarrow> Call \<Rightarrow> bool" where
  "link_may u d c \<longleftrightarrow> isPTTCall c \<or> canReadCall u c (sourceAccessMap d) (sharedSourceIDsForUser u d) \<or>
     ca_UserID c = au_ID u \<or> ca_SourceID c \<in> set (key_ids (au_ID u) d) \<or>
     sourceAccessMap d (ca_SourceID c) = None \<and> canReadCall u c (with_deleted d c) (sharedSourceIDsForUser u d)"

lemma remote_federated: "like_remote i \<Longrightarrow> IsFederatedSourceID i"
proof -
  assume "like_remote i"
  then obtain rest where i: "i = ''remote_'' @ rest" by (auto simp: like_remote_iff prefix_def)
  have ns: "\<not> is_space (CHR ''r'')" "\<not> is_space (CHR ''_'')" by code_simp+
  have "dropWhile is_space (rev i) = dropWhile is_space (rev rest) @ rev ''remote_''"
  proof (cases "\<forall>x \<in> set (rev rest). is_space x")
    case True
    then have "dropWhile is_space (rev rest @ rev ''remote_'') = dropWhile is_space (rev ''remote_'')"
      by (intro dropWhile_append2) auto
    moreover have "dropWhile is_space (rev rest) = []" using True by simp
    ultimately show ?thesis by (simp add: i ns)
  next
    case False
    then obtain x where "x \<in> set (rev rest)" "\<not> is_space x" by blast
    from dropWhile_append1 [of x "rev rest" is_space "rev ''remote_''", OF this] show ?thesis by (simp add: i)
  qed
  moreover have "dropWhile is_space i = i" by (simp add: i ns)
  ultimately have "TrimSpace i = ''remote_'' @ rev (dropWhile is_space (rev rest))" by (simp add: TrimSpace_def)
  then show "IsFederatedSourceID i" by (simp add: IsFederatedSourceID_def HasPrefix_def)
qed

lemma source_link_may:
  assumes "db_ok d" "s \<in> set (t_sources d)" "sr_id s = ca_SourceID c" "ca_SourceID c \<noteq> []"
    and "sr_user_id s = Some (au_ID u) \<or> sr_is_shared s \<or> ca_SourceID c \<in> set (share_ids (au_ID u) d) \<or>
      like_remote (ca_SourceID c) \<and> sr_enabled s \<and> sr_deleted_at s = 0"
  shows "link_may u d c"
proof -
  have found: "find_source (ca_SourceID c) d = Some s"
    using find_uniq [OF db_ok_uniq(14) [OF assms(1)] assms(2)] assms(3) by (simp add: find_source_def)
  have same: "x = s" if "x \<in> set (t_sources d)" "sr_id x = ca_SourceID c" for x
    using uniq_inj [OF db_ok_uniq(14) [OF assms(1)] that(1) assms(2)] that(2) assms(3) by simp
  show ?thesis
  proof (cases "sr_deleted_at s = 0")
    case True
    then have "live_source (ca_SourceID c) d \<noteq> None" using assms(2,3) by (auto simp: live_source_def find_None_iff)
    then obtain x where x: "live_source (ca_SourceID c) d = Some x" by blast
    then have "x \<in> set (t_sources d)" "sr_id x = ca_SourceID c" by (auto simp: live_source_def dest: find_Some_mem)
    with same x have "live_source (ca_SourceID c) d = Some s" by simp
    then have "may_read u d c" using assms(4,5) remote_federated by (auto simp: may_read_def coalesce_def)
    then show ?thesis by (simp add: link_may_def read_access [OF assms(1)])
  next
    case False
    have "live_source (ca_SourceID c) d = None" using same False by (auto simp: live_source_def find_None_iff)
    moreover have "canReadCall u c (with_deleted d c) (sharedSourceIDsForUser u d)"
      using assms(3-5) False found
      by (auto simp: canReadCall_def with_deleted_def GetIngestionSource_def scan_source_def coalesce_def
          sharedSourceIDsForUser_def ListSharedSourceIDsForUser_def)
    ultimately show ?thesis by (simp add: link_may_def sourceAccessMap_live [OF assms(1)])
  qed
qed

lemma share_source: "db_ok d \<Longrightarrow> i \<in> set (share_ids u d) \<Longrightarrow> \<exists>s \<in> set (t_sources d). sr_id s = i"
proof -
  assume d: "db_ok d" and "i \<in> set (share_ids u d)"
  then obtain h where "h \<in> set (t_shares d)" "sh_source_id h = i" by (auto simp: share_ids_def)
  with db_ok_fkey(18) [OF d] have "i \<in> sr_id ` set (t_sources d)" by (auto simp: fkey_def list_all_iff)
  then show ?thesis by auto
qed

lemma readable_link_may:
  assumes "db_ok d" "ca_SourceID c \<noteq> []" "ca_SourceID c \<in> set (ListReadableSourceIDsForUser (au_ID u) d)"
  shows "link_may u d c"
proof -
  from assms(3) consider (own) s where "s \<in> set (t_sources d)" "sr_id s = ca_SourceID c" "sr_user_id s = Some (au_ID u)"
    | (key) "ca_SourceID c \<in> set (key_ids (au_ID u) d)" | (share) "ca_SourceID c \<in> set (share_ids (au_ID u) d)"
    | (shared) s where "s \<in> set (t_sources d)" "sr_id s = ca_SourceID c" "sr_is_shared s"
    | (remote) s where "s \<in> set (t_sources d)" "sr_id s = ca_SourceID c" "like_remote (ca_SourceID c)" "sr_enabled s" "sr_deleted_at s = 0"
    by (auto simp: ListReadableSourceIDsForUser_def distinct_ids_def own_ids_def)
  then show ?thesis
  proof cases
    case key
    then show ?thesis by (simp add: link_may_def)
  next
    case share
    with share_source [OF assms(1) share] show ?thesis by (auto intro: source_link_may [OF assms(1) _ _ assms(2)])
  qed (auto intro: source_link_may [OF assms(1) _ _ assms(2)])
qed

lemma matchesCall_link_may:
  assumes "db_ok d" "sl_ownerUserID l = au_ID u" "sl_sourceIDs l \<subseteq> set (ListReadableSourceIDsForUser (au_ID u) d)" "matchesCall l c"
  shows "link_may u d c"
proof -
  consider "isPTTCall c" | "ca_UserID c = au_ID u"
    | "ca_SourceID c \<noteq> []" "ca_SourceID c \<in> set (ListReadableSourceIDsForUser (au_ID u) d)"
    using assms by (auto simp: matchesCall_def)
  then show ?thesis
  proof cases
    case 3
    then show ?thesis by (rule readable_link_may [OF assms(1)])
  qed (simp_all add: link_may_def)
qed

lemma scan_call_ids [simp]:
  "ca_ID (scan_call r) = cr_id r" "ca_UserID (scan_call r) = coalesce (cr_user_id r)"
  "ca_SourceID (scan_call r) = coalesce (cr_source_id r)" "ca_Talkgroup (scan_call r) = cr_talkgroup r"
  "ca_TalkgroupGroup (scan_call r) = cr_talkgroup_group r" "ca_Origin (scan_call r) = cr_origin r"
  by (simp_all add: scan_call_def scan_call_base_def)

lemma scan_joined_simps [simp]:
  "ca_TalkgroupGroup (scan_call_joined d r) = cr_talkgroup_group r" "ca_Origin (scan_call_joined d r) = cr_origin r"
  by (simp_all add: scan_call_joined_def split: option.split)

lemma isPTTCall_joined: "isPTTCall (scan_call_joined d r) = isPTTCall (scan_call r)"
  by (simp add: isPTTCall_def)

lemma seed_rows:
  assumes "c \<in> set (GetRecentCallsForRadioSet u rs n d)"
  shows "\<exists>r \<in> set (t_calls d). c = scan_call r \<and> recent_visible u d r"
proof -
  have rows: "r \<in> set (t_calls d) \<and> recent_visible u d r" if "r \<in> set (recent_rows u P n d)" for r P
    using that by (auto simp: recent_rows_def dest!: set_limit_subset [THEN subsetD])
  have step: "set (append_call n m x) \<subseteq> insert x (set m)" for m x
    by (auto simp: append_call_def)
  have append_sub: "set (foldl (append_call n) m xs) \<subseteq> set m \<union> set xs" for m xs
    using step by (induction xs arbitrary: m) (simp, fastforce)
  have "set (mergeRecentCallsByDateTime xs ys n) \<subseteq> set xs \<union> set ys" for xs ys
    using append_sub [of "foldl (append_call n) [] xs" ys] append_sub [of "[]" xs]
    by (auto simp: mergeRecentCallsByDateTime_def)
  then have "c \<in> set (GetRecentCallsForTalkgroupGroups u (rs_TalkgroupGroups rs) n d) \<or>
      (\<exists>tgs. c \<in> set (GetRecentCallsForTalkgroups u tgs n d))"
    using assms by (auto simp: GetRecentCallsForRadioSet_def Let_def split: if_splits)
  then obtain P where "c \<in> scan_call ` set (recent_rows u P n d)"
    by (auto simp: GetRecentCallsForTalkgroupGroups_def GetRecentCallsForTalkgroups_def split: if_splits)
  with rows show ?thesis by blast
qed

text \<open>The rows of the recent calls; a call without a source has no source id, rather than an empty one.\<close>

definition sources_named :: "db \<Rightarrow> bool" where
  "sources_named d \<longleftrightarrow> list_all (\<lambda>r. cr_source_id r \<noteq> Some []) (t_calls d)"

lemma recent_link_may:
  assumes "db_ok d" "sources_named d" "r \<in> set (t_calls d)" "recent_visible (au_ID u) d r"
  shows "link_may u d (scan_call r)"
proof (cases "cr_user_id r = Some (au_ID u)")
  case True
  then show ?thesis by (simp add: link_may_def coalesce_def)
next
  case False
  with assms(4) obtain i where i: "cr_source_id r = Some i" by (auto simp: recent_visible_def split: option.splits)
  then have sid: "ca_SourceID (scan_call r) = i" "i \<noteq> []" "coalesce (cr_source_id r) = i"
    using assms(2,3) by (auto simp: coalesce_def sources_named_def list_all_iff)
  from assms(4) False i consider (key) k where "k \<in> set (t_keys d)" "ky_source_id k = i" "ky_user_id k = Some (au_ID u)"
    | (share) h where "h \<in> set (t_shares d)" "sh_source_id h = i" "sh_user_id h = au_ID u"
    | (source) s where "find_source i d = Some s" "sr_user_id s = Some (au_ID u) \<or> sr_is_shared s \<or>
        like_remote (sr_id s) \<and> sr_enabled s \<and> sr_deleted_at s = 0"
    by (auto simp: recent_visible_def list_ex_iff split: option.splits)
  then show ?thesis
  proof cases
    case key
    then have "i \<in> set (key_ids (au_ID u) d)" by (auto simp: key_ids_def)
    then show ?thesis using sid(1) by (simp add: link_may_def del: scan_call_ids)
  next
    case share
    then have sh: "i \<in> set (share_ids (au_ID u) d)" by (auto simp: share_ids_def)
    from share_source [OF assms(1) sh] sh show ?thesis
      by (auto intro!: source_link_may [OF assms(1)] simp: sid(2,3))
  next
    case source
    then have "s \<in> set (t_sources d)" "sr_id s = i" by (auto simp: find_source_def dest: find_Some_mem)
    with source(2) show ?thesis by (intro source_link_may [OF assms(1), of s]) (auto simp: sid(2,3))
  qed
qed

lemma seeds_link_may:
  assumes "db_ok d" "sources_named d" "rs_UserID rs = au_ID u" "c \<in> set (GetRecentCallsForRadioSet (rs_UserID rs) rs k d)"
  shows "\<exists>r \<in> set (t_calls d). c = scan_call r \<and> link_may u d (scan_call r)"
  using seed_rows [OF assms(4)] recent_link_may [OF assms(1,2)] assms(3) by metis

lemma seed_frames_ids: "f \<in> set (seed_frames tc q d cs) \<Longrightarrow> \<exists>c \<in> set cs. pw_ID f = ca_ID c"
proof (induction cs)
  case (Cons c cs)
  then show ?case
    by (auto simp: sendCall_def seed_meta_def call_meta_def Let_def split: sum.splits prod.splits if_splits)
qed simp

lemma send_metas_ids: "x \<in> set (fst (send_metas d cache (map call_meta cs))) \<Longrightarrow> \<exists>c \<in> set cs. pc_ID x = ca_ID c"
proof (induction cs arbitrary: cache)
  case (Cons c cs)
  obtain y c1 where y: "sendMeta d cache (call_meta c) = (y, c1)" by force
  have "ca_ID (enrichCallSenderEmail d c') = ca_ID c'" for c' by (simp add: enrichCallSenderEmail_def split: option.split)
  then have "pc_ID y = ca_ID c"
    using y by (auto simp: sendMeta_def playerCallMetaFromCall_def call_of_meta_def call_meta_def Let_def split: prod.splits)
  with Cons.IH [of c1] Cons.prems y show ?case by (auto split: prod.splits)
qed simp

section \<open>A stream over time\<close>

text \<open>What happens at the hub of public streams; a receipt is one turn of a connection's loop.\<close>

datatype stream_event =
    StreamPush Call bytes
  | StreamOpen nat string string "int list" "string list" "string list"
  | StreamClose nat
  | StreamRetune string "int list" "string list"
  | StreamReceive nat

fun stream_step :: "stream_event \<Rightarrow> streamHub \<Rightarrow> streamHub" where
  "stream_step (StreamPush c audio) sh = push c audio sh"
| "stream_step (StreamOpen i owner rsid tgs gs ss) sh = subscribe i owner rsid tgs gs ss sh"
| "stream_step (StreamClose i) sh = unsubscribe i sh"
| "stream_step (StreamRetune rsid tgs gs) sh = updateRadioSetTalkgroups rsid tgs gs sh"
| "stream_step (StreamReceive i) sh = snd (receive i sh)"

fun opens_other :: "nat \<Rightarrow> stream_event \<Rightarrow> bool" where
  "opens_other i (StreamOpen j owner rsid tgs gs ss) = (j \<noteq> i)"
| "opens_other i e = True"

text \<open>What connection \<open>i\<close> takes off its channel.\<close>

fun received :: "nat \<Rightarrow> stream_event list \<Rightarrow> streamHub \<Rightarrow> streamChunk list" where
  "received i [] sh = []"
| "received i (e # es) sh =
     (if e = StreamReceive i then (case receive i sh of (None, _) \<Rightarrow> [] | (Some x, _) \<Rightarrow> [x]) else []) @ received i es (stream_step e sh)"

text \<open>A stream keeps the owner and the sources it was opened with, and waiting on it is only what was pushed and matched.\<close>

definition pushed_link :: "authUser \<Rightarrow> db \<Rightarrow> stream_event set \<Rightarrow> streamChunk \<Rightarrow> bool" where
  "pushed_link u d E x \<longleftrightarrow> (\<exists>c. StreamPush c (chunk_audio x) \<in> E \<and> chunk_meta x = call_meta c \<and> link_may u d c)"

definition sub_scope :: "authUser \<Rightarrow> db \<Rightarrow> stream_event set \<Rightarrow> subscription \<Rightarrow> bool" where
  "sub_scope u d E s \<longleftrightarrow> sl_ownerUserID (sb_listener s) = au_ID u \<and>
     sl_sourceIDs (sb_listener s) \<subseteq> set (ListReadableSourceIDsForUser (au_ID u) d) \<and> list_all (pushed_link u d E) (sb_ch s)"

definition stream_scope :: "nat \<Rightarrow> authUser \<Rightarrow> db \<Rightarrow> stream_event set \<Rightarrow> streamHub \<Rightarrow> bool" where
  "stream_scope i u d E sh \<longleftrightarrow> (\<forall>s \<in> set sh. sb_id s = i \<longrightarrow> sub_scope u d E s)"

lemma sub_scope_queue: "sub_scope u d E s \<Longrightarrow> list_all (pushed_link u d E) ch \<Longrightarrow> sub_scope u d E (s\<lparr>sb_ch := ch\<rparr>)"
  by (simp add: sub_scope_def)

lemma sub_scope_retune: "sub_scope u d E s \<Longrightarrow>
    sub_scope u d E (s\<lparr>sb_listener := (sb_listener s)\<lparr>sl_talkgroups := tgs, sl_talkgroupGroups := gs\<rparr>\<rparr>)"
  by (simp add: sub_scope_def)

lemma sub_scope_push:
  assumes "db_ok d" "sub_scope u d E s" "StreamPush c audio \<in> E"
  shows "sub_scope u d E (push_one c audio s)"
proof -
  have "pushed_link u d E \<lparr>chunk_audio = audio, chunk_meta = call_meta c\<rparr>" if "matchesCall (sb_listener s) c"
    using matchesCall_link_may [OF assms(1) _ _ that, of u] assms(2,3) unfolding sub_scope_def
    by (auto simp: pushed_link_def)
  with assms(2) show ?thesis by (auto simp: push_one_def sub_scope_def)
qed

lemma set_unsubscribe: "set (unsubscribe i sh) \<subseteq> set sh"
  by (induction sh) auto

lemma receive_scope:
  "stream_scope i u d E sh \<Longrightarrow> receive j sh = (x, sh') \<Longrightarrow>
   stream_scope i u d E sh' \<and> (j = i \<longrightarrow> (\<forall>y. x = Some y \<longrightarrow> pushed_link u d E y))"
proof (induction sh arbitrary: x sh')
  case (Cons s sh)
  show ?case
  proof (cases "sb_id s = j")
    case True
    show ?thesis
    proof (cases "sb_ch s")
      case Nil
      with Cons.prems True show ?thesis by simp
    next
      case (Cons y ys)
      then have "sub_scope u d E (s\<lparr>sb_ch := ys\<rparr>) \<and> pushed_link u d E y" if "sub_scope u d E s"
        using that by (simp add: sub_scope_def)
      with Cons Cons.prems True show ?thesis by (auto simp: stream_scope_def)
    qed
  next
    case False
    obtain y sh1 where r: "receive j sh = (y, sh1)" by force
    have "stream_scope i u d E sh" using Cons.prems(1) by (simp add: stream_scope_def)
    from Cons.IH [OF this r] Cons.prems False r show ?thesis by (auto simp: stream_scope_def)
  qed
qed (simp add: stream_scope_def)

lemma stream_scope_step:
  assumes "db_ok d" "stream_scope i u d E sh" "e \<in> E" "opens_other i e"
  shows "stream_scope i u d E (stream_step e sh)"
proof (cases e)
  case (StreamPush c audio)
  have "sb_id (push_one c audio s) = sb_id s" for s by (simp add: push_one_def)
  with assms(2) sub_scope_push [OF assms(1) _ assms(3) [unfolded StreamPush]] StreamPush
  show ?thesis by (auto simp: stream_scope_def push_def)
next
  case (StreamOpen j owner rsid tgs gs ss)
  with assms(2,4) show ?thesis by (auto simp: stream_scope_def subscribe_def)
next
  case (StreamClose j)
  with assms(2) set_unsubscribe [of j sh] show ?thesis by (auto simp: stream_scope_def)
next
  case (StreamRetune rsid tgs gs)
  with assms(2) sub_scope_retune show ?thesis by (auto simp: stream_scope_def updateRadioSetTalkgroups_def)
next
  case (StreamReceive j)
  with receive_scope [OF assms(2), of j] show ?thesis by (metis prod.collapse stream_step.simps(5))
qed

lemma received_scope:
  assumes "db_ok d"
  shows "stream_scope i u d E sh \<Longrightarrow> set es \<subseteq> E \<Longrightarrow> list_all (opens_other i) es \<Longrightarrow> x \<in> set (received i es sh) \<Longrightarrow>
    pushed_link u d E x"
proof (induction es arbitrary: sh)
  case (Cons e es)
  have next_scope: "stream_scope i u d E (stream_step e sh)"
    using Cons.prems(2,3) by (intro stream_scope_step [OF assms Cons.prems(1)]) auto
  obtain y sh1 where r: "receive i sh = (y, sh1)" by (rule prod.exhaust)
  have "received i (e # es) sh = (if e = StreamReceive i then (case y of None \<Rightarrow> [] | Some v \<Rightarrow> [v]) else []) @
      received i es (stream_step e sh)" by (simp only: received.simps r prod.case)
  with Cons.prems(4) have "x \<in> set (if e = StreamReceive i then (case y of None \<Rightarrow> [] | Some v \<Rightarrow> [v]) else []) \<or>
      x \<in> set (received i es (stream_step e sh))" by (simp only: set_append Un_iff)
  then consider "x \<in> set (case y of None \<Rightarrow> [] | Some v \<Rightarrow> [v])" | "x \<in> set (received i es (stream_step e sh))"
    by (metis empty_iff list.set(1))
  then show ?case
  proof cases
    case 1
    then have "y = Some x" by (cases y) auto
    with receive_scope [OF Cons.prems(1) r] show ?thesis by simp
  next
    case 2
    with Cons.IH [OF next_scope] Cons.prems(2,3) show ?thesis by simp
  qed
qed simp

lemma open_stream_scope:
  assumes "rs_UserID rs = au_ID u" "i \<notin> sb_id ` set (nd_streams n)"
  shows "stream_scope i u (nd_db n) E (nd_streams (open_stream rs i n))"
  using assms by (auto simp: stream_scope_def sub_scope_def open_stream_def subscribe_def split: prod.split)

text \<open>
  Property C14. Everything a share link gives to whoever has it is push-to-talk, or a call the account of the set's owner may
  read by canReadCall, or one of three kinds that go beyond that check: a call recorded under the owner's id, a call
  of a source the owner holds an upload key for, and a call of a deleted source that would be his to read if the
  source were not deleted. That holds of the calls sent on connecting, with and without audio, of the audio of
  one call and of the last call, and of every call that the open stream receives, whatever is pushed, opened,
  closed and retuned in the meantime. The stream is judged by the access as it stood when it was opened: the
  source ids it was given then are never looked up again, so access revoked later does not reach it.
\<close>

theorem link_scope:
  assumes "db_ok (nd_db n)" "sources_named (nd_db n)" "GetRadioSetByShareToken token (nd_db n) = Some rs" "rs_UserID rs = au_ID u"
    "i \<notin> sb_id ` set (nd_streams n)" "list_all (opens_other i) es"
  shows "(\<forall>fs n'. handlePublicWS tc token q i n = (Reply 101 fs, n') \<longrightarrow>
      (\<forall>f \<in> set fs. \<exists>r \<in> set (t_calls (nd_db n)). pw_ID f = cr_id r \<and> link_may u (nd_db n) (scan_call r)) \<and>
      (\<forall>x \<in> set (received i es (nd_streams n')). \<exists>c. StreamPush c (chunk_audio x) \<in> set es \<and>
         chunk_meta x = call_meta c \<and> link_may u (nd_db n) c)) \<and>
    (\<forall>ms cache n'. handlePublicWSMeta token q i n = (Reply 101 (ms, cache), n') \<longrightarrow>
      (\<forall>m \<in> set ms. \<exists>r \<in> set (t_calls (nd_db n)). pc_ID m = cr_id r \<and> link_may u (nd_db n) (scan_call r)) \<and>
      (\<forall>x \<in> set (received i es (nd_streams n')). \<exists>c. StreamPush c (chunk_audio x) \<in> set es \<and>
         chunk_meta x = call_meta c \<and> link_may u (nd_db n) c)) \<and>
    (\<forall>k a. handlePublicCallAudio tc token k q (nd_db n) = Reply 200 a \<longrightarrow>
      (\<exists>r \<in> set (t_calls (nd_db n)). cr_id r = fst (ParseInt k) \<and> link_may u (nd_db n) (scan_call_joined (nd_db n) r))) \<and>
    (\<forall>a. handlePublicLastCall tc token (nd_db n) = Reply 200 a \<longrightarrow>
      (\<exists>r \<in> set (t_calls (nd_db n)). link_may u (nd_db n) (scan_call r) \<and> a = serveAudioBytes tc (cr_audio r) (cr_audio_type r)
         (defaultCallAudioName (cr_id r) (cr_audio_name r)) False ''no-store''))"
proof (intro conjI)
  let ?d = "nd_db n"
  have seeds: "\<exists>r \<in> set (t_calls ?d). c = scan_call r \<and> link_may u ?d (scan_call r)"
    if "c \<in> set (GetRecentCallsForRadioSet (rs_UserID rs) rs k ?d)" for c k
    using seeds_link_may [OF assms(1,2,4) that] .
  have later: "\<forall>x \<in> set (received i es (nd_streams (open_stream rs i n))). \<exists>c. StreamPush c (chunk_audio x) \<in> set es \<and>
      chunk_meta x = call_meta c \<and> link_may u ?d c"
    using received_scope [OF assms(1) open_stream_scope [OF assms(4,5)] order_refl assms(6)] by (auto simp: pushed_link_def)
  show "\<forall>fs n'. handlePublicWS tc token q i n = (Reply 101 fs, n') \<longrightarrow>
      (\<forall>f \<in> set fs. \<exists>r \<in> set (t_calls ?d). pw_ID f = cr_id r \<and> link_may u ?d (scan_call r)) \<and>
      (\<forall>x \<in> set (received i es (nd_streams n')). \<exists>c. StreamPush c (chunk_audio x) \<in> set es \<and>
         chunk_meta x = call_meta c \<and> link_may u ?d c)"
  proof (intro allI impI)
    fix fs n' assume "handlePublicWS tc token q i n = (Reply 101 fs, n')"
    then have n': "n' = open_stream rs i n" and fs: "fs = [] \<or> fs = seed_frames tc q ?d (seedPublicStreamCalls rs ?d)"
      by (auto simp: handlePublicWS_def assms(3) split: if_splits)
    have "\<exists>r \<in> set (t_calls ?d). pw_ID f = cr_id r \<and> link_may u ?d (scan_call r)" if f: "f \<in> set fs" for f
    proof -
      obtain c where "c \<in> set (seedPublicStreamCalls rs ?d)" "pw_ID f = ca_ID c"
        using f fs by (auto dest!: seed_frames_ids)
      with seeds [of c 5] show ?thesis by (auto simp: seedPublicStreamCalls_def)
    qed
    with later n' show "(\<forall>f \<in> set fs. \<exists>r \<in> set (t_calls ?d). pw_ID f = cr_id r \<and> link_may u ?d (scan_call r)) \<and>
      (\<forall>x \<in> set (received i es (nd_streams n')). \<exists>c. StreamPush c (chunk_audio x) \<in> set es \<and>
         chunk_meta x = call_meta c \<and> link_may u ?d c)" by simp
  qed
  show "\<forall>ms cache n'. handlePublicWSMeta token q i n = (Reply 101 (ms, cache), n') \<longrightarrow>
      (\<forall>m \<in> set ms. \<exists>r \<in> set (t_calls ?d). pc_ID m = cr_id r \<and> link_may u ?d (scan_call r)) \<and>
      (\<forall>x \<in> set (received i es (nd_streams n')). \<exists>c. StreamPush c (chunk_audio x) \<in> set es \<and>
         chunk_meta x = call_meta c \<and> link_may u ?d c)"
  proof (intro allI impI)
    fix ms cache n' assume "handlePublicWSMeta token q i n = (Reply 101 (ms, cache), n')"
    then have n': "n' = open_stream rs i n" and ms: "ms = [] \<or> ms = fst (send_metas ?d Map.empty (map call_meta (seedPublicStreamCalls rs ?d)))"
      by (auto simp: handlePublicWSMeta_def assms(3) split: if_splits)
    have "\<exists>r \<in> set (t_calls ?d). pc_ID m = cr_id r \<and> link_may u ?d (scan_call r)" if m: "m \<in> set ms" for m
    proof -
      obtain c where "c \<in> set (seedPublicStreamCalls rs ?d)" "pc_ID m = ca_ID c"
        using m ms by (auto dest!: send_metas_ids)
      with seeds [of c 5] show ?thesis by (auto simp: seedPublicStreamCalls_def)
    qed
    with later n' show "(\<forall>m \<in> set ms. \<exists>r \<in> set (t_calls ?d). pc_ID m = cr_id r \<and> link_may u ?d (scan_call r)) \<and>
      (\<forall>x \<in> set (received i es (nd_streams n')). \<exists>c. StreamPush c (chunk_audio x) \<in> set es \<and>
         chunk_meta x = call_meta c \<and> link_may u ?d c)" by simp
  qed
  show "\<forall>k a. handlePublicCallAudio tc token k q ?d = Reply 200 a \<longrightarrow>
      (\<exists>r \<in> set (t_calls ?d). cr_id r = fst (ParseInt k) \<and> link_may u ?d (scan_call_joined ?d r))"
  proof (intro allI impI)
    fix k a assume *: "handlePublicCallAudio tc token k q ?d = Reply 200 a"
    obtain j ok where j: "ParseInt k = (j, ok)" by force
    from * obtain c where c: "GetCallByID j ?d = Inr c" "matchesCall (audio_listener rs ?d) c"
      using assms(3) j by (auto simp: handlePublicCallAudio_def Let_def split: sum.splits if_splits)
    then obtain r where r: "find_call j ?d = Some r" "c = scan_call_joined ?d r"
      by (auto simp: GetCallByID_def split: option.splits)
    have "link_may u ?d c" by (rule matchesCall_link_may [OF assms(1) _ _ c(2)]) (simp_all add: audio_listener_def assms(4))
    moreover have "r \<in> set (t_calls ?d)" "cr_id r = j" using r(1) by (auto simp: find_call_def dest: find_Some_mem)
    ultimately show "\<exists>r \<in> set (t_calls ?d). cr_id r = fst (ParseInt k) \<and> link_may u ?d (scan_call_joined ?d r)"
      using j r(2) by auto
  qed
  show "\<forall>a. handlePublicLastCall tc token ?d = Reply 200 a \<longrightarrow>
      (\<exists>r \<in> set (t_calls ?d). link_may u ?d (scan_call r) \<and> a = serveAudioBytes tc (cr_audio r) (cr_audio_type r)
         (defaultCallAudioName (cr_id r) (cr_audio_name r)) False ''no-store'')"
  proof (intro allI impI)
    fix a assume *: "handlePublicLastCall tc token ?d = Reply 200 a"
    let ?cs = "GetRecentCallsForRadioSet (rs_UserID rs) rs 1 ?d"
    have ne: "?cs \<noteq> []" using * assms(3) by (auto simp: handlePublicLastCall_def)
    then have "last ?cs \<in> set ?cs" by simp
    from seeds [OF this] obtain r where r: "r \<in> set (t_calls ?d)" "last ?cs = scan_call r" "link_may u ?d (scan_call r)" by blast
    have "find_call (cr_id r) ?d = Some r"
      unfolding find_call_def by (rule find_uniq [OF db_ok_uniq(10) [OF assms(1)] r(1)])
    then have "handlePublicLastCall tc token ?d = Reply 200 (serveAudioBytes tc (cr_audio r) (cr_audio_type r)
         (defaultCallAudioName (cr_id r) (cr_audio_name r)) False ''no-store'')"
      using assms(3) ne r(2) by (cases ?cs) (auto simp: handlePublicLastCall_def GetCallAudio_def)
    with * r(1,3) show "\<exists>r \<in> set (t_calls ?d). link_may u ?d (scan_call r) \<and> a = serveAudioBytes tc (cr_audio r) (cr_audio_type r)
         (defaultCallAudioName (cr_id r) (cr_audio_name r)) False ''no-store''" by auto
  qed
qed

theorem link_scope_witness:
  "\<exists>n' x. handlePublicWS \<lparr>tc_mp3 = (\<lambda>_. None), tc_m4a = (\<lambda>_ _. None)\<rparr> ''tok'' (\<lambda>k. if k = ''seed'' then ''0'' else []) 1
       \<lparr>nd_db = example_set_db, nd_hub = newHub, nd_streams = []\<rparr> = (Reply 101 [], n') \<and>
     received 1 [StreamPush (scan_call (example_row 1 100 7 ''Fire'')) [9], StreamClose 2, StreamReceive 1] (nd_streams n') = [x] \<and>
     link_may (example_outsider\<lparr>au_ID := ''usr_5000''\<rparr>) example_set_db (scan_call (example_row 1 100 7 ''Fire'')) \<and>
     \<not> isPTTCall (scan_call (example_row 1 100 7 ''Fire''))"
proof -
  let ?n = "\<lparr>nd_db = example_set_db, nd_hub = newHub, nd_streams = []\<rparr> :: node"
  let ?rs = "scanRadioSet example_set_row" and ?r = "example_row 1 100 7 ''Fire''"
  let ?es = "[StreamPush (scan_call ?r) [9], StreamClose 2, StreamReceive 1]"
  let ?tc = "\<lparr>tc_mp3 = (\<lambda>_. None), tc_m4a = (\<lambda>_ _. None)\<rparr> :: transcoder" and ?q = "\<lambda>k. if k = ''seed'' then ''0'' else []"
  have db: "db_ok (nd_db ?n)" using example_set_db_inv by (simp add: radio_inv_def)
  have named: "sources_named (nd_db ?n)" by (simp add: sources_named_def example_set_rows call_eval)
  have rs: "GetRadioSetByShareToken ''tok'' (nd_db ?n) = Some ?rs"
    by (simp add: GetRadioSetByShareToken_def example_set_rows) (simp add: example_set_row_def)
  have uid: "rs_UserID ?rs = ''usr_5000''" by (simp add: scanRadioSet_def example_set_row_def)
  have ws: "handlePublicWS ?tc ''tok'' ?q 1 ?n = (Reply 101 [], open_stream ?rs 1 ?n)"
    using rs by (simp add: handlePublicWS_def)
  have "''north'' \<in> set (ListReadableSourceIDsForUser ''usr_5000'' example_set_db)"
    by (simp add: ListReadableSourceIDsForUser_def distinct_ids_def own_ids_def example_set_rows call_eval)
  moreover have "normalizeRadioSetSelectionMode ''groups'' = ''groups''" "normalizeTalkgroupGroup ''Fire'' = ''fire''"
    "TrimSpace ''Fire'' = ''Fire''" "TrimSpace ''PTT'' = ''PTT''" by code_simp+
  ultimately have "matchesTalkgroup (sb_listener (last (nd_streams (open_stream ?rs 1 ?n)))) (scan_call ?r) \<and>
      matchesCall (sb_listener (last (nd_streams (open_stream ?rs 1 ?n)))) (scan_call ?r)"
    by (auto simp: open_stream_def subscribe_def matchesCall_def matchesTalkgroup_def uid publicStreamSubscription_def IsGroupsMode_def
        group_set_def coalesce_def example_row_eq case_prod_beta)
      (auto simp: scanRadioSet_def example_set_row_def intro: image_eqI [of _ _ "''Fire''"])
  moreover have "\<exists>s. nd_streams (open_stream ?rs 1 ?n) = [s] \<and> sb_id s = 1 \<and> sb_ch s = []"
    by (simp add: open_stream_def subscribe_def case_prod_beta)
  ultimately have "\<exists>x. received 1 ?es (nd_streams (open_stream ?rs 1 ?n)) = [x]"
    by (auto simp: push_def push_one_def stream_buffer_def)
  then obtain x where x: "received 1 ?es (nd_streams (open_stream ?rs 1 ?n)) = [x]" by blast
  have owner: "rs_UserID ?rs = au_ID (example_outsider\<lparr>au_ID := ''usr_5000''\<rparr>)" by (simp add: uid)
  have "\<forall>x \<in> set (received 1 ?es (nd_streams (open_stream ?rs 1 ?n))). \<exists>c. StreamPush c (chunk_audio x) \<in> set ?es \<and>
      chunk_meta x = call_meta c \<and> link_may (example_outsider\<lparr>au_ID := ''usr_5000''\<rparr>) (nd_db ?n) c"
    using link_scope [OF db named rs owner, of 1 ?es ?tc ?q, THEN conjunct1] ws by (simp del: received.simps)
  then have "link_may (example_outsider\<lparr>au_ID := ''usr_5000''\<rparr>) (nd_db ?n) (scan_call ?r)"
    unfolding x by auto
  moreover have "ToLower (TrimSpace ''rf'') = ''rf''" by code_simp
  then have "\<not> isPTTCall (scan_call ?r)"
    by (simp add: isPTTCall_def scan_call_def scan_call_base_def coalesce_def example_row_eq pttTalkgroupMin_def pttTalkgroupMax_def)
  ultimately show ?thesis using ws x by auto
qed

lemma TrimSpace_twice [simp]: "normalizeTalkgroupGroup (TrimSpace g) = normalizeTalkgroupGroup g"
  by (simp add: normalizeTalkgroupGroup_def)

text \<open>
  A client that takes only metadata over the WebSocket and asks for the audio of each call is refused it
  for sets that follow groups: the stream compares group names without case, the audio request compares the
  lower-case name with the names as they are written.
\<close>

theorem group_audio_refused:
  assumes "GetRadioSetByShareToken token (nd_db n) = Some rs" "IsGroupsMode rs" "g \<in> set (rs_TalkgroupGroups rs)" "TrimSpace g \<noteq> []"
    and "0 < k" "k \<le> max_int64" "find_call k (nd_db n) = Some r"
    and "normalizeTalkgroupGroup (cr_talkgroup_group r) = normalizeTalkgroupGroup g"
    and "normalizeTalkgroupGroup g \<notin> set (rs_TalkgroupGroups rs)" "rs_PTTTalkgroup rs \<noteq> Some (cr_talkgroup r)"
  shows "matchesTalkgroup (sb_listener (last (nd_streams (open_stream rs i n)))) (scan_call r) \<and>
    handlePublicCallAudio tc token (format_int k) q (nd_db n) = Fail 403 ''forbidden''"
proof -
  let ?l = "sb_listener (last (nd_streams (open_stream rs i n)))"
  have "sl_talkgroupGroups ?l = group_set (snd (publicStreamSubscription rs))"
    by (simp add: open_stream_def subscribe_def case_prod_beta)
  moreover have "set (rs_TalkgroupGroups rs) \<subseteq> set (snd (publicStreamSubscription rs))"
    using assms(2) by (auto simp: publicStreamSubscription_def Let_def split: option.splits)
  ultimately have "normalizeTalkgroupGroup g \<in> sl_talkgroupGroups ?l"
    using assms(3,4) by (auto simp: group_set_iff)
  moreover have "TrimSpace (cr_talkgroup_group r) \<noteq> []"
  proof
    assume "TrimSpace (cr_talkgroup_group r) = []"
    then have "normalizeTalkgroupGroup g = []" using assms(8) by (simp add: normalizeTalkgroupGroup_def)
    with assms(4) show False by (simp add: normalizeTalkgroupGroup_def)
  qed
  ultimately have "matchesTalkgroup ?l (scan_call r)"
    using assms(8) by (auto simp: matchesTalkgroup_def)
  moreover have "\<not> matchesTalkgroup (audio_listener rs (nd_db n)) (scan_call_joined (nd_db n) r)"
    using assms(2,8-10) by (auto simp: matchesTalkgroup_def audio_listener_def split: option.splits)
  moreover have "GetCallByID k (nd_db n) = Inr (scan_call_joined (nd_db n) r)" by (simp add: GetCallByID_def assms(7))
  moreover have "ParseInt (format_int k) = (k, True)" using assms(5,6) by (intro ParseInt_format) simp_all
  ultimately show ?thesis using assms(1,5) by (simp add: handlePublicCallAudio_def)
qed

theorem group_audio_refused_witness:
  "handlePublicCallAudio \<lparr>tc_mp3 = (\<lambda>_. None), tc_m4a = (\<lambda>_ _. None)\<rparr> ''tok'' (format_int 2) (\<lambda>_. []) example_set_db = Fail 403 ''forbidden''"
proof -
  let ?n = "\<lparr>nd_db = example_set_db, nd_hub = newHub, nd_streams = []\<rparr> :: node"
  let ?rs = "scanRadioSet example_set_row"
  have rs: "GetRadioSetByShareToken ''tok'' (nd_db ?n) = Some ?rs"
    by (simp add: GetRadioSetByShareToken_def example_set_rows) (simp add: example_set_row_def)
  have trim: "normalizeRadioSetSelectionMode ''groups'' = ''groups''" "TrimSpace ''Fire'' \<noteq> []"
    "normalizeTalkgroupGroup ''Fire'' = ''fire''" by code_simp+
  have fields: "IsGroupsMode ?rs" "rs_TalkgroupGroups ?rs = [''Fire'']" "rs_PTTTalkgroup ?rs = Some 9000001"
    by (simp_all add: scanRadioSet_def example_set_row_def IsGroupsMode_def trim)
  have call: "find_call 2 (nd_db ?n) = Some (example_row 2 103 7 ''Fire'')"
    by (simp add: find_call_def example_set_rows) (simp add: call_eval)
  from group_audio_refused [OF rs fields(1) _ trim(2) _ _ call, of undefined "\<lparr>tc_mp3 = (\<lambda>_. None), tc_m4a = (\<lambda>_ _. None)\<rparr>" "\<lambda>_. []"]
  show ?thesis by (simp add: fields trim example_row_eq max_int64_def)
qed


end
