(* ===== verification/RadioApi.thy ===== *)
theory RadioApi
  imports PublicStream Incidents
begin

text \<open>
  \<open>server/internal/api/radiosets.go\<close>, \<open>ptt.go\<close> and the handlers of \<open>talkgroups.go\<close>: radio sets as their owners and the
  administrators manage them, push-to-talk to one set and to many, and the settings of talkgroups. New ids and tokens
  are arguments, as are decoded bodies and forms (\<open>None\<close> when they cannot be parsed).
\<close>

section \<open>Radio sets\<close>

record radioSetRequest =
  rsr_Name :: string
  rsr_SelectionMode :: string
  rsr_Talkgroups :: "int list"
  rsr_TalkgroupGroups :: "string list"

definition normalizeRadioSetRequest :: "radioSetRequest \<Rightarrow> radioSetRequest" where
  "normalizeRadioSetRequest req =
     (let mode = TrimSpace (rsr_SelectionMode req) in
      req\<lparr>rsr_Name := TrimSpace (rsr_Name req), rsr_SelectionMode := (if mode = [] then ''talkgroups'' else mode),
        rsr_TalkgroupGroups := filter (\<lambda>g. g \<noteq> []) (map TrimSpace (rsr_TalkgroupGroups req))\<rparr>)"

definition validateRadioSetRequest :: "radioSetRequest \<Rightarrow> string option" where
  "validateRadioSetRequest req =
     (if rsr_Name req = [] then Some ''name is required''
      else if rsr_SelectionMode req \<in> {''talkgroups'', ''groups''} then None
      else Some ''invalid selectionMode'')"

definition attachRadioSetSourceIDs :: "RadioSet list \<Rightarrow> db \<Rightarrow> (RadioSet \<times> string list) list" where
  "attachRadioSetSourceIDs sets d = map (\<lambda>rs. (rs, if IsGroupsMode rs then ListSourceIDsForTalkgroupGroups (rs_TalkgroupGroups rs) d
     else ListSourceIDsForTalkgroups (rs_Talkgroups rs) d)) sets"

definition resolveRadioSet :: "string \<Rightarrow> authUser \<Rightarrow> db \<Rightarrow> RadioSet option" where
  "resolveRadioSet i u d = (if isAdmin u then GetRadioSetForPTT i d else GetRadioSet i (au_ID u) d)"

record radioSetListItem =
  ri_RadioSet :: RadioSet
  ri_SourceIDs :: "string list"
  ri_IncidentID :: string
  ri_IncidentStatus :: string
  ri_IncidentTitle :: string

definition attachRadioSetIncidents :: "(RadioSet \<times> string list) list \<Rightarrow> db \<Rightarrow> radioSetListItem list" where
  "attachRadioSetIncidents sets d =
     (let bySet = ListOpenIncidentsByRadioSetIDs (filter (\<lambda>i. i \<noteq> []) (map (\<lambda>(rs, _). rs_ID rs) sets)) d in
      map (\<lambda>(rs, ids). case bySet (rs_ID rs) of
          Some inc \<Rightarrow> \<lparr>ri_RadioSet = rs, ri_SourceIDs = ids, ri_IncidentID = ic_ID inc, ri_IncidentStatus = ic_Status inc,
            ri_IncidentTitle = ic_Title inc\<rparr>
        | None \<Rightarrow> \<lparr>ri_RadioSet = rs, ri_SourceIDs = ids, ri_IncidentID = [], ri_IncidentStatus = [], ri_IncidentTitle = []\<rparr>) sets)"

definition handleListRadioSets :: "authUser option \<Rightarrow> db \<Rightarrow> radioSetListItem list reply" where
  "handleListRadioSets ctx d =
     (case requireAuthenticated ctx of Inl e \<Rightarrow> e
      | Inr u \<Rightarrow> Reply 200 (attachRadioSetIncidents
          (if isAdmin u then attachRadioSetSourceIDs (ListAllRadioSets d) d
           else map (\<lambda>rs. (rs, [])) (ListRadioSets (au_ID u) d)) d))"

text \<open>The request as it may be stored, or the reply that refuses it.\<close>

definition checked_request :: "radioSetRequest option \<Rightarrow> 'a reply + radioSetRequest" where
  "checked_request body = (case body of None \<Rightarrow> Inl (Fail 400 ''invalid json'')
     | Some req0 \<Rightarrow> (let req = normalizeRadioSetRequest req0 in
         case validateRadioSetRequest req of Some msg \<Rightarrow> Inl (Fail 400 msg) | None \<Rightarrow> Inr req))"

definition handleCreateRadioSet ::
  "authUser option \<Rightarrow> radioSetRequest option \<Rightarrow> string \<Rightarrow> int \<Rightarrow> db \<Rightarrow> RadioSet reply \<times> db" where
  "handleCreateRadioSet ctx body newID now d =
     (case requireAuthenticated ctx of Inl e \<Rightarrow> (e, d)
      | Inr u \<Rightarrow>
          (case checked_request body of Inl e \<Rightarrow> (e, d)
           | Inr req \<Rightarrow>
               (case CreateRadioSet (au_ID u) (rsr_Name req) (rsr_SelectionMode req) (rsr_Talkgroups req) (rsr_TalkgroupGroups req)
                   newID now d of
                  (Inl _, d') \<Rightarrow> (Fail 500 ''create radio set'', d')
                | (Inr rs, d') \<Rightarrow> (Reply 201 rs, d'))))"

definition found_or_404 :: "RadioSet option \<Rightarrow> RadioSet reply" where
  "found_or_404 r = (case r of None \<Rightarrow> Fail 404 ''not found'' | Some rs \<Rightarrow> Reply 200 rs)"

definition handleGetRadioSet :: "authUser option \<Rightarrow> string \<Rightarrow> db \<Rightarrow> RadioSet reply" where
  "handleGetRadioSet ctx i d =
     (case requireAuthenticated ctx of Inl e \<Rightarrow> e | Inr u \<Rightarrow> found_or_404 (resolveRadioSet i u d))"

definition empty_radio_set :: RadioSet where
  "empty_radio_set = \<lparr>rs_ID = [], rs_UserID = [], rs_Name = [], rs_SelectionMode = [], rs_Talkgroups = [], rs_TalkgroupGroups = [],
     rs_ShareToken = None, rs_PTTTalkgroup = None, rs_CreatedAt = 0, rs_UpdatedAt = 0\<rparr>"

definition handleUpdateRadioSet ::
  "authUser option \<Rightarrow> string \<Rightarrow> radioSetRequest option \<Rightarrow> int \<Rightarrow> node \<Rightarrow> RadioSet reply \<times> node" where
  "handleUpdateRadioSet ctx i body now n =
     (case requireAuthenticated ctx of Inl e \<Rightarrow> (e, n)
      | Inr u \<Rightarrow>
          (case checked_request body of Inl e \<Rightarrow> (e, n)
           | Inr req \<Rightarrow>
               (case resolveRadioSet i u (nd_db n) of None \<Rightarrow> (Fail 404 ''not found'', n)
                | Some rs \<Rightarrow>
                    (case UpdateRadioSet i (rs_UserID rs) (rsr_Name req) (rsr_SelectionMode req) (rsr_Talkgroups req)
                        (rsr_TalkgroupGroups req) now (nd_db n) of
                       (Inl err, d') \<Rightarrow> (if err = NoRows then Fail 404 ''not found'' else Fail 500 ''update radio set'', n\<lparr>nd_db := d'\<rparr>)
                     | (Inr _, d') \<Rightarrow>
                         (let rs' = (case resolveRadioSet i u d' of Some x \<Rightarrow> x | None \<Rightarrow> empty_radio_set);
                              (tgs, groups) = publicStreamSubscription rs' in
                          (Reply 200 rs', n\<lparr>nd_db := d', nd_streams := updateRadioSetTalkgroups i tgs groups (nd_streams n)\<rparr>))))))"

definition handleDeleteRadioSet :: "authUser option \<Rightarrow> string \<Rightarrow> db \<Rightarrow> unit reply \<times> db" where
  "handleDeleteRadioSet ctx i d =
     (case requireAuthenticated ctx of Inl e \<Rightarrow> (e, d)
      | Inr u \<Rightarrow>
          (case resolveRadioSet i u d of None \<Rightarrow> (Fail 404 ''not found'', d)
           | Some rs \<Rightarrow>
               (case DeleteRadioSet i (rs_UserID rs) d of
                  (Inl err, d') \<Rightarrow> (if err = NoRows then Fail 404 ''not found'' else Fail 500 ''delete radio set'', d')
                | (Inr _, d') \<Rightarrow> (Reply 200 (), d'))))"

definition handleGenerateShareToken :: "authUser option \<Rightarrow> string \<Rightarrow> string \<Rightarrow> db \<Rightarrow> RadioSet reply \<times> db" where
  "handleGenerateShareToken ctx i token d =
     (case requireAuthenticated ctx of Inl e \<Rightarrow> (e, d)
      | Inr u \<Rightarrow>
          (case resolveRadioSet i u d of None \<Rightarrow> (Fail 404 ''not found'', d)
           | Some rs \<Rightarrow>
               if (case rs_ShareToken rs of Some t \<Rightarrow> TrimSpace t \<noteq> [] | None \<Rightarrow> False) then (Reply 200 rs, d)
               else (case SetRadioSetShareToken i (rs_UserID rs) token d of
                   (Inl _, d') \<Rightarrow> (Fail 500 ''set share token'', d')
                 | (Inr _, d') \<Rightarrow> (found_or_404 (resolveRadioSet i u d'), d'))))"

definition handleRevokeShareToken :: "authUser option \<Rightarrow> string \<Rightarrow> db \<Rightarrow> RadioSet reply \<times> db" where
  "handleRevokeShareToken ctx i d =
     (case requireAuthenticated ctx of Inl e \<Rightarrow> (e, d)
      | Inr u \<Rightarrow>
          (case resolveRadioSet i u d of None \<Rightarrow> (Fail 404 ''not found'', d)
           | Some rs \<Rightarrow> (let d' = ClearRadioSetShareToken i (rs_UserID rs) d in (found_or_404 (resolveRadioSet i u d'), d'))))"

section \<open>Push-to-talk\<close>

record pttUploadResponse =
  pt_CallID :: int
  pt_Talkgroup :: int

definition ptTalkgroupLabel :: "RadioSet \<Rightarrow> authUser \<Rightarrow> string" where
  "ptTalkgroupLabel rs sender =
     (let name = TrimSpace (rs_Name rs) in
      (if name = [] then ''PTT'' else name) @ [CHR '' '', CHR 0xC2, CHR 0xB7, CHR '' ''] @ au_Email sender)"

definition ptt_call :: "RadioSet \<Rightarrow> int \<Rightarrow> authUser \<Rightarrow> string \<Rightarrow> string \<Rightarrow> rat \<Rightarrow> string \<Rightarrow> int \<Rightarrow> Call" where
  "ptt_call rs tg sender audioName audioType duration origin now = zero_call\<lparr>ca_UserID := rs_UserID rs, ca_DateTime := now,
     ca_Talkgroup := tg, ca_TalkgroupLabel := ptTalkgroupLabel rs sender, ca_TalkgroupGroup := ''PTT'', ca_Duration := duration,
     ca_AudioName := audioName, ca_AudioType := audioType, ca_Origin := origin, ca_SenderUserID := au_ID sender,
     ca_SenderEmail := au_Email sender, ca_CreatedAt := now\<rparr>"

definition deliver_ptt :: "upload_env \<Rightarrow> Call \<Rightarrow> bytes \<Rightarrow> int \<Rightarrow> node \<Rightarrow> node" where
  "deliver_ptt env call audio now n =
     (case finalizeCallTranscription (up_cfg env) now call (nd_db n) of (call', d) \<Rightarrow>
        n\<lparr>nd_db := d, nd_streams := push call' audio (nd_streams n), nd_hub := broadcastCall (up_cfg env) call' [] d (nd_hub n)\<rparr>)"

text \<open>
  A call whose key was taken between the check and the record stays in the database and is not delivered; the answer is
  the other call's id. Uploads to one set disregard the id \<open>0\<close>, which stands for no call.
\<close>

definition commit_ptt ::
  "upload_env \<Rightarrow> (int \<Rightarrow> bool) \<Rightarrow> string \<Rightarrow> Call \<Rightarrow> bytes \<Rightarrow> int \<Rightarrow> node \<Rightarrow> int option \<times> node" where
  "commit_ptt env counts clientID call audio now n =
     (case InsertCall call audio now (nd_db n) of
        (Inl _, d1) \<Rightarrow> (None, n\<lparr>nd_db := d1\<rparr>)
      | (Inr call', d1) \<Rightarrow>
          (case RecordPTTUpload clientID (ca_ID call') (ca_SenderUserID call) now d1 of
             (Inr _, d2) \<Rightarrow> (Some (ca_ID call'), deliver_ptt env call' audio now (n\<lparr>nd_db := d2\<rparr>))
           | (Inl _, d2) \<Rightarrow>
               (case GetPTTUploadCallID clientID d2 of
                  Some other \<Rightarrow>
                    if counts other \<and> other \<noteq> ca_ID call' then (Some other, n\<lparr>nd_db := d2\<rparr>)
                    else (Some (ca_ID call'), deliver_ptt env call' audio now (n\<lparr>nd_db := d2\<rparr>))
                | None \<Rightarrow> (Some (ca_ID call'), deliver_ptt env call' audio now (n\<lparr>nd_db := d2\<rparr>)))))"

definition names_call :: "int \<Rightarrow> bool" where
  "names_call i \<longleftrightarrow> i \<noteq> 0"

text \<open>The clip of a form as it is stored: bytes, type, name and length.\<close>

definition ptt_clip :: "transcoder \<Rightarrow> upload_env \<Rightarrow> upload_form \<Rightarrow> 'a reply + bytes \<times> string \<times> string \<times> rat" where
  "ptt_clip tc env f =
     (case uf_file f ''audio'' of
        None \<Rightarrow> Inl (Fail 400 ''missing audio'')
      | Some (_, _, None) \<Rightarrow> Inl (Fail 500 ''read audio'')
      | Some (filename, partType, Some raw) \<Rightarrow>
          if length raw \<le> 44 then Inl (Fail 400 ''audio too small'')
          else (case normalizePTTAudio tc raw (resolveAudioType (up_mime env) [] filename partType) filename of
             (audio, ty, name) \<Rightarrow>
               (let dur = formFloat f ''duration'' in
                Inr (audio, ty, name, if dur = 0 then estimateAudioDuration audio ty else dur))))"

definition handlePTTUpload ::
  "transcoder \<Rightarrow> upload_env \<Rightarrow> authUser option \<Rightarrow> string \<Rightarrow> upload_form option \<Rightarrow> int \<Rightarrow> node \<Rightarrow> pttUploadResponse reply \<times> node" where
  "handlePTTUpload tc env ctx setID form now n =
     (case requireAuthenticated ctx of Inl e \<Rightarrow> (e, n)
      | Inr u \<Rightarrow>
          if \<not> au_TxEnabled u then (Fail 403 ''tx not enabled for this user'', n)
          else if isGuest u then (Fail 403 ''guests cannot transmit'', n)
          else (case GetRadioSetForPTT setID (nd_db n) of
              None \<Rightarrow> (Fail 404 ''radio set not found'', n)
            | Some rs \<Rightarrow>
                (case rs_PTTTalkgroup rs of
                   None \<Rightarrow> (Fail 400 ''radio set has no ptt talkgroup'', n)
                 | Some tg \<Rightarrow>
                     (case form of
                        None \<Rightarrow> (Fail 400 ''invalid multipart form'', n)
                      | Some f \<Rightarrow>
                          (let clientID = TrimSpace (uf_value f ''clientId'') in
                           if clientID = [] then (Fail 400 ''missing clientId'', n)
                           else (case GetPTTUploadCallID clientID (nd_db n) of
                               Some existing \<Rightarrow> (Reply 200 \<lparr>pt_CallID = existing, pt_Talkgroup = tg\<rparr>, n)
                             | None \<Rightarrow>
                                 (case ptt_clip tc env f of Inl e \<Rightarrow> (e, n)
                                  | Inr (audio, ty, name, dur) \<Rightarrow>
                                      (case commit_ptt env names_call clientID (ptt_call rs tg u name ty dur ''ptt'' now) audio now n of
                                         (None, n') \<Rightarrow> (Fail 500 ''store call'', n')
                                       | (Some i, n') \<Rightarrow> (Reply 200 \<lparr>pt_CallID = i, pt_Talkgroup = tg\<rparr>, n')))))))))"

record pttBroadcastResult =
  pb_RadioSetID :: string
  pb_CallID :: int
  pb_Talkgroup :: int
  pb_Error :: string

definition deliverPTTToSet ::
  "upload_env \<Rightarrow> authUser \<Rightarrow> string \<Rightarrow> bytes \<Rightarrow> string \<Rightarrow> string \<Rightarrow> rat \<Rightarrow> int \<Rightarrow> string \<Rightarrow> node \<Rightarrow> pttBroadcastResult \<times> node" where
  "deliverPTTToSet env u baseClientID audio audioName audioType duration now setID n =
     (let clientID = baseClientID @ '':'' @ setID;
          failed = (\<lambda>msg. \<lparr>pb_RadioSetID = setID, pb_CallID = 0, pb_Talkgroup = 0, pb_Error = msg\<rparr>) in
      case GetRadioSetForPTT setID (nd_db n) of
        None \<Rightarrow> (failed ''not found'', n)
      | Some rs \<Rightarrow>
          (case rs_PTTTalkgroup rs of
             None \<Rightarrow> (failed ''no ptt talkgroup'', n)
           | Some tg \<Rightarrow>
               (let landed = (\<lambda>i. \<lparr>pb_RadioSetID = setID, pb_CallID = i, pb_Talkgroup = tg, pb_Error = []\<rparr>) in
                case GetPTTUploadCallID clientID (nd_db n) of
                  Some existing \<Rightarrow> (landed existing, n)
                | None \<Rightarrow>
                    (case commit_ptt env (\<lambda>_. True) clientID (ptt_call rs tg u audioName audioType duration ''ptt-dispatch'' now) audio now n of
                       (None, n') \<Rightarrow> (failed ''store call'', n')
                     | (Some i, n') \<Rightarrow> (landed i, n')))))"

text \<open>The separator is the comma at the only place that splits.\<close>

definition splitAndTrim :: "string \<Rightarrow> string list" where
  "splitAndTrim s = filter (\<lambda>p. p \<noteq> []) (map TrimSpace (split_comma s))"

fun deliver_all :: "(string \<Rightarrow> node \<Rightarrow> pttBroadcastResult \<times> node) \<Rightarrow> string list \<Rightarrow> node \<Rightarrow> pttBroadcastResult list \<times> node" where
  "deliver_all f [] n = ([], n)"
| "deliver_all f (i # ids) n = (case f i n of (r, n1) \<Rightarrow> (case deliver_all f ids n1 of (rs, n2) \<Rightarrow> (r # rs, n2)))"

definition handlePTTBroadcast ::
  "transcoder \<Rightarrow> upload_env \<Rightarrow> authUser option \<Rightarrow> upload_form option \<Rightarrow> int \<Rightarrow> node \<Rightarrow> pttBroadcastResult list reply \<times> node" where
  "handlePTTBroadcast tc env ctx form now n =
     (case requireAuthenticated ctx of Inl e \<Rightarrow> (e, n)
      | Inr u \<Rightarrow>
          if \<not> au_TxEnabled u \<or> \<not> au_DispatcherEnabled u then (Fail 403 ''dispatcher broadcast not enabled for this user'', n)
          else if isGuest u then (Fail 403 ''guests cannot transmit'', n)
          else (case form of
              None \<Rightarrow> (Fail 400 ''invalid multipart form'', n)
            | Some f \<Rightarrow>
                (let clientID = TrimSpace (uf_value f ''clientId''); rawIDs = TrimSpace (uf_value f ''radioSetIds'');
                     ids = splitAndTrim rawIDs in
                 if clientID = [] then (Fail 400 ''missing clientId'', n)
                 else if rawIDs = [] then (Fail 400 ''missing radioSetIds'', n)
                 else if ids = [] then (Fail 400 ''no radio sets specified'', n)
                 else (case ptt_clip tc env f of Inl e \<Rightarrow> (e, n)
                   | Inr (audio, ty, name, dur) \<Rightarrow>
                       (case deliver_all (deliverPTTToSet env u clientID audio name ty dur now) ids n of
                          (results, n') \<Rightarrow> (Reply 200 results, n'))))))"

section \<open>Talkgroups\<close>

definition handleListTalkgroupSettings :: "authUser option \<Rightarrow> db \<Rightarrow> TalkgroupSetting list reply" where
  "handleListTalkgroupSettings ctx d =
     (case requireAuthenticated ctx of Inl e \<Rightarrow> e | Inr _ \<Rightarrow> Reply 200 (ListTalkgroupSettings d))"

record updateTalkgroupSettingsRequest =
  ut_Favorite :: bool
  ut_Muted :: bool
  ut_Transcribe :: bool

definition talkgroup_param :: "string \<Rightarrow> 'a reply + int" where
  "talkgroup_param p = (case ParseInt p of (g, ok) \<Rightarrow> if \<not> ok \<or> g \<le> 0 then Inl (Fail 400 ''invalid talkgroup'') else Inr g)"

definition handleUpsertTalkgroupSettings ::
  "transcription_config \<Rightarrow> authUser option \<Rightarrow> string \<Rightarrow> updateTalkgroupSettingsRequest option \<Rightarrow> int \<Rightarrow> db \<Rightarrow> TalkgroupSetting reply \<times> db" where
  "handleUpsertTalkgroupSettings cfg ctx param body now d =
     (case requireAuthenticated ctx of Inl e \<Rightarrow> (e, d)
      | Inr _ \<Rightarrow>
          (case talkgroup_param param of Inl e \<Rightarrow> (e, d)
           | Inr g \<Rightarrow>
               (case body of None \<Rightarrow> (Fail 400 ''invalid json'', d)
                | Some req \<Rightarrow>
                    (let s = \<lparr>tg_Talkgroup = g, tg_Favorite = ut_Favorite req, tg_Muted = ut_Muted req,
                              tg_Transcribe = ut_Transcribe req, tg_UpdatedAt = now\<rparr> in
                     case UpsertTalkgroupSetting s now d of
                       (Inl _, d') \<Rightarrow> (Fail 500 ''save talkgroup settings'', d')
                     | (Inr _, d') \<Rightarrow>
                         (Reply 200 s, if cfg_TranscriptionWorkerToken cfg \<noteq> [] then SkipUnselectedPendingTranscriptionJobs now d'
                            else d')))))"

text \<open>A number beyond the column's type makes the statement fail.\<close>

definition handleDeleteTalkgroup :: "authUser option \<Rightarrow> string \<Rightarrow> int \<Rightarrow> db \<Rightarrow> (int \<times> int) reply \<times> db" where
  "handleDeleteTalkgroup ctx param now d =
     (case requireAdmin ctx of Inl e \<Rightarrow> (e, d)
      | Inr admin \<Rightarrow>
          (case talkgroup_param param of Inl e \<Rightarrow> (e, d)
           | Inr g \<Rightarrow>
               if \<not> int4 g then (Fail 500 ''delete talkgroup'', d)
               else (case DeleteTalkgroup g d of (deleted, d') \<Rightarrow>
                   (Reply 200 (g, deleted), audit (au_ID admin) ''admin.talkgroup_deleted'' ''talkgroup'' (format_int g)
                      [(''callsDeleted'', JNumber deleted)] now d'))))"

definition handleListDistinctTalkgroups :: "authUser option \<Rightarrow> db \<Rightarrow> TalkgroupInfo list reply" where
  "handleListDistinctTalkgroups ctx d =
     (case requireAuthenticated ctx of Inl e \<Rightarrow> e | Inr u \<Rightarrow> Reply 200 (ListDistinctTalkgroups (au_ID u) (isAdmin u) d))"

section \<open>Whose sets a request may touch\<close>

datatype radio_request =
    RadioCreate "radioSetRequest option" string
  | RadioUpdate string "radioSetRequest option"
  | RadioDelete string
  | RadioShare string string
  | RadioRevoke string

fun radio_step :: "authUser option \<Rightarrow> int \<times> radio_request \<Rightarrow> node \<Rightarrow> nat \<times> node" where
  "radio_step ctx (now, RadioCreate body newID) n =
     (case handleCreateRadioSet ctx body newID now (nd_db n) of (r, d) \<Rightarrow> (reply_code r, n\<lparr>nd_db := d\<rparr>))"
| "radio_step ctx (now, RadioUpdate i body) n = (case handleUpdateRadioSet ctx i body now n of (r, n') \<Rightarrow> (reply_code r, n'))"
| "radio_step ctx (now, RadioDelete i) n =
     (case handleDeleteRadioSet ctx i (nd_db n) of (r, d) \<Rightarrow> (reply_code r, n\<lparr>nd_db := d\<rparr>))"
| "radio_step ctx (now, RadioShare i token) n =
     (case handleGenerateShareToken ctx i token (nd_db n) of (r, d) \<Rightarrow> (reply_code r, n\<lparr>nd_db := d\<rparr>))"
| "radio_step ctx (now, RadioRevoke i) n =
     (case handleRevokeShareToken ctx i (nd_db n) of (r, d) \<Rightarrow> (reply_code r, n\<lparr>nd_db := d\<rparr>))"

lemma resolve_row:
  assumes "resolveRadioSet i u d = Some rs"
  shows "\<exists>r \<in> set (t_radio_sets d). rr_id r = i \<and> rs = scanRadioSet r \<and> (isAdmin u \<or> rr_user_id r = au_ID u)"
  using assms by (auto simp: resolveRadioSet_def GetRadioSetForPTT_def GetRadioSet_def split: if_splits dest!: find_Some_mem)

lemma scan_user [simp]: "rs_UserID (scanRadioSet r) = rr_user_id r" "rs_ID (scanRadioSet r) = rr_id r"
  by (simp_all add: scanRadioSet_def)

definition user_op :: "authUser \<Rightarrow> radio_op \<Rightarrow> bool" where
  "user_op u x \<longleftrightarrow> isAdmin u \<or> scoped_to (au_ID u) x"

text \<open>A request is at most one statement on the user's own sets and at most one update of the streams of such a set.\<close>

lemma radio_step_op:
  assumes "radio_step (Some u) (now, rq) n = (c, n')"
  shows "(nd_db n' = nd_db n \<or> (\<exists>x. user_op u x \<and> nd_db n' = exec_radio x (nd_db n))) \<and>
    (nd_streams n' = nd_streams n \<or> (\<exists>i tgs gs. resolveRadioSet i u (nd_db n) \<noteq> None \<and>
       nd_streams n' = updateRadioSetTalkgroups i tgs gs (nd_streams n)))"
proof (cases rq)
  case (RadioCreate body newID)
  show ?thesis
  proof (cases "checked_request body :: RadioSet reply + radioSetRequest")
    case (Inr req)
    let ?x = "OpCreateSet (au_ID u) (rsr_Name req) (rsr_SelectionMode req) (rsr_Talkgroups req) (rsr_TalkgroupGroups req) newID now"
    have "user_op u ?x" by (simp add: user_op_def)
    moreover have "nd_db n' = exec_radio ?x (nd_db n)" "nd_streams n' = nd_streams n"
      using assms RadioCreate Inr by (auto simp: handleCreateRadioSet_def requireAuthenticated_def split: prod.splits sum.splits)
    ultimately show ?thesis by blast
  qed (use assms RadioCreate in \<open>auto simp: handleCreateRadioSet_def requireAuthenticated_def\<close>)
next
  case (RadioUpdate i body)
  show ?thesis
  proof (cases "checked_request body :: RadioSet reply + radioSetRequest")
    case (Inr req)
    show ?thesis
    proof (cases "resolveRadioSet i u (nd_db n)")
      case (Some rs)
      let ?x = "OpUpdateSet i (rs_UserID rs) (rsr_Name req) (rsr_SelectionMode req) (rsr_Talkgroups req) (rsr_TalkgroupGroups req) now"
      have "user_op u ?x" using resolve_row [OF Some] by (auto simp: user_op_def)
      moreover have "nd_db n' = exec_radio ?x (nd_db n) \<and>
        (nd_streams n' = nd_streams n \<or> (\<exists>tgs gs. nd_streams n' = updateRadioSetTalkgroups i tgs gs (nd_streams n)))"
      proof -
        obtain res d' where upd: "UpdateRadioSet i (rs_UserID rs) (rsr_Name req) (rsr_SelectionMode req) (rsr_Talkgroups req)
            (rsr_TalkgroupGroups req) now (nd_db n) = (res, d')" by force
        let ?sub = "publicStreamSubscription (case resolveRadioSet i u d' of Some y \<Rightarrow> y | None \<Rightarrow> empty_radio_set)"
        show ?thesis
        proof (cases res)
          case (Inl err)
          with assms RadioUpdate Inr Some upd show ?thesis by (auto simp: handleUpdateRadioSet_def requireAuthenticated_def)
        next
          case (Inr v)
          with assms RadioUpdate \<open>checked_request body = Inr req\<close> Some upd
          have "nd_streams n' = updateRadioSetTalkgroups i (fst ?sub) (snd ?sub) (nd_streams n) \<and> nd_db n' = d'"
            by (auto simp: handleUpdateRadioSet_def requireAuthenticated_def Let_def case_prod_beta)
          with upd show ?thesis by auto
        qed
      qed
      ultimately show ?thesis using Some by blast
    qed (use assms RadioUpdate Inr in \<open>auto simp: handleUpdateRadioSet_def requireAuthenticated_def\<close>)
  qed (use assms RadioUpdate in \<open>auto simp: handleUpdateRadioSet_def requireAuthenticated_def\<close>)
next
  case (RadioDelete i)
  show ?thesis
  proof (cases "resolveRadioSet i u (nd_db n)")
    case (Some rs)
    have "user_op u (OpDeleteSet i (rs_UserID rs))" using resolve_row [OF Some] by (auto simp: user_op_def)
    moreover have "nd_db n' = exec_radio (OpDeleteSet i (rs_UserID rs)) (nd_db n)" "nd_streams n' = nd_streams n"
      using assms RadioDelete Some by (auto simp: handleDeleteRadioSet_def requireAuthenticated_def split: prod.splits sum.splits)
    ultimately show ?thesis by blast
  qed (use assms RadioDelete in \<open>auto simp: handleDeleteRadioSet_def requireAuthenticated_def\<close>)
next
  case (RadioShare i token)
  show ?thesis
  proof (cases "resolveRadioSet i u (nd_db n)")
    case (Some rs)
    have "user_op u (OpShareSet i (rs_UserID rs) token)" using resolve_row [OF Some] by (auto simp: user_op_def)
    moreover have "nd_db n' = nd_db n \<or> nd_db n' = exec_radio (OpShareSet i (rs_UserID rs) token) (nd_db n)" "nd_streams n' = nd_streams n"
      using assms RadioShare Some
      by (auto simp: handleGenerateShareToken_def requireAuthenticated_def split: prod.splits sum.splits if_splits)
    ultimately show ?thesis by blast
  qed (use assms RadioShare in \<open>auto simp: handleGenerateShareToken_def requireAuthenticated_def\<close>)
next
  case (RadioRevoke i)
  show ?thesis
  proof (cases "resolveRadioSet i u (nd_db n)")
    case (Some rs)
    have "user_op u (OpUnshareSet i (rs_UserID rs))" using resolve_row [OF Some] by (auto simp: user_op_def)
    moreover have "nd_db n' = exec_radio (OpUnshareSet i (rs_UserID rs)) (nd_db n)" "nd_streams n' = nd_streams n"
      using assms RadioRevoke Some by (auto simp: handleRevokeShareToken_def requireAuthenticated_def Let_def)
    ultimately show ?thesis by blast
  qed (use assms RadioRevoke in \<open>auto simp: handleRevokeShareToken_def requireAuthenticated_def\<close>)
qed

definition streams_of :: "string \<Rightarrow> node \<Rightarrow> subscription list" where
  "streams_of i n = filter (\<lambda>s. sl_radioSetID (sb_listener s) = i) (nd_streams n)"

lemma streams_update: "j \<noteq> i \<Longrightarrow> filter (\<lambda>s. sl_radioSetID (sb_listener s) = j) (updateRadioSetTalkgroups i tgs gs sh) =
    filter (\<lambda>s. sl_radioSetID (sb_listener s) = j) sh"
  by (induction sh) (auto simp: updateRadioSetTalkgroups_def)

lemma radio_step_isolated:
  assumes "radio_inv (nd_db n)" "\<not> isAdmin u" "radio_step (Some u) x n = (c, n')"
  shows "radio_inv (nd_db n') \<and> others_sets (au_ID u) (nd_db n') = others_sets (au_ID u) (nd_db n) \<and>
    (\<forall>r \<in> set (others_sets (au_ID u) (nd_db n)). streams_of (rr_id r) n' = streams_of (rr_id r) n)"
proof -
  obtain now rq where x: "x = (now, rq)" by (cases x)
  note step = radio_step_op [OF assms(3) [unfolded x]]
  have "radio_inv (nd_db n') \<and> others_sets (au_ID u) (nd_db n') = others_sets (au_ID u) (nd_db n)"
    using step assms(1,2) by (auto simp: user_op_def scoped_step radio.step_inv)
  moreover have "streams_of (rr_id r) n' = streams_of (rr_id r) n" if r: "r \<in> set (others_sets (au_ID u) (nd_db n))" for r
  proof -
    have "rr_id r \<noteq> i" if "resolveRadioSet i u (nd_db n) \<noteq> None" for i
    proof
      assume id: "rr_id r = i"
      from that obtain s where s: "s \<in> set (t_radio_sets (nd_db n))" "rr_id s = i" "rr_user_id s = au_ID u"
        using resolve_row [of i u "nd_db n"] assms(2) by blast
      have "db_ok (nd_db n)" using assms(1) by (simp add: radio_inv_def)
      from uniq_inj [OF db_ok_uniq(18) [OF this] _ s(1), of r] r id s(2) have "r = s" by (simp add: others_sets_def)
      with r s(3) show False by (simp add: others_sets_def)
    qed
    with step show ?thesis by (auto simp: streams_of_def streams_update)
  qed
  ultimately show ?thesis by blast
qed

text \<open>
  Property C10. Whatever a user who is no administrator asks of the radio set interface, in any number of requests and
  with any ids and tokens, the sets of everybody else stay as they are, their open streams hear what they heard before, the
  push-to-talk talkgroups stay unique and the schema's constraints hold.
\<close>

theorem radio_requests_isolated:
  assumes "radio_inv (nd_db n)" "\<not> isAdmin u"
  shows "let n' = run (\<lambda>x m. snd (radio_step (Some u) x m)) rqs n in
    radio_inv (nd_db n') \<and> others_sets (au_ID u) (nd_db n') = others_sets (au_ID u) (nd_db n) \<and>
    (\<forall>r \<in> set (others_sets (au_ID u) (nd_db n)). streams_of (rr_id r) n' = streams_of (rr_id r) n)"
  using assms(1)
proof (induction rqs arbitrary: n)
  case (Cons x rqs)
  obtain c m where "radio_step (Some u) x n = (c, m)" by (cases "radio_step (Some u) x n")
  with radio_step_isolated [OF Cons.prems assms(2) this] Cons.IH [of m] show ?case by (simp add: Let_def)
qed simp

section \<open>What push-to-talk does\<close>

lemma transcripts_frame:
  assumes "d' = d\<lparr>t_transcripts := ts\<rparr>"
  shows "t_radio_sets d' = t_radio_sets d \<and> t_ptt_uploads d' = t_ptt_uploads d \<and> t_calls d' = t_calls d \<and> t_users d' = t_users d \<and>
    seq_calls d' = seq_calls d"
  by (simp add: assms)

lemma deliver_ptt_frame:
  "t_radio_sets (nd_db (deliver_ptt env c audio now n)) = t_radio_sets (nd_db n) \<and>
   t_ptt_uploads (nd_db (deliver_ptt env c audio now n)) = t_ptt_uploads (nd_db n) \<and>
   seq_calls (nd_db (deliver_ptt env c audio now n)) = seq_calls (nd_db n) \<and>
   t_users (nd_db (deliver_ptt env c audio now n)) = t_users (nd_db n) \<and>
   t_calls (nd_db (deliver_ptt env c audio now n)) = t_calls (nd_db n)"
proof -
  obtain c' d' where run: "finalizeCallTranscription (up_cfg env) now c (nd_db n) = (c', d')" by force
  from transcripts_frame [OF finalize_frame [OF run]] show ?thesis by (simp add: deliver_ptt_def run)
qed

lemma finalize_call_fields:
  "finalizeCallTranscription cfg now c d = (c', d') \<Longrightarrow> ca_ID c' = ca_ID c \<and> ca_Talkgroup c' = ca_Talkgroup c \<and>
     ca_TalkgroupGroup c' = ca_TalkgroupGroup c \<and> ca_Origin c' = ca_Origin c"
  by (auto simp: finalizeCallTranscription_def skip_transcription_def Let_def split: if_splits prod.splits sum.splits)

lemma InsertCall_frame:
  assumes "InsertCall c audio now d = (Inr c', d')"
  shows "c' = c\<lparr>ca_ID := seq_calls d\<rparr>" "t_calls d' = t_calls d @ [(call_row c audio now)\<lparr>cr_id := seq_calls d\<rparr>]"
    "t_radio_sets d' = t_radio_sets d" "t_ptt_uploads d' = t_ptt_uploads d" "t_users d' = t_users d" "seq_calls d' = seq_calls d + 1"
  using assms by (auto simp: InsertCall_def ins_calls_def split: sum.splits if_splits)

lemma lookup_None: "GetPTTUploadCallID cid d = None \<longleftrightarrow> cid \<notin> pu_client_id ` set (t_ptt_uploads d)"
  by (auto simp: GetPTTUploadCallID_def find_None_iff)

lemma lookup_frame: "t_ptt_uploads d' = t_ptt_uploads d \<Longrightarrow> GetPTTUploadCallID cid d' = GetPTTUploadCallID cid d"
  by (simp add: GetPTTUploadCallID_def)

text \<open>A key that is free is taken by the first call committed under it, which is delivered.\<close>

lemma commit_fresh:
  assumes "GetPTTUploadCallID cid (nd_db n) = None" "user_exists (nd_db n) (ca_SenderUserID call)"
    and "commit_ptt env counts cid call audio now n = (Some i, n')"
  shows "\<exists>d. i = seq_calls (nd_db n) \<and> n' = deliver_ptt env (call\<lparr>ca_ID := i\<rparr>) audio now (n\<lparr>nd_db := d\<rparr>) \<and>
    GetPTTUploadCallID cid (nd_db n') = Some i \<and> t_radio_sets (nd_db n') = t_radio_sets (nd_db n) \<and>
    seq_calls (nd_db n') = seq_calls (nd_db n) + 1 \<and> t_users (nd_db n') = t_users (nd_db n) \<and>
    t_calls (nd_db n') = t_calls (nd_db n) @ [(call_row call audio now)\<lparr>cr_id := i\<rparr>]"
proof -
  obtain res d1 where ins: "InsertCall call audio now (nd_db n) = (res, d1)" by force
  show ?thesis
  proof (cases res)
    case (Inl e)
    with ins assms(3) show ?thesis by (simp add: commit_ptt_def)
  next
    case (Inr call')
    note new = InsertCall_frame [OF ins [unfolded Inr]]
    let ?row = "\<lparr>pu_client_id = cid, pu_call_id = seq_calls (nd_db n), pu_user_id = ca_SenderUserID call, pu_created_at = now\<rparr>"
    let ?d2 = "d1\<lparr>t_ptt_uploads := t_ptt_uploads d1 @ [?row]\<rparr>"
    have "cid \<notin> pu_client_id ` set (t_ptt_uploads d1)" using assms(1) new(4) by (simp add: lookup_None)
    moreover have "call_exists d1 (seq_calls (nd_db n))" "user_exists d1 (ca_SenderUserID call)"
      using assms(2) by (simp_all add: call_exists_def user_exists_def new(2,5))
    ultimately have "RecordPTTUpload cid (ca_ID call') (ca_SenderUserID call) now d1 = (Inr (), ?d2)"
      by (simp add: RecordPTTUpload_def ins_ptt_uploads_def new(1))
    with ins Inr assms(3) have n': "i = seq_calls (nd_db n)" "n' = deliver_ptt env (call\<lparr>ca_ID := i\<rparr>) audio now (n\<lparr>nd_db := ?d2\<rparr>)"
      by (auto simp: commit_ptt_def new(1))
    have frame: "t_radio_sets (nd_db n') = t_radio_sets ?d2" "t_ptt_uploads (nd_db n') = t_ptt_uploads ?d2" "t_calls (nd_db n') = t_calls ?d2"
      "seq_calls (nd_db n') = seq_calls ?d2" "t_users (nd_db n') = t_users ?d2"
      using deliver_ptt_frame [of env "call\<lparr>ca_ID := i\<rparr>" audio now "n\<lparr>nd_db := ?d2\<rparr>"] n'(2) by simp_all
    have "GetPTTUploadCallID cid ?d2 = Some i"
      using assms(1) n'(1) new(4) by (auto simp: GetPTTUploadCallID_def find_append split: option.split)
    then have "GetPTTUploadCallID cid (nd_db n') = Some i" by (simp add: lookup_frame [OF frame(2)])
    moreover have "t_radio_sets (nd_db n') = t_radio_sets (nd_db n)" "seq_calls (nd_db n') = seq_calls (nd_db n) + 1"
      "t_users (nd_db n') = t_users (nd_db n)"
      by (simp_all add: frame(1,4,5) new(3,5,6))
    moreover have "t_calls (nd_db n') = t_calls (nd_db n) @ [(call_row call audio now)\<lparr>cr_id := i\<rparr>]"
      by (simp add: frame(3) new(2) n'(1))
    ultimately show ?thesis using n' by blast
  qed
qed

text \<open>A key that is taken answers with the call it belongs to; the call inserted in vain stays, and nobody is told of it.\<close>

lemma commit_taken:
  assumes "GetPTTUploadCallID cid (nd_db n) = Some i" "counts i" "i \<noteq> seq_calls (nd_db n)"
    and "commit_ptt env counts cid call audio now n = (Some k, n')"
  shows "k = i \<and> nd_streams n' = nd_streams n \<and> nd_hub n' = nd_hub n \<and> GetPTTUploadCallID cid (nd_db n') = Some i \<and>
    t_calls (nd_db n') = t_calls (nd_db n) @ [(call_row call audio now)\<lparr>cr_id := seq_calls (nd_db n)\<rparr>]"
proof -
  obtain res d1 where ins: "InsertCall call audio now (nd_db n) = (res, d1)" by force
  show ?thesis
  proof (cases res)
    case (Inl e)
    with ins assms(4) show ?thesis by (simp add: commit_ptt_def)
  next
    case (Inr call')
    note new = InsertCall_frame [OF ins [unfolded Inr]]
    have key: "GetPTTUploadCallID cid d1 = Some i" using assms(1) by (simp add: lookup_frame [OF new(4)])
    then have "cid \<in> pu_client_id ` set (t_ptt_uploads d1)" using lookup_None [of cid d1] by auto
    then have "RecordPTTUpload cid (ca_ID call') (ca_SenderUserID call) now d1 = (Inl UniqueViolation, d1)"
      by (simp add: RecordPTTUpload_def ins_ptt_uploads_def)
    with ins Inr assms(2-4) key show ?thesis by (auto simp: commit_ptt_def new(1,2))
  qed
qed

definition may_transmit :: "authUser \<Rightarrow> bool" where
  "may_transmit u \<longleftrightarrow> au_TxEnabled u \<and> \<not> isGuest u"

definition ptt_key :: "upload_form \<Rightarrow> string" where
  "ptt_key f = TrimSpace (uf_value f ''clientId'')"

lemma ptt_clip_fails: "ptt_clip tc env f = Inl e \<Longrightarrow> \<exists>code msg. e = Fail code msg"
  by (auto simp: ptt_clip_def Let_def split: option.splits if_splits prod.splits)

text \<open>The one way to the answer 200: the key was taken, or the clip was committed under it.\<close>

lemma ptt_upload_cases:
  assumes "handlePTTUpload tc env (Some u) i (Some f) now n = (Reply 200 p, n')"
  shows "\<exists>rs tg. may_transmit u \<and> GetRadioSetForPTT i (nd_db n) = Some rs \<and> rs_PTTTalkgroup rs = Some tg \<and> pt_Talkgroup p = tg \<and>
    ptt_key f \<noteq> [] \<and>
    (GetPTTUploadCallID (ptt_key f) (nd_db n) = Some (pt_CallID p) \<and> n' = n \<or>
     GetPTTUploadCallID (ptt_key f) (nd_db n) = None \<and>
       (\<exists>audio ty name dur. commit_ptt env names_call (ptt_key f) (ptt_call rs tg u name ty dur ''ptt'' now) audio now n =
          (Some (pt_CallID p), n')))"
proof (cases "ptt_clip tc env f :: pttUploadResponse reply + bytes \<times> string \<times> string \<times> rat")
  case (Inl e)
  with assms ptt_clip_fails [OF Inl] show ?thesis
    by (auto simp: handlePTTUpload_def requireAuthenticated_def may_transmit_def ptt_key_def Let_def split: if_splits option.splits)
next
  case (Inr clip)
  with assms show ?thesis
    by (cases clip)
      (auto simp: handlePTTUpload_def requireAuthenticated_def may_transmit_def ptt_key_def Let_def
        split: if_splits option.splits prod.splits, (rule exI)+, assumption)
qed

lemma ptt_upload_taken:
  assumes "may_transmit u" "GetRadioSetForPTT i (nd_db n) = Some rs" "rs_PTTTalkgroup rs = Some tg" "ptt_key f \<noteq> []"
    and "GetPTTUploadCallID (ptt_key f) (nd_db n) = Some k"
  shows "handlePTTUpload tc env (Some u) i (Some f) now n = (Reply 200 \<lparr>pt_CallID = k, pt_Talkgroup = tg\<rparr>, n)"
  using assms by (simp add: handlePTTUpload_def requireAuthenticated_def may_transmit_def ptt_key_def)

lemma GetRadioSetForPTT_frame: "t_radio_sets d' = t_radio_sets d \<Longrightarrow> GetRadioSetForPTT i d' = GetRadioSetForPTT i d"
  by (simp add: GetRadioSetForPTT_def)

lemma ptt_call_fields [simp]: "ca_SenderUserID (ptt_call rs tg u name ty dur origin now) = au_ID u"
  "ca_Talkgroup (ptt_call rs tg u name ty dur origin now) = tg" "ca_TalkgroupGroup (ptt_call rs tg u name ty dur origin now) = ''PTT''"
  "ca_Origin (ptt_call rs tg u name ty dur origin now) = origin"
  by (simp_all add: ptt_call_def)

text \<open>
  Property C11. A push-to-talk key counts once: after an upload was answered, every further upload under its key is answered
  with the same call and changes nothing at all, so a retry is harmless. The key is not the user's or the set's own: anybody's
  upload under it, to whatever set, is answered as delivered and lost.
\<close>

theorem ptt_key_counts_once:
  assumes "user_exists (nd_db n) (au_ID u)" "handlePTTUpload tc env (Some u) i (Some f) now n = (Reply 200 p, n')"
    and "may_transmit v" "GetRadioSetForPTT j (nd_db n) = Some rs" "rs_PTTTalkgroup rs = Some tg" "ptt_key g = ptt_key f"
  shows "handlePTTUpload tc' env (Some v) j (Some g) later n' = (Reply 200 \<lparr>pt_CallID = pt_CallID p, pt_Talkgroup = tg\<rparr>, n')"
proof -
  obtain rs0 tg0 where key: "ptt_key f \<noteq> []" and cases: "GetPTTUploadCallID (ptt_key f) (nd_db n) = Some (pt_CallID p) \<and> n' = n \<or>
     GetPTTUploadCallID (ptt_key f) (nd_db n) = None \<and>
       (\<exists>audio ty name dur. commit_ptt env names_call (ptt_key f) (ptt_call rs0 tg0 u name ty dur ''ptt'' now) audio now n =
          (Some (pt_CallID p), n'))"
    using ptt_upload_cases [OF assms(2)] by blast
  from cases have "GetPTTUploadCallID (ptt_key f) (nd_db n') = Some (pt_CallID p) \<and> GetRadioSetForPTT j (nd_db n') = Some rs"
  proof
    assume "GetPTTUploadCallID (ptt_key f) (nd_db n) = None \<and>
       (\<exists>audio ty name dur. commit_ptt env names_call (ptt_key f) (ptt_call rs0 tg0 u name ty dur ''ptt'' now) audio now n =
          (Some (pt_CallID p), n'))"
    then obtain audio ty name dur where "GetPTTUploadCallID (ptt_key f) (nd_db n) = None"
      "commit_ptt env names_call (ptt_key f) (ptt_call rs0 tg0 u name ty dur ''ptt'' now) audio now n = (Some (pt_CallID p), n')"
      by blast
    from commit_fresh [OF this(1) _ this(2)] assms(1,4) GetRadioSetForPTT_frame [of "nd_db n'" "nd_db n" j] show ?thesis by auto
  qed (use assms(4) in auto)
  with assms(3,5,6) key show ?thesis by (intro ptt_upload_taken) simp_all
qed

text \<open>
  Property C9. Push-to-talk leaves its set: a stream opened through the share link of any set that has a push-to-talk
  talkgroup, another owner's included, is sent every upload to every set, because it subscribes to the group all such
  calls carry and push-to-talk calls need no further access.
\<close>

theorem ptt_reaches_every_link:
  assumes "GetPTTUploadCallID (ptt_key f) (nd_db n) = None" "user_exists (nd_db n) (au_ID u)"
    and "rs_PTTTalkgroup other \<noteq> None"
    and "handlePTTUpload tc env (Some u) i (Some f) now (open_stream other k n) = (Reply 200 p, n')"
  shows "\<exists>chunk. sb_ch (last (nd_streams n')) = [chunk] \<and> sm_ID (chunk_meta chunk) = pt_CallID p \<and>
    sm_Talkgroup (chunk_meta chunk) = pt_Talkgroup p"
proof -
  let ?n = "open_stream other k n"
  have db: "nd_db ?n = nd_db n" by (simp add: open_stream_def case_prod_beta)
  obtain rs tg audio ty name dur where tg: "pt_Talkgroup p = tg"
    and commit: "commit_ptt env names_call (ptt_key f) (ptt_call rs tg u name ty dur ''ptt'' now) audio now ?n = (Some (pt_CallID p), n')"
    using ptt_upload_cases [OF assms(4)] assms(1) db by auto
  let ?call = "(ptt_call rs tg u name ty dur ''ptt'' now)\<lparr>ca_ID := pt_CallID p\<rparr>"
  obtain d where n': "n' = deliver_ptt env ?call audio now (?n\<lparr>nd_db := d\<rparr>)"
    using commit_fresh [OF _ _ commit] assms(1,2) db by auto
  obtain c' d' where fin: "finalizeCallTranscription (up_cfg env) now ?call d = (c', d')" by force
  note c' = finalize_call_fields [OF fin]
  let ?s = "last (nd_streams ?n)"
  have new: "nd_streams ?n = nd_streams n @ [?s]" "sb_ch ?s = []"
    "sl_talkgroupGroups (sb_listener ?s) = group_set (snd (publicStreamSubscription other))"
    by (simp_all add: open_stream_def subscribe_def case_prod_beta)
  have PTT: "TrimSpace ''PTT'' \<noteq> []" "ToLower (TrimSpace ''ptt'') = ''ptt''" by code_simp+
  have "normalizeTalkgroupGroup ''PTT'' \<in> sl_talkgroupGroups (sb_listener ?s)"
    using assms(3) PTT(1) by (auto simp: new(3) group_set_iff publicStreamSubscription_def Let_def)
  then have "matchesTalkgroup (sb_listener ?s) c'" "matchesCall (sb_listener ?s) c'"
    using c' PTT by (auto simp: matchesTalkgroup_def matchesCall_def isPTTCall_def)
  then have "push_one c' audio ?s = ?s\<lparr>sb_ch := [\<lparr>chunk_audio = audio, chunk_meta = call_meta c'\<rparr>]\<rparr>"
    by (simp add: push_one_def new(2) stream_buffer_def)
  moreover have "nd_streams n' = map (push_one c' audio) (nd_streams n @ [?s])"
    unfolding n' new(1) [symmetric] by (simp add: deliver_ptt_def fin push_def)
  ultimately show ?thesis using c' tg by (simp add: call_meta_def)
qed

text \<open>
  Of two uploads that both found their key free the second is stored in vain: it is answered with the call of
  the first, its own call stays in the database under an id nobody was told, and neither streams nor clients get it.
\<close>

theorem ptt_race_orphan:
  assumes "GetPTTUploadCallID key (nd_db n) = None" "user_exists (nd_db n) (ca_SenderUserID first)"
    and "commit_ptt env counts key first audio now n = (Some a, n1)" "counts a"
    and "commit_ptt env counts key second audio2 later n1 = (Some b, n2)"
  shows "b = a \<and> nd_streams n2 = nd_streams n1 \<and> nd_hub n2 = nd_hub n1 \<and>
    (\<exists>row. t_calls (nd_db n2) = t_calls (nd_db n1) @ [row] \<and> cr_id row \<noteq> a)"
proof -
  have taken: "GetPTTUploadCallID key (nd_db n1) = Some a" "seq_calls (nd_db n1) = a + 1"
    using commit_fresh [OF assms(1-3)] by auto
  then show ?thesis using commit_taken [OF taken(1) assms(4) _ assms(5)] by auto
qed

section \<open>Examples\<close>

lemma ptt_upload_fresh:
  assumes "may_transmit u" "GetRadioSetForPTT i (nd_db n) = Some rs" "rs_PTTTalkgroup rs = Some tg" "ptt_key f \<noteq> []"
    and "GetPTTUploadCallID (ptt_key f) (nd_db n) = None" "uf_file f ''audio'' = Some (fname, part, Some raw)" "44 < length raw"
    and "int4 tg" "user_exists (nd_db n) (au_ID u)" "user_exists (nd_db n) (rs_UserID rs)"
  shows "\<exists>p n'. handlePTTUpload tc env (Some u) i (Some f) now n = (Reply 200 p, n')"
proof -
  obtain audio ty name where "normalizePTTAudio tc raw (resolveAudioType (up_mime env) [] fname part) fname = (audio, ty, name)"
    by (cases "normalizePTTAudio tc raw (resolveAudioType (up_mime env) [] fname part) fname")
  with assms(6,7) obtain dur where clip: "ptt_clip tc env f = (Inr (audio, ty, name, dur) :: pttUploadResponse reply + _)"
    by (simp add: ptt_clip_def Let_def)
  let ?call = "ptt_call rs tg u name ty dur ''ptt'' now"
  have "int4 0" by (simp add: int4_def)
  then have "\<exists>c d. InsertCall ?call audio now (nd_db n) = (Inr c, d)"
    using assms(8-10) by (simp add: InsertCall_def ins_calls_def call_row_def ptt_call_def zero_call_def user_ref_ok_def nullableString_def TrimSpace_def)
  then obtain c d where "InsertCall ?call audio now (nd_db n) = (Inr c, d)" by blast
  then have "\<exists>k n'. commit_ptt env names_call (ptt_key f) ?call audio now n = (Some k, n')"
    by (auto simp: commit_ptt_def split: prod.split sum.split option.split)
  with assms(1-5) clip show ?thesis
    by (auto simp: handlePTTUpload_def requireAuthenticated_def may_transmit_def ptt_key_def)
qed

definition example_sender :: authUser where
  "example_sender = \<lparr>au_ID = ''usr_5000'', au_Email = ''s@x'', au_Role = ''user'', au_TxEnabled = True, au_DispatcherEnabled = False\<rparr>"

definition example_clip :: upload_form where
  "example_clip = \<lparr>uf_value = (\<lambda>k. if k = ''clientId'' then ''c1'' else []),
     uf_file = (\<lambda>k. if k = ''audio'' then Some (''a.m4a'', ''audio/mp4'', Some (replicate 50 0)) else None)\<rparr>"

definition plain_transcoder :: transcoder where
  "plain_transcoder = \<lparr>tc_mp3 = (\<lambda>_. None), tc_m4a = (\<lambda>_ _. None)\<rparr>"

text \<open>A set of somebody else, who listens in.\<close>

definition other_set :: RadioSet where
  "other_set = (scanRadioSet example_set_row)\<lparr>rs_ID := ''rs2'', rs_UserID := ''usr_6000'', rs_TalkgroupGroups := [],
     rs_PTTTalkgroup := Some 9000002\<rparr>"

lemma example_ptt:
  "may_transmit example_sender" "ptt_key example_clip = ''c1''"
  "GetRadioSetForPTT ''rs1'' (nd_db example_node) = Some (scanRadioSet example_set_row)"
  "rs_PTTTalkgroup (scanRadioSet example_set_row) = Some 9000001" "user_exists (nd_db example_node) (au_ID example_sender)"
  "GetPTTUploadCallID ''c1'' (nd_db example_node) = None" "int4 9000001"
proof -
  show "ptt_key example_clip = ''c1''" unfolding ptt_key_def example_clip_def by code_simp
  show "GetPTTUploadCallID ''c1'' (nd_db example_node) = None"
    by (simp add: GetPTTUploadCallID_def example_node_def example_set_db_def CreateRadioSet_def SetRadioSetShareToken_def
        ins_radio_sets_def Let_def call_eval split: sum.split)
qed (simp_all add: may_transmit_def example_sender_def isGuest_def GetRadioSetForPTT_def example_node_def example_set_rows
    scanRadioSet_def user_exists_def call_eval int4_def, simp_all add: example_set_row_def scanRadioSet_def)

lemma example_clip_file: "uf_file example_clip ''audio'' = Some (''a.m4a'', ''audio/mp4'', Some (replicate 50 0))"
  by (simp add: example_clip_def)

lemma example_transmission:
  assumes "nd_db n = nd_db example_node"
  shows "\<exists>p n'. handlePTTUpload plain_transcoder example_upload_env (Some example_sender) ''rs1'' (Some example_clip) 20 n = (Reply 200 p, n')"
proof (rule ptt_upload_fresh [where u = example_sender and f = example_clip, OF example_ptt(1) _ example_ptt(4) _ _ example_clip_file _ example_ptt(7)])
  have "rs_UserID (scanRadioSet example_set_row) = au_ID example_sender" by (simp add: example_set_row_def example_sender_def)
  then show "user_exists (nd_db n) (rs_UserID (scanRadioSet example_set_row))" using example_ptt(5) by (simp add: assms)
qed (use example_ptt in \<open>simp_all add: assms\<close>)

theorem radio_requests_isolated_witness:
  "others_sets ''usr_6000'' (nd_db (run (\<lambda>x m. snd (radio_step (Some example_listener) x m))
     [(30, RadioRevoke ''rs1''), (31, RadioDelete ''rs1''), (32, RadioShare ''rs1'' ''t'')] \<lparr>nd_db = example_set_db, nd_hub = newHub, nd_streams = []\<rparr>)) =
   others_sets ''usr_6000'' example_set_db"
proof -
  let ?n = "\<lparr>nd_db = example_set_db, nd_hub = newHub, nd_streams = []\<rparr> :: node"
  have "radio_inv (nd_db ?n)" "\<not> isAdmin example_listener"
    using example_set_db_inv by (simp_all add: isAdmin_def example_listener_def)
  note isolated = radio_requests_isolated [OF this, unfolded Let_def, THEN conjunct2, THEN conjunct1]
  have "au_ID example_listener = ''usr_6000''" by (simp add: example_listener_def)
  with isolated [of "[(30, RadioRevoke ''rs1''), (31, RadioDelete ''rs1''), (32, RadioShare ''rs1'' ''t'')]"] show ?thesis
    by (simp only: node.select_convs)
qed

theorem ptt_key_counts_once_witness:
  "\<exists>p n'. handlePTTUpload plain_transcoder example_upload_env (Some example_sender) ''rs1'' (Some example_clip) 20 example_node = (Reply 200 p, n') \<and>
     handlePTTUpload plain_transcoder example_upload_env (Some example_sender) ''rs1'' (Some example_clip) 25 n' =
       (Reply 200 \<lparr>pt_CallID = pt_CallID p, pt_Talkgroup = 9000001\<rparr>, n')"
proof -
  obtain p n' where up: "handlePTTUpload plain_transcoder example_upload_env (Some example_sender) ''rs1'' (Some example_clip) 20 example_node = (Reply 200 p, n')"
    using example_transmission [of example_node] by auto
  from ptt_key_counts_once [OF example_ptt(5) up example_ptt(1,3,4) refl] up show ?thesis by blast
qed

theorem ptt_reaches_every_link_witness:
  "\<exists>p n' chunk. handlePTTUpload plain_transcoder example_upload_env (Some example_sender) ''rs1'' (Some example_clip) 20
       (open_stream other_set 1 example_node) = (Reply 200 p, n') \<and> sb_ch (last (nd_streams n')) = [chunk] \<and>
     sm_ID (chunk_meta chunk) = pt_CallID p"
proof -
  have "nd_db (open_stream other_set 1 example_node) = nd_db example_node" by (simp add: open_stream_def case_prod_beta)
  then obtain p n' where up: "handlePTTUpload plain_transcoder example_upload_env (Some example_sender) ''rs1'' (Some example_clip) 20
      (open_stream other_set 1 example_node) = (Reply 200 p, n')"
    using example_transmission by blast
  have "rs_PTTTalkgroup other_set \<noteq> None" by (simp add: other_set_def)
  from ptt_reaches_every_link [OF _ example_ptt(5) this up] example_ptt(2,6) up show ?thesis by auto
qed

definition example_ptt_call :: "int \<Rightarrow> Call" where
  "example_ptt_call now = ptt_call (scanRadioSet example_set_row) 9000001 example_sender ''a.m4a'' ''audio/mp4'' 2 ''ptt'' now"

lemma example_insert:
  assumes "t_users (nd_db n) = t_users (nd_db example_node)"
  shows "\<exists>k n'. commit_ptt example_upload_env names_call ''c1'' (example_ptt_call now) [0] now n = (Some k, n')"
proof -
  have "TrimSpace ''usr_5000'' = ''usr_5000''" by code_simp
  then have "\<exists>c d. InsertCall (example_ptt_call now) [0] now (nd_db n) = (Inr c, d)"
    using example_ptt(5) assms
    by (simp add: InsertCall_def ins_calls_def call_row_def example_ptt_call_def ptt_call_def zero_call_def user_ref_ok_def
        nullableString_def user_exists_def int4_def example_sender_def) (simp add: example_set_row_def)
  then obtain c d where "InsertCall (example_ptt_call now) [0] now (nd_db n) = (Inr c, d)" by blast
  then show ?thesis by (auto simp: commit_ptt_def split: prod.split sum.split option.split)
qed

theorem ptt_race_orphan_witness:
  "\<exists>a n1 n2. commit_ptt example_upload_env names_call ''c1'' (example_ptt_call 20) [0] 20 example_node = (Some a, n1) \<and>
     commit_ptt example_upload_env names_call ''c1'' (example_ptt_call 20) [0] 20 n1 = (Some a, n2) \<and> nd_streams n2 = nd_streams n1"
proof -
  obtain a n1 where first: "commit_ptt example_upload_env names_call ''c1'' (example_ptt_call 20) [0] 20 example_node = (Some a, n1)"
    using example_insert [of example_node 20] by auto
  have sender: "user_exists (nd_db example_node) (ca_SenderUserID (example_ptt_call 20))"
    using example_ptt(5) by (simp add: example_ptt_call_def)
  obtain d where n1: "a = seq_calls (nd_db example_node)" "n1 = deliver_ptt example_upload_env ((example_ptt_call 20)\<lparr>ca_ID := a\<rparr>) [0] 20 (example_node\<lparr>nd_db := d\<rparr>)"
    "t_users (nd_db n1) = t_users (nd_db example_node)"
    using commit_fresh [OF example_ptt(6) sender first] by blast
  obtain b n2 where second: "commit_ptt example_upload_env names_call ''c1'' (example_ptt_call 20) [0] 20 n1 = (Some b, n2)"
    using example_insert [OF n1(3), of 20] by auto
  have "names_call a" using n1(1) by (simp add: names_call_def example_node_def example_set_db_def CreateRadioSet_def
        SetRadioSetShareToken_def ins_radio_sets_def Let_def call_eval split: sum.split)
  from ptt_race_orphan [OF example_ptt(6) sender first this second] first second show ?thesis by blast
qed

end
