(* ===== verification/QueueSpec.thy ===== *)
theory QueueSpec
  imports Transcriptions
begin

text \<open>
  What the transcription queue promises, apart from rows and statuses: each call is not queued yet, waiting, leased
  to a worker until some time, or finished with an outcome. The operations of \<open>transcriptions.go\<close> refine the
  operations on this queue, answers included.
\<close>

section \<open>The abstract queue\<close>

datatype job_state = Unqueued | Waiting | Leased string int | Finished string

type_synonym queue = "int \<rightharpoonup> job_state"

text \<open>The operations, and what they answer: nothing, a job with the end of its lease, or that there was no row.\<close>

datatype queue_op =
    QClaim string int int
  | QComplete int string string string rat int
  | QFail int string int
  | QSkip int string int
  | QStatus int string string int
  | QCancel string int
  | QEnsure int
  | QSkipShort rat int
  | QSkipUnselected int

datatype queue_answer = Done | Job int int | NoRow

text \<open>What the queue knows of the calls: their ids, newest first, which are shorter than a time and which are selected.\<close>

record call_facts =
  cf_ids :: "int list"
  cf_short :: "rat \<Rightarrow> int \<Rightarrow> bool"
  cf_selected :: "int \<Rightarrow> bool"

definition enqueue :: "queue \<Rightarrow> queue" where
  "enqueue q = (\<lambda>i. map_option (\<lambda>s. if s = Unqueued then Waiting else s) (q i))"

fun available :: "int \<Rightarrow> job_state option \<Rightarrow> bool" where
  "available now (Some Waiting) = True"
| "available now (Some (Leased w until)) = (until < now)"
| "available now _ = False"

definition finish :: "int \<Rightarrow> string \<Rightarrow> queue \<Rightarrow> queue_answer \<times> queue" where
  "finish i outcome q = (case q i of None \<Rightarrow> (NoRow, q) | Some Unqueued \<Rightarrow> (NoRow, q)
     | Some _ \<Rightarrow> (Done, q(i \<mapsto> Finished outcome)))"

fun unfinished :: "job_state \<Rightarrow> bool" where
  "unfinished Waiting = True"
| "unfinished (Leased w until) = True"
| "unfinished _ = False"

definition skip_where :: "(int \<Rightarrow> job_state \<Rightarrow> bool) \<Rightarrow> queue \<Rightarrow> queue" where
  "skip_where P q = (\<lambda>i. map_option (\<lambda>s. if P i s then Finished ''skipped'' else s) (q i))"

definition named_state :: "string \<Rightarrow> job_state" where
  "named_state status = (if status = ''pending'' then Waiting else if status = ''processing'' then Leased [] 0 else Finished status)"

fun spec_step :: "call_facts \<Rightarrow> queue_op \<Rightarrow> queue \<Rightarrow> queue_answer \<times> queue" where
  "spec_step C (QClaim w s now) q =
     (let q1 = enqueue q; until = now + lease_seconds s in
      case List.find (\<lambda>i. available now (q1 i)) (cf_ids C) of
        None \<Rightarrow> (NoRow, q1)
      | Some i \<Rightarrow> (Job i until, q1(i \<mapsto> Leased w until)))"
| "spec_step C (QComplete i transcript provider language confidence now) q = finish i ''done'' q"
| "spec_step C (QFail i message now) q = finish i ''failed'' q"
| "spec_step C (QSkip i message now) q = finish i ''skipped'' q"
| "spec_step C (QStatus i status message now) q =
     (case q i of None \<Rightarrow> (NoRow, q) | Some _ \<Rightarrow> (Done, q(i \<mapsto> named_state status)))"
| "spec_step C (QCancel reason now) q = (Done, skip_where (\<lambda>_ s. unfinished s) q)"
| "spec_step C (QEnsure now) q = (Done, enqueue q)"
| "spec_step C (QSkipShort m now) q = (Done, if m \<le> 0 then q else skip_where (\<lambda>i s. s = Waiting \<and> cf_short C m i) q)"
| "spec_step C (QSkipUnselected now) q = (Done, skip_where (\<lambda>i s. unfinished s \<and> \<not> cf_selected C i) q)"

section \<open>The database as such a queue\<close>

definition row_state :: "transcripts_row \<Rightarrow> job_state" where
  "row_state t = (if ct_status t = ''pending'' then Waiting
     else if ct_status t = ''processing'' then Leased (ct_claimed_by t) (ct_claimed_until t) else Finished (ct_status t))"

definition abs_queue :: "db \<Rightarrow> queue" where
  "abs_queue d i = (if i \<in> cr_id ` set (t_calls d)
     then Some (case find_transcript i d of None \<Rightarrow> Unqueued | Some t \<Rightarrow> row_state t) else None)"

definition facts_of :: "db \<Rightarrow> call_facts" where
  "facts_of d = \<lparr>cf_ids = rev (sort (map cr_id (t_calls d))),
     cf_short = (\<lambda>m i. list_ex (\<lambda>c. cr_id c = i \<and> cr_duration c > 0 \<and> cr_duration c < m) (t_calls d)),
     cf_selected = (\<lambda>i. \<not> list_ex (\<lambda>c. cr_id c = i \<and> \<not> ShouldTranscribeTalkgroup (cr_talkgroup c) d) (t_calls d))\<rparr>"

definition answer :: "'a dbres \<Rightarrow> queue_answer \<times> db" where
  "answer res = (case res of (Inl _, d) \<Rightarrow> (NoRow, d) | (Inr _, d) \<Rightarrow> (Done, d))"

fun queue_step :: "queue_op \<Rightarrow> db \<Rightarrow> queue_answer \<times> db" where
  "queue_step (QClaim w s now) d = (case ClaimTranscriptionJob w s now d of
     (Inl _, d') \<Rightarrow> (NoRow, d') | (Inr job, d') \<Rightarrow> (Job (tj_CallID job) (tj_ClaimedUntil job), d'))"
| "queue_step (QComplete i transcript provider language confidence now) d =
     answer (CompleteTranscriptionJob i transcript provider language confidence now d)"
| "queue_step (QFail i message now) d = answer (FailTranscriptionJob i message now d)"
| "queue_step (QSkip i message now) d = answer (SkipTranscriptionJob i message now d)"
| "queue_step (QStatus i status message now) d = answer (UpsertCallTranscriptStatus i status message now d)"
| "queue_step (QCancel reason now) d = (Done, CancelPendingTranscriptionJobs reason now d)"
| "queue_step (QEnsure now) d = (Done, EnsureTranscriptionQueueRows now d)"
| "queue_step (QSkipShort m now) d = (Done, SkipShortPendingTranscriptionJobs m now d)"
| "queue_step (QSkipUnselected now) d = (Done, SkipUnselectedPendingTranscriptionJobs now d)"

fun answers :: "('o \<Rightarrow> 's \<Rightarrow> 'a \<times> 's) \<Rightarrow> 'o list \<Rightarrow> 's \<Rightarrow> 'a list" where
  "answers step [] s = []"
| "answers step (x # xs) s = (case step x s of (a, s') \<Rightarrow> a # answers step xs s')"

section \<open>Lookups\<close>

lemma find_transcript_update:
  assumes "\<And>t. ct_call_id (f t) = ct_call_id t"
  shows "find_transcript i (d\<lparr>t_transcripts := sql_update P f (t_transcripts d)\<rparr>) =
    map_option (\<lambda>t. if P t then f t else t) (find_transcript i d)"
  using assms by (simp add: find_transcript_def find_sql_update_key)

lemma find_transcript_id: "find_transcript i d = Some t \<Longrightarrow> ct_call_id t = i \<and> t \<in> set (t_transcripts d)"
  by (auto simp: find_transcript_def dest: find_Some_mem)

lemma has_transcript_iff: "has_transcript d i \<longleftrightarrow> find_transcript i d \<noteq> None"
  by (auto simp: has_transcript_def find_transcript_def find_None_iff)

lemma find_transcript_Ensure:
  "find_transcript i (EnsureTranscriptionQueueRows now d) = (case find_transcript i d of Some t \<Rightarrow> Some t
     | None \<Rightarrow> if i \<in> cr_id ` set (t_calls d) then Some (new_transcript i ''pending'' [] now) else None)"
proof -
  let ?new = "map (\<lambda>c. new_transcript (cr_id c) ''pending'' [] now) (filter (\<lambda>c. \<not> has_transcript d (cr_id c)) (t_calls d))"
  have "List.find (\<lambda>t. ct_call_id t = i) ?new = (if i \<in> cr_id ` set (t_calls d) \<and> \<not> has_transcript d i
      then Some (new_transcript i ''pending'' [] now) else None)" (is "?l = ?r")
  proof (cases ?l)
    case None
    then show ?thesis by (auto simp: find_None_iff image_iff)
  next
    case (Some t)
    then have "t \<in> set ?new" "ct_call_id t = i" by (auto dest!: find_Some_mem)
    with Some show ?thesis by auto
  qed
  then show ?thesis
    by (simp add: find_transcript_def EnsureTranscriptionQueueRows_def find_append has_transcript_iff split: option.split)
qed

lemma Ensure_calls [simp]: "t_calls (EnsureTranscriptionQueueRows now d) = t_calls d"
  "t_tg_settings (EnsureTranscriptionQueueRows now d) = t_tg_settings d"
  by (simp_all add: EnsureTranscriptionQueueRows_def)

lemma row_state_queued [simp]: "row_state t \<noteq> Unqueued"
  by (simp add: row_state_def)

lemma row_state_new [simp]: "row_state (new_transcript i ''pending'' m now) = Waiting"
  by (simp add: row_state_def)

lemma abs_Ensure: "abs_queue (EnsureTranscriptionQueueRows now d) = enqueue (abs_queue d)"
  by (rule ext) (simp add: abs_queue_def enqueue_def find_transcript_Ensure split: option.split)

lemma abs_update:
  assumes "\<And>t. ct_call_id (f t) = ct_call_id t" "\<And>t. P t \<Longrightarrow> row_state (f t) = Finished outcome"
    and "\<And>t. P t \<longleftrightarrow> Q (ct_call_id t) (row_state t)" "\<And>i. \<not> Q i Unqueued"
  shows "abs_queue (d\<lparr>t_transcripts := sql_update P f (t_transcripts d)\<rparr>) =
    (\<lambda>i. map_option (\<lambda>s. if Q i s then Finished outcome else s) (abs_queue d i))"
  using assms
  by (auto simp: fun_eq_iff abs_queue_def find_transcript_update dest: find_transcript_id split: option.split)

section \<open>The refinement\<close>

lemma release_state [simp]: "row_state (release s m now t) = named_state s"
  by (simp add: row_state_def named_state_def release_def)

lemma new_state [simp]: "row_state (new_transcript i s m now) = named_state s"
  by (simp add: row_state_def named_state_def new_transcript_def)

lemma named_state_queued [simp]: "named_state s \<noteq> Unqueued"
  "named_state ''done'' = Finished ''done''" "named_state ''failed'' = Finished ''failed''" "named_state ''skipped'' = Finished ''skipped''"
  by (simp_all add: named_state_def)

lemma claimable_state: "claimable now t \<longleftrightarrow> available now (Some (row_state t))"
  by (simp add: claimable_def row_state_def)

lemma find_newest:
  assumes "i \<in> set xs" "P i" "\<And>j. j \<in> set xs \<Longrightarrow> P j \<Longrightarrow> j \<le> i"
  shows "List.find P (rev (sort xs)) = Some (i :: int)"
proof -
  have "List.find P ys = Some i" if "sorted (rev ys)" "set ys = set xs" for ys
    using that(1) assms(1) assms(3) unfolding that(2) [symmetric]
  proof (induction ys)
    case (Cons y ys)
    show ?case
    proof (cases "P y")
      case True
      with Cons.prems have "y \<le> i" "i \<le> y"
        by (auto simp: sorted_append)
      with True show ?thesis by simp
    next
      case False
      with assms(2) Cons.prems have "i \<in> set ys" by auto
      with Cons False show ?thesis by (auto simp: sorted_append)
    qed
  qed simp
  then show ?thesis by simp
qed

lemma abs_queue_rows:
  assumes "db_ok d" "t \<in> set (t_transcripts d)" "ct_call_id t \<in> cr_id ` set (t_calls d)"
  shows "abs_queue d (ct_call_id t) = Some (row_state t)"
  using assms find_uniq [OF db_ok_uniq(12) [OF assms(1)] assms(2)] by (simp add: abs_queue_def find_transcript_def)

lemma abs_queue_call:
  assumes "abs_queue d i = Some s" "s \<noteq> Unqueued"
  shows "\<exists>t \<in> set (t_transcripts d). ct_call_id t = i \<and> row_state t = s \<and> i \<in> cr_id ` set (t_calls d)"
  using assms by (auto simp: abs_queue_def split: if_splits option.splits dest: find_transcript_id)

lemma available_not_unqueued: "available now (Some s) \<Longrightarrow> s \<noteq> Unqueued"
  by auto

lemma claim_refines:
  assumes "db_ok d"
  shows "\<exists>a d'. queue_step (QClaim w s now) d = (a, d') \<and> spec_step (facts_of d) (QClaim w s now) (abs_queue d) = (a, abs_queue d')"
proof -
  let ?d1 = "EnsureTranscriptionQueueRows now d"
  let ?P = "\<lambda>i. available now (enqueue (abs_queue d) i)"
  have d1: "db_ok ?d1" using assms by (rule Ensure_ok)
  have avail: "\<exists>x \<in> set (t_transcripts ?d1). ct_call_id x = i \<and> claimable now x" if "?P i" for i
  proof -
    obtain st where st: "abs_queue ?d1 i = Some st" "available now (Some st)"
      using \<open>?P i\<close> by (cases "abs_queue ?d1 i") (auto simp: abs_Ensure)
    from abs_queue_call [OF st(1) available_not_unqueued [OF st(2)]] st(2) show ?thesis
      by (auto simp: claimable_state)
  qed
  show ?thesis
  proof (cases rule: Claim_cases [OF assms, of w s now])
    case 1
    have "List.find ?P (cf_ids (facts_of d)) = None"
      unfolding find_None_iff using avail 1(2) by blast
    with 1(1) show ?thesis by (simp add: abs_Ensure Let_def)
  next
    case (2 t c)
    let ?i = "ct_call_id t"
    have c: "?i \<in> set (map cr_id (t_calls d))"
    proof -
      have "c \<in> set (t_calls d)" using 2(4) by (auto simp: find_call_def dest: find_Some_mem)
      with 2(5) show ?thesis by force
    qed
    have state: "abs_queue ?d1 ?i = Some (row_state t)"
      using abs_queue_rows [OF d1 2(1)] c by simp
    have "?P ?i" using 2(2) state by (simp add: claimable_state abs_Ensure)
    moreover have "j \<le> ?i" if "?P j" for j using avail [OF that] 2(3) by blast
    ultimately have found: "List.find ?P (cf_ids (facts_of d)) = Some ?i"
      unfolding facts_of_def by (simp add: find_newest [OF c])
    have "abs_queue (leased_to w s t now d) = (enqueue (abs_queue d))(?i \<mapsto> Leased w (now + lease_seconds s))"
    proof
      fix j
      have t: "find_transcript ?i ?d1 = Some t"
        using find_uniq [OF db_ok_uniq(12) [OF d1] 2(1)] by (simp add: find_transcript_def)
      have "find_transcript j (leased_to w s t now d) =
          map_option (\<lambda>x. if ct_call_id x = ?i then take_lease w (now + lease_seconds s) now x else x) (find_transcript j ?d1)"
        by (simp add: leased_to_def Let_def find_transcript_update)
      moreover have "t_calls (leased_to w s t now d) = t_calls d" by (simp add: leased_to_def Let_def)
      moreover have "row_state (take_lease w u now x) = Leased w u" for u x
        by (simp add: row_state_def) (simp add: take_lease_def)
      moreover have id: "ct_call_id x = j" if "find_transcript j ?d1 = Some x" for x using find_transcript_id [OF that] by blast
      ultimately have at_i: "abs_queue (leased_to w s t now d) ?i = Some (Leased w (now + lease_seconds s))"
        and elsewhere: "j \<noteq> ?i \<Longrightarrow> abs_queue (leased_to w s t now d) j = abs_queue ?d1 j"
      proof -
        assume f: "find_transcript j (leased_to w s t now d) =
          map_option (\<lambda>x. if ct_call_id x = ?i then take_lease w (now + lease_seconds s) now x else x) (find_transcript j ?d1)"
          and calls: "t_calls (leased_to w s t now d) = t_calls d" and lease: "\<And>u x. row_state (take_lease w u now x) = Leased w u"
        have "find_transcript ?i (leased_to w s t now d) = Some (take_lease w (now + lease_seconds s) now t)"
          using t by (simp add: leased_to_def Let_def find_transcript_update)
        with c calls lease show "abs_queue (leased_to w s t now d) ?i = Some (Leased w (now + lease_seconds s))"
          by (simp add: abs_queue_def)
        assume "j \<noteq> ?i"
        with f id have "find_transcript j (leased_to w s t now d) = find_transcript j ?d1"
          by (cases "find_transcript j ?d1") simp_all
        with calls show "abs_queue (leased_to w s t now d) j = abs_queue ?d1 j" by (simp add: abs_queue_def)
      qed
      then show "abs_queue (leased_to w s t now d) j = ((enqueue (abs_queue d))(?i \<mapsto> Leased w (now + lease_seconds s))) j"
        using fun_cong [OF abs_Ensure [of now d], of j] by (cases "j = ?i") simp_all
    qed
    with 2(5,6) found show ?thesis by (simp add: Let_def)
  qed
qed


lemma transcript_call: "db_ok d \<Longrightarrow> find_transcript i d = Some t \<Longrightarrow> i \<in> cr_id ` set (t_calls d)"
proof -
  assume "db_ok d" "find_transcript i d = Some t"
  moreover from this(1) have "fkey (\<lambda>r. Some (ct_call_id r)) (t_transcripts d) cr_id (t_calls d)" by (simp add: db_ok_defs)
  ultimately show ?thesis using find_transcript_id [of i d t] by (auto simp: fkey_iff)
qed

lemma report_refines:
  assumes "db_ok d" "\<And>t. ct_call_id (f t) = ct_call_id t" "\<And>t. row_state (f t) = Finished outcome"
  shows "\<exists>a d'. answer (require_rows i f d) = (a, d') \<and> finish i outcome (abs_queue d) = (a, abs_queue d')"
proof -
  let ?d' = "d\<lparr>t_transcripts := sql_update (\<lambda>t. ct_call_id t = i) f (t_transcripts d)\<rparr>"
  have find': "find_transcript j ?d' = map_option (\<lambda>t. if ct_call_id t = i then f t else t) (find_transcript j d)" for j
    by (rule find_transcript_update [OF assms(2)])
  have abs': "abs_queue ?d' j = (if j = i \<and> find_transcript i d \<noteq> None then Some (Finished outcome) else abs_queue d j)" for j
  proof (cases "find_transcript j d")
    case None
    then show ?thesis using find' [of j] by (auto simp: abs_queue_def)
  next
    case (Some t)
    then have "ct_call_id t = j" "j \<in> cr_id ` set (t_calls d)"
      using find_transcript_id [OF Some] transcript_call [OF assms(1) Some] by simp_all
    with Some find' [of j] show ?thesis by (cases "j = i") (simp_all add: abs_queue_def assms(3))
  qed
  show ?thesis
  proof (cases "find_transcript i d")
    case None
    have "abs_queue ?d' = abs_queue d" by (rule ext) (simp add: abs' None)
    moreover have "abs_queue d i \<in> {None, Some Unqueued}" using None by (simp add: abs_queue_def)
    ultimately show ?thesis
      using None by (auto simp: answer_def require_rows_def Let_def has_transcript_iff finish_def)
  next
    case (Some t)
    then have "abs_queue d i = Some (row_state t)" using transcript_call [OF assms(1) Some] by (simp add: abs_queue_def)
    moreover have "abs_queue ?d' = (abs_queue d)(i \<mapsto> Finished outcome)" by (rule ext) (simp add: abs' Some)
    ultimately show ?thesis
      using Some by (simp add: answer_def require_rows_def Let_def has_transcript_iff finish_def split: job_state.split)
  qed
qed

lemma status_refines:
  assumes "db_ok d"
  shows "\<exists>a d'. queue_step (QStatus i s m now) d = (a, d') \<and> spec_step C (QStatus i s m now) (abs_queue d) = (a, abs_queue d')"
proof (cases "find_transcript i d")
  case None
  then have no: "i \<notin> ct_call_id ` set (t_transcripts d)" using has_transcript_iff [of d i] by (simp add: has_transcript_def)
  show ?thesis
  proof (cases "i \<in> cr_id ` set (t_calls d)")
    case True
    let ?d' = "d\<lparr>t_transcripts := t_transcripts d @ [new_transcript i s m now]\<rparr>"
    have "find_transcript j ?d' = (if j = i then Some (new_transcript i s m now) else find_transcript j d)" for j
      using None by (auto simp: find_transcript_def find_append split: option.split)
    then have "abs_queue ?d' = (abs_queue d)(i \<mapsto> named_state s)"
      using True by (auto simp: abs_queue_def fun_eq_iff)
    moreover have "UpsertCallTranscriptStatus i s m now d = (Inr (), ?d')"
      using True no by (simp add: UpsertCallTranscriptStatus_def ins_transcripts_def call_exists_def)
    ultimately show ?thesis using True by (simp add: answer_def abs_queue_def)
  next
    case False
    then have "UpsertCallTranscriptStatus i s m now d = (Inl ForeignKeyViolation, d)"
      using no by (simp add: UpsertCallTranscriptStatus_def ins_transcripts_def call_exists_def)
    with False show ?thesis by (simp add: answer_def abs_queue_def)
  qed
next
  case (Some t)
  let ?d' = "d\<lparr>t_transcripts := sql_update (\<lambda>t. ct_call_id t = i) (release s m now) (t_transcripts d)\<rparr>"
  have call: "i \<in> cr_id ` set (t_calls d)" by (rule transcript_call [OF assms Some])
  have "UpsertCallTranscriptStatus i s m now d = (Inr (), ?d')"
    using find_transcript_id [OF Some] by (auto simp: UpsertCallTranscriptStatus_def ins_transcripts_def)
  moreover have "abs_queue ?d' = (abs_queue d)(i \<mapsto> named_state s)"
    using Some call find_transcript_id by (auto simp: abs_queue_def fun_eq_iff find_transcript_update split: option.splits)
  ultimately show ?thesis using call by (simp add: answer_def abs_queue_def)
qed

lemma skip_refines:
  assumes "\<And>t. P t \<longleftrightarrow> Q (ct_call_id t) (row_state t)" "\<And>i. \<not> Q i Unqueued"
  shows "abs_queue (d\<lparr>t_transcripts := sql_update P (release ''skipped'' m now) (t_transcripts d)\<rparr>) = skip_where Q (abs_queue d)"
  unfolding skip_where_def by (rule abs_update) (simp_all add: assms)

lemma queue_step_frame: "queue_step x d = (a, d') \<Longrightarrow> facts_of d' = facts_of d"
proof -
  have claim: "t_calls (snd (ClaimTranscriptionJob w s now d)) = t_calls d \<and> t_tg_settings (snd (ClaimTranscriptionJob w s now d)) = t_tg_settings d" for w s now
    by (auto simp: ClaimTranscriptionJob_def Let_def split: list.split option.split)
  have "t_calls (snd (queue_step x d)) = t_calls d \<and> t_tg_settings (snd (queue_step x d)) = t_tg_settings d"
    using claim
    by (cases x) (auto simp: answer_def case_prod_beta CompleteTranscriptionJob_def FailTranscriptionJob_def SkipTranscriptionJob_def
        require_rows_def UpsertCallTranscriptStatus_def ins_transcripts_def CancelPendingTranscriptionJobs_def
        SkipShortPendingTranscriptionJobs_def SkipUnselectedPendingTranscriptionJobs_def Let_def split: sum.split db_error.split)
  moreover assume "queue_step x d = (a, d')"
  ultimately show ?thesis by (simp add: facts_of_def ShouldTranscribeTalkgroup_def)
qed


lemma SkipShort_refines: "abs_queue (SkipShortPendingTranscriptionJobs m now d) =
    (if m \<le> 0 then abs_queue d else skip_where (\<lambda>i s. s = Waiting \<and> cf_short (facts_of d) m i) (abs_queue d))"
  unfolding SkipShortPendingTranscriptionJobs_def
  by (simp, intro impI skip_refines) (auto simp: facts_of_def row_state_def)

lemma SkipUnselected_refines: "abs_queue (SkipUnselectedPendingTranscriptionJobs now d) =
    skip_where (\<lambda>i s. unfinished s \<and> \<not> cf_selected (facts_of d) i) (abs_queue d)"
  unfolding SkipUnselectedPendingTranscriptionJobs_def by (rule skip_refines) (auto simp: facts_of_def row_state_def)

lemma Cancel_refines: "abs_queue (CancelPendingTranscriptionJobs reason now d) = skip_where (\<lambda>_ s. unfinished s) (abs_queue d)"
  unfolding CancelPendingTranscriptionJobs_def by (rule skip_refines) (auto simp: row_state_def)

lemma Complete_refines: "\<exists>a d'. answer (CompleteTranscriptionJob i x p l c now d) = (a, d') \<and> finish i ''done'' (abs_queue d) = (a, abs_queue d')"
  if "db_ok d"
  unfolding CompleteTranscriptionJob_def
  by (rule report_refines [OF that]) (simp_all add: row_state_def)

lemmas reports_refine = Complete_refines report_refines [where f = "release ''failed'' m now" for m now]
  report_refines [where f = "release ''skipped'' m now" for m now]

lemma queue_step_refines:
  assumes "db_ok d"
  shows "spec_step (facts_of d) x (abs_queue d) = (fst (queue_step x d), abs_queue (snd (queue_step x d)))"
proof (cases x)
  case (QClaim w s now)
  then show ?thesis using claim_refines [OF assms, of w s now] by auto
next
  case (QComplete i transcript p l c now)
  then show ?thesis using Complete_refines [OF assms, of i transcript p l c now] by auto
next
  case (QFail i m now)
  then show ?thesis
    using report_refines [OF assms, of "release ''failed'' m now" "''failed''" i] by (auto simp: FailTranscriptionJob_def)
next
  case (QSkip i m now)
  then show ?thesis
    using report_refines [OF assms, of "release ''skipped'' m now" "''skipped''" i] by (auto simp: SkipTranscriptionJob_def)
next
  case (QStatus i s m now)
  then show ?thesis using status_refines [OF assms, of i s m now "facts_of d"] by auto
qed (simp_all add: Cancel_refines abs_Ensure SkipShort_refines SkipUnselected_refines)

lemma queue_step_ok:
  assumes "db_ok d"
  shows "db_ok (snd (queue_step x d))"
proof -
  have answer [simp]: "snd (answer r) = snd r" for r :: "'a dbres" by (simp add: answer_def split: prod.split sum.split)
  have claim: "db_ok (snd (queue_step (QClaim w s now) d))" for w s now
    using Ensure_ok [OF assms] leased_to_ok [OF assms] by (cases rule: Claim_cases [OF assms, of w s now]) simp_all
  show ?thesis
    by (cases x) (use claim assms in \<open>simp_all add: CompleteTranscriptionJob_def FailTranscriptionJob_def SkipTranscriptionJob_def
      require_rows_ok UpsertStatus_ok Ensure_ok CancelPendingTranscriptionJobs_def SkipShortPendingTranscriptionJobs_def
      SkipUnselectedPendingTranscriptionJobs_def release_upd_ok\<close>)
qed

definition after :: "('o \<Rightarrow> 's \<Rightarrow> 'a \<times> 's) \<Rightarrow> 'o list \<Rightarrow> 's \<Rightarrow> 's" where
  "after step xs s = fold (\<lambda>x s. snd (step x s)) xs s"

lemma after_simps [simp]: "after step [] s = s" "after step (x # xs) s = after step xs (snd (step x s))"
  by (simp_all add: after_def)

lemma queue_trace:
  assumes "db_ok d"
  shows "answers queue_step ops d = answers (spec_step (facts_of d)) ops (abs_queue d) \<and>
    abs_queue (after queue_step ops d) = after (spec_step (facts_of d)) ops (abs_queue d)"
  using assms
proof (induction ops arbitrary: d)
  case (Cons x ops)
  obtain a d' where step: "queue_step x d = (a, d')" by (cases "queue_step x d")
  with Cons.prems queue_step_ok [of d x] queue_step_refines [of d x] have "db_ok d'" "spec_step (facts_of d) x (abs_queue d) = (a, abs_queue d')"
    by simp_all
  with Cons.IH [of d'] step queue_step_frame [OF step] show ?case by simp
qed simp

section \<open>Properties\<close>

text \<open>
  Property C3. The transcription queue in the database is the abstract queue: whatever sequence of claims, reports,
  requeues and housekeeping passes over the tables, every answer and the state left behind are those of the queue in which
  each call is unqueued, waiting, leased until a time or finished, and a claim takes the newest call that is available.
\<close>

theorem queue_refines:
  assumes "db_ok d"
  shows "answers queue_step ops d = answers (spec_step (facts_of d)) ops (abs_queue d) \<and>
    abs_queue (after queue_step ops d) = after (spec_step (facts_of d)) ops (abs_queue d)"
  using assms by (rule queue_trace)

fun requeues :: "int \<Rightarrow> queue_op \<Rightarrow> bool" where
  "requeues i (QStatus j status message now) = (i = j)"
| "requeues i _ = False"

lemma spec_step_finished:
  assumes "q i = Some (Finished s)" "spec_step C x q = (a, q')" "\<not> requeues i x"
  shows "(\<exists>s'. q' i = Some (Finished s')) \<and> (\<forall>until. a \<noteq> Job i until)"
proof -
  have enq: "enqueue q i = Some (Finished s)" using assms(1) by (simp add: enqueue_def)
  show ?thesis
  proof (cases x)
    case (QClaim w sec now)
    show ?thesis
    proof (cases "List.find (\<lambda>i. available now (enqueue q i)) (cf_ids C)")
      case None
      with QClaim assms(2) enq show ?thesis by (auto simp: Let_def)
    next
      case (Some j)
      then have "available now (enqueue q j)" by (auto dest: find_Some_mem)
      then have "j \<noteq> i" using enq by auto
      with Some QClaim assms(2) enq show ?thesis by (auto simp: Let_def)
    qed
  qed (use assms enq in \<open>auto simp: finish_def skip_where_def split: option.splits job_state.splits if_splits\<close>)
qed

lemma spec_finished:
  assumes "q i = Some (Finished s)" "list_all (\<lambda>x. \<not> requeues i x) ops"
  shows "Job i until \<notin> set (answers (spec_step C) ops q)"
  using assms
proof (induction ops arbitrary: q s)
  case (Cons x ops)
  obtain a q' where step: "spec_step C x q = (a, q')" by (cases "spec_step C x q")
  from Cons.prems(2) have "\<not> requeues i x" by simp
  from spec_step_finished [OF Cons.prems(1) step this] Cons.IH [of q'] Cons.prems(2) step show ?case by auto
qed simp

text \<open>
  A call whose transcription is finished (done, failed or skipped) is handed to no worker again, whatever
  the other workers report and the housekeeping does, as long as nobody sets its status anew.
\<close>

theorem finished_jobs_stay:
  assumes "db_ok d" "abs_queue d i = Some (Finished s)" "list_all (\<lambda>x. \<not> requeues i x) ops"
  shows "Job i until \<notin> set (answers queue_step ops d)"
  using queue_trace [OF assms(1), of ops] spec_finished [where q = "abs_queue d", OF assms(2) assms(3)] by simp

definition transcribed_db :: db where
  "transcribed_db = snd (CompleteTranscriptionJob 1 ''units respond'' [] [] 1 50 (EnsureTranscriptionQueueRows 40 example_call_db))"

lemma transcribed_db_ok: "db_ok transcribed_db"
  unfolding transcribed_db_def CompleteTranscriptionJob_def
  by (rule require_rows_ok [OF Ensure_ok [OF example_call_db_ok]]) simp

theorem queue_refines_witness:
  "answers queue_step [QClaim ''w1'' 0 100, QComplete 1 ''units respond'' [] [] 1 120, QClaim ''w2'' 0 130] example_call_db =
   answers (spec_step (facts_of example_call_db)) [QClaim ''w1'' 0 100, QComplete 1 ''units respond'' [] [] 1 120, QClaim ''w2'' 0 130]
     (abs_queue example_call_db)"
  by (rule queue_refines [OF example_call_db_ok, THEN conjunct1])

theorem finished_jobs_stay_witness:
  "Job 1 430 \<notin> set (answers queue_step [QFail 1 ''late'' 90, QClaim ''w2'' 0 130] transcribed_db)"
proof (rule finished_jobs_stay [OF transcribed_db_ok])
  show "abs_queue transcribed_db 1 = Some (Finished ''done'')"
    by (simp add: transcribed_db_def CompleteTranscriptionJob_def require_rows_def Let_def has_transcript_def abs_queue_def
        EnsureTranscriptionQueueRows_def call_eval find_transcript_def sql_update_def row_state_def)
qed simp

end
