(* ===== verification/TranscriptionApi.thy ===== *)
theory TranscriptionApi
  imports QueueSpec CallApi
begin

text \<open>
  \<open>server/internal/api/transcription.go\<close>: the protocol of the transcription workers. A worker proves itself by the
  configured token, claims a job, fetches its audio and reports the text, a failure or that it skipped the call. The
  decoded body is an argument (\<open>None\<close> when it is not JSON), as is the id of the path.
\<close>

section \<open>Requests\<close>

record worker_headers =
  wh_X_Transcription_Token :: string
  wh_Authorization :: string

record claimTranscriptionJobRequest =
  cj_WorkerID :: string
  cj_LeaseSeconds :: int

record completeTranscriptionJobRequest =
  cp_Transcript :: string
  cp_Provider :: string
  cp_Language :: string
  cp_Confidence :: rat

record failTranscriptionJobRequest =
  fl_Error :: string

definition TrimPrefix :: "string \<Rightarrow> string \<Rightarrow> string" where
  "TrimPrefix s p = (if HasPrefix s p then drop (length p) s else s)"

definition requireTranscriptionWorker :: "transcription_config \<Rightarrow> worker_headers \<Rightarrow> (nat \<times> string) option" where
  "requireTranscriptionWorker cfg r =
     (let expected = TrimSpace (cfg_TranscriptionWorkerToken cfg) in
      if expected = [] then Some (404, ''transcription disabled'')
      else (let x = TrimSpace (wh_X_Transcription_Token r);
                actual = (if x = [] then TrimPrefix (TrimSpace (wh_Authorization r)) bearer else x) in
            if actual \<noteq> expected then Some (403, ''forbidden'') else None))"

definition transcriptionJobID :: "string \<Rightarrow> int option" where
  "transcriptionJobID idParam = (case ParseInt idParam of (i, ok) \<Rightarrow> if \<not> ok \<or> i \<le> 0 then None else Some i)"

definition default_to :: "string \<Rightarrow> string \<Rightarrow> string" where
  "default_to fallback s = (let v = TrimSpace s in if v = [] then fallback else v)"

section \<open>Handlers\<close>

definition handleClaimTranscriptionJob ::
  "transcription_config \<Rightarrow> worker_headers \<Rightarrow> claimTranscriptionJobRequest option \<Rightarrow> int \<Rightarrow> db \<Rightarrow>
     TranscriptionJob option reply \<times> db" where
  "handleClaimTranscriptionJob cfg r body now d =
     (case requireTranscriptionWorker cfg r of Some (code, msg) \<Rightarrow> (Fail code msg, d)
      | None \<Rightarrow>
          (case body of None \<Rightarrow> (Fail 400 ''invalid json'', d)
           | Some req \<Rightarrow>
               (case ClaimTranscriptionJob (default_to ''local-transcriber'' (cj_WorkerID req)) (cj_LeaseSeconds req) now d of
                  (Inl err, d') \<Rightarrow> (if IsNoTranscriptionJob err then Reply 200 None else Fail 500 ''claim job'', d')
                | (Inr job, d') \<Rightarrow> (Reply 200 (Some job), d'))))"

definition handleTranscriptionJobAudio ::
  "transcription_config \<Rightarrow> transcoder \<Rightarrow> worker_headers \<Rightarrow> string \<Rightarrow> db \<Rightarrow> audio_reply reply" where
  "handleTranscriptionJobAudio cfg tc r idParam d =
     (case requireTranscriptionWorker cfg r of Some (code, msg) \<Rightarrow> Fail code msg
      | None \<Rightarrow>
          (case transcriptionJobID idParam of None \<Rightarrow> Fail 400 ''invalid id''
           | Some i \<Rightarrow>
               (case GetCallAudio i d of
                  Inl err \<Rightarrow> if err = NoRows then Fail 404 ''not found'' else Fail 500 ''query audio''
                | Inr (audio, audioType, audioName, _, _) \<Rightarrow>
                    Reply 200 (serveAudioBytes tc audio audioType (defaultCallAudioName i audioName) True ''no-store''))))"

definition report_reply :: "string \<Rightarrow> unit dbres \<Rightarrow> unit reply \<times> db" where
  "report_reply message res = (case res of (Inl _, d) \<Rightarrow> (Fail 500 message, d) | (Inr _, d) \<Rightarrow> (Reply 200 (), d))"

definition handleCompleteTranscriptionJob ::
  "transcription_config \<Rightarrow> worker_headers \<Rightarrow> string \<Rightarrow> completeTranscriptionJobRequest option \<Rightarrow> int \<Rightarrow> db \<Rightarrow> unit reply \<times> db" where
  "handleCompleteTranscriptionJob cfg r idParam body now d =
     (case requireTranscriptionWorker cfg r of Some (code, msg) \<Rightarrow> (Fail code msg, d)
      | None \<Rightarrow>
          (case transcriptionJobID idParam of None \<Rightarrow> (Fail 400 ''invalid id'', d)
           | Some i \<Rightarrow>
               (case body of None \<Rightarrow> (Fail 400 ''invalid json'', d)
                | Some req \<Rightarrow>
                    (let transcript = TrimSpace (cp_Transcript req) in
                     if transcript = [] then (Fail 400 ''transcript required'', d)
                     else report_reply ''complete job'' (CompleteTranscriptionJob i transcript (TrimSpace (cp_Provider req))
                       (TrimSpace (cp_Language req)) (cp_Confidence req) now d)))))"

definition handleFailTranscriptionJob ::
  "transcription_config \<Rightarrow> worker_headers \<Rightarrow> string \<Rightarrow> failTranscriptionJobRequest option \<Rightarrow> int \<Rightarrow> db \<Rightarrow> unit reply \<times> db" where
  "handleFailTranscriptionJob cfg r idParam body now d =
     (case requireTranscriptionWorker cfg r of Some (code, msg) \<Rightarrow> (Fail code msg, d)
      | None \<Rightarrow>
          (case transcriptionJobID idParam of None \<Rightarrow> (Fail 400 ''invalid id'', d)
           | Some i \<Rightarrow>
               (case body of None \<Rightarrow> (Fail 400 ''invalid json'', d)
                | Some req \<Rightarrow>
                    report_reply ''fail job'' (FailTranscriptionJob i (default_to ''transcription failed'' (fl_Error req)) now d))))"

definition handleSkipTranscriptionJob ::
  "transcription_config \<Rightarrow> worker_headers \<Rightarrow> string \<Rightarrow> failTranscriptionJobRequest option \<Rightarrow> int \<Rightarrow> db \<Rightarrow> unit reply \<times> db" where
  "handleSkipTranscriptionJob cfg r idParam body now d =
     (case requireTranscriptionWorker cfg r of Some (code, msg) \<Rightarrow> (Fail code msg, d)
      | None \<Rightarrow>
          (case transcriptionJobID idParam of None \<Rightarrow> (Fail 400 ''invalid id'', d)
           | Some i \<Rightarrow>
               (case body of None \<Rightarrow> (Fail 400 ''invalid json'', d)
                | Some req \<Rightarrow>
                    report_reply ''skip job'' (SkipTranscriptionJob i (default_to ''transcription skipped'' (fl_Error req)) now d))))"

text \<open>A request that changes something, and what it is to the queue.\<close>

datatype worker_request =
    WorkerClaim "claimTranscriptionJobRequest option"
  | WorkerComplete string "completeTranscriptionJobRequest option"
  | WorkerFail string "failTranscriptionJobRequest option"
  | WorkerSkip string "failTranscriptionJobRequest option"

datatype worker_answer = ClaimAnswer "TranscriptionJob option reply" | ReportAnswer "unit reply"

fun worker_step :: "transcription_config \<Rightarrow> worker_headers \<Rightarrow> worker_request \<Rightarrow> int \<Rightarrow> db \<Rightarrow> worker_answer \<times> db" where
  "worker_step cfg r (WorkerClaim body) now d = map_prod ClaimAnswer id (handleClaimTranscriptionJob cfg r body now d)"
| "worker_step cfg r (WorkerComplete i body) now d = map_prod ReportAnswer id (handleCompleteTranscriptionJob cfg r i body now d)"
| "worker_step cfg r (WorkerFail i body) now d = map_prod ReportAnswer id (handleFailTranscriptionJob cfg r i body now d)"
| "worker_step cfg r (WorkerSkip i body) now d = map_prod ReportAnswer id (handleSkipTranscriptionJob cfg r i body now d)"

fun answer_code :: "worker_answer \<Rightarrow> nat" where
  "answer_code (ClaimAnswer a) = reply_code a"
| "answer_code (ReportAnswer a) = reply_code a"

section \<open>The protocol and the queue\<close>

text \<open>The operation a well-formed request stands for.\<close>

fun worker_op :: "worker_request \<Rightarrow> int \<Rightarrow> queue_op option" where
  "worker_op (WorkerClaim body) now =
     map_option (\<lambda>req. QClaim (default_to ''local-transcriber'' (cj_WorkerID req)) (cj_LeaseSeconds req) now) body"
| "worker_op (WorkerComplete p body) now =
     (case (transcriptionJobID p, body) of
        (Some i, Some req) \<Rightarrow> if TrimSpace (cp_Transcript req) = [] then None
          else Some (QComplete i (TrimSpace (cp_Transcript req)) (TrimSpace (cp_Provider req)) (TrimSpace (cp_Language req))
            (cp_Confidence req) now)
      | _ \<Rightarrow> None)"
| "worker_op (WorkerFail p body) now =
     (case (transcriptionJobID p, body) of
        (Some i, Some req) \<Rightarrow> Some (QFail i (default_to ''transcription failed'' (fl_Error req)) now)
      | _ \<Rightarrow> None)"
| "worker_op (WorkerSkip p body) now =
     (case (transcriptionJobID p, body) of
        (Some i, Some req) \<Rightarrow> Some (QSkip i (default_to ''transcription skipped'' (fl_Error req)) now)
      | _ \<Rightarrow> None)"

definition admitted :: "transcription_config \<Rightarrow> worker_headers \<times> worker_request \<times> int \<Rightarrow> queue_op option" where
  "admitted cfg x = (case x of (r, rq, now) \<Rightarrow>
     if requireTranscriptionWorker cfg r = None then worker_op rq now else None)"

definition worker_turn :: "transcription_config \<Rightarrow> worker_headers \<times> worker_request \<times> int \<Rightarrow> db \<Rightarrow> worker_answer \<times> db" where
  "worker_turn cfg x d = (case x of (r, rq, now) \<Rightarrow> worker_step cfg r rq now d)"

lemma answer_report [simp]: "snd (answer res) = snd res" "snd (report_reply m ures) = snd ures"
  by (simp_all add: answer_def report_reply_def split: prod.split sum.split)

lemma worker_turn_op: "snd (worker_turn cfg x d) = (case admitted cfg x of None \<Rightarrow> d | Some y \<Rightarrow> snd (queue_step y d))"
proof -
  obtain r rq now where x: "x = (r, rq, now)" by (cases x)
  show ?thesis
  proof (cases rq)
    case (WorkerClaim body)
    show ?thesis
    proof (cases body)
      case (Some req)
      with x WorkerClaim show ?thesis
        by (auto simp: worker_turn_def admitted_def handleClaimTranscriptionJob_def split: option.split prod.split sum.split)
    qed (use x WorkerClaim in \<open>simp add: worker_turn_def admitted_def handleClaimTranscriptionJob_def split: option.split\<close>)
  next
    case (WorkerComplete p body)
    then show ?thesis
      by (cases body) (auto simp: x worker_turn_def admitted_def handleCompleteTranscriptionJob_def Let_def split: option.split sum.split)
  next
    case (WorkerFail p body)
    then show ?thesis
      by (cases body) (auto simp: x worker_turn_def admitted_def handleFailTranscriptionJob_def split: option.split sum.split)
  next
    case (WorkerSkip p body)
    then show ?thesis
      by (cases body) (auto simp: x worker_turn_def admitted_def handleSkipTranscriptionJob_def split: option.split sum.split)
  qed
qed

lemma worker_turn_frame: "facts_of (snd (worker_turn cfg x d)) = facts_of d"
  using queue_step_frame by (auto simp: worker_turn_op split: option.split) (metis prod.collapse)

text \<open>
  The workers' protocol is the abstract queue: whatever requests arrive, with whatever tokens, ids and bodies,
  the queue moves by exactly one of its steps for each well-formed request that bears the configured token, and not at all
  for any other.
\<close>

theorem worker_protocol:
  assumes "db_ok d"
  shows "db_ok (after (worker_turn cfg) xs d) \<and>
    abs_queue (after (worker_turn cfg) xs d) = after (spec_step (facts_of d)) (List.map_filter (admitted cfg) xs) (abs_queue d)"
  using assms
proof (induction xs arbitrary: d)
  case (Cons x xs)
  let ?d = "snd (worker_turn cfg x d)"
  have "db_ok ?d" using queue_step_ok [OF Cons.prems] Cons.prems by (simp add: worker_turn_op split: option.split)
  from Cons.IH [OF this] worker_turn_frame [of cfg x d]
  have "db_ok (after (worker_turn cfg) xs ?d) \<and>
    abs_queue (after (worker_turn cfg) xs ?d) = after (spec_step (facts_of d)) (List.map_filter (admitted cfg) xs) (abs_queue ?d)"
    by simp
  moreover have "abs_queue ?d = (case admitted cfg x of None \<Rightarrow> abs_queue d | Some y \<Rightarrow> snd (spec_step (facts_of d) y (abs_queue d)))"
    using queue_step_refines [OF Cons.prems] by (simp add: worker_turn_op split: option.split)
  ultimately show ?case by (simp add: map_filter_simps split: option.split)
qed (simp add: map_filter_simps)

lemma IsNoTranscriptionJob_NoRows: "IsNoTranscriptionJob err \<longleftrightarrow> err = NoRows"
  by (simp add: IsNoTranscriptionJob_def)

text \<open>
  A worker's round succeeds: the call whose job it was given has audio to fetch, its text is accepted, and from
  then on the call is shown with that text, trimmed, as done, and its job is finished.
\<close>

theorem worker_round:
  assumes "db_ok d" "requireTranscriptionWorker cfg r = None"
    and "handleClaimTranscriptionJob cfg r body now d = (Reply 200 (Some job), d1)"
    and "0 < tj_CallID job" "tj_CallID job \<le> max_int64" "TrimSpace (cp_Transcript req) \<noteq> []"
  shows "(\<exists>a. handleTranscriptionJobAudio cfg tc r (format_int (tj_CallID job)) d1 = Reply 200 a) \<and>
    (\<exists>d2 c. handleCompleteTranscriptionJob cfg r (format_int (tj_CallID job)) (Some req) later d1 = (Reply 200 (), d2) \<and>
      GetCallByID (tj_CallID job) d2 = Inr c \<and> ca_TranscriptText c = TrimSpace (cp_Transcript req) \<and>
      ca_TranscriptStatus c = ''done'' \<and> abs_queue d2 = (abs_queue d1)(tj_CallID job \<mapsto> Finished ''done''))"
proof -
  let ?i = "tj_CallID job"
  obtain w s where claim: "ClaimTranscriptionJob w s now d = (Inr job, d1)"
    using assms(2,3) by (auto simp: handleClaimTranscriptionJob_def split: option.splits prod.splits sum.splits if_splits)
  obtain t c where job: "t \<in> set (t_transcripts (EnsureTranscriptionQueueRows now d))" "find_call ?i d = Some c" "cr_id c = ?i"
      "ct_call_id t = ?i" "d1 = leased_to w s t now d"
    using claim by (cases rule: Claim_cases [OF assms(1), of w s now]) auto
  have d1: "db_ok d1" unfolding job(5) by (rule leased_to_ok [OF assms(1)])
  have calls: "t_calls d1 = t_calls d" by (simp add: job(5) leased_to_def Let_def)
  then have c: "find_call ?i d1 = Some c" using job(2) by (simp add: find_call_def)
  have mem: "?i \<in> ct_call_id ` set (t_transcripts d1)"
  proof -
    have "ct_call_id ` set (t_transcripts d1) = ct_call_id ` set (t_transcripts (EnsureTranscriptionQueueRows now d))"
      unfolding job(5) leased_to_def Let_def list.set_map [symmetric] by (simp add: map_sql_update)
    with job(1,4) show ?thesis by (metis imageI)
  qed
  then have has: "has_transcript d1 ?i" by (simp add: has_transcript_def)
  have id: "ParseInt (format_int ?i) = (?i, True)" using assms(4,5) by (intro ParseInt_format) simp_all
  have parse: "transcriptionJobID (format_int ?i) = Some ?i" using id assms(4) by (simp add: transcriptionJobID_def)
  let ?f = "\<lambda>t. (release ''done'' [] later t)\<lparr>ct_transcript := TrimSpace (cp_Transcript req), ct_provider := TrimSpace (cp_Provider req),
      ct_language := TrimSpace (cp_Language req), ct_confidence := cp_Confidence req\<rparr>"
  let ?d2 = "d1\<lparr>t_transcripts := sql_update (\<lambda>t. ct_call_id t = ?i) ?f (t_transcripts d1)\<rparr>"
  have complete: "CompleteTranscriptionJob ?i (TrimSpace (cp_Transcript req)) (TrimSpace (cp_Provider req)) (TrimSpace (cp_Language req))
      (cp_Confidence req) later d1 = (Inr (), ?d2)"
    using has by (simp add: CompleteTranscriptionJob_def require_rows_def)
  obtain x where x: "find_transcript ?i d1 = Some x" using has by (auto simp: has_transcript_iff)
  then have x2: "find_transcript ?i ?d2 = Some (?f x)"
    using find_transcript_id [OF x] find_transcript_update [where f = ?f and i = ?i and d = d1 and P = "\<lambda>t. ct_call_id t = ?i"] by simp
  have shown: "GetCallByID ?i ?d2 = Inr (scan_call_joined ?d2 c)" using c by (simp add: GetCallByID_def find_call_def)
  have words: "ca_TranscriptText (scan_call_joined ?d2 c) = TrimSpace (cp_Transcript req)"
    "ca_TranscriptStatus (scan_call_joined ?d2 c) = ''done''"
    using x2 job(3) by (simp_all add: scan_call_joined_def)
  have "abs_queue d1 ?i = Some (row_state x)" using x transcript_call [OF d1 x] by (simp add: abs_queue_def)
  then have "finish ?i ''done'' (abs_queue d1) = (Done, (abs_queue d1)(?i \<mapsto> Finished ''done''))"
    by (simp add: finish_def split: job_state.split)
  moreover obtain a d' where "answer (CompleteTranscriptionJob ?i (TrimSpace (cp_Transcript req)) (TrimSpace (cp_Provider req))
      (TrimSpace (cp_Language req)) (cp_Confidence req) later d1) = (a, d')" "finish ?i ''done'' (abs_queue d1) = (a, abs_queue d')"
    using Complete_refines [OF d1] by blast
  ultimately have queue: "abs_queue ?d2 = (abs_queue d1)(?i \<mapsto> Finished ''done'')"
    by (simp add: complete answer_def)
  have "handleCompleteTranscriptionJob cfg r (format_int ?i) (Some req) later d1 = (Reply 200 (), ?d2)"
    using assms(2,6) by (simp add: handleCompleteTranscriptionJob_def parse complete report_reply_def)
  moreover have "\<exists>a. handleTranscriptionJobAudio cfg tc r (format_int ?i) d1 = Reply 200 a"
    using assms(2) c by (simp add: handleTranscriptionJobAudio_def parse GetCallAudio_def)
  ultimately show ?thesis using shown words queue by blast
qed

definition example_worker :: worker_headers where
  "example_worker = \<lparr>wh_X_Transcription_Token = ''w'', wh_Authorization = []\<rparr>"

definition example_queue_config :: transcription_config where
  "example_queue_config = \<lparr>cfg_TranscriptionWorkerToken = ''w'', cfg_TranscriptionMinDuration = 0\<rparr>"

definition example_report :: completeTranscriptionJobRequest where
  "example_report = \<lparr>cp_Transcript = ''units respond'', cp_Provider = [], cp_Language = [], cp_Confidence = 1\<rparr>"

lemma example_worker_ok: "requireTranscriptionWorker example_queue_config example_worker = None"
  unfolding example_queue_config_def example_worker_def by code_simp

theorem worker_protocol_witness:
  "abs_queue (after (worker_turn example_queue_config) [(example_worker, WorkerClaim None, 40), (example_worker, WorkerComplete ''1'' (Some example_report), 50)]
     example_call_db) =
   after (spec_step (facts_of example_call_db)) (List.map_filter (admitted example_queue_config)
     [(example_worker, WorkerClaim None, 40), (example_worker, WorkerComplete ''1'' (Some example_report), 50)]) (abs_queue example_call_db)"
  by (rule worker_protocol [OF example_call_db_ok, THEN conjunct2])

theorem worker_round_witness:
  "\<exists>job d1 d2. handleClaimTranscriptionJob example_queue_config example_worker (Some \<lparr>cj_WorkerID = ''w1'', cj_LeaseSeconds = 60\<rparr>) 200
       example_call_db = (Reply 200 (Some job), d1) \<and>
     handleCompleteTranscriptionJob example_queue_config example_worker (format_int (tj_CallID job)) (Some example_report) 230 d1 =
       (Reply 200 (), d2) \<and> abs_queue d2 = (abs_queue d1)(tj_CallID job \<mapsto> Finished ''done'')"
proof -
  let ?claim = "handleClaimTranscriptionJob example_queue_config example_worker (Some \<lparr>cj_WorkerID = ''w1'', cj_LeaseSeconds = 60\<rparr>) 200 example_call_db"
  obtain job d1 where claim: "ClaimTranscriptionJob (default_to ''local-transcriber'' ''w1'') 60 200 example_call_db = (Inr job, d1)"
    and job: "tj_CallID job \<in> cr_id ` set (t_calls example_call_db)"
  proof (cases rule: Claim_cases [OF example_call_db_ok, of "default_to ''local-transcriber'' ''w1''" 60 200])
    case 1
    have "new_transcript 1 ''pending'' [] 200 \<in> set (t_transcripts (EnsureTranscriptionQueueRows 200 example_call_db))"
      by (simp add: EnsureTranscriptionQueueRows_def has_transcript_def call_eval)
    with 1(2) show ?thesis by (auto simp: claimable_def)
  next
    case (2 t c)
    have "c \<in> set (t_calls example_call_db)" using find_Some_mem [OF 2(4) [unfolded find_call_def]] by simp
    then have "cr_id c \<in> cr_id ` set (t_calls example_call_db)" by (rule imageI)
    then show ?thesis by (intro that [OF 2(6)]) simp
  qed
  have reply: "?claim = (Reply 200 (Some job), d1)" using claim example_worker_ok by (simp add: handleClaimTranscriptionJob_def)
  have range: "0 < tj_CallID job" "tj_CallID job \<le> max_int64" using job by (auto simp: call_eval max_int64_def)
  have words: "TrimSpace (cp_Transcript example_report) \<noteq> []" unfolding example_report_def by code_simp
  from worker_round [OF example_call_db_ok example_worker_ok reply range words, where later = 230] reply show ?thesis by blast
qed

end
