(* ===== verification/CallArchive.thy ===== *)
theory CallArchive
  imports AuthApi Audio
begin

text \<open>
  Moving old calls out of the database: \<open>server/internal/database/call_archive.go\<close> and
  \<open>server/internal/api/call_archive.go\<close>, \<open>call_archive_job.go\<close> and \<open>call_archive_s3.go\<close>. A sweep lists the calls
  older than a cutoff in batches, writes two files for each into a directory per dy, copies those directories to
  object storage when it is configured, deletes the rows, and may then delete the local directories. The file tree
  under \<open>CALL_ARCHIVE_DIR\<close> and the bucket are explicit maps; which file operation fails, the \<open>s3cmd\<close> tool and the
  clock are arguments.
\<close>

section \<open>Reading and deleting old calls\<close>

record CallStorageStats =
  css_CallCount :: int
  css_AudioBytes :: int
  css_OldestCallAt :: int
  css_NewestCallAt :: int

definition audio_bytes :: "calls_row list \<Rightarrow> int" where
  "audio_bytes rows = sum_list (map (\<lambda>r. int (length (cr_audio r))) rows)"

fun least_of :: "int list \<Rightarrow> int" where
  "least_of [] = 0"
| "least_of [x] = x"
| "least_of (x # y # ys) = min x (least_of (y # ys))"

definition GetCallStorageStats :: "db \<Rightarrow> CallStorageStats" where
  "GetCallStorageStats d = \<lparr>css_CallCount = int (length (t_calls d)), css_AudioBytes = audio_bytes (t_calls d),
     css_OldestCallAt = least_of (map cr_datetime (t_calls d)),
     css_NewestCallAt = - least_of (map (\<lambda>r. - cr_datetime r) (t_calls d))\<rparr>"

definition older :: "int \<Rightarrow> db \<Rightarrow> calls_row list" where
  "older cutoff d = filter (\<lambda>r. cr_datetime r < cutoff) (t_calls d)"

definition CountCallsOlderThan :: "int \<Rightarrow> db \<Rightarrow> int" where
  "CountCallsOlderThan cutoff d = int (length (older cutoff d))"

definition SumAudioBytesOlderThan :: "int \<Rightarrow> db \<Rightarrow> int" where
  "SumAudioBytesOlderThan cutoff d = audio_bytes (older cutoff d)"

record CallArchiveRecord =
  rec_Call :: Call
  rec_Audio :: bytes
  rec_TranscriptText :: string

definition scan_archive :: "db \<Rightarrow> calls_row \<Rightarrow> CallArchiveRecord" where
  "scan_archive d r = \<lparr>rec_Call = scan_call_joined d r, rec_Audio = cr_audio r, rec_TranscriptText = transcript_text d r\<rparr>"

definition archive_page :: "int \<Rightarrow> int \<Rightarrow> db \<Rightarrow> calls_row list" where
  "archive_page cutoff n d = limit (clamp_limit 500 500 n) (order_asc cr_datetime (order_asc cr_id (older cutoff d)))"

definition ListCallsForArchive :: "int \<Rightarrow> int \<Rightarrow> db \<Rightarrow> CallArchiveRecord list" where
  "ListCallsForArchive cutoff n d = map (scan_archive d) (archive_page cutoff n d)"

definition DeleteCallsByIDs :: "int list \<Rightarrow> db \<Rightarrow> int \<times> db" where
  "DeleteCallsByIDs ids d =
     (if ids = [] then (0, d)
      else (int (sql_count (\<lambda>r. cr_id r \<in> set ids) (t_calls d)), del_calls (\<lambda>r. cr_id r \<in> set ids) d))"

section \<open>Requests, results and settings\<close>

record archive_config =
  acf_CallRetentionDays :: int
  acf_CallArchiveDir :: string
  acf_CallArchiveS3URI :: string
  acf_CallArchiveS3Cfg :: string
  acf_DeleteLocalAfterS3 :: bool
  acf_VacuumFull :: bool

record archiveCallsRequest =
  arq_OlderThanDays :: int
  arq_DryRun :: bool
  arq_Limit :: int
  arq_UntilEmpty :: "bool option"
  arq_Async :: "bool option"

record archiveCallsResult =
  arc_CutoffUnix :: int
  arc_Archived :: int
  arc_Deleted :: int
  arc_FreedBytes :: int
  arc_ArchiveDir :: string
  arc_S3URI :: string
  arc_S3DirsSynced :: int
  arc_LocalRemoved :: bool
  arc_VacuumQueued :: bool
  arc_DryRun :: bool
  arc_RemainingOld :: int
  arc_Batches :: int
  arc_BatchLimit :: int
  arc_StoppedEarly :: bool
  arc_Note :: string

record archiveCallsBatchResult =
  arb_Archived :: int
  arb_Deleted :: int
  arb_FreedBytes :: int
  arb_S3DirsSynced :: int
  arb_LocalRemoved :: bool
  arb_RemainingOld :: int

definition zero_result :: archiveCallsResult where
  "zero_result = \<lparr>arc_CutoffUnix = 0, arc_Archived = 0, arc_Deleted = 0, arc_FreedBytes = 0, arc_ArchiveDir = [],
     arc_S3URI = [], arc_S3DirsSynced = 0, arc_LocalRemoved = False, arc_VacuumQueued = False, arc_DryRun = False,
     arc_RemainingOld = 0, arc_Batches = 0, arc_BatchLimit = 0, arc_StoppedEarly = False, arc_Note = []\<rparr>"

definition zero_batch :: archiveCallsBatchResult where
  "zero_batch = \<lparr>arb_Archived = 0, arb_Deleted = 0, arb_FreedBytes = 0, arb_S3DirsSynced = 0, arb_LocalRemoved = False,
     arb_RemainingOld = 0\<rparr>"

definition callArchiveBatchLimit :: int where "callArchiveBatchLimit = 500"

definition callArchiveLoopEnabled :: "archive_config \<Rightarrow> bool" where
  "callArchiveLoopEnabled cfg \<longleftrightarrow> acf_CallRetentionDays cfg > 0 \<and> TrimSpace (acf_CallArchiveDir cfg) \<noteq> []"

definition archiveUntilEmpty :: "archiveCallsRequest \<Rightarrow> bool" where
  "archiveUntilEmpty rq = (if arq_DryRun rq then False else case arq_UntilEmpty rq of None \<Rightarrow> True | Some b \<Rightarrow> b)"

definition archiveAsync :: "archiveCallsRequest \<Rightarrow> bool" where
  "archiveAsync rq = (if arq_DryRun rq then False else case arq_Async rq of None \<Rightarrow> True | Some b \<Rightarrow> b)"

text \<open>
  \<open>time.Now().Add(-time.Duration(days) * 24 * time.Hour).Unix()\<close>: a duration counts nanoseconds in 64 bits, so the
  product wraps around; \<open>now\<close> is in nanoseconds.
\<close>

definition days_back :: "int \<Rightarrow> 64 word" where
  "days_back days = - word_of_int days * 24 * 3600000000000"

definition archive_cutoff :: "int \<Rightarrow> int \<Rightarrow> int" where
  "archive_cutoff now days = (now + sint (days_back days)) div 1000000000"

section \<open>Files\<close>

text \<open>The day a call is filed under: \<open>Format("2006-01-02")\<close> of its time in UTC.\<close>

definition civil_date :: "int \<Rightarrow> int \<times> int \<times> int" where
  "civil_date t =
     (let z = t div 86400 + 719468; era = z div 146097; doe = z mod 146097;
          yoe = (doe - doe div 1460 + doe div 36524 - doe div 146096) div 365;
          doy = doe - (365 * yoe + yoe div 4 - yoe div 100); mp = (5 * doy + 2) div 153;
          m = (if mp < 10 then mp + 3 else mp - 9) in
      (yoe + era * 400 + (if m \<le> 2 then 1 else 0), m, doy - (153 * mp + 2) div 5 + 1))"

definition zero_padded :: "nat \<Rightarrow> int \<Rightarrow> string" where
  "zero_padded w i = (let s = dec_nat (nat \<bar>i\<bar>) in (if i < 0 then ''-'' else []) @ replicate (w - length s) (CHR ''0'') @ s)"

definition archive_day :: "int \<Rightarrow> string" where
  "archive_day t = (case civil_date t of (y, m, d) \<Rightarrow> zero_padded 4 y @ ''-'' @ zero_padded 2 m @ ''-'' @ zero_padded 2 d)"

definition archiveAudioExtension :: "string \<Rightarrow> string \<Rightarrow> string" where
  "archiveAudioExtension audioName audioType =
     (let ext = ToLower (Ext (TrimSpace audioName)); t = ToLower (TrimSpace (first_part (CHR '';'') audioType)) in
      if ext \<noteq> [] then ext
      else if contains_text t ''mpeg'' \<or> contains_text t ''mp3'' then ''.mp3''
      else if contains_text t ''mp4'' \<or> contains_text t ''m4a'' \<or> contains_text t ''aac'' then ''.m4a''
      else if contains_text t ''wav'' then ''.wav''
      else if contains_text t ''webm'' then ''.webm''
      else if contains_text t ''ogg'' then ''.ogg''
      else ''.bin'')"

record callArchiveManifest =
  mf_ID :: int
  mf_UserID :: string
  mf_SourceID :: string
  mf_DateTime :: int
  mf_System :: int
  mf_SystemLabel :: string
  mf_Talkgroup :: int
  mf_TalkgroupLabel :: string
  mf_TalkgroupGroup :: string
  mf_TalkgroupTag :: string
  mf_Frequency :: int
  mf_Duration :: rat
  mf_AudioName :: string
  mf_AudioType :: string
  mf_TranscriptText :: string
  mf_TranscriptStatus :: string
  mf_Origin :: string
  mf_SenderUserID :: string
  mf_CreatedAt :: int
  mf_AudioFile :: string
  mf_ArchivedAt :: int

text \<open>What a file holds: audio, a manifest as JSON, or what a failed write left.\<close>

datatype archive_content = AudioFile bytes | ManifestFile callArchiveManifest | Partial bytes

type_synonym day_dir = "string \<rightharpoonup> archive_content"
type_synonym archive_tree = "string \<rightharpoonup> day_dir"

definition lookup_file :: "archive_tree \<Rightarrow> string \<Rightarrow> string \<Rightarrow> archive_content option" where
  "lookup_file t dy f = (case t dy of None \<Rightarrow> None | Some dir \<Rightarrow> dir f)"

text \<open>
  The host: which directory cannot be made, which write fails and what it leaves behind, which directory cannot be
  removed and what is left of it, whether the \<open>s3cmd\<close> settings and program are there, the program itself (settings,
  the local directory's files, the remote URI, the bucket before; its message when it fails, the bucket after), the
  time a call is written, and whether the four hours are over after a batch.
\<close>

record archive_env =
  aen_mkdir :: "archive_tree \<Rightarrow> string \<Rightarrow> string option"
  aen_write :: "archive_tree \<Rightarrow> string \<Rightarrow> string \<Rightarrow> (string \<times> bytes option) option"
  aen_remove :: "archive_tree \<Rightarrow> string \<Rightarrow> (string \<times> string set) option"
  aen_s3cfg :: "string option"
  aen_s3path :: "string option"
  aen_s3cmd :: "string \<Rightarrow> day_dir \<Rightarrow> string \<Rightarrow> archive_tree \<Rightarrow> string option \<times> archive_tree"
  aen_now :: "int \<Rightarrow> int"
  aen_late :: "int \<Rightarrow> bool"

definition make_dir :: "archive_env \<Rightarrow> string \<Rightarrow> archive_tree \<Rightarrow> string option \<times> archive_tree" where
  "make_dir env dy t =
     (case aen_mkdir env t dy of
        Some e \<Rightarrow> (Some e, t)
      | None \<Rightarrow> (None, if t dy = None then t(dy \<mapsto> Map.empty) else t))"

definition write_file ::
  "archive_env \<Rightarrow> string \<Rightarrow> string \<Rightarrow> archive_content \<Rightarrow> archive_tree \<Rightarrow> string option \<times> archive_tree" where
  "write_file env dy f c t =
     (case t dy of
        None \<Rightarrow> (Some ''no such directory'', t)
      | Some dir \<Rightarrow>
          (case aen_write env t dy f of
             None \<Rightarrow> (None, t(dy \<mapsto> dir(f \<mapsto> c)))
           | Some (e, None) \<Rightarrow> (Some e, t)
           | Some (e, Some b) \<Rightarrow> (Some e, t(dy \<mapsto> dir(f \<mapsto> Partial b)))))"

definition remove_dir :: "archive_env \<Rightarrow> string \<Rightarrow> archive_tree \<Rightarrow> string option \<times> archive_tree" where
  "remove_dir env dy t =
     (case aen_remove env t dy of
        None \<Rightarrow> (None, t(dy := None))
      | Some (e, left) \<Rightarrow> (Some e, t(dy := map_option (\<lambda>dir. dir |` left) (t dy))))"

definition call_file :: "int \<Rightarrow> string \<Rightarrow> string" where
  "call_file i ext = ''call-'' @ format_int i @ ext"

definition call_manifest :: "CallArchiveRecord \<Rightarrow> string \<Rightarrow> int \<Rightarrow> callArchiveManifest" where
  "call_manifest rec audioFile now =
     (let c = rec_Call rec in
      \<lparr>mf_ID = ca_ID c, mf_UserID = ca_UserID c, mf_SourceID = ca_SourceID c, mf_DateTime = ca_DateTime c,
       mf_System = ca_System c, mf_SystemLabel = ca_SystemLabel c, mf_Talkgroup = ca_Talkgroup c,
       mf_TalkgroupLabel = ca_TalkgroupLabel c, mf_TalkgroupGroup = ca_TalkgroupGroup c,
       mf_TalkgroupTag = ca_TalkgroupTag c, mf_Frequency = ca_Frequency c, mf_Duration = ca_Duration c,
       mf_AudioName = ca_AudioName c, mf_AudioType = ca_AudioType c, mf_TranscriptText = rec_TranscriptText rec,
       mf_TranscriptStatus = ca_TranscriptStatus c, mf_Origin = ca_Origin c, mf_SenderUserID = ca_SenderUserID c,
       mf_CreatedAt = ca_CreatedAt c, mf_AudioFile = audioFile, mf_ArchivedAt = now\<rparr>)"

definition writeCallArchiveFile ::
  "archive_env \<Rightarrow> CallArchiveRecord \<Rightarrow> archive_tree \<Rightarrow> string option \<times> archive_tree" where
  "writeCallArchiveFile env rec t =
     (let c = rec_Call rec; i = ca_ID c; dy = archive_day (ca_DateTime c);
          audioFile = call_file i (archiveAudioExtension (ca_AudioName c) (ca_AudioType c)) in
      case make_dir env dy t of
        (Some e, t1) \<Rightarrow> (Some (''create day archive dir: '' @ e), t1)
      | (None, t1) \<Rightarrow>
          (case write_file env dy audioFile (AudioFile (rec_Audio rec)) t1 of
             (Some e, t2) \<Rightarrow> (Some (''write audio for call '' @ format_int i @ '': '' @ e), t2)
           | (None, t2) \<Rightarrow>
               (case write_file env dy (call_file i ''.json'') (ManifestFile (call_manifest rec audioFile (aen_now env i))) t2 of
                  (Some e, t3) \<Rightarrow> (Some (''write manifest for call '' @ format_int i @ '': '' @ e), t3)
                | (None, t3) \<Rightarrow> (None, t3))))"


section \<open>Object storage\<close>

definition trim_slashes :: "string \<Rightarrow> string" where
  "trim_slashes s = rev (dropWhile (\<lambda>c. c = CHR ''/'') (rev (dropWhile (\<lambda>c. c = CHR ''/'') s)))"

definition parseS3URI :: "string \<Rightarrow> string + string \<times> string" where
  "parseS3URI uri =
     (let trimmed = TrimSpace uri; rest = TrimSuffix (drop 5 trimmed) ''/'';
          bucket = first_part (CHR ''/'') rest in
      if \<not> HasPrefix trimmed ''s3://'' then Inl ''CALL_ARCHIVE_S3_URI must start with s3://''
      else if rest = [] then Inl ''CALL_ARCHIVE_S3_URI is missing bucket name''
      else if bucket = [] then Inl ''CALL_ARCHIVE_S3_URI is missing bucket name''
      else Inr (bucket, trim_slashes (drop (length bucket + 1) rest)))"

definition joinS3URI :: "string \<Rightarrow> string \<Rightarrow> string \<Rightarrow> string" where
  "joinS3URI bucket pre dy =
     (let dy = trim_slashes dy in
      if pre = [] then ''s3://'' @ bucket @ ''/'' @ dy @ ''/'' else ''s3://'' @ bucket @ ''/'' @ pre @ ''/'' @ dy @ ''/'')"

definition ensureTrailingSlash :: "string \<Rightarrow> string" where
  "ensureTrailingSlash path = (if path \<noteq> [] \<and> last path = CHR ''/'' then path else path @ ''/'')"

text \<open>The local directory's files are what \<open>s3cmd sync\<close> reads.\<close>

definition runS3cmdSync ::
  "archive_env \<Rightarrow> string \<Rightarrow> day_dir \<Rightarrow> string \<Rightarrow> archive_tree \<Rightarrow> string option \<times> archive_tree" where
  "runS3cmdSync env cfgPath dir remoteURI bucket = aen_s3cmd env cfgPath dir (ensureTrailingSlash remoteURI) bucket"

fun sync_days ::
  "archive_env \<Rightarrow> string \<Rightarrow> string \<Rightarrow> string \<Rightarrow> string list \<Rightarrow> archive_tree \<Rightarrow> archive_tree \<Rightarrow>
   (string + int) \<times> archive_tree" where
  "sync_days env cfgPath bucket pre [] t remote = (Inr 0, remote)"
| "sync_days env cfgPath bucket pre (dy # days) t remote =
     (case t dy of
        None \<Rightarrow> sync_days env cfgPath bucket pre days t remote
      | Some dir \<Rightarrow>
          (case runS3cmdSync env cfgPath dir (joinS3URI bucket pre dy) remote of
             (Some e, remote') \<Rightarrow> (Inl (''sync '' @ dy @ '' to '' @ joinS3URI bucket pre dy @ '': '' @ e), remote')
           | (None, remote') \<Rightarrow>
               (case sync_days env cfgPath bucket pre days t remote' of
                  (Inl e, r) \<Rightarrow> (Inl e, r)
                | (Inr n, r) \<Rightarrow> (Inr (n + 1), r))))"

definition syncArchiveDirsToS3 ::
  "archive_env \<Rightarrow> string \<Rightarrow> string \<Rightarrow> string list \<Rightarrow> archive_tree \<Rightarrow> archive_tree \<Rightarrow> (string + int) \<times> archive_tree" where
  "syncArchiveDirsToS3 env s3URI s3Cfg dayDirs t remote =
     (if TrimSpace s3URI = [] then (Inr 0, remote)
      else case parseS3URI s3URI of
        Inl e \<Rightarrow> (Inl e, remote)
      | Inr (bucket, pre) \<Rightarrow>
          (if TrimSpace s3Cfg = [] then (Inl ''CALL_ARCHIVE_S3CFG is required when CALL_ARCHIVE_S3_URI is set'', remote)
           else case aen_s3cfg env of
             Some e \<Rightarrow> (Inl (''s3cmd config '' @ TrimSpace s3Cfg @ '': '' @ e), remote)
           | None \<Rightarrow>
               (case aen_s3path env of
                  Some e \<Rightarrow> (Inl (''s3cmd not found in PATH: '' @ e), remote)
                | None \<Rightarrow> sync_days env (TrimSpace s3Cfg) bucket pre dayDirs t remote)))"

fun removeArchiveDayDirs :: "archive_env \<Rightarrow> string list \<Rightarrow> archive_tree \<Rightarrow> string option \<times> archive_tree" where
  "removeArchiveDayDirs env [] t = (None, t)"
| "removeArchiveDayDirs env (dy # days) t =
     (case remove_dir env dy t of
        (Some e, t') \<Rightarrow> (Some e, t')
      | (None, t') \<Rightarrow> removeArchiveDayDirs env days t')"

section \<open>One batch\<close>

text \<open>
  What a sweep works on. A batch reads the clock-free parts in four phases: list the rows and write their files,
  copy the day directories, delete the rows, remove the directories.
\<close>

record archive_store =
  sto_db :: db
  sto_tree :: archive_tree
  sto_remote :: archive_tree

fun write_records :: "archive_env \<Rightarrow> CallArchiveRecord list \<Rightarrow> archive_tree \<Rightarrow> string option \<times> archive_tree" where
  "write_records env [] t = (None, t)"
| "write_records env (rec # recs) t =
     (case writeCallArchiveFile env rec t of
        (Some e, t') \<Rightarrow> (Some e, t')
      | (None, t') \<Rightarrow> write_records env recs t')"

text \<open>Each day once, in the order first seen.\<close>

definition day_dirs :: "CallArchiveRecord list \<Rightarrow> string list" where
  "day_dirs recs = rev (remdups (rev (map (\<lambda>rec. archive_day (ca_DateTime (rec_Call rec))) recs)))"

text \<open>The rows a batch has chosen, with the number of old calls it counted; \<open>None\<close> when there is nothing to do.\<close>

definition batch_list :: "int \<Rightarrow> int \<Rightarrow> db \<Rightarrow> int \<times> CallArchiveRecord list" where
  "batch_list cutoff n d =
     (let remaining = CountCallsOlderThan cutoff d in (remaining, if remaining = 0 then [] else ListCallsForArchive cutoff n d))"

definition batch_write :: "archive_env \<Rightarrow> CallArchiveRecord list \<Rightarrow> archive_store \<Rightarrow> string option \<times> archive_store" where
  "batch_write env recs st =
     (case aen_mkdir env (sto_tree st) [] of
        Some e \<Rightarrow> (Some (''create archive dir: '' @ e), st)
      | None \<Rightarrow> (case write_records env recs (sto_tree st) of (e, t) \<Rightarrow> (e, st\<lparr>sto_tree := t\<rparr>)))"

definition batch_sync ::
  "archive_env \<Rightarrow> archive_config \<Rightarrow> CallArchiveRecord list \<Rightarrow> archive_store \<Rightarrow> (string + int) \<times> archive_store" where
  "batch_sync env cfg recs st =
     (let s3URI = TrimSpace (acf_CallArchiveS3URI cfg) in
      if s3URI = [] then (Inr 0, st)
      else case syncArchiveDirsToS3 env s3URI (acf_CallArchiveS3Cfg cfg) (day_dirs recs) (sto_tree st) (sto_remote st) of
        (r, remote) \<Rightarrow> (r, st\<lparr>sto_remote := remote\<rparr>))"

definition batch_delete :: "CallArchiveRecord list \<Rightarrow> archive_store \<Rightarrow> int \<times> archive_store" where
  "batch_delete recs st =
     (case DeleteCallsByIDs (map (\<lambda>rec. ca_ID (rec_Call rec)) recs) (sto_db st) of (n, d) \<Rightarrow> (n, st\<lparr>sto_db := d\<rparr>))"

definition batch_cleanup ::
  "archive_env \<Rightarrow> archive_config \<Rightarrow> CallArchiveRecord list \<Rightarrow> archive_store \<Rightarrow> (string + bool) \<times> archive_store" where
  "batch_cleanup env cfg recs st =
     (if TrimSpace (acf_CallArchiveS3URI cfg) \<noteq> [] \<and> acf_DeleteLocalAfterS3 cfg \<and> day_dirs recs \<noteq> []
      then (case removeArchiveDayDirs env (day_dirs recs) (sto_tree st) of
              (Some e, t) \<Rightarrow> (Inl (''remove local archive after s3 sync: '' @ e), st\<lparr>sto_tree := t\<rparr>)
            | (None, t) \<Rightarrow> (Inr True, st\<lparr>sto_tree := t\<rparr>))
      else (Inr False, st))"

definition archiveCallsBatch ::
  "archive_env \<Rightarrow> archive_config \<Rightarrow> int \<Rightarrow> int \<Rightarrow> archive_store \<Rightarrow> (string + archiveCallsBatchResult) \<times> archive_store" where
  "archiveCallsBatch env cfg cutoff n st =
     (case batch_list cutoff n (sto_db st) of (remaining, recs) \<Rightarrow>
        if recs = [] then (Inr (zero_batch\<lparr>arb_RemainingOld := remaining\<rparr>), st)
        else case batch_write env recs st of
          (Some e, st1) \<Rightarrow> (Inl e, st1)
        | (None, st1) \<Rightarrow>
            (case batch_sync env cfg recs st1 of
               (Inl e, st2) \<Rightarrow> (Inl e, st2)
             | (Inr synced, st2) \<Rightarrow>
                 (case batch_delete recs st2 of (deleted, st3) \<Rightarrow>
                    (case batch_cleanup env cfg recs st3 of
                       (Inl e, st4) \<Rightarrow> (Inl e, st4)
                     | (Inr removed, st4) \<Rightarrow>
                         (Inr \<lparr>arb_Archived = int (length recs), arb_Deleted = deleted,
                               arb_FreedBytes = sum_list (map (\<lambda>rec. int (length (rec_Audio rec))) recs),
                               arb_S3DirsSynced = synced, arb_LocalRemoved = removed,
                               arb_RemainingOld = remaining - deleted\<rparr>, st4)))))"


lemma archive_page_older: "set (archive_page cutoff n d) \<subseteq> set (older cutoff d)"
  unfolding archive_page_def by (rule subset_trans [OF set_limit_subset]) simp

lemma del_calls_rows: "t_calls (del_calls P d) = filter (\<lambda>r. \<not> P r) (t_calls d)"
  by (simp add: del_calls_def Let_def sql_delete_def)

lemma batch_write_db: "batch_write env recs st = (e, st') \<Longrightarrow> sto_db st' = sto_db st"
  by (auto simp: batch_write_def split: option.splits prod.splits)

lemma batch_sync_db: "batch_sync env cfg recs st = (e, st') \<Longrightarrow> sto_db st' = sto_db st \<and> sto_tree st' = sto_tree st"
  by (auto simp: batch_sync_def Let_def split: if_splits prod.splits)

lemma batch_cleanup_db: "batch_cleanup env cfg recs st = (e, st') \<Longrightarrow> sto_db st' = sto_db st"
  by (auto simp: batch_cleanup_def split: if_splits option.splits prod.splits)

lemma batch_delete_db:
  "batch_delete recs st = (n, st') \<Longrightarrow> recs \<noteq> [] \<Longrightarrow>
     sto_db st' = del_calls (\<lambda>r. cr_id r \<in> set (map (\<lambda>rec. ca_ID (rec_Call rec)) recs)) (sto_db st) \<and>
     sto_tree st' = sto_tree st \<and> sto_remote st' = sto_remote st"
  by (auto simp: batch_delete_def DeleteCallsByIDs_def)

lemma scan_archive_fields [simp]:
  "ca_ID (rec_Call (scan_archive d r)) = cr_id r" "ca_DateTime (rec_Call (scan_archive d r)) = cr_datetime r"
  "ca_AudioName (rec_Call (scan_archive d r)) = cr_audio_name r" "ca_AudioType (rec_Call (scan_archive d r)) = cr_audio_type r"
  "rec_Audio (scan_archive d r) = cr_audio r"
  by (simp_all add: scan_archive_def scan_call_joined_def scan_call_def scan_call_base_def split: option.split)

text \<open>A batch that archives something leaves fewer old calls: the next one starts from a smaller backlog.\<close>

lemma batch_progress:
  assumes "archiveCallsBatch env cfg cutoff n st = (Inr b, st')" "arb_Archived b \<noteq> 0"
  shows "length (older cutoff (sto_db st')) < length (older cutoff (sto_db st))"
proof -
  obtain remaining recs where l: "batch_list cutoff n (sto_db st) = (remaining, recs)" by force
  have ne: "recs \<noteq> []" using assms l by (auto simp: archiveCallsBatch_def zero_batch_def)
  then have recs: "recs = map (scan_archive (sto_db st)) (archive_page cutoff n (sto_db st))"
    using l by (auto simp: batch_list_def Let_def ListCallsForArchive_def split: if_splits)
  obtain e1 st1 where 1: "batch_write env recs st = (e1, st1)" by force
  obtain r2 st2 where 2: "batch_sync env cfg recs st1 = (r2, st2)" by force
  obtain k st3 where 3: "batch_delete recs st2 = (k, st3)" by force
  obtain r4 st4 where 4: "batch_cleanup env cfg recs st3 = (r4, st4)" by force
  have "st' = st4" "e1 = None" using assms(1) l ne 1 2 3 4
    by (auto simp: archiveCallsBatch_def split: option.splits sum.splits)
  then have db: "sto_db st' = del_calls (\<lambda>r. cr_id r \<in> set (map (\<lambda>rec. ca_ID (rec_Call rec)) recs)) (sto_db st)"
    using batch_write_db [OF 1] batch_sync_db [OF 2] batch_delete_db [OF 3 ne] batch_cleanup_db [OF 4] by simp
  from ne recs obtain r where r: "r \<in> set (archive_page cutoff n (sto_db st))" by (cases "archive_page cutoff n (sto_db st)") auto
  let ?P = "\<lambda>r. cr_id r \<in> set (map (\<lambda>rec. ca_ID (rec_Call rec)) recs)"
  have "older cutoff (sto_db st') = filter (\<lambda>r. \<not> ?P r) (older cutoff (sto_db st))"
    by (simp add: older_def db del_calls_rows conj_commute)
  moreover have "r \<in> set (older cutoff (sto_db st))" using r archive_page_older by blast
  moreover have "?P r" using r by (force simp: recs)
  ultimately show ?thesis by (metis length_filter_less)
qed

section \<open>The sweep\<close>

text \<open>Bytes of the dash and of the ellipsis in UTF-8.\<close>

definition em_dash :: string where "em_dash = [CHR 0xE2, CHR 0x80, CHR 0x94]"
definition ellipsis :: string where "ellipsis = [CHR 0xE2, CHR 0x80, CHR 0xA6]"

definition paused_note :: "int \<Rightarrow> string" where
  "paused_note remaining = ''Sweep paused after 4h0m0s (safety limit). '' @ format_int remaining @ '' calls remain '' @ em_dash @
     '' run again or wait for the 6-hour scheduler.''"

definition add_batch :: "archiveCallsBatchResult \<Rightarrow> archiveCallsResult \<Rightarrow> archiveCallsResult" where
  "add_batch b res = res\<lparr>arc_Archived := arc_Archived res + arb_Archived b, arc_Deleted := arc_Deleted res + arb_Deleted b,
     arc_FreedBytes := arc_FreedBytes res + arb_FreedBytes b, arc_S3DirsSynced := arc_S3DirsSynced res + arb_S3DirsSynced b,
     arc_LocalRemoved := arc_LocalRemoved res \<or> arb_LocalRemoved b, arc_RemainingOld := arb_RemainingOld b\<rparr>"

text \<open>What \<open>onProgress\<close> is told: the batch, what it did so far, and the totals.\<close>

type_synonym progress = "int \<times> archiveCallsBatchResult \<times> archiveCallsResult"

function archive_batches ::
  "archive_env \<Rightarrow> archive_config \<Rightarrow> int \<Rightarrow> int \<Rightarrow> bool \<Rightarrow> archiveCallsResult \<Rightarrow> archive_store \<Rightarrow>
   (archiveCallsResult \<times> string option \<times> progress list) \<times> archive_store" where
  "archive_batches env cfg cutoff n untilEmpty res0 st =
     (let res = res0\<lparr>arc_Batches := arc_Batches res0 + 1\<rparr>; k = arc_Batches res in
      case archiveCallsBatch env cfg cutoff n st of
        (Inl e, st') \<Rightarrow> ((res, Some e, [(k, zero_batch, res)]), st')
      | (Inr b, st') \<Rightarrow>
          (let res' = add_batch b res; said = [(k, zero_batch, res), (k, b, res')] in
           if arb_Archived b = 0 \<or> arb_RemainingOld b = 0 \<or> \<not> untilEmpty then ((res', None, said), st')
           else if aen_late env k
             then ((res'\<lparr>arc_StoppedEarly := True, arc_Note := paused_note (arb_RemainingOld b)\<rparr>, None, said), st')
           else (case archive_batches env cfg cutoff n untilEmpty res' st' of
                   ((r, e, ps), st'') \<Rightarrow> ((r, e, said @ ps), st''))))"
  by pat_completeness auto

termination
  by (relation "measure (\<lambda>(env, cfg, cutoff, n, u, res, st). length (older cutoff (sto_db st)))")
     (auto dest: batch_progress [OF sym])

declare archive_batches.simps [simp del]

text \<open>Which vacuum is started: none when nothing was deleted, a full one when the backlog is gone.\<close>

definition scheduleCallsVacuum :: "archive_config \<Rightarrow> int \<Rightarrow> int \<Rightarrow> bool option" where
  "scheduleCallsVacuum cfg deleted remainingOld =
     (if deleted \<le> 0 then None else Some (acf_VacuumFull cfg \<and> remainingOld = 0))"

definition archive_days :: "archive_config \<Rightarrow> archiveCallsRequest \<Rightarrow> int" where
  "archive_days cfg rq = (if arq_OlderThanDays rq \<le> 0 then acf_CallRetentionDays cfg else arq_OlderThanDays rq)"

definition archive_limit :: "archiveCallsRequest \<Rightarrow> int" where
  "archive_limit rq = (if arq_Limit rq \<le> 0 \<or> arq_Limit rq > callArchiveBatchLimit then callArchiveBatchLimit else arq_Limit rq)"

definition archiveCallsWithProgress ::
  "archive_env \<Rightarrow> archive_config \<Rightarrow> int \<Rightarrow> archiveCallsRequest \<Rightarrow> archive_store \<Rightarrow>
   (archiveCallsResult \<times> string option \<times> progress list) \<times> archive_store" where
  "archiveCallsWithProgress env cfg now rq st =
     (let dir = TrimSpace (acf_CallArchiveDir cfg); days = archive_days cfg rq in
      if dir = [] then ((zero_result, Some ''CALL_ARCHIVE_DIR is not configured'', []), st)
      else if days \<le> 0 then ((zero_result, Some ''olderThanDays must be > 0 (or set CALL_RETENTION_DAYS)'', []), st)
      else (let cutoff = archive_cutoff now days; n = archive_limit rq;
                res = zero_result\<lparr>arc_CutoffUnix := cutoff, arc_ArchiveDir := dir,
                        arc_S3URI := TrimSpace (acf_CallArchiveS3URI cfg), arc_BatchLimit := n\<rparr> in
            case archive_batches env cfg cutoff n (archiveUntilEmpty rq) res st of
              ((r, Some e, ps), st') \<Rightarrow> ((r, Some e, ps), st')
            | ((r, None, ps), st') \<Rightarrow>
                ((if arc_Deleted r > 0
                  then r\<lparr>arc_VacuumQueued := (scheduleCallsVacuum cfg (arc_Deleted r) (arc_RemainingOld r) \<noteq> None)\<rparr>
                  else r, None, ps), st')))"


definition dry_run_note :: string where
  "dry_run_note = ''Archives run in batches until the backlog is cleared. VACUUM FULL runs automatically when remainingOld reaches 0.''"

definition archiveCalls ::
  "archive_env \<Rightarrow> archive_config \<Rightarrow> int \<Rightarrow> archiveCallsRequest \<Rightarrow> archive_store \<Rightarrow>
   (archiveCallsResult \<times> string option) \<times> archive_store" where
  "archiveCalls env cfg now rq st =
     (let dir = TrimSpace (acf_CallArchiveDir cfg); days = archive_days cfg rq in
      if dir = [] then ((zero_result, Some ''CALL_ARCHIVE_DIR is not configured''), st)
      else if days \<le> 0 then ((zero_result, Some ''olderThanDays must be > 0 (or set CALL_RETENTION_DAYS)''), st)
      else if arq_DryRun rq
        then (let cutoff = archive_cutoff now days in
              ((zero_result\<lparr>arc_CutoffUnix := cutoff, arc_ArchiveDir := dir, arc_S3URI := TrimSpace (acf_CallArchiveS3URI cfg),
                  arc_DryRun := True, arc_RemainingOld := CountCallsOlderThan cutoff (sto_db st),
                  arc_FreedBytes := SumAudioBytesOlderThan cutoff (sto_db st), arc_Note := dry_run_note\<rparr>, None), st))
      else (case archiveCallsWithProgress env cfg now rq st of ((r, e, _), st') \<Rightarrow> ((r, e), st')))"

section \<open>The background job\<close>

record archiveJobStatus =
  arj_Running :: bool
  arj_Phase :: string
  arj_StatusLine :: string
  arj_Error :: string
  arj_StartedAt :: int
  arj_UpdatedAt :: int
  arj_LastBatchSize :: int
  arj_InitialRemaining :: int
  arj_Result :: archiveCallsResult

text \<open>The server's share: the store, \<open>archiveJob\<close>, and whether \<open>archiveSweepMu\<close> is held.\<close>

record archive_server =
  arv_store :: archive_store
  arv_job :: "archiveJobStatus option"
  arv_sweeping :: bool

definition job_status :: "string \<Rightarrow> string \<Rightarrow> archiveJobStatus" where
  "job_status phase line = \<lparr>arj_Running = False, arj_Phase = phase, arj_StatusLine = line, arj_Error = [], arj_StartedAt = 0,
     arj_UpdatedAt = 0, arj_LastBatchSize = 0, arj_InitialRemaining = 0, arj_Result = zero_result\<rparr>"

definition snapshotArchiveJob :: "archive_server \<Rightarrow> archiveJobStatus" where
  "snapshotArchiveJob s =
     (case arv_job s of None \<Rightarrow> job_status ''idle'' ''No archive job has run yet.'' | Some j \<Rightarrow> j)"

definition starting_job :: "int \<Rightarrow> archiveJobStatus" where
  "starting_job now = (job_status ''starting'' (''Starting archive sweep'' @ ellipsis))\<lparr>arj_Running := True,
     arj_StartedAt := now, arj_UpdatedAt := now, arj_Result := zero_result\<lparr>arc_Note :=
       ''Archive runs in the background. Poll GET /api/v1/admin/calls/archive/status for progress.''\<rparr>\<rparr>"

text \<open>The third component is the request the job is started with, when one is started.\<close>

definition startArchiveJob ::
  "archiveCallsRequest \<Rightarrow> int \<Rightarrow> archive_server \<Rightarrow> (archiveJobStatus \<times> nat \<times> archiveCallsRequest option) \<times> archive_server" where
  "startArchiveJob rq now s =
     (let rq' = rq\<lparr>arq_UntilEmpty := Some True, arq_Limit := (if arq_Limit rq \<le> 0 then 100 else arq_Limit rq)\<rparr>;
          s' = s\<lparr>arv_job := Some (starting_job now)\<rparr> in
      case arv_job s of
        Some j \<Rightarrow> if arj_Running j then ((j, 200, None), s) else ((snapshotArchiveJob s', 202, Some rq'), s')
      | None \<Rightarrow> ((snapshotArchiveJob s', 202, Some rq'), s'))"

definition updateArchiveJob :: "int \<Rightarrow> (archiveJobStatus \<Rightarrow> archiveJobStatus) \<Rightarrow> archive_server \<Rightarrow> archive_server" where
  "updateArchiveJob now f s =
     (case arv_job s of None \<Rightarrow> s | Some j \<Rightarrow> s\<lparr>arv_job := Some ((f j)\<lparr>arj_UpdatedAt := now\<rparr>)\<rparr>)"

definition job_progress :: "progress \<Rightarrow> archiveJobStatus \<Rightarrow> archiveJobStatus" where
  "job_progress p j =
     (case p of (k, b, tot) \<Rightarrow>
        j\<lparr>arj_InitialRemaining := (if arj_InitialRemaining j = 0 \<and> arb_Archived b > 0
             then arb_RemainingOld b + arb_Archived b else arj_InitialRemaining j),
          arj_Phase := ''running'', arj_LastBatchSize := arb_Archived b, arj_Result := tot,
          arj_StatusLine := (if arb_Archived b > 0
             then ''Batch '' @ format_int k @ '': exported '' @ format_int (arb_Archived b) @ '' calls '' @ em_dash @ '' '' @
               format_int (arb_RemainingOld b) @ '' remaining'' @ ellipsis
             else ''Batch '' @ format_int k @ '' in progress'' @ ellipsis)\<rparr>)"

text \<open>The updates of a run, each at its own time.\<close>

fun progress_updates :: "(nat \<Rightarrow> int) \<Rightarrow> nat \<Rightarrow> progress list \<Rightarrow> archive_server \<Rightarrow> archive_server" where
  "progress_updates tick i [] s = s"
| "progress_updates tick i (p # ps) s = progress_updates tick (Suc i) ps (updateArchiveJob (tick i) (job_progress p) s)"

text \<open>\<open>%.1f\<close> of a quotient by a power of two rounds half to even; byte counts stay below \<open>2 ^ 53\<close>, where the quotient is exact.\<close>

fun unit_scale :: "nat \<Rightarrow> nat \<times> nat" where
  "unit_scale n = (if n \<ge> 1024 then (case unit_scale (n div 1024) of (dv, ex) \<Rightarrow> (dv * 1024, ex + 1)) else (1024, 0))"

declare unit_scale.simps [simp del]

definition tenths_even :: "nat \<Rightarrow> nat \<Rightarrow> nat" where
  "tenths_even a b = (let q = a * 10 div b; r = a * 10 mod b in
     if 2 * r > b \<or> (2 * r = b \<and> odd q) then q + 1 else q)"

definition formatArchiveBytes :: "int \<Rightarrow> string" where
  "formatArchiveBytes b =
     (if b \<le> 0 then ''0 B''
      else if b < 1024 then format_int b @ '' B''
      else (case unit_scale (nat b div 1024) of (dv, ex) \<Rightarrow>
              let t = tenths_even (nat b) dv in
              dec_nat (t div 10) @ ''.'' @ dec_nat (t mod 10) @ '' '' @ [''KMGTPE'' ! ex] @ ''B''))"

definition finish_job :: "archiveCallsResult \<Rightarrow> string option \<Rightarrow> archiveJobStatus \<Rightarrow> archiveJobStatus" where
  "finish_job r err j0 =
     (let j = j0\<lparr>arj_Running := False, arj_Result := r, arj_LastBatchSize := 0\<rparr> in
      case err of
        Some e \<Rightarrow> j\<lparr>arj_Phase := ''error'', arj_Error := e, arj_StatusLine := ''Archive failed: '' @ e\<rparr>
      | None \<Rightarrow>
          (if arc_StoppedEarly r
           then j\<lparr>arj_Phase := ''paused'', arj_StatusLine := ''Paused '' @ em_dash @ '' '' @ format_int (arc_Archived r) @
             '' archived, '' @ format_int (arc_RemainingOld r) @ '' remaining. Run again to continue.''\<rparr>
           else if arc_Archived r = 0 then j\<lparr>arj_Phase := ''done'', arj_StatusLine := ''Nothing to archive.''\<rparr>
           else j\<lparr>arj_Phase := ''done'', arj_StatusLine := ''Complete '' @ em_dash @ '' '' @ format_int (arc_Archived r) @
             '' calls archived, '' @ formatArchiveBytes (arc_FreedBytes r) @ '' freed.''\<rparr>))"

definition sweep_audit :: "archiveCallsRequest \<Rightarrow> archiveCallsResult \<Rightarrow> bool \<Rightarrow> (string \<times> json) list" where
  "sweep_audit rq r async =
     [(''archived'', JNumber (arc_Archived r)), (''deleted'', JNumber (arc_Deleted r)), (''freedBytes'', JNumber (arc_FreedBytes r)),
      (''cutoffUnix'', JNumber (arc_CutoffUnix r)), (''dryRun'', JBool (if async then False else arc_DryRun r)),
      (''olderThanDays'', JNumber (arq_OlderThanDays rq)), (''batches'', JNumber (arc_Batches r))] @
     (if async then [] else [(''untilEmpty'', JBool (archiveUntilEmpty rq))]) @
     [(''stoppedEarly'', JBool (arc_StoppedEarly r)), (''remainingOld'', JNumber (arc_RemainingOld r)), (''async'', JBool async)]"

definition store_audit :: "string \<Rightarrow> (string \<times> json) list \<Rightarrow> int \<Rightarrow> archive_store \<Rightarrow> archive_store" where
  "store_audit uid meta now st = st\<lparr>sto_db := audit uid ''admin.calls_archived'' ''calls'' ''batch'' meta now (sto_db st)\<rparr>"

text \<open>\<open>now\<close> in nanoseconds; \<open>tick i\<close> is the time of the run's i-th update.\<close>

definition runArchiveJob ::
  "archive_env \<Rightarrow> archive_config \<Rightarrow> int \<Rightarrow> (nat \<Rightarrow> int) \<Rightarrow> string \<Rightarrow> archiveCallsRequest \<Rightarrow> archive_server \<Rightarrow> archive_server" where
  "runArchiveJob env cfg now tick adminID rq s =
     (if arv_sweeping s
      then updateArchiveJob (tick 0) (\<lambda>j. j\<lparr>arj_Running := False, arj_Phase := ''error'',
             arj_Error := ''another archive sweep is already running'',
             arj_StatusLine := ''another archive sweep is already running''\<rparr>) s
      else (case archiveCallsWithProgress env cfg now rq (arv_store s) of
              ((r, err, ps), st) \<Rightarrow>
                (let s1 = progress_updates tick 0 ps (s\<lparr>arv_store := st\<rparr>);
                     s2 = updateArchiveJob (tick (length ps)) (finish_job r err) s1 in
                 if err = None \<and> arc_Archived r > 0
                 then s2\<lparr>arv_store := store_audit adminID (sweep_audit rq r True) (tick (length ps)) (arv_store s2)\<rparr>
                 else s2)))"

text \<open>One turn of the scheduler, ten minutes after the start and then every six hours.\<close>

definition scheduled_sweep :: "archive_env \<Rightarrow> archive_config \<Rightarrow> int \<Rightarrow> archive_server \<Rightarrow> archive_server" where
  "scheduled_sweep env cfg now s =
     (if \<not> callArchiveLoopEnabled cfg \<or> arv_sweeping s then s
      else (case archiveCallsWithProgress env cfg now
                \<lparr>arq_OlderThanDays = acf_CallRetentionDays cfg, arq_DryRun = False, arq_Limit = callArchiveBatchLimit,
                 arq_UntilEmpty = Some True, arq_Async = None\<rparr> (arv_store s) of
              (_, st) \<Rightarrow> s\<lparr>arv_store := st\<rparr>))"

section \<open>The requests\<close>

record storage_reply =
  srep_stats :: CallStorageStats
  srep_retentionDays :: int
  srep_retentionDaysFromEnv :: bool
  srep_archiveDir :: string
  srep_archiveDirFromEnv :: bool
  srep_archiveS3Uri :: string
  srep_archiveS3Cfg :: string
  srep_archiveDeleteLocalAfterS3 :: bool
  srep_archiveLoopEnabled :: bool

datatype archive_body = StorageStats storage_reply | SweepResult archiveCallsResult | JobStatus archiveJobStatus

text \<open>\<open>getenv\<close> is the process environment.\<close>

definition handleCallStorageStats ::
  "(string \<Rightarrow> string) \<Rightarrow> archive_config \<Rightarrow> authUser option \<Rightarrow> archive_server \<Rightarrow> archive_body reply" where
  "handleCallStorageStats getenv cfg ctx s =
     (case requireAdmin ctx of
        Inl e \<Rightarrow> e
      | Inr _ \<Rightarrow> Reply 200 (StorageStats
          \<lparr>srep_stats = GetCallStorageStats (sto_db (arv_store s)), srep_retentionDays = acf_CallRetentionDays cfg,
           srep_retentionDaysFromEnv = (getenv ''CALL_RETENTION_DAYS'' \<noteq> []), srep_archiveDir = acf_CallArchiveDir cfg,
           srep_archiveDirFromEnv = (TrimSpace (getenv ''CALL_ARCHIVE_DIR'') \<noteq> []),
           srep_archiveS3Uri = acf_CallArchiveS3URI cfg, srep_archiveS3Cfg = acf_CallArchiveS3Cfg cfg,
           srep_archiveDeleteLocalAfterS3 = acf_DeleteLocalAfterS3 cfg,
           srep_archiveLoopEnabled = callArchiveLoopEnabled cfg\<rparr>))"

definition handleArchiveJobStatus :: "authUser option \<Rightarrow> archive_server \<Rightarrow> archive_body reply" where
  "handleArchiveJobStatus ctx s =
     (case requireAdmin ctx of Inl e \<Rightarrow> e | Inr _ \<Rightarrow> Reply 200 (JobStatus (snapshotArchiveJob s)))"

text \<open>The second component is the job the request starts: the administrator and the request it runs with.\<close>

definition handleArchiveCalls ::
  "archive_env \<Rightarrow> archive_config \<Rightarrow> authUser option \<Rightarrow> archiveCallsRequest option \<Rightarrow> int \<Rightarrow> archive_server \<Rightarrow>
   (archive_body reply \<times> (string \<times> archiveCallsRequest) option) \<times> archive_server" where
  "handleArchiveCalls env cfg ctx body now s =
     (case requireAdmin ctx of
        Inl e \<Rightarrow> ((e, None), s)
      | Inr admin \<Rightarrow>
          (case body of
             None \<Rightarrow> ((Fail 400 ''invalid json'', None), s)
           | Some rq \<Rightarrow>
               (if archiveAsync rq
                then (case startArchiveJob rq (now div 1000000000) s of
                        ((status, code, job), s') \<Rightarrow> ((Reply code (JobStatus status), map_option (Pair (au_ID admin)) job), s'))
                else (case archiveCalls env cfg now rq (arv_store s) of
                        ((_, Some e), st) \<Rightarrow> ((Fail 400 e, None), s\<lparr>arv_store := st\<rparr>)
                      | ((r, None), st) \<Rightarrow>
                          ((Reply 200 (SweepResult r), None),
                           s\<lparr>arv_store := store_audit (au_ID admin) (sweep_audit rq r False) (now div 1000000000) st\<rparr>)))))"


end
