(* ===== verification/ArchiveSafety.thy ===== *)
theory ArchiveSafety
  imports CallArchive "HOL-Library.Multiset"
begin

text \<open>
  What a sweep guarantees. No call leaves the database before both its files are kept, in the local tree or in the
  bucket, under names no other call uses; a sweep without faults clears the backlog; the exceptions are a call whose
  audio is named \<open>.json\<close>, a number of days beyond the 64-bit range of a duration, and two sweeps at once.
\<close>

section \<open>Names\<close>

definition numeral_char :: "char \<Rightarrow> bool" where
  "numeral_char c \<longleftrightarrow> is_digit c \<or> c = CHR ''-''"

lemma numeral_char_not: "numeral_char c \<Longrightarrow> c \<noteq> CHR ''.'' \<and> c \<noteq> CHR ''/'' \<and> \<not> is_space c"
proof -
  have "list_all (\<lambda>c. c \<noteq> CHR ''.'' \<and> c \<noteq> CHR ''/'' \<and> \<not> is_space c) (CHR ''-'' # decimal_digits)" by code_simp
  moreover assume "numeral_char c"
  ultimately show ?thesis by (auto simp only: list_all_iff is_digit_def numeral_char_def list.set)
qed

lemma format_int_numeral: "list_all numeral_char (format_int i)"
  using dec_nat_digits by (auto simp: format_int_def numeral_char_def list_all_iff)

lemma takeWhile_numeral:
  assumes "list_all numeral_char s"
  shows "takeWhile (\<lambda>c. c \<noteq> CHR ''.'') (s @ CHR ''.'' # t) = s"
proof -
  have "\<forall>c \<in> set s. c \<noteq> CHR ''.''" using assms numeral_char_not by (simp add: list_all_iff)
  then show ?thesis by (simp add: takeWhile_append2)
qed

lemma call_file_inj:
  "call_file i (CHR ''.'' # s) = call_file j (CHR ''.'' # t) \<longleftrightarrow> i = j \<and> s = t"
proof
  assume "call_file i (CHR ''.'' # s) = call_file j (CHR ''.'' # t)"
  then have eq: "format_int i @ CHR ''.'' # s = format_int j @ CHR ''.'' # t" by (simp add: call_file_def)
  then have "format_int i = format_int j"
    using takeWhile_numeral [OF format_int_numeral, of i s] takeWhile_numeral [OF format_int_numeral, of j t] by simp
  with eq show "i = j \<and> s = t" by (simp add: format_int_inj)
qed simp

lemma ext_scan_dot: "ext_scan acc s = [] \<or> (\<exists>t. ext_scan acc s = CHR ''.'' # t)"
  by (induction acc s rule: ext_scan.induct) auto

lemma archive_extension_dot: "\<exists>t. archiveAudioExtension name type = CHR ''.'' # t"
proof -
  have "lower_char (CHR ''.'') = CHR ''.''" by code_simp
  moreover have "Ext (TrimSpace name) = [] \<or> (\<exists>t. Ext (TrimSpace name) = CHR ''.'' # t)"
    unfolding Ext_def by (rule ext_scan_dot)
  ultimately show ?thesis
    by (auto simp: archiveAudioExtension_def Let_def ToLower_def)
qed

definition call_audio_file :: "calls_row \<Rightarrow> string" where
  "call_audio_file r = call_file (cr_id r) (archiveAudioExtension (cr_audio_name r) (cr_audio_type r))"

definition call_json_file :: "calls_row \<Rightarrow> string" where
  "call_json_file r = call_file (cr_id r) ''.json''"

lemma call_files_distinct:
  "cr_id r \<noteq> cr_id s \<Longrightarrow> {call_audio_file r, call_json_file r} \<inter> {call_audio_file s, call_json_file s} = {}"
  using archive_extension_dot [of "cr_audio_name r" "cr_audio_type r"] archive_extension_dot [of "cr_audio_name s" "cr_audio_type s"]
  by (auto simp: call_audio_file_def call_json_file_def call_file_inj)

lemma audio_not_json:
  "archiveAudioExtension (cr_audio_name r) (cr_audio_type r) \<noteq> ''.json'' \<Longrightarrow> call_audio_file r \<noteq> call_json_file r"
  using archive_extension_dot [of "cr_audio_name r" "cr_audio_type r"]
  by (auto simp: call_audio_file_def call_json_file_def call_file_inj)

lemma zero_padded_numeral: "list_all numeral_char (zero_padded w i)"
proof -
  have "is_digit (CHR ''0'')" by code_simp
  then show ?thesis using dec_nat_digits [of "nat \<bar>i\<bar>"] by (auto simp: zero_padded_def Let_def list_all_iff numeral_char_def)
qed

lemma archive_day_numeral: "list_all numeral_char (archive_day t)"
  using zero_padded_numeral by (auto simp: archive_day_def numeral_char_def split: prod.split)

lemma trim_slashes_day: "trim_slashes (archive_day t) = archive_day t"
proof -
  have no: "\<forall>c \<in> set (archive_day t). c \<noteq> CHR ''/''"
    using archive_day_numeral [of t] numeral_char_not by (simp add: list_all_iff)
  have "dropWhile (\<lambda>c. c = CHR ''/'') s = s" if "\<forall>c \<in> set s. c \<noteq> CHR ''/''" for s
    using that by (cases s) auto
  from this [of "archive_day t"] this [of "rev (archive_day t)"] no show ?thesis by (simp add: trim_slashes_def)
qed

lemma ensureTrailing_join: "ensureTrailingSlash (joinS3URI b p dy) = joinS3URI b p dy"
  by (simp add: ensureTrailingSlash_def joinS3URI_def Let_def)

lemma joinS3URI_inj: "joinS3URI b p (archive_day s) = joinS3URI b p (archive_day t) \<Longrightarrow> archive_day s = archive_day t"
  by (simp add: joinS3URI_def trim_slashes_day Let_def split: if_splits)


section \<open>What is kept\<close>

text \<open>Where a day goes in the bucket, when one is configured.\<close>

definition remote_dir :: "archive_config \<Rightarrow> string \<Rightarrow> string option" where
  "remote_dir cfg dy =
     (if TrimSpace (acf_CallArchiveS3URI cfg) = [] then None
      else case parseS3URI (TrimSpace (acf_CallArchiveS3URI cfg)) of
        Inl _ \<Rightarrow> None
      | Inr (bucket, pre) \<Rightarrow> Some (joinS3URI bucket pre dy))"

definition stored :: "archive_config \<Rightarrow> archive_store \<Rightarrow> string \<Rightarrow> string \<Rightarrow> archive_content \<Rightarrow> bool" where
  "stored cfg st dy f c \<longleftrightarrow>
     (case lookup_file (sto_tree st) dy f of
        Some c' \<Rightarrow> c' = c
      | None \<Rightarrow> (\<exists>u. remote_dir cfg dy = Some u \<and> lookup_file (sto_remote st) u f = Some c))"

definition kept_call :: "archive_env \<Rightarrow> archive_config \<Rightarrow> db \<Rightarrow> archive_store \<Rightarrow> calls_row \<Rightarrow> bool" where
  "kept_call env cfg d st r \<longleftrightarrow>
     stored cfg st (archive_day (cr_datetime r)) (call_audio_file r) (AudioFile (cr_audio r)) \<and>
     stored cfg st (archive_day (cr_datetime r)) (call_json_file r)
       (ManifestFile (call_manifest (scan_archive d r) (call_audio_file r) (aen_now env (cr_id r))))"

text \<open>
  What the sweep relies on in \<open>s3cmd sync\<close>: a file in the bucket stays unless the synced directory has one of that
  name, and after a successful sync the directory's files are there.
\<close>

definition sync_adds :: "archive_env \<Rightarrow> bool" where
  "sync_adds env \<longleftrightarrow> (\<forall>cfgPath l u R e R'. aen_s3cmd env cfgPath l u R = (e, R') \<longrightarrow>
     (\<forall>u' f c. (u' \<noteq> u \<or> l f = None) \<and> lookup_file R u' f = Some c \<longrightarrow> lookup_file R' u' f = Some c) \<and>
     (e = None \<longrightarrow> (\<forall>f c. l f = Some c \<longrightarrow> lookup_file R' u f = Some c)))"

lemma sync_addsD:
  assumes "sync_adds env" "aen_s3cmd env cfgPath l u R = (e, R')"
  shows "u' \<noteq> u \<or> l f = None \<Longrightarrow> lookup_file R u' f = Some c \<Longrightarrow> lookup_file R' u' f = Some c"
    and "e = None \<Longrightarrow> l f = Some c \<Longrightarrow> lookup_file R' u f = Some c"
  using assms unfolding sync_adds_def by blast+

section \<open>Writing\<close>

lemma lookup_make_dir: "make_dir env dy t = (e, t') \<Longrightarrow> lookup_file t' dy' f = lookup_file t dy' f"
  by (auto simp: make_dir_def lookup_file_def split: option.splits if_splits)

lemma make_dir_exists: "make_dir env dy t = (None, t') \<Longrightarrow> t' dy \<noteq> None"
  by (auto simp: make_dir_def split: option.splits if_splits)

lemma write_file_other: "write_file env dy f c t = (e, t') \<Longrightarrow> f' \<noteq> f \<Longrightarrow> lookup_file t' dy' f' = lookup_file t dy' f'"
  by (auto simp: write_file_def lookup_file_def split: option.splits if_splits)

lemma write_file_done: "write_file env dy f c t = (None, t') \<Longrightarrow> lookup_file t' dy f = Some c"
  by (auto simp: write_file_def lookup_file_def split: option.splits)

text \<open>The three steps of \<open>writeCallArchiveFile\<close>; a failure ends it after the step that failed.\<close>

lemma write_call_steps:
  assumes "writeCallArchiveFile env (scan_archive d r) t = (e, t')"
  obtains e1 t1 e2 t2 e3 t3 where
    "make_dir env (archive_day (cr_datetime r)) t = (e1, t1)"
    "write_file env (archive_day (cr_datetime r)) (call_audio_file r) (AudioFile (cr_audio r)) t1 = (e2, t2)"
    "write_file env (archive_day (cr_datetime r)) (call_json_file r)
       (ManifestFile (call_manifest (scan_archive d r) (call_audio_file r) (aen_now env (cr_id r)))) t2 = (e3, t3)"
    "t' = t1 \<and> e \<noteq> None \<or> t' = t2 \<and> e \<noteq> None \<or> t' = t3 \<and> (e = None \<longrightarrow> e1 = None \<and> e2 = None \<and> e3 = None)"
proof -
  obtain e1 t1 where 1: "make_dir env (archive_day (cr_datetime r)) t = (e1, t1)" by force
  obtain e2 t2 where 2: "write_file env (archive_day (cr_datetime r)) (call_audio_file r) (AudioFile (cr_audio r)) t1 = (e2, t2)"
    by force
  obtain e3 t3 where 3: "write_file env (archive_day (cr_datetime r)) (call_json_file r)
      (ManifestFile (call_manifest (scan_archive d r) (call_audio_file r) (aen_now env (cr_id r)))) t2 = (e3, t3)" by force
  have "t' = t1 \<and> e \<noteq> None \<or> t' = t2 \<and> e \<noteq> None \<or> t' = t3 \<and> (e = None \<longrightarrow> e1 = None \<and> e2 = None \<and> e3 = None)"
    using assms 1 2 3 unfolding call_audio_file_def call_json_file_def
    by (cases e1; cases e2; cases e3) (auto simp: writeCallArchiveFile_def)
  with 1 2 3 show thesis by (rule that)
qed

lemma write_call_other:
  assumes "writeCallArchiveFile env (scan_archive d r) t = (e, t')" "f \<notin> {call_audio_file r, call_json_file r}"
  shows "lookup_file t' dy f = lookup_file t dy f"
  using assms(1)
proof (rule write_call_steps)
  fix e1 t1 e2 t2 e3 t3
  assume 1: "make_dir env (archive_day (cr_datetime r)) t = (e1, t1)"
    and 2: "write_file env (archive_day (cr_datetime r)) (call_audio_file r) (AudioFile (cr_audio r)) t1 = (e2, t2)"
    and 3: "write_file env (archive_day (cr_datetime r)) (call_json_file r)
      (ManifestFile (call_manifest (scan_archive d r) (call_audio_file r) (aen_now env (cr_id r)))) t2 = (e3, t3)"
    and t': "t' = t1 \<and> e \<noteq> None \<or> t' = t2 \<and> e \<noteq> None \<or> t' = t3 \<and> (e = None \<longrightarrow> e1 = None \<and> e2 = None \<and> e3 = None)"
  have "lookup_file t1 dy f = lookup_file t dy f" by (rule lookup_make_dir [OF 1])
  moreover have "lookup_file t2 dy f = lookup_file t1 dy f" by (rule write_file_other [OF 2]) (use assms(2) in simp)
  moreover have "lookup_file t3 dy f = lookup_file t2 dy f" by (rule write_file_other [OF 3]) (use assms(2) in simp)
  ultimately show ?thesis using t' by auto
qed

lemma write_call_done:
  assumes "writeCallArchiveFile env (scan_archive d r) t = (None, t')"
  shows "lookup_file t' (archive_day (cr_datetime r)) (call_json_file r) =
       Some (ManifestFile (call_manifest (scan_archive d r) (call_audio_file r) (aen_now env (cr_id r)))) \<and>
     (call_audio_file r \<noteq> call_json_file r \<longrightarrow>
       lookup_file t' (archive_day (cr_datetime r)) (call_audio_file r) = Some (AudioFile (cr_audio r)))"
  using assms
proof (rule write_call_steps)
  fix e1 t1 e2 t2 e3 t3
  assume 2: "write_file env (archive_day (cr_datetime r)) (call_audio_file r) (AudioFile (cr_audio r)) t1 = (e2, t2)"
    and 3: "write_file env (archive_day (cr_datetime r)) (call_json_file r)
      (ManifestFile (call_manifest (scan_archive d r) (call_audio_file r) (aen_now env (cr_id r)))) t2 = (e3, t3)"
    and t': "t' = t1 \<and> None \<noteq> (None :: string option) \<or> t' = t2 \<and> None \<noteq> (None :: string option) \<or>
      t' = t3 \<and> (None = (None :: string option) \<longrightarrow> e1 = None \<and> e2 = None \<and> e3 = None)"
  then have e: "e2 = None" "e3 = None" and t3: "t' = t3" by simp_all
  show ?thesis
    using write_file_done [OF 2 [unfolded e]] write_file_done [OF 3 [unfolded e]] write_file_other [OF 3] by (simp add: t3)
qed

lemma write_records_other:
  "write_records env (map (scan_archive d) rows) t = (e, t') \<Longrightarrow>
   (\<And>r. r \<in> set rows \<Longrightarrow> f \<notin> {call_audio_file r, call_json_file r}) \<Longrightarrow> lookup_file t' dy f = lookup_file t dy f"
proof (induction rows arbitrary: t)
  case (Cons r rows)
  obtain e1 t1 where 1: "writeCallArchiveFile env (scan_archive d r) t = (e1, t1)" by force
  have "lookup_file t1 dy f = lookup_file t dy f" using write_call_other [OF 1] Cons.prems(2) by simp
  with Cons 1 show ?case by (cases e1) auto
qed simp

lemma write_records_done:
  "write_records env (map (scan_archive d) rows) t = (None, t') \<Longrightarrow> distinct (map cr_id rows) \<Longrightarrow> r \<in> set rows \<Longrightarrow>
   lookup_file t' (archive_day (cr_datetime r)) (call_json_file r) =
       Some (ManifestFile (call_manifest (scan_archive d r) (call_audio_file r) (aen_now env (cr_id r)))) \<and>
   (call_audio_file r \<noteq> call_json_file r \<longrightarrow>
      lookup_file t' (archive_day (cr_datetime r)) (call_audio_file r) = Some (AudioFile (cr_audio r)))"
proof (induction rows arbitrary: t)
  case (Cons q rows)
  obtain e1 t1 where 1: "writeCallArchiveFile env (scan_archive d q) t = (e1, t1)" by force
  with Cons.prems(1) have e1: "e1 = None" and rest: "write_records env (map (scan_archive d) rows) t1 = (None, t')"
    by (auto split: option.splits)
  show ?case
  proof (cases "r \<in> set rows")
    case True
    with Cons.IH [OF rest] Cons.prems(2) show ?thesis by simp
  next
    case False
    with Cons.prems(3) have r: "r = q" by simp
    have "\<And>s. s \<in> set rows \<Longrightarrow> cr_id q \<noteq> cr_id s" using Cons.prems(2) by force
    then have "lookup_file t' dy f = lookup_file t1 dy f" if "f \<in> {call_audio_file q, call_json_file q}" for dy f
      using that call_files_distinct by (intro write_records_other [OF rest]) blast
    with write_call_done [OF 1 [unfolded e1]] show ?thesis by (simp add: r)
  qed
qed simp


section \<open>Copying and removing\<close>

lemma sync_days_keeps:
  assumes "sync_adds env"
  shows "sync_days env cp b p days t R = (res, R') \<Longrightarrow> (\<And>x. x \<in> set days \<Longrightarrow> \<exists>i. x = archive_day i) \<Longrightarrow>
    lookup_file R (joinS3URI b p (archive_day s)) f = Some c \<Longrightarrow>
    lookup_file t (archive_day s) f = None \<or> (\<exists>n. res = Inr n) \<and> lookup_file t (archive_day s) f = Some c \<Longrightarrow>
    lookup_file R' (joinS3URI b p (archive_day s)) f = Some c"
proof (induction days arbitrary: R res)
  case (Cons x days)
  show ?case
  proof (cases "t x")
    case None
    with Cons show ?thesis by simp
  next
    case (Some dir)
    obtain e R1 where 1: "aen_s3cmd env cp dir (joinS3URI b p x) R = (e, R1)" by force
    obtain res1 R2 where 2: "sync_days env cp b p days t R1 = (res1, R2)" by force
    have res: "(e \<noteq> None \<and> (\<exists>m. res = Inl m) \<and> R' = R1) \<or> e = None \<and> R' = R2 \<and> ((\<exists>n. res = Inr n) \<longrightarrow> (\<exists>n. res1 = Inr n))"
      using Cons.prems(1) Some 1 2 by (auto simp: runS3cmdSync_def ensureTrailing_join split: option.splits sum.splits)
    have R1: "lookup_file R1 (joinS3URI b p (archive_day s)) f = Some c"
    proof (cases "joinS3URI b p (archive_day s) = joinS3URI b p x")
      case False
      then show ?thesis using sync_addsD(1) [OF assms 1] Cons.prems(3) by blast
    next
      case True
      then have x: "x = archive_day s" using Cons.prems(2) joinS3URI_inj by fastforce
      then have dir: "dir f = lookup_file t (archive_day s) f" using Some by (simp add: lookup_file_def)
      show ?thesis
      proof (cases "dir f")
        case None
        then show ?thesis using sync_addsD(1) [OF assms 1] Cons.prems(3) by blast
      next
        case (Some c')
        then have "c' = c" "e = None" using Cons.prems(4) dir res by auto
        then show ?thesis using sync_addsD(2) [OF assms 1] Some x by simp
      qed
    qed
    show ?thesis
    proof (cases e)
      case (Some m)
      with res R1 show ?thesis by auto
    next
      case None
      with res 2 have "sync_days env cp b p days t R1 = (res1, R')" by auto
      then show ?thesis by (rule Cons.IH) (use R1 Cons.prems(2,4) res None in auto)
    qed
  qed
qed simp

lemma sync_days_done:
  assumes "sync_adds env"
  shows "sync_days env cp b p days t R = (Inr n, R') \<Longrightarrow> (\<And>x. x \<in> set days \<Longrightarrow> \<exists>i. x = archive_day i) \<Longrightarrow>
    archive_day s \<in> set days \<Longrightarrow> lookup_file t (archive_day s) f = Some c \<Longrightarrow>
    lookup_file R' (joinS3URI b p (archive_day s)) f = Some c"
proof (induction days arbitrary: R n)
  case (Cons x days)
  show ?case
  proof (cases "x = archive_day s")
    case False
    show ?thesis
    proof (cases "t x")
      case None
      with Cons False show ?thesis by auto
    next
      case (Some dir)
      obtain e R1 where "aen_s3cmd env cp dir (joinS3URI b p x) R = (e, R1)" by force
      moreover obtain res1 R2 where "sync_days env cp b p days t R1 = (res1, R2)" by force
      ultimately obtain m where "sync_days env cp b p days t R1 = (Inr m, R')"
        using Cons.prems(1) Some by (auto simp: runS3cmdSync_def ensureTrailing_join split: option.splits sum.splits)
      with Cons False show ?thesis by auto
    qed
  next
    case True
    then obtain dir where dir: "t x = Some dir" "dir f = Some c" using Cons.prems(4) by (auto simp: lookup_file_def split: option.splits)
    obtain e R1 where 1: "aen_s3cmd env cp dir (joinS3URI b p x) R = (e, R1)" by force
    obtain res1 R2 where 2: "sync_days env cp b p days t R1 = (res1, R2)" by force
    from Cons.prems(1) dir 1 2 obtain m where e: "e = None" and "res1 = Inr m" "R2 = R'"
      by (auto simp: runS3cmdSync_def ensureTrailing_join split: option.splits sum.splits)
    with 2 have rest: "sync_days env cp b p days t R1 = (Inr m, R')" by simp
    have R1: "lookup_file R1 (joinS3URI b p (archive_day s)) f = Some c"
      using sync_addsD(2) [OF assms 1 e dir(2)] True by simp
    show ?thesis by (rule sync_days_keeps [OF assms rest]) (use R1 Cons.prems(2,4) in auto)
  qed
qed simp

text \<open>The files of the days whose copy is in the bucket may go.\<close>

lemma remove_dirs_lookup:
  "removeArchiveDayDirs env days t = (e, t') \<Longrightarrow>
     lookup_file t' dy f = lookup_file t dy f \<or> dy \<in> set days \<and> lookup_file t' dy f = None"
proof (induction days arbitrary: t)
  case (Cons x days)
  obtain e1 t1 where 1: "remove_dir env x t = (e1, t1)" by force
  have t1: "lookup_file t1 dy f = lookup_file t dy f \<or> dy = x \<and> lookup_file t1 dy f = None"
    using 1 by (auto simp: remove_dir_def lookup_file_def restrict_map_def split: option.splits if_splits)
  show ?case
  proof (cases e1)
    case None
    then have "removeArchiveDayDirs env days t1 = (e, t')" using Cons.prems 1 by simp
    from Cons.IH [OF this] t1 show ?thesis by auto
  next
    case (Some m)
    with Cons.prems 1 t1 show ?thesis by auto
  qed
qed simp

lemma set_day_dirs [simp]: "set (day_dirs (map (scan_archive d) rows)) = archive_day ` cr_datetime ` set rows"
  by (auto simp: day_dirs_def)


section \<open>The phases of a batch keep what is stored\<close>

lemma stored_write:
  assumes "batch_write env (map (scan_archive d) rows) st = (e, st')"
    "\<And>r. r \<in> set rows \<Longrightarrow> f \<notin> {call_audio_file r, call_json_file r}"
  shows "stored cfg st' dy f c = stored cfg st dy f c"
proof -
  obtain e1 t1 where 1: "write_records env (map (scan_archive d) rows) (sto_tree st) = (e1, t1)" by force
  have "lookup_file t1 dy f = lookup_file (sto_tree st) dy f" by (rule write_records_other [OF 1 assms(2)])
  then show ?thesis using assms(1) 1 by (auto simp: batch_write_def stored_def split: option.splits)
qed

lemma batch_sync_cases:
  assumes "batch_sync env cfg recs st = (res, st')"
  obtains (same) "st' = st" "TrimSpace (acf_CallArchiveS3URI cfg) = [] \<or> (\<exists>e. res = Inl e)"
  | (sync) b p R where "parseS3URI (TrimSpace (acf_CallArchiveS3URI cfg)) = Inr (b, p)" "TrimSpace (acf_CallArchiveS3URI cfg) \<noteq> []"
      "sync_days env (TrimSpace (acf_CallArchiveS3Cfg cfg)) b p (day_dirs recs) (sto_tree st) (sto_remote st) = (res, R)"
      "st' = st\<lparr>sto_remote := R\<rparr>"
proof (cases "TrimSpace (acf_CallArchiveS3URI cfg) = []")
  case True
  with assms same show thesis by (simp add: batch_sync_def)
next
  case False
  obtain r R where 1: "syncArchiveDirsToS3 env (TrimSpace (acf_CallArchiveS3URI cfg)) (acf_CallArchiveS3Cfg cfg) (day_dirs recs)
      (sto_tree st) (sto_remote st) = (r, R)" by force
  then have st': "res = r" "st' = st\<lparr>sto_remote := R\<rparr>" using assms False by (simp_all add: batch_sync_def Let_def)
  show thesis
  proof (cases "\<exists>e. parseS3URI (TrimSpace (acf_CallArchiveS3URI cfg)) = Inl e \<or> TrimSpace (acf_CallArchiveS3Cfg cfg) = [] \<or>
      aen_s3cfg env = Some e \<or> aen_s3path env = Some e")
    case True
    then have "R = sto_remote st" "\<exists>e. r = Inl e"
      using 1 False by (auto simp: syncArchiveDirsToS3_def split: sum.splits option.splits if_splits)
    with st' show thesis by (intro same) simp_all
  next
    case other: False
    then obtain b p where bp: "parseS3URI (TrimSpace (acf_CallArchiveS3URI cfg)) = Inr (b, p)"
      by (cases "parseS3URI (TrimSpace (acf_CallArchiveS3URI cfg))") auto
    have "aen_s3cfg env = None" "aen_s3path env = None" "TrimSpace (acf_CallArchiveS3Cfg cfg) \<noteq> []"
      using other by (auto simp: not_Some_eq [symmetric])
    with 1 False bp st' show thesis by (intro sync) (simp_all add: syncArchiveDirsToS3_def)
  qed
qed

lemma stored_sync:
  assumes "batch_sync env cfg (map (scan_archive d) rows) st = (res, st')" "sync_adds env"
    "stored cfg st (archive_day s) f c"
  shows "stored cfg st' (archive_day s) f c"
  using assms(1)
proof (cases rule: batch_sync_cases)
  case (sync b p R)
  show ?thesis
  proof (cases "lookup_file (sto_tree st) (archive_day s) f")
    case None
    have dir: "remote_dir cfg (archive_day s) = Some (joinS3URI b p (archive_day s))" using sync by (simp add: remote_dir_def)
    have "lookup_file R (joinS3URI b p (archive_day s)) f = Some c"
      by (rule sync_days_keeps [OF assms(2) sync(3)]) (use None dir assms(3) in \<open>auto simp: stored_def\<close>)
    with None dir show ?thesis by (simp add: stored_def sync)
  next
    case (Some c')
    with assms(3) show ?thesis by (simp add: stored_def sync)
  qed
qed (use assms(3) in simp)

lemma synced_days:
  assumes "batch_sync env cfg (map (scan_archive d) rows) st = (Inr n, st')" "sync_adds env"
    "TrimSpace (acf_CallArchiveS3URI cfg) \<noteq> []" "archive_day s \<in> archive_day ` cr_datetime ` set rows"
    "lookup_file (sto_tree st') (archive_day s) f = Some c"
  shows "\<exists>u. remote_dir cfg (archive_day s) = Some u \<and> lookup_file (sto_remote st') u f = Some c"
  using assms(1)
proof (cases rule: batch_sync_cases)
  case (sync b p R)
  have dir: "remote_dir cfg (archive_day s) = Some (joinS3URI b p (archive_day s))" using sync by (simp add: remote_dir_def)
  have "lookup_file R (joinS3URI b p (archive_day s)) f = Some c"
    by (rule sync_days_done [OF assms(2) sync(3)]) (use assms(4,5) sync(4) in auto)
  with dir show ?thesis by (simp add: sync)
qed (use assms(3) in auto)

lemma stored_cleanup:
  assumes "batch_cleanup env cfg (map (scan_archive d) rows) st = (res, st')"
    "\<And>s f c. TrimSpace (acf_CallArchiveS3URI cfg) \<noteq> [] \<Longrightarrow> archive_day s \<in> archive_day ` cr_datetime ` set rows \<Longrightarrow>
       lookup_file (sto_tree st) (archive_day s) f = Some c \<Longrightarrow>
       \<exists>u. remote_dir cfg (archive_day s) = Some u \<and> lookup_file (sto_remote st) u f = Some c"
    "stored cfg st (archive_day s) f c"
  shows "stored cfg st' (archive_day s) f c"
proof (cases "TrimSpace (acf_CallArchiveS3URI cfg) \<noteq> [] \<and> acf_DeleteLocalAfterS3 cfg \<and> rows \<noteq> []")
  case False
  then have "st' = st" using assms(1) by (auto simp: batch_cleanup_def day_dirs_def)
  with assms(3) show ?thesis by simp
next
  case True
  obtain e t where 1: "removeArchiveDayDirs env (day_dirs (map (scan_archive d) rows)) (sto_tree st) = (e, t)" by force
  have st': "st' = st\<lparr>sto_tree := t\<rparr>" using assms(1) True 1 by (auto simp: batch_cleanup_def split: if_splits option.splits)
  from remove_dirs_lookup [OF 1, of "archive_day s" f]
  consider "lookup_file t (archive_day s) f = lookup_file (sto_tree st) (archive_day s) f"
    | "archive_day s \<in> archive_day ` cr_datetime ` set rows" "lookup_file t (archive_day s) f = None" by auto
  then show ?thesis
  proof cases
    case 1
    then have "stored cfg st' (archive_day s) f c = stored cfg st (archive_day s) f c" 
      unfolding stored_def st' by (simp split: option.split)
    with assms(3) show ?thesis by simp
  next
    case 2
    show ?thesis
    proof (cases "lookup_file (sto_tree st) (archive_day s) f")
      case None
      with 2 assms(3) show ?thesis by (simp add: stored_def st')
    next
      case (Some c')
      with assms(3) have "c' = c" by (simp add: stored_def)
      with assms(2) [of s f c] True 2 Some show ?thesis by (auto simp: stored_def st')
    qed
  qed
qed


section \<open>The sweep loses no call\<close>

lemma find_filter_keep: "(\<And>x. P x \<Longrightarrow> Q x) \<Longrightarrow> List.find P (filter Q xs) = List.find P xs"
  by (induction xs) auto

lemma scan_archive_del_calls:
  assumes "r \<in> set (t_calls d)" "\<not> P r" "db_ok d"
  shows "scan_archive (del_calls P d) r = scan_archive d r"
proof -
  have "cr_id r \<notin> set (map cr_id (filter P (t_calls d)))"
    using assms db_ok_uniq(10) [OF assms(3)] uniq_inj by fastforce
  then have "find_transcript (cr_id r) (del_calls P d) = find_transcript (cr_id r) d"
    unfolding find_transcript_def del_calls_def Let_def sql_delete_def
    by simp (rule find_filter_keep, auto simp: refd_def)
  then show ?thesis by (simp add: scan_archive_def scan_call_joined_def transcript_text_def)
qed

text \<open>What holds of the store after every batch, for the database the sweep started from.\<close>

definition sweep_inv :: "archive_env \<Rightarrow> archive_config \<Rightarrow> int \<Rightarrow> db \<Rightarrow> archive_store \<Rightarrow> bool" where
  "sweep_inv env cfg cutoff d0 st \<longleftrightarrow>
     db_ok (sto_db st) \<and> set (t_calls (sto_db st)) \<subseteq> set (t_calls d0) \<and>
     (\<forall>r \<in> set (t_calls (sto_db st)). scan_archive (sto_db st) r = scan_archive d0 r) \<and>
     (\<forall>r \<in> set (t_calls d0) - set (t_calls (sto_db st)). cr_datetime r < cutoff \<and>
        (archiveAudioExtension (cr_audio_name r) (cr_audio_type r) \<noteq> ''.json'' \<longrightarrow> kept_call env cfg d0 st r))"

lemma sweep_inv_start: "db_ok (sto_db st) \<Longrightarrow> sweep_inv env cfg cutoff (sto_db st) st"
  by (simp add: sweep_inv_def)

lemma kept_callI:
  assumes "kept_call env cfg d0 st r"
    "\<And>f c. f \<in> {call_audio_file r, call_json_file r} \<Longrightarrow> stored cfg st (archive_day (cr_datetime r)) f c \<Longrightarrow>
       stored cfg st' (archive_day (cr_datetime r)) f c"
  shows "kept_call env cfg d0 st' r"
  using assms by (simp add: kept_call_def)

text \<open>The same rows, with every stored file still stored.\<close>

lemma sweep_inv_frame:
  assumes "sweep_inv env cfg cutoff d0 st" "sto_db st' = sto_db st"
    "\<And>r f c. r \<in> set (t_calls d0) - set (t_calls (sto_db st)) \<Longrightarrow> f \<in> {call_audio_file r, call_json_file r} \<Longrightarrow>
       stored cfg st (archive_day (cr_datetime r)) f c \<Longrightarrow> stored cfg st' (archive_day (cr_datetime r)) f c"
  shows "sweep_inv env cfg cutoff d0 st'"
  using assms kept_callI [of env cfg d0 st _ st'] unfolding sweep_inv_def by simp

lemma batch_rows:
  assumes "db_ok d" "batch_list cutoff n d = (remaining, recs)"
  obtains rows where "recs = map (scan_archive d) rows" "distinct (map cr_id rows)" "set rows \<subseteq> set (older cutoff d)"
proof -
  consider "recs = []" | "recs = map (scan_archive d) (archive_page cutoff n d)"
    using assms(2)
    by (cases "CountCallsOlderThan cutoff d = 0") (auto simp: batch_list_def Let_def ListCallsForArchive_def)
  then show thesis
  proof cases
    case 1
    then show ?thesis using that [of "[]"] by simp
  next
    case 2
    have "distinct (map cr_id (t_calls d))" using db_ok_uniq(10) [OF assms(1)] by (simp add: uniq_def)
    then have "distinct (map cr_id (older cutoff d))" unfolding older_def by (rule distinct_map_filter)
    then have "distinct (archive_page cutoff n d)" "inj_on cr_id (set (archive_page cutoff n d))"
      using archive_page_older [of cutoff n d] inj_on_subset
      by (auto simp: distinct_map archive_page_def limit_def order_asc_def)
    then have "distinct (map cr_id (archive_page cutoff n d))" by (simp add: distinct_map)
    with 2 that archive_page_older show ?thesis by blast
  qed
qed


lemma batch_phases:
  assumes "archiveCallsBatch env cfg cutoff n st = (res, st')" "batch_list cutoff n (sto_db st) = (remaining, recs)"
  obtains (idle) "recs = []" "st' = st" "res = Inr (zero_batch\<lparr>arb_RemainingOld := remaining\<rparr>)"
  | (no_write) e where "batch_write env recs st = (Some e, st')" "res = Inl e"
  | (no_sync) e st1 where "batch_write env recs st = (None, st1)" "batch_sync env cfg recs st1 = (Inl e, st')" "res = Inl e"
  | (full) k n2 st1 st2 st3 e where "recs \<noteq> []" "batch_write env recs st = (None, st1)" "batch_sync env cfg recs st1 = (Inr n2, st2)"
      "batch_delete recs st2 = (k, st3)" "batch_cleanup env cfg recs st3 = (e, st')"
      "res = (case e of Inl m \<Rightarrow> Inl m | Inr removed \<Rightarrow> Inr \<lparr>arb_Archived = int (length recs), arb_Deleted = k,
         arb_FreedBytes = sum_list (map (\<lambda>rec. int (length (rec_Audio rec))) recs), arb_S3DirsSynced = n2,
         arb_LocalRemoved = removed, arb_RemainingOld = remaining - k\<rparr>)"
proof (cases "recs = []")
  case True
  with assms idle show thesis by (simp add: archiveCallsBatch_def)
next
  case False
  obtain e1 st1 where 1: "batch_write env recs st = (e1, st1)" by force
  obtain e2 st2 where 2: "batch_sync env cfg recs st1 = (e2, st2)" by force
  obtain k st3 where 3: "batch_delete recs st2 = (k, st3)" by force
  obtain e4 st4 where 4: "batch_cleanup env cfg recs st3 = (e4, st4)" by force
  have eq: "archiveCallsBatch env cfg cutoff n st = (case e1 of Some e \<Rightarrow> (Inl e, st1) | None \<Rightarrow>
      (case e2 of Inl e \<Rightarrow> (Inl e, st2) | Inr n2 \<Rightarrow> (case e4 of Inl e \<Rightarrow> (Inl e, st4)
       | Inr removed \<Rightarrow> (Inr \<lparr>arb_Archived = int (length recs), arb_Deleted = k,
         arb_FreedBytes = sum_list (map (\<lambda>rec. int (length (rec_Audio rec))) recs), arb_S3DirsSynced = n2,
         arb_LocalRemoved = removed, arb_RemainingOld = remaining - k\<rparr>, st4))))"
    using False by (simp add: archiveCallsBatch_def assms(2) 1 2 3 4 split: option.split sum.split)
  show thesis
  proof (cases e1)
    case (Some e)
    with eq assms(1) 1 show ?thesis by (intro no_write) simp_all
  next
    case e1: None
    show ?thesis
    proof (cases e2)
      case (Inl e)
      with eq assms(1) 1 2 e1 show ?thesis by (intro no_sync) simp_all
    next
      case (Inr n2)
      with eq assms(1) 1 2 3 4 e1 False show ?thesis by (intro full [where e = e4]) (auto split: sum.splits)
    qed
  qed
qed

lemma sweep_inv_batch:
  assumes inv: "sweep_inv env cfg cutoff d0 st" and adds: "sync_adds env"
    and batch: "archiveCallsBatch env cfg cutoff n st = (res, st')" and start: "db_ok d0"
  shows "sweep_inv env cfg cutoff d0 st'"
proof -
  let ?d = "sto_db st"
  obtain remaining recs where l: "batch_list cutoff n ?d = (remaining, recs)" by force
  have db: "db_ok ?d" using inv by (simp add: sweep_inv_def)
  obtain rows where recs: "recs = map (scan_archive ?d) rows" and dist: "distinct (map cr_id rows)"
    and sub: "set rows \<subseteq> set (older cutoff ?d)" using batch_rows [OF db l] .
  have old: "r \<in> set (t_calls ?d) \<and> cr_datetime r < cutoff" if "r \<in> set rows" for r
    using that sub by (auto simp: older_def)
  have d0: "r \<in> set (t_calls d0)" if "r \<in> set (t_calls ?d)" for r using that inv by (auto simp: sweep_inv_def)
  have other: "f \<notin> {call_audio_file r, call_json_file r}"
    if "q \<in> set (t_calls d0) - set (t_calls ?d)" "f \<in> {call_audio_file q, call_json_file q}" "r \<in> set rows" for q r f
  proof -
    have "r \<in> set (t_calls d0)" "r \<noteq> q" using that old d0 by auto
    then have "cr_id r \<noteq> cr_id q" using that uniq_inj [OF db_ok_uniq(10) [OF start]] by blast
    with call_files_distinct that(2) show ?thesis by blast
  qed
  from batch l show ?thesis
  proof (cases rule: batch_phases)
    case idle
    with inv show ?thesis by simp
  next
    case (no_write e)
    show ?thesis
    proof (rule sweep_inv_frame [OF inv batch_write_db [OF no_write(1)]])
      fix q f x
      assume q: "q \<in> set (t_calls d0) - set (t_calls ?d)" "f \<in> {call_audio_file q, call_json_file q}"
        and "stored cfg st (archive_day (cr_datetime q)) f x"
      then show "stored cfg st' (archive_day (cr_datetime q)) f x"
        using stored_write [OF no_write(1) [unfolded recs] other [OF q]] by simp
    qed
  next
    case (no_sync e st1)
    have "stored cfg st' (archive_day (cr_datetime q)) f c"
      if "q \<in> set (t_calls d0) - set (t_calls ?d)" "f \<in> {call_audio_file q, call_json_file q}"
        "stored cfg st (archive_day (cr_datetime q)) f c" for q f c
      using stored_sync [OF no_sync(2) [unfolded recs] adds] stored_write [OF no_sync(1) [unfolded recs] other [OF that(1,2)]] that(3)
      by simp
    then show ?thesis using sweep_inv_frame [OF inv] batch_write_db [OF no_sync(1)] batch_sync_db [OF no_sync(2)] by simp
  next
    case (full k n2 st1 st2 st3 e)
    let ?P = "\<lambda>r. cr_id r \<in> set (map (\<lambda>rec. ca_ID (rec_Call rec)) recs)"
    note w = full(2) [unfolded recs] and s = full(3) [unfolded recs] and c = full(5) [unfolded recs]
    have st3: "sto_db st3 = del_calls ?P (sto_db st2)" "sto_tree st3 = sto_tree st2" "sto_remote st3 = sto_remote st2"
      using batch_delete_db [OF full(4,1)] by simp_all
    have db': "sto_db st' = del_calls ?P ?d"
      using batch_write_db [OF full(2)] batch_sync_db [OF full(3)] batch_cleanup_db [OF full(5)] st3 by simp
    have P: "?P r \<longleftrightarrow> r \<in> set rows" if "r \<in> set (t_calls ?d)" for r
    proof -
      have "?P r \<longleftrightarrow> (\<exists>q \<in> set rows. cr_id r = cr_id q)" by (auto simp: recs)
      then show ?thesis using that old uniq_inj [OF db_ok_uniq(10) [OF db]] by metis
    qed
    have rows': "set (t_calls (sto_db st')) = set (t_calls ?d) - set rows"
      using P by (auto simp: db' del_calls_rows)
    have after: "stored cfg st' (archive_day i) f x" if "stored cfg st1 (archive_day i) f x" for i f x
    proof (rule stored_cleanup [OF c])
      show "stored cfg st3 (archive_day i) f x"
        using stored_sync [OF s adds that] unfolding stored_def st3 .
    next
      fix i f x
      assume "TrimSpace (acf_CallArchiveS3URI cfg) \<noteq> []" "archive_day i \<in> archive_day ` cr_datetime ` set rows"
        "lookup_file (sto_tree st3) (archive_day i) f = Some x"
      then show "\<exists>u. remote_dir cfg (archive_day i) = Some u \<and> lookup_file (sto_remote st3) u f = Some x"
        using synced_days [OF s adds] by (simp add: st3)
    qed
    have done_before: "stored cfg st' (archive_day (cr_datetime q)) f x"
      if "q \<in> set (t_calls d0) - set (t_calls ?d)" "f \<in> {call_audio_file q, call_json_file q}"
        "stored cfg st (archive_day (cr_datetime q)) f x" for q f x
      using after stored_write [OF w other [OF that(1,2)]] that(3) by simp
    have done_now: "kept_call env cfg d0 st' r"
      if "r \<in> set rows" "archiveAudioExtension (cr_audio_name r) (cr_audio_type r) \<noteq> ''.json''" for r
    proof -
      obtain t where t: "write_records env (map (scan_archive ?d) rows) (sto_tree st) = (None, t)" "st1 = st\<lparr>sto_tree := t\<rparr>"
        using w by (auto simp: batch_write_def split: option.splits prod.splits)
      from write_records_done [OF t(1) dist that(1)] audio_not_json [OF that(2)]
      have "stored cfg st1 (archive_day (cr_datetime r)) (call_audio_file r) (AudioFile (cr_audio r))"
        "stored cfg st1 (archive_day (cr_datetime r)) (call_json_file r)
           (ManifestFile (call_manifest (scan_archive ?d r) (call_audio_file r) (aen_now env (cr_id r))))"
        by (simp_all add: stored_def t(2))
      moreover have "scan_archive ?d r = scan_archive d0 r" using inv old [OF that(1)] by (auto simp: sweep_inv_def)
      ultimately show ?thesis using after by (simp add: kept_call_def)
    qed
    show ?thesis
      unfolding sweep_inv_def
    proof (intro conjI ballI impI)
      show "db_ok (sto_db st')" using db by (simp add: db' del_calls_ok)
      show "set (t_calls (sto_db st')) \<subseteq> set (t_calls d0)" using rows' d0 by blast
      fix r
      { assume r: "r \<in> set (t_calls (sto_db st'))"
        then have "\<not> ?P r" "r \<in> set (t_calls ?d)" using rows' P by blast+
        then show "scan_archive (sto_db st') r = scan_archive d0 r"
          using scan_archive_del_calls db inv by (auto simp: db' sweep_inv_def) }
      assume r: "r \<in> set (t_calls d0) - set (t_calls (sto_db st'))"
      show "cr_datetime r < cutoff" using r rows' old inv by (cases "r \<in> set rows") (auto simp: sweep_inv_def)
      assume "archiveAudioExtension (cr_audio_name r) (cr_audio_type r) \<noteq> ''.json''"
      then show "kept_call env cfg d0 st' r"
      proof (cases "r \<in> set rows")
        case False
        with r rows' have q: "r \<in> set (t_calls d0) - set (t_calls ?d)" by blast
        then have "kept_call env cfg d0 st r" using inv \<open>_ \<noteq> ''.json''\<close> by (auto simp: sweep_inv_def)
        then show ?thesis by (rule kept_callI) (rule done_before [OF q])
      qed (rule done_now)
    qed
  qed
qed


text \<open>One turn of the loop: an error, the last batch, or a batch and the rest.\<close>

lemma archive_batches_cases:
  assumes "archive_batches env cfg cutoff n u res0 st = ((r, e, ps), st')"
  obtains (failed) m where "archiveCallsBatch env cfg cutoff n st = (Inl m, st')" "e = Some m"
      "r = res0\<lparr>arc_Batches := arc_Batches res0 + 1\<rparr>"
  | (stop) b where "archiveCallsBatch env cfg cutoff n st = (Inr b, st')" "e = None"
      "r = add_batch b (res0\<lparr>arc_Batches := arc_Batches res0 + 1\<rparr>)"
      "arb_Archived b = 0 \<or> arb_RemainingOld b = 0 \<or> \<not> u"
  | (late) b where "archiveCallsBatch env cfg cutoff n st = (Inr b, st')" "e = None" "aen_late env (arc_Batches res0 + 1)"
      "r = (add_batch b (res0\<lparr>arc_Batches := arc_Batches res0 + 1\<rparr>))\<lparr>arc_StoppedEarly := True,
         arc_Note := paused_note (arb_RemainingOld b)\<rparr>" "arb_Archived b \<noteq> 0" "arb_RemainingOld b \<noteq> 0" u
  | (again) b st1 ps' where "archiveCallsBatch env cfg cutoff n st = (Inr b, st1)" "arb_Archived b \<noteq> 0" "arb_RemainingOld b \<noteq> 0"
      "archive_batches env cfg cutoff n u (add_batch b (res0\<lparr>arc_Batches := arc_Batches res0 + 1\<rparr>)) st1 = ((r, e, ps'), st')"
proof -
  obtain x st1 where 1: "archiveCallsBatch env cfg cutoff n st = (x, st1)" by force
  note unf = assms [unfolded archive_batches.simps [of env cfg cutoff n u res0 st] Let_def 1 prod.case]
  show thesis
  proof (cases x)
    case (Inl m)
    with unf 1 show ?thesis by (intro failed) auto
  next
    case (Inr b)
    consider "arb_Archived b = 0 \<or> arb_RemainingOld b = 0 \<or> \<not> u"
      | "arb_Archived b \<noteq> 0" "arb_RemainingOld b \<noteq> 0" u "aen_late env (arc_Batches res0 + 1)"
      | "arb_Archived b \<noteq> 0" "arb_RemainingOld b \<noteq> 0" u "\<not> aen_late env (arc_Batches res0 + 1)" by blast
    then show ?thesis
    proof cases
      case 1
      with unf \<open>archiveCallsBatch env cfg cutoff n st = (x, st1)\<close> Inr show ?thesis by (intro stop [of b]) auto
    next
      case 2
      with unf 1 Inr show ?thesis by (intro late [of b]) auto
    next
      case 3
      obtain r2 e2 ps2 st2 where "archive_batches env cfg cutoff n u
          (add_batch b (res0\<lparr>arc_Batches := arc_Batches res0 + 1\<rparr>)) st1 = ((r2, e2, ps2), st2)"
        by (metis prod.exhaust)
      with unf 1 Inr 3 show ?thesis by (intro again [of b st1 ps2]) auto
    qed
  qed
qed

lemma sweep_inv_batches:
  "archive_batches env cfg cutoff n u res0 st = ((r, e, ps), st') \<Longrightarrow> sweep_inv env cfg cutoff d0 st \<Longrightarrow>
   sync_adds env \<Longrightarrow> db_ok d0 \<Longrightarrow> sweep_inv env cfg cutoff d0 st'"
proof (induction "length (older cutoff (sto_db st))" arbitrary: st res0 ps rule: less_induct)
  case less
  from less.prems(1) show ?case
  proof (cases rule: archive_batches_cases)
    case (again b st1 ps')
    have "sweep_inv env cfg cutoff d0 st1" by (rule sweep_inv_batch [OF less.prems(2,3) again(1) less.prems(4)])
    with less.hyps [OF batch_progress [OF again(1,2)] again(4)] less.prems show ?thesis by simp
  qed (use sweep_inv_batch [OF less.prems(2,3) _ less.prems(4)] in blast)+
qed

text \<open>
  Property C6. No call is lost by archiving. Whatever a sweep ends with, over any number of batches and with any failure on the way,
  every call that left the database was older than the cutoff and has its audio and its manifest, with the transcript
  it had, under its own two names in the local directory of its day, or, where that file is gone locally, in the
  day's directory of the bucket. It holds for calls whose audio file is not named .json, and relies on s3cmd sync
  adding to the bucket and taking nothing else away.
\<close>

theorem archived_before_deleted:
  assumes "db_ok (sto_db st)" "sync_adds env" "archiveCallsWithProgress env cfg now rq st = (out, st')"
    "r \<in> set (t_calls (sto_db st))" "r \<notin> set (t_calls (sto_db st'))"
    "archiveAudioExtension (cr_audio_name r) (cr_audio_type r) \<noteq> ''.json''"
  shows "cr_datetime r < archive_cutoff now (archive_days cfg rq) \<and> kept_call env cfg (sto_db st) st' r"
proof -
  let ?cutoff = "archive_cutoff now (archive_days cfg rq)"
  have "st' \<noteq> st" using assms(4,5) by auto
  then obtain res0 r1 e ps where run: "archive_batches env cfg ?cutoff (archive_limit rq) (archiveUntilEmpty rq) res0 st = ((r1, e, ps), st')"
    using assms(3) by (auto simp: archiveCallsWithProgress_def Let_def split: if_splits prod.splits option.splits)
  have "sweep_inv env cfg ?cutoff (sto_db st) st'"
    by (rule sweep_inv_batches [OF run sweep_inv_start [OF assms(1)] assms(2,1)])
  with assms(4-6) show ?thesis by (auto simp: sweep_inv_def)
qed


section \<open>A sweep without faults\<close>

definition healthy :: "archive_env \<Rightarrow> archive_config \<Rightarrow> bool" where
  "healthy env cfg \<longleftrightarrow> (\<forall>t dy. aen_mkdir env t dy = None) \<and> (\<forall>t dy f. aen_write env t dy f = None) \<and>
     (\<forall>t dy. aen_remove env t dy = None) \<and> (\<forall>k. \<not> aen_late env k) \<and>
     (TrimSpace (acf_CallArchiveS3URI cfg) = [] \<or>
      (\<exists>b p. parseS3URI (TrimSpace (acf_CallArchiveS3URI cfg)) = Inr (b, p)) \<and> TrimSpace (acf_CallArchiveS3Cfg cfg) \<noteq> [] \<and>
      aen_s3cfg env = None \<and> aen_s3path env = None \<and> (\<forall>cp l u R. fst (aen_s3cmd env cp l u R) = None))"

lemma healthy_write_call:
  assumes "healthy env cfg"
  shows "fst (writeCallArchiveFile env rec t) = None"
  using assms
  by (auto simp: healthy_def writeCallArchiveFile_def make_dir_def write_file_def Let_def split: option.split)

lemma healthy_write_records: "healthy env cfg \<Longrightarrow> fst (write_records env recs t) = None"
proof (induction recs arbitrary: t)
  case (Cons rec recs)
  obtain e t' where 1: "writeCallArchiveFile env rec t = (e, t')" by force
  with healthy_write_call [OF Cons.prems, of rec t] have "e = None" by simp
  with Cons 1 show ?case by simp
qed simp

lemma healthy_write: "healthy env cfg \<Longrightarrow> fst (batch_write env recs st) = None"
proof -
  assume h: "healthy env cfg"
  then have "aen_mkdir env (sto_tree st) [] = None" by (simp add: healthy_def)
  then show ?thesis using healthy_write_records [OF h, of recs "sto_tree st"]
    by (simp add: batch_write_def case_prod_beta)
qed

lemma healthy_sync_days:
  assumes "\<And>cp l u R. fst (aen_s3cmd env cp l u R) = None"
  shows "\<exists>n. fst (sync_days env cp b p days t R) = Inr n"
proof (induction days arbitrary: R)
  case (Cons x days)
  show ?case
  proof (cases "t x")
    case None
    with Cons show ?thesis by simp
  next
    case (Some dir)
    obtain e R1 where 1: "aen_s3cmd env cp dir (ensureTrailingSlash (joinS3URI b p x)) R = (e, R1)" by force
    have "e = None" using assms [of cp dir "ensureTrailingSlash (joinS3URI b p x)" R] 1 by simp
    moreover obtain n R2 where "sync_days env cp b p days t R1 = (Inr n, R2)" using Cons [of R1] by (metis prod.collapse)
    ultimately show ?thesis using Some 1 by (simp add: runS3cmdSync_def)
  qed
qed simp

lemma healthy_sync:
  assumes "healthy env cfg"
  shows "\<exists>n. fst (batch_sync env cfg recs st) = Inr n"
proof (cases "TrimSpace (acf_CallArchiveS3URI cfg) = []")
  case False
  then obtain b p where "parseS3URI (TrimSpace (acf_CallArchiveS3URI cfg)) = Inr (b, p)" "TrimSpace (acf_CallArchiveS3Cfg cfg) \<noteq> []"
    "aen_s3cfg env = None" "aen_s3path env = None" and ok: "\<And>cp l u R. fst (aen_s3cmd env cp l u R) = None"
    using assms by (auto simp: healthy_def)
  moreover obtain m R where "sync_days env (TrimSpace (acf_CallArchiveS3Cfg cfg)) b p (day_dirs recs) (sto_tree st) (sto_remote st) = (Inr m, R)"
    using healthy_sync_days [OF ok] by (metis prod.collapse)
  ultimately show ?thesis using False by (simp add: batch_sync_def syncArchiveDirsToS3_def Let_def)
qed (simp add: batch_sync_def)

lemma healthy_remove: "healthy env cfg \<Longrightarrow> fst (removeArchiveDayDirs env days t) = None"
  by (induction days arbitrary: t) (simp_all add: remove_dir_def healthy_def)

lemma healthy_cleanup: "healthy env cfg \<Longrightarrow> \<exists>b. fst (batch_cleanup env cfg recs st) = Inr b"
  using healthy_remove [of env cfg "day_dirs recs" "sto_tree st"]
  by (cases "removeArchiveDayDirs env (day_dirs recs) (sto_tree st)") (auto simp: batch_cleanup_def intro: exI [of _ True] exI [of _ False])

text \<open>A page and the calls it leaves: together the old calls, none twice.\<close>

lemma archive_page_rest:
  assumes "db_ok d"
  shows "mset (older cutoff d) = mset (archive_page cutoff n d) + mset (filter (\<lambda>r. r \<notin> set (archive_page cutoff n d)) (older cutoff d))"
    and "older cutoff d \<noteq> [] \<Longrightarrow> archive_page cutoff n d \<noteq> []"
proof -
  let ?S = "order_asc cr_datetime (order_asc cr_id (older cutoff d))" and ?m = "nat (clamp_limit 500 500 n)"
  have page: "archive_page cutoff n d = take ?m ?S" by (simp add: archive_page_def limit_def)
  have "distinct (t_calls d)" using db_ok_uniq(10) [OF assms] by (simp add: uniq_def distinct_map)
  then have "distinct ?S" by (simp add: order_asc_def older_def)
  then have "set (take ?m ?S) \<inter> set (drop ?m ?S) = {}" by (rule set_take_disj_set_drop_if_distinct) simp
  then have "filter (\<lambda>r. r \<notin> set (take ?m ?S)) (take ?m ?S @ drop ?m ?S) = drop ?m ?S"
    unfolding filter_append by (auto simp: filter_empty_conv filter_id_conv)
  then have drop: "filter (\<lambda>r. r \<notin> set (take ?m ?S)) ?S = drop ?m ?S" by simp
  have S: "mset ?S = mset (older cutoff d)" by (simp add: order_asc_def)
  then have "mset (older cutoff d) = mset (take ?m ?S) + mset (drop ?m ?S)" by (metis append_take_drop_id mset_append)
  also have "mset (drop ?m ?S) = filter_mset (\<lambda>r. r \<notin> set (take ?m ?S)) (mset ?S)" by (metis drop mset_filter)
  finally show "mset (older cutoff d) = mset (archive_page cutoff n d) + mset (filter (\<lambda>r. r \<notin> set (archive_page cutoff n d)) (older cutoff d))"
    by (simp add: page S)
  assume ne: "older cutoff d \<noteq> []"
  have "0 < ?m" by (rule clamp_limit_pos) simp
  moreover have "?S \<noteq> []" using ne by (metis length_0_conv length_order(1))
  ultimately show "archive_page cutoff n d \<noteq> []" by (simp add: page)
qed

lemma sum_mset_rows: "mset xs = mset ys + mset zs \<Longrightarrow> length xs = length ys + length zs \<and> audio_bytes xs = audio_bytes ys + audio_bytes zs"
proof -
  assume eq: "mset xs = mset ys + mset zs"
  have b: "audio_bytes ws = sum_mset (image_mset (\<lambda>r. int (length (cr_audio r))) (mset ws))" for ws
    by (simp add: audio_bytes_def flip: mset_map sum_mset_sum_list)
  have "length xs = length ys + length zs" by (metis eq size_mset size_union)
  then show ?thesis by (simp add: b eq)
qed


lemma healthy_batch:
  assumes "healthy env cfg" "db_ok (sto_db st)" "archiveCallsBatch env cfg cutoff n st = (res, st')"
  defines "rows \<equiv> archive_page cutoff n (sto_db st)"
  shows "\<exists>b. res = Inr b \<and> arb_Archived b = int (length rows) \<and> arb_Deleted b = int (length rows) \<and>
      arb_FreedBytes b = audio_bytes rows \<and> arb_RemainingOld b = int (length (older cutoff (sto_db st))) - int (length rows) \<and>
      t_calls (sto_db st') = filter (\<lambda>r. r \<notin> set rows) (t_calls (sto_db st)) \<and> db_ok (sto_db st')"
proof (cases "older cutoff (sto_db st) = []")
  case True
  then have "rows = []" "batch_list cutoff n (sto_db st) = (0, [])"
    by (simp_all add: rows_def archive_page_def limit_def order_asc_def batch_list_def CountCallsOlderThan_def)
  then show ?thesis
    using assms(2,3) True by (auto simp: archiveCallsBatch_def zero_batch_def audio_bytes_def)
next
  case False
  let ?d = "sto_db st" and ?recs = "map (scan_archive (sto_db st)) rows"
  have ne: "rows \<noteq> []" using archive_page_rest(2) [OF assms(2) False] by (simp add: rows_def)
  have l: "batch_list cutoff n ?d = (int (length (older cutoff ?d)), ?recs)"
    using False by (simp add: batch_list_def CountCallsOlderThan_def ListCallsForArchive_def rows_def)
  from assms(3) l show ?thesis
  proof (cases rule: batch_phases)
    case (full k n2 st1 st2 st3 e)
    let ?P = "\<lambda>r. cr_id r \<in> set (map (\<lambda>rec. ca_ID (rec_Call rec)) ?recs)"
    have sub: "set rows \<subseteq> set (t_calls ?d)" using archive_page_older by (force simp: rows_def older_def)
    have P: "?P r \<longleftrightarrow> r \<in> set rows" if "r \<in> set (t_calls ?d)" for r
    proof -
      have "?P r \<longleftrightarrow> (\<exists>q \<in> set rows. cr_id r = cr_id q)" by auto
      then show ?thesis using that sub uniq_inj [OF db_ok_uniq(10) [OF assms(2)]] by blast
    qed
    have db2: "sto_db st2 = ?d" using batch_write_db [OF full(2)] batch_sync_db [OF full(3)] by simp
    have db': "sto_db st' = del_calls ?P ?d"
      using batch_delete_db [OF full(4,1)] batch_cleanup_db [OF full(5)] db2 by simp
    have "k = int (sql_count ?P (t_calls ?d))" using full(4) ne db2 by (simp add: batch_delete_def DeleteCallsByIDs_def)
    also have "sql_count ?P (t_calls ?d) = length (filter (\<lambda>r. r \<in> set rows) (t_calls ?d))"
      unfolding sql_count_def using P by (metis (mono_tags, lifting) filter_cong)
    also have "\<dots> = length rows"
    proof -
      have "distinct (t_calls ?d)" using db_ok_uniq(10) [OF assms(2)] by (simp add: uniq_def distinct_map)
      then have "distinct (filter (\<lambda>r. r \<in> set rows) (t_calls ?d))" "distinct rows"
        by (simp_all add: rows_def archive_page_def limit_def order_asc_def older_def)
      moreover have "set (filter (\<lambda>r. r \<in> set rows) (t_calls ?d)) = set rows" using sub by auto
      ultimately show ?thesis by (metis distinct_card)
    qed
    finally have k: "k = int (length rows)" .
    obtain removed where "e = Inr removed"
      using healthy_cleanup [OF assms(1), of ?recs st3] full(5) by auto
    with full(6) k have "\<exists>b. res = Inr b \<and> arb_Archived b = int (length rows) \<and> arb_Deleted b = int (length rows) \<and>
      arb_FreedBytes b = audio_bytes rows \<and> arb_RemainingOld b = int (length (older cutoff ?d)) - int (length rows)"
      by (simp add: audio_bytes_def comp_def)
    moreover have "t_calls (sto_db st') = filter (\<lambda>r. r \<notin> set rows) (t_calls ?d)"
      unfolding db' del_calls_rows using P by (metis (mono_tags, lifting) filter_cong)
    moreover have "db_ok (sto_db st')" using assms(2) by (simp add: db' del_calls_ok)
    ultimately show ?thesis by blast
  next
    case (no_write e)
    with healthy_write [OF assms(1), of ?recs st] show ?thesis by simp
  next
    case (no_sync e st1)
    with healthy_sync [OF assms(1), of ?recs st1] show ?thesis by simp
  qed (use ne in simp)
qed

lemma healthy_batches:
  "archive_batches env cfg cutoff n True res0 st = ((r, e, ps), st') \<Longrightarrow> healthy env cfg \<Longrightarrow> db_ok (sto_db st) \<Longrightarrow>
   e = None \<and> \<not> (arc_StoppedEarly r \<noteq> arc_StoppedEarly res0) \<and> arc_RemainingOld r = 0 \<and> arc_CutoffUnix r = arc_CutoffUnix res0 \<and>
   arc_Archived r = arc_Archived res0 + int (length (older cutoff (sto_db st))) \<and>
   arc_Deleted r = arc_Deleted res0 + int (length (older cutoff (sto_db st))) \<and>
   arc_FreedBytes r = arc_FreedBytes res0 + audio_bytes (older cutoff (sto_db st)) \<and>
   t_calls (sto_db st') = filter (\<lambda>r. \<not> cr_datetime r < cutoff) (t_calls (sto_db st)) \<and> db_ok (sto_db st')"
proof (induction "length (older cutoff (sto_db st))" arbitrary: st res0 ps rule: less_induct)
  case less
  let ?d = "sto_db st" and ?rows = "archive_page cutoff n (sto_db st)"
  obtain x st1 where 1: "archiveCallsBatch env cfg cutoff n st = (x, st1)" by force
  from healthy_batch [OF less.prems(2,3) 1] obtain b where b: "x = Inr b" "arb_Archived b = int (length ?rows)"
    "arb_Deleted b = int (length ?rows)" "arb_FreedBytes b = audio_bytes ?rows"
    "arb_RemainingOld b = int (length (older cutoff ?d)) - int (length ?rows)"
    and rest: "t_calls (sto_db st1) = filter (\<lambda>r. r \<notin> set ?rows) (t_calls ?d)" and ok: "db_ok (sto_db st1)" by blast
  have older: "older cutoff (sto_db st1) = filter (\<lambda>r. r \<notin> set ?rows) (older cutoff ?d)"
    by (simp add: older_def rest conj_commute)
  note split = sum_mset_rows [OF archive_page_rest(1) [OF less.prems(3), of cutoff n], folded older]
  have keep: "filter (\<lambda>r. \<not> cr_datetime r < cutoff) (t_calls (sto_db st1)) = filter (\<lambda>r. \<not> cr_datetime r < cutoff) (t_calls ?d)"
  proof -
    have "r \<notin> set ?rows" if "\<not> cr_datetime r < cutoff" for r using that archive_page_older by (force simp: older_def)
    then show ?thesis unfolding rest filter_filter by (metis (mono_tags, lifting))
  qed
  show ?case
  proof (cases "older cutoff (sto_db st1) = []")
    case True
    then have gone: "arb_RemainingOld b = 0" using b split by simp
    have "t_calls (sto_db st1) = filter (\<lambda>r. \<not> cr_datetime r < cutoff) (t_calls (sto_db st1))"
      using True by (auto simp: older_def filter_empty_conv filter_id_conv)
    with keep ok gone b split True less.prems(1) 1 show ?thesis
      by (subst (asm) archive_batches.simps) (auto simp: Let_def add_batch_def audio_bytes_def)
  next
    case False
    then have "older cutoff ?d \<noteq> []" using older by auto
    then have "?rows \<noteq> []" by (rule archive_page_rest(2) [OF less.prems(3)])
    then have more: "arb_Archived b \<noteq> 0" "arb_RemainingOld b \<noteq> 0" using b split False by simp_all
    from less.prems(1) show ?thesis
    proof (cases rule: archive_batches_cases)
      case (again b' st1' ps')
      with 1 b have eq: "b' = b" "st1' = st1" by simp_all
      have "length (older cutoff (sto_db st1)) < length (older cutoff ?d)" using batch_progress [of env cfg cutoff n st b st1] 1 b more by simp
      from less.hyps [OF this again(4) [unfolded eq] less.prems(2) ok] b split keep show ?thesis
        by (simp add: add_batch_def)
    qed (use 1 b more less.prems(2) in \<open>auto simp: healthy_def\<close>)
  qed
qed


lemma healthy_sweep:
  fixes now :: int
  assumes "healthy env cfg" "db_ok (sto_db st)" "TrimSpace (acf_CallArchiveDir cfg) \<noteq> []" "0 < archive_days cfg rq"
    "archiveUntilEmpty rq"
  defines "cutoff \<equiv> archive_cutoff now (archive_days cfg rq)"
  shows "\<exists>r ps st'. archiveCallsWithProgress env cfg now rq st = ((r, None, ps), st') \<and>
      t_calls (sto_db st') = filter (\<lambda>r. cutoff \<le> cr_datetime r) (t_calls (sto_db st)) \<and> db_ok (sto_db st') \<and>
      arc_RemainingOld r = 0 \<and> \<not> arc_StoppedEarly r \<and> arc_Archived r = CountCallsOlderThan cutoff (sto_db st) \<and>
      arc_Deleted r = arc_Archived r \<and> arc_FreedBytes r = SumAudioBytesOlderThan cutoff (sto_db st)"
proof -
  let ?res = "zero_result\<lparr>arc_CutoffUnix := cutoff, arc_ArchiveDir := TrimSpace (acf_CallArchiveDir cfg),
    arc_S3URI := TrimSpace (acf_CallArchiveS3URI cfg), arc_BatchLimit := archive_limit rq\<rparr>"
  obtain r e ps st' where run: "archive_batches env cfg cutoff (archive_limit rq) True ?res st = ((r, e, ps), st')"
    by (metis prod.exhaust)
  note h = healthy_batches [OF run assms(1,2)]
  then have "archiveCallsWithProgress env cfg now rq st = ((if arc_Deleted r > 0
      then r\<lparr>arc_VacuumQueued := (scheduleCallsVacuum cfg (arc_Deleted r) (arc_RemainingOld r) \<noteq> None)\<rparr> else r, None, ps), st')"
    using run assms(3-5) by (simp add: archiveCallsWithProgress_def cutoff_def)
  with h show ?thesis
    by (simp add: zero_result_def CountCallsOlderThan_def SumAudioBytesOlderThan_def not_less)
qed

text \<open>
  Property C18. A sweep in which no file operation and no copy fails, and whose four hours suffice, ends, removes exactly the calls
  older than the cutoff, and reports their number and the bytes of their audio; the numbers are those a dry run at
  the same time announces.
\<close>

theorem sweep_clears_backlog:
  assumes "healthy env cfg" "db_ok (sto_db st)" "TrimSpace (acf_CallArchiveDir cfg) \<noteq> []" "0 < archive_days cfg rq"
    "archiveUntilEmpty rq"
  shows "\<exists>r ps st' dry. archiveCallsWithProgress env cfg now rq st = ((r, None, ps), st') \<and>
      t_calls (sto_db st') = filter (\<lambda>r. archive_cutoff now (archive_days cfg rq) \<le> cr_datetime r) (t_calls (sto_db st)) \<and>
      arc_RemainingOld r = 0 \<and> arc_Deleted r = arc_Archived r \<and>
      archiveCalls env cfg now (rq\<lparr>arq_DryRun := True\<rparr>) st = ((dry, None), st) \<and>
      arc_Archived r = arc_RemainingOld dry \<and> arc_FreedBytes r = arc_FreedBytes dry"
proof -
  have "archive_days cfg (rq\<lparr>arq_DryRun := True\<rparr>) = archive_days cfg rq" by (simp add: archive_days_def)
  with healthy_sweep [OF assms, of now] assms(3,4) show ?thesis by (auto simp: archiveCalls_def Let_def)
qed

section \<open>Where it goes wrong\<close>

lemma write_file_audio:
  "write_file env dy f c t = (e, t') \<Longrightarrow> lookup_file t' dy' f' = Some (AudioFile a) \<Longrightarrow>
     lookup_file t dy' f' = Some (AudioFile a) \<or> dy' = dy \<and> f' = f \<and> c = AudioFile a \<and> e = None"
  by (auto simp: write_file_def lookup_file_def split: option.splits if_splits)

lemma write_call_audio:
  assumes "writeCallArchiveFile env (scan_archive d r) t = (None, t')" "lookup_file t' dy f = Some (AudioFile a)"
  shows "lookup_file t dy f = Some (AudioFile a) \<or>
    a = cr_audio r \<and> archiveAudioExtension (cr_audio_name r) (cr_audio_type r) \<noteq> ''.json''"
  using assms(1)
proof (rule write_call_steps)
  fix e1 t1 e2 t2 e3 t3
  assume 1: "make_dir env (archive_day (cr_datetime r)) t = (e1, t1)"
    and 2: "write_file env (archive_day (cr_datetime r)) (call_audio_file r) (AudioFile (cr_audio r)) t1 = (e2, t2)"
    and 3: "write_file env (archive_day (cr_datetime r)) (call_json_file r)
      (ManifestFile (call_manifest (scan_archive d r) (call_audio_file r) (aen_now env (cr_id r)))) t2 = (e3, t3)"
    and t': "t' = t1 \<and> None \<noteq> (None :: string option) \<or> t' = t2 \<and> None \<noteq> (None :: string option) \<or>
      t' = t3 \<and> (None = (None :: string option) \<longrightarrow> e1 = None \<and> e2 = None \<and> e3 = None)"
  then have t3: "t' = t3" "e3 = None" by simp_all
  with write_file_audio [OF 3] assms(2) have a2: "lookup_file t2 dy f = Some (AudioFile a)" by auto
  from write_file_audio [OF 2 this] consider "lookup_file t1 dy f = Some (AudioFile a)"
    | "dy = archive_day (cr_datetime r)" "f = call_audio_file r" "a = cr_audio r" by auto
  then show ?thesis
  proof cases
    case 1
    with lookup_make_dir [OF \<open>make_dir env (archive_day (cr_datetime r)) t = (e1, t1)\<close>] show ?thesis by simp
  next
    case 2
    have "call_audio_file r \<noteq> call_json_file r"
      using write_file_done [OF 3 [unfolded t3]] assms(2) t3 2 by auto
    with 2 show ?thesis by (auto simp: call_audio_file_def call_json_file_def)
  qed
qed

lemma write_records_audio:
  "write_records env (map (scan_archive d) rows) t = (None, t') \<Longrightarrow> lookup_file t' dy f = Some (AudioFile a) \<Longrightarrow>
   lookup_file t dy f = Some (AudioFile a) \<or>
   (\<exists>q \<in> set rows. a = cr_audio q \<and> archiveAudioExtension (cr_audio_name q) (cr_audio_type q) \<noteq> ''.json'')"
proof (induction rows arbitrary: t)
  case (Cons r rows)
  obtain e1 t1 where 1: "writeCallArchiveFile env (scan_archive d r) t = (e1, t1)" by force
  with Cons.prems(1) have e1: "e1 = None" and rest: "write_records env (map (scan_archive d) rows) t1 = (None, t')"
    by (auto split: option.splits)
  from Cons.IH [OF rest Cons.prems(2)] write_call_audio [OF 1 [unfolded e1]] show ?case by auto
qed simp


lemma cleanup_lookup:
  assumes "batch_cleanup env cfg recs st = (e, st')"
  shows "lookup_file (sto_tree st') dy f = lookup_file (sto_tree st) dy f \<or> lookup_file (sto_tree st') dy f = None"
proof (cases "st' = st")
  case False
  obtain x t where 1: "removeArchiveDayDirs env (day_dirs recs) (sto_tree st) = (x, t)" by force
  have "sto_tree st' = t" using assms False 1 by (auto simp: batch_cleanup_def split: if_splits option.splits)
  with remove_dirs_lookup [OF 1, of dy f] show ?thesis by auto
qed simp

text \<open>Audio in the local tree, for a sweep that began with the database \<open>d0\<close> and the tree \<open>t0\<close>.\<close>

definition audio_from :: "db \<Rightarrow> archive_tree \<Rightarrow> archive_store \<Rightarrow> bool" where
  "audio_from d0 t0 st \<longleftrightarrow> set (t_calls (sto_db st)) \<subseteq> set (t_calls d0) \<and>
     (\<forall>dy f a. lookup_file (sto_tree st) dy f = Some (AudioFile a) \<longrightarrow> lookup_file t0 dy f = Some (AudioFile a) \<or>
        (\<exists>q \<in> set (t_calls d0). a = cr_audio q \<and> archiveAudioExtension (cr_audio_name q) (cr_audio_type q) \<noteq> ''.json''))"

lemma audio_from_batch:
  assumes "audio_from d0 t0 st" "healthy env cfg" "db_ok (sto_db st)" "archiveCallsBatch env cfg cutoff n st = (res, st')"
  shows "audio_from d0 t0 st'"
proof -
  let ?d = "sto_db st"
  obtain remaining recs where l: "batch_list cutoff n ?d = (remaining, recs)" by force
  obtain rows where recs: "recs = map (scan_archive ?d) rows" and sub: "set rows \<subseteq> set (older cutoff ?d)"
    using batch_rows [OF assms(3) l] by metis
  then have sub0: "set rows \<subseteq> set (t_calls d0)" using assms(1) by (auto simp: audio_from_def older_def)
  from assms(4) l show ?thesis
  proof (cases rule: batch_phases)
    case (no_write e)
    with healthy_write [OF assms(2), of recs st] show ?thesis by simp
  next
    case (no_sync e st1)
    with healthy_sync [OF assms(2), of recs st1] show ?thesis by simp
  next
    case (full k n2 st1 st2 st3 e)
    obtain t where t: "write_records env (map (scan_archive ?d) rows) (sto_tree st) = (None, t)" "st1 = st\<lparr>sto_tree := t\<rparr>"
      using full(2) by (auto simp: batch_write_def recs split: option.splits prod.splits)
    have st3: "sto_tree st3 = t" using batch_sync_db [OF full(3)] batch_delete_db [OF full(4,1)] t by simp
    have left: "lookup_file (sto_tree st') dy f = Some (AudioFile a) \<Longrightarrow> lookup_file t dy f = Some (AudioFile a)" for dy f a
      using cleanup_lookup [OF full(5), of dy f] by (auto simp: st3)
    have "set (t_calls (sto_db st')) \<subseteq> set (t_calls ?d)"
      using healthy_batch [OF assms(2,3,4)] by auto
    then have "set (t_calls (sto_db st')) \<subseteq> set (t_calls d0)" using assms(1) by (auto simp: audio_from_def)
    moreover have "lookup_file t0 dy f = Some (AudioFile a) \<or> (\<exists>q \<in> set (t_calls d0). a = cr_audio q \<and>
        archiveAudioExtension (cr_audio_name q) (cr_audio_type q) \<noteq> ''.json'')"
      if "lookup_file (sto_tree st') dy f = Some (AudioFile a)" for dy f a
      using write_records_audio [OF t(1) left [OF that]]
    proof
      assume "lookup_file (sto_tree st) dy f = Some (AudioFile a)"
      then show ?thesis using assms(1) unfolding audio_from_def by blast
    next
      assume "\<exists>q \<in> set rows. a = cr_audio q \<and> archiveAudioExtension (cr_audio_name q) (cr_audio_type q) \<noteq> ''.json''"
      then show ?thesis using sub0 by blast
    qed
    ultimately show ?thesis unfolding audio_from_def by blast
  qed (use assms(1) in simp)
qed

lemma audio_from_batches:
  "archive_batches env cfg cutoff n u res0 st = ((r, e, ps), st') \<Longrightarrow> audio_from d0 t0 st \<Longrightarrow> healthy env cfg \<Longrightarrow>
   db_ok (sto_db st) \<Longrightarrow> audio_from d0 t0 st'"
proof (induction "length (older cutoff (sto_db st))" arbitrary: st res0 ps rule: less_induct)
  case less
  from less.prems(1) show ?case
  proof (cases rule: archive_batches_cases)
    case (again b st1 ps')
    have "db_ok (sto_db st1)" using healthy_batch [OF less.prems(3,4) again(1)] by blast
    with less.hyps [OF batch_progress [OF again(1,2)] again(4) audio_from_batch [OF less.prems(2,3,4) again(1)] less.prems(3)]
    show ?thesis by simp
  qed (use audio_from_batch [OF less.prems(2,3,4)] in blast)+
qed

text \<open>
  An old call whose audio name ends in \<open>.json\<close> is destroyed by a sweep that reports success: its audio and its manifest
  have the same file name, the manifest is written over the audio, and the row with the audio is deleted. Whatever
  audio is in the local tree afterwards was there before or belongs to a call with another extension.
\<close>

theorem json_call_loses_audio:
  assumes "healthy env cfg" "db_ok (sto_db st)" "TrimSpace (acf_CallArchiveDir cfg) \<noteq> []" "0 < archive_days cfg rq"
    "archiveUntilEmpty rq" "r \<in> set (t_calls (sto_db st))" "cr_datetime r < archive_cutoff now (archive_days cfg rq)"
    "archiveAudioExtension (cr_audio_name r) (cr_audio_type r) = ''.json''"
    "\<And>q. q \<in> set (t_calls (sto_db st)) \<Longrightarrow> cr_audio q = cr_audio r \<Longrightarrow> q = r"
  shows "\<exists>res ps st'. archiveCallsWithProgress env cfg now rq st = ((res, None, ps), st') \<and> r \<notin> set (t_calls (sto_db st')) \<and>
    (\<forall>dy f. lookup_file (sto_tree st') dy f = Some (AudioFile (cr_audio r)) \<longrightarrow>
       lookup_file (sto_tree st) dy f = Some (AudioFile (cr_audio r)))"
proof -
  from healthy_sweep [OF assms(1-5), of now] obtain res ps st' where
    run: "archiveCallsWithProgress env cfg now rq st = ((res, None, ps), st')" and
    rows: "t_calls (sto_db st') = filter (\<lambda>r. archive_cutoff now (archive_days cfg rq) \<le> cr_datetime r) (t_calls (sto_db st))"
    by blast
  from run assms(3,4) obtain res0 r1 e where
    "archive_batches env cfg (archive_cutoff now (archive_days cfg rq)) (archive_limit rq) (archiveUntilEmpty rq) res0 st = ((r1, e, ps), st')"
    by (auto simp: archiveCallsWithProgress_def Let_def split: prod.splits option.splits)
  moreover have "audio_from (sto_db st) (sto_tree st) st" by (simp add: audio_from_def)
  ultimately have "audio_from (sto_db st) (sto_tree st) st'" using assms(1,2) by (blast intro: audio_from_batches)
  then have "\<forall>dy f. lookup_file (sto_tree st') dy f = Some (AudioFile (cr_audio r)) \<longrightarrow>
      lookup_file (sto_tree st) dy f = Some (AudioFile (cr_audio r))"
    using assms(8,9) unfolding audio_from_def by metis
  with run rows assms(7) show ?thesis by auto
qed

section \<open>The cutoff\<close>

lemma days_back_eq: "days_back days = word_of_int (- days * 86400000000000)"
proof -
  have "(24 :: 64 word) * 3600000000000 = word_of_int 86400000000000" by simp
  then show ?thesis by (simp add: days_back_def mult.assoc del: word_of_int_numeral)
qed

text \<open>
  Property C26. Up to 106751 days the cutoff is the time minus so many days. From there to 213503 days the count of nanoseconds
  overflows its 64 bits and the cutoff is in the future: asked to keep 300 years of calls, the sweep takes every call
  there is.
\<close>

theorem archive_cutoff_range:
  "(0 < days \<and> days \<le> 106751 \<longrightarrow> archive_cutoff now days = now div 1000000000 - days * 86400) \<and>
   (106752 \<le> days \<and> days \<le> 213503 \<longrightarrow> now div 1000000000 < archive_cutoff now days)"
proof (intro conjI impI; elim conjE)
  assume "0 < days" "days \<le> 106751"
  then have "sint (days_back days) = - days * 86400000000000"
    unfolding days_back_eq sint_sbintrunc' by (intro signed_take_bit_int_eq_self) simp_all
  then have "archive_cutoff now days = (now + (- days * 86400) * 1000000000) div 1000000000"
    by (simp add: archive_cutoff_def)
  also have "\<dots> = now div 1000000000 + - days * 86400" by (subst div_mult_self1) simp_all
  finally show "archive_cutoff now days = now div 1000000000 - days * 86400" by simp
next
  assume range: "106752 \<le> days" "days \<le> 213503"
  have "(word_of_int (- days * 86400000000000) :: 64 word) = word_of_int (18446744073709551616 - days * 86400000000000)"
    by (simp add: word_of_int_eq_iff take_bit_eq_mod mod_simps)
  then have "sint (days_back days) = 18446744073709551616 - days * 86400000000000"
    unfolding days_back_eq using range
    by (simp only: sint_sbintrunc') (intro signed_take_bit_int_eq_self, simp_all)
  then have "1000000000 \<le> sint (days_back days)" using range by simp
  then have "(now + 1000000000) div 1000000000 \<le> archive_cutoff now days"
    unfolding archive_cutoff_def by (intro zdiv_mono1) simp_all
  then show "now div 1000000000 < archive_cutoff now days" by simp
qed


section \<open>Two sweeps at once\<close>

text \<open>
  A request with \<open>async = false\<close> sweeps without taking \<open>archiveSweepMu\<close>, so it may run beside the background job.
  Here the job has deleted its batch \<open>B\<close> when the request lists and writes its batch \<open>A\<close>; then the job removes its day
  directories, and the request copies, deletes and removes. The result is both batches, what \<open>A\<close>'s copy and removal
  answered, and the store at the end.
\<close>

definition sweep_race ::
  "archive_env \<Rightarrow> archive_config \<Rightarrow> int \<Rightarrow> int \<Rightarrow> archive_store \<Rightarrow>
   CallArchiveRecord list \<times> CallArchiveRecord list \<times> (string + int) \<times> (string + bool) \<times> archive_store" where
  "sweep_race env cfg cutoff n st =
     (let B = snd (batch_list cutoff n (sto_db st));
          st2 = snd (batch_sync env cfg B (snd (batch_write env B st)));
          st3 = snd (batch_delete B st2);
          A = snd (batch_list cutoff n (sto_db st3));
          st5 = snd (batch_cleanup env cfg B (snd (batch_write env A st3))) in
      case batch_sync env cfg A st5 of (copied, st6) \<Rightarrow>
        case batch_cleanup env cfg A (snd (batch_delete A st6)) of (removed, st8) \<Rightarrow>
          (B, A, copied, removed, st8))"

lemma healthy_remove_dirs:
  "healthy env cfg \<Longrightarrow> removeArchiveDayDirs env days t = (None, t') \<Longrightarrow>
     (\<forall>dy \<in> set days. t' dy = None) \<and> (\<forall>dy. t dy = None \<longrightarrow> t' dy = None)"
proof (induction days arbitrary: t)
  case (Cons x days)
  have "aen_remove env t x = None" using Cons.prems(1) by (simp add: healthy_def)
  with Cons.prems(2) have "removeArchiveDayDirs env days (t(x := None)) = (None, t')" by (simp add: remove_dir_def)
  from Cons.IH [OF Cons.prems(1) this] show ?case by (auto split: if_splits)
qed simp

lemma sync_days_nothing: "(\<And>dy. dy \<in> set days \<Longrightarrow> t dy = None) \<Longrightarrow> sync_days env cp b p days t R = (Inr 0, R)"
  by (induction days) simp_all

lemma healthy_cleanup_days:
  assumes "healthy env cfg" "TrimSpace (acf_CallArchiveS3URI cfg) \<noteq> []" "acf_DeleteLocalAfterS3 cfg" "day_dirs recs \<noteq> []"
    "batch_cleanup env cfg recs st = (res, st')"
  shows "res = Inr True \<and> sto_db st' = sto_db st \<and> sto_remote st' = sto_remote st \<and> (\<forall>dy \<in> set (day_dirs recs). sto_tree st' dy = None)"
proof -
  obtain t where t: "removeArchiveDayDirs env (day_dirs recs) (sto_tree st) = (None, t)"
    using healthy_remove [OF assms(1)] by (metis prod.collapse)
  then have "res = Inr True \<and> st' = st\<lparr>sto_tree := t\<rparr>" using assms(2-5) by (simp add: batch_cleanup_def)
  with healthy_remove_dirs [OF assms(1) t] show ?thesis by simp
qed

text \<open>The two files of a call, and a file name that is neither in the local directories nor in the bucket.\<close>

definition record_files :: "CallArchiveRecord \<Rightarrow> string set" where
  "record_files rec = {call_file (ca_ID (rec_Call rec)) (archiveAudioExtension (ca_AudioName (rec_Call rec)) (ca_AudioType (rec_Call rec))),
     call_file (ca_ID (rec_Call rec)) ''.json''}"

definition absent :: "archive_store \<Rightarrow> string \<Rightarrow> bool" where
  "absent st f \<longleftrightarrow> (\<forall>dy. lookup_file (sto_tree st) dy f = None) \<and> (\<forall>u. lookup_file (sto_remote st) u f = None)"

text \<open>\<open>s3cmd sync\<close> puts nothing into the bucket but the files of the directory it is given.\<close>

definition sync_copies :: "archive_env \<Rightarrow> bool" where
  "sync_copies env \<longleftrightarrow> (\<forall>cfgPath l u R e R'. aen_s3cmd env cfgPath l u R = (e, R') \<longrightarrow>
     (\<forall>u' f. lookup_file R u' f = None \<and> l f = None \<longrightarrow> lookup_file R' u' f = None))"

lemma sync_days_absent:
  assumes "sync_copies env" "\<And>dy. lookup_file t dy f = None"
  shows "sync_days env cp b p days t R = (res, R') \<Longrightarrow> (\<And>u. lookup_file R u f = None) \<Longrightarrow> lookup_file R' u f = None"
proof (induction days arbitrary: R res R')
  case (Cons x days)
  show ?case
  proof (cases "t x")
    case (Some dir)
    obtain e R1 where 1: "aen_s3cmd env cp dir (ensureTrailingSlash (joinS3URI b p x)) R = (e, R1)" by force
    have "dir f = None" using assms(2) [of x] Some by (simp add: lookup_file_def)
    then have R1: "lookup_file R1 u f = None" for u using assms(1) 1 Cons.prems(2) unfolding sync_copies_def by blast
    obtain res1 R2 where 2: "sync_days env cp b p days t R1 = (res1, R2)" by force
    have "R' = R1 \<or> R' = R2" using Cons.prems(1) Some 1 2 by (auto simp: runS3cmdSync_def split: option.splits sum.splits)
    then show ?thesis
    proof
      assume "R' = R2"
      with Cons.IH [OF 2 R1] show ?thesis by simp
    qed (simp add: R1)
  qed (use Cons in simp)
qed simp

lemma absent_sync: "sync_copies env \<Longrightarrow> absent st f \<Longrightarrow> batch_sync env cfg recs st = (res, st') \<Longrightarrow> absent st' f"
  by (erule batch_sync_cases) (auto simp: absent_def intro: sync_days_absent)

lemma absent_delete: "absent (snd (batch_delete recs st)) f = absent st f"
  by (simp add: absent_def batch_delete_def split: prod.split)

lemma batch_cleanup_remote: "sto_remote (snd (batch_cleanup env cfg recs st)) = sto_remote st"
  by (simp add: batch_cleanup_def split: prod.split option.split)

lemma absent_cleanup: "absent st f \<Longrightarrow> absent (snd (batch_cleanup env cfg recs st)) f"
  using cleanup_lookup [of env cfg recs st "fst (batch_cleanup env cfg recs st)" "snd (batch_cleanup env cfg recs st)"]
  by (simp add: absent_def batch_cleanup_remote) metis

lemma batch_write_remote: "sto_remote (snd (batch_write env recs st)) = sto_remote st"
  by (simp add: batch_write_def split: prod.split option.split)

lemma batch_write_tree: "sto_tree (snd (batch_write env recs st)) =
    (if aen_mkdir env (sto_tree st) [] = None then snd (write_records env recs (sto_tree st)) else sto_tree st)"
  by (simp add: batch_write_def split: prod.split option.split)

lemma absent_write:
  assumes "absent st f" "\<And>r. r \<in> set rows \<Longrightarrow> f \<notin> {call_audio_file r, call_json_file r}"
  shows "absent (snd (batch_write env (map (scan_archive d) rows) st)) f"
proof -
  have "lookup_file (snd (write_records env (map (scan_archive d) rows) (sto_tree st))) dy f = lookup_file (sto_tree st) dy f" for dy
    by (rule write_records_other [OF _ assms(2)]) (auto intro: prod.collapse [symmetric])
  with assms(1) show ?thesis by (simp add: absent_def batch_write_remote batch_write_tree)
qed

text \<open>A call is written into the directory of its day.\<close>

lemma write_call_day:
  "writeCallArchiveFile env rec t = (e, t') \<Longrightarrow> dy \<noteq> archive_day (ca_DateTime (rec_Call rec)) \<Longrightarrow> lookup_file t' dy f = lookup_file t dy f"
  by (auto simp: writeCallArchiveFile_def make_dir_def write_file_def lookup_file_def Let_def split: option.splits if_splits prod.splits)

lemma write_records_day:
  "write_records env recs t = (e, t') \<Longrightarrow> dy \<notin> set (day_dirs recs) \<Longrightarrow> lookup_file t' dy f = lookup_file t dy f"
proof (induction recs arbitrary: t)
  case (Cons rec recs)
  obtain e1 t1 where 1: "writeCallArchiveFile env rec t = (e1, t1)" by force
  have "lookup_file t1 dy f = lookup_file t dy f" using write_call_day [OF 1] Cons.prems(2) by (simp add: day_dirs_def)
  with Cons 1 show ?case by (cases e1) (auto simp: day_dirs_def)
qed simp

lemma written_then_removed:
  assumes "absent st f" "set (day_dirs A) \<subseteq> set (day_dirs B)"
    "\<And>dy. dy \<in> set (day_dirs B) \<Longrightarrow> sto_tree (snd (batch_cleanup env cfg B (snd (batch_write env A st)))) dy = None"
  shows "absent (snd (batch_cleanup env cfg B (snd (batch_write env A st)))) f"
proof -
  let ?st1 = "snd (batch_write env A st)" and ?st2 = "snd (batch_cleanup env cfg B (snd (batch_write env A st)))"
  have "lookup_file (sto_tree ?st2) dy f = None" for dy
  proof (cases "dy \<in> set (day_dirs B)")
    case True
    with assms(3) show ?thesis by (simp add: lookup_file_def)
  next
    case False
    then have "lookup_file (snd (write_records env A (sto_tree st))) dy f = None"
      using write_records_day [of env A "sto_tree st"] assms(1,2) by (metis absent_def prod.collapse subsetD)
    then have "lookup_file (sto_tree ?st1) dy f = None"
      using assms(1) by (simp add: batch_write_tree absent_def)
    with cleanup_lookup [of env cfg B ?st1 "fst (batch_cleanup env cfg B ?st1)" ?st2 dy f] show ?thesis by simp
  qed
  with assms(1) show ?thesis by (simp add: absent_def batch_cleanup_remote batch_write_remote)
qed

text \<open>The second batch of a race: rows of the database at the start, with other ids than the first batch's.\<close>

lemma race_rows:
  assumes "db_ok (sto_db st)" "batch_list cutoff n (sto_db st) = (k, B)" "sto_db st2 = sto_db st"
    "batch_list cutoff n (sto_db (snd (batch_delete B st2))) = (l, A)"
  obtains rB dA rA where "B = map (scan_archive (sto_db st)) rB" "A = map (scan_archive dA) rA"
    "set rA \<subseteq> set (t_calls (sto_db st))" "\<And>a b. a \<in> set rA \<Longrightarrow> b \<in> set rB \<Longrightarrow> cr_id a \<noteq> cr_id b"
proof -
  let ?P = "\<lambda>r. cr_id r \<in> set (map (\<lambda>rec. ca_ID (rec_Call rec)) B)"
  let ?d = "sto_db (snd (batch_delete B st2))"
  have d: "?d = (if B = [] then sto_db st else del_calls ?P (sto_db st))"
    using assms(3) by (simp add: batch_delete_def DeleteCallsByIDs_def)
  then have ok: "db_ok ?d" using assms(1) by (simp add: del_calls_ok)
  obtain rB where B: "B = map (scan_archive (sto_db st)) rB" using batch_rows [OF assms(1,2)] .
  obtain rA where A: "A = map (scan_archive ?d) rA" and sub: "set rA \<subseteq> set (older cutoff ?d)" using batch_rows [OF ok assms(4)] .
  have "set rA \<subseteq> set (filter (\<lambda>r. \<not> ?P r) (t_calls (sto_db st)))"
    using sub by (auto simp: older_def d del_calls_rows split: if_splits)
  then have "set rA \<subseteq> set (t_calls (sto_db st))" "\<And>a b. a \<in> set rA \<Longrightarrow> b \<in> set rB \<Longrightarrow> cr_id a \<noteq> cr_id b"
    by (force simp: B)+
  with A B that show thesis by blast
qed

text \<open>
  Property C25. Two sweeps at once destroy calls. When a request's batch is written between the job's delete and the job's
  removal of the same days' directories, the request finds nothing to copy, takes that for success and deletes its
  rows. Its calls were in the table before; if none of their files was archived earlier, they are afterwards in no
  table, and neither their audio nor their manifests are in any local directory or anywhere in the bucket, while
  every step has reported success (with an s3cmd sync that copies only what it is given).
\<close>

theorem concurrent_sweeps_lose_calls:
  assumes "healthy env cfg" "TrimSpace (acf_CallArchiveS3URI cfg) \<noteq> []" "acf_DeleteLocalAfterS3 cfg"
    "sync_copies env" "db_ok (sto_db st)"
    "sweep_race env cfg cutoff n st = (B, A, copied, removed, st')" "A \<noteq> []" "set (day_dirs A) \<subseteq> set (day_dirs B)"
    "\<And>rec f. rec \<in> set A \<Longrightarrow> f \<in> record_files rec \<Longrightarrow> absent st f"
  shows "copied = Inr 0 \<and> removed = Inr True \<and>
    (\<forall>rec \<in> set A. ca_ID (rec_Call rec) \<in> cr_id ` set (t_calls (sto_db st)) \<and>
       ca_ID (rec_Call rec) \<notin> cr_id ` set (t_calls (sto_db st')) \<and> (\<forall>f \<in> record_files rec. absent st' f))"
proof -
  define st2 where "st2 = snd (batch_sync env cfg B (snd (batch_write env B st)))"
  define st3 where "st3 = snd (batch_delete B st2)"
  define st4 where "st4 = snd (batch_write env A st3)"
  define st5 where "st5 = snd (batch_cleanup env cfg B st4)"
  obtain c st6 where 6: "batch_sync env cfg A st5 = (c, st6)" by force
  obtain k st7 where 7: "batch_delete A st6 = (k, st7)" by force
  obtain e st8 where 8: "batch_cleanup env cfg A st7 = (e, st8)" by force
  note race_eq = assms(6) [unfolded sweep_race_def Let_def case_prod_beta prod.inject]
  from race_eq have B: "snd (batch_list cutoff n (sto_db st)) = B" by blast
  from race_eq have A: "snd (batch_list cutoff n (sto_db st3)) = A" unfolding st3_def st2_def B by blast
  have race: "c = copied" "e = removed" "st8 = st'"
    using race_eq unfolding B st2_def [symmetric] st3_def [symmetric] A st4_def [symmetric] st5_def [symmetric] 6 snd_conv fst_conv 7 8
    by simp_all
  have db2: "sto_db st2 = sto_db st"
    using batch_write_db [of env B st] batch_sync_db [of env cfg B "snd (batch_write env B st)"] unfolding st2_def
    by (metis prod.collapse)
  obtain l1 l2 where "batch_list cutoff n (sto_db st) = (l1, B)" "batch_list cutoff n (sto_db (snd (batch_delete B st2))) = (l2, A)"
    using A B unfolding st3_def by (metis prod.collapse)
  then obtain rB dA rA where rB: "B = map (scan_archive (sto_db st)) rB" and rA: "A = map (scan_archive dA) rA"
    and sub: "set rA \<subseteq> set (t_calls (sto_db st))" and ids: "\<And>a b. a \<in> set rA \<Longrightarrow> b \<in> set rB \<Longrightarrow> cr_id a \<noteq> cr_id b"
    using race_rows [OF assms(5) _ db2] by metis
  have dA: "day_dirs A \<noteq> []" using assms(7) by (simp add: day_dirs_def)
  then have dB: "day_dirs B \<noteq> []" using assms(8) by auto
  note c5 = healthy_cleanup_days [OF assms(1-3) dB prod.collapse [symmetric], of st4]
  have absent5: "absent st5 f" if "rec \<in> set A" "f \<in> record_files rec" for rec f
  proof -
    from that(1) have "rec \<in> scan_archive dA ` set rA" by (simp add: rA)
    then obtain a where "a \<in> set rA" "rec = scan_archive dA a" by blast
    with that(2) have a: "a \<in> set rA" "f \<in> {call_audio_file a, call_json_file a}"
      by (simp_all add: record_files_def call_audio_file_def call_json_file_def)
    have "f \<notin> {call_audio_file b, call_json_file b}" if "b \<in> set rB" for b
      using a call_files_distinct [OF ids [OF a(1) that]] by blast
    then have "absent (snd (batch_write env B st)) f" unfolding rB by (intro absent_write assms(9) [OF that])
    then have "absent st3 f" unfolding st3_def absent_delete st2_def
      by (rule absent_sync [OF assms(4) _ prod.collapse [symmetric]])
    then show ?thesis
      using written_then_removed [OF _ assms(8), of st3 f env cfg] c5 unfolding st4_def st5_def by blast
  qed
  obtain m where m: "c = Inr m" using healthy_sync [OF assms(1), of A st5] 6 by auto
  from 6 have sync: "c = Inr 0 \<and> st6 = st5"
  proof (cases rule: batch_sync_cases)
    case same
    with assms(2) m show ?thesis by simp
  next
    case (sync b p R')
    have "sto_tree st5 dy = None" if "dy \<in> set (day_dirs A)" for dy
      using c5 subsetD [OF assms(8) that] unfolding st5_def by blast
    with sync sync_days_nothing [of "day_dirs A" "sto_tree st5"] show ?thesis by simp
  qed
  note d7 = batch_delete_db [OF 7 assms(7)]
  note c8 = healthy_cleanup_days [OF assms(1-3) dA 8]
  have "t_calls (sto_db st8) = filter (\<lambda>r. cr_id r \<notin> set (map (\<lambda>rec. ca_ID (rec_Call rec)) A)) (t_calls (sto_db st6))"
    using d7 c8 by (simp add: del_calls_rows)
  then have "ca_ID (rec_Call rec) \<notin> cr_id ` set (t_calls (sto_db st8))" if "rec \<in> set A" for rec
    using that by force
  moreover have "absent st8 f" if "rec \<in> set A" "f \<in> record_files rec" for rec f
    using absent5 [OF that] sync absent_delete [of A st6 f] absent_cleanup [of st7 f env cfg A] 7 8 by simp
  moreover have "ca_ID (rec_Call rec) \<in> cr_id ` set (t_calls (sto_db st))" if "rec \<in> set A" for rec
    using that sub by (auto simp: rA)
  ultimately show ?thesis using c8 sync race by auto
qed

section \<open>Instances\<close>

definition plain_env :: archive_env where
  "plain_env = \<lparr>aen_mkdir = (\<lambda>_ _. None), aen_write = (\<lambda>_ _ _. None), aen_remove = (\<lambda>_ _. None), aen_s3cfg = None,
     aen_s3path = None, aen_s3cmd = (\<lambda>_ l u R. (None, R(u \<mapsto> (case R u of None \<Rightarrow> l | Some old \<Rightarrow> old ++ l)))),
     aen_now = (\<lambda>_. 300), aen_late = (\<lambda>_. False)\<rparr>"

definition plain_config :: archive_config where
  "plain_config = \<lparr>acf_CallRetentionDays = 1, acf_CallArchiveDir = ''a'', acf_CallArchiveS3URI = ''s3://b'',
     acf_CallArchiveS3Cfg = ''c'', acf_DeleteLocalAfterS3 = True, acf_VacuumFull = True\<rparr>"

definition plain_store :: "db \<Rightarrow> archive_store" where
  "plain_store d = \<lparr>sto_db = d, sto_tree = Map.empty, sto_remote = Map.empty\<rparr>"

definition plain_request :: archiveCallsRequest where
  "plain_request = \<lparr>arq_OlderThanDays = 0, arq_DryRun = False, arq_Limit = 1, arq_UntilEmpty = None, arq_Async = None\<rparr>"

lemma plain_adds: "sync_adds plain_env"
  by (auto simp: sync_adds_def plain_env_def lookup_file_def map_add_def split: option.splits)

lemma plain_strings: "TrimSpace ''s3://b'' = ''s3://b''" "TrimSpace ''c'' = ''c''" "TrimSpace ''a'' = ''a''"
  "parseS3URI ''s3://b'' = Inr (''b'', [])"
  by code_simp+

lemma plain_healthy: "healthy plain_env plain_config"
  by (simp add: healthy_def plain_env_def plain_config_def plain_strings)

lemma plain_settings: "TrimSpace (acf_CallArchiveDir plain_config) \<noteq> []" "archive_days plain_config plain_request = 1"
  "archiveUntilEmpty plain_request" "archive_cutoff 86502000000000 1 = 102" "TrimSpace (acf_CallArchiveS3URI plain_config) \<noteq> []"
  by (simp_all add: plain_config_def plain_request_def plain_strings archive_days_def archiveUntilEmpty_def
      archive_cutoff_range)


theorem archive_cutoff_range_witness:
  "archive_cutoff 0 106751 = - 9223286400 \<and> 0 < archive_cutoff 0 106752"
  using archive_cutoff_range [of 106751 0] archive_cutoff_range [of 106752 0] by simp

lemma plain_sweep_rows:
  "\<exists>res ps st'. archiveCallsWithProgress plain_env plain_config 86502000000000 plain_request (plain_store example_call_db) =
     ((res, None, ps), st') \<and> example_row 1 100 7 ''Fire'' \<in> set (t_calls example_call_db) \<and>
     example_row 1 100 7 ''Fire'' \<notin> set (t_calls (sto_db st'))"
proof -
  have db: "db_ok (sto_db (plain_store example_call_db))" by (simp add: plain_store_def example_call_db_ok)
  have days: "0 < archive_days plain_config plain_request" by (simp add: plain_settings)
  have "example_row 1 100 7 ''Fire'' \<in> set (t_calls example_call_db)" by (simp add: call_eval)
  moreover have "cr_datetime (example_row 1 100 7 ''Fire'') = 100" by (simp add: example_row_eq)
  ultimately show ?thesis
    using healthy_sweep [OF plain_healthy db plain_settings(1) days plain_settings(3), of 86502000000000]
    by (fastforce simp: plain_settings plain_store_def)
qed

theorem archived_before_deleted_witness:
  "kept_call plain_env plain_config example_call_db
     (snd (archiveCallsWithProgress plain_env plain_config 86502000000000 plain_request (plain_store example_call_db)))
     (example_row 1 100 7 ''Fire'')"
proof -
  from plain_sweep_rows obtain out st' where
    run: "archiveCallsWithProgress plain_env plain_config 86502000000000 plain_request (plain_store example_call_db) = (out, st')"
    and rows: "example_row 1 100 7 ''Fire'' \<in> set (t_calls example_call_db)"
      "example_row 1 100 7 ''Fire'' \<notin> set (t_calls (sto_db st'))" by blast
  let ?r = "example_row 1 100 7 ''Fire''"
  have db: "db_ok (sto_db (plain_store example_call_db))" by (simp add: plain_store_def example_call_db_ok)
  have row: "?r \<in> set (t_calls (sto_db (plain_store example_call_db)))" using rows by (simp add: plain_store_def)
  have ext: "archiveAudioExtension (cr_audio_name ?r) (cr_audio_type ?r) \<noteq> ''.json''"
    unfolding example_row_eq by code_simp
  from archived_before_deleted [OF db plain_adds run row rows(2) ext] show ?thesis unfolding run snd_conv by (simp add: plain_store_def)
qed

theorem sweep_clears_backlog_witness:
  "\<exists>r ps st'. archiveCallsWithProgress plain_env plain_config 86502000000000 plain_request (plain_store example_call_db) = ((r, None, ps), st') \<and>
     t_calls (sto_db st') = [example_row 2 103 7 ''Fire''] \<and> arc_RemainingOld r = 0"
proof -
  have db: "db_ok (sto_db (plain_store example_call_db))" by (simp add: plain_store_def example_call_db_ok)
  have days: "0 < archive_days plain_config plain_request" by (simp add: plain_settings)
  have "filter (\<lambda>r. archive_cutoff 86502000000000 (archive_days plain_config plain_request) \<le> cr_datetime r)
      (t_calls (sto_db (plain_store example_call_db))) = [example_row 2 103 7 ''Fire'']"
    by (simp add: plain_settings plain_store_def call_eval)
  with sweep_clears_backlog [OF plain_healthy db plain_settings(1) days plain_settings(3), of 86502000000000]
  show ?thesis by auto
qed

text \<open>The example with one old call, whose audio came in a file named \<open>clip.json\<close>.\<close>

definition json_row :: calls_row where
  "json_row = (example_row 1 100 7 ''Fire'')\<lparr>cr_audio_name := ''clip.json''\<rparr>"

definition json_db :: db where
  "json_db = example_call_db\<lparr>t_calls := [json_row]\<rparr>"

lemma json_db_ok: "db_ok json_db"
  by (simp add: json_db_def json_row_def call_eval db_ok_defs fkey_def uniq_opt_def nonnull_def uniq_def)

theorem json_call_loses_audio_witness:
  "\<exists>res ps st'. archiveCallsWithProgress plain_env plain_config 86502000000000 plain_request (plain_store json_db) = ((res, None, ps), st') \<and>
     json_row \<notin> set (t_calls (sto_db st')) \<and> (\<forall>dy f. lookup_file (sto_tree st') dy f \<noteq> Some (AudioFile (cr_audio json_row)))"
proof -
  have db: "db_ok (sto_db (plain_store json_db))" by (simp add: plain_store_def json_db_ok)
  have days: "0 < archive_days plain_config plain_request" by (simp add: plain_settings)
  have row: "json_row \<in> set (t_calls (sto_db (plain_store json_db)))" by (simp add: plain_store_def json_db_def)
  have old: "cr_datetime json_row < archive_cutoff 86502000000000 (archive_days plain_config plain_request)"
    by (simp add: plain_settings json_row_def example_row_eq)
  have ext: "archiveAudioExtension (cr_audio_name json_row) (cr_audio_type json_row) = ''.json''"
    unfolding json_row_def example_row_eq by code_simp
  have only: "q = json_row" if "q \<in> set (t_calls (sto_db (plain_store json_db)))" "cr_audio q = cr_audio json_row" for q
    using that by (simp add: plain_store_def json_db_def)
  from json_call_loses_audio [OF plain_healthy db plain_settings(1) days plain_settings(3) row old ext only]
  show ?thesis by (simp add: plain_store_def lookup_file_def)
qed


lemma race_batches:
  "batch_list 102 1 example_call_db = (2, [scan_archive example_call_db (example_row 3 90 8 ''EMS'')])"
  "batch_list 102 1 (del_calls (\<lambda>r. cr_id r = 3) example_call_db) =
     (1, [scan_archive (del_calls (\<lambda>r. cr_id r = 3) example_call_db) (example_row 1 100 7 ''Fire'')])"
  by (simp_all add: batch_list_def CountCallsOlderThan_def ListCallsForArchive_def archive_page_def older_def order_asc_def
      limit_def clamp_limit_def call_eval del_calls_rows)

lemma first_day: "archive_day 90 = archive_day 100"
  by code_simp

lemma plain_copies: "sync_copies plain_env"
  by (auto simp: sync_copies_def plain_env_def lookup_file_def map_add_def split: option.splits)

theorem concurrent_sweeps_lose_calls_witness:
  "\<exists>B A st'. sweep_race plain_env plain_config 102 1 (plain_store example_call_db) = (B, A, Inr 0, Inr True, st') \<and>
     map (\<lambda>rec. ca_ID (rec_Call rec)) A = [1] \<and> 1 \<notin> cr_id ` set (t_calls (sto_db st')) \<and>
     (\<forall>u. lookup_file (sto_remote st') u ''call-1.mp3'' = None \<and> lookup_file (sto_remote st') u ''call-1.json'' = None) \<and>
     (\<forall>dy. lookup_file (sto_tree st') dy ''call-1.mp3'' = None \<and> lookup_file (sto_tree st') dy ''call-1.json'' = None)"
proof -
  let ?st = "plain_store example_call_db"
  let ?B = "[scan_archive example_call_db (example_row 3 90 8 ''EMS'')]"
  let ?d = "del_calls (\<lambda>r. cr_id r = 3) example_call_db"
  let ?A = "[scan_archive ?d (example_row 1 100 7 ''Fire'')]"
  obtain B A c e st' where race: "sweep_race plain_env plain_config 102 1 ?st = (B, A, c, e, st')" by (metis prod.exhaust)
  note eq = race [unfolded sweep_race_def Let_def case_prod_beta prod.inject]
  have st: "sto_db ?st = example_call_db" by (simp add: plain_store_def)
  have B: "B = ?B" using eq by (simp add: st race_batches)
  let ?st2 = "snd (batch_sync plain_env plain_config ?B (snd (batch_write plain_env ?B ?st)))"
  have "sto_db ?st2 = example_call_db"
    using batch_write_db [of plain_env ?B ?st] batch_sync_db [of plain_env plain_config ?B "snd (batch_write plain_env ?B ?st)"]
    by (metis prod.collapse st)
  then have "sto_db (snd (batch_delete ?B ?st2)) = ?d"
    by (simp add: batch_delete_def DeleteCallsByIDs_def example_row_eq)
  then have A: "A = ?A" using eq by (simp add: st race_batches)
  have days: "A \<noteq> []" "set (day_dirs A) \<subseteq> set (day_dirs B)"
    by (simp_all add: A B day_dirs_def example_row_eq first_day)
  have del: "acf_DeleteLocalAfterS3 plain_config" by (simp add: plain_config_def)
  have "archiveAudioExtension ''a.mp3'' ''audio/mpeg'' = ''.mp3''" "format_int 1 = ''1''" by code_simp+
  then have files: "record_files (hd A) = {''call-1.mp3'', ''call-1.json''}"
    by (simp add: A record_files_def example_row_eq call_file_def)
  have db: "db_ok (sto_db ?st)" by (simp add: st example_call_db_ok)
  have none: "absent ?st f" for f by (simp add: absent_def plain_store_def lookup_file_def)
  from concurrent_sweeps_lose_calls [OF plain_healthy plain_settings(5) del plain_copies db race days none]
  have "c = Inr 0 \<and> e = Inr True \<and> 1 \<notin> cr_id ` set (t_calls (sto_db st')) \<and> (\<forall>f \<in> {''call-1.mp3'', ''call-1.json''}. absent st' f)"
    using files by (simp add: A example_row_eq)
  with race show ?thesis by (auto simp: A example_row_eq absent_def)
qed

end
