(* ===== verification/SourceApi.thy ===== *)
theory SourceApi
  imports Uploads HubApi
begin

text \<open>
  Managing ingestion sources, their upload keys and the users they are shared with:
  \<open>server/internal/api/sources.go\<close>, \<open>source_keys.go\<close> and \<open>source_shares.go\<close>, over the operations of \<open>Sources\<close>.
\<close>

datatype source_body =
    SourcesBody "IngestionSource list"
  | SourceBody IngestionSource
  | KeyBody SourceAPIKey
  | KeysBody "SourceAPIKey list"
  | UserIDsBody "string list"
  | SourceOk

section \<open>Sources\<close>

definition handleListIngestionSources :: "authUser option \<Rightarrow> db \<Rightarrow> source_body reply" where
  "handleListIngestionSources ctx d =
     (case requireAuthenticated ctx of
        Inl e \<Rightarrow> e
      | Inr u \<Rightarrow>
          (let sources = ListIngestionSources False d in
           if isAdmin u then Reply 200 (SourcesBody sources)
           else (let shared = ListSharedSourceIDsForUser (au_ID u) d in
             Reply 200 (SourcesBody (filter (\<lambda>s. \<not> (is_UserID s \<noteq> au_ID u \<and> \<not> is_IsShared s \<and> \<not> shared (is_ID s))) sources)))))"

record updateIngestionSourceRequest =
  uis_Label :: "string option"
  uis_Enabled :: "bool option"
  uis_IsShared :: "bool option"

definition zero_source :: "string \<Rightarrow> string \<Rightarrow> IngestionSource" where
  "zero_source i uid = \<lparr>is_ID = i, is_UserID = uid, is_Label = [], is_Enabled = False, is_IsShared = False, is_DeletedAt = 0,
     is_SystemID = 0, is_SystemLabel = [], is_LastSeenUnix = 0, is_ErrorCount = 0, is_CallsReceived = 0, is_UpdatedAt = 0\<rparr>"

definition relabel :: "string \<Rightarrow> string option \<Rightarrow> IngestionSource \<Rightarrow> IngestionSource" where
  "relabel i label s = (case label of None \<Rightarrow> s | Some l \<Rightarrow> s\<lparr>is_Label := (if TrimSpace l = [] then i else TrimSpace l)\<rparr>)"

text \<open>What is written: the stored source or a new one, with the request's fields; an error when sharing is not the user's to set.\<close>

definition changed_source ::
  "authUser \<Rightarrow> string \<Rightarrow> IngestionSource option \<Rightarrow> updateIngestionSourceRequest \<Rightarrow> source_body reply + IngestionSource" where
  "changed_source u i existing rq =
     (let s0 = (case existing of Some s \<Rightarrow> s | None \<Rightarrow> (zero_source i (au_ID u))\<lparr>is_Label := i, is_Enabled := True\<rparr>);
          s1 = relabel i (uis_Label rq) s0;
          s2 = (case uis_Enabled rq of None \<Rightarrow> s1 | Some b \<Rightarrow> s1\<lparr>is_Enabled := b\<rparr>) in
      case uis_IsShared rq of
        None \<Rightarrow> Inr (if is_UserID s2 = [] then s2\<lparr>is_UserID := au_ID u\<rparr> else s2)
      | Some b \<Rightarrow>
          if \<not> isAdmin u then Inl (Fail 403 ''forbidden'')
          else Inr (if is_UserID s2 = [] then s2\<lparr>is_IsShared := b, is_UserID := au_ID u\<rparr> else s2\<lparr>is_IsShared := b\<rparr>))"

definition handleUpsertIngestionSource ::
  "authUser option \<Rightarrow> string \<Rightarrow> updateIngestionSourceRequest option \<Rightarrow> int \<Rightarrow> db \<Rightarrow> source_body reply \<times> db" where
  "handleUpsertIngestionSource ctx i body now d =
     (case requireAuthenticated ctx of
        Inl e \<Rightarrow> (e, d)
      | Inr u \<Rightarrow>
          if i = [] then (Fail 400 ''missing id parameter'', d)
          else (case body of
            None \<Rightarrow> (Fail 400 ''invalid json'', d)
          | Some rq \<Rightarrow>
              if isGuest u then (Fail 403 ''forbidden'', d)
              else (let existing = GetIngestionSource i d in
                case (case existing of None \<Rightarrow> None | Some s \<Rightarrow> canManageSource ctx (is_UserID s)) of
                  Some e \<Rightarrow> (Fail (reply_code e) ''forbidden'', d)
                | None \<Rightarrow>
                    (case changed_source u i existing rq of
                       Inl e \<Rightarrow> (e, d)
                     | Inr s \<Rightarrow>
                         (case UpsertIngestionSource s now d of
                            (Inl _, d') \<Rightarrow> (Fail 500 ''save ingestion source'', d')
                          | (Inr _, d') \<Rightarrow>
                              (Reply 200 (SourceBody (case GetIngestionSource i d' of None \<Rightarrow> s | Some full \<Rightarrow> full)), d'))))))"

text \<open>The steps the requests on a stored source share: a known source, which the user may manage.\<close>

definition managed_source :: "authUser option \<Rightarrow> string \<Rightarrow> db \<Rightarrow> source_body reply + authUser \<times> IngestionSource" where
  "managed_source ctx i d =
     (case requireAuthenticated ctx of
        Inl e \<Rightarrow> Inl e
      | Inr u \<Rightarrow>
          if i = [] then Inl (Fail 400 ''missing source id'')
          else (case GetIngestionSource i d of
            None \<Rightarrow> Inl (Fail 404 ''source not found'')
          | Some s \<Rightarrow>
              (case canManageSource ctx (is_UserID s) of
                 Some e \<Rightarrow> Inl (Fail (reply_code e) (if reply_code e = 401 then ''unauthorized'' else ''forbidden''))
               | None \<Rightarrow> Inr (u, s))))"

definition handleDeleteIngestionSource :: "authUser option \<Rightarrow> string \<Rightarrow> int \<Rightarrow> node \<Rightarrow> source_body reply \<times> node" where
  "handleDeleteIngestionSource ctx i now n =
     (case managed_source ctx i (nd_db n) of
        Inl e \<Rightarrow> (e, n)
      | Inr (u, s) \<Rightarrow>
          (case DeleteIngestionSource i now (nd_db n) of
             (False, d) \<Rightarrow> (Fail 404 ''source not found'', n\<lparr>nd_db := d\<rparr>)
           | (True, d) \<Rightarrow>
               (Reply 200 SourceOk,
                n\<lparr>nd_db := audit (au_ID u) ''source.soft_deleted'' ''source'' i [] now d,
                  nd_hub := broadcast (WsSourceDeleted i) (nd_hub n)\<rparr>)))"

section \<open>Upload keys\<close>

text \<open>\<open>ms\<close> is the time in milliseconds and \<open>key\<close> the generated key.\<close>

definition handleGenerateSourceKey ::
  "authUser option \<Rightarrow> string \<Rightarrow> int \<Rightarrow> string \<Rightarrow> db \<Rightarrow> source_body reply \<times> db" where
  "handleGenerateSourceKey ctx i ms key d =
     (case managed_source ctx i d of
        Inl e \<Rightarrow> (e, d)
      | Inr (_, s) \<Rightarrow>
          (case GenerateSourceKey s ms key d of
             (Inl _, d') \<Rightarrow> (Fail 500 ''generate key'', d')
           | (Inr k, d') \<Rightarrow> (Reply 201 (KeyBody k), d')))"

definition handleListSourceKeys :: "authUser option \<Rightarrow> string \<Rightarrow> db \<Rightarrow> source_body reply" where
  "handleListSourceKeys ctx i d =
     (case managed_source ctx i d of Inl e \<Rightarrow> e | Inr _ \<Rightarrow> Reply 200 (KeysBody (ListSourceKeys i d)))"

definition handleRevokeSourceKey :: "authUser option \<Rightarrow> string \<Rightarrow> string \<Rightarrow> db \<Rightarrow> source_body reply \<times> db" where
  "handleRevokeSourceKey ctx i kid d =
     (case requireAuthenticated ctx of
        Inl e \<Rightarrow> (e, d)
      | Inr _ \<Rightarrow>
          if i = [] \<or> kid = [] then (Fail 400 ''missing source id or key id'', d)
          else (case managed_source ctx i d of
            Inl e \<Rightarrow> (e, d)
          | Inr _ \<Rightarrow> (Reply 200 SourceOk, RevokeSourceKey i kid d)))"

section \<open>Shares\<close>

definition shares_of :: "string \<Rightarrow> db \<Rightarrow> source_body reply" where
  "shares_of i d = Reply 200 (UserIDsBody (ListSourceShareUserIDs i d))"

definition handleListSourceShares :: "authUser option \<Rightarrow> string \<Rightarrow> db \<Rightarrow> source_body reply" where
  "handleListSourceShares ctx i d =
     (case requireAdmin ctx of
        Inl e \<Rightarrow> e
      | Inr _ \<Rightarrow>
          if i = [] then Fail 400 ''missing source id''
          else if GetIngestionSource i d = None then Fail 404 ''source not found''
          else shares_of i d)"

definition handleUpdateSourceShares ::
  "authUser option \<Rightarrow> string \<Rightarrow> string list option \<Rightarrow> int \<Rightarrow> db \<Rightarrow> source_body reply \<times> db" where
  "handleUpdateSourceShares ctx i body now d =
     (case requireAdmin ctx of
        Inl e \<Rightarrow> (e, d)
      | Inr admin \<Rightarrow>
          if i = [] then (Fail 400 ''missing source id'', d)
          else if GetIngestionSource i d = None then (Fail 404 ''source not found'', d)
          else (case body of
            None \<Rightarrow> (Fail 400 ''invalid json'', d)
          | Some us \<Rightarrow>
              (case SetSourceShareUserIDs i us now d of
                 (Inl _, d') \<Rightarrow> (Fail 500 ''save source shares'', d')
               | (Inr _, d') \<Rightarrow>
                   (let d2 = audit (au_ID admin) ''source.shares_updated'' ''source'' i
                          [(''userIds'', JArray (map JString us))] now d' in
                    (shares_of i d2, d2)))))"


section \<open>Whose sources change\<close>

datatype source_request =
    SourceUpsert string "updateIngestionSourceRequest option"
  | SourceDelete string
  | KeyGenerate string int string
  | KeyRevoke string string
  | SharesUpdate string "string list option"

definition on_node :: "(db \<Rightarrow> source_body reply \<times> db) \<Rightarrow> node \<Rightarrow> nat \<times> node" where
  "on_node h n = (case h (nd_db n) of (r, d) \<Rightarrow> (reply_code r, n\<lparr>nd_db := d\<rparr>))"

fun source_step :: "authUser option \<Rightarrow> int \<times> source_request \<Rightarrow> node \<Rightarrow> nat \<times> node" where
  "source_step ctx (now, SourceUpsert i body) n = on_node (handleUpsertIngestionSource ctx i body now) n"
| "source_step ctx (now, SourceDelete i) n = (case handleDeleteIngestionSource ctx i now n of (r, n') \<Rightarrow> (reply_code r, n'))"
| "source_step ctx (now, KeyGenerate i ms key) n = on_node (handleGenerateSourceKey ctx i ms key) n"
| "source_step ctx (now, KeyRevoke i kid) n = on_node (handleRevokeSourceKey ctx i kid) n"
| "source_step ctx (now, SharesUpdate i body) n = on_node (handleUpdateSourceShares ctx i body now) n"

text \<open>Everything about sources a user does not own: the rows, their keys, and all shares.\<close>

definition foreign_sources :: "string \<Rightarrow> db \<Rightarrow> sources_row list" where
  "foreign_sources uid d = filter (\<lambda>s. sr_user_id s \<noteq> Some uid) (t_sources d)"

definition foreign :: "string \<Rightarrow> db \<Rightarrow> sources_row list \<times> keys_row list \<times> shares_row list" where
  "foreign uid d = (foreign_sources uid d,
     filter (\<lambda>k. ky_source_id k \<in> sr_id ` set (foreign_sources uid d)) (t_keys d), t_shares d)"

lemma managed_source_own:
  assumes "managed_source (Some u) i d = Inr (u', s)" "\<not> isAdmin u"
  shows "u' = u \<and> (\<exists>r \<in> set (t_sources d). sr_id r = i \<and> s = scan_source r \<and> sr_user_id r = Some (au_ID u))"
proof -
  obtain r where r: "find_source i d = Some r" "s = scan_source r" "u' = u" and m: "canManageSource (Some u) (is_UserID s) = None"
    using assms(1) by (auto simp: managed_source_def GetIngestionSource_def requireAuthenticated_def split: sum.splits if_splits option.splits)
  have "TrimSpace (is_UserID s) \<noteq> []" "is_UserID s = au_ID u"
    using m assms(2) by (auto simp: canManageSource_def split: if_splits)
  then have "sr_user_id r = Some (au_ID u)"
    using r(2) by (cases "sr_user_id r") (simp_all add: scan_source_def coalesce_def)
  with r show ?thesis by (auto simp: find_source_def dest!: find_Some_mem)
qed

lemma foreign_frame: "t_sources d' = t_sources d \<Longrightarrow> t_keys d' = t_keys d \<Longrightarrow> t_shares d' = t_shares d \<Longrightarrow> foreign uid d' = foreign uid d"
  by (simp add: foreign_def foreign_sources_def)

lemma foreign_audit [simp]: "foreign uid (audit a b c e m now d) = foreign uid d"
  by (rule foreign_frame) (simp_all add: audit_def AppendAuditLog_def ins_audit_def split: if_splits)

lemma foreign_keys:
  assumes "\<And>k. k \<in> set (t_keys d) \<Longrightarrow> P k \<Longrightarrow> ky_source_id k \<notin> sr_id ` set (foreign_sources uid d)"
    "t_sources d' = t_sources d" "t_shares d' = t_shares d" "t_keys d' = sql_delete P (t_keys d)"
  shows "foreign uid d' = foreign uid d"
proof -
  have "foreign_sources uid d' = foreign_sources uid d" by (simp add: foreign_sources_def assms(2))
  moreover have "filter (\<lambda>k. ky_source_id k \<in> sr_id ` set (foreign_sources uid d)) (sql_delete P (t_keys d)) =
      filter (\<lambda>k. ky_source_id k \<in> sr_id ` set (foreign_sources uid d)) (t_keys d)"
    unfolding sql_delete_def filter_filter using assms(1) by (intro filter_cong) auto
  ultimately show ?thesis by (simp add: foreign_def assms(3,4))
qed

lemma own_not_foreign:
  assumes "db_ok d" "r \<in> set (t_sources d)" "sr_user_id r = Some uid"
  shows "sr_id r \<notin> sr_id ` set (foreign_sources uid d)"
proof
  assume "sr_id r \<in> sr_id ` set (foreign_sources uid d)"
  then obtain s where s: "s \<in> set (t_sources d)" "sr_user_id s \<noteq> Some uid" "sr_id s = sr_id r"
    by (auto simp: foreign_sources_def)
  have "s = r" by (rule uniq_inj [OF db_ok_uniq(14) [OF assms(1)] s(1) assms(2) s(3)])
  with s assms(3) show False by simp
qed

text \<open>An update of the rows of one's own source leaves the rest.\<close>

lemma foreign_own_update:
  assumes "\<And>r. r \<in> set (t_sources d) \<Longrightarrow> P r \<Longrightarrow> sr_user_id r = Some uid \<and> sr_user_id (f r) = Some uid"
    "t_sources d' = sql_update P f (t_sources d)" "t_keys d' = t_keys d" "t_shares d' = t_shares d"
  shows "foreign uid d' = foreign uid d"
proof -
  have "filter (\<lambda>s. sr_user_id s \<noteq> Some uid) (sql_update P f rows) = filter (\<lambda>s. sr_user_id s \<noteq> Some uid) rows"
    if "set rows \<subseteq> set (t_sources d)" for rows
    using that assms(1) by (induction rows) (auto simp: sql_update_def)
  then have "foreign_sources uid d' = foreign_sources uid d" by (simp add: foreign_sources_def assms(2))
  then show ?thesis by (simp add: foreign_def assms(3,4))
qed

lemma foreign_own_insert:
  assumes "t_sources d' = t_sources d @ [r]" "sr_user_id r = Some uid" "t_keys d' = t_keys d" "t_shares d' = t_shares d"
  shows "foreign uid d' = foreign uid d"
  using assms by (simp add: foreign_def foreign_sources_def)

lemma foreign_upsert:
  assumes "db_ok d" "UpsertIngestionSource s now d = (res, d')" "TrimSpace (is_UserID s) \<noteq> []" "is_UserID s = uid"
    "\<And>r. find_source (is_ID s) d = Some r \<Longrightarrow> sr_user_id r = Some uid"
  shows "foreign uid d' = foreign uid d"
proof (cases "find_source (is_ID s) d")
  case None
  have "d' = d \<or> (\<exists>r. d' = d\<lparr>t_sources := t_sources d @ [r]\<rparr> \<and> sr_user_id r = nullableString (is_UserID s))"
    using assms(2) None unfolding UpsertIngestionSource_def Let_def ins_sources_def
    by (simp split: if_splits sum.splits) auto
  then show ?thesis
  proof
    assume "\<exists>r. d' = d\<lparr>t_sources := t_sources d @ [r]\<rparr> \<and> sr_user_id r = nullableString (is_UserID s)"
    then obtain r where "d' = d\<lparr>t_sources := t_sources d @ [r]\<rparr>" "sr_user_id r = Some uid"
      using assms(3,4) by (auto simp: nullableString_def)
    then show ?thesis by (intro foreign_own_insert [of d' d r]) simp_all
  qed simp
next
  case (Some old)
  have own: "sr_user_id r = Some uid" if "r \<in> set (t_sources d)" "sr_id r = is_ID s" for r
    using find_uniq [OF db_ok_uniq(14) [OF assms(1)] that(1)] assms(5) [of r] that by (simp add: find_source_def)
  have "d' = d \<or> (\<exists>f. d' = d\<lparr>t_sources := sql_update (\<lambda>r. sr_id r = is_ID s) f (t_sources d)\<rparr> \<and>
      (\<forall>r. sr_user_id (f r) = (case sr_user_id r of None \<Rightarrow> nullableString (is_UserID s) | Some u \<Rightarrow> Some u)))"
    using assms(2) Some unfolding UpsertIngestionSource_def Let_def
    by (simp split: if_splits) (rule disjI2, rule exI, rule conjI, rule sym, erule conjunct2, simp)
  then show ?thesis
  proof
    assume "\<exists>f. d' = d\<lparr>t_sources := sql_update (\<lambda>r. sr_id r = is_ID s) f (t_sources d)\<rparr> \<and>
      (\<forall>r. sr_user_id (f r) = (case sr_user_id r of None \<Rightarrow> nullableString (is_UserID s) | Some u \<Rightarrow> Some u))"
    then obtain f where "d' = d\<lparr>t_sources := sql_update (\<lambda>r. sr_id r = is_ID s) f (t_sources d)\<rparr>"
      "\<And>r. sr_user_id (f r) = (case sr_user_id r of None \<Rightarrow> nullableString (is_UserID s) | Some u \<Rightarrow> Some u)" by blast
    then show ?thesis
      by (intro foreign_own_update [of d "\<lambda>r. sr_id r = is_ID s" uid f]) (simp_all add: own)
  qed simp
qed


definition shared_ids :: "db \<Rightarrow> string set" where
  "shared_ids d = sr_id ` {s \<in> set (t_sources d). sr_is_shared s}"

lemma shared_ids_frame: "t_sources d' = t_sources d \<Longrightarrow> shared_ids d' = shared_ids d"
  by (simp add: shared_ids_def)

lemma shared_upsert:
  assumes "UpsertIngestionSource s now d = (res, d')"
  shows "shared_ids d' \<subseteq> shared_ids d \<union> (if is_IsShared s then {is_ID s} else {})"
proof (cases "find_source (is_ID s) d")
  case None
  have "d' = d \<or> (\<exists>r. d' = d\<lparr>t_sources := t_sources d @ [r]\<rparr> \<and> sr_id r = is_ID s \<and> sr_is_shared r = is_IsShared s)"
    using assms None unfolding UpsertIngestionSource_def Let_def ins_sources_def
    by (simp split: if_splits sum.splits) auto
  then show ?thesis by (auto simp: shared_ids_def)
next
  case (Some old)
  have "d' = d \<or> (\<exists>f. d' = d\<lparr>t_sources := sql_update (\<lambda>r. sr_id r = is_ID s) f (t_sources d)\<rparr> \<and>
      (\<forall>r. sr_is_shared (f r) = is_IsShared s \<and> sr_id (f r) = sr_id r))"
    using assms Some unfolding UpsertIngestionSource_def Let_def
    by (simp split: if_splits) (rule disjI2, rule exI, rule conjI, rule sym, erule conjunct2, simp)
  then show ?thesis by (auto simp: shared_ids_def set_sql_update)
qed

lemma delete_rows:
  assumes "DeleteIngestionSource i now d = (b, d')"
  shows "d' = d \<or> t_sources d' = sql_update (\<lambda>r. sr_id r = i \<and> sr_deleted_at r = 0) (soft_delete now) (t_sources d) \<and>
    t_keys d' = sql_delete (\<lambda>k. ky_source_id k = i) (t_keys d) \<and> t_shares d' = t_shares d"
  using assms by (auto simp: DeleteIngestionSource_def Let_def split: if_splits)

lemma foreign_delete:
  assumes "db_ok d" "DeleteIngestionSource i now d = (b, d')" "r \<in> set (t_sources d)" "sr_id r = i" "sr_user_id r = Some uid"
  shows "foreign uid d' = foreign uid d \<and> shared_ids d' \<subseteq> shared_ids d"
proof -
  have own: "sr_user_id s = Some uid" if "s \<in> set (t_sources d)" "sr_id s = i" for s
    using uniq_inj [OF db_ok_uniq(14) [OF assms(1)] that(1) assms(3)] that(2) assms(4,5) by simp
  let ?d1 = "d\<lparr>t_keys := sql_delete (\<lambda>k. ky_source_id k = i) (t_keys d)\<rparr>"
  have 1: "foreign uid ?d1 = foreign uid d"
  proof (rule foreign_keys)
    fix k assume "ky_source_id k = i"
    then show "ky_source_id k \<notin> sr_id ` set (foreign_sources uid d)"
      using own_not_foreign [OF assms(1,3,5)] assms(4) by simp
  qed simp_all
  from delete_rows [OF assms(2)] show ?thesis
  proof
    assume d': "t_sources d' = sql_update (\<lambda>r. sr_id r = i \<and> sr_deleted_at r = 0) (soft_delete now) (t_sources d) \<and>
      t_keys d' = sql_delete (\<lambda>k. ky_source_id k = i) (t_keys d) \<and> t_shares d' = t_shares d"
    have "foreign uid d' = foreign uid ?d1"
      by (rule foreign_own_update [of ?d1 "\<lambda>r. sr_id r = i \<and> sr_deleted_at r = 0" uid "soft_delete now"])
        (use d' own in \<open>auto simp: soft_delete_def\<close>)
    moreover have "shared_ids d' \<subseteq> shared_ids d" using d' by (auto simp: shared_ids_def set_sql_update soft_delete_def)
    ultimately show ?thesis using 1 by simp
  qed simp
qed


lemma changed_source_own:
  assumes "changed_source u i existing rq = Inr s" "\<not> isAdmin u"
    "\<And>x. existing = Some x \<Longrightarrow> is_UserID x = au_ID u \<and> is_ID x = i"
  shows "is_UserID s = au_ID u \<and> is_ID s = i \<and> (is_IsShared s \<longrightarrow> (\<exists>x. existing = Some x \<and> is_IsShared x))"
  using assms
  by (cases existing)
    (auto simp: changed_source_def relabel_def zero_source_def Let_def split: option.splits if_splits)

lemma upsert_isolated:
  assumes "db_ok d" "\<not> isAdmin u" "TrimSpace (au_ID u) \<noteq> []"
    "handleUpsertIngestionSource (Some u) i body now d = (r, d')"
  shows "db_ok d' \<and> foreign (au_ID u) d' = foreign (au_ID u) d \<and> shared_ids d' \<subseteq> shared_ids d"
proof (cases "d' = d")
  case False
  obtain rq where body: "body = Some rq" using assms(4) False
    by (cases body) (auto simp: handleUpsertIngestionSource_def requireAuthenticated_def split: if_splits)
  let ?e = "GetIngestionSource i d"
  have may: "(case ?e of None \<Rightarrow> None | Some s \<Rightarrow> canManageSource (Some u) (is_UserID s)) = None"
    using assms(4) False body
    by (auto simp: handleUpsertIngestionSource_def requireAuthenticated_def Let_def split: if_splits option.splits)
  have own: "\<exists>row. find_source i d = Some row \<and> x = scan_source row \<and> sr_user_id row = Some (au_ID u)" if "?e = Some x" for x
  proof -
    obtain row where row: "find_source i d = Some row" "x = scan_source row" using \<open>?e = Some x\<close> by (auto simp: GetIngestionSource_def)
    have "canManageSource (Some u) (is_UserID x) = None" using may \<open>?e = Some x\<close> by simp
    then have "TrimSpace (is_UserID x) \<noteq> []" "is_UserID x = au_ID u"
      using assms(2) by (auto simp: canManageSource_def split: if_splits)
    then have "sr_user_id row = Some (au_ID u)" using row by (cases "sr_user_id row") (simp_all add: scan_source_def coalesce_def)
    with row show ?thesis by blast
  qed
  have own': "is_UserID x = au_ID u \<and> is_ID x = i" if "?e = Some x" for x
    using own [OF that] by (auto simp: scan_source_def coalesce_def find_source_def dest!: find_Some_mem)
  obtain s where s: "changed_source u i ?e rq = Inr s"
    using assms(4) False body may
    by (cases "changed_source u i ?e rq") (auto simp: handleUpsertIngestionSource_def requireAuthenticated_def Let_def split: if_splits)
  obtain x d1 where up: "UpsertIngestionSource s now d = (x, d1)" by force
  have d1: "d' = d1"
    using assms(4) False body may s up
    by (auto simp: handleUpsertIngestionSource_def requireAuthenticated_def Let_def split: if_splits sum.splits)
  from changed_source_own [OF s assms(2) own'] have s': "is_UserID s = au_ID u" "is_ID s = i"
    and sh: "is_IsShared s \<Longrightarrow> \<exists>x. ?e = Some x \<and> is_IsShared x" by blast+
  have "foreign (au_ID u) d1 = foreign (au_ID u) d"
    by (rule foreign_upsert [OF assms(1) up]) (use s' assms(3) own in \<open>auto simp: GetIngestionSource_def\<close>)
  moreover have "is_ID s \<in> shared_ids d" if shared: "is_IsShared s"
  proof -
    obtain y where y: "?e = Some y" "is_IsShared y" using sh [OF shared] by blast
    then obtain row where row: "find_source i d = Some row" "y = scan_source row" using own by blast
    then have "row \<in> set (t_sources d)" "sr_id row = is_ID s" "sr_is_shared row"
      using y s' by (auto simp: find_source_def scan_source_def dest!: find_Some_mem)
    then show ?thesis unfolding shared_ids_def by (metis (mono_tags, lifting) imageI mem_Collect_eq)
  qed
  then have "shared_ids d1 \<subseteq> shared_ids d" using shared_upsert [OF up] by (auto split: if_splits)
  moreover have "db_ok d1" using UpsertIngestionSource_ok [OF assms(1), of s now] up by simp
  ultimately show ?thesis by (simp add: d1)
qed (use assms(1) in simp)

lemma source_step_isolated:
  assumes "db_ok (nd_db n)" "\<not> isAdmin u" "TrimSpace (au_ID u) \<noteq> []" "source_step (Some u) (now, rq) n = (c, n')"
  shows "db_ok (nd_db n') \<and> foreign (au_ID u) (nd_db n') = foreign (au_ID u) (nd_db n) \<and> shared_ids (nd_db n') \<subseteq> shared_ids (nd_db n)"
proof (cases rq)
  case (SourceUpsert i body)
  obtain r d' where h: "handleUpsertIngestionSource (Some u) i body now (nd_db n) = (r, d')" by force
  with assms(4) SourceUpsert have "nd_db n' = d'" by (auto simp: on_node_def)
  with upsert_isolated [OF assms(1-3) h] show ?thesis by simp
next
  case (SourceDelete i)
  show ?thesis
  proof (cases "managed_source (Some u) i (nd_db n)")
    case (Inl e)
    with SourceDelete assms(1,4) show ?thesis by (auto simp: handleDeleteIngestionSource_def)
  next
    case (Inr p)
    obtain u' s where p: "p = (u', s)" by force
    from managed_source_own [OF Inr [unfolded p] assms(2)] obtain row where
      row: "row \<in> set (t_sources (nd_db n))" "sr_id row = i" "sr_user_id row = Some (au_ID u)" by blast
    obtain b d1 where del: "DeleteIngestionSource i now (nd_db n) = (b, d1)" by force
    note f = foreign_delete [OF assms(1) del row]
    have ok: "db_ok d1" using DeleteIngestionSource_ok [OF assms(1), of i now] del by simp
    have "nd_db n' = d1 \<or> (\<exists>x. nd_db n' = audit x ''source.soft_deleted'' ''source'' i [] now d1)"
      using SourceDelete assms(4) Inr p del by (cases b) (auto simp: handleDeleteIngestionSource_def)
    then show ?thesis
    proof
      assume "\<exists>x. nd_db n' = audit x ''source.soft_deleted'' ''source'' i [] now d1"
      then obtain x where n': "nd_db n' = audit x ''source.soft_deleted'' ''source'' i [] now d1" ..
      have "shared_ids (nd_db n') = shared_ids d1"
        unfolding n' by (rule shared_ids_frame) (simp add: audit_def AppendAuditLog_def ins_audit_def)
      with f ok audit_ok [OF ok] show ?thesis by (simp add: n')
    qed (use f ok in simp)
  qed
next
  case (KeyGenerate i ms key)
  obtain r d' where h: "handleGenerateSourceKey (Some u) i ms key (nd_db n) = (r, d')" by force
  with assms(4) KeyGenerate have n': "nd_db n' = d'" by (auto simp: on_node_def)
  show ?thesis
  proof (cases "managed_source (Some u) i (nd_db n)")
    case (Inl e)
    with h n' assms(1) show ?thesis by (simp add: handleGenerateSourceKey_def)
  next
    case (Inr p)
    obtain u' s where p: "p = (u', s)" by force
    from managed_source_own [OF Inr [unfolded p] assms(2)] obtain row where
      row: "row \<in> set (t_sources (nd_db n))" "sr_id row = i" "sr_user_id row = Some (au_ID u)" and s: "s = scan_source row" by blast
    obtain x d1 where g: "GenerateSourceKey s ms key (nd_db n) = (x, d1)" by force
    then have d': "d' = d1" using h Inr p by (auto simp: handleGenerateSourceKey_def split: sum.splits)
    have "d1 = nd_db n \<or> (\<exists>k. d1 = (nd_db n)\<lparr>t_keys := t_keys (nd_db n) @ [k]\<rparr> \<and> ky_source_id k = i)"
      using g row s unfolding GenerateSourceKey_def Let_def ins_keys_def
      by (auto simp: scan_source_def split: if_splits)
    then have "foreign (au_ID u) d1 = foreign (au_ID u) (nd_db n) \<and> shared_ids d1 = shared_ids (nd_db n)"
    proof
      assume "\<exists>k. d1 = (nd_db n)\<lparr>t_keys := t_keys (nd_db n) @ [k]\<rparr> \<and> ky_source_id k = i"
      then obtain k where k: "d1 = (nd_db n)\<lparr>t_keys := t_keys (nd_db n) @ [k]\<rparr>" "ky_source_id k = i" by blast
      with own_not_foreign [OF assms(1) row(1,3)] row(2) show ?thesis
        by (simp add: foreign_def foreign_sources_def shared_ids_def)
    qed simp
    moreover have "db_ok d1" using exec_source_ok [OF assms(1), of "OpGenerateKey s ms key"] g by simp
    ultimately show ?thesis by (simp add: n' d')
  qed
next
  case (KeyRevoke i kid)
  obtain r d' where h: "handleRevokeSourceKey (Some u) i kid (nd_db n) = (r, d')" by force
  with assms(4) KeyRevoke have n': "nd_db n' = d'" by (auto simp: on_node_def)
  show ?thesis
  proof (cases "d' = nd_db n")
    case False
    then obtain p where Inr: "managed_source (Some u) i (nd_db n) = Inr p" and d': "d' = RevokeSourceKey i kid (nd_db n)"
      using h by (auto simp: handleRevokeSourceKey_def requireAuthenticated_def split: if_splits sum.splits)
    obtain u' s where p: "p = (u', s)" by force
    from managed_source_own [OF Inr [unfolded p] assms(2)] obtain row where
      row: "row \<in> set (t_sources (nd_db n))" "sr_id row = i" "sr_user_id row = Some (au_ID u)" by blast
    have "foreign (au_ID u) d' = foreign (au_ID u) (nd_db n)"
    proof (rule foreign_keys [of "nd_db n" "\<lambda>k. ky_source_id k = i \<and> ky_id k = kid"])
      fix k assume "ky_source_id k = i \<and> ky_id k = kid"
      then show "ky_source_id k \<notin> sr_id ` set (foreign_sources (au_ID u) (nd_db n))"
        using own_not_foreign [OF assms(1) row(1,3)] row(2) by simp
    qed (simp_all add: d' RevokeSourceKey_def)
    moreover have "shared_ids d' = shared_ids (nd_db n)" by (rule shared_ids_frame) (simp add: d' RevokeSourceKey_def)
    moreover have "db_ok d'" using exec_source_ok [OF assms(1), of "OpRevokeKey i kid"] by (simp add: d')
    ultimately show ?thesis by (simp add: n')
  qed (use assms(1) n' in simp)
next
  case (SharesUpdate i body)
  then have "nd_db n' = nd_db n"
    using assms(2,4) by (simp add: on_node_def handleUpdateSourceShares_def requireAdmin_def requireAuthenticated_def)
  with assms(1) show ?thesis by simp
qed

text \<open>
  Property C13. Whatever a user who is no administrator asks of the source interface, in any number of requests, with any ids, keys and
  bodies: the sources of everybody else and of nobody, their upload keys and every share list stay as they are, no
  source becomes shared with everyone, and the schema's constraints hold.
\<close>

theorem source_requests_isolated:
  assumes "db_ok (nd_db n)" "\<not> isAdmin u" "TrimSpace (au_ID u) \<noteq> []"
  shows "let n' = run (\<lambda>x m. snd (source_step (Some u) x m)) rqs n in
    db_ok (nd_db n') \<and> foreign (au_ID u) (nd_db n') = foreign (au_ID u) (nd_db n) \<and> shared_ids (nd_db n') \<subseteq> shared_ids (nd_db n)"
  using assms(1)
proof (induction rqs arbitrary: n)
  case (Cons x rqs)
  obtain now rq where x: "x = (now, rq)" by force
  obtain c m where "source_step (Some u) (now, rq) n = (c, m)" by force
  with source_step_isolated [OF Cons.prems assms(2,3) this] Cons.IH [of m] show ?case by (auto simp: Let_def x)
qed simp

theorem source_requests_isolated_witness:
  "foreign ''usr_7000'' (nd_db (run (\<lambda>x m. snd (source_step (Some example_outsider) x m))
     [(30, SourceDelete ''north''), (31, SourceUpsert ''north'' None), (32, KeyGenerate ''north'' 9 ''k'')]
     \<lparr>nd_db = example_call_db, nd_hub = newHub, nd_streams = []\<rparr>)) = foreign ''usr_7000'' example_call_db"
proof -
  let ?n = "\<lparr>nd_db = example_call_db, nd_hub = newHub, nd_streams = []\<rparr> :: node"
  have 1: "db_ok (nd_db ?n)" "\<not> isAdmin example_outsider" "TrimSpace (au_ID example_outsider) \<noteq> []"
    using example_call_db_ok by (simp_all add: isAdmin_def example_outsider_def TrimSpace_def is_space_def)
  have "au_ID example_outsider = ''usr_7000''" by (simp add: example_outsider_def)
  with source_requests_isolated [OF 1, unfolded Let_def, THEN conjunct2, THEN conjunct1,
      of "[(30, SourceDelete ''north''), (31, SourceUpsert ''north'' None), (32, KeyGenerate ''north'' 9 ''k'')]"]
  show ?thesis by (simp only: node.select_convs)
qed


end
