(* ===== verification/Recorder.thy ===== *)
theory Recorder
  imports Audio "HOL-Library.Sublist"
begin

unbundle bit_operations_syntax

text \<open>
  The recorder of \<open>tools/p7-recorder-go/cmd/p7-recorder-go/main.go\<close> up to its queue: the pre-roll ring, the level of a
  block of samples, the loop that cuts the capture into calls, the WAV file of a call, and the settings. The upload
  queue and the folder ingest are in \<open>RecorderQueue\<close>. The sound device, the TOML parser and the clock are arguments.
\<close>

section \<open>The pre-roll ring\<close>

record ring =
  rg_items :: "bytes list"
  rg_cap :: int
  rg_start :: nat

definition newRing :: "int \<Rightarrow> ring" where
  "newRing capacity = \<lparr>rg_items = [], rg_cap = capacity, rg_start = 0\<rparr>"

definition ring_Add :: "bytes \<Rightarrow> ring \<Rightarrow> ring" where
  "ring_Add v r =
     (if rg_cap r \<le> 0 then r
      else if int (length (rg_items r)) < rg_cap r then r\<lparr>rg_items := rg_items r @ [v]\<rparr>
      else r\<lparr>rg_items := (rg_items r)[rg_start r := v], rg_start := (rg_start r + 1) mod nat (rg_cap r)\<rparr>)"

definition ring_Items :: "ring \<Rightarrow> bytes list" where
  "ring_Items r = map (\<lambda>i. rg_items r ! ((rg_start r + i) mod length (rg_items r))) [0..<length (rg_items r)]"

definition ring_Clear :: "ring \<Rightarrow> ring" where
  "ring_Clear r = r\<lparr>rg_items := [], rg_start := 0\<rparr>"

section \<open>The level of a block\<close>

definition le16 :: "8 word \<Rightarrow> 8 word \<Rightarrow> 16 word" where
  "le16 a b = ucast a OR push_bit 8 (ucast b)"

fun samples16 :: "bytes \<Rightarrow> int list" where
  "samples16 (a # b # rest) = sint (le16 a b) # samples16 rest"
| "samples16 _ = []"

text \<open>The integer part of a square root.\<close>

fun isqrt :: "nat \<Rightarrow> nat" where
  "isqrt n = (if n = 0 then 0 else (let r = 2 * isqrt (n div 4) in if (r + 1) * (r + 1) \<le> n then r + 1 else r))"

declare isqrt.simps [simp del]

text \<open>
  \<open>int(math.Sqrt(float64(total) / float64(samples)))\<close>. For blocks below a million samples both operations are exact
  enough for the truncation to give the integer part of the exact root.
\<close>

definition rmsInt16 :: "bytes \<Rightarrow> int" where
  "rmsInt16 block =
     (if length block < 2 then 0
      else (let total = sum_list (map (\<lambda>s. s * s) (samples16 block)) in
            int (isqrt (nat total div (length block div 2)))))"

section \<open>Cutting the capture into calls\<close>

record AudioConfig =
  aud_Device :: string
  aud_SampleRate :: int
  aud_Channels :: int
  aud_BlockMS :: int
  aud_Threshold :: int
  aud_SilenceMS :: int
  aud_MinDurationMS :: int
  aud_MaxDurationSec :: int
  aud_PreRollMS :: int

text \<open>Go's division truncates; after \<open>max\<close> with 0 or 1 a negative quotient gives the same either way.\<close>

definition silenceBlocksRequired :: "AudioConfig \<Rightarrow> int" where
  "silenceBlocksRequired a = max 1 (aud_SilenceMS a div aud_BlockMS a)"

definition minBlocks :: "AudioConfig \<Rightarrow> int" where
  "minBlocks a = max 1 (aud_MinDurationMS a div aud_BlockMS a)"

definition maxBlocks :: "AudioConfig \<Rightarrow> int" where
  "maxBlocks a = max 1 (aud_MaxDurationSec a * 1000 div aud_BlockMS a)"

definition preRollBlocks :: "AudioConfig \<Rightarrow> int" where
  "preRollBlocks a = max 0 (aud_PreRollMS a div aud_BlockMS a)"

definition voice :: "AudioConfig \<Rightarrow> bytes \<Rightarrow> bool" where
  "voice a block \<longleftrightarrow> aud_Threshold a \<le> rmsInt16 block"

record vox =
  vx_preRoll :: ring
  vx_activeBlocks :: "bytes list"
  vx_active :: bool
  vx_silentBlocks :: int
  vx_startedAt :: int

definition vox_start :: "AudioConfig \<Rightarrow> vox" where
  "vox_start a = \<lparr>vx_preRoll = newRing (preRollBlocks a), vx_activeBlocks = [], vx_active = False, vx_silentBlocks = 0, vx_startedAt = 0\<rparr>"

text \<open>How a burst ends: queued as a call, with its start, or discarded.\<close>

datatype burst = Queued "bytes list" int | Discarded "bytes list"

text \<open>One block from the capture at time \<open>now\<close>.\<close>

definition vox_block :: "AudioConfig \<Rightarrow> int \<Rightarrow> bytes \<Rightarrow> vox \<Rightarrow> burst option \<times> vox" where
  "vox_block a now block v =
     (if \<not> vx_active v then
        (let ring = ring_Add block (vx_preRoll v) in
         if voice a block
         then (None, v\<lparr>vx_preRoll := ring, vx_active := True, vx_silentBlocks := 0, vx_startedAt := now,
                       vx_activeBlocks := ring_Items ring\<rparr>)
         else (None, v\<lparr>vx_preRoll := ring\<rparr>))
      else
        (let blocks = vx_activeBlocks v @ [block];
             silent = (if voice a block then 0 else vx_silentBlocks v + 1) in
         if silent \<ge> silenceBlocksRequired a \<or> int (length blocks) \<ge> maxBlocks a
         then (Some (if int (length blocks) \<ge> minBlocks a then Queued blocks (vx_startedAt v) else Discarded blocks),
               v\<lparr>vx_active := False, vx_activeBlocks := [], vx_preRoll := ring_Clear (vx_preRoll v), vx_silentBlocks := 0\<rparr>)
         else (None, v\<lparr>vx_activeBlocks := blocks, vx_silentBlocks := silent\<rparr>)))"

definition startedAtOrNow :: "int \<Rightarrow> int \<Rightarrow> int" where
  "startedAtOrNow now t = (if t > 0 then t else now)"

text \<open>The context is cancelled.\<close>

definition vox_stop :: "AudioConfig \<Rightarrow> int \<Rightarrow> vox \<Rightarrow> burst option" where
  "vox_stop a now v =
     (if vx_active v \<and> int (length (vx_activeBlocks v)) \<ge> minBlocks a
      then Some (Queued (vx_activeBlocks v) (startedAtOrNow now (vx_startedAt v))) else None)"

fun vox_run :: "AudioConfig \<Rightarrow> (int \<times> bytes) list \<Rightarrow> vox \<Rightarrow> burst list \<times> vox" where
  "vox_run a [] v = ([], v)"
| "vox_run a ((now, block) # rest) v =
     (case vox_block a now block v of (b, v1) \<Rightarrow>
        case vox_run a rest v1 of (bs, v2) \<Rightarrow> ((case b of None \<Rightarrow> bs | Some x \<Rightarrow> x # bs), v2))"

section \<open>The file of a call\<close>

definition put16 :: "16 word \<Rightarrow> bytes" where
  "put16 w = [ucast w, ucast (drop_bit 8 w)]"

definition put32 :: "32 word \<Rightarrow> bytes" where
  "put32 w = [ucast w, ucast (drop_bit 8 w), ucast (drop_bit 16 w), ucast (drop_bit 24 w)]"

definition writeWAVWriter :: "bytes \<Rightarrow> int \<Rightarrow> int \<Rightarrow> bytes" where
  "writeWAVWriter pcm sampleRate channels =
     (let dataSize = (word_of_nat (length pcm) :: 32 word); byteRate = (word_of_int (sampleRate * channels * 2) :: 32 word);
          blockAlign = (word_of_int (channels * 2) :: 16 word) in
      ascii ''RIFF'' @ put32 (36 + dataSize) @ ascii ''WAVEfmt '' @
      put32 16 @ put16 1 @ put16 (word_of_int channels) @ put32 (word_of_int sampleRate) @ put32 byteRate @ put16 blockAlign @ put16 16 @
      ascii ''data'' @ put32 dataSize @ pcm)"

definition joinBlocks :: "bytes list \<Rightarrow> bytes" where
  "joinBlocks blocks = concat blocks"


section \<open>The ring holds the last blocks\<close>

definition last_n :: "int \<Rightarrow> 'a list \<Rightarrow> 'a list" where
  "last_n n xs = drop (length xs - nat n) xs"

definition ring_ok :: "int \<Rightarrow> ring \<Rightarrow> bool" where
  "ring_ok n r \<longleftrightarrow> rg_cap r = n \<and> length (rg_items r) \<le> nat n \<and>
     (if length (rg_items r) < nat n then rg_start r = 0 else rg_start r = 0 \<or> rg_start r < nat n)"

lemma ring_Items_rotate: "ring_Items r = rotate (rg_start r) (rg_items r)"
  by (rule nth_equalityI) (simp_all add: ring_Items_def nth_rotate)

lemma rotate_update:
  assumes "s < length xs"
  shows "rotate (Suc s) (xs[s := v]) = tl (rotate s xs) @ [v]"
proof -
  have "rotate s (xs[s := v]) = v # drop (Suc s) xs @ take s xs"
    using assms by (simp add: rotate_drop_take upd_conv_take_nth_drop)
  moreover have "rotate s xs = xs ! s # drop (Suc s) xs @ take s xs"
    using assms by (simp add: rotate_drop_take Cons_nth_drop_Suc)
  ultimately show ?thesis by simp
qed

lemma ring_Add_Items:
  assumes "ring_ok n r"
  shows "ring_ok n (ring_Add v r) \<and> ring_Items (ring_Add v r) = last_n n (ring_Items r @ [v])"
proof (cases "n \<le> 0")
  case True
  with assms show ?thesis by (simp add: ring_ok_def ring_Add_def ring_Items_def last_n_def)
next
  case pos: False
  show ?thesis
  proof (cases "length (rg_items r) < nat n")
    case True
    with assms pos show ?thesis
      by (auto simp: ring_ok_def ring_Add_def ring_Items_rotate last_n_def)
  next
    case False
    let ?s = "rg_start r" and ?xs = "rg_items r"
    have len: "length ?xs = nat n" and s: "?s < length ?xs" and cap: "rg_cap r = n" using assms False pos by (auto simp: ring_ok_def split: if_splits)
    have add: "ring_Add v r = r\<lparr>rg_items := ?xs[?s := v], rg_start := (?s + 1) mod nat n\<rparr>"
      using pos cap len by (simp add: ring_Add_def)
    have "ring_Items (ring_Add v r) = rotate (Suc ?s) (?xs[?s := v])"
      using rotate_conv_mod [of "Suc ?s" "?xs[?s := v]"] len by (simp add: add ring_Items_rotate)
    also have "\<dots> = tl (rotate ?s ?xs) @ [v]" by (rule rotate_update [OF s])
    also have "\<dots> = last_n n (ring_Items r @ [v])"
      using len pos by (cases "rotate ?s ?xs") (auto simp: last_n_def ring_Items_rotate drop_Suc dest: arg_cong [of _ _ length])
    finally show ?thesis using len pos cap by (simp add: add ring_ok_def)
  qed
qed

lemma ring_Clear_Items [simp]: "ring_ok n r \<Longrightarrow> ring_ok n (ring_Clear r)" "ring_Items (ring_Clear r) = []"
  by (auto simp: ring_ok_def ring_Clear_def ring_Items_def)

lemma newRing_Items [simp]: "ring_ok n (newRing n)" "ring_Items (newRing n) = []"
  by (auto simp: ring_ok_def newRing_def ring_Items_def)

lemma last_n_suffix: "suffix (last_n n xs) xs"
  by (simp add: last_n_def suffix_drop)

lemma last_n_last_n: "last_n n (last_n n xs @ ys) = last_n n (xs @ ys)"
proof (cases "length xs \<le> nat n")
  case False
  then have "length xs = (length xs - nat n) + nat n" by simp
  have "xs = take (length xs - nat n) xs @ last_n n xs" by (simp add: last_n_def)
  moreover have "length (last_n n xs) = nat n" using False by (simp add: last_n_def)
  ultimately obtain us ws where xs: "xs = us @ ws" "last_n n xs = ws" "length ws = nat n" by metis
  then show ?thesis by (simp add: last_n_def)
qed (simp add: last_n_def)

text \<open>
  After any blocks the ring gives back the last of them, as many as it holds, in the order they came.
\<close>

theorem ring_keeps_last:
  "ring_Items (foldl (\<lambda>r v. ring_Add v r) (newRing n) blocks) = last_n n blocks"
proof -
  have "ring_ok n r \<Longrightarrow> ring_Items r = last_n n xs \<Longrightarrow>
      ring_Items (foldl (\<lambda>r v. ring_Add v r) r blocks) = last_n n (xs @ blocks)" for r xs
    using ring_Add_Items by (induction blocks arbitrary: r xs) (simp_all add: last_n_last_n)
  from this [of "newRing n" "[]"] show ?thesis by (simp add: last_n_def)
qed

lemma isqrt_spec: "isqrt n * isqrt n \<le> n \<and> n < (isqrt n + 1) * (isqrt n + 1)"
proof (induction n rule: isqrt.induct)
  case (1 n)
  show ?case
  proof (cases "n = 0")
    case False
    let ?q = "isqrt (n div 4)"
    have ih: "?q * ?q \<le> n div 4" "n div 4 < (?q + 1) * (?q + 1)" using 1 False by auto
    then have "4 * (?q * ?q) \<le> n" "n < 4 * ((?q + 1) * (?q + 1))" by (linarith, linarith)
    then have "(2 * ?q) * (2 * ?q) \<le> n" "n < (2 * ?q + 2) * (2 * ?q + 2)" by (simp_all add: algebra_simps)
    then show ?thesis using False by (subst (1 2 3 4) isqrt.simps) (simp add: Let_def algebra_simps)
  qed (simp add: isqrt.simps)
qed


section \<open>Every sound is in one call\<close>

fun burst_blocks :: "burst \<Rightarrow> bytes list" where
  "burst_blocks (Queued blocks t) = blocks"
| "burst_blocks (Discarded blocks) = blocks"

definition quiet :: "AudioConfig \<Rightarrow> bytes list \<Rightarrow> bool" where
  "quiet a blocks \<longleftrightarrow> (\<forall>b \<in> set blocks. \<not> voice a b)"

text \<open>
  The state against \<open>cur\<close>, the blocks since the last burst ended: while a burst is on they are silence and then the burst; between
  bursts they are silence, and the ring holds the last of them.
\<close>

definition vox_inv :: "AudioConfig \<Rightarrow> bytes list \<Rightarrow> vox \<Rightarrow> bool" where
  "vox_inv a cur v \<longleftrightarrow> ring_ok (preRollBlocks a) (vx_preRoll v) \<and>
     (if vx_active v then (\<exists>g. quiet a g \<and> cur = g @ vx_activeBlocks v)
      else quiet a cur \<and> ring_Items (vx_preRoll v) = last_n (preRollBlocks a) cur)"

lemma vox_block_inv:
  assumes "vox_inv a cur v" "1 \<le> preRollBlocks a" "vox_block a now block v = (out, v')"
  shows "case out of
      None \<Rightarrow> vox_inv a (cur @ [block]) v'
    | Some x \<Rightarrow> (\<exists>g. quiet a g \<and> cur @ [block] = g @ burst_blocks x) \<and> vox_inv a [] v'"
proof (cases "vx_active v")
  case False
  let ?n = "preRollBlocks a"
  have ring: "ring_ok ?n (ring_Add block (vx_preRoll v))"
    and items: "ring_Items (ring_Add block (vx_preRoll v)) = last_n ?n (cur @ [block])"
    using assms(1) False ring_Add_Items [of ?n "vx_preRoll v" block] by (simp_all add: vox_inv_def last_n_last_n)
  show ?thesis
  proof (cases "voice a block")
    case True
    have "quiet a (take (length (cur @ [block]) - nat ?n) cur)"
      using assms(1) False by (auto simp: vox_inv_def quiet_def dest: in_set_takeD)
    moreover have "cur @ [block] = take (length (cur @ [block]) - nat ?n) cur @ last_n ?n (cur @ [block])"
      using assms(2) by (simp add: last_n_def)
    ultimately show ?thesis
      using assms(3) False True ring items by (auto simp: vox_block_def vox_inv_def Let_def)
  next
    case quiet: False
    with assms(1,3) False ring items show ?thesis by (auto simp: vox_block_def vox_inv_def quiet_def Let_def)
  qed
next
  case True
  then obtain g where g: "quiet a g" "cur = g @ vx_activeBlocks v" and ring: "ring_ok (preRollBlocks a) (vx_preRoll v)"
    using assms(1) by (auto simp: vox_inv_def)
  show ?thesis
    using assms(3) True g ring
    by (auto simp: vox_block_def vox_inv_def quiet_def Let_def last_n_def split: if_splits)
qed

text \<open>
  Property C17. No sound is lost and none is recorded twice. Whatever is captured, the blocks are, in order, stretches of silence that are
  dropped and the bursts the loop ends, each once and without a gap, and at the end silence or the burst still on:
  every block at or over the threshold is in exactly one burst. It takes a pre-roll of at least one block.
\<close>

theorem vox_partition:
  assumes "1 \<le> preRollBlocks a" "vox_run a input (vox_start a) = (bursts, v)"
  shows "\<exists>gaps last. length gaps = length bursts \<and> list_all (quiet a) gaps \<and> quiet a last \<and>
    map snd input = concat (map2 (\<lambda>g b. g @ burst_blocks b) gaps bursts) @ last @ (if vx_active v then vx_activeBlocks v else [])"
proof -
  have "vox_run a input v0 = (bursts, v) \<Longrightarrow> vox_inv a cur v0 \<Longrightarrow>
    \<exists>gaps last. length gaps = length bursts \<and> list_all (quiet a) gaps \<and> quiet a last \<and>
    cur @ map snd input = concat (map2 (\<lambda>g b. g @ burst_blocks b) gaps bursts) @ last @ (if vx_active v then vx_activeBlocks v else [])"
    for v0 cur
  proof (induction input arbitrary: v0 cur bursts)
    case Nil
    then show ?case by (cases "vx_active v") (auto simp: vox_inv_def intro!: exI [of _ "[]"])
  next
    case (Cons p input)
    obtain now block where p: "p = (now, block)" by force
    obtain out v1 where 1: "vox_block a now block v0 = (out, v1)" by force
    obtain bs v2 where 2: "vox_run a input v1 = (bs, v2)" by force
    note step = vox_block_inv [OF Cons.prems(2) assms(1) 1]
    show ?case
    proof (cases out)
      case None
      with Cons.prems(1) 1 2 p have "vox_run a input v1 = (bursts, v)" by simp
      from Cons.IH [OF this, of "cur @ [block]"] step None p show ?thesis by simp
    next
      case (Some x)
      with Cons.prems(1) 1 2 p have run: "vox_run a input v1 = (bs, v)" and b: "bursts = x # bs" by simp_all
      from step Some obtain g where g: "quiet a g" "cur @ [block] = g @ burst_blocks x" and "vox_inv a [] v1" by auto
      from Cons.IH [OF run this(3)] obtain gaps last where
        "length gaps = length bs" "list_all (quiet a) gaps" "quiet a last"
        "map snd input = concat (map2 (\<lambda>g b. g @ burst_blocks b) gaps bs) @ last @ (if vx_active v then vx_activeBlocks v else [])"
        by auto
      moreover have "cur @ map snd (p # input) = (cur @ [block]) @ map snd input" by (simp add: p)
      ultimately show ?thesis using g by (intro exI [of _ "g # gaps"] exI [of _ last]) (simp add: b)
    qed
  qed
  moreover have "vox_inv a [] (vox_start a)" by (simp add: vox_inv_def vox_start_def quiet_def last_n_def)
  ultimately show ?thesis using assms(2) by force
qed

definition example_audio :: AudioConfig where
  "example_audio = \<lparr>aud_Device = [], aud_SampleRate = 10, aud_Channels = 1, aud_BlockMS = 100, aud_Threshold = 10, aud_SilenceMS = 200,
     aud_MinDurationMS = 400, aud_MaxDurationSec = 120, aud_PreRollMS = 100\<rparr>"

definition example_capture :: "(int \<times> bytes) list" where
  "example_capture = [(1, [0, 0]), (2, [20, 0]), (3, [1, 0]), (4, [0, 0]), (5, [0, 0]),
     (6, [0xF0, 0xFF]), (7, [0, 0]), (8, [20, 0]), (9, [0, 0])]"

lemma example_levels:
  "rmsInt16 [0, 0] = 0" "rmsInt16 [1, 0] = 1" "rmsInt16 [0xF0, 0xFF] = 16" "rmsInt16 [20, 0] = 20"
  by (simp_all add: rmsInt16_def le16_def isqrt.simps push_bit_eq_mult)

lemma example_sizes:
  "preRollBlocks example_audio = 1" "silenceBlocksRequired example_audio = 2" "minBlocks example_audio = 4" "maxBlocks example_audio = 1200"
  "aud_Threshold example_audio = 10"
  by (simp_all add: preRollBlocks_def silenceBlocksRequired_def minBlocks_def maxBlocks_def example_audio_def)

lemma example_capture_run:
  "vox_run example_audio example_capture (vox_start example_audio) =
     ([Discarded [[20, 0], [1, 0], [0, 0]]],
      \<lparr>vx_preRoll = \<lparr>rg_items = [[0xF0, 0xFF]], rg_cap = 1, rg_start = 0\<rparr>,
       vx_activeBlocks = [[0xF0, 0xFF], [0, 0], [20, 0], [0, 0]], vx_active = True, vx_silentBlocks = 1, vx_startedAt = 6\<rparr>)"
  by (simp add: example_capture_def vox_start_def vox_block_def voice_def example_levels example_sizes newRing_def ring_Add_def
      ring_Items_def ring_Clear_def)

theorem vox_partition_witness:
  "\<exists>gaps last. length gaps = 1 \<and> list_all (quiet example_audio) gaps \<and> quiet example_audio last \<and>
    map snd example_capture = concat (map2 (\<lambda>g b. g @ burst_blocks b) gaps [Discarded [[20, 0], [1, 0], [0, 0]]]) @ last @
      [[0xF0, 0xFF], [0, 0], [20, 0], [0, 0]]"
  using vox_partition [OF _ example_capture_run] by (simp add: preRollBlocks_def example_audio_def)

text \<open>Lengths while a burst is on.\<close>

definition vox_len :: "AudioConfig \<Rightarrow> vox \<Rightarrow> bool" where
  "vox_len a v \<longleftrightarrow> ring_ok (preRollBlocks a) (vx_preRoll v) \<and>
     (vx_active v \<longrightarrow> 0 \<le> vx_silentBlocks v \<and> vx_silentBlocks v \<le> int (length (vx_activeBlocks v)) \<and>
        int (length (vx_activeBlocks v)) \<le> max (preRollBlocks a) (maxBlocks a - 1))"

lemma vox_block_len:
  assumes "vox_len a v" "vox_block a now block v = (out, v')"
  shows "vox_len a v' \<and> (\<forall>x. out = Some x \<longrightarrow>
    int (length (burst_blocks x)) \<le> max (preRollBlocks a + 1) (maxBlocks a) \<and>
    (int (length (burst_blocks x)) \<ge> silenceBlocksRequired a \<or> int (length (burst_blocks x)) \<ge> maxBlocks a) \<and>
    (case x of Queued b t \<Rightarrow> minBlocks a \<le> int (length b) | Discarded b \<Rightarrow> int (length b) < minBlocks a))"
proof (cases "vx_active v")
  case False
  have "ring_ok (preRollBlocks a) (ring_Add block (vx_preRoll v))" using assms(1) ring_Add_Items by (simp add: vox_len_def)
  moreover from this have "int (length (ring_Items (ring_Add block (vx_preRoll v)))) \<le> preRollBlocks a"
    by (simp add: ring_ok_def ring_Items_def preRollBlocks_def split: if_splits)
  ultimately show ?thesis using assms False by (auto simp: vox_block_def vox_len_def Let_def split: if_splits)
next
  case True
  with assms show ?thesis
    by (auto simp: vox_block_def vox_len_def Let_def max_def split: if_splits)
qed

lemma vox_run_len:
  "vox_run a input v = (bursts, v') \<Longrightarrow> vox_len a v \<Longrightarrow> x \<in> set bursts \<Longrightarrow>
    int (length (burst_blocks x)) \<le> max (preRollBlocks a + 1) (maxBlocks a) \<and>
    (int (length (burst_blocks x)) \<ge> silenceBlocksRequired a \<or> int (length (burst_blocks x)) \<ge> maxBlocks a) \<and>
    (case x of Queued b t \<Rightarrow> minBlocks a \<le> int (length b) | Discarded b \<Rightarrow> int (length b) < minBlocks a)"
proof (induction input arbitrary: v bursts)
  case (Cons p input)
  obtain now block where p: "p = (now, block)" by force
  obtain out v1 where 1: "vox_block a now block v = (out, v1)" by force
  obtain bs v2 where 2: "vox_run a input v1 = (bs, v2)" by force
  note step = vox_block_len [OF Cons.prems(2) 1]
  have "(bs, v2) = (bs, v')" and b: "bursts = (case out of None \<Rightarrow> bs | Some y \<Rightarrow> y # bs)" using Cons.prems(1) 1 2 p by simp_all
  with 2 have run: "vox_run a input v1 = (bs, v')" by simp
  show ?case
  proof (cases "x \<in> set bs")
    case True
    then show ?thesis using Cons.IH [OF run _ True] step by blast
  next
    case False
    then have "out = Some x" using Cons.prems(3) b by (auto split: option.splits)
    with step show ?thesis by blast
  qed
qed simp

lemma vox_len_start: "vox_len a (vox_start a)"
  by (simp add: vox_len_def vox_start_def)

text \<open>
  A queued call is never shorter than the minimum and never longer than the maximum, or the pre-roll and one block when the
  pre-roll is longer than the maximum.
\<close>

theorem call_length_bounds:
  assumes "vox_run a input (vox_start a) = (bursts, v)" "Queued blocks t \<in> set bursts"
  shows "minBlocks a \<le> int (length blocks) \<and> int (length blocks) \<le> max (preRollBlocks a + 1) (maxBlocks a)"
  using vox_run_len [OF assms(1) vox_len_start assms(2)] by simp

text \<open>
  The minimum length has no effect unless it is longer than the closing silence: the blocks counted include the silence that ends
  the burst, so with the shipped settings (400 ms, 1200 ms of silence) not even a click of one block is discarded.
\<close>

theorem short_bursts_kept:
  assumes "minBlocks a \<le> silenceBlocksRequired a" "minBlocks a \<le> maxBlocks a" "vox_run a input (vox_start a) = (bursts, v)"
  shows "Discarded blocks \<notin> set bursts"
  using vox_run_len [OF assms(3) vox_len_start, of "Discarded blocks"] assms(1,2) by auto


end
