(* ===== verification/RecorderQueue.thy ===== *)
theory RecorderQueue
  imports Recorder Uploads "HOL-Library.AList" "HOL-Library.Char_ord" "HOL-Library.List_Lexorder"
begin

text \<open>
  The upload queue of \<open>tools/p7-recorder-go/cmd/p7-recorder-go/main.go\<close>: calls and ingested files are put into the
  queue directory with a JSON file beside each, \<open>FlushQueue\<close> uploads them in the order of their names, and a file goes
  when the hub has accepted it. Every system call can fail; the hub is an argument, and later the upload handler of
  \<open>Uploads\<close>.
\<close>

section \<open>Files\<close>

text \<open>
  A path is its directory and its name, as \<open>filepath.Join\<close> puts them together. A file is bytes or the JSON the recorder
  writes, a map of strings; \<open>Folder\<close> is a directory.
\<close>

type_synonym path = "string \<times> string"
type_synonym queuedFields = "(string \<times> string) list"

datatype content = Bytes bytes | Sidecar queuedFields | Folder

record entry =
  en_content :: content
  en_mtime :: int

type_synonym disk = "(path \<times> entry) list"

definition join_path :: "path \<Rightarrow> string" where
  "join_path p = (if fst p = ''.'' then snd p else if fst p = ''/'' then ''/'' @ snd p else fst p @ ''/'' @ snd p)"

definition split_path :: "string \<Rightarrow> path" where
  "split_path s =
     (let name = rev (takeWhile (\<lambda>c. c \<noteq> CHR ''/'') (rev s)); rest = rev (dropWhile (\<lambda>c. c \<noteq> CHR ''/'') (rev s)) in
      (if rest = [] then ''.'' else if rest = ''/'' then ''/'' else butlast rest, name))"

text \<open>The system calls the recorder makes, each of which may fail.\<close>

datatype os_op =
    MkdirAll string
  | ReadDir string
  | Stat path
  | ReadFile path
  | WriteFile path
  | Remove path
  | Rename path path

text \<open>
  Which call fails with what, what a failed write leaves behind, the clock in nanoseconds and the random suffix when a file of
  that name is queued.
\<close>

record os_env =
  os_fail :: "os_op \<Rightarrow> disk \<Rightarrow> string option"
  os_left :: "path \<Rightarrow> disk \<Rightarrow> bytes option"
  os_now :: "string \<Rightarrow> int"
  os_suffix :: "string \<Rightarrow> string"

text \<open>Directories above the last one are not listed by anything and are left out.\<close>

definition mkdir_all :: "os_env \<Rightarrow> string \<Rightarrow> disk \<Rightarrow> string option \<times> disk" where
  "mkdir_all env dir d =
     (case os_fail env (MkdirAll dir) d of
        Some e \<Rightarrow> (Some e, d)
      | None \<Rightarrow> (None, if map_of d (split_path dir) = None
                     then AList.update (split_path dir) \<lparr>en_content = Folder, en_mtime = os_now env dir\<rparr> d else d))"

definition read_dir :: "os_env \<Rightarrow> string \<Rightarrow> disk \<Rightarrow> string + string list" where
  "read_dir env dir d =
     (case os_fail env (ReadDir dir) d of
        Some e \<Rightarrow> Inl e
      | None \<Rightarrow> Inr (sort (map (snd \<circ> fst) (filter (\<lambda>(p, f). fst p = dir) d))))"

definition is_dir :: "path \<Rightarrow> disk \<Rightarrow> bool" where
  "is_dir p d = (case map_of d p of Some f \<Rightarrow> en_content f = Folder | None \<Rightarrow> False)"

text \<open>The entry, \<open>None\<close> for \<open>os.ErrNotExist\<close>.\<close>

definition stat :: "os_env \<Rightarrow> path \<Rightarrow> disk \<Rightarrow> string + entry option" where
  "stat env p d = (case os_fail env (Stat p) d of Some e \<Rightarrow> Inl e | None \<Rightarrow> Inr (map_of d p))"

definition read_file :: "os_env \<Rightarrow> path \<Rightarrow> disk \<Rightarrow> string + content" where
  "read_file env p d =
     (case os_fail env (ReadFile p) d of
        Some e \<Rightarrow> Inl e
      | None \<Rightarrow> (case map_of d p of
          None \<Rightarrow> Inl ''no such file or directory''
        | Some f \<Rightarrow> if en_content f = Folder then Inl ''is a directory'' else Inr (en_content f)))"

definition put_file :: "os_env \<Rightarrow> path \<Rightarrow> content \<Rightarrow> disk \<Rightarrow> string option \<times> disk" where
  "put_file env p c d =
     (let put = (\<lambda>x. AList.update p \<lparr>en_content = x, en_mtime = os_now env (snd p)\<rparr> d) in
      if is_dir p d then (Some ''is a directory'', d)
      else (case os_fail env (WriteFile p) d of
          None \<Rightarrow> (None, put c)
        | Some e \<Rightarrow> (Some e, case os_left env p d of None \<Rightarrow> d | Some b \<Rightarrow> put (Bytes b))))"

definition remove_file :: "os_env \<Rightarrow> path \<Rightarrow> disk \<Rightarrow> string option \<times> disk" where
  "remove_file env p d =
     (case os_fail env (Remove p) d of
        Some e \<Rightarrow> (Some e, d)
      | None \<Rightarrow> if map_of d p = None then (Some ''no such file or directory'', d) else (None, AList.delete p d))"

definition rename_file :: "os_env \<Rightarrow> path \<Rightarrow> path \<Rightarrow> disk \<Rightarrow> string option \<times> disk" where
  "rename_file env p q d =
     (case os_fail env (Rename p q) d of
        Some e \<Rightarrow> (Some e, d)
      | None \<Rightarrow> (case map_of d p of
          None \<Rightarrow> (Some ''no such file or directory'', d)
        | Some f \<Rightarrow> if is_dir q d then (Some ''file exists'', d) else (None, AList.update q f (AList.delete p d))))"

text \<open>What is left of a copy that failed is up to the environment, as for any write.\<close>

definition copyFile :: "os_env \<Rightarrow> path \<Rightarrow> path \<Rightarrow> disk \<Rightarrow> string option \<times> disk" where
  "copyFile env p q d =
     (case read_file env p d of
        Inl e \<Rightarrow> (Some e, d)
      | Inr c \<Rightarrow> (case mkdir_all env (fst q) d of
          (Some e, d1) \<Rightarrow> (Some e, d1)
        | (None, d1) \<Rightarrow> put_file env q c d1))"

text \<open>
  \<open>candidate-1\<close>, \<open>candidate-2\<close> and on until one is not there. Only \<open>os.ErrNotExist\<close> ends the search, so it need not end.
\<close>

definition numbered :: "path \<Rightarrow> int \<Rightarrow> path" where
  "numbered p i = (fst p, TrimSuffix (snd p) (Ext (snd p)) @ ''-'' @ format_int i @ Ext (snd p))"

partial_function (option) unique_from :: "os_env \<Rightarrow> path \<Rightarrow> int \<Rightarrow> disk \<Rightarrow> path option" where
  "unique_from env p i d =
     (if stat env (numbered p i) d = Inr None then Some (numbered p i) else unique_from env p (i + 1) d)"

definition uniquePath :: "os_env \<Rightarrow> path \<Rightarrow> disk \<Rightarrow> path option" where
  "uniquePath env p d = (if stat env p d = Inr None then Some p else unique_from env p 1 d)"

section \<open>Settings\<close>

record MetadataConfig =
  md_System :: int
  md_SystemLabel :: string
  md_Talkgroup :: int
  md_TalkgroupLabel :: string
  md_TalkgroupGroup :: string
  md_TalkgroupTag :: string
  md_Frequency :: int

record P7Config =
  p7_BaseURL :: string
  p7_SourceKey :: string
  p7_TimeoutSec :: rat

record FolderIngestConfig =
  fi_Enabled :: bool
  fi_Directory :: string
  fi_ProcessedDirectory :: string
  fi_ReprocessProcessed :: bool
  fi_PollMS :: int
  fi_StableMS :: int

record CanaryConfig =
  cn_Enabled :: bool
  cn_IntervalSec :: int
  cn_Talkgroup :: int
  cn_TalkgroupLabel :: string

record Config =
  cf_P7 :: P7Config
  cf_Audio :: AudioConfig
  cf_Metadata :: MetadataConfig
  cf_QueueDirectory :: string
  cf_FolderIngest :: FolderIngestConfig
  cf_Canary :: CanaryConfig

record RuntimeConfig =
  rt_Config :: Config
  rt_ConfigPath :: string
  rt_QueueDir :: string
  rt_FolderIngestDir :: string
  rt_FolderProcessedDir :: string
  rt_UploadURL :: string

section \<open>Queueing\<close>

text \<open>\<open>%.3f\<close> of the exact quotient; a tie goes to the even digit.\<close>

definition milli_even :: "rat \<Rightarrow> int" where
  "milli_even x = (let n = \<lfloor>x * 1000\<rfloor>; r = x * 1000 - of_int n in
     if r > 1 / 2 \<or> r = 1 / 2 \<and> odd n then n + 1 else n)"

definition format_milli :: "rat \<Rightarrow> string" where
  "format_milli x = (let n = nat (milli_even x); f = dec_nat (n mod 1000) in
     dec_nat (n div 1000) @ ''.'' @ replicate (3 - length f) (CHR ''0'') @ f)"

definition metadataFields :: "Config \<Rightarrow> int \<Rightarrow> rat \<Rightarrow> string \<Rightarrow> queuedFields" where
  "metadataFields cfg startedAt durationSec audioName =
     (let m = cf_Metadata cfg in
      [(''key'', p7_SourceKey (cf_P7 cfg)), (''system'', format_int (md_System m)), (''systemLabel'', md_SystemLabel m),
       (''talkgroup'', format_int (md_Talkgroup m)), (''talkgroupLabel'', md_TalkgroupLabel m),
       (''talkgroupGroup'', md_TalkgroupGroup m), (''talkgroupTag'', md_TalkgroupTag m), (''frequency'', format_int (md_Frequency m)),
       (''dateTime'', format_int startedAt), (''duration'', format_milli durationSec), (''audioName'', audioName),
       (''audioType'', ''audio/wav'')])"

definition call_seconds :: "AudioConfig \<Rightarrow> bytes \<Rightarrow> rat" where
  "call_seconds a audio = of_nat (length audio) / of_int (aud_SampleRate a * aud_Channels a * 2)"

text \<open>The clock and the suffix are those for the name \<open>call\<close>.\<close>

definition call_stem :: "os_env \<Rightarrow> int \<Rightarrow> string" where
  "call_stem env startedAt =
     ''call-'' @ format_int startedAt @ ''-'' @ format_int (os_now env ''call'' div 1000000) @ ''-'' @ os_suffix env ''call''"

definition QueueCall :: "os_env \<Rightarrow> RuntimeConfig \<Rightarrow> bytes list \<Rightarrow> int \<Rightarrow> disk \<Rightarrow> (string + path) \<times> disk" where
  "QueueCall env rt blocks startedAt d =
     (case mkdir_all env (rt_QueueDir rt) d of
        (Some e, d1) \<Rightarrow> (Inl e, d1)
      | (None, d1) \<Rightarrow>
          (let cfg = rt_Config rt; a = cf_Audio cfg; audio = joinBlocks blocks; stem = call_stem env startedAt;
               wavPath = (rt_QueueDir rt, stem @ ''.wav''); jsonPath = (rt_QueueDir rt, stem @ ''.json'') in
           case put_file env wavPath (Bytes (writeWAVWriter audio (aud_SampleRate a) (aud_Channels a))) d1 of
             (Some e, d2) \<Rightarrow> (Inl e, d2)
           | (None, d2) \<Rightarrow>
               (case put_file env jsonPath (Sidecar (metadataFields cfg startedAt (call_seconds a audio) (snd wavPath))) d2 of
                  (Some e, d3) \<Rightarrow> (Inl e, d3)
                | (None, d3) \<Rightarrow> (Inr wavPath, d3))))"

definition isSupportedIngestAudio :: "string \<Rightarrow> bool" where
  "isSupportedIngestAudio name \<longleftrightarrow> ToLower (Ext name) \<in> set [''.wav'', ''.mp3'', ''.m4a'', ''.flac'']"

definition audioTypeForExtension :: "string \<Rightarrow> string" where
  "audioTypeForExtension ext =
     (let e = ToLower ext in
      if e = ''.wav'' then ''audio/wav'' else if e = ''.mp3'' then ''audio/mpeg'' else if e = ''.m4a'' then ''audio/mp4''
      else if e = ''.flac'' then ''audio/flac'' else ''application/octet-stream'')"

text \<open>Moving the file into the queue, or copying it when it has been processed before.\<close>

definition take_in :: "os_env \<Rightarrow> bool \<Rightarrow> path \<Rightarrow> path \<Rightarrow> disk \<Rightarrow> string option \<times> disk" where
  "take_in env reprocess p q d =
     (if reprocess then copyFile env p q d
      else (case rename_file env p q d of
          (None, d1) \<Rightarrow> (None, d1)
        | (Some _, d1) \<Rightarrow> (case copyFile env p q d1 of
            (Some e, d2) \<Rightarrow> (Some e, d2)
          | (None, d2) \<Rightarrow> remove_file env p d2)))"

definition ingest_stem :: "os_env \<Rightarrow> string \<Rightarrow> int \<Rightarrow> string" where
  "ingest_stem env name mtime =
     ''ingest-'' @ format_int (mtime div 1000000000) @ ''-'' @ format_int (os_now env name div 1000000) @ ''-'' @ os_suffix env name"

definition ingest_fields :: "RuntimeConfig \<Rightarrow> path \<Rightarrow> bool \<Rightarrow> int \<Rightarrow> path \<Rightarrow> queuedFields" where
  "ingest_fields rt p reprocess mtime processed =
     (let fs = AList.update ''_processedPath'' (join_path processed)
            (AList.update ''audioType'' (audioTypeForExtension (ToLower (Ext (snd p))))
              (metadataFields (rt_Config rt) (mtime div 1000000000) 0 (snd p))) in
      if reprocess then AList.update ''_reprocess'' ''true'' fs else fs)"

text \<open>\<open>None\<close> when the search for a free name does not end.\<close>

definition QueueExternalFile ::
  "os_env \<Rightarrow> RuntimeConfig \<Rightarrow> path \<Rightarrow> bool \<Rightarrow> disk \<Rightarrow> ((string + path \<times> path) \<times> disk) option" where
  "QueueExternalFile env rt p reprocess d =
     (case stat env p d of
        Inl e \<Rightarrow> Some (Inl e, d)
      | Inr None \<Rightarrow> Some (Inl ''no such file or directory'', d)
      | Inr (Some info) \<Rightarrow>
          if en_content info = Folder then Some (Inl ''folder ingest path is a directory'', d)
          else (case mkdir_all env (rt_QueueDir rt) d of
              (Some e, d1) \<Rightarrow> Some (Inl e, d1)
            | (None, d1) \<Rightarrow>
                (let stem = ingest_stem env (snd p) (en_mtime info); ext = ToLower (Ext (snd p));
                     audioPath = (rt_QueueDir rt, stem @ ext); jsonPath = (rt_QueueDir rt, stem @ ''.json'') in
                 case uniquePath env (rt_FolderProcessedDir rt, snd p) d1 of
                   None \<Rightarrow> None
                 | Some processed \<Rightarrow>
                     Some (case take_in env reprocess p audioPath d1 of
                         (Some e, d2) \<Rightarrow> (Inl e, d2)
                       | (None, d2) \<Rightarrow>
                           (case put_file env jsonPath (Sidecar (ingest_fields rt p reprocess (en_mtime info) processed)) d2 of
                              (Some e, d3) \<Rightarrow> (Inl e, d3)
                            | (None, d3) \<Rightarrow> (Inr (audioPath, jsonPath), d3))))))"

section \<open>Uploading\<close>

text \<open>The form, the file of its part \<open>audio\<close>, and the hub's answer: no answer, or a status.\<close>

record upload_request =
  ur_fields :: queuedFields
  ur_name :: string
  ur_audio :: bytes

datatype answer = NoAnswer string | Status int

definition accepted :: "answer \<Rightarrow> bool" where
  "accepted a = (case a of Status c \<Rightarrow> 200 \<le> c \<and> c < 300 | NoAnswer _ \<Rightarrow> False)"

fun first_there :: "os_env \<Rightarrow> path list \<Rightarrow> disk \<Rightarrow> string + path option" where
  "first_there env [] d = Inr None"
| "first_there env (p # ps) d =
     (case stat env p d of Inl e \<Rightarrow> Inl e | Inr (Some _) \<Rightarrow> Inr (Some p) | Inr None \<Rightarrow> first_there env ps d)"

definition queuedAudioPath :: "os_env \<Rightarrow> path \<Rightarrow> disk \<Rightarrow> string + path option" where
  "queuedAudioPath env json d =
     (let stem = TrimSuffix (snd json) (Ext (snd json)) in
      first_there env (map (\<lambda>ext. (fst json, stem @ ext)) [''.wav'', ''.mp3'', ''.m4a'', ''.flac'']) d)"

definition field :: "queuedFields \<Rightarrow> string \<Rightarrow> string" where
  "field fs k = (case map_of fs k of None \<Rightarrow> [] | Some v \<Rightarrow> v)"

definition sent_fields :: "queuedFields \<Rightarrow> queuedFields" where
  "sent_fields fs = filter (\<lambda>(k, v). \<not> (k = ''audio'' \<or> HasPrefix k ''_'')) fs"

text \<open>
  Reading the two files and building the request. A file that is not what the recorder wrote does not parse; a JSON file is
  never the audio of another.
\<close>

definition build_request :: "os_env \<Rightarrow> path \<Rightarrow> path \<Rightarrow> disk \<Rightarrow> string + queuedFields \<times> upload_request" where
  "build_request env json audioPath d =
     (case read_file env json d of
        Inl e \<Rightarrow> Inl e
      | Inr (Bytes _) \<Rightarrow> Inl ''invalid character''
      | Inr Folder \<Rightarrow> Inl ''is a directory''
      | Inr (Sidecar fs) \<Rightarrow>
          (case read_file env audioPath d of
             Inl e \<Rightarrow> Inl e
           | Inr (Bytes b) \<Rightarrow> Inr (fs, \<lparr>ur_fields = sent_fields fs, ur_name = snd audioPath, ur_audio = b\<rparr>)
           | Inr _ \<Rightarrow> Inl ''not audio''))"

text \<open>Where the audio goes once the hub has it: to the processed directory, or away.\<close>

definition settle_audio :: "os_env \<Rightarrow> queuedFields \<Rightarrow> path \<Rightarrow> disk \<Rightarrow> (string option \<times> disk) option" where
  "settle_audio env fs audioPath d =
     (let processed = TrimSpace (field fs ''_processedPath'') in
      if processed \<noteq> [] \<and> field fs ''_reprocess'' \<noteq> ''true''
      then (case uniquePath env (split_path processed) d of
          None \<Rightarrow> None
        | Some q \<Rightarrow> Some (case mkdir_all env (fst q) d of
            (Some e, d1) \<Rightarrow> (Some e, d1)
          | (None, d1) \<Rightarrow> rename_file env audioPath q d1))
      else Some (remove_file env audioPath d))"

type_synonym 'h net = "'h \<Rightarrow> upload_request \<Rightarrow> answer \<times> 'h"

definition UploadOne :: "os_env \<Rightarrow> 'h net \<Rightarrow> path \<Rightarrow> disk \<Rightarrow> 'h \<Rightarrow> ((string + bool) \<times> disk \<times> 'h) option" where
  "UploadOne env net json d h =
     (case queuedAudioPath env json d of
        Inl e \<Rightarrow> Some (Inl e, d, h)
      | Inr None \<Rightarrow> Some (Inr True, snd (remove_file env json d), h)
      | Inr (Some audioPath) \<Rightarrow>
          (case build_request env json audioPath d of
             Inl e \<Rightarrow> Some (Inl e, d, h)
           | Inr (fs, rq) \<Rightarrow>
               (case net h rq of
                  (NoAnswer e, h1) \<Rightarrow> Some (Inl e, d, h1)
                | (Status c, h1) \<Rightarrow>
                    if \<not> accepted (Status c) then Some (Inr False, d, h1)
                    else (case settle_audio env fs audioPath d of
                        None \<Rightarrow> None
                      | Some (Some e, d1) \<Rightarrow> Some (Inl e, d1, h1)
                      | Some (None, d1) \<Rightarrow>
                          (case remove_file env json d1 of
                             (Some e, d2) \<Rightarrow> Some (Inl e, d2, h1)
                           | (None, d2) \<Rightarrow> Some (Inr True, d2, h1))))))"

fun upload_all :: "os_env \<Rightarrow> 'h net \<Rightarrow> path list \<Rightarrow> disk \<Rightarrow> 'h \<Rightarrow> (string option \<times> disk \<times> 'h) option" where
  "upload_all env net [] d h = Some (None, d, h)"
| "upload_all env net (p # ps) d h =
     (case UploadOne env net p d h of
        None \<Rightarrow> None
      | Some (Inl e, d1, h1) \<Rightarrow> Some (Some e, d1, h1)
      | Some (Inr False, d1, h1) \<Rightarrow> Some (None, d1, h1)
      | Some (Inr True, d1, h1) \<Rightarrow> upload_all env net ps d1 h1)"

definition json_paths :: "string \<Rightarrow> string list \<Rightarrow> disk \<Rightarrow> path list" where
  "json_paths dir names d = map (Pair dir) (sort (filter (\<lambda>n. \<not> is_dir (dir, n) d \<and> EqualFold (Ext n) ''.json'') names))"

definition FlushQueue :: "os_env \<Rightarrow> 'h net \<Rightarrow> RuntimeConfig \<Rightarrow> disk \<Rightarrow> 'h \<Rightarrow> (string option \<times> disk \<times> 'h) option" where
  "FlushQueue env net rt d h =
     (case mkdir_all env (rt_QueueDir rt) d of
        (Some e, d1) \<Rightarrow> Some (Some e, d1, h)
      | (None, d1) \<Rightarrow>
          (case read_dir env (rt_QueueDir rt) d1 of
             Inl e \<Rightarrow> Some (Some e, d1, h)
           | Inr names \<Rightarrow> upload_all env net (json_paths (rt_QueueDir rt) names d1) d1 h))"

section \<open>Folder ingest\<close>

text \<open>Which entries of the folder are due, and the key under which a replayed file is remembered.\<close>

definition due :: "os_env \<Rightarrow> RuntimeConfig \<Rightarrow> path \<Rightarrow> disk \<Rightarrow> entry option" where
  "due env rt p d =
     (if is_dir p d \<or> \<not> isSupportedIngestAudio (snd p) then None
      else (case stat env p d of
          Inl _ \<Rightarrow> None
        | Inr None \<Rightarrow> None
        | Inr (Some info) \<Rightarrow>
            if os_now env (snd p) - en_mtime info < fi_StableMS (cf_FolderIngest (rt_Config rt)) * 1000000 then None else Some info))"

definition entry_size :: "entry \<Rightarrow> int" where
  "entry_size f = (case en_content f of Bytes b \<Rightarrow> int (length b) | _ \<Rightarrow> 0)"

definition seen_key :: "path \<Rightarrow> entry \<Rightarrow> string" where
  "seen_key p f = join_path p @ '':'' @ format_int (entry_size f) @ '':'' @ format_int (en_mtime f)"

text \<open>A failed flush is only printed.\<close>

fun ingest_entries ::
  "os_env \<Rightarrow> 'h net \<Rightarrow> RuntimeConfig \<Rightarrow> string \<Rightarrow> string list \<Rightarrow> string list \<Rightarrow> disk \<Rightarrow> 'h \<Rightarrow> (string list \<times> disk \<times> 'h) option" where
  "ingest_entries env net rt dir [] seen d h = Some (seen, d, h)"
| "ingest_entries env net rt dir (n # ns) seen d h =
     (let reprocess = fi_ReprocessProcessed (cf_FolderIngest (rt_Config rt)) in
      case due env rt (dir, n) d of
        None \<Rightarrow> ingest_entries env net rt dir ns seen d h
      | Some info \<Rightarrow>
          if reprocess \<and> seen_key (dir, n) info \<in> set seen then ingest_entries env net rt dir ns seen d h
          else (case QueueExternalFile env rt (dir, n) reprocess d of
              None \<Rightarrow> None
            | Some (Inl _, d1) \<Rightarrow> ingest_entries env net rt dir ns seen d1 h
            | Some (Inr _, d1) \<Rightarrow>
                (case FlushQueue env net rt d1 h of
                   None \<Rightarrow> None
                 | Some (_, d2, h2) \<Rightarrow>
                     ingest_entries env net rt dir ns (if reprocess then seen_key (dir, n) info # seen else seen) d2 h2)))"

definition processFolderIngestBatch ::
  "os_env \<Rightarrow> 'h net \<Rightarrow> RuntimeConfig \<Rightarrow> string list \<Rightarrow> disk \<Rightarrow> 'h \<Rightarrow> (string option \<times> string list \<times> disk \<times> 'h) option" where
  "processFolderIngestBatch env net rt seen d h =
     (let dir = (if fi_ReprocessProcessed (cf_FolderIngest (rt_Config rt)) then rt_FolderProcessedDir rt else rt_FolderIngestDir rt) in
      case read_dir env dir d of
        Inl e \<Rightarrow> Some (Some e, seen, d, h)
      | Inr names \<Rightarrow> (case ingest_entries env net rt dir names seen d h of
            None \<Rightarrow> None | Some (seen1, d1, h1) \<Rightarrow> Some (None, seen1, d1, h1)))"

section \<open>The recorder\<close>

text \<open>
  One block from the capture: a burst that is long enough is queued and the queue is flushed. A call that cannot be queued ends
  the recorder with the error.
\<close>

definition record_block ::
  "os_env \<Rightarrow> 'h net \<Rightarrow> RuntimeConfig \<Rightarrow> int \<Rightarrow> bytes \<Rightarrow> vox \<times> disk \<times> 'h \<Rightarrow> (string option \<times> vox \<times> disk \<times> 'h) option" where
  "record_block env net rt now block s =
     (case s of (v, d, h) \<Rightarrow>
        (case vox_block (cf_Audio (rt_Config rt)) now block v of
           (Some (Queued blocks t), v1) \<Rightarrow>
             (case QueueCall env rt blocks t d of
                (Inl e, d1) \<Rightarrow> Some (Some e, v1, d1, h)
              | (Inr _, d1) \<Rightarrow> (case FlushQueue env net rt d1 h of
                  None \<Rightarrow> None
                | Some (_, d2, h2) \<Rightarrow> Some (None, v1, d2, h2)))
         | (_, v1) \<Rightarrow> Some (None, v1, d, h)))"

fun record_run ::
  "'h net \<Rightarrow> RuntimeConfig \<Rightarrow> (os_env \<times> int \<times> bytes) list \<Rightarrow> vox \<times> disk \<times> 'h \<Rightarrow> (string option \<times> vox \<times> disk \<times> 'h) option" where
  "record_run net rt [] s = Some (None, s)"
| "record_run net rt ((env, now, block) # rest) s =
     (case record_block env net rt now block s of
        None \<Rightarrow> None
      | Some (Some e, s1) \<Rightarrow> Some (Some e, s1)
      | Some (None, s1) \<Rightarrow> record_run net rt rest s1)"

text \<open>The context is cancelled: a call that is on is queued when it is long enough, and uploaded by the next run.\<close>

definition record_stop :: "os_env \<Rightarrow> RuntimeConfig \<Rightarrow> int \<Rightarrow> vox \<Rightarrow> disk \<Rightarrow> string option \<times> disk" where
  "record_stop env rt now v d =
     (case vox_stop (cf_Audio (rt_Config rt)) now v of
        Some (Queued blocks t) \<Rightarrow> (case QueueCall env rt blocks t d of (Inl e, d1) \<Rightarrow> (Some e, d1) | (Inr _, d1) \<Rightarrow> (None, d1))
      | _ \<Rightarrow> (None, d))"

text \<open>What a recorder does before it captures: an error of this flush is only printed.\<close>

definition record_start :: "os_env \<Rightarrow> 'h net \<Rightarrow> RuntimeConfig \<Rightarrow> disk \<Rightarrow> 'h \<Rightarrow> (string option \<times> disk \<times> 'h) option" where
  "record_start env net rt d h =
     (case mkdir_all env (rt_QueueDir rt) d of
        (Some e, d1) \<Rightarrow> Some (Some e, d1, h)
      | (None, d1) \<Rightarrow> (case FlushQueue env net rt d1 h of None \<Rightarrow> None | Some (_, d2, h2) \<Rightarrow> Some (None, d2, h2)))"

definition canary_fields :: "Config \<Rightarrow> int \<Rightarrow> queuedFields" where
  "canary_fields cfg now =
     (let m = cf_Metadata cfg; c = cf_Canary cfg in
      AList.update ''talkgroup'' (format_int (if cn_Talkgroup c \<le> 0 then md_Talkgroup m else cn_Talkgroup c))
        (AList.update ''talkgroupLabel'' (if cn_TalkgroupLabel c = [] then md_TalkgroupLabel m else cn_TalkgroupLabel c)
          (metadataFields cfg now 1 (''canary-'' @ format_int now @ ''.wav''))))"

definition uploadCanary :: "'h net \<Rightarrow> RuntimeConfig \<Rightarrow> int \<Rightarrow> 'h \<Rightarrow> string option \<times> 'h" where
  "uploadCanary net rt now h =
     (let cfg = rt_Config rt; a = cf_Audio cfg;
          sampleRate = (if aud_SampleRate a \<le> 0 then 16000 else aud_SampleRate a);
          channels = (if aud_Channels a \<le> 0 then 1 else aud_Channels a);
          pcm = replicate (nat (sampleRate * channels * 2)) 0 in
      case net h \<lparr>ur_fields = canary_fields cfg now, ur_name = ''canary-'' @ format_int now @ ''.wav'',
          ur_audio = writeWAVWriter pcm sampleRate channels\<rparr> of
        (NoAnswer e, h1) \<Rightarrow> (Some e, h1)
      | (Status c, h1) \<Rightarrow> (if accepted (Status c) then None else Some (''canary upload: '' @ format_int c), h1))"

end
