(* ===== verification/RecorderSafety.thy ===== *)
theory RecorderSafety
  imports RecorderQueue
begin

text \<open>
  What the recorder's queue promises: audio leaves the disk only when the hub has it, whatever system calls fail and whatever
  the hub answers. The hub is the locale \<open>upload_target\<close>: what it has accepted it has, and keeps. The upload handler of the
  server is one.
\<close>

section \<open>Files other than the one that is written\<close>

definition content_at :: "path \<Rightarrow> disk \<Rightarrow> content option" where
  "content_at p d = map_option en_content (map_of d p)"

lemma map_of_update [simp]: "map_of (AList.update k v d) p = (if p = k then Some v else map_of d p)"
  by (simp add: update_conv')

lemma map_of_delete [simp]: "map_of (AList.delete k d) p = (if p = k then None else map_of d p)"
  by (simp add: delete_conv')

lemma mkdir_all_keeps: "map_of d p = Some f \<Longrightarrow> map_of (snd (mkdir_all env dir d)) p = Some f"
  by (auto simp: mkdir_all_def split: option.split)

lemma mkdir_all_there: "mkdir_all env dir d = (r, d1) \<Longrightarrow> map_of d p = Some f \<Longrightarrow> map_of d1 p = Some f"
  using mkdir_all_keeps [of d p f env dir] by simp

lemma put_file_other: "put_file env q c d = (r, d1) \<Longrightarrow> p \<noteq> q \<Longrightarrow> map_of d1 p = map_of d p"
  by (auto simp: put_file_def Let_def split: if_splits option.splits)

lemma put_file_done: "put_file env q c d = (None, d1) \<Longrightarrow> content_at q d1 = Some c"
  by (auto simp: put_file_def content_at_def Let_def split: if_splits option.splits)

lemma remove_file_other: "remove_file env q d = (r, d1) \<Longrightarrow> p \<noteq> q \<Longrightarrow> map_of d1 p = map_of d p"
  by (auto simp: remove_file_def split: if_splits option.splits)

lemma rename_file_other: "rename_file env q1 q2 d = (r, d1) \<Longrightarrow> p \<noteq> q1 \<Longrightarrow> p \<noteq> q2 \<Longrightarrow> map_of d1 p = map_of d p"
  by (auto simp: rename_file_def split: if_splits option.splits)

lemmas file_frame = put_file_other remove_file_other rename_file_other

section \<open>A free name\<close>

lemma unique_from_free: "unique_from env p i d = Some q \<Longrightarrow> stat env q d = Inr None"
  by (rule unique_from.raw_induct [where P = "\<lambda>env p i d q. stat env q d = Inr None"]) (auto split: if_splits)

lemma uniquePath_free: "uniquePath env p d = Some q \<Longrightarrow> map_of d q = None"
  using unique_from_free [of env p 1 d q] by (auto simp: uniquePath_def stat_def split: if_splits option.splits)

lemma numbered_inj: "numbered p i = numbered p j \<Longrightarrow> i = j"
  by (auto simp: numbered_def format_int_inj)

lemma unique_from_reaches:
  assumes "stat env (numbered p (i + int n)) d = Inr None"
  shows "\<exists>q. unique_from env p i d = Some q"
  using assms
proof (induction n arbitrary: i)
  case 0
  then show ?case by (subst unique_from.simps) simp
next
  case (Suc n)
  then have "stat env (numbered p (i + 1 + int n)) d = Inr None" by (simp add: algebra_simps)
  from Suc.IH [OF this] show ?case by (subst unique_from.simps) auto
qed

text \<open>
  The search for a free name ends, with a name that nothing has: as long as every file can be looked up, there is
  such a name, since the disk holds finitely many.
\<close>

theorem uniquePath_returns:
  assumes "\<And>q. os_fail env (Stat q) d = None"
  shows "\<exists>q. uniquePath env p d = Some q \<and> map_of d q = None"
proof -
  have "inj (\<lambda>n. numbered p (1 + int n))" 
  proof (rule injI)
    fix m n :: nat
    assume "numbered p (1 + int m) = numbered p (1 + int n)"
    from numbered_inj [OF this] show "m = n" by simp
  qed
  then have "infinite (range (\<lambda>n. numbered p (1 + int n)))" using finite_imageD infinite_UNIV_nat by blast
  moreover have "finite (fst ` set d)" by simp
  ultimately have "\<not> range (\<lambda>n. numbered p (1 + int n)) \<subseteq> fst ` set d" using finite_subset by blast
  then obtain n where "numbered p (1 + int n) \<notin> fst ` set d" by (meson image_subsetI)
  then have "stat env (numbered p (1 + int n)) d = Inr None" using assms by (simp add: stat_def map_of_eq_None_iff)
  then obtain q where "unique_from env p 1 d = Some q" using unique_from_reaches by blast
  then have "\<exists>q. uniquePath env p d = Some q" by (auto simp: uniquePath_def)
  then show ?thesis using uniquePath_free by blast
qed

text \<open>
  It does not end when looking up fails with anything but \<open>os.ErrNotExist\<close>: names that are too long once the number is in
  them, or a directory that cannot be searched.
\<close>

theorem uniquePath_stuck:
  assumes "stat env p d \<noteq> Inr None" "\<And>i. 1 \<le> i \<Longrightarrow> os_fail env (Stat (numbered p i)) d \<noteq> None"
  shows "uniquePath env p d = None"
proof -
  have "e = env \<and> p' = p \<and> d' = d \<and> 1 \<le> i \<longrightarrow> False" if "unique_from e p' i d' = Some q" for e p' i d' q
  proof (rule unique_from.raw_induct [where P = "\<lambda>e p' i d' q. e = env \<and> p' = p \<and> d' = d \<and> 1 \<le> i \<longrightarrow> False", OF _ that])
    fix search e p' i d' q
    assume "\<And>e p' i d' q. search e p' i d' = Some q \<Longrightarrow> e = env \<and> p' = p \<and> d' = d \<and> 1 \<le> i \<longrightarrow> False"
      and "(if stat e (numbered p' i) d' = Inr None then Some (numbered p' i) else search e p' (i + 1) d') = Some q"
    with assms(2) [of i] show "e = env \<and> p' = p \<and> d' = d \<and> 1 \<le> i \<longrightarrow> False"
      by (fastforce simp: stat_def split: if_splits option.splits)
  qed
  from this [of env p 1 d] have "unique_from env p 1 d = None" by (cases "unique_from env p 1 d") auto
  then show ?thesis using assms(1) by (simp add: uniquePath_def)
qed


section \<open>What a flush may do to a file\<close>

definition json_name :: "path \<Rightarrow> bool" where
  "json_name p \<longleftrightarrow> EqualFold (Ext (snd p)) ''.json''"

lemma json_paths_json: "p \<in> set (json_paths dir names d) \<Longrightarrow> json_name p"
  by (auto simp: json_paths_def json_name_def)

lemma first_there_in: "first_there env ps d = Inr (Some p) \<Longrightarrow> p \<in> set ps"
  by (induction ps) (auto split: sum.splits option.splits)

lemma build_request_audio:
  "build_request env json q d = Inr (fs, rq) \<Longrightarrow> content_at q d = Some (Bytes (ur_audio rq)) \<and> ur_name rq = snd q \<and> ur_fields rq = sent_fields fs"
  by (auto simp: build_request_def read_file_def content_at_def split: sum.splits content.splits option.splits if_splits)

lemma settle_audio_other:
  assumes "settle_audio env fs q d = Some (r, d1)" "map_of d p = Some f" "p \<noteq> q"
  shows "map_of d1 p = Some f"
proof (cases "TrimSpace (field fs ''_processedPath'') \<noteq> [] \<and> field fs ''_reprocess'' \<noteq> ''true''")
  case True
  then obtain u where u: "uniquePath env (split_path (TrimSpace (field fs ''_processedPath''))) d = Some u"
    using assms(1) by (auto simp: settle_audio_def Let_def split: option.splits)
  from uniquePath_free [OF this] assms(2) have "p \<noteq> u" by auto
  obtain e d2 where mk: "mkdir_all env (fst u) d = (e, d2)" by force
  note there = mkdir_all_there [OF mk assms(2)]
  show ?thesis
  proof (cases e)
    case None
    with True u mk assms(1) have "rename_file env q u d2 = (r, d1)" by (simp add: settle_audio_def)
    from rename_file_other [OF this assms(3) \<open>p \<noteq> u\<close>] there show ?thesis by simp
  next
    case (Some e')
    with True u mk assms(1) there show ?thesis by (simp add: settle_audio_def)
  qed
next
  case False
  with assms(1) have "remove_file env q d = (r, d1)" by (simp add: settle_audio_def)
  with remove_file_other assms(2,3) show ?thesis by metis
qed

text \<open>
  One upload either leaves a file that is not JSON as it is, or the file is the audio of the request that was sent, and the hub
  accepted it.
\<close>

lemma UploadOne_file:
  assumes "UploadOne env net json d h = Some (r, d', h')" "content_at p d = Some (Bytes b)" "json_name json" "\<not> json_name p"
  shows "content_at p d' = Some (Bytes b) \<or>
    (\<exists>rq c. net h rq = (Status c, h') \<and> accepted (Status c) \<and> ur_audio rq = b \<and> ur_name rq = snd p)"
proof -
  obtain f where f: "map_of d p = Some f" "en_content f = Bytes b" using assms(2) by (auto simp: content_at_def)
  have pj: "p \<noteq> json" using assms(3,4) by auto
  have same: ?thesis if "map_of d' p = Some f" using that f by (simp add: content_at_def)
  show ?thesis
  proof (cases "\<exists>q fs rq c h1. queuedAudioPath env json d = Inr (Some q) \<and> build_request env json q d = Inr (fs, rq) \<and>
      net h rq = (Status c, h1) \<and> accepted (Status c)")
    case False
    have "map_of d' p = Some f"
      using assms(1) f(1) False remove_file_other [of env json d _ _ p] pj
      by (auto simp: UploadOne_def prod_eq_iff split: sum.splits option.splits answer.splits prod.splits if_splits)
    then show ?thesis by (rule same)
  next
    case True
    then obtain q fs rq c h1 where q: "queuedAudioPath env json d = Inr (Some q)" and rq: "build_request env json q d = Inr (fs, rq)"
      and net: "net h rq = (Status c, h1)" "accepted (Status c)" by blast
    obtain e d1 where st: "settle_audio env fs q d = Some (e, d1)"
      using assms(1) q rq net by (cases "settle_audio env fs q d") (auto simp: UploadOne_def)
    obtain e2 d2 where rm: "remove_file env json d1 = (e2, d2)" by force
    have h': "h' = h1" and d': "d' = d1 \<or> d' = d2"
      using assms(1) q rq net st rm by (auto simp: UploadOne_def split: option.splits)
    show ?thesis
    proof (cases "p = q")
      case True
      with build_request_audio [OF rq] assms(2) net h' show ?thesis by (intro disjI2 exI [of _ rq] exI [of _ c]) simp
    next
      case False
      have "map_of d1 p = Some f" by (rule settle_audio_other [OF st f(1) False])
      with remove_file_other [OF rm pj] d' have "map_of d' p = Some f" by auto
      then show ?thesis by (rule same)
    qed
  qed
qed

lemma Ext_dot: "CHR ''.'' \<notin> set e \<Longrightarrow> CHR ''/'' \<notin> set e \<Longrightarrow> Ext (s @ ''.'' @ e) = ''.'' @ e"
proof -
  have "CHR ''.'' \<notin> set r \<Longrightarrow> CHR ''/'' \<notin> set r \<Longrightarrow> ext_scan acc (r @ CHR ''.'' # t) = CHR ''.'' # rev r @ acc" for r acc t
    by (induction r arbitrary: acc) auto
  from this [of "rev e" "[]" "rev s"] show "CHR ''.'' \<notin> set e \<Longrightarrow> CHR ''/'' \<notin> set e \<Longrightarrow> ?thesis" by (simp add: Ext_def)
qed

lemma json_stem: "json_name (dir, s @ ''.json'')" "\<not> json_name (dir, s @ ''.wav'')"
  using Ext_dot [of "''json''" s] Ext_dot [of "''wav''" s] by (simp_all add: json_name_def EqualFold_def ToLower_def lower_char_def)

text \<open>The file a call is queued as.\<close>

definition call_wav :: "RuntimeConfig \<Rightarrow> bytes list \<Rightarrow> bytes" where
  "call_wav rt blocks =
     writeWAVWriter (joinBlocks blocks) (aud_SampleRate (cf_Audio (rt_Config rt))) (aud_Channels (cf_Audio (rt_Config rt)))"

lemma QueueCall_done:
  assumes "QueueCall env rt blocks t d = (Inr p, d')"
  shows "p = (rt_QueueDir rt, call_stem env t @ ''.wav'')" "content_at p d' = Some (Bytes (call_wav rt blocks))"
proof -
  let ?wav = "(rt_QueueDir rt, call_stem env t @ ''.wav'')" and ?json = "(rt_QueueDir rt, call_stem env t @ ''.json'')"
  obtain d1 d2 c where p: "p = ?wav" and wav: "put_file env ?wav (Bytes (call_wav rt blocks)) d1 = (None, d2)"
    and json: "put_file env ?json c d2 = (None, d')"
    using assms by (auto simp: QueueCall_def Let_def call_wav_def split: option.splits prod.splits)
  have "map_of d' ?wav = map_of d2 ?wav" by (rule put_file_other [OF json]) simp
  with put_file_done [OF wav] p show "p = ?wav" "content_at p d' = Some (Bytes (call_wav rt blocks))" by (simp_all add: content_at_def)
qed

lemma call_stem_suffix: "\<exists>s. call_stem env t = s @ os_suffix env ''call''"
  by (auto simp: call_stem_def intro!: exI [of _ "''call-'' @ format_int t @ ''-'' @ format_int (os_now env ''call'' div 1000000) @ ''-''"])

lemma call_stem_differs:
  assumes "os_suffix env ''call'' \<noteq> os_suffix e ''call''" "length (os_suffix env ''call'') = length (os_suffix e ''call'')"
  shows "call_stem env t \<noteq> call_stem e u"
  using call_stem_suffix [of env t] call_stem_suffix [of e u] assms by (metis append_eq_append_conv)

section \<open>A hub that keeps what it accepts\<close>

locale upload_target =
  fixes net :: "'h net" and has :: "upload_request \<Rightarrow> 'h \<Rightarrow> bool"
  assumes accepted_has: "net h rq = (a, h1) \<Longrightarrow> accepted a \<Longrightarrow> has rq h1"
    and keeps: "net h rq' = (a, h1) \<Longrightarrow> has rq h \<Longrightarrow> has rq h1"
begin

definition safe :: "path \<Rightarrow> bytes \<Rightarrow> disk \<Rightarrow> 'h \<Rightarrow> bool" where
  "safe p b d h \<longleftrightarrow> content_at p d = Some (Bytes b) \<or> (\<exists>rq. ur_audio rq = b \<and> ur_name rq = snd p \<and> has rq h)"

lemma UploadOne_has:
  assumes "UploadOne env net json d h = Some (r, d', h')" "has rq h"
  shows "has rq h'"
  using assms keeps
  by (auto simp: UploadOne_def split: sum.splits option.splits answer.splits prod.splits if_splits)

lemma UploadOne_safe:
  assumes "UploadOne env net json d h = Some (r, d', h')" "safe p b d h" "json_name json" "\<not> json_name p"
  shows "safe p b d' h'"
proof (cases "content_at p d = Some (Bytes b)")
  case True
  from UploadOne_file [OF assms(1) True assms(3,4)] show ?thesis unfolding safe_def using accepted_has by blast
next
  case False
  with assms(2) UploadOne_has [OF assms(1)] show ?thesis unfolding safe_def by blast
qed

lemma upload_all_safe:
  "upload_all env net ps d h = Some (r, d', h') \<Longrightarrow> safe p b d h \<Longrightarrow> list_all json_name ps \<Longrightarrow> \<not> json_name p \<Longrightarrow> safe p b d' h'"
proof (induction ps arbitrary: d h)
  case (Cons q ps)
  obtain res d1 h1 where 1: "UploadOne env net q d h = Some (res, d1, h1)"
    using Cons.prems(1) by (cases "UploadOne env net q d h") auto
  have s1: "safe p b d1 h1" using UploadOne_safe [OF 1 Cons.prems(2) _ Cons.prems(4)] Cons.prems(3) by simp
  show ?case
  proof (cases "res = Inr True")
    case True
    with Cons 1 s1 show ?thesis by simp
  next
    case False
    with Cons.prems(1) 1 s1 show ?thesis by (auto split: sum.splits bool.splits)
  qed
qed simp

lemma mkdir_all_safe: "mkdir_all env dir d = (r, d1) \<Longrightarrow> safe p b d h \<Longrightarrow> safe p b d1 h"
  using mkdir_all_there [of env dir d r d1 p] by (auto simp: safe_def content_at_def)

lemma FlushQueue_safe:
  assumes "FlushQueue env net rt d h = Some (r, d', h')" "safe p b d h" "\<not> json_name p"
  shows "safe p b d' h'"
proof -
  obtain e d1 where mk: "mkdir_all env (rt_QueueDir rt) d = (e, d1)" by force
  note s1 = mkdir_all_safe [OF mk assms(2)]
  show ?thesis
  proof (cases "e = None \<and> (\<exists>names. read_dir env (rt_QueueDir rt) d1 = Inr names)")
    case True
    then obtain names where "read_dir env (rt_QueueDir rt) d1 = Inr names" by blast
    with True mk assms(1) have "upload_all env net (json_paths (rt_QueueDir rt) names d1) d1 h = Some (r, d', h')" by (simp add: FlushQueue_def)
    from upload_all_safe [OF this s1 _ assms(3)] show ?thesis using json_paths_json by (simp add: list_all_iff)
  next
    case False
    with mk assms(1) s1 show ?thesis by (auto simp: FlushQueue_def split: option.splits sum.splits)
  qed
qed

lemma QueueCall_safe:
  assumes "QueueCall env rt blocks t d = (r, d')" "safe p b d h"
    "p \<noteq> (rt_QueueDir rt, call_stem env t @ ''.wav'')" "\<not> json_name p"
  shows "safe p b d' h"
proof -
  let ?json = "(rt_QueueDir rt, call_stem env t @ ''.json'')"
  have pj: "p \<noteq> ?json" using assms(4) json_stem by auto
  have same: "map_of d' p = map_of d1 p" if mk: "mkdir_all env (rt_QueueDir rt) d = (e, d1)" for e d1
    using assms(1,3) pj mk file_frame(1) [of env _ _ d1 _ _ p]
    by (auto simp: QueueCall_def Let_def split: option.splits prod.splits) (metis file_frame(1))+
  obtain e d1 where mk: "mkdir_all env (rt_QueueDir rt) d = (e, d1)" by force
  from mkdir_all_safe [OF mk assms(2)] same [OF mk] show ?thesis by (simp add: safe_def content_at_def)
qed

lemma record_block_safe:
  assumes "record_block env net rt now block (v, d, h) = Some (None, v', d', h')" "safe p b d h" "\<not> json_name p"
    "\<And>t. p \<noteq> (rt_QueueDir rt, call_stem env t @ ''.wav'')"
  shows "safe p b d' h'"
proof -
  obtain out v1 where vb: "vox_block (cf_Audio (rt_Config rt)) now block v = (out, v1)" by force
  show ?thesis
  proof (cases "\<exists>blocks t. out = Some (Queued blocks t)")
    case True
    then obtain blocks t where out: "out = Some (Queued blocks t)" by blast
    obtain q d1 where qc: "QueueCall env rt blocks t d = (Inr q, d1)" "\<exists>r. FlushQueue env net rt d1 h = Some (r, d', h')"
      using assms(1) vb out by (auto simp: record_block_def split: sum.splits option.splits prod.splits)
    from qc(2) obtain r where fl: "FlushQueue env net rt d1 h = Some (r, d', h')" by blast
    from FlushQueue_safe [OF fl QueueCall_safe [OF qc(1) assms(2) assms(4) assms(3)] assms(3)] show ?thesis .
  next
    case False
    with assms(1,2) vb show ?thesis by (auto simp: record_block_def split: option.splits burst.splits)
  qed
qed

lemma record_block_queued:
  assumes "record_block env net rt now block (v, d, h) = Some (None, v', d', h')"
    "vox_block (cf_Audio (rt_Config rt)) now block v = (Some (Queued blocks t), v1)"
  shows "safe (rt_QueueDir rt, call_stem env t @ ''.wav'') (call_wav rt blocks) d' h'"
proof -
  obtain q d1 where qc: "QueueCall env rt blocks t d = (Inr q, d1)" "\<exists>r. FlushQueue env net rt d1 h = Some (r, d', h')"
    using assms by (auto simp: record_block_def split: sum.splits option.splits prod.splits)
  from qc(2) obtain r where fl: "FlushQueue env net rt d1 h = Some (r, d', h')" by blast
  note q = QueueCall_done [OF qc(1)]
  have "safe q (call_wav rt blocks) d1 h" using q(2) by (simp add: safe_def)
  moreover have "\<not> json_name q" using json_stem(2) by (simp add: q(1))
  ultimately have "safe q (call_wav rt blocks) d' h'" using FlushQueue_safe [OF fl] by blast
  then show ?thesis by (simp add: q(1))
qed

lemma record_run_safe:
  "record_run net rt inputs (v, d, h) = Some (None, v', d', h') \<Longrightarrow> safe p b d h \<Longrightarrow> \<not> json_name p \<Longrightarrow>
    (\<And>env t. env \<in> fst ` set inputs \<Longrightarrow> p \<noteq> (rt_QueueDir rt, call_stem env t @ ''.wav'')) \<Longrightarrow> safe p b d' h'"
proof (induction inputs arbitrary: v d h)
  case (Cons x inputs)
  obtain env now block where x: "x = (env, now, block)" by (cases x)
  obtain v1 d1 h1 where 1: "record_block env net rt now block (v, d, h) = Some (None, v1, d1, h1)"
    and 2: "record_run net rt inputs (v1, d1, h1) = Some (None, v', d', h')"
    using Cons.prems(1) x by (auto split: option.splits)
  have "safe p b d1 h1" by (rule record_block_safe [OF 1 Cons.prems(2,3)]) (use Cons.prems(4) x in simp)
  from Cons.IH [OF 2 this Cons.prems(3)] Cons.prems(4) show ?case by simp
qed simp

text \<open>
  Every call the loop queues stays on the disk until the hub has it, through the whole run, when the random suffixes of the
  run differ.
\<close>

lemma record_run_queued:
  "record_run net rt inputs (v, d, h) = Some (None, v', d', h') \<Longrightarrow>
    distinct (map (\<lambda>x. os_suffix (fst x) ''call'') inputs) \<Longrightarrow> list_all (\<lambda>x. length (os_suffix (fst x) ''call'') = 8) inputs \<Longrightarrow>
    Queued blocks t \<in> set (fst (vox_run (cf_Audio (rt_Config rt)) (map snd inputs) v)) \<Longrightarrow>
    \<exists>p. fst p = rt_QueueDir rt \<and> safe p (call_wav rt blocks) d' h'"
proof (induction inputs arbitrary: v d h)
  case (Cons x inputs)
  let ?a = "cf_Audio (rt_Config rt)"
  obtain env now block where x: "x = (env, now, block)" by (cases x)
  obtain out v1 where vb: "vox_block ?a now block v = (out, v1)" by force
  obtain v1' d1 h1 where 1: "record_block env net rt now block (v, d, h) = Some (None, v1', d1, h1)"
    and 2: "record_run net rt inputs (v1', d1, h1) = Some (None, v', d', h')"
    using Cons.prems(1) x by (auto split: option.splits)
  have v1: "v1' = v1" using 1 vb by (auto simp: record_block_def split: option.splits burst.splits sum.splits prod.splits)
  obtain bs v2 where run: "vox_run ?a (map snd inputs) v1 = (bs, v2)" by force
  show ?case
  proof (cases "out = Some (Queued blocks t)")
    case True
    let ?p = "(rt_QueueDir rt, call_stem env t @ ''.wav'')"
    have s: "safe ?p (call_wav rt blocks) d1 h1" using record_block_queued [OF 1] vb True by simp
    have "?p \<noteq> (rt_QueueDir rt, call_stem e u @ ''.wav'')" if "e \<in> fst ` set inputs" for e u
    proof -
      have "os_suffix env ''call'' \<noteq> os_suffix e ''call''" "length (os_suffix env ''call'') = length (os_suffix e ''call'')"
        using Cons.prems(2,3) x that by (auto simp: list_all_iff)
      from call_stem_differs [OF this] show ?thesis by simp
    qed
    from record_run_safe [OF 2 s json_stem(2) this] show ?thesis by (intro exI [of _ ?p]) simp
  next
    case False
    with Cons.prems(4) x vb run have "Queued blocks t \<in> set (fst (vox_run ?a (map snd inputs) v1'))"
      by (auto simp: v1 split: option.splits)
    from Cons.IH [OF 2 _ _ this] Cons.prems(2,3) show ?thesis by simp
  qed
qed simp

end

section \<open>The hub of this repository\<close>

text \<open>
  The request as the upload handler parses it. The hub answers each request at a time of its own, and \<open>lost\<close> says which answers
  do not get through.
\<close>

definition form_of :: "upload_request \<Rightarrow> upload_form" where
  "form_of rq = \<lparr>uf_value = field (ur_fields rq),
     uf_file = (\<lambda>k. if k = ''audio'' then Some (ur_name rq, ''application/octet-stream'', Some (ur_audio rq)) else None)\<rparr>"

definition hub_net :: "upload_env \<Rightarrow> (nat \<Rightarrow> int) \<Rightarrow> (nat \<Rightarrow> bool) \<Rightarrow> (node \<times> nat) net" where
  "hub_net up clock lost s rq =
     (case s of (n, k) \<Rightarrow> case handleCallUpload up (Some (form_of rq)) (clock k) n of
        (r, n1) \<Rightarrow> (if lost k then NoAnswer ''timeout'' else Status (reply_code r), (n1, k + 1)))"

definition on_hub :: "upload_request \<Rightarrow> node \<times> nat \<Rightarrow> bool" where
  "on_hub rq s \<longleftrightarrow> (\<exists>row \<in> set (t_calls (nd_db (fst s))). cr_audio row = ur_audio rq)"

lemma form_of_audio [simp]: "upload_audio (Some (form_of rq)) = ur_audio rq"
  by (simp add: upload_audio_def upload_file_def form_of_def)

interpretation hub: upload_target "hub_net up clock lost" on_hub
proof
  fix s rq a s1
  assume net: "hub_net up clock lost s rq = (a, s1)" and acc: "accepted a"
  obtain n k where s: "s = (n, k)" by (cases s)
  obtain r n1 where up: "handleCallUpload up (Some (form_of rq)) (clock k) n = (r, n1)" by force
  have a: "a = Status (reply_code r)" "s1 = (n1, k + 1)" using net s up acc by (auto simp: hub_net_def accepted_def split: if_splits)
  have "\<exists>b. r = Reply 200 b" using upload_effect [OF up] acc a(1) by (auto simp: accepted_def split: if_splits)
  with upload_effect [OF up] a(2) show "on_hub rq s1" by (auto simp: on_hub_def)
next
  fix s rq' a s1 rq
  assume net: "hub_net up clock lost s rq' = (a, s1)" and has: "on_hub rq s"
  obtain n k where s: "s = (n, k)" by (cases s)
  obtain r n1 where up: "handleCallUpload up (Some (form_of rq')) (clock k) n = (r, n1)" by force
  have "s1 = (n1, k + 1)" using net s up by (simp add: hub_net_def)
  moreover have "set (t_calls (nd_db n)) \<subseteq> set (t_calls (nd_db n1))" using upload_effect [OF up] by (auto split: if_splits)
  ultimately show "on_hub rq s1" using has s by (auto simp: on_hub_def)
qed

text \<open>
  A queued file is safe: whichever system call of a flush fails, whatever the hub answers and whichever of its answers are
  lost, after the flush the file is on the recorder's disk as it was, or a call in the hub's database has its bytes.
\<close>

theorem flush_loses_no_audio:
  assumes "FlushQueue env (hub_net up clock lost) rt d (n, k) = Some (r, d', (n', k'))"
    "content_at p d = Some (Bytes b)" "\<not> json_name p"
  shows "content_at p d' = Some (Bytes b) \<or> (\<exists>row \<in> set (t_calls (nd_db n')). cr_audio row = b)"
  using hub.FlushQueue_safe [OF assms(1) _ assms(3), of b] assms(2) by (auto simp: hub.safe_def on_hub_def)

text \<open>
  Property C7. From the microphone to the hub: in a run of the recorder that has not ended with an error, every burst the capture loop
  queued, from its first block to its last, is a WAV file in the queue or the audio of a call in the hub's database, whatever
  failed on the way and with any answers lost. The random suffixes of the run differ.
\<close>

theorem recorded_calls_arrive_or_wait:
  assumes "record_run (hub_net up clock lost) rt inputs (vox_start a, d, (n, k)) = Some (None, v, d', (n', k'))"
    "a = cf_Audio (rt_Config rt)" "distinct (map (\<lambda>x. os_suffix (fst x) ''call'') inputs)"
    "list_all (\<lambda>x. length (os_suffix (fst x) ''call'') = 8) inputs"
    "Queued blocks t \<in> set (fst (vox_run a (map snd inputs) (vox_start a)))"
  shows "(\<exists>name. content_at (rt_QueueDir rt, name) d' = Some (Bytes (call_wav rt blocks))) \<or>
    (\<exists>row \<in> set (t_calls (nd_db n')). cr_audio row = call_wav rt blocks)"
proof -
  obtain p where "fst p = rt_QueueDir rt" "hub.safe p (call_wav rt blocks) d' (n', k')"
    using hub.record_run_queued [OF assms(1,3,4), of blocks t] assms(2,5) by auto
  then show ?thesis by (cases p) (auto simp: hub.safe_def on_hub_def)
qed

text \<open>Flushing over and over; the error of a flush is only printed.\<close>

fun flush_again :: "os_env \<Rightarrow> 'h net \<Rightarrow> RuntimeConfig \<Rightarrow> nat \<Rightarrow> disk \<Rightarrow> 'h \<Rightarrow> (disk \<times> 'h) option" where
  "flush_again env net rt 0 d h = Some (d, h)"
| "flush_again env net rt (Suc m) d h =
     (case FlushQueue env net rt d h of None \<Rightarrow> None | Some (_, d1, h1) \<Rightarrow> flush_again env net rt m d1 h1)"

lemma refused_upload_keeps:
  assumes "queuedAudioPath env json d = Inr (Some q)" "build_request env json q d = Inr (fs, rq)" "net h rq = (a, h1)" "\<not> accepted a"
  shows "\<exists>r. r \<noteq> Inr True \<and> UploadOne env net json d h = Some (r, d, h1)"
  using assms by (cases a) (auto simp: UploadOne_def)

lemma short_upload_refused:
  assumes "hub_net up clock lost (n, k) rq = (a, (n1, k1))" "length (ur_audio rq) \<le> 44"
  shows "\<not> accepted a \<and> t_calls (nd_db n1) = t_calls (nd_db n)"
proof -
  obtain r n2 where up: "handleCallUpload up (Some (form_of rq)) (clock k) n = (r, n2)" by force
  note effect = upload_effect [OF up]
  have "\<nexists>b. r = Reply 200 b" using effect assms(2) by (auto simp: acceptable_def split: if_splits)
  with effect have "t_calls (nd_db n2) = t_calls (nd_db n)" "reply_code r \<in> {400, 401, 403, 417, 500}" by auto
  with assms(1) up show ?thesis by (auto simp: hub_net_def accepted_def split: if_splits)
qed

lemma short_first_flush:
  assumes "mkdir_all env (rt_QueueDir rt) d = (None, d)" "read_dir env (rt_QueueDir rt) d = Inr names"
    "json_paths (rt_QueueDir rt) names d = json # later" "queuedAudioPath env json d = Inr (Some audioPath)"
    "build_request env json audioPath d = Inr (fs, rq)" "length (ur_audio rq) \<le> 44"
  shows "\<exists>e n1 k1. FlushQueue env (hub_net up clock lost) rt d (n, k) = Some (e, d, (n1, k1)) \<and> t_calls (nd_db n1) = t_calls (nd_db n)"
proof -
  obtain a n1 k1 where net: "hub_net up clock lost (n, k) rq = (a, (n1, k1))" by (metis prod.exhaust)
  note refused = short_upload_refused [OF net assms(6)]
  obtain r where "r \<noteq> Inr True" "UploadOne env (hub_net up clock lost) json d (n, k) = Some (r, d, (n1, k1))"
    using refused_upload_keeps [where net = "hub_net up clock lost", OF assms(4,5) net] refused by blast
  then have "\<exists>e. FlushQueue env (hub_net up clock lost) rt d (n, k) = Some (e, d, (n1, k1))"
    using assms(1-3) by (cases r) (auto simp: FlushQueue_def split: bool.split)
  with refused show ?thesis by blast
qed

text \<open>
  Property C24. One recording holds up all others. When the first call of the queue has 44 bytes of audio or fewer the hub refuses it, and a
  flush ends there: however often the queue is flushed, nothing is uploaded and nothing leaves the disk.
\<close>

theorem short_recording_ends_uploads:
  assumes "mkdir_all env (rt_QueueDir rt) d = (None, d)" "read_dir env (rt_QueueDir rt) d = Inr names"
    "json_paths (rt_QueueDir rt) names d = json # later" "queuedAudioPath env json d = Inr (Some audioPath)"
    "build_request env json audioPath d = Inr (fs, rq)" "length (ur_audio rq) \<le> 44"
  shows "\<exists>n' k'. flush_again env (hub_net up clock lost) rt m d (n, k) = Some (d, (n', k')) \<and> t_calls (nd_db n') = t_calls (nd_db n)"
proof (induction m arbitrary: n k)
  case (Suc m)
  from short_first_flush [OF assms, of up clock lost n k] obtain e n1 k1 where
    "FlushQueue env (hub_net up clock lost) rt d (n, k) = Some (e, d, (n1, k1))" "t_calls (nd_db n1) = t_calls (nd_db n)" by blast
  with Suc.IH [of n1 k1] show ?case by auto
qed simp

section \<open>The metadata of a call\<close>

lemma digits_val_append: "digits_val (xs @ ys) = digits_val xs * 10 ^ length ys + digits_val ys"
proof -
  have "foldl (\<lambda>n c. 10 * n + digit_val c) a ys = a * 10 ^ length ys + foldl (\<lambda>n c. 10 * n + digit_val c) 0 ys" for a
  proof (induction ys arbitrary: a)
    case (Cons y ys)
    from Cons [of "10 * a + digit_val y"] Cons [of "digit_val y"] show ?case by (simp add: algebra_simps)
  qed simp
  from this [of "digits_val xs"] show ?thesis unfolding digits_val_def foldl_append .
qed

lemma digits_val_zeros: "digits_val (replicate k (CHR ''0'')) = 0"
proof -
  have "digit_val (CHR ''0'') = 0" by code_simp
  then show ?thesis by (induction k) (simp_all add: digits_val_def)
qed

lemma span_digits_run: "list_all is_digit ds \<Longrightarrow> (case r of [] \<Rightarrow> True | c # _ \<Rightarrow> \<not> is_digit c) \<Longrightarrow> span_digits (ds @ r) = (ds, r)"
  by (induction ds) (auto simp: span_digits_def split: list.splits)

text \<open>A length written with three decimals is read back as it was written.\<close>

lemma ParseFloat_format_milli: "ParseFloat (format_milli x) = of_int (of_nat (nat (milli_even x))) / 1000"
proof -
  let ?n = "nat (milli_even x)" and ?f = "replicate (3 - length (dec_nat (nat (milli_even x) mod 1000))) (CHR ''0'') @ dec_nat (nat (milli_even x) mod 1000)"
  have "is_digit (CHR ''0'')" "\<not> is_digit (CHR ''.'')" by code_simp+
  then have digits: "list_all is_digit ?f" using dec_nat_digits by (auto simp: list_all_iff)
  have len: "length ?f = 3" using length_dec_nat [of "?n mod 1000" 3] by simp
  have val: "digits_val (dec_nat (?n div 1000) @ ?f) = ?n"
    using len by (simp only: digits_val_append digits_val_zeros digits_val_dec_nat) simp
  obtain c cs where c: "dec_nat (?n div 1000) = c # cs" "is_digit c" using dec_nat_digits [of "?n div 1000"] by (cases "dec_nat (?n div 1000)") auto
  have "format_milli x = dec_nat (?n div 1000) @ ''.'' @ ?f" by (simp add: format_milli_def Let_def)
  moreover have "span_digits (dec_nat (?n div 1000) @ ''.'' @ ?f) = (dec_nat (?n div 1000), ''.'' @ ?f)"
    using dec_nat_digits \<open>\<not> is_digit (CHR ''.'')\<close> by (intro span_digits_run) simp_all
  moreover have "span_digits ?f = (?f, [])" using span_digits_run [of ?f "[]"] digits by simp
  moreover have "\<not> HasPrefix (dec_nat (?n div 1000) @ ''.'' @ ?f) ''-''" "\<not> HasPrefix (dec_nat (?n div 1000) @ ''.'' @ ?f) ''+''"
    using c digit_not_sign [of c] by auto
  ultimately show ?thesis
    using val len by (simp add: ParseFloat_def parse_exponent_def pow10_def del: replicate_append_same)
qed

text \<open>
  Property C19. What the recorder writes about a call is what the hub reads: system, talkgroup, labels, group, tag, frequency and start
  arrive as configured, and the length to the millisecond it was rounded to.
\<close>

theorem recorded_metadata_arrives:
  assumes "m = cf_Metadata cfg" "list_all (\<lambda>i. 0 \<le> i \<and> i \<le> max_int64) [md_System m, md_Talkgroup m, md_Frequency m]"
    "0 < startedAt" "startedAt \<le> max_int64"
  shows "upload_call off src (form_of \<lparr>ur_fields = sent_fields (metadataFields cfg startedAt seconds name), ur_name = n, ur_audio = b\<rparr>) now =
    zero_call\<lparr>ca_UserID := is_UserID src, ca_SourceID := is_ID src, ca_System := md_System m, ca_SystemLabel := md_SystemLabel m,
      ca_Talkgroup := md_Talkgroup m, ca_TalkgroupLabel := md_TalkgroupLabel m, ca_TalkgroupGroup := md_TalkgroupGroup m,
      ca_TalkgroupTag := md_TalkgroupTag m, ca_Frequency := md_Frequency m,
      ca_Duration := of_int (of_nat (nat (milli_even seconds))) / 1000, ca_AudioName := name, ca_AudioType := ''audio/wav'',
      ca_CreatedAt := now, ca_DateTime := startedAt\<rparr>"
proof -
  let ?f = "form_of \<lparr>ur_fields = sent_fields (metadataFields cfg startedAt seconds name), ur_name = n, ur_audio = b\<rparr>"
  have sent: "sent_fields (metadataFields cfg startedAt seconds name) = metadataFields cfg startedAt seconds name"
    by (simp add: sent_fields_def metadataFields_def Let_def)
  let ?v = "field (metadataFields cfg startedAt seconds name)"
  have vals: "uf_value ?f = ?v" by (simp add: form_of_def sent)
  note lookup = field_def metadataFields_def Let_def
  have dateTime: "?v ''dateTime'' = format_int startedAt" and start_time: "?v ''start_time'' = []" by (simp_all add: lookup)
  have ints: "?v ''system'' = format_int (md_System m)" "?v ''talkgroup'' = format_int (md_Talkgroup m)"
    "?v ''frequency'' = format_int (md_Frequency m)" and others: "?v ''systemId'' = []" "?v ''system_id'' = []"
    "?v ''talkgroupId'' = []" "?v ''talkgroup_id'' = []" "?v ''tgid'' = []"
    using assms(1) by (simp_all add: lookup)
  have labels: "?v ''systemLabel'' = md_SystemLabel m" "?v ''talkgroupLabel'' = md_TalkgroupLabel m" "?v ''talkgroupGroup'' = md_TalkgroupGroup m"
    "?v ''talkgroupTag'' = md_TalkgroupTag m" "?v ''audioName'' = name" "?v ''audioType'' = ''audio/wav''"
    "?v ''system_label'' = []" "?v ''talkgroup_name'' = []" "?v ''talkgroup_label'' = []" "?v ''talkgroup_group'' = []"
    "?v ''talkgroup_tag'' = []" "?v ''duration'' = format_milli seconds"
    using assms(1) by (simp_all add: lookup)
  have none: "ParseInt [] = (0, False)" by code_simp
  have read: "ParseInt (format_int i) = (i, True)" if "i \<in> {startedAt, md_System m, md_Talkgroup m, md_Frequency m}" for i
    using that assms ParseInt_format by auto
  have "upload_time off ?f now = startedAt"
    using assms(3) TrimSpace_format [of startedAt] format_int_not_Nil read
    by (simp add: upload_time_def parseDateTimeField_def vals dateTime start_time)
  then show ?thesis
    unfolding upload_call_def formInt_def formFloat_def vals
    by (simp add: ints others labels none read ParseFloat_format_milli first_nonzero_def first_nonempty_def)
qed

section \<open>Instances\<close>

definition working_os :: "string \<Rightarrow> os_env" where
  "working_os sfx = \<lparr>os_fail = (\<lambda>_ _. None), os_left = (\<lambda>_ _. None), os_now = (\<lambda>_. 0), os_suffix = (\<lambda>_. sfx)\<rparr>"

definition example_config :: Config where
  "example_config = \<lparr>cf_P7 = \<lparr>p7_BaseURL = ''http://hub'', p7_SourceKey = ''k'', p7_TimeoutSec = 20\<rparr>, cf_Audio = example_audio,
     cf_Metadata = \<lparr>md_System = 1, md_SystemLabel = [], md_Talkgroup = 18, md_TalkgroupLabel = [], md_TalkgroupGroup = [],
       md_TalkgroupTag = [], md_Frequency = 0\<rparr>,
     cf_QueueDirectory = ''q'',
     cf_FolderIngest = \<lparr>fi_Enabled = False, fi_Directory = ''in'', fi_ProcessedDirectory = ''out'', fi_ReprocessProcessed = False,
       fi_PollMS = 1000, fi_StableMS = 2500\<rparr>,
     cf_Canary = \<lparr>cn_Enabled = False, cn_IntervalSec = 300, cn_Talkgroup = 0, cn_TalkgroupLabel = []\<rparr>\<rparr>"

definition example_runtime :: RuntimeConfig where
  "example_runtime = \<lparr>rt_Config = example_config, rt_ConfigPath = ''config.toml'', rt_QueueDir = ''q'', rt_FolderIngestDir = ''in'',
     rt_FolderProcessedDir = ''in/out'', rt_UploadURL = ''http://hub/api/call-upload''\<rparr>"

definition queued :: "content \<Rightarrow> entry" where
  "queued c = \<lparr>en_content = c, en_mtime = 0\<rparr>"

definition example_queue :: disk where
  "example_queue = [((''.'', ''q''), queued Folder),
     ((''q'', ''a.wav''), queued (Bytes (replicate 44 0))), ((''q'', ''a.json''), queued (Sidecar [(''talkgroup'', ''18'')])),
     ((''q'', ''b.wav''), queued (Bytes (replicate 90 0))), ((''q'', ''b.json''), queued (Sidecar [(''talkgroup'', ''18'')]))]"

lemma example_queue_eval:
  "mkdir_all (working_os s) (rt_QueueDir example_runtime) example_queue = (None, example_queue)"
  "read_dir (working_os s) (rt_QueueDir example_runtime) example_queue = Inr [''a.json'', ''a.wav'', ''b.json'', ''b.wav'']"
  "json_paths (rt_QueueDir example_runtime) [''a.json'', ''a.wav'', ''b.json'', ''b.wav''] example_queue = [(''q'', ''a.json''), (''q'', ''b.json'')]"
  "queuedAudioPath (working_os s) (''q'', ''a.json'') example_queue = Inr (Some (''q'', ''a.wav''))"
  "build_request (working_os s) (''q'', ''a.json'') (''q'', ''a.wav'') example_queue =
     Inr ([(''talkgroup'', ''18'')], \<lparr>ur_fields = [(''talkgroup'', ''18'')], ur_name = ''a.wav'', ur_audio = replicate 44 0\<rparr>)"
  by code_simp+

theorem short_recording_ends_uploads_witness:
  "\<exists>n' k'. flush_again (working_os []) (hub_net example_upload_env int (\<lambda>_. False)) example_runtime 3 example_queue (example_node, 0) =
      Some (example_queue, (n', k')) \<and> t_calls (nd_db n') = t_calls (nd_db example_node)"
  using short_recording_ends_uploads [OF example_queue_eval] by simp

text \<open>Nothing is deleted while the hub refuses.\<close>

theorem flush_loses_no_audio_witness:
  "\<exists>r d' n' k'. FlushQueue (working_os []) (hub_net example_upload_env int (\<lambda>_. False)) example_runtime example_queue (example_node, 0) = Some (r, d', (n', k')) \<and>
     (content_at (''q'', ''b.wav'') d' = Some (Bytes (replicate 90 0)) \<or> replicate 90 0 \<in> cr_audio ` set (t_calls (nd_db n')))"
proof -
  from short_first_flush [OF example_queue_eval] obtain r n' k' where
    run: "FlushQueue (working_os []) (hub_net example_upload_env int (\<lambda>_. False)) example_runtime example_queue (example_node, 0) = Some (r, example_queue, (n', k'))"
    by force
  have "content_at (''q'', ''b.wav'') example_queue = Some (Bytes (replicate 90 0))" "\<not> json_name (''q'', ''b.wav'')" by code_simp+
  from flush_loses_no_audio [OF run this] run show ?thesis by (metis imageI)
qed

text \<open>A recorder whose queue cannot be listed still keeps what it records.\<close>

definition unlisted_os :: "string \<Rightarrow> os_env" where
  "unlisted_os sfx = (working_os sfx)\<lparr>os_fail := (\<lambda>op _. case op of ReadDir _ \<Rightarrow> Some ''i/o error'' | _ \<Rightarrow> None)\<rparr>"

definition example_input :: "(os_env \<times> int \<times> bytes) list" where
  "example_input = [(unlisted_os ''00000001'', 1, [20, 0]), (unlisted_os ''00000002'', 2, [20, 0]),
     (unlisted_os ''00000003'', 3, [0, 0]), (unlisted_os ''00000004'', 4, [0, 0])]"

lemma example_input_bursts:
  "vox_run example_audio (map snd example_input) (vox_start example_audio) =
     ([Queued [[20, 0], [20, 0], [0, 0], [0, 0]] 1], (vox_start example_audio)\<lparr>vx_startedAt := 1\<rparr>)"
  by (simp add: example_input_def vox_start_def vox_block_def voice_def example_levels example_sizes newRing_def ring_Add_def
      ring_Items_def ring_Clear_def)

lemma unlisted_flush:
  "FlushQueue (unlisted_os sfx) net rt d h = Some (Some ''i/o error'', snd (mkdir_all (unlisted_os sfx) (rt_QueueDir rt) d), h)"
  by (simp add: FlushQueue_def mkdir_all_def read_dir_def unlisted_os_def)

lemma example_runtime_audio: "cf_Audio (rt_Config example_runtime) = example_audio" "rt_QueueDir example_runtime = ''q''"
  by (simp_all add: example_runtime_def example_config_def)

lemma unlisted_queue: "\<exists>p d'. QueueCall (unlisted_os sfx) example_runtime blocks t example_queue = (Inr p, d')"
proof -
  have mk: "mkdir_all (unlisted_os sfx) ''q'' example_queue = (None, example_queue)"
    by (simp add: mkdir_all_def unlisted_os_def split_path_def example_queue_def)
  have ok: "os_fail (unlisted_os sfx) (WriteFile p) d = None" for p d by (simp add: unlisted_os_def)
  have there: "is_dir (''q'', call_stem e t @ x) example_queue = False" for e x
    by (simp add: is_dir_def example_queue_def call_stem_def queued_def)
  have put: "\<exists>d1. put_file (unlisted_os sfx) p c d = (None, d1) \<and> (\<forall>q. q \<noteq> p \<longrightarrow> is_dir q d1 = is_dir q d)" if "\<not> is_dir p d" for p c d
    using that by (auto simp: put_file_def ok is_dir_def)
  let ?wav = "(''q'', call_stem (unlisted_os sfx) t @ ''.wav'')" and ?json = "(''q'', call_stem (unlisted_os sfx) t @ ''.json'')"
  let ?audio = "writeWAVWriter (joinBlocks blocks) (aud_SampleRate example_audio) (aud_Channels example_audio)"
  obtain d1 where 1: "put_file (unlisted_os sfx) ?wav (Bytes ?audio) example_queue = (None, d1)" "\<not> is_dir ?json d1"
    using put [of ?wav example_queue "Bytes ?audio"] there by auto
  from put [OF 1(2)] have "\<exists>d2. put_file (unlisted_os sfx) ?json c d1 = (None, d2)" for c by blast
  then obtain d2 where "put_file (unlisted_os sfx) ?json (Sidecar (metadataFields (rt_Config example_runtime) t
      (call_seconds example_audio (joinBlocks blocks)) (call_stem (unlisted_os sfx) t @ ''.wav''))) d1 = (None, d2)" by blast
  with mk 1(1) show ?thesis by (simp add: QueueCall_def example_runtime_audio)
qed

lemma example_input_run:
  "\<exists>d'. record_run net example_runtime example_input (vox_start example_audio, example_queue, h) =
     Some (None, (vox_start example_audio)\<lparr>vx_startedAt := 1\<rparr>, d', h)"
proof -
  obtain p d' where q: "QueueCall (unlisted_os ''00000004'') example_runtime [[20, 0], [20, 0], [0, 0], [0, 0]] 1 example_queue = (Inr p, d')"
    using unlisted_queue by blast
  show ?thesis
    by (simp add: example_input_def record_block_def vox_start_def vox_block_def voice_def example_levels example_sizes newRing_def
      ring_Add_def ring_Items_def ring_Clear_def example_runtime_audio q unlisted_flush)
qed

theorem recorded_calls_arrive_or_wait_witness:
  "\<exists>d'. record_run (hub_net example_upload_env int (\<lambda>_. False)) example_runtime example_input (vox_start example_audio, example_queue, (example_node, 0)) =
      Some (None, (vox_start example_audio)\<lparr>vx_startedAt := 1\<rparr>, d', (example_node, 0)) \<and>
    ((\<exists>name. content_at (''q'', name) d' = Some (Bytes (call_wav example_runtime [[20, 0], [20, 0], [0, 0], [0, 0]]))) \<or>
     call_wav example_runtime [[20, 0], [20, 0], [0, 0], [0, 0]] \<in> cr_audio ` set (t_calls (nd_db example_node)))"
proof -
  obtain d' where run: "record_run (hub_net example_upload_env int (\<lambda>_. False)) example_runtime example_input (vox_start example_audio, example_queue, (example_node, 0)) =
      Some (None, (vox_start example_audio)\<lparr>vx_startedAt := 1\<rparr>, d', (example_node, 0))"
    by (rule exE [OF example_input_run])
  have "distinct (map (\<lambda>x. os_suffix (fst x) ''call'') example_input)" "list_all (\<lambda>x. length (os_suffix (fst x) ''call'') = 8) example_input"
    by (simp_all add: example_input_def unlisted_os_def working_os_def)
  from recorded_calls_arrive_or_wait [OF run example_runtime_audio(1) [symmetric] this, of "[[20, 0], [20, 0], [0, 0], [0, 0]]" 1]
  have "(\<exists>name. content_at (''q'', name) d' = Some (Bytes (call_wav example_runtime [[20, 0], [20, 0], [0, 0], [0, 0]]))) \<or>
     (\<exists>row \<in> set (t_calls (nd_db example_node)). cr_audio row = call_wav example_runtime [[20, 0], [20, 0], [0, 0], [0, 0]])"
    by (simp add: example_input_bursts example_runtime_audio)
  with run show ?thesis by (metis imageI)
qed

theorem recorded_metadata_arrives_witness:
  "\<forall>src. upload_call (\<lambda>_. 0) src (form_of \<lparr>ur_fields = sent_fields (metadataFields example_config 7 (5 / 4) ''a.wav''), ur_name = ''a.wav'', ur_audio = []\<rparr>) 9 =
    zero_call\<lparr>ca_UserID := is_UserID src, ca_SourceID := is_ID src, ca_System := 1, ca_SystemLabel := [], ca_Talkgroup := 18, ca_TalkgroupLabel := [],
      ca_TalkgroupGroup := [], ca_TalkgroupTag := [], ca_Frequency := 0, ca_Duration := 1250 / 1000, ca_AudioName := ''a.wav'',
      ca_AudioType := ''audio/wav'', ca_CreatedAt := 9, ca_DateTime := 7\<rparr>"
proof -
  have "milli_even (5 / 4) = 1250" by (simp add: milli_even_def Let_def)
  with recorded_metadata_arrives [OF refl, of example_config 7 "\<lambda>_. 0" _ "5 / 4" "''a.wav''" "''a.wav''" "[]" 9]
  show ?thesis by (simp add: example_config_def max_int64_def)
qed

end
