(* ===== verification/RecorderConfig.thy ===== *)
theory RecorderConfig
  imports RecorderSafety
begin

text \<open>
  Loading the recorder's settings (\<open>loadConfig\<close>) and probing the hub (\<open>checkHubConnectivity\<close>) in
  \<open>tools/p7-recorder-go/cmd/p7-recorder-go/main.go\<close>. The TOML decoder, the parser of URLs and the health request are arguments;
  the probe of the source key meets the hub's own upload handler.
\<close>

section \<open>Paths\<close>

text \<open>\<open>filepath.Clean\<close>, \<open>Join\<close> and \<open>Dir\<close> for slashes.\<close>

fun clean_parts :: "bool \<Rightarrow> string list \<Rightarrow> string list \<Rightarrow> string list" where
  "clean_parts rooted acc [] = rev acc"
| "clean_parts rooted acc (p # ps) =
     (if p = [] \<or> p = ''.'' then clean_parts rooted acc ps
      else if p = ''..'' then
        (case acc of
           [] \<Rightarrow> clean_parts rooted (if rooted then [] else [''..'']) ps
         | a # as \<Rightarrow> clean_parts rooted (if a = ''..'' then ''..'' # acc else as) ps)
      else clean_parts rooted (p # acc) ps)"

fun split_slash :: "string \<Rightarrow> string list" where
  "split_slash [] = [[]]"
| "split_slash (c # cs) = (if c = CHR ''/'' then [] # split_slash cs else (case split_slash cs of [] \<Rightarrow> [[c]] | p # ps \<Rightarrow> (c # p) # ps))"

fun join_slash :: "string list \<Rightarrow> string" where
  "join_slash [] = []"
| "join_slash [p] = p"
| "join_slash (p # ps) = p @ ''/'' @ join_slash ps"

definition IsAbs :: "string \<Rightarrow> bool" where
  "IsAbs s \<longleftrightarrow> HasPrefix s ''/''"

definition Clean :: "string \<Rightarrow> string" where
  "Clean s =
     (let parts = clean_parts (IsAbs s) [] (split_slash s) in
      if IsAbs s then ''/'' @ join_slash parts else if parts = [] then ''.'' else join_slash parts)"

definition Join :: "string \<Rightarrow> string \<Rightarrow> string" where
  "Join a b = (if a = [] then (if b = [] then [] else Clean b) else if b = [] then Clean a else Clean (a @ ''/'' @ b))"

definition Dir :: "string \<Rightarrow> string" where
  "Dir s = Clean (rev (dropWhile (\<lambda>c. c \<noteq> CHR ''/'') (rev s)))"

section \<open>Settings\<close>

text \<open>A URL as far as its path matters.\<close>

record url =
  ul_Before :: string
  ul_Path :: string
  ul_After :: string

definition url_string :: "url \<Rightarrow> string" where
  "url_string u = ul_Before u @ ul_Path u @ ul_After u"

definition TrimRight :: "string \<Rightarrow> string" where
  "TrimRight s = rev (dropWhile (\<lambda>c. c = CHR ''/'') (rev s))"

definition default_config :: Config where
  "default_config = \<lparr>cf_P7 = \<lparr>p7_BaseURL = ''https://p7hub.projectseven.us/'', p7_SourceKey = [], p7_TimeoutSec = 20\<rparr>,
     cf_Audio = \<lparr>aud_Device = [], aud_SampleRate = 16000, aud_Channels = 1, aud_BlockMS = 100, aud_Threshold = 500, aud_SilenceMS = 1200,
       aud_MinDurationMS = 400, aud_MaxDurationSec = 120, aud_PreRollMS = 300\<rparr>,
     cf_Metadata = \<lparr>md_System = 1, md_SystemLabel = ''GMRS'', md_Talkgroup = 18, md_TalkgroupLabel = ''GMRS Channel 18'',
       md_TalkgroupGroup = ''GMRS'', md_TalkgroupTag = ''voice'', md_Frequency = 462625000\<rparr>,
     cf_QueueDirectory = ''queue'',
     cf_FolderIngest = \<lparr>fi_Enabled = False, fi_Directory = ''ingest'', fi_ProcessedDirectory = ''processed'', fi_ReprocessProcessed = False,
       fi_PollMS = 1000, fi_StableMS = 2500\<rparr>,
     cf_Canary = \<lparr>cn_Enabled = False, cn_IntervalSec = 300, cn_Talkgroup = 0, cn_TalkgroupLabel = []\<rparr>\<rparr>"

definition trimmed_config :: "Config \<Rightarrow> Config" where
  "trimmed_config c = c\<lparr>cf_P7 := (cf_P7 c)\<lparr>p7_BaseURL := TrimSpace (p7_BaseURL (cf_P7 c)), p7_SourceKey := TrimSpace (p7_SourceKey (cf_P7 c))\<rparr>\<rparr>"

definition repaired_audio :: "AudioConfig \<Rightarrow> AudioConfig" where
  "repaired_audio a = (if aud_BlockMS a \<le> 0 then a\<lparr>aud_BlockMS := 100\<rparr> else a)"

definition repaired_p7 :: "P7Config \<Rightarrow> P7Config" where
  "repaired_p7 p = (if p7_TimeoutSec p \<le> 0 then p\<lparr>p7_TimeoutSec := 20\<rparr> else p)"

definition repaired_ingest :: "FolderIngestConfig \<Rightarrow> FolderIngestConfig" where
  "repaired_ingest f =
     (let f1 = (if fi_PollMS f \<le> 0 then f\<lparr>fi_PollMS := 1000\<rparr> else f) in
      if fi_StableMS f1 \<le> 0 then f1\<lparr>fi_StableMS := 2500\<rparr> else f1)"

definition repaired_canary :: "CanaryConfig \<Rightarrow> CanaryConfig" where
  "repaired_canary c = (if cn_Enabled c \<and> cn_IntervalSec c \<le> 0 then c\<lparr>cn_IntervalSec := 300\<rparr> else c)"

definition or_default :: "string \<Rightarrow> string \<Rightarrow> string" where
  "or_default s dflt = (if TrimSpace s = [] then dflt else TrimSpace s)"

text \<open>A relative directory lies under \<open>base\<close>.\<close>

definition located :: "string \<Rightarrow> string \<Rightarrow> string" where
  "located base dir = (if IsAbs dir then dir else Join base dir)"

text \<open>
  \<open>decode\<close> lays the file over the defaults. Every repair is of a field of its own, so their order does not matter.
\<close>

definition loadConfig :: "(Config \<Rightarrow> string + Config) \<Rightarrow> (string \<Rightarrow> string + url) \<Rightarrow> string \<Rightarrow> string + RuntimeConfig" where
  "loadConfig decode parse_url path =
     (case decode default_config of
        Inl e \<Rightarrow> Inl e
      | Inr raw \<Rightarrow>
          (let cfg = trimmed_config raw; p7 = cf_P7 cfg; a = cf_Audio cfg in
           if p7_BaseURL p7 = [] then Inl ''p7.base_url is required''
           else if p7_SourceKey p7 = [] \<or> HasPrefix (p7_SourceKey p7) ''sk_live_REPLACE'' then Inl ''p7.source_key must be set to a generated source API key''
           else if aud_SampleRate a \<le> 0 \<or> aud_Channels a \<le> 0 then Inl ''audio.sample_rate and audio.channels must be positive''
           else if aud_Channels a > 2 then Inl ''audio.channels must be 1 or 2''
           else (case parse_url (p7_BaseURL p7) of
               Inl e \<Rightarrow> Inl (''p7.base_url: '' @ e)
             | Inr base \<Rightarrow>
                 (let ingestDir = located (Dir path) (or_default (fi_Directory (cf_FolderIngest cfg)) ''ingest'') in
                  Inr \<lparr>rt_Config = cfg\<lparr>cf_P7 := repaired_p7 p7, cf_Audio := repaired_audio a,
                          cf_FolderIngest := repaired_ingest (cf_FolderIngest cfg), cf_Canary := repaired_canary (cf_Canary cfg)\<rparr>,
                       rt_ConfigPath = path, rt_QueueDir = located (Dir path) (or_default (cf_QueueDirectory cfg) ''queue''),
                       rt_FolderIngestDir = ingestDir,
                       rt_FolderProcessedDir = located ingestDir (or_default (fi_ProcessedDirectory (cf_FolderIngest cfg)) ''processed''),
                       rt_UploadURL = url_string (base\<lparr>ul_Path := TrimRight (ul_Path base) @ ''/api/call-upload''\<rparr>)\<rparr>))))"

section \<open>Probing the hub\<close>

text \<open>An answer: the code, the status line and the body.\<close>

record http_answer =
  ha_code :: int
  ha_status :: string
  ha_body :: string

definition probe_result :: "http_answer \<Rightarrow> string option" where
  "probe_result r =
     (let message = TrimSpace (take 2048 (ha_body r)) in
      if ha_code r = 417 \<and> contains_text message ''incomplete call data'' then None
      else if ha_code r = 401 then Some ''source key rejected''
      else if ha_code r = 403 then Some ''source is disabled''
      else Some (''source key probe returned '' @ ha_status r @ '': '' @ message))"

definition probe_fields :: "Config \<Rightarrow> queuedFields" where
  "probe_fields cfg = [(''key'', p7_SourceKey (cf_P7 cfg)), (''test'', ''1'')]"

text \<open>\<open>health\<close> answers the first request, \<open>probe\<close> the form that is sent with the key.\<close>

definition checkHubConnectivity ::
  "(string \<Rightarrow> string + url) \<Rightarrow> (string \<Rightarrow> string + http_answer) \<Rightarrow> (string \<Rightarrow> queuedFields \<Rightarrow> string + http_answer) \<Rightarrow> RuntimeConfig \<Rightarrow> string option" where
  "checkHubConnectivity parse_url health probe rt =
     (case parse_url (p7_BaseURL (cf_P7 (rt_Config rt))) of
        Inl e \<Rightarrow> Some (''p7.base_url: '' @ e)
      | Inr base \<Rightarrow>
          (case health (url_string (base\<lparr>ul_Path := TrimRight (ul_Path base) @ ''/api/v1/health'', ul_After := []\<rparr>)) of
             Inl e \<Rightarrow> Some (''health request: '' @ e)
           | Inr r \<Rightarrow>
               if ha_code r < 200 \<or> ha_code r \<ge> 300 then Some (''health endpoint returned '' @ ha_status r)
               else (case probe (rt_UploadURL rt) (probe_fields (rt_Config rt)) of
                   Inl e \<Rightarrow> Some (''source key probe: '' @ e)
                 | Inr r \<Rightarrow> probe_result r)))"

section \<open>What the settings promise\<close>

lemma loadConfig_from:
  assumes "loadConfig decode parse_url path = Inr rt"
  shows "\<exists>cfg. p7_SourceKey (cf_P7 cfg) \<noteq> [] \<and> 0 < aud_SampleRate (cf_Audio cfg) \<and> 0 < aud_Channels (cf_Audio cfg) \<and>
    aud_Channels (cf_Audio cfg) \<le> 2 \<and>
    rt_Config rt = cfg\<lparr>cf_P7 := repaired_p7 (cf_P7 cfg), cf_Audio := repaired_audio (cf_Audio cfg),
      cf_FolderIngest := repaired_ingest (cf_FolderIngest cfg), cf_Canary := repaired_canary (cf_Canary cfg)\<rparr>"
proof (cases "decode default_config")
  case (Inr raw)
  let ?cfg = "trimmed_config raw"
  from assms Inr show ?thesis
    by (intro exI [of _ ?cfg]) (auto simp: loadConfig_def Let_def split: sum.splits if_splits)
qed (use assms in \<open>simp add: loadConfig_def\<close>)

text \<open>
  A recorder that starts has settings its loops can run on: no block is without length, so none of the divisions by it fails, the
  formats and waiting times are positive.
\<close>

theorem loaded_config_runs:
  assumes "loadConfig decode parse_url path = Inr rt" "a = cf_Audio (rt_Config rt)" "f = cf_FolderIngest (rt_Config rt)"
  shows "0 < aud_BlockMS a \<and> 0 < aud_SampleRate a \<and> aud_Channels a \<in> {1, 2} \<and> 0 < fi_PollMS f \<and> 0 < fi_StableMS f \<and>
    0 < p7_TimeoutSec (cf_P7 (rt_Config rt)) \<and> p7_SourceKey (cf_P7 (rt_Config rt)) \<noteq> [] \<and>
    (cn_Enabled (cf_Canary (rt_Config rt)) \<longrightarrow> 0 < cn_IntervalSec (cf_Canary (rt_Config rt)))"
proof -
  obtain cfg where cfg: "p7_SourceKey (cf_P7 cfg) \<noteq> []" "0 < aud_SampleRate (cf_Audio cfg)" "0 < aud_Channels (cf_Audio cfg)"
      "aud_Channels (cf_Audio cfg) \<le> 2" and
    rt: "rt_Config rt = cfg\<lparr>cf_P7 := repaired_p7 (cf_P7 cfg), cf_Audio := repaired_audio (cf_Audio cfg),
      cf_FolderIngest := repaired_ingest (cf_FolderIngest cfg), cf_Canary := repaired_canary (cf_Canary cfg)\<rparr>"
    using loadConfig_from [OF assms(1)] by blast
  from cfg have "aud_Channels (cf_Audio cfg) = 1 \<or> aud_Channels (cf_Audio cfg) = 2" by linarith
  with cfg assms(2,3) show ?thesis
    by (auto simp: rt repaired_audio_def repaired_p7_def repaired_ingest_def repaired_canary_def Let_def)
qed

text \<open>
  With a pre-roll shorter than a block the ring holds nothing, and the block whose level starts a call is not in it.
\<close>

lemma no_pre_roll_drops_first_block:
  assumes "preRollBlocks a = 0" "voice a block" "vx_preRoll v = newRing 0" "\<not> vx_active v"
  shows "\<exists>v'. vox_block a now block v = (None, v') \<and> vx_active v' \<and> vx_activeBlocks v' = []"
  using assms by (auto simp: vox_block_def newRing_def ring_Add_def ring_Items_def Let_def)

section \<open>The probe meets the hub\<close>

definition probe_form :: "queuedFields \<Rightarrow> upload_form" where
  "probe_form fs = \<lparr>uf_value = field fs, uf_file = (\<lambda>_. None)\<rparr>"

definition http_of :: "string reply \<Rightarrow> http_answer" where
  "http_of r = (case r of Reply c b \<Rightarrow> \<lparr>ha_code = c, ha_status = format_int c, ha_body = b\<rparr>
     | Fail c b \<Rightarrow> \<lparr>ha_code = c, ha_status = format_int c, ha_body = b\<rparr>)"

text \<open>
  The recorder's check of its source key says yes exactly when the hub would take uploads under it: the key is that of a source
  that is there and enabled. And checking stores no call.
\<close>

theorem key_check_iff:
  assumes "handleCallUpload up (Some (probe_form (probe_fields cfg))) now n = (r, n')"
  shows "(probe_result (http_of r) = None \<longleftrightarrow>
      p7_SourceKey (cf_P7 cfg) \<noteq> [] \<and> (\<exists>src. fst (GetSourceByAPIKey (p7_SourceKey (cf_P7 cfg)) now (nd_db n)) = Some src \<and> is_Enabled src)) \<and>
    t_calls (nd_db n') = t_calls (nd_db n)"
proof -
  let ?key = "p7_SourceKey (cf_P7 cfg)"
  have key: "field (probe_fields cfg) ''key'' = ?key" "field (probe_fields cfg) ''test'' = ''1''" by (simp_all add: field_def probe_fields_def)
  have msg: "contains_text (TrimSpace (take 2048 ''incomplete call data: no talkgroup'')) ''incomplete call data''" by code_simp
  obtain res d1 where res: "resolveUploadSource ?key now (nd_db n) = (res, d1)" by force
  note same = resolveUploadSource_calls [OF res]
  show ?thesis
  proof (cases res)
    case (Inl why)
    with assms res have "r = Fail 401 why" "n' = n\<lparr>nd_db := d1\<rparr>" by (simp_all add: handleCallUpload_def probe_form_def key)
    with Inl res same show ?thesis
      by (auto simp: http_of_def probe_result_def Let_def resolveUploadSource_def split: if_splits prod.splits option.splits)
  next
    case (Inr src)
    then have src: "?key \<noteq> []" "fst (GetSourceByAPIKey ?key now (nd_db n)) = Some src"
      using res by (auto simp: resolveUploadSource_def split: if_splits prod.splits option.splits)
    from assms res Inr have "n' = n\<lparr>nd_db := d1\<rparr>"
      "r = (if is_Enabled src then Fail 417 ''incomplete call data: no talkgroup'' else Fail 403 ''source disabled'')"
      by (auto simp: handleCallUpload_def probe_form_def key Let_def split: if_splits)
    with src same msg show ?thesis by (auto simp: http_of_def probe_result_def Let_def)
  qed
qed

theorem key_check_iff_witness:
  "\<exists>r n'. handleCallUpload example_upload_env (Some (probe_form (probe_fields example_config))) 9 example_node = (r, n') \<and>
    t_calls (nd_db n') = t_calls (nd_db example_node)"
proof -
  obtain r n' where run: "handleCallUpload example_upload_env (Some (probe_form (probe_fields example_config))) 9 example_node = (r, n')" by force
  from key_check_iff [OF run] run show ?thesis by blast
qed

end
