(* ===== verification/ServerConfig.thy ===== *)
theory ServerConfig
  imports CallArchive Intake IncidentApi
begin

text \<open>
  What a server starts with and says of itself: the settings read from the environment
  (\<open>server/internal/config/config.go\<close>), the health, version and update reports (\<open>api/health.go\<close>), and the sign-in mail
  (\<open>api/mailjet.go\<close>). The environment, the update manifest and the mail service are arguments.
\<close>

section \<open>Reading the environment\<close>

type_synonym environment = "string \<Rightarrow> string"

definition getEnv :: "environment \<Rightarrow> string \<Rightarrow> string \<Rightarrow> string" where
  "getEnv env key fallback = (if env key = [] then fallback else env key)"

fun getFirstEnv :: "environment \<Rightarrow> string list \<Rightarrow> string \<Rightarrow> string" where
  "getFirstEnv env [] fallback = fallback"
| "getFirstEnv env (key # keys) fallback = (if env key \<noteq> [] then env key else getFirstEnv env keys fallback)"

definition trim_quotes :: "string \<Rightarrow> string" where
  "trim_quotes s =
     (let q = (\<lambda>c. c = CHR 0x22 \<or> c = CHR 0x27) in rev (dropWhile q (rev (dropWhile q s))))"

definition getBoolEnv :: "environment \<Rightarrow> string \<Rightarrow> bool \<Rightarrow> bool" where
  "getBoolEnv env key fallback =
     (let v = trim_quotes (ToLower (TrimSpace (env key))) in
      if v = [] then fallback else v \<in> set [''1'', ''true'', ''yes'', ''on''])"

text \<open>\<open>fmt.Sscanf\<close> with \<open>%d\<close>: an optional sign and the digits after it; what follows is not looked at.\<close>

definition int_token :: "string \<Rightarrow> string" where
  "int_token s = (case s of [] \<Rightarrow> [] | c # cs \<Rightarrow>
     if c = CHR ''-'' \<or> c = CHR ''+'' then c # takeWhile is_digit cs else takeWhile is_digit s)"

definition getIntEnv :: "environment \<Rightarrow> string \<Rightarrow> int \<Rightarrow> int" where
  "getIntEnv env key fallback =
     (let v = TrimSpace (env key) in
      if v = [] then fallback
      else (case ParseInt (int_token v) of (n, ok) \<Rightarrow> if ok then n else fallback))"

definition getInt64Env :: "environment \<Rightarrow> string \<Rightarrow> int \<Rightarrow> int" where
  "getInt64Env env key fallback = getIntEnv env key fallback"

text \<open>\<open>%f\<close> on decimal numbers, exactly: sign, digits, a point, digits, and an exponent.\<close>

definition float_token :: "string \<Rightarrow> string \<times> string \<times> string \<times> string" where
  "float_token s =
     (let sign = (case s of c # _ \<Rightarrow> if c = CHR ''-'' \<or> c = CHR ''+'' then [c] else [] | [] \<Rightarrow> []);
          r = drop (length sign) s; whole = takeWhile is_digit r; r2 = dropWhile is_digit r;
          decs = (if prefix ''.'' r2 then takeWhile is_digit (tl r2) else []);
          r3 = (if prefix ''.'' r2 then dropWhile is_digit (tl r2) else r2);
          ex = (case r3 of c # cs \<Rightarrow> if c = CHR ''e'' \<or> c = CHR ''E'' then c # int_token cs else [] | [] \<Rightarrow> []) in
      (sign, whole, decs, ex))"

definition getFloat64Env :: "environment \<Rightarrow> string \<Rightarrow> rat \<Rightarrow> rat" where
  "getFloat64Env env key fallback =
     (let v = TrimSpace (env key) in
      if v = [] then fallback
      else (case float_token v of (sign, whole, decs, ex) \<Rightarrow>
        if whole = [] \<and> decs = [] then fallback
        else (let e = (if ex = [] then (0, True) else ParseInt (tl ex)); n = of_nat (digits_val (whole @ decs));
                  scale = fst e - int (length decs) in
          if \<not> snd e then fallback
          else (if sign = ''-'' then - 1 else 1) * n * (if 0 \<le> scale then 10 ^ nat scale else 1 / 10 ^ nat (- scale)))))"

definition parseCommaList :: "string \<Rightarrow> string list" where
  "parseCommaList value =
     (let out = filter (\<lambda>p. p \<noteq> []) (map TrimSpace (split_comma value)) in if out = [] then [''signal1''] else out)"

definition normalizeHubTrustLevel :: "string \<Rightarrow> string" where
  "normalizeHubTrustLevel value =
     (let v = ToLower (TrimSpace value) in
      if v \<in> set [''listed'', ''verified'', ''trusted'', ''official'', ''suspended''] then v else ''community'')"

text \<open>\<open>slog.Level.UnmarshalText\<close>: a name and an offset.\<close>

definition parse_level :: "string \<Rightarrow> int option" where
  "parse_level s =
     (let name = takeWhile (\<lambda>c. c \<noteq> CHR ''+'' \<and> c \<noteq> CHR ''-'') s; rest = drop (length name) s;
          offset = (if rest = [] then (0, True) else ParseInt rest);
          base = [''DEBUG'' \<mapsto> - 4, ''INFO'' \<mapsto> 0, ''WARN'' \<mapsto> 4, ''ERROR'' \<mapsto> 8] (ToUpper name) in
      if \<not> snd offset then None else map_option (\<lambda>l. l + fst offset) base)"

section \<open>The settings\<close>

text \<open>The groups of settings the components take are records of theirs; the others are fields of their own.\<close>

record server_config =
  sc_ListenAddr :: string
  sc_DatabaseURL :: string
  sc_StackID :: string
  sc_DeployTag :: string
  sc_PublicBaseURL :: string
  sc_MailFromEmail :: string
  sc_MailFromName :: string
  sc_MailjetAPIKey :: string
  sc_MailjetSecretKey :: string
  sc_HubDirectoryURL :: string
  sc_UpdateCheckURL :: string
  sc_AuthBootstrapEmail :: string
  sc_AuthBootstrapPassword :: string
  sc_AuthAutoApproveUsers :: bool
  sc_ConversationGapSeconds :: rat
  sc_LogLevel :: int
  sc_Auth :: auth_config
  sc_Incident :: incident_config
  sc_Transcription :: transcription_config
  sc_Archive :: archive_config

definition trimmed_env :: "environment \<Rightarrow> string \<Rightarrow> string \<Rightarrow> string" where
  "trimmed_env env key fallback = TrimSpace (getEnv env key fallback)"

definition hub_settings :: "environment \<Rightarrow> hub_config" where
  "hub_settings env =
     \<lparr>cfg_HubName = trimmed_env env ''HUB_NAME'' ''SignalForge Hub'',
      cfg_HubPublicURL = trimmed_env env ''HUB_PUBLIC_URL'' (trimmed_env env ''APP_BASE_URL'' []),
      cfg_HubRegion = trimmed_env env ''HUB_REGION'' [], cfg_HubContact = trimmed_env env ''HUB_CONTACT'' [],
      cfg_HubFederation = getBoolEnv env ''HUB_FEDERATION_ENABLED'' False,
      cfg_HubTrustLevel = normalizeHubTrustLevel (getEnv env ''HUB_TRUST_LEVEL'' ''community''),
      cfg_HubTrustIssuer = trimmed_env env ''HUB_TRUST_ISSUER'' [], cfg_HubTrustCert = trimmed_env env ''HUB_TRUST_CERTIFICATE'' [],
      cfg_HubTrustExpires = getInt64Env env ''HUB_TRUST_EXPIRES_AT'' 0\<rparr>"

definition archive_settings :: "environment \<Rightarrow> archive_config" where
  "archive_settings env =
     \<lparr>acf_CallRetentionDays = getIntEnv env ''CALL_RETENTION_DAYS'' 0,
      acf_CallArchiveDir = trimmed_env env ''CALL_ARCHIVE_DIR'' ''/data/call-archive'',
      acf_CallArchiveS3URI = trimmed_env env ''CALL_ARCHIVE_S3_URI'' [],
      acf_CallArchiveS3Cfg = trimmed_env env ''CALL_ARCHIVE_S3CFG'' ''/etc/signalforge/s3cfg'',
      acf_DeleteLocalAfterS3 = getBoolEnv env ''CALL_ARCHIVE_DELETE_LOCAL_AFTER_S3'' False,
      acf_VacuumFull = getBoolEnv env ''CALL_ARCHIVE_VACUUM_FULL'' True\<rparr>"

text \<open>The settings before the checks.\<close>

definition read_config :: "environment \<Rightarrow> server_config" where
  "read_config env =
     \<lparr>sc_ListenAddr = getEnv env ''LISTEN_ADDR'' '':8080'',
      sc_DatabaseURL = getEnv env ''DATABASE_URL'' ''postgres://p7scanner@localhost:5432/p7scanner?sslmode=disable'',
      sc_StackID = getFirstEnv env [''STACK_ID'', ''PORTAINER_STACK_NAME'', ''COMPOSE_PROJECT_NAME''] ''local'',
      sc_DeployTag = getFirstEnv env [''DEPLOY_TAG'', ''IMAGE_TAG''] ''unknown'',
      sc_PublicBaseURL = trimmed_env env ''APP_BASE_URL'' [],
      sc_MailFromEmail = trimmed_env env ''MAIL_FROM_EMAIL'' [],
      sc_MailFromName = trimmed_env env ''MAIL_FROM_NAME'' ''SignalForge Hub'',
      sc_MailjetAPIKey = trimmed_env env ''MAILJET_API_KEY'' [],
      sc_MailjetSecretKey = trimmed_env env ''MAILJET_SECRET_KEY'' [],
      sc_HubDirectoryURL = trimmed_env env ''HUB_DIRECTORY_URL'' ''https://signalforge.org/directory/hubs.json'',
      sc_UpdateCheckURL = trimmed_env env ''UPDATE_CHECK_URL'' ''https://signalforge.org/p7-scanner-update.json'',
      sc_AuthBootstrapEmail = ToLower (trimmed_env env ''AUTH_BOOTSTRAP_EMAIL'' []),
      sc_AuthBootstrapPassword = getEnv env ''AUTH_BOOTSTRAP_PASSWORD'' [],
      sc_AuthAutoApproveUsers = getBoolEnv env ''AUTH_AUTO_APPROVE_USERS'' False,
      sc_ConversationGapSeconds = getFloat64Env env ''CONVERSATION_GAP_SECONDS'' 4,
      sc_LogLevel = 0,
      sc_Auth = \<lparr>cfg_AppEnv = getEnv env ''APP_ENV'' ''development'',
        cfg_AuthPasswordLoginEnabled = getBoolEnv env ''AUTH_PASSWORD_LOGIN_ENABLED'' False\<rparr>,
      sc_Incident = \<lparr>ig_Hub = hub_settings env, ig_DiscordBotWorkerToken = trimmed_env env ''DISCORD_BOT_WORKER_TOKEN'' [],
        ig_DiscordBotInstances = parseCommaList (getEnv env ''DISCORD_BOT_INSTANCES'' ''signal1''),
        ig_IncidentArchiveDays = getIntEnv env ''INCIDENT_ARCHIVE_DAYS'' 365\<rparr>,
      sc_Transcription = \<lparr>cfg_TranscriptionWorkerToken = trimmed_env env ''TRANSCRIPTION_WORKER_TOKEN'' [],
        cfg_TranscriptionMinDuration = getFloat64Env env ''TRANSCRIPTION_MIN_DURATION_SECONDS'' (3 / 4)\<rparr>,
      sc_Archive = archive_settings env\<rparr>"

definition app_envs :: "string list" where
  "app_envs = [''development'', ''staging'', ''production'', ''test'']"

definition implied_login :: "server_config \<Rightarrow> server_config" where
  "implied_login cfg =
     (if sc_AuthBootstrapEmail cfg \<noteq> [] \<and> TrimSpace (sc_AuthBootstrapPassword cfg) \<noteq> []
      then cfg\<lparr>sc_Auth := (sc_Auth cfg)\<lparr>cfg_AuthPasswordLoginEnabled := True\<rparr>\<rparr> else cfg)"

definition Load :: "environment \<Rightarrow> string + server_config" where
  "Load env =
     (let cfg = read_config env; logLevel = getEnv env ''LOG_LEVEL'' ''info'' in
      case parse_level logLevel of
        None \<Rightarrow> Inl (''invalid LOG_LEVEL '' @ logLevel)
      | Some l \<Rightarrow>
          if cfg_AppEnv (sc_Auth cfg) \<notin> set app_envs then Inl (''invalid APP_ENV '' @ cfg_AppEnv (sc_Auth cfg))
          else (let cfg1 = implied_login (cfg\<lparr>sc_LogLevel := l\<rparr>) in
            Inr (if sc_ConversationGapSeconds cfg1 < 0 then cfg1\<lparr>sc_ConversationGapSeconds := 0\<rparr> else cfg1)))"

section \<open>Updates\<close>

record updateManifest =
  um_Commit :: string
  um_ImageTag :: string

definition isUpdateAvailable :: "string \<Rightarrow> string \<Rightarrow> updateManifest \<Rightarrow> bool" where
  "isUpdateAvailable currentCommit currentTag manifest =
     (let latestCommit = TrimSpace (um_Commit manifest); commit = TrimSpace currentCommit;
          latestTag = TrimSpace (um_ImageTag manifest); tag = TrimSpace currentTag in
      if latestCommit \<noteq> [] \<and> commit \<noteq> [] \<and> commit \<noteq> ''unknown'' then \<not> EqualFold commit latestCommit
      else latestTag \<noteq> [] \<and> tag \<noteq> [] \<and> tag \<noteq> ''unknown'' \<and> \<not> EqualFold tag latestTag)"

text \<open>What the address answers: no answer, a refusal with status and body, something that is no manifest, or one.\<close>

datatype manifest_answer =
    NoManifest string
  | Refused string string
  | Unreadable string
  | Manifest updateManifest

definition fetchUpdateManifest :: "manifest_answer \<Rightarrow> string + updateManifest" where
  "fetchUpdateManifest a =
     (case a of
        NoManifest e \<Rightarrow> Inl e
      | Refused status body \<Rightarrow>
          (let message = TrimSpace (take 256 body) in Inl (''update manifest unavailable: '' @ (if message = [] then status else message)))
      | Unreadable e \<Rightarrow> Inl e
      | Manifest m \<Rightarrow>
          if TrimSpace (um_Commit m) = [] \<and> TrimSpace (um_ImageTag m) = [] then Inl ''update manifest missing commit and image tag'' else Inr m)"

record updateCheckResponse =
  uc_Latest :: "updateManifest option"
  uc_UpdateAvailable :: bool
  uc_CheckURL :: string
  uc_Error :: string

definition handleUpdateCheck :: "string \<Rightarrow> server_config \<Rightarrow> (string \<Rightarrow> manifest_answer) \<Rightarrow> updateCheckResponse reply" where
  "handleUpdateCheck commit cfg web =
     (let url = sc_UpdateCheckURL cfg; empty = \<lparr>uc_Latest = None, uc_UpdateAvailable = False, uc_CheckURL = url, uc_Error = []\<rparr> in
      if url = [] then Reply 200 (empty\<lparr>uc_Error := ''update checks disabled''\<rparr>)
      else (case fetchUpdateManifest (web url) of
          Inl e \<Rightarrow> Reply 200 (empty\<lparr>uc_Error := e\<rparr>)
        | Inr m \<Rightarrow> Reply 200 (empty\<lparr>uc_Latest := Some m, uc_UpdateAvailable := isUpdateAvailable commit (sc_DeployTag cfg) m\<rparr>)))"

section \<open>The sign-in mail\<close>

text \<open>What of a request the link takes: whether it came over TLS, the forwarding headers and the host.\<close>

record mail_request =
  mr_TLS :: bool
  mr_ForwardedProto :: string
  mr_ForwardedHost :: string
  mr_Host :: string

definition hex_char :: "nat \<Rightarrow> char" where
  "hex_char n = ''0123456789ABCDEF'' ! n"

definition query_char :: "char \<Rightarrow> string" where
  "query_char c =
     (let n = (of_char c :: nat) in
      if is_digit c \<or> (65 \<le> n \<and> n \<le> 90) \<or> (97 \<le> n \<and> n \<le> 122) \<or> c \<in> set ''-_.~'' then [c]
      else if c = CHR '' '' then ''+'' else [CHR ''%'', hex_char (n div 16), hex_char (n mod 16)])"

definition QueryEscape :: "string \<Rightarrow> string" where
  "QueryEscape s = concat (map query_char s)"

definition trim_right_slash :: "string \<Rightarrow> string" where
  "trim_right_slash s = rev (dropWhile (\<lambda>c. c = CHR ''/'') (rev s))"

definition magicLinkVerifyURL :: "server_config \<Rightarrow> mail_request \<Rightarrow> string \<Rightarrow> string" where
  "magicLinkVerifyURL cfg r token =
     (let base = TrimSpace (sc_PublicBaseURL cfg); proto = TrimSpace (mr_ForwardedProto r); fwd = TrimSpace (mr_ForwardedHost r) in
      if base \<noteq> [] then trim_right_slash base @ ''/?token='' @ QueryEscape token
      else (if proto \<noteq> [] then proto else if mr_TLS r then ''https'' else ''http'') @ ''://'' @
           (if fwd = [] then mr_Host r else fwd) @ ''/?token='' @ QueryEscape token)"

record mail =
  ml_From :: "string \<times> string"
  ml_To :: string
  ml_Subject :: string
  ml_Text :: string

datatype mail_result = MailError string | MailSkipped | MailSent mail

text \<open>\<open>post\<close> hands the message to the mail service: its error, or its status and body. The HTML part says the same as the text.\<close>

definition sendMagicLinkEmail ::
  "server_config \<Rightarrow> (mail \<Rightarrow> string + int \<times> string) \<Rightarrow> string \<Rightarrow> string \<Rightarrow> string \<Rightarrow> string \<Rightarrow> mail_result" where
  "sendMagicLinkEmail cfg post toEmail verifyURL token code =
     (let fromEmail = TrimSpace (sc_MailFromEmail cfg);
          fromName = (if TrimSpace (sc_MailFromName cfg) = [] then ''SignalForge Hub'' else TrimSpace (sc_MailFromName cfg));
          nl = [CHR 10] in
      if TrimSpace (sc_MailjetAPIKey cfg) = [] \<or> TrimSpace (sc_MailjetSecretKey cfg) = [] \<or> fromEmail = []
      then (if cfg_AppEnv (sc_Auth cfg) = ''production'' then MailError ''mail delivery is not configured'' else MailSkipped)
      else (let m = \<lparr>ml_From = (fromEmail, fromName), ml_To = toEmail, ml_Subject = ''Your SignalForge Hub sign-in code: '' @ code,
                ml_Text = ''Your sign-in code is:'' @ nl @ nl @ code @ nl @ nl @
                  ''Enter this code in the app to sign in (valid for 15 minutes).'' @ nl @ nl @
                  ''Prefer a link? Tap to sign in instead:'' @ nl @ verifyURL @ nl @ nl @
                  ''If the app asks for a token, paste this:'' @ nl @ nl @ token @ nl @ nl @
                  ''If you did not request this, you can ignore this email.''\<rparr> in
        case post m of
          Inl e \<Rightarrow> MailError e
        | Inr (status, body) \<Rightarrow>
            if status \<noteq> 200 \<and> status \<noteq> 201
            then MailError (''mailjet send failed status='' @ format_int status @ '' body='' @ TrimSpace (take 2048 body))
            else MailSent m))"

section \<open>What a server may do that nobody set\<close>

text \<open>
  A server with nothing set starts, shares nothing with other hubs, approves nobody, takes no passwords, deletes no calls,
  transcribes nothing and gives no bot work.
\<close>

theorem default_server_is_closed:
  "\<exists>cfg. Load (\<lambda>_. []) = Inr cfg \<and> \<not> cfg_HubFederation (ig_Hub (sc_Incident cfg)) \<and> \<not> sc_AuthAutoApproveUsers cfg \<and>
     \<not> cfg_AuthPasswordLoginEnabled (sc_Auth cfg) \<and> \<not> callArchiveLoopEnabled (sc_Archive cfg) \<and>
     \<not> transcriptionEnabled (sc_Transcription cfg) \<and> ig_DiscordBotWorkerToken (sc_Incident cfg) = []"
proof -
  have "parse_level ''info'' = Some 0" "TrimSpace [] = []" "trim_quotes (ToLower []) = []" by code_simp+
  then show ?thesis
    by (simp add: Load_def read_config_def Let_def getEnv_def getBoolEnv_def getIntEnv_def getFloat64Env_def app_envs_def implied_login_def
      hub_settings_def archive_settings_def trimmed_env_def callArchiveLoopEnabled_def transcriptionEnabled_def)
qed

text \<open>Starting fails exactly for a log level or an environment that is not known.\<close>

lemma Load_fails_iff:
  "(\<exists>e. Load env = Inl e) \<longleftrightarrow>
     parse_level (getEnv env ''LOG_LEVEL'' ''info'') = None \<or> getEnv env ''APP_ENV'' ''development'' \<notin> set app_envs"
  by (auto simp: Load_def Let_def read_config_def split: option.split)

lemma Load_gap: "Load env = Inr cfg \<Longrightarrow> 0 \<le> sc_ConversationGapSeconds cfg"
  by (auto simp: Load_def Let_def split: option.splits if_splits)

lemma normalizeHubTrustLevel_idem: "normalizeHubTrustLevel (normalizeHubTrustLevel v) = normalizeHubTrustLevel v"
proof -
  have "list_all (\<lambda>v. ToLower (TrimSpace v) = v) [''listed'', ''verified'', ''trusted'', ''official'', ''suspended'', ''community'']" by code_simp
  then show ?thesis by (auto simp: normalizeHubTrustLevel_def Let_def simp del: TrimSpace_ToLower)
qed

text \<open>Quoted switches are read, quoted numbers are not: retention stays off.\<close>

lemma quoted_number_ignored: "CHR 0x22 = hd v \<Longrightarrow> v \<noteq> [] \<Longrightarrow> TrimSpace (env key) = v \<Longrightarrow> getIntEnv env key fallback = fallback"
proof -
  have "\<not> is_digit (CHR 0x22)" "ParseInt [] = (0, False)" by code_simp+
  moreover assume "CHR 0x22 = hd v" "v \<noteq> []" "TrimSpace (env key) = v"
  ultimately show ?thesis by (cases v) (auto simp: getIntEnv_def int_token_def)
qed

text \<open>
  Whoever asks for a link chooses where it leads, unless \<open>APP_BASE_URL\<close> is set: the host in the mail, with the token behind
  it, is the one in the request's own headers.
\<close>

lemma link_leads_where_the_asker_says:
  assumes "TrimSpace (sc_PublicBaseURL cfg) = []" "TrimSpace host = host" "host \<noteq> []"
  shows "magicLinkVerifyURL cfg \<lparr>mr_TLS = True, mr_ForwardedProto = [], mr_ForwardedHost = host, mr_Host = own\<rparr> token =
    ''https://'' @ host @ ''/?token='' @ QueryEscape token"
  using assms by (simp add: magicLinkVerifyURL_def)

text \<open>An update is announced for every other commit, an older one too.\<close>

lemma other_commit_is_update:
  "TrimSpace a \<noteq> [] \<Longrightarrow> TrimSpace b \<noteq> [] \<Longrightarrow> TrimSpace b \<noteq> ''unknown'' \<Longrightarrow>
    isUpdateAvailable b tag \<lparr>um_Commit = a, um_ImageTag = t\<rparr> \<longleftrightarrow> \<not> EqualFold (TrimSpace b) (TrimSpace a)"
  by (simp add: isUpdateAvailable_def)

end
