(* ===== verification/Operator.thy ===== *)
theory Operator
  imports RecorderConfig
begin

text \<open>
  The operator's tool (\<open>tools/signalforge-cli/internal\<close>): the folder it watches and uploads (\<open>recorder/recorder.go\<close>,
  \<open>canary.go\<close>, \<open>beacon.go\<close>, \<open>cli/root.go\<close>), the client of the hub (\<open>api/client.go\<close>), and the profile its settings
  come from (\<open>profile/profile.go\<close>, \<open>config/config.go\<close>). Disk, system calls and hub are those of \<open>RecorderQueue\<close>.
\<close>

section \<open>Settings\<close>

type_synonym Metadata = MetadataConfig

text \<open>Durations are nanoseconds in 64 bits.\<close>

definition duration :: "int \<Rightarrow> int \<Rightarrow> int" where
  "duration n unit = sint (word_of_int n * word_of_int unit :: 64 word)"

definition millisecond :: int where "millisecond = 1000000"
definition second :: int where "second = 1000000000"

record CanarySettings =
  cs_Enabled :: bool
  cs_Interval :: int
  cs_Talkgroup :: int
  cs_TalkgroupLabel :: string

record BeaconSettings =
  bs_Enabled :: bool
  bs_FilePath :: string
  bs_Interval :: int
  bs_Talkgroup :: int
  bs_TalkgroupLabel :: string

record Settings =
  se_Input :: string
  se_Processed :: string
  se_Poll :: int
  se_Stable :: int
  se_Reprocess :: bool
  se_Metadata :: Metadata
  se_Canary :: CanarySettings
  se_Beacon :: BeaconSettings

definition default_metadata :: Metadata where
  "default_metadata = \<lparr>md_System = 1, md_SystemLabel = ''GMRS'', md_Talkgroup = 18, md_TalkgroupLabel = ''GMRS Channel 18'',
     md_TalkgroupGroup = ''GMRS'', md_TalkgroupTag = ''voice'', md_Frequency = 462625000\<rparr>"

definition DefaultSettings :: Settings where
  "DefaultSettings = \<lparr>se_Input = [], se_Processed = [], se_Poll = second, se_Stable = 2500 * millisecond, se_Reprocess = False,
     se_Metadata = default_metadata,
     se_Canary = \<lparr>cs_Enabled = False, cs_Interval = 0, cs_Talkgroup = 0, cs_TalkgroupLabel = []\<rparr>,
     se_Beacon = \<lparr>bs_Enabled = False, bs_FilePath = [], bs_Interval = 0, bs_Talkgroup = 0, bs_TalkgroupLabel = []\<rparr>\<rparr>"

definition MinCanaryInterval :: int where "MinCanaryInterval = 30 * second"
definition MinBeaconInterval :: int where "MinBeaconInterval = 30 * second"

definition NormalizeCanaryInterval :: "int \<Rightarrow> int" where
  "NormalizeCanaryInterval interval = (if interval < MinCanaryInterval then MinCanaryInterval else interval)"

definition NormalizeBeaconInterval :: "int \<Rightarrow> int" where
  "NormalizeBeaconInterval interval = (if interval < MinBeaconInterval then MinBeaconInterval else interval)"

definition CanaryMetadata :: "Settings \<Rightarrow> Metadata" where
  "CanaryMetadata s =
     (let m = se_Metadata s; c = se_Canary s;
          m1 = (if cs_Talkgroup c > 0 then m\<lparr>md_Talkgroup := cs_Talkgroup c\<rparr> else m) in
      m1\<lparr>md_TalkgroupLabel := (if TrimSpace (cs_TalkgroupLabel c) \<noteq> [] then cs_TalkgroupLabel c else ''CANARY'')\<rparr>)"

definition BeaconMetadata :: "Settings \<Rightarrow> Metadata" where
  "BeaconMetadata s =
     (let m = se_Metadata s; b = se_Beacon s;
          m1 = (if bs_Talkgroup b > 0 then m\<lparr>md_Talkgroup := bs_Talkgroup b\<rparr> else m) in
      m1\<lparr>md_TalkgroupLabel := (if TrimSpace (bs_TalkgroupLabel b) \<noteq> [] then bs_TalkgroupLabel b else ''BEACON'')\<rparr>)"

section \<open>The folder\<close>

definition AudioTypeForPath :: "string \<Rightarrow> string" where
  "AudioTypeForPath path =
     (let e = ToLower (Ext path) in
      if e = ''.wav'' then ''audio/wav'' else if e = ''.mp3'' then ''audio/mpeg'' else if e = ''.m4a'' then ''audio/mp4''
      else if e = ''.flac'' then ''audio/flac'' else [])"

record InputStatus =
  in_Path :: string
  in_Mode :: string
  in_Supported :: bool
  in_AudioType :: string
  in_SizeBytes :: int
  in_ModifiedAt :: int
  in_SupportedCount :: int
  in_SkippedCount :: int
  in_Message :: string

definition zero_status :: InputStatus where
  "zero_status = \<lparr>in_Path = [], in_Mode = [], in_Supported = False, in_AudioType = [], in_SizeBytes = 0, in_ModifiedAt = 0,
     in_SupportedCount = 0, in_SkippedCount = 0, in_Message = []\<rparr>"

text \<open>The key of a path on the disk.\<close>

definition path_at :: "string \<Rightarrow> path" where
  "path_at s = split_path (Clean s)"

definition folder_files :: "string \<Rightarrow> string list \<Rightarrow> disk \<Rightarrow> string list" where
  "folder_files dir names d = filter (\<lambda>n. \<not> is_dir (Clean dir, n) d) names"

text \<open>The status, and the error when there is one.\<close>

definition InspectInput :: "os_env \<Rightarrow> string \<Rightarrow> disk \<Rightarrow> InputStatus \<times> string option" where
  "InspectInput env path0 d =
     (let path = TrimSpace path0 in
      if path = [] then (zero_status\<lparr>in_Mode := ''none'', in_Message := ''set --input to a file or folder''\<rparr>, None)
      else (case stat env (path_at path) d of
          Inl e \<Rightarrow> (zero_status\<lparr>in_Path := path, in_Mode := ''missing''\<rparr>, Some e)
        | Inr None \<Rightarrow> (zero_status\<lparr>in_Path := path, in_Mode := ''missing''\<rparr>, Some ''no such file or directory'')
        | Inr (Some info) \<Rightarrow>
            (let st = zero_status\<lparr>in_Path := path, in_SizeBytes := entry_size info, in_ModifiedAt := en_mtime info\<rparr> in
             if en_content info \<noteq> Folder
             then (st\<lparr>in_Mode := ''file'', in_AudioType := AudioTypeForPath path, in_Supported := AudioTypeForPath path \<noteq> [],
                      in_Message := (if AudioTypeForPath path \<noteq> [] then ''ready to upload'' else ''unsupported audio extension'')\<rparr>, None)
             else (case read_dir env (Clean path) d of
                 Inl e \<Rightarrow> (st\<lparr>in_Mode := ''folder''\<rparr>, Some e)
               | Inr names \<Rightarrow>
                   (let fs = folder_files path names d; n = int (length (filter (\<lambda>f. AudioTypeForPath f \<noteq> []) fs)) in
                    (st\<lparr>in_Mode := ''folder'', in_SupportedCount := n, in_SkippedCount := int (length fs) - n, in_Supported := True,
                        in_Message := format_int n @ '' audio file(s) ready''\<rparr>, None))))))"

definition ValidateFileInput :: "os_env \<Rightarrow> string \<Rightarrow> disk \<Rightarrow> InputStatus \<times> string option" where
  "ValidateFileInput env path d =
     (case InspectInput env path d of (st, e) \<Rightarrow>
        if e \<noteq> None then (st, e)
        else if in_Mode st \<noteq> ''file'' then (st, Some ''input must be a single audio file'')
        else if \<not> in_Supported st then (st, Some ''input must be .wav, .mp3, .m4a, or .flac'')
        else (st, None))"

definition ValidateBeaconFile :: "os_env \<Rightarrow> string \<Rightarrow> disk \<Rightarrow> InputStatus \<times> string option" where
  "ValidateBeaconFile env path0 d =
     (let path = TrimSpace path0 in
      if path = [] then (zero_status, Some ''beacon audio file path is required'') else ValidateFileInput env path d)"

definition ProcessedDirPath :: "Settings \<Rightarrow> string" where
  "ProcessedDirPath s = located (TrimSpace (se_Input s)) (or_default (se_Processed s) ''processed'')"

definition Base :: "string \<Rightarrow> string" where
  "Base s = (if s = [] then ''.'' else if TrimRight s = [] then ''/'' else snd (split_path (TrimRight s)))"

definition IsCanaryHeartbeatFile :: "string \<Rightarrow> bool" where
  "IsCanaryHeartbeatFile name \<longleftrightarrow> HasPrefix (ToLower (TrimSuffix (Base name) (Ext name))) ''canary-''"

text \<open>\<open>filepath.Abs\<close> with the working directory.\<close>

definition Abs :: "string \<Rightarrow> string \<Rightarrow> string" where
  "Abs cwd s = (if IsAbs s then Clean s else Join cwd s)"

definition BeaconFileMatches :: "string \<Rightarrow> Settings \<Rightarrow> string \<Rightarrow> bool" where
  "BeaconFileMatches cwd s path \<longleftrightarrow>
     (let beacon = TrimSpace (bs_FilePath (se_Beacon s)) in beacon \<noteq> [] \<and> Abs cwd beacon = Abs cwd path)"

record FileCandidate =
  fc_Path :: path
  fc_Name :: string
  fc_AudioType :: string
  fc_SizeBytes :: int
  fc_ModifiedAt :: int

text \<open>\<open>skipCanary\<close> and \<open>skipPath\<close> are the filter's two fields.\<close>

definition candidate ::
  "os_env \<Rightarrow> bool \<Rightarrow> (string \<Rightarrow> bool) \<Rightarrow> string \<Rightarrow> int \<Rightarrow> int \<Rightarrow> disk \<Rightarrow> string \<Rightarrow> FileCandidate option" where
  "candidate env skipCanary skipPath dir age now d name =
     (let p = (dir, name) in
      if is_dir p d then None
      else if skipCanary \<and> IsCanaryHeartbeatFile name then None
      else if skipPath (join_path p) then None
      else if AudioTypeForPath name = [] then None
      else (case stat env p d of
          Inr (Some info) \<Rightarrow>
            if now - en_mtime info < age then None
            else Some \<lparr>fc_Path = p, fc_Name = name, fc_AudioType = AudioTypeForPath name, fc_SizeBytes = entry_size info,
                       fc_ModifiedAt = en_mtime info\<rparr>
        | _ \<Rightarrow> None))"

definition ReadyFilesWithFilter ::
  "os_env \<Rightarrow> Settings \<Rightarrow> int \<Rightarrow> bool \<Rightarrow> (string \<Rightarrow> bool) \<Rightarrow> disk \<Rightarrow> string + FileCandidate list" where
  "ReadyFilesWithFilter env s now skipCanary skipPath d =
     (let scanDir = TrimSpace (se_Input s); age = (if se_Stable s \<le> 0 then 2500 * millisecond else se_Stable s) in
      if scanDir = [] then Inl ''input folder is required''
      else (case stat env (path_at scanDir) d of
          Inl e \<Rightarrow> Inl e
        | Inr None \<Rightarrow> Inl ''no such file or directory''
        | Inr (Some info) \<Rightarrow>
            if en_content info \<noteq> Folder then Inl ''input must be a folder''
            else (case read_dir env (Clean scanDir) d of
                Inl e \<Rightarrow> Inl e
              | Inr names \<Rightarrow> Inr (List.map_filter (candidate env skipCanary skipPath (Clean scanDir) age now d) names))))"

definition FileFingerprint :: "FileCandidate \<Rightarrow> string" where
  "FileFingerprint f = join_path (fc_Path f) @ '':'' @ format_int (fc_SizeBytes f) @ '':'' @ format_int (fc_ModifiedAt f)"

definition ProcessedPath :: "os_env \<Rightarrow> Settings \<Rightarrow> path \<Rightarrow> disk \<Rightarrow> path option" where
  "ProcessedPath env s p d = uniquePath env (Clean (ProcessedDirPath s), snd p) d"

definition is_permission :: "string \<Rightarrow> bool" where
  "is_permission e \<longleftrightarrow> e = ''permission denied'' \<or> e = ''operation not permitted''"

text \<open>\<open>None\<close> when the search for a free name does not end.\<close>

definition MoveToProcessed :: "os_env \<Rightarrow> Settings \<Rightarrow> path \<Rightarrow> disk \<Rightarrow> ((string + path) \<times> disk) option" where
  "MoveToProcessed env s p d =
     (case ProcessedPath env s p d of
        None \<Rightarrow> None
      | Some q \<Rightarrow> Some (case mkdir_all env (fst q) d of
          (Some e, d1) \<Rightarrow> (Inl e, d1)
        | (None, d1) \<Rightarrow>
            (case rename_file env p q d1 of
               (None, d2) \<Rightarrow> (Inr q, d2)
             | (Some e, d2) \<Rightarrow>
                 (case copyFile env p q d2 of
                    (Some e2, d3) \<Rightarrow> (Inl (if is_permission e then e2 else e), d3)
                  | (None, d3) \<Rightarrow> (case remove_file env p d3 of
                      (Some e3, d4) \<Rightarrow> (Inl e3, d4)
                    | (None, d4) \<Rightarrow> (Inr q, d4))))))"

section \<open>The client\<close>

record Client =
  cl_base :: url
  cl_timeout :: rat
  cl_sourceKey :: string

text \<open>A URL with its scheme and host as the parser gives them.\<close>

record parsed_url =
  pu_Scheme :: string
  pu_Host :: string
  pu_url :: url

definition NewClient :: "(string \<Rightarrow> parsed_url option) \<Rightarrow> string \<Rightarrow> string \<Rightarrow> rat \<Rightarrow> string + Client" where
  "NewClient parse hubURL sourceKey timeout =
     (case parse (TrimSpace hubURL) of
        None \<Rightarrow> Inl (''invalid hub url '' @ hubURL)
      | Some u \<Rightarrow>
          if pu_Scheme u = [] \<or> pu_Host u = [] then Inl (''invalid hub url '' @ hubURL)
          else if pu_Scheme u \<noteq> ''http'' \<and> pu_Scheme u \<noteq> ''https'' then Inl ''hub url must use http or https''
          else Inr \<lparr>cl_base = (pu_url u)\<lparr>ul_Path := TrimRight (ul_Path (pu_url u)), ul_After := []\<rparr>,
                    cl_timeout = (if timeout \<le> 0 then 20 else timeout), cl_sourceKey = TrimSpace sourceKey\<rparr>)"

definition endpoint :: "Client \<Rightarrow> string \<Rightarrow> string" where
  "endpoint c path = url_string ((cl_base c)\<lparr>ul_Path := TrimRight (ul_Path (cl_base c)) @ path\<rparr>)"

definition key_required :: string where
  "key_required = ''source key is required; pass --source-key or set SIGNALFORGE_SOURCE_KEY''"

definition ProbeSourceKey :: "Client \<Rightarrow> (queuedFields \<Rightarrow> string + http_answer) \<Rightarrow> string option" where
  "ProbeSourceKey c probe =
     (if cl_sourceKey c = [] then Some key_required
      else (case probe [(''key'', cl_sourceKey c), (''test'', ''1'')] of
          Inl e \<Rightarrow> Some e
        | Inr r \<Rightarrow> probe_result r))"

text \<open>A start that is not set is \<open>None\<close>.\<close>

record UploadFields =
  fl_Metadata :: Metadata
  fl_AudioName :: string
  fl_AudioType :: string
  fl_StartedAt :: "int option"
  fl_Duration :: int

definition form_fields :: "string \<Rightarrow> int \<Rightarrow> UploadFields \<Rightarrow> queuedFields" where
  "form_fields key startedAt f =
     (let m = fl_Metadata f in
      [(''key'', key), (''system'', format_int (md_System m)), (''systemLabel'', md_SystemLabel m),
       (''talkgroup'', format_int (md_Talkgroup m)), (''talkgroupLabel'', md_TalkgroupLabel m),
       (''talkgroupGroup'', md_TalkgroupGroup m), (''talkgroupTag'', md_TalkgroupTag m), (''frequency'', format_int (md_Frequency m)),
       (''dateTime'', format_int (startedAt div second)), (''duration'', format_milli (of_int (fl_Duration f) / 1000000000)),
       (''audioName'', fl_AudioName f), (''audioType'', fl_AudioType f)])"

definition uploadReader :: "'h net \<Rightarrow> Client \<Rightarrow> int \<Rightarrow> bytes \<Rightarrow> UploadFields \<Rightarrow> 'h \<Rightarrow> string option \<times> 'h" where
  "uploadReader net c now audio f0 h =
     (let startedAt = (case fl_StartedAt f0 of None \<Rightarrow> now | Some t \<Rightarrow> t);
          f = f0\<lparr>fl_AudioType := (if fl_AudioType f0 = [] then ''audio/wav'' else fl_AudioType f0),
                 fl_Duration := (if fl_Duration f0 \<le> 0 then second else fl_Duration f0)\<rparr> in
      case net h \<lparr>ur_fields = form_fields (cl_sourceKey c) startedAt f, ur_name = fl_AudioName f, ur_audio = audio\<rparr> of
        (NoAnswer e, h1) \<Rightarrow> (Some e, h1)
      | (Status s, h1) \<Rightarrow> (if accepted (Status s) then None else Some (''upload returned '' @ format_int s), h1))"

definition UploadFile :: "os_env \<Rightarrow> 'h net \<Rightarrow> Client \<Rightarrow> int \<Rightarrow> path \<Rightarrow> UploadFields \<Rightarrow> disk \<Rightarrow> 'h \<Rightarrow> string option \<times> 'h" where
  "UploadFile env net c now p f d h =
     (if cl_sourceKey c = [] then (Some key_required, h)
      else (case read_file env p d of
          Inr (Bytes b) \<Rightarrow>
            uploadReader net c now b (f\<lparr>fl_AudioName := (if fl_AudioName f = [] then snd p else fl_AudioName f),
              fl_AudioType := (if fl_AudioType f = [] then AudioTypeForPath (snd p) else fl_AudioType f)\<rparr>) h
        | Inr _ \<Rightarrow> (Some ''not audio'', h)
        | Inl e \<Rightarrow> (Some e, h)))"

definition UploadBytes :: "'h net \<Rightarrow> Client \<Rightarrow> int \<Rightarrow> bytes \<Rightarrow> UploadFields \<Rightarrow> 'h \<Rightarrow> string option \<times> 'h" where
  "UploadBytes net c now audio f h =
     (if cl_sourceKey c = [] then (Some key_required, h) else uploadReader net c now audio f h)"

section \<open>Watching\<close>

definition folder_fields :: "Settings \<Rightarrow> FileCandidate \<Rightarrow> UploadFields" where
  "folder_fields s f = \<lparr>fl_Metadata = se_Metadata s, fl_AudioName = fc_Name f, fl_AudioType = fc_AudioType f,
     fl_StartedAt = Some (fc_ModifiedAt f), fl_Duration = 0\<rparr>"

text \<open>
  \<open>uploaded\<close> is the map of fingerprints, \<open>None\<close> for the nil map of a single batch. The result has the error, how many were
  uploaded, the map, the disk and the hub.
\<close>

fun upload_candidates ::
  "os_env \<Rightarrow> 'h net \<Rightarrow> Client \<Rightarrow> Settings \<Rightarrow> int \<Rightarrow> FileCandidate list \<Rightarrow> int \<Rightarrow> string list option \<Rightarrow> disk \<Rightarrow> 'h \<Rightarrow>
     ((string + int) \<times> string list option \<times> disk \<times> 'h) option" where
  "upload_candidates env net c s now [] n uploaded d h = Some (Inr n, uploaded, d, h)"
| "upload_candidates env net c s now (f # fs) n uploaded d h =
     (if se_Reprocess s \<and> (case uploaded of None \<Rightarrow> False | Some seen \<Rightarrow> FileFingerprint f \<in> set seen)
      then upload_candidates env net c s now fs n uploaded d h
      else (let uploaded1 = (if se_Reprocess s then map_option (Cons (FileFingerprint f)) uploaded else uploaded) in
        case UploadFile env net c now (fc_Path f) (folder_fields s f) d h of
          (Some e, h1) \<Rightarrow> Some (Inl e, uploaded1, d, h1)
        | (None, h1) \<Rightarrow>
            if se_Reprocess s then upload_candidates env net c s now fs (n + 1) uploaded1 d h1
            else (case MoveToProcessed env s (fc_Path f) d of
                None \<Rightarrow> None
              | Some (Inl e, d1) \<Rightarrow> Some (Inl e, uploaded1, d1, h1)
              | Some (Inr _, d1) \<Rightarrow> upload_candidates env net c s now fs (n + 1) uploaded1 d1 h1)))"

definition uploadFolderBatch ::
  "os_env \<Rightarrow> 'h net \<Rightarrow> Client \<Rightarrow> string \<Rightarrow> Settings \<Rightarrow> int \<Rightarrow> bool \<Rightarrow> bool \<Rightarrow> string list option \<Rightarrow> disk \<Rightarrow> 'h \<Rightarrow>
     ((string + int) \<times> string list option \<times> disk \<times> 'h) option" where
  "uploadFolderBatch env net c cwd s now skipCanaryFiles skipBeaconFile uploaded d h =
     (case ReadyFilesWithFilter env s now skipCanaryFiles (if skipBeaconFile then BeaconFileMatches cwd s else (\<lambda>_. False)) d of
        Inl e \<Rightarrow> Some (Inl e, uploaded, d, h)
      | Inr files \<Rightarrow> upload_candidates env net c s now files 0 uploaded d h)"

text \<open>
  The loop of \<open>sf rec watch\<close>: one batch after each wait, each with the environment and the time it meets, until one fails.
\<close>

fun watch_rounds ::
  "'h net \<Rightarrow> Client \<Rightarrow> string \<Rightarrow> Settings \<Rightarrow> bool \<Rightarrow> bool \<Rightarrow> (os_env \<times> int) list \<Rightarrow> string list \<Rightarrow> disk \<Rightarrow> 'h \<Rightarrow>
     (string option \<times> disk \<times> 'h) option" where
  "watch_rounds net c cwd s skipC skipB [] seen d h = Some (None, d, h)"
| "watch_rounds net c cwd s skipC skipB ((env, now) # rounds) seen d h =
     (case uploadFolderBatch env net c cwd s now skipC skipB (Some seen) d h of
        None \<Rightarrow> None
      | Some (Inl e, _, d1, h1) \<Rightarrow> Some (Some e, d1, h1)
      | Some (Inr _, seen1, d1, h1) \<Rightarrow>
          watch_rounds net c cwd s skipC skipB rounds (case seen1 of None \<Rightarrow> seen | Some x \<Rightarrow> x) d1 h1)"

section \<open>Canary and beacon\<close>

text \<open>A buffer of zeros and what is copied into it at an offset.\<close>

definition put_at :: "nat \<Rightarrow> bytes \<Rightarrow> bytes \<Rightarrow> bytes" where
  "put_at i new buf = take i buf @ new @ drop (i + length new) buf"

definition SilentWAV :: "int \<Rightarrow> int \<Rightarrow> bytes" where
  "SilentWAV sampleRate0 channels0 =
     (let sampleRate = (if sampleRate0 \<le> 0 then 16000 else sampleRate0); channels = (if channels0 \<le> 0 then 1 else channels0);
          dataSize = sampleRate * channels * 2; byteRate = sampleRate * channels * 2 in
      put_at 40 (put32 (word_of_int dataSize)) (put_at 36 (ascii ''data'') (put_at 34 (put16 16) (put_at 32 (put16 (word_of_int (channels * 2)))
        (put_at 28 (put32 (word_of_int byteRate)) (put_at 24 (put32 (word_of_int sampleRate)) (put_at 22 (put16 (word_of_int channels))
          (put_at 20 (put16 1) (put_at 16 (put32 16) (put_at 12 (ascii ''fmt '') (put_at 8 (ascii ''WAVE'')
            (put_at 4 (put32 (word_of_int (36 + dataSize))) (put_at 0 (ascii ''RIFF'') (replicate (44 + nat dataSize) 0))))))))))))))"

definition CanaryAudioName :: "int \<Rightarrow> string" where
  "CanaryAudioName now = ''canary-'' @ format_int now @ ''.wav''"

text \<open>\<open>clip\<close> is the pip that is sent, computed with floating-point sines.\<close>

definition uploadCanaryClip :: "'h net \<Rightarrow> Client \<Rightarrow> bytes \<Rightarrow> Settings \<Rightarrow> int \<Rightarrow> 'h \<Rightarrow> string option \<times> 'h" where
  "uploadCanaryClip net c clip s now h =
     UploadBytes net c now clip \<lparr>fl_Metadata = CanaryMetadata s, fl_AudioName = CanaryAudioName now, fl_AudioType = ''audio/wav'',
       fl_StartedAt = Some now, fl_Duration = 580 * millisecond\<rparr> h"

definition BeaconUploadName :: "string \<Rightarrow> int \<Rightarrow> string" where
  "BeaconUploadName path now =
     (let base = Base path; ext = Ext base; stem = TrimSuffix base ext in
      (if stem = [] then ''beacon'' else stem) @ ''-'' @ format_int (now div second) @ ext)"

definition uploadBeaconClip :: "os_env \<Rightarrow> 'h net \<Rightarrow> Client \<Rightarrow> Settings \<Rightarrow> int \<Rightarrow> disk \<Rightarrow> 'h \<Rightarrow> string option \<times> 'h" where
  "uploadBeaconClip env net c s now d h =
     (let path = TrimSpace (bs_FilePath (se_Beacon s)) in
      case ValidateBeaconFile env path d of
        (_, Some e) \<Rightarrow> (Some e, h)
      | (st, None) \<Rightarrow>
          UploadFile env net c now (path_at path) \<lparr>fl_Metadata = BeaconMetadata s, fl_AudioName = BeaconUploadName path now,
            fl_AudioType = in_AudioType st, fl_StartedAt = Some (in_ModifiedAt st), fl_Duration = 0\<rparr> d h)"

section \<open>The profile\<close>

record FolderIngest =
  pf_Enabled :: bool
  pf_Directory :: string
  pf_ProcessedDirectory :: string
  pf_ReprocessProcessed :: bool
  pf_PollMs :: int
  pf_StableMs :: int

record Canary =
  pc_Enabled :: bool
  pc_IntervalSec :: int
  pc_Talkgroup :: int
  pc_TalkgroupLabel :: string

record Beacon =
  pb_Enabled :: bool
  pb_FilePath :: string
  pb_IntervalSec :: int
  pb_Talkgroup :: int
  pb_TalkgroupLabel :: string

record Profile =
  pr_HubURL :: string
  pr_SourceKey :: string
  pr_TimeoutSec :: int
  pr_Folder :: FolderIngest
  pr_Canary :: Canary
  pr_Beacon :: Beacon
  pr_Metadata :: Metadata

definition default_profile :: Profile where
  "default_profile =
     \<lparr>pr_HubURL = [], pr_SourceKey = [], pr_TimeoutSec = 20,
      pr_Folder = \<lparr>pf_Enabled = True, pf_Directory = [], pf_ProcessedDirectory = ''processed'', pf_ReprocessProcessed = False,
        pf_PollMs = se_Poll DefaultSettings div millisecond, pf_StableMs = se_Stable DefaultSettings div millisecond\<rparr>,
      pr_Canary = \<lparr>pc_Enabled = False, pc_IntervalSec = 300, pc_Talkgroup = 0, pc_TalkgroupLabel = []\<rparr>,
      pr_Beacon = \<lparr>pb_Enabled = False, pb_FilePath = [], pb_IntervalSec = 1800, pb_Talkgroup = 0, pb_TalkgroupLabel = []\<rparr>,
      pr_Metadata = se_Metadata DefaultSettings\<rparr>"

definition ToRecorderSettings :: "Profile \<Rightarrow> Settings" where
  "ToRecorderSettings p =
     (let f = pr_Folder p; c = pr_Canary p; b = pr_Beacon p in
      \<lparr>se_Input = (if pf_Enabled f \<and> pf_Directory f \<noteq> [] then pf_Directory f else se_Input DefaultSettings),
       se_Processed = (if pf_ProcessedDirectory f \<noteq> [] then pf_ProcessedDirectory f else se_Processed DefaultSettings),
       se_Poll = (if pf_PollMs f > 0 then duration (pf_PollMs f) millisecond else se_Poll DefaultSettings),
       se_Stable = (if pf_StableMs f > 0 then duration (pf_StableMs f) millisecond else se_Stable DefaultSettings),
       se_Reprocess = pf_ReprocessProcessed f, se_Metadata = pr_Metadata p,
       se_Canary = \<lparr>cs_Enabled = pc_Enabled c,
         cs_Interval = NormalizeCanaryInterval (if pc_IntervalSec c \<le> 0 then 300 * second else duration (pc_IntervalSec c) second),
         cs_Talkgroup = pc_Talkgroup c, cs_TalkgroupLabel = pc_TalkgroupLabel c\<rparr>,
       se_Beacon = \<lparr>bs_Enabled = pb_Enabled b, bs_FilePath = TrimSpace (pb_FilePath b),
         bs_Interval = NormalizeBeaconInterval (if pb_IntervalSec b \<le> 0 then 1800 * second else duration (pb_IntervalSec b) second),
         bs_Talkgroup = pb_Talkgroup b, bs_TalkgroupLabel = pb_TalkgroupLabel b\<rparr>\<rparr>)"

definition RenderEnv :: "Profile \<Rightarrow> string" where
  "RenderEnv p =
     (let nl = [CHR 10] in
      ''# Generated by: sf onboard'' @ nl @ ''SIGNALFORGE_HUB_URL='' @ pr_HubURL p @
      (if TrimSpace (pr_SourceKey p) \<noteq> [] then nl @ ''SIGNALFORGE_SOURCE_KEY='' @ pr_SourceKey p else []) @ nl)"

record cli_config =
  cc_HubURL :: string
  cc_SourceKey :: string
  cc_Timeout :: int

definition DefaultHubURL :: string where "DefaultHubURL = ''https://p7hub.projectseven.us''"

fun firstNonEmpty :: "string list \<Rightarrow> string" where
  "firstNonEmpty [] = []"
| "firstNonEmpty (v # vs) = (if TrimSpace v \<noteq> [] then TrimSpace v else firstNonEmpty vs)"

text \<open>\<open>None\<close> for a profile that is not there or cannot be read.\<close>

definition mergeProfile :: "(string \<Rightarrow> string) \<Rightarrow> Profile option \<Rightarrow> cli_config \<Rightarrow> cli_config" where
  "mergeProfile env prof cfg =
     (case prof of
        None \<Rightarrow> cfg
      | Some p \<Rightarrow>
          (let c1 = (if env ''SIGNALFORGE_HUB_URL'' = [] \<and> TrimSpace (pr_HubURL p) \<noteq> [] then cfg\<lparr>cc_HubURL := TrimSpace (pr_HubURL p)\<rparr> else cfg);
               c2 = (if env ''SIGNALFORGE_SOURCE_KEY'' = [] \<and> TrimSpace (pr_SourceKey p) \<noteq> [] then c1\<lparr>cc_SourceKey := TrimSpace (pr_SourceKey p)\<rparr> else c1) in
           if pr_TimeoutSec p > 0 then c2\<lparr>cc_Timeout := duration (pr_TimeoutSec p) second\<rparr> else c2))"

definition FromEnv :: "(string \<Rightarrow> string) \<Rightarrow> Profile option \<Rightarrow> cli_config" where
  "FromEnv env prof = mergeProfile env prof \<lparr>cc_HubURL = firstNonEmpty [env ''SIGNALFORGE_HUB_URL'', DefaultHubURL],
     cc_SourceKey = TrimSpace (env ''SIGNALFORGE_SOURCE_KEY''), cc_Timeout = 20 * second\<rparr>"

definition LoadRecorderSettings :: "Profile option \<Rightarrow> Settings" where
  "LoadRecorderSettings prof = (case prof of None \<Rightarrow> DefaultSettings | Some p \<Rightarrow> ToRecorderSettings p)"

text \<open>However large or small the numbers of a profile are, a heartbeat is sent at most every thirty seconds.\<close>

lemma heartbeat_interval:
  "30 * second \<le> cs_Interval (se_Canary (ToRecorderSettings p)) \<and> 30 * second \<le> bs_Interval (se_Beacon (ToRecorderSettings p))"
  by (simp add: ToRecorderSettings_def Let_def NormalizeCanaryInterval_def NormalizeBeaconInterval_def MinCanaryInterval_def MinBeaconInterval_def)

section \<open>Two ways to write silence\<close>

text \<open>Pieces that are written one after another into zeros.\<close>

fun put_run :: "nat \<Rightarrow> bytes list \<Rightarrow> bytes \<Rightarrow> bytes" where
  "put_run i [] buf = buf"
| "put_run i (p # ps) buf = put_run (i + length p) ps (put_at i p buf)"

lemma put_run_zeros:
  "put_run (length xs) ps (xs @ replicate (length (concat ps) + m) z) = xs @ concat ps @ replicate m z"
proof (induction ps arbitrary: xs)
  case (Cons p ps)
  have "put_at (length xs) p (xs @ replicate (length (concat (p # ps)) + m) z) = (xs @ p) @ replicate (length (concat ps) + m) z"
    by (simp add: put_at_def drop_replicate)
  with Cons [of "xs @ p"] show ?case by simp
qed simp

lemma piece_lengths [simp]: "length (put16 w) = 2" "length (put32 v) = 4" "length (ascii [a, b, c, d]) = 4"
  by (simp_all add: put16_def put32_def ascii_def)

text \<open>The heartbeat file the tool fills in field by field is the file the recorder streams.\<close>

theorem SilentWAV_as_recorded:
  assumes "0 < sampleRate" "0 < channels"
  shows "SilentWAV sampleRate channels = writeWAVWriter (replicate (nat (sampleRate * channels * 2)) 0) sampleRate channels"
proof -
  let ?D = "sampleRate * channels * 2"
  let ?ps = "[ascii ''RIFF'', put32 (word_of_int (36 + ?D)), ascii ''WAVE'', ascii ''fmt '', put32 16, put16 1, put16 (word_of_int channels),
    put32 (word_of_int sampleRate), put32 (word_of_int ?D), put16 (word_of_int (channels * 2)), put16 16, ascii ''data'', put32 (word_of_int ?D)]"
  have "SilentWAV sampleRate channels = put_run 0 ?ps (replicate (44 + nat ?D) 0)"
    using assms by (simp add: SilentWAV_def Let_def)
  also have "\<dots> = concat ?ps @ replicate (nat ?D) 0"
    using put_run_zeros [of "[]" ?ps "nat ?D" 0] by simp
  also have "\<dots> = writeWAVWriter (replicate (nat ?D) 0) sampleRate channels"
  proof -
    have "(word_of_int (36 + ?D) :: 32 word) = 36 + word_of_int ?D" by (simp add: wi_hom_add [symmetric])
    moreover have "(word_of_nat (nat ?D) :: 32 word) = word_of_int ?D" using assms by simp
    moreover have "ascii ''WAVEfmt '' = ascii ''WAVE'' @ ascii ''fmt ''" by (simp add: ascii_def)
    ultimately show ?thesis by (simp add: writeWAVWriter_def Let_def)
  qed
  finally show ?thesis .
qed

end
