(* ===== verification/WatchSafety.thy ===== *)
theory WatchSafety
  imports Operator RecorderSafety
begin

text \<open>
  What \<open>sf rec watch\<close> does to the files it is pointed at: no audio leaves the disk, and none leaves its place before the hub has
  it. The hub is again any \<open>upload_target\<close>, and then the upload handler of the server.
\<close>

section \<open>Moving a file\<close>

lemma content_other: "map_of d1 x = map_of d x \<Longrightarrow> content_at x d1 = content_at x d"
  by (simp add: content_at_def)

lemma mkdir_all_content: "mkdir_all env dir d = (r, d1) \<Longrightarrow> content_at x d = Some c \<Longrightarrow> content_at x d1 = Some c"
  using mkdir_all_there [of env dir d r d1 x] by (auto simp: content_at_def)

lemma copyFile_keeps:
  assumes "copyFile env p q d = (r, d1)" "x \<noteq> q" "content_at x d = Some c"
  shows "content_at x d1 = Some c"
proof (cases "read_file env p d")
  case (Inl e)
  with assms(1,3) show ?thesis by (simp add: copyFile_def)
next
  case (Inr k)
  obtain e d2 where mk: "mkdir_all env (fst q) d = (e, d2)" by force
  note there = mkdir_all_content [OF mk assms(3)]
  show ?thesis
  proof (cases e)
    case None
    with assms(1) Inr mk have "put_file env q k d2 = (r, d1)" by (simp add: copyFile_def)
    from content_other [OF put_file_other [OF this assms(2)]] there show ?thesis by simp
  next
    case (Some e')
    with assms(1) Inr mk there show ?thesis by (simp add: copyFile_def)
  qed
qed

lemma copyFile_done:
  assumes "copyFile env p q d = (None, d1)" "content_at p d = Some c"
  shows "content_at q d1 = Some c"
proof -
  obtain k d2 where k: "read_file env p d = Inr k" "put_file env q k d2 = (None, d1)"
    using assms(1) by (auto simp: copyFile_def split: sum.splits prod.splits option.splits)
  moreover have "k = c" using k(1) assms(2) by (auto simp: read_file_def content_at_def split: option.splits if_splits)
  ultimately show ?thesis using put_file_done by simp
qed

lemma rename_file_done:
  "rename_file env p q d = (None, d1) \<Longrightarrow> content_at p d = Some c \<Longrightarrow> content_at q d1 = Some c"
  by (auto simp: rename_file_def content_at_def split: option.splits if_splits)

lemma rename_file_failed: "rename_file env p q d = (Some e, d1) \<Longrightarrow> d1 = d"
  by (auto simp: rename_file_def split: option.splits if_splits)

lemma remove_file_failed: "remove_file env p d = (Some e, d1) \<Longrightarrow> d1 = d"
  by (auto simp: remove_file_def split: option.splits if_splits)

text \<open>The four ways a move ends.\<close>

lemma MoveToProcessed_cases:
  assumes "MoveToProcessed env s p d = Some (r, d')"
  obtains (unmade) q e where "ProcessedPath env s p d = Some q" "mkdir_all env (fst q) d = (Some e, d')"
    | (renamed) q d1 where "ProcessedPath env s p d = Some q" "mkdir_all env (fst q) d = (None, d1)" "rename_file env p q d1 = (None, d')"
    | (uncopied) q d1 e where "ProcessedPath env s p d = Some q" "mkdir_all env (fst q) d = (None, d1)" "copyFile env p q d1 = (Some e, d')"
    | (copied) q d1 d2 e where "ProcessedPath env s p d = Some q" "mkdir_all env (fst q) d = (None, d1)" "copyFile env p q d1 = (None, d2)"
        "remove_file env p d2 = (e, d')"
proof -
  obtain q where q: "ProcessedPath env s p d = Some q" using assms by (auto simp: MoveToProcessed_def split: option.splits)
  obtain e d1 where mk: "mkdir_all env (fst q) d = (e, d1)" by force
  show thesis
  proof (cases e)
    case (Some e')
    with assms q mk unmade show thesis by (simp add: MoveToProcessed_def)
  next
    case None
    obtain e1 d2 where rn: "rename_file env p q d1 = (e1, d2)" by force
    show thesis
    proof (cases e1)
      case None
      with \<open>e = None\<close> assms q mk rn renamed show thesis by (simp add: MoveToProcessed_def)
    next
      case (Some e')
      with rn rename_file_failed have "d2 = d1" by metis
      obtain e2 d3 where cp: "copyFile env p q d1 = (e2, d3)" by force
      obtain e3 d4 where rm: "remove_file env p d3 = (e3, d4)" by force
      show thesis
      proof (cases e2)
        case None
        have "d' = d4" using \<open>e = None\<close> Some None assms q mk rn cp rm \<open>d2 = d1\<close> by (cases e3) (simp_all add: MoveToProcessed_def)
        show thesis by (rule copied [of q d1 d3 e3]) (use q mk cp rm \<open>e = None\<close> None \<open>d' = d4\<close> in simp_all)
      next
        case (Some e4)
        with \<open>e = None\<close> \<open>e1 = Some e'\<close> assms q mk rn cp \<open>d2 = d1\<close> have "d' = d3" by (simp add: MoveToProcessed_def)
        show thesis by (rule uncopied [of q d1 e4]) (use q mk cp \<open>e = None\<close> Some \<open>d' = d3\<close> in simp_all)
      qed
    qed
  qed
qed

lemma processed_path_free: "ProcessedPath env s p d = Some q \<Longrightarrow> content_at x d = Some c \<Longrightarrow> x \<noteq> q"
  using uniquePath_free [of env _ d q] by (auto simp: ProcessedPath_def content_at_def)

text \<open>A move, whether it succeeds or fails half way, leaves other files alone and its own file in one place at least.\<close>

lemma MoveToProcessed_other:
  assumes "MoveToProcessed env s p d = Some (r, d')" "content_at x d = Some c" "x \<noteq> p"
  shows "content_at x d' = Some c"
  using assms(1)
proof (cases rule: MoveToProcessed_cases)
  case (unmade q e)
  show ?thesis by (rule mkdir_all_content [OF unmade(2) assms(2)])
next
  case (renamed q d1)
  have "content_at x d' = content_at x d1"
    by (rule content_other [OF rename_file_other [OF renamed(3) assms(3) processed_path_free [OF renamed(1) assms(2)]]])
  with mkdir_all_content [OF renamed(2) assms(2)] show ?thesis by simp
next
  case (uncopied q d1 e)
  show ?thesis by (rule copyFile_keeps [OF uncopied(3) processed_path_free [OF uncopied(1) assms(2)] mkdir_all_content [OF uncopied(2) assms(2)]])
next
  case (copied q d1 d2 e)
  have "content_at x d' = content_at x d2" by (rule content_other [OF remove_file_other [OF copied(4) assms(3)]])
  with copyFile_keeps [OF copied(3) processed_path_free [OF copied(1) assms(2)] mkdir_all_content [OF copied(2) assms(2)]] show ?thesis by simp
qed

lemma MoveToProcessed_somewhere:
  assumes "MoveToProcessed env s p d = Some (r, d')" "content_at p d = Some c"
  shows "\<exists>q. content_at q d' = Some c"
  using assms(1)
proof (cases rule: MoveToProcessed_cases)
  case (unmade q e)
  from mkdir_all_content [OF unmade(2) assms(2)] show ?thesis by blast
next
  case (renamed q d1)
  from rename_file_done [OF renamed(3) mkdir_all_content [OF renamed(2) assms(2)]] show ?thesis by blast
next
  case (uncopied q d1 e)
  from copyFile_keeps [OF uncopied(3) processed_path_free [OF uncopied(1) assms(2)] mkdir_all_content [OF uncopied(2) assms(2)]]
  show ?thesis by blast
next
  case (copied q d1 d2 e)
  have "q \<noteq> p" using processed_path_free [OF copied(1) assms(2)] by simp
  from content_other [OF remove_file_other [OF copied(4) this]] copyFile_done [OF copied(3) mkdir_all_content [OF copied(2) assms(2)]]
  have "content_at q d' = Some c" by simp
  then show ?thesis by blast
qed

definition somewhere :: "content \<Rightarrow> disk \<Rightarrow> bool" where
  "somewhere c d \<longleftrightarrow> (\<exists>q. content_at q d = Some c)"

lemma MoveToProcessed_keeps: "MoveToProcessed env s p d = Some (r, d') \<Longrightarrow> somewhere c d \<Longrightarrow> somewhere c d'"
  using MoveToProcessed_other MoveToProcessed_somewhere unfolding somewhere_def by metis

section \<open>Batches and rounds\<close>

context upload_target
begin

definition held :: "bytes \<Rightarrow> 'h \<Rightarrow> bool" where
  "held b h \<longleftrightarrow> (\<exists>rq. ur_audio rq = b \<and> has rq h)"

definition kept :: "path \<Rightarrow> bytes \<Rightarrow> disk \<Rightarrow> 'h \<Rightarrow> bool" where
  "kept p b d h \<longleftrightarrow> somewhere (Bytes b) d \<and> (content_at p d = Some (Bytes b) \<or> held b h)"

lemma uploadReader_effect:
  assumes "uploadReader net c now b f h = (e, h1)"
  shows "(e = None \<longrightarrow> held b h1) \<and> (held b' h \<longrightarrow> held b' h1)"
proof -
  define t where "t = (case fl_StartedAt f of None \<Rightarrow> now | Some t \<Rightarrow> t)"
  define g where "g = f\<lparr>fl_AudioType := (if fl_AudioType f = [] then ''audio/wav'' else fl_AudioType f),
    fl_Duration := (if fl_Duration f \<le> 0 then second else fl_Duration f)\<rparr>"
  define rq where "rq = \<lparr>ur_fields = form_fields (cl_sourceKey c) t g, ur_name = fl_AudioName g, ur_audio = b\<rparr>"
  have reader: "uploadReader net c now b f h = (case net h rq of (NoAnswer e, h1) \<Rightarrow> (Some e, h1)
      | (Status s, h1) \<Rightarrow> (if accepted (Status s) then None else Some (''upload returned '' @ format_int s), h1))"
    unfolding uploadReader_def Let_def rq_def g_def t_def by (rule refl)
  obtain a h2 where net: "net h rq = (a, h2)" by force
  with reader assms have "h2 = h1" "e = None \<Longrightarrow> accepted a" by (auto split: answer.splits if_splits)
  moreover have "ur_audio rq = b" by (simp add: rq_def)
  ultimately show ?thesis using accepted_has [OF net] keeps [OF net] unfolding held_def by blast
qed

lemma UploadFile_effect:
  assumes "UploadFile env net c now p f d h = (e, h1)"
  shows "(e = None \<longrightarrow> (\<exists>b. content_at p d = Some (Bytes b) \<and> held b h1)) \<and> (held b' h \<longrightarrow> held b' h1)"
proof (cases "cl_sourceKey c = [] \<or> (\<forall>b. read_file env p d \<noteq> Inr (Bytes b))")
  case True
  with assms have "e \<noteq> None \<and> h1 = h" by (auto simp: UploadFile_def split: sum.splits content.splits if_splits)
  then show ?thesis by auto
next
  case False
  then obtain b where b: "read_file env p d = Inr (Bytes b)" "cl_sourceKey c \<noteq> []" by blast
  with assms obtain g where "uploadReader net c now b g h = (e, h1)" by (auto simp: UploadFile_def)
  note effect = uploadReader_effect [OF this, of b']
  have "content_at p d = Some (Bytes b)" using b(1) by (auto simp: read_file_def content_at_def split: option.splits if_splits)
  with effect show ?thesis by blast
qed

lemma UploadFile_kept:
  assumes "UploadFile env net c now q f d h = (e, h1)" "kept p b d h"
  shows "kept p b d h1" "e = None \<Longrightarrow> p = q \<Longrightarrow> held b h1"
proof -
  note effect = UploadFile_effect [OF assms(1), of b]
  show "kept p b d h1" using effect assms(2) unfolding kept_def by blast
  show "held b h1" if "e = None" "p = q"
  proof (cases "content_at p d = Some (Bytes b)")
    case True
    with effect that show ?thesis by auto
  next
    case False
    with effect assms(2) show ?thesis unfolding kept_def by blast
  qed
qed

lemma MoveToProcessed_kept:
  assumes "MoveToProcessed env s q d = Some (r, d1)" "kept p b d h" "p = q \<Longrightarrow> held b h"
  shows "kept p b d1 h"
  using MoveToProcessed_keeps [OF assms(1)] MoveToProcessed_other [OF assms(1), of p] assms(2,3) unfolding kept_def by blast

lemma upload_candidates_kept:
  "upload_candidates env net c s now fs n up d h = Some (r, up', d', h') \<Longrightarrow> kept p b d h \<Longrightarrow> kept p b d' h'"
proof (induction fs arbitrary: n up d h)
  case (Cons f fs)
  let ?go = "\<lambda>n up d h. upload_candidates env net c s now fs n up d h"
  show ?case
  proof (cases "se_Reprocess s \<and> (case up of None \<Rightarrow> False | Some seen \<Rightarrow> FileFingerprint f \<in> set seen)")
    case True
    with Cons.prems(1) have "?go n up d h = Some (r, up', d', h')" by simp
    from Cons.IH [OF this Cons.prems(2)] show ?thesis .
  next
    case False
    define up1 where "up1 = (if se_Reprocess s then map_option (Cons (FileFingerprint f)) up else up)"
    obtain e h1 where u: "UploadFile env net c now (fc_Path f) (folder_fields s f) d h = (e, h1)" by force
    note k1 = UploadFile_kept [OF u Cons.prems(2)]
    have run: "(case e of Some e \<Rightarrow> Some (Inl e, up1, d, h1)
        | None \<Rightarrow> if se_Reprocess s then ?go (n + 1) up1 d h1
            else (case MoveToProcessed env s (fc_Path f) d of
                None \<Rightarrow> None
              | Some (Inl e, d1) \<Rightarrow> Some (Inl e, up1, d1, h1)
              | Some (Inr _, d1) \<Rightarrow> ?go (n + 1) up1 d1 h1)) = Some (r, up', d', h')"
      using Cons.prems(1) unfolding upload_candidates.simps if_not_P [OF False] Let_def u up1_def by simp
    show ?thesis
    proof (cases e)
      case (Some e')
      with run k1(1) show ?thesis by simp
    next
      case None
      show ?thesis
      proof (cases "se_Reprocess s")
        case True
        with run None have "?go (n + 1) up1 d h1 = Some (r, up', d', h')" by simp
        from Cons.IH [OF this k1(1)] show ?thesis .
      next
        case False
        with run None obtain m d1 where mv: "MoveToProcessed env s (fc_Path f) d = Some (m, d1)"
          by (cases "MoveToProcessed env s (fc_Path f) d") auto
        have k2: "kept p b d1 h1" by (rule MoveToProcessed_kept [OF mv k1(1)]) (use k1(2) None in simp)
        from run None False mv have "(d' = d1 \<and> h' = h1) \<or> ?go (n + 1) up1 d1 h1 = Some (r, up', d', h')" by (cases m) auto
        with k2 Cons.IH show ?thesis by blast
      qed
    qed
  qed
qed simp

lemma uploadFolderBatch_kept:
  assumes "uploadFolderBatch env net c cwd s now skipC skipB up d h = Some (r, up', d', h')" "kept p b d h"
  shows "kept p b d' h'"
  using assms upload_candidates_kept by (auto simp: uploadFolderBatch_def split: sum.splits)

lemma watch_rounds_kept:
  "watch_rounds net c cwd s skipC skipB rounds seen d h = Some (r, d', h') \<Longrightarrow> kept p b d h \<Longrightarrow> kept p b d' h'"
proof (induction rounds arbitrary: seen d h)
  case (Cons x rounds)
  obtain env now where x: "x = (env, now)" by (cases x)
  obtain m up d1 h1 where 1: "uploadFolderBatch env net c cwd s now skipC skipB (Some seen) d h = Some (m, up, d1, h1)"
    using Cons.prems(1) x by (cases "uploadFolderBatch env net c cwd s now skipC skipB (Some seen) d h") auto
  note k1 = uploadFolderBatch_kept [OF 1 Cons.prems(2)]
  show ?case
  proof (cases m)
    case (Inl e)
    with Cons.prems(1) x 1 k1 show ?thesis by simp
  next
    case (Inr k)
    with Cons.prems(1) x 1 have "watch_rounds net c cwd s skipC skipB rounds (case up of None \<Rightarrow> seen | Some x \<Rightarrow> x) d1 h1 = Some (r, d', h')" by simp
    from Cons.IH [OF this k1] show ?thesis .
  qed
qed simp

end

text \<open>
  Property C8. A file in the folder that the watch command watches is not lost, over any number of rounds, whichever system calls fail,
  half-done moves included, whatever the hub answers and whichever of its answers get lost: its bytes stay on the disk, and stay
  where they are until a call in the hub's database has them.
\<close>

theorem watched_files_kept:
  assumes "watch_rounds (hub_net up clock lost) c cwd s skipC skipB rounds seen d (n, k) = Some (r, d', (n', k'))"
    "content_at p d = Some (Bytes b)"
  shows "(\<exists>q. content_at q d' = Some (Bytes b)) \<and>
    (content_at p d' = Some (Bytes b) \<or> (\<exists>row \<in> set (t_calls (nd_db n')). cr_audio row = b))"
proof -
  have "hub.kept p b d (n, k)" using assms(2) unfolding hub.kept_def somewhere_def by blast
  from hub.watch_rounds_kept [OF assms(1) this] show ?thesis by (auto simp: hub.kept_def hub.held_def somewhere_def on_hub_def)
qed

text \<open>A folder with one recording that has been there for an hour.\<close>

definition example_settings :: Settings where
  "example_settings = DefaultSettings\<lparr>se_Input := ''in''\<rparr>"

definition example_client :: Client where
  "example_client = \<lparr>cl_base = \<lparr>ul_Before = ''http://hub'', ul_Path = [], ul_After = []\<rparr>, cl_timeout = 20, cl_sourceKey = ''k''\<rparr>"

definition example_folder :: disk where
  "example_folder = [((''.'', ''in''), queued Folder), ((''in'', ''a.wav''), queued (Bytes (replicate 90 0)))]"

definition example_file :: FileCandidate where
  "example_file = \<lparr>fc_Path = (''in'', ''a.wav''), fc_Name = ''a.wav'', fc_AudioType = ''audio/wav'', fc_SizeBytes = 90, fc_ModifiedAt = 0\<rparr>"

definition example_moved :: disk where
  "example_moved = [((''.'', ''in''), queued Folder), ((''in'', ''processed''), queued Folder),
     ((''in/processed'', ''a.wav''), queued (Bytes (replicate 90 0)))]"

lemma example_folder_ready:
  "ReadyFilesWithFilter (working_os []) example_settings (3600 * second) False (\<lambda>_. False) example_folder = Inr [example_file]"
  by code_simp

lemma example_folder_move: "MoveToProcessed (working_os []) example_settings (''in'', ''a.wav'') example_folder = Some (Inr (''in/processed'', ''a.wav''), example_moved)"
proof -
  have path: "(Clean (ProcessedDirPath example_settings), ''a.wav'') = (''in/processed'', ''a.wav'')" by code_simp
  have free: "stat (working_os []) (''in/processed'', ''a.wav'') example_folder = Inr None" by code_simp
  have "ProcessedPath (working_os []) example_settings (''in'', ''a.wav'') example_folder = Some (''in/processed'', ''a.wav'')"
    using path free by (simp add: ProcessedPath_def uniquePath_def)
  moreover have "(case mkdir_all (working_os []) ''in/processed'' example_folder of (_, d1) \<Rightarrow> rename_file (working_os []) (''in'', ''a.wav'') (''in/processed'', ''a.wav'') d1) = (None, example_moved)"
    by code_simp
  moreover have "fst (mkdir_all (working_os []) ''in/processed'' example_folder) = None" by code_simp
  ultimately show ?thesis by (simp add: MoveToProcessed_def case_prod_beta split: option.split)
qed

theorem watched_files_kept_witness:
  "\<exists>r d' n' k'. watch_rounds (hub_net example_upload_env int (\<lambda>_. False)) example_client ''/'' example_settings False False
      [(working_os [], 3600 * second)] [] example_folder (example_node, 0) = Some (r, d', (n', k')) \<and>
    (\<exists>q. content_at q d' = Some (Bytes (replicate 90 0))) \<and>
    (content_at (''in'', ''a.wav'') d' = Some (Bytes (replicate 90 0)) \<or> replicate 90 0 \<in> cr_audio ` set (t_calls (nd_db n')))"
proof -
  let ?net = "hub_net example_upload_env int (\<lambda>_. False)"
  obtain e n1 k1 where u: "UploadFile (working_os []) ?net example_client (3600 * second) (''in'', ''a.wav'') (folder_fields example_settings example_file)
      example_folder (example_node, 0) = (e, (n1, k1))" by (metis prod.exhaust)
  have plain: "fc_Path example_file = (''in'', ''a.wav'')" "\<not> se_Reprocess example_settings"
    by (simp_all add: example_file_def example_settings_def DefaultSettings_def)
  have "\<exists>r d'. watch_rounds ?net example_client ''/'' example_settings False False [(working_os [], 3600 * second)] [] example_folder (example_node, 0) =
      Some (r, d', (n1, k1))"
    using u plain by (cases e) (simp_all add: uploadFolderBatch_def example_folder_ready example_folder_move)
  then obtain r d' where run: "watch_rounds ?net example_client ''/'' example_settings False False [(working_os [], 3600 * second)] [] example_folder (example_node, 0) =
      Some (r, d', (n1, k1))" by blast
  have "content_at (''in'', ''a.wav'') example_folder = Some (Bytes (replicate 90 0))" by code_simp
  from watched_files_kept [OF run this] have kept: "(\<exists>q. content_at q d' = Some (Bytes (replicate 90 0))) \<and>
    (content_at (''in'', ''a.wav'') d' = Some (Bytes (replicate 90 0)) \<or> (\<exists>row \<in> set (t_calls (nd_db n1)). cr_audio row = replicate 90 0))" .
  then obtain q where q: "content_at q d' = Some (Bytes (replicate 90 0))" by blast
  show ?thesis
  proof (intro exI conjI)
    show "watch_rounds ?net example_client ''/'' example_settings False False [(working_os [], 3600 * second)] [] example_folder (example_node, 0) =
      Some (r, d', (n1, k1))" by (rule run)
  next
    from kept show "content_at (''in'', ''a.wav'') d' = Some (Bytes (replicate 90 0)) \<or> replicate 90 0 \<in> cr_audio ` set (t_calls (nd_db n1))"
      by (metis imageI)
  qed (rule q)
qed

end
