(* ===== verification/Service.thy ===== *)
theory Service
  imports Operator
begin

text \<open>
  The background service of the operator's tool (\<open>tools/signalforge-cli/internal/service\<close>): the arguments and the unit or
  property list it is installed with, the environment file, the watch processes that are found and stopped, and the lock that
  keeps a second watcher from starting.
\<close>

section \<open>Strings\<close>

fun split_when :: "(char \<Rightarrow> bool) \<Rightarrow> string \<Rightarrow> string list" where
  "split_when P [] = [[]]"
| "split_when P (c # cs) = (if P c then [] # split_when P cs else (case split_when P cs of [] \<Rightarrow> [[c]] | p # ps \<Rightarrow> (c # p) # ps))"

definition Fields :: "string \<Rightarrow> string list" where
  "Fields s = filter (\<lambda>f. f \<noteq> []) (split_when is_space s)"

fun join_blank :: "string list \<Rightarrow> string" where
  "join_blank [] = []"
| "join_blank [s] = s"
| "join_blank (s # t # ss) = s @ '' '' @ join_blank (t # ss)"

definition nl :: char where "nl = CHR 10"

definition Cut :: "char \<Rightarrow> string \<Rightarrow> (string \<times> string) option" where
  "Cut c s = (if c \<in> set s then Some (takeWhile (\<lambda>x. x \<noteq> c) s, tl (dropWhile (\<lambda>x. x \<noteq> c) s)) else None)"

section \<open>The environment file\<close>

definition env_line :: "string \<Rightarrow> (string \<times> string) option" where
  "env_line line0 =
     (let line = TrimSpace line0 in
      if line = [] \<or> HasPrefix line ''#'' then None
      else (case Cut (CHR ''='') line of None \<Rightarrow> None | Some (k, v) \<Rightarrow> Some (TrimSpace k, TrimSpace v)))"

definition add_line :: "(string \<times> string) list \<Rightarrow> string \<Rightarrow> (string \<times> string) list" where
  "add_line m line = (case env_line line of None \<Rightarrow> m | Some (k, v) \<Rightarrow> AList.update k v m)"

definition ParseEnvFile :: "string \<Rightarrow> (string \<times> string) list" where
  "ParseEnvFile data = foldl add_line [] (split_when ((=) nl) data)"

section \<open>What is installed\<close>

definition WatchArgs :: "Profile \<Rightarrow> string + string list" where
  "WatchArgs p =
     (let f = pr_Folder p; c = pr_Canary p; b = pr_Beacon p in
      if \<not> pf_Enabled f \<and> \<not> pc_Enabled c \<and> \<not> pb_Enabled b
      then Inl ''enable folder watch, canary, or beacon in your profile before installing the service''
      else Inr ([''rec'', ''watch''] @
        (if pf_Enabled f \<and> TrimSpace (pf_Directory f) \<noteq> [] then [''-i'', pf_Directory f] else []) @
        (if pc_Enabled c then [''--canary''] else []) @
        (if pb_Enabled b then ''--beacon'' # (if TrimSpace (pb_FilePath b) \<noteq> [] then [''--beacon-file'', TrimSpace (pb_FilePath b)] else []) else []) @
        (if pf_ReprocessProcessed f then [''--reprocess''] else [])))"

definition text_lines :: "string list \<Rightarrow> string" where
  "text_lines ls = concat (map (\<lambda>l. l @ [nl]) ls)"

definition renderSystemdUnit :: "string \<Rightarrow> string list \<Rightarrow> string \<Rightarrow> string \<Rightarrow> string" where
  "renderSystemdUnit execPath args envFile logDir = text_lines
     [''[Unit]'', ''Description=SignalForge folder watch and canary uploads'', ''After=network-online.target'', ''Wants=network-online.target'', [],
      ''[Service]'', ''Type=simple'', ''EnvironmentFile='' @ envFile, ''ExecStart='' @ join_blank (execPath # args), ''Restart=on-failure'',
      ''RestartSec=15'', ''StandardOutput=append:'' @ Join logDir ''watch.log'', ''StandardError=append:'' @ Join logDir ''watch.log'', [],
      ''[Install]'', ''WantedBy=default.target'']"

definition ReplaceAll :: "char \<Rightarrow> string \<Rightarrow> string \<Rightarrow> string" where
  "ReplaceAll old new s = replace_chars (\<lambda>c. if c = old then new else [c]) s"

definition escapeXML :: "string \<Rightarrow> string" where
  "escapeXML value =
     (let v1 = ReplaceAll (CHR ''&'') ''&amp;'' value; v2 = ReplaceAll (CHR ''<'') ''&lt;'' v1; v3 = ReplaceAll (CHR ''>'') ''&gt;'' v2 in
      ReplaceAll (CHR 34) ''&quot;'' v3)"

definition launchdLabel :: string where "launchdLabel = ''org.signalforge.watch''"

definition quoted :: "string \<Rightarrow> string" where
  "quoted s = [CHR 34] @ s @ [CHR 34]"

text \<open>\<open>env\<close> in the order its map is ranged over.\<close>

definition renderLaunchdPlist :: "string \<Rightarrow> string list \<Rightarrow> (string \<times> string) list \<Rightarrow> string \<Rightarrow> string" where
  "renderLaunchdPlist execPath args env logDir =
     (let argsXML = concat (map (\<lambda>a. ''      <string>'' @ escapeXML a @ ''</string>'' @ [nl]) (execPath # args));
          envXML = concat (map (\<lambda>(k, v). ''      <key>'' @ escapeXML k @ ''</key>'' @ [nl] @ ''      <string>'' @ escapeXML v @ ''</string>'' @ [nl]) env);
          logPath = Join logDir ''watch.log'' in
      text_lines [''<?xml version='' @ quoted ''1.0'' @ '' encoding='' @ quoted ''UTF-8'' @ ''?>'',
        ''<!DOCTYPE plist PUBLIC '' @ quoted ''-//Apple//DTD PLIST 1.0//EN'' @ '' '' @ quoted ''http://www.apple.com/DTDs/PropertyList-1.0.dtd'' @ ''>'',
        ''<plist version='' @ quoted ''1.0'' @ ''>'', ''<dict>'', ''  <key>Label</key>'', ''  <string>'' @ launchdLabel @ ''</string>'',
        ''  <key>ProgramArguments</key>'', ''  <array>''] @ argsXML @
      text_lines [''  </array>'', ''  <key>EnvironmentVariables</key>'', ''  <dict>''] @ envXML @
      text_lines [''  </dict>'', ''  <key>RunAtLoad</key>'', ''  <true/>'', ''  <key>KeepAlive</key>'', ''  <true/>'',
        ''  <key>StandardOutPath</key>'', ''  <string>'' @ logPath @ ''</string>'', ''  <key>StandardErrorPath</key>'',
        ''  <string>'' @ logPath @ ''</string>'', ''</dict>'', ''</plist>''])"

section \<open>Watch processes\<close>

record WatchProcess =
  wp_PID :: int
  wp_Command :: string

definition parsePgrepLine :: "string \<Rightarrow> WatchProcess option" where
  "parsePgrepLine line =
     (case Fields line of
        f # g # fs \<Rightarrow> (case ParseInt f of (pid, ok) \<Rightarrow>
          if ok then Some \<lparr>wp_PID = pid, wp_Command = TrimSpace (join_blank (g # fs))\<rparr> else None)
      | _ \<Rightarrow> None)"

definition isWatchCommand :: "string \<Rightarrow> bool" where
  "isWatchCommand command \<longleftrightarrow>
     (let lower = ToLower command in
      contains_text lower ''rec'' \<and>
      (contains_text lower ''recorder watch'' \<or> contains_text lower ''rec watch'' \<or> contains_text lower ''rec w ''))"

definition watch_line :: "int \<Rightarrow> string \<Rightarrow> WatchProcess option" where
  "watch_line self line =
     (let l = TrimSpace line in
      if l = [] then None
      else (case parsePgrepLine l of
          None \<Rightarrow> None
        | Some p \<Rightarrow> if \<not> isWatchCommand (wp_Command p) \<or> wp_PID p = self then None else Some p))"

definition add_process :: "int \<Rightarrow> WatchProcess list \<Rightarrow> string \<Rightarrow> WatchProcess list" where
  "add_process self ms line =
     (case watch_line self line of None \<Rightarrow> ms | Some p \<Rightarrow> if wp_PID p \<in> wp_PID ` set ms then ms else ms @ [p])"

fun find_patterns :: "int \<Rightarrow> (string \<Rightarrow> string + string) \<Rightarrow> string list \<Rightarrow> WatchProcess list \<Rightarrow> string + WatchProcess list" where
  "find_patterns self pgrep [] ms = Inr ms"
| "find_patterns self pgrep (pattern # ps) ms =
     (case pgrep pattern of
        Inl e \<Rightarrow> Inl e
      | Inr out \<Rightarrow> find_patterns self pgrep ps (foldl (add_process self) ms (split_when ((=) nl) (TrimSpace out))))"

text \<open>\<open>pgrep\<close> is what the command prints for a pattern, nothing when it finds none, or its error.\<close>

definition FindWatchProcesses :: "int \<Rightarrow> (string \<Rightarrow> string + string) \<Rightarrow> string + WatchProcess list" where
  "FindWatchProcesses self pgrep = find_patterns self pgrep [''recorder watch'', ''rec watch'', ''rec w ''] []"

section \<open>The lock\<close>

record WatchLock =
  wl_PID :: int
  wl_Command :: string
  wl_StartedAt :: int

datatype lock_file = No_lock | Garbled | Held WatchLock

text \<open>Which of the file's accesses fails, and what a failed write leaves.\<close>

record lock_env =
  lk_read :: "string option"
  lk_remove :: "string option"
  lk_write :: "(string \<times> lock_file) option"

definition ReadWatchLock :: "lock_env \<Rightarrow> lock_file \<Rightarrow> string + WatchLock option" where
  "ReadWatchLock env f =
     (case lk_read env of
        Some e \<Rightarrow> Inl e
      | None \<Rightarrow> (case f of No_lock \<Rightarrow> Inr None | Garbled \<Rightarrow> Inl ''invalid JSON'' | Held l \<Rightarrow> Inr (Some l)))"

definition removeWatchLock :: "lock_env \<Rightarrow> lock_file \<Rightarrow> string option \<times> lock_file" where
  "removeWatchLock env f = (case lk_remove env of Some e \<Rightarrow> (Some e, f) | None \<Rightarrow> (None, No_lock))"

definition processAlive :: "(int \<Rightarrow> bool) \<Rightarrow> int \<Rightarrow> bool" where
  "processAlive signalled pid \<longleftrightarrow> \<not> pid \<le> 0 \<and> signalled pid"

definition lock_held :: "lock_env \<Rightarrow> (int \<Rightarrow> bool) \<Rightarrow> lock_file \<Rightarrow> WatchLock option" where
  "lock_held env signalled f =
     (case ReadWatchLock env f of
        Inr (Some l) \<Rightarrow> if processAlive signalled (wl_PID l) then Some l else None
      | _ \<Rightarrow> None)"

definition lock_take :: "lock_env \<Rightarrow> WatchLock \<Rightarrow> lock_file \<Rightarrow> string option \<times> lock_file" where
  "lock_take env l f =
     (case lk_write env of Some (e, left) \<Rightarrow> (Some e, left) | None \<Rightarrow> (None, Held l))"

text \<open>An error of \<open>FindWatchProcesses\<close> is dropped, and with it what it found.\<close>

definition existing_watchers :: "int \<Rightarrow> (string \<Rightarrow> string + string) \<Rightarrow> WatchProcess list" where
  "existing_watchers self pgrep = (case FindWatchProcesses self pgrep of Inl _ \<Rightarrow> [] | Inr ps \<Rightarrow> ps)"

definition AcquireWatchLock ::
  "lock_env \<Rightarrow> int \<Rightarrow> (string \<Rightarrow> string + string) \<Rightarrow> (int \<Rightarrow> bool) \<Rightarrow> string \<Rightarrow> int \<Rightarrow> lock_file \<Rightarrow> string option \<times> lock_file" where
  "AcquireWatchLock env self pgrep signalled command now f =
     (if existing_watchers self pgrep \<noteq> [] then (Some ''watch already running'', f)
      else (case lock_held env signalled f of
          Some l \<Rightarrow> (Some (''watch lock held by pid '' @ format_int (wl_PID l) @ '' (run: sf rec stop)''), f)
        | None \<Rightarrow> lock_take env \<lparr>wl_PID = self, wl_Command = command, wl_StartedAt = now\<rparr> (snd (removeWatchLock env f))))"

definition ReleaseWatchLock :: "lock_env \<Rightarrow> int \<Rightarrow> lock_file \<Rightarrow> string option \<times> lock_file" where
  "ReleaseWatchLock env self f =
     (case ReadWatchLock env f of
        Inl e \<Rightarrow> (Some e, f)
      | Inr (Some l) \<Rightarrow> if wl_PID l \<noteq> self then (None, f) else removeWatchLock env f
      | Inr None \<Rightarrow> removeWatchLock env f)"

text \<open>Which processes were stopped, the first error, and whether the signals got through to the end.\<close>

fun stop_each :: "(int \<Rightarrow> string option) \<Rightarrow> WatchProcess list \<Rightarrow> WatchProcess list \<times> string option" where
  "stop_each terminate [] = ([], None)"
| "stop_each terminate (p # ps) =
     (case terminate (wp_PID p) of
        Some e \<Rightarrow> ([], Some (''stop pid '' @ format_int (wp_PID p) @ '': '' @ e))
      | None \<Rightarrow> (case stop_each terminate ps of (qs, e) \<Rightarrow> (p # qs, e)))"

definition StopWatchProcesses ::
  "lock_env \<Rightarrow> int \<Rightarrow> (string \<Rightarrow> string + string) \<Rightarrow> (int \<Rightarrow> string option) \<Rightarrow> lock_file \<Rightarrow> (string + WatchProcess list) \<times> WatchProcess list \<times> lock_file" where
  "StopWatchProcesses env self pgrep terminate f =
     (case FindWatchProcesses self pgrep of
        Inl e \<Rightarrow> (Inl e, [], f)
      | Inr ps \<Rightarrow> (case stop_each terminate ps of
          (stopped, Some e) \<Rightarrow> (Inl e, stopped, f)
        | (stopped, None) \<Rightarrow> (Inr stopped, stopped, snd (removeWatchLock env f))))"

record Status =
  st_Installed :: bool
  st_Running :: bool
  st_Detail :: string
  st_UnitPath :: string
  st_WatchProcesses :: "WatchProcess list"
  st_Lock :: "WatchLock option"

text \<open>\<open>statusPlatform\<close> of systemd: \<open>active\<close> is what \<open>systemctl is-active\<close> prints, and whether it succeeded.\<close>

definition statusPlatform :: "string + (string \<times> bool) \<Rightarrow> string \<times> bool \<Rightarrow> string + Status" where
  "statusPlatform unit active =
     (let none = \<lparr>st_Installed = False, st_Running = False, st_Detail = ''not installed'', st_UnitPath = [], st_WatchProcesses = [], st_Lock = None\<rparr> in
      case unit of
        Inl e \<Rightarrow> Inl e
      | Inr (path, there) \<Rightarrow>
          if \<not> there then Inr none
          else (let st = none\<lparr>st_Installed := True, st_UnitPath := path\<rparr>; out = TrimSpace (fst active) in
            if snd active \<and> out = ''active'' then Inr (st\<lparr>st_Running := True, st_Detail := ''active''\<rparr>)
            else Inr (st\<lparr>st_Detail := (if out = [] then ''installed but not active'' else out)\<rparr>)))"

definition CurrentStatus ::
  "lock_env \<Rightarrow> int \<Rightarrow> (string \<Rightarrow> string + string) \<Rightarrow> (int \<Rightarrow> bool) \<Rightarrow> string + Status \<Rightarrow> lock_file \<Rightarrow> (string + Status) \<times> lock_file" where
  "CurrentStatus env self pgrep signalled platform f =
     (case platform of
        Inl e \<Rightarrow> (Inl e, f)
      | Inr st \<Rightarrow> (case FindWatchProcesses self pgrep of
          Inl e \<Rightarrow> (Inl e, f)
        | Inr ps \<Rightarrow> (case ReadWatchLock env f of
            Inl e \<Rightarrow> (Inl e, f)
          | Inr l \<Rightarrow>
              (let dead = (case l of None \<Rightarrow> False | Some w \<Rightarrow> \<not> processAlive signalled (wl_PID w)) in
               (Inr (st\<lparr>st_WatchProcesses := ps, st_Lock := (if dead then None else l),
                  st_Detail := (if ps \<noteq> [] \<and> \<not> st_Running st
                    then format_int (int (length ps)) @ '' orphan watch process(es); launchd service not loaded'' else st_Detail st)\<rparr>),
                if dead then snd (removeWatchLock env f) else f)))))"

section \<open>The environment file is read as it was written\<close>

lemma split_when_lines:
  "list_all (\<lambda>l. nl \<notin> set l) ls \<Longrightarrow> split_when ((=) nl) (concat (map (\<lambda>l. l @ [nl]) ls)) = ls @ [[]]"
proof (induction ls)
  case (Cons l ls)
  have "nl \<notin> set l \<Longrightarrow> split_when ((=) nl) (l @ nl # r) = l # split_when ((=) nl) r" for r
    by (induction l) auto
  with Cons show ?case by simp
qed simp

lemma rtrim_append: "k \<noteq> [] \<Longrightarrow> \<not> is_space (last k) \<Longrightarrow> rev (dropWhile is_space (rev (k @ x))) = k @ rev (dropWhile is_space (rev x))"
  by (cases k rule: rev_cases) (auto simp: dropWhile_append3 dropWhile_append dropWhile_eq_Nil_conv)

lemma TrimSpace_rtrim: "TrimSpace (rev (dropWhile is_space (rev x))) = TrimSpace x"
proof (induction x)
  case (Cons c cs)
  show ?case
  proof (cases "is_space c")
    case True
    have "rev (dropWhile is_space (rev (c # cs))) = (if list_all is_space cs then [] else c # rev (dropWhile is_space (rev cs)))"
      using True by (auto simp: dropWhile_append dropWhile_eq_Nil_conv list_all_iff)
    moreover have "TrimSpace (c # cs) = TrimSpace cs" "TrimSpace (c # rev (dropWhile is_space (rev cs))) = TrimSpace (rev (dropWhile is_space (rev cs)))"
      using True by (simp_all add: TrimSpace_def)
    moreover have "TrimSpace cs = []" if "list_all is_space cs"
      using that by (auto simp: TrimSpace_def list_all_iff dest: set_dropWhileD)
    ultimately show ?thesis using Cons by auto
  next
    case False
    have "TrimSpace (c # x) = c # rev (dropWhile is_space (rev x))" for x
      using rtrim_append [of "[c]" x] False by (simp add: TrimSpace_def)
    moreover have "rev (dropWhile is_space (rev (c # cs))) = c # rev (dropWhile is_space (rev cs))"
      using rtrim_append [of "[c]" cs] False by simp
    ultimately show ?thesis by simp
  qed
qed simp

lemma env_line_assignment:
  assumes "k \<noteq> []" "list_all (\<lambda>c. \<not> is_space c \<and> c \<noteq> CHR ''='' \<and> c \<noteq> CHR ''#'') k"
  shows "env_line (k @ ''='' @ v) = Some (k, TrimSpace v)"
proof -
  let ?v = "rev (dropWhile is_space (rev v))"
  have "\<not> is_space (CHR ''='')" by code_simp
  then have "rev (dropWhile is_space (rev ((k @ ''='') @ v))) = (k @ ''='') @ ?v" by (intro rtrim_append) simp_all
  moreover obtain c cs where c: "k = c # cs" "\<not> is_space c" "c \<noteq> CHR ''#''" using assms by (cases k) auto
  ultimately have trim: "TrimSpace (k @ ''='' @ v) = k @ ''='' @ ?v" by (simp add: TrimSpace_def)
  have "takeWhile (\<lambda>x. x \<noteq> CHR ''='') (k @ ''='' @ ?v) = k" "dropWhile (\<lambda>x. x \<noteq> CHR ''='') (k @ ''='' @ ?v) = ''='' @ ?v"
    using assms(2) by (induction k) auto
  then have "Cut (CHR ''='') (k @ ''='' @ ?v) = Some (k, ?v)" by (simp add: Cut_def)
  moreover have "TrimSpace k = k" using assms(2) by (intro TrimSpace_no_space) (auto simp: list_all_iff)
  ultimately show ?thesis unfolding env_line_def trim Let_def using c(1,3) TrimSpace_rtrim [of v] by simp
qed

text \<open>
  Property C39. The environment file of a profile gives the service the hub and the source key that the profile has, without the blanks around
  them: no value is cut short or read under another name, as long as it has no line break.
\<close>

theorem env_file_roundtrip:
  assumes "nl \<notin> set (pr_HubURL p)" "nl \<notin> set (pr_SourceKey p)"
  shows "ParseEnvFile (RenderEnv p) = (''SIGNALFORGE_HUB_URL'', TrimSpace (pr_HubURL p)) #
    (if TrimSpace (pr_SourceKey p) = [] then [] else [(''SIGNALFORGE_SOURCE_KEY'', TrimSpace (pr_SourceKey p))])"
proof -
  let ?key = "if TrimSpace (pr_SourceKey p) = [] then [] else [''SIGNALFORGE_SOURCE_KEY='' @ pr_SourceKey p]"
  let ?lines = "[''# Generated by: sf onboard'', ''SIGNALFORGE_HUB_URL='' @ pr_HubURL p] @ ?key"
  have "list_all (\<lambda>l. nl \<notin> set l) ?lines" using assms by (simp add: nl_def)
  moreover have "RenderEnv p = concat (map (\<lambda>l. l @ [nl]) ?lines)" by (simp add: RenderEnv_def Let_def nl_def)
  ultimately have "split_when ((=) nl) (RenderEnv p) = ?lines @ [[]]" by (simp only: split_when_lines)
  moreover have "env_line ''# Generated by: sf onboard'' = None" "env_line [] = None" by code_simp+
  moreover have "env_line (''SIGNALFORGE_HUB_URL='' @ v) = Some (''SIGNALFORGE_HUB_URL'', TrimSpace v)" for v
    using env_line_assignment [of "''SIGNALFORGE_HUB_URL''" v] by (simp add: is_space_def)
  moreover have "env_line (''SIGNALFORGE_SOURCE_KEY='' @ v) = Some (''SIGNALFORGE_SOURCE_KEY'', TrimSpace v)" for v
    using env_line_assignment [of "''SIGNALFORGE_SOURCE_KEY''" v] by (simp add: is_space_def)
  ultimately show ?thesis by (simp add: ParseEnvFile_def add_line_def)
qed

theorem env_file_roundtrip_witness:
  "ParseEnvFile (RenderEnv (default_profile\<lparr>pr_HubURL := ''http://hub '', pr_SourceKey := ''a=b #1''\<rparr>)) =
    [(''SIGNALFORGE_HUB_URL'', ''http://hub''), (''SIGNALFORGE_SOURCE_KEY'', ''a=b #1'')]"
proof -
  let ?p = "default_profile\<lparr>pr_HubURL := ''http://hub '', pr_SourceKey := ''a=b #1''\<rparr>"
  have "nl \<notin> set (pr_HubURL ?p)" "nl \<notin> set (pr_SourceKey ?p)" by (simp_all add: nl_def)
  note read = env_file_roundtrip [OF this]
  have "TrimSpace ''http://hub '' = ''http://hub''" "TrimSpace ''a=b #1'' = ''a=b #1''" by code_simp+
  with read show ?thesis by simp
qed

section \<open>Arguments in a unit and in a property list\<close>

text \<open>A systemd unit separates arguments by blanks and quotes none: it cannot tell a folder with a blank in its name from two arguments.\<close>

lemma join_blank_Cons: "ss \<noteq> [] \<Longrightarrow> join_blank (s # ss) = s @ '' '' @ join_blank ss"
  by (cases ss) simp_all

lemma join_blank_glue: "join_blank (as @ (x @ '' '' @ y) # bs) = join_blank (as @ x # y # bs)"
proof (induction as)
  case Nil
  show ?case by (cases bs) simp_all
next
  case (Cons a as)
  then show ?case by (simp add: join_blank_Cons)
qed

theorem unit_splits_arguments:
  "renderSystemdUnit execPath (as @ [x @ '' '' @ y] @ bs) envFile logDir = renderSystemdUnit execPath (as @ [x, y] @ bs) envFile logDir"
  using join_blank_glue [of "execPath # as" x y bs] by (simp add: renderSystemdUnit_def)

text \<open>What the XML reader makes of the four entities.\<close>

definition xml_char :: "char \<Rightarrow> string" where
  "xml_char c = (if c = CHR ''&'' then ''&amp;'' else if c = CHR ''<'' then ''&lt;'' else if c = CHR ''>'' then ''&gt;''
     else if c = CHR 34 then ''&quot;'' else [c])"

function xml_text :: "string \<Rightarrow> string" where
  "xml_text [] = []"
| "xml_text (c # cs) =
     (if HasPrefix (c # cs) ''&amp;'' then CHR ''&'' # xml_text (drop 4 cs)
      else if HasPrefix (c # cs) ''&lt;'' then CHR ''<'' # xml_text (drop 3 cs)
      else if HasPrefix (c # cs) ''&gt;'' then CHR ''>'' # xml_text (drop 3 cs)
      else if HasPrefix (c # cs) ''&quot;'' then CHR 34 # xml_text (drop 5 cs)
      else c # xml_text cs)"
  by pat_completeness auto
termination by (relation "measure length") auto

text \<open>The four replacements in a row come to one pass: none of them touches what an earlier one has put in.\<close>

lemma escapeXML_one_pass: "escapeXML s = concat (map xml_char s)"
  by (induction s) (simp_all add: escapeXML_def ReplaceAll_def replace_chars_def xml_char_def Let_def)

text \<open>
  An argument of the launchd agent is read back as it was, and cannot end its element: the escaped text has no angle bracket.
\<close>

theorem plist_argument_roundtrip:
  "xml_text (escapeXML s) = s \<and> CHR ''<'' \<notin> set (escapeXML s) \<and> CHR ''>'' \<notin> set (escapeXML s)"
proof -
  have "xml_text (xml_char c @ r) = c # xml_text r" for c r
    by (simp add: xml_char_def prefix_def)
  then have "xml_text (concat (map xml_char s)) = s" by (induction s) simp_all
  moreover have "CHR ''<'' \<notin> set (xml_char c) \<and> CHR ''>'' \<notin> set (xml_char c)" for c by (simp add: xml_char_def)
  ultimately show ?thesis by (simp add: escapeXML_one_pass)
qed

section \<open>One watcher at a time\<close>

text \<open>
  Watchers and the commands around them, interleaved at every step of \<open>AcquireWatchLock\<close>: look for other processes, look at the
  lock, take it. \<open>seen\<close> says which command lines \<open>pgrep\<close> prints so that \<open>isWatchCommand\<close> knows them: those it
  knows when \<open>pgrep\<close> prints whole command lines, none when it prints only names, as \<open>pgrep -lf\<close> of procps does.
\<close>

datatype phase = Starting | Scanned | Unlocked | Watching

record watcher =
  wt_PID :: int
  wt_Command :: string
  wt_Phase :: phase

type_synonym world = "watcher list \<times> lock_file"

definition others_seen :: "(string \<Rightarrow> bool) \<Rightarrow> int \<Rightarrow> watcher list \<Rightarrow> bool" where
  "others_seen seen self ws \<longleftrightarrow> list_ex (\<lambda>w. wt_PID w \<noteq> self \<and> seen (wt_Command w)) ws"

definition working_lock :: lock_env where
  "working_lock = \<lparr>lk_read = None, lk_remove = None, lk_write = None\<rparr>"

inductive watch_step :: "(string \<Rightarrow> bool) \<Rightarrow> world \<Rightarrow> world \<Rightarrow> bool" for seen where
  start: "0 < i \<Longrightarrow> i \<notin> wt_PID ` set ws \<Longrightarrow>
    watch_step seen (ws, f) (\<lparr>wt_PID = i, wt_Command = c, wt_Phase = Starting\<rparr> # ws, f)"
| scan: "wt_Phase w = Starting \<Longrightarrow> \<not> others_seen seen (wt_PID w) (as @ w # bs) \<Longrightarrow>
    watch_step seen (as @ w # bs, f) (as @ w\<lparr>wt_Phase := Scanned\<rparr> # bs, f)"
| look: "wt_Phase w = Scanned \<Longrightarrow> lock_held working_lock (\<lambda>i. i \<in> wt_PID ` set (as @ w # bs)) f = None \<Longrightarrow>
    watch_step seen (as @ w # bs, f) (as @ w\<lparr>wt_Phase := Unlocked\<rparr> # bs, snd (removeWatchLock working_lock f))"
| take: "wt_Phase w = Unlocked \<Longrightarrow>
    watch_step seen (as @ w # bs, f) (as @ w\<lparr>wt_Phase := Watching\<rparr> # bs,
      snd (lock_take working_lock \<lparr>wl_PID = wt_PID w, wl_Command = wt_Command w, wl_StartedAt = now\<rparr> f))"
| leave: "watch_step seen (as @ w # bs, f) (as @ bs, snd (ReleaseWatchLock working_lock (wt_PID w) f))"
| killed: "watch_step seen (as @ w # bs, f) (as @ bs, f)"
| stop: "watch_step seen (ws, f) (ws, snd (removeWatchLock working_lock f))"

inductive watch_reach :: "(string \<Rightarrow> bool) \<Rightarrow> world \<Rightarrow> bool" for seen where
  none: "watch_reach seen ([], f)"
| step: "watch_reach seen s \<Longrightarrow> watch_step seen s t \<Longrightarrow> watch_reach seen t"

definition past_scan :: "(string \<Rightarrow> bool) \<Rightarrow> watcher \<Rightarrow> bool" where
  "past_scan seen w \<longleftrightarrow> seen (wt_Command w) \<and> wt_Phase w \<noteq> Starting"

definition one_past_scan :: "(string \<Rightarrow> bool) \<Rightarrow> watcher list \<Rightarrow> bool" where
  "one_past_scan seen ws \<longleftrightarrow> distinct (map wt_PID ws) \<and> (\<forall>v w. v \<in> set ws \<longrightarrow> w \<in> set ws \<longrightarrow> past_scan seen v \<longrightarrow> past_scan seen w \<longrightarrow> v = w)"

lemma one_past_scan_remove: "one_past_scan seen (as @ w # bs) \<Longrightarrow> one_past_scan seen (as @ bs)"
  by (auto simp: one_past_scan_def)

lemma one_past_scan_update:
  assumes "one_past_scan seen (as @ w # bs)" "wt_PID v = wt_PID w"
    "past_scan seen v \<Longrightarrow> past_scan seen w \<or> \<not> list_ex (past_scan seen) (as @ bs)"
  shows "one_past_scan seen (as @ v # bs)"
proof -
  have "u = v" if "past_scan seen v" "past_scan seen u" "u \<in> set (as @ bs)" for u
  proof -
    from assms(3) [OF that(1)] that(2,3) have "past_scan seen w" by (auto simp: list_ex_iff)
    with assms(1) that(2,3) have "u = w" by (auto simp: one_past_scan_def)
    with that(3) assms(1) show ?thesis by (auto simp: one_past_scan_def)
  qed
  with assms(1,2) show ?thesis by (auto simp: one_past_scan_def)
qed

lemma watch_step_one: "watch_step seen s t \<Longrightarrow> one_past_scan seen (fst s) \<Longrightarrow> one_past_scan seen (fst t)"
proof (induction rule: watch_step.induct)
  case (start i ws f c)
  then show ?case by (auto simp: one_past_scan_def past_scan_def)
next
  case (scan w as bs f)
  then have "wt_PID u \<noteq> wt_PID w" if "u \<in> set (as @ bs)" for u using that by (auto simp: one_past_scan_def rev_image_eqI)
  with scan(2) have "\<not> list_ex (past_scan seen) (as @ bs)" by (auto simp: others_seen_def past_scan_def list_ex_iff)
  with scan show ?case by (auto intro: one_past_scan_update)
next
  case (look w as bs f)
  then show ?case by (auto intro!: one_past_scan_update [of seen as w bs] simp: past_scan_def)
next
  case (take w as bs f now)
  then show ?case by (auto intro!: one_past_scan_update [of seen as w bs] simp: past_scan_def)
qed (auto intro: one_past_scan_remove)

lemma watch_reach_one: "watch_reach seen s \<Longrightarrow> one_past_scan seen (fst s)"
proof (induction rule: watch_reach.induct)
  case (none f)
  show ?case by (simp add: one_past_scan_def)
next
  case (step s t)
  from watch_step_one [OF step.hyps(2) step.IH] show ?case .
qed

text \<open>
  Watchers that the process list shows exclude each other, whatever happens to the lock file and however starts, exits, kills and
  stops interleave.
\<close>

theorem one_seen_watcher:
  assumes "watch_reach seen (ws, f)" "v \<in> set ws" "w \<in> set ws" "wt_Phase v = Watching" "wt_Phase w = Watching"
    "seen (wt_Command v)" "seen (wt_Command w)"
  shows "v = w"
proof -
  have "past_scan seen v" "past_scan seen w" using assms(4-7) by (auto simp: past_scan_def)
  then show ?thesis using watch_reach_one [OF assms(1)] assms(2,3) by (simp add: one_past_scan_def)
qed

text \<open>
  The lock does not do so by itself: a watcher started by its alias is not in the list, \<open>sf rec stop\<close> does not stop it but
  removes its lock, and the next watcher starts beside it.
\<close>

theorem alias_watches_beside:
  "\<exists>v w f. watch_reach isWatchCommand ([w, v], f) \<and> v \<noteq> w \<and> wt_Phase v = Watching \<and> wt_Phase w = Watching \<and>
    wt_Command v = ''sf r watch'' \<and> wt_Command w = ''sf rec watch''"
proof -
  define v where "v p = \<lparr>wt_PID = 1, wt_Command = ''sf r watch'', wt_Phase = p\<rparr>" for p
  define w where "w p = \<lparr>wt_PID = 2, wt_Command = ''sf rec watch'', wt_Phase = p\<rparr>" for p
  define fv where "fv = Held \<lparr>wl_PID = 1, wl_Command = ''sf r watch'', wl_StartedAt = 0\<rparr>"
  define fw where "fw = Held \<lparr>wl_PID = 2, wl_Command = ''sf rec watch'', wl_StartedAt = 0\<rparr>"
  have unseen: "\<not> isWatchCommand ''sf r watch''" by code_simp
  have gone: "snd (removeWatchLock working_lock f) = No_lock" for f by (simp add: removeWatchLock_def working_lock_def)
  have free: "lock_held working_lock P No_lock = None" for P by (simp add: lock_held_def ReadWatchLock_def working_lock_def)
  note reach = watch_reach.step
  let ?s = "watch_step isWatchCommand"
  have 1: "?s ([], No_lock) ([v Starting], No_lock)" unfolding v_def by (rule watch_step.start) simp_all
  have 2: "?s ([v Starting], No_lock) ([v Scanned], No_lock)"
    using watch_step.scan [of "v Starting" isWatchCommand "[]" "[]" No_lock] by (simp add: v_def others_seen_def)
  have 3: "?s ([v Scanned], No_lock) ([v Unlocked], No_lock)"
    using watch_step.look [of "v Scanned" "[]" "[]" No_lock isWatchCommand] by (simp add: v_def free gone)
  have 4: "?s ([v Unlocked], No_lock) ([v Watching], fv)"
    using watch_step.take [of "v Unlocked" isWatchCommand "[]" "[]" No_lock 0] by (simp add: v_def fv_def lock_take_def working_lock_def)
  have 5: "?s ([v Watching], fv) ([v Watching], No_lock)" using watch_step.stop [of isWatchCommand "[v Watching]" fv] by (simp add: gone)
  have 6: "?s ([v Watching], No_lock) ([w Starting, v Watching], No_lock)"
    unfolding w_def by (rule watch_step.start) (simp_all add: v_def)
  have 7: "?s ([w Starting, v Watching], No_lock) ([w Scanned, v Watching], No_lock)"
    using watch_step.scan [of "w Starting" isWatchCommand "[]" "[v Watching]" No_lock] unseen by (simp add: w_def v_def others_seen_def)
  have 8: "?s ([w Scanned, v Watching], No_lock) ([w Unlocked, v Watching], No_lock)"
    using watch_step.look [of "w Scanned" "[]" "[v Watching]" No_lock isWatchCommand] by (simp add: w_def free gone)
  have 9: "?s ([w Unlocked, v Watching], No_lock) ([w Watching, v Watching], fw)"
    using watch_step.take [of "w Unlocked" isWatchCommand "[]" "[v Watching]" No_lock 0] by (simp add: w_def fw_def lock_take_def working_lock_def)
  have "watch_reach isWatchCommand ([w Watching, v Watching], fw)"
    by (rule reach [OF reach [OF reach [OF reach [OF reach [OF reach [OF reach [OF reach [OF reach [OF watch_reach.none 1] 2] 3] 4] 5] 6] 7] 8] 9])
  then show ?thesis by (intro exI [of _ "v Watching"] exI [of _ "w Watching"] exI [of _ fw]) (simp add: v_def w_def)
qed

end
