(* ===== verification/Spec2Isabelle.thy ===== *)
theory Spec2Isabelle
  imports Accounts Sources Calls Conversations RadioSets Transcriptions Hubs Incidents AuthApi HubApi Wire Intake FederationApi
    IncidentApi IncidentPoller IncidentCleanup IncidentSafety LiveHub Audio CallApi Uploads PublicStream RadioApi QueueSpec
    TranscriptionApi CallArchive ArchiveSafety SourceApi Recorder RecorderQueue RecorderSafety RecorderConfig
    ServerConfig Operator WatchSafety Service
begin

text \<open>
  SignalForge Node: a Go server that records the calls of radio scanners and lets people listen, search and
  act on them. Each call comes from an ingestion source, belongs to a talkgroup and carries audio. People sign in
  by password or emailed link; sources are shared with users; radio sets are named lists of talkgroups with a push
  to talk group of their own; workers lease calls to transcribe them; hubs exchange calls as federated peers; and
  incidents tie talkgroups, radio sets, weather alerts and Discord rooms together. A recorder beside the radio
  (\<open>tools/p7-recorder-go\<close>) cuts what it hears into calls and uploads them.

  The program. All state that outlives a request is in one PostgreSQL database
  (\<open>server/internal/database\<close>); the handlers of \<open>server/internal/api\<close> check the caller, validate the request,
  run database operations and render the answer; background loops pull from peers, poll weather feeds and
  clean up. The theories follow that layering.

  Foundations. \<open>Prelude\<close> has Go strings and the standard library functions the code uses. \<open>Contracts\<close> has the
  contracts several components share, as locales: a token that can be redeemed once, a queue whose jobs are
  leased, a normaliser, a store whose operations keep an invariant; each is interpreted on the code's model in the
  theory of its provider. \<open>Schema\<close> is \<open>migrations.go\<close>: a record per row, the state \<open>db\<close> of table lists, its
  constraints. \<open>Writes\<close> has the insert, update and delete of each table with PostgreSQL's checks of keys and foreign
  keys and the ON DELETE actions, and the lemmas that every write keeps the constraints.

  Database operations, one definition per function of the same name, on the state \<open>db\<close>, answering
  \<open>db_error + 'a\<close> beside the new state. \<open>Accounts\<close>: auth.go, helpers.go, audit.go, password.go. \<open>Sources\<close>:
  sources.go. \<open>Calls\<close>: calls.go. \<open>Conversations\<close>: conversations.go. \<open>RadioSets\<close>: radio_sets.go, ptt.go,
  talkgroups.go. \<open>Transcriptions\<close>: transcriptions.go. \<open>Hubs\<close>: hub_identity.go. \<open>Incidents\<close>: incidents.go,
  incident_integrations.go, discord.go.

  The queue of transcription jobs has an abstract counterpart in \<open>QueueSpec\<close>: each call is unqueued, waiting, leased
  or finished; the operations of \<open>Transcriptions\<close> refine its steps, answers included.

  Handlers, on the same state or on a record around it, answering a \<open>reply\<close> (\<open>Reply\<close> with the body, \<open>Fail\<close> with
  status and message). \<open>AuthApi\<close>: sessions, sign-in, user administration. \<open>HubApi\<close>: the hub's identity, directory
  entry, invites and peers. \<open>Wire\<close>: what the handlers parse and print. \<open>Intake\<close>: what a call that arrives is
  queued for. \<open>LiveHub\<close>: the connected clients with their queues (hub.go) and the public streams with theirs
  (stream.go). \<open>Audio\<close>: types, names and lengths of clips and what is converted for whom (audio.go). \<open>CallApi\<close>: the
  call log, conversations, audio and the WebSocket with its replay (calls.go). \<open>Uploads\<close>: calls that recorders send
  (call_upload.go) and what they do to radio sets (talkgroups.go); its record \<open>node\<close> joins the database, the clients
  and the streams. \<open>PublicStream\<close>: what a share link gives (stream.go, stream_meta.go). \<open>RadioApi\<close>: radio sets, push to
  talk and talkgroups (radiosets.go, ptt.go, talkgroups.go). \<open>TranscriptionApi\<close>: the protocol of the workers
  (transcription.go). \<open>FederationApi\<close>: the feed for peers and the loop that pulls from them. \<open>IncidentApi\<close>: incidents,
  templates, integrations, Discord bots, the public page. \<open>IncidentPoller\<close>: weather alerts that become signals and
  incidents. \<open>IncidentCleanup\<close>: the purge of old incidents. \<open>IncidentSafety\<close>: what no sequence of incident
  requests can do. \<open>SourceApi\<close>: sources, upload keys and shares (sources.go, source_keys.go, source_shares.go).

  The archive. \<open>CallArchive\<close> is the sweep that moves old calls to files and a bucket (call_archive.go,
  call_archive_job.go, call_archive_s3.go, with their queries): batches in four phases (write, copy, delete, remove) on a
  record of database, local tree and bucket. \<open>ArchiveSafety\<close> has what a sweep keeps under any failure of a file operation
  or of \<open>s3cmd\<close>, and what two sweeps at once destroy.

  The recorder (main.go). \<open>Recorder\<close>: the pre-roll ring, the level of a block, the loop that cuts the capture into bursts
  (one step per block) and the WAV file. \<open>RecorderQueue\<close>: the queue directory, uploads, folder ingest and canary; a disk is a
  list of paths and entries, each system call may fail, the hub is an argument. \<open>RecorderSafety\<close>: no audio leaves the disk
  before the hub has it, first for any hub that keeps what it accepts (locale \<open>upload_target\<close>), then for the upload handler of
  \<open>Uploads\<close>, so that the two programs are one system. \<open>RecorderConfig\<close>: the settings and the check of the source key.

  The operator's tool (tools/signalforge-cli). \<open>Operator\<close>: the folder it watches, its uploads and moves, canary and beacon,
  the client of the hub, profile and settings, on the disk and the system calls of \<open>RecorderQueue\<close>. \<open>WatchSafety\<close>: no file
  of the folder is lost, for any \<open>upload_target\<close> and then for the server. \<open>Service\<close>: the background service, its environment
  file, unit and property list, and the lock between watchers, a step relation in which starts, exits and stops interleave.
  \<open>ServerConfig\<close>: the settings of the server (config.go), the update check (health.go) and the sign-in mail (mailjet.go).

  What the lemmas show. Each database theory proves the functional behaviour of its operations on every branch,
  that they keep the schema's constraints and what they leave alone. Over those stand the properties about
  sequences of operations (single use of links and invites, exclusive leases, owners that stay, the last
  administrator), by induction over the list of operations through the locales; the composition of the pull loop
  with the growing feed of a peer running the same code (complete, in order, once, for a hub that has its cap of that
  peer's calls; below it the backfill repeats itself); the termination of the loops; and equivalences with simple specifications (paging, substring search, grouping into conversations, the ring as the last
  blocks); and what failures of files, copies and networks cannot lose.

  Choices of the model. Strings are byte strings; case folding and collation are those of bytes, so for text beyond
  ASCII the model sees what \<open>C\<close> collation would do. Times are integers (seconds or milliseconds as the column has
  them) and each operation reads the clock once, at the time that is its argument. Zero stands for a NULL time, as
  the code's \<open>COALESCE\<close> does. Floats are rationals. Rows without ORDER BY come in insertion order. New ids, tokens
  and keys, the answers of bcrypt, of the mail service, of remote hubs and of weather feeds are arguments. A
  statement does not fail for reasons outside the schema (connection, disk); sequences may not have gaps where
  PostgreSQL leaves them after a failed insert. JSONB columns hold the text or the decoded value. Requests are
  atomic, except where a property speaks of interleaved operations.

  Bounds. The backfill of a peer may run forever, so it is a partial function and the properties say for which peers
  it returns. The batched deletions and the purge are recursive with the number of remaining rows as the measure.
  A round over the peers recurses over the list of peers, a sweep of the archive over its batches with the number of old
  calls as the measure. The recorder's search for a free file name may run forever and is a partial function too. No fuel is used.

  A channel is the list of what waits in it, a connection the list of what was written; one turn of a goroutine is one
  event, and properties about them hold for every list of events. A loop over a Go map is a function of each entry
  where the entries do not affect each other. The answers of ffmpeg, the table of file types and the offset of the local
  time zone are arguments. Decimal numbers are parsed exactly, not rounded to 64 bits; hexadecimal floats are not. So
  the recorder prints lengths of exact quotients, where its 64 bit floats may round a tie of half a millisecond the
  other way. A file whose close fails after every write succeeded counts as written, as the recorder counts it. The
  network between recorder and hub loses answers, not requests. Names cut in
  the middle of a UTF-8 character are stored, where PostgreSQL would refuse them.

  Not modelled: HTTP, HTML and TLS; ffmpeg and S3; goroutine scheduling and timers (each pass of
  a background loop is one operation); the upgrade of older databases; the routes, the health and version reports and the
  HTML of the mail; the sound device and the interactive setup of the recorder; flags, prompts, console and update check of
  the operator's tool and what it asks of systemctl and launchctl; the user interfaces.
\<close>

end
